(* ===== verification/Prelude.thy ===== *)
theory Prelude
  imports Main "HOL-Library.Char_ord" "HOL-Library.List_Lexorder" "HOL-Library.Product_Lexorder"
    "HOL-Library.Word"
begin

text \<open>
  What every component theory shares: the collections of proof hints, the ordered maps and sets the
  C++ containers are read as, and the interface (a locale) through which the components use them.

  A \<open>std::map\<close> is an association list sorted by its key, iterated in that order; a
  \<open>std::unordered_map\<close> is the same list, where no result of the model depends on the order it is
  iterated in unless the definition says so.  A \<open>std::set\<close> is a strictly sorted list.
\<close>

named_theorems om_simps \<open>lookup equations of ordered maps\<close>
named_theorems om_intros \<open>preservation of the representation invariant of ordered maps\<close>

type_synonym ('k, 'v) omap = "('k \<times> 'v) list"

section \<open>Ordered maps\<close>

abbreviation om_get :: "('k, 'v) omap \<Rightarrow> 'k \<Rightarrow> 'v option" where
  "om_get m k \<equiv> map_of m k"

fun om_put :: "'k::linorder \<Rightarrow> 'v \<Rightarrow> ('k, 'v) omap \<Rightarrow> ('k, 'v) omap" where
  "om_put k v [] = [(k, v)]"
| "om_put k v ((k', v') # m) =
     (if k < k' then (k, v) # (k', v') # m
      else if k = k' then (k, v) # m
      else (k', v') # om_put k v m)"

definition om_del :: "'k \<Rightarrow> ('k, 'v) omap \<Rightarrow> ('k, 'v) omap" where
  "om_del k m = filter (\<lambda>e. fst e \<noteq> k) m"

definition om_has :: "('k, 'v) omap \<Rightarrow> 'k \<Rightarrow> bool" where
  "om_has m k = (case om_get m k of None \<Rightarrow> False | Some _ \<Rightarrow> True)"

definition om_emplace :: "'k::linorder \<Rightarrow> 'v \<Rightarrow> ('k, 'v) omap \<Rightarrow> ('k, 'v) omap" where
  "om_emplace k v m = (if om_has m k then m else om_put k v m)"

definition om_ok :: "('k::linorder, 'v) omap \<Rightarrow> bool" where
  "om_ok m = sorted_wrt (<) (map fst m)"

definition om_keep :: "('k \<Rightarrow> 'v \<Rightarrow> bool) \<Rightarrow> ('k, 'v) omap \<Rightarrow> ('k, 'v) omap" where
  "om_keep P m = filter (\<lambda>(k, v). P k v) m"

definition om_map :: "('k \<Rightarrow> 'v \<Rightarrow> 'w) \<Rightarrow> ('k, 'v) omap \<Rightarrow> ('k, 'w) omap" where
  "om_map f m = map (\<lambda>(k, v). (k, f k v)) m"

lemma om_get_put [simp, om_simps]: "om_get (om_put k v m) = (om_get m)(k \<mapsto> v)"
  by (rule ext, induction k v m rule: om_put.induct) auto

lemma om_get_del [simp, om_simps]: "om_get (om_del k m) = (om_get m)(k := None)"
  by (rule ext, induction m) (auto simp: om_del_def)

lemma om_has_iff [simp, om_simps]: "om_has m k \<longleftrightarrow> om_get m k \<noteq> None"
  by (simp add: om_has_def split: option.splits)

lemma om_get_emplace [simp, om_simps]:
  "om_get (om_emplace k v m) = (if om_get m k = None then (om_get m)(k \<mapsto> v) else om_get m)"
  by (rule ext) (auto simp: om_emplace_def)

lemma fst_set_put [simp]: "fst ` set (om_put k v m) = insert k (fst ` set m)"
  by (induction k v m rule: om_put.induct) auto

lemma om_ok_Nil [simp, om_intros]: "om_ok []"
  by (simp add: om_ok_def)

lemma om_ok_Cons: "om_ok ((k, v) # m) \<longleftrightarrow> (\<forall>k' \<in> fst ` set m. k < k') \<and> om_ok m"
  by (simp add: om_ok_def)

lemma om_ok_put [om_intros]: "om_ok m \<Longrightarrow> om_ok (om_put k v m)"
  by (induction k v m rule: om_put.induct) (auto simp: om_ok_Cons)

lemma om_ok_filter: "om_ok m \<Longrightarrow> om_ok (filter P m)"
  by (induction m) (auto simp: om_ok_Cons)

lemma om_ok_del [om_intros]: "om_ok m \<Longrightarrow> om_ok (om_del k m)"
  by (simp add: om_del_def om_ok_filter)

lemma om_ok_keep [om_intros]: "om_ok m \<Longrightarrow> om_ok (om_keep P m)"
  by (simp add: om_keep_def om_ok_filter)

lemma om_ok_emplace [om_intros]: "om_ok m \<Longrightarrow> om_ok (om_emplace k v m)"
  by (simp add: om_emplace_def om_ok_put)

lemma map_fst_om_map [simp]: "map fst (om_map f m) = map fst m"
  by (induction m) (auto simp: om_map_def)

lemma om_ok_map [om_intros]: "om_ok m \<Longrightarrow> om_ok (om_map f m)"
  by (simp add: om_ok_def)

lemma om_get_map [simp, om_simps]: "om_get (om_map f m) k = map_option (f k) (om_get m k)"
  by (induction m) (auto simp: om_map_def)

lemma om_ok_distinct: "om_ok m \<Longrightarrow> distinct (map fst m)"
  by (auto simp: om_ok_def strict_sorted_iff)

lemma om_get_in: "om_ok m \<Longrightarrow> (k, v) \<in> set m \<longleftrightarrow> om_get m k = Some v"
  by (simp add: om_ok_distinct)

lemma om_get_keep [om_simps]:
  "om_ok m \<Longrightarrow> om_get (om_keep P m) k = (case om_get m k of None \<Rightarrow> None | Some v \<Rightarrow> if P k v then Some v else None)"
proof (induction m)
  case (Cons e m)
  obtain k' v' where e: "e = (k', v')" by (cases e)
  have none: "om_get m k' = None"
    using Cons.prems by (auto simp: e om_ok_Cons map_of_eq_None_iff)
  have "om_ok m" using Cons.prems by (simp add: e om_ok_Cons)
  from Cons.IH[OF this] show ?case
    using none by (auto simp: e om_keep_def split: option.splits)
qed (simp add: om_keep_def)

lemma om_put_same: "om_ok m \<Longrightarrow> om_get m k = Some v \<Longrightarrow> om_put k v m = m"
proof (induction m)
  case (Cons e m)
  obtain k' v' where e: "e = (k', v')" by (cases e)
  show ?case
  proof (cases "k = k'")
    case True
    then show ?thesis using Cons.prems by (simp add: e)
  next
    case False
    then have g: "om_get m k = Some v" using Cons.prems by (simp add: e)
    then have "k \<in> fst ` set m" by (force dest: map_of_SomeD)
    then have "k' < k" using Cons.prems(1) by (auto simp: e om_ok_Cons)
    then show ?thesis using Cons.IH Cons.prems g False by (auto simp: e om_ok_Cons)
  qed
qed simp

lemma om_del_none [simp]: "om_get m k = None \<Longrightarrow> om_del k m = m"
  by (auto simp: om_del_def map_of_eq_None_iff intro!: filter_True)

section \<open>Sums over the values of a map\<close>

definition om_sum :: "('v \<Rightarrow> int) \<Rightarrow> ('k, 'v) omap \<Rightarrow> int" where
  "om_sum f m = (\<Sum>e\<leftarrow>m. f (snd e))"

definition val0 :: "('v \<Rightarrow> int) \<Rightarrow> 'v option \<Rightarrow> int" where
  "val0 f o' = (case o' of None \<Rightarrow> 0 | Some v \<Rightarrow> f v)"

lemma val0_simps [simp]: "val0 f None = 0" "val0 f (Some v) = f v"
  by (simp_all add: val0_def)

lemma om_sum_Nil [simp]: "om_sum f [] = 0"
  and om_sum_Cons [simp]: "om_sum f ((k, v) # m) = f v + om_sum f m"
  by (simp_all add: om_sum_def)

lemma om_get_lt_None: "om_ok ((k', v') # m) \<Longrightarrow> k < k' \<Longrightarrow> om_get m k = None"
  by (force simp: om_ok_Cons map_of_eq_None_iff)

lemma om_sum_put:
  "om_ok m \<Longrightarrow> om_sum f (om_put k v m) = om_sum f m - val0 f (om_get m k) + f v"
proof (induction k v m rule: om_put.induct)
  case (2 k v k' v' m)
  then show ?case
    using om_get_lt_None[of k' v' m k] by (auto simp: om_ok_Cons)
qed simp

lemma om_sum_del:
  "om_ok m \<Longrightarrow> om_sum f (om_del k m) = om_sum f m - val0 f (om_get m k)"
proof (induction m)
  case (Cons e m)
  obtain k' v' where e: "e = (k', v')" by (cases e)
  have "om_get m k' = None"
    using Cons.prems by (auto simp: e om_ok_Cons map_of_eq_None_iff)
  then have "om_del k' m = m" by simp
  then show ?case using Cons by (auto simp: e om_ok_Cons om_del_def)
qed (simp add: om_del_def)

lemma om_sum_nonneg: "(\<And>k v. (k, v) \<in> set m \<Longrightarrow> 0 \<le> f v) \<Longrightarrow> 0 \<le> om_sum f m"
proof (induction m)
  case (Cons e m)
  have "0 \<le> om_sum f m" by (rule Cons.IH) (use Cons.prems in auto)
  moreover have "0 \<le> f (snd e)" using Cons.prems[of "fst e" "snd e"] by simp
  ultimately show ?case by (simp add: om_sum_def)
qed simp

lemma om_sum_ge_member:
  "(\<And>k v. (k, v) \<in> set m \<Longrightarrow> 0 \<le> f v) \<Longrightarrow> (k, v) \<in> set m \<Longrightarrow> f v \<le> om_sum f m"
proof (induction m)
  case (Cons e m)
  obtain k' v' where e: "e = (k', v')" by (cases e)
  have nn: "0 \<le> om_sum f m" by (rule om_sum_nonneg) (use Cons.prems in auto)
  show ?case
  proof (cases "(k, v) = e")
    case True
    then show ?thesis using nn by (simp add: e)
  next
    case False
    then have "(k, v) \<in> set m" using Cons.prems(2) by auto
    then have "f v \<le> om_sum f m" by (rule Cons.IH[rotated]) (use Cons.prems in auto)
    moreover have "0 \<le> f v'" using Cons.prems(1)[of k' v'] by (simp add: e)
    ultimately show ?thesis by (simp add: e)
  qed
qed simp

section \<open>The lookup interface\<close>

text \<open>
  What a cache promises its clients: a lookup after an insertion, a removal, and a representation
  invariant every operation keeps.  The managers of the resource layer interpret it on their own
  add, remove and lookup operations.
\<close>

locale lookup_table =
  fixes look :: "'t \<Rightarrow> 'k \<Rightarrow> 'v option"
    and ins :: "'k \<Rightarrow> 'v \<Rightarrow> 't \<Rightarrow> 't"
    and del :: "'k \<Rightarrow> 't \<Rightarrow> 't"
    and ok :: "'t \<Rightarrow> bool"
  assumes look_ins: "ok t \<Longrightarrow> look (ins k v t) = (look t)(k \<mapsto> v)"
    and look_del: "ok t \<Longrightarrow> look (del k t) = (look t)(k := None)"
    and ok_ins: "ok t \<Longrightarrow> ok (ins k v t)"
    and ok_del: "ok t \<Longrightarrow> ok (del k t)"
begin

lemma ok_fold_ins: "ok t \<Longrightarrow> ok (fold (\<lambda>(k, v). ins k v) kvs t)"
  by (induction kvs arbitrary: t) (auto simp: ok_ins)

lemma ok_fold_del: "ok t \<Longrightarrow> ok (fold del ks t)"
  by (induction ks arbitrary: t) (auto simp: ok_del)

lemma look_fold_ins: "ok t \<Longrightarrow> look (fold (\<lambda>(k, v). ins k v) kvs t) = look t ++ map_of (rev kvs)"
proof (induction kvs arbitrary: t)
  case (Cons e kvs)
  obtain k v where e: "e = (k, v)" by (cases e)
  have "ok (ins k v t)" using Cons.prems by (rule ok_ins)
  from Cons.IH[OF this] show ?case
    by (rule_tac ext) (simp add: e look_ins[OF Cons.prems] map_add_def split: option.splits)
qed simp

lemma look_fold_del: "ok t \<Longrightarrow> look (fold del ks t) k = (if k \<in> set ks then None else look t k)"
proof (induction ks arbitrary: t)
  case (Cons k' ks)
  have "ok (del k' t)" using Cons.prems by (rule ok_del)
  from Cons.IH[OF this] show ?case
    by (auto simp: look_del[OF Cons.prems])
qed simp

lemma look_ins_del: "ok t \<Longrightarrow> look (ins k v (del k t)) = look (ins k v t)"
  by (simp add: look_ins look_del ok_del)

end

interpretation om: lookup_table om_get om_put om_del om_ok
  by unfold_locales (auto simp: om_intros)

section \<open>Ordered sets\<close>

fun os_ins :: "'a::linorder \<Rightarrow> 'a list \<Rightarrow> 'a list" where
  "os_ins x [] = [x]"
| "os_ins x (y # ys) = (if x < y then x # y # ys else if x = y then y # ys else y # os_ins x ys)"

definition os_del :: "'a \<Rightarrow> 'a list \<Rightarrow> 'a list" where
  "os_del x xs = filter (\<lambda>y. y \<noteq> x) xs"

definition os_ok :: "'a::linorder list \<Rightarrow> bool" where
  "os_ok xs = sorted_wrt (<) xs"

lemma set_os_ins [simp]: "set (os_ins x xs) = insert x (set xs)"
  by (induction x xs rule: os_ins.induct) auto

lemma set_os_del [simp]: "set (os_del x xs) = set xs - {x}"
  by (auto simp: os_del_def)

lemma os_ok_ins [om_intros]: "os_ok xs \<Longrightarrow> os_ok (os_ins x xs)"
  by (induction x xs rule: os_ins.induct) (auto simp: os_ok_def)

lemma os_ok_filter [om_intros]: "os_ok xs \<Longrightarrow> os_ok (filter P xs)"
  by (auto simp: os_ok_def sorted_wrt_filter)

lemma os_ok_del [om_intros]: "os_ok xs \<Longrightarrow> os_ok (os_del x xs)"
  by (simp add: os_del_def os_ok_filter)

lemma os_ok_Nil [simp, om_intros]: "os_ok []"
  by (simp add: os_ok_def)

lemma os_ok_distinct: "os_ok xs \<Longrightarrow> distinct xs"
  by (auto simp: os_ok_def strict_sorted_iff)

lemma length_os_ins: "length (os_ins x xs) \<le> Suc (length xs)"
  by (induction x xs rule: os_ins.induct) auto

section \<open>Searching lists\<close>

lemma find_Some_in: "find P xs = Some x \<Longrightarrow> x \<in> set xs \<and> P x"
  by (induction xs) (auto split: if_splits)

lemma find_Some_ex: "x \<in> set xs \<Longrightarrow> P x \<Longrightarrow> \<exists>y. find P xs = Some y"
  by (induction xs) auto

lemma find_unique:
  "x \<in> set xs \<Longrightarrow> P x \<Longrightarrow> (\<And>y. y \<in> set xs \<Longrightarrow> P y \<Longrightarrow> y = x) \<Longrightarrow> find P xs = Some x"
  using find_Some_ex[of x xs P] find_Some_in by (metis (no_types, lifting))

end
