(* ===== verification/Errno.thy ===== *)
theory Errno
  imports Prelude
begin

text \<open>
  The error codes of \<open>src/common/utils/include/distributed_hardware_errno.h\<close>.  The code returns them as
  \<open>int32_t\<close> values next to codes of the components it calls, so a code is an integer here, and every
  constant is a definition the simplifier unfolds.
\<close>

definition DH_FWK_SUCCESS :: int where [simp]: "DH_FWK_SUCCESS = 0"
definition ERR_DH_FWK_PARA_INVALID :: int where [simp]: "ERR_DH_FWK_PARA_INVALID = -10000"
definition ERR_DH_FWK_TYPE_NOT_EXIST :: int where [simp]: "ERR_DH_FWK_TYPE_NOT_EXIST = -10003"
definition ERR_DH_FWK_JSON_PARSE_FAILED :: int where [simp]: "ERR_DH_FWK_JSON_PARSE_FAILED = -10004"
definition ERR_DH_FWK_POINTER_IS_NULL :: int where [simp]: "ERR_DH_FWK_POINTER_IS_NULL = -10005"
definition ERR_DH_FWK_INVALID_OSTYPE :: int where [simp]: "ERR_DH_FWK_INVALID_OSTYPE = -10006"
definition ERR_DH_FWK_BAD_OPERATION :: int where [simp]: "ERR_DH_FWK_BAD_OPERATION = -10007"
definition ERR_DH_FWK_VERSION_DEVICE_ID_NOT_EXIST :: int where [simp]: "ERR_DH_FWK_VERSION_DEVICE_ID_NOT_EXIST = -10200"
definition ERR_DH_FWK_COMPONENT_ENABLE_FAILED :: int where [simp]: "ERR_DH_FWK_COMPONENT_ENABLE_FAILED = -10302"
definition ERR_DH_FWK_COMPONENT_DISABLE_FAILED :: int where [simp]: "ERR_DH_FWK_COMPONENT_DISABLE_FAILED = -10303"
definition ERR_DH_FWK_COMPONENT_ENABLE_TIMEOUT :: int where [simp]: "ERR_DH_FWK_COMPONENT_ENABLE_TIMEOUT = -10304"
definition ERR_DH_FWK_COMPONENT_DISABLE_TIMEOUT :: int where [simp]: "ERR_DH_FWK_COMPONENT_DISABLE_TIMEOUT = -10305"
definition ERR_DH_FWK_COMPONENT_REGISTER_FAILED :: int where [simp]: "ERR_DH_FWK_COMPONENT_REGISTER_FAILED = -10306"
definition ERR_DH_FWK_COMPONENT_CONFIG_FAILED :: int where [simp]: "ERR_DH_FWK_COMPONENT_CONFIG_FAILED = -10307"
definition ERR_DH_FWK_COMPONENT_UNREGISTER_FAILED :: int where [simp]: "ERR_DH_FWK_COMPONENT_UNREGISTER_FAILED = -10007"
definition ERR_DH_FWK_COMPONENT_GET_SINK_VERSION_FAILED :: int where [simp]: "ERR_DH_FWK_COMPONENT_GET_SINK_VERSION_FAILED = -10009"
definition ERR_DH_FWK_COMPONENT_DHTYPE_NOT_FOUND :: int where [simp]: "ERR_DH_FWK_COMPONENT_DHTYPE_NOT_FOUND = -10010"
definition ERR_DH_FWK_COMPONENT_MONITOR_NULL :: int where [simp]: "ERR_DH_FWK_COMPONENT_MONITOR_NULL = -10011"
definition ERR_DH_FWK_COMPONENT_TRANSPORT_OPT_FAILED :: int where [simp]: "ERR_DH_FWK_COMPONENT_TRANSPORT_OPT_FAILED = -10012"
definition ERR_DH_FWK_COMPONENT_GET_ENABLE_PARAM_FAILED :: int where [simp]: "ERR_DH_FWK_COMPONENT_GET_ENABLE_PARAM_FAILED = -10013"
definition ERR_DH_FWK_COMPONENT_NO_NEED_ENABLE :: int where [simp]: "ERR_DH_FWK_COMPONENT_NO_NEED_ENABLE = -10014"
definition ERR_DH_FWK_COMPONENT_REPEAT_CALL :: int where [simp]: "ERR_DH_FWK_COMPONENT_REPEAT_CALL = -10015"
definition ERR_DH_FWK_COMPONENT_COMPVERSION_NOT_FOUND :: int where [simp]: "ERR_DH_FWK_COMPONENT_COMPVERSION_NOT_FOUND = -10016"
definition ERR_DH_FWK_SA_HANDLER_IS_NULL :: int where [simp]: "ERR_DH_FWK_SA_HANDLER_IS_NULL = -10017"
definition ERR_DH_FWK_COMPONENT_DISABLED_BY_CONFIG :: int where [simp]: "ERR_DH_FWK_COMPONENT_DISABLED_BY_CONFIG = -10018"
definition ERR_DH_FWK_RESOURCE_DB_ADAPTER_POINTER_NULL :: int where [simp]: "ERR_DH_FWK_RESOURCE_DB_ADAPTER_POINTER_NULL = -10400"
definition ERR_DH_FWK_RESOURCE_KV_STORAGE_POINTER_NULL :: int where [simp]: "ERR_DH_FWK_RESOURCE_KV_STORAGE_POINTER_NULL = -10401"
definition ERR_DH_FWK_RESOURCE_DB_ADAPTER_OPERATION_FAIL :: int where [simp]: "ERR_DH_FWK_RESOURCE_DB_ADAPTER_OPERATION_FAIL = -10402"
definition ERR_DH_FWK_RESOURCE_KV_STORAGE_OPERATION_FAIL :: int where [simp]: "ERR_DH_FWK_RESOURCE_KV_STORAGE_OPERATION_FAIL = -10403"
definition ERR_DH_FWK_RESOURCE_CAPABILITY_MAP_NOT_FOUND :: int where [simp]: "ERR_DH_FWK_RESOURCE_CAPABILITY_MAP_NOT_FOUND = -10404"
definition ERR_DH_FWK_RESOURCE_INIT_DB_FAILED :: int where [simp]: "ERR_DH_FWK_RESOURCE_INIT_DB_FAILED = -10406"
definition ERR_DH_FWK_RESOURCE_UNINIT_DB_FAILED :: int where [simp]: "ERR_DH_FWK_RESOURCE_UNINIT_DB_FAILED = -10407"
definition ERR_DH_FWK_RESOURCE_REGISTER_DB_FAILED :: int where [simp]: "ERR_DH_FWK_RESOURCE_REGISTER_DB_FAILED = -10408"
definition ERR_DH_FWK_RESOURCE_UNREGISTER_DB_FAILED :: int where [simp]: "ERR_DH_FWK_RESOURCE_UNREGISTER_DB_FAILED = -10409"
definition ERR_DH_FWK_RESOURCE_KEY_IS_EMPTY :: int where [simp]: "ERR_DH_FWK_RESOURCE_KEY_IS_EMPTY = -10410"
definition ERR_DH_FWK_RESOURCE_UUID_NOT_FOUND :: int where [simp]: "ERR_DH_FWK_RESOURCE_UUID_NOT_FOUND = -10413"
definition ERR_DH_FWK_RESOURCE_RES_DB_DATA_INVALID :: int where [simp]: "ERR_DH_FWK_RESOURCE_RES_DB_DATA_INVALID = -10415"
definition ERR_DH_FWK_HARDWARE_MANAGER_DEVICE_REPEAT_ONLINE :: int where [simp]: "ERR_DH_FWK_HARDWARE_MANAGER_DEVICE_REPEAT_ONLINE = -10500"
definition ERR_DH_FWK_HARDWARE_MANAGER_DEVICE_REPEAT_OFFLINE :: int where [simp]: "ERR_DH_FWK_HARDWARE_MANAGER_DEVICE_REPEAT_OFFLINE = -10501"
definition ERR_DH_FWK_HARDWARE_MANAGER_INIT_FAILED :: int where [simp]: "ERR_DH_FWK_HARDWARE_MANAGER_INIT_FAILED = -10502"
definition ERR_DH_FWK_HARDWARE_MANAGER_BUSY :: int where [simp]: "ERR_DH_FWK_HARDWARE_MANAGER_BUSY = -10503"
definition ERR_DH_FWK_HARDWARE_MANAGER_GET_DHINFO_FAIL :: int where [simp]: "ERR_DH_FWK_HARDWARE_MANAGER_GET_DHINFO_FAIL = -10504"
definition ERR_DH_FWK_LOADER_HANDLER_IS_NULL :: int where [simp]: "ERR_DH_FWK_LOADER_HANDLER_IS_NULL = -10600"
definition ERR_DH_FWK_LOADER_CONFIG_JSON_INVALID :: int where [simp]: "ERR_DH_FWK_LOADER_CONFIG_JSON_INVALID = -10601"
definition ERR_DH_FWK_LOADER_GET_LOCAL_VERSION_FAIL :: int where [simp]: "ERR_DH_FWK_LOADER_GET_LOCAL_VERSION_FAIL = -10602"
definition ERR_DH_FWK_LOADER_DLCLOSE_FAIL :: int where [simp]: "ERR_DH_FWK_LOADER_DLCLOSE_FAIL = -10603"
definition ERR_DH_FWK_LOADER_PROFILE_PATH_IS_NULL :: int where [simp]: "ERR_DH_FWK_LOADER_PROFILE_PATH_IS_NULL = -10604"
definition ERR_DH_FWK_LOADER_SINK_LOAD :: int where [simp]: "ERR_DH_FWK_LOADER_SINK_LOAD = -10605"
definition ERR_DH_FWK_LOADER_SOURCE_LOAD :: int where [simp]: "ERR_DH_FWK_LOADER_SOURCE_LOAD = -10606"
definition ERR_DH_FWK_LOADER_HANDLER_LOAD :: int where [simp]: "ERR_DH_FWK_LOADER_HANDLER_LOAD = -10607"
definition ERR_DH_FWK_LOADER_SINK_UNLOAD :: int where [simp]: "ERR_DH_FWK_LOADER_SINK_UNLOAD = -10608"
definition ERR_DH_FWK_LOADER_SOURCE_UNLOAD :: int where [simp]: "ERR_DH_FWK_LOADER_SOURCE_UNLOAD = -10609"
definition ERR_DH_FWK_LOADER_HANDLER_UNLOAD :: int where [simp]: "ERR_DH_FWK_LOADER_HANDLER_UNLOAD = -10610"
definition ERR_DH_FWK_TASK_TIMEOUT :: int where [simp]: "ERR_DH_FWK_TASK_TIMEOUT = -10700"
definition ERR_DH_FWK_SERVICE_IPC_SEND_REQUEST_FAIL :: int where [simp]: "ERR_DH_FWK_SERVICE_IPC_SEND_REQUEST_FAIL = -10801"
definition ERR_DH_FWK_SERVICE_WRITE_TOKEN_FAIL :: int where [simp]: "ERR_DH_FWK_SERVICE_WRITE_TOKEN_FAIL = -10805"
definition ERR_DH_FWK_SERVICE_REMOTE_IS_NULL :: int where [simp]: "ERR_DH_FWK_SERVICE_REMOTE_IS_NULL = -10806"
definition ERR_DH_FWK_SERVICE_WRITE_INFO_FAIL :: int where [simp]: "ERR_DH_FWK_SERVICE_WRITE_INFO_FAIL = -10807"
definition ERR_DH_FWK_PUBLISHER_LISTENER_IS_NULL :: int where [simp]: "ERR_DH_FWK_PUBLISHER_LISTENER_IS_NULL = -10808"
definition ERR_DH_FWK_SERVICE_MSG_INVALID :: int where [simp]: "ERR_DH_FWK_SERVICE_MSG_INVALID = -10809"
definition ERR_DH_FWK_AVTRANS_CALLBACK_IS_NULL :: int where [simp]: "ERR_DH_FWK_AVTRANS_CALLBACK_IS_NULL = -10810"
definition ERR_DH_FWK_GETDISTRIBUTEDHARDWARE_TIMEOUT :: int where [simp]: "ERR_DH_FWK_GETDISTRIBUTEDHARDWARE_TIMEOUT = -10811"
definition ERR_DH_FWK_STATUS_LISTENER_IS_NULL :: int where [simp]: "ERR_DH_FWK_STATUS_LISTENER_IS_NULL = -10812"
definition ERR_DH_FWK_REGISTER_HDF_LISTENER_FAIL :: int where [simp]: "ERR_DH_FWK_REGISTER_HDF_LISTENER_FAIL = -10813"
definition ERR_DH_FWK_LOAD_HDF_FAIL :: int where [simp]: "ERR_DH_FWK_LOAD_HDF_FAIL = -10814"
definition ERR_DH_FWK_LOAD_HDF_TIMEOUT :: int where [simp]: "ERR_DH_FWK_LOAD_HDF_TIMEOUT = -10815"
definition ERR_DH_FWK_NO_HDF_SUPPORT :: int where [simp]: "ERR_DH_FWK_NO_HDF_SUPPORT = -10816"
definition ERR_DH_FWK_ADD_DEATH_FAIL :: int where [simp]: "ERR_DH_FWK_ADD_DEATH_FAIL = -10817"
definition ERR_DH_FWK_REMOVE_DEATH_FAIL :: int where [simp]: "ERR_DH_FWK_REMOVE_DEATH_FAIL = -10818"
definition ERR_DH_FWK_LOAD_CALLBACK_FAIL :: int where [simp]: "ERR_DH_FWK_LOAD_CALLBACK_FAIL = -10819"
definition ERR_DH_FWK_ACCESS_INIT_DM_FAILED :: int where [simp]: "ERR_DH_FWK_ACCESS_INIT_DM_FAILED = -10900"
definition ERR_DH_FWK_ACCESS_UNINIT_DM_FAILED :: int where [simp]: "ERR_DH_FWK_ACCESS_UNINIT_DM_FAILED = -10901"
definition ERR_DH_FWK_ACCESS_REGISTER_DM_FAILED :: int where [simp]: "ERR_DH_FWK_ACCESS_REGISTER_DM_FAILED = -10902"
definition ERR_DH_FWK_ACCESS_UNREGISTER_DM_FAILED :: int where [simp]: "ERR_DH_FWK_ACCESS_UNREGISTER_DM_FAILED = -10903"
definition ERR_DH_FWK_HIDUMP_ERROR :: int where [simp]: "ERR_DH_FWK_HIDUMP_ERROR = -11000"
definition ERR_DH_FWK_HIDUMP_INVALID_ARGS :: int where [simp]: "ERR_DH_FWK_HIDUMP_INVALID_ARGS = -11001"
definition ERR_DH_FWK_HIDUMP_DPRINTF_ERROR :: int where [simp]: "ERR_DH_FWK_HIDUMP_DPRINTF_ERROR = -11002"
definition ERR_DH_FWK_PUBLISH_MSG_FAILED :: int where [simp]: "ERR_DH_FWK_PUBLISH_MSG_FAILED = -11100"
definition ERR_DH_FWK_PUBLISH_LISTENER_OVER_SIZE :: int where [simp]: "ERR_DH_FWK_PUBLISH_LISTENER_OVER_SIZE = 4294956195"
definition ERR_DH_FWK_ACCESS_PERMISSION_CHECK_FAIL :: int where [simp]: "ERR_DH_FWK_ACCESS_PERMISSION_CHECK_FAIL = -11200"
definition ERR_DH_FWK_IS_SYSTEM_HAP_CHECK_FAIL :: int where [simp]: "ERR_DH_FWK_IS_SYSTEM_HAP_CHECK_FAIL = -11201"
definition ERR_DH_FWK_IS_LOCAL_PROCESS_FAIL :: int where [simp]: "ERR_DH_FWK_IS_LOCAL_PROCESS_FAIL = -11202"
definition ERR_DH_FWK_USERID_MISMATCH :: int where [simp]: "ERR_DH_FWK_USERID_MISMATCH = -11300"
definition ERR_DH_FWK_USERID_FOREGROUND_NO_MATCH :: int where [simp]: "ERR_DH_FWK_USERID_FOREGROUND_NO_MATCH = -11301"
definition ERR_DH_FWK_USERID_GET_FAILED :: int where [simp]: "ERR_DH_FWK_USERID_GET_FAILED = -11302"
definition ERR_DH_FWK_USERID_INVALID :: int where [simp]: "ERR_DH_FWK_USERID_INVALID = -11303"

definition errno_table :: "(string \<times> int) list" where
  "errno_table =
    [(''DH_FWK_SUCCESS'', DH_FWK_SUCCESS),
     (''ERR_DH_FWK_PARA_INVALID'', ERR_DH_FWK_PARA_INVALID),
     (''ERR_DH_FWK_TYPE_NOT_EXIST'', ERR_DH_FWK_TYPE_NOT_EXIST),
     (''ERR_DH_FWK_JSON_PARSE_FAILED'', ERR_DH_FWK_JSON_PARSE_FAILED),
     (''ERR_DH_FWK_POINTER_IS_NULL'', ERR_DH_FWK_POINTER_IS_NULL),
     (''ERR_DH_FWK_INVALID_OSTYPE'', ERR_DH_FWK_INVALID_OSTYPE),
     (''ERR_DH_FWK_BAD_OPERATION'', ERR_DH_FWK_BAD_OPERATION),
     (''ERR_DH_FWK_VERSION_DEVICE_ID_NOT_EXIST'', ERR_DH_FWK_VERSION_DEVICE_ID_NOT_EXIST),
     (''ERR_DH_FWK_COMPONENT_ENABLE_FAILED'', ERR_DH_FWK_COMPONENT_ENABLE_FAILED),
     (''ERR_DH_FWK_COMPONENT_DISABLE_FAILED'', ERR_DH_FWK_COMPONENT_DISABLE_FAILED),
     (''ERR_DH_FWK_COMPONENT_ENABLE_TIMEOUT'', ERR_DH_FWK_COMPONENT_ENABLE_TIMEOUT),
     (''ERR_DH_FWK_COMPONENT_DISABLE_TIMEOUT'', ERR_DH_FWK_COMPONENT_DISABLE_TIMEOUT),
     (''ERR_DH_FWK_COMPONENT_REGISTER_FAILED'', ERR_DH_FWK_COMPONENT_REGISTER_FAILED),
     (''ERR_DH_FWK_COMPONENT_CONFIG_FAILED'', ERR_DH_FWK_COMPONENT_CONFIG_FAILED),
     (''ERR_DH_FWK_COMPONENT_UNREGISTER_FAILED'', ERR_DH_FWK_COMPONENT_UNREGISTER_FAILED),
     (''ERR_DH_FWK_COMPONENT_GET_SINK_VERSION_FAILED'', ERR_DH_FWK_COMPONENT_GET_SINK_VERSION_FAILED),
     (''ERR_DH_FWK_COMPONENT_DHTYPE_NOT_FOUND'', ERR_DH_FWK_COMPONENT_DHTYPE_NOT_FOUND),
     (''ERR_DH_FWK_COMPONENT_MONITOR_NULL'', ERR_DH_FWK_COMPONENT_MONITOR_NULL),
     (''ERR_DH_FWK_COMPONENT_TRANSPORT_OPT_FAILED'', ERR_DH_FWK_COMPONENT_TRANSPORT_OPT_FAILED),
     (''ERR_DH_FWK_COMPONENT_GET_ENABLE_PARAM_FAILED'', ERR_DH_FWK_COMPONENT_GET_ENABLE_PARAM_FAILED),
     (''ERR_DH_FWK_COMPONENT_NO_NEED_ENABLE'', ERR_DH_FWK_COMPONENT_NO_NEED_ENABLE),
     (''ERR_DH_FWK_COMPONENT_REPEAT_CALL'', ERR_DH_FWK_COMPONENT_REPEAT_CALL),
     (''ERR_DH_FWK_COMPONENT_COMPVERSION_NOT_FOUND'', ERR_DH_FWK_COMPONENT_COMPVERSION_NOT_FOUND),
     (''ERR_DH_FWK_SA_HANDLER_IS_NULL'', ERR_DH_FWK_SA_HANDLER_IS_NULL),
     (''ERR_DH_FWK_COMPONENT_DISABLED_BY_CONFIG'', ERR_DH_FWK_COMPONENT_DISABLED_BY_CONFIG),
     (''ERR_DH_FWK_RESOURCE_DB_ADAPTER_POINTER_NULL'', ERR_DH_FWK_RESOURCE_DB_ADAPTER_POINTER_NULL),
     (''ERR_DH_FWK_RESOURCE_KV_STORAGE_POINTER_NULL'', ERR_DH_FWK_RESOURCE_KV_STORAGE_POINTER_NULL),
     (''ERR_DH_FWK_RESOURCE_DB_ADAPTER_OPERATION_FAIL'', ERR_DH_FWK_RESOURCE_DB_ADAPTER_OPERATION_FAIL),
     (''ERR_DH_FWK_RESOURCE_KV_STORAGE_OPERATION_FAIL'', ERR_DH_FWK_RESOURCE_KV_STORAGE_OPERATION_FAIL),
     (''ERR_DH_FWK_RESOURCE_CAPABILITY_MAP_NOT_FOUND'', ERR_DH_FWK_RESOURCE_CAPABILITY_MAP_NOT_FOUND),
     (''ERR_DH_FWK_RESOURCE_INIT_DB_FAILED'', ERR_DH_FWK_RESOURCE_INIT_DB_FAILED),
     (''ERR_DH_FWK_RESOURCE_UNINIT_DB_FAILED'', ERR_DH_FWK_RESOURCE_UNINIT_DB_FAILED),
     (''ERR_DH_FWK_RESOURCE_REGISTER_DB_FAILED'', ERR_DH_FWK_RESOURCE_REGISTER_DB_FAILED),
     (''ERR_DH_FWK_RESOURCE_UNREGISTER_DB_FAILED'', ERR_DH_FWK_RESOURCE_UNREGISTER_DB_FAILED),
     (''ERR_DH_FWK_RESOURCE_KEY_IS_EMPTY'', ERR_DH_FWK_RESOURCE_KEY_IS_EMPTY),
     (''ERR_DH_FWK_RESOURCE_UUID_NOT_FOUND'', ERR_DH_FWK_RESOURCE_UUID_NOT_FOUND),
     (''ERR_DH_FWK_RESOURCE_RES_DB_DATA_INVALID'', ERR_DH_FWK_RESOURCE_RES_DB_DATA_INVALID),
     (''ERR_DH_FWK_HARDWARE_MANAGER_DEVICE_REPEAT_ONLINE'', ERR_DH_FWK_HARDWARE_MANAGER_DEVICE_REPEAT_ONLINE),
     (''ERR_DH_FWK_HARDWARE_MANAGER_DEVICE_REPEAT_OFFLINE'', ERR_DH_FWK_HARDWARE_MANAGER_DEVICE_REPEAT_OFFLINE),
     (''ERR_DH_FWK_HARDWARE_MANAGER_INIT_FAILED'', ERR_DH_FWK_HARDWARE_MANAGER_INIT_FAILED),
     (''ERR_DH_FWK_HARDWARE_MANAGER_BUSY'', ERR_DH_FWK_HARDWARE_MANAGER_BUSY),
     (''ERR_DH_FWK_HARDWARE_MANAGER_GET_DHINFO_FAIL'', ERR_DH_FWK_HARDWARE_MANAGER_GET_DHINFO_FAIL),
     (''ERR_DH_FWK_LOADER_HANDLER_IS_NULL'', ERR_DH_FWK_LOADER_HANDLER_IS_NULL),
     (''ERR_DH_FWK_LOADER_CONFIG_JSON_INVALID'', ERR_DH_FWK_LOADER_CONFIG_JSON_INVALID),
     (''ERR_DH_FWK_LOADER_GET_LOCAL_VERSION_FAIL'', ERR_DH_FWK_LOADER_GET_LOCAL_VERSION_FAIL),
     (''ERR_DH_FWK_LOADER_DLCLOSE_FAIL'', ERR_DH_FWK_LOADER_DLCLOSE_FAIL),
     (''ERR_DH_FWK_LOADER_PROFILE_PATH_IS_NULL'', ERR_DH_FWK_LOADER_PROFILE_PATH_IS_NULL),
     (''ERR_DH_FWK_LOADER_SINK_LOAD'', ERR_DH_FWK_LOADER_SINK_LOAD),
     (''ERR_DH_FWK_LOADER_SOURCE_LOAD'', ERR_DH_FWK_LOADER_SOURCE_LOAD),
     (''ERR_DH_FWK_LOADER_HANDLER_LOAD'', ERR_DH_FWK_LOADER_HANDLER_LOAD),
     (''ERR_DH_FWK_LOADER_SINK_UNLOAD'', ERR_DH_FWK_LOADER_SINK_UNLOAD),
     (''ERR_DH_FWK_LOADER_SOURCE_UNLOAD'', ERR_DH_FWK_LOADER_SOURCE_UNLOAD),
     (''ERR_DH_FWK_LOADER_HANDLER_UNLOAD'', ERR_DH_FWK_LOADER_HANDLER_UNLOAD),
     (''ERR_DH_FWK_TASK_TIMEOUT'', ERR_DH_FWK_TASK_TIMEOUT),
     (''ERR_DH_FWK_SERVICE_IPC_SEND_REQUEST_FAIL'', ERR_DH_FWK_SERVICE_IPC_SEND_REQUEST_FAIL),
     (''ERR_DH_FWK_SERVICE_WRITE_TOKEN_FAIL'', ERR_DH_FWK_SERVICE_WRITE_TOKEN_FAIL),
     (''ERR_DH_FWK_SERVICE_REMOTE_IS_NULL'', ERR_DH_FWK_SERVICE_REMOTE_IS_NULL),
     (''ERR_DH_FWK_SERVICE_WRITE_INFO_FAIL'', ERR_DH_FWK_SERVICE_WRITE_INFO_FAIL),
     (''ERR_DH_FWK_PUBLISHER_LISTENER_IS_NULL'', ERR_DH_FWK_PUBLISHER_LISTENER_IS_NULL),
     (''ERR_DH_FWK_SERVICE_MSG_INVALID'', ERR_DH_FWK_SERVICE_MSG_INVALID),
     (''ERR_DH_FWK_AVTRANS_CALLBACK_IS_NULL'', ERR_DH_FWK_AVTRANS_CALLBACK_IS_NULL),
     (''ERR_DH_FWK_GETDISTRIBUTEDHARDWARE_TIMEOUT'', ERR_DH_FWK_GETDISTRIBUTEDHARDWARE_TIMEOUT),
     (''ERR_DH_FWK_STATUS_LISTENER_IS_NULL'', ERR_DH_FWK_STATUS_LISTENER_IS_NULL),
     (''ERR_DH_FWK_REGISTER_HDF_LISTENER_FAIL'', ERR_DH_FWK_REGISTER_HDF_LISTENER_FAIL),
     (''ERR_DH_FWK_LOAD_HDF_FAIL'', ERR_DH_FWK_LOAD_HDF_FAIL),
     (''ERR_DH_FWK_LOAD_HDF_TIMEOUT'', ERR_DH_FWK_LOAD_HDF_TIMEOUT),
     (''ERR_DH_FWK_NO_HDF_SUPPORT'', ERR_DH_FWK_NO_HDF_SUPPORT),
     (''ERR_DH_FWK_ADD_DEATH_FAIL'', ERR_DH_FWK_ADD_DEATH_FAIL),
     (''ERR_DH_FWK_REMOVE_DEATH_FAIL'', ERR_DH_FWK_REMOVE_DEATH_FAIL),
     (''ERR_DH_FWK_LOAD_CALLBACK_FAIL'', ERR_DH_FWK_LOAD_CALLBACK_FAIL),
     (''ERR_DH_FWK_ACCESS_INIT_DM_FAILED'', ERR_DH_FWK_ACCESS_INIT_DM_FAILED),
     (''ERR_DH_FWK_ACCESS_UNINIT_DM_FAILED'', ERR_DH_FWK_ACCESS_UNINIT_DM_FAILED),
     (''ERR_DH_FWK_ACCESS_REGISTER_DM_FAILED'', ERR_DH_FWK_ACCESS_REGISTER_DM_FAILED),
     (''ERR_DH_FWK_ACCESS_UNREGISTER_DM_FAILED'', ERR_DH_FWK_ACCESS_UNREGISTER_DM_FAILED),
     (''ERR_DH_FWK_HIDUMP_ERROR'', ERR_DH_FWK_HIDUMP_ERROR),
     (''ERR_DH_FWK_HIDUMP_INVALID_ARGS'', ERR_DH_FWK_HIDUMP_INVALID_ARGS),
     (''ERR_DH_FWK_HIDUMP_DPRINTF_ERROR'', ERR_DH_FWK_HIDUMP_DPRINTF_ERROR),
     (''ERR_DH_FWK_PUBLISH_MSG_FAILED'', ERR_DH_FWK_PUBLISH_MSG_FAILED),
     (''ERR_DH_FWK_PUBLISH_LISTENER_OVER_SIZE'', ERR_DH_FWK_PUBLISH_LISTENER_OVER_SIZE),
     (''ERR_DH_FWK_ACCESS_PERMISSION_CHECK_FAIL'', ERR_DH_FWK_ACCESS_PERMISSION_CHECK_FAIL),
     (''ERR_DH_FWK_IS_SYSTEM_HAP_CHECK_FAIL'', ERR_DH_FWK_IS_SYSTEM_HAP_CHECK_FAIL),
     (''ERR_DH_FWK_IS_LOCAL_PROCESS_FAIL'', ERR_DH_FWK_IS_LOCAL_PROCESS_FAIL),
     (''ERR_DH_FWK_USERID_MISMATCH'', ERR_DH_FWK_USERID_MISMATCH),
     (''ERR_DH_FWK_USERID_FOREGROUND_NO_MATCH'', ERR_DH_FWK_USERID_FOREGROUND_NO_MATCH),
     (''ERR_DH_FWK_USERID_GET_FAILED'', ERR_DH_FWK_USERID_GET_FAILED),
     (''ERR_DH_FWK_USERID_INVALID'', ERR_DH_FWK_USERID_INVALID)]"

end
