(* ===== verification/Utils.thy ===== *)
theory Utils
  imports Errno
begin

text \<open>
  The types and helpers every component uses: \<open>DHType\<close> (\<open>device_type.h\<close>), the length checks, random
  identifiers and the hexadecimal form of SHA-256 digests (\<open>dh_utils_tool.cpp\<close>), and the
  anonymisation of strings for the log (\<open>anonymous_string.cpp\<close>).

  The digest function of OpenSSL is a parameter: a function from strings to 32 bytes.
\<close>

unbundle bit_operations_syntax

section \<open>Hardware types\<close>

text \<open>
  \<open>DHType\<close> is an \<open>enum class : uint32_t\<close>, and the code casts integers it read from JSON into it, so every
  32-bit value is possible.
\<close>

type_synonym DHType = "32 word"

definition DHType_UNKNOWN :: DHType where [simp]: "DHType_UNKNOWN = 0x0"
definition DHType_CAMERA :: DHType where [simp]: "DHType_CAMERA = 0x01"
definition DHType_AUDIO :: DHType where [simp]: "DHType_AUDIO = 0x02"
definition DHType_SCREEN :: DHType where [simp]: "DHType_SCREEN = 0x08"
definition DHType_GPS :: DHType where [simp]: "DHType_GPS = 0x10"
definition DHType_INPUT :: DHType where [simp]: "DHType_INPUT = 0x20"
definition DHType_HFP :: DHType where [simp]: "DHType_HFP = 0x40"
definition DHType_A2D :: DHType where [simp]: "DHType_A2D = 0x80"
definition DHType_VIRMODEM_AUDIO :: DHType where [simp]: "DHType_VIRMODEM_AUDIO = 0x100"
definition DHType_MODEM :: DHType where [simp]: "DHType_MODEM = 0x200"
definition DHType_MAX_DH :: DHType where [simp]: "DHType_MAX_DH = 0x80000000"

definition DHTypeStrMap :: "(DHType, string) omap" where
  "DHTypeStrMap =
    [(DHType_CAMERA, ''CAMERA''), (DHType_AUDIO, ''AUDIO''), (DHType_SCREEN, ''SCREEN''),
     (DHType_GPS, ''GPS''), (DHType_INPUT, ''INPUT''), (DHType_HFP, ''HFP''),
     (DHType_A2D, ''A2D''), (DHType_VIRMODEM_AUDIO, ''VIRMODEM_AUDIO''), (DHType_MODEM, ''MODEM'')]"

definition DHTypePrefixMap :: "(DHType, string) omap" where
  "DHTypePrefixMap =
    [(DHType_CAMERA, ''Camera''), (DHType_SCREEN, ''Screen''), (DHType_INPUT, ''Input'')]"

datatype DHSubtype =
  Subtype_UNKNOWN | Subtype_CAMERA | Subtype_SCREEN | Subtype_INPUT
  | Subtype_MODEM_MIC | Subtype_MODEM_SPEAKER | Subtype_AUDIO_MIC | Subtype_AUDIO_SPEAKER

record DeviceInfo =
  di_networkId :: string
  di_uuid :: string
  di_deviceId :: string
  di_udid :: string
  di_udidHash :: string
  di_deviceName :: string
  di_deviceType :: "16 word"

section \<open>Length checks\<close>

definition MAX_MESSAGE_LEN :: nat where [simp]: "MAX_MESSAGE_LEN = 40 * 1024 * 1024"
definition MAX_ID_LEN :: nat where [simp]: "MAX_ID_LEN = 256"
definition MAX_ARR_SIZE :: nat where [simp]: "MAX_ARR_SIZE = 10000"
definition MAX_JSON_SIZE :: nat where [simp]: "MAX_JSON_SIZE = 40 * 1024 * 1024"
definition MAX_HASH_SIZE :: nat where [simp]: "MAX_HASH_SIZE = 64"
definition MAX_KEY_SIZE :: nat where [simp]: "MAX_KEY_SIZE = 256"

definition IsIdLengthValid :: "string \<Rightarrow> bool" where
  "IsIdLengthValid inputID = (\<not> (inputID = [] \<or> MAX_ID_LEN < length inputID))"

definition IsMessageLengthValid :: "string \<Rightarrow> bool" where
  "IsMessageLengthValid inputMessage = (\<not> (inputMessage = [] \<or> MAX_MESSAGE_LEN < length inputMessage))"

definition IsJsonLengthValid :: "string \<Rightarrow> bool" where
  "IsJsonLengthValid inputJsonStr = (\<not> (inputJsonStr = [] \<or> MAX_JSON_SIZE < length inputJsonStr))"

definition IsArrayLengthValid :: "string list \<Rightarrow> bool" where
  "IsArrayLengthValid inputArray = (\<not> (inputArray = [] \<or> MAX_ARR_SIZE < length inputArray))"

definition IsKeySizeValid :: "string \<Rightarrow> bool" where
  "IsKeySizeValid inputKey = (\<not> (inputKey = [] \<or> MAX_KEY_SIZE < length inputKey))"

definition IsHashSizeValid :: "string \<Rightarrow> bool" where
  "IsHashSizeValid inputHashValue = (\<not> (inputHashValue = [] \<or> MAX_HASH_SIZE < length inputHashValue))"

lemmas length_checks =
  IsIdLengthValid_def IsMessageLengthValid_def IsJsonLengthValid_def IsArrayLengthValid_def
  IsKeySizeValid_def IsHashSizeValid_def

lemma IsIdLengthValid_Nil [simp]: "\<not> IsIdLengthValid []"
  and IsMessageLengthValid_Nil [simp]: "\<not> IsMessageLengthValid []"
  and IsJsonLengthValid_Nil [simp]: "\<not> IsJsonLengthValid []"
  by (simp_all add: length_checks)

section \<open>Hexadecimal text\<close>

definition hex_digit :: "nat \<Rightarrow> char" where
  "hex_digit n = (''0123456789abcdef'' ! (n mod 16))"

text \<open>\<open>std::hex\<close> on an unsigned value: no leading zero, and a single \<open>0\<close> for zero.\<close>

fun hex_nat :: "nat \<Rightarrow> string" where
  "hex_nat n = (if n < 16 then [hex_digit n] else hex_nat (n div 16) @ [hex_digit (n mod 16)])"

declare hex_nat.simps [simp del]

text \<open>\<open>std::setw(w)\<close> with \<open>setfill('0')\<close>: pads on the left, never truncates.\<close>

definition hex_setw :: "nat \<Rightarrow> nat \<Rightarrow> string" where
  "hex_setw w n = (let s = hex_nat n in replicate (w - length s) (CHR ''0'') @ s)"

definition GetRandomID :: "64 word \<Rightarrow> 64 word \<Rightarrow> string" where
  "GetRandomID ab0 cd0 =
    (let ab = (ab0 AND 0xFFFFFFFFFFFF0FFF) OR 0x0000000000004000;
         cd = (cd0 AND 0x3FFFFFFFFFFFFFFF) OR 0x8000000000000000;
         a = ucast (drop_bit 32 ab) :: 32 word;
         b = ucast (ab AND 0xFFFFFFFF) :: 32 word;
         c = ucast (drop_bit 32 cd) :: 32 word;
         d = ucast (cd AND 0xFFFFFFFF) :: 32 word
     in hex_setw 8 (unat a)
        @ hex_setw 4 (unat (drop_bit 16 b))
        @ hex_setw 4 (unat (b AND 0xFFFF))
        @ hex_setw 4 (unat (drop_bit 16 c))
        @ hex_setw 4 (unat (c AND 0xFFFF))
        @ hex_setw 8 (unat d))"

definition hex_byte :: "8 word \<Rightarrow> string" where
  "hex_byte v = [hex_digit (unat (drop_bit 4 v AND 0x0F)), hex_digit (unat (v AND 0x0F))]"

text \<open>The digest is what \<open>SHA256_Final\<close> wrote for the input.\<close>

definition Sha256 :: "(string \<Rightarrow> 8 word list) \<Rightarrow> string \<Rightarrow> string" where
  "Sha256 digest s = concat (map hex_byte (digest s))"

definition GetDeviceIdByUUID :: "(string \<Rightarrow> 8 word list) \<Rightarrow> string \<Rightarrow> string" where
  "GetDeviceIdByUUID digest uuid = (if \<not> IsIdLengthValid uuid then [] else Sha256 digest uuid)"

section \<open>Anonymised text\<close>

definition GetAnonyString :: "string \<Rightarrow> string" where
  "GetAnonyString value =
    (if \<not> IsMessageLengthValid value then []
     else
       let tmpStr = ''******''; strLen = length value in
       if strLen < 3 then tmpStr
       else if strLen \<le> 20 then [value ! 0] @ tmpStr @ [value ! (strLen - 1)]
       else take 4 value @ tmpStr @ take 4 (drop (strLen - 4) value))"

text \<open>The digits \<open>sprintf(\"%d\")\<close> prints.\<close>

fun dec_nat :: "nat \<Rightarrow> string" where
  "dec_nat n = (if n < 10 then [''0123456789'' ! n] else dec_nat (n div 10) @ [''0123456789'' ! (n mod 10)])"

declare dec_nat.simps [simp del]

definition dec_int :: "int \<Rightarrow> string" where
  "dec_int i = (if i < 0 then CHR ''-'' # dec_nat (nat (- i)) else dec_nat (nat i))"

definition GetAnonyInt32 :: "32 word \<Rightarrow> string" where
  "GetAnonyInt32 value =
    (let buf = dec_int (sint value) in
     if length buf = 1 then ''*'' else take 1 buf @ replicate (length buf - 1) (CHR ''*''))"

section \<open>Searching strings\<close>

definition starts_with :: "string \<Rightarrow> string \<Rightarrow> bool" where
  "starts_with p s = (take (length p) s = p)"

text \<open>\<open>std::string::find(p)\<close>: the first position the text \<open>p\<close> occurs at.\<close>

fun str_find :: "string \<Rightarrow> string \<Rightarrow> nat option" where
  "str_find p [] = (if p = [] then Some 0 else None)"
| "str_find p (c # s) = (if starts_with p (c # s) then Some 0 else map_option Suc (str_find p s))"

text \<open>\<open>std::string::find_first_of(cs)\<close>: the first position any character of \<open>cs\<close> occurs at.\<close>

fun str_find_first_of :: "string \<Rightarrow> string \<Rightarrow> nat option" where
  "str_find_first_of cs [] = None"
| "str_find_first_of cs (c # s) =
    (if c \<in> set cs then Some 0 else map_option Suc (str_find_first_of cs s))"

section \<open>What the helpers guarantee\<close>

definition is_hex :: "char \<Rightarrow> bool" where
  "is_hex c = (c \<in> set ''0123456789abcdef'')"

lemma is_hex_digit [simp]: "is_hex (hex_digit n)"
proof -
  have "n mod 16 < length ''0123456789abcdef''" by simp
  then have "hex_digit n \<in> set ''0123456789abcdef''"
    unfolding hex_digit_def by (rule nth_mem)
  then show ?thesis by (simp only: is_hex_def)
qed

lemma hex_digit_inj:
  assumes "hex_digit m = hex_digit n"
  shows "m mod 16 = n mod 16"
proof -
  have d: "distinct ''0123456789abcdef''" by simp
  have "m mod 16 < length ''0123456789abcdef''" "n mod 16 < length ''0123456789abcdef''" by simp_all
  with d assms show ?thesis
    unfolding hex_digit_def by (simp only: nth_eq_iff_index_eq)
qed

lemma hash_not_hex [simp]: "\<not> is_hex (CHR ''#'')"
  by (simp add: is_hex_def)

lemma length_hex_nat: "n < 16 ^ Suc k \<Longrightarrow> length (hex_nat n) \<le> Suc k"
proof (induction k arbitrary: n)
  case 0
  then show ?case by (simp add: hex_nat.simps)
next
  case (Suc k)
  have "n div 16 < 16 ^ Suc k" using Suc.prems by (simp add: less_mult_imp_div_less mult.commute)
  from Suc.IH[OF this] show ?case by (subst hex_nat.simps) simp
qed

lemma hex_nat_chars: "c \<in> set (hex_nat n) \<Longrightarrow> is_hex c"
proof (induction n rule: hex_nat.induct)
  case (1 n)
  show ?case
  proof (cases "n < 16")
    case True
    then show ?thesis using "1.prems" by (simp add: hex_nat.simps[of n])
  next
    case False
    then show ?thesis using 1 by (auto simp: hex_nat.simps[of n])
  qed
qed

lemma length_hex_setw: "n < 16 ^ Suc k \<Longrightarrow> length (hex_setw (Suc k) n) = Suc k"
  using length_hex_nat[of n k] by (simp add: hex_setw_def Let_def)

lemma hex_setw_chars: "c \<in> set (hex_setw w n) \<Longrightarrow> is_hex c"
  by (auto simp: hex_setw_def Let_def is_hex_def dest: hex_nat_chars)

lemma unat_less: "unat (x :: 'a::len word) < 2 ^ LENGTH('a)"
  using unsigned_less[of x, where 'a = nat] by simp

lemma length_hex_setw8 [simp]: "length (hex_setw 8 (unat (x :: 32 word))) = 8"
  using length_hex_setw[of "unat x" 7] unat_less[of x] by simp

lemma length_hex_setw4_hi [simp]: "length (hex_setw 4 (unat (drop_bit 16 (x :: 32 word)))) = 4"
proof -
  have "unat (drop_bit 16 x) = unat x div 2 ^ 16"
    by (simp add: drop_bit_eq_div unat_div)
  then have "unat (drop_bit 16 x) < 16 ^ Suc 3"
    using unat_less[of x] by (simp add: less_mult_imp_div_less)
  from length_hex_setw[OF this] show ?thesis by (simp add: numeral_eq_Suc)
qed

lemma length_hex_setw4_lo [simp]: "length (hex_setw 4 (unat ((x :: 32 word) AND 0xFFFF))) = 4"
proof -
  have "x AND 0xFFFF = take_bit 16 x"
    by (simp add: take_bit_eq_mask mask_eq_exp_minus_1)
  then have "unat (x AND 0xFFFF) < 16 ^ Suc 3"
    using take_bit_nat_less_exp[of 16 "unat x"] by (simp add: unsigned_take_bit_eq)
  from length_hex_setw[OF this] show ?thesis by (simp add: numeral_eq_Suc)
qed

lemma length_Sha256 [simp]: "length (Sha256 digest s) = 2 * length (digest s)"
  by (simp add: Sha256_def hex_byte_def length_concat o_def sum_list_triv)

lemma Sha256_chars: "c \<in> set (Sha256 digest s) \<Longrightarrow> is_hex c"
  by (auto simp: Sha256_def hex_byte_def)

lemma Sha256_valid:
  assumes "length (digest s) = 32"
  shows "IsIdLengthValid (Sha256 digest s)" "IsHashSizeValid (Sha256 digest s)"
  using assms by (simp_all add: length_checks flip: length_0_conv)

lemma and_15_8: "w AND 0x0F = take_bit 4 (w :: 8 word)"
  by (simp add: take_bit_eq_mask mask_eq_exp_minus_1)

lemma hex_byte_inj: "hex_byte v = hex_byte w \<Longrightarrow> v = w"
proof -
  assume eq: "hex_byte v = hex_byte w"
  have hi: "take_bit 4 (drop_bit 4 x) = drop_bit 4 x" for x :: "8 word"
    using take_bit_drop_bit[of 4 4 x] by (simp add: take_bit_word_eq_self)
  have b1: "unat (drop_bit 4 x) < 16" for x :: "8 word"
    using unat_less[of x] by (simp add: drop_bit_eq_div unat_div less_mult_imp_div_less)
  have b2: "unat (take_bit 4 x) < 16" for x :: "8 word"
    using take_bit_nat_less_exp[of 4 "unat x"] by (simp add: unsigned_take_bit_eq)
  have "unat (drop_bit 4 v) = unat (drop_bit 4 w)" "unat (take_bit 4 v) = unat (take_bit 4 w)"
    using eq hex_digit_inj[of "unat (drop_bit 4 v)" "unat (drop_bit 4 w)"]
      hex_digit_inj[of "unat (take_bit 4 v)" "unat (take_bit 4 w)"] b1 b2
    by (simp_all add: hex_byte_def hi and_15_8)
  then have "drop_bit 4 v = drop_bit 4 w" "take_bit 4 v = take_bit 4 w"
    by (simp_all add: word_unat_eq_iff)
  then show "v = w" by (metis bits_ident)
qed

lemma concat_hex_byte_inj: "concat (map hex_byte xs) = concat (map hex_byte ys) \<Longrightarrow> xs = ys"
proof (induction xs arbitrary: ys)
  case Nil
  then show ?case by (cases ys) (auto simp: hex_byte_def)
next
  case (Cons x xs)
  then obtain y ys' where ys: "ys = y # ys'" by (cases ys) (auto simp: hex_byte_def)
  have l: "length (hex_byte x) = length (hex_byte y)" by (simp add: hex_byte_def)
  have "hex_byte x @ concat (map hex_byte xs) = hex_byte y @ concat (map hex_byte ys')"
    using Cons.prems by (simp add: ys)
  then have "hex_byte x = hex_byte y" "concat (map hex_byte xs) = concat (map hex_byte ys')"
    using l by (simp_all add: append_eq_append_conv)
  then show ?case using Cons.IH hex_byte_inj by (simp add: ys)
qed

lemma Sha256_inj: "Sha256 digest s = Sha256 digest t \<Longrightarrow> digest s = digest t"
  unfolding Sha256_def by (rule concat_hex_byte_inj)

lemma starts_with_append [simp]: "starts_with p (p @ s)"
  by (simp add: starts_with_def)

lemma starts_with_iff: "starts_with p s \<longleftrightarrow> (\<exists>r. s = p @ r)"
  by (auto simp: starts_with_def) (metis append_take_drop_id)

lemma str_find_skip:
  assumes "\<forall>c \<in> set xs. c \<noteq> hd p" "p \<noteq> []"
  shows "str_find p (xs @ p @ ys) = Some (length xs)"
  using assms
proof (induction xs)
  case Nil
  obtain c q where "p = c # q" using Nil.prems(2) by (cases p) auto
  then show ?case using starts_with_append[of p ys] by simp
next
  case (Cons x xs)
  then have "\<not> starts_with p (x # xs @ p @ ys)"
    by (cases p) (auto simp: starts_with_def)
  then show ?case using Cons by simp
qed

lemma str_find_absent:
  assumes "\<forall>c \<in> set s. c \<noteq> hd p" "p \<noteq> []"
  shows "str_find p s = None"
  using assms by (induction s) (auto simp: starts_with_def neq_Nil_conv)

lemma str_find_first_of_skip:
  "\<forall>c \<in> set xs. c \<notin> set cs \<Longrightarrow> y \<in> set cs \<Longrightarrow> str_find_first_of cs (xs @ y # ys) = Some (length xs)"
  by (induction xs) auto

end
