(* ===== verification/Dh_Context.thy ===== *)
theory Dh_Context
  imports Utils
begin

text \<open>
  The device context (\<open>utils/dh_context.cpp\<close>): the set of online devices with their identifiers, the
  real-time online set, the isomerism connections, the device and OS types.  The set is ordered by
  the comparison of \<open>DeviceIdEntry\<close>, and every lookup walks it in that order and takes the first hit.

  The device manager of the system and the digest function are the \<open>platform\<close> record: what their
  calls answer.  \<open>DM_UNKNOWN\<close> is the \<open>DEVICE_TYPE_UNKNOWN\<close> of the device manager's interface.
\<close>

section \<open>The platform\<close>

record DmLocalInfo =
  dm_networkId :: string
  dm_deviceName :: string
  dm_deviceTypeId :: "16 word"

record platform =
  pf_digest :: "string \<Rightarrow> 8 word list"
  pf_GetUuidByNetworkId :: "string \<Rightarrow> int \<times> string"
  pf_GetUdidByNetworkId :: "string \<Rightarrow> int \<times> string"
  pf_GetLocalDeviceInfo :: "int \<times> DmLocalInfo"
  pf_DM_UNKNOWN :: "16 word"

abbreviation sha :: "platform \<Rightarrow> string \<Rightarrow> string" where
  "sha P \<equiv> Sha256 (pf_digest P)"

definition GetUUIDByDm :: "platform \<Rightarrow> string \<Rightarrow> string" where
  "GetUUIDByDm P networkId =
    (if \<not> IsIdLengthValid networkId then []
     else case pf_GetUuidByNetworkId P networkId of (ret, uuid) \<Rightarrow> if ret = DH_FWK_SUCCESS then uuid else [])"

definition GetUDIDByDm :: "platform \<Rightarrow> string \<Rightarrow> string" where
  "GetUDIDByDm P networkId =
    (if \<not> IsIdLengthValid networkId then []
     else case pf_GetUdidByNetworkId P networkId of (ret, udid) \<Rightarrow> if ret = DH_FWK_SUCCESS then udid else [])"

definition empty_DeviceInfo :: DeviceInfo where
  "empty_DeviceInfo = \<lparr>di_networkId = [], di_uuid = [], di_deviceId = [], di_udid = [], di_udidHash = [],
     di_deviceName = [], di_deviceType = 0\<rparr>"

definition GetLocalDeviceInfo :: "platform \<Rightarrow> DeviceInfo" where
  "GetLocalDeviceInfo P =
    (case pf_GetLocalDeviceInfo P of (ret, info) \<Rightarrow>
      if ret \<noteq> DH_FWK_SUCCESS then empty_DeviceInfo
      else
        let uuid = GetUUIDByDm P (dm_networkId info);
            udid = GetUDIDByDm P (dm_networkId info)
        in \<lparr>di_networkId = dm_networkId info, di_uuid = uuid,
            di_deviceId = GetDeviceIdByUUID (pf_digest P) uuid,
            di_udid = udid, di_udidHash = sha P udid,
            di_deviceName = dm_deviceName info, di_deviceType = dm_deviceTypeId info\<rparr>)"

definition GetLocalNetworkId :: "platform \<Rightarrow> string" where
  "GetLocalNetworkId P =
    (case pf_GetLocalDeviceInfo P of (ret, info) \<Rightarrow> if ret \<noteq> DH_FWK_SUCCESS then [] else dm_networkId info)"

definition GetLocalUdid :: "platform \<Rightarrow> string" where
  "GetLocalUdid P =
    (case pf_GetLocalDeviceInfo P of (ret, info) \<Rightarrow>
      if ret \<noteq> DH_FWK_SUCCESS then [] else GetUDIDByDm P (dm_networkId info))"

section \<open>Device entries and their order\<close>

datatype DeviceIdEntry =
  DeviceIdEntry (de_networkId: string) (de_uuid: string) (de_deviceId: string) (de_udid: string)
    (de_udidHash: string)

definition entry_tuple :: "DeviceIdEntry \<Rightarrow> string \<times> string \<times> string \<times> string \<times> string" where
  "entry_tuple e = (de_networkId e, de_uuid e, de_deviceId e, de_udid e, de_udidHash e)"

definition entry_less :: "DeviceIdEntry \<Rightarrow> DeviceIdEntry \<Rightarrow> bool" where
  "entry_less a b =
    (de_networkId a < de_networkId b
     \<or> (de_networkId a = de_networkId b \<and> de_uuid a < de_uuid b)
     \<or> (de_networkId a = de_networkId b \<and> de_uuid a = de_uuid b \<and> de_deviceId a < de_deviceId b)
     \<or> (de_networkId a = de_networkId b \<and> de_uuid a = de_uuid b \<and> de_deviceId a = de_deviceId b
        \<and> de_udid a < de_udid b)
     \<or> (de_networkId a = de_networkId b \<and> de_uuid a = de_uuid b \<and> de_deviceId a = de_deviceId b
        \<and> de_udid a = de_udid b \<and> de_udidHash a < de_udidHash b))"

lemma entry_less_tuple: "entry_less a b \<longleftrightarrow> entry_tuple a < entry_tuple b"
  by (auto simp: entry_less_def entry_tuple_def less_prod_def')

lemma entry_tuple_inj: "entry_tuple a = entry_tuple b \<longleftrightarrow> a = b"
  by (cases a; cases b) (auto simp: entry_tuple_def)

instantiation DeviceIdEntry :: linorder
begin

definition less_DeviceIdEntry :: "DeviceIdEntry \<Rightarrow> DeviceIdEntry \<Rightarrow> bool" where
  "less_DeviceIdEntry a b = entry_less a b"

definition less_eq_DeviceIdEntry :: "DeviceIdEntry \<Rightarrow> DeviceIdEntry \<Rightarrow> bool" where
  "less_eq_DeviceIdEntry a b = (entry_less a b \<or> a = b)"

instance
proof
  fix a b c :: DeviceIdEntry
  note defs = less_DeviceIdEntry_def less_eq_DeviceIdEntry_def entry_less_tuple
  show "a < b \<longleftrightarrow> a \<le> b \<and> \<not> b \<le> a"
    by (auto simp: defs entry_tuple_inj)
  show "a \<le> a" by (simp add: defs)
  show "a \<le> b \<Longrightarrow> b \<le> c \<Longrightarrow> a \<le> c" by (auto simp: defs)
  show "a \<le> b \<Longrightarrow> b \<le> a \<Longrightarrow> a = b" by (auto simp: defs)
  show "a \<le> b \<or> b \<le> a" using entry_tuple_inj[of a b] by (auto simp: defs)
qed

end

section \<open>The state\<close>

definition MAX_ONLINE_DEVICE_SIZE :: nat where [simp]: "MAX_ONLINE_DEVICE_SIZE = 10000"

record DHContext =
  ctx_devInfo :: DeviceInfo
  ctx_devIdEntrySet :: "DeviceIdEntry list"
  ctx_realTimeOnLineNetworkIdSet :: "string list"
  ctx_connectedDevIds :: "string list"
  ctx_onlineDevTypeMap :: "(string, 16 word) omap"
  ctx_onlineDevOSTypeMap :: "(string, int) omap"

definition DHContext_init :: DHContext where
  "DHContext_init = \<lparr>ctx_devInfo = empty_DeviceInfo, ctx_devIdEntrySet = [],
     ctx_realTimeOnLineNetworkIdSet = [], ctx_connectedDevIds = [], ctx_onlineDevTypeMap = [],
     ctx_onlineDevOSTypeMap = []\<rparr>"

section \<open>Operations\<close>

definition GetDeviceInfo :: "platform \<Rightarrow> DHContext \<Rightarrow> DeviceInfo \<times> DHContext" where
  "GetDeviceInfo P c =
    (if di_uuid (ctx_devInfo c) \<noteq> [] then (ctx_devInfo c, c)
     else let d = GetLocalDeviceInfo P in (d, c\<lparr>ctx_devInfo := d\<rparr>))"

definition AddOnlineDevice :: "platform \<Rightarrow> string \<Rightarrow> string \<Rightarrow> string \<Rightarrow> DHContext \<Rightarrow> DHContext" where
  "AddOnlineDevice P udid uuid networkId c =
    (if \<not> IsIdLengthValid udid \<or> \<not> IsIdLengthValid uuid \<or> \<not> IsIdLengthValid networkId then c
     else if length (ctx_devIdEntrySet c) > MAX_ONLINE_DEVICE_SIZE then c
     else
       let idEntry = DeviceIdEntry networkId uuid (sha P uuid) udid (sha P udid)
       in c\<lparr>ctx_devIdEntrySet := os_ins idEntry (ctx_devIdEntrySet c)\<rparr>)"

fun erase_first :: "('a \<Rightarrow> bool) \<Rightarrow> 'a list \<Rightarrow> 'a list" where
  "erase_first Q [] = []"
| "erase_first Q (x # xs) = (if Q x then xs else x # erase_first Q xs)"

definition RemoveOnlineDeviceIdEntryByNetworkId :: "string \<Rightarrow> DHContext \<Rightarrow> DHContext" where
  "RemoveOnlineDeviceIdEntryByNetworkId networkId c =
    (if \<not> IsIdLengthValid networkId then c
     else c\<lparr>ctx_devIdEntrySet := erase_first (\<lambda>e. de_networkId e = networkId) (ctx_devIdEntrySet c)\<rparr>)"

definition IsDeviceOnline :: "string \<Rightarrow> DHContext \<Rightarrow> bool" where
  "IsDeviceOnline uuid c =
    (if \<not> IsIdLengthValid uuid then False else list_ex (\<lambda>e. de_uuid e = uuid) (ctx_devIdEntrySet c))"

definition GetOnlineCount :: "DHContext \<Rightarrow> nat" where
  "GetOnlineCount c = length (ctx_devIdEntrySet c)"

text \<open>The loop every getter has: the first entry that matches gives the answer, else the empty string.\<close>

definition first_entry :: "(DeviceIdEntry \<Rightarrow> bool) \<Rightarrow> (DeviceIdEntry \<Rightarrow> string) \<Rightarrow> DHContext \<Rightarrow> string" where
  "first_entry hit out c = (case find hit (ctx_devIdEntrySet c) of None \<Rightarrow> [] | Some e \<Rightarrow> out e)"

definition GetNetworkIdByUUID :: "string \<Rightarrow> DHContext \<Rightarrow> string" where
  "GetNetworkIdByUUID uuid c =
    (if \<not> IsIdLengthValid uuid then [] else first_entry (\<lambda>e. de_uuid e = uuid) de_networkId c)"

definition GetNetworkIdByUDID :: "string \<Rightarrow> DHContext \<Rightarrow> string" where
  "GetNetworkIdByUDID udid c =
    (if \<not> IsIdLengthValid udid then [] else first_entry (\<lambda>e. de_udid e = udid) de_networkId c)"

definition GetUdidHashIdByUUID :: "string \<Rightarrow> DHContext \<Rightarrow> string" where
  "GetUdidHashIdByUUID uuid c =
    (if \<not> IsIdLengthValid uuid then [] else first_entry (\<lambda>e. de_uuid e = uuid) de_udidHash c)"

definition GetUUIDByNetworkId :: "string \<Rightarrow> DHContext \<Rightarrow> string" where
  "GetUUIDByNetworkId networkId c =
    (if \<not> IsIdLengthValid networkId then [] else first_entry (\<lambda>e. de_networkId e = networkId) de_uuid c)"

definition GetUDIDByNetworkId :: "string \<Rightarrow> DHContext \<Rightarrow> string" where
  "GetUDIDByNetworkId networkId c =
    (if \<not> IsIdLengthValid networkId then [] else first_entry (\<lambda>e. de_networkId e = networkId) de_udid c)"

definition GetUUIDByDeviceId :: "string \<Rightarrow> DHContext \<Rightarrow> string" where
  "GetUUIDByDeviceId deviceId c =
    (if \<not> IsIdLengthValid deviceId then []
     else first_entry (\<lambda>e. de_deviceId e = deviceId \<or> de_udidHash e = deviceId) de_uuid c)"

definition GetNetworkIdByDeviceId :: "string \<Rightarrow> DHContext \<Rightarrow> string" where
  "GetNetworkIdByDeviceId deviceId c =
    (if \<not> IsIdLengthValid deviceId then [] else first_entry (\<lambda>e. de_deviceId e = deviceId) de_networkId c)"

definition GetDeviceIdByNetworkId :: "string \<Rightarrow> DHContext \<Rightarrow> string" where
  "GetDeviceIdByNetworkId networkId c =
    (if \<not> IsIdLengthValid networkId then [] else first_entry (\<lambda>e. de_networkId e = networkId) de_deviceId c)"

definition GetOnlineDeviceUdidHash :: "DHContext \<Rightarrow> string list" where
  "GetOnlineDeviceUdidHash c = map de_udidHash (ctx_devIdEntrySet c)"

definition GetOnlineDeviceDeviceId :: "DHContext \<Rightarrow> string list" where
  "GetOnlineDeviceDeviceId c = map de_deviceId (ctx_devIdEntrySet c)"

definition RESOURCE_SEPARATOR :: string where
  "RESOURCE_SEPARATOR = ''###''"

definition GetDeviceIdByDBGetPrefix :: "string \<Rightarrow> string" where
  "GetDeviceIdByDBGetPrefix prefix =
    (if \<not> IsIdLengthValid prefix then []
     else if prefix = [] then []
     else case str_find RESOURCE_SEPARATOR prefix of
       Some _ \<Rightarrow>
         (case str_find_first_of RESOURCE_SEPARATOR prefix of
            Some n \<Rightarrow> take n prefix
          | None \<Rightarrow> prefix)
     | None \<Rightarrow> prefix)"

definition AddRealTimeOnlineDeviceNetworkId :: "string \<Rightarrow> DHContext \<Rightarrow> DHContext" where
  "AddRealTimeOnlineDeviceNetworkId networkId c =
    c\<lparr>ctx_realTimeOnLineNetworkIdSet := os_ins networkId (ctx_realTimeOnLineNetworkIdSet c)\<rparr>"

definition DeleteRealTimeOnlineDeviceNetworkId :: "string \<Rightarrow> DHContext \<Rightarrow> DHContext" where
  "DeleteRealTimeOnlineDeviceNetworkId networkId c =
    c\<lparr>ctx_realTimeOnLineNetworkIdSet := os_del networkId (ctx_realTimeOnLineNetworkIdSet c)\<rparr>"

definition GetRealTimeOnlineDeviceCount :: "DHContext \<Rightarrow> nat" where
  "GetRealTimeOnlineDeviceCount c = length (ctx_realTimeOnLineNetworkIdSet c)"

definition IsRealTimeOnlineDevice :: "string \<Rightarrow> DHContext \<Rightarrow> bool" where
  "IsRealTimeOnlineDevice networkId c = (networkId \<in> set (ctx_realTimeOnLineNetworkIdSet c))"

definition AddIsomerismConnectDev :: "string \<Rightarrow> DHContext \<Rightarrow> DHContext" where
  "AddIsomerismConnectDev d c =
    (if \<not> IsIdLengthValid d then c
     else c\<lparr>ctx_connectedDevIds := os_ins d (ctx_connectedDevIds c)\<rparr>)"

definition DelIsomerismConnectDev :: "string \<Rightarrow> DHContext \<Rightarrow> DHContext" where
  "DelIsomerismConnectDev d c =
    (if \<not> IsIdLengthValid d then c
     else if d \<notin> set (ctx_connectedDevIds c) then c
     else c\<lparr>ctx_connectedDevIds := os_del d (ctx_connectedDevIds c)\<rparr>)"

definition GetIsomerismConnectCount :: "DHContext \<Rightarrow> nat" where
  "GetIsomerismConnectCount c = length (ctx_connectedDevIds c) mod 2 ^ 32"

definition AddOnlineDeviceType :: "string \<Rightarrow> 16 word \<Rightarrow> DHContext \<Rightarrow> DHContext" where
  "AddOnlineDeviceType networkId deviceType c =
    c\<lparr>ctx_onlineDevTypeMap := om_emplace networkId deviceType (ctx_onlineDevTypeMap c)\<rparr>"

definition DeleteOnlineDeviceType :: "string \<Rightarrow> DHContext \<Rightarrow> DHContext" where
  "DeleteOnlineDeviceType networkId c =
    (if om_has (ctx_onlineDevTypeMap c) networkId
     then c\<lparr>ctx_onlineDevTypeMap := om_del networkId (ctx_onlineDevTypeMap c)\<rparr> else c)"

definition GetDeviceTypeByNetworkId :: "platform \<Rightarrow> string \<Rightarrow> DHContext \<Rightarrow> 16 word" where
  "GetDeviceTypeByNetworkId P networkId c =
    (case om_get (ctx_onlineDevTypeMap c) networkId of None \<Rightarrow> pf_DM_UNKNOWN P | Some t \<Rightarrow> t)"

definition AddOnlineDeviceOSType :: "string \<Rightarrow> int \<Rightarrow> DHContext \<Rightarrow> DHContext" where
  "AddOnlineDeviceOSType networkId osType c =
    c\<lparr>ctx_onlineDevOSTypeMap := om_emplace networkId osType (ctx_onlineDevOSTypeMap c)\<rparr>"

definition DeleteOnlineDeviceOSType :: "string \<Rightarrow> DHContext \<Rightarrow> DHContext" where
  "DeleteOnlineDeviceOSType networkId c =
    (if \<not> om_has (ctx_onlineDevOSTypeMap c) networkId then c
     else c\<lparr>ctx_onlineDevOSTypeMap := om_del networkId (ctx_onlineDevOSTypeMap c)\<rparr>)"

definition IsDoubleFwkDevice :: "string \<Rightarrow> DHContext \<Rightarrow> bool \<times> DHContext" where
  "IsDoubleFwkDevice networkId c =
    (case om_get (ctx_onlineDevOSTypeMap c) networkId of
       None \<Rightarrow> (False, c)
     | Some t \<Rightarrow>
         if t \<noteq> -1 \<and> t \<noteq> 11
         then (False, c\<lparr>ctx_onlineDevOSTypeMap := om_del networkId (ctx_onlineDevOSTypeMap c)\<rparr>)
         else (True, c))"

section \<open>Invariant\<close>

definition entry_ok :: "platform \<Rightarrow> DeviceIdEntry \<Rightarrow> bool" where
  "entry_ok P e =
    (IsIdLengthValid (de_networkId e) \<and> IsIdLengthValid (de_uuid e) \<and> IsIdLengthValid (de_udid e)
     \<and> de_deviceId e = sha P (de_uuid e) \<and> de_udidHash e = sha P (de_udid e))"

definition ctx_ok :: "platform \<Rightarrow> DHContext \<Rightarrow> bool" where
  "ctx_ok P c =
    (os_ok (ctx_devIdEntrySet c) \<and> list_all (entry_ok P) (ctx_devIdEntrySet c)
     \<and> length (ctx_devIdEntrySet c) \<le> MAX_ONLINE_DEVICE_SIZE + 1
     \<and> os_ok (ctx_realTimeOnLineNetworkIdSet c) \<and> os_ok (ctx_connectedDevIds c)
     \<and> om_ok (ctx_onlineDevTypeMap c) \<and> om_ok (ctx_onlineDevOSTypeMap c))"

text \<open>The operations that change the context, as steps.\<close>

inductive ctx_step :: "platform \<Rightarrow> DHContext \<Rightarrow> DHContext \<Rightarrow> bool" for P where
  "ctx_step P c (snd (GetDeviceInfo P c))"
| "ctx_step P c (AddOnlineDevice P udid uuid networkId c)"
| "ctx_step P c (RemoveOnlineDeviceIdEntryByNetworkId networkId c)"
| "ctx_step P c (AddRealTimeOnlineDeviceNetworkId networkId c)"
| "ctx_step P c (DeleteRealTimeOnlineDeviceNetworkId networkId c)"
| "ctx_step P c (AddIsomerismConnectDev d c)"
| "ctx_step P c (DelIsomerismConnectDev d c)"
| "ctx_step P c (AddOnlineDeviceType networkId t c)"
| "ctx_step P c (DeleteOnlineDeviceType networkId c)"
| "ctx_step P c (AddOnlineDeviceOSType networkId t' c)"
| "ctx_step P c (DeleteOnlineDeviceOSType networkId c)"
| "ctx_step P c (snd (IsDoubleFwkDevice networkId c))"

inductive ctx_reach :: "platform \<Rightarrow> DHContext \<Rightarrow> bool" for P where
  ctx_reach_init: "ctx_reach P DHContext_init"
| ctx_reach_step: "ctx_reach P c \<Longrightarrow> ctx_step P c c' \<Longrightarrow> ctx_reach P c'"

lemma set_erase_first: "set (erase_first Q xs) \<subseteq> set xs"
  by (induction xs) auto

lemma length_erase_first: "length (erase_first Q xs) \<le> length xs"
  by (induction xs) auto

lemma os_ok_erase_first [om_intros]: "os_ok xs \<Longrightarrow> os_ok (erase_first Q xs)"
proof (induction xs)
  case (Cons x xs)
  then show ?case
    using set_erase_first[of Q xs] by (auto simp: os_ok_def)
qed simp

lemma erase_first_keeps: "x \<in> set xs \<Longrightarrow> \<not> Q x \<Longrightarrow> x \<in> set (erase_first Q xs)"
  by (induction xs) auto

lemma erase_first_none:
  "(\<And>x y. x \<in> set xs \<Longrightarrow> y \<in> set xs \<Longrightarrow> Q x \<Longrightarrow> Q y \<Longrightarrow> x = y) \<Longrightarrow> distinct xs \<Longrightarrow>
   x \<in> set (erase_first Q xs) \<Longrightarrow> \<not> Q x"
proof (induction xs)
  case (Cons a xs)
  show ?case
  proof (cases "Q a")
    case True
    then show ?thesis using Cons.prems(1)[of a x] Cons.prems(2,3) by auto
  next
    case False
    show ?thesis
    proof (cases "x = a")
      case False
      with \<open>\<not> Q a\<close> have "x \<in> set (erase_first Q xs)" using Cons.prems(3) by simp
      then show ?thesis
        using Cons.IH Cons.prems(1,2) by (metis distinct.simps(2) list.set_intros(2))
    qed (use \<open>\<not> Q a\<close> in simp)
  qed
qed simp

lemma ctx_ok_init: "ctx_ok P DHContext_init"
  by (simp add: ctx_ok_def DHContext_init_def)

lemma list_all_erase_first: "list_all Q xs \<Longrightarrow> list_all Q (erase_first R xs)"
  using set_erase_first[of R xs] by (auto simp: list_all_iff)

lemma AddOnlineDevice_ok:
  assumes "ctx_ok P c"
  shows "ctx_ok P (AddOnlineDevice P udid uuid networkId c)"
  using assms
  by (auto simp: ctx_ok_def AddOnlineDevice_def Let_def list_all_iff entry_ok_def om_intros
      intro: order_trans[OF length_os_ins])

lemma RemoveOnline_ok:
  assumes "ctx_ok P c"
  shows "ctx_ok P (RemoveOnlineDeviceIdEntryByNetworkId networkId c)"
  using assms length_erase_first[of _ "ctx_devIdEntrySet c"]
  by (auto simp: ctx_ok_def RemoveOnlineDeviceIdEntryByNetworkId_def list_all_erase_first om_intros
      intro: order_trans)

lemma ctx_step_ok: "ctx_step P c c' \<Longrightarrow> ctx_ok P c \<Longrightarrow> ctx_ok P c'"
proof (induction rule: ctx_step.induct)
  case (2 c udid uuid networkId)
  then show ?case by (simp add: AddOnlineDevice_ok)
next
  case (3 c networkId)
  then show ?case by (simp add: RemoveOnline_ok)
qed (auto simp: ctx_ok_def GetDeviceInfo_def Let_def AddRealTimeOnlineDeviceNetworkId_def
    DeleteRealTimeOnlineDeviceNetworkId_def AddIsomerismConnectDev_def DelIsomerismConnectDev_def
    AddOnlineDeviceType_def DeleteOnlineDeviceType_def AddOnlineDeviceOSType_def
    DeleteOnlineDeviceOSType_def IsDoubleFwkDevice_def om_intros split: option.splits)

lemma ctx_reach_ok: "ctx_reach P c \<Longrightarrow> ctx_ok P c"
  by (induction rule: ctx_reach.induct) (auto intro: ctx_ok_init ctx_step_ok)

section \<open>Lookups\<close>

lemma first_entry_hit:
  assumes "e \<in> set (ctx_devIdEntrySet c)" "hit e"
    and "\<And>e'. e' \<in> set (ctx_devIdEntrySet c) \<Longrightarrow> hit e' \<Longrightarrow> out e' = out e"
  shows "first_entry hit out c = out e"
  using find_Some_ex[of e _ hit, OF assms(1,2)] find_Some_in[of hit] assms(3)
  by (auto simp: first_entry_def)

lemma first_entry_miss:
  assumes "\<And>e. e \<in> set (ctx_devIdEntrySet c) \<Longrightarrow> \<not> hit e"
  shows "first_entry hit out c = []"
  using find_Some_in[of hit "ctx_devIdEntrySet c"] assms by (auto simp: first_entry_def split: option.splits)

lemma first_entry_cases:
  obtains (miss) "first_entry hit out c = []" "\<And>e. e \<in> set (ctx_devIdEntrySet c) \<Longrightarrow> \<not> hit e"
    | (hit) e where "e \<in> set (ctx_devIdEntrySet c)" "hit e" "first_entry hit out c = out e"
proof (cases "find hit (ctx_devIdEntrySet c)")
  case None
  then have "first_entry hit out c = []" "\<And>e. e \<in> set (ctx_devIdEntrySet c) \<Longrightarrow> \<not> hit e"
    using find_None_iff[of hit "ctx_devIdEntrySet c"] by (auto simp: first_entry_def)
  then show ?thesis by (rule miss)
next
  case (Some e)
  then show ?thesis using hit find_Some_in[OF Some] by (auto simp: first_entry_def)
qed

lemmas ctx_getters =
  GetNetworkIdByUUID_def GetNetworkIdByUDID_def GetUdidHashIdByUUID_def GetUUIDByNetworkId_def
  GetUDIDByNetworkId_def GetUUIDByDeviceId_def GetNetworkIdByDeviceId_def GetDeviceIdByNetworkId_def

lemma IsDeviceOnline_iff:
  "IsDeviceOnline uuid c \<longleftrightarrow> IsIdLengthValid uuid \<and> (\<exists>e \<in> set (ctx_devIdEntrySet c). de_uuid e = uuid)"
  by (auto simp: IsDeviceOnline_def list_ex_iff)

lemma AddOnlineDevice_set:
  assumes "IsIdLengthValid udid" "IsIdLengthValid uuid" "IsIdLengthValid networkId"
    and "length (ctx_devIdEntrySet c) \<le> MAX_ONLINE_DEVICE_SIZE"
  shows "set (ctx_devIdEntrySet (AddOnlineDevice P udid uuid networkId c)) =
    insert (DeviceIdEntry networkId uuid (sha P uuid) udid (sha P udid)) (set (ctx_devIdEntrySet c))"
  using assms by (simp add: AddOnlineDevice_def)

lemma prefix_of_hashed_key:
  assumes "length (pf_digest P uuid) = 32" "length dhId \<le> 189"
  shows "GetDeviceIdByDBGetPrefix (sha P uuid @ RESOURCE_SEPARATOR @ dhId) = sha P uuid"
proof -
  let ?s = "sha P uuid"
  have len: "length ?s = 64" using assms by simp
  have nh: "\<forall>c \<in> set ?s. c \<noteq> CHR ''#''"
    using Sha256_chars hash_not_hex by blast
  have f: "str_find RESOURCE_SEPARATOR (?s @ RESOURCE_SEPARATOR @ dhId) = Some (length ?s)"
    by (rule str_find_skip) (use nh in \<open>auto simp: RESOURCE_SEPARATOR_def\<close>)
  have g: "str_find_first_of RESOURCE_SEPARATOR (?s @ RESOURCE_SEPARATOR @ dhId) = Some (length ?s)"
    using str_find_first_of_skip[of ?s RESOURCE_SEPARATOR "CHR ''#''" "''##'' @ dhId"] nh
    by (simp add: RESOURCE_SEPARATOR_def)
  have v: "IsIdLengthValid (?s @ RESOURCE_SEPARATOR @ dhId)"
    using len assms(2) by (simp add: IsIdLengthValid_def RESOURCE_SEPARATOR_def)
  have ne: "?s \<noteq> []" using len by (metis length_0_conv zero_neq_numeral)
  show ?thesis
    using v ne f g by (simp add: GetDeviceIdByDBGetPrefix_def)
qed

end
