(* ===== verification/Capability.thy ===== *)
theory Capability
  imports Complex_Main Dh_Context
begin

text \<open>
  The data of the resource manager: \<open>CapabilityInfo\<close>, \<open>MetaCapabilityInfo\<close> (which extends it),
  \<open>CompVersion\<close>, \<open>VersionInfo\<close> and \<open>DHVersion\<close>, their database keys, comparison and JSON form
  (\<open>capability_info.cpp\<close>, \<open>meta_capability_info.cpp\<close>, \<open>version_info.cpp\<close>, \<open>capability_utils.{h,cpp}\<close>).

  The cJSON library is a parameter: a record of the calls the code makes, over an abstract type of
  trees.  What the round trips need of it is the predicate \<open>cJSON_laws\<close> of the theory
  \<open>Json_Properties\<close>.
\<close>

section \<open>Data\<close>

record CapabilityInfo =
  ci_dhId :: string
  ci_deviceId :: string
  ci_deviceName :: string
  ci_deviceType :: "16 word"
  ci_dhType :: DHType
  ci_dhAttrs :: string
  ci_dhSubtype :: string

record CompVersion =
  cv_name :: string
  cv_dhType :: DHType
  cv_handlerVersion :: string
  cv_sourceVersion :: string
  cv_sinkVersion :: string
  cv_haveFeature :: bool
  cv_sourceFeatureFilters :: "string list"
  cv_sinkSupportedFeatures :: "string list"

record MetaCapabilityInfo = CapabilityInfo +
  ci_udidHash :: string
  ci_compVersion :: CompVersion

record VersionInfo =
  vi_deviceId :: string
  vi_dhVersion :: string
  vi_compVersions :: "(DHType, CompVersion) omap"

record DHVersion =
  dv_uuid :: string
  dv_dhVersion :: string
  dv_compVersions :: "(DHType, CompVersion) omap"

definition CapabilityInfo_default :: CapabilityInfo where
  "CapabilityInfo_default = \<lparr>ci_dhId = [], ci_deviceId = [], ci_deviceName = [], ci_deviceType = 0,
     ci_dhType = DHType_UNKNOWN, ci_dhAttrs = [], ci_dhSubtype = []\<rparr>"

definition CompVersion_default :: CompVersion where
  "CompVersion_default = \<lparr>cv_name = [], cv_dhType = DHType_UNKNOWN, cv_handlerVersion = [],
     cv_sourceVersion = [], cv_sinkVersion = [], cv_haveFeature = False,
     cv_sourceFeatureFilters = [], cv_sinkSupportedFeatures = []\<rparr>"

definition MetaCapabilityInfo_default :: MetaCapabilityInfo where
  "MetaCapabilityInfo_default = \<lparr>ci_dhId = [], ci_deviceId = [], ci_deviceName = [], ci_deviceType = 0,
     ci_dhType = DHType_UNKNOWN, ci_dhAttrs = [], ci_dhSubtype = [], ci_udidHash = [],
     ci_compVersion = CompVersion_default\<rparr>"

definition VersionInfo_default :: VersionInfo where
  "VersionInfo_default = \<lparr>vi_deviceId = [], vi_dhVersion = [], vi_compVersions = []\<rparr>"

section \<open>Keys\<close>

definition CapabilityInfo_GetKey :: "'a CapabilityInfo_scheme \<Rightarrow> string" where
  "CapabilityInfo_GetKey c = [] @ ci_deviceId c @ RESOURCE_SEPARATOR @ ci_dhId c"

definition CapabilityInfo_GetAnonymousKey :: "'a CapabilityInfo_scheme \<Rightarrow> string" where
  "CapabilityInfo_GetAnonymousKey c =
    GetAnonyString (ci_deviceId c) @ RESOURCE_SEPARATOR @ GetAnonyString (ci_dhId c)"

definition MetaCapabilityInfo_GetKey :: "MetaCapabilityInfo \<Rightarrow> string" where
  "MetaCapabilityInfo_GetKey c = [] @ ci_udidHash c @ RESOURCE_SEPARATOR @ ci_dhId c"

definition MetaCapabilityInfo_GetAnonymousKey :: "MetaCapabilityInfo \<Rightarrow> string" where
  "MetaCapabilityInfo_GetAnonymousKey c =
    GetAnonyString (ci_udidHash c) @ RESOURCE_SEPARATOR @ GetAnonyString (ci_dhId c)"

definition GetCapabilityKey :: "string \<Rightarrow> string \<Rightarrow> string" where
  "GetCapabilityKey devId i = devId @ RESOURCE_SEPARATOR @ i"

definition IsCapKeyMatchDeviceId :: "string \<Rightarrow> string \<Rightarrow> bool" where
  "IsCapKeyMatchDeviceId key devId =
    (if \<not> IsIdLengthValid key \<or> \<not> IsIdLengthValid devId then False
     else case str_find RESOURCE_SEPARATOR key of
       None \<Rightarrow> False
     | Some separatorPos \<Rightarrow> take separatorPos key = devId)"

section \<open>Comparison\<close>

text \<open>A C string ends at its first zero byte, and \<open>strcmp\<close> compares what comes before it.\<close>

definition c_str :: "string \<Rightarrow> string" where
  "c_str s = takeWhile (\<lambda>c. c \<noteq> CHR 0x00) s"

definition CapabilityInfo_Compare :: "'a CapabilityInfo_scheme \<Rightarrow> 'b CapabilityInfo_scheme \<Rightarrow> bool" where
  "CapabilityInfo_Compare a b =
    (if c_str (ci_deviceId a) \<noteq> c_str (ci_deviceId b) then False
     else if c_str (ci_dhId a) \<noteq> c_str (ci_dhId b) then False
     else if c_str (ci_deviceName a) \<noteq> c_str (ci_deviceName b) then False
     else if ci_deviceType a \<noteq> ci_deviceType b then False
     else if ci_dhType a \<noteq> ci_dhType b then False
     else if c_str (ci_dhAttrs a) \<noteq> c_str (ci_dhAttrs b) then False
     else if c_str (ci_dhSubtype a) \<noteq> c_str (ci_dhSubtype b) then False
     else True)"

definition MetaCapabilityInfo_Compare :: "MetaCapabilityInfo \<Rightarrow> MetaCapabilityInfo \<Rightarrow> bool" where
  "MetaCapabilityInfo_Compare a b =
    (if c_str (ci_deviceId a) \<noteq> c_str (ci_deviceId b) then False
     else if c_str (ci_dhId a) \<noteq> c_str (ci_dhId b) then False
     else if c_str (ci_deviceName a) \<noteq> c_str (ci_deviceName b) then False
     else if ci_deviceType a \<noteq> ci_deviceType b then False
     else if ci_dhType a \<noteq> ci_dhType b then False
     else if c_str (ci_dhAttrs a) \<noteq> c_str (ci_dhAttrs b) then False
     else if c_str (ci_dhSubtype a) \<noteq> c_str (ci_dhSubtype b) then False
     else if c_str (ci_udidHash a) \<noteq> c_str (ci_udidHash b) then False
     else if c_str (cv_sinkVersion (ci_compVersion a)) \<noteq> c_str (cv_sinkVersion (ci_compVersion b)) then False
     else True)"

section \<open>The JSON library\<close>

record 'j cJSON =
  cJSON_Parse :: "string \<Rightarrow> 'j option"
  cJSON_PrintUnformatted :: "'j \<Rightarrow> string option"
  cJSON_GetObjectItem :: "'j \<Rightarrow> string \<Rightarrow> 'j option"
  cJSON_GetObjectItemCaseSensitive :: "'j \<Rightarrow> string \<Rightarrow> 'j option"
  cJSON_IsString :: "'j \<Rightarrow> bool"
  cJSON_IsNumber :: "'j \<Rightarrow> bool"
  cJSON_IsArray :: "'j \<Rightarrow> bool"
  cJSON_IsBool :: "'j \<Rightarrow> bool"
  cJSON_IsTrue :: "'j \<Rightarrow> bool"
  cj_valuestring :: "'j \<Rightarrow> string"
  cj_valueint :: "'j \<Rightarrow> int"
  cj_valuedouble :: "'j \<Rightarrow> real"
  cj_items :: "'j \<Rightarrow> 'j list"
  cJSON_CreateObject :: "'j option"
  cJSON_CreateArray :: "'j option"
  cJSON_CreateString :: "string \<Rightarrow> 'j"
  cJSON_AddStringToObject :: "'j \<Rightarrow> string \<Rightarrow> string \<Rightarrow> 'j"
  cJSON_AddNumberToObject :: "'j \<Rightarrow> string \<Rightarrow> real \<Rightarrow> 'j"
  cJSON_AddBoolToObject :: "'j \<Rightarrow> string \<Rightarrow> bool \<Rightarrow> 'j"
  cJSON_AddItemToObject :: "'j \<Rightarrow> string \<Rightarrow> 'j \<Rightarrow> 'j"
  cJSON_AddItemToArray :: "'j \<Rightarrow> 'j \<Rightarrow> 'j"

definition IsUInt16 :: "'j cJSON \<Rightarrow> 'j option \<Rightarrow> bool" where
  "IsUInt16 J jo = (case jo of None \<Rightarrow> False | Some j \<Rightarrow>
     if \<not> cJSON_IsNumber J j then False else 0 \<le> cj_valueint J j \<and> cj_valueint J j \<le> 65535)"

definition IsInt32 :: "'j cJSON \<Rightarrow> 'j option \<Rightarrow> bool" where
  "IsInt32 J jo = (case jo of None \<Rightarrow> False | Some j \<Rightarrow>
     if \<not> cJSON_IsNumber J j then False
     else - 2147483648 \<le> cj_valueint J j \<and> cj_valueint J j \<le> 2147483647)"

text \<open>The upper bound of \<open>IsUInt32\<close> is \<open>INT32_MAX\<close> in the code.\<close>

definition IsUInt32 :: "'j cJSON \<Rightarrow> 'j option \<Rightarrow> bool" where
  "IsUInt32 J jo = (case jo of None \<Rightarrow> False | Some j \<Rightarrow>
     if \<not> cJSON_IsNumber J j then False else 0 \<le> cj_valueint J j \<and> cj_valueint J j \<le> 2147483647)"

definition IsString :: "'j cJSON \<Rightarrow> 'j option \<Rightarrow> bool" where
  "IsString J jo = (case jo of None \<Rightarrow> False | Some j \<Rightarrow>
     if \<not> cJSON_IsString J j then False
     else 0 < length (cj_valuestring J j) \<and> length (cj_valuestring J j) \<le> MAX_MESSAGE_LEN)"

definition IsArray :: "'j cJSON \<Rightarrow> 'j option \<Rightarrow> bool" where
  "IsArray J jo = (case jo of None \<Rightarrow> False | Some j \<Rightarrow>
     if \<not> cJSON_IsArray J j then False else length (cj_items J j) \<le> MAX_ARR_SIZE)"

text \<open>The member of an object as a string, and as a number; only read after a check passed.\<close>

definition item_str :: "'j cJSON \<Rightarrow> 'j option \<Rightarrow> string" where
  "item_str J jo = (case jo of None \<Rightarrow> [] | Some j \<Rightarrow> cj_valuestring J j)"

definition item_int :: "'j cJSON \<Rightarrow> 'j option \<Rightarrow> int" where
  "item_int J jo = (case jo of None \<Rightarrow> 0 | Some j \<Rightarrow> cj_valueint J j)"

definition DH_ID :: string where "DH_ID = ''dh_id''"
definition DEV_ID :: string where "DEV_ID = ''dev_id''"
definition DEV_NAME :: string where "DEV_NAME = ''dev_name''"
definition DEV_TYPE :: string where "DEV_TYPE = ''dev_type''"
definition DH_TYPE :: string where "DH_TYPE = ''dh_type''"
definition DH_ATTRS :: string where "DH_ATTRS = ''dh_attrs''"
definition DH_SUBTYPE :: string where "DH_SUBTYPE = ''dh_subtype''"
definition DEV_UDID_HASH :: string where "DEV_UDID_HASH = ''udid_hash''"
definition DH_VER :: string where "DH_VER = ''dh_ver''"
definition COMP_VER :: string where "COMP_VER = ''comp_ver''"
definition NAME :: string where "NAME = ''name''"
definition JSON_TYPE :: string where "JSON_TYPE = ''type''"
definition HANDLER :: string where "HANDLER = ''handler''"
definition SOURCE_VER :: string where "SOURCE_VER = ''source_ver''"
definition SINK_VER :: string where "SINK_VER = ''sink_ver''"
definition SOURCE_FEATURE_FILTER :: string where "SOURCE_FEATURE_FILTER = ''source_feature_filter''"
definition SINK_SUPPORTED_FEATURE :: string where "SINK_SUPPORTED_FEATURE = ''sink_supported_feature''"

lemmas json_names =
  DH_ID_def DEV_ID_def DEV_NAME_def DEV_TYPE_def DH_TYPE_def DH_ATTRS_def DH_SUBTYPE_def
  DEV_UDID_HASH_def DH_VER_def COMP_VER_def NAME_def JSON_TYPE_def HANDLER_def SOURCE_VER_def
  SINK_VER_def SOURCE_FEATURE_FILTER_def SINK_SUPPORTED_FEATURE_def

section \<open>Writing JSON\<close>

abbreviation real_of_word :: "'l::len word \<Rightarrow> real" where
  "real_of_word w \<equiv> real (unat w)"

definition CapabilityInfo_ToJson :: "'j cJSON \<Rightarrow> 'j \<Rightarrow> CapabilityInfo \<Rightarrow> 'j" where
  "CapabilityInfo_ToJson J o0 c =
    (let o1 = cJSON_AddStringToObject J o0 DH_ID (c_str (ci_dhId c));
         o2 = cJSON_AddStringToObject J o1 DEV_ID (c_str (ci_deviceId c));
         o3 = cJSON_AddStringToObject J o2 DEV_NAME (c_str (ci_deviceName c));
         o4 = cJSON_AddNumberToObject J o3 DEV_TYPE (real_of_word (ci_deviceType c));
         o5 = cJSON_AddNumberToObject J o4 DH_TYPE (real_of_word (ci_dhType c));
         o6 = cJSON_AddStringToObject J o5 DH_ATTRS (c_str (ci_dhAttrs c))
     in cJSON_AddStringToObject J o6 DH_SUBTYPE (c_str (ci_dhSubtype c)))"

definition CapabilityInfo_ToJsonString :: "'j cJSON \<Rightarrow> CapabilityInfo \<Rightarrow> string" where
  "CapabilityInfo_ToJsonString J c =
    (case cJSON_CreateObject J of
       None \<Rightarrow> []
     | Some o0 \<Rightarrow>
        (case cJSON_PrintUnformatted J (CapabilityInfo_ToJson J o0 c) of None \<Rightarrow> [] | Some s \<Rightarrow> s))"

definition CompVersion_ToJson :: "'j cJSON \<Rightarrow> 'j \<Rightarrow> CompVersion \<Rightarrow> 'j" where
  "CompVersion_ToJson J o0 v =
    (let o1 = cJSON_AddStringToObject J o0 NAME (c_str (cv_name v));
         o2 = cJSON_AddNumberToObject J o1 JSON_TYPE (real_of_word (cv_dhType v));
         o3 = cJSON_AddStringToObject J o2 HANDLER (c_str (cv_handlerVersion v));
         o4 = cJSON_AddStringToObject J o3 SOURCE_VER (c_str (cv_sourceVersion v));
         o5 = cJSON_AddStringToObject J o4 SINK_VER (c_str (cv_sinkVersion v))
     in if cv_haveFeature v then
          (case cJSON_CreateArray J of
             None \<Rightarrow> o5
           | Some a \<Rightarrow>
              (case cJSON_CreateArray J of
                 None \<Rightarrow> o5
               | Some b \<Rightarrow>
                   let a' = fold (\<lambda>f arr. cJSON_AddItemToArray J arr (cJSON_CreateString J (c_str f)))
                              (cv_sourceFeatureFilters v) a;
                       o6 = cJSON_AddItemToObject J o5 SOURCE_FEATURE_FILTER a';
                       b' = fold (\<lambda>f arr. cJSON_AddItemToArray J arr (cJSON_CreateString J (c_str f)))
                              (cv_sinkSupportedFeatures v) b
                   in cJSON_AddItemToObject J o6 SINK_SUPPORTED_FEATURE b'))
        else o5)"

definition MetaCapabilityInfo_ToJson :: "'j cJSON \<Rightarrow> 'j \<Rightarrow> MetaCapabilityInfo \<Rightarrow> 'j" where
  "MetaCapabilityInfo_ToJson J o0 c =
    (let o1 = cJSON_AddStringToObject J o0 DH_ID (c_str (ci_dhId c));
         o2 = cJSON_AddStringToObject J o1 DEV_ID (c_str (ci_deviceId c));
         o3 = cJSON_AddStringToObject J o2 DEV_NAME (c_str (ci_deviceName c));
         o4 = cJSON_AddNumberToObject J o3 DEV_TYPE (real_of_word (ci_deviceType c));
         o5 = cJSON_AddNumberToObject J o4 DH_TYPE (real_of_word (ci_dhType c));
         o6 = cJSON_AddStringToObject J o5 DH_ATTRS (c_str (ci_dhAttrs c));
         o7 = cJSON_AddStringToObject J o6 DH_SUBTYPE (c_str (ci_dhSubtype c));
         o8 = cJSON_AddStringToObject J o7 DEV_UDID_HASH (c_str (ci_udidHash c));
         o9 = cJSON_AddStringToObject J o8 SINK_VER (c_str (cv_sinkVersion (ci_compVersion c)))
     in case cJSON_CreateObject J of
          None \<Rightarrow> o9
        | Some v0 \<Rightarrow> cJSON_AddItemToObject J o9 COMP_VER (CompVersion_ToJson J v0 (ci_compVersion c)))"

definition MetaCapabilityInfo_ToJsonString :: "'j cJSON \<Rightarrow> MetaCapabilityInfo \<Rightarrow> string" where
  "MetaCapabilityInfo_ToJsonString J c =
    (case cJSON_CreateObject J of
       None \<Rightarrow> []
     | Some o0 \<Rightarrow>
        (case cJSON_PrintUnformatted J (MetaCapabilityInfo_ToJson J o0 c) of None \<Rightarrow> [] | Some s \<Rightarrow> s))"

text \<open>The loop of \<open>ToJson(VersionInfo)\<close>: None when an object could not be created.\<close>

fun VersionInfo_compVers :: "'j cJSON \<Rightarrow> (DHType, CompVersion) omap \<Rightarrow> 'j \<Rightarrow> 'j option" where
  "VersionInfo_compVers J [] arr = Some arr"
| "VersionInfo_compVers J ((t, v) # m) arr =
    (case cJSON_CreateObject J of
       None \<Rightarrow> None
     | Some o0 \<Rightarrow> VersionInfo_compVers J m (cJSON_AddItemToArray J arr (CompVersion_ToJson J o0 v)))"

definition VersionInfo_ToJson :: "'j cJSON \<Rightarrow> 'j \<Rightarrow> VersionInfo \<Rightarrow> 'j" where
  "VersionInfo_ToJson J o0 i =
    (let o1 = cJSON_AddStringToObject J o0 DEV_ID (c_str (vi_deviceId i));
         o2 = cJSON_AddStringToObject J o1 DH_VER (c_str (vi_dhVersion i))
     in case cJSON_CreateArray J of
          None \<Rightarrow> o2
        | Some arr \<Rightarrow>
           (case VersionInfo_compVers J (vi_compVersions i) arr of
              None \<Rightarrow> o2
            | Some arr' \<Rightarrow> cJSON_AddItemToObject J o2 COMP_VER arr'))"

definition VersionInfo_ToJsonString :: "'j cJSON \<Rightarrow> VersionInfo \<Rightarrow> string" where
  "VersionInfo_ToJsonString J i =
    (case cJSON_CreateObject J of
       None \<Rightarrow> []
     | Some o0 \<Rightarrow>
        (case cJSON_PrintUnformatted J (VersionInfo_ToJson J o0 i) of None \<Rightarrow> [] | Some s \<Rightarrow> s))"

section \<open>Reading JSON\<close>

definition CapabilityInfo_FromJson :: "'j cJSON \<Rightarrow> 'j \<Rightarrow> CapabilityInfo \<Rightarrow> CapabilityInfo" where
  "CapabilityInfo_FromJson J jo c0 =
    (let g = cJSON_GetObjectItem J jo in
     if \<not> IsString J (g DH_ID) then c0
     else let c1 = c0\<lparr>ci_dhId := item_str J (g DH_ID)\<rparr> in
     if \<not> IsString J (g DEV_ID) then c1
     else let c2 = c1\<lparr>ci_deviceId := item_str J (g DEV_ID)\<rparr> in
     if \<not> IsString J (g DEV_NAME) then c2
     else let c3 = c2\<lparr>ci_deviceName := item_str J (g DEV_NAME)\<rparr> in
     if \<not> IsUInt16 J (g DEV_TYPE) then c3
     else let c4 = c3\<lparr>ci_deviceType := word_of_int (item_int J (g DEV_TYPE))\<rparr> in
     if \<not> IsUInt32 J (g DH_TYPE) then c4
     else let c5 = c4\<lparr>ci_dhType := word_of_int (item_int J (g DH_TYPE))\<rparr> in
     if \<not> IsString J (g DH_ATTRS) then c5
     else let c6 = c5\<lparr>ci_dhAttrs := item_str J (g DH_ATTRS)\<rparr> in
     if \<not> IsString J (g DH_SUBTYPE) then c6
     else c6\<lparr>ci_dhSubtype := item_str J (g DH_SUBTYPE)\<rparr>)"

definition CapabilityInfo_FromJsonString :: "'j cJSON \<Rightarrow> string \<Rightarrow> CapabilityInfo \<Rightarrow> int \<times> CapabilityInfo" where
  "CapabilityInfo_FromJsonString J jsonStr c =
    (if \<not> IsJsonLengthValid jsonStr then (ERR_DH_FWK_PARA_INVALID, c)
     else case cJSON_Parse J (c_str jsonStr) of
       None \<Rightarrow> (ERR_DH_FWK_JSON_PARSE_FAILED, c)
     | Some jo \<Rightarrow> (DH_FWK_SUCCESS, CapabilityInfo_FromJson J jo c))"

definition string_items :: "'j cJSON \<Rightarrow> 'j option \<Rightarrow> string list" where
  "string_items J jo = (case jo of None \<Rightarrow> []
     | Some j \<Rightarrow> map (cj_valuestring J) (filter (cJSON_IsString J) (cj_items J j)))"

definition FromJsoncompVerContinue :: "'j cJSON \<Rightarrow> 'j \<Rightarrow> CompVersion \<Rightarrow> CompVersion" where
  "FromJsoncompVerContinue J jo v =
    (let src = cJSON_GetObjectItem J jo SOURCE_FEATURE_FILTER;
         snk = cJSON_GetObjectItem J jo SINK_SUPPORTED_FEATURE
     in if \<not> IsArray J src \<and> \<not> IsArray J snk then v\<lparr>cv_haveFeature := False\<rparr>
        else
          let v1 = v\<lparr>cv_haveFeature := True\<rparr>;
              v2 = (if IsArray J src then v1\<lparr>cv_sourceFeatureFilters := string_items J src\<rparr> else v1)
          in if IsArray J snk then v2\<lparr>cv_sinkSupportedFeatures := string_items J snk\<rparr> else v2)"

definition CompVersion_FromJson :: "'j cJSON \<Rightarrow> 'j \<Rightarrow> CompVersion \<Rightarrow> CompVersion" where
  "CompVersion_FromJson J jo v0 =
    (let g = cJSON_GetObjectItem J jo;
         v1 = (if IsString J (g NAME) then v0\<lparr>cv_name := item_str J (g NAME)\<rparr> else v0);
         v2 = (if IsUInt32 J (g JSON_TYPE) \<and> (word_of_int (item_int J (g JSON_TYPE)) :: DHType) \<le> DHType_MAX_DH
               then v1\<lparr>cv_dhType := word_of_int (item_int J (g JSON_TYPE))\<rparr> else v1);
         v3 = (if IsString J (g HANDLER) then v2\<lparr>cv_handlerVersion := item_str J (g HANDLER)\<rparr> else v2);
         v4 = (if IsString J (g SOURCE_VER) then v3\<lparr>cv_sourceVersion := item_str J (g SOURCE_VER)\<rparr> else v3);
         v5 = (if IsString J (g SINK_VER) then v4\<lparr>cv_sinkVersion := item_str J (g SINK_VER)\<rparr> else v4)
     in FromJsoncompVerContinue J jo v5)"

definition MetaCapabilityInfo_FromJsonContinue ::
    "'j cJSON \<Rightarrow> 'j \<Rightarrow> MetaCapabilityInfo \<Rightarrow> MetaCapabilityInfo" where
  "MetaCapabilityInfo_FromJsonContinue J jo c0 =
    (let g = cJSON_GetObjectItem J jo in
     if \<not> IsString J (g DH_SUBTYPE) then c0
     else let c1 = c0\<lparr>ci_dhSubtype := item_str J (g DH_SUBTYPE)\<rparr> in
     if \<not> IsString J (g DEV_UDID_HASH) then c1
     else let c2 = c1\<lparr>ci_udidHash := item_str J (g DEV_UDID_HASH)\<rparr> in
     if \<not> IsString J (g SINK_VER) then c2
     else let c3 = c2\<lparr>ci_compVersion := (ci_compVersion c2)\<lparr>cv_sinkVersion := item_str J (g SINK_VER)\<rparr>\<rparr> in
     case g COMP_VER of
       None \<Rightarrow> c3
     | Some v \<Rightarrow> c3\<lparr>ci_compVersion := CompVersion_FromJson J v (ci_compVersion c3)\<rparr>)"

definition MetaCapabilityInfo_FromJson ::
    "'j cJSON \<Rightarrow> 'j \<Rightarrow> MetaCapabilityInfo \<Rightarrow> MetaCapabilityInfo" where
  "MetaCapabilityInfo_FromJson J jo c0 =
    (let g = cJSON_GetObjectItem J jo in
     if \<not> IsString J (g DH_ID) then c0
     else let c1 = c0\<lparr>ci_dhId := item_str J (g DH_ID)\<rparr> in
     if \<not> IsString J (g DEV_ID) then c1
     else let c2 = c1\<lparr>ci_deviceId := item_str J (g DEV_ID)\<rparr> in
     if \<not> IsString J (g DEV_NAME) then c2
     else let c3 = c2\<lparr>ci_deviceName := item_str J (g DEV_NAME)\<rparr> in
     if \<not> IsUInt16 J (g DEV_TYPE) then c3
     else let c4 = c3\<lparr>ci_deviceType := word_of_int (item_int J (g DEV_TYPE))\<rparr> in
     if \<not> IsUInt32 J (g DH_TYPE) then c4
     else let c5 = c4\<lparr>ci_dhType := word_of_int (item_int J (g DH_TYPE))\<rparr> in
     if \<not> IsString J (g DH_ATTRS) then c5
     else let c6 = c5\<lparr>ci_dhAttrs := item_str J (g DH_ATTRS)\<rparr> in
     MetaCapabilityInfo_FromJsonContinue J jo c6)"

definition MetaCapabilityInfo_FromJsonString ::
    "'j cJSON \<Rightarrow> string \<Rightarrow> MetaCapabilityInfo \<Rightarrow> int \<times> MetaCapabilityInfo" where
  "MetaCapabilityInfo_FromJsonString J jsonStr c =
    (if \<not> IsJsonLengthValid jsonStr then (ERR_DH_FWK_PARA_INVALID, c)
     else case cJSON_Parse J (c_str jsonStr) of
       None \<Rightarrow> (ERR_DH_FWK_JSON_PARSE_FAILED, c)
     | Some jo \<Rightarrow> (DH_FWK_SUCCESS, MetaCapabilityInfo_FromJson J jo c))"

text \<open>
  A local \<open>CompVersion\<close> is default-initialised, which leaves its \<open>dhType\<close> undetermined; \<open>junk\<close> is the
  value found there.
\<close>

definition VersionInfo_FromJson :: "'j cJSON \<Rightarrow> DHType \<Rightarrow> 'j \<Rightarrow> VersionInfo \<Rightarrow> VersionInfo" where
  "VersionInfo_FromJson J junk jo i0 =
    (let g = cJSON_GetObjectItem J jo;
         i1 = (if IsString J (g DEV_ID) then i0\<lparr>vi_deviceId := item_str J (g DEV_ID)\<rparr> else i0);
         i2 = (if IsString J (g DH_VER) then i1\<lparr>vi_dhVersion := item_str J (g DH_VER)\<rparr> else i1)
     in if IsArray J (g COMP_VER)
        then i2\<lparr>vi_compVersions :=
               fold (\<lambda>vj m. let v = CompVersion_FromJson J vj (CompVersion_default\<lparr>cv_dhType := junk\<rparr>)
                            in om_emplace (cv_dhType v) v m)
                    (case g COMP_VER of None \<Rightarrow> [] | Some a \<Rightarrow> cj_items J a) (vi_compVersions i2)\<rparr>
        else i2)"

definition VersionInfo_FromJsonString :: "'j cJSON \<Rightarrow> DHType \<Rightarrow> string \<Rightarrow> VersionInfo \<Rightarrow> int \<times> VersionInfo" where
  "VersionInfo_FromJsonString J junk jsonStr i =
    (if \<not> IsJsonLengthValid jsonStr then (ERR_DH_FWK_PARA_INVALID, i)
     else case cJSON_Parse J (c_str jsonStr) of
       None \<Rightarrow> (ERR_DH_FWK_JSON_PARSE_FAILED, i)
     | Some jo \<Rightarrow> (DH_FWK_SUCCESS, VersionInfo_FromJson J junk jo i))"

section \<open>Values of the database\<close>

definition GetCapabilityByValue :: "'j cJSON \<Rightarrow> string \<Rightarrow> CapabilityInfo option \<Rightarrow> int \<times> CapabilityInfo" where
  "GetCapabilityByValue J value capPtr =
    (let c = (case capPtr of None \<Rightarrow> CapabilityInfo_default | Some c \<Rightarrow> c)
     in CapabilityInfo_FromJsonString J value c)"

definition GetMetaCapabilityByValue ::
    "'j cJSON \<Rightarrow> string \<Rightarrow> MetaCapabilityInfo option \<Rightarrow> int \<times> MetaCapabilityInfo" where
  "GetMetaCapabilityByValue J value capPtr =
    (let c = (case capPtr of None \<Rightarrow> MetaCapabilityInfo_default | Some c \<Rightarrow> c)
     in MetaCapabilityInfo_FromJsonString J value c)"

definition IsCapInfoJsonEqual :: "'j cJSON \<Rightarrow> string \<Rightarrow> string \<Rightarrow> bool" where
  "IsCapInfoJsonEqual J firstData lastData =
    (case cJSON_Parse J (c_str firstData) of
       None \<Rightarrow> False
     | Some a \<Rightarrow>
        (case cJSON_Parse J (c_str lastData) of
           None \<Rightarrow> False
         | Some b \<Rightarrow> CapabilityInfo_Compare (CapabilityInfo_FromJson J a CapabilityInfo_default)
                      (CapabilityInfo_FromJson J b CapabilityInfo_default)))"

definition IsMetaCapInfoJsonEqual :: "'j cJSON \<Rightarrow> string \<Rightarrow> string \<Rightarrow> bool" where
  "IsMetaCapInfoJsonEqual J firstData lastData =
    (case cJSON_Parse J (c_str firstData) of
       None \<Rightarrow> False
     | Some a \<Rightarrow>
        (case cJSON_Parse J (c_str lastData) of
           None \<Rightarrow> False
         | Some b \<Rightarrow> MetaCapabilityInfo_Compare (MetaCapabilityInfo_FromJson J a MetaCapabilityInfo_default)
                      (MetaCapabilityInfo_FromJson J b MetaCapabilityInfo_default)))"

end
