(* ===== verification/State.thy ===== *)
theory State
  imports Capability
begin

text \<open>
  The state of the service.  The program keeps it in singletons (\<open>DHContext\<close>, \<open>VersionManager\<close>,
  \<open>TaskBoard\<close>, \<open>TaskExecutor\<close>, the four information managers, \<open>ComponentManager\<close>,
  \<open>EnabledCompsDump\<close>), each guarded by its own mutex; here they are the fields of one record \<open>fwk\<close>,
  and an operation is a function from the record to a result and the record it leaves.

  What the service calls and is not part of this development is in the record \<open>config\<close>: the platform,
  the JSON library, the key-value store, the component handlers (\<open>env\<close>), the random source.  The
  handlers answer as a function of the calls made so far, so any deterministic behaviour, stateful or
  not, is an instance, and a statement for all environments covers every answer.
\<close>

section \<open>Tasks\<close>

datatype TaskType =
  TT_UNKNOWN | TT_ENABLE | TT_DISABLE | TT_ON_LINE | TT_OFF_LINE | TT_META_ENABLE | TT_META_DISABLE
  | TT_EXIT_DFWK

datatype TaskStep =
  DO_ENABLE | DO_DISABLE | SYNC_ONLINE_INFO | REGISTER_ONLINE_DISTRIBUTED_HARDWARE
  | UNREGISTER_OFFLINE_DISTRIBUTED_HARDWARE | CLEAR_OFFLINE_INFO | WAIT_UNREGISTGER_COMPLETE
  | META_ENABLE_TASK | META_DISABLE_TASK | DO_MODEM_META_ENABLE | DO_MODEM_META_DISABLE
  | ENABLE_SINK | DISABLE_SINK

datatype TaskState = TS_INIT | TS_RUNNING | TS_SUCCESS | TS_FAIL

record TaskParam =
  tp_networkId :: string
  tp_uuid :: string
  tp_udid :: string
  tp_dhId :: string
  tp_dhType :: DHType
  tp_effectSink :: bool
  tp_effectSource :: bool
  tp_callingUid :: int
  tp_callingPid :: int
  tp_callingTokenId :: "32 word"
  tp_firstCallingTokenId :: "32 word"
  tp_customParams :: string

definition TaskParam_default :: TaskParam where
  "TaskParam_default = \<lparr>tp_networkId = [], tp_uuid = [], tp_udid = [], tp_dhId = [],
     tp_dhType = DHType_UNKNOWN, tp_effectSink = False, tp_effectSource = False,
     tp_callingUid = 0, tp_callingPid = 0, tp_callingTokenId = 0, tp_firstCallingTokenId = 0,
     tp_customParams = []\<rparr>"

text \<open>
  A task object; its address is its position in the heap \<open>fw_tasks\<close>.  The class of the object is
  its task type.  \<open>t_unFinishChildrenTasks\<close> is the set of ids of the children an offline
  task waits for.
\<close>

record Task =
  t_id :: string
  t_param :: TaskParam
  t_taskType :: TaskType
  t_taskSteps :: "TaskStep list"
  t_fatherTask :: "nat option"
  t_childrenTasks :: "nat list"
  t_taskState :: TaskState
  t_unFinishChildrenTasks :: "string list"

record TaskDump =
  td_id :: string
  td_taskType :: TaskType
  td_networkId :: string
  td_uuid :: string
  td_dhId :: string
  td_dhType :: DHType
  td_taskSteps :: "TaskStep list"

record TaskBoard =
  tb_tasks :: "(string, nat) omap"
  tb_enabledDevices :: "(string, TaskParam) omap"

section \<open>The key-value store\<close>

datatype KvStatus = KV_SUCCESS | KV_NOT_FOUND | KV_IPC_ERROR | KV_STORE_META_CHANGED | KV_OTHER int

datatype KvDataType = TYPE_STATICS | TYPE_DYNAMICAL

datatype SubscribeType = SUBSCRIBE_TYPE_REMOTE | SUBSCRIBE_TYPE_CLOUD

record KvOptions =
  opt_autoSync :: bool
  opt_isPublic :: bool
  opt_enableCloud :: bool
  opt_cloudAutoSync :: bool
  opt_dataType :: KvDataType

text \<open>
  The calls of the store library; the first argument is its state, the second the store's name.
  \<open>kv_GetSingleKvStore\<close> also takes whether the caller's pointer was set, and says whether it is after.
\<close>

record 's KvStore =
  kv_GetSingleKvStore :: "'s \<Rightarrow> string \<Rightarrow> KvOptions \<Rightarrow> bool \<Rightarrow> KvStatus \<times> bool \<times> 's"
  kv_DeleteKvStore :: "'s \<Rightarrow> string \<Rightarrow> KvStatus \<times> 's"
  kv_Get :: "'s \<Rightarrow> string \<Rightarrow> string \<Rightarrow> KvStatus \<times> string"
  kv_GetEntries :: "'s \<Rightarrow> string \<Rightarrow> string \<Rightarrow> KvStatus \<times> (string \<times> string) list"
  kv_Put :: "'s \<Rightarrow> string \<Rightarrow> string \<Rightarrow> string \<Rightarrow> KvStatus \<times> 's"
  kv_PutBatch :: "'s \<Rightarrow> string \<Rightarrow> (string \<times> string) list \<Rightarrow> KvStatus \<times> 's"
  kv_Delete :: "'s \<Rightarrow> string \<Rightarrow> string \<Rightarrow> KvStatus \<times> 's"
  kv_DeleteBatch :: "'s \<Rightarrow> string \<Rightarrow> string list \<Rightarrow> KvStatus \<times> 's"
  kv_RemoveDeviceData :: "'s \<Rightarrow> string \<Rightarrow> string \<Rightarrow> KvStatus \<times> 's"
  kv_Sync :: "'s \<Rightarrow> string \<Rightarrow> string list \<Rightarrow> KvStatus \<times> 's"
  kv_Subscribe :: "'s \<Rightarrow> string \<Rightarrow> SubscribeType \<Rightarrow> KvStatus \<times> 's"
  kv_UnSubscribe :: "'s \<Rightarrow> string \<Rightarrow> SubscribeType \<Rightarrow> KvStatus \<times> 's"

record DBAdapter =
  db_storeId :: string
  db_isAutoSync :: bool
  db_dataType :: KvDataType
  db_kvStoragePtr :: bool
  db_deathListener :: bool

record CapabilityInfoManager =
  cim_dbAdapterPtr :: "DBAdapter option"
  cim_globalCapInfoMap :: "(string, CapabilityInfo) omap"

record MetaInfoManager =
  mim_dbAdapterPtr :: "DBAdapter option"
  mim_globalMetaInfoMap :: "(string, MetaCapabilityInfo) omap"

section \<open>Enable bookkeeping of the component manager\<close>

datatype EnableState = DISABLED | ENABLED

datatype DHStatusCtrlKey = DHStatusCtrlKey (ck_uid: int) (ck_pid: int)

definition ctrlkey_less :: "DHStatusCtrlKey \<Rightarrow> DHStatusCtrlKey \<Rightarrow> bool" where
  "ctrlkey_less a b =
    (if ck_uid a < ck_uid b then True
     else if ck_uid a > ck_uid b then False
     else ck_pid a < ck_pid b)"

instantiation DHStatusCtrlKey :: linorder
begin

definition less_DHStatusCtrlKey :: "DHStatusCtrlKey \<Rightarrow> DHStatusCtrlKey \<Rightarrow> bool" where
  "less_DHStatusCtrlKey a b = ctrlkey_less a b"

definition less_eq_DHStatusCtrlKey :: "DHStatusCtrlKey \<Rightarrow> DHStatusCtrlKey \<Rightarrow> bool" where
  "less_eq_DHStatusCtrlKey a b = (ctrlkey_less a b \<or> a = b)"

instance
proof
  fix a b c :: DHStatusCtrlKey
  note defs = less_DHStatusCtrlKey_def less_eq_DHStatusCtrlKey_def ctrlkey_less_def
  show "a < b \<longleftrightarrow> a \<le> b \<and> \<not> b \<le> a"
    by (cases a; cases b) (auto simp: defs)
  show "a \<le> a" by (simp add: defs)
  show "a \<le> b \<Longrightarrow> b \<le> c \<Longrightarrow> a \<le> c"
    by (cases a; cases b; cases c) (auto simp: defs split: if_splits)
  show "a \<le> b \<Longrightarrow> b \<le> a \<Longrightarrow> a = b"
    by (cases a; cases b) (auto simp: defs split: if_splits)
  show "a \<le> b \<or> b \<le> a"
    by (cases a; cases b) (auto simp: defs)
qed

end

datatype DHStatusSourceEnableInfoKey =
  DHStatusSourceEnableInfoKey (sk_networkId: string) (sk_dhId: string)

definition srckey_less :: "DHStatusSourceEnableInfoKey \<Rightarrow> DHStatusSourceEnableInfoKey \<Rightarrow> bool" where
  "srckey_less a b =
    (if sk_networkId a < sk_networkId b then True
     else if sk_networkId a > sk_networkId b then False
     else sk_dhId a < sk_dhId b)"

instantiation DHStatusSourceEnableInfoKey :: linorder
begin

definition less_DHStatusSourceEnableInfoKey ::
    "DHStatusSourceEnableInfoKey \<Rightarrow> DHStatusSourceEnableInfoKey \<Rightarrow> bool" where
  "less_DHStatusSourceEnableInfoKey a b = srckey_less a b"

definition less_eq_DHStatusSourceEnableInfoKey ::
    "DHStatusSourceEnableInfoKey \<Rightarrow> DHStatusSourceEnableInfoKey \<Rightarrow> bool" where
  "less_eq_DHStatusSourceEnableInfoKey a b = (srckey_less a b \<or> a = b)"

instance
proof
  fix a b c :: DHStatusSourceEnableInfoKey
  note defs = less_DHStatusSourceEnableInfoKey_def less_eq_DHStatusSourceEnableInfoKey_def srckey_less_def
  show "a < b \<longleftrightarrow> a \<le> b \<and> \<not> b \<le> a"
    by (cases a; cases b) (auto simp: defs)
  show "a \<le> a" by (simp add: defs)
  show "a \<le> b \<Longrightarrow> b \<le> c \<Longrightarrow> a \<le> c"
    by (cases a; cases b; cases c) (auto simp: defs split: if_splits)
  show "a \<le> b \<Longrightarrow> b \<le> a \<Longrightarrow> a = b"
    by (cases a; cases b) (auto simp: defs split: if_splits)
  show "a \<le> b \<or> b \<le> a"
    by (cases a; cases b) (auto simp: defs)
qed

end

record DHStatusEnableInfo =
  refEnable :: int
  dhStatusCtrl :: "(DHStatusCtrlKey, EnableState) omap"

text \<open>
  \<open>DHSinkStatus\<close> and \<open>DHSourceStatus\<close> differ in the key of their enable infos only (the hardware id,
  and the network id with the hardware id) and in the class of their listeners, which are numbers here.
\<close>

record 'k DHStatus =
  refLoad :: int
  enableInfos :: "('k, DHStatusEnableInfo) omap"
  listeners :: "(DHStatusCtrlKey, nat) omap"

type_synonym DHSinkStatus = "string DHStatus"
type_synonym DHSourceStatus = "DHStatusSourceEnableInfoKey DHStatus"

definition DHStatusEnableInfo_default :: DHStatusEnableInfo where
  "DHStatusEnableInfo_default = \<lparr>refEnable = 0, dhStatusCtrl = []\<rparr>"

definition DHStatus_default :: "'k DHStatus" where
  "DHStatus_default = \<lparr>refLoad = 0, enableInfos = [], listeners = []\<rparr>"

section \<open>Component manager\<close>

datatype BusinessState = BS_UNKNOWN | BS_IDLE | BS_RUNNING | BS_PAUSING

datatype EnableStep = ES_ENABLE_SOURCE | ES_DISABLE_SOURCE | ES_ENABLE_SINK | ES_DISABLE_SINK

record DHDescriptor =
  dd_id :: string
  dd_dhType :: DHType
  dd_customParams :: string
  dd_firstCallingTokenId :: "32 word"

record EnableParam =
  ep_sourceVersion :: string
  ep_sourceAttrs :: string
  ep_sinkVersion :: string
  ep_sinkAttrs :: string
  ep_subtype :: string

definition EnableParam_default :: EnableParam where
  "EnableParam_default = \<lparr>ep_sourceVersion = [], ep_sourceAttrs = [], ep_sinkVersion = [],
     ep_sinkAttrs = [], ep_subtype = []\<rparr>"

record ComponentManager =
  cm_compSource :: "(DHType, nat option) omap"
  cm_compSink :: "(DHType, nat option) omap"
  cm_compSrcSaId :: "(DHType, int) omap"
  cm_compSinkSaId :: "(DHType, int) omap"
  cm_audioCompPrivacy :: bool
  cm_cameraCompPrivacy :: bool
  cm_compMonitor :: "int list option"
  cm_isUnInitTimeOut :: bool
  cm_dhBizStates :: "(string \<times> string, BusinessState) omap"
  cm_needRefreshTaskParams :: "(string \<times> string, TaskParam) omap"
  cm_dhSinkStatus :: "(DHType, DHSinkStatus) omap"
  cm_dhSourceStatus :: "(DHType, DHSourceStatus) omap"
  cm_syncDeviceInfoMap :: "(string, EnableStep \<times> nat option list) omap"
  cm_accessListenerMap :: "(DHType \<times> string, nat) omap"
  cm_eventHandler :: bool

definition ComponentManager_init :: ComponentManager where
  "ComponentManager_init = \<lparr>cm_compSource = [], cm_compSink = [], cm_compSrcSaId = [],
     cm_compSinkSaId = [], cm_audioCompPrivacy = False, cm_cameraCompPrivacy = False,
     cm_compMonitor = Some [], cm_isUnInitTimeOut = False, cm_dhBizStates = [],
     cm_needRefreshTaskParams = [], cm_dhSinkStatus = [], cm_dhSourceStatus = [],
     cm_syncDeviceInfoMap = [], cm_accessListenerMap = [], cm_eventHandler = False\<rparr>"

section \<open>Calls to the outside\<close>

text \<open>
  The calls whose order and number matter: the component loader, the source and sink handlers of a
  component, the system ability manager, the listeners of the clients, and the start of the delayed
  exit of the service.
\<close>

datatype loader_op = GetSource | GetSink | LoaderReleaseSource | LoaderReleaseSink | GetHardwareHandler
| ReleaseHardwareHandler

datatype handler_op =
  RegisterStateListener | UnregisterStateListener
| RegisterDataSyncTriggerListener | UnregisterDataSyncTriggerListener
| RegisterSinkStateListener | UnregisterSinkStateListener
| ReleaseSource | ReleaseSink | UnRegisterPluginListener | RegisterPrivacyResources
| Initialize | Query | IsSupportPlugin | RegisterPluginListener

text \<open>The two sides of an access check of the device manager: who asks, and who is asked.\<close>

record DmAccess =
  ac_accountId :: string
  ac_networkId :: string
  ac_userId :: int
  ac_tokenId :: "64 word"

datatype ecall =
  EC_Loader loader_op DHType
| EC_Handler handler_op DHType
| EC_InitSource DHType string
| EC_InitSink DHType string
| EC_RegisterDistributedHardware string string EnableParam
| EC_UnregisterDistributedHardware string string
| EC_ConfigSource string string string string
| EC_ConfigSink DHType string string string
| EC_SubscribeSystemAbility int
| EC_UnSubscribeSystemAbility int
| EC_SinkListener EnableState nat DHDescriptor
| EC_SourceListener EnableState nat string DHDescriptor
| EC_Modem EnableState string
| EC_SetAccessListener DHType string
| EC_RemoveAccessListener DHType string
| EC_OnGetDescriptors nat string "int + DHDescriptor list \<times> EnableStep"
| EC_DelaySaStatusTask
| EC_Socket string "(string \<times> string) option"
| EC_Listen int
| EC_Bind int
| EC_Shutdown int
| EC_SendBytes int string
| EC_CheckSrcAccessControl DmAccess DmAccess
| EC_CheckSinkAccessControl DmAccess DmAccess
| EC_StartAbility "(string \<times> int) list" "(string \<times> string) list"
| EC_ReportLatency int
| EC_Event string string

datatype fut = FutReady int | FutTimeout | FutDeferred

text \<open>
  A trusted device as the device manager reports it: the network id, whether it is authenticated by
  the same account, the device type and the type of its operating system.
\<close>

record DmDeviceInfo =
  tr_networkId :: string
  tr_identicalAccount :: bool
  tr_deviceTypeId :: "16 word"
  tr_osType :: int

record env =
  e_ret :: "ecall list \<Rightarrow> ecall \<Rightarrow> int"
  e_ptr :: "ecall list \<Rightarrow> ecall \<Rightarrow> nat option"
  e_fut :: "ecall list \<Rightarrow> ecall \<Rightarrow> fut"
  e_cbs :: "ecall list \<Rightarrow> ecall \<Rightarrow> (string \<times> string \<times> int) list"
  e_IsDHTypeSupport :: "DHType \<Rightarrow> bool"
  e_CompTypes :: "DHType list"
  e_SourceSaId :: "DHType \<Rightarrow> int"
  e_SinkSaId :: "DHType \<Rightarrow> int"
  e_CompResourceDesc :: "(string, bool) omap"
  e_TrustedDevices :: "DmDeviceInfo list"
  e_IsComponentSubtypeEnabled :: "DHType \<Rightarrow> string \<Rightarrow> string \<Rightarrow> bool"
  e_LocalDHVersion :: "int \<times> DHVersion"
  e_AnyHdfInuse :: bool

record ('s, 'j) config =
  c_P :: platform
  c_J :: "'j cJSON"
  c_K :: "'s KvStore"
  c_E :: env
  c_rnd :: "nat \<Rightarrow> 64 word \<times> 64 word"
  c_junk :: DHType
  c_open_source :: bool
  c_check_resource :: bool

section \<open>The whole state\<close>

record 's fwk =
  fw_ctx :: DHContext
  fw_dhVersions :: "(string, DHVersion) omap"
  fw_tasks :: "Task list"
  fw_board :: TaskBoard
  fw_taskQueue :: "nat list"
  fw_kv :: 's
  fw_cap :: CapabilityInfoManager
  fw_local :: CapabilityInfoManager
  fw_meta :: MetaInfoManager
  fw_verinfo :: "DBAdapter option"
  fw_cm :: ComponentManager
  fw_enabledComps :: "(string \<times> string, DHType) omap"
  fw_unInitFlag :: bool
  fw_isInit :: bool
  fw_releaseStatus :: bool
  fw_isAllInit :: bool
  fw_isLocalInit :: bool
  fw_saStatusHandler :: bool
  fw_isIdle :: bool
  fw_onlineThreads :: "(string \<times> string \<times> string \<times> 16 word \<times> int) list"
  fw_trace :: "ecall list"

definition fwk_init :: "'s \<Rightarrow> 's fwk" where
  "fwk_init kv = \<lparr>fw_ctx = DHContext_init, fw_dhVersions = [], fw_tasks = [],
     fw_board = \<lparr>tb_tasks = [], tb_enabledDevices = []\<rparr>, fw_taskQueue = [], fw_kv = kv,
     fw_cap = \<lparr>cim_dbAdapterPtr = None, cim_globalCapInfoMap = []\<rparr>,
     fw_local = \<lparr>cim_dbAdapterPtr = None, cim_globalCapInfoMap = []\<rparr>,
     fw_meta = \<lparr>mim_dbAdapterPtr = None, mim_globalMetaInfoMap = []\<rparr>,
     fw_verinfo = None, fw_cm = ComponentManager_init, fw_enabledComps = [], fw_unInitFlag = False,
     fw_isInit = False, fw_releaseStatus = False, fw_isAllInit = False, fw_isLocalInit = False,
     fw_saStatusHandler = False, fw_isIdle = False, fw_onlineThreads = [],
     fw_trace = []\<rparr>"

text \<open>One call: it is recorded, and its answers depend on the calls before it.\<close>

definition call_ret :: "('s, 'j) config \<Rightarrow> ecall \<Rightarrow> 's fwk \<Rightarrow> int \<times> 's fwk" where
  "call_ret C e w = (e_ret (c_E C) (fw_trace w) e, w\<lparr>fw_trace := e # fw_trace w\<rparr>)"

definition call_ptr :: "('s, 'j) config \<Rightarrow> ecall \<Rightarrow> 's fwk \<Rightarrow> int \<times> nat option \<times> 's fwk" where
  "call_ptr C e w =
    (e_ret (c_E C) (fw_trace w) e, e_ptr (c_E C) (fw_trace w) e, w\<lparr>fw_trace := e # fw_trace w\<rparr>)"

definition call_void :: "ecall \<Rightarrow> 's fwk \<Rightarrow> 's fwk" where
  "call_void e w = w\<lparr>fw_trace := e # fw_trace w\<rparr>"

definition call_fut :: "('s, 'j) config \<Rightarrow> ecall \<Rightarrow> 's fwk \<Rightarrow> fut \<times> 's fwk" where
  "call_fut C e w = (e_fut (c_E C) (fw_trace w) e, w\<lparr>fw_trace := e # fw_trace w\<rparr>)"

definition call_cb :: "('s, 'j) config \<Rightarrow> ecall \<Rightarrow> 's fwk \<Rightarrow> int \<times> (string \<times> string \<times> int) list \<times> 's fwk" where
  "call_cb C e w =
    (e_ret (c_E C) (fw_trace w) e, e_cbs (c_E C) (fw_trace w) e, w\<lparr>fw_trace := e # fw_trace w\<rparr>)"

lemmas calls = call_ret_def call_ptr_def call_void_def call_fut_def call_cb_def

end
