(* ===== verification/TaskModel.thy ===== *)
theory TaskModel
  imports State
begin

text \<open>
  Tasks, the task board, the task executor and the task factory (\<open>task/task.cpp\<close>,
  \<open>task/task_board.cpp\<close>, \<open>task/task_executor.cpp\<close>, \<open>task/task_factory.cpp\<close>).

  A task is an object of the heap \<open>fw_tasks\<close>, and a shared pointer to it is its position there.  The
  executor's queue is a list whose head is the front.
\<close>

section \<open>Tasks\<close>

definition GetTask :: "nat \<Rightarrow> 's fwk \<Rightarrow> Task" where
  "GetTask p w = fw_tasks w ! p"

definition upd_task :: "nat \<Rightarrow> (Task \<Rightarrow> Task) \<Rightarrow> 's fwk \<Rightarrow> 's fwk" where
  "upd_task p f w = w\<lparr>fw_tasks := (fw_tasks w)[p := f (fw_tasks w ! p)]\<rparr>"

definition SetTaskState :: "nat \<Rightarrow> TaskState \<Rightarrow> 's fwk \<Rightarrow> 's fwk" where
  "SetTaskState p s w = upd_task p (\<lambda>t. t\<lparr>t_taskState := s\<rparr>) w"

definition SetFatherTask :: "nat \<Rightarrow> nat \<Rightarrow> 's fwk \<Rightarrow> 's fwk" where
  "SetFatherTask p father w = upd_task p (\<lambda>t. t\<lparr>t_fatherTask := Some father\<rparr>) w"

text \<open>\<open>AddChildrenTask\<close> is virtual: an offline task also records the child as unfinished.\<close>

definition Task_AddChildrenTask :: "nat \<Rightarrow> nat \<Rightarrow> 's fwk \<Rightarrow> 's fwk" where
  "Task_AddChildrenTask p child w =
    upd_task p (\<lambda>t. t\<lparr>t_childrenTasks := t_childrenTasks t @ [child]\<rparr>) w"

definition OffLineTask_AddChildrenTask :: "nat \<Rightarrow> nat \<Rightarrow> 's fwk \<Rightarrow> 's fwk" where
  "OffLineTask_AddChildrenTask p child w =
    upd_task p (\<lambda>t. t\<lparr>t_unFinishChildrenTasks :=
      os_ins (t_id (GetTask child w)) (t_unFinishChildrenTasks t)\<rparr>) w"

definition AddChildrenTask :: "nat \<Rightarrow> nat \<Rightarrow> 's fwk \<Rightarrow> 's fwk" where
  "AddChildrenTask p child w =
    (if t_taskType (GetTask p w) = TT_OFF_LINE then OffLineTask_AddChildrenTask p child w
     else Task_AddChildrenTask p child w)"

section \<open>The task board\<close>

definition IsAllTaskFinish :: "TaskBoard \<Rightarrow> bool" where
  "IsAllTaskFinish b = (tb_tasks b = [])"

text \<open>The outcome of the timed wait is what the board holds when it ends.\<close>

definition WaitForALLTaskFinish :: "TaskBoard \<Rightarrow> int" where
  "WaitForALLTaskFinish b =
    (if \<not> (tb_tasks b = []) then ERR_DH_FWK_TASK_TIMEOUT else DH_FWK_SUCCESS)"

definition AddTask :: "nat option \<Rightarrow> 's fwk \<Rightarrow> 's fwk" where
  "AddTask task w =
    (case task of
       None \<Rightarrow> w
     | Some p \<Rightarrow>
         let i = t_id (GetTask p w); b = fw_board w in
         if om_has (tb_tasks b) i then w
         else w\<lparr>fw_board := b\<lparr>tb_tasks := om_emplace i p (tb_tasks b)\<rparr>\<rparr>)"

definition IsAllDisableTaskFinish :: "'s fwk \<Rightarrow> bool" where
  "IsAllDisableTaskFinish w =
    (let disableCount = length (filter (\<lambda>(i, p). t_taskType (GetTask p w) = TT_DISABLE
                                   \<or> t_taskType (GetTask p w) = TT_META_DISABLE)
                                  (tb_tasks (fw_board w)))
     in if disableCount = 0 then True else False)"

definition RemoveTaskInner :: "string \<Rightarrow> TaskBoard \<Rightarrow> TaskBoard" where
  "RemoveTaskInner taskId b =
    (if \<not> om_has (tb_tasks b) taskId then b
     else b\<lparr>tb_tasks := om_del taskId (tb_tasks b)\<rparr>)"

definition RemoveTask :: "string \<Rightarrow> 's fwk \<Rightarrow> 's fwk" where
  "RemoveTask taskId w = w\<lparr>fw_board := RemoveTaskInner taskId (fw_board w)\<rparr>"

definition DumpAllTasks :: "'s fwk \<Rightarrow> TaskDump list" where
  "DumpAllTasks w =
    map (\<lambda>(i, p). let t = GetTask p w in
      \<lparr>td_id = t_id t, td_taskType = t_taskType t, td_networkId = tp_networkId (t_param t),
       td_uuid = tp_uuid (t_param t), td_dhId = tp_dhId (t_param t),
       td_dhType = tp_dhType (t_param t), td_taskSteps = t_taskSteps t\<rparr>)
     (tb_tasks (fw_board w))"

definition SaveEnabledDevice :: "string \<Rightarrow> TaskParam \<Rightarrow> TaskBoard \<Rightarrow> TaskBoard" where
  "SaveEnabledDevice k tp b = b\<lparr>tb_enabledDevices := om_put k tp (tb_enabledDevices b)\<rparr>"

definition RemoveEnabledDevice :: "string \<Rightarrow> TaskBoard \<Rightarrow> TaskBoard" where
  "RemoveEnabledDevice k b = b\<lparr>tb_enabledDevices := om_del k (tb_enabledDevices b)\<rparr>"

definition GetEnabledDevice :: "TaskBoard \<Rightarrow> (string, TaskParam) omap" where
  "GetEnabledDevice b = tb_enabledDevices b"

definition IsEnabledDevice :: "string \<Rightarrow> TaskBoard \<Rightarrow> bool" where
  "IsEnabledDevice k b = list_ex (\<lambda>e. fst e = k) (tb_enabledDevices b)"

section \<open>The task executor\<close>

definition MAX_TASK_QUEUE_LENGTH :: nat where [simp]: "MAX_TASK_QUEUE_LENGTH = 256"

definition PushQueue :: "nat \<Rightarrow> nat list \<Rightarrow> nat list" where
  "PushQueue p q = (if length q > MAX_TASK_QUEUE_LENGTH then q else q @ [p])"

definition PushTask :: "nat option \<Rightarrow> 's fwk \<Rightarrow> 's fwk" where
  "PushTask task w =
    (case task of
       None \<Rightarrow> w
     | Some p \<Rightarrow> w\<lparr>fw_taskQueue := PushQueue p (fw_taskQueue w)\<rparr>)"

text \<open>\<open>PopTask\<close> blocks on an empty queue: \<open>None\<close> says the caller is still waiting.\<close>

definition PopQueue :: "nat list \<Rightarrow> (nat \<times> nat list) option" where
  "PopQueue q = (case q of [] \<Rightarrow> None | p # q' \<Rightarrow> Some (p, q'))"

definition PopTask :: "'s fwk \<Rightarrow> (nat \<times> 's fwk) option" where
  "PopTask w =
    (case PopQueue (fw_taskQueue w) of
       None \<Rightarrow> None
     | Some (p, q) \<Rightarrow> Some (p, w\<lparr>fw_taskQueue := q\<rparr>))"

text \<open>
  One turn of the loop of \<open>TriggerTask\<close>: the popped task is posted to the event handler under its id;
  \<open>handler\<close> says whether the event handler exists.
\<close>

definition TriggerTask_turn :: "bool \<Rightarrow> 's fwk \<Rightarrow> (nat option \<times> 's fwk) option" where
  "TriggerTask_turn handler w =
    (case PopTask w of
       None \<Rightarrow> None
     | Some (p, w1) \<Rightarrow>
         if \<not> handler then Some (None, w1)
         else Some (Some p, call_void (EC_Event ''PostTask'' (t_id (GetTask p w1))) w1))"

section \<open>The task factory\<close>

definition OnLineSteps :: "TaskStep list" where
  "OnLineSteps = [SYNC_ONLINE_INFO, REGISTER_ONLINE_DISTRIBUTED_HARDWARE, ENABLE_SINK, META_ENABLE_TASK]"

definition OffLineSteps :: "TaskStep list" where
  "OffLineSteps = [META_DISABLE_TASK, UNREGISTER_OFFLINE_DISTRIBUTED_HARDWARE, DISABLE_SINK,
     WAIT_UNREGISTGER_COMPLETE, CLEAR_OFFLINE_INFO]"

text \<open>The task type and steps each constructor sets.\<close>

fun TaskSteps_of :: "TaskType \<Rightarrow> TaskStep list" where
  "TaskSteps_of TT_ENABLE = [DO_ENABLE]"
| "TaskSteps_of TT_DISABLE = [DO_DISABLE]"
| "TaskSteps_of TT_ON_LINE = OnLineSteps"
| "TaskSteps_of TT_OFF_LINE = OffLineSteps"
| "TaskSteps_of TT_META_ENABLE = [DO_MODEM_META_ENABLE]"
| "TaskSteps_of TT_META_DISABLE = [DO_MODEM_META_DISABLE]"
| "TaskSteps_of _ = []"

text \<open>The constructor of \<open>Task\<close>: the five identifying parameters, a random id, no father, no children.\<close>

definition Task_ctor :: "('s, 'j) config \<Rightarrow> TaskType \<Rightarrow> TaskParam \<Rightarrow> 's fwk \<Rightarrow> nat \<times> 's fwk" where
  "Task_ctor C ty tp w =
    (let n = length (fw_tasks w);
         t = \<lparr>t_id = ''Task_'' @ (case c_rnd C n of (ab, cd) \<Rightarrow> GetRandomID ab cd),
              t_param = TaskParam_default\<lparr>tp_networkId := tp_networkId tp, tp_uuid := tp_uuid tp,
                tp_udid := tp_udid tp, tp_dhId := tp_dhId tp, tp_dhType := tp_dhType tp\<rparr>,
              t_taskType = ty, t_taskSteps = TaskSteps_of ty, t_fatherTask = None,
              t_childrenTasks = [], t_taskState = TS_INIT, t_unFinishChildrenTasks = []\<rparr>
     in (n, w\<lparr>fw_tasks := fw_tasks w @ [t]\<rparr>))"

definition CreateEnableTask :: "('s, 'j) config \<Rightarrow> TaskParam \<Rightarrow> 's fwk \<Rightarrow> nat \<times> 's fwk" where
  "CreateEnableTask C tp w =
    (let (p, w1) = Task_ctor C TT_ENABLE tp w in
     (p, upd_task p (\<lambda>t. t\<lparr>t_param := (t_param t)
        \<lparr>tp_effectSink := tp_effectSink tp, tp_effectSource := tp_effectSource tp,
         tp_callingUid := tp_callingUid tp, tp_callingPid := tp_callingPid tp,
         tp_callingTokenId := tp_callingTokenId tp,
         tp_firstCallingTokenId := tp_firstCallingTokenId tp,
         tp_customParams := tp_customParams tp\<rparr>\<rparr>) w1))"

definition CreateDisableTask :: "('s, 'j) config \<Rightarrow> TaskParam \<Rightarrow> 's fwk \<Rightarrow> nat \<times> 's fwk" where
  "CreateDisableTask C tp w =
    (let (p, w1) = Task_ctor C TT_DISABLE tp w in
     (p, upd_task p (\<lambda>t. t\<lparr>t_param := (t_param t)
        \<lparr>tp_effectSink := tp_effectSink tp, tp_effectSource := tp_effectSource tp,
         tp_callingUid := tp_callingUid tp, tp_callingPid := tp_callingPid tp\<rparr>\<rparr>) w1))"

definition CreateTaskEx :: "('s, 'j) config \<Rightarrow> TaskType \<Rightarrow> TaskParam \<Rightarrow> 's fwk \<Rightarrow> nat option \<times> 's fwk" where
  "CreateTaskEx C ty tp w =
    (case ty of
       TT_META_ENABLE \<Rightarrow> (let (p, w1) = Task_ctor C ty tp w in (Some p, w1))
     | TT_META_DISABLE \<Rightarrow> (let (p, w1) = Task_ctor C ty tp w in (Some p, w1))
     | TT_EXIT_DFWK \<Rightarrow> (let (p, w1) = Task_ctor C ty tp w in (Some p, w1))
     | _ \<Rightarrow> (None, w))"

definition CreateTask ::
    "('s, 'j) config \<Rightarrow> TaskType \<Rightarrow> TaskParam \<Rightarrow> nat option \<Rightarrow> 's fwk \<Rightarrow> nat option \<times> 's fwk" where
  "CreateTask C ty tp father w =
    (let (task, w1) =
       (case ty of
          TT_ENABLE \<Rightarrow> (let (p, w1) = CreateEnableTask C tp w in (Some p, w1))
        | TT_DISABLE \<Rightarrow> (let (p, w1) = CreateDisableTask C tp w in (Some p, w1))
        | TT_ON_LINE \<Rightarrow> (let (p, w1) = Task_ctor C ty tp w in (Some p, w1))
        | TT_OFF_LINE \<Rightarrow> (let (p, w1) = Task_ctor C ty tp w in (Some p, w1))
        | _ \<Rightarrow> CreateTaskEx C ty tp w)
     in case task of
          None \<Rightarrow> (None, w1)
        | Some p \<Rightarrow>
            let w2 = (case father of
                        None \<Rightarrow> w1
                      | Some f \<Rightarrow>
                          let w2 = SetFatherTask p f w1 in
                          if ty = TT_DISABLE \<or> ty = TT_META_DISABLE then AddChildrenTask f p w2 else w2)
            in (Some p, AddTask (Some p) w2))"

text \<open>What almost every caller does: create a task without a father and push it.\<close>

definition create_and_push :: "('s, 'j) config \<Rightarrow> TaskType \<Rightarrow> TaskParam \<Rightarrow> 's fwk \<Rightarrow> 's fwk" where
  "create_and_push C ty tp w = (let (t, w1) = CreateTask C ty tp None w in PushTask t w1)"

section \<open>The queue as a bounded first-in first-out queue\<close>

text \<open>
  The contract of the executor's queue: what a push adds, what a pop takes, and the length at which
  a push is refused.
\<close>

locale bounded_fifo =
  fixes push :: "'a \<Rightarrow> 'q \<Rightarrow> 'q"
    and pop :: "'q \<Rightarrow> ('a \<times> 'q) option"
    and elems :: "'q \<Rightarrow> 'a list"
    and cap :: nat
  assumes push_room: "length (elems q) \<le> cap \<Longrightarrow> elems (push x q) = elems q @ [x]"
    and push_full: "cap < length (elems q) \<Longrightarrow> push x q = q"
    and pop_None: "pop q = None \<longleftrightarrow> elems q = []"
    and pop_Some: "pop q = Some (x, q') \<Longrightarrow> elems q = x # elems q'"
begin

lemma push_bound: "length (elems q) \<le> cap + 1 \<Longrightarrow> length (elems (push x q)) \<le> cap + 1"
proof (cases "length (elems q) \<le> cap")
  case True
  then show ?thesis by (simp add: push_room)
next
  case False
  assume "length (elems q) \<le> cap + 1"
  then show ?thesis using False by (simp add: push_full)
qed

lemma pushes_room:
  "length (elems q) + length xs \<le> cap + 1 \<Longrightarrow> elems (fold push xs q) = elems q @ xs"
proof (induction xs arbitrary: q)
  case (Cons x xs)
  then have e: "elems (push x q) = elems q @ [x]" by (simp add: push_room)
  have "elems (fold push xs (push x q)) = elems (push x q) @ xs"
    by (rule Cons.IH) (use Cons.prems e in simp)
  then show ?case by (simp add: e)
qed simp

lemma pushes_full: "cap < length (elems q) \<Longrightarrow> fold push xs q = q"
  by (induction xs) (auto simp: push_full)

text \<open>Every push sequence keeps a prefix of what was pushed, in order.\<close>

lemma pushes_prefix: "\<exists>ys. elems (fold push xs q) = elems q @ ys \<and> ys = take (length ys) xs"
proof (induction xs arbitrary: q)
  case (Cons x xs)
  show ?case
  proof (cases "length (elems q) \<le> cap")
    case True
    then have e: "elems (push x q) = elems q @ [x]" by (rule push_room)
    obtain ys where "elems (fold push xs (push x q)) = elems (push x q) @ ys" "ys = take (length ys) xs"
      using Cons.IH by blast
    then have "elems (fold push (x # xs) q) = elems q @ (x # ys)" "x # ys = take (length (x # ys)) (x # xs)"
      by (simp_all add: e)
    then show ?thesis by blast
  next
    case False
    then have "fold push (x # xs) q = q" by (intro pushes_full) simp
    then show ?thesis by (intro exI[of _ "[]"]) simp
  qed
qed simp

lemma pop_head: "elems q = x # xs \<Longrightarrow> \<exists>q'. pop q = Some (x, q') \<and> elems q' = xs"
proof -
  assume e: "elems q = x # xs"
  then have "pop q \<noteq> None" using pop_None[of q] by simp
  then obtain y q' where "pop q = Some (y, q')" by auto
  with pop_Some[OF this] e show ?thesis by simp
qed

end

interpretation task_fifo: bounded_fifo PushQueue PopQueue "\<lambda>q. q" MAX_TASK_QUEUE_LENGTH
  by unfold_locales (auto simp: PushQueue_def PopQueue_def split: list.splits)

text \<open>Popping a number of times.\<close>

fun pops :: "nat \<Rightarrow> nat list \<Rightarrow> nat list" where
  "pops 0 q = []"
| "pops (Suc n) q = (case PopQueue q of None \<Rightarrow> [] | Some (p, q') \<Rightarrow> p # pops n q')"

lemma pops_take: "pops n q = take n q"
  by (induction n arbitrary: q) (auto simp: PopQueue_def split: list.splits)

section \<open>The factory and the board\<close>

lemma length_upd_task [simp]: "length (fw_tasks (upd_task p f w)) = length (fw_tasks w)"
  by (simp add: upd_task_def)

lemma upd_task_frame [simp]:
  "fw_board (upd_task p f w) = fw_board w" "fw_taskQueue (upd_task p f w) = fw_taskQueue w"
  "fw_ctx (upd_task p f w) = fw_ctx w" "fw_cap (upd_task p f w) = fw_cap w"
  "fw_meta (upd_task p f w) = fw_meta w" "fw_cm (upd_task p f w) = fw_cm w"
  "fw_local (upd_task p f w) = fw_local w" "fw_trace (upd_task p f w) = fw_trace w"
  by (simp_all add: upd_task_def)

lemma GetTask_upd_task:
  "GetTask q (upd_task p f w) = (if q = p \<and> p < length (fw_tasks w) then f (GetTask p w) else GetTask q w)"
  by (auto simp: GetTask_def upd_task_def nth_list_update list_update_beyond)

lemma t_id_upd_task [simp]:
  "(\<And>t. t_id (f t) = t_id t) \<Longrightarrow> t_id (GetTask q (upd_task p f w)) = t_id (GetTask q w)"
  by (auto simp: GetTask_upd_task)

text \<open>Every entry of the board points to the task of that id, and every queued task exists.\<close>

definition tasks_ok :: "'s fwk \<Rightarrow> bool" where
  "tasks_ok w =
    (om_ok (tb_tasks (fw_board w)) \<and> om_ok (tb_enabledDevices (fw_board w))
     \<and> (\<forall>(i, p) \<in> set (tb_tasks (fw_board w)). p < length (fw_tasks w) \<and> t_id (GetTask p w) = i)
     \<and> (\<forall>p \<in> set (fw_taskQueue w). p < length (fw_tasks w))
     \<and> length (fw_taskQueue w) \<le> MAX_TASK_QUEUE_LENGTH + 1)"

lemma tasks_okI:
  assumes "om_ok (tb_tasks (fw_board w))" "om_ok (tb_enabledDevices (fw_board w))"
    and "\<And>i p. om_get (tb_tasks (fw_board w)) i = Some p \<Longrightarrow> p < length (fw_tasks w) \<and> t_id (GetTask p w) = i"
    and "\<And>p. p \<in> set (fw_taskQueue w) \<Longrightarrow> p < length (fw_tasks w)"
    and "length (fw_taskQueue w) \<le> MAX_TASK_QUEUE_LENGTH + 1"
  shows "tasks_ok w"
  using assms by (auto simp: tasks_ok_def om_get_in)

lemma tasks_okD:
  assumes "tasks_ok w"
  shows "om_ok (tb_tasks (fw_board w))" "om_ok (tb_enabledDevices (fw_board w))"
    and "om_get (tb_tasks (fw_board w)) i = Some p \<Longrightarrow> p < length (fw_tasks w) \<and> t_id (GetTask p w) = i"
    and "p \<in> set (fw_taskQueue w) \<Longrightarrow> p < length (fw_tasks w)"
    and "length (fw_taskQueue w) \<le> MAX_TASK_QUEUE_LENGTH + 1"
  using assms by (auto simp: tasks_ok_def om_get_in[symmetric])

text \<open>What a step may do to the heap without touching the board's entries.\<close>

lemma tasks_ok_heap:
  assumes "tasks_ok w" "fw_board w' = fw_board w" "fw_taskQueue w' = fw_taskQueue w"
    and "length (fw_tasks w) \<le> length (fw_tasks w')"
    and "\<And>p. p < length (fw_tasks w) \<Longrightarrow> t_id (GetTask p w') = t_id (GetTask p w)"
  shows "tasks_ok w'"
proof (rule tasks_okI)
  fix i p assume "om_get (tb_tasks (fw_board w')) i = Some p"
  then have "p < length (fw_tasks w) \<and> t_id (GetTask p w) = i"
    using tasks_okD(3)[OF assms(1)] assms(2) by simp
  then show "p < length (fw_tasks w') \<and> t_id (GetTask p w') = i"
    using assms(4,5) by auto
next
  fix p assume "p \<in> set (fw_taskQueue w')"
  then show "p < length (fw_tasks w')"
    using tasks_okD(4)[OF assms(1), of p] assms(3,4) by simp
qed (use assms(2,3) tasks_okD(1,2,5)[OF assms(1)] in auto)

lemma tasks_ok_upd_task:
  "tasks_ok w \<Longrightarrow> (\<And>t. t_id (f t) = t_id t) \<Longrightarrow> tasks_ok (upd_task p f w)"
  by (rule tasks_ok_heap) auto

lemma Task_ctor_props:
  "Task_ctor C ty tp w = (p, w') \<Longrightarrow>
    p = length (fw_tasks w) \<and> length (fw_tasks w') = Suc (length (fw_tasks w))
    \<and> fw_board w' = fw_board w \<and> fw_taskQueue w' = fw_taskQueue w
    \<and> (\<forall>q < length (fw_tasks w). GetTask q w' = GetTask q w)
    \<and> t_taskType (GetTask p w') = ty \<and> t_taskSteps (GetTask p w') = TaskSteps_of ty
    \<and> t_taskState (GetTask p w') = TS_INIT \<and> t_fatherTask (GetTask p w') = None"
  by (auto simp: Task_ctor_def Let_def GetTask_def nth_append)

lemma tasks_ok_ctor: "Task_ctor C ty tp w = (p, w') \<Longrightarrow> tasks_ok w \<Longrightarrow> tasks_ok w'"
  using Task_ctor_props[of C ty tp w p w'] by (auto intro: tasks_ok_heap)

lemma tasks_ok_AddTask:
  assumes "tasks_ok w" "p < length (fw_tasks w)"
  shows "tasks_ok (AddTask (Some p) w)"
proof (rule tasks_okI)
  fix i q assume "om_get (tb_tasks (fw_board (AddTask (Some p) w))) i = Some q"
  then show "q < length (fw_tasks (AddTask (Some p) w)) \<and> t_id (GetTask q (AddTask (Some p) w)) = i"
    using assms(2) tasks_okD(3)[OF assms(1), of i q]
    by (auto simp: AddTask_def Let_def GetTask_def split: if_splits)
qed (use tasks_okD[OF assms(1)] in \<open>auto simp: AddTask_def Let_def om_intros\<close>)

lemma tasks_ok_PushTask:
  assumes "tasks_ok w" "\<forall>p. t = Some p \<longrightarrow> p < length (fw_tasks w)"
  shows "tasks_ok (PushTask t w)"
proof (cases t)
  case (Some p)
  show ?thesis
  proof (rule tasks_okI)
    show "length (fw_taskQueue (PushTask t w)) \<le> MAX_TASK_QUEUE_LENGTH + 1"
      using task_fifo.push_bound tasks_okD(5)[OF assms(1)] by (simp add: PushTask_def Some)
  qed (use tasks_okD[OF assms(1)] assms(2) in
      \<open>auto simp: PushTask_def Some PushQueue_def GetTask_def split: if_splits\<close>)
qed (use assms in \<open>simp add: PushTask_def\<close>)

lemma tasks_ok_AddChildrenTask: "tasks_ok w \<Longrightarrow> tasks_ok (AddChildrenTask f p w)"
  by (simp add: AddChildrenTask_def OffLineTask_AddChildrenTask_def Task_AddChildrenTask_def tasks_ok_upd_task)

lemma length_AddChildrenTask [simp]: "length (fw_tasks (AddChildrenTask f p w)) = length (fw_tasks w)"
  by (simp add: AddChildrenTask_def OffLineTask_AddChildrenTask_def Task_AddChildrenTask_def)

text \<open>The object a successful creation makes, before it has a father.\<close>

definition fresh_task :: "('s, 'j) config \<Rightarrow> TaskType \<Rightarrow> TaskParam \<Rightarrow> 's fwk \<Rightarrow> nat \<times> 's fwk" where
  "fresh_task C ty tp w =
    (case ty of TT_ENABLE \<Rightarrow> CreateEnableTask C tp w | TT_DISABLE \<Rightarrow> CreateDisableTask C tp w
     | _ \<Rightarrow> Task_ctor C ty tp w)"

definition link_father :: "TaskType \<Rightarrow> nat option \<Rightarrow> nat \<Rightarrow> 's fwk \<Rightarrow> 's fwk" where
  "link_father ty father p w =
    (case father of
       None \<Rightarrow> w
     | Some f \<Rightarrow> let w2 = SetFatherTask p f w in
         if ty = TT_DISABLE \<or> ty = TT_META_DISABLE then AddChildrenTask f p w2 else w2)"

lemma CreateTask_unfold:
  "CreateTask C ty tp father w =
    (if ty = TT_UNKNOWN then (None, w)
     else let (p, w1) = fresh_task C ty tp w in (Some p, AddTask (Some p) (link_father ty father p w1)))"
  by (cases ty) (auto simp: CreateTask_def CreateTaskEx_def fresh_task_def link_father_def Let_def
      split: prod.splits option.splits)

lemma fresh_task_props:
  assumes "fresh_task C ty tp w = (p, w')"
  shows "p = length (fw_tasks w)" "length (fw_tasks w') = Suc (length (fw_tasks w))"
    and "fw_board w' = fw_board w" "fw_taskQueue w' = fw_taskQueue w"
    and "q < length (fw_tasks w) \<Longrightarrow> GetTask q w' = GetTask q w"
    and "t_taskType (GetTask p w') = ty" "t_taskSteps (GetTask p w') = TaskSteps_of ty"
    and "t_taskState (GetTask p w') = TS_INIT"
  using assms
  by (auto simp: fresh_task_def CreateEnableTask_def CreateDisableTask_def Task_ctor_def Let_def
      upd_task_def GetTask_def nth_append nth_list_update split: TaskType.splits)

lemma link_father_props [simp]:
  "fw_board (link_father ty father p w) = fw_board w"
  "fw_taskQueue (link_father ty father p w) = fw_taskQueue w"
  "length (fw_tasks (link_father ty father p w)) = length (fw_tasks w)"
  by (auto simp: link_father_def SetFatherTask_def AddChildrenTask_def OffLineTask_AddChildrenTask_def
      Task_AddChildrenTask_def Let_def split: option.splits)

lemma t_id_SetFatherTask [simp]: "t_id (GetTask q (SetFatherTask p f w)) = t_id (GetTask q w)"
  unfolding SetFatherTask_def by (rule t_id_upd_task) simp

lemma t_id_AddChildrenTask [simp]: "t_id (GetTask q (AddChildrenTask p c w)) = t_id (GetTask q w)"
  unfolding AddChildrenTask_def OffLineTask_AddChildrenTask_def Task_AddChildrenTask_def
  by (rule if_split[THEN iffD2], intro conjI impI; rule t_id_upd_task; simp)

lemma t_id_link_father [simp]: "t_id (GetTask q (link_father ty father p w)) = t_id (GetTask q w)"
  by (simp add: link_father_def Let_def split: option.split)

lemma tasks_ok_fresh: "fresh_task C ty tp w = (p, w') \<Longrightarrow> tasks_ok w \<Longrightarrow> tasks_ok w'"
  by (rule tasks_ok_heap[of w w'])
    (simp_all add: fresh_task_props(2,3,4) fresh_task_props(5)[of C ty tp w p w'])

lemma tasks_ok_CreateTask:
  assumes "CreateTask C ty tp father w = (t, w')" "tasks_ok w"
  shows "tasks_ok w' \<and> (\<forall>p. t = Some p \<longrightarrow> p < length (fw_tasks w'))"
proof (cases "ty = TT_UNKNOWN")
  case True
  then show ?thesis using assms by (simp add: CreateTask_unfold)
next
  case False
  obtain p w1 where f: "fresh_task C ty tp w = (p, w1)" by fastforce
  have t: "t = Some p" "w' = AddTask (Some p) (link_father ty father p w1)"
    using assms(1) False f by (auto simp: CreateTask_unfold)
  have "tasks_ok (link_father ty father p w1)"
    by (rule tasks_ok_heap[OF tasks_ok_fresh[OF f assms(2)]]) auto
  moreover have p: "p < length (fw_tasks (link_father ty father p w1))"
    using fresh_task_props(1,2)[OF f] by simp
  ultimately have "tasks_ok w'" unfolding t by (rule tasks_ok_AddTask)
  moreover have "length (fw_tasks w') = length (fw_tasks (link_father ty father p w1))"
    by (simp add: t AddTask_def Let_def)
  ultimately show ?thesis using p t by simp
qed

lemma tasks_ok_create_and_push: "tasks_ok w \<Longrightarrow> tasks_ok (create_and_push C ty tp w)"
  unfolding create_and_push_def Let_def
  using tasks_ok_CreateTask[of C ty tp None w] by (auto split: prod.splits intro!: tasks_ok_PushTask)

lemma tasks_ok_RemoveTask: "tasks_ok w \<Longrightarrow> tasks_ok (RemoveTask i w)"
proof (rule tasks_okI)
  assume ok: "tasks_ok w"
  fix j p assume "om_get (tb_tasks (fw_board (RemoveTask i w))) j = Some p"
  then have "om_get (tb_tasks (fw_board w)) j = Some p"
    by (auto simp: RemoveTask_def RemoveTaskInner_def split: if_splits)
  from tasks_okD(3)[OF ok this]
  show "p < length (fw_tasks (RemoveTask i w)) \<and> t_id (GetTask p (RemoveTask i w)) = j"
    by (simp add: RemoveTask_def GetTask_def)
qed (auto simp: RemoveTask_def RemoveTaskInner_def om_intros dest: tasks_okD)

lemma IsEnabledDevice_iff: "IsEnabledDevice k b \<longleftrightarrow> om_get (tb_enabledDevices b) k \<noteq> None"
  by (auto simp: IsEnabledDevice_def list_ex_iff map_of_eq_None_iff)

interpretation enabled_devices: lookup_table
  "\<lambda>b. om_get (tb_enabledDevices b)" SaveEnabledDevice RemoveEnabledDevice
  "\<lambda>b. om_ok (tb_enabledDevices b)"
  by unfold_locales (auto simp: SaveEnabledDevice_def RemoveEnabledDevice_def om_intros)

end
