(* ===== verification/Db_Adapter.thy ===== *)
theory Db_Adapter
  imports TaskModel
begin

text \<open>
  The database adapter (\<open>resourcemanager/db_adapter.cpp\<close>).  An operation takes the adapter object, the
  state, and gives its result, the object (where it changes it) and the state.  The store itself is
  the parameter \<open>c_K\<close>.
\<close>

definition GLOBAL_META_INFO_KEY :: string where "GLOBAL_META_INFO_KEY = ''global_meta_info''"
definition GLOBAL_VERSION_INFO_KEY :: string where "GLOBAL_VERSION_INFO_KEY = ''global_version_info''"
definition GLOBAL_CAPABILITY_INFO_KEY :: string where "GLOBAL_CAPABILITY_INFO_KEY = ''global_capability_info''"

definition MAX_INIT_RETRY_TIMES :: nat where [simp]: "MAX_INIT_RETRY_TIMES = 20"
definition DIED_CHECK_MAX_TIMES :: nat where [simp]: "DIED_CHECK_MAX_TIMES = 300"
definition MAX_DB_RECORD_SIZE :: nat where [simp]: "MAX_DB_RECORD_SIZE = 10000"
definition MAX_WRITE_DB_DATA_SIZE :: nat where [simp]: "MAX_WRITE_DB_DATA_SIZE = 100"

definition DBAdapter_new :: "string \<Rightarrow> DBAdapter" where
  "DBAdapter_new storeId = \<lparr>db_storeId = storeId, db_isAutoSync = False, db_dataType = TYPE_STATICS,
     db_kvStoragePtr = False, db_deathListener = False\<rparr>"

section \<open>Opening the store\<close>

definition GetKvStorePtr ::
    "('s, 'j) config \<Rightarrow> bool \<Rightarrow> KvDataType \<Rightarrow> DBAdapter \<Rightarrow> 's fwk \<Rightarrow> KvStatus \<times> DBAdapter \<times> 's fwk" where
  "GetKvStorePtr C isAutoSync dataType d w =
    (let options = \<lparr>opt_autoSync = isAutoSync, opt_isPublic = True, opt_enableCloud = True,
                     opt_cloudAutoSync = True, opt_dataType = dataType\<rparr>;
         options' = (if dataType = TYPE_DYNAMICAL
                     then options\<lparr>opt_enableCloud := False, opt_cloudAutoSync := False\<rparr> else options)
     in case kv_GetSingleKvStore (c_K C) (fw_kv w) (db_storeId d) options' (db_kvStoragePtr d) of
          (status, ptr, kv) \<Rightarrow> (status, d\<lparr>db_kvStoragePtr := ptr\<rparr>, w\<lparr>fw_kv := kv\<rparr>))"

definition GetLocalKvStorePtr ::
    "('s, 'j) config \<Rightarrow> DBAdapter \<Rightarrow> 's fwk \<Rightarrow> KvStatus \<times> DBAdapter \<times> 's fwk" where
  "GetLocalKvStorePtr C d w =
    (case kv_GetSingleKvStore (c_K C) (fw_kv w) (db_storeId d)
            \<lparr>opt_autoSync = False, opt_isPublic = False, opt_enableCloud = False,
             opt_cloudAutoSync = False, opt_dataType = TYPE_STATICS\<rparr> (db_kvStoragePtr d) of
       (status, ptr, kv) \<Rightarrow> (status, d\<lparr>db_kvStoragePtr := ptr\<rparr>, w\<lparr>fw_kv := kv\<rparr>))"

definition RegisterChangeListener :: "('s, 'j) config \<Rightarrow> DBAdapter \<Rightarrow> 's fwk \<Rightarrow> int \<times> 's fwk" where
  "RegisterChangeListener C d w =
    (if \<not> db_kvStoragePtr d then (ERR_DH_FWK_RESOURCE_KV_STORAGE_POINTER_NULL, w)
     else case kv_Subscribe (c_K C) (fw_kv w) (db_storeId d) SUBSCRIBE_TYPE_REMOTE of
       (st, kv) \<Rightarrow>
         let w1 = w\<lparr>fw_kv := kv\<rparr> in
         if st = KV_IPC_ERROR then (ERR_DH_FWK_RESOURCE_REGISTER_DB_FAILED, w1)
         else case kv_Subscribe (c_K C) (fw_kv w1) (db_storeId d) SUBSCRIBE_TYPE_CLOUD of
           (st', kv') \<Rightarrow>
             let w2 = w1\<lparr>fw_kv := kv'\<rparr> in
             if st' = KV_IPC_ERROR then (ERR_DH_FWK_RESOURCE_REGISTER_DB_FAILED, w2)
             else (DH_FWK_SUCCESS, w2))"

definition UnRegisterChangeListener :: "('s, 'j) config \<Rightarrow> DBAdapter \<Rightarrow> 's fwk \<Rightarrow> int \<times> 's fwk" where
  "UnRegisterChangeListener C d w =
    (if \<not> db_kvStoragePtr d then (ERR_DH_FWK_RESOURCE_KV_STORAGE_POINTER_NULL, w)
     else case kv_UnSubscribe (c_K C) (fw_kv w) (db_storeId d) SUBSCRIBE_TYPE_REMOTE of
       (st, kv) \<Rightarrow>
         let w1 = w\<lparr>fw_kv := kv\<rparr> in
         if st = KV_IPC_ERROR then (ERR_DH_FWK_RESOURCE_UNREGISTER_DB_FAILED, w1)
         else case kv_UnSubscribe (c_K C) (fw_kv w1) (db_storeId d) SUBSCRIBE_TYPE_CLOUD of
           (st', kv') \<Rightarrow>
             let w2 = w1\<lparr>fw_kv := kv'\<rparr> in
             if st' = KV_IPC_ERROR then (ERR_DH_FWK_RESOURCE_UNREGISTER_DB_FAILED, w2)
             else (DH_FWK_SUCCESS, w2))"

definition RegisterKvStoreDeathListener :: "DBAdapter \<Rightarrow> DBAdapter" where
  "RegisterKvStoreDeathListener d = d\<lparr>db_deathListener := True\<rparr>"

definition UnRegisterKvStoreDeathListener :: "DBAdapter \<Rightarrow> DBAdapter" where
  "UnRegisterKvStoreDeathListener d = d\<lparr>db_deathListener := False\<rparr>"

text \<open>The retry loops of \<open>Init\<close> and \<open>InitLocal\<close>; the number is \<open>tryTimes\<close>.\<close>

fun DB_Init_loop ::
    "('s, 'j) config \<Rightarrow> nat \<Rightarrow> DBAdapter \<Rightarrow> 's fwk \<Rightarrow> int \<times> DBAdapter \<times> 's fwk" where
  "DB_Init_loop C 0 d w =
    (if \<not> db_kvStoragePtr d then (ERR_DH_FWK_RESOURCE_KV_STORAGE_POINTER_NULL, d, w)
     else (DH_FWK_SUCCESS, d, w))"
| "DB_Init_loop C (Suc tryTimes) d w =
    (case GetKvStorePtr C (db_isAutoSync d) (db_dataType d) d w of
       (status, d1, w1) \<Rightarrow>
         if status = KV_SUCCESS \<and> db_kvStoragePtr d1 then
           (let (r, w2) = RegisterChangeListener C d1 w1
            in (DH_FWK_SUCCESS, RegisterKvStoreDeathListener d1, w2))
         else
           let w2 = (if status = KV_STORE_META_CHANGED
                     then w1\<lparr>fw_kv := snd (kv_DeleteKvStore (c_K C) (fw_kv w1) (db_storeId d1))\<rparr>
                     else w1)
           in DB_Init_loop C tryTimes d1 w2)"

definition DB_Init ::
    "('s, 'j) config \<Rightarrow> bool \<Rightarrow> KvDataType \<Rightarrow> DBAdapter \<Rightarrow> 's fwk \<Rightarrow> int \<times> DBAdapter \<times> 's fwk" where
  "DB_Init C isAutoSync dataType d w =
    DB_Init_loop C MAX_INIT_RETRY_TIMES (d\<lparr>db_isAutoSync := isAutoSync, db_dataType := dataType\<rparr>) w"

fun DB_InitLocal_loop ::
    "('s, 'j) config \<Rightarrow> nat \<Rightarrow> DBAdapter \<Rightarrow> 's fwk \<Rightarrow> int \<times> DBAdapter \<times> 's fwk" where
  "DB_InitLocal_loop C 0 d w =
    (if \<not> db_kvStoragePtr d then (ERR_DH_FWK_RESOURCE_KV_STORAGE_POINTER_NULL, d, w)
     else (DH_FWK_SUCCESS, d, w))"
| "DB_InitLocal_loop C (Suc tryTimes) d w =
    (case GetLocalKvStorePtr C d w of
       (status, d1, w1) \<Rightarrow>
         if status = KV_SUCCESS \<and> db_kvStoragePtr d1
         then (DH_FWK_SUCCESS, RegisterKvStoreDeathListener d1, w1)
         else DB_InitLocal_loop C tryTimes d1 w1)"

definition DB_InitLocal :: "('s, 'j) config \<Rightarrow> DBAdapter \<Rightarrow> 's fwk \<Rightarrow> int \<times> DBAdapter \<times> 's fwk" where
  "DB_InitLocal C d w =
    DB_InitLocal_loop C MAX_INIT_RETRY_TIMES (d\<lparr>db_isAutoSync := False, db_dataType := TYPE_STATICS\<rparr>) w"

definition DB_UnInit :: "('s, 'j) config \<Rightarrow> DBAdapter \<Rightarrow> 's fwk \<Rightarrow> DBAdapter \<times> 's fwk" where
  "DB_UnInit C d w =
    (let w0 = call_void (EC_Event ''RemoveTask'' ''reInitTask'') w in
     if \<not> db_kvStoragePtr d then (d, w0)
     else
       let d1 = UnRegisterKvStoreDeathListener d;
           w1 = (if db_isAutoSync d1 then snd (UnRegisterChangeListener C d1 w0) else w0)
       in (d1\<lparr>db_kvStoragePtr := False\<rparr>, w1))"

definition DB_ReInit :: "('s, 'j) config \<Rightarrow> bool \<Rightarrow> DBAdapter \<Rightarrow> 's fwk \<Rightarrow> int \<times> DBAdapter \<times> 's fwk" where
  "DB_ReInit C isAutoSync d w =
    (if \<not> db_kvStoragePtr d then (ERR_DH_FWK_RESOURCE_KV_STORAGE_POINTER_NULL, d, w)
     else
       let d0 = d\<lparr>db_kvStoragePtr := False\<rparr>
       in case (if db_isAutoSync d0 then GetKvStorePtr C isAutoSync (db_dataType d0) d0 w
                else GetLocalKvStorePtr C d0 w) of
            (status, d1, w1) \<Rightarrow>
              if status \<noteq> KV_SUCCESS \<or> \<not> db_kvStoragePtr d1
              then (ERR_DH_FWK_RESOURCE_KV_STORAGE_OPERATION_FAIL, d1, w1)
              else (DH_FWK_SUCCESS, RegisterKvStoreDeathListener d1, w1))"

definition SyncDBForRecover :: "DBAdapter \<Rightarrow> 's fwk \<Rightarrow> 's fwk" where
  "SyncDBForRecover d w =
    (let w1 = (if db_storeId d = GLOBAL_CAPABILITY_INFO_KEY
               then call_void (EC_Event ''EVENT_CAPABILITY_INFO_DB_RECOVER'' (db_storeId d)) w else w);
         w2 = (if db_storeId d = GLOBAL_VERSION_INFO_KEY
               then call_void (EC_Event ''EVENT_VERSION_INFO_DB_RECOVER'' (db_storeId d)) w1 else w1)
     in if db_storeId d = GLOBAL_META_INFO_KEY
        then call_void (EC_Event ''EVENT_META_INFO_DB_RECOVER'' (db_storeId d)) w2 else w2)"

definition DBDiedOpt ::
    "('s, 'j) config \<Rightarrow> nat \<Rightarrow> DBAdapter \<Rightarrow> 's fwk \<Rightarrow> bool \<times> nat \<times> DBAdapter \<times> 's fwk" where
  "DBDiedOpt C n d w =
    (case DB_ReInit C (db_isAutoSync d) d w of
       (ret, d1, w1) \<Rightarrow>
         if ret = DH_FWK_SUCCESS then
           (let w2 = (if db_isAutoSync d1 then snd (RegisterChangeListener C d1 w1) else w1)
            in (True, n, d1, SyncDBForRecover d1 w2))
         else (False, n + 1, d1, w1))"

text \<open>The loop of the task \<open>OnRemoteDied\<close> posts: whether the store was reopened, and what is left.\<close>

function reInitTask ::
    "('s, 'j) config \<Rightarrow> nat \<Rightarrow> DBAdapter \<Rightarrow> 's fwk \<Rightarrow> bool \<times> DBAdapter \<times> 's fwk" where
  "reInitTask C n d w =
    (if n < DIED_CHECK_MAX_TIMES then
       (case DBDiedOpt C n d w of
          (done, n', d1, w1) \<Rightarrow> if done then (True, d1, w1) else reInitTask C n' d1 w1)
     else (False, d, w))"
  by auto

termination
  by (relation "measure (\<lambda>(C, n, d, w). DIED_CHECK_MAX_TIMES - n)")
    (auto simp: DBDiedOpt_def Let_def split: prod.splits if_splits)

declare reInitTask.simps [simp del]

section \<open>Reading\<close>

definition GetNetworkIdByKey :: "('s, 'j) config \<Rightarrow> string \<Rightarrow> 's fwk \<Rightarrow> string \<times> 's fwk" where
  "GetNetworkIdByKey C key w =
    (if \<not> IsIdLengthValid key then ([], w)
     else
       let devId = GetDeviceIdByDBGetPrefix key in
       if devId = [] then ([], w)
       else case GetDeviceInfo (c_P C) (fw_ctx w) of
         (info, ctx) \<Rightarrow>
           let w1 = w\<lparr>fw_ctx := ctx\<rparr> in
           if devId = di_deviceId info then ([], w1)
           else
             let uuid = GetUUIDByDeviceId devId (fw_ctx w1) in
             if uuid = [] then ([], w1)
             else if \<not> IsDeviceOnline uuid (fw_ctx w1) then ([], w1)
             else (GetNetworkIdByUUID uuid (fw_ctx w1), w1))"

definition SyncByNotFound :: "('s, 'j) config \<Rightarrow> DBAdapter \<Rightarrow> string \<Rightarrow> 's fwk \<Rightarrow> 's fwk" where
  "SyncByNotFound C d key w =
    (if \<not> IsIdLengthValid key then w
     else case GetNetworkIdByKey C key w of
       (networkId, w1) \<Rightarrow>
         if networkId = [] then w1
         else w1\<lparr>fw_kv := snd (kv_Sync (c_K C) (fw_kv w1) (db_storeId d) [networkId])\<rparr>)"

text \<open>The two conditional synchronisations after a miss; the second is compiled in the open source build.\<close>

definition sync_on_miss :: "('s, 'j) config \<Rightarrow> DBAdapter \<Rightarrow> string \<Rightarrow> 's fwk \<Rightarrow> 's fwk" where
  "sync_on_miss C d key w =
    (let w1 = (if db_dataType d = TYPE_DYNAMICAL then SyncByNotFound C d key w else w)
     in if c_open_source C \<and> db_dataType d = TYPE_STATICS \<and> db_storeId d = GLOBAL_META_INFO_KEY
        then SyncByNotFound C d key w1 else w1)"

definition DB_GetDataByKey ::
    "('s, 'j) config \<Rightarrow> DBAdapter \<Rightarrow> string \<Rightarrow> string \<Rightarrow> 's fwk \<Rightarrow> int \<times> string \<times> 's fwk" where
  "DB_GetDataByKey C d key data w =
    (if \<not> IsIdLengthValid key then (ERR_DH_FWK_PARA_INVALID, data, w)
     else if \<not> db_kvStoragePtr d then (ERR_DH_FWK_RESOURCE_KV_STORAGE_POINTER_NULL, data, w)
     else case kv_Get (c_K C) (fw_kv w) (db_storeId d) key of
       (status, kvValue) \<Rightarrow>
         let w1 = (if status = KV_NOT_FOUND then sync_on_miss C d key w else w) in
         if status \<noteq> KV_SUCCESS then (ERR_DH_FWK_RESOURCE_KV_STORAGE_OPERATION_FAIL, data, w1)
         else (DH_FWK_SUCCESS, kvValue, w1))"

definition DB_GetDataByKeyPrefix ::
    "('s, 'j) config \<Rightarrow> DBAdapter \<Rightarrow> string \<Rightarrow> 's fwk \<Rightarrow> int \<times> string list \<times> 's fwk" where
  "DB_GetDataByKeyPrefix C d keyPrefix w =
    (if \<not> db_kvStoragePtr d then (ERR_DH_FWK_RESOURCE_KV_STORAGE_POINTER_NULL, [], w)
     else case kv_GetEntries (c_K C) (fw_kv w) (db_storeId d) keyPrefix of
       (status, allEntries) \<Rightarrow>
         let w1 = (if status = KV_SUCCESS \<and> length allEntries = 0 then sync_on_miss C d keyPrefix w else w) in
         if status \<noteq> KV_SUCCESS then (ERR_DH_FWK_RESOURCE_KV_STORAGE_OPERATION_FAIL, [], w1)
         else if allEntries = [] \<or> length allEntries > MAX_DB_RECORD_SIZE
           then (ERR_DH_FWK_RESOURCE_RES_DB_DATA_INVALID, [], w1)
         else (DH_FWK_SUCCESS, map snd allEntries, w1))"

definition DB_GetEntriesByKeys ::
    "('s, 'j) config \<Rightarrow> DBAdapter \<Rightarrow> string list \<Rightarrow> 's fwk \<Rightarrow> (string \<times> string) list" where
  "DB_GetEntriesByKeys C d keys w =
    (if \<not> IsArrayLengthValid keys then []
     else if \<not> db_kvStoragePtr d then []
     else concat (map (\<lambda>key. case kv_Get (c_K C) (fw_kv w) (db_storeId d) key of
            (status, v) \<Rightarrow> if status \<noteq> KV_SUCCESS then [] else [(key, v)]) keys))"

section \<open>Writing\<close>

definition DB_PutData ::
    "('s, 'j) config \<Rightarrow> DBAdapter \<Rightarrow> string \<Rightarrow> string \<Rightarrow> 's fwk \<Rightarrow> int \<times> 's fwk" where
  "DB_PutData C d key v w =
    (if \<not> IsIdLengthValid key \<or> \<not> IsMessageLengthValid v then (ERR_DH_FWK_PARA_INVALID, w)
     else if \<not> db_kvStoragePtr d then (ERR_DH_FWK_RESOURCE_KV_STORAGE_POINTER_NULL, w)
     else case kv_Put (c_K C) (fw_kv w) (db_storeId d) key v of
       (status, kv) \<Rightarrow>
         if status = KV_IPC_ERROR then (ERR_DH_FWK_RESOURCE_KV_STORAGE_OPERATION_FAIL, w\<lparr>fw_kv := kv\<rparr>)
         else (DH_FWK_SUCCESS, w\<lparr>fw_kv := kv\<rparr>))"

definition DB_PutDataBatch ::
    "('s, 'j) config \<Rightarrow> DBAdapter \<Rightarrow> string list \<Rightarrow> string list \<Rightarrow> 's fwk \<Rightarrow> int \<times> 's fwk" where
  "DB_PutDataBatch C d keys values w =
    (if \<not> IsArrayLengthValid keys \<or> \<not> IsArrayLengthValid values then (ERR_DH_FWK_PARA_INVALID, w)
     else if \<not> db_kvStoragePtr d then (ERR_DH_FWK_RESOURCE_KV_STORAGE_POINTER_NULL, w)
     else if length keys \<noteq> length values \<or> keys = [] \<or> values = [] then (ERR_DH_FWK_PARA_INVALID, w)
     else case kv_PutBatch (c_K C) (fw_kv w) (db_storeId d) (zip keys values) of
       (status, kv) \<Rightarrow>
         if status \<noteq> KV_SUCCESS then (ERR_DH_FWK_RESOURCE_KV_STORAGE_OPERATION_FAIL, w\<lparr>fw_kv := kv\<rparr>)
         else (DH_FWK_SUCCESS, w\<lparr>fw_kv := kv\<rparr>))"

definition DB_RemoveDeviceData ::
    "('s, 'j) config \<Rightarrow> DBAdapter \<Rightarrow> string \<Rightarrow> 's fwk \<Rightarrow> int \<times> 's fwk" where
  "DB_RemoveDeviceData C d devId w =
    (if \<not> IsIdLengthValid devId then (ERR_DH_FWK_PARA_INVALID, w)
     else if \<not> db_kvStoragePtr d then (ERR_DH_FWK_RESOURCE_KV_STORAGE_POINTER_NULL, w)
     else case kv_RemoveDeviceData (c_K C) (fw_kv w) (db_storeId d) devId of
       (status, kv) \<Rightarrow>
         if status \<noteq> KV_SUCCESS then (ERR_DH_FWK_RESOURCE_KV_STORAGE_OPERATION_FAIL, w\<lparr>fw_kv := kv\<rparr>)
         else (DH_FWK_SUCCESS, w\<lparr>fw_kv := kv\<rparr>))"

definition DB_RemoveDataByKey ::
    "('s, 'j) config \<Rightarrow> DBAdapter \<Rightarrow> string \<Rightarrow> 's fwk \<Rightarrow> int \<times> 's fwk" where
  "DB_RemoveDataByKey C d key w =
    (if \<not> IsIdLengthValid key then (ERR_DH_FWK_PARA_INVALID, w)
     else if \<not> db_kvStoragePtr d then (ERR_DH_FWK_RESOURCE_KV_STORAGE_POINTER_NULL, w)
     else case kv_Delete (c_K C) (fw_kv w) (db_storeId d) key of
       (status, kv) \<Rightarrow>
         if status \<noteq> KV_SUCCESS then (ERR_DH_FWK_RESOURCE_KV_STORAGE_OPERATION_FAIL, w\<lparr>fw_kv := kv\<rparr>)
         else (DH_FWK_SUCCESS, w\<lparr>fw_kv := kv\<rparr>))"

definition DB_SyncDataByNetworkId ::
    "('s, 'j) config \<Rightarrow> DBAdapter \<Rightarrow> string \<Rightarrow> 's fwk \<Rightarrow> bool \<times> 's fwk" where
  "DB_SyncDataByNetworkId C d networkId w =
    (if \<not> db_kvStoragePtr d then (False, w)
     else case kv_Sync (c_K C) (fw_kv w) (db_storeId d) [networkId] of
       (status, kv) \<Rightarrow> if status \<noteq> KV_SUCCESS then (False, w\<lparr>fw_kv := kv\<rparr>) else (True, w\<lparr>fw_kv := kv\<rparr>))"

definition DB_ClearDataByPrefix ::
    "('s, 'j) config \<Rightarrow> DBAdapter \<Rightarrow> string \<Rightarrow> 's fwk \<Rightarrow> bool \<times> 's fwk" where
  "DB_ClearDataByPrefix C d prefix w =
    (if \<not> db_kvStoragePtr d then (False, w)
     else
       let keyPrefix = sha (c_P C) prefix in
       case kv_GetEntries (c_K C) (fw_kv w) (db_storeId d) keyPrefix of
         (status, peerEntries) \<Rightarrow>
           if status \<noteq> KV_SUCCESS \<or> length peerEntries = 0 then (False, w)
           else case kv_DeleteBatch (c_K C) (fw_kv w) (db_storeId d) (map fst peerEntries) of
             (st, kv) \<Rightarrow>
               if st \<noteq> KV_SUCCESS then (False, w\<lparr>fw_kv := kv\<rparr>) else (True, w\<lparr>fw_kv := kv\<rparr>))"

end
