(* ===== verification/Capability_Manager.thy ===== *)
theory Capability_Manager
  imports Db_Adapter
begin

text \<open>
  The capability manager (\<open>resourcemanager/capability_info_manager.cpp\<close>): an in-memory map of
  capabilities in front of the dynamic database, kept in step with it by the change notifications,
  which also create the enable and disable tasks.  A null pointer in a vector of capabilities is
  \<open>None\<close>.
\<close>

section \<open>The cache\<close>

definition cap_put :: "string \<Rightarrow> CapabilityInfo \<Rightarrow> CapabilityInfoManager \<Rightarrow> CapabilityInfoManager" where
  "cap_put k c m = m\<lparr>cim_globalCapInfoMap := om_put k c (cim_globalCapInfoMap m)\<rparr>"

definition cap_erase :: "string \<Rightarrow> CapabilityInfoManager \<Rightarrow> CapabilityInfoManager" where
  "cap_erase k m = m\<lparr>cim_globalCapInfoMap := om_del k (cim_globalCapInfoMap m)\<rparr>"

text \<open>The erase loop shared by the removals by device.\<close>

definition cap_erase_device :: "string \<Rightarrow> CapabilityInfoManager \<Rightarrow> CapabilityInfoManager" where
  "cap_erase_device devId m =
    m\<lparr>cim_globalCapInfoMap := om_keep (\<lambda>k _. \<not> IsCapKeyMatchDeviceId k devId) (cim_globalCapInfoMap m)\<rparr>"

interpretation cap_cache: lookup_table
  "\<lambda>m. om_get (cim_globalCapInfoMap m)" cap_put cap_erase "\<lambda>m. om_ok (cim_globalCapInfoMap m)"
  by unfold_locales (auto simp: cap_put_def cap_erase_def om_intros)

definition upd_cap :: "(CapabilityInfoManager \<Rightarrow> CapabilityInfoManager) \<Rightarrow> 's fwk \<Rightarrow> 's fwk" where
  "upd_cap f w = w\<lparr>fw_cap := f (fw_cap w)\<rparr>"

section \<open>Life cycle\<close>

definition Cap_Init :: "('s, 'j) config \<Rightarrow> 's fwk \<Rightarrow> int \<times> 's fwk" where
  "Cap_Init C w =
    (case DB_Init C False TYPE_DYNAMICAL (DBAdapter_new GLOBAL_CAPABILITY_INFO_KEY) w of
       (ret, d, w1) \<Rightarrow>
         let w2 = upd_cap (\<lambda>m. m\<lparr>cim_dbAdapterPtr := Some d\<rparr>) w1 in
         if ret \<noteq> DH_FWK_SUCCESS then (ERR_DH_FWK_RESOURCE_INIT_DB_FAILED, w2)
         else (DH_FWK_SUCCESS, w2))"

definition Cap_UnInit :: "('s, 'j) config \<Rightarrow> 's fwk \<Rightarrow> int \<times> 's fwk" where
  "Cap_UnInit C w =
    (case cim_dbAdapterPtr (fw_cap w) of
       None \<Rightarrow> (ERR_DH_FWK_RESOURCE_UNINIT_DB_FAILED, w)
     | Some d \<Rightarrow>
        (let (d1, w1) = DB_UnInit C d w
         in (DH_FWK_SUCCESS, upd_cap (\<lambda>m. m\<lparr>cim_dbAdapterPtr := None\<rparr>) w1)))"

section \<open>Synchronising from the database\<close>

fun Cap_store_all :: "('s, 'j) config \<Rightarrow> string list \<Rightarrow> 's fwk \<Rightarrow> 's fwk" where
  "Cap_store_all C [] w = w"
| "Cap_store_all C (data # rest) w =
    (case GetCapabilityByValue (c_J C) data None of
       (ret, c) \<Rightarrow>
         if ret \<noteq> DH_FWK_SUCCESS then Cap_store_all C rest w
         else Cap_store_all C rest (upd_cap (cap_put (CapabilityInfo_GetKey c) c) w))"

definition Cap_SyncDeviceInfoFromDB :: "('s, 'j) config \<Rightarrow> string \<Rightarrow> 's fwk \<Rightarrow> int \<times> 's fwk" where
  "Cap_SyncDeviceInfoFromDB C devId w =
    (if \<not> IsIdLengthValid devId then (ERR_DH_FWK_PARA_INVALID, w)
     else case cim_dbAdapterPtr (fw_cap w) of
       None \<Rightarrow> (ERR_DH_FWK_RESOURCE_DB_ADAPTER_POINTER_NULL, w)
     | Some d \<Rightarrow>
        (case DB_GetDataByKeyPrefix C d devId w of
           (ret, dataVector, w1) \<Rightarrow>
             if ret \<noteq> DH_FWK_SUCCESS then (ERR_DH_FWK_RESOURCE_DB_ADAPTER_OPERATION_FAIL, w1)
             else if dataVector = [] \<or> length dataVector > MAX_DB_RECORD_SIZE
               then (ERR_DH_FWK_RESOURCE_RES_DB_DATA_INVALID, w1)
             else (DH_FWK_SUCCESS, Cap_store_all C dataVector w1)))"

fun Cap_store_remote :: "('s, 'j) config \<Rightarrow> string list \<Rightarrow> 's fwk \<Rightarrow> 's fwk" where
  "Cap_store_remote C [] w = w"
| "Cap_store_remote C (data # rest) w =
    (case GetCapabilityByValue (c_J C) data None of
       (ret, c) \<Rightarrow>
         if ret \<noteq> DH_FWK_SUCCESS then Cap_store_remote C rest w
         else case GetDeviceInfo (c_P C) (fw_ctx w) of
           (info, ctx) \<Rightarrow>
             let w1 = w\<lparr>fw_ctx := ctx\<rparr> in
             if ci_deviceId c = di_deviceId info then Cap_store_remote C rest w1
             else Cap_store_remote C rest (upd_cap (cap_put (CapabilityInfo_GetKey c) c) w1))"

fun Cap_sync_devices :: "('s, 'j) config \<Rightarrow> DBAdapter \<Rightarrow> string list \<Rightarrow> 's fwk \<Rightarrow> 's fwk" where
  "Cap_sync_devices C d [] w = w"
| "Cap_sync_devices C d (devId # rest) w =
    (case DB_GetDataByKeyPrefix C d devId w of
       (ret, dataVector, w1) \<Rightarrow>
         if ret \<noteq> DH_FWK_SUCCESS then Cap_sync_devices C d rest w1
         else if dataVector = [] \<or> length dataVector > MAX_DB_RECORD_SIZE then Cap_sync_devices C d rest w1
         else Cap_sync_devices C d rest (Cap_store_remote C dataVector w1))"

definition Cap_SyncRemoteCapabilityInfos :: "('s, 'j) config \<Rightarrow> 's fwk \<Rightarrow> int \<times> 's fwk" where
  "Cap_SyncRemoteCapabilityInfos C w =
    (case cim_dbAdapterPtr (fw_cap w) of
       None \<Rightarrow> (ERR_DH_FWK_RESOURCE_DB_ADAPTER_POINTER_NULL, w)
     | Some d \<Rightarrow> (DH_FWK_SUCCESS, Cap_sync_devices C d (GetOnlineDeviceDeviceId (fw_ctx w)) w))"

section \<open>Adding and removing\<close>

fun Cap_add_loop ::
    "('s, 'j) config \<Rightarrow> DBAdapter \<Rightarrow> CapabilityInfo option list \<Rightarrow> string list \<Rightarrow> string list \<Rightarrow> string \<Rightarrow>
     's fwk \<Rightarrow> string list \<times> string list \<times> 's fwk" where
  "Cap_add_loop C d [] keys values data w = (keys, values, w)"
| "Cap_add_loop C d (None # rest) keys values data w = Cap_add_loop C d rest keys values data w"
| "Cap_add_loop C d (Some c # rest) keys values data w =
    (let key = CapabilityInfo_GetKey c;
         w1 = upd_cap (cap_put key c) w
     in case DB_GetDataByKey C d key data w1 of
          (ret, data', w2) \<Rightarrow>
            if ret = DH_FWK_SUCCESS \<and> IsCapInfoJsonEqual (c_J C) data' (CapabilityInfo_ToJsonString (c_J C) c)
            then Cap_add_loop C d rest keys values data' w2
            else Cap_add_loop C d rest (keys @ [key])
                   (values @ [CapabilityInfo_ToJsonString (c_J C) c]) data' w2)"

definition Cap_AddCapability ::
    "('s, 'j) config \<Rightarrow> CapabilityInfo option list \<Rightarrow> 's fwk \<Rightarrow> int \<times> 's fwk" where
  "Cap_AddCapability C resInfos w =
    (if resInfos = [] \<or> length resInfos > MAX_WRITE_DB_DATA_SIZE
     then (ERR_DH_FWK_RESOURCE_RES_DB_DATA_INVALID, w)
     else case cim_dbAdapterPtr (fw_cap w) of
       None \<Rightarrow> (ERR_DH_FWK_RESOURCE_DB_ADAPTER_POINTER_NULL, w)
     | Some d \<Rightarrow>
        (case Cap_add_loop C d resInfos [] [] [] w of
           (keys, values, w1) \<Rightarrow>
             if keys = [] \<or> values = [] then (DH_FWK_SUCCESS, w1)
             else case DB_PutDataBatch C d keys values w1 of
               (ret, w2) \<Rightarrow>
                 if ret \<noteq> DH_FWK_SUCCESS then (ERR_DH_FWK_RESOURCE_DB_ADAPTER_OPERATION_FAIL, w2)
                 else (DH_FWK_SUCCESS, w2)))"

fun Cap_mem_loop :: "CapabilityInfo option list \<Rightarrow> 's fwk \<Rightarrow> 's fwk" where
  "Cap_mem_loop [] w = w"
| "Cap_mem_loop (None # rest) w = Cap_mem_loop rest w"
| "Cap_mem_loop (Some c # rest) w = Cap_mem_loop rest (upd_cap (cap_put (CapabilityInfo_GetKey c) c) w)"

definition Cap_AddCapabilityInMem :: "CapabilityInfo option list \<Rightarrow> 's fwk \<Rightarrow> int \<times> 's fwk" where
  "Cap_AddCapabilityInMem resInfos w =
    (if resInfos = [] \<or> length resInfos > MAX_DB_RECORD_SIZE
     then (ERR_DH_FWK_RESOURCE_RES_DB_DATA_INVALID, w)
     else (DH_FWK_SUCCESS, Cap_mem_loop resInfos w))"

definition Cap_RemoveCapabilityInfoInDB :: "('s, 'j) config \<Rightarrow> string \<Rightarrow> 's fwk \<Rightarrow> int \<times> 's fwk" where
  "Cap_RemoveCapabilityInfoInDB C devId w =
    (if \<not> IsIdLengthValid devId then (ERR_DH_FWK_PARA_INVALID, w)
     else case cim_dbAdapterPtr (fw_cap w) of
       None \<Rightarrow> (ERR_DH_FWK_RESOURCE_DB_ADAPTER_POINTER_NULL, w)
     | Some d \<Rightarrow>
        (case DB_RemoveDeviceData C d devId (upd_cap (cap_erase_device devId) w) of
           (ret, w2) \<Rightarrow>
             if ret \<noteq> DH_FWK_SUCCESS then (ERR_DH_FWK_RESOURCE_DB_ADAPTER_OPERATION_FAIL, w2)
             else (DH_FWK_SUCCESS, w2)))"

definition Cap_RemoveCapabilityInfoByKey :: "('s, 'j) config \<Rightarrow> string \<Rightarrow> 's fwk \<Rightarrow> int \<times> 's fwk" where
  "Cap_RemoveCapabilityInfoByKey C key w =
    (if \<not> IsIdLengthValid key then (ERR_DH_FWK_PARA_INVALID, w)
     else case cim_dbAdapterPtr (fw_cap w) of
       None \<Rightarrow> (ERR_DH_FWK_RESOURCE_DB_ADAPTER_POINTER_NULL, w)
     | Some d \<Rightarrow>
        (case DB_RemoveDataByKey C d key (upd_cap (cap_erase key) w) of
           (ret, w2) \<Rightarrow>
             if ret \<noteq> DH_FWK_SUCCESS then (ERR_DH_FWK_RESOURCE_DB_ADAPTER_OPERATION_FAIL, w2)
             else (DH_FWK_SUCCESS, w2)))"

definition Cap_RemoveCapabilityInfoInMem :: "string \<Rightarrow> 's fwk \<Rightarrow> int \<times> 's fwk" where
  "Cap_RemoveCapabilityInfoInMem devId w =
    (if \<not> IsIdLengthValid devId then (ERR_DH_FWK_PARA_INVALID, w)
     else (DH_FWK_SUCCESS, upd_cap (cap_erase_device devId) w))"

section \<open>Change notifications\<close>

text \<open>The parameters of the task a change creates; an entry is a key and a value.\<close>

definition change_param :: "string \<Rightarrow> string \<Rightarrow> 'a CapabilityInfo_scheme \<Rightarrow> TaskParam" where
  "change_param networkId uuid c = TaskParam_default\<lparr>tp_networkId := networkId, tp_uuid := uuid,
     tp_dhId := ci_dhId c, tp_dhType := ci_dhType c\<rparr>"

fun HandleCapabilityAddChange :: "('s, 'j) config \<Rightarrow> (string \<times> string) list \<Rightarrow> 's fwk \<Rightarrow> 's fwk" where
  "HandleCapabilityAddChange C [] w = w"
| "HandleCapabilityAddChange C ((k, value) # rest) w =
    (case GetCapabilityByValue (c_J C) value None of
       (ret, c) \<Rightarrow>
         if ret \<noteq> DH_FWK_SUCCESS then HandleCapabilityAddChange C rest w
         else
           let uuid = GetUUIDByDeviceId (ci_deviceId c) (fw_ctx w) in
           if uuid = [] then HandleCapabilityAddChange C rest w
           else
             let networkId = GetNetworkIdByUUID uuid (fw_ctx w) in
             if networkId = [] then HandleCapabilityAddChange C rest w
             else
               let w1 = upd_cap (cap_put (CapabilityInfo_GetKey c) c) w
               in HandleCapabilityAddChange C rest
                    (create_and_push C TT_ENABLE (change_param networkId uuid c) w1))"

fun Cap_update_loop :: "('s, 'j) config \<Rightarrow> (string \<times> string) list \<Rightarrow> 's fwk \<Rightarrow> 's fwk" where
  "Cap_update_loop C [] w = w"
| "Cap_update_loop C ((k, value) # rest) w =
    (case GetCapabilityByValue (c_J C) value None of
       (ret, c) \<Rightarrow>
         if ret \<noteq> DH_FWK_SUCCESS then Cap_update_loop C rest w
         else
           let uuid = GetUUIDByDeviceId (ci_deviceId c) (fw_ctx w) in
           if uuid = [] then Cap_update_loop C rest w
           else
             let networkId = GetNetworkIdByUUID uuid (fw_ctx w) in
             if networkId = [] then Cap_update_loop C rest w
             else
               let enabledDeviceKey = GetCapabilityKey (ci_deviceId c) (ci_dhId c) in
               if IsEnabledDevice enabledDeviceKey (fw_board w) then Cap_update_loop C rest w
               else
                 let w1 = upd_cap (cap_put (CapabilityInfo_GetKey c) c) w
                 in Cap_update_loop C rest
                      (create_and_push C TT_ENABLE (change_param networkId uuid c) w1))"

definition HandleCapabilityUpdateChange ::
    "('s, 'j) config \<Rightarrow> (string \<times> string) list \<Rightarrow> 's fwk \<Rightarrow> 's fwk" where
  "HandleCapabilityUpdateChange C updateRecords w =
    (if fw_unInitFlag w then w else Cap_update_loop C updateRecords w)"

fun Cap_delete_loop :: "('s, 'j) config \<Rightarrow> (string \<times> string) list \<Rightarrow> 's fwk \<Rightarrow> 's fwk" where
  "Cap_delete_loop C [] w = w"
| "Cap_delete_loop C ((k, value) # rest) w =
    (case GetCapabilityByValue (c_J C) value None of
       (ret, c) \<Rightarrow>
         if ret \<noteq> DH_FWK_SUCCESS then Cap_delete_loop C rest w
         else
           let uuid = GetUUIDByDeviceId (ci_deviceId c) (fw_ctx w) in
           if uuid = [] then Cap_delete_loop C rest w
           else
             let networkId = GetNetworkIdByUUID uuid (fw_ctx w) in
             if networkId = [] then Cap_delete_loop C rest w
             else Cap_delete_loop C rest
                    (upd_cap (cap_erase (CapabilityInfo_GetKey c))
                      (create_and_push C TT_DISABLE (change_param networkId uuid c) w)))"

definition HandleCapabilityDeleteChange ::
    "('s, 'j) config \<Rightarrow> (string \<times> string) list \<Rightarrow> 's fwk \<Rightarrow> 's fwk" where
  "HandleCapabilityDeleteChange C deleteRecords w =
    (if fw_unInitFlag w then w else Cap_delete_loop C deleteRecords w)"

definition handled :: "'a list \<Rightarrow> bool" where
  "handled entries = (entries \<noteq> [] \<and> length entries \<le> MAX_DB_RECORD_SIZE)"

definition Cap_OnChange ::
    "('s, 'j) config \<Rightarrow> (string \<times> string) list \<Rightarrow> (string \<times> string) list \<Rightarrow> (string \<times> string) list \<Rightarrow>
     's fwk \<Rightarrow> 's fwk" where
  "Cap_OnChange C ins upd del w =
    (let w1 = (if handled ins then HandleCapabilityAddChange C ins w else w);
         w2 = (if handled upd then HandleCapabilityUpdateChange C upd w1 else w1)
     in if handled del then HandleCapabilityDeleteChange C del w2 else w2)"

definition Cap_GetEntriesByKeys ::
    "('s, 'j) config \<Rightarrow> string list \<Rightarrow> 's fwk \<Rightarrow> (string \<times> string) list" where
  "Cap_GetEntriesByKeys C keys w =
    (if \<not> IsArrayLengthValid keys then []
     else case cim_dbAdapterPtr (fw_cap w) of
       None \<Rightarrow> []
     | Some d \<Rightarrow> DB_GetEntriesByKeys C d keys w)"

text \<open>
  The notification of a cloud change brings keys only: the entries of the deleted ones carry an empty
  value.
\<close>

definition Cap_OnCloudChange ::
    "('s, 'j) config \<Rightarrow> string list \<Rightarrow> string list \<Rightarrow> string list \<Rightarrow> 's fwk \<Rightarrow> 's fwk" where
  "Cap_OnCloudChange C insKeys updKeys delKeys w =
    (let insertRecords = Cap_GetEntriesByKeys C insKeys w;
         w1 = (if handled insertRecords then HandleCapabilityAddChange C insertRecords w else w);
         updateRecords = Cap_GetEntriesByKeys C updKeys w1;
         w2 = (if handled updateRecords then HandleCapabilityUpdateChange C updateRecords w1 else w1)
     in if handled delKeys
        then HandleCapabilityDeleteChange C (map (\<lambda>key. (key, [])) delKeys) w2
        else w2)"

section \<open>Reading\<close>

definition Cap_GetCapabilitiesByDeviceId :: "string \<Rightarrow> CapabilityInfoManager \<Rightarrow> CapabilityInfo list" where
  "Cap_GetCapabilitiesByDeviceId devId m =
    (if \<not> IsIdLengthValid devId then []
     else map snd (om_keep (\<lambda>k _. IsCapKeyMatchDeviceId k devId) (cim_globalCapInfoMap m)))"

definition Cap_HasCapability :: "string \<Rightarrow> string \<Rightarrow> CapabilityInfoManager \<Rightarrow> bool" where
  "Cap_HasCapability devId i m =
    (if \<not> IsIdLengthValid devId \<or> \<not> IsIdLengthValid i then False
     else om_has (cim_globalCapInfoMap m) (GetCapabilityKey devId i))"

definition Cap_GetCapability ::
    "string \<Rightarrow> string \<Rightarrow> CapabilityInfoManager \<Rightarrow> int \<times> CapabilityInfo option" where
  "Cap_GetCapability devId i m =
    (if \<not> IsIdLengthValid devId \<or> \<not> IsIdLengthValid i then (ERR_DH_FWK_PARA_INVALID, None)
     else case om_get (cim_globalCapInfoMap m) (GetCapabilityKey devId i) of
       None \<Rightarrow> (ERR_DH_FWK_RESOURCE_CAPABILITY_MAP_NOT_FOUND, None)
     | Some c \<Rightarrow> (DH_FWK_SUCCESS, Some c))"

definition Cap_GetDataByKey ::
    "('s, 'j) config \<Rightarrow> string \<Rightarrow> 's fwk \<Rightarrow> int \<times> CapabilityInfo option \<times> 's fwk" where
  "Cap_GetDataByKey C key w =
    (if \<not> IsIdLengthValid key then (ERR_DH_FWK_PARA_INVALID, None, w)
     else case cim_dbAdapterPtr (fw_cap w) of
       None \<Rightarrow> (ERR_DH_FWK_RESOURCE_DB_ADAPTER_POINTER_NULL, None, w)
     | Some d \<Rightarrow>
        (case DB_GetDataByKey C d key [] w of
           (ret, data, w1) \<Rightarrow>
             if ret \<noteq> DH_FWK_SUCCESS then (ERR_DH_FWK_RESOURCE_DB_ADAPTER_OPERATION_FAIL, None, w1)
             else case GetCapabilityByValue (c_J C) data None of (ret', c) \<Rightarrow> (ret', Some c, w1)))"

definition Cap_GetDataByDHType ::
    "DHType \<Rightarrow> (string, CapabilityInfo) omap \<Rightarrow> CapabilityInfoManager \<Rightarrow> (string, CapabilityInfo) omap" where
  "Cap_GetDataByDHType ty out m =
    fold (\<lambda>(k, c) out. if ci_dhType c \<noteq> ty then out else om_put k c out) (cim_globalCapInfoMap m) out"

fun Cap_collect ::
    "('s, 'j) config \<Rightarrow> string list \<Rightarrow> (string, CapabilityInfo) omap \<Rightarrow> (string, CapabilityInfo) omap" where
  "Cap_collect C [] out = out"
| "Cap_collect C (data # rest) out =
    (case GetCapabilityByValue (c_J C) data None of
       (ret, c) \<Rightarrow>
         if ret \<noteq> DH_FWK_SUCCESS then Cap_collect C rest out
         else Cap_collect C rest (om_put (CapabilityInfo_GetKey c) c out))"

definition Cap_GetDataByKeyPrefix ::
    "('s, 'j) config \<Rightarrow> string \<Rightarrow> (string, CapabilityInfo) omap \<Rightarrow> 's fwk \<Rightarrow>
     int \<times> (string, CapabilityInfo) omap \<times> 's fwk" where
  "Cap_GetDataByKeyPrefix C keyPrefix out w =
    (if \<not> IsIdLengthValid keyPrefix then (ERR_DH_FWK_PARA_INVALID, out, w)
     else case cim_dbAdapterPtr (fw_cap w) of
       None \<Rightarrow> (ERR_DH_FWK_RESOURCE_DB_ADAPTER_POINTER_NULL, out, w)
     | Some d \<Rightarrow>
        (case DB_GetDataByKeyPrefix C d keyPrefix w of
           (ret, dataVector, w1) \<Rightarrow>
             if ret \<noteq> DH_FWK_SUCCESS then (ERR_DH_FWK_RESOURCE_DB_ADAPTER_OPERATION_FAIL, out, w1)
             else if dataVector = [] \<or> length dataVector > MAX_DB_RECORD_SIZE
               then (ERR_DH_FWK_RESOURCE_RES_DB_DATA_INVALID, out, w1)
             else (DH_FWK_SUCCESS, Cap_collect C dataVector out, w1)))"

definition Cap_DumpCapabilityInfos :: "CapabilityInfoManager \<Rightarrow> CapabilityInfo list" where
  "Cap_DumpCapabilityInfos m = map snd (cim_globalCapInfoMap m)"

definition Cap_GetDhSubtype :: "string \<Rightarrow> string \<Rightarrow> CapabilityInfoManager \<Rightarrow> string" where
  "Cap_GetDhSubtype devId i m =
    (if \<not> IsIdLengthValid devId \<or> \<not> IsIdLengthValid i then []
     else case om_get (cim_globalCapInfoMap m) (GetCapabilityKey devId i) of
       None \<Rightarrow> []
     | Some c \<Rightarrow> ci_dhSubtype c)"

end
