(* ===== verification/Local_Capability_Manager.thy ===== *)
theory Local_Capability_Manager
  imports Capability_Manager
begin

text \<open>
  The local capability manager (\<open>resourcemanager/local_capability_info_manager.cpp\<close>): the full
  capabilities of the devices seen so far, in a local static database.  Its map has the operations of
  the capability manager's cache.
\<close>

definition LOCAL_CAPABILITY_INFO_KEY :: string where
  "LOCAL_CAPABILITY_INFO_KEY = ''local_capability_info''"

definition upd_local :: "(CapabilityInfoManager \<Rightarrow> CapabilityInfoManager) \<Rightarrow> 's fwk \<Rightarrow> 's fwk" where
  "upd_local f w = w\<lparr>fw_local := f (fw_local w)\<rparr>"

definition Local_Init :: "('s, 'j) config \<Rightarrow> 's fwk \<Rightarrow> int \<times> 's fwk" where
  "Local_Init C w =
    (case DB_InitLocal C (DBAdapter_new LOCAL_CAPABILITY_INFO_KEY) w of
       (ret, d, w1) \<Rightarrow>
         let w2 = upd_local (\<lambda>m. m\<lparr>cim_dbAdapterPtr := Some d\<rparr>) w1 in
         if ret \<noteq> DH_FWK_SUCCESS then (ERR_DH_FWK_RESOURCE_INIT_DB_FAILED, w2)
         else (DH_FWK_SUCCESS, w2))"

definition Local_UnInit :: "('s, 'j) config \<Rightarrow> 's fwk \<Rightarrow> int \<times> 's fwk" where
  "Local_UnInit C w =
    (case cim_dbAdapterPtr (fw_local w) of
       None \<Rightarrow> (ERR_DH_FWK_RESOURCE_UNINIT_DB_FAILED, w)
     | Some d \<Rightarrow>
        (let (d1, w1) = DB_UnInit C d w
         in (DH_FWK_SUCCESS, upd_local (\<lambda>m. m\<lparr>cim_dbAdapterPtr := None\<rparr>) w1)))"

fun Local_store_all :: "('s, 'j) config \<Rightarrow> string list \<Rightarrow> 's fwk \<Rightarrow> 's fwk" where
  "Local_store_all C [] w = w"
| "Local_store_all C (data # rest) w =
    (case GetCapabilityByValue (c_J C) data None of
       (ret, c) \<Rightarrow>
         if ret \<noteq> DH_FWK_SUCCESS then Local_store_all C rest w
         else Local_store_all C rest (upd_local (cap_put (CapabilityInfo_GetKey c) c) w))"

definition Local_SyncDeviceInfoFromDB :: "('s, 'j) config \<Rightarrow> string \<Rightarrow> 's fwk \<Rightarrow> int \<times> 's fwk" where
  "Local_SyncDeviceInfoFromDB C devId w =
    (if \<not> IsIdLengthValid devId then (ERR_DH_FWK_PARA_INVALID, w)
     else case cim_dbAdapterPtr (fw_local w) of
       None \<Rightarrow> (ERR_DH_FWK_RESOURCE_DB_ADAPTER_POINTER_NULL, w)
     | Some d \<Rightarrow>
        (case DB_GetDataByKeyPrefix C d devId w of
           (ret, dataVector, w1) \<Rightarrow>
             if ret \<noteq> DH_FWK_SUCCESS then (ERR_DH_FWK_RESOURCE_DB_ADAPTER_OPERATION_FAIL, w1)
             else if dataVector = [] \<or> length dataVector > MAX_DB_RECORD_SIZE
               then (ERR_DH_FWK_RESOURCE_RES_DB_DATA_INVALID, w1)
             else (DH_FWK_SUCCESS, Local_store_all C dataVector w1)))"

fun Local_add_loop ::
    "('s, 'j) config \<Rightarrow> CapabilityInfo option list \<Rightarrow> string list \<Rightarrow> string list \<Rightarrow>
     's fwk \<Rightarrow> string list \<times> string list \<times> 's fwk" where
  "Local_add_loop C [] keys values w = (keys, values, w)"
| "Local_add_loop C (None # rest) keys values w = Local_add_loop C rest keys values w"
| "Local_add_loop C (Some c # rest) keys values w =
    Local_add_loop C rest (keys @ [CapabilityInfo_GetKey c])
      (values @ [CapabilityInfo_ToJsonString (c_J C) c]) (upd_local (cap_put (CapabilityInfo_GetKey c) c) w)"

definition Local_AddCapability ::
    "('s, 'j) config \<Rightarrow> CapabilityInfo option list \<Rightarrow> 's fwk \<Rightarrow> int \<times> 's fwk" where
  "Local_AddCapability C resInfos w =
    (if resInfos = [] \<or> length resInfos > MAX_WRITE_DB_DATA_SIZE
     then (ERR_DH_FWK_RESOURCE_RES_DB_DATA_INVALID, w)
     else case cim_dbAdapterPtr (fw_local w) of
       None \<Rightarrow> (ERR_DH_FWK_RESOURCE_DB_ADAPTER_POINTER_NULL, w)
     | Some d \<Rightarrow>
        (case Local_add_loop C resInfos [] [] w of
           (keys, values, w1) \<Rightarrow>
             if keys = [] \<or> values = [] then (DH_FWK_SUCCESS, w1)
             else case DB_PutDataBatch C d keys values w1 of
               (ret, w2) \<Rightarrow>
                 if ret \<noteq> DH_FWK_SUCCESS then (ERR_DH_FWK_RESOURCE_DB_ADAPTER_OPERATION_FAIL, w2)
                 else (DH_FWK_SUCCESS, w2)))"

definition Local_RemoveCapabilityInfoByKey :: "('s, 'j) config \<Rightarrow> string \<Rightarrow> 's fwk \<Rightarrow> int \<times> 's fwk" where
  "Local_RemoveCapabilityInfoByKey C key w =
    (if \<not> IsKeySizeValid key then (ERR_DH_FWK_PARA_INVALID, w)
     else case cim_dbAdapterPtr (fw_local w) of
       None \<Rightarrow> (ERR_DH_FWK_RESOURCE_DB_ADAPTER_POINTER_NULL, w)
     | Some d \<Rightarrow>
        (case DB_RemoveDataByKey C d key (upd_local (cap_erase key) w) of
           (ret, w2) \<Rightarrow>
             if ret \<noteq> DH_FWK_SUCCESS then (ERR_DH_FWK_RESOURCE_DB_ADAPTER_OPERATION_FAIL, w2)
             else (DH_FWK_SUCCESS, w2)))"

definition Local_GetCapabilitiesByDeviceId :: "string \<Rightarrow> CapabilityInfoManager \<Rightarrow> CapabilityInfo list" where
  "Local_GetCapabilitiesByDeviceId devId m =
    (if \<not> IsIdLengthValid devId then []
     else map snd (om_keep (\<lambda>k _. IsCapKeyMatchDeviceId k devId) (cim_globalCapInfoMap m)))"

definition Local_GetCapability ::
    "string \<Rightarrow> string \<Rightarrow> CapabilityInfoManager \<Rightarrow> int \<times> CapabilityInfo option" where
  "Local_GetCapability devId i m =
    (if \<not> IsIdLengthValid devId \<or> \<not> IsIdLengthValid i then (ERR_DH_FWK_PARA_INVALID, None)
     else case om_get (cim_globalCapInfoMap m) (GetCapabilityKey devId i) of
       None \<Rightarrow> (ERR_DH_FWK_RESOURCE_CAPABILITY_MAP_NOT_FOUND, None)
     | Some c \<Rightarrow> (DH_FWK_SUCCESS, Some c))"

definition Local_GetDataByKey ::
    "('s, 'j) config \<Rightarrow> string \<Rightarrow> 's fwk \<Rightarrow> int \<times> CapabilityInfo option \<times> 's fwk" where
  "Local_GetDataByKey C key w =
    (if \<not> IsIdLengthValid key then (ERR_DH_FWK_PARA_INVALID, None, w)
     else case cim_dbAdapterPtr (fw_local w) of
       None \<Rightarrow> (ERR_DH_FWK_RESOURCE_DB_ADAPTER_POINTER_NULL, None, w)
     | Some d \<Rightarrow>
        (case DB_GetDataByKey C d key [] w of
           (ret, data, w1) \<Rightarrow>
             if ret \<noteq> DH_FWK_SUCCESS then (ERR_DH_FWK_RESOURCE_DB_ADAPTER_OPERATION_FAIL, None, w1)
             else case GetCapabilityByValue (c_J C) data None of (ret', c) \<Rightarrow> (ret', Some c, w1)))"

definition Local_GetDataByDHType ::
    "DHType \<Rightarrow> (string, CapabilityInfo) omap \<Rightarrow> CapabilityInfoManager \<Rightarrow> (string, CapabilityInfo) omap" where
  "Local_GetDataByDHType ty out m =
    fold (\<lambda>(k, c) out. if ci_dhType c \<noteq> ty then out else om_put k c out) (cim_globalCapInfoMap m) out"

text \<open>The value is parsed a second time into the same object.\<close>

fun Local_collect ::
    "('s, 'j) config \<Rightarrow> string list \<Rightarrow> (string, CapabilityInfo) omap \<Rightarrow> (string, CapabilityInfo) omap" where
  "Local_collect C [] out = out"
| "Local_collect C (data # rest) out =
    (case GetCapabilityByValue (c_J C) data None of
       (ret, c) \<Rightarrow>
         if ret \<noteq> DH_FWK_SUCCESS then Local_collect C rest out
         else case CapabilityInfo_FromJsonString (c_J C) data c of
           (ret', c') \<Rightarrow>
             if ret' \<noteq> DH_FWK_SUCCESS then Local_collect C rest out
             else Local_collect C rest (om_put (CapabilityInfo_GetKey c') c' out))"

definition Local_GetDataByKeyPrefix ::
    "('s, 'j) config \<Rightarrow> string \<Rightarrow> (string, CapabilityInfo) omap \<Rightarrow> 's fwk \<Rightarrow>
     int \<times> (string, CapabilityInfo) omap \<times> 's fwk" where
  "Local_GetDataByKeyPrefix C keyPrefix out w =
    (if \<not> IsKeySizeValid keyPrefix then (ERR_DH_FWK_PARA_INVALID, out, w)
     else case cim_dbAdapterPtr (fw_local w) of
       None \<Rightarrow> (ERR_DH_FWK_RESOURCE_DB_ADAPTER_POINTER_NULL, out, w)
     | Some d \<Rightarrow>
        (case DB_GetDataByKeyPrefix C d keyPrefix w of
           (ret, dataVector, w1) \<Rightarrow>
             if ret \<noteq> DH_FWK_SUCCESS then (ERR_DH_FWK_RESOURCE_DB_ADAPTER_OPERATION_FAIL, out, w1)
             else if dataVector = [] \<or> length dataVector > MAX_DB_RECORD_SIZE
               then (ERR_DH_FWK_RESOURCE_RES_DB_DATA_INVALID, out, w1)
             else (DH_FWK_SUCCESS, Local_collect C dataVector out, w1)))"

definition RemoveLocalInfoInMemByUuid :: "('s, 'j) config \<Rightarrow> string \<Rightarrow> 's fwk \<Rightarrow> int \<times> 's fwk" where
  "RemoveLocalInfoInMemByUuid C peeruuid w =
    (DH_FWK_SUCCESS, upd_local (cap_erase_device (sha (c_P C) peeruuid)) w)"

definition ClearRemoteDeviceLocalInfoData :: "('s, 'j) config \<Rightarrow> string \<Rightarrow> 's fwk \<Rightarrow> int \<times> 's fwk" where
  "ClearRemoteDeviceLocalInfoData C peeruuid w =
    (case cim_dbAdapterPtr (fw_local w) of
       None \<Rightarrow> (ERR_DH_FWK_RESOURCE_DB_ADAPTER_POINTER_NULL, w)
     | Some d \<Rightarrow>
        (let (cleared, w1) = DB_ClearDataByPrefix C d peeruuid w;
             (r, w2) = RemoveLocalInfoInMemByUuid C peeruuid w1
         in (DH_FWK_SUCCESS, w2)))"

definition Local_GetDhSubtype :: "string \<Rightarrow> string \<Rightarrow> CapabilityInfoManager \<Rightarrow> string" where
  "Local_GetDhSubtype devId i m =
    (if \<not> IsIdLengthValid devId \<or> \<not> IsIdLengthValid i then []
     else case om_get (cim_globalCapInfoMap m) (GetCapabilityKey devId i) of
       None \<Rightarrow> []
     | Some c \<Rightarrow> ci_dhSubtype c)"

end
