(* ===== verification/Meta_Info_Manager.thy ===== *)
theory Meta_Info_Manager
  imports Local_Capability_Manager
begin

text \<open>
  The meta information manager (\<open>resourcemanager/meta_info_manager.cpp\<close>): the capabilities with the
  component version of their device, in a static database, keyed by the hash of the device's udid.
\<close>

definition meta_put :: "string \<Rightarrow> MetaCapabilityInfo \<Rightarrow> MetaInfoManager \<Rightarrow> MetaInfoManager" where
  "meta_put k c m = m\<lparr>mim_globalMetaInfoMap := om_put k c (mim_globalMetaInfoMap m)\<rparr>"

definition meta_erase :: "string \<Rightarrow> MetaInfoManager \<Rightarrow> MetaInfoManager" where
  "meta_erase k m = m\<lparr>mim_globalMetaInfoMap := om_del k (mim_globalMetaInfoMap m)\<rparr>"

interpretation meta_cache: lookup_table
  "\<lambda>m. om_get (mim_globalMetaInfoMap m)" meta_put meta_erase "\<lambda>m. om_ok (mim_globalMetaInfoMap m)"
  by unfold_locales (auto simp: meta_put_def meta_erase_def om_intros)

definition upd_meta :: "(MetaInfoManager \<Rightarrow> MetaInfoManager) \<Rightarrow> 's fwk \<Rightarrow> 's fwk" where
  "upd_meta f w = w\<lparr>fw_meta := f (fw_meta w)\<rparr>"

definition Meta_Init :: "('s, 'j) config \<Rightarrow> 's fwk \<Rightarrow> int \<times> 's fwk" where
  "Meta_Init C w =
    (case DB_Init C False TYPE_STATICS (DBAdapter_new GLOBAL_META_INFO_KEY) w of
       (ret, d, w1) \<Rightarrow>
         let w2 = upd_meta (\<lambda>m. m\<lparr>mim_dbAdapterPtr := Some d\<rparr>) w1 in
         if ret \<noteq> DH_FWK_SUCCESS then (ERR_DH_FWK_RESOURCE_INIT_DB_FAILED, w2)
         else (DH_FWK_SUCCESS, w2))"

definition Meta_UnInit :: "('s, 'j) config \<Rightarrow> 's fwk \<Rightarrow> int \<times> 's fwk" where
  "Meta_UnInit C w =
    (case mim_dbAdapterPtr (fw_meta w) of
       None \<Rightarrow> (ERR_DH_FWK_RESOURCE_UNINIT_DB_FAILED, w)
     | Some d \<Rightarrow>
        (let (d1, w1) = DB_UnInit C d w
         in (DH_FWK_SUCCESS, upd_meta (\<lambda>m. m\<lparr>mim_dbAdapterPtr := None\<rparr>) w1)))"

fun Meta_add_loop ::
    "('s, 'j) config \<Rightarrow> DBAdapter \<Rightarrow> MetaCapabilityInfo option list \<Rightarrow> string list \<Rightarrow> string list \<Rightarrow> string \<Rightarrow>
     's fwk \<Rightarrow> string list \<times> string list \<times> 's fwk" where
  "Meta_add_loop C d [] keys values data w = (keys, values, w)"
| "Meta_add_loop C d (None # rest) keys values data w = Meta_add_loop C d rest keys values data w"
| "Meta_add_loop C d (Some c # rest) keys values data w =
    (let key = MetaCapabilityInfo_GetKey c;
         w1 = upd_meta (meta_put key c) w
     in case DB_GetDataByKey C d key data w1 of
          (ret, data', w2) \<Rightarrow>
            if ret = DH_FWK_SUCCESS \<and> data' = MetaCapabilityInfo_ToJsonString (c_J C) c
            then Meta_add_loop C d rest keys values data' w2
            else Meta_add_loop C d rest (keys @ [key])
                   (values @ [MetaCapabilityInfo_ToJsonString (c_J C) c]) data' w2)"

definition AddMetaCapInfos ::
    "('s, 'j) config \<Rightarrow> MetaCapabilityInfo option list \<Rightarrow> 's fwk \<Rightarrow> int \<times> 's fwk" where
  "AddMetaCapInfos C metaCapInfos w =
    (if metaCapInfos = [] \<or> length metaCapInfos > MAX_WRITE_DB_DATA_SIZE
     then (ERR_DH_FWK_RESOURCE_RES_DB_DATA_INVALID, w)
     else case mim_dbAdapterPtr (fw_meta w) of
       None \<Rightarrow> (ERR_DH_FWK_RESOURCE_DB_ADAPTER_POINTER_NULL, w)
     | Some d \<Rightarrow>
        (case Meta_add_loop C d metaCapInfos [] [] [] w of
           (keys, values, w1) \<Rightarrow>
             if keys = [] \<or> values = [] then (DH_FWK_SUCCESS, w1)
             else case DB_PutDataBatch C d keys values w1 of
               (ret, w2) \<Rightarrow>
                 if ret \<noteq> DH_FWK_SUCCESS then (ERR_DH_FWK_RESOURCE_DB_ADAPTER_OPERATION_FAIL, w2)
                 else (DH_FWK_SUCCESS, w2)))"

definition GetMetaCapByValue ::
    "'j cJSON \<Rightarrow> string \<Rightarrow> MetaCapabilityInfo option \<Rightarrow> int \<times> MetaCapabilityInfo option" where
  "GetMetaCapByValue J value metaCapPtr =
    (if \<not> IsMessageLengthValid value then (ERR_DH_FWK_PARA_INVALID, metaCapPtr)
     else
       let c = (case metaCapPtr of None \<Rightarrow> MetaCapabilityInfo_default | Some c \<Rightarrow> c)
       in case MetaCapabilityInfo_FromJsonString J value c of (ret, c') \<Rightarrow> (ret, Some c'))"

fun Meta_store_all :: "('s, 'j) config \<Rightarrow> string list \<Rightarrow> 's fwk \<Rightarrow> 's fwk" where
  "Meta_store_all C [] w = w"
| "Meta_store_all C (data # rest) w =
    (case GetMetaCapByValue (c_J C) data None of
       (ret, Some c) \<Rightarrow>
         if ret \<noteq> DH_FWK_SUCCESS then Meta_store_all C rest w
         else Meta_store_all C rest (upd_meta (meta_put (MetaCapabilityInfo_GetKey c) c) w)
     | (ret, None) \<Rightarrow> Meta_store_all C rest w)"

definition SyncMetaInfoFromDB :: "('s, 'j) config \<Rightarrow> string \<Rightarrow> 's fwk \<Rightarrow> int \<times> 's fwk" where
  "SyncMetaInfoFromDB C hash w =
    (if \<not> IsHashSizeValid hash then (ERR_DH_FWK_PARA_INVALID, w)
     else case mim_dbAdapterPtr (fw_meta w) of
       None \<Rightarrow> (ERR_DH_FWK_RESOURCE_DB_ADAPTER_POINTER_NULL, w)
     | Some d \<Rightarrow>
        (case DB_GetDataByKeyPrefix C d hash w of
           (ret, dataVector, w1) \<Rightarrow>
             if ret \<noteq> DH_FWK_SUCCESS then (ERR_DH_FWK_RESOURCE_DB_ADAPTER_OPERATION_FAIL, w1)
             else if dataVector = [] \<or> length dataVector > MAX_DB_RECORD_SIZE
               then (ERR_DH_FWK_RESOURCE_RES_DB_DATA_INVALID, w1)
             else (DH_FWK_SUCCESS, Meta_store_all C dataVector w1)))"

fun Meta_store_remote :: "('s, 'j) config \<Rightarrow> string list \<Rightarrow> 's fwk \<Rightarrow> 's fwk" where
  "Meta_store_remote C [] w = w"
| "Meta_store_remote C (data # rest) w =
    (case GetMetaCapByValue (c_J C) data None of
       (ret, Some c) \<Rightarrow>
         if ret \<noteq> DH_FWK_SUCCESS then Meta_store_remote C rest w
         else (case GetDeviceInfo (c_P C) (fw_ctx w) of
           (info, ctx) \<Rightarrow>
             let w1 = w\<lparr>fw_ctx := ctx\<rparr> in
             if ci_udidHash c = di_udidHash info then Meta_store_remote C rest w1
             else Meta_store_remote C rest (upd_meta (meta_put (MetaCapabilityInfo_GetKey c) c) w1))
     | (ret, None) \<Rightarrow> Meta_store_remote C rest w)"

fun Meta_sync_devices :: "('s, 'j) config \<Rightarrow> DBAdapter \<Rightarrow> string list \<Rightarrow> 's fwk \<Rightarrow> 's fwk" where
  "Meta_sync_devices C d [] w = w"
| "Meta_sync_devices C d (hash # rest) w =
    (case DB_GetDataByKeyPrefix C d hash w of
       (ret, dataVector, w1) \<Rightarrow>
         if ret \<noteq> DH_FWK_SUCCESS then Meta_sync_devices C d rest w1
         else if dataVector = [] \<or> length dataVector > MAX_DB_RECORD_SIZE then Meta_sync_devices C d rest w1
         else Meta_sync_devices C d rest (Meta_store_remote C dataVector w1))"

definition SyncRemoteMetaInfos :: "('s, 'j) config \<Rightarrow> 's fwk \<Rightarrow> int \<times> 's fwk" where
  "SyncRemoteMetaInfos C w =
    (case mim_dbAdapterPtr (fw_meta w) of
       None \<Rightarrow> (ERR_DH_FWK_RESOURCE_DB_ADAPTER_POINTER_NULL, w)
     | Some d \<Rightarrow> (DH_FWK_SUCCESS, Meta_sync_devices C d (GetOnlineDeviceUdidHash (fw_ctx w)) w))"

fun Meta_collect ::
    "('s, 'j) config \<Rightarrow> string list \<Rightarrow> (string, MetaCapabilityInfo) omap \<Rightarrow> (string, MetaCapabilityInfo) omap" where
  "Meta_collect C [] out = out"
| "Meta_collect C (data # rest) out =
    (case GetMetaCapByValue (c_J C) data None of
       (ret, Some c) \<Rightarrow>
         if ret \<noteq> DH_FWK_SUCCESS then Meta_collect C rest out
         else Meta_collect C rest (om_put (MetaCapabilityInfo_GetKey c) c out)
     | (ret, None) \<Rightarrow> Meta_collect C rest out)"

definition Meta_GetDataByKeyPrefix ::
    "('s, 'j) config \<Rightarrow> string \<Rightarrow> (string, MetaCapabilityInfo) omap \<Rightarrow> 's fwk \<Rightarrow>
     int \<times> (string, MetaCapabilityInfo) omap \<times> 's fwk" where
  "Meta_GetDataByKeyPrefix C keyPrefix out w =
    (if \<not> IsKeySizeValid keyPrefix then (ERR_DH_FWK_PARA_INVALID, out, w)
     else case mim_dbAdapterPtr (fw_meta w) of
       None \<Rightarrow> (ERR_DH_FWK_RESOURCE_DB_ADAPTER_POINTER_NULL, out, w)
     | Some d \<Rightarrow>
        (case DB_GetDataByKeyPrefix C d keyPrefix w of
           (ret, dataVector, w1) \<Rightarrow>
             if ret \<noteq> DH_FWK_SUCCESS then (ERR_DH_FWK_RESOURCE_DB_ADAPTER_OPERATION_FAIL, out, w1)
             else if dataVector = [] \<or> length dataVector > MAX_DB_RECORD_SIZE
               then (ERR_DH_FWK_RESOURCE_RES_DB_DATA_INVALID, out, w1)
             else (DH_FWK_SUCCESS, Meta_collect C dataVector out, w1)))"

definition GetMetaCapInfo :: "string \<Rightarrow> string \<Rightarrow> MetaInfoManager \<Rightarrow> int \<times> MetaCapabilityInfo option" where
  "GetMetaCapInfo hash i m =
    (if \<not> IsHashSizeValid hash \<or> \<not> IsIdLengthValid i then (ERR_DH_FWK_PARA_INVALID, None)
     else case om_get (mim_globalMetaInfoMap m) (GetCapabilityKey hash i) of
       None \<Rightarrow> (ERR_DH_FWK_RESOURCE_CAPABILITY_MAP_NOT_FOUND, None)
     | Some c \<Rightarrow> (DH_FWK_SUCCESS, Some c))"

definition GetMetaCapInfosByUdidHash :: "string \<Rightarrow> MetaInfoManager \<Rightarrow> MetaCapabilityInfo list" where
  "GetMetaCapInfosByUdidHash hash m =
    (if \<not> IsHashSizeValid hash then []
     else map snd (om_keep (\<lambda>k _. IsCapKeyMatchDeviceId k hash) (mim_globalMetaInfoMap m)))"

definition GetMetaDataByDHType ::
    "DHType \<Rightarrow> (string, MetaCapabilityInfo) omap \<Rightarrow> MetaInfoManager \<Rightarrow> (string, MetaCapabilityInfo) omap" where
  "GetMetaDataByDHType ty out m =
    fold (\<lambda>(k, c) out. if ci_dhType c \<noteq> ty then out else om_put k c out) (mim_globalMetaInfoMap m) out"

definition Meta_SyncDataByNetworkId :: "('s, 'j) config \<Rightarrow> string \<Rightarrow> 's fwk \<Rightarrow> int \<times> 's fwk" where
  "Meta_SyncDataByNetworkId C networkId w =
    (if \<not> IsIdLengthValid networkId then (ERR_DH_FWK_PARA_INVALID, w)
     else case mim_dbAdapterPtr (fw_meta w) of
       None \<Rightarrow> (ERR_DH_FWK_RESOURCE_DB_ADAPTER_POINTER_NULL, w)
     | Some d \<Rightarrow> (DH_FWK_SUCCESS, snd (DB_SyncDataByNetworkId C d networkId w)))"

definition RemoveMetaInfoInMemByUdid :: "('s, 'j) config \<Rightarrow> string \<Rightarrow> 's fwk \<Rightarrow> int \<times> 's fwk" where
  "RemoveMetaInfoInMemByUdid C peerudid w =
    (DH_FWK_SUCCESS, upd_meta (\<lambda>m. m\<lparr>mim_globalMetaInfoMap :=
       om_keep (\<lambda>k _. \<not> IsCapKeyMatchDeviceId k (sha (c_P C) peerudid)) (mim_globalMetaInfoMap m)\<rparr>) w)"

definition ClearRemoteDeviceMetaInfoData ::
    "('s, 'j) config \<Rightarrow> string \<Rightarrow> string \<Rightarrow> 's fwk \<Rightarrow> int \<times> 's fwk" where
  "ClearRemoteDeviceMetaInfoData C peerudid peeruuid w =
    (case mim_dbAdapterPtr (fw_meta w) of
       None \<Rightarrow> (ERR_DH_FWK_RESOURCE_DB_ADAPTER_POINTER_NULL, w)
     | Some d \<Rightarrow>
        (let (cleared, w1) = DB_ClearDataByPrefix C d peerudid w;
             (ret, w2) = DB_RemoveDeviceData C d peeruuid w1
         in if ret \<noteq> DH_FWK_SUCCESS then (ERR_DH_FWK_RESOURCE_DB_ADAPTER_OPERATION_FAIL, w2)
            else let (r, w3) = RemoveMetaInfoInMemByUdid C peerudid w2 in (DH_FWK_SUCCESS, w3)))"

section \<open>Change notifications\<close>

fun HandleMetaCapabilityAddChange :: "('s, 'j) config \<Rightarrow> (string \<times> string) list \<Rightarrow> 's fwk \<Rightarrow> 's fwk" where
  "HandleMetaCapabilityAddChange C [] w = w"
| "HandleMetaCapabilityAddChange C ((k, value) # rest) w =
    (case GetMetaCapabilityByValue (c_J C) value None of
       (ret, c) \<Rightarrow>
         if ret \<noteq> DH_FWK_SUCCESS then HandleMetaCapabilityAddChange C rest w
         else
           let uuid = GetUUIDByDeviceId (ci_deviceId c) (fw_ctx w) in
           if uuid = [] then HandleMetaCapabilityAddChange C rest w
           else
             let networkId = GetNetworkIdByUUID uuid (fw_ctx w) in
             if networkId = [] then HandleMetaCapabilityAddChange C rest w
             else
               let w1 = upd_meta (meta_put (MetaCapabilityInfo_GetKey c) c) w
               in HandleMetaCapabilityAddChange C rest
                    (create_and_push C TT_ENABLE (change_param networkId uuid c) w1))"

fun HandleMetaCapabilityUpdateChange :: "('s, 'j) config \<Rightarrow> (string \<times> string) list \<Rightarrow> 's fwk \<Rightarrow> 's fwk" where
  "HandleMetaCapabilityUpdateChange C [] w = w"
| "HandleMetaCapabilityUpdateChange C ((k, value) # rest) w =
    (case GetMetaCapabilityByValue (c_J C) value None of
       (ret, c) \<Rightarrow>
         if ret \<noteq> DH_FWK_SUCCESS then HandleMetaCapabilityUpdateChange C rest w
         else
           let uuid = GetUUIDByDeviceId (ci_deviceId c) (fw_ctx w) in
           if uuid = [] then HandleMetaCapabilityUpdateChange C rest w
           else
             let networkId = GetNetworkIdByUUID uuid (fw_ctx w) in
             if networkId = [] then HandleMetaCapabilityUpdateChange C rest w
             else
               let enabledDeviceKey = GetCapabilityKey (ci_deviceId c) (ci_dhId c) in
               if IsEnabledDevice enabledDeviceKey (fw_board w)
               then HandleMetaCapabilityUpdateChange C rest w
               else
                 let w1 = upd_meta (meta_put (MetaCapabilityInfo_GetKey c) c) w
                 in HandleMetaCapabilityUpdateChange C rest
                      (create_and_push C TT_ENABLE (change_param networkId uuid c) w1))"

fun HandleMetaCapabilityDeleteChange :: "('s, 'j) config \<Rightarrow> (string \<times> string) list \<Rightarrow> 's fwk \<Rightarrow> 's fwk" where
  "HandleMetaCapabilityDeleteChange C [] w = w"
| "HandleMetaCapabilityDeleteChange C ((k, value) # rest) w =
    (case GetMetaCapabilityByValue (c_J C) value None of
       (ret, c) \<Rightarrow>
         if ret \<noteq> DH_FWK_SUCCESS then HandleMetaCapabilityDeleteChange C rest w
         else HandleMetaCapabilityDeleteChange C rest (upd_meta (meta_erase (MetaCapabilityInfo_GetKey c)) w))"

definition Meta_OnChange ::
    "('s, 'j) config \<Rightarrow> (string \<times> string) list \<Rightarrow> (string \<times> string) list \<Rightarrow> (string \<times> string) list \<Rightarrow>
     's fwk \<Rightarrow> 's fwk" where
  "Meta_OnChange C ins upd del w =
    (let w1 = (if handled ins then HandleMetaCapabilityAddChange C ins w else w);
         w2 = (if handled upd then HandleMetaCapabilityUpdateChange C upd w1 else w1)
     in if handled del then HandleMetaCapabilityDeleteChange C del w2 else w2)"

definition Meta_GetEntriesByKeys ::
    "('s, 'j) config \<Rightarrow> string list \<Rightarrow> 's fwk \<Rightarrow> (string \<times> string) list" where
  "Meta_GetEntriesByKeys C keys w =
    (if \<not> IsArrayLengthValid keys then []
     else case mim_dbAdapterPtr (fw_meta w) of
       None \<Rightarrow> []
     | Some d \<Rightarrow> DB_GetEntriesByKeys C d keys w)"

definition Meta_OnCloudChange ::
    "('s, 'j) config \<Rightarrow> string list \<Rightarrow> string list \<Rightarrow> string list \<Rightarrow> 's fwk \<Rightarrow> 's fwk" where
  "Meta_OnCloudChange C insKeys updKeys delKeys w =
    (let insertRecords = Meta_GetEntriesByKeys C insKeys w;
         w1 = (if handled insertRecords then HandleMetaCapabilityAddChange C insertRecords w else w);
         updateRecords = Meta_GetEntriesByKeys C updKeys w1;
         w2 = (if handled updateRecords then HandleMetaCapabilityUpdateChange C updateRecords w1 else w1)
     in if handled delKeys
        then HandleMetaCapabilityDeleteChange C (map (\<lambda>key. (key, [])) delKeys) w2
        else w2)"

definition GetDhSubtypeByUdidHash :: "string \<Rightarrow> string \<Rightarrow> MetaInfoManager \<Rightarrow> string" where
  "GetDhSubtypeByUdidHash hash i m =
    (if \<not> IsIdLengthValid hash \<or> \<not> IsIdLengthValid i then []
     else case om_get (mim_globalMetaInfoMap m) (GetCapabilityKey hash i) of
       None \<Rightarrow> []
     | Some c \<Rightarrow> ci_dhSubtype c)"

end
