(* ===== verification/Versions.thy ===== *)
theory Versions
  imports Meta_Info_Manager
begin

text \<open>
  The version manager (\<open>versionmanager/version_manager.cpp\<close>), a map from the uuid of a device to the
  versions of its components, and the version information manager
  (\<open>resourcemanager/version_info_manager.cpp\<close>), which fills it from the database.
\<close>

section \<open>Version manager\<close>

definition AddDHVersion ::
    "string \<Rightarrow> DHVersion \<Rightarrow> (string, DHVersion) omap \<Rightarrow> int \<times> (string, DHVersion) omap" where
  "AddDHVersion uuid v m =
    (if \<not> IsIdLengthValid uuid then (ERR_DH_FWK_PARA_INVALID, m)
     else (DH_FWK_SUCCESS, om_put uuid v m))"

definition RemoveDHVersion :: "string \<Rightarrow> (string, DHVersion) omap \<Rightarrow> int \<times> (string, DHVersion) omap" where
  "RemoveDHVersion uuid m =
    (if \<not> IsIdLengthValid uuid then (ERR_DH_FWK_PARA_INVALID, m)
     else if \<not> om_has m uuid then (ERR_DH_FWK_VERSION_DEVICE_ID_NOT_EXIST, m)
     else (DH_FWK_SUCCESS, om_del uuid m))"

definition GetDHVersion :: "string \<Rightarrow> (string, DHVersion) omap \<Rightarrow> int \<times> DHVersion option" where
  "GetDHVersion uuid m =
    (if \<not> IsIdLengthValid uuid then (ERR_DH_FWK_PARA_INVALID, None)
     else case om_get m uuid of
       None \<Rightarrow> (ERR_DH_FWK_VERSION_DEVICE_ID_NOT_EXIST, None)
     | Some v \<Rightarrow> (DH_FWK_SUCCESS, Some v))"

text \<open>The last argument is what the caller's \<open>compVersion\<close> holds before the call.\<close>

definition GetCompVersion ::
    "string \<Rightarrow> DHType \<Rightarrow> (string, DHVersion) omap \<Rightarrow> CompVersion \<Rightarrow> int \<times> CompVersion" where
  "GetCompVersion uuid ty m cv =
    (if \<not> IsIdLengthValid uuid then (ERR_DH_FWK_PARA_INVALID, cv)
     else case GetDHVersion uuid m of
       (ret, None) \<Rightarrow> (ret, cv)
     | (ret, Some v) \<Rightarrow>
         if ret \<noteq> DH_FWK_SUCCESS then (ret, cv)
         else case om_get (dv_compVersions v) ty of
           None \<Rightarrow> (ERR_DH_FWK_TYPE_NOT_EXIST, cv)
         | Some c \<Rightarrow> (DH_FWK_SUCCESS, c))"

text \<open>\<open>GetLocalDHVersion\<close> is the component loader's: its code and its versions are parameters.\<close>

definition VersionManager_Init :: "('s, 'j) config \<Rightarrow> int \<Rightarrow> DHVersion \<Rightarrow> 's fwk \<Rightarrow> int \<times> 's fwk" where
  "VersionManager_Init C ret localVersion w =
    (if ret \<noteq> DH_FWK_SUCCESS then (ret, w)
     else
       let v = localVersion\<lparr>dv_dhVersion := ''1.0''\<rparr> in
       case GetDeviceInfo (c_P C) (fw_ctx w) of
         (info, ctx) \<Rightarrow>
           (DH_FWK_SUCCESS, w\<lparr>fw_ctx := ctx, fw_dhVersions := snd (AddDHVersion (di_uuid info) v (fw_dhVersions w))\<rparr>))"

definition VersionManager_UnInit :: "'s fwk \<Rightarrow> 's fwk" where
  "VersionManager_UnInit w = w\<lparr>fw_dhVersions := []\<rparr>"

interpretation version_table: lookup_table om_get om_put om_del
  "om_ok :: (string, DHVersion) omap \<Rightarrow> bool"
  by unfold_locales (auto simp: om_intros)

section \<open>Version information manager\<close>

definition VerInfo_Init :: "('s, 'j) config \<Rightarrow> 's fwk \<Rightarrow> int \<times> 's fwk" where
  "VerInfo_Init C w =
    (case DB_Init C False TYPE_DYNAMICAL (DBAdapter_new GLOBAL_VERSION_INFO_KEY) w of
       (ret, d, w1) \<Rightarrow>
         if ret \<noteq> DH_FWK_SUCCESS
         then (ERR_DH_FWK_RESOURCE_INIT_DB_FAILED, w1\<lparr>fw_verinfo := Some d\<rparr>)
         else (DH_FWK_SUCCESS, w1\<lparr>fw_verinfo := Some d\<rparr>))"

definition VerInfo_UnInit :: "('s, 'j) config \<Rightarrow> 's fwk \<Rightarrow> int \<times> 's fwk" where
  "VerInfo_UnInit C w =
    (case fw_verinfo w of
       None \<Rightarrow> (ERR_DH_FWK_RESOURCE_UNINIT_DB_FAILED, w)
     | Some d \<Rightarrow> (let (d1, w1) = DB_UnInit C d w in (DH_FWK_SUCCESS, w1\<lparr>fw_verinfo := None\<rparr>)))"

definition AddVersion :: "('s, 'j) config \<Rightarrow> VersionInfo \<Rightarrow> 's fwk \<Rightarrow> int \<times> 's fwk" where
  "AddVersion C versionInfo w =
    (case fw_verinfo w of
       None \<Rightarrow> (ERR_DH_FWK_RESOURCE_DB_ADAPTER_POINTER_NULL, w)
     | Some d \<Rightarrow>
        (case DB_GetDataByKey C d (vi_deviceId versionInfo) [] w of
           (ret, data, w1) \<Rightarrow>
             if data = VersionInfo_ToJsonString (c_J C) versionInfo then (DH_FWK_SUCCESS, w1)
             else
               let key = vi_deviceId versionInfo;
                   v = VersionInfo_ToJsonString (c_J C) versionInfo
               in case DB_PutData C d key v w1 of
                    (ret', w2) \<Rightarrow>
                      if ret' \<noteq> DH_FWK_SUCCESS then (ERR_DH_FWK_RESOURCE_DB_ADAPTER_OPERATION_FAIL, w2)
                      else (DH_FWK_SUCCESS, w2)))"

definition GetVersionInfoByDeviceId ::
    "('s, 'j) config \<Rightarrow> string \<Rightarrow> VersionInfo \<Rightarrow> 's fwk \<Rightarrow> int \<times> VersionInfo \<times> 's fwk" where
  "GetVersionInfoByDeviceId C devId versionInfo w =
    (if \<not> IsIdLengthValid devId then (ERR_DH_FWK_PARA_INVALID, versionInfo, w)
     else case fw_verinfo w of
       None \<Rightarrow> (ERR_DH_FWK_RESOURCE_DB_ADAPTER_POINTER_NULL, versionInfo, w)
     | Some d \<Rightarrow>
        (case DB_GetDataByKey C d devId [] w of
           (ret, data, w1) \<Rightarrow>
             if ret \<noteq> DH_FWK_SUCCESS then (ERR_DH_FWK_RESOURCE_DB_ADAPTER_OPERATION_FAIL, versionInfo, w1)
             else case VersionInfo_FromJsonString (c_J C) (c_junk C) data versionInfo of
               (ret', v) \<Rightarrow> (ret', v, w1)))"

definition VerInfo_UpdateVersionCache :: "VersionInfo \<Rightarrow> 's fwk \<Rightarrow> 's fwk" where
  "VerInfo_UpdateVersionCache versionInfo w =
    (let uuid = GetUUIDByDeviceId (vi_deviceId versionInfo) (fw_ctx w) in
     if uuid = [] then w
     else
       let v = \<lparr>dv_uuid = uuid, dv_dhVersion = vi_dhVersion versionInfo,
                dv_compVersions = vi_compVersions versionInfo\<rparr>
       in w\<lparr>fw_dhVersions := snd (AddDHVersion uuid v (fw_dhVersions w))\<rparr>)"

definition RemoveVersionInfoByDeviceId :: "('s, 'j) config \<Rightarrow> string \<Rightarrow> 's fwk \<Rightarrow> int \<times> 's fwk" where
  "RemoveVersionInfoByDeviceId C devId w =
    (if \<not> IsIdLengthValid devId then (ERR_DH_FWK_PARA_INVALID, w)
     else case fw_verinfo w of
       None \<Rightarrow> (ERR_DH_FWK_RESOURCE_DB_ADAPTER_POINTER_NULL, w)
     | Some d \<Rightarrow>
        (case DB_RemoveDataByKey C d devId w of
           (ret, w1) \<Rightarrow>
             if ret \<noteq> DH_FWK_SUCCESS then (ERR_DH_FWK_RESOURCE_DB_ADAPTER_OPERATION_FAIL, w1)
             else
               let uuid = GetUUIDByDeviceId devId (fw_ctx w1) in
               if uuid = [] then (ERR_DH_FWK_RESOURCE_UUID_NOT_FOUND, w1)
               else (DH_FWK_SUCCESS, w1\<lparr>fw_dhVersions := snd (RemoveDHVersion uuid (fw_dhVersions w1))\<rparr>)))"

definition SyncVersionInfoFromDB :: "('s, 'j) config \<Rightarrow> string \<Rightarrow> 's fwk \<Rightarrow> int \<times> 's fwk" where
  "SyncVersionInfoFromDB C devId w =
    (if \<not> IsIdLengthValid devId then (ERR_DH_FWK_PARA_INVALID, w)
     else case fw_verinfo w of
       None \<Rightarrow> (ERR_DH_FWK_RESOURCE_DB_ADAPTER_POINTER_NULL, w)
     | Some d \<Rightarrow>
        (case DB_GetDataByKey C d devId [] w of
           (ret, data, w1) \<Rightarrow>
             if ret \<noteq> DH_FWK_SUCCESS then (ERR_DH_FWK_RESOURCE_DB_ADAPTER_OPERATION_FAIL, w1)
             else case VersionInfo_FromJsonString (c_J C) (c_junk C) data VersionInfo_default of
               (ret', v) \<Rightarrow>
                 if ret' \<noteq> DH_FWK_SUCCESS then (ret', w1)
                 else (DH_FWK_SUCCESS, VerInfo_UpdateVersionCache v w1)))"

fun VerInfo_store_remote :: "('s, 'j) config \<Rightarrow> string list \<Rightarrow> 's fwk \<Rightarrow> 's fwk" where
  "VerInfo_store_remote C [] w = w"
| "VerInfo_store_remote C (data # rest) w =
    (case VersionInfo_FromJsonString (c_J C) (c_junk C) data VersionInfo_default of
       (ret, v) \<Rightarrow>
         if ret \<noteq> DH_FWK_SUCCESS then VerInfo_store_remote C rest w
         else case GetDeviceInfo (c_P C) (fw_ctx w) of
           (info, ctx) \<Rightarrow>
             let w1 = w\<lparr>fw_ctx := ctx\<rparr> in
             if vi_deviceId v = di_deviceId info then VerInfo_store_remote C rest w1
             else VerInfo_store_remote C rest (VerInfo_UpdateVersionCache v w1))"

fun VerInfo_sync_devices :: "('s, 'j) config \<Rightarrow> DBAdapter \<Rightarrow> string list \<Rightarrow> 's fwk \<Rightarrow> 's fwk" where
  "VerInfo_sync_devices C d [] w = w"
| "VerInfo_sync_devices C d (devId # rest) w =
    (case DB_GetDataByKeyPrefix C d devId w of
       (ret, dataVector, w1) \<Rightarrow>
         if ret \<noteq> DH_FWK_SUCCESS then VerInfo_sync_devices C d rest w1
         else if dataVector = [] \<or> length dataVector > MAX_DB_RECORD_SIZE then VerInfo_sync_devices C d rest w1
         else VerInfo_sync_devices C d rest (VerInfo_store_remote C dataVector w1))"

definition SyncRemoteVersionInfos :: "('s, 'j) config \<Rightarrow> 's fwk \<Rightarrow> int \<times> 's fwk" where
  "SyncRemoteVersionInfos C w =
    (case fw_verinfo w of
       None \<Rightarrow> (ERR_DH_FWK_RESOURCE_DB_ADAPTER_POINTER_NULL, w)
     | Some d \<Rightarrow> (DH_FWK_SUCCESS, VerInfo_sync_devices C d (GetOnlineDeviceDeviceId (fw_ctx w)) w))"

fun HandleVersionAddChange :: "('s, 'j) config \<Rightarrow> (string \<times> string) list \<Rightarrow> 's fwk \<Rightarrow> 's fwk" where
  "HandleVersionAddChange C [] w = w"
| "HandleVersionAddChange C ((k, value) # rest) w =
    (case VersionInfo_FromJsonString (c_J C) (c_junk C) value VersionInfo_default of
       (ret, v) \<Rightarrow>
         if ret \<noteq> DH_FWK_SUCCESS then HandleVersionAddChange C rest w
         else HandleVersionAddChange C rest (VerInfo_UpdateVersionCache v w))"

fun HandleVersionUpdateChange :: "('s, 'j) config \<Rightarrow> (string \<times> string) list \<Rightarrow> 's fwk \<Rightarrow> 's fwk" where
  "HandleVersionUpdateChange C [] w = w"
| "HandleVersionUpdateChange C ((k, value) # rest) w =
    (case VersionInfo_FromJsonString (c_J C) (c_junk C) value VersionInfo_default of
       (ret, v) \<Rightarrow>
         if ret \<noteq> DH_FWK_SUCCESS then HandleVersionUpdateChange C rest w
         else HandleVersionUpdateChange C rest (VerInfo_UpdateVersionCache v w))"

fun HandleVersionDeleteChange :: "('s, 'j) config \<Rightarrow> (string \<times> string) list \<Rightarrow> 's fwk \<Rightarrow> 's fwk" where
  "HandleVersionDeleteChange C [] w = w"
| "HandleVersionDeleteChange C ((k, value) # rest) w =
    (case VersionInfo_FromJsonString (c_J C) (c_junk C) value VersionInfo_default of
       (ret, v) \<Rightarrow>
         if ret \<noteq> DH_FWK_SUCCESS then HandleVersionDeleteChange C rest w
         else
           let uuid = GetUUIDByDeviceId (vi_deviceId v) (fw_ctx w) in
           if uuid = [] then HandleVersionDeleteChange C rest w
           else HandleVersionDeleteChange C rest
                  (w\<lparr>fw_dhVersions := snd (RemoveDHVersion uuid (fw_dhVersions w))\<rparr>))"

definition Version_OnChange ::
    "('s, 'j) config \<Rightarrow> (string \<times> string) list \<Rightarrow> (string \<times> string) list \<Rightarrow> (string \<times> string) list \<Rightarrow>
     's fwk \<Rightarrow> 's fwk" where
  "Version_OnChange C ins upd del w =
    (let w1 = (if handled ins then HandleVersionAddChange C ins w else w);
         w2 = (if handled upd then HandleVersionUpdateChange C upd w1 else w1)
     in if handled del then HandleVersionDeleteChange C del w2 else w2)"

end
