(* ===== verification/Component_Enable.thy ===== *)
theory Component_Enable
  imports Versions
begin

text \<open>
  Enabling and disabling one piece of hardware on its source handler (\<open>component_enable.cpp\<close>,
  \<open>component_disable.cpp\<close>), the monitor of the system abilities (\<open>component_monitor.cpp\<close>), and the
  starting and stopping of the source and sink handlers of a component (\<open>component_manager.cpp\<close>).

  A handler answers a registration with a return code and, later, with calls of
  \<open>OnRegisterResult\<close>: the environment gives the ones that arrive from the start of an attempt to the
  end of its wait.  A thread started for a handler call is its outcome when the wait for it ends: a
  result, a timeout, or a deferred future.
\<close>

definition INT32_MAX :: int where [simp]: "INT32_MAX = 2147483647"

section \<open>ComponentEnable and ComponentDisable\<close>

text \<open>The state of either object is its \<open>status_\<close>, \<open>INT32_MAX\<close> until a result arrives.\<close>

definition ComponentEnable_new :: int where "ComponentEnable_new = INT32_MAX"

definition OnRegisterResult :: "string \<Rightarrow> string \<Rightarrow> int \<Rightarrow> int \<Rightarrow> int \<times> int" where
  "OnRegisterResult networkId i status st =
    (if \<not> IsIdLengthValid networkId \<or> \<not> IsIdLengthValid i then (ERR_DH_FWK_PARA_INVALID, st)
     else (status, status))"

definition ComponentEnable_Enable ::
    "('s, 'j) config \<Rightarrow> string \<Rightarrow> string \<Rightarrow> EnableParam \<Rightarrow> nat option \<Rightarrow> string \<Rightarrow> int \<Rightarrow> 's fwk \<Rightarrow>
     int \<times> int \<times> 's fwk" where
  "ComponentEnable_Enable C networkId i param handler customParams st w =
    (if \<not> IsIdLengthValid networkId \<or> \<not> IsIdLengthValid i then (ERR_DH_FWK_PARA_INVALID, st, w)
     else if handler = None then (ERR_DH_FWK_PARA_INVALID, st, w)
     else case call_cb C (EC_RegisterDistributedHardware networkId i param) w of
       (ret, cbs, w1) \<Rightarrow>
         let st1 = fold (\<lambda>(n, d, s) st. snd (OnRegisterResult n d s st)) cbs st in
         if ret \<noteq> DH_FWK_SUCCESS then (ERR_DH_FWK_COMPONENT_REGISTER_FAILED, st1, w1)
         else
           case (if customParams \<noteq> []
                 then call_ret C (EC_ConfigSource networkId i ''enable_init_params'' customParams) w1
                 else (DH_FWK_SUCCESS, w1)) of
             (configRet, w2) \<Rightarrow>
               if configRet \<noteq> DH_FWK_SUCCESS then (ERR_DH_FWK_COMPONENT_CONFIG_FAILED, st1, w2)
               else if st1 = INT32_MAX then (ERR_DH_FWK_COMPONENT_ENABLE_TIMEOUT, st1, w2)
               else ((if st1 = DH_FWK_SUCCESS then DH_FWK_SUCCESS else ERR_DH_FWK_COMPONENT_ENABLE_FAILED),
                     st1, w2))"

definition OnUnregisterResult :: "string \<Rightarrow> string \<Rightarrow> int \<Rightarrow> int \<Rightarrow> int \<times> int" where
  "OnUnregisterResult networkId i status st =
    (if \<not> IsIdLengthValid networkId \<or> \<not> IsIdLengthValid i then (ERR_DH_FWK_PARA_INVALID, st)
     else (status, status))"

definition ComponentDisable_Disable ::
    "('s, 'j) config \<Rightarrow> string \<Rightarrow> string \<Rightarrow> nat option \<Rightarrow> int \<Rightarrow> 's fwk \<Rightarrow> int \<times> int \<times> 's fwk" where
  "ComponentDisable_Disable C networkId i handler st w =
    (if \<not> IsIdLengthValid networkId \<or> \<not> IsIdLengthValid i then (ERR_DH_FWK_PARA_INVALID, st, w)
     else if handler = None then (ERR_DH_FWK_PARA_INVALID, st, w)
     else case call_cb C (EC_UnregisterDistributedHardware networkId i) w of
       (ret, cbs, w1) \<Rightarrow>
         let st1 = fold (\<lambda>(n, d, s) st. snd (OnUnregisterResult n d s st)) cbs st in
         if ret \<noteq> DH_FWK_SUCCESS then (ERR_DH_FWK_COMPONENT_UNREGISTER_FAILED, st1, w1)
         else if st1 = INT32_MAX then (ERR_DH_FWK_COMPONENT_DISABLE_TIMEOUT, st1, w1)
         else ((if st1 = DH_FWK_SUCCESS then DH_FWK_SUCCESS else ERR_DH_FWK_COMPONENT_DISABLE_FAILED),
               st1, w1))"

section \<open>The component manager's fields\<close>

definition upd_cm :: "(ComponentManager \<Rightarrow> ComponentManager) \<Rightarrow> 's fwk \<Rightarrow> 's fwk" where
  "upd_cm f w = w\<lparr>fw_cm := f (fw_cm w)\<rparr>"

section \<open>System ability monitor\<close>

text \<open>
  The monitor is the list of the abilities subscribed to.  Whether the system ability manager can be
  reached is the pointer the environment gives for the subscription.
\<close>

definition AddSAMonitor :: "('s, 'j) config \<Rightarrow> int \<Rightarrow> 's fwk \<Rightarrow> 's fwk" where
  "AddSAMonitor C saId w =
    (case cm_compMonitor (fw_cm w) of
       None \<Rightarrow> w
     | Some saListeners \<Rightarrow>
         if saId \<in> set saListeners then w
         else case call_ptr C (EC_SubscribeSystemAbility saId) w of
           (ret, samgr, w1) \<Rightarrow>
             if samgr = None then w
             else if ret \<noteq> DH_FWK_SUCCESS then w1
             else upd_cm (\<lambda>m. m\<lparr>cm_compMonitor := Some (os_ins saId saListeners)\<rparr>) w1)"

definition RemoveSAMonitor :: "('s, 'j) config \<Rightarrow> int \<Rightarrow> 's fwk \<Rightarrow> 's fwk" where
  "RemoveSAMonitor C saId w =
    (case cm_compMonitor (fw_cm w) of
       None \<Rightarrow> w
     | Some saListeners \<Rightarrow>
         if saId \<notin> set saListeners then w
         else case call_ptr C (EC_UnSubscribeSystemAbility saId) w of
           (ret, samgr, w1) \<Rightarrow>
             if samgr = None then w
             else if ret \<noteq> DH_FWK_SUCCESS then w1
             else upd_cm (\<lambda>m. m\<lparr>cm_compMonitor := Some (os_del saId saListeners)\<rparr>) w1)"

section \<open>Loading and unloading handlers\<close>

definition INVALID_SA_ID :: int where [simp]: "INVALID_SA_ID = -1"

definition InitCompSource :: "('s, 'j) config \<Rightarrow> DHType \<Rightarrow> 's fwk \<Rightarrow> int \<times> 's fwk" where
  "InitCompSource C ty w =
    (case call_ptr C (EC_Loader GetSource ty) w of
       (ret, sourcePtr, w1) \<Rightarrow>
         if ret \<noteq> DH_FWK_SUCCESS then (ret, w1)
         else if sourcePtr = None then (ERR_DH_FWK_LOADER_HANDLER_IS_NULL, w1)
         else
           let w2 = upd_cm (\<lambda>m. m\<lparr>cm_compSource := om_emplace ty sourcePtr (cm_compSource m)\<rparr>) w1;
               saId = e_SourceSaId (c_E C) ty
           in if saId \<noteq> INVALID_SA_ID then
                (let w3 = upd_cm (\<lambda>m. m\<lparr>cm_compSrcSaId := om_emplace ty saId (cm_compSrcSaId m)\<rparr>) w2 in
                 if cm_compMonitor (fw_cm w3) = None then (ERR_DH_FWK_COMPONENT_MONITOR_NULL, w3)
                 else
                   let w4 = AddSAMonitor C saId w3;
                       w5 = call_void (EC_Handler RegisterStateListener ty) w4
                   in (DH_FWK_SUCCESS, call_void (EC_Handler RegisterDataSyncTriggerListener ty) w5))
              else
                let w5 = call_void (EC_Handler RegisterStateListener ty) w2
                in (DH_FWK_SUCCESS, call_void (EC_Handler RegisterDataSyncTriggerListener ty) w5))"

definition UninitCompSource :: "('s, 'j) config \<Rightarrow> DHType \<Rightarrow> bool \<Rightarrow> 's fwk \<Rightarrow> int \<times> 's fwk" where
  "UninitCompSource C ty keepSAMonitor w =
    (case call_ptr C (EC_Loader GetSource ty) w of
       (ret, sourcePtr, w1) \<Rightarrow>
         if ret \<noteq> DH_FWK_SUCCESS then (ret, w1)
         else if sourcePtr = None then (ERR_DH_FWK_LOADER_HANDLER_IS_NULL, w1)
         else
           let w2 = call_void (EC_Handler UnregisterStateListener ty)
                      (call_void (EC_Handler UnregisterDataSyncTriggerListener ty) w1);
               sa = om_get (cm_compSrcSaId (fw_cm w2)) ty
           in if sa \<noteq> None \<and> cm_compMonitor (fw_cm w2) = None then (ERR_DH_FWK_COMPONENT_MONITOR_NULL, w2)
              else
                let w3 = (case sa of
                            None \<Rightarrow> w2
                          | Some saId \<Rightarrow>
                              upd_cm (\<lambda>m. m\<lparr>cm_compSrcSaId := om_del ty (cm_compSrcSaId m)\<rparr>)
                                (if \<not> keepSAMonitor then RemoveSAMonitor C saId w2 else w2))
                in case call_ret C (EC_Loader LoaderReleaseSource ty) w3 of
                     (ret', w4) \<Rightarrow>
                       if ret' \<noteq> DH_FWK_SUCCESS then (ret', w4)
                       else (DH_FWK_SUCCESS,
                             upd_cm (\<lambda>m. m\<lparr>cm_compSource := om_del ty (cm_compSource m)\<rparr>) w4))"

definition InitCompSink :: "('s, 'j) config \<Rightarrow> DHType \<Rightarrow> 's fwk \<Rightarrow> int \<times> 's fwk" where
  "InitCompSink C ty w =
    (case call_ptr C (EC_Loader GetSink ty) w of
       (ret, sinkPtr, w1) \<Rightarrow>
         if ret \<noteq> DH_FWK_SUCCESS then (ret, w1)
         else if sinkPtr = None then (ERR_DH_FWK_LOADER_HANDLER_IS_NULL, w1)
         else
           let w2 = upd_cm (\<lambda>m. m\<lparr>cm_compSink := om_emplace ty sinkPtr (cm_compSink m)\<rparr>)
                      (call_void (EC_Handler RegisterSinkStateListener ty) w1);
               saId = e_SinkSaId (c_E C) ty
           in if saId \<noteq> INVALID_SA_ID then
                (let w3 = upd_cm (\<lambda>m. m\<lparr>cm_compSinkSaId := om_emplace ty saId (cm_compSinkSaId m)\<rparr>) w2 in
                 if cm_compMonitor (fw_cm w3) = None
                 then (ERR_DH_FWK_COMPONENT_MONITOR_NULL,
                       upd_cm (\<lambda>m. m\<lparr>cm_compSink := om_del ty (cm_compSink m),
                                      cm_compSinkSaId := om_del ty (cm_compSinkSaId m)\<rparr>) w3)
                 else (DH_FWK_SUCCESS, AddSAMonitor C saId w3))
              else (DH_FWK_SUCCESS, w2))"

definition UninitCompSink :: "('s, 'j) config \<Rightarrow> DHType \<Rightarrow> bool \<Rightarrow> 's fwk \<Rightarrow> int \<times> 's fwk" where
  "UninitCompSink C ty keepSAMonitor w =
    (case call_ptr C (EC_Loader GetSink ty) w of
       (ret, sinkPtr, w1) \<Rightarrow>
         if ret \<noteq> DH_FWK_SUCCESS then (ret, w1)
         else if sinkPtr = None then (ERR_DH_FWK_LOADER_HANDLER_IS_NULL, w1)
         else
           let w2 = call_void (EC_Handler UnregisterSinkStateListener ty) w1;
               sa = om_get (cm_compSinkSaId (fw_cm w2)) ty
           in if sa \<noteq> None \<and> cm_compMonitor (fw_cm w2) = None then (ERR_DH_FWK_COMPONENT_MONITOR_NULL, w2)
              else
                let w3 = (case sa of
                            None \<Rightarrow> w2
                          | Some saId \<Rightarrow>
                              upd_cm (\<lambda>m. m\<lparr>cm_compSinkSaId := om_del ty (cm_compSinkSaId m)\<rparr>)
                                (if \<not> keepSAMonitor then RemoveSAMonitor C saId w2 else w2))
                in case call_ret C (EC_Loader LoaderReleaseSink ty) w3 of
                     (ret', w4) \<Rightarrow>
                       if ret' \<noteq> DH_FWK_SUCCESS then (ret', w4)
                       else (DH_FWK_SUCCESS,
                             upd_cm (\<lambda>m. m\<lparr>cm_compSink := om_del ty (cm_compSink m)\<rparr>) w4))"

section \<open>Starting and stopping handlers\<close>

type_synonym ActionResult = "(DHType, fut) omap"

datatype Action = START_SOURCE | START_SINK | STOP_SOURCE | STOP_SINK

definition CompVersion_local :: "('s, 'j) config \<Rightarrow> CompVersion" where
  "CompVersion_local C = CompVersion_default\<lparr>cv_dhType := c_junk C\<rparr>"

definition GetDHSourceInstance :: "DHType \<Rightarrow> 's fwk \<Rightarrow> nat option" where
  "GetDHSourceInstance ty w =
    (case om_get (cm_compSource (fw_cm w)) ty of None \<Rightarrow> None | Some p \<Rightarrow> p)"

definition StartSource ::
    "('s, 'j) config \<Rightarrow> DHType \<Rightarrow> ActionResult \<Rightarrow> 's fwk \<Rightarrow> int \<times> ActionResult \<times> 's fwk" where
  "StartSource C ty res w =
    (case om_get (cm_compSource (fw_cm w)) ty of
       None \<Rightarrow> (ERR_DH_FWK_TYPE_NOT_EXIST, res, w)
     | Some None \<Rightarrow> (ERR_DH_FWK_SA_HANDLER_IS_NULL, res, w)
     | Some (Some p) \<Rightarrow>
        (case GetDeviceInfo (c_P C) (fw_ctx w) of
           (info, ctx) \<Rightarrow>
             let w1 = w\<lparr>fw_ctx := ctx\<rparr>;
                 cv = snd (GetCompVersion (di_uuid info) ty (fw_dhVersions w1) (CompVersion_local C))
             in case call_fut C (EC_InitSource ty (cv_sourceVersion cv)) w1 of
                  (f, w2) \<Rightarrow> (DH_FWK_SUCCESS, om_emplace ty f res, w2)))"

definition StartSink ::
    "('s, 'j) config \<Rightarrow> DHType \<Rightarrow> ActionResult \<Rightarrow> 's fwk \<Rightarrow> int \<times> ActionResult \<times> 's fwk" where
  "StartSink C ty res w =
    (case om_get (cm_compSink (fw_cm w)) ty of
       None \<Rightarrow> (ERR_DH_FWK_TYPE_NOT_EXIST, res, w)
     | Some None \<Rightarrow> (ERR_DH_FWK_SA_HANDLER_IS_NULL, res, w)
     | Some (Some p) \<Rightarrow>
        (case GetDeviceInfo (c_P C) (fw_ctx w) of
           (info, ctx) \<Rightarrow>
             let w1 = w\<lparr>fw_ctx := ctx\<rparr>;
                 cv = snd (GetCompVersion (di_uuid info) ty (fw_dhVersions w1) (CompVersion_local C))
             in case call_fut C (EC_InitSink ty (cv_sinkVersion cv)) w1 of
                  (f, w2) \<Rightarrow>
                    let w3 = (if \<not> cm_cameraCompPrivacy (fw_cm w2) \<and> ty = DHType_CAMERA
                              then call_void (EC_Handler RegisterPrivacyResources ty)
                                     (upd_cm (\<lambda>m. m\<lparr>cm_cameraCompPrivacy := True\<rparr>) w2)
                              else w2);
                        w4 = (if \<not> cm_audioCompPrivacy (fw_cm w3) \<and> ty = DHType_AUDIO
                              then call_void (EC_Handler RegisterPrivacyResources ty)
                                     (upd_cm (\<lambda>m. m\<lparr>cm_audioCompPrivacy := True\<rparr>) w3)
                              else w3)
                    in (DH_FWK_SUCCESS, om_emplace ty f res, w4)))"

definition StopSource ::
    "('s, 'j) config \<Rightarrow> DHType \<Rightarrow> ActionResult \<Rightarrow> 's fwk \<Rightarrow> int \<times> ActionResult \<times> 's fwk" where
  "StopSource C ty res w =
    (if GetDHSourceInstance ty w = None then (ERR_DH_FWK_SA_HANDLER_IS_NULL, res, w)
     else case call_fut C (EC_Handler ReleaseSource ty) w of
       (f, w1) \<Rightarrow> (DH_FWK_SUCCESS, om_emplace ty f res, w1))"

text \<open>
  The thread of \<open>StopSink\<close> sets its promise, then looks for the hardware handler and unregisters the
  plugin listener.
\<close>

definition StopSink ::
    "('s, 'j) config \<Rightarrow> DHType \<Rightarrow> ActionResult \<Rightarrow> 's fwk \<Rightarrow> int \<times> ActionResult \<times> 's fwk" where
  "StopSink C ty res w =
    (case om_get (cm_compSink (fw_cm w)) ty of
       None \<Rightarrow> (ERR_DH_FWK_TYPE_NOT_EXIST, res, w)
     | Some None \<Rightarrow> (ERR_DH_FWK_SA_HANDLER_IS_NULL, res, w)
     | Some (Some p) \<Rightarrow>
        (case call_fut C (EC_Handler ReleaseSink ty) w of
           (f, w1) \<Rightarrow>
             case call_ptr C (EC_Loader GetHardwareHandler ty) w1 of
               (status, handler, w2) \<Rightarrow>
                 let w3 = (if status \<noteq> DH_FWK_SUCCESS \<or> handler = None then w2
                           else call_void (EC_Handler UnRegisterPluginListener ty) w2)
                 in (DH_FWK_SUCCESS, om_emplace ty f res, w3)))"

text \<open>The result is whether no awaited call came back with an error; a timeout does not count as one.\<close>

fun WaitForResult :: "Action \<Rightarrow> ActionResult \<Rightarrow> 's fwk \<Rightarrow> bool \<times> 's fwk" where
  "WaitForResult action [] w = (True, w)"
| "WaitForResult action ((ty, f) # rest) w =
    (let w1 = (if f = FutTimeout \<and> (action = STOP_SOURCE \<or> action = STOP_SINK)
               then upd_cm (\<lambda>m. m\<lparr>cm_isUnInitTimeOut := True\<rparr>) w else w);
         ok = (case f of FutReady result \<Rightarrow> result = DH_FWK_SUCCESS | _ \<Rightarrow> True);
         (ret, w2) = WaitForResult action rest w1
     in (ok \<and> ret, w2))"

end
