(* ===== verification/Enable_Param.thy ===== *)
theory Enable_Param
  imports Component_Enable
begin

text \<open>
  What the component manager works out before it enables hardware (\<open>component_manager.cpp\<close>): the
  versions of the two ends, the parameters from the capability or the meta information, the checks of
  account and configuration, and then the enabling and disabling with their retries.
\<close>

section \<open>Versions\<close>

definition CM_UpdateVersionCache :: "string \<Rightarrow> VersionInfo \<Rightarrow> 's fwk \<Rightarrow> 's fwk" where
  "CM_UpdateVersionCache uuid versionInfo w =
    (if \<not> IsIdLengthValid uuid then w
     else w\<lparr>fw_dhVersions := snd (AddDHVersion uuid
            \<lparr>dv_uuid = uuid, dv_dhVersion = vi_dhVersion versionInfo,
             dv_compVersions = vi_compVersions versionInfo\<rparr> (fw_dhVersions w))\<rparr>)"

definition GetVersionFromVerMgr ::
    "('s, 'j) config \<Rightarrow> string \<Rightarrow> DHType \<Rightarrow> string \<Rightarrow> bool \<Rightarrow> 's fwk \<Rightarrow> int \<times> string" where
  "GetVersionFromVerMgr C uuid ty version isSink w =
    (if \<not> IsIdLengthValid uuid then (ERR_DH_FWK_PARA_INVALID, version)
     else case GetCompVersion uuid ty (fw_dhVersions w) (CompVersion_local C) of
       (ret, cv) \<Rightarrow>
         if ret \<noteq> DH_FWK_SUCCESS then (ret, version)
         else (DH_FWK_SUCCESS, (if isSink then cv_sinkVersion cv else cv_sourceVersion cv)))"

definition GetVersionFromVerInfoMgr ::
    "('s, 'j) config \<Rightarrow> string \<Rightarrow> DHType \<Rightarrow> string \<Rightarrow> bool \<Rightarrow> 's fwk \<Rightarrow> int \<times> string \<times> 's fwk" where
  "GetVersionFromVerInfoMgr C uuid ty version isSink w =
    (if \<not> IsIdLengthValid uuid then (ERR_DH_FWK_PARA_INVALID, version, w)
     else case GetVersionInfoByDeviceId C (GetDeviceIdByUUID (pf_digest (c_P C)) uuid) VersionInfo_default w of
       (ret, versionInfo, w1) \<Rightarrow>
         if ret \<noteq> DH_FWK_SUCCESS then (ret, version, w1)
         else case om_get (vi_compVersions versionInfo) ty of
           None \<Rightarrow> (ERR_DH_FWK_COMPONENT_DHTYPE_NOT_FOUND, version, w1)
         | Some cv \<Rightarrow>
             (DH_FWK_SUCCESS, (if isSink then cv_sinkVersion cv else cv_sourceVersion cv),
              CM_UpdateVersionCache uuid versionInfo w1))"

definition GetVersion ::
    "('s, 'j) config \<Rightarrow> string \<Rightarrow> DHType \<Rightarrow> string \<Rightarrow> bool \<Rightarrow> 's fwk \<Rightarrow> int \<times> string \<times> 's fwk" where
  "GetVersion C uuid ty version isSink w =
    (if \<not> IsIdLengthValid uuid then (ERR_DH_FWK_PARA_INVALID, version, w)
     else case GetVersionFromVerMgr C uuid ty version isSink w of
       (ret, version1) \<Rightarrow>
         if ret = DH_FWK_SUCCESS \<and> version1 \<noteq> [] then (DH_FWK_SUCCESS, version1, w)
         else case GetVersionFromVerInfoMgr C uuid ty version1 isSink w of
           (ret2, version2, w1) \<Rightarrow>
             if ret2 = DH_FWK_SUCCESS \<and> version2 \<noteq> [] then (DH_FWK_SUCCESS, version2, w1)
             else (ret2, version2, w1))"

section \<open>Enable parameters\<close>

definition GetDHType :: "('s, 'j) config \<Rightarrow> string \<Rightarrow> string \<Rightarrow> 's fwk \<Rightarrow> DHType" where
  "GetDHType C uuid i w =
    (case Cap_GetCapability (GetDeviceIdByUUID (pf_digest (c_P C)) uuid) i (fw_cap w) of
       (ret, Some c) \<Rightarrow> if ret = DH_FWK_SUCCESS then ci_dhType c else DHType_UNKNOWN
     | (ret, None) \<Rightarrow> DHType_UNKNOWN)"

text \<open>The loops over the local capabilities: the last one of the type gives the source attributes.\<close>

definition last_attrs :: "DHType \<Rightarrow> 'a CapabilityInfo_scheme list \<Rightarrow> string \<Rightarrow> string" where
  "last_attrs ty caps attrs0 = fold (\<lambda>c attrs. if ty = ci_dhType c then ci_dhAttrs c else attrs) caps attrs0"

definition GetEnableCapParam ::
    "('s, 'j) config \<Rightarrow> string \<Rightarrow> string \<Rightarrow> DHType \<Rightarrow> EnableParam \<Rightarrow> CapabilityInfo \<Rightarrow> 's fwk \<Rightarrow>
     int \<times> EnableParam \<times> 's fwk" where
  "GetEnableCapParam C networkId uuid ty param cap w =
    (if \<not> IsIdLengthValid networkId \<or> \<not> IsIdLengthValid uuid then (ERR_DH_FWK_PARA_INVALID, param, w)
     else
       let src = GetLocalDeviceInfo (c_P C);
           caps = Cap_GetCapabilitiesByDeviceId (di_deviceId src) (fw_cap w);
           p1 = param\<lparr>ep_sourceAttrs := last_attrs ty caps (ep_sourceAttrs param)\<rparr>
       in case GetVersion C (di_uuid src) ty [] False w of
            (ret, sourceVersion, w1) \<Rightarrow>
              if ret \<noteq> DH_FWK_SUCCESS then (ERR_DH_FWK_COMPONENT_GET_SINK_VERSION_FAILED, p1, w1)
              else
                let p2 = p1\<lparr>ep_sourceVersion := sourceVersion, ep_sinkAttrs := ci_dhAttrs cap\<rparr>
                in case GetVersion C uuid ty [] True w1 of
                     (ret2, sinkVersion, w2) \<Rightarrow>
                       if ret2 = DH_FWK_SUCCESS
                       then (DH_FWK_SUCCESS,
                             p2\<lparr>ep_sinkVersion := sinkVersion, ep_subtype := ci_dhSubtype cap\<rparr>, w2)
                       else (case GetMetaCapInfo (GetUdidHashIdByUUID uuid (fw_ctx w2)) (ci_dhId cap) (fw_meta w2) of
                               (ret3, Some m) \<Rightarrow>
                                 if ret3 = DH_FWK_SUCCESS
                                 then (DH_FWK_SUCCESS,
                                       p2\<lparr>ep_sinkVersion := cv_sinkVersion (ci_compVersion m),
                                          ep_subtype := ci_dhSubtype cap\<rparr>, w2)
                                 else (ERR_DH_FWK_COMPONENT_GET_SINK_VERSION_FAILED, p2, w2)
                             | (ret3, None) \<Rightarrow> (ERR_DH_FWK_COMPONENT_GET_SINK_VERSION_FAILED, p2, w2)))"

definition GetEnableMetaParam ::
    "('s, 'j) config \<Rightarrow> string \<Rightarrow> string \<Rightarrow> DHType \<Rightarrow> EnableParam \<Rightarrow> MetaCapabilityInfo \<Rightarrow> 's fwk \<Rightarrow>
     int \<times> EnableParam \<times> 's fwk" where
  "GetEnableMetaParam C networkId uuid ty param metaCap w =
    (if \<not> IsIdLengthValid networkId \<or> \<not> IsIdLengthValid uuid then (ERR_DH_FWK_PARA_INVALID, param, w)
     else
       let src = GetLocalDeviceInfo (c_P C);
           metas = GetMetaCapInfosByUdidHash (di_udidHash src) (fw_meta w);
           p1 = param\<lparr>ep_sourceAttrs := last_attrs ty metas (ep_sourceAttrs param)\<rparr>
       in case GetVersion C (di_uuid src) ty [] False w of
            (ret, sourceVersion, w1) \<Rightarrow>
              if ret \<noteq> DH_FWK_SUCCESS then (ERR_DH_FWK_COMPONENT_GET_SINK_VERSION_FAILED, p1, w1)
              else (DH_FWK_SUCCESS,
                    p1\<lparr>ep_sourceVersion := sourceVersion, ep_sinkAttrs := ci_dhAttrs metaCap,
                       ep_sinkVersion := cv_sinkVersion (ci_compVersion metaCap),
                       ep_subtype := ci_dhSubtype metaCap\<rparr>, w1))"

definition GetCapParam ::
    "('s, 'j) config \<Rightarrow> string \<Rightarrow> string \<Rightarrow> 's fwk \<Rightarrow> int \<times> CapabilityInfo option" where
  "GetCapParam C uuid i w =
    (if \<not> IsIdLengthValid uuid \<or> \<not> IsIdLengthValid i then (ERR_DH_FWK_PARA_INVALID, None)
     else
       let devId = GetDeviceIdByUUID (pf_digest (c_P C)) uuid in
       case Cap_GetCapability devId i (fw_cap w) of
         (ret, capability) \<Rightarrow>
           if ret = DH_FWK_SUCCESS \<and> capability \<noteq> None then (ret, capability)
           else Local_GetCapability devId i (fw_local w))"

definition GetMetaParam :: "string \<Rightarrow> string \<Rightarrow> 's fwk \<Rightarrow> int \<times> MetaCapabilityInfo option" where
  "GetMetaParam uuid i w =
    (if \<not> IsIdLengthValid uuid \<or> \<not> IsIdLengthValid i then (ERR_DH_FWK_PARA_INVALID, None)
     else GetMetaCapInfo (GetUdidHashIdByUUID uuid (fw_ctx w)) i (fw_meta w))"

text \<open>The second half of \<open>GetEnableParam\<close>, reached when the capability gives no parameters.\<close>

definition GetEnableParam_meta ::
    "('s, 'j) config \<Rightarrow> string \<Rightarrow> string \<Rightarrow> string \<Rightarrow> DHType \<Rightarrow> EnableParam \<Rightarrow> 's fwk \<Rightarrow>
     int \<times> EnableParam \<times> 's fwk" where
  "GetEnableParam_meta C networkId uuid i ty param w =
    (case GetMetaParam uuid i w of
       (ret, Some m) \<Rightarrow>
         if ret = DH_FWK_SUCCESS then
           (case GetEnableMetaParam C networkId uuid ty param m w of
              (ret2, p, w1) \<Rightarrow>
                if ret2 = DH_FWK_SUCCESS then (ret2, p, w1)
                else (ERR_DH_FWK_COMPONENT_GET_ENABLE_PARAM_FAILED, p, w1))
         else (ERR_DH_FWK_COMPONENT_GET_ENABLE_PARAM_FAILED, param, w)
     | (ret, None) \<Rightarrow> (ERR_DH_FWK_COMPONENT_GET_ENABLE_PARAM_FAILED, param, w))"

definition GetEnableParam ::
    "('s, 'j) config \<Rightarrow> string \<Rightarrow> string \<Rightarrow> string \<Rightarrow> DHType \<Rightarrow> EnableParam \<Rightarrow> 's fwk \<Rightarrow>
     int \<times> EnableParam \<times> 's fwk" where
  "GetEnableParam C networkId uuid i ty param w =
    (if \<not> IsIdLengthValid networkId \<or> \<not> IsIdLengthValid uuid \<or> \<not> IsIdLengthValid i
     then (ERR_DH_FWK_COMPONENT_GET_ENABLE_PARAM_FAILED, param, w)
     else case GetCapParam C uuid i w of
       (ret, Some cap) \<Rightarrow>
         if ret = DH_FWK_SUCCESS then
           (case GetEnableCapParam C networkId uuid ty param cap w of
              (ret2, p, w1) \<Rightarrow>
                if ret2 = DH_FWK_SUCCESS then (ret2, p, w1)
                else GetEnableParam_meta C networkId uuid i ty p w1)
         else GetEnableParam_meta C networkId uuid i ty param w
     | (ret, None) \<Rightarrow> GetEnableParam_meta C networkId uuid i ty param w)"

definition ENABLE_RETRY_MAX_TIMES :: nat where [simp]: "ENABLE_RETRY_MAX_TIMES = 3"
definition DISABLE_RETRY_MAX_TIMES :: nat where [simp]: "DISABLE_RETRY_MAX_TIMES = 3"

text \<open>The number is how many turns of the loop are left.\<close>

fun RetryGetEnableParam_loop ::
    "('s, 'j) config \<Rightarrow> nat \<Rightarrow> string \<Rightarrow> string \<Rightarrow> string \<Rightarrow> DHType \<Rightarrow> EnableParam \<Rightarrow> 's fwk \<Rightarrow>
     int \<times> EnableParam \<times> 's fwk" where
  "RetryGetEnableParam_loop C 0 networkId uuid i ty param w = (DH_FWK_SUCCESS, param, w)"
| "RetryGetEnableParam_loop C (Suc n) networkId uuid i ty param w =
    (if \<not> IsDeviceOnline uuid (fw_ctx w) then (ERR_DH_FWK_COMPONENT_ENABLE_FAILED, param, w)
     else case GetEnableParam C networkId uuid i ty param w of
       (ret, p, w1) \<Rightarrow>
         if ret = DH_FWK_SUCCESS then (DH_FWK_SUCCESS, p, w1)
         else RetryGetEnableParam_loop C n networkId uuid i ty p w1)"

definition RetryGetEnableParam ::
    "('s, 'j) config \<Rightarrow> string \<Rightarrow> string \<Rightarrow> string \<Rightarrow> DHType \<Rightarrow> EnableParam \<Rightarrow> 's fwk \<Rightarrow>
     int \<times> EnableParam \<times> 's fwk" where
  "RetryGetEnableParam C networkId uuid i ty param w =
    (if \<not> IsIdLengthValid networkId \<or> \<not> IsIdLengthValid uuid \<or> \<not> IsIdLengthValid i
     then (ERR_DH_FWK_PARA_INVALID, param, w)
     else RetryGetEnableParam_loop C ENABLE_RETRY_MAX_TIMES networkId uuid i ty param w)"

section \<open>Account, subtype and configuration checks\<close>

definition IsIdenticalAccount :: "('s, 'j) config \<Rightarrow> string \<Rightarrow> bool" where
  "IsIdenticalAccount C networkId =
    (if \<not> IsIdLengthValid networkId then False
     else
       let deviceList = e_TrustedDevices (c_E C) in
       if length deviceList = 0 \<or> length deviceList > MAX_ONLINE_DEVICE_SIZE then False
       else case find (\<lambda>d. tr_networkId d = networkId) deviceList of
              None \<Rightarrow> False | Some d \<Rightarrow> tr_identicalAccount d)"

definition CheckSubtypeResource :: "('s, 'j) config \<Rightarrow> string \<Rightarrow> string \<Rightarrow> int" where
  "CheckSubtypeResource C subtype networkId =
    (if c_check_resource C then
       (case om_get (e_CompResourceDesc (c_E C)) subtype of
          None \<Rightarrow> ERR_DH_FWK_RESOURCE_KEY_IS_EMPTY
        | Some privacy \<Rightarrow>
            if privacy \<and> \<not> IsIdenticalAccount C networkId then ERR_DH_FWK_COMPONENT_ENABLE_FAILED
            else DH_FWK_SUCCESS)
     else DH_FWK_SUCCESS)"

definition AddTokenIdToSinkAttrs :: "'j cJSON \<Rightarrow> string \<Rightarrow> EnableParam \<Rightarrow> EnableParam" where
  "AddTokenIdToSinkAttrs J customParams param =
    (if customParams = [] then param
     else case cJSON_Parse J (c_str customParams) of
       None \<Rightarrow> param
     | Some json \<Rightarrow>
        (case cJSON_GetObjectItem J json ''tokenId'' of
           None \<Rightarrow> param
         | Some tokenIdJson \<Rightarrow>
             if \<not> cJSON_IsNumber J tokenIdJson then param
             else case cJSON_Parse J (if ep_sinkAttrs param = [] then ''{}'' else c_str (ep_sinkAttrs param)) of
               None \<Rightarrow> param
             | Some attrs \<Rightarrow>
                 let attrs' = cJSON_AddNumberToObject J attrs ''tokenId'' (cj_valuedouble J tokenIdJson)
                 in case cJSON_PrintUnformatted J attrs' of
                      None \<Rightarrow> param
                    | Some s \<Rightarrow> param\<lparr>ep_sinkAttrs := s\<rparr>))"

definition CheckIdenticalAccount ::
    "('s, 'j) config \<Rightarrow> string \<Rightarrow> string \<Rightarrow> DHDescriptor \<Rightarrow> 's fwk \<Rightarrow> int \<times> 's fwk" where
  "CheckIdenticalAccount C networkId uuid d w =
    (case GetEnableParam C networkId uuid (dd_id d) (dd_dhType d) EnableParam_default w of
       (ret, p, w1) \<Rightarrow>
         (if ret = DH_FWK_SUCCESS then (CheckSubtypeResource C (ep_subtype p) networkId, w1)
          else case RetryGetEnableParam C networkId uuid (dd_id d) (dd_dhType d) p w1 of
            (ret2, p2, w2) \<Rightarrow>
              if ret2 \<noteq> DH_FWK_SUCCESS then (ret, w2)
              else (CheckSubtypeResource C (ep_subtype p2) networkId, w2)))"

definition IsFeatureMatched :: "string list \<Rightarrow> string list \<Rightarrow> bool" where
  "IsFeatureMatched sourceFeatureFilters sinkSupportedFeatures =
    list_ex (\<lambda>filter. list_ex (\<lambda>feature. feature = filter) sinkSupportedFeatures) sourceFeatureFilters"

text \<open>The second component is what \<open>compVersion\<close> holds after the call.\<close>

definition GetRemoteVerInfo ::
    "('s, 'j) config \<Rightarrow> CompVersion \<Rightarrow> string \<Rightarrow> string \<Rightarrow> DHType \<Rightarrow> 's fwk \<Rightarrow> int \<times> CompVersion" where
  "GetRemoteVerInfo C cv udid uuid ty w =
    (let metaInfoMap = GetMetaDataByDHType ty [] (fw_meta w);
         udidHash = sha (c_P C) udid
     in case find (\<lambda>(k, m). GetUUIDByDeviceId (ci_deviceId m) (fw_ctx w) = uuid \<or> ci_udidHash m = udidHash)
               metaInfoMap of
          None \<Rightarrow> (ERR_DH_FWK_COMPONENT_COMPVERSION_NOT_FOUND, cv)
        | Some (k, m) \<Rightarrow> (DH_FWK_SUCCESS, ci_compVersion m))"

definition CheckSinkConfigStart :: "('s, 'j) config \<Rightarrow> DHType \<Rightarrow> bool \<Rightarrow> int \<times> bool" where
  "CheckSinkConfigStart C ty enableSink =
    (case e_LocalDHVersion (c_E C) of
       (ret, localDhVersion) \<Rightarrow>
         if ret \<noteq> DH_FWK_SUCCESS then (ret, enableSink)
         else case om_get (dv_compVersions localDhVersion) ty of
           None \<Rightarrow> (ERR_DH_FWK_TYPE_NOT_EXIST, enableSink)
         | Some cv \<Rightarrow>
             if \<not> cv_haveFeature cv then (DH_FWK_SUCCESS, True)
             else (DH_FWK_SUCCESS, (if length (cv_sinkSupportedFeatures cv) > 0 then True else enableSink)))"

definition CheckDemandStart ::
    "('s, 'j) config \<Rightarrow> string \<Rightarrow> string \<Rightarrow> DHType \<Rightarrow> 's fwk \<Rightarrow> int \<times> bool" where
  "CheckDemandStart C udid uuid ty w =
    (case GetRemoteVerInfo C (CompVersion_local C) udid uuid ty w of
       (ret, cv) \<Rightarrow>
         if ret \<noteq> DH_FWK_SUCCESS then (ret, False)
         else case e_LocalDHVersion (c_E C) of
           (ret2, dhVersion) \<Rightarrow>
             if ret2 \<noteq> DH_FWK_SUCCESS then (ret2, False)
             else case om_get (dv_compVersions dhVersion) ty of
               None \<Rightarrow> (ERR_DH_FWK_TYPE_NOT_EXIST, False)
             | Some lv \<Rightarrow>
                 if \<not> cv_haveFeature lv then (DH_FWK_SUCCESS, True)
                 else if length (cv_sourceFeatureFilters lv) = 0 then (DH_FWK_SUCCESS, False)
                 else (DH_FWK_SUCCESS,
                       IsFeatureMatched (cv_sourceFeatureFilters lv) (cv_sinkSupportedFeatures cv)))"

text \<open>The subtype stays as the caller set it when the subtype text cannot be found.\<close>

definition subtype_of_text :: "string \<Rightarrow> DHSubtype option" where
  "subtype_of_text s =
    (if s = ''mic'' then Some Subtype_AUDIO_MIC
     else if s = ''speaker'' then Some Subtype_AUDIO_SPEAKER
     else if s = ''camera'' then Some Subtype_CAMERA
     else None)"

definition GetDHSubtypeByDHId ::
    "('s, 'j) config \<Rightarrow> DHSubtype \<Rightarrow> string \<Rightarrow> string \<Rightarrow> 's fwk \<Rightarrow> int \<times> DHSubtype \<times> 's fwk" where
  "GetDHSubtypeByDHId C sub0 networkId i w =
    (let finish = (\<lambda>s w'. case subtype_of_text s of
                      Some sub \<Rightarrow> (DH_FWK_SUCCESS, sub, w')
                    | None \<Rightarrow> (ERR_DH_FWK_BAD_OPERATION, Subtype_UNKNOWN, w'))
     in if networkId = GetLocalNetworkId (c_P C) then
          (case GetDeviceInfo (c_P C) (fw_ctx w) of
             (info, ctx) \<Rightarrow>
               let w1 = w\<lparr>fw_ctx := ctx\<rparr> in
               if di_deviceId info = [] then (ERR_DH_FWK_BAD_OPERATION, sub0, w1)
               else
                 let s = Cap_GetDhSubtype (di_deviceId info) i (fw_cap w1) in
                 if s = [] then (ERR_DH_FWK_BAD_OPERATION, sub0, w1) else finish s w1)
        else
          let devId = GetDeviceIdByNetworkId networkId (fw_ctx w);
              s = Local_GetDhSubtype devId i (fw_local w)
          in if s \<noteq> [] then finish s w
             else
               let udid = GetUDIDByNetworkId networkId (fw_ctx w);
                   s2 = GetDhSubtypeByUdidHash (sha (c_P C) udid) i (fw_meta w)
               in if s2 = [] then (ERR_DH_FWK_BAD_OPERATION, sub0, w) else finish s2 w)"

definition CheckAudioConfigGate ::
    "('s, 'j) config \<Rightarrow> string \<Rightarrow> DHDescriptor \<Rightarrow> string \<Rightarrow> 's fwk \<Rightarrow> int \<times> 's fwk" where
  "CheckAudioConfigGate C networkId d role w =
    (if dd_dhType d \<noteq> DHType_AUDIO then (DH_FWK_SUCCESS, w)
     else case GetDHSubtypeByDHId C Subtype_UNKNOWN networkId (dd_id d) w of
       (ret, sub, w1) \<Rightarrow>
         if ret \<noteq> DH_FWK_SUCCESS then (ret, w1)
         else if sub \<noteq> Subtype_AUDIO_MIC \<and> sub \<noteq> Subtype_AUDIO_SPEAKER then (DH_FWK_SUCCESS, w1)
         else
           let subtypeStr = (if sub = Subtype_AUDIO_MIC then ''mic'' else ''speaker'') in
           if \<not> e_IsComponentSubtypeEnabled (c_E C) (dd_dhType d) subtypeStr role
           then (ERR_DH_FWK_COMPONENT_DISABLED_BY_CONFIG, w1)
           else (DH_FWK_SUCCESS, w1))"

section \<open>Enabling and disabling with retries\<close>

definition DumpEnabledComp :: "string \<Rightarrow> DHType \<Rightarrow> string \<Rightarrow> 's fwk \<Rightarrow> 's fwk" where
  "DumpEnabledComp networkId ty i w =
    w\<lparr>fw_enabledComps := om_emplace (networkId, i) ty (fw_enabledComps w)\<rparr>"

definition DumpDisabledComp :: "string \<Rightarrow> DHType \<Rightarrow> string \<Rightarrow> 's fwk \<Rightarrow> 's fwk" where
  "DumpDisabledComp networkId ty i w =
    (if om_has (fw_enabledComps w) (networkId, i)
     then w\<lparr>fw_enabledComps := om_del (networkId, i) (fw_enabledComps w)\<rparr> else w)"

text \<open>The retry loop of \<open>Enable\<close>; \<open>result\<close> is the code of the first attempt, which a failure returns.\<close>

fun Enable_retry ::
    "('s, 'j) config \<Rightarrow> nat \<Rightarrow> string \<Rightarrow> string \<Rightarrow> string \<Rightarrow> DHType \<Rightarrow> EnableParam \<Rightarrow> nat option \<Rightarrow>
     string \<Rightarrow> int \<Rightarrow> int \<Rightarrow> 's fwk \<Rightarrow> int \<times> 's fwk" where
  "Enable_retry C 0 networkId uuid i ty param handler customParams result st w = (result, w)"
| "Enable_retry C (Suc n) networkId uuid i ty param handler customParams result st w =
    (if \<not> IsDeviceOnline uuid (fw_ctx w) then (result, w)
     else case ComponentEnable_Enable C networkId i param handler customParams st w of
       (r, st', w1) \<Rightarrow>
         if r = DH_FWK_SUCCESS then (DH_FWK_SUCCESS, DumpEnabledComp networkId ty i w1)
         else Enable_retry C n networkId uuid i ty param handler customParams result st' w1)"

text \<open>\<open>Enable\<close> once its parameters are there.\<close>

definition Enable_with ::
    "('s, 'j) config \<Rightarrow> string \<Rightarrow> string \<Rightarrow> string \<Rightarrow> DHType \<Rightarrow> bool \<Rightarrow> string \<Rightarrow> nat option \<Rightarrow>
     EnableParam \<Rightarrow> 's fwk \<Rightarrow> int \<times> 's fwk" where
  "Enable_with C networkId uuid i ty isActive customParams handler param w =
    (let chk = (if \<not> isActive then CheckSubtypeResource C (ep_subtype param) networkId else DH_FWK_SUCCESS)
     in if chk \<noteq> DH_FWK_SUCCESS then (chk, w)
        else
          let p = AddTokenIdToSinkAttrs (c_J C) customParams param
          in case ComponentEnable_Enable C networkId i p handler customParams ComponentEnable_new w of
               (result, st, w1) \<Rightarrow>
                 if result \<noteq> DH_FWK_SUCCESS
                 then Enable_retry C ENABLE_RETRY_MAX_TIMES networkId uuid i ty p handler customParams result st w1
                 else (result, DumpEnabledComp networkId ty i w1))"

definition Enable ::
    "('s, 'j) config \<Rightarrow> string \<Rightarrow> string \<Rightarrow> string \<Rightarrow> DHType \<Rightarrow> bool \<Rightarrow> string \<Rightarrow> 's fwk \<Rightarrow> int \<times> 's fwk" where
  "Enable C networkId uuid i ty isActive customParams w =
    (if \<not> IsIdLengthValid networkId \<or> \<not> IsIdLengthValid uuid \<or> \<not> IsIdLengthValid i
     then (ERR_DH_FWK_PARA_INVALID, w)
     else case om_get (cm_compSource (fw_cm w)) ty of
       None \<Rightarrow> (ERR_DH_FWK_PARA_INVALID, w)
     | Some handler \<Rightarrow>
        (case GetEnableParam C networkId uuid i ty EnableParam_default w of
           (ret, p, w1) \<Rightarrow>
             if ret = DH_FWK_SUCCESS
             then Enable_with C networkId uuid i ty isActive customParams handler p w1
             else case RetryGetEnableParam C networkId uuid i ty p w1 of
               (ret2, p2, w2) \<Rightarrow>
                 if ret2 \<noteq> DH_FWK_SUCCESS then (ret, w2)
                 else Enable_with C networkId uuid i ty isActive customParams handler p2 w2))"

fun Disable_retry ::
    "('s, 'j) config \<Rightarrow> nat \<Rightarrow> string \<Rightarrow> string \<Rightarrow> DHType \<Rightarrow> nat option \<Rightarrow> int \<Rightarrow> int \<Rightarrow> 's fwk \<Rightarrow>
     int \<times> 's fwk" where
  "Disable_retry C 0 networkId i ty handler result st w = (result, w)"
| "Disable_retry C (Suc n) networkId i ty handler result st w =
    (case ComponentDisable_Disable C networkId i handler st w of
       (r, st', w1) \<Rightarrow>
         if r = DH_FWK_SUCCESS then (DH_FWK_SUCCESS, DumpDisabledComp networkId ty i w1)
         else Disable_retry C n networkId i ty handler result st' w1)"

definition Disable ::
    "('s, 'j) config \<Rightarrow> string \<Rightarrow> string \<Rightarrow> string \<Rightarrow> DHType \<Rightarrow> 's fwk \<Rightarrow> int \<times> 's fwk" where
  "Disable C networkId uuid i ty w =
    (if \<not> IsIdLengthValid networkId \<or> \<not> IsIdLengthValid uuid \<or> \<not> IsIdLengthValid i
     then (ERR_DH_FWK_PARA_INVALID, w)
     else
       let handler = GetDHSourceInstance ty w
       in case ComponentDisable_Disable C networkId i handler INT32_MAX w of
            (result, st, w1) \<Rightarrow>
              if result \<noteq> DH_FWK_SUCCESS
              then Disable_retry C DISABLE_RETRY_MAX_TIMES networkId i ty handler result st w1
              else (result, DumpDisabledComp networkId ty i w1))"

end
