(* ===== verification/Ref_Status.thy ===== *)
theory Ref_Status
  imports Enable_Param
begin

text \<open>
  The reference counts the component manager keeps for a hardware type (\<open>DHSinkStatus\<close> and
  \<open>DHSourceStatus\<close> of \<open>component_manager.h\<close>): per piece of hardware the number of clients that have
  it enabled, and per type the load count of the component.  Both are the same structure over
  different keys, so the operations and the invariant are stated once.

  The interface \<open>ref_counter\<close> is what the enable and disable operations rely on: clients switch on and
  off, and the load count is how many are on.
\<close>

section \<open>Access through operator[]\<close>

definition status_of :: "(DHType, 'k DHStatus) omap \<Rightarrow> DHType \<Rightarrow> 'k DHStatus" where
  "status_of m ty = (case om_get m ty of None \<Rightarrow> DHStatus_default | Some s \<Rightarrow> s)"

definition info_of :: "'k DHStatus \<Rightarrow> 'k \<Rightarrow> DHStatusEnableInfo" where
  "info_of s k = (case om_get (enableInfos s) k of None \<Rightarrow> DHStatusEnableInfo_default | Some i \<Rightarrow> i)"

definition ctrl_of :: "DHStatusEnableInfo \<Rightarrow> DHStatusCtrlKey \<Rightarrow> EnableState" where
  "ctrl_of i ck = (case om_get (dhStatusCtrl i) ck of None \<Rightarrow> DISABLED | Some e \<Rightarrow> e)"

text \<open>Reading a client's state inserts the default enable info and the default state.\<close>

definition touch_client :: "'k::linorder \<Rightarrow> DHStatusCtrlKey \<Rightarrow> 'k DHStatus \<Rightarrow> 'k DHStatus" where
  "touch_client k ck s =
    (let i = info_of s k in
     s\<lparr>enableInfos := om_put k (i\<lparr>dhStatusCtrl := om_put ck (ctrl_of i ck) (dhStatusCtrl i)\<rparr>)
                        (enableInfos s)\<rparr>)"

text \<open>The assignments through the three references: the client's state and the two counts.\<close>

definition set_client ::
    "'k::linorder \<Rightarrow> DHStatusCtrlKey \<Rightarrow> EnableState \<Rightarrow> (int \<Rightarrow> int) \<Rightarrow> 'k DHStatus \<Rightarrow> 'k DHStatus" where
  "set_client k ck e f s =
    (let i = info_of s k in
     s\<lparr>refLoad := f (refLoad s),
       enableInfos := om_put k (i\<lparr>refEnable := f (refEnable i),
                                  dhStatusCtrl := om_put ck e (dhStatusCtrl i)\<rparr>) (enableInfos s)\<rparr>)"

definition client_state :: "'k DHStatus \<Rightarrow> 'k \<Rightarrow> DHStatusCtrlKey \<Rightarrow> EnableState" where
  "client_state s k ck = ctrl_of (info_of s k) ck"

section \<open>Removal and reset\<close>

text \<open>\<open>ForceDisable\<close>: the listeners of the enabled clients, then the load count without them.\<close>

definition enabled_listeners :: "'k DHStatus \<Rightarrow> DHStatusEnableInfo \<Rightarrow> nat list" where
  "enabled_listeners s i =
    concat (map (\<lambda>(ck, e). if e \<noteq> DISABLED
                            then (case om_get (listeners s) ck of None \<Rightarrow> [] | Some l \<Rightarrow> [l]) else [])
      (dhStatusCtrl i))"

definition drop_info :: "'k \<Rightarrow> DHStatusEnableInfo \<Rightarrow> 'k DHStatus \<Rightarrow> 'k DHStatus" where
  "drop_info k i s = s\<lparr>refLoad := refLoad s - refEnable i, enableInfos := om_del k (enableInfos s)\<rparr>"

definition is_auto :: "DHStatusCtrlKey \<Rightarrow> bool" where
  "is_auto ck = (ck_uid ck = 0 \<and> ck_pid ck = 0)"

definition reset_status :: "'k DHStatus \<Rightarrow> 'k DHStatus" where
  "reset_status s =
    s\<lparr>refLoad := 0,
      enableInfos := om_map (\<lambda>k i. i\<lparr>refEnable := 0,
         dhStatusCtrl := om_map (\<lambda>ck e. if is_auto ck then DISABLED else e) (dhStatusCtrl i)\<rparr>)
       (enableInfos s)\<rparr>"

text \<open>
  What \<open>RecoverActiveEnable\<close> makes of a status, and the clients it creates a task for, in the order it
  meets them.
\<close>

definition is_active_enabled :: "DHStatusCtrlKey \<Rightarrow> EnableState \<Rightarrow> bool" where
  "is_active_enabled ck e = ((ck_uid ck \<noteq> 0 \<or> ck_pid ck \<noteq> 0) \<and> e = ENABLED)"

definition disable_active :: "'k DHStatus \<Rightarrow> 'k DHStatus" where
  "disable_active s =
    s\<lparr>enableInfos := om_map (\<lambda>k i. i\<lparr>dhStatusCtrl :=
         om_map (\<lambda>ck e. if is_active_enabled ck e then DISABLED else e) (dhStatusCtrl i)\<rparr>)
       (enableInfos s)\<rparr>"

definition active_clients :: "'k DHStatus \<Rightarrow> ('k \<times> DHStatusCtrlKey) list" where
  "active_clients s =
    concat (map (\<lambda>(k, i). map (\<lambda>(ck, e). (k, ck))
                  (filter (\<lambda>(ck, e). is_active_enabled ck e) (dhStatusCtrl i))) (enableInfos s))"

section \<open>The invariant\<close>

definition enabled_count :: "DHStatusEnableInfo \<Rightarrow> int" where
  "enabled_count i = om_sum (\<lambda>e. if e = ENABLED then 1 else 0) (dhStatusCtrl i)"

definition info_ok :: "DHStatusEnableInfo \<Rightarrow> bool" where
  "info_ok i = (om_ok (dhStatusCtrl i) \<and> refEnable i = enabled_count i)"

definition status_ok :: "'k::linorder DHStatus \<Rightarrow> bool" where
  "status_ok s =
    (om_ok (enableInfos s) \<and> om_ok (listeners s) \<and> list_all (\<lambda>(k, i). info_ok i) (enableInfos s)
     \<and> refLoad s = om_sum refEnable (enableInfos s))"

text \<open>The same without the counts: what remains true between a reset and the recovery.\<close>

definition status_shape :: "'k::linorder DHStatus \<Rightarrow> bool" where
  "status_shape s =
    (om_ok (enableInfos s) \<and> om_ok (listeners s) \<and> list_all (\<lambda>(k, i). om_ok (dhStatusCtrl i)) (enableInfos s))"

lemma info_ok_default [simp]: "info_ok DHStatusEnableInfo_default"
  by (simp add: info_ok_def enabled_count_def DHStatusEnableInfo_default_def)

lemma status_ok_default [simp]: "status_ok DHStatus_default"
  by (simp add: status_ok_def DHStatus_default_def)

lemma status_ok_info: "status_ok s \<Longrightarrow> info_ok (info_of s k)"
  by (auto simp: status_ok_def info_of_def list_all_iff split: option.splits dest!: map_of_SomeD)

lemma enabled_count_nonneg: "0 \<le> enabled_count i"
  unfolding enabled_count_def by (rule om_sum_nonneg) simp

lemma ref_nonneg: "info_ok i \<Longrightarrow> 0 \<le> refEnable i"
  using enabled_count_nonneg[of i] by (simp add: info_ok_def)

lemma list_all_put:
  "list_all (\<lambda>(k, v). P v) m \<Longrightarrow> P v \<Longrightarrow> list_all (\<lambda>(k, v). P v) (om_put k v m)"
  by (induction k v m rule: om_put.induct) auto

lemma ref_le_load: "status_ok s \<Longrightarrow> refEnable (info_of s k) \<le> refLoad s"
proof -
  assume ok: "status_ok s"
  have nn: "\<And>k' i. (k', i) \<in> set (enableInfos s) \<Longrightarrow> 0 \<le> refEnable i"
    using ok by (auto simp: status_ok_def list_all_iff intro: ref_nonneg)
  show ?thesis
  proof (cases "om_get (enableInfos s) k")
    case None
    then show ?thesis
      using ok om_sum_nonneg[of "enableInfos s" refEnable, OF nn]
      by (simp add: info_of_def status_ok_def DHStatusEnableInfo_default_def)
  next
    case (Some i)
    then have "(k, i) \<in> set (enableInfos s)" by (rule map_of_SomeD)
    then show ?thesis
      using ok om_sum_ge_member[of "enableInfos s" refEnable k i, OF nn]
      by (simp add: info_of_def status_ok_def Some)
  qed
qed

lemma enabled_ref_pos:
  assumes "info_ok i" "ctrl_of i ck = ENABLED" shows "1 \<le> refEnable i"
proof -
  have "(ck, ENABLED) \<in> set (dhStatusCtrl i)"
    using assms(2) by (auto simp: ctrl_of_def split: option.splits dest: map_of_SomeD)
  then show ?thesis
    using assms(1) om_sum_ge_member[of "dhStatusCtrl i" "\<lambda>e. if e = ENABLED then 1 else 0" ck ENABLED]
    by (auto simp: info_ok_def enabled_count_def)
qed

lemma val0_info: "val0 refEnable (om_get (enableInfos s) k) = refEnable (info_of s k)"
  by (auto simp: info_of_def DHStatusEnableInfo_default_def split: option.splits)

lemma val0_ctrl:
  "val0 (\<lambda>e. if e = ENABLED then 1 else 0) (om_get (dhStatusCtrl i) ck) = (if ctrl_of i ck = ENABLED then 1 else 0)"
  by (auto simp: ctrl_of_def split: option.splits)

section \<open>Lookups after an update\<close>

lemma enableInfos_touch [simp]:
  "om_get (enableInfos (touch_client k ck s)) =
   (om_get (enableInfos s))(k \<mapsto> (info_of s k)
      \<lparr>dhStatusCtrl := om_put ck (ctrl_of (info_of s k) ck) (dhStatusCtrl (info_of s k))\<rparr>)"
  by (rule ext) (simp add: touch_client_def Let_def)

lemma touch_frame [simp]:
  "refLoad (touch_client k ck s) = refLoad s"
  "listeners (touch_client k ck s) = listeners s"
  by (simp_all add: touch_client_def Let_def)

lemma set_frame [simp]:
  "refLoad (set_client k ck e f s) = f (refLoad s)"
  "listeners (set_client k ck e f s) = listeners s"
  by (simp_all add: set_client_def Let_def)

lemma info_of_touch:
  "info_of (touch_client k ck s) k' =
   (if k' = k then (info_of s k)\<lparr>dhStatusCtrl := om_put ck (ctrl_of (info_of s k) ck) (dhStatusCtrl (info_of s k))\<rparr>
    else info_of s k')"
  by (simp add: info_of_def)

lemma info_of_set:
  "info_of (set_client k ck e f s) k' =
   (if k' = k then (info_of s k)\<lparr>refEnable := f (refEnable (info_of s k)),
                                 dhStatusCtrl := om_put ck e (dhStatusCtrl (info_of s k))\<rparr>
    else info_of s k')"
  by (simp add: info_of_def set_client_def Let_def)

lemma client_state_touch [simp]: "client_state (touch_client k ck s) k' ck' = client_state s k' ck'"
  by (simp add: client_state_def info_of_touch ctrl_of_def)

lemma refEnable_touch [simp]: "refEnable (info_of (touch_client k ck s) k') = refEnable (info_of s k')"
  by (simp add: info_of_touch)

lemma client_state_set:
  "client_state (set_client k ck e f s) k' ck' = (if (k', ck') = (k, ck) then e else client_state s k' ck')"
  by (simp add: client_state_def info_of_set ctrl_of_def)

lemma status_ok_touch:
  assumes "status_ok s" shows "status_ok (touch_client k ck s)"
proof -
  let ?i = "info_of s k"
  let ?i' = "?i\<lparr>dhStatusCtrl := om_put ck (ctrl_of ?i ck) (dhStatusCtrl ?i)\<rparr>"
  have i: "info_ok ?i" by (rule status_ok_info[OF assms])
  then have "info_ok ?i'"
    by (simp add: info_ok_def enabled_count_def om_ok_put om_sum_put val0_ctrl)
  then show ?thesis
    using assms unfolding status_ok_def touch_client_def Let_def
    by (simp add: om_ok_put om_sum_put val0_info list_all_put)
qed

lemma status_ok_set:
  assumes ok: "status_ok s" and e: "client_state s k ck \<noteq> e"
    and f: "f (refEnable (info_of s k)) = refEnable (info_of s k) + d" "f (refLoad s) = refLoad s + d"
    and d: "d = (if e = ENABLED then 1 else -1)"
  shows "status_ok (set_client k ck e f s)"
proof -
  let ?i = "info_of s k"
  let ?i' = "?i\<lparr>refEnable := f (refEnable ?i), dhStatusCtrl := om_put ck e (dhStatusCtrl ?i)\<rparr>"
  have i: "info_ok ?i" by (rule status_ok_info[OF ok])
  have "e = ENABLED \<longleftrightarrow> ctrl_of ?i ck \<noteq> ENABLED"
    using e by (cases e; cases "ctrl_of ?i ck") (auto simp: client_state_def)
  then have "enabled_count ?i' = enabled_count ?i + d"
    using i by (auto simp: info_ok_def enabled_count_def om_sum_put val0_ctrl d)
  then have "info_ok ?i'"
    using i f(1) by (simp add: info_ok_def om_ok_put)
  then have "status_ok (s\<lparr>refLoad := refLoad s + d, enableInfos := om_put k ?i' (enableInfos s)\<rparr>)"
    using ok f(1) unfolding status_ok_def by (simp add: om_ok_put om_sum_put val0_info list_all_put)
  then show ?thesis by (simp only: set_client_def Let_def f(2))
qed

section \<open>The counting interface\<close>

locale ref_counter =
  fixes enabled :: "'s \<Rightarrow> 'c \<Rightarrow> bool"
    and load :: "'s \<Rightarrow> int"
    and on :: "'c \<Rightarrow> 's \<Rightarrow> 's"
    and off :: "'c \<Rightarrow> 's \<Rightarrow> 's"
    and ok :: "'s \<Rightarrow> bool"
  assumes ok_on: "ok s \<Longrightarrow> \<not> enabled s c \<Longrightarrow> ok (on c s)"
    and ok_off: "ok s \<Longrightarrow> enabled s c \<Longrightarrow> ok (off c s)"
    and enabled_on: "enabled (on c s) = (enabled s)(c := True)"
    and enabled_off: "enabled (off c s) = (enabled s)(c := False)"
    and load_on: "load (on c s) = load s + 1"
    and load_off: "load (off c s) = load s - 1"
    and load_pos: "ok s \<Longrightarrow> enabled s c \<Longrightarrow> 1 \<le> load s"
begin

lemma ons:
  "ok s \<Longrightarrow> distinct cs \<Longrightarrow> (\<And>c. c \<in> set cs \<Longrightarrow> \<not> enabled s c) \<Longrightarrow>
   ok (fold on cs s) \<and> load (fold on cs s) = load s + int (length cs)
   \<and> (\<forall>c. enabled (fold on cs s) c \<longleftrightarrow> c \<in> set cs \<or> enabled s c)"
proof (induction cs arbitrary: s)
  case (Cons c cs)
  have c: "\<not> enabled s c" by (rule Cons.prems) simp
  have "ok (on c s)" by (rule ok_on[OF Cons.prems(1) c])
  moreover have "distinct cs" using Cons.prems(2) by simp
  moreover have "\<not> enabled (on c s) c'" if "c' \<in> set cs" for c'
    using that Cons.prems(2) Cons.prems(3)[of c'] by (auto simp: enabled_on)
  ultimately have "ok (fold on cs (on c s)) \<and> load (fold on cs (on c s)) = load (on c s) + int (length cs)
      \<and> (\<forall>c'. enabled (fold on cs (on c s)) c' \<longleftrightarrow> c' \<in> set cs \<or> enabled (on c s) c')"
    by (rule Cons.IH)
  then show ?case by (simp add: load_on enabled_on)
qed simp

lemma offs:
  "ok s \<Longrightarrow> distinct cs \<Longrightarrow> (\<And>c. c \<in> set cs \<Longrightarrow> enabled s c) \<Longrightarrow>
   ok (fold off cs s) \<and> load (fold off cs s) = load s - int (length cs)
   \<and> (\<forall>c. enabled (fold off cs s) c \<longleftrightarrow> c \<notin> set cs \<and> enabled s c)"
proof (induction cs arbitrary: s)
  case (Cons c cs)
  have c: "enabled s c" by (rule Cons.prems) simp
  have "ok (off c s)" by (rule ok_off[OF Cons.prems(1) c])
  moreover have "distinct cs" using Cons.prems(2) by simp
  moreover have "enabled (off c s) c'" if "c' \<in> set cs" for c'
    using that Cons.prems(2) Cons.prems(3)[of c'] by (auto simp: enabled_off)
  ultimately have "ok (fold off cs (off c s)) \<and> load (fold off cs (off c s)) = load (off c s) - int (length cs)
      \<and> (\<forall>c'. enabled (fold off cs (off c s)) c' \<longleftrightarrow> c' \<notin> set cs \<and> enabled (off c s) c')"
    by (rule Cons.IH)
  then show ?case by (simp add: load_off enabled_off)
qed simp

lemma off_on:
  "\<not> enabled s c \<Longrightarrow> enabled (off c (on c s)) = enabled s \<and> load (off c (on c s)) = load s"
  by (auto simp: enabled_on enabled_off load_on load_off fun_upd_idem)

lemma load_nonneg: "ok s \<Longrightarrow> 0 \<le> load s"
proof -
  assume s: "ok s"
  show "0 \<le> load s"
  proof (cases "\<forall>c. enabled s c")
    case True
    then show ?thesis using load_pos[OF s, of undefined] by simp
  next
    case False
    then obtain c where c: "\<not> enabled s c" by blast
    have "1 \<le> load (on c s)" by (rule load_pos[OF ok_on[OF s c], of c]) (simp add: enabled_on)
    then show ?thesis by (simp add: load_on)
  qed
qed

lemma enabled_bound:
  assumes "ok s" "distinct cs" "\<And>c. c \<in> set cs \<Longrightarrow> enabled s c"
  shows "int (length cs) \<le> load s"
  using offs[OF assms] load_nonneg[of "fold off cs s"] by simp

end

definition client_enabled :: "'k DHStatus \<Rightarrow> 'k \<times> DHStatusCtrlKey \<Rightarrow> bool" where
  "client_enabled s c = (client_state s (fst c) (snd c) = ENABLED)"

definition client_on :: "'k::linorder \<times> DHStatusCtrlKey \<Rightarrow> 'k DHStatus \<Rightarrow> 'k DHStatus" where
  "client_on c s = set_client (fst c) (snd c) ENABLED (\<lambda>n. n + 1) s"

definition client_off :: "'k::linorder \<times> DHStatusCtrlKey \<Rightarrow> 'k DHStatus \<Rightarrow> 'k DHStatus" where
  "client_off c s = set_client (fst c) (snd c) DISABLED (\<lambda>n. n - 1) s"

lemma enabled_load_pos: "status_ok s \<Longrightarrow> client_state s k ck = ENABLED \<Longrightarrow> 1 \<le> refLoad s"
  using enabled_ref_pos[OF status_ok_info, of s k ck] ref_le_load[of s k]
  by (simp add: client_state_def)

lemma not_enabled: "e \<noteq> ENABLED \<longleftrightarrow> e = DISABLED" by (cases e) simp_all

interpretation refs: ref_counter client_enabled refLoad client_on client_off status_ok
proof
  fix s :: "'k::linorder DHStatus" and c
  show "status_ok s \<Longrightarrow> \<not> client_enabled s c \<Longrightarrow> status_ok (client_on c s)"
    unfolding client_on_def client_enabled_def by (rule status_ok_set[where d = 1]) auto
  show "status_ok s \<Longrightarrow> client_enabled s c \<Longrightarrow> status_ok (client_off c s)"
    unfolding client_off_def client_enabled_def by (rule status_ok_set[where d = "-1"]) auto
  show "client_enabled (client_on c s) = (client_enabled s)(c := True)"
    by (rule ext, cases c) (auto simp: client_enabled_def client_on_def client_state_set)
  show "client_enabled (client_off c s) = (client_enabled s)(c := False)"
    by (rule ext, cases c) (auto simp: client_enabled_def client_off_def client_state_set)
  show "refLoad (client_on c s) = refLoad s + 1" by (simp add: client_on_def)
  show "refLoad (client_off c s) = refLoad s - 1" by (simp add: client_off_def)
  show "status_ok s \<Longrightarrow> client_enabled s c \<Longrightarrow> 1 \<le> refLoad s"
    by (simp add: client_enabled_def enabled_load_pos)
qed

text \<open>The branch that writes the constants agrees with counting, by the invariant.\<close>

lemma set_client_cong:
  "f (refEnable (info_of s k)) = g (refEnable (info_of s k)) \<Longrightarrow> f (refLoad s) = g (refLoad s) \<Longrightarrow>
   set_client k ck e f s = set_client k ck e g s"
  by (simp add: set_client_def Let_def)

lemma first_client:
  "refEnable (info_of s k) = 0 \<Longrightarrow> refLoad s = 0 \<Longrightarrow> set_client k ck ENABLED (\<lambda>_. 1) s = client_on (k, ck) s"
  unfolding client_on_def fst_conv snd_conv by (rule set_client_cong) simp_all

lemma last_client:
  assumes "status_ok s" "client_state s k ck = ENABLED" "refLoad s \<le> 1"
  shows "set_client k ck DISABLED (\<lambda>_. 0) s = client_off (k, ck) s"
proof -
  have "1 \<le> refEnable (info_of s k)"
    using enabled_ref_pos[OF status_ok_info[OF assms(1)]] assms(2) by (simp add: client_state_def)
  then have "refEnable (info_of s k) = 1" "refLoad s = 1"
    using ref_le_load[OF assms(1), of k] assms(3) by simp_all
  then show ?thesis unfolding client_off_def fst_conv snd_conv by (intro set_client_cong) simp_all
qed

section \<open>Dropping, resetting, recovering\<close>

lemma om_sum_zero: "(\<And>k v. (k, v) \<in> set m \<Longrightarrow> f v = 0) \<Longrightarrow> om_sum f m = 0"
proof (induction m)
  case (Cons e m)
  have "om_sum f m = 0" by (rule Cons.IH) (use Cons.prems in auto)
  then show ?case using Cons.prems[of "fst e" "snd e"] by (simp add: om_sum_def)
qed simp

lemma set_om_map: "(k, v) \<in> set (om_map g m) \<longleftrightarrow> (\<exists>u. (k, u) \<in> set m \<and> v = g k u)"
  by (auto simp: om_map_def)

lemma status_ok_drop:
  assumes "status_ok s" "om_get (enableInfos s) k = Some i" shows "status_ok (drop_info k i s)"
proof -
  have "list_all (\<lambda>(k, i). info_ok i) (om_del k (enableInfos s))"
    using assms(1) by (auto simp: status_ok_def list_all_iff om_del_def)
  then show ?thesis using assms by (simp add: status_ok_def drop_info_def om_ok_del om_sum_del)
qed

lemma client_enabled_drop:
  "om_get (enableInfos s) k = Some i \<Longrightarrow>
   client_enabled (drop_info k i s) c \<longleftrightarrow> fst c \<noteq> k \<and> client_enabled s c"
  by (auto simp: client_enabled_def client_state_def drop_info_def info_of_def ctrl_of_def
      DHStatusEnableInfo_default_def)

lemma client_enabled_get:
  "client_enabled s (k, ck) \<longleftrightarrow>
   (\<exists>i. om_get (enableInfos s) k = Some i \<and> om_get (dhStatusCtrl i) ck = Some ENABLED)"
  by (auto simp: client_enabled_def client_state_def info_of_def ctrl_of_def DHStatusEnableInfo_default_def
      split: option.splits)

lemma status_ok_shape: "status_ok s \<Longrightarrow> status_shape s"
  by (auto simp: status_ok_def status_shape_def list_all_iff info_ok_def)

lemma shape_reset: "status_shape s \<Longrightarrow> status_shape (reset_status s)"
  by (fastforce simp: status_shape_def reset_status_def om_ok_map list_all_iff set_om_map)

lemma shape_disable_active: "status_shape s \<Longrightarrow> status_shape (disable_active s)"
  by (fastforce simp: status_shape_def disable_active_def om_ok_map list_all_iff set_om_map)

lemma client_enabled_reset: "client_enabled (reset_status s) (k, ck) \<longleftrightarrow> client_enabled s (k, ck) \<and> \<not> is_auto ck"
  by (auto simp: client_enabled_get reset_status_def split: if_splits)

lemma client_enabled_disable_active:
  "client_enabled (disable_active s) (k, ck) \<longleftrightarrow> client_enabled s (k, ck) \<and> is_auto ck"
  by (auto simp: client_enabled_get disable_active_def is_active_enabled_def is_auto_def split: if_splits)

lemma active_clients_iff:
  assumes "status_shape s"
  shows "(k, ck) \<in> set (active_clients s) \<longleftrightarrow> client_enabled s (k, ck) \<and> \<not> is_auto ck"
proof -
  have k: "(k, i) \<in> set (enableInfos s) \<longleftrightarrow> om_get (enableInfos s) k = Some i" for i
    using assms by (intro om_get_in) (simp add: status_shape_def)
  have c: "(ck, e) \<in> set (dhStatusCtrl i) \<longleftrightarrow> om_get (dhStatusCtrl i) ck = Some e"
    if "(k, i) \<in> set (enableInfos s)" for i e
    using assms that by (intro om_get_in) (auto simp: status_shape_def list_all_iff)
  have "(k, ck) \<in> set (active_clients s) \<longleftrightarrow>
      (\<exists>i e. (k, i) \<in> set (enableInfos s) \<and> (ck, e) \<in> set (dhStatusCtrl i) \<and> is_active_enabled ck e)"
    by (force simp: active_clients_def)
  also have "\<dots> \<longleftrightarrow> (\<exists>i. om_get (enableInfos s) k = Some i \<and> om_get (dhStatusCtrl i) ck = Some ENABLED)
      \<and> \<not> is_auto ck"
    using k c by (auto simp: is_active_enabled_def is_auto_def)
  finally show ?thesis by (simp add: client_enabled_get)
qed

lemma no_clients_ok:
  assumes "status_shape s" "refLoad s = 0" "\<And>k i. (k, i) \<in> set (enableInfos s) \<Longrightarrow> refEnable i = 0"
    and "\<And>c. \<not> client_enabled s c"
  shows "status_ok s"
proof -
  have "info_ok i" if i: "(k, i) \<in> set (enableInfos s)" for k i
  proof -
    have ok: "om_ok (dhStatusCtrl i)" using assms(1) i by (auto simp: status_shape_def list_all_iff)
    have gi: "om_get (enableInfos s) k = Some i"
      using i assms(1) om_get_in[of "enableInfos s" k i] by (simp add: status_shape_def)
    have "e = DISABLED" if "(ck, e) \<in> set (dhStatusCtrl i)" for ck e
      using assms(4)[of "(k, ck)"] that gi om_get_in[OF ok, of ck e]
      by (cases e) (auto simp: client_enabled_get)
    then have "enabled_count i = 0" unfolding enabled_count_def by (intro om_sum_zero) auto
    then show ?thesis using ok assms(3)[OF i] by (simp add: info_ok_def)
  qed
  moreover have "om_sum refEnable (enableInfos s) = 0" by (rule om_sum_zero) (rule assms(3))
  ultimately show ?thesis using assms(1,2) by (auto simp: status_ok_def status_shape_def list_all_iff)
qed

lemma recovered_ok:
  assumes "status_shape s" shows "status_ok (disable_active (reset_status s))"
proof (rule no_clients_ok)
  show "status_shape (disable_active (reset_status s))"
    by (intro shape_disable_active shape_reset assms)
  show "refLoad (disable_active (reset_status s)) = 0" by (simp add: disable_active_def reset_status_def)
  show "\<And>k i. (k, i) \<in> set (enableInfos (disable_active (reset_status s))) \<Longrightarrow> refEnable i = 0"
    by (auto simp: disable_active_def reset_status_def set_om_map)
  show "\<And>c. \<not> client_enabled (disable_active (reset_status s)) c"
    by (metis client_enabled_disable_active client_enabled_reset surj_pair)
qed

lemma reset_ok_iff:
  assumes "status_shape s" shows "status_ok (reset_status s) \<longleftrightarrow> active_clients s = []"
proof
  assume ok: "status_ok (reset_status s)"
  have "\<not> client_enabled (reset_status s) c" for c
    using refs.load_pos[OF ok, of c] by (auto simp: reset_status_def)
  then have "(k, ck) \<notin> set (active_clients s)" for k ck
    using active_clients_iff[OF assms] client_enabled_reset[of s k ck] by blast
  then show "active_clients s = []" by (metis ex_in_conv set_empty surj_pair)
next
  assume none: "active_clients s = []"
  show "status_ok (reset_status s)"
  proof (rule no_clients_ok)
    show "status_shape (reset_status s)" by (rule shape_reset[OF assms])
    show "refLoad (reset_status s) = 0" by (simp add: reset_status_def)
    show "\<And>k i. (k, i) \<in> set (enableInfos (reset_status s)) \<Longrightarrow> refEnable i = 0"
      by (auto simp: reset_status_def set_om_map)
    show "\<not> client_enabled (reset_status s) c" for c
      using active_clients_iff[OF assms, of "fst c" "snd c"] client_enabled_reset[of s "fst c" "snd c"] none
      by auto
  qed
qed

end
