(* ===== verification/Component_Manager.thy ===== *)
theory Component_Manager
  imports Ref_Status
begin

text \<open>
  The enable and disable operations of the component manager on the sink and the source side, by
  clients and by force, the reset and recovery after a component has died
  (\<open>component_manager.cpp\<close>).  The mutex of a side is held for a whole operation, so an operation is
  one step; the reference to the status it works on is read once and written where the code assigns
  through it.
\<close>

section \<open>The two status maps\<close>

definition sink_status :: "DHType \<Rightarrow> 's fwk \<Rightarrow> DHSinkStatus" where
  "sink_status ty w = status_of (cm_dhSinkStatus (fw_cm w)) ty"

definition source_status :: "DHType \<Rightarrow> 's fwk \<Rightarrow> DHSourceStatus" where
  "source_status ty w = status_of (cm_dhSourceStatus (fw_cm w)) ty"

definition put_sink :: "DHType \<Rightarrow> DHSinkStatus \<Rightarrow> 's fwk \<Rightarrow> 's fwk" where
  "put_sink ty s w = upd_cm (\<lambda>m. m\<lparr>cm_dhSinkStatus := om_put ty s (cm_dhSinkStatus m)\<rparr>) w"

definition put_source :: "DHType \<Rightarrow> DHSourceStatus \<Rightarrow> 's fwk \<Rightarrow> 's fwk" where
  "put_source ty s w = upd_cm (\<lambda>m. m\<lparr>cm_dhSourceStatus := om_put ty s (cm_dhSourceStatus m)\<rparr>) w"

section \<open>Status listeners\<close>

text \<open>The loops over the component types stop at the first repeated key and keep what they did before.\<close>

fun register_listeners ::
    "DHStatusCtrlKey \<Rightarrow> nat \<Rightarrow> DHType list \<Rightarrow> (DHType, 'k DHStatus) omap \<Rightarrow> int \<times> (DHType, 'k DHStatus) omap" where
  "register_listeners ck l [] m = (DH_FWK_SUCCESS, m)"
| "register_listeners ck l (ty # types) m =
    (let s = status_of m ty; m1 = om_put ty s m in
     if om_has (listeners s) ck then (ERR_DH_FWK_COMPONENT_REPEAT_CALL, m1)
     else register_listeners ck l types (om_put ty (s\<lparr>listeners := om_put ck l (listeners s)\<rparr>) m1))"

fun unregister_listeners ::
    "DHStatusCtrlKey \<Rightarrow> DHType list \<Rightarrow> (DHType, 'k DHStatus) omap \<Rightarrow> int \<times> (DHType, 'k DHStatus) omap" where
  "unregister_listeners ck [] m = (DH_FWK_SUCCESS, m)"
| "unregister_listeners ck (ty # types) m =
    (let s = status_of m ty; m1 = om_put ty s m in
     if \<not> om_has (listeners s) ck then (ERR_DH_FWK_COMPONENT_REPEAT_CALL, m1)
     else unregister_listeners ck types (om_put ty (s\<lparr>listeners := om_del ck (listeners s)\<rparr>) m1))"

definition RegisterDHStatusListener_sink ::
    "('s, 'j) config \<Rightarrow> nat \<Rightarrow> int \<Rightarrow> int \<Rightarrow> 's fwk \<Rightarrow> int \<times> 's fwk" where
  "RegisterDHStatusListener_sink C l uid pid w =
    (case register_listeners (DHStatusCtrlKey uid pid) l (e_CompTypes (c_E C)) (cm_dhSinkStatus (fw_cm w)) of
       (ret, m) \<Rightarrow> (ret, upd_cm (\<lambda>c. c\<lparr>cm_dhSinkStatus := m\<rparr>) w))"

definition UnregisterDHStatusListener_sink ::
    "('s, 'j) config \<Rightarrow> int \<Rightarrow> int \<Rightarrow> 's fwk \<Rightarrow> int \<times> 's fwk" where
  "UnregisterDHStatusListener_sink C uid pid w =
    (case unregister_listeners (DHStatusCtrlKey uid pid) (e_CompTypes (c_E C)) (cm_dhSinkStatus (fw_cm w)) of
       (ret, m) \<Rightarrow> (ret, upd_cm (\<lambda>c. c\<lparr>cm_dhSinkStatus := m\<rparr>) w))"

definition RegisterDHStatusListener_source ::
    "('s, 'j) config \<Rightarrow> string \<Rightarrow> nat \<Rightarrow> int \<Rightarrow> int \<Rightarrow> 's fwk \<Rightarrow> int \<times> 's fwk" where
  "RegisterDHStatusListener_source C networkId l uid pid w =
    (case register_listeners (DHStatusCtrlKey uid pid) l (e_CompTypes (c_E C)) (cm_dhSourceStatus (fw_cm w)) of
       (ret, m) \<Rightarrow> (ret, upd_cm (\<lambda>c. c\<lparr>cm_dhSourceStatus := m\<rparr>) w))"

definition UnregisterDHStatusListener_source ::
    "('s, 'j) config \<Rightarrow> string \<Rightarrow> int \<Rightarrow> int \<Rightarrow> 's fwk \<Rightarrow> int \<times> 's fwk" where
  "UnregisterDHStatusListener_source C networkId uid pid w =
    (case unregister_listeners (DHStatusCtrlKey uid pid) (e_CompTypes (c_E C)) (cm_dhSourceStatus (fw_cm w)) of
       (ret, m) \<Rightarrow> (ret, upd_cm (\<lambda>c. c\<lparr>cm_dhSourceStatus := m\<rparr>) w))"

section \<open>Whether anything is enabled\<close>

definition IsSourceEnabled :: "'s fwk \<Rightarrow> bool" where
  "IsSourceEnabled w =
    list_ex (\<lambda>(ty, s). (ty = DHType_MODEM \<and> refLoad s > 0) \<or> (refLoad s > 0 \<and> listeners s \<noteq> []))
      (cm_dhSourceStatus (fw_cm w))"

definition IsSinkActiveEnabled :: "'s fwk \<Rightarrow> bool" where
  "IsSinkActiveEnabled w =
    list_ex (\<lambda>(ty, s). refLoad s > 0 \<and> listeners s \<noteq> []) (cm_dhSinkStatus (fw_cm w))"

text \<open>
  The delayed check of the service's status (\<open>distributed_hardware_manager_factory.cpp\<close>): it is posted
  anew, if the handler for it exists.
\<close>

definition DelaySaStatusTask :: "'s fwk \<Rightarrow> 's fwk" where
  "DelaySaStatusTask w = (if \<not> fw_saStatusHandler w then w else call_void EC_DelaySaStatusTask w)"

section \<open>Sink side\<close>

definition StartSinkAndWait :: "('s, 'j) config \<Rightarrow> DHType \<Rightarrow> 's fwk \<Rightarrow> int \<times> 's fwk" where
  "StartSinkAndWait C ty w =
    (case InitCompSink C ty w of
       (ret, w1) \<Rightarrow>
         if ret \<noteq> DH_FWK_SUCCESS then (ret, w1)
         else case StartSink C ty [] w1 of
           (ret2, sinkResult, w2) \<Rightarrow>
             if ret2 \<noteq> DH_FWK_SUCCESS then (ret2, w2)
             else case WaitForResult START_SINK sinkResult w2 of
               (ok, w3) \<Rightarrow>
                 if \<not> ok then (ERR_DH_FWK_COMPONENT_ENABLE_TIMEOUT, snd (UninitCompSink C ty False w3))
                 else (DH_FWK_SUCCESS, w3))"

definition EnableSinkInternal ::
    "('s, 'j) config \<Rightarrow> DHDescriptor \<Rightarrow> int \<Rightarrow> int \<Rightarrow> 's fwk \<Rightarrow> int \<times> nat option \<times> 's fwk" where
  "EnableSinkInternal C d callingUid callingPid w =
    (if \<not> e_IsDHTypeSupport (c_E C) (dd_dhType d) then (ERR_DH_FWK_TYPE_NOT_EXIST, None, w)
     else case CheckAudioConfigGate C (GetLocalNetworkId (c_P C)) d ''sink'' w of
       (gateRet, w1) \<Rightarrow>
         if gateRet \<noteq> DH_FWK_SUCCESS then (gateRet, None, w1)
         else
           let ty = dd_dhType d;
               ck = DHStatusCtrlKey callingUid callingPid;
               s = touch_client (dd_id d) ck (sink_status ty w1);
               w2 = put_sink ty s w1;
               listener = om_get (listeners s) ck
           in if client_state s (dd_id d) ck = ENABLED then (DH_FWK_SUCCESS, listener, w2)
              else if refEnable (info_of s (dd_id d)) \<noteq> 0 \<or> refLoad s \<noteq> 0
              then (DH_FWK_SUCCESS, listener,
                    put_sink ty (set_client (dd_id d) ck ENABLED (\<lambda>n. n + 1) s) w2)
              else case StartSinkAndWait C ty w2 of
                (ret, w3) \<Rightarrow>
                  if ret \<noteq> DH_FWK_SUCCESS then (ret, listener, w3)
                  else
                    let w4 = (if dd_customParams d = [] then w3
                              else
                                let w' = upd_cm (\<lambda>m. m\<lparr>cm_compSink := om_emplace ty None (cm_compSink m)\<rparr>) w3
                                in if om_get (cm_compSink (fw_cm w')) ty = Some None then w'
                                   else call_void (EC_ConfigSink ty (dd_id d) ''enable_init_params''
                                          (dd_customParams d)) w')
                    in (DH_FWK_SUCCESS, listener,
                        put_sink ty (set_client (dd_id d) ck ENABLED (\<lambda>_. 1) s) w4))"

definition EnableSink ::
    "('s, 'j) config \<Rightarrow> DHDescriptor \<Rightarrow> int \<Rightarrow> int \<Rightarrow> 's fwk \<Rightarrow> int \<times> 's fwk" where
  "EnableSink C d callingUid callingPid w =
    (case EnableSinkInternal C d callingUid callingPid w of
       (ret, listener, w1) \<Rightarrow>
         (ret, (if ret = DH_FWK_SUCCESS
                then (case listener of None \<Rightarrow> w1 | Some l \<Rightarrow> call_void (EC_SinkListener ENABLED l d) w1)
                else w1)))"

definition StopSinkAndUninit :: "('s, 'j) config \<Rightarrow> DHType \<Rightarrow> 's fwk \<Rightarrow> int \<times> 's fwk" where
  "StopSinkAndUninit C ty w =
    (case StopSink C ty [] w of
       (ret, sinkResult, w1) \<Rightarrow>
         if ret \<noteq> DH_FWK_SUCCESS then (ret, w1)
         else case WaitForResult STOP_SINK sinkResult w1 of
           (ok, w2) \<Rightarrow>
             if \<not> ok then (ERR_DH_FWK_COMPONENT_DISABLE_TIMEOUT, w2)
             else UninitCompSink C ty False w2)"

definition DisableSinkInternal ::
    "('s, 'j) config \<Rightarrow> DHDescriptor \<Rightarrow> int \<Rightarrow> int \<Rightarrow> 's fwk \<Rightarrow> int \<times> nat option \<times> 's fwk" where
  "DisableSinkInternal C d callingUid callingPid w =
    (if \<not> e_IsDHTypeSupport (c_E C) (dd_dhType d) then (ERR_DH_FWK_TYPE_NOT_EXIST, None, w)
     else
       let ty = dd_dhType d;
           ck = DHStatusCtrlKey callingUid callingPid;
           s = touch_client (dd_id d) ck (sink_status ty w);
           w1 = put_sink ty s w;
           listener = om_get (listeners s) ck
       in if client_state s (dd_id d) ck = DISABLED then (DH_FWK_SUCCESS, listener, w1)
          else if refEnable (info_of s (dd_id d)) > 1 \<or> refLoad s > 1
          then (DH_FWK_SUCCESS, listener,
                put_sink ty (set_client (dd_id d) ck DISABLED (\<lambda>n. n - 1) s) w1)
          else case StopSinkAndUninit C ty w1 of
            (ret, w2) \<Rightarrow>
              if ret \<noteq> DH_FWK_SUCCESS then (ret, listener, w2)
              else (DH_FWK_SUCCESS, listener,
                    put_sink ty (set_client (dd_id d) ck DISABLED (\<lambda>_. 0) s) w2))"

definition DisableSink ::
    "('s, 'j) config \<Rightarrow> DHDescriptor \<Rightarrow> int \<Rightarrow> int \<Rightarrow> 's fwk \<Rightarrow> int \<times> 's fwk" where
  "DisableSink C d callingUid callingPid w =
    (case DisableSinkInternal C d callingUid callingPid w of
       (ret, listener, w1) \<Rightarrow>
         (ret, (if ret = DH_FWK_SUCCESS
                then (case listener of None \<Rightarrow> w1 | Some l \<Rightarrow> call_void (EC_SinkListener DISABLED l d) w1)
                else w1)))"

definition ForceDisableSinkInternal ::
    "('s, 'j) config \<Rightarrow> DHDescriptor \<Rightarrow> 's fwk \<Rightarrow> int \<times> nat list \<times> 's fwk" where
  "ForceDisableSinkInternal C d w =
    (if \<not> e_IsDHTypeSupport (c_E C) (dd_dhType d) then (ERR_DH_FWK_TYPE_NOT_EXIST, [], w)
     else
       let ty = dd_dhType d;
           s = sink_status ty w;
           w1 = put_sink ty s w
       in case om_get (enableInfos s) (dd_id d) of
            None \<Rightarrow> (ERR_DH_FWK_COMPONENT_REPEAT_CALL, [], w1)
          | Some i \<Rightarrow>
              let ls = enabled_listeners s i;
                  s' = drop_info (dd_id d) i s;
                  w2 = put_sink ty s' w1
              in if refLoad s' > 0 then (DH_FWK_SUCCESS, ls, w2)
                 else (case StopSinkAndUninit C ty w2 of (ret, w3) \<Rightarrow> (ret, ls, w3)))"

definition ForceDisableSink :: "('s, 'j) config \<Rightarrow> DHDescriptor \<Rightarrow> 's fwk \<Rightarrow> int \<times> 's fwk" where
  "ForceDisableSink C d w =
    (case ForceDisableSinkInternal C d w of
       (ret, ls, w1) \<Rightarrow>
         let w2 = (if ret = DH_FWK_SUCCESS
                   then fold (\<lambda>l. call_void (EC_SinkListener DISABLED l d)) ls w1 else w1);
             w3 = (if GetRealTimeOnlineDeviceCount (fw_ctx w2) \<noteq> 0 \<and> \<not> IsSinkActiveEnabled w2
                   then DelaySaStatusTask w2 else w2)
         in (ret, w3))"

section \<open>Source side\<close>

definition CheckEnableSourceParam ::
    "('s, 'j) config \<Rightarrow> string \<Rightarrow> DHDescriptor \<Rightarrow> 's fwk \<Rightarrow> int \<times> 's fwk" where
  "CheckEnableSourceParam C networkId d w =
    (if \<not> e_IsDHTypeSupport (c_E C) (dd_dhType d) then (ERR_DH_FWK_TYPE_NOT_EXIST, w)
     else case CheckAudioConfigGate C networkId d ''source'' w of
       (gateRet, w1) \<Rightarrow> if gateRet \<noteq> DH_FWK_SUCCESS then (gateRet, w1) else (DH_FWK_SUCCESS, w1))"

text \<open>The answer, and the status with what the call wrote through its references.\<close>

definition CheckSourceRepeatRef ::
    "DHStatusSourceEnableInfoKey \<Rightarrow> DHStatusCtrlKey \<Rightarrow> DHSourceStatus \<Rightarrow> bool \<times> DHSourceStatus" where
  "CheckSourceRepeatRef k ck s =
    (if client_state s k ck = ENABLED then (True, s)
     else if refEnable (info_of s k) \<noteq> 0 then (True, set_client k ck ENABLED (\<lambda>n. n + 1) s)
     else (False, s))"

definition StartSourceAndWait :: "('s, 'j) config \<Rightarrow> DHType \<Rightarrow> 's fwk \<Rightarrow> int \<times> 's fwk" where
  "StartSourceAndWait C ty w =
    (case InitCompSource C ty w of
       (ret, w1) \<Rightarrow>
         if ret \<noteq> DH_FWK_SUCCESS then (ret, w1)
         else case StartSource C ty [] w1 of
           (ret2, sourceResult, w2) \<Rightarrow>
             if ret2 \<noteq> DH_FWK_SUCCESS then (ret2, w2)
             else case WaitForResult START_SOURCE sourceResult w2 of
               (ok, w3) \<Rightarrow>
                 if \<not> ok then (ERR_DH_FWK_COMPONENT_ENABLE_TIMEOUT, snd (UninitCompSource C ty False w3))
                 else (DH_FWK_SUCCESS, w3))"

definition StopSourceAndUninit :: "('s, 'j) config \<Rightarrow> DHType \<Rightarrow> 's fwk \<Rightarrow> int \<times> 's fwk" where
  "StopSourceAndUninit C ty w =
    (case StopSource C ty [] w of
       (ret, sourceResult, w1) \<Rightarrow>
         if ret \<noteq> DH_FWK_SUCCESS then (ret, w1)
         else case WaitForResult STOP_SOURCE sourceResult w1 of
           (ok, w2) \<Rightarrow>
             if \<not> ok then (ERR_DH_FWK_COMPONENT_DISABLE_TIMEOUT, w2)
             else UninitCompSource C ty False w2)"

text \<open>The failure path of \<open>RealEnableSource\<close>: stop and unload, whatever either answers.\<close>

definition UndoSource :: "('s, 'j) config \<Rightarrow> DHType \<Rightarrow> 's fwk \<Rightarrow> 's fwk" where
  "UndoSource C ty w =
    (case StopSource C ty [] w of (r, res, w1) \<Rightarrow> snd (UninitCompSource C ty False w1))"

definition RealEnableSource ::
    "('s, 'j) config \<Rightarrow> string \<Rightarrow> string \<Rightarrow> DHDescriptor \<Rightarrow> DHStatusCtrlKey \<Rightarrow> DHSourceStatus \<Rightarrow> bool \<Rightarrow>
     string \<Rightarrow> 's fwk \<Rightarrow> int \<times> 's fwk" where
  "RealEnableSource C networkId uuid d ck s isActive customParams w =
    (case StartSourceAndWait C (dd_dhType d) w of
       (ret, w1) \<Rightarrow>
         if ret \<noteq> DH_FWK_SUCCESS then (ret, w1)
         else case Enable C networkId uuid (dd_id d) (dd_dhType d) isActive customParams w1 of
           (ret2, w2) \<Rightarrow>
             if ret2 \<noteq> DH_FWK_SUCCESS then (ret2, UndoSource C (dd_dhType d) w2)
             else (ret2, put_source (dd_dhType d)
                     (set_client (DHStatusSourceEnableInfoKey networkId (dd_id d)) ck ENABLED (\<lambda>_. 1) s) w2))"

definition RealDisableSource ::
    "('s, 'j) config \<Rightarrow> string \<Rightarrow> string \<Rightarrow> DHDescriptor \<Rightarrow> DHStatusCtrlKey \<Rightarrow> DHSourceStatus \<Rightarrow> 's fwk \<Rightarrow>
     int \<times> 's fwk" where
  "RealDisableSource C networkId uuid d ck s w =
    (case Disable C networkId uuid (dd_id d) (dd_dhType d) w of
       (ret, w1) \<Rightarrow>
         if ret \<noteq> DH_FWK_SUCCESS then (ret, w1)
         else case StopSourceAndUninit C (dd_dhType d) w1 of
           (ret2, w2) \<Rightarrow>
             if ret2 \<noteq> DH_FWK_SUCCESS then (ret2, w2)
             else (DH_FWK_SUCCESS, put_source (dd_dhType d)
                     (set_client (DHStatusSourceEnableInfoKey networkId (dd_id d)) ck DISABLED (\<lambda>_. 0) s) w2))"

definition EnableSourceInternal ::
    "('s, 'j) config \<Rightarrow> string \<Rightarrow> DHDescriptor \<Rightarrow> int \<Rightarrow> int \<Rightarrow> 's fwk \<Rightarrow> int \<times> nat option \<times> 's fwk" where
  "EnableSourceInternal C networkId d callingUid callingPid w =
    (case CheckEnableSourceParam C networkId d w of
       (paramRet, w1) \<Rightarrow>
         if paramRet \<noteq> DH_FWK_SUCCESS then (paramRet, None, w1)
         else
           let ty = dd_dhType d;
               k = DHStatusSourceEnableInfoKey networkId (dd_id d);
               ck = DHStatusCtrlKey callingUid callingPid;
               uuid = GetUUIDByNetworkId networkId (fw_ctx w1);
               isActive = (callingUid \<noteq> 0 \<or> callingPid \<noteq> 0);
               s = touch_client k ck (source_status ty w1);
               w2 = put_source ty s w1;
               listener = om_get (listeners s) ck
           in case CheckSourceRepeatRef k ck s of
                (True, s') \<Rightarrow> (DH_FWK_SUCCESS, listener, put_source ty s' w2)
              | (False, _) \<Rightarrow>
                  if refLoad s \<noteq> 0 then
                    (case Enable C networkId uuid (dd_id d) ty isActive (dd_customParams d) w2 of
                       (ret, w3) \<Rightarrow>
                         if ret \<noteq> DH_FWK_SUCCESS then (ret, listener, w3)
                         else (DH_FWK_SUCCESS, listener,
                               put_source ty (set_client k ck ENABLED (\<lambda>n. n + 1) s) w3))
                  else
                    (case RealEnableSource C networkId uuid d ck s isActive (dd_customParams d) w2 of
                       (ret, w3) \<Rightarrow>
                         if ret \<noteq> DH_FWK_SUCCESS then (ret, listener, w3)
                         else (DH_FWK_SUCCESS, listener, w3)))"

definition EnableSource ::
    "('s, 'j) config \<Rightarrow> string \<Rightarrow> DHDescriptor \<Rightarrow> int \<Rightarrow> int \<Rightarrow> 's fwk \<Rightarrow> int \<times> 's fwk" where
  "EnableSource C networkId d callingUid callingPid w =
    (case EnableSourceInternal C networkId d callingUid callingPid w of
       (ret, listener, w1) \<Rightarrow>
         (ret, (if ret = DH_FWK_SUCCESS
                then (case listener of
                        None \<Rightarrow> w1 | Some l \<Rightarrow> call_void (EC_SourceListener ENABLED l networkId d) w1)
                else w1)))"

definition DisableSourceInternal ::
    "('s, 'j) config \<Rightarrow> string \<Rightarrow> DHDescriptor \<Rightarrow> int \<Rightarrow> int \<Rightarrow> 's fwk \<Rightarrow> int \<times> nat option \<times> 's fwk" where
  "DisableSourceInternal C networkId d callingUid callingPid w =
    (if \<not> e_IsDHTypeSupport (c_E C) (dd_dhType d) then (ERR_DH_FWK_TYPE_NOT_EXIST, None, w)
     else
       let ty = dd_dhType d;
           k = DHStatusSourceEnableInfoKey networkId (dd_id d);
           ck = DHStatusCtrlKey callingUid callingPid;
           uuid = GetUUIDByNetworkId networkId (fw_ctx w);
           s = touch_client k ck (source_status ty w);
           w1 = put_source ty s w;
           listener = om_get (listeners s) ck
       in if client_state s k ck = DISABLED then (DH_FWK_SUCCESS, listener, w1)
          else if refEnable (info_of s k) > 1
          then (DH_FWK_SUCCESS, listener, put_source ty (set_client k ck DISABLED (\<lambda>n. n - 1) s) w1)
          else if refLoad s > 1 then
            (case Disable C networkId uuid (dd_id d) ty w1 of
               (ret, w2) \<Rightarrow>
                 if ret \<noteq> DH_FWK_SUCCESS then (ret, listener, w2)
                 else (DH_FWK_SUCCESS, listener,
                       put_source ty (set_client k ck DISABLED (\<lambda>n. n - 1) s) w2))
          else
            (case RealDisableSource C networkId uuid d ck s w1 of
               (ret, w2) \<Rightarrow>
                 if ret \<noteq> DH_FWK_SUCCESS then (ret, listener, w2)
                 else (DH_FWK_SUCCESS, listener, w2)))"

definition DisableSource ::
    "('s, 'j) config \<Rightarrow> string \<Rightarrow> DHDescriptor \<Rightarrow> int \<Rightarrow> int \<Rightarrow> 's fwk \<Rightarrow> int \<times> 's fwk" where
  "DisableSource C networkId d callingUid callingPid w =
    (case DisableSourceInternal C networkId d callingUid callingPid w of
       (ret, listener, w1) \<Rightarrow>
         (ret, (if ret = DH_FWK_SUCCESS
                then (case listener of
                        None \<Rightarrow> w1 | Some l \<Rightarrow> call_void (EC_SourceListener DISABLED l networkId d) w1)
                else w1)))"

definition ForceDisableSourceInternal ::
    "('s, 'j) config \<Rightarrow> string \<Rightarrow> DHDescriptor \<Rightarrow> 's fwk \<Rightarrow> int \<times> nat list \<times> 's fwk" where
  "ForceDisableSourceInternal C networkId d w =
    (let ty = dd_dhType d;
         k = DHStatusSourceEnableInfoKey networkId (dd_id d);
         s = source_status ty w;
         w1 = put_source ty s w
     in case om_get (enableInfos s) k of
          None \<Rightarrow> (ERR_DH_FWK_COMPONENT_REPEAT_CALL, [], w1)
        | Some i \<Rightarrow>
            (case Disable C networkId (GetUUIDByNetworkId networkId (fw_ctx w1)) (dd_id d) ty w1 of
               (ret, w2) \<Rightarrow>
                 if ret \<noteq> DH_FWK_SUCCESS then (ret, [], w2)
                 else
                   let ls = enabled_listeners s i;
                       s' = drop_info k i s;
                       w3 = put_source ty s' w2
                   in if refLoad s' > 0 then (DH_FWK_SUCCESS, ls, w3)
                      else (case StopSourceAndUninit C ty w3 of (ret2, w4) \<Rightarrow> (ret2, ls, w4))))"

definition ForceDisableSource ::
    "('s, 'j) config \<Rightarrow> string \<Rightarrow> DHDescriptor \<Rightarrow> 's fwk \<Rightarrow> int \<times> 's fwk" where
  "ForceDisableSource C networkId d w =
    (if \<not> e_IsDHTypeSupport (c_E C) (dd_dhType d) then (ERR_DH_FWK_TYPE_NOT_EXIST, w)
     else case ForceDisableSourceInternal C networkId d w of
       (ret, ls, w1) \<Rightarrow>
         let w2 = (if ret = DH_FWK_SUCCESS
                   then fold (\<lambda>l. call_void (EC_SourceListener DISABLED l networkId d)) ls w1 else w1);
             w3 = (if GetRealTimeOnlineDeviceCount (fw_ctx w2) \<noteq> 0
                      \<and> (\<not> IsSourceEnabled w2 \<or> \<not> e_AnyHdfInuse (c_E C))
                   then DelaySaStatusTask w2 else w2)
         in (ret, w3))"

end
