(* ===== verification/Component_Recovery.thy ===== *)
theory Component_Recovery
  imports Component_Manager
begin

text \<open>
  What the component manager does when the process of a component has died: it resets the enable
  status of both sides and creates the tasks that enable again what was enabled
  (\<open>component_manager.cpp\<close>); and the enabling of the modem through its extension, which keeps the same
  counts on the source side.
\<close>

section \<open>Reset\<close>

definition ResetSinkEnableStatus :: "('s, 'j) config \<Rightarrow> DHType \<Rightarrow> bool \<Rightarrow> 's fwk \<Rightarrow> 's fwk" where
  "ResetSinkEnableStatus C ty keepSAMonitor w =
    (let w1 = snd (UninitCompSink C ty keepSAMonitor w) in
     case om_get (cm_dhSinkStatus (fw_cm w1)) ty of
       None \<Rightarrow> w1
     | Some s \<Rightarrow> put_sink ty (reset_status s) w1)"

definition ResetSourceEnableStatus :: "('s, 'j) config \<Rightarrow> DHType \<Rightarrow> bool \<Rightarrow> 's fwk \<Rightarrow> 's fwk" where
  "ResetSourceEnableStatus C ty keepSAMonitor w =
    (let w1 = snd (UninitCompSource C ty keepSAMonitor w) in
     case om_get (cm_dhSourceStatus (fw_cm w1)) ty of
       None \<Rightarrow> w1
     | Some s \<Rightarrow> put_source ty (reset_status s) w1)"

section \<open>Recovery\<close>

definition RecoverAutoEnableSink :: "('s, 'j) config \<Rightarrow> DHType \<Rightarrow> 's fwk \<Rightarrow> 's fwk" where
  "RecoverAutoEnableSink C ty w =
    (let localDeviceInfo = GetLocalDeviceInfo (c_P C);
         localMetaInfos = filter (\<lambda>m. ci_dhType m = ty)
           (GetMetaCapInfosByUdidHash (di_udidHash localDeviceInfo) (fw_meta w))
     in fold (\<lambda>m. create_and_push C TT_ENABLE
                (TaskParam_default\<lparr>tp_networkId := di_networkId localDeviceInfo, tp_uuid := di_uuid localDeviceInfo,
                   tp_udid := di_udid localDeviceInfo, tp_dhId := ci_dhId m, tp_dhType := ci_dhType m\<rparr>))
          localMetaInfos w)"

definition RecoverAutoEnableSource :: "('s, 'j) config \<Rightarrow> DHType \<Rightarrow> 's fwk \<Rightarrow> 's fwk" where
  "RecoverAutoEnableSource C ty w =
    fold (\<lambda>(k, m) w.
            let uuid = GetUUIDByDeviceId (ci_udidHash m) (fw_ctx w) in
            if uuid = [] then w
            else
              let networkId = GetNetworkIdByUUID uuid (fw_ctx w) in
              if networkId = [] then w
              else create_and_push C TT_ENABLE
                (TaskParam_default\<lparr>tp_networkId := networkId, tp_uuid := uuid,
                   tp_udid := GetUDIDByNetworkId networkId (fw_ctx w), tp_dhId := ci_dhId m,
                   tp_dhType := ci_dhType m\<rparr>) w)
      (GetMetaDataByDHType ty [] (fw_meta w)) w"

definition active_sink_param :: "DHType \<Rightarrow> string \<times> DHStatusCtrlKey \<Rightarrow> TaskParam" where
  "active_sink_param ty c =
    TaskParam_default\<lparr>tp_dhId := fst c, tp_dhType := ty, tp_effectSink := True, tp_effectSource := False,
      tp_callingUid := ck_uid (snd c), tp_callingPid := ck_pid (snd c)\<rparr>"

definition active_source_param :: "DHType \<Rightarrow> DHStatusSourceEnableInfoKey \<times> DHStatusCtrlKey \<Rightarrow> TaskParam" where
  "active_source_param ty c =
    TaskParam_default\<lparr>tp_networkId := sk_networkId (fst c), tp_dhId := sk_dhId (fst c), tp_dhType := ty,
      tp_effectSink := False, tp_effectSource := True,
      tp_callingUid := ck_uid (snd c), tp_callingPid := ck_pid (snd c)\<rparr>"

definition RecoverActiveEnableSink :: "('s, 'j) config \<Rightarrow> DHType \<Rightarrow> 's fwk \<Rightarrow> 's fwk" where
  "RecoverActiveEnableSink C ty w =
    (case om_get (cm_dhSinkStatus (fw_cm w)) ty of
       None \<Rightarrow> w
     | Some s \<Rightarrow> fold (\<lambda>c. create_and_push C TT_ENABLE (active_sink_param ty c)) (active_clients s)
                   (put_sink ty (disable_active s) w))"

definition RecoverActiveEnableSource :: "('s, 'j) config \<Rightarrow> DHType \<Rightarrow> 's fwk \<Rightarrow> 's fwk" where
  "RecoverActiveEnableSource C ty w =
    (case om_get (cm_dhSourceStatus (fw_cm w)) ty of
       None \<Rightarrow> w
     | Some s \<Rightarrow> fold (\<lambda>c. create_and_push C TT_ENABLE (active_source_param ty c)) (active_clients s)
                   (put_source ty (disable_active s) w))"

definition DoRecover :: "('s, 'j) config \<Rightarrow> DHType \<Rightarrow> 's fwk \<Rightarrow> 's fwk" where
  "DoRecover C ty w =
    (let w1 = ResetSinkEnableStatus C ty True w;
         w2 = ResetSourceEnableStatus C ty True w1;
         w3 = RecoverAutoEnableSink C ty w2;
         w4 = RecoverAutoEnableSource C ty w3;
         w5 = RecoverActiveEnableSink C ty w4
     in RecoverActiveEnableSource C ty w5)"

section \<open>The modem on the source side\<close>

definition EnableMetaSourceInternal ::
    "('s, 'j) config \<Rightarrow> string \<Rightarrow> DHDescriptor \<Rightarrow> DHStatusCtrlKey \<Rightarrow> DHSourceStatus \<Rightarrow> 's fwk \<Rightarrow> int \<times> 's fwk" where
  "EnableMetaSourceInternal C networkId d ck s w =
    (case StartSourceAndWait C (dd_dhType d) w of
       (ret, w1) \<Rightarrow>
         if ret \<noteq> DH_FWK_SUCCESS then (ret, w1)
         else case call_ret C (EC_Modem ENABLED networkId) w1 of
           (ret2, w2) \<Rightarrow>
             if ret2 \<noteq> DH_FWK_SUCCESS then (ret2, UndoSource C (dd_dhType d) w2)
             else (ret2, put_source (dd_dhType d)
                     (set_client (DHStatusSourceEnableInfoKey networkId (dd_id d)) ck ENABLED (\<lambda>_. 1) s) w2))"

definition EnableMetaSource :: "('s, 'j) config \<Rightarrow> string \<Rightarrow> DHDescriptor \<Rightarrow> 's fwk \<Rightarrow> int \<times> 's fwk" where
  "EnableMetaSource C networkId d w =
    (let ty = dd_dhType d;
         k = DHStatusSourceEnableInfoKey networkId (dd_id d);
         ck = DHStatusCtrlKey 0 0;
         s = touch_client k ck (source_status ty w);
         w1 = put_source ty s w
     in if client_state s k ck = ENABLED then (ERR_DH_FWK_COMPONENT_REPEAT_CALL, w1)
        else if refEnable (info_of s k) > 0
        then (DH_FWK_SUCCESS, put_source ty (set_client k ck ENABLED (\<lambda>n. n + 1) s) w1)
        else if refLoad s > 0 then
          (case call_ret C (EC_Modem ENABLED networkId) w1 of
             (r, w2) \<Rightarrow>
               if r \<noteq> DH_FWK_SUCCESS then (ERR_DH_FWK_PARA_INVALID, w2)
               else (DH_FWK_SUCCESS, put_source ty (set_client k ck ENABLED (\<lambda>n. n + 1) s) w2))
        else (case EnableMetaSourceInternal C networkId d ck s w1 of
                (ret, w2) \<Rightarrow> if ret \<noteq> DH_FWK_SUCCESS then (ret, w2) else (DH_FWK_SUCCESS, w2)))"

text \<open>A failing \<open>Disable\<close> of the extension is only logged.\<close>

definition DisableMetaSourceInternal ::
    "('s, 'j) config \<Rightarrow> string \<Rightarrow> DHDescriptor \<Rightarrow> DHStatusCtrlKey \<Rightarrow> DHSourceStatus \<Rightarrow> 's fwk \<Rightarrow> int \<times> 's fwk" where
  "DisableMetaSourceInternal C networkId d ck s w =
    (case StopSourceAndUninit C (dd_dhType d) (snd (call_ret C (EC_Modem DISABLED networkId) w)) of
       (ret, w1) \<Rightarrow>
         if ret \<noteq> DH_FWK_SUCCESS then (ret, w1)
         else (DH_FWK_SUCCESS, put_source (dd_dhType d)
                 (set_client (DHStatusSourceEnableInfoKey networkId (dd_id d)) ck DISABLED (\<lambda>_. 0) s) w1))"

definition DisableMetaSource :: "('s, 'j) config \<Rightarrow> string \<Rightarrow> DHDescriptor \<Rightarrow> 's fwk \<Rightarrow> int \<times> 's fwk" where
  "DisableMetaSource C networkId d w =
    (let ty = dd_dhType d;
         k = DHStatusSourceEnableInfoKey networkId (dd_id d);
         ck = DHStatusCtrlKey 0 0;
         s = touch_client k ck (source_status ty w);
         w1 = put_source ty s w
     in if client_state s k ck = DISABLED then (ERR_DH_FWK_COMPONENT_REPEAT_CALL, w1)
        else if refEnable (info_of s k) > 1
        then (DH_FWK_SUCCESS, put_source ty (set_client k ck DISABLED (\<lambda>n. n - 1) s) w1)
        else if refLoad s > 1 then
          (case call_ret C (EC_Modem DISABLED networkId) w1 of
             (r, w2) \<Rightarrow> (DH_FWK_SUCCESS, put_source ty (set_client k ck DISABLED (\<lambda>n. n - 1) s) w2))
        else (case DisableMetaSourceInternal C networkId d ck s w1 of
                (ret, w2) \<Rightarrow> if ret \<noteq> DH_FWK_SUCCESS then (ret, w2) else (DH_FWK_SUCCESS, w2)))"

end
