(* ===== verification/Component_Requests.thy ===== *)
theory Component_Requests
  imports Component_Recovery
begin

text \<open>
  Requests of the component manager that wait for something: the requests for the descriptors of a
  remote device, the access listeners, the state of the business and the tasks to repeat when a
  business becomes idle (\<open>component_manager.cpp\<close>).
\<close>

section \<open>Requests for remote descriptors\<close>

definition SYNC_TIMEOUT_TASK_NAME :: string where
  "SYNC_TIMEOUT_TASK_NAME = ''sync_timeout''"

text \<open>
  A request is the step it is for and the callbacks that wait; \<open>EC_OnGetDescriptors\<close> is the call of
  \<open>OnSuccess\<close> or of \<open>OnError\<close> with a code.
\<close>

definition SyncRemoteDeviceInfoBySoftbus ::
    "string \<Rightarrow> EnableStep \<Rightarrow> nat option \<Rightarrow> 's fwk \<Rightarrow> 's fwk" where
  "SyncRemoteDeviceInfoBySoftbus realNetworkId enableStep callback w =
    (case callback of
       None \<Rightarrow> w
     | Some cb \<Rightarrow>
        (case om_get (cm_syncDeviceInfoMap (fw_cm w)) realNetworkId of
           Some (step, cbs) \<Rightarrow>
             upd_cm (\<lambda>m. m\<lparr>cm_syncDeviceInfoMap :=
                             om_put realNetworkId (step, cbs @ [callback]) (cm_syncDeviceInfoMap m)\<rparr>) w
         | None \<Rightarrow>
             let w1 = upd_cm (\<lambda>m. m\<lparr>cm_syncDeviceInfoMap :=
                             om_put realNetworkId (enableStep, [callback]) (cm_syncDeviceInfoMap m)\<rparr>) w
             in if \<not> cm_eventHandler (fw_cm w1) then
                  upd_cm (\<lambda>m. m\<lparr>cm_syncDeviceInfoMap := om_del realNetworkId (cm_syncDeviceInfoMap m)\<rparr>)
                    (call_void (EC_OnGetDescriptors cb realNetworkId (Inl ERR_DH_FWK_POINTER_IS_NULL)) w1)
                else call_void (EC_Event ''PostTask'' (realNetworkId @ SYNC_TIMEOUT_TASK_NAME))
                       (call_void (EC_Event ''EVENT_DATA_SYNC_MANUAL'' realNetworkId) w1)))"

definition notify_callbacks ::
    "string \<Rightarrow> int + DHDescriptor list \<times> EnableStep \<Rightarrow> nat option list \<Rightarrow> 's fwk \<Rightarrow> 's fwk" where
  "notify_callbacks networkId result cbs w =
    fold (\<lambda>cb w. case cb of None \<Rightarrow> w | Some n \<Rightarrow> call_void (EC_OnGetDescriptors n networkId result) w) cbs w"

definition OnGetDescriptors :: "string \<Rightarrow> DHDescriptor list \<Rightarrow> 's fwk \<Rightarrow> 's fwk" where
  "OnGetDescriptors realNetworkId descriptors w =
    (if length descriptors = 0 then w
     else case om_get (cm_syncDeviceInfoMap (fw_cm w)) realNetworkId of
       None \<Rightarrow> w
     | Some (step, cbs) \<Rightarrow>
         let w1 = notify_callbacks realNetworkId (Inr (descriptors, step)) cbs w;
             w2 = upd_cm (\<lambda>m. m\<lparr>cm_syncDeviceInfoMap := om_del realNetworkId (cm_syncDeviceInfoMap m)\<rparr>) w1
         in if cm_eventHandler (fw_cm w2)
            then call_void (EC_Event ''RemoveTask'' (realNetworkId @ SYNC_TIMEOUT_TASK_NAME)) w2 else w2)"

definition HandleSyncDataTimeout :: "string \<Rightarrow> 's fwk \<Rightarrow> 's fwk" where
  "HandleSyncDataTimeout realNetworkId w =
    (case om_get (cm_syncDeviceInfoMap (fw_cm w)) realNetworkId of
       None \<Rightarrow> w
     | Some (step, cbs) \<Rightarrow>
         upd_cm (\<lambda>m. m\<lparr>cm_syncDeviceInfoMap := om_del realNetworkId (cm_syncDeviceInfoMap m)\<rparr>)
           (notify_callbacks realNetworkId (Inl ERR_DH_FWK_GETDISTRIBUTEDHARDWARE_TIMEOUT) cbs w))"

definition IsRequestSyncData :: "string \<Rightarrow> 's fwk \<Rightarrow> bool" where
  "IsRequestSyncData networkId w = om_has (cm_syncDeviceInfoMap (fw_cm w)) networkId"

definition RegisterSyncDataRequest :: "string \<Rightarrow> 's fwk \<Rightarrow> 's fwk" where
  "RegisterSyncDataRequest networkId w =
    (if \<not> IsIdLengthValid networkId then w
     else if om_has (cm_syncDeviceInfoMap (fw_cm w)) networkId then w
     else upd_cm (\<lambda>m. m\<lparr>cm_syncDeviceInfoMap :=
                          om_put networkId (ES_ENABLE_SOURCE, []) (cm_syncDeviceInfoMap m)\<rparr>) w)"

section \<open>Access listeners\<close>

definition AddAccessListener ::
    "('s, 'j) config \<Rightarrow> DHType \<Rightarrow> string \<Rightarrow> nat option \<Rightarrow> 's fwk \<Rightarrow> int \<times> 's fwk" where
  "AddAccessListener C ty pkgName callback w =
    (case callback of
       None \<Rightarrow> (ERR_DH_FWK_PARA_INVALID, w)
     | Some cb \<Rightarrow>
         if pkgName = [] then (ERR_DH_FWK_PARA_INVALID, w)
         else
           let dhSinkMap = cm_compSink (fw_cm w) in
           if dhSinkMap = [] then (ERR_DH_FWK_POINTER_IS_NULL, w)
           else case om_get dhSinkMap ty of
             None \<Rightarrow> (ERR_DH_FWK_PARA_INVALID, w)
           | Some None \<Rightarrow> (ERR_DH_FWK_PARA_INVALID, w)
           | Some (Some p) \<Rightarrow>
              (case call_ret C (EC_SetAccessListener ty pkgName) w of
                 (ret, w1) \<Rightarrow>
                   if ret \<noteq> DH_FWK_SUCCESS then (ret, w1)
                   else (DH_FWK_SUCCESS,
                         upd_cm (\<lambda>m. m\<lparr>cm_accessListenerMap :=
                           om_put (ty, pkgName) cb (cm_accessListenerMap m)\<rparr>) w1)))"

definition RemoveAccessListener :: "('s, 'j) config \<Rightarrow> DHType \<Rightarrow> string \<Rightarrow> 's fwk \<Rightarrow> int \<times> 's fwk" where
  "RemoveAccessListener C ty pkgName w =
    (if pkgName = [] then (ERR_DH_FWK_PARA_INVALID, w)
     else
       let dhSinkMap = cm_compSink (fw_cm w) in
       if dhSinkMap = [] then (ERR_DH_FWK_POINTER_IS_NULL, w)
       else case om_get dhSinkMap ty of
         None \<Rightarrow> (ERR_DH_FWK_PARA_INVALID, w)
       | Some None \<Rightarrow> (ERR_DH_FWK_PARA_INVALID, w)
       | Some (Some p) \<Rightarrow>
          (case call_ret C (EC_RemoveAccessListener ty pkgName) w of
             (ret, w1) \<Rightarrow>
               if ret \<noteq> DH_FWK_SUCCESS then (ret, w1)
               else if \<not> om_has (cm_accessListenerMap (fw_cm w1)) (ty, pkgName)
               then (ERR_DH_FWK_PARA_INVALID, w1)
               else (DH_FWK_SUCCESS,
                     upd_cm (\<lambda>m. m\<lparr>cm_accessListenerMap :=
                       om_del (ty, pkgName) (cm_accessListenerMap m)\<rparr>) w1)))"

definition GetAccessListener :: "DHType \<Rightarrow> string \<Rightarrow> 's fwk \<Rightarrow> nat option" where
  "GetAccessListener ty pkgName w =
    (if pkgName = [] then None else om_get (cm_accessListenerMap (fw_cm w)) (ty, pkgName))"

section \<open>Business state\<close>

definition QueryBusinessState :: "string \<Rightarrow> string \<Rightarrow> 's fwk \<Rightarrow> BusinessState" where
  "QueryBusinessState uuid i w =
    (if \<not> IsIdLengthValid uuid \<or> \<not> IsIdLengthValid i then BS_UNKNOWN
     else case om_get (cm_dhBizStates (fw_cm w)) (uuid, i) of None \<Rightarrow> BS_UNKNOWN | Some s \<Rightarrow> s)"

definition SaveNeedRefreshTask :: "TaskParam \<Rightarrow> 's fwk \<Rightarrow> 's fwk" where
  "SaveNeedRefreshTask tp w =
    upd_cm (\<lambda>m. m\<lparr>cm_needRefreshTaskParams :=
      om_put (tp_networkId tp, tp_dhId tp) tp (cm_needRefreshTaskParams m)\<rparr>) w"

definition FetchNeedRefreshTask :: "string \<times> string \<Rightarrow> 's fwk \<Rightarrow> TaskParam option \<times> 's fwk" where
  "FetchNeedRefreshTask taskKey w =
    (case om_get (cm_needRefreshTaskParams (fw_cm w)) taskKey of
       None \<Rightarrow> (None, w)
     | Some tp \<Rightarrow> (Some tp, upd_cm (\<lambda>m. m\<lparr>cm_needRefreshTaskParams :=
                              om_del taskKey (cm_needRefreshTaskParams m)\<rparr>) w))"

end
