(* ===== verification/Hardware_Manager.thy ===== *)
theory Hardware_Manager
  imports Component_Requests
begin

text \<open>
  The life of the service: local and full initialisation, release and exit, and what it does when a
  device comes online or goes offline (\<open>distributed_hardware_manager.cpp\<close>,
  \<open>distributed_hardware_manager_factory.cpp\<close>, \<open>access_manager.cpp\<close>).

  A release after a component has timed out while stopping ends the process: \<open>None\<close>.
\<close>

section \<open>The manager\<close>

definition LocalInit :: "('s, 'j) config \<Rightarrow> 's fwk \<Rightarrow> int \<times> 's fwk" where
  "LocalInit C w =
    (if fw_isLocalInit w then (DH_FWK_SUCCESS, w)
     else
       let w1 = snd (VerInfo_Init C w);
           w2 = snd (Cap_Init C w1);
           w3 = snd (Meta_Init C w2);
           w4 = snd (Local_Init C w3);
           w5 = call_void (EC_Event ''Init'' ''ComponentLoader'') w4;
           w6 = (case e_LocalDHVersion (c_E C) of (ret, v) \<Rightarrow> snd (VersionManager_Init C ret v w5));
           w7 = call_void (EC_Event ''Init'' ''LocalHardwareManager'') w6;
           w8 = call_void (EC_Event ''Init'' ''EventHandlerFactory'') w7;
           w9 = call_void (EC_Event ''QueryDeviceDataSyncMode'' []) w8
       in (DH_FWK_SUCCESS, w9\<lparr>fw_isLocalInit := True\<rparr>))"

text \<open>\<open>ComponentManager::Init\<close> creates the event handler and starts the communication tool.\<close>

definition ComponentManager_Init :: "'s fwk \<Rightarrow> int \<times> 's fwk" where
  "ComponentManager_Init w =
    (DH_FWK_SUCCESS, call_void (EC_Event ''Init'' ''DHCommTool'') (upd_cm (\<lambda>m. m\<lparr>cm_eventHandler := True\<rparr>) w))"

definition ComponentManager_UnInit :: "'s fwk \<Rightarrow> 's fwk option" where
  "ComponentManager_UnInit w =
    (let w1 = call_void (EC_Event ''UnInit'' ''DHCommTool'') (call_void (EC_Event ''StopPrivacy'' []) w) in
     if cm_isUnInitTimeOut (fw_cm w1) then None else Some w1)"

definition Initialize :: "('s, 'j) config \<Rightarrow> 's fwk \<Rightarrow> int \<times> 's fwk" where
  "Initialize C w =
    (if fw_isAllInit w then (DH_FWK_SUCCESS, w)
     else (DH_FWK_SUCCESS, (snd (ComponentManager_Init (snd (LocalInit C w))))\<lparr>fw_isAllInit := True\<rparr>))"

definition Release :: "('s, 'j) config \<Rightarrow> 's fwk \<Rightarrow> 's fwk option" where
  "Release C w =
    (case ComponentManager_UnInit (call_void (EC_Event ''UnInit'' ''LocalHardwareManager'') w) of
       None \<Rightarrow> None
     | Some w1 \<Rightarrow>
         let w2 = VersionManager_UnInit w1;
             w3 = call_void (EC_Event ''UnInit'' ''ComponentLoader'') w2;
             w4 = snd (VerInfo_UnInit C w3);
             w5 = snd (Cap_UnInit C w4);
             w6 = snd (Meta_UnInit C w5);
             w7 = snd (Local_UnInit C w6);
             w8 = call_void (EC_Event ''UnInit'' ''EventHandlerFactory'') w7;
             w9 = call_void (EC_Event ''UnInit'' ''DHModemContextExt'') w8
         in Some (w9\<lparr>fw_isAllInit := False, fw_isLocalInit := False\<rparr>))"

definition Manager_SendOnLineEvent ::
    "('s, 'j) config \<Rightarrow> string \<Rightarrow> string \<Rightarrow> string \<Rightarrow> 's fwk \<Rightarrow> int \<times> 's fwk" where
  "Manager_SendOnLineEvent C networkId uuid udid w =
    (if \<not> IsIdLengthValid networkId \<or> \<not> IsIdLengthValid uuid \<or> \<not> IsIdLengthValid udid
     then (ERR_DH_FWK_PARA_INVALID, w)
     else (DH_FWK_SUCCESS, create_and_push C TT_ON_LINE
            (TaskParam_default\<lparr>tp_networkId := networkId, tp_uuid := uuid, tp_udid := udid, tp_dhId := [],
               tp_dhType := DHType_UNKNOWN\<rparr>) w))"

definition Manager_SendOffLineEvent ::
    "('s, 'j) config \<Rightarrow> string \<Rightarrow> string \<Rightarrow> string \<Rightarrow> 's fwk \<Rightarrow> int \<times> 's fwk" where
  "Manager_SendOffLineEvent C networkId uuid udid w =
    (if \<not> IsIdLengthValid networkId \<or> \<not> IsIdLengthValid uuid \<or> \<not> IsIdLengthValid udid
     then (ERR_DH_FWK_PARA_INVALID, w)
     else (DH_FWK_SUCCESS, call_void (EC_Event ''TOPIC_DEV_OFFLINE'' networkId)
            (create_and_push C TT_OFF_LINE
              (TaskParam_default\<lparr>tp_networkId := networkId, tp_uuid := uuid, tp_udid := udid, tp_dhId := [],
                 tp_dhType := DHType_UNKNOWN\<rparr>) w)))"

definition GetComponentVersion ::
    "('s, 'j) config \<Rightarrow> (DHType, string) omap \<Rightarrow> int \<times> (DHType, string) omap" where
  "GetComponentVersion C versionMap =
    (case e_LocalDHVersion (c_E C) of
       (ret, v) \<Rightarrow>
         if ret \<noteq> DH_FWK_SUCCESS then (ret, versionMap)
         else (DH_FWK_SUCCESS,
               fold (\<lambda>(ty, cv). om_emplace ty (cv_sinkVersion cv)) (dv_compVersions v) versionMap))"

section \<open>The factory\<close>

definition CreateSaStatusHandler :: "('s, 'j) config \<Rightarrow> 's fwk \<Rightarrow> int \<times> 's fwk" where
  "CreateSaStatusHandler C w =
    (if fw_saStatusHandler w then (DH_FWK_SUCCESS, w)
     else case call_ptr C (EC_Event ''GetEventHandler'' []) w of
       (r, handler, w1) \<Rightarrow>
         if handler = None then (ERR_DH_FWK_POINTER_IS_NULL, w1)
         else (DH_FWK_SUCCESS, w1\<lparr>fw_saStatusHandler := True\<rparr>))"

definition DestroySaStatusHandler :: "'s fwk \<Rightarrow> int \<times> 's fwk" where
  "DestroySaStatusHandler w =
    (if \<not> fw_saStatusHandler w then (ERR_DH_FWK_POINTER_IS_NULL, w)
     else (DH_FWK_SUCCESS, (call_void (EC_Event ''RemoveTask'' ''sa_status_task'') w)
                             \<lparr>fw_saStatusHandler := False\<rparr>))"

definition Factory_Init :: "('s, 'j) config \<Rightarrow> 's fwk \<Rightarrow> bool \<times> 's fwk" where
  "Factory_Init C w =
    (case Initialize C w of
       (initResult, w1) \<Rightarrow>
         if initResult \<noteq> DH_FWK_SUCCESS then (False, w1)
         else
           let w2 = w1\<lparr>fw_isInit := True, fw_releaseStatus := False\<rparr>
           in case CreateSaStatusHandler C w2 of
                (r, w3) \<Rightarrow> (True, (if r = DH_FWK_SUCCESS then DelaySaStatusTask w3 else w3)))"

text \<open>The answer of the device manager whether any device is online is a call of the environment.\<close>

definition DM_IsDeviceOnline :: "('s, 'j) config \<Rightarrow> 's fwk \<Rightarrow> bool \<times> 's fwk" where
  "DM_IsDeviceOnline C w = (case call_ret C (EC_Event ''IsDeviceOnline'' []) w of (r, w1) \<Rightarrow> (r \<noteq> 0, w1))"

definition InitLocalDevInfo :: "('s, 'j) config \<Rightarrow> 's fwk \<Rightarrow> bool \<times> 's fwk" where
  "InitLocalDevInfo C w =
    (case LocalInit C w of
       (initResult, w1) \<Rightarrow>
         if initResult \<noteq> DH_FWK_SUCCESS then (False, w1)
         else case DM_IsDeviceOnline C w1 of
           (online, w2) \<Rightarrow>
             if online then (True, w2) else (True, create_and_push C TT_EXIT_DFWK TaskParam_default w2))"

definition ExitDHFWK :: "'s fwk \<Rightarrow> 's fwk" where
  "ExitDHFWK w = call_void (EC_Event ''UnloadSystemAbility'' []) (w\<lparr>fw_isIdle := True\<rparr>)"

text \<open>
  The devices found online are sent by detached threads, in any order: they wait in \<open>fw_onlineThreads\<close>.
\<close>

definition CheckExitSAOrNot :: "('s, 'j) config \<Rightarrow> 's fwk \<Rightarrow> 's fwk" where
  "CheckExitSAOrNot C w =
    (case DM_IsDeviceOnline C w of
       (online, w1) \<Rightarrow>
         if \<not> online \<and> GetIsomerismConnectCount (fw_ctx w1) = 0 \<and> \<not> e_AnyHdfInuse (c_E C) then ExitDHFWK w1
         else
           let w2 = snd (Factory_Init C w1);
               deviceList = e_TrustedDevices (c_E C)
           in if length deviceList > MAX_ONLINE_DEVICE_SIZE then w2
              else w2\<lparr>fw_onlineThreads := fw_onlineThreads w2 @
                map (\<lambda>d. (tr_networkId d, GetUUIDByDm (c_P C) (tr_networkId d), GetUDIDByDm (c_P C) (tr_networkId d),
                          tr_deviceTypeId d, tr_osType d)) deviceList\<rparr>)"

definition Factory_UnInit :: "('s, 'j) config \<Rightarrow> 's fwk \<Rightarrow> 's fwk option" where
  "Factory_UnInit C w =
    (if fw_releaseStatus w then Some w
     else case Release C (w\<lparr>fw_releaseStatus := True\<rparr>) of
       None \<Rightarrow> None
     | Some w1 \<Rightarrow> Some (CheckExitSAOrNot C (w1\<lparr>fw_isInit := False, fw_unInitFlag := False\<rparr>)))"

definition SendOnLineEvent ::
    "('s, 'j) config \<Rightarrow> string \<Rightarrow> string \<Rightarrow> string \<Rightarrow> 16 word \<Rightarrow> int \<Rightarrow> 's fwk \<Rightarrow> int \<times> 's fwk" where
  "SendOnLineEvent C networkId uuid udid deviceType osType w =
    (if \<not> IsIdLengthValid networkId \<or> \<not> IsIdLengthValid uuid \<or> \<not> IsIdLengthValid udid
     then (ERR_DH_FWK_PARA_INVALID, w)
     else if fw_unInitFlag w then (ERR_DH_FWK_HARDWARE_MANAGER_INIT_FAILED, w)
     else if IsDeviceOnline uuid (fw_ctx w) then (ERR_DH_FWK_HARDWARE_MANAGER_DEVICE_REPEAT_ONLINE, w)
     else
       let c1 = AddOnlineDevice (c_P C) udid uuid networkId (fw_ctx w);
           c2 = AddRealTimeOnlineDeviceNetworkId networkId c1;
           c3 = AddOnlineDeviceType networkId deviceType c2;
           w1 = w\<lparr>fw_ctx := AddOnlineDeviceOSType networkId osType c3\<rparr>
       in case (if fw_isInit w1 then (True, w1) else Factory_Init C w1) of
            (inited, w2) \<Rightarrow>
              if \<not> inited then (ERR_DH_FWK_HARDWARE_MANAGER_INIT_FAILED, w2)
              else
                let w3 = (if \<not> IsSourceEnabled w2 \<and> \<not> IsSinkActiveEnabled w2 \<and> \<not> e_AnyHdfInuse (c_E C)
                          then DelaySaStatusTask (call_void (EC_Event ''SetCritical'' ''true'') w2) else w2);
                    w4 = (if osType = -1 \<or> osType = 11
                          then snd (ClearRemoteDeviceLocalInfoData C uuid
                                 (snd (ClearRemoteDeviceMetaInfoData C udid uuid w3)))
                          else w3)
                in case Manager_SendOnLineEvent C networkId uuid udid w4 of
                     (onlineResult, w5) \<Rightarrow>
                       if onlineResult \<noteq> DH_FWK_SUCCESS then (onlineResult, w5) else (DH_FWK_SUCCESS, w5))"

definition SendOffLineEvent ::
    "('s, 'j) config \<Rightarrow> string \<Rightarrow> string \<Rightarrow> string \<Rightarrow> 's fwk \<Rightarrow> int \<times> 's fwk" where
  "SendOffLineEvent C networkId uuid udid w =
    (if \<not> IsIdLengthValid networkId \<or> \<not> IsIdLengthValid uuid \<or> \<not> IsIdLengthValid udid
     then (ERR_DH_FWK_PARA_INVALID, w)
     else case (if fw_isInit w then (True, w) else Factory_Init C w) of
       (inited, w1) \<Rightarrow>
         if \<not> inited then (ERR_DH_FWK_HARDWARE_MANAGER_INIT_FAILED, w1)
         else if \<not> IsDeviceOnline uuid (fw_ctx w1) then (ERR_DH_FWK_HARDWARE_MANAGER_DEVICE_REPEAT_OFFLINE, w1)
         else
           let w2 = w1\<lparr>fw_ctx := DeleteRealTimeOnlineDeviceNetworkId networkId (fw_ctx w1)\<rparr>;
               w3 = (if GetRealTimeOnlineDeviceCount (fw_ctx w2) = 0 \<and> GetIsomerismConnectCount (fw_ctx w2) = 0
                     then w2\<lparr>fw_unInitFlag := True\<rparr> else w2)
           in (DH_FWK_SUCCESS, snd (Manager_SendOffLineEvent C networkId uuid udid w3)))"

definition ActiveSyncDataByNetworkId :: "('s, 'j) config \<Rightarrow> string \<Rightarrow> 's fwk \<Rightarrow> 's fwk" where
  "ActiveSyncDataByNetworkId C networkId w = snd (Meta_SyncDataByNetworkId C networkId w)"

section \<open>The access manager\<close>

definition OnDeviceOnline :: "('s, 'j) config \<Rightarrow> DmDeviceInfo \<Rightarrow> 's fwk \<Rightarrow> 's fwk" where
  "OnDeviceOnline C d w =
    (let networkId = tr_networkId d;
         uuid = GetUUIDByDm (c_P C) networkId;
         udid = GetUDIDByDm (c_P C) networkId
     in if \<not> IsIdLengthValid networkId then w
        else if \<not> IsIdLengthValid uuid then w
        else if \<not> IsIdLengthValid udid then w
        else snd (SendOnLineEvent C networkId uuid udid (tr_deviceTypeId d) (tr_osType d) w))"

definition OnDeviceOffline :: "('s, 'j) config \<Rightarrow> DmDeviceInfo \<Rightarrow> 's fwk \<Rightarrow> 's fwk" where
  "OnDeviceOffline C d w =
    (let networkId = tr_networkId d;
         uuid = GetUUIDByNetworkId networkId (fw_ctx w);
         udid = GetUDIDByNetworkId networkId (fw_ctx w)
     in if \<not> IsIdLengthValid networkId then w
        else if \<not> IsIdLengthValid uuid then w
        else if \<not> IsIdLengthValid udid then w
        else snd (SendOffLineEvent C networkId uuid udid w))"

text \<open>\<open>e2e\<close> is the data synchronisation mode of this device.\<close>

definition OnDeviceReady :: "('s, 'j) config \<Rightarrow> bool \<Rightarrow> DmDeviceInfo \<Rightarrow> 's fwk \<Rightarrow> 's fwk" where
  "OnDeviceReady C e2e d w =
    (if \<not> IsIdLengthValid (tr_networkId d) then w
     else if \<not> e2e then w
     else if tr_osType d \<noteq> -1 \<and> tr_osType d \<noteq> 11 then ActiveSyncDataByNetworkId C (tr_networkId d) w
     else w)"

definition CheckTrustedDeviceOnline :: "('s, 'j) config \<Rightarrow> 's fwk \<Rightarrow> 's fwk" where
  "CheckTrustedDeviceOnline C w =
    (let deviceList = e_TrustedDevices (c_E C) in
     if length deviceList = 0 \<or> length deviceList > MAX_ONLINE_DEVICE_SIZE then w
     else fold (\<lambda>d w. snd (SendOnLineEvent C (tr_networkId d) (GetUUIDByDm (c_P C) (tr_networkId d))
                             (GetUDIDByDm (c_P C) (tr_networkId d)) (tr_deviceTypeId d) (tr_osType d) w))
            deviceList w)"

end
