(* ===== verification/Tasks.thy ===== *)
theory Tasks
  imports Hardware_Manager
begin

text \<open>
  What the tasks do when they run (\<open>task/*_task.cpp\<close>).  A task runs to its end in one step, except the
  offline task: it waits until its disable tasks have finished, so its run is a list of steps left, and
  it stops in front of the wait until the wait is over.
\<close>

section \<open>Enable tasks\<close>

definition task_descriptor :: "Task \<Rightarrow> DHDescriptor" where
  "task_descriptor t = \<lparr>dd_id = tp_dhId (t_param t), dd_dhType = tp_dhType (t_param t), dd_customParams = [],
     dd_firstCallingTokenId = 0\<rparr>"

definition EnableTask_DoAutoEnable :: "('s, 'j) config \<Rightarrow> Task \<Rightarrow> 's fwk \<Rightarrow> int \<times> 's fwk" where
  "EnableTask_DoAutoEnable C t w =
    (let p = t_param t in
     if GetLocalUdid (c_P C) = tp_udid p then
       (case CheckSinkConfigStart C (tp_dhType p) False of
          (ret, enableSink) \<Rightarrow>
            if ret \<noteq> DH_FWK_SUCCESS then (ret, w)
            else if \<not> enableSink then (ERR_DH_FWK_COMPONENT_NO_NEED_ENABLE, w)
            else EnableSink C (task_descriptor t) (tp_callingUid p) (tp_callingPid p) w)
     else
       (case CheckDemandStart C (tp_udid p) (tp_uuid p) (tp_dhType p) w of
          (ret, enableSource) \<Rightarrow>
            if ret \<noteq> DH_FWK_SUCCESS then (ret, w)
            else if \<not> enableSource then (ERR_DH_FWK_COMPONENT_NO_NEED_ENABLE, w)
            else EnableSource C (tp_networkId p)
                   ((task_descriptor t)\<lparr>dd_customParams := tp_customParams p\<rparr>)
                   (tp_callingUid p) (tp_callingPid p) w))"

definition AppendTokenIdToParams :: "'j cJSON \<Rightarrow> 32 word \<Rightarrow> string \<Rightarrow> string" where
  "AppendTokenIdToParams J firstCallingTokenId params =
    (case cJSON_Parse J (if params = [] then ''{}'' else c_str params) of
       None \<Rightarrow> params
     | Some json \<Rightarrow>
        (case cJSON_PrintUnformatted J
                (cJSON_AddNumberToObject J json ''tokenId'' (real_of_word firstCallingTokenId)) of
           None \<Rightarrow> params
         | Some s \<Rightarrow> s))"

definition EnableTask_DoActiveEnable :: "('s, 'j) config \<Rightarrow> Task \<Rightarrow> 's fwk \<Rightarrow> int \<times> 's fwk" where
  "EnableTask_DoActiveEnable C t w =
    (let p = t_param t;
         cp = (if tp_firstCallingTokenId p \<noteq> 0
               then AppendTokenIdToParams (c_J C) (tp_firstCallingTokenId p) (tp_customParams p)
               else tp_customParams p);
         d = (task_descriptor t)\<lparr>dd_customParams := cp\<rparr>
     in case (if tp_effectSink p then EnableSink C d (tp_callingUid p) (tp_callingPid p) w
              else (DH_FWK_SUCCESS, w)) of
          (ret, w1) \<Rightarrow>
            if \<not> tp_effectSource p then (ret, w1)
            else EnableSource C (tp_networkId p) d (tp_callingUid p) (tp_callingPid p) w1)"

definition RegisterHardware :: "('s, 'j) config \<Rightarrow> Task \<Rightarrow> 's fwk \<Rightarrow> int \<times> 's fwk" where
  "RegisterHardware C t w =
    (if tp_callingUid (t_param t) \<noteq> 0 \<or> tp_callingPid (t_param t) \<noteq> 0
     then EnableTask_DoActiveEnable C t w else EnableTask_DoAutoEnable C t w)"

definition enabledDeviceKey :: "('s, 'j) config \<Rightarrow> Task \<Rightarrow> string" where
  "enabledDeviceKey C t =
    GetCapabilityKey (GetDeviceIdByUUID (pf_digest (c_P C)) (tp_uuid (t_param t))) (tp_dhId (t_param t))"

definition task_state_of :: "int \<Rightarrow> TaskState" where
  "task_state_of result = (if result = DH_FWK_SUCCESS then TS_SUCCESS else TS_FAIL)"

definition upd_board :: "(TaskBoard \<Rightarrow> TaskBoard) \<Rightarrow> 's fwk \<Rightarrow> 's fwk" where
  "upd_board f w = w\<lparr>fw_board := f (fw_board w)\<rparr>"

definition EnableTask_DoTaskInner :: "('s, 'j) config \<Rightarrow> nat \<Rightarrow> 's fwk \<Rightarrow> 's fwk" where
  "EnableTask_DoTaskInner C p w =
    (let t = GetTask p w in
     case RegisterHardware C t (SetTaskState p TS_RUNNING w) of
       (result, w1) \<Rightarrow>
         let w2 = SetTaskState p (task_state_of result) w1;
             tp = TaskParam_default\<lparr>tp_networkId := tp_networkId (t_param t), tp_uuid := tp_uuid (t_param t),
                    tp_udid := tp_udid (t_param t), tp_dhId := tp_dhId (t_param t), tp_dhType := tp_dhType (t_param t)\<rparr>;
             w3 = (if result = DH_FWK_SUCCESS
                   then upd_board (SaveEnabledDevice (enabledDeviceKey C t) tp) w2 else w2)
         in RemoveTask (t_id t) w3)"

section \<open>Disable tasks\<close>

definition DisableTask_DoAutoDisable :: "('s, 'j) config \<Rightarrow> Task \<Rightarrow> 's fwk \<Rightarrow> int \<times> 's fwk" where
  "DisableTask_DoAutoDisable C t w =
    (let p = t_param t in
     if GetLocalUdid (c_P C) = tp_udid p then
       (if GetRealTimeOnlineDeviceCount (fw_ctx w) = 0 \<and> GetIsomerismConnectCount (fw_ctx w) = 0
        then ForceDisableSink C (task_descriptor t) w else (DH_FWK_SUCCESS, w))
     else ForceDisableSource C (tp_networkId p) (task_descriptor t) w)"

definition DisableTask_DoActiveDisable :: "('s, 'j) config \<Rightarrow> Task \<Rightarrow> 's fwk \<Rightarrow> int \<times> 's fwk" where
  "DisableTask_DoActiveDisable C t w =
    (let p = t_param t in
     case (if tp_effectSink p then DisableSink C (task_descriptor t) (tp_callingUid p) (tp_callingPid p) w
           else (DH_FWK_SUCCESS, w)) of
       (ret, w1) \<Rightarrow>
         if tp_effectSource p
         then DisableSource C (tp_networkId p) (task_descriptor t) (tp_callingUid p) (tp_callingPid p) w1
         else (ret, w1))"

definition UnRegisterHardware :: "('s, 'j) config \<Rightarrow> Task \<Rightarrow> 's fwk \<Rightarrow> int \<times> 's fwk" where
  "UnRegisterHardware C t w =
    (if tp_callingUid (t_param t) \<noteq> 0 \<or> tp_callingPid (t_param t) \<noteq> 0
     then DisableTask_DoActiveDisable C t w else DisableTask_DoAutoDisable C t w)"

definition NotifyFatherFinish :: "nat \<Rightarrow> string \<Rightarrow> 's fwk \<Rightarrow> 's fwk" where
  "NotifyFatherFinish father taskId w =
    upd_task father (\<lambda>t. t\<lparr>t_unFinishChildrenTasks := os_del taskId (t_unFinishChildrenTasks t)\<rparr>) w"

definition finish_child :: "Task \<Rightarrow> 's fwk \<Rightarrow> 's fwk" where
  "finish_child t w =
    (let w1 = RemoveTask (t_id t) w in
     case t_fatherTask t of None \<Rightarrow> w1 | Some f \<Rightarrow> NotifyFatherFinish f (t_id t) w1)"

definition DisableTask_DoTaskInner :: "('s, 'j) config \<Rightarrow> nat \<Rightarrow> 's fwk \<Rightarrow> 's fwk" where
  "DisableTask_DoTaskInner C p w =
    (let t = GetTask p w in
     case UnRegisterHardware C t (SetTaskState p TS_RUNNING w) of
       (result, w1) \<Rightarrow>
         let w2 = (if result = DH_FWK_SUCCESS
                   then upd_board (RemoveEnabledDevice (enabledDeviceKey C t)) w1 else w1)
         in finish_child t (SetTaskState p (task_state_of result) w2))"

section \<open>Modem tasks\<close>

text \<open>The modem extension is found or not: a pointer of the environment.\<close>

definition MetaEnableTask_Enable :: "('s, 'j) config \<Rightarrow> Task \<Rightarrow> 's fwk \<Rightarrow> int \<times> 's fwk" where
  "MetaEnableTask_Enable C t w =
    (let w0 = snd (call_ret C (EC_Event ''GetHandler'' ''modem_ext'') w) in
     case call_ptr C (EC_Loader GetSource DHType_MODEM) w0 of
       (ret, sourcePtr, w1) \<Rightarrow>
         if ret \<noteq> DH_FWK_SUCCESS then (ret, w1)
         else if sourcePtr = None then (ERR_DH_FWK_POINTER_IS_NULL, w1)
         else case call_ptr C (EC_Event ''GetModemExtInstance'' []) w1 of
           (r, ext, w2) \<Rightarrow>
             if ext = None then (ERR_DH_FWK_POINTER_IS_NULL, w2)
             else EnableMetaSource C (tp_networkId (t_param t)) (task_descriptor t) w2)"

definition MetaEnableTask_DoTaskInner :: "('s, 'j) config \<Rightarrow> nat \<Rightarrow> 's fwk \<Rightarrow> 's fwk" where
  "MetaEnableTask_DoTaskInner C p w =
    (let t = GetTask p w in
     case MetaEnableTask_Enable C t (SetTaskState p TS_RUNNING w) of
       (result, w1) \<Rightarrow> RemoveTask (t_id t) (SetTaskState p (task_state_of result) w1))"

definition MetaDisableTask_Disable :: "('s, 'j) config \<Rightarrow> Task \<Rightarrow> 's fwk \<Rightarrow> int \<times> 's fwk" where
  "MetaDisableTask_Disable C t w =
    (case call_ptr C (EC_Loader GetSource DHType_MODEM) w of
       (ret, sourcePtr, w1) \<Rightarrow>
         if ret \<noteq> DH_FWK_SUCCESS then (ret, w1)
         else if sourcePtr = None then (ERR_DH_FWK_POINTER_IS_NULL, w1)
         else case call_ptr C (EC_Event ''GetModemExtInstance'' []) w1 of
           (r, ext, w2) \<Rightarrow>
             if ext = None then (ERR_DH_FWK_POINTER_IS_NULL, w2)
             else DisableMetaSource C (tp_networkId (t_param t)) (task_descriptor t) w2)"

definition MetaDisableTask_DoTaskInner :: "('s, 'j) config \<Rightarrow> nat \<Rightarrow> 's fwk \<Rightarrow> 's fwk" where
  "MetaDisableTask_DoTaskInner C p w =
    (let t = GetTask p w in
     case MetaDisableTask_Disable C t (SetTaskState p TS_RUNNING w) of
       (result, w1) \<Rightarrow>
         let w2 = SetTaskState p (task_state_of result) w1;
             w3 = w2\<lparr>fw_ctx := DeleteOnlineDeviceOSType (tp_networkId (t_param t))
                        (DeleteOnlineDeviceType (tp_networkId (t_param t)) (fw_ctx w2))\<rparr>
         in finish_child t w3)"

definition ExitDfwkTask_DoTaskInner :: "('s, 'j) config \<Rightarrow> 's fwk \<Rightarrow> 's fwk" where
  "ExitDfwkTask_DoTaskInner C w = CheckExitSAOrNot C w"

section \<open>The online task\<close>

definition cap_pairs :: "'a CapabilityInfo_scheme list \<Rightarrow> (string \<times> DHType) list" where
  "cap_pairs caps = map (\<lambda>c. (ci_dhId c, ci_dhType c)) caps"

text \<open>The hardware of a device: its capabilities, else its local ones, else its meta information.\<close>

definition device_hardware :: "string \<Rightarrow> string \<Rightarrow> 's fwk \<Rightarrow> (string \<times> DHType) list" where
  "device_hardware devId udidHash w =
    (let a = cap_pairs (Cap_GetCapabilitiesByDeviceId devId (fw_cap w));
         b = (if a = [] then cap_pairs (Local_GetCapabilitiesByDeviceId devId (fw_local w)) else a)
     in if b = [] then cap_pairs (GetMetaCapInfosByUdidHash udidHash (fw_meta w)) else b)"

definition create_child :: "('s, 'j) config \<Rightarrow> TaskType \<Rightarrow> nat \<Rightarrow> TaskParam \<Rightarrow> 's fwk \<Rightarrow> 's fwk" where
  "create_child C ty father tp w = (let (t, w1) = CreateTask C ty tp (Some father) w in PushTask t w1)"

definition OnLineTask_DoSyncInfo :: "('s, 'j) config \<Rightarrow> nat \<Rightarrow> 's fwk \<Rightarrow> 's fwk" where
  "OnLineTask_DoSyncInfo C p w =
    (let t = t_param (GetTask p w);
         devId = GetDeviceIdByUUID (pf_digest (c_P C)) (tp_uuid t);
         w1 = snd (Local_SyncDeviceInfoFromDB C devId w)
     in snd (SyncMetaInfoFromDB C (sha (c_P C) (tp_udid t)) w1))"

definition OnLineTask_CreateEnableTask :: "('s, 'j) config \<Rightarrow> nat \<Rightarrow> 's fwk \<Rightarrow> 's fwk" where
  "OnLineTask_CreateEnableTask C p w =
    (let t = t_param (GetTask p w);
         devDhInfos = device_hardware (GetDeviceIdByUUID (pf_digest (c_P C)) (tp_uuid t))
                        (sha (c_P C) (tp_udid t)) w
     in fold (\<lambda>(i, ty). create_child C TT_ENABLE p
               (TaskParam_default\<lparr>tp_networkId := tp_networkId t, tp_uuid := tp_uuid t, tp_udid := tp_udid t,
                  tp_dhId := i, tp_dhType := ty\<rparr>))
          devDhInfos w)"

definition local_param :: "DeviceInfo \<Rightarrow> string \<times> DHType \<Rightarrow> TaskParam" where
  "local_param d x = TaskParam_default\<lparr>tp_networkId := di_networkId d, tp_uuid := di_uuid d, tp_udid := di_udid d,
     tp_dhId := fst x, tp_dhType := snd x\<rparr>"

definition OnLineTask_CreateEnableSinkTask :: "('s, 'j) config \<Rightarrow> nat \<Rightarrow> 's fwk \<Rightarrow> 's fwk" where
  "OnLineTask_CreateEnableSinkTask C p w =
    (let d = GetLocalDeviceInfo (c_P C);
         localMetaInfos = cap_pairs (GetMetaCapInfosByUdidHash (di_udidHash d) (fw_meta w))
     in fold (\<lambda>x. create_child C TT_ENABLE p (local_param d x)) localMetaInfos w)"

definition PHONE_TYPE :: "16 word" where [simp]: "PHONE_TYPE = 14"

definition OnLineTask_CreateMetaEnableTask :: "('s, 'j) config \<Rightarrow> nat \<Rightarrow> 's fwk \<Rightarrow> 's fwk" where
  "OnLineTask_CreateMetaEnableTask C p w =
    (let t = t_param (GetTask p w) in
     case IsDoubleFwkDevice (tp_networkId t) (fw_ctx w) of
       (double, ctx) \<Rightarrow>
         let w1 = w\<lparr>fw_ctx := ctx\<rparr> in
         if \<not> double then w1
         else if GetDeviceTypeByNetworkId (c_P C) (tp_networkId t) ctx \<noteq> PHONE_TYPE then w1
         else create_child C TT_META_ENABLE p
                (TaskParam_default\<lparr>tp_networkId := tp_networkId t, tp_uuid := tp_uuid t, tp_udid := tp_udid t,
                   tp_dhId := ''Modem_1234'', tp_dhType := DHType_MODEM\<rparr>) w1)"

fun OnLineTask_step :: "('s, 'j) config \<Rightarrow> nat \<Rightarrow> TaskStep \<Rightarrow> 's fwk \<Rightarrow> 's fwk" where
  "OnLineTask_step C p SYNC_ONLINE_INFO w = OnLineTask_DoSyncInfo C p w"
| "OnLineTask_step C p REGISTER_ONLINE_DISTRIBUTED_HARDWARE w = OnLineTask_CreateEnableTask C p w"
| "OnLineTask_step C p ENABLE_SINK w = OnLineTask_CreateEnableSinkTask C p w"
| "OnLineTask_step C p META_ENABLE_TASK w = OnLineTask_CreateMetaEnableTask C p w"
| "OnLineTask_step C p _ w = w"

definition OnLineTask_DoTask :: "('s, 'j) config \<Rightarrow> nat \<Rightarrow> 's fwk \<Rightarrow> 's fwk" where
  "OnLineTask_DoTask C p w =
    (let w1 = fold (OnLineTask_step C p) (t_taskSteps (GetTask p w)) (SetTaskState p TS_RUNNING w)
     in RemoveTask (t_id (GetTask p w)) (SetTaskState p TS_SUCCESS w1))"

section \<open>The offline task\<close>

definition OffLineTask_CreateDisableTask :: "('s, 'j) config \<Rightarrow> nat \<Rightarrow> 's fwk \<Rightarrow> 's fwk" where
  "OffLineTask_CreateDisableTask C p w =
    (let t = t_param (GetTask p w);
         devDhInfos = device_hardware (GetDeviceIdByUUID (pf_digest (c_P C)) (tp_uuid t))
                        (GetUdidHashIdByUUID (tp_uuid t) (fw_ctx w)) w
     in fold (\<lambda>(i, ty). create_child C TT_DISABLE p
               (TaskParam_default\<lparr>tp_networkId := tp_networkId t, tp_uuid := tp_uuid t,
                  tp_dhId := i, tp_dhType := ty\<rparr>))
          devDhInfos w)"

definition OffLineTask_CreateDisableSinkTask :: "('s, 'j) config \<Rightarrow> nat \<Rightarrow> 's fwk \<Rightarrow> 's fwk" where
  "OffLineTask_CreateDisableSinkTask C p w =
    (let d = GetLocalDeviceInfo (c_P C);
         localMetaInfos = cap_pairs (GetMetaCapInfosByUdidHash (di_udidHash d) (fw_meta w))
     in fold (\<lambda>x. create_child C TT_DISABLE p (local_param d x))
          (filter (\<lambda>x. snd x \<noteq> DHType_MODEM) localMetaInfos) w)"

definition OffLineTask_CreateMetaDisableTask :: "('s, 'j) config \<Rightarrow> nat \<Rightarrow> 's fwk \<Rightarrow> 's fwk" where
  "OffLineTask_CreateMetaDisableTask C p w =
    (let t = t_param (GetTask p w) in
     case IsDoubleFwkDevice (tp_networkId t) (fw_ctx w) of
       (double, ctx) \<Rightarrow>
         let w1 = w\<lparr>fw_ctx := ctx\<rparr> in
         if \<not> double then w1
         else if GetDeviceTypeByNetworkId (c_P C) (tp_networkId t) ctx \<noteq> PHONE_TYPE then w1
         else create_child C TT_META_DISABLE p
                (TaskParam_default\<lparr>tp_networkId := tp_networkId t, tp_uuid := tp_uuid t,
                   tp_dhId := ''Modem_1234'', tp_dhType := DHType_MODEM\<rparr>) w1)"

definition waiting :: "nat \<Rightarrow> 's fwk \<Rightarrow> bool" where
  "waiting p w = (t_unFinishChildrenTasks (GetTask p w) \<noteq> [])"

text \<open>What follows the wait: the device leaves the online set.\<close>

definition OffLineTask_WaitDisableTaskFinish :: "nat \<Rightarrow> 's fwk \<Rightarrow> 's fwk" where
  "OffLineTask_WaitDisableTaskFinish p w =
    w\<lparr>fw_ctx := RemoveOnlineDeviceIdEntryByNetworkId (tp_networkId (t_param (GetTask p w))) (fw_ctx w)\<rparr>"

definition OffLineTask_ClearOffLineInfo :: "('s, 'j) config \<Rightarrow> nat \<Rightarrow> 's fwk \<Rightarrow> 's fwk" where
  "OffLineTask_ClearOffLineInfo C p w =
    snd (Cap_RemoveCapabilityInfoInMem
      (GetDeviceIdByUUID (pf_digest (c_P C)) (tp_uuid (t_param (GetTask p w)))) w)"

fun OffLineTask_step :: "('s, 'j) config \<Rightarrow> nat \<Rightarrow> TaskStep \<Rightarrow> 's fwk \<Rightarrow> 's fwk" where
  "OffLineTask_step C p UNREGISTER_OFFLINE_DISTRIBUTED_HARDWARE w = OffLineTask_CreateDisableTask C p w"
| "OffLineTask_step C p DISABLE_SINK w = OffLineTask_CreateDisableSinkTask C p w"
| "OffLineTask_step C p WAIT_UNREGISTGER_COMPLETE w = OffLineTask_WaitDisableTaskFinish p w"
| "OffLineTask_step C p CLEAR_OFFLINE_INFO w = OffLineTask_ClearOffLineInfo C p w"
| "OffLineTask_step C p META_DISABLE_TASK w = OffLineTask_CreateMetaDisableTask C p w"
| "OffLineTask_step C p _ w = w"

text \<open>The loop over the steps, with the steps that are left when it has to wait.\<close>

fun OffLineTask_run :: "('s, 'j) config \<Rightarrow> nat \<Rightarrow> TaskStep list \<Rightarrow> 's fwk \<Rightarrow> TaskStep list \<times> 's fwk" where
  "OffLineTask_run C p [] w = ([], w)"
| "OffLineTask_run C p (s # steps) w =
    (if s = WAIT_UNREGISTGER_COMPLETE \<and> waiting p w then (s # steps, w)
     else OffLineTask_run C p steps (OffLineTask_step C p s w))"

definition OffLineTask_begin :: "('s, 'j) config \<Rightarrow> nat \<Rightarrow> 's fwk \<Rightarrow> TaskStep list \<times> 's fwk" where
  "OffLineTask_begin C p w =
    OffLineTask_run C p (t_taskSteps (GetTask p w)) (SetTaskState p TS_RUNNING w)"

text \<open>
  After the loop.  The wait for the other disable tasks, of at most three seconds, changes nothing, and
  the release follows it in either case.
\<close>

definition OffLineTask_end :: "('s, 'j) config \<Rightarrow> nat \<Rightarrow> 's fwk \<Rightarrow> 's fwk option" where
  "OffLineTask_end C p w =
    (let w1 = RemoveTask (t_id (GetTask p w)) (SetTaskState p TS_SUCCESS w) in
     if GetRealTimeOnlineDeviceCount (fw_ctx w1) = 0 \<and> GetIsomerismConnectCount (fw_ctx w1) = 0
     then Factory_UnInit C w1 else Some w1)"

end
