(* ===== verification/Frames.thy ===== *)
theory Frames
  imports Enable_Param
begin

text \<open>
  What the operations of the resource layer and of the component handlers leave alone: the reference
  counts, the tasks, the board, the queue and the context of devices (up to the cached description of
  the local device).  One equation per operation, used by every invariant above them.
\<close>

named_theorems core_rules \<open>operations that leave the core state unchanged\<close>

definition core ::
    "'s fwk \<Rightarrow> ((DHType, DHSinkStatus) omap \<times> (DHType, DHSourceStatus) omap) \<times>
              (Task list \<times> TaskBoard \<times> nat list) \<times> DHContext" where
  "core w = ((cm_dhSinkStatus (fw_cm w), cm_dhSourceStatus (fw_cm w)),
     (fw_tasks w, fw_board w, fw_taskQueue w), (fw_ctx w)\<lparr>ctx_devInfo := empty_DeviceInfo\<rparr>)"

lemma GetDeviceInfo_core [core_rules]:
  "GetDeviceInfo P c = (info, c') \<Longrightarrow> c'\<lparr>ctx_devInfo := empty_DeviceInfo\<rparr> = c\<lparr>ctx_devInfo := empty_DeviceInfo\<rparr>"
  by (auto simp: GetDeviceInfo_def Let_def split: if_splits)

lemma core_updates [simp]:
  "core (w\<lparr>fw_kv := a1\<rparr>) = core w" "core (w\<lparr>fw_trace := a2\<rparr>) = core w"
  "core (w\<lparr>fw_dhVersions := a3\<rparr>) = core w" "core (w\<lparr>fw_verinfo := a4\<rparr>) = core w"
  "core (w\<lparr>fw_cap := a5\<rparr>) = core w" "core (w\<lparr>fw_local := a6\<rparr>) = core w"
  "core (w\<lparr>fw_meta := a7\<rparr>) = core w" "core (w\<lparr>fw_enabledComps := a8\<rparr>) = core w"
  "core (w\<lparr>fw_unInitFlag := b\<rparr>) = core w" "core (w\<lparr>fw_isInit := b\<rparr>) = core w"
  "core (w\<lparr>fw_releaseStatus := b\<rparr>) = core w" "core (w\<lparr>fw_isAllInit := b\<rparr>) = core w"
  "core (w\<lparr>fw_isLocalInit := b\<rparr>) = core w" "core (w\<lparr>fw_saStatusHandler := b\<rparr>) = core w"
  "core (w\<lparr>fw_isIdle := b\<rparr>) = core w" "core (w\<lparr>fw_onlineThreads := l\<rparr>) = core w"
  by (simp_all add: core_def)

lemma core_upd_cm:
  "cm_dhSinkStatus (f (fw_cm w)) = cm_dhSinkStatus (fw_cm w) \<Longrightarrow>
   cm_dhSourceStatus (f (fw_cm w)) = cm_dhSourceStatus (fw_cm w) \<Longrightarrow> core (upd_cm f w) = core w"
  by (simp add: core_def upd_cm_def)

lemma core_devInfo [core_rules]:
  "GetDeviceInfo P (fw_ctx w) = (info, c') \<Longrightarrow> core (w\<lparr>fw_ctx := c'\<rparr>) = core w"
  by (drule GetDeviceInfo_core) (simp add: core_def)

lemma core_calls [simp]:
  "core (call_void e w) = core w" "core (snd (call_ret C e w)) = core w"
  by (simp_all add: calls)

lemma core_calls_eq [core_rules]:
  "call_ret C e w = (r, w1) \<Longrightarrow> core w1 = core w"
  "call_ptr C e w = (r, p, w1) \<Longrightarrow> core w1 = core w"
  "call_fut C e w = (fu, w1) \<Longrightarrow> core w1 = core w"
  "call_cb C e w = (r, cbs, w1) \<Longrightarrow> core w1 = core w"
  by (auto simp: calls)

lemma core_upd_mgr [simp]:
  "core (upd_cap f w) = core w" "core (upd_local f w) = core w" "core (upd_meta g w) = core w"
  by (simp_all add: upd_cap_def upd_local_def upd_meta_def)

lemma core_upd_cm_fields [simp]:
  "core (upd_cm (\<lambda>m. m\<lparr>cm_compSource := f1 m\<rparr>) w) = core w"
  "core (upd_cm (\<lambda>m. m\<lparr>cm_compSink := f2 m\<rparr>) w) = core w"
  "core (upd_cm (\<lambda>m. m\<lparr>cm_compSrcSaId := f3 m\<rparr>) w) = core w"
  "core (upd_cm (\<lambda>m. m\<lparr>cm_compSinkSaId := f4 m\<rparr>) w) = core w"
  "core (upd_cm (\<lambda>m. m\<lparr>cm_compSink := f2 m, cm_compSinkSaId := f4 m\<rparr>) w) = core w"
  "core (upd_cm (\<lambda>m. m\<lparr>cm_audioCompPrivacy := b\<rparr>) w) = core w"
  "core (upd_cm (\<lambda>m. m\<lparr>cm_cameraCompPrivacy := b\<rparr>) w) = core w"
  "core (upd_cm (\<lambda>m. m\<lparr>cm_compMonitor := f5 m\<rparr>) w) = core w"
  "core (upd_cm (\<lambda>m. m\<lparr>cm_isUnInitTimeOut := b\<rparr>) w) = core w"
  "core (upd_cm (\<lambda>m. m\<lparr>cm_eventHandler := b\<rparr>) w) = core w"
  "core (upd_cm (\<lambda>m. m\<lparr>cm_dhBizStates := f6 m\<rparr>) w) = core w"
  "core (upd_cm (\<lambda>m. m\<lparr>cm_needRefreshTaskParams := f7 m\<rparr>) w) = core w"
  "core (upd_cm (\<lambda>m. m\<lparr>cm_syncDeviceInfoMap := f8 m\<rparr>) w) = core w"
  "core (upd_cm (\<lambda>m. m\<lparr>cm_accessListenerMap := f9 m\<rparr>) w) = core w"
  by (simp_all add: core_upd_cm)

section \<open>The database adapter\<close>

lemma GetKvStorePtr_core [core_rules]: "GetKvStorePtr C a t d w = (r, x, w1) \<Longrightarrow> core w1 = core w"
  by (auto simp: GetKvStorePtr_def Let_def split: prod.splits if_splits option.splits dest!: core_rules)

lemma GetLocalKvStorePtr_core [core_rules]: "GetLocalKvStorePtr C d w = (r, x, w1) \<Longrightarrow> core w1 = core w"
  by (auto simp: GetLocalKvStorePtr_def Let_def split: prod.splits if_splits option.splits dest!: core_rules)

lemma RegisterChangeListener_core [core_rules]: "RegisterChangeListener C d w = (r, w1) \<Longrightarrow> core w1 = core w"
  by (auto simp: RegisterChangeListener_def Let_def split: prod.splits if_splits option.splits dest!: core_rules)

lemma UnRegisterChangeListener_core [core_rules]: "UnRegisterChangeListener C d w = (r, w1) \<Longrightarrow> core w1 = core w"
  by (auto simp: UnRegisterChangeListener_def Let_def split: prod.splits if_splits option.splits dest!: core_rules)

lemma core_listener_snd [simp]:
  "core (snd (RegisterChangeListener C d w)) = core w"
  "core (snd (UnRegisterChangeListener C d w)) = core w"
  by (metis RegisterChangeListener_core prod.collapse, metis UnRegisterChangeListener_core prod.collapse)

lemma DB_Init_loop_core: "DB_Init_loop C n d w = (r, x, w1) \<Longrightarrow> core w1 = core w"
  by (induction C n d w rule: DB_Init_loop.induct)
    (auto simp: Let_def split: prod.splits if_splits dest!: core_rules)

lemma DB_InitLocal_loop_core: "DB_InitLocal_loop C n d w = (r, x, w1) \<Longrightarrow> core w1 = core w"
  by (induction C n d w rule: DB_InitLocal_loop.induct)
    (auto simp: Let_def split: prod.splits if_splits dest!: core_rules)

lemma DB_Init_core [core_rules]: "DB_Init C a t d w = (r, x, w1) \<Longrightarrow> core w1 = core w"
  "DB_InitLocal C d w = (r, x, w1) \<Longrightarrow> core w1 = core w"
  by (auto simp: DB_Init_def DB_InitLocal_def dest: DB_Init_loop_core DB_InitLocal_loop_core)

lemma DB_UnInit_core [core_rules]: "DB_UnInit C d w = (r, w1) \<Longrightarrow> core w1 = core w"
  by (auto simp: DB_UnInit_def Let_def split: prod.splits if_splits option.splits dest!: core_rules)

lemma DB_ReInit_core [core_rules]: "DB_ReInit C a d w = (r, x, w1) \<Longrightarrow> core w1 = core w"
  by (auto simp: DB_ReInit_def Let_def split: prod.splits if_splits option.splits dest!: core_rules)

lemma SyncDBForRecover_core [simp]: "core (SyncDBForRecover d w) = core w"
  by (auto simp: SyncDBForRecover_def Let_def split: prod.splits if_splits option.splits dest!: core_rules)

lemma DBDiedOpt_core [core_rules]: "DBDiedOpt C n d w = (r, x, y, w1) \<Longrightarrow> core w1 = core w"
  by (auto simp: DBDiedOpt_def Let_def split: prod.splits if_splits option.splits dest!: core_rules)

lemma reInitTask_core [core_rules]: "reInitTask C n d w = (r, x, w1) \<Longrightarrow> core w1 = core w"
proof (induction C n d w rule: reInitTask.induct)
  case (1 C n d w)
  obtain fin n' d1 w' where D: "DBDiedOpt C n d w = (fin, n', d1, w')" by (cases "DBDiedOpt C n d w") auto
  have cw: "core w' = core w" by (rule DBDiedOpt_core[OF D])
  show ?case
  proof (cases "n < DIED_CHECK_MAX_TIMES \<and> \<not> fin")
    case True
    then have "core w1 = core w'"
      using 1(1)[of fin "(n', d1, w')" n' "(d1, w')" d1 w'] 1(2) D by (subst (asm) (2) reInitTask.simps) simp
    then show ?thesis using cw by simp
  next
    case False
    then show ?thesis using 1(2) D cw by (subst (asm) reInitTask.simps) (auto split: if_splits)
  qed
qed

lemma GetNetworkIdByKey_core [core_rules]: "GetNetworkIdByKey C k w = (r, w1) \<Longrightarrow> core w1 = core w"
  by (auto simp: GetNetworkIdByKey_def Let_def split: prod.splits if_splits option.splits dest!: core_rules)

lemma SyncByNotFound_core [simp]: "core (SyncByNotFound C d k w) = core w"
  by (auto simp: SyncByNotFound_def Let_def split: prod.splits if_splits option.splits dest!: core_rules)

lemma sync_on_miss_core [simp]: "core (sync_on_miss C d k w) = core w"
  by (auto simp: sync_on_miss_def Let_def split: prod.splits if_splits option.splits dest!: core_rules)

lemma DB_GetDataByKey_core [core_rules]: "DB_GetDataByKey C d k v w = (r, x, w1) \<Longrightarrow> core w1 = core w"
  by (auto simp: DB_GetDataByKey_def Let_def split: prod.splits if_splits option.splits dest!: core_rules)

lemma DB_GetDataByKeyPrefix_core [core_rules]: "DB_GetDataByKeyPrefix C d k w = (r, x, w1) \<Longrightarrow> core w1 = core w"
  by (auto simp: DB_GetDataByKeyPrefix_def Let_def split: prod.splits if_splits option.splits dest!: core_rules)

lemma DB_PutData_core [core_rules]: "DB_PutData C d k v w = (r, w1) \<Longrightarrow> core w1 = core w"
  by (auto simp: DB_PutData_def Let_def split: prod.splits if_splits option.splits dest!: core_rules)

lemma DB_PutDataBatch_core [core_rules]: "DB_PutDataBatch C d k v w = (r, w1) \<Longrightarrow> core w1 = core w"
  by (auto simp: DB_PutDataBatch_def Let_def split: prod.splits if_splits option.splits dest!: core_rules)

lemma DB_RemoveDeviceData_core [core_rules]: "DB_RemoveDeviceData C d k w = (r, w1) \<Longrightarrow> core w1 = core w"
  by (auto simp: DB_RemoveDeviceData_def Let_def split: prod.splits if_splits option.splits dest!: core_rules)

lemma DB_RemoveDataByKey_core [core_rules]: "DB_RemoveDataByKey C d k w = (r, w1) \<Longrightarrow> core w1 = core w"
  by (auto simp: DB_RemoveDataByKey_def Let_def split: prod.splits if_splits option.splits dest!: core_rules)

lemma DB_SyncDataByNetworkId_core [core_rules]: "DB_SyncDataByNetworkId C d k w = (r, w1) \<Longrightarrow> core w1 = core w"
  by (auto simp: DB_SyncDataByNetworkId_def Let_def split: prod.splits if_splits option.splits dest!: core_rules)

lemma DB_ClearDataByPrefix_core [core_rules]: "DB_ClearDataByPrefix C d k w = (r, w1) \<Longrightarrow> core w1 = core w"
  by (auto simp: DB_ClearDataByPrefix_def Let_def split: prod.splits if_splits option.splits dest!: core_rules)

lemma DB_Sync_snd [simp]: "core (snd (DB_SyncDataByNetworkId C d k w)) = core w"
  by (metis DB_SyncDataByNetworkId_core prod.collapse)

section \<open>Versions\<close>

lemma VersionManager_Init_core [core_rules]: "VersionManager_Init C e v w = (r, w1) \<Longrightarrow> core w1 = core w"
  by (auto simp: VersionManager_Init_def Let_def split: prod.splits if_splits option.splits dest!: core_rules)

lemma VersionManager_UnInit_core [simp]: "core (VersionManager_UnInit w) = core w"
  by (auto simp: VersionManager_UnInit_def Let_def split: prod.splits if_splits option.splits dest!: core_rules)

lemma VerInfo_Init_core [core_rules]: "VerInfo_Init C w = (r, w1) \<Longrightarrow> core w1 = core w"
  by (auto simp: VerInfo_Init_def Let_def split: prod.splits if_splits option.splits dest!: core_rules)

lemma VerInfo_UnInit_core [core_rules]: "VerInfo_UnInit C w = (r, w1) \<Longrightarrow> core w1 = core w"
  by (auto simp: VerInfo_UnInit_def Let_def split: prod.splits if_splits option.splits dest!: core_rules)

lemma GetVersionInfoByDeviceId_core [core_rules]: "GetVersionInfoByDeviceId C i v w = (r, x, w1) \<Longrightarrow> core w1 = core w"
  by (auto simp: GetVersionInfoByDeviceId_def Let_def split: prod.splits if_splits option.splits dest!: core_rules)

lemma CM_UpdateVersionCache_core [simp]: "core (CM_UpdateVersionCache u v w) = core w"
  by (auto simp: CM_UpdateVersionCache_def Let_def split: prod.splits if_splits option.splits dest!: core_rules)

section \<open>Managers\<close>

lemma Cap_Init_core [core_rules]: "Cap_Init C w = (r, w1) \<Longrightarrow> core w1 = core w"
  by (auto simp: Cap_Init_def Let_def split: prod.splits if_splits option.splits dest!: core_rules)

lemma Cap_UnInit_core [core_rules]: "Cap_UnInit C w = (r, w1) \<Longrightarrow> core w1 = core w"
  by (auto simp: Cap_UnInit_def Let_def split: prod.splits if_splits option.splits dest!: core_rules)

lemma Local_Init_core [core_rules]: "Local_Init C w = (r, w1) \<Longrightarrow> core w1 = core w"
  by (auto simp: Local_Init_def Let_def split: prod.splits if_splits option.splits dest!: core_rules)

lemma Local_UnInit_core [core_rules]: "Local_UnInit C w = (r, w1) \<Longrightarrow> core w1 = core w"
  by (auto simp: Local_UnInit_def Let_def split: prod.splits if_splits option.splits dest!: core_rules)

lemma Meta_Init_core [core_rules]: "Meta_Init C w = (r, w1) \<Longrightarrow> core w1 = core w"
  by (auto simp: Meta_Init_def Let_def split: prod.splits if_splits option.splits dest!: core_rules)

lemma Meta_UnInit_core [core_rules]: "Meta_UnInit C w = (r, w1) \<Longrightarrow> core w1 = core w"
  by (auto simp: Meta_UnInit_def Let_def split: prod.splits if_splits option.splits dest!: core_rules)

lemma store_all_core [simp]:
  "core (Local_store_all C l w) = core w" "core (Meta_store_all C l w) = core w"
  by (induction l arbitrary: w) (auto simp: Let_def split: prod.splits option.splits)

lemma Local_SyncDeviceInfoFromDB_core [core_rules]: "Local_SyncDeviceInfoFromDB C i w = (r, w1) \<Longrightarrow> core w1 = core w"
  by (auto simp: Local_SyncDeviceInfoFromDB_def Let_def split: prod.splits if_splits option.splits dest!: core_rules)

lemma SyncMetaInfoFromDB_core [core_rules]: "SyncMetaInfoFromDB C i w = (r, w1) \<Longrightarrow> core w1 = core w"
  by (auto simp: SyncMetaInfoFromDB_def Let_def split: prod.splits if_splits option.splits dest!: core_rules)

lemma Cap_RemoveCapabilityInfoInMem_core [core_rules]: "Cap_RemoveCapabilityInfoInMem i w = (r, w1) \<Longrightarrow> core w1 = core w"
  by (auto simp: Cap_RemoveCapabilityInfoInMem_def Let_def split: prod.splits if_splits option.splits dest!: core_rules)

lemma RemoveMetaInfoInMemByUdid_core [core_rules]: "RemoveMetaInfoInMemByUdid C i w = (r, w1) \<Longrightarrow> core w1 = core w"
  by (auto simp: RemoveMetaInfoInMemByUdid_def Let_def split: prod.splits if_splits option.splits dest!: core_rules)

lemma ClearRemoteDeviceMetaInfoData_core [core_rules]: "ClearRemoteDeviceMetaInfoData C i j w = (r, w1) \<Longrightarrow> core w1 = core w"
  by (auto simp: ClearRemoteDeviceMetaInfoData_def Let_def split: prod.splits if_splits option.splits dest!: core_rules)

lemma RemoveLocalInfoInMemByUuid_core [core_rules]: "RemoveLocalInfoInMemByUuid C i w = (r, w1) \<Longrightarrow> core w1 = core w"
  by (auto simp: RemoveLocalInfoInMemByUuid_def Let_def split: prod.splits if_splits option.splits dest!: core_rules)

lemma ClearRemoteDeviceLocalInfoData_core [core_rules]: "ClearRemoteDeviceLocalInfoData C i w = (r, w1) \<Longrightarrow> core w1 = core w"
  by (auto simp: ClearRemoteDeviceLocalInfoData_def Let_def split: prod.splits if_splits option.splits dest!: core_rules)

lemma Meta_SyncDataByNetworkId_core [core_rules]: "Meta_SyncDataByNetworkId C i w = (r, w1) \<Longrightarrow> core w1 = core w"
  by (auto simp: Meta_SyncDataByNetworkId_def Let_def split: prod.splits if_splits option.splits dest!: core_rules)

section \<open>Handlers\<close>

lemma AddSAMonitor_core [simp]: "core (AddSAMonitor C i w) = core w"
  by (auto simp: AddSAMonitor_def Let_def split: prod.splits if_splits option.splits dest!: core_rules)

lemma RemoveSAMonitor_core [simp]: "core (RemoveSAMonitor C i w) = core w"
  by (auto simp: RemoveSAMonitor_def Let_def split: prod.splits if_splits option.splits dest!: core_rules)

lemma ComponentEnable_Enable_core [core_rules]: "ComponentEnable_Enable C n i p h c s w = (r, x, w1) \<Longrightarrow> core w1 = core w"
  by (auto simp: ComponentEnable_Enable_def Let_def split: prod.splits if_splits option.splits dest!: core_rules)

lemma ComponentDisable_Disable_core [core_rules]: "ComponentDisable_Disable C n i h s w = (r, x, w1) \<Longrightarrow> core w1 = core w"
  by (auto simp: ComponentDisable_Disable_def Let_def split: prod.splits if_splits option.splits dest!: core_rules)

lemma InitCompSource_core [core_rules]: "InitCompSource C ty w = (r, w1) \<Longrightarrow> core w1 = core w"
  by (auto simp: InitCompSource_def Let_def split: prod.splits if_splits option.splits dest!: core_rules)

lemma InitCompSink_core [core_rules]: "InitCompSink C ty w = (r, w1) \<Longrightarrow> core w1 = core w"
  by (auto simp: InitCompSink_def Let_def split: prod.splits if_splits option.splits dest!: core_rules)

lemma UninitCompSource_core [core_rules]: "UninitCompSource C ty k w = (r, w1) \<Longrightarrow> core w1 = core w"
  by (auto simp: UninitCompSource_def Let_def split: prod.splits if_splits option.splits dest!: core_rules)

lemma UninitCompSink_core [core_rules]: "UninitCompSink C ty k w = (r, w1) \<Longrightarrow> core w1 = core w"
  by (auto simp: UninitCompSink_def Let_def split: prod.splits if_splits option.splits dest!: core_rules)

lemma StartSource_core [core_rules]: "StartSource C ty res w = (r, x, w1) \<Longrightarrow> core w1 = core w"
  by (auto simp: StartSource_def Let_def split: prod.splits if_splits option.splits dest!: core_rules)

lemma StartSink_core [core_rules]: "StartSink C ty res w = (r, x, w1) \<Longrightarrow> core w1 = core w"
  by (auto simp: StartSink_def Let_def split: prod.splits if_splits option.splits dest!: core_rules)

lemma StopSource_core [core_rules]: "StopSource C ty res w = (r, x, w1) \<Longrightarrow> core w1 = core w"
  by (auto simp: StopSource_def Let_def split: prod.splits if_splits option.splits dest!: core_rules)

lemma StopSink_core [core_rules]: "StopSink C ty res w = (r, x, w1) \<Longrightarrow> core w1 = core w"
  by (auto simp: StopSink_def Let_def split: prod.splits if_splits option.splits dest!: core_rules)

lemma WaitForResult_core [core_rules]: "WaitForResult a l w = (b, w1) \<Longrightarrow> core w1 = core w"
  by (induction a l w arbitrary: b rule: WaitForResult.induct) (auto simp: Let_def split: prod.splits if_splits)

section \<open>Enable parameters and enabling\<close>

lemma GetVersionFromVerInfoMgr_core [core_rules]: "GetVersionFromVerInfoMgr C u ty v b w = (r, x, w1) \<Longrightarrow> core w1 = core w"
  by (auto simp: GetVersionFromVerInfoMgr_def Let_def split: prod.splits if_splits option.splits dest!: core_rules)

lemma GetVersion_core [core_rules]: "GetVersion C u ty v b w = (r, x, w1) \<Longrightarrow> core w1 = core w"
  by (auto simp: GetVersion_def Let_def split: prod.splits if_splits option.splits dest!: core_rules)

lemma GetEnableCapParam_core [core_rules]: "GetEnableCapParam C n u ty p c w = (r, x, w1) \<Longrightarrow> core w1 = core w"
  by (auto simp: GetEnableCapParam_def Let_def split: prod.splits if_splits option.splits dest!: core_rules)

lemma GetEnableMetaParam_core [core_rules]: "GetEnableMetaParam C n u ty p c w = (r, x, w1) \<Longrightarrow> core w1 = core w"
  by (auto simp: GetEnableMetaParam_def Let_def split: prod.splits if_splits option.splits dest!: core_rules)

lemma GetEnableParam_meta_core [core_rules]: "GetEnableParam_meta C n u i ty p w = (r, x, w1) \<Longrightarrow> core w1 = core w"
  by (auto simp: GetEnableParam_meta_def Let_def split: prod.splits if_splits option.splits dest!: core_rules)

lemma GetEnableParam_core [core_rules]: "GetEnableParam C n u i ty p w = (r, x, w1) \<Longrightarrow> core w1 = core w"
  by (auto simp: GetEnableParam_def Let_def split: prod.splits if_splits option.splits dest!: core_rules)

lemma RetryGetEnableParam_loop_core [core_rules]:
  "RetryGetEnableParam_loop C n a u i ty p w = (r, x, w1) \<Longrightarrow> core w1 = core w"
  by (induction C n a u i ty p w rule: RetryGetEnableParam_loop.induct)
    (auto split: if_splits prod.splits dest!: core_rules)

lemma RetryGetEnableParam_core [core_rules]: "RetryGetEnableParam C n u i ty p w = (r, x, w1) \<Longrightarrow> core w1 = core w"
  by (auto simp: RetryGetEnableParam_def Let_def split: prod.splits if_splits option.splits dest!: core_rules)

lemma CheckIdenticalAccount_core [core_rules]: "CheckIdenticalAccount C n u d w = (r, w1) \<Longrightarrow> core w1 = core w"
  by (auto simp: CheckIdenticalAccount_def Let_def split: prod.splits if_splits option.splits dest!: core_rules)

lemma GetDHSubtypeByDHId_core [core_rules]: "GetDHSubtypeByDHId C s n i w = (r, x, w1) \<Longrightarrow> core w1 = core w"
  by (auto simp: GetDHSubtypeByDHId_def Let_def split: prod.splits if_splits option.splits dest!: core_rules)

lemma CheckAudioConfigGate_core [core_rules]: "CheckAudioConfigGate C n d r0 w = (r, w1) \<Longrightarrow> core w1 = core w"
  by (auto simp: CheckAudioConfigGate_def Let_def split: prod.splits if_splits option.splits dest!: core_rules)

lemma DumpEnabledComp_core [simp]: "core (DumpEnabledComp n ty i w) = core w"
  by (auto simp: DumpEnabledComp_def Let_def split: prod.splits if_splits option.splits dest!: core_rules)

lemma DumpDisabledComp_core [simp]: "core (DumpDisabledComp n ty i w) = core w"
  by (auto simp: DumpDisabledComp_def Let_def split: prod.splits if_splits option.splits dest!: core_rules)

lemma Enable_retry_core [core_rules]:
  "Enable_retry C n a u i ty p h c res st w = (r, w1) \<Longrightarrow> core w1 = core w"
  by (induction C n a u i ty p h c res st w rule: Enable_retry.induct)
    (auto split: if_splits prod.splits dest!: core_rules)

lemma Disable_retry_core [core_rules]:
  "Disable_retry C n a i ty h res st w = (r, w1) \<Longrightarrow> core w1 = core w"
  by (induction C n a i ty h res st w rule: Disable_retry.induct)
    (auto split: if_splits prod.splits dest!: core_rules)

lemma Enable_with_core [core_rules]: "Enable_with C n u i ty b c h p w = (r, w1) \<Longrightarrow> core w1 = core w"
  by (auto simp: Enable_with_def Let_def split: prod.splits if_splits option.splits dest!: core_rules)

lemma Enable_core [core_rules]: "Enable C n u i ty b c w = (r, w1) \<Longrightarrow> core w1 = core w"
  by (auto simp: Enable_def Let_def split: prod.splits if_splits option.splits dest!: core_rules)

lemma Disable_core [core_rules]: "Disable C n u i ty w = (r, w1) \<Longrightarrow> core w1 = core w"
  by (auto simp: Disable_def Let_def split: prod.splits if_splits option.splits dest!: core_rules)

end
