(* ===== verification/Component_Refs.thy ===== *)
theory Component_Refs
  imports Component_Requests Frames
begin

text \<open>
  The reference counts under the operations of the component manager.  Every enable and disable
  operation refines the counter \<open>refs\<close> of \<open>Ref_Status\<close>: with success it switches its client on or off,
  with any error it leaves clients and counts as they were; and the force operations drop a piece of
  hardware with all its clients.
\<close>

lemma om_put_put [simp]: "om_put k v (om_put k v' m) = om_put k v m"
  by (induction k v' m rule: om_put.induct) auto

section \<open>The invariant of the two maps\<close>

definition counts_ok :: "(DHType, 'k::linorder DHStatus) omap \<Rightarrow> bool" where
  "counts_ok m = (om_ok m \<and> list_all (\<lambda>(ty, s). status_ok s) m)"

definition refs_ok :: "'s fwk \<Rightarrow> bool" where
  "refs_ok w = (counts_ok (cm_dhSinkStatus (fw_cm w)) \<and> counts_ok (cm_dhSourceStatus (fw_cm w)))"

lemma status_of_ok: "counts_ok m \<Longrightarrow> status_ok (status_of m ty)"
  by (auto simp: counts_ok_def status_of_def list_all_iff split: option.splits dest!: map_of_SomeD)

lemma counts_ok_put: "counts_ok m \<Longrightarrow> status_ok s \<Longrightarrow> counts_ok (om_put ty s m)"
  by (simp add: counts_ok_def om_ok_put list_all_put)

lemma refs_ok_status: "refs_ok w \<Longrightarrow> status_ok (sink_status ty w)" "refs_ok w \<Longrightarrow> status_ok (source_status ty w)"
  by (simp_all add: refs_ok_def sink_status_def source_status_def status_of_ok)

lemma core_eqD:
  assumes "core w' = core w"
  shows "refs_ok w' = refs_ok w" "sink_status ty w' = sink_status ty w" "source_status ty w' = source_status ty w"
    "core (put_sink ty s w') = core (put_sink ty s w)" "core (put_source ty r w') = core (put_source ty r w)"
    "snd (core w') = snd (core w)"
  using assms
  by (simp_all add: core_def refs_ok_def sink_status_def source_status_def put_sink_def put_source_def upd_cm_def)

lemma status_put [simp]:
  "sink_status t (put_sink ty s w) = (if t = ty then s else sink_status t w)"
  "source_status t (put_source ty r w) = (if t = ty then r else source_status t w)"
  "sink_status t (put_source ty r w) = sink_status t w"
  "source_status t (put_sink ty s w) = source_status t w"
  by (simp_all add: sink_status_def source_status_def put_sink_def put_source_def upd_cm_def status_of_def)

lemma put_put_core [simp]:
  "core (put_sink ty s (put_sink ty s' w)) = core (put_sink ty s w)"
  "core (put_source ty r (put_source ty r' w)) = core (put_source ty r w)"
  by (simp_all add: core_def put_sink_def put_source_def upd_cm_def)

lemma put_over:
  "core v = core (put_sink ty s w) \<Longrightarrow> core (put_sink ty x v) = core (put_sink ty x w)"
  "core v = core (put_source ty r w) \<Longrightarrow> core (put_source ty y v) = core (put_source ty y w)"
  using core_eqD(4)[of v "put_sink ty s w" ty x] core_eqD(5)[of v "put_source ty r w" ty y] by simp_all

lemma refs_ok_put:
  "refs_ok w \<Longrightarrow> status_ok s \<Longrightarrow> refs_ok (put_sink ty s w)"
  "refs_ok w \<Longrightarrow> status_ok r \<Longrightarrow> refs_ok (put_source ty r w)"
  by (simp_all add: refs_ok_def put_sink_def put_source_def upd_cm_def counts_ok_put)

lemma snd_core_put [simp]: "snd (core (put_sink ty s w)) = snd (core w)" "snd (core (put_source ty r w)) = snd (core w)"
  by (simp_all add: core_def put_sink_def put_source_def upd_cm_def)

section \<open>Outcomes\<close>

text \<open>What an enable (\<open>b\<close>) or disable operation makes of the status of its type.\<close>

definition switched ::
    "int \<Rightarrow> 'k \<times> DHStatusCtrlKey \<Rightarrow> bool \<Rightarrow> 'k::linorder DHStatus \<Rightarrow> 'k DHStatus \<Rightarrow> bool" where
  "switched ret c b s s' =
    (status_ok s' \<and> listeners s' = listeners s
     \<and> client_enabled s' = (if ret = DH_FWK_SUCCESS then (client_enabled s)(c := b) else client_enabled s)
     \<and> refLoad s' = refLoad s + (if ret = DH_FWK_SUCCESS \<and> client_enabled s c \<noteq> b then (if b then 1 else -1) else 0))"

lemma client_enabled_touch [simp]: "client_enabled (touch_client k ck s) = client_enabled s"
  by (rule ext) (simp add: client_enabled_def)

lemma switched_touch:
  assumes "status_ok s" "ret = DH_FWK_SUCCESS \<Longrightarrow> client_enabled s c = b"
  shows "switched ret c b s (touch_client k ck s)"
  using assms by (auto simp: switched_def status_ok_touch fun_upd_idem)

lemma switched_same: "status_ok s \<Longrightarrow> ret \<noteq> DH_FWK_SUCCESS \<Longrightarrow> switched ret c b s s"
  by (simp add: switched_def)

lemma switched_on:
  "status_ok s \<Longrightarrow> \<not> client_enabled s c \<Longrightarrow> ret = DH_FWK_SUCCESS \<Longrightarrow> switched ret c True s (client_on c (touch_client k ck s))"
  by (simp add: switched_def refs.ok_on refs.enabled_on refs.load_on status_ok_touch)
     (simp add: client_on_def)

lemma switched_off:
  "status_ok s \<Longrightarrow> client_enabled s c \<Longrightarrow> ret = DH_FWK_SUCCESS \<Longrightarrow> switched ret c False s (client_off c (touch_client k ck s))"
  by (simp add: switched_def refs.ok_off refs.enabled_off refs.load_off status_ok_touch)
     (simp add: client_off_def)

definition sink_outcome ::
    "int \<Rightarrow> DHType \<Rightarrow> string \<times> DHStatusCtrlKey \<Rightarrow> bool \<Rightarrow> 's fwk \<Rightarrow> 's fwk \<Rightarrow> bool" where
  "sink_outcome ret ty c b w w' =
    (refs_ok w' \<and> switched ret c b (sink_status ty w) (sink_status ty w')
     \<and> (\<forall>t. t \<noteq> ty \<longrightarrow> sink_status t w' = sink_status t w)
     \<and> (\<forall>t. source_status t w' = source_status t w) \<and> snd (core w') = snd (core w))"

definition source_outcome ::
    "int \<Rightarrow> DHType \<Rightarrow> DHStatusSourceEnableInfoKey \<times> DHStatusCtrlKey \<Rightarrow> bool \<Rightarrow> 's fwk \<Rightarrow> 's fwk \<Rightarrow> bool" where
  "source_outcome ret ty c b w w' =
    (refs_ok w' \<and> switched ret c b (source_status ty w) (source_status ty w')
     \<and> (\<forall>t. t \<noteq> ty \<longrightarrow> source_status t w' = source_status t w)
     \<and> (\<forall>t. sink_status t w' = sink_status t w) \<and> snd (core w') = snd (core w))"

lemma sink_outcome_core:
  assumes "core w' = core (put_sink ty s' w)" "refs_ok w" "switched ret c b (sink_status ty w) s'"
  shows "sink_outcome ret ty c b w w'"
  unfolding sink_outcome_def core_eqD[OF assms(1)]
  using assms(2,3) by (simp add: refs_ok_put switched_def)

lemma source_outcome_core:
  assumes "core w' = core (put_source ty s' w)" "refs_ok w" "switched ret c b (source_status ty w) s'"
  shows "source_outcome ret ty c b w w'"
  unfolding source_outcome_def core_eqD[OF assms(1)]
  using assms(2,3) by (simp add: refs_ok_put switched_def)

lemma outcome_same:
  assumes "core w' = core w" "refs_ok w" "ret \<noteq> DH_FWK_SUCCESS"
  shows "sink_outcome ret ty c b w w'" "source_outcome ret ty c' b w w'"
  unfolding sink_outcome_def source_outcome_def core_eqD[OF assms(1)]
  using assms(2,3) by (simp_all add: switched_same refs_ok_status)

lemma sink_done:
  "core w' = core (put_sink ty (touch_client k ck (sink_status ty w)) w) \<Longrightarrow> refs_ok w \<Longrightarrow>
   (ret = DH_FWK_SUCCESS \<Longrightarrow> client_enabled (sink_status ty w) c = b) \<Longrightarrow> sink_outcome ret ty c b w w'"
  "core w' = core (put_sink ty (client_on c (touch_client k ck (sink_status ty w))) w) \<Longrightarrow> refs_ok w \<Longrightarrow>
   \<not> client_enabled (sink_status ty w) c \<Longrightarrow> ret = DH_FWK_SUCCESS \<Longrightarrow> sink_outcome ret ty c True w w'"
  "core w' = core (put_sink ty (client_off c (touch_client k ck (sink_status ty w))) w) \<Longrightarrow> refs_ok w \<Longrightarrow>
   client_enabled (sink_status ty w) c \<Longrightarrow> ret = DH_FWK_SUCCESS \<Longrightarrow> sink_outcome ret ty c False w w'"
  by (erule sink_outcome_core; simp add: switched_touch switched_on switched_off refs_ok_status)+

lemma source_done:
  "core w' = core (put_source ty (touch_client k ck (source_status ty w)) w) \<Longrightarrow> refs_ok w \<Longrightarrow>
   (ret = DH_FWK_SUCCESS \<Longrightarrow> client_enabled (source_status ty w) c = b) \<Longrightarrow> source_outcome ret ty c b w w'"
  "core w' = core (put_source ty (client_on c (touch_client k ck (source_status ty w))) w) \<Longrightarrow> refs_ok w \<Longrightarrow>
   \<not> client_enabled (source_status ty w) c \<Longrightarrow> ret = DH_FWK_SUCCESS \<Longrightarrow> source_outcome ret ty c True w w'"
  "core w' = core (put_source ty (client_off c (touch_client k ck (source_status ty w))) w) \<Longrightarrow> refs_ok w \<Longrightarrow>
   client_enabled (source_status ty w) c \<Longrightarrow> ret = DH_FWK_SUCCESS \<Longrightarrow> source_outcome ret ty c False w w'"
  by (erule source_outcome_core; simp add: switched_touch switched_on switched_off refs_ok_status)+

section \<open>Starting and stopping leave the counts alone\<close>

lemma StartSinkAndWait_core [core_rules]: "StartSinkAndWait C ty w = (r, w1) \<Longrightarrow> core w1 = core w"
  by (auto simp: StartSinkAndWait_def split: prod.splits if_splits dest!: core_rules)
     (metis UninitCompSink_core prod.collapse)

lemma StopSinkAndUninit_core [core_rules]: "StopSinkAndUninit C ty w = (r, w1) \<Longrightarrow> core w1 = core w"
  by (auto simp: StopSinkAndUninit_def split: prod.splits if_splits dest!: core_rules)

lemma StartSourceAndWait_core [core_rules]: "StartSourceAndWait C ty w = (r, w1) \<Longrightarrow> core w1 = core w"
  by (auto simp: StartSourceAndWait_def split: prod.splits if_splits dest!: core_rules)
     (metis UninitCompSource_core prod.collapse)

lemma StopSourceAndUninit_core [core_rules]: "StopSourceAndUninit C ty w = (r, w1) \<Longrightarrow> core w1 = core w"
  by (auto simp: StopSourceAndUninit_def split: prod.splits if_splits dest!: core_rules)

lemma UndoSource_core [simp]: "core (UndoSource C ty w) = core w"
  by (auto simp: UndoSource_def split: prod.splits dest!: core_rules)
     (metis UninitCompSource_core prod.collapse)

lemma CheckEnableSourceParam_core [core_rules]: "CheckEnableSourceParam C n d w = (r, w1) \<Longrightarrow> core w1 = core w"
  by (auto simp: CheckEnableSourceParam_def split: prod.splits if_splits dest!: core_rules)

lemma DelaySaStatusTask_core [simp]: "core (DelaySaStatusTask w) = core w"
  by (simp add: DelaySaStatusTask_def)

lemma core_fold_void [simp]: "core (fold (\<lambda>l. call_void (f l)) ls w) = core w"
  by (induction ls arbitrary: w) auto

section \<open>Sink operations\<close>

text \<open>What the branches of an operation share: the first and the last client are counted too.\<close>

lemma touched_first:
  assumes "status_ok s" "refEnable (info_of (touch_client k ck s) k) = 0" "refLoad (touch_client k ck s) = 0"
  shows "set_client k ck ENABLED (\<lambda>_. 1) (touch_client k ck s) = client_on (k, ck) (touch_client k ck s)"
  using assms by (intro first_client) simp_all

lemma touched_last:
  assumes "status_ok s" "client_state s k ck \<noteq> DISABLED" "\<not> 1 < refLoad (touch_client k ck s)"
  shows "set_client k ck DISABLED (\<lambda>_. 0) (touch_client k ck s) = client_off (k, ck) (touch_client k ck s)"
proof -
  have "client_state s k ck = ENABLED" using assms(2) by (cases "client_state s k ck") simp_all
  then show ?thesis using assms by (intro last_client) (simp_all add: status_ok_touch)
qed

lemma client_states [simp]:
  "client_state s k ck = ENABLED \<longleftrightarrow> client_enabled s (k, ck)"
  "client_state s k ck = DISABLED \<longleftrightarrow> \<not> client_enabled s (k, ck)"
  by (cases "client_state s k ck"; simp add: client_enabled_def)+

lemmas client_steps = client_on_def[of "(k, ck)" for k ck, simplified] client_off_def[of "(k, ck)" for k ck, simplified]

lemma EnableSinkInternal_outcome:
  assumes E: "EnableSinkInternal C d uid pid w = (ret, l, w')" and ok: "refs_ok w"
  shows "sink_outcome ret (dd_dhType d) (dd_id d, DHStatusCtrlKey uid pid) True w w'"
proof -
  let ?ty = "dd_dhType d" and ?k = "dd_id d" and ?ck = "DHStatusCtrlKey uid pid"
  obtain g w1 where G: "CheckAudioConfigGate C (GetLocalNetworkId (c_P C)) d ''sink'' w = (g, w1)"
    by (cases "CheckAudioConfigGate C (GetLocalNetworkId (c_P C)) d ''sink'' w") auto
  note c1 = CheckAudioConfigGate_core[OF G]
  let ?old = "sink_status ?ty w"
  let ?s = "touch_client ?k ?ck ?old"
  have s1: "sink_status ?ty w1 = ?old" by (rule core_eqD(2)[OF c1])
  note so = refs_ok_status(1)[OF ok, of ?ty]
  note put = core_eqD(4)[OF c1]
  show ?thesis
  proof (cases "e_IsDHTypeSupport (c_E C) ?ty \<and> g = DH_FWK_SUCCESS")
    case False
    then have "ret \<noteq> DH_FWK_SUCCESS \<and> core w' = core w" using E G c1
      by (auto simp: EnableSinkInternal_def split: if_splits)
    then show ?thesis using ok by (intro outcome_same(1)) simp_all
  next
    case go: True
    obtain r3 w3 where S: "StartSinkAndWait C ?ty (put_sink ?ty ?s w1) = (r3, w3)"
      by (cases "StartSinkAndWait C ?ty (put_sink ?ty ?s w1)") auto
    note c3 = StartSinkAndWait_core[OF S]
    have c3': "core (put_sink ?ty x w3) = core (put_sink ?ty x w)" for x
      using core_eqD(4)[OF c3, of ?ty x] put by simp
    consider (on) "client_enabled ?old (?k, ?ck)"
      | (more) "\<not> client_enabled ?old (?k, ?ck)" "refEnable (info_of ?s ?k) \<noteq> 0 \<or> refLoad ?s \<noteq> 0"
      | (first) "\<not> client_enabled ?old (?k, ?ck)" "refEnable (info_of ?s ?k) = 0" "refLoad ?s = 0" by blast
    then show ?thesis
    proof cases
      case on
      then have "ret = DH_FWK_SUCCESS" "core w' = core (put_sink ?ty ?s w)"
        using E G go s1 put by (auto simp: EnableSinkInternal_def Let_def)
      then show ?thesis using on ok by (intro sink_done(1)) simp_all
    next
      case more
      then have "ret = DH_FWK_SUCCESS" "core w' = core (put_sink ?ty (client_on (?k, ?ck) ?s) w)"
        using E G go s1 put by (auto simp: EnableSinkInternal_def Let_def client_steps)
      then show ?thesis using more(1) ok by (intro sink_done(2)) simp_all
    next
      case first
      note f = touched_first[OF so first(2,3)]
      from E first G go S s1 have
        "(ret = r3 \<and> r3 \<noteq> DH_FWK_SUCCESS \<and> core w' = core w3) \<or>
         (ret = DH_FWK_SUCCESS \<and> core w' = core (put_sink ?ty (client_on (?k, ?ck) ?s) w))"
        by (auto simp: EnableSinkInternal_def Let_def f c3' core_eqD(4)[OF core_upd_cm_fields(2)]
            core_eqD(4)[OF core_calls(1)] split: if_splits)
      then show ?thesis
      proof (elim disjE conjE)
        assume "ret = r3" "r3 \<noteq> DH_FWK_SUCCESS" "core w' = core w3"
        then show ?thesis using c3 put ok by (intro sink_done(1)) simp_all
      next
        assume "ret = DH_FWK_SUCCESS" "core w' = core (put_sink ?ty (client_on (?k, ?ck) ?s) w)"
        then show ?thesis using first(1) ok by (intro sink_done(2)) simp_all
      qed
    qed
  qed
qed

lemma sink_outcome_void:
  "sink_outcome ret ty c b w w1 \<Longrightarrow> core w2 = core w1 \<Longrightarrow> sink_outcome ret ty c b w w2"
  unfolding sink_outcome_def by (metis core_eqD)

lemma source_outcome_void:
  "source_outcome ret ty c b w w1 \<Longrightarrow> core w2 = core w1 \<Longrightarrow> source_outcome ret ty c b w w2"
  unfolding source_outcome_def by (metis core_eqD)

lemma EnableSink_outcome:
  assumes "EnableSink C d uid pid w = (ret, w')" "refs_ok w"
  shows "sink_outcome ret (dd_dhType d) (dd_id d, DHStatusCtrlKey uid pid) True w w'"
  using assms(1)
  by (auto simp: EnableSink_def split: prod.splits if_splits option.splits
      dest!: EnableSinkInternal_outcome[OF _ assms(2)] intro: sink_outcome_void)

lemma DisableSinkInternal_outcome:
  assumes E: "DisableSinkInternal C d uid pid w = (ret, l, w')" and ok: "refs_ok w"
  shows "sink_outcome ret (dd_dhType d) (dd_id d, DHStatusCtrlKey uid pid) False w w'"
proof -
  let ?ty = "dd_dhType d" and ?k = "dd_id d" and ?ck = "DHStatusCtrlKey uid pid"
  let ?old = "sink_status ?ty w"
  let ?s = "touch_client ?k ?ck ?old"
  note so = refs_ok_status(1)[OF ok, of ?ty]
  obtain r3 w3 where S: "StopSinkAndUninit C ?ty (put_sink ?ty ?s w) = (r3, w3)"
    by (cases "StopSinkAndUninit C ?ty (put_sink ?ty ?s w)") auto
  note c3 = StopSinkAndUninit_core[OF S]
  have c3': "core (put_sink ?ty x w3) = core (put_sink ?ty x w)" for x
    using core_eqD(4)[OF c3, of ?ty x] by simp
  consider (unsup) "\<not> e_IsDHTypeSupport (c_E C) ?ty"
    | (off) "e_IsDHTypeSupport (c_E C) ?ty" "\<not> client_enabled ?old (?k, ?ck)"
    | (more) "e_IsDHTypeSupport (c_E C) ?ty" "client_enabled ?old (?k, ?ck)"
             "refEnable (info_of ?s ?k) > 1 \<or> refLoad ?s > 1"
    | (last) "e_IsDHTypeSupport (c_E C) ?ty" "client_enabled ?old (?k, ?ck)"
             "\<not> refEnable (info_of ?s ?k) > 1" "\<not> refLoad ?s > 1" by blast
  then show ?thesis
  proof cases
    case unsup
    then have "ret \<noteq> DH_FWK_SUCCESS \<and> core w' = core w" using E by (simp add: DisableSinkInternal_def)
    then show ?thesis using ok by (intro outcome_same(1)) simp_all
  next
    case off
    then have "ret = DH_FWK_SUCCESS" "core w' = core (put_sink ?ty ?s w)"
      using E by (auto simp: DisableSinkInternal_def Let_def)
    then show ?thesis using off ok by (intro sink_done(1)) simp_all
  next
    case more
    then have "ret = DH_FWK_SUCCESS" "core w' = core (put_sink ?ty (client_off (?k, ?ck) ?s) w)"
      using E by (auto simp: DisableSinkInternal_def Let_def client_steps)
    then show ?thesis using more(2) ok by (intro sink_done(3)) simp_all
  next
    case last
    have f: "set_client ?k ?ck DISABLED (\<lambda>_. 0) ?s = client_off (?k, ?ck) ?s"
      by (rule touched_last[OF so]) (use last in auto)
    from E last S c3 have
      "(ret \<noteq> DH_FWK_SUCCESS \<and> core w' = core (put_sink ?ty ?s w)) \<or>
       (ret = DH_FWK_SUCCESS \<and> core w' = core (put_sink ?ty (client_off (?k, ?ck) ?s) w))"
      by (auto simp: DisableSinkInternal_def Let_def f c3' split: if_splits)
    then show ?thesis using last(2) ok by (auto intro: sink_done(1) sink_done(3))
  qed
qed

lemma DisableSink_outcome:
  assumes "DisableSink C d uid pid w = (ret, w')" "refs_ok w"
  shows "sink_outcome ret (dd_dhType d) (dd_id d, DHStatusCtrlKey uid pid) False w w'"
  using assms(1)
  by (auto simp: DisableSink_def split: prod.splits if_splits option.splits
      dest!: DisableSinkInternal_outcome[OF _ assms(2)] intro: sink_outcome_void)

section \<open>Source operations\<close>

lemma RealEnableSource_result:
  "RealEnableSource C n u d ck s a cp w = (ret, w') \<Longrightarrow>
   (ret \<noteq> DH_FWK_SUCCESS \<and> core w' = core w) \<or>
   (ret = DH_FWK_SUCCESS \<and> core w' = core (put_source (dd_dhType d)
      (set_client (DHStatusSourceEnableInfoKey n (dd_id d)) ck ENABLED (\<lambda>_. 1) s) w))"
  by (auto simp: RealEnableSource_def split: prod.splits if_splits dest!: core_rules intro: core_eqD(5))

lemma RealDisableSource_result:
  "RealDisableSource C n u d ck s w = (ret, w') \<Longrightarrow>
   (ret \<noteq> DH_FWK_SUCCESS \<and> core w' = core w) \<or>
   (ret = DH_FWK_SUCCESS \<and> core w' = core (put_source (dd_dhType d)
      (set_client (DHStatusSourceEnableInfoKey n (dd_id d)) ck DISABLED (\<lambda>_. 0) s) w))"
  by (auto simp: RealDisableSource_def split: prod.splits if_splits dest!: core_rules intro: core_eqD(5))

text \<open>
  A source operation in the abstract: after the early exits it has touched its client, and then takes
  one of three branches.
\<close>

lemma source_on_branches:
  assumes ok: "refs_ok w" and "k = fst c" "ck = snd c" "s = touch_client k ck (source_status ty w)"
    and R: "(ret \<noteq> DH_FWK_SUCCESS \<and> core w' = core (put_source ty s w))
      \<or> (ret = DH_FWK_SUCCESS \<and> client_enabled s c \<and> core w' = core (put_source ty s w))
      \<or> (ret = DH_FWK_SUCCESS \<and> \<not> client_enabled s c
          \<and> core w' = core (put_source ty (set_client k ck ENABLED (\<lambda>n. n + 1) s) w))
      \<or> (ret = DH_FWK_SUCCESS \<and> \<not> client_enabled s c \<and> refEnable (info_of s k) = 0 \<and> refLoad s = 0
          \<and> core w' = core (put_source ty (set_client k ck ENABLED (\<lambda>_. 1) s) w))"
  shows "source_outcome ret ty c True w w'"
proof -
  have s: "set_client k ck ENABLED (\<lambda>n. n + 1) s = client_on c s" using assms(2,3) by (simp add: client_on_def)
  have f: "set_client k ck ENABLED (\<lambda>_. 1) s = client_on c s" if "refEnable (info_of s k) = 0" "refLoad s = 0"
    using that assms(2,3) by (simp add: first_client)
  have e: "client_enabled s c \<longleftrightarrow> client_enabled (source_status ty w) c" by (simp add: assms(4))
  note nn = source_done[where w = w and ty = ty and k = k and ck = ck, folded assms(4)]
  from R show ?thesis
  proof (elim disjE conjE)
    assume "ret \<noteq> DH_FWK_SUCCESS" "core w' = core (put_source ty s w)"
    then show ?thesis using ok by (intro nn(1)) simp_all
  next
    assume "ret = DH_FWK_SUCCESS" "client_enabled s c" "core w' = core (put_source ty s w)"
    then show ?thesis using ok e by (intro nn(1)) simp_all
  next
    assume "ret = DH_FWK_SUCCESS" "\<not> client_enabled s c"
      "core w' = core (put_source ty (set_client k ck ENABLED (\<lambda>n. n + 1) s) w)"
    then show ?thesis using ok e by (intro nn(2)) (simp_all add: s)
  next
    assume "ret = DH_FWK_SUCCESS" "\<not> client_enabled s c" "refEnable (info_of s k) = 0" "refLoad s = 0"
      "core w' = core (put_source ty (set_client k ck ENABLED (\<lambda>_. 1) s) w)"
    then show ?thesis using ok e by (intro nn(2)) (simp_all add: f)
  qed
qed

lemma source_off_branches:
  assumes ok: "refs_ok w" and "k = fst c" "ck = snd c" "s = touch_client k ck (source_status ty w)"
    and R: "(ret \<noteq> DH_FWK_SUCCESS \<and> core w' = core (put_source ty s w))
      \<or> (ret = DH_FWK_SUCCESS \<and> \<not> client_enabled s c \<and> core w' = core (put_source ty s w))
      \<or> (ret = DH_FWK_SUCCESS \<and> client_enabled s c
          \<and> core w' = core (put_source ty (set_client k ck DISABLED (\<lambda>n. n - 1) s) w))
      \<or> (ret = DH_FWK_SUCCESS \<and> client_enabled s c \<and> \<not> refLoad s > 1
          \<and> core w' = core (put_source ty (set_client k ck DISABLED (\<lambda>_. 0) s) w))"
  shows "source_outcome ret ty c False w w'"
proof -
  have s: "set_client k ck DISABLED (\<lambda>n. n - 1) s = client_off c s" using assms(2,3) by (simp add: client_off_def)
  have so: "status_ok (source_status ty w)" by (rule refs_ok_status(2)[OF ok])
  have f: "set_client k ck DISABLED (\<lambda>_. 0) s = client_off c s" if "client_enabled s c" "\<not> refLoad s > 1"
    using touched_last[OF so, of k ck] that assms(2-4) by (cases c) simp
  have e: "client_enabled s c \<longleftrightarrow> client_enabled (source_status ty w) c" by (simp add: assms(4))
  note nn = source_done[where w = w and ty = ty and k = k and ck = ck, folded assms(4)]
  from R show ?thesis
  proof (elim disjE conjE)
    assume "ret \<noteq> DH_FWK_SUCCESS" "core w' = core (put_source ty s w)"
    then show ?thesis using ok by (intro nn(1)) simp_all
  next
    assume "ret = DH_FWK_SUCCESS" "\<not> client_enabled s c" "core w' = core (put_source ty s w)"
    then show ?thesis using ok e by (intro nn(1)) simp_all
  next
    assume "ret = DH_FWK_SUCCESS" "client_enabled s c"
      "core w' = core (put_source ty (set_client k ck DISABLED (\<lambda>n. n - 1) s) w)"
    then show ?thesis using ok e by (intro nn(3)) (simp_all add: s)
  next
    assume "ret = DH_FWK_SUCCESS" "client_enabled s c" "\<not> refLoad s > 1"
      "core w' = core (put_source ty (set_client k ck DISABLED (\<lambda>_. 0) s) w)"
    then show ?thesis using ok e by (intro nn(3)) (simp_all add: f)
  qed
qed

lemma EnableSourceInternal_outcome:
  assumes E: "EnableSourceInternal C n d uid pid w = (ret, l, w')" and ok: "refs_ok w"
  shows "source_outcome ret (dd_dhType d) (DHStatusSourceEnableInfoKey n (dd_id d), DHStatusCtrlKey uid pid) True w w'"
proof -
  let ?ty = "dd_dhType d" and ?k = "DHStatusSourceEnableInfoKey n (dd_id d)" and ?ck = "DHStatusCtrlKey uid pid"
  obtain g w1 where G: "CheckEnableSourceParam C n d w = (g, w1)" by (cases "CheckEnableSourceParam C n d w") auto
  note c1 = CheckEnableSourceParam_core[OF G]
  note s1 = core_eqD(3)[OF c1, of ?ty] and put = core_eqD(5)[OF c1]
  define s where "s = touch_client ?k ?ck (source_status ?ty w)"
  let ?w2 = "put_source ?ty s w1" and ?a = "uid \<noteq> 0 \<or> pid \<noteq> 0" and ?u = "GetUUIDByNetworkId n (fw_ctx w1)"
  obtain r3 w3 where S: "Enable C n ?u (dd_id d) ?ty ?a (dd_customParams d) ?w2 = (r3, w3)"
    by (cases "Enable C n ?u (dd_id d) ?ty ?a (dd_customParams d) ?w2") auto
  obtain r4 w4 where R: "RealEnableSource C n ?u d ?ck s ?a (dd_customParams d) ?w2 = (r4, w4)"
    by (cases "RealEnableSource C n ?u d ?ck s ?a (dd_customParams d) ?w2") auto
  have c3: "core w3 = core (put_source ?ty s w)" using Enable_core[OF S] put by simp
  have c3': "core (put_source ?ty x w3) = core (put_source ?ty x w)" for x
    using core_eqD(5)[OF c3, of ?ty x] by simp
  note r4 = RealEnableSource_result[OF R, simplified put put_put_core]
  show ?thesis
  proof (cases "g = DH_FWK_SUCCESS")
    case False
    then have "ret \<noteq> DH_FWK_SUCCESS \<and> core w' = core w" using E G c1 by (simp add: EnableSourceInternal_def)
    then show ?thesis using ok by (intro outcome_same(2)) simp_all
  next
    case True
    note U = E[unfolded EnableSourceInternal_def G prod.case Let_def s1, folded s_def]
    show ?thesis
    proof (rule source_on_branches[OF ok, where k = ?k and ck = ?ck and s = s])
      show "s = touch_client ?k ?ck (source_status ?ty w)" by (rule s_def)
    qed (use U True S R c3 c3' r4 put in
        \<open>auto simp: CheckSourceRepeatRef_def split: if_splits prod.splits\<close>)
  qed
qed

lemma EnableSource_outcome:
  assumes "EnableSource C n d uid pid w = (ret, w')" "refs_ok w"
  shows "source_outcome ret (dd_dhType d) (DHStatusSourceEnableInfoKey n (dd_id d), DHStatusCtrlKey uid pid) True w w'"
  using assms(1)
  by (auto simp: EnableSource_def split: prod.splits if_splits option.splits
      dest!: EnableSourceInternal_outcome[OF _ assms(2)] intro: source_outcome_void)

lemma DisableSourceInternal_outcome:
  assumes E: "DisableSourceInternal C n d uid pid w = (ret, l, w')" and ok: "refs_ok w"
  shows "source_outcome ret (dd_dhType d) (DHStatusSourceEnableInfoKey n (dd_id d), DHStatusCtrlKey uid pid) False w w'"
proof -
  let ?ty = "dd_dhType d" and ?k = "DHStatusSourceEnableInfoKey n (dd_id d)" and ?ck = "DHStatusCtrlKey uid pid"
  define s where "s = touch_client ?k ?ck (source_status ?ty w)"
  let ?w1 = "put_source ?ty s w" and ?u = "GetUUIDByNetworkId n (fw_ctx w)"
  obtain r3 w3 where S: "Disable C n ?u (dd_id d) ?ty ?w1 = (r3, w3)"
    by (cases "Disable C n ?u (dd_id d) ?ty ?w1") auto
  obtain r4 w4 where R: "RealDisableSource C n ?u d ?ck s ?w1 = (r4, w4)"
    by (cases "RealDisableSource C n ?u d ?ck s ?w1") auto
  note c3 = Disable_core[OF S]
  have c3': "core (put_source ?ty x w3) = core (put_source ?ty x w)" for x
    using core_eqD(5)[OF c3, of ?ty x] by simp
  note r4 = RealDisableSource_result[OF R, simplified put_put_core]
  show ?thesis
  proof (cases "e_IsDHTypeSupport (c_E C) ?ty")
    case False
    then have "ret \<noteq> DH_FWK_SUCCESS \<and> core w' = core w" using E by (simp add: DisableSourceInternal_def)
    then show ?thesis using ok by (intro outcome_same(2)) simp_all
  next
    case True
    note U = E[unfolded DisableSourceInternal_def Let_def, folded s_def]
    show ?thesis
    proof (rule source_off_branches[OF ok, where k = ?k and ck = ?ck and s = s])
      show "s = touch_client ?k ?ck (source_status ?ty w)" by (rule s_def)
    qed (use U True S R c3 c3' r4 in \<open>auto split: if_splits prod.splits\<close>)
  qed
qed

lemma DisableSource_outcome:
  assumes "DisableSource C n d uid pid w = (ret, w')" "refs_ok w"
  shows "source_outcome ret (dd_dhType d) (DHStatusSourceEnableInfoKey n (dd_id d), DHStatusCtrlKey uid pid) False w w'"
  using assms(1)
  by (auto simp: DisableSource_def split: prod.splits if_splits option.splits
      dest!: DisableSourceInternal_outcome[OF _ assms(2)] intro: source_outcome_void)

section \<open>The modem on the source side\<close>

lemma EnableMetaSource_outcome:
  assumes E: "EnableMetaSource C n d w = (ret, w')" and ok: "refs_ok w"
  shows "source_outcome ret (dd_dhType d) (DHStatusSourceEnableInfoKey n (dd_id d), DHStatusCtrlKey 0 0) True w w'"
proof -
  let ?ty = "dd_dhType d" and ?k = "DHStatusSourceEnableInfoKey n (dd_id d)" and ?ck = "DHStatusCtrlKey 0 0"
  define s where "s = touch_client ?k ?ck (source_status ?ty w)"
  let ?w1 = "put_source ?ty s w"
  have nn: "0 \<le> refEnable (info_of s ?k)" "0 \<le> refLoad s"
    using ref_nonneg[OF status_ok_info[OF refs_ok_status(2)[OF ok]]] refs.load_nonneg[OF refs_ok_status(2)[OF ok]]
    by (simp_all add: s_def)
  obtain r3 w3 where S: "call_ret C (EC_Modem ENABLED n) ?w1 = (r3, w3)" by (cases "call_ret C (EC_Modem ENABLED n) ?w1") auto
  note c3 = core_calls_eq(1)[OF S]
  have c3': "core (put_source ?ty x w3) = core (put_source ?ty x w)" for x
    using core_eqD(5)[OF c3, of ?ty x] by simp
  have r4: "(r \<noteq> DH_FWK_SUCCESS \<and> core v = core ?w1) \<or>
      (r = DH_FWK_SUCCESS \<and> core v = core (put_source ?ty (set_client ?k ?ck ENABLED (\<lambda>_. 1) s) w))"
    if "EnableMetaSourceInternal C n d ?ck s ?w1 = (r, v)" for r v
    using that by (auto simp: EnableMetaSourceInternal_def split: prod.splits if_splits dest!: core_rules
        intro: put_over)
  note U = E[unfolded EnableMetaSource_def Let_def, folded s_def]
  show ?thesis
  proof (rule source_on_branches[OF ok, where k = ?k and ck = ?ck and s = s])
    show "s = touch_client ?k ?ck (source_status ?ty w)" by (rule s_def)
  qed (use U S c3 c3' nn in \<open>auto split: if_splits prod.splits dest!: r4\<close>)
qed

lemma DisableMetaSource_outcome:
  assumes E: "DisableMetaSource C n d w = (ret, w')" and ok: "refs_ok w"
  shows "source_outcome ret (dd_dhType d) (DHStatusSourceEnableInfoKey n (dd_id d), DHStatusCtrlKey 0 0) False w w'"
proof -
  let ?ty = "dd_dhType d" and ?k = "DHStatusSourceEnableInfoKey n (dd_id d)" and ?ck = "DHStatusCtrlKey 0 0"
  define s where "s = touch_client ?k ?ck (source_status ?ty w)"
  let ?w1 = "put_source ?ty s w"
  obtain r3 w3 where S: "call_ret C (EC_Modem DISABLED n) ?w1 = (r3, w3)" by (cases "call_ret C (EC_Modem DISABLED n) ?w1") auto
  note c3 = core_calls_eq(1)[OF S]
  have c3': "core (put_source ?ty x w3) = core (put_source ?ty x w)" for x
    using core_eqD(5)[OF c3, of ?ty x] by simp
  have r4: "(r \<noteq> DH_FWK_SUCCESS \<and> core v = core ?w1) \<or>
      (r = DH_FWK_SUCCESS \<and> core v = core (put_source ?ty (set_client ?k ?ck DISABLED (\<lambda>_. 0) s) w))"
    if "DisableMetaSourceInternal C n d ?ck s ?w1 = (r, v)" for r v
    using that c3 by (auto simp: DisableMetaSourceInternal_def S split: prod.splits if_splits dest!: core_rules
        intro: put_over)
  note U = E[unfolded DisableMetaSource_def Let_def, folded s_def]
  show ?thesis
  proof (rule source_off_branches[OF ok, where k = ?k and ck = ?ck and s = s])
    show "s = touch_client ?k ?ck (source_status ?ty w)" by (rule s_def)
  qed (use U S c3 c3' in \<open>auto split: if_splits prod.splits dest!: r4\<close>)
qed

section \<open>Forced disabling\<close>

text \<open>The piece of hardware goes with all its clients, also when the component cannot be stopped then.\<close>

lemma ForceDisableSinkInternal_core:
  "ForceDisableSinkInternal C d w = (ret, ls, w') \<Longrightarrow>
   (ret \<noteq> DH_FWK_SUCCESS \<and> (core w' = core w \<or> core w' = core (put_sink (dd_dhType d) (sink_status (dd_dhType d) w) w)))
   \<or> (\<exists>i. om_get (enableInfos (sink_status (dd_dhType d) w)) (dd_id d) = Some i
        \<and> core w' = core (put_sink (dd_dhType d) (drop_info (dd_id d) i (sink_status (dd_dhType d) w)) w))"
  by (auto simp: ForceDisableSinkInternal_def Let_def split: if_splits option.splits prod.splits dest!: core_rules)

lemma ForceDisableSink_core:
  assumes "ForceDisableSink C d w = (ret, w')"
  shows "\<exists>ls w1. ForceDisableSinkInternal C d w = (ret, ls, w1) \<and> core w' = core w1"
  using assms by (auto simp: ForceDisableSink_def Let_def split: prod.splits if_splits)

lemma ForceDisableSourceInternal_core:
  "ForceDisableSourceInternal C n d w = (ret, ls, w') \<Longrightarrow>
   (ret \<noteq> DH_FWK_SUCCESS \<and> core w' = core (put_source (dd_dhType d) (source_status (dd_dhType d) w) w))
   \<or> (\<exists>i. om_get (enableInfos (source_status (dd_dhType d) w)) (DHStatusSourceEnableInfoKey n (dd_id d)) = Some i
        \<and> core w' = core (put_source (dd_dhType d)
            (drop_info (DHStatusSourceEnableInfoKey n (dd_id d)) i (source_status (dd_dhType d) w)) w))"
  by (auto simp: ForceDisableSourceInternal_def Let_def split: if_splits option.splits prod.splits
      dest!: core_rules intro: put_over)

lemma ForceDisableSource_core:
  assumes "ForceDisableSource C n d w = (ret, w')"
  shows "(ret \<noteq> DH_FWK_SUCCESS \<and> core w' = core w) \<or>
    (\<exists>ls w1. ForceDisableSourceInternal C n d w = (ret, ls, w1) \<and> core w' = core w1)"
  using assms by (auto simp: ForceDisableSource_def Let_def split: prod.splits if_splits)

definition dropped :: "int \<Rightarrow> 'k \<Rightarrow> 'k::linorder DHStatus \<Rightarrow> 'k DHStatus \<Rightarrow> bool" where
  "dropped ret k s s' =
    (status_ok s' \<and> listeners s' = listeners s
     \<and> ((client_enabled s' = (\<lambda>c. fst c \<noteq> k \<and> client_enabled s c) \<and> refLoad s' = refLoad s - refEnable (info_of s k))
        \<or> (ret \<noteq> DH_FWK_SUCCESS \<and> s' = s)))"

lemma dropped_info:
  assumes "status_ok s" "om_get (enableInfos s) k = Some i" shows "dropped ret k s (drop_info k i s)"
proof -
  have "client_enabled (drop_info k i s) = (\<lambda>c. fst c \<noteq> k \<and> client_enabled s c)"
    by (rule ext) (simp add: client_enabled_drop assms(2))
  moreover have "refLoad (drop_info k i s) = refLoad s - refEnable (info_of s k)"
    "listeners (drop_info k i s) = listeners s"
    by (simp_all add: drop_info_def info_of_def assms(2))
  ultimately show ?thesis using assms by (simp add: dropped_def status_ok_drop)
qed

lemma ForceDisableSink_dropped:
  assumes F: "ForceDisableSink C d w = (ret, w')" and ok: "refs_ok w"
  shows "refs_ok w' \<and> dropped ret (dd_id d) (sink_status (dd_dhType d) w) (sink_status (dd_dhType d) w')
    \<and> (\<forall>t. t \<noteq> dd_dhType d \<longrightarrow> sink_status t w' = sink_status t w) \<and> (\<forall>t. source_status t w' = source_status t w)
    \<and> snd (core w') = snd (core w)"
proof -
  let ?ty = "dd_dhType d"
  note so = refs_ok_status(1)[OF ok, of ?ty]
  obtain ls w1 where I: "ForceDisableSinkInternal C d w = (ret, ls, w1)" and c: "core w' = core w1"
    using ForceDisableSink_core[OF F] by blast
  from ForceDisableSinkInternal_core[OF I] consider (same) "ret \<noteq> DH_FWK_SUCCESS" "core w1 = core w"
    | (ins) "ret \<noteq> DH_FWK_SUCCESS" "core w1 = core (put_sink ?ty (sink_status ?ty w) w)"
    | (drop) i where "om_get (enableInfos (sink_status ?ty w)) (dd_id d) = Some i"
        "core w1 = core (put_sink ?ty (drop_info (dd_id d) i (sink_status ?ty w)) w)" by blast
  then show ?thesis
  proof cases
    case same
    then have cc: "core w' = core w" using c by simp
    show ?thesis using same(1) ok so by (simp only: core_eqD[OF cc]) (simp add: dropped_def)
  next
    case ins
    then have cc: "core w' = core (put_sink ?ty (sink_status ?ty w) w)" using c by simp
    show ?thesis using ins(1) ok so by (simp only: core_eqD[OF cc]) (simp add: dropped_def refs_ok_put)
  next
    case drop
    then have cc: "core w' = core (put_sink ?ty (drop_info (dd_id d) i (sink_status ?ty w)) w)" using c by simp
    show ?thesis using drop(1) ok so
      by (simp only: core_eqD[OF cc]) (simp add: dropped_info refs_ok_put status_ok_drop)
  qed
qed

lemma ForceDisableSource_dropped:
  assumes F: "ForceDisableSource C n d w = (ret, w')" and ok: "refs_ok w"
  shows "refs_ok w'
    \<and> dropped ret (DHStatusSourceEnableInfoKey n (dd_id d)) (source_status (dd_dhType d) w) (source_status (dd_dhType d) w')
    \<and> (\<forall>t. t \<noteq> dd_dhType d \<longrightarrow> source_status t w' = source_status t w) \<and> (\<forall>t. sink_status t w' = sink_status t w)
    \<and> snd (core w') = snd (core w)"
proof -
  let ?ty = "dd_dhType d" and ?k = "DHStatusSourceEnableInfoKey n (dd_id d)"
  note so = refs_ok_status(2)[OF ok, of ?ty]
  consider (same) "ret \<noteq> DH_FWK_SUCCESS" "core w' = core w"
    | (ins) "ret \<noteq> DH_FWK_SUCCESS" "core w' = core (put_source ?ty (source_status ?ty w) w)"
    | (drop) i where "om_get (enableInfos (source_status ?ty w)) ?k = Some i"
        "core w' = core (put_source ?ty (drop_info ?k i (source_status ?ty w)) w)"
    using ForceDisableSource_core[OF F] ForceDisableSourceInternal_core by metis
  then show ?thesis
  proof cases
    case same
    then show ?thesis using ok so by (simp only: core_eqD[OF same(2)]) (simp add: dropped_def)
  next
    case ins
    then show ?thesis using ok so by (simp only: core_eqD[OF ins(2)]) (simp add: dropped_def refs_ok_put)
  next
    case drop
    then show ?thesis using ok so
      by (simp only: core_eqD[OF drop(2)]) (simp add: dropped_info refs_ok_put status_ok_drop)
  qed
qed

section \<open>Status listeners\<close>

lemma status_ok_listeners: "status_ok s \<Longrightarrow> om_ok ls \<Longrightarrow> status_ok (s\<lparr>listeners := ls\<rparr>)"
  by (simp add: status_ok_def)

lemma status_ok_listenersD: "status_ok s \<Longrightarrow> om_ok (listeners s)"
  by (simp add: status_ok_def)

lemma register_listeners_ok: "register_listeners ck l tys m = (r, m') \<Longrightarrow> counts_ok m \<Longrightarrow> counts_ok m'"
  by (induction ck l tys m rule: register_listeners.induct)
    (auto simp: Let_def split: if_splits intro!: counts_ok_put status_of_ok status_ok_listeners om_ok_put
      dest: status_of_ok status_ok_listenersD)

lemma unregister_listeners_ok: "unregister_listeners ck tys m = (r, m') \<Longrightarrow> counts_ok m \<Longrightarrow> counts_ok m'"
  by (induction ck tys m rule: unregister_listeners.induct)
    (auto simp: Let_def split: if_splits intro!: counts_ok_put status_of_ok status_ok_listeners om_ok_del
      dest: status_of_ok status_ok_listenersD)

lemma listener_ops_ok:
  "refs_ok w \<Longrightarrow> refs_ok (snd (RegisterDHStatusListener_sink C l u p w))"
  "refs_ok w \<Longrightarrow> refs_ok (snd (UnregisterDHStatusListener_sink C u p w))"
  "refs_ok w \<Longrightarrow> refs_ok (snd (RegisterDHStatusListener_source C n l u p w))"
  "refs_ok w \<Longrightarrow> refs_ok (snd (UnregisterDHStatusListener_source C n u p w))"
  by (auto simp: RegisterDHStatusListener_sink_def UnregisterDHStatusListener_sink_def
      RegisterDHStatusListener_source_def UnregisterDHStatusListener_source_def refs_ok_def upd_cm_def
      split: prod.splits dest: register_listeners_ok unregister_listeners_ok)

end
