(* ===== verification/System.thy ===== *)
theory System
  imports Tasks Component_Refs
begin

text \<open>
  The service as a whole: its state is the record \<open>fwk\<close> and the tasks in flight, and its steps are
  the events it handles, the turns of the executor and the runs of the tasks.  The theory proves that
  one invariant holds in every reachable state: the reference counts of both sides, the task board and
  queue, and the set of online devices.
\<close>

section \<open>Recovery\<close>

text \<open>Creating a task touches neither the component manager nor the context of devices.\<close>

lemma fresh_task_frame:
  "fresh_task C ty tp w = (p, w') \<Longrightarrow> fw_cm w' = fw_cm w \<and> fw_ctx w' = fw_ctx w \<and> fw_meta w' = fw_meta w"
  by (cases ty) (auto simp: fresh_task_def CreateEnableTask_def CreateDisableTask_def Task_ctor_def Let_def upd_task_def)

lemma link_father_frame:
  "fw_cm (link_father ty f p w) = fw_cm w" "fw_ctx (link_father ty f p w) = fw_ctx w"
  "fw_meta (link_father ty f p w) = fw_meta w"
  by (simp_all add: link_father_def SetFatherTask_def AddChildrenTask_def OffLineTask_AddChildrenTask_def
      Task_AddChildrenTask_def Let_def split: option.split)

lemma CreateTask_frame:
  "CreateTask C ty tp f w = (t, w') \<Longrightarrow> fw_cm w' = fw_cm w \<and> fw_ctx w' = fw_ctx w \<and> fw_meta w' = fw_meta w"
  by (auto simp: CreateTask_unfold AddTask_def Let_def link_father_frame split: if_splits prod.splits
      dest!: fresh_task_frame)

lemma PushTask_frame [simp]:
  "fw_cm (PushTask t w) = fw_cm w" "fw_ctx (PushTask t w) = fw_ctx w" "fw_meta (PushTask t w) = fw_meta w"
  by (auto simp: PushTask_def split: option.splits)

lemma create_and_push_frame [simp]:
  "fw_cm (create_and_push C ty tp w) = fw_cm w" "fw_ctx (create_and_push C ty tp w) = fw_ctx w"
  "fw_meta (create_and_push C ty tp w) = fw_meta w"
  unfolding create_and_push_def Let_def by (auto split: prod.splits dest: CreateTask_frame)

lemma create_child_frame [simp]:
  "fw_cm (create_child C ty f tp w) = fw_cm w" "fw_ctx (create_child C ty f tp w) = fw_ctx w"
  "fw_meta (create_child C ty f tp w) = fw_meta w"
  unfolding create_child_def Let_def by (auto split: prod.splits dest: CreateTask_frame)

lemma fold_frame:
  assumes "\<And>x w. g (f x w) = g w" shows "g (fold f xs w) = g w"
  by (induction xs arbitrary: w) (simp_all add: assms)

lemma RecoverAuto_cm [simp]:
  "fw_cm (RecoverAutoEnableSink C ty w) = fw_cm w" "fw_cm (RecoverAutoEnableSource C ty w) = fw_cm w"
  unfolding RecoverAutoEnableSink_def RecoverAutoEnableSource_def Let_def
  by (rule fold_frame; auto split: prod.splits)+

definition sink_map :: "'s fwk \<Rightarrow> (DHType, DHSinkStatus) omap" where
  "sink_map w = cm_dhSinkStatus (fw_cm w)"

definition source_map :: "'s fwk \<Rightarrow> (DHType, DHSourceStatus) omap" where
  "source_map w = cm_dhSourceStatus (fw_cm w)"

definition at_type :: "('k DHStatus \<Rightarrow> 'k DHStatus) \<Rightarrow> DHType \<Rightarrow> (DHType, 'k DHStatus) omap \<Rightarrow> (DHType, 'k DHStatus) omap" where
  "at_type f ty m = (case om_get m ty of None \<Rightarrow> m | Some s \<Rightarrow> om_put ty (f s) m)"

lemma maps_core: "core w' = core w \<Longrightarrow> sink_map w' = sink_map w \<and> source_map w' = source_map w"
  by (simp add: core_def sink_map_def source_map_def)

lemma Reset_maps:
  "sink_map (ResetSinkEnableStatus C ty k w) = at_type reset_status ty (sink_map w)"
  "source_map (ResetSinkEnableStatus C ty k w) = source_map w"
  "source_map (ResetSourceEnableStatus C ty k w) = at_type reset_status ty (source_map w)"
  "sink_map (ResetSourceEnableStatus C ty k w) = sink_map w"
proof -
  obtain r w1 where U: "UninitCompSink C ty k w = (r, w1)" by (cases "UninitCompSink C ty k w") auto
  obtain r2 w2 where V: "UninitCompSource C ty k w = (r2, w2)" by (cases "UninitCompSource C ty k w") auto
  note m = maps_core[OF UninitCompSink_core[OF U]] maps_core[OF UninitCompSource_core[OF V]]
  show "sink_map (ResetSinkEnableStatus C ty k w) = at_type reset_status ty (sink_map w)"
    "source_map (ResetSinkEnableStatus C ty k w) = source_map w"
    "source_map (ResetSourceEnableStatus C ty k w) = at_type reset_status ty (source_map w)"
    "sink_map (ResetSourceEnableStatus C ty k w) = sink_map w"
    using m by (auto simp: ResetSinkEnableStatus_def ResetSourceEnableStatus_def U V Let_def at_type_def
        sink_map_def source_map_def put_sink_def put_source_def upd_cm_def split: option.splits)
qed

lemma fold_create_cm: "fw_cm (fold (\<lambda>x. create_and_push C ty (f x)) xs w) = fw_cm w"
  by (rule fold_frame) simp

lemma RecoverActive_maps:
  "sink_map (RecoverActiveEnableSink C ty w) = at_type disable_active ty (sink_map w)"
  "source_map (RecoverActiveEnableSink C ty w) = source_map w"
  "source_map (RecoverActiveEnableSource C ty w) = at_type disable_active ty (source_map w)"
  "sink_map (RecoverActiveEnableSource C ty w) = sink_map w"
  by (auto simp: RecoverActiveEnableSink_def RecoverActiveEnableSource_def at_type_def sink_map_def source_map_def
      fold_create_cm put_sink_def put_source_def upd_cm_def split: option.splits)

lemma RecoverAuto_maps [simp]:
  "sink_map (RecoverAutoEnableSink C ty w) = sink_map w" "sink_map (RecoverAutoEnableSource C ty w) = sink_map w"
  "source_map (RecoverAutoEnableSink C ty w) = source_map w"
  "source_map (RecoverAutoEnableSource C ty w) = source_map w"
  by (simp_all add: sink_map_def source_map_def)

lemma at_type_ok:
  assumes "counts_ok m" shows "counts_ok (at_type disable_active ty (at_type reset_status ty m))"
proof (cases "om_get m ty")
  case (Some s)
  then have "status_ok s" using assms by (auto simp: counts_ok_def list_all_iff dest!: map_of_SomeD)
  then have "status_ok (disable_active (reset_status s))" by (intro recovered_ok status_ok_shape)
  then show ?thesis using assms by (simp add: at_type_def Some counts_ok_put)
qed (simp add: at_type_def assms)

lemma DoRecover_maps:
  "sink_map (DoRecover C ty w) = at_type disable_active ty (at_type reset_status ty (sink_map w))"
  "source_map (DoRecover C ty w) = at_type disable_active ty (at_type reset_status ty (source_map w))"
  by (simp_all add: DoRecover_def Let_def RecoverActive_maps Reset_maps)

lemma refs_ok_maps: "refs_ok w \<longleftrightarrow> counts_ok (sink_map w) \<and> counts_ok (source_map w)"
  by (simp add: refs_ok_def sink_map_def source_map_def)

lemma DoRecover_refs: "refs_ok w \<Longrightarrow> refs_ok (DoRecover C ty w)"
  by (simp add: refs_ok_maps DoRecover_maps at_type_ok)

section \<open>The invariant\<close>

definition fwk_ok :: "platform \<Rightarrow> 's fwk \<Rightarrow> bool" where
  "fwk_ok P w = (refs_ok w \<and> tasks_ok w \<and> ctx_ok P (fw_ctx w))"

lemma ctx_ok_devInfo: "ctx_ok P (c\<lparr>ctx_devInfo := d\<rparr>) = ctx_ok P c"
  by (simp add: ctx_ok_def)

lemma ctx_ok_core: "snd (core w') = snd (core w) \<Longrightarrow> ctx_ok P (fw_ctx w') = ctx_ok P (fw_ctx w)"
  unfolding core_def snd_conv prod.inject using ctx_ok_devInfo by metis

lemma tasks_ok_core: "snd (core w') = snd (core w) \<Longrightarrow> tasks_ok w' = tasks_ok w"
  unfolding core_def snd_conv prod.inject by (simp add: tasks_ok_def GetTask_def)

lemma fwk_ok_core:
  assumes "core w' = core w" shows "fwk_ok P w' = fwk_ok P w"
  using ctx_ok_core[OF core_eqD(6)[OF assms]] tasks_ok_core[OF core_eqD(6)[OF assms]]
  by (simp add: fwk_ok_def core_eqD(1)[OF assms])

lemma fwk_ok_coreI: "fwk_ok P w \<Longrightarrow> core w' = core w \<Longrightarrow> fwk_ok P w'"
  by (simp add: fwk_ok_core[of w' w])

lemma fwk_ok_refs: "fwk_ok P w \<Longrightarrow> refs_ok w' \<Longrightarrow> snd (core w') = snd (core w) \<Longrightarrow> fwk_ok P w'"
  using ctx_ok_core[of w' w P] tasks_ok_core[of w' w] by (simp add: fwk_ok_def)

lemma fwk_ok_ctx: "fwk_ok P w \<Longrightarrow> ctx_ok P c \<Longrightarrow> fwk_ok P (w\<lparr>fw_ctx := c\<rparr>)"
  by (simp add: fwk_ok_def refs_ok_def tasks_ok_def GetTask_def)

lemma fwk_okD: "fwk_ok P w \<Longrightarrow> refs_ok w" "fwk_ok P w \<Longrightarrow> tasks_ok w" "fwk_ok P w \<Longrightarrow> ctx_ok P (fw_ctx w)"
  by (simp_all add: fwk_ok_def)

lemma fwk_ok_tasks:
  "fwk_ok P w \<Longrightarrow> tasks_ok w' \<Longrightarrow> fw_cm w' = fw_cm w \<Longrightarrow> fw_ctx w' = fw_ctx w \<Longrightarrow> fwk_ok P w'"
  by (simp add: fwk_ok_def refs_ok_def)

lemma fwk_ok_init: "fwk_ok P (fwk_init kv)"
  by (simp add: fwk_ok_def ctx_ok_init fwk_init_def refs_ok_def counts_ok_def ComponentManager_init_def tasks_ok_def)

subsection \<open>Tasks\<close>

lemma fwk_ok_create_and_push: "fwk_ok P w \<Longrightarrow> fwk_ok P (create_and_push C ty tp w)"
  by (rule fwk_ok_tasks) (simp_all add: tasks_ok_create_and_push fwk_okD)

lemma tasks_ok_create_child: "tasks_ok w \<Longrightarrow> tasks_ok (create_child C ty f tp w)"
  unfolding create_child_def Let_def
  using tasks_ok_CreateTask[of C ty tp "Some f" w] by (auto split: prod.splits intro!: tasks_ok_PushTask)

lemma fwk_ok_create_child: "fwk_ok P w \<Longrightarrow> fwk_ok P (create_child C ty f tp w)"
  by (rule fwk_ok_tasks) (simp_all add: tasks_ok_create_child fwk_okD)

lemma fwk_ok_fold: "(\<And>x w. fwk_ok P w \<Longrightarrow> fwk_ok P (f x w)) \<Longrightarrow> fwk_ok P w \<Longrightarrow> fwk_ok P (fold f xs w)"
  by (induction xs arbitrary: w) simp_all

lemma fwk_ok_SetTaskState: "fwk_ok P w \<Longrightarrow> fwk_ok P (SetTaskState p st w)"
  by (rule fwk_ok_tasks) (simp_all add: SetTaskState_def tasks_ok_upd_task fwk_okD)

lemma fwk_ok_Notify: "fwk_ok P w \<Longrightarrow> fwk_ok P (NotifyFatherFinish f i w)"
  by (rule fwk_ok_tasks) (simp_all add: NotifyFatherFinish_def tasks_ok_upd_task fwk_okD)

lemma fwk_ok_RemoveTask: "fwk_ok P w \<Longrightarrow> fwk_ok P (RemoveTask i w)"
  by (rule fwk_ok_tasks[OF _ tasks_ok_RemoveTask[OF fwk_okD(2)]]) (simp_all add: RemoveTask_def)

lemma tasks_ok_devices:
  "tasks_ok w \<Longrightarrow> om_ok m \<Longrightarrow> tasks_ok (w\<lparr>fw_board := (fw_board w)\<lparr>tb_enabledDevices := m\<rparr>\<rparr>)"
  by (simp add: tasks_ok_def GetTask_def)

lemma fwk_ok_enabled:
  "fwk_ok P w \<Longrightarrow> fwk_ok P (upd_board (SaveEnabledDevice k tp) w)"
  "fwk_ok P w \<Longrightarrow> fwk_ok P (upd_board (RemoveEnabledDevice k) w)"
  by (rule fwk_ok_tasks;
      simp add: upd_board_def SaveEnabledDevice_def RemoveEnabledDevice_def tasks_ok_devices
        om_ok_put om_ok_del fwk_okD tasks_okD(2)[OF fwk_okD(2)])+

lemma fwk_ok_finish_child: "fwk_ok P w \<Longrightarrow> fwk_ok P (finish_child t w)"
  by (auto simp: finish_child_def Let_def fwk_ok_RemoveTask fwk_ok_Notify split: option.split)

lemmas fwk_ok_task_ops = fwk_ok_create_and_push fwk_ok_create_child fwk_ok_SetTaskState fwk_ok_RemoveTask
  fwk_ok_enabled fwk_ok_finish_child

subsection \<open>Enabling and disabling\<close>

lemma fwk_ok_sink_ops:
  "fwk_ok P w \<Longrightarrow> EnableSink C d u p w = (r, w') \<Longrightarrow> fwk_ok P w'"
  "fwk_ok P w \<Longrightarrow> DisableSink C d u p w = (r, w') \<Longrightarrow> fwk_ok P w'"
  "fwk_ok P w \<Longrightarrow> ForceDisableSink C d w = (r, w') \<Longrightarrow> fwk_ok P w'"
  using EnableSink_outcome[of C d u p w r w'] DisableSink_outcome[of C d u p w r w']
    ForceDisableSink_dropped[of C d w r w']
  by (auto simp: sink_outcome_def dest: fwk_okD intro: fwk_ok_refs)

lemma fwk_ok_source_ops:
  "fwk_ok P w \<Longrightarrow> EnableSource C n d u p w = (r, w') \<Longrightarrow> fwk_ok P w'"
  "fwk_ok P w \<Longrightarrow> DisableSource C n d u p w = (r, w') \<Longrightarrow> fwk_ok P w'"
  "fwk_ok P w \<Longrightarrow> ForceDisableSource C n d w = (r, w') \<Longrightarrow> fwk_ok P w'"
  "fwk_ok P w \<Longrightarrow> EnableMetaSource C n d w = (r, w') \<Longrightarrow> fwk_ok P w'"
  "fwk_ok P w \<Longrightarrow> DisableMetaSource C n d w = (r, w') \<Longrightarrow> fwk_ok P w'"
  using EnableSource_outcome[of C n d u p w r w'] DisableSource_outcome[of C n d u p w r w']
    ForceDisableSource_dropped[of C n d w r w'] EnableMetaSource_outcome[of C n d w r w']
    DisableMetaSource_outcome[of C n d w r w']
  by (auto simp: source_outcome_def dest: fwk_okD intro: fwk_ok_refs)

lemmas fwk_ok_ops = fwk_ok_sink_ops[rotated] fwk_ok_source_ops[rotated]

lemma fwk_ok_RegisterHardware: "RegisterHardware C t w = (r, w') \<Longrightarrow> fwk_ok P w \<Longrightarrow> fwk_ok P w'"
  by (auto simp: RegisterHardware_def EnableTask_DoActiveEnable_def EnableTask_DoAutoEnable_def Let_def
      split: if_splits prod.splits dest!: fwk_ok_ops[where P = P])

lemma fwk_ok_UnRegisterHardware: "UnRegisterHardware C t w = (r, w') \<Longrightarrow> fwk_ok P w \<Longrightarrow> fwk_ok P w'"
  by (auto simp: UnRegisterHardware_def DisableTask_DoActiveDisable_def DisableTask_DoAutoDisable_def Let_def
      split: if_splits prod.splits dest!: fwk_ok_ops[where P = P])

lemma core_call_ret_snd: "core (snd (call_ret C e w)) = core w" by simp

lemma fwk_ok_MetaTasks:
  "MetaEnableTask_Enable C t w = (r, w') \<Longrightarrow> fwk_ok P w \<Longrightarrow> fwk_ok P w'"
  "MetaDisableTask_Disable C t w = (r, w') \<Longrightarrow> fwk_ok P w \<Longrightarrow> fwk_ok P w'"
  by (auto simp: MetaEnableTask_Enable_def MetaDisableTask_Disable_def Let_def
        fwk_ok_core[OF core_call_ret_snd] split: if_splits prod.splits
      dest!: core_calls_eq fwk_ok_ops[where P = P] fwk_ok_core[where P = P])

lemma fwk_ok_EnableTask: "fwk_ok P w \<Longrightarrow> fwk_ok P (EnableTask_DoTaskInner C p w)"
  by (auto simp: EnableTask_DoTaskInner_def Let_def fwk_ok_task_ops split: prod.split
      dest!: fwk_ok_RegisterHardware[where P = P])

lemma fwk_ok_DisableTask: "fwk_ok P w \<Longrightarrow> fwk_ok P (DisableTask_DoTaskInner C p w)"
  by (auto simp: DisableTask_DoTaskInner_def Let_def fwk_ok_task_ops split: prod.split
      dest!: fwk_ok_UnRegisterHardware[where P = P])

lemma fwk_ok_MetaEnableTask: "fwk_ok P w \<Longrightarrow> fwk_ok P (MetaEnableTask_DoTaskInner C p w)"
  by (auto simp: MetaEnableTask_DoTaskInner_def Let_def fwk_ok_task_ops split: prod.split
      dest!: fwk_ok_MetaTasks(1)[where P = P])

subsection \<open>Tasks of devices\<close>

lemma ctx_ok_Double: "ctx_ok P c \<Longrightarrow> IsDoubleFwkDevice n c = (b, c') \<Longrightarrow> ctx_ok P c'"
  using ctx_step_ok[OF ctx_step.intros(12), of P c n] by simp

lemma fwk_ok_MetaDisableTask: "fwk_ok P w \<Longrightarrow> fwk_ok P (MetaDisableTask_DoTaskInner C p w)"
  by (auto simp: MetaDisableTask_DoTaskInner_def Let_def fwk_ok_task_ops split: prod.split
      dest!: fwk_ok_MetaTasks(2)[where P = P]
      intro!: fwk_ok_finish_child fwk_ok_ctx ctx_step_ok[OF ctx_step.intros(11)] ctx_step_ok[OF ctx_step.intros(9)]
        fwk_okD(3) fwk_ok_SetTaskState)

lemma core_snd_ops [simp]:
  "core (snd (Local_SyncDeviceInfoFromDB C i w)) = core w" "core (snd (SyncMetaInfoFromDB C i w)) = core w"
  "core (snd (Cap_RemoveCapabilityInfoInMem i w)) = core w" "core (snd (Meta_SyncDataByNetworkId C i w)) = core w"
  "core (snd (ClearRemoteDeviceMetaInfoData C i j w)) = core w"
  "core (snd (ClearRemoteDeviceLocalInfoData C i w)) = core w"
  "core (snd (VerInfo_Init C w)) = core w" "core (snd (Cap_Init C w)) = core w" "core (snd (Meta_Init C w)) = core w"
  "core (snd (Local_Init C w)) = core w" "core (snd (VerInfo_UnInit C w)) = core w" "core (snd (Cap_UnInit C w)) = core w"
  "core (snd (Meta_UnInit C w)) = core w" "core (snd (Local_UnInit C w)) = core w"
  "core (snd (VersionManager_Init C e v w)) = core w"
  by (rule core_rules, rule surjective_pairing)+

lemma fwk_ok_OnLine_step: "fwk_ok P w \<Longrightarrow> fwk_ok P (OnLineTask_step C p st w)"
proof (cases st)
  assume w: "fwk_ok P w" "st = SYNC_ONLINE_INFO"
  show ?thesis by (rule fwk_ok_coreI[OF w(1)]) (simp add: w(2) OnLineTask_DoSyncInfo_def Let_def)
next
  assume w: "fwk_ok P w" "st = META_ENABLE_TASK"
  then show ?thesis
    by (auto simp: OnLineTask_CreateMetaEnableTask_def Let_def split: prod.split
        intro!: fwk_ok_ctx fwk_ok_create_child dest: ctx_ok_Double[OF fwk_okD(3)])
qed (auto simp: OnLineTask_CreateEnableTask_def OnLineTask_CreateEnableSinkTask_def Let_def
    intro!: fwk_ok_fold fwk_ok_create_child)

lemma fwk_ok_OnLineTask: "fwk_ok P w \<Longrightarrow> fwk_ok P (OnLineTask_DoTask C p w)"
  unfolding OnLineTask_DoTask_def Let_def
  by (intro fwk_ok_RemoveTask fwk_ok_SetTaskState fwk_ok_fold fwk_ok_OnLine_step)

lemma fwk_ok_OffLine_step: "fwk_ok P w \<Longrightarrow> fwk_ok P (OffLineTask_step C p st w)"
proof (cases st)
  assume w: "fwk_ok P w" "st = CLEAR_OFFLINE_INFO"
  show ?thesis by (rule fwk_ok_coreI[OF w(1)]) (simp add: w(2) OffLineTask_ClearOffLineInfo_def)
next
  assume w: "fwk_ok P w" "st = WAIT_UNREGISTGER_COMPLETE"
  then show ?thesis
    by (auto simp: OffLineTask_WaitDisableTaskFinish_def intro!: fwk_ok_ctx RemoveOnline_ok dest: fwk_okD)
next
  assume w: "fwk_ok P w" "st = META_DISABLE_TASK"
  then show ?thesis
    by (auto simp: OffLineTask_CreateMetaDisableTask_def Let_def split: prod.split
        intro!: fwk_ok_ctx fwk_ok_create_child dest: ctx_ok_Double[OF fwk_okD(3)])
qed (auto simp: OffLineTask_CreateDisableTask_def OffLineTask_CreateDisableSinkTask_def Let_def
    intro!: fwk_ok_fold fwk_ok_create_child)

lemma fwk_ok_OffLine_run: "fwk_ok P w \<Longrightarrow> OffLineTask_run C p sts w = (l, w') \<Longrightarrow> fwk_ok P w'"
  by (induction C p sts w rule: OffLineTask_run.induct) (auto simp: fwk_ok_OffLine_step split: if_splits)

subsection \<open>The life of the service\<close>

lemma LocalInit_core [simp]: "core (snd (LocalInit C w)) = core w"
  by (auto simp: LocalInit_def Let_def split: prod.split)

lemma Initialize_core [core_rules]: "Initialize C w = (r, w') \<Longrightarrow> core w' = core w"
  by (auto simp: Initialize_def ComponentManager_Init_def split: if_splits)

lemma Factory_Init_core [core_rules]: "Factory_Init C w = (b, w') \<Longrightarrow> core w' = core w"
  by (auto simp: Factory_Init_def CreateSaStatusHandler_def Let_def split: if_splits prod.splits dest!: core_rules)

lemma CheckExitSAOrNot_core [simp]: "core (CheckExitSAOrNot C w) = core w"
  by (auto simp: CheckExitSAOrNot_def ExitDHFWK_def DM_IsDeviceOnline_def Let_def split: prod.splits if_splits
      dest!: core_rules) (metis Factory_Init_core prod.collapse)+

lemma Release_core: "Release C w = Some w' \<Longrightarrow> core w' = core w"
  by (auto simp: Release_def ComponentManager_UnInit_def Let_def split: option.splits if_splits)

lemma Factory_UnInit_core: "Factory_UnInit C w = Some w' \<Longrightarrow> core w' = core w"
  by (auto simp: Factory_UnInit_def split: if_splits option.splits dest!: Release_core)

lemma fwk_ok_OffLine_end:
  assumes ok: "fwk_ok P w" and E: "OffLineTask_end C p w = Some w'" shows "fwk_ok P w'"
proof -
  let ?w1 = "RemoveTask (t_id (GetTask p w)) (SetTaskState p TS_SUCCESS w)"
  have "core w' = core ?w1"
    using E by (auto simp: OffLineTask_end_def Let_def split: if_splits dest: Factory_UnInit_core)
  then show ?thesis by (rule fwk_ok_coreI[rotated]) (intro fwk_ok_RemoveTask fwk_ok_SetTaskState ok)
qed

lemma fwk_ok_Manager_events:
  "fwk_ok P w \<Longrightarrow> fwk_ok P (snd (Manager_SendOnLineEvent C n u d w))"
  "fwk_ok P w \<Longrightarrow> fwk_ok P (snd (Manager_SendOffLineEvent C n u d w))"
  by (auto simp: Manager_SendOnLineEvent_def Manager_SendOffLineEvent_def fwk_ok_create_and_push
      fwk_ok_core[OF core_calls(1)])

lemma fwk_ok_SendOnLineEvent: "fwk_ok P w \<Longrightarrow> c_P C = P \<Longrightarrow> fwk_ok P (snd (SendOnLineEvent C n u d t os w))"
proof -
  assume ok: "fwk_ok P w" and P: "c_P C = P"
  define c3 where "c3 = AddOnlineDeviceOSType n os (AddOnlineDeviceType n t
    (AddRealTimeOnlineDeviceNetworkId n (AddOnlineDevice (c_P C) d u n (fw_ctx w))))"
  have "ctx_ok P c3" unfolding c3_def P
    by (intro ctx_step_ok[OF ctx_step.intros(10)] ctx_step_ok[OF ctx_step.intros(8)]
        ctx_step_ok[OF ctx_step.intros(4)] AddOnlineDevice_ok fwk_okD(3)[OF ok])
  then have ok1: "fwk_ok P (w\<lparr>fw_ctx := c3\<rparr>)" by (rule fwk_ok_ctx[OF ok])
  obtain b w2 where I: "(if fw_isInit (w\<lparr>fw_ctx := c3\<rparr>) then (True, w\<lparr>fw_ctx := c3\<rparr>)
      else Factory_Init C (w\<lparr>fw_ctx := c3\<rparr>)) = (b, w2)" by (metis prod.exhaust)
  then have c2: "core w2 = core (w\<lparr>fw_ctx := c3\<rparr>)" by (auto split: if_splits dest: Factory_Init_core)
  define w3 where "w3 = (if \<not> IsSourceEnabled w2 \<and> \<not> IsSinkActiveEnabled w2 \<and> \<not> e_AnyHdfInuse (c_E C)
    then DelaySaStatusTask (call_void (EC_Event ''SetCritical'' ''true'') w2) else w2)"
  define w4 where "w4 = (if os = -1 \<or> os = 11 then snd (ClearRemoteDeviceLocalInfoData C u
    (snd (ClearRemoteDeviceMetaInfoData C d u w3))) else w3)"
  have "core w4 = core w2" by (simp add: w4_def w3_def)
  then have ok4: "fwk_ok P w4" using c2 by (intro fwk_ok_coreI[OF ok1]) simp
  have ok2: "fwk_ok P w2" using c2 by (intro fwk_ok_coreI[OF ok1]) simp
  show ?thesis
    using ok ok2 fwk_ok_Manager_events(1)[OF ok4, of C n u d]
    unfolding SendOnLineEvent_def Let_def c3_def[symmetric] I prod.case w3_def[symmetric] w4_def[symmetric]
    by (auto split: prod.splits)
qed

lemma fwk_ok_SendOffLineEvent: "fwk_ok P w \<Longrightarrow> fwk_ok P (snd (SendOffLineEvent C n u d w))"
proof -
  assume ok: "fwk_ok P w"
  obtain b w1 where I: "(if fw_isInit w then (True, w) else Factory_Init C w) = (b, w1)" by (metis prod.exhaust)
  then have "core w1 = core w" by (auto split: if_splits dest: Factory_Init_core)
  then have ok1: "fwk_ok P w1" by (rule fwk_ok_coreI[OF ok])
  define w2 where "w2 = w1\<lparr>fw_ctx := DeleteRealTimeOnlineDeviceNetworkId n (fw_ctx w1)\<rparr>"
  have ok2: "fwk_ok P w2" unfolding w2_def
    by (intro fwk_ok_ctx[OF ok1] ctx_step_ok[OF ctx_step.intros(5)] fwk_okD(3)[OF ok1])
  define w3 where "w3 = (if GetRealTimeOnlineDeviceCount (fw_ctx w2) = 0 \<and> GetIsomerismConnectCount (fw_ctx w2) = 0
    then w2\<lparr>fw_unInitFlag := True\<rparr> else w2)"
  have "fwk_ok P w3" by (rule fwk_ok_coreI[OF ok2]) (simp add: w3_def)
  from fwk_ok_Manager_events(2)[OF this, of C n u d] show ?thesis using ok ok1
    unfolding SendOffLineEvent_def Let_def I prod.case w2_def[symmetric] w3_def[symmetric] by auto
qed

lemma fwk_ok_access:
  assumes "fwk_ok P w" "c_P C = P"
  shows "fwk_ok P (OnDeviceOnline C d w)" "fwk_ok P (OnDeviceOffline C d w)" "fwk_ok P (OnDeviceReady C b d w)"
  using assms
  by (auto simp: OnDeviceOnline_def OnDeviceOffline_def OnDeviceReady_def ActiveSyncDataByNetworkId_def Let_def
      intro: fwk_ok_SendOnLineEvent fwk_ok_SendOffLineEvent fwk_ok_coreI)

section \<open>Running tasks\<close>

text \<open>
  A task in flight has been posted by the executor; \<open>None\<close> if it has not started, else the steps the
  waiting offline task has left.  \<open>Inr\<close> of no state is the exit of the process.
\<close>

definition finish_offline ::
    "('s, 'j) config \<Rightarrow> nat \<Rightarrow> TaskStep list \<times> 's fwk \<Rightarrow> (TaskStep list \<times> 's fwk) + 's fwk option" where
  "finish_offline C p r =
    (case r of (steps, w) \<Rightarrow> if steps \<noteq> [] then Inl (steps, w) else Inr (OffLineTask_end C p w))"

definition run_task ::
    "('s, 'j) config \<Rightarrow> nat \<Rightarrow> TaskStep list option \<Rightarrow> 's fwk \<Rightarrow> (TaskStep list \<times> 's fwk) + 's fwk option" where
  "run_task C p progress w =
    (case progress of
       Some steps \<Rightarrow> finish_offline C p (OffLineTask_run C p steps w)
     | None \<Rightarrow>
        (case t_taskType (GetTask p w) of
           TT_ENABLE \<Rightarrow> Inr (Some (EnableTask_DoTaskInner C p w))
         | TT_DISABLE \<Rightarrow> Inr (Some (DisableTask_DoTaskInner C p w))
         | TT_ON_LINE \<Rightarrow> Inr (Some (OnLineTask_DoTask C p w))
         | TT_OFF_LINE \<Rightarrow> finish_offline C p (OffLineTask_begin C p w)
         | TT_META_ENABLE \<Rightarrow> Inr (Some (MetaEnableTask_DoTaskInner C p w))
         | TT_META_DISABLE \<Rightarrow> Inr (Some (MetaDisableTask_DoTaskInner C p w))
         | TT_EXIT_DFWK \<Rightarrow> Inr (Some (ExitDfwkTask_DoTaskInner C w))
         | TT_UNKNOWN \<Rightarrow> Inr (Some w)))"

lemma fwk_ok_run_task:
  assumes ok: "fwk_ok P w"
  shows "run_task C p g w = Inl (sts, w') \<Longrightarrow> fwk_ok P w'" "run_task C p g w = Inr (Some w') \<Longrightarrow> fwk_ok P w'"
proof -
  have b: "fwk_ok P v" if "OffLineTask_begin C p w = (l, v)" for l v
    using that fwk_ok_OffLine_run[OF fwk_ok_SetTaskState[OF ok]] by (auto simp: OffLineTask_begin_def)
  have r: "fwk_ok P v" if "OffLineTask_run C p l0 w = (l, v)" for l0 l v
    by (rule fwk_ok_OffLine_run[OF ok that])
  have f: "fwk_ok P v'" if "finish_offline C p q = Inl (l', v') \<or> finish_offline C p q = Inr (Some v')"
    "q = OffLineTask_begin C p w \<or> q = OffLineTask_run C p l0 w" for q l0 l' v'
  proof -
    obtain l v where q: "q = (l, v)" by (cases q)
    then have "fwk_ok P v" using that(2) b r by metis
    then show ?thesis using that(1) q
      by (auto simp: finish_offline_def split: if_splits dest: fwk_ok_OffLine_end)
  qed
  show "run_task C p g w = Inl (sts, w') \<Longrightarrow> fwk_ok P w'"
    by (auto simp: run_task_def split: option.splits TaskType.splits intro: f)
  show "run_task C p g w = Inr (Some w') \<Longrightarrow> fwk_ok P w'"
    by (auto simp: run_task_def ExitDfwkTask_DoTaskInner_def split: option.splits TaskType.splits
        intro: f fwk_ok_EnableTask fwk_ok_DisableTask fwk_ok_OnLineTask fwk_ok_MetaEnableTask fwk_ok_MetaDisableTask
          fwk_ok_coreI ok)
qed

section \<open>Change notifications\<close>

lemmas fwk_ok_caches = fwk_ok_coreI[OF _ core_upd_mgr(1)] fwk_ok_coreI[OF _ core_upd_mgr(2)]
  fwk_ok_coreI[OF _ core_upd_mgr(3)]

lemma fwk_ok_cap_loops:
  "fwk_ok P w \<Longrightarrow> fwk_ok P (HandleCapabilityAddChange C l w)"
  "fwk_ok P w \<Longrightarrow> fwk_ok P (Cap_update_loop C l w)"
  "fwk_ok P w \<Longrightarrow> fwk_ok P (Cap_delete_loop C l w)"
  by (induction l arbitrary: w)
    (auto simp: Let_def fwk_ok_caches fwk_ok_create_and_push split: prod.split)

lemma fwk_ok_meta_loops:
  "fwk_ok P w \<Longrightarrow> fwk_ok P (HandleMetaCapabilityAddChange C l w)"
  "fwk_ok P w \<Longrightarrow> fwk_ok P (HandleMetaCapabilityUpdateChange C l w)"
  "fwk_ok P w \<Longrightarrow> fwk_ok P (HandleMetaCapabilityDeleteChange C l w)"
  by (induction l arbitrary: w)
    (auto simp: Let_def fwk_ok_caches fwk_ok_create_and_push split: prod.split)

lemma fwk_ok_changes:
  assumes "fwk_ok P w"
  shows "fwk_ok P (Cap_OnChange C i u d w)" "fwk_ok P (Meta_OnChange C i u d w)"
    "fwk_ok P (Cap_OnCloudChange C ki ku kd w)" "fwk_ok P (Meta_OnCloudChange C ki ku kd w)"
  using assms
  by (simp_all add: Cap_OnChange_def Meta_OnChange_def Cap_OnCloudChange_def Meta_OnCloudChange_def Let_def
      HandleCapabilityUpdateChange_def HandleCapabilityDeleteChange_def fwk_ok_cap_loops fwk_ok_meta_loops)

section \<open>Steps\<close>

type_synonym 's system = "'s fwk \<times> (nat \<times> TaskStep list option) list"

text \<open>
  The events of the service: devices come and go, entries of the database change, clients ask for
  hardware to be enabled or disabled and register listeners, components die, the executor takes the next
  task, a task in flight runs.
\<close>

inductive fwk_step :: "('s, 'j) config \<Rightarrow> 's system \<Rightarrow> 's system \<Rightarrow> bool" for C where
  step_online: "fwk_step C (w, fl) (OnDeviceOnline C d w, fl)"
| step_offline: "fwk_step C (w, fl) (OnDeviceOffline C d w, fl)"
| step_ready: "fwk_step C (w, fl) (OnDeviceReady C b d w, fl)"
| step_thread: "fw_onlineThreads w = l1 @ (n, u, ud, ty, os) # l2 \<Longrightarrow>
    fwk_step C (w, fl) (snd (SendOnLineEvent C n u ud ty os (w\<lparr>fw_onlineThreads := l1 @ l2\<rparr>)), fl)"
| step_local_init: "fwk_step C (w, fl) (snd (InitLocalDevInfo C w), fl)"
| step_cap_change: "fwk_step C (w, fl) (Cap_OnChange C i u d w, fl)"
| step_meta_change: "fwk_step C (w, fl) (Meta_OnChange C i u d w, fl)"
| step_cap_cloud: "fwk_step C (w, fl) (Cap_OnCloudChange C ki ku kd w, fl)"
| step_meta_cloud: "fwk_step C (w, fl) (Meta_OnCloudChange C ki ku kd w, fl)"
| step_client: "ty = TT_ENABLE \<or> ty = TT_DISABLE \<Longrightarrow> fwk_step C (w, fl) (create_and_push C ty tp w, fl)"
| step_listen_sink: "fwk_step C (w, fl) (snd (RegisterDHStatusListener_sink C l uid pid w), fl)"
| step_unlisten_sink: "fwk_step C (w, fl) (snd (UnregisterDHStatusListener_sink C uid pid w), fl)"
| step_listen_source: "fwk_step C (w, fl) (snd (RegisterDHStatusListener_source C n l uid pid w), fl)"
| step_unlisten_source: "fwk_step C (w, fl) (snd (UnregisterDHStatusListener_source C n uid pid w), fl)"
| step_recover: "fwk_step C (w, fl) (DoRecover C ty w, fl)"
| step_executor: "TriggerTask_turn handler w = Some (t, w') \<Longrightarrow>
    fwk_step C (w, fl) (w', (case t of None \<Rightarrow> fl | Some p \<Rightarrow> fl @ [(p, None)]))"
| step_run: "run_task C p g w = Inr (Some w') \<Longrightarrow> fwk_step C (w, l1 @ (p, g) # l2) (w', l1 @ l2)"
| step_wait: "run_task C p g w = Inl (sts, w') \<Longrightarrow>
    fwk_step C (w, l1 @ (p, g) # l2) (w', l1 @ (p, Some sts) # l2)"

inductive fwk_reach :: "('s, 'j) config \<Rightarrow> 's system \<Rightarrow> bool" for C where
  reach_init: "fwk_reach C (fwk_init kv, [])"
| reach_step: "fwk_reach C s \<Longrightarrow> fwk_step C s s' \<Longrightarrow> fwk_reach C s'"

inductive_cases fwk_stepE: "fwk_step C s s'"

lemma listener_ops_core [simp]:
  "snd (core (snd (RegisterDHStatusListener_sink C l u p w))) = snd (core w)"
  "snd (core (snd (UnregisterDHStatusListener_sink C u p w))) = snd (core w)"
  "snd (core (snd (RegisterDHStatusListener_source C n l u p w))) = snd (core w)"
  "snd (core (snd (UnregisterDHStatusListener_source C n u p w))) = snd (core w)"
  by (simp_all add: RegisterDHStatusListener_sink_def UnregisterDHStatusListener_sink_def
      RegisterDHStatusListener_source_def UnregisterDHStatusListener_source_def core_def upd_cm_def split: prod.split)

lemma fwk_ok_listeners:
  assumes "fwk_ok P w"
  shows "fwk_ok P (snd (RegisterDHStatusListener_sink C l u p w))" "fwk_ok P (snd (UnregisterDHStatusListener_sink C u p w))"
    "fwk_ok P (snd (RegisterDHStatusListener_source C n l u p w))" "fwk_ok P (snd (UnregisterDHStatusListener_source C n u p w))"
  by (rule fwk_ok_refs[OF assms]; simp add: listener_ops_ok fwk_okD(1)[OF assms])+

lemma tasks_fold_create_and_push: "tasks_ok w \<Longrightarrow> tasks_ok (fold (\<lambda>x. create_and_push C ty (f x)) xs w)"
  by (induction xs arbitrary: w) (simp_all add: tasks_ok_create_and_push)

lemma ctx_fold_create_and_push: "fw_ctx (fold (\<lambda>x. create_and_push C ty (f x)) xs w) = fw_ctx w"
  by (rule fold_frame) simp

lemma Reset_tasks:
  "snd (core (ResetSinkEnableStatus C ty k w)) = snd (core w)"
  "snd (core (ResetSourceEnableStatus C ty k w)) = snd (core w)"
proof -
  obtain r w1 where U: "UninitCompSink C ty k w = (r, w1)" by (cases "UninitCompSink C ty k w") auto
  obtain r2 w2 where V: "UninitCompSource C ty k w = (r2, w2)" by (cases "UninitCompSource C ty k w") auto
  note m = UninitCompSink_core[OF U] UninitCompSource_core[OF V]
  show "snd (core (ResetSinkEnableStatus C ty k w)) = snd (core w)"
    "snd (core (ResetSourceEnableStatus C ty k w)) = snd (core w)"
    using m by (simp_all add: ResetSinkEnableStatus_def ResetSourceEnableStatus_def U V Let_def split: option.split)
qed

definition rest_ok :: "platform \<Rightarrow> 's fwk \<Rightarrow> bool" where
  "rest_ok P w = (tasks_ok w \<and> ctx_ok P (fw_ctx w))"

lemma rest_ok_core: "rest_ok P w \<Longrightarrow> snd (core w') = snd (core w) \<Longrightarrow> rest_ok P w'"
  using ctx_ok_core[of w' w P] tasks_ok_core[of w' w] by (simp add: rest_ok_def)

lemma rest_ok_create: "rest_ok P w \<Longrightarrow> rest_ok P (create_and_push C ty tp w)"
  by (simp add: rest_ok_def tasks_ok_create_and_push)

lemma rest_ok_fold: "(\<And>x w. rest_ok P w \<Longrightarrow> rest_ok P (f x w)) \<Longrightarrow> rest_ok P w \<Longrightarrow> rest_ok P (fold f xs w)"
  by (induction xs arbitrary: w) simp_all

lemma rest_ok_Recover:
  assumes "rest_ok P w"
  shows "rest_ok P (RecoverAutoEnableSink C ty w)" "rest_ok P (RecoverAutoEnableSource C ty w)"
    "rest_ok P (RecoverActiveEnableSink C ty w)" "rest_ok P (RecoverActiveEnableSource C ty w)"
  using assms
  by (auto simp: RecoverAutoEnableSink_def RecoverAutoEnableSource_def RecoverActiveEnableSink_def
      RecoverActiveEnableSource_def Let_def split: option.split
      intro!: rest_ok_fold rest_ok_create intro: rest_ok_core[OF _ snd_core_put(1)] rest_ok_core[OF _ snd_core_put(2)])

lemma fwk_ok_DoRecover: "fwk_ok P w \<Longrightarrow> fwk_ok P (DoRecover C ty w)"
proof -
  assume ok: "fwk_ok P w"
  then have "rest_ok P w" by (simp add: fwk_ok_def rest_ok_def)
  then have "rest_ok P (DoRecover C ty w)" unfolding DoRecover_def Let_def
    by (intro rest_ok_Recover) (erule rest_ok_core, simp add: Reset_tasks)
  then show ?thesis using DoRecover_refs[OF fwk_okD(1)[OF ok]] by (simp add: fwk_ok_def rest_ok_def)
qed

lemma fwk_ok_InitLocal: "fwk_ok P w \<Longrightarrow> fwk_ok P (snd (InitLocalDevInfo C w))"
proof -
  assume ok: "fwk_ok P w"
  obtain r w1 where L: "LocalInit C w = (r, w1)" by (cases "LocalInit C w") auto
  have "core w1 = core w" using LocalInit_core[of C w] by (simp add: L)
  then have ok1: "fwk_ok P w1" by (rule fwk_ok_coreI[OF ok])
  have ok2: "fwk_ok P w2" if "call_ret C e w1 = (x, w2)" for e x w2
    by (rule fwk_ok_coreI[OF ok1 core_calls_eq(1)[OF that]])
  show ?thesis using ok1 ok2
    by (auto simp: InitLocalDevInfo_def L DM_IsDeviceOnline_def split: prod.split intro!: fwk_ok_create_and_push)
qed

lemma fwk_ok_executor: "fwk_ok P w \<Longrightarrow> TriggerTask_turn h w = Some (t, w') \<Longrightarrow> fwk_ok P w'"
proof -
  assume ok: "fwk_ok P w" and T: "TriggerTask_turn h w = Some (t, w')"
  then obtain p w1 where "PopTask w = Some (p, w1)" and c: "core w' = core w1"
    by (auto simp: TriggerTask_turn_def split: option.splits prod.splits if_splits)
  then obtain q where w1: "fw_taskQueue w = p # q" "w1 = w\<lparr>fw_taskQueue := q\<rparr>"
    by (auto simp: PopTask_def PopQueue_def split: option.splits list.splits)
  have "tasks_ok w1" using fwk_okD(2)[OF ok] w1 by (simp add: tasks_ok_def GetTask_def)
  then have "fwk_ok P w1" using w1(2) by (intro fwk_ok_tasks[OF ok]) simp_all
  then show ?thesis by (rule fwk_ok_coreI) (rule c)
qed

lemma fwk_step_ok: "fwk_step C s s' \<Longrightarrow> fwk_ok (c_P C) (fst s) \<Longrightarrow> fwk_ok (c_P C) (fst s')"
proof (induction rule: fwk_step.induct)
  case (step_thread w l1 n u ud ty os l2 fl)
  then have "fwk_ok (c_P C) (w\<lparr>fw_onlineThreads := l1 @ l2\<rparr>)"
    by (auto intro: fwk_ok_coreI[OF _ core_updates(16)])
  then show ?case by (simp add: fwk_ok_SendOnLineEvent)
qed (auto intro: fwk_ok_access fwk_ok_InitLocal fwk_ok_changes fwk_ok_create_and_push fwk_ok_listeners
    fwk_ok_DoRecover fwk_ok_executor fwk_ok_run_task)

lemma fwk_reach_ok: "fwk_reach C s \<Longrightarrow> fwk_ok (c_P C) (fst s)"
  by (induction rule: fwk_reach.induct) (auto intro: fwk_ok_init fwk_step_ok)

end
