(* ===== verification/Demo.thy ===== *)
theory Demo
  imports System "HOL-Library.Code_Target_Nat"
begin

text \<open>
  A concrete environment, for evaluating the model: a platform whose digest is constant and whose
  identifiers are derived from the network id, a key-value store that is one list of entries, handlers
  that answer with success and results at once, and no JSON.
\<close>

definition demo_P :: platform where
  "demo_P = \<lparr>pf_digest = (\<lambda>_. replicate 32 0), pf_GetUuidByNetworkId = (\<lambda>n. (0, ''uuid'' @ n)),
     pf_GetUdidByNetworkId = (\<lambda>n. (0, ''udid'' @ n)),
     pf_GetLocalDeviceInfo = (0, \<lparr>DmLocalInfo.dm_networkId = ''me'', dm_deviceName = ''phone'', dm_deviceTypeId = 14\<rparr>),
     pf_DM_UNKNOWN = 0\<rparr>"

definition demo_J :: "unit cJSON" where
  "demo_J = \<lparr>cJSON_Parse = (\<lambda>_. None), cJSON_PrintUnformatted = (\<lambda>_. None),
     cJSON_GetObjectItem = (\<lambda>_ _. None), cJSON_GetObjectItemCaseSensitive = (\<lambda>_ _. None),
     cJSON_IsString = (\<lambda>_. False), cJSON_IsNumber = (\<lambda>_. False), cJSON_IsArray = (\<lambda>_. False), cJSON_IsBool = (\<lambda>_. False), cJSON_IsTrue = (\<lambda>_. False),
     cj_valuestring = (\<lambda>_. []), cj_valueint = (\<lambda>_. 0), cj_valuedouble = (\<lambda>_. 0), cj_items = (\<lambda>_. []),
     cJSON_CreateObject = Some (), cJSON_CreateArray = Some (), cJSON_CreateString = (\<lambda>_. ()),
     cJSON_AddStringToObject = (\<lambda>_ _ _. ()), cJSON_AddNumberToObject = (\<lambda>_ _ _. ()),
     cJSON_AddBoolToObject = (\<lambda>_ _ _. ()), cJSON_AddItemToObject = (\<lambda>_ _ _. ()), cJSON_AddItemToArray = (\<lambda>_ _. ())\<rparr>"

type_synonym demo_store = "(string, string) omap"

definition demo_K :: "demo_store KvStore" where
  "demo_K = \<lparr>kv_GetSingleKvStore = (\<lambda>s i opts p. (KV_SUCCESS, True, s)),
     kv_DeleteKvStore = (\<lambda>s i. (KV_SUCCESS, [])),
     kv_Get = (\<lambda>s i k. case om_get s k of None \<Rightarrow> (KV_NOT_FOUND, []) | Some v \<Rightarrow> (KV_SUCCESS, v)),
     kv_GetEntries = (\<lambda>s i p. (KV_SUCCESS, filter (\<lambda>(k, v). starts_with p k) s)),
     kv_Put = (\<lambda>s i k v. (KV_SUCCESS, om_put k v s)),
     kv_PutBatch = (\<lambda>s i es. (KV_SUCCESS, fold (\<lambda>(k, v). om_put k v) es s)),
     kv_Delete = (\<lambda>s i k. (KV_SUCCESS, om_del k s)),
     kv_DeleteBatch = (\<lambda>s i ks. (KV_SUCCESS, fold om_del ks s)),
     kv_RemoveDeviceData = (\<lambda>s i k. (KV_SUCCESS, s)),
     kv_Sync = (\<lambda>s i ds. (KV_SUCCESS, s)),
     kv_Subscribe = (\<lambda>s i t. (KV_SUCCESS, s)),
     kv_UnSubscribe = (\<lambda>s i t. (KV_SUCCESS, s))\<rparr>"

definition demo_cbs :: "ecall list \<Rightarrow> ecall \<Rightarrow> (string \<times> string \<times> int) list" where
  "demo_cbs tr e =
    (case e of
       EC_RegisterDistributedHardware n i p \<Rightarrow> [(n, i, 0)]
     | EC_UnregisterDistributedHardware n i \<Rightarrow> [(n, i, 0)]
     | _ \<Rightarrow> [])"

definition demo_E :: env where
  "demo_E = \<lparr>e_ret = (\<lambda>_ _. 0), e_ptr = (\<lambda>_ _. Some 0), e_fut = (\<lambda>_ _. FutReady 0), e_cbs = demo_cbs,
     e_IsDHTypeSupport = (\<lambda>_. True), e_CompTypes = [DHType_CAMERA, DHType_MODEM], e_SourceSaId = (\<lambda>_. 4801),
     e_SinkSaId = (\<lambda>_. 4802), e_CompResourceDesc = [], e_TrustedDevices = [],
     e_IsComponentSubtypeEnabled = (\<lambda>_ _ _. True),
     e_LocalDHVersion = (0, \<lparr>dv_uuid = [], dv_dhVersion = ''1.0'', dv_compVersions = []\<rparr>),
     e_AnyHdfInuse = False\<rparr>"

definition demo :: "(demo_store, unit) config" where
  "demo = \<lparr>c_P = demo_P, c_J = demo_J, c_K = demo_K, c_E = demo_E, c_rnd = (\<lambda>n. (of_nat n, 0)),
     c_junk = 0, c_open_source = True, c_check_resource = False\<rparr>"

definition demo_camera :: DHDescriptor where
  "demo_camera = \<lparr>dd_id = ''Camera_1'', dd_dhType = DHType_CAMERA, dd_customParams = [], dd_firstCallingTokenId = 0\<rparr>"

definition demo_init :: "demo_store fwk" where
  "demo_init = fwk_init []"

lemmas demo_defs = demo_def demo_P_def demo_J_def demo_K_def demo_E_def demo_cbs_def demo_camera_def demo_init_def

lemma demo_init_ok: "fwk_ok (c_P demo) demo_init" "refs_ok demo_init" "tasks_ok demo_init"
  using fwk_ok_init[of "c_P demo" "[] :: demo_store"] by (simp_all add: demo_init_def fwk_ok_def)

section \<open>A run\<close>

text \<open>A client asks for the camera of this device: the task is created, taken and run.\<close>

definition demo_pushed :: "demo_store fwk" where
  "demo_pushed = create_and_push demo TT_ENABLE
     (TaskParam_default\<lparr>tp_dhId := ''Camera_1'', tp_dhType := DHType_CAMERA, tp_effectSink := True,
        tp_callingUid := 1, tp_callingPid := 2\<rparr>) demo_init"

definition demo_popped :: "demo_store fwk" where
  "demo_popped = snd (the (TriggerTask_turn True demo_pushed))"

definition demo_enabled :: "demo_store system" where
  "demo_enabled = (case run_task demo 0 None demo_popped of Inr (Some w) \<Rightarrow> (w, []) | _ \<Rightarrow> (demo_popped, []))"

lemma demo_turn: "TriggerTask_turn True demo_pushed = Some (Some 0, demo_popped)"
proof -
  have "map_option fst (TriggerTask_turn True demo_pushed) = Some (Some 0)" by code_simp
  then show ?thesis unfolding demo_popped_def by (cases "TriggerTask_turn True demo_pushed") auto
qed

definition runs_on :: "('a + 'b option) \<Rightarrow> bool" where
  "runs_on r = (case r of Inr (Some _) \<Rightarrow> True | _ \<Rightarrow> False)"

lemma demo_run: "run_task demo 0 None demo_popped = Inr (Some (fst demo_enabled))"
proof -
  have "runs_on (run_task demo 0 None demo_popped)" by code_simp
  then show ?thesis unfolding demo_enabled_def
    by (cases "run_task demo 0 None demo_popped") (auto simp: runs_on_def split: option.splits)
qed

lemma demo_enabled_eq: "demo_enabled = (fst demo_enabled, [])"
  unfolding demo_enabled_def by (simp split: sum.split option.split)

lemma demo_reach_init: "fwk_reach demo (demo_init, [])"
  unfolding demo_init_def by (rule reach_init)

lemma demo_pushed_reach: "fwk_reach demo (demo_pushed, [])"
  unfolding demo_pushed_def by (rule reach_step[OF demo_reach_init step_client]) simp

lemma demo_popped_reach: "fwk_reach demo (demo_popped, [(0, None)])"
  using reach_step[OF demo_pushed_reach step_executor[OF demo_turn]] by simp

lemma demo_enabled_reach: "fwk_reach demo demo_enabled"
  using reach_step[OF demo_popped_reach step_run[OF demo_run, of "[]" "[]", simplified]]
  by (subst demo_enabled_eq)

end
