(* ===== verification/Component_Properties.thy ===== *)
theory Component_Properties
  imports Demo
begin

text \<open>
  The properties of the component manager: what each enable and disable operation does to the clients
  and the counts, when a component is loaded and released, and what the recovery of a dead component
  leaves.
\<close>

section \<open>Counts and clients\<close>

definition enabled_clients :: "'k DHStatus \<Rightarrow> ('k \<times> DHStatusCtrlKey) list" where
  "enabled_clients s =
    concat (map (\<lambda>(k, i). map (\<lambda>(ck, e). (k, ck)) (filter (\<lambda>(ck, e). e = ENABLED) (dhStatusCtrl i)))
      (enableInfos s))"

lemma om_sum_concat:
  "(\<And>k i. (k, i) \<in> set m \<Longrightarrow> int (length (f (k, i))) = g i) \<Longrightarrow> int (length (concat (map f m))) = om_sum g m"
proof (induction m)
  case (Cons e m)
  have "int (length (concat (map f m))) = om_sum g m" by (rule Cons.IH) (use Cons.prems in auto)
  then show ?case using Cons.prems[of "fst e" "snd e"] by (simp add: om_sum_def)
qed simp

lemma count_filter: "int (length (filter (\<lambda>(ck, e). e = ENABLED) m)) = om_sum (\<lambda>e. if e = ENABLED then 1 else 0) m"
  by (induction m) (auto simp: om_sum_def)

lemma length_enabled_clients: "status_ok s \<Longrightarrow> int (length (enabled_clients s)) = refLoad s"
  unfolding enabled_clients_def
  by (subst om_sum_concat[where g = refEnable])
    (auto simp: status_ok_def list_all_iff info_ok_def enabled_count_def count_filter)

lemma set_enabled_clients:
  assumes "status_ok s" shows "set (enabled_clients s) = {c. client_enabled s c}"
proof -
  have k: "(k, i) \<in> set (enableInfos s) \<longleftrightarrow> om_get (enableInfos s) k = Some i" for k i
    using assms by (intro om_get_in) (simp add: status_ok_def)
  have c: "(ck, e) \<in> set (dhStatusCtrl i) \<longleftrightarrow> om_get (dhStatusCtrl i) ck = Some e"
    if "(k, i) \<in> set (enableInfos s)" for k i ck e
    using assms that by (intro om_get_in) (auto simp: status_ok_def list_all_iff info_ok_def)
  have "(k, ck) \<in> set (enabled_clients s) \<longleftrightarrow>
      (\<exists>i. (k, i) \<in> set (enableInfos s) \<and> (ck, ENABLED) \<in> set (dhStatusCtrl i))" for k ck
    by (force simp: enabled_clients_def)
  then show ?thesis using k c by (auto simp: client_enabled_get)
qed

lemma distinct_enabled_clients:
  assumes "status_ok s" shows "distinct (enabled_clients s)"
proof -
  have "distinct (map fst (enableInfos s))" using assms by (simp add: status_ok_def om_ok_distinct)
  moreover have "\<forall>(k, i) \<in> set (enableInfos s). distinct (map fst (dhStatusCtrl i))"
    using assms by (auto simp: status_ok_def list_all_iff info_ok_def om_ok_distinct)
  ultimately show ?thesis unfolding enabled_clients_def
  proof (induction "enableInfos s" arbitrary: s)
    case (Cons e m)
    let ?f = "\<lambda>(k, i). map (\<lambda>(ck, e). (k, ck)) (filter (\<lambda>(ck, e). e = ENABLED) (dhStatusCtrl i))"
    have m: "m = enableInfos (s\<lparr>enableInfos := m\<rparr>)" by simp
    have "distinct (concat (map ?f m))"
      using Cons.hyps(1)[OF m] Cons.prems Cons.hyps(2)[symmetric] by auto
    moreover have "distinct (?f e)"
    proof -
      have "distinct (map fst (dhStatusCtrl (snd e)))" using Cons.prems(2) Cons.hyps(2)[symmetric] by (cases e) auto
      then have "distinct (map fst (filter (\<lambda>(ck, e). e = ENABLED) (dhStatusCtrl (snd e))))"
        by (rule distinct_map_filter)
      then show ?thesis by (cases e) (auto simp: distinct_map inj_on_def split: prod.splits)
    qed
    moreover have "set (?f e) \<inter> set (concat (map ?f m)) = {}"
      using Cons.prems(1) Cons.hyps(2)[symmetric] by (cases e) force
    ultimately show ?case using Cons.hyps(2)[symmetric] by simp
  qed simp
qed

lemma load_is_card: "status_ok s \<Longrightarrow> refLoad s = int (card {c. client_enabled s c})"
  using length_enabled_clients[of s] set_enabled_clients[of s] distinct_card[OF distinct_enabled_clients, of s]
  by simp



end
