(* ===== verification/Context_Properties.thy ===== *)
theory Context_Properties
  imports Demo
begin

text \<open>
  The properties of the device context and of the identifiers: the lookups an online device answers,
  what its removal leaves, the entries of every reachable state, and the form of the identifiers.
\<close>

section \<open>Online devices\<close>

text \<open>The entry \<open>AddOnlineDevice\<close> makes of a device.\<close>

definition device_entry :: "platform \<Rightarrow> string \<Rightarrow> string \<Rightarrow> string \<Rightarrow> DeviceIdEntry" where
  "device_entry P udid uuid networkId = DeviceIdEntry networkId uuid (sha P uuid) udid (sha P udid)"

lemma device_entry_sel [simp]:
  "de_networkId (device_entry P udid uuid n) = n" "de_uuid (device_entry P udid uuid n) = uuid"
  "de_deviceId (device_entry P udid uuid n) = sha P uuid" "de_udid (device_entry P udid uuid n) = udid"
  "de_udidHash (device_entry P udid uuid n) = sha P udid"
  by (simp_all add: device_entry_def)

lemma length_os_ins_new: "x \<notin> set xs \<Longrightarrow> length (os_ins x xs) = length xs + 1"
  by (induction x xs rule: os_ins.induct) auto

text \<open>A key no other entry has is answered by the added entry.\<close>

lemma first_entry_added:
  assumes "IsIdLengthValid udid" "IsIdLengthValid uuid" "IsIdLengthValid networkId"
    and "length (ctx_devIdEntrySet c) \<le> MAX_ONLINE_DEVICE_SIZE"
    and "hit (device_entry P udid uuid networkId)"
    and "\<And>e. e \<in> set (ctx_devIdEntrySet c) \<Longrightarrow> \<not> hit e"
  shows "first_entry hit out (AddOnlineDevice P udid uuid networkId c) = out (device_entry P udid uuid networkId)"
  by (rule first_entry_hit)
    (use assms in \<open>auto simp: AddOnlineDevice_set[OF assms(1-4)] device_entry_def[symmetric]\<close>)

text \<open>
  A device that comes online with valid identifiers, while the set of entries has room and no other
  entry has its uuid or network id, is online afterwards, and the getters answer with its own
  identifiers and their digests.
\<close>

theorem online_device_lookups:
  assumes "IsIdLengthValid udid" "IsIdLengthValid uuid" "IsIdLengthValid networkId"
    and "GetOnlineCount c \<le> MAX_ONLINE_DEVICE_SIZE"
    and "\<not> IsDeviceOnline uuid c" "GetUUIDByNetworkId networkId c = []" "ctx_ok P c"
  shows "let c' = AddOnlineDevice P udid uuid networkId c in
    IsDeviceOnline uuid c' \<and> GetOnlineCount c' = GetOnlineCount c + 1
    \<and> GetNetworkIdByUUID uuid c' = networkId \<and> GetUUIDByNetworkId networkId c' = uuid
    \<and> GetUDIDByNetworkId networkId c' = udid \<and> GetDeviceIdByNetworkId networkId c' = sha P uuid
    \<and> GetUdidHashIdByUUID uuid c' = sha P udid"
proof -
  have len: "length (ctx_devIdEntrySet c) \<le> MAX_ONLINE_DEVICE_SIZE" using assms(4) by (simp add: GetOnlineCount_def)
  have u: "\<And>e. e \<in> set (ctx_devIdEntrySet c) \<Longrightarrow> \<not> de_uuid e = uuid"
    using assms(2,5) by (auto simp: IsDeviceOnline_iff)
  have n: "\<not> de_networkId e = networkId" if e: "e \<in> set (ctx_devIdEntrySet c)" for e
  proof
    assume h: "de_networkId e = networkId"
    have "first_entry (\<lambda>e. de_networkId e = networkId) de_uuid c = []"
      using assms(3,6) by (simp add: GetUUIDByNetworkId_def)
    then show False
    proof (cases rule: first_entry_cases[of "\<lambda>e. de_networkId e = networkId" de_uuid c])
      case miss
      then show False using e h by blast
    next
      case (hit e')
      then have "IsIdLengthValid (de_uuid e')" using assms(7) by (auto simp: ctx_ok_def list_all_iff entry_ok_def)
      then show False using hit(3) \<open>first_entry _ _ c = []\<close> by simp
    qed
  qed
  have new: "device_entry P udid uuid networkId \<notin> set (ctx_devIdEntrySet c)" using u by fastforce
  have "GetOnlineCount (AddOnlineDevice P udid uuid networkId c) = GetOnlineCount c + 1"
    using assms(1-3) len new by (simp add: GetOnlineCount_def AddOnlineDevice_def device_entry_def length_os_ins_new)
  then show ?thesis
    using assms(1-3) len u n
    by (auto simp: Let_def ctx_getters first_entry_added IsDeviceOnline_iff AddOnlineDevice_set)
qed

text \<open>
  in every state the service can reach, the entry of an online device carries valid identifiers and
  the digests of its uuid and udid, the set of entries is sorted without duplicates, and it has at most
  10001 entries, one more than the constant that is meant to bound it.
\<close>

theorem online_entries_hashed:
  assumes "fwk_reach C s"
  shows "distinct (ctx_devIdEntrySet (fw_ctx (fst s))) \<and> GetOnlineCount (fw_ctx (fst s)) \<le> 10001
    \<and> list_all (\<lambda>e. IsIdLengthValid (de_networkId e) \<and> IsIdLengthValid (de_uuid e) \<and> IsIdLengthValid (de_udid e)
         \<and> de_deviceId e = GetDeviceIdByUUID (pf_digest (c_P C)) (de_uuid e)
         \<and> de_udidHash e = Sha256 (pf_digest (c_P C)) (de_udid e)) (ctx_devIdEntrySet (fw_ctx (fst s)))"
proof -
  have "ctx_ok (c_P C) (fw_ctx (fst s))" by (rule fwk_okD(3)[OF fwk_reach_ok[OF assms]])
  then show ?thesis
    by (auto simp: ctx_ok_def GetOnlineCount_def list_all_iff entry_ok_def GetDeviceIdByUUID_def os_ok_def
        strict_sorted_iff)
qed

theorem online_entries_hashed_witness:
  "distinct (ctx_devIdEntrySet (fw_ctx (fst demo_enabled))) \<and> GetOnlineCount (fw_ctx (fst demo_enabled)) \<le> 10001"
  using online_entries_hashed[OF demo_enabled_reach] by simp

text \<open>An entry that was added is the one a removal by its network id takes away.\<close>

lemma erase_first_os_ins:
  "Q x \<Longrightarrow> (\<And>y. y \<in> set xs \<Longrightarrow> \<not> Q y) \<Longrightarrow> erase_first Q (os_ins x xs) = xs"
  by (induction x xs rule: os_ins.induct) auto

lemma erase_first_id: "(\<And>y. y \<in> set xs \<Longrightarrow> \<not> Q y) \<Longrightarrow> erase_first Q xs = xs"
  by (induction xs) auto

lemma network_id_free:
  assumes "ctx_ok P c" "IsIdLengthValid networkId" "GetUUIDByNetworkId networkId c = []"
    and "e \<in> set (ctx_devIdEntrySet c)"
  shows "de_networkId e \<noteq> networkId"
proof
  assume h: "de_networkId e = networkId"
  show False
  proof (cases rule: first_entry_cases[of "\<lambda>e. de_networkId e = networkId" de_uuid c])
    case miss
    then show False using assms(4) h by blast
  next
    case (hit e')
    then have "IsIdLengthValid (de_uuid e')" using assms(1) by (auto simp: ctx_ok_def list_all_iff entry_ok_def)
    then show False using hit(3) assms(2,3) by (simp add: GetUUIDByNetworkId_def)
  qed
qed

text \<open>
  Adding a device and removing it again by its network id leaves the set of online devices as it
  was, when no other entry has the network id; this holds for a full set and for invalid identifiers too.
\<close>

theorem add_remove_roundtrip:
  assumes "ctx_ok P c" "IsIdLengthValid networkId" "GetUUIDByNetworkId networkId c = []"
  shows "RemoveOnlineDeviceIdEntryByNetworkId networkId (AddOnlineDevice P udid uuid networkId c) = c"
proof -
  note free = network_id_free[OF assms]
  then have "erase_first (\<lambda>e. de_networkId e = networkId) (ctx_devIdEntrySet c) = ctx_devIdEntrySet c"
    by (intro erase_first_id) auto
  then show ?thesis using free assms(2)
    by (simp add: RemoveOnlineDeviceIdEntryByNetworkId_def AddOnlineDevice_def erase_first_os_ins)
qed

definition demo_ctx :: DHContext where
  "demo_ctx = AddOnlineDevice demo_P ''udidB'' ''uuidB'' ''netB'' DHContext_init"

lemma demo_ctx_ok: "ctx_ok demo_P demo_ctx"
  unfolding demo_ctx_def by (rule AddOnlineDevice_ok[OF ctx_ok_init])

theorem online_device_lookups_witness:
  "GetNetworkIdByUUID ''uuidA'' (AddOnlineDevice demo_P ''udidA'' ''uuidA'' ''netA'' demo_ctx) = ''netA''
   \<and> GetOnlineCount (AddOnlineDevice demo_P ''udidA'' ''uuidA'' ''netA'' demo_ctx) = 2"
proof -
  have c: "GetOnlineCount demo_ctx = 1" "\<not> IsDeviceOnline ''uuidA'' demo_ctx"
    "GetUUIDByNetworkId ''netA'' demo_ctx = []" by code_simp+
  show ?thesis
    using online_device_lookups[of "''udidA''" "''uuidA''" "''netA''" demo_ctx demo_P] c demo_ctx_ok
    by (simp add: IsIdLengthValid_def Let_def)
qed

theorem add_remove_roundtrip_witness:
  "RemoveOnlineDeviceIdEntryByNetworkId ''netA'' (AddOnlineDevice demo_P ''udidA'' ''uuidA'' ''netA'' demo_ctx) = demo_ctx"
proof (rule add_remove_roundtrip[OF demo_ctx_ok])
  show "GetUUIDByNetworkId ''netA'' demo_ctx = []" by code_simp
qed (simp add: IsIdLengthValid_def)

section \<open>Identifiers\<close>

lemma hashed_key_find:
  "length (pf_digest P uuid) = 32 \<Longrightarrow>
    str_find RESOURCE_SEPARATOR (sha P uuid @ RESOURCE_SEPARATOR @ dhId) = Some (length (sha P uuid))"
proof -
  have "\<forall>c \<in> set (sha P uuid). c \<noteq> CHR ''#''" using Sha256_chars hash_not_hex by blast
  then show ?thesis by (intro str_find_skip) (auto simp: RESOURCE_SEPARATOR_def)
qed

lemma hashed_key_valid:
  "length (pf_digest P uuid) = 32 \<Longrightarrow> length dhId \<le> 189 \<Longrightarrow> IsIdLengthValid (sha P uuid @ RESOURCE_SEPARATOR @ dhId)"
  by (simp add: IsIdLengthValid_def RESOURCE_SEPARATOR_def)

text \<open>
  The device id is read back from the key of a capability in the database: the prefix of the key
  before the separator is the digest the key was made with, for a digest of 32 bytes and a hardware id
  that keeps the key within its length limit.
\<close>

theorem capability_key_roundtrip:
  fixes P :: platform
  assumes "length (pf_digest P uuid) = 32" "IsIdLengthValid uuid" "length dhId \<le> 189"
  shows "GetDeviceIdByDBGetPrefix (GetCapabilityKey (GetDeviceIdByUUID (pf_digest P) uuid) dhId)
      = GetDeviceIdByUUID (pf_digest P) uuid
    \<and> IsCapKeyMatchDeviceId (GetCapabilityKey (GetDeviceIdByUUID (pf_digest P) uuid) dhId)
        (GetDeviceIdByUUID (pf_digest P) uuid)"
  using prefix_of_hashed_key[OF assms(1,3)] hashed_key_find[OF assms(1)] hashed_key_valid[OF assms(1,3)] assms
  by (simp add: GetDeviceIdByUUID_def GetCapabilityKey_def IsCapKeyMatchDeviceId_def Sha256_valid)

theorem capability_key_roundtrip_witness:
  "GetDeviceIdByDBGetPrefix (GetCapabilityKey (GetDeviceIdByUUID (pf_digest demo_P) ''uuidA'') ''Camera_1'')
    = GetDeviceIdByUUID (pf_digest demo_P) ''uuidA''"
  using capability_key_roundtrip[of demo_P "''uuidA''" "''Camera_1''"] by (simp add: demo_P_def IsIdLengthValid_def)

lemma hex_nat_4:
  "0x4000 \<le> n \<Longrightarrow> n < 0x5000 \<Longrightarrow> length (hex_nat n) = 4 \<and> hex_nat n ! 0 = CHR ''4''"
proof -
  assume n: "0x4000 \<le> n" "n < 0x5000"
  then have q: "\<not> n < 16" "\<not> n div 16 < 16" "\<not> n div 256 < 16" "n div 4096 = 4" by auto
  have "hex_nat n = [hex_digit 4, hex_digit (n div 256 mod 16), hex_digit (n div 16 mod 16), hex_digit (n mod 16)]"
    using q by (subst hex_nat.simps, subst hex_nat.simps, subst hex_nat.simps, subst hex_nat.simps)
      (simp add: div_mult2_eq[symmetric])
  then show ?thesis by (simp add: hex_digit_def)
qed

lemma version_bits:
  "take_bit 4 (drop_bit 12 ((x AND 0xFFFFFFFFFFFF0FFF) OR 0x4000)) = (4 :: 64 word)"
  by (simp add: drop_bit_and take_bit_and drop_bit_or take_bit_or)

lemma version_nibble:
  fixes ab :: "64 word"
  assumes "take_bit 4 (drop_bit 12 ab) = 4"
  shows "unat ((ucast (ab AND 0xFFFFFFFF) :: 32 word) AND 0xFFFF) div 4096 = 4"
proof -
  have m: "x AND 0xFFFF = take_bit 16 x" for x :: "32 word"
    by (simp add: take_bit_eq_mask mask_eq_exp_minus_1)
  have m2: "x AND 0xFFFFFFFF = take_bit 32 x" for x :: "64 word"
    by (simp add: take_bit_eq_mask mask_eq_exp_minus_1)
  have "unat ((ucast (ab AND 0xFFFFFFFF) :: 32 word) AND 0xFFFF) div 4096
      = drop_bit 12 (take_bit 16 (take_bit 32 (take_bit 32 (unat ab))))"
    unfolding m m2 by (simp add: drop_bit_eq_div unsigned_take_bit_eq unsigned_ucast_eq)
  also have "\<dots> = take_bit 4 (drop_bit 12 (unat ab))" by (simp add: drop_bit_take_bit)
  also have "\<dots> = unat (take_bit 4 (drop_bit 12 ab))" by (simp add: unsigned_take_bit_eq unsigned_drop_bit_eq drop_bit_take_bit)
  finally show ?thesis by (simp add: assms)
qed

text \<open>
  A random identifier has 32 characters, all lower-case hexadecimal digits, and its thirteenth is
  the digit 4 of a version-4 universally unique identifier, whatever the two random numbers are.
\<close>

theorem random_id_form:
  "length (GetRandomID ab cd) = 32 \<and> list_all is_hex (GetRandomID ab cd) \<and> GetRandomID ab cd ! 12 = CHR ''4''"
proof -
  let ?ab = "(ab AND 0xFFFFFFFFFFFF0FFF) OR 0x0000000000004000"
  let ?b = "(ucast (?ab AND 0xFFFFFFFF) :: 32 word)"
  let ?n = "unat (?b AND 0xFFFF)"
  have "?n div 4096 = 4" by (rule version_nibble[OF version_bits])
  then have "0x4000 \<le> ?n" "?n < 0x5000" by auto
  from hex_nat_4[OF this] have v: "hex_setw 4 ?n ! 0 = CHR ''4''" by (simp add: hex_setw_def Let_def)
  have len: "length (GetRandomID ab cd) = 32" by (simp add: GetRandomID_def Let_def)
  have chars: "is_hex c" if "c \<in> set (GetRandomID ab cd)" for c
    using that by (auto simp: GetRandomID_def Let_def dest: hex_setw_chars)
  have l8: "length (hex_setw 8 (unat (x :: 32 word))) = 8"
    and l4: "length (hex_setw 4 (unat (drop_bit 16 (x :: 32 word)))) = 4"
    and l4': "length (hex_setw 4 (unat (x AND 0xFFFF))) = 4" for x by simp_all
  have "GetRandomID ab cd ! 12 = hex_setw 4 ?n ! 0"
    unfolding GetRandomID_def Let_def by (simp only: nth_append l8 l4 l4') simp
  then show ?thesis using len chars v by (simp add: list_all_iff)
qed

end
