(* ===== verification/Created_Tasks.thy ===== *)
theory Created_Tasks
  imports Demo
begin

text \<open>
  What a request for a task leaves behind, for the properties of every component that creates tasks: the
  object appended to the heap, its parameters, and its place in the queue.
\<close>

lemma create_and_push_queue:
  assumes "ty \<noteq> TT_UNKNOWN"
  shows "fw_taskQueue (create_and_push C ty tp w) = PushQueue (length (fw_tasks w)) (fw_taskQueue w)"
    and "length (fw_tasks (create_and_push C ty tp w)) = Suc (length (fw_tasks w))"
proof -
  obtain p w1 where f: "fresh_task C ty tp w = (p, w1)" by fastforce
  note q = fresh_task_props(1,2,4)[OF f]
  have a: "fw_taskQueue (AddTask (Some p) w1) = fw_taskQueue w1" "fw_tasks (AddTask (Some p) w1) = fw_tasks w1"
    by (simp_all add: AddTask_def Let_def)
  show "fw_taskQueue (create_and_push C ty tp w) = PushQueue (length (fw_tasks w)) (fw_taskQueue w)"
    "length (fw_tasks (create_and_push C ty tp w)) = Suc (length (fw_tasks w))"
    using assms q a by (simp_all add: create_and_push_def CreateTask_unfold f link_father_def PushTask_def)
qed

text \<open>\<open>requested p ty n u i hw w\<close>: the object at \<open>p\<close> is a task of type \<open>ty\<close> for this hardware.\<close>

definition requested ::
    "nat \<Rightarrow> TaskType \<Rightarrow> string \<Rightarrow> string \<Rightarrow> string \<Rightarrow> DHType \<Rightarrow> 's fwk \<Rightarrow> bool" where
  "requested p ty n u i hw w =
    (p < length (fw_tasks w) \<and> t_taskType (GetTask p w) = ty \<and> tp_networkId (t_param (GetTask p w)) = n
     \<and> tp_uuid (t_param (GetTask p w)) = u \<and> tp_dhId (t_param (GetTask p w)) = i \<and> tp_dhType (t_param (GetTask p w)) = hw)"

lemma created_task:
  assumes "ty \<noteq> TT_UNKNOWN"
  shows "requested (length (fw_tasks w)) ty (tp_networkId tp) (tp_uuid tp) (tp_dhId tp) (tp_dhType tp) (create_and_push C ty tp w)"
  using assms
  by (cases ty) (auto simp: requested_def create_and_push_def CreateTask_unfold fresh_task_def Task_ctor_def
      CreateEnableTask_def CreateDisableTask_def link_father_def PushTask_def AddTask_def GetTask_def Let_def
      nth_append upd_task_def)

lemma created_identity:
  assumes "ty \<noteq> TT_UNKNOWN"
  shows "tp_callingUid (t_param (GetTask (length (fw_tasks w)) (create_and_push C ty tp w)))
      = (if ty = TT_ENABLE \<or> ty = TT_DISABLE then tp_callingUid tp else 0)"
    and "tp_callingPid (t_param (GetTask (length (fw_tasks w)) (create_and_push C ty tp w)))
      = (if ty = TT_ENABLE \<or> ty = TT_DISABLE then tp_callingPid tp else 0)"
    and "tp_customParams (t_param (GetTask (length (fw_tasks w)) (create_and_push C ty tp w)))
      = (if ty = TT_ENABLE then tp_customParams tp else [])"
  using assms
  by (cases ty; auto simp: create_and_push_def CreateTask_unfold fresh_task_def Task_ctor_def TaskParam_default_def
      CreateEnableTask_def CreateDisableTask_def link_father_def PushTask_def AddTask_def GetTask_def Let_def
      nth_append upd_task_def)+

lemma create_and_push_cap [simp]: "fw_cap (create_and_push C ty tp w) = fw_cap w"
  by (cases ty; simp add: create_and_push_def CreateTask_unfold fresh_task_def Task_ctor_def CreateEnableTask_def
      CreateDisableTask_def link_father_def PushTask_def AddTask_def Let_def upd_task_def)

end
