(* ===== verification/Task_Properties.thy ===== *)
theory Task_Properties
  imports Created_Tasks
begin

text \<open>
  The properties of tasks: the order they run in, the bounds of the queue, what becomes of a task that
  finds no room, and the wait of an offline task for its children.
\<close>

section \<open>Creating tasks\<close>

lemma requests_queue:
  assumes "\<forall>(ty, tp) \<in> set rs. ty \<noteq> TT_UNKNOWN"
  shows "fw_taskQueue (fold (\<lambda>(ty, tp). create_and_push C ty tp) rs w)
      = fold PushQueue [length (fw_tasks w) ..< length (fw_tasks w) + length rs] (fw_taskQueue w)"
  using assms
proof (induction rs arbitrary: w)
  case (Cons r rs)
  obtain ty tp where r: "r = (ty, tp)" by fastforce
  have ty: "ty \<noteq> TT_UNKNOWN" using Cons.prems r by auto
  have "[length (fw_tasks w) ..< length (fw_tasks w) + length (r # rs)]
      = length (fw_tasks w) # [Suc (length (fw_tasks w)) ..< Suc (length (fw_tasks w)) + length rs]"
    by (subst upt_conv_Cons) simp_all
  then show ?case
    using Cons.IH[of "create_and_push C ty tp w"] Cons.prems
    by (simp add: r create_and_push_queue[OF ty])
qed simp



text \<open>
  in every reachable state the queue of the executor has at most 257 tasks, one more than the
  constant that is meant to bound it; every queued task exists; and the task board maps an id only to an
  existing task that has this id.
\<close>

theorem queue_and_board:
  assumes "fwk_reach C s"
  shows "length (fw_taskQueue (fst s)) \<le> 257 \<and> list_all (\<lambda>p. p < length (fw_tasks (fst s))) (fw_taskQueue (fst s))
    \<and> list_all (\<lambda>(i, p). p < length (fw_tasks (fst s)) \<and> t_id (GetTask p (fst s)) = i) (tb_tasks (fw_board (fst s)))
    \<and> distinct (map fst (tb_tasks (fw_board (fst s))))"
proof -
  have "tasks_ok (fst s)" by (rule fwk_okD(2)[OF fwk_reach_ok[OF assms]])
  then show ?thesis by (auto simp: tasks_ok_def list_all_iff om_ok_distinct)
qed

theorem queue_and_board_witness:
  "length (fw_taskQueue demo_pushed) \<le> 257 \<and> list_all (\<lambda>p. p < length (fw_tasks demo_pushed)) (fw_taskQueue demo_pushed)"
  using queue_and_board[OF demo_pushed_reach] by simp

section \<open>A full queue\<close>

lemma create_child_heap:
  assumes "ty \<noteq> TT_UNKNOWN"
  obtains w1 where "fresh_task C ty tp w = (length (fw_tasks w), w1)"
    "create_child C ty f tp w = PushTask (Some (length (fw_tasks w)))
       (AddTask (Some (length (fw_tasks w))) (link_father ty (Some f) (length (fw_tasks w)) w1))"
proof -
  obtain p w1 where f: "fresh_task C ty tp w = (p, w1)" by fastforce
  with fresh_task_props(1)[OF f] assms show thesis
    by (intro that) (simp_all add: create_child_def CreateTask_unfold)
qed

lemma GetTask_AddTask [simp]: "GetTask q (AddTask t w) = GetTask q w"
  by (simp add: AddTask_def GetTask_def Let_def split: option.split)

lemma GetTask_PushTask [simp]: "GetTask q (PushTask t w) = GetTask q w"
  by (simp add: PushTask_def GetTask_def split: option.split)

lemma AddTask_queue [simp]: "fw_taskQueue (AddTask t w) = fw_taskQueue w"
  by (simp add: AddTask_def Let_def split: option.split)

text \<open>An offline task records each disable child, whether the queue takes it or not.\<close>

lemma disable_child_recorded:
  assumes "p < length (fw_tasks w)" "t_taskType (GetTask p w) = TT_OFF_LINE" "ty = TT_DISABLE \<or> ty = TT_META_DISABLE"
  shows "t_unFinishChildrenTasks (GetTask p (create_child C ty p tp w)) =
      os_ins (t_id (GetTask (length (fw_tasks w)) (create_child C ty p tp w))) (t_unFinishChildrenTasks (GetTask p w))"
    and "fw_taskQueue (create_child C ty p tp w) = PushQueue (length (fw_tasks w)) (fw_taskQueue w)"
    and "t_fatherTask (GetTask (length (fw_tasks w)) (create_child C ty p tp w)) = Some p"
proof -
  let ?n = "length (fw_tasks w)"
  have ty: "ty \<noteq> TT_UNKNOWN" using assms(3) by auto
  obtain w1 where f: "fresh_task C ty tp w = (?n, w1)"
    and c: "create_child C ty p tp w = PushTask (Some ?n) (AddTask (Some ?n) (link_father ty (Some p) ?n w1))"
    by (rule create_child_heap[OF ty])
  note fp = fresh_task_props[OF f]
  have g: "GetTask p w1 = GetTask p w" by (rule fp(5)[OF assms(1)])
  have off: "t_taskType (GetTask p (SetFatherTask ?n p w1)) = TT_OFF_LINE"
    using assms(1,2) g by (simp add: SetFatherTask_def GetTask_upd_task)
  have l: "link_father ty (Some p) ?n w1 = OffLineTask_AddChildrenTask p ?n (SetFatherTask ?n p w1)"
    using assms(3) off by (auto simp: link_father_def AddChildrenTask_def Let_def)
  show "t_unFinishChildrenTasks (GetTask p (create_child C ty p tp w)) =
      os_ins (t_id (GetTask ?n (create_child C ty p tp w))) (t_unFinishChildrenTasks (GetTask p w))"
    "t_fatherTask (GetTask ?n (create_child C ty p tp w)) = Some p"
    using assms(1) g fp(2) unfolding c
    by (simp_all add: l OffLineTask_AddChildrenTask_def SetFatherTask_def GetTask_upd_task)
  show "fw_taskQueue (create_child C ty p tp w) = PushQueue ?n (fw_taskQueue w)"
    using fp(4) by (simp add: c PushTask_def)
qed

text \<open>
  when the queue is full, a disable task the offline task creates is dropped and never runs, but
  the offline task has recorded it as unfinished, so it waits.
\<close>

theorem dropped_child_blocks:
  assumes "p < length (fw_tasks w)" "t_taskType (GetTask p w) = TT_OFF_LINE"
    and "MAX_TASK_QUEUE_LENGTH < length (fw_taskQueue w)" "tasks_ok w"
  shows "let w' = create_child C TT_DISABLE p tp w in
    fw_taskQueue w' = fw_taskQueue w \<and> length (fw_tasks w) \<notin> set (fw_taskQueue w') \<and> waiting p w'
    \<and> OffLineTask_run C p [WAIT_UNREGISTGER_COMPLETE, CLEAR_OFFLINE_INFO] w' = ([WAIT_UNREGISTGER_COMPLETE, CLEAR_OFFLINE_INFO], w')"
proof -
  note d = disable_child_recorded[OF assms(1,2), of TT_DISABLE C tp, simplified]
  have "fw_taskQueue (create_child C TT_DISABLE p tp w) = fw_taskQueue w"
    using d(2) task_fifo.push_full assms(3) by simp
  moreover have "length (fw_tasks w) \<notin> set (fw_taskQueue w)" using tasks_okD(4)[OF assms(4)] by blast
  moreover have "waiting p (create_child C TT_DISABLE p tp w)"
    using d(1) by (metis insert_not_empty list.set(1) set_os_ins waiting_def)
  ultimately show ?thesis by (simp add: Let_def)
qed

definition demo_offline :: "demo_store fwk" where
  "demo_offline = create_and_push demo TT_OFF_LINE (TaskParam_default\<lparr>tp_networkId := ''netA''\<rparr>) demo_init"

definition demo_full :: "demo_store fwk" where
  "demo_full = demo_offline\<lparr>fw_taskQueue := replicate 257 0\<rparr>"

lemma demo_offline_props:
  "length (fw_tasks demo_offline) = 1" "t_taskType (GetTask 0 demo_offline) = TT_OFF_LINE" "tasks_ok demo_offline"
    "refs_ok demo_offline"
proof -
  show "length (fw_tasks demo_offline) = 1" "t_taskType (GetTask 0 demo_offline) = TT_OFF_LINE" by code_simp+
  show "tasks_ok demo_offline" unfolding demo_offline_def
    by (rule tasks_ok_create_and_push[OF demo_init_ok(3)])
  show "refs_ok demo_offline" using demo_init_ok(2) by (simp add: demo_offline_def refs_ok_def)
qed

theorem dropped_child_blocks_witness:
  "waiting 0 (create_child demo TT_DISABLE 0 TaskParam_default demo_full)
   \<and> 1 \<notin> set (fw_taskQueue (create_child demo TT_DISABLE 0 TaskParam_default demo_full))"
proof -
  have "tasks_ok demo_full" using demo_offline_props(1,3)
    by (simp add: demo_full_def tasks_ok_def GetTask_def)
  then show ?thesis
    using dropped_child_blocks[of 0 demo_full demo TaskParam_default] demo_offline_props(1,2)
    by (simp add: demo_full_def GetTask_def Let_def)
qed

section \<open>The wait ends\<close>

lemma sink_ops_tasks:
  "DisableSink C d u q w = (r, w') \<Longrightarrow> refs_ok w \<Longrightarrow> snd (core w') = snd (core w) \<and> refs_ok w'"
  "ForceDisableSink C d w = (r, w') \<Longrightarrow> refs_ok w \<Longrightarrow> snd (core w') = snd (core w) \<and> refs_ok w'"
  "DisableSource C n d u q w = (r, w') \<Longrightarrow> refs_ok w \<Longrightarrow> snd (core w') = snd (core w) \<and> refs_ok w'"
  "ForceDisableSource C n d w = (r, w') \<Longrightarrow> refs_ok w \<Longrightarrow> snd (core w') = snd (core w) \<and> refs_ok w'"
  using DisableSink_outcome[of C d u q w r w'] ForceDisableSink_dropped[of C d w r w']
    DisableSource_outcome[of C n d u q w r w'] ForceDisableSource_dropped[of C n d w r w']
  by (auto simp: sink_outcome_def source_outcome_def)

lemma UnRegisterHardware_tasks:
  "UnRegisterHardware C t w = (r, w') \<Longrightarrow> refs_ok w \<Longrightarrow> snd (core w') = snd (core w) \<and> refs_ok w'"
  by (auto simp: UnRegisterHardware_def DisableTask_DoActiveDisable_def DisableTask_DoAutoDisable_def Let_def
      split: if_splits prod.splits dest!: sink_ops_tasks)

lemma snd_core_tasks: "snd (core w') = snd (core w) \<Longrightarrow> fw_tasks w' = fw_tasks w"
  by (simp add: core_def)

lemma GetTask_frame [simp]:
  "GetTask q (w\<lparr>fw_board := b\<rparr>) = GetTask q w" "GetTask q (upd_board f w) = GetTask q w"
  "GetTask q (RemoveTask i w) = GetTask q w"
  by (simp_all add: GetTask_def upd_board_def RemoveTask_def)

lemma length_tasks_frame [simp]:
  "length (fw_tasks (upd_board f w)) = length (fw_tasks w)" "length (fw_tasks (RemoveTask i w)) = length (fw_tasks w)"
  by (simp_all add: upd_board_def RemoveTask_def)

text \<open>What a disable task does to the tasks: it ends, and its father has one child less to wait for.\<close>

lemma DisableTask_effect:
  fixes C :: "('s, 'j) config"
  assumes "refs_ok w" "t_fatherTask (GetTask c w) = Some p" "p < length (fw_tasks w)" "c \<noteq> p"
  defines "w' \<equiv> DisableTask_DoTaskInner C c w"
  shows "refs_ok w'" "length (fw_tasks w') = length (fw_tasks w)"
    and "t_id (GetTask q w') = t_id (GetTask q w)" "t_fatherTask (GetTask q w') = t_fatherTask (GetTask q w)"
    and "t_unFinishChildrenTasks (GetTask p w') = os_del (t_id (GetTask c w)) (t_unFinishChildrenTasks (GetTask p w))"
proof -
  let ?t = "GetTask c w" and ?w0 = "SetTaskState c TS_RUNNING w"
  obtain r w1 where U: "UnRegisterHardware C ?t ?w0 = (r, w1)" by fastforce
  have r0: "refs_ok ?w0" using assms(1) by (simp add: refs_ok_def SetTaskState_def)
  note u = UnRegisterHardware_tasks[OF U r0]
  then have t1: "fw_tasks w1 = fw_tasks ?w0" "refs_ok w1" using snd_core_tasks by auto
  then have g1: "GetTask q w1 = GetTask q ?w0" for q by (simp add: GetTask_def)
  define w2 where "w2 = SetTaskState c (task_state_of r)
     (if r = DH_FWK_SUCCESS then upd_board (RemoveEnabledDevice (enabledDeviceKey C ?t)) w1 else w1)"
  have g2: "GetTask q w2 = (if q = c \<and> c < length (fw_tasks w) then ?t\<lparr>t_taskState := task_state_of r\<rparr> else GetTask q w)" for q
    using t1(1) g1 by (auto simp: w2_def SetTaskState_def GetTask_upd_task)
  have l2: "length (fw_tasks w2) = length (fw_tasks w)" using t1(1) by (simp add: w2_def SetTaskState_def)
  have w': "w' = NotifyFatherFinish p (t_id ?t) (RemoveTask (t_id ?t) w2)"
    unfolding w'_def DisableTask_DoTaskInner_def Let_def U prod.case w2_def[symmetric]
    using assms(2) by (simp add: finish_child_def w2_def Let_def)
  have rr: "refs_ok w2" using t1(2) by (simp add: w2_def refs_ok_def SetTaskState_def upd_board_def)
  show "refs_ok w'" using rr by (simp add: w' NotifyFatherFinish_def refs_ok_def RemoveTask_def)
  show "length (fw_tasks w') = length (fw_tasks w)" by (simp add: w' NotifyFatherFinish_def l2)
  show "t_id (GetTask q w') = t_id (GetTask q w)" "t_fatherTask (GetTask q w') = t_fatherTask (GetTask q w)"
    by (auto simp: w' NotifyFatherFinish_def GetTask_upd_task g2)
  show "t_unFinishChildrenTasks (GetTask p w') = os_del (t_id ?t) (t_unFinishChildrenTasks (GetTask p w))"
    using assms(3,4) by (simp add: w' NotifyFatherFinish_def GetTask_upd_task g2 l2)
qed

lemma DisableTasks_effect:
  assumes "refs_ok w" "p < length (fw_tasks w)" "p \<notin> set cs" "\<forall>c \<in> set cs. t_fatherTask (GetTask c w) = Some p"
  shows "set (t_unFinishChildrenTasks (GetTask p (fold (DisableTask_DoTaskInner C) cs w)))
    = set (t_unFinishChildrenTasks (GetTask p w)) - (\<lambda>c. t_id (GetTask c w)) ` set cs"
  using assms
proof (induction cs arbitrary: w)
  case (Cons c cs)
  have c: "t_fatherTask (GetTask c w) = Some p" "c \<noteq> p" using Cons.prems by auto
  note e = DisableTask_effect[OF Cons.prems(1) c(1) Cons.prems(2) c(2), where C = C]
  show ?case
    using Cons.IH[of "DisableTask_DoTaskInner C c w"] Cons.prems by (auto simp: e)
qed simp


definition demo_wait :: "demo_store fwk" where
  "demo_wait = create_child demo TT_DISABLE 0 TaskParam_default demo_offline"


end
