(* ===== verification/Service_Properties.thy ===== *)
theory Service_Properties
  imports Created_Tasks
begin

text \<open>
  The properties of the events of devices and of the life of the service: what an online and an offline
  event answer and change, what happens to a device that comes back too early, and when the service
  asks to be unloaded.
\<close>

section \<open>Device events\<close>

lemma fw_tasks_core: "core w' = core w \<Longrightarrow> fw_tasks w' = fw_tasks w \<and> fw_taskQueue w' = fw_taskQueue w"
  by (simp add: core_def)

lemma ctx_core: "core w' = core w \<Longrightarrow> (fw_ctx w')\<lparr>ctx_devInfo := d\<rparr> = (fw_ctx w)\<lparr>ctx_devInfo := d\<rparr>"
proof -
  assume "core w' = core w"
  then have "(fw_ctx w')\<lparr>ctx_devInfo := empty_DeviceInfo\<rparr> = (fw_ctx w)\<lparr>ctx_devInfo := empty_DeviceInfo\<rparr>"
    by (simp add: core_def)
  from arg_cong[OF this, of "\<lambda>c. c\<lparr>ctx_devInfo := d\<rparr>"] show ?thesis by simp
qed

lemma ctx_core_online:
  assumes "core w' = core w"
  shows "IsDeviceOnline u (fw_ctx w') = IsDeviceOnline u (fw_ctx w)"
    and "GetRealTimeOnlineDeviceCount (fw_ctx w') = GetRealTimeOnlineDeviceCount (fw_ctx w)"
    and "ctx_devIdEntrySet (fw_ctx w') = ctx_devIdEntrySet (fw_ctx w)"
proof -
  have "ctx_devIdEntrySet ((fw_ctx w')\<lparr>ctx_devInfo := d\<rparr>) = ctx_devIdEntrySet ((fw_ctx w)\<lparr>ctx_devInfo := d\<rparr>)"
    "ctx_realTimeOnLineNetworkIdSet ((fw_ctx w')\<lparr>ctx_devInfo := d\<rparr>)
      = ctx_realTimeOnLineNetworkIdSet ((fw_ctx w)\<lparr>ctx_devInfo := d\<rparr>)" for d
    by (simp_all only: ctx_core[OF assms])
  then show "IsDeviceOnline u (fw_ctx w') = IsDeviceOnline u (fw_ctx w)"
    "GetRealTimeOnlineDeviceCount (fw_ctx w') = GetRealTimeOnlineDeviceCount (fw_ctx w)"
    "ctx_devIdEntrySet (fw_ctx w') = ctx_devIdEntrySet (fw_ctx w)"
    by (simp_all add: IsDeviceOnline_def GetRealTimeOnlineDeviceCount_def)
qed

lemma DelaySa_core: "core (DelaySaStatusTask (call_void e w)) = core w"
  by simp

definition ids_valid :: "string \<Rightarrow> string \<Rightarrow> string \<Rightarrow> bool" where
  "ids_valid n u ud = (IsIdLengthValid n \<and> IsIdLengthValid u \<and> IsIdLengthValid ud)"

definition online_answer :: "string \<Rightarrow> string \<Rightarrow> string \<Rightarrow> 's fwk \<Rightarrow> int" where
  "online_answer n u ud w =
    (if \<not> ids_valid n u ud then ERR_DH_FWK_PARA_INVALID
     else if fw_unInitFlag w then ERR_DH_FWK_HARDWARE_MANAGER_INIT_FAILED
     else if IsDeviceOnline u (fw_ctx w) then ERR_DH_FWK_HARDWARE_MANAGER_DEVICE_REPEAT_ONLINE
     else DH_FWK_SUCCESS)"

lemma online_refused:
  "online_answer n u ud w \<noteq> DH_FWK_SUCCESS \<Longrightarrow> SendOnLineEvent C n u ud ty os w = (online_answer n u ud w, w)"
  by (auto simp: SendOnLineEvent_def online_answer_def ids_valid_def)

lemma online_accepted:
  assumes "fw_isInit w" "SendOnLineEvent C n u ud ty os w = (r, w')" "online_answer n u ud w = DH_FWK_SUCCESS"
  shows "r = DH_FWK_SUCCESS"
    and "GetOnlineCount (fw_ctx w) \<le> MAX_ONLINE_DEVICE_SIZE \<Longrightarrow> IsDeviceOnline u (fw_ctx w')"
    and "fw_taskQueue w' = PushQueue (length (fw_tasks w)) (fw_taskQueue w)"
    and "t_taskType (GetTask (length (fw_tasks w)) w') = TT_ON_LINE"
    and "tp_networkId (t_param (GetTask (length (fw_tasks w)) w')) = n"
    and "tp_uuid (t_param (GetTask (length (fw_tasks w)) w')) = u"
proof -
  have True: "ids_valid n u ud \<and> \<not> fw_unInitFlag w \<and> \<not> IsDeviceOnline u (fw_ctx w)"
    using assms(3) by (auto simp: online_answer_def split: if_splits)
  then have v: "IsIdLengthValid n" "IsIdLengthValid u" "IsIdLengthValid ud" by (simp_all add: ids_valid_def)
  define c3 where "c3 = AddOnlineDeviceOSType n os (AddOnlineDeviceType n ty
    (AddRealTimeOnlineDeviceNetworkId n (AddOnlineDevice (c_P C) ud u n (fw_ctx w))))"
  define w2 where "w2 = w\<lparr>fw_ctx := c3\<rparr>"
  have i2: "fw_isInit w2" using assms(1) by (simp add: w2_def)
  define w3 where "w3 = (if \<not> IsSourceEnabled w2 \<and> \<not> IsSinkActiveEnabled w2 \<and> \<not> e_AnyHdfInuse (c_E C)
    then DelaySaStatusTask (call_void (EC_Event ''SetCritical'' ''true'') w2) else w2)"
  define w4 where "w4 = (if os = -1 \<or> os = 11 then snd (ClearRemoteDeviceLocalInfoData C u
    (snd (ClearRemoteDeviceMetaInfoData C ud u w3))) else w3)"
  have c4: "core w4 = core w2" by (simp add: w4_def w3_def)
  have t4: "fw_tasks w4 = fw_tasks w" "fw_taskQueue w4 = fw_taskQueue w"
    using fw_tasks_core[OF c4] by (simp_all add: w2_def)
  let ?tp = "TaskParam_default\<lparr>tp_networkId := n, tp_uuid := u, tp_udid := ud, tp_dhId := [], tp_dhType := DHType_UNKNOWN\<rparr>"
  have "SendOnLineEvent C n u ud ty os w = (DH_FWK_SUCCESS, create_and_push C TT_ON_LINE ?tp w4)"
    using True v i2
    unfolding SendOnLineEvent_def Let_def c3_def[symmetric] w2_def[symmetric] Manager_SendOnLineEvent_def
    by (simp add: w3_def w4_def)
  then have r: "r = DH_FWK_SUCCESS" "w' = create_and_push C TT_ON_LINE ?tp w4" using assms(2) by simp_all
  have on: "IsDeviceOnline u c3" if "GetOnlineCount (fw_ctx w) \<le> MAX_ONLINE_DEVICE_SIZE"
    using v that by (simp add: c3_def IsDeviceOnline_iff AddOnlineDevice_def AddRealTimeOnlineDeviceNetworkId_def
        AddOnlineDeviceType_def AddOnlineDeviceOSType_def GetOnlineCount_def)
  have "IsDeviceOnline u (fw_ctx w') = IsDeviceOnline u c3"
    using ctx_core_online(1)[OF c4] by (simp add: r w2_def)
  then show "GetOnlineCount (fw_ctx w) \<le> MAX_ONLINE_DEVICE_SIZE \<Longrightarrow> IsDeviceOnline u (fw_ctx w')" using on by simp
  show "r = DH_FWK_SUCCESS" by (rule r(1))
  show "fw_taskQueue w' = PushQueue (length (fw_tasks w)) (fw_taskQueue w)"
    "t_taskType (GetTask (length (fw_tasks w)) w') = TT_ON_LINE"
    "tp_networkId (t_param (GetTask (length (fw_tasks w)) w')) = n" "tp_uuid (t_param (GetTask (length (fw_tasks w)) w')) = u"
    using t4 create_and_push_queue[of TT_ON_LINE C ?tp w4] created_task[of TT_ON_LINE w4 ?tp C] by (simp_all add: r requested_def)
qed

text \<open>
  C19: an online event to the initialised service is refused without any change when an identifier is
  invalid, when the service is about to be released, and when the device is already online; else it
  succeeds, the device is in the set of online devices unless the set is full, and exactly one online
  task for the device is created and offered to the queue.
\<close>

theorem online_event:
  assumes "fw_isInit w" "SendOnLineEvent C n u ud ty os w = (r, w')"
  shows "r = online_answer n u ud w
    \<and> (r \<noteq> DH_FWK_SUCCESS \<longrightarrow> w' = w)
    \<and> (r = DH_FWK_SUCCESS \<longrightarrow>
        (GetOnlineCount (fw_ctx w) \<le> MAX_ONLINE_DEVICE_SIZE \<longrightarrow> IsDeviceOnline u (fw_ctx w'))
        \<and> fw_taskQueue w' = PushQueue (length (fw_tasks w)) (fw_taskQueue w)
        \<and> t_taskType (GetTask (length (fw_tasks w)) w') = TT_ON_LINE
        \<and> tp_networkId (t_param (GetTask (length (fw_tasks w)) w')) = n
        \<and> tp_uuid (t_param (GetTask (length (fw_tasks w)) w')) = u)"
  using online_refused[of n u ud w C ty os] online_accepted[OF assms] assms(2)
  by (cases "online_answer n u ud w = DH_FWK_SUCCESS") auto

definition offline_answer :: "string \<Rightarrow> string \<Rightarrow> string \<Rightarrow> 's fwk \<Rightarrow> int" where
  "offline_answer n u ud w =
    (if \<not> ids_valid n u ud then ERR_DH_FWK_PARA_INVALID
     else if \<not> IsDeviceOnline u (fw_ctx w) then ERR_DH_FWK_HARDWARE_MANAGER_DEVICE_REPEAT_OFFLINE
     else DH_FWK_SUCCESS)"

lemma offline_refused:
  "fw_isInit w \<Longrightarrow> offline_answer n u ud w \<noteq> DH_FWK_SUCCESS \<Longrightarrow> SendOffLineEvent C n u ud w = (offline_answer n u ud w, w)"
  by (auto simp: SendOffLineEvent_def offline_answer_def ids_valid_def)

lemma offline_accepted:
  assumes "fw_isInit w" "SendOffLineEvent C n u ud w = (r, w')" "offline_answer n u ud w = DH_FWK_SUCCESS"
  shows "r = DH_FWK_SUCCESS \<and> IsDeviceOnline u (fw_ctx w') \<and> \<not> IsRealTimeOnlineDevice n (fw_ctx w')
      \<and> fw_taskQueue w' = PushQueue (length (fw_tasks w)) (fw_taskQueue w)
      \<and> t_taskType (GetTask (length (fw_tasks w)) w') = TT_OFF_LINE
      \<and> tp_networkId (t_param (GetTask (length (fw_tasks w)) w')) = n
      \<and> (fw_unInitFlag w' \<longleftrightarrow> fw_unInitFlag w \<or> GetRealTimeOnlineDeviceCount (fw_ctx w') = 0
            \<and> GetIsomerismConnectCount (fw_ctx w') = 0)"
proof -
  have True: "ids_valid n u ud \<and> IsDeviceOnline u (fw_ctx w)"
    using assms(3) by (auto simp: offline_answer_def split: if_splits)
  then have v: "IsIdLengthValid n" "IsIdLengthValid u" "IsIdLengthValid ud" by (simp_all add: ids_valid_def)
  define c where "c = DeleteRealTimeOnlineDeviceNetworkId n (fw_ctx w)"
  define w3 where "w3 = (if GetRealTimeOnlineDeviceCount c = 0 \<and> GetIsomerismConnectCount c = 0
    then w\<lparr>fw_ctx := c, fw_unInitFlag := True\<rparr> else w\<lparr>fw_ctx := c\<rparr>)"
  let ?tp = "TaskParam_default\<lparr>tp_networkId := n, tp_uuid := u, tp_udid := ud, tp_dhId := [], tp_dhType := DHType_UNKNOWN\<rparr>"
  have "SendOffLineEvent C n u ud w =
      (DH_FWK_SUCCESS, call_void (EC_Event ''TOPIC_DEV_OFFLINE'' n) (create_and_push C TT_OFF_LINE ?tp w3))"
    using True v assms(1) by (simp add: SendOffLineEvent_def Let_def Manager_SendOffLineEvent_def w3_def c_def)
  then have r: "r = DH_FWK_SUCCESS"
    "w' = call_void (EC_Event ''TOPIC_DEV_OFFLINE'' n) (create_and_push C TT_OFF_LINE ?tp w3)"
    using assms(2) by simp_all
  have t: "fw_tasks w3 = fw_tasks w" "fw_taskQueue w3 = fw_taskQueue w" "fw_ctx w3 = c" by (simp_all add: w3_def)
  have d: "IsDeviceOnline u c" "\<not> IsRealTimeOnlineDevice n c"
    using True v by (simp_all add: c_def DeleteRealTimeOnlineDeviceNetworkId_def IsDeviceOnline_def IsRealTimeOnlineDevice_def)
  have f: "fw_unInitFlag (create_and_push C TT_OFF_LINE ?tp w3) = fw_unInitFlag w3"
    by (simp add: create_and_push_def CreateTask_unfold fresh_task_def Task_ctor_def link_father_def PushTask_def
        AddTask_def Let_def)
  show ?thesis
    using True d t f create_and_push_queue[of TT_OFF_LINE C ?tp w3] created_task[of TT_OFF_LINE w3 ?tp C]
    by (simp add: r call_void_def GetTask_def requested_def) (auto simp: w3_def)
qed

text \<open>
  an offline event to the initialised service is refused without any change when an identifier is
  invalid or the device is not online; else it succeeds and exactly one offline task for the device is
  created and offered to the queue, the device stays in the set of online devices until that task has
  waited for its children, and the service prepares its release exactly when no other device is in the
  real-time set and no device of the same account is connected.
\<close>

theorem offline_event:
  assumes "fw_isInit w" "SendOffLineEvent C n u ud w = (r, w')"
  shows "r = offline_answer n u ud w
    \<and> (r \<noteq> DH_FWK_SUCCESS \<longrightarrow> w' = w)
    \<and> (r = DH_FWK_SUCCESS \<longrightarrow> IsDeviceOnline u (fw_ctx w') \<and> \<not> IsRealTimeOnlineDevice n (fw_ctx w')
      \<and> fw_taskQueue w' = PushQueue (length (fw_tasks w)) (fw_taskQueue w)
      \<and> t_taskType (GetTask (length (fw_tasks w)) w') = TT_OFF_LINE
      \<and> tp_networkId (t_param (GetTask (length (fw_tasks w)) w')) = n
      \<and> (fw_unInitFlag w' \<longleftrightarrow> fw_unInitFlag w \<or> GetRealTimeOnlineDeviceCount (fw_ctx w') = 0
            \<and> GetIsomerismConnectCount (fw_ctx w') = 0))"
  using offline_refused[OF assms(1), of n u ud C] offline_accepted[OF assms] assms(2)
  by (cases "offline_answer n u ud w = DH_FWK_SUCCESS") auto

lemma offline_event_frame:
  assumes "fw_isInit w" "SendOffLineEvent C n u ud w = (DH_FWK_SUCCESS, w')"
  shows "fw_isInit w'" "ctx_devIdEntrySet (fw_ctx w') = ctx_devIdEntrySet (fw_ctx w)"
  using assms
  by (auto simp: SendOffLineEvent_def Let_def Manager_SendOffLineEvent_def create_and_push_def CreateTask_unfold
      fresh_task_def Task_ctor_def link_father_def PushTask_def AddTask_def call_void_def
      DeleteRealTimeOnlineDeviceNetworkId_def split: if_splits)

text \<open>
  a device that comes back before its offline task has finished is lost: after an accepted offline
  event the next online event of the same device is refused and changes nothing, and when the offline
  task gets past its wait, the device, which had one entry, is not in the set of online devices.
\<close>

theorem early_return_lost:
  assumes "fw_isInit w" "SendOffLineEvent C n u ud w = (DH_FWK_SUCCESS, w1)" "ctx_ok (c_P C) (fw_ctx w)"
    and "\<forall>e \<in> set (ctx_devIdEntrySet (fw_ctx w)). de_uuid e = u \<or> de_networkId e = n \<longrightarrow> e = e0"
    and "de_networkId e0 = n"
  shows "fst (SendOnLineEvent C n u ud ty os w1) \<noteq> DH_FWK_SUCCESS \<and> snd (SendOnLineEvent C n u ud ty os w1) = w1
    \<and> \<not> IsDeviceOnline u (fw_ctx (OffLineTask_WaitDisableTaskFinish (length (fw_tasks w)) w1))"
proof -
  have a: "offline_answer n u ud w = DH_FWK_SUCCESS"
    using offline_refused[OF assms(1), of n u ud C] assms(2) by auto
  note o = offline_accepted[OF assms(1,2) a]
  note fr = offline_event_frame[OF assms(1,2)]
  have v: "ids_valid n u ud" using a by (auto simp: offline_answer_def split: if_splits)
  have "online_answer n u ud w1 \<noteq> DH_FWK_SUCCESS" using o by (simp add: online_answer_def)
  note on = online_refused[OF this, of C ty os] this
  have "\<not> IsDeviceOnline u (fw_ctx (OffLineTask_WaitDisableTaskFinish (length (fw_tasks w)) w1))"
  proof
    let ?Q = "\<lambda>e. de_networkId e = n" and ?es = "ctx_devIdEntrySet (fw_ctx w)"
    assume "IsDeviceOnline u (fw_ctx (OffLineTask_WaitDisableTaskFinish (length (fw_tasks w)) w1))"
    then obtain e where e: "e \<in> set (erase_first ?Q ?es)" "de_uuid e = u"
      using o v fr(2) by (auto simp: OffLineTask_WaitDisableTaskFinish_def IsDeviceOnline_iff
          RemoveOnlineDeviceIdEntryByNetworkId_def ids_valid_def)
    have "e = e0" using e set_erase_first[of ?Q ?es] assms(4) by blast
    moreover have "\<not> ?Q e"
      by (rule erase_first_none[OF _ _ e(1)]) (use assms(3,4) in \<open>auto simp: ctx_ok_def os_ok_distinct\<close>)
    ultimately show False using assms(5) by simp
  qed
  then show ?thesis using on by simp
qed

section \<open>A run\<close>

text \<open>The initialised service with one device online.\<close>

definition demo_ready :: "demo_store fwk" where
  "demo_ready = snd (Factory_Init demo demo_init)"

definition demo_online :: "demo_store fwk" where
  "demo_online = demo_ready\<lparr>fw_ctx := AddRealTimeOnlineDeviceNetworkId ''netA''
     (AddOnlineDevice demo_P ''udidA'' ''uuidA'' ''netA'' (fw_ctx demo_ready))\<rparr>"

definition demo_offline_event :: "int \<times> demo_store fwk" where
  "demo_offline_event = SendOffLineEvent demo ''netA'' ''uuidA'' ''udidA'' demo_online"

lemma demo_online_props:
  "fw_isInit demo_online" "IsDeviceOnline ''uuidA'' (fw_ctx demo_online)" "\<not> fw_unInitFlag demo_online"
  "GetOnlineCount (fw_ctx demo_online) = 1" "\<not> IsDeviceOnline ''uuidB'' (fw_ctx demo_online)"
  by code_simp+

lemma demo_online_ctx_ok: "ctx_ok (c_P demo) (fw_ctx demo_online)"
proof -
  have r: "Factory_Init demo demo_init = (fst (Factory_Init demo demo_init), demo_ready)"
    by (simp add: demo_ready_def)
  have "fwk_ok (c_P demo) demo_ready"
    by (rule fwk_ok_coreI[OF demo_init_ok(1) Factory_Init_core[OF r]])
  then have "ctx_ok (c_P demo) (fw_ctx demo_ready)" by (rule fwk_okD(3))
  then show ?thesis
    using ctx_step_ok[OF ctx_step.intros(4) AddOnlineDevice_ok] by (simp add: demo_online_def demo_def)
qed

lemma demo_offline_eq: "SendOffLineEvent demo ''netA'' ''uuidA'' ''udidA'' demo_online = (DH_FWK_SUCCESS, snd demo_offline_event)"
  using offline_accepted[OF demo_online_props(1) surjective_pairing, of "''netA''" "''uuidA''" "''udidA''" demo] demo_online_props(2)
  by (simp add: demo_offline_event_def prod_eq_iff offline_answer_def ids_valid_def IsIdLengthValid_def)

theorem online_event_witness:
  "fst (SendOnLineEvent demo ''netB'' ''uuidB'' ''udidB'' 14 10 demo_online) = DH_FWK_SUCCESS
   \<and> fst (SendOnLineEvent demo ''netA'' ''uuidA'' ''udidA'' 14 10 demo_online)
      = ERR_DH_FWK_HARDWARE_MANAGER_DEVICE_REPEAT_ONLINE"
  using online_event[OF demo_online_props(1) surjective_pairing, of demo "''netB''" "''uuidB''" "''udidB''" 14 10]
    online_event[OF demo_online_props(1) surjective_pairing, of demo "''netA''" "''uuidA''" "''udidA''" 14 10]
    demo_online_props
  by (simp add: online_answer_def offline_answer_def ids_valid_def IsIdLengthValid_def)

theorem offline_event_witness:
  "fst (SendOffLineEvent demo ''netA'' ''uuidA'' ''udidA'' demo_online) = DH_FWK_SUCCESS
   \<and> fst (SendOffLineEvent demo ''netB'' ''uuidB'' ''udidB'' demo_online)
      = ERR_DH_FWK_HARDWARE_MANAGER_DEVICE_REPEAT_OFFLINE"
  using offline_event[OF demo_online_props(1) surjective_pairing, of demo "''netA''" "''uuidA''" "''udidA''"]
    offline_event[OF demo_online_props(1) surjective_pairing, of demo "''netB''" "''uuidB''" "''udidB''"] demo_online_props
  by (simp add: online_answer_def offline_answer_def ids_valid_def IsIdLengthValid_def)

theorem early_return_lost_witness:
  "\<not> IsDeviceOnline ''uuidA'' (fw_ctx (OffLineTask_WaitDisableTaskFinish (length (fw_tasks demo_online)) (snd demo_offline_event)))"
proof -
  define e0 where "e0 = hd (ctx_devIdEntrySet (fw_ctx demo_online))"
  have "length (ctx_devIdEntrySet (fw_ctx demo_online)) = 1"
    using demo_online_props(4) by (simp add: GetOnlineCount_def)
  then have e: "\<forall>e \<in> set (ctx_devIdEntrySet (fw_ctx demo_online)). e = e0"
    by (cases "ctx_devIdEntrySet (fw_ctx demo_online)") (auto simp: e0_def)
  have n: "de_networkId e0 = ''netA''" unfolding e0_def by code_simp
  show ?thesis using early_return_lost[OF demo_online_props(1) demo_offline_eq demo_online_ctx_ok _ n] e by blast
qed

section \<open>Unloading\<close>

lemma Factory_Init_flags: "Factory_Init C w = (b, w') \<Longrightarrow> b \<and> fw_isInit w' \<and> \<not> fw_releaseStatus w'"
  by (auto simp: Factory_Init_def Initialize_def CreateSaStatusHandler_def DelaySaStatusTask_def call_ptr_def
      call_void_def Let_def split: prod.splits if_splits)

text \<open>
  the check for unloading marks the service idle and asks the system to unload it, changing nothing
  else, when the device manager reports no device online, no device of the same account is connected
  and no hardware of the driver framework is in use; otherwise the service is initialised again and one
  online event is started for each trusted device, in their order, unless there are more than 10000.
\<close>

theorem unload_decision:
  "let w' = CheckExitSAOrNot C w; devices = e_TrustedDevices (c_E C) in
   (if e_ret (c_E C) (fw_trace w) (EC_Event ''IsDeviceOnline'' []) = 0
       \<and> GetIsomerismConnectCount (fw_ctx w) = 0 \<and> \<not> e_AnyHdfInuse (c_E C)
    then w' = w\<lparr>fw_isIdle := True,
        fw_trace := EC_Event ''UnloadSystemAbility'' [] # EC_Event ''IsDeviceOnline'' [] # fw_trace w\<rparr>
    else fw_isInit w' \<and> \<not> fw_releaseStatus w'
      \<and> (\<exists>before. map fst (fw_onlineThreads w')
          = before @ (if length devices > MAX_ONLINE_DEVICE_SIZE then [] else map tr_networkId devices)))"
proof -
  define w1 where "w1 = w\<lparr>fw_trace := EC_Event ''IsDeviceOnline'' [] # fw_trace w\<rparr>"
  obtain b w2 where F: "Factory_Init C w1 = (b, w2)" by fastforce
  note f = Factory_Init_flags[OF F]
  have d: "DM_IsDeviceOnline C w = (e_ret (c_E C) (fw_trace w) (EC_Event ''IsDeviceOnline'' []) \<noteq> 0, w1)"
    by (simp add: DM_IsDeviceOnline_def call_ret_def w1_def)
  have c: "fw_ctx w1 = fw_ctx w" by (simp add: w1_def)
  show ?thesis
    using f by (auto simp: CheckExitSAOrNot_def d c F Let_def ExitDHFWK_def call_void_def o_def) (simp_all add: w1_def)
qed

lemma DB_UnInit_frame:
  "DB_UnInit C d w = (d1, w1) \<Longrightarrow> fw_cap w1 = fw_cap w \<and> fw_local w1 = fw_local w \<and> fw_meta w1 = fw_meta w
    \<and> fw_verinfo w1 = fw_verinfo w \<and> fw_dhVersions w1 = fw_dhVersions w"
  by (auto simp: DB_UnInit_def UnRegisterChangeListener_def call_void_def Let_def split: if_splits prod.splits KvStatus.splits)

lemma UnInits_frame:
  "fw_verinfo (snd (VerInfo_UnInit C w)) = None" "cim_dbAdapterPtr (fw_cap (snd (Cap_UnInit C w))) = None"
  "mim_dbAdapterPtr (fw_meta (snd (Meta_UnInit C w))) = None" "cim_dbAdapterPtr (fw_local (snd (Local_UnInit C w))) = None"
  "fw_dhVersions (snd (VerInfo_UnInit C w)) = fw_dhVersions w" "fw_dhVersions (snd (Cap_UnInit C w)) = fw_dhVersions w"
  "fw_dhVersions (snd (Meta_UnInit C w)) = fw_dhVersions w" "fw_dhVersions (snd (Local_UnInit C w)) = fw_dhVersions w"
  "fw_verinfo (snd (Cap_UnInit C w)) = fw_verinfo w" "fw_verinfo (snd (Meta_UnInit C w)) = fw_verinfo w"
  "fw_verinfo (snd (Local_UnInit C w)) = fw_verinfo w" "fw_cap (snd (Meta_UnInit C w)) = fw_cap w"
  "fw_cap (snd (Local_UnInit C w)) = fw_cap w" "fw_meta (snd (Local_UnInit C w)) = fw_meta w"
  by (auto simp: VerInfo_UnInit_def Cap_UnInit_def Meta_UnInit_def Local_UnInit_def upd_cap_def upd_meta_def
      upd_local_def split: option.split prod.split dest: DB_UnInit_frame)

text \<open>
  a release that is already under way is not started again; otherwise the release ends the process
  exactly when a component has timed out while it was being released, else it leaves no store open and
  no version cached and then decides whether the service is unloaded.
\<close>

theorem release_once:
  "(fw_releaseStatus w \<longrightarrow> Factory_UnInit C w = Some w)
   \<and> (\<not> fw_releaseStatus w \<longrightarrow>
       (Factory_UnInit C w = None \<longleftrightarrow> cm_isUnInitTimeOut (fw_cm w))
       \<and> (\<forall>w'. Factory_UnInit C w = Some w' \<longrightarrow> (\<exists>w1. w' = CheckExitSAOrNot C w1 \<and> \<not> fw_isInit w1 \<and> \<not> fw_unInitFlag w1
            \<and> \<not> fw_isAllInit w1 \<and> \<not> fw_isLocalInit w1 \<and> fw_dhVersions w1 = [] \<and> fw_verinfo w1 = None
            \<and> cim_dbAdapterPtr (fw_cap w1) = None \<and> cim_dbAdapterPtr (fw_local w1) = None
            \<and> mim_dbAdapterPtr (fw_meta w1) = None)))"
proof (intro conjI impI allI)
  show "Factory_UnInit C w = Some w" if "fw_releaseStatus w" using that by (simp add: Factory_UnInit_def)
  show "Factory_UnInit C w = None \<longleftrightarrow> cm_isUnInitTimeOut (fw_cm w)" if "\<not> fw_releaseStatus w"
    using that by (simp add: Factory_UnInit_def Release_def ComponentManager_UnInit_def call_void_def Let_def split: option.split)
  fix w' assume "\<not> fw_releaseStatus w" "Factory_UnInit C w = Some w'"
  then obtain w0 where R: "Release C (w\<lparr>fw_releaseStatus := True\<rparr>) = Some w0"
    and w': "w' = CheckExitSAOrNot C (w0\<lparr>fw_isInit := False, fw_unInitFlag := False\<rparr>)"
    by (auto simp: Factory_UnInit_def split: option.splits)
  have "\<not> fw_isAllInit w0 \<and> \<not> fw_isLocalInit w0 \<and> fw_dhVersions w0 = [] \<and> fw_verinfo w0 = None
      \<and> cim_dbAdapterPtr (fw_cap w0) = None \<and> cim_dbAdapterPtr (fw_local w0) = None \<and> mim_dbAdapterPtr (fw_meta w0) = None"
    using R by (auto simp: Release_def Let_def call_void_def UnInits_frame VersionManager_UnInit_def split: option.splits)
  then show "\<exists>w1. w' = CheckExitSAOrNot C w1 \<and> \<not> fw_isInit w1 \<and> \<not> fw_unInitFlag w1
      \<and> \<not> fw_isAllInit w1 \<and> \<not> fw_isLocalInit w1 \<and> fw_dhVersions w1 = [] \<and> fw_verinfo w1 = None
      \<and> cim_dbAdapterPtr (fw_cap w1) = None \<and> cim_dbAdapterPtr (fw_local w1) = None
      \<and> mim_dbAdapterPtr (fw_meta w1) = None"
    unfolding w' by (intro exI[of _ "w0\<lparr>fw_isInit := False, fw_unInitFlag := False\<rparr>"]) simp
qed

text \<open>The release of the service whose handlers answer, and of one with a component that timed out.\<close>

theorem release_once_witness:
  "Factory_UnInit demo demo_online \<noteq> None
   \<and> Factory_UnInit demo (demo_online\<lparr>fw_cm := (fw_cm demo_online)\<lparr>cm_isUnInitTimeOut := True\<rparr>\<rparr>) = None"
proof -
  have "\<not> fw_releaseStatus demo_online" "\<not> cm_isUnInitTimeOut (fw_cm demo_online)" by code_simp+
  then show ?thesis
    using release_once[of demo_online demo]
      release_once[of "demo_online\<lparr>fw_cm := (fw_cm demo_online)\<lparr>cm_isUnInitTimeOut := True\<rparr>\<rparr>" demo] by simp
qed

end
