(* ===== verification/Store_Properties.thy ===== *)
theory Store_Properties
  imports Created_Tasks
begin

text \<open>
  The properties of the stores and their caches: what a write leaves to be read, what a removal takes
  away, how the change notifications reach the cache and the tasks, and how the adapter opens and
  reopens a store.
\<close>

section \<open>Opening a store\<close>

lemma Init_loop_opens:
  "DB_Init_loop C n d w = (r, d', w') \<Longrightarrow>
    (r = DH_FWK_SUCCESS \<longleftrightarrow> db_kvStoragePtr d') \<and> (r \<noteq> DH_FWK_SUCCESS \<longrightarrow> r = ERR_DH_FWK_RESOURCE_KV_STORAGE_POINTER_NULL)
    \<and> db_storeId d' = db_storeId d \<and> db_isAutoSync d' = db_isAutoSync d \<and> db_dataType d' = db_dataType d"
proof (induction C n d w rule: DB_Init_loop.induct)
  case (2 C n d w)
  then show ?case
    by (auto simp: GetKvStorePtr_def RegisterKvStoreDeathListener_def Let_def split: prod.splits if_splits)
qed (auto split: if_splits)

text \<open>
  Opening a store either succeeds, and then the adapter holds the store under its own name with the
  requested mode, or it reports a null store after twenty attempts; it never reports success without a
  store.
\<close>

theorem init_opens_store:
  assumes "DB_Init C auto ty d w = (r, d', w')"
  shows "(r = DH_FWK_SUCCESS \<longleftrightarrow> db_kvStoragePtr d')
    \<and> (r \<noteq> DH_FWK_SUCCESS \<longrightarrow> r = ERR_DH_FWK_RESOURCE_KV_STORAGE_POINTER_NULL)
    \<and> db_storeId d' = db_storeId d \<and> db_isAutoSync d' = auto \<and> db_dataType d' = ty"
  using Init_loop_opens[OF assms[unfolded DB_Init_def]] by simp

theorem init_opens_store_witness:
  "fst (DB_Init demo False TYPE_DYNAMICAL (DBAdapter_new GLOBAL_VERSION_INFO_KEY) demo_init) = DH_FWK_SUCCESS"
proof -
  obtain r d' w' where I: "DB_Init demo False TYPE_DYNAMICAL (DBAdapter_new GLOBAL_VERSION_INFO_KEY) demo_init = (r, d', w')"
    by (rule prod_cases3)
  have "db_kvStoragePtr (fst (snd (DB_Init demo False TYPE_DYNAMICAL (DBAdapter_new GLOBAL_VERSION_INFO_KEY) demo_init)))"
    by code_simp
  then show ?thesis using init_opens_store[OF I] by (simp add: I)
qed

lemma reInit_closed: "\<not> db_kvStoragePtr d \<Longrightarrow> reInitTask C n d w = (False, d, w)"
proof (induction "DIED_CHECK_MAX_TIMES - n" arbitrary: n)
  case 0
  then show ?case by (simp add: reInitTask.simps[of C n])
next
  case (Suc k)
  have "reInitTask C (n + 1) d w = (False, d, w)" by (rule Suc.hyps(1)) (use Suc in auto)
  then show ?case using Suc.prems by (subst reInitTask.simps) (simp add: DBDiedOpt_def DB_ReInit_def)
qed

text \<open>
  after the death of the database service one failed attempt to reopen the store is the last one:
  the adapter has dropped its store before the attempt, so each of the remaining attempts, up to three
  hundred, fails without asking for the store again, and the store stays closed.
\<close>

theorem reopen_tried_once:
  assumes "db_kvStoragePtr d" "DB_ReInit C (db_isAutoSync d) d w = (r, d1, w1)" "r \<noteq> DH_FWK_SUCCESS"
    and "\<not> db_kvStoragePtr d1" "n < DIED_CHECK_MAX_TIMES"
  shows "reInitTask C n d w = (False, d1, w1)"
  using assms reInit_closed[of d1 C "n + 1" w1] by (subst reInitTask.simps) (simp add: DBDiedOpt_def)

definition broken_K :: "demo_store KvStore" where
  "broken_K = demo_K\<lparr>kv_GetSingleKvStore := (\<lambda>s i opts p. (KV_IPC_ERROR, False, s))\<rparr>"

theorem reopen_tried_once_witness:
  "fst (reInitTask (demo\<lparr>c_K := broken_K\<rparr>) 0 ((DBAdapter_new GLOBAL_META_INFO_KEY)\<lparr>db_kvStoragePtr := True\<rparr>) demo_init) = False"
proof -
  let ?C = "demo\<lparr>c_K := broken_K\<rparr>" and ?d = "(DBAdapter_new GLOBAL_META_INFO_KEY)\<lparr>db_kvStoragePtr := True\<rparr>"
  have "DB_ReInit ?C (db_isAutoSync ?d) ?d demo_init
      = (ERR_DH_FWK_RESOURCE_KV_STORAGE_OPERATION_FAIL, DBAdapter_new GLOBAL_META_INFO_KEY, demo_init)"
    by (simp add: DBAdapter_new_def DB_ReInit_def GetLocalKvStorePtr_def broken_K_def demo_K_def Let_def)
  from reopen_tried_once[OF _ this, of 0] show ?thesis by (simp add: DBAdapter_new_def)
qed

section \<open>Reading what was written\<close>

text \<open>
  What the adapter relies on: a successful put or batch of puts is what a get of the same store finds.
\<close>

definition kv_put_get :: "'s KvStore \<Rightarrow> bool" where
  "kv_put_get K = (\<forall>s i k v s'. kv_Put K s i k v = (KV_SUCCESS, s') \<longrightarrow> kv_Get K s' i k = (KV_SUCCESS, v))"

text \<open>
  what a put of the adapter stored is what the next read of the key returns, provided the store
  answered the put with success; the adapter itself also reports success for any other answer than a
  broken connection, and then nothing may have been stored.
\<close>

theorem put_then_get:
  assumes "kv_put_get (c_K C)" "db_kvStoragePtr d" "IsIdLengthValid key" "IsMessageLengthValid v"
    and "DB_PutData C d key v w = (r, w')"
  shows "(r = DH_FWK_SUCCESS \<longleftrightarrow> fst (kv_Put (c_K C) (fw_kv w) (db_storeId d) key v) \<noteq> KV_IPC_ERROR)
    \<and> (fst (kv_Put (c_K C) (fw_kv w) (db_storeId d) key v) = KV_SUCCESS \<longrightarrow>
        DB_GetDataByKey C d key data w' = (DH_FWK_SUCCESS, v, w'))"
  using assms by (auto simp: DB_PutData_def DB_GetDataByKey_def kv_put_get_def split: prod.splits if_splits)

lemma demo_put_get: "kv_put_get demo_K"
  by (simp add: kv_put_get_def demo_K_def)

theorem put_then_get_witness:
  "\<exists>w'. DB_PutData demo ((DBAdapter_new ''s'')\<lparr>db_kvStoragePtr := True\<rparr>) ''k'' ''v'' demo_init = (DH_FWK_SUCCESS, w')
     \<and> DB_GetDataByKey demo ((DBAdapter_new ''s'')\<lparr>db_kvStoragePtr := True\<rparr>) ''k'' [] w' = (DH_FWK_SUCCESS, ''v'', w')"
proof -
  let ?d = "(DBAdapter_new ''s'')\<lparr>db_kvStoragePtr := True\<rparr>"
  have K: "c_K demo = demo_K" by (simp add: demo_def)
  obtain r w' where P: "DB_PutData demo ?d ''k'' ''v'' demo_init = (r, w')" by fastforce
  have "fst (kv_Put (c_K demo) (fw_kv demo_init) (db_storeId ?d) ''k'' ''v'') = KV_SUCCESS" by (simp add: K demo_K_def)
  then show ?thesis
    using put_then_get[of demo ?d "''k''" "''v''" demo_init r w' "[]"] P demo_put_get K
    by (auto simp: IsIdLengthValid_def IsMessageLengthValid_def)
qed

section \<open>The cache of capabilities\<close>

lemma Cap_mem_loop_fold:
  "Cap_mem_loop l w = upd_cap (fold (\<lambda>(k, c). cap_put k c) (map (\<lambda>c. (CapabilityInfo_GetKey c, c)) (List.map_filter id l))) w"
  by (induction l w rule: Cap_mem_loop.induct) (simp_all add: upd_cap_def map_filter_simps)

lemma map_of_key_unique:
  assumes "c \<in> set cs" "\<And>c'. c' \<in> set cs \<Longrightarrow> f c' = f c \<Longrightarrow> c' = c"
  shows "map_of (rev (map (\<lambda>c. (f c, c)) cs)) (f c) = Some c"
proof -
  have "map_of (rev (map (\<lambda>c. (f c, c)) cs)) (f c) \<noteq> None"
    using assms(1) by (simp add: map_of_eq_None_iff image_image)
  then obtain c' where c': "map_of (rev (map (\<lambda>c. (f c, c)) cs)) (f c) = Some c'" by blast
  then have "(f c, c') \<in> set (rev (map (\<lambda>c. (f c, c)) cs))" by (rule map_of_SomeD)
  then have "c' \<in> set cs" "f c' = f c" by auto
  then show ?thesis using assms(2) c' by simp
qed

lemma in_map_filter_id: "c \<in> set (List.map_filter id l) \<longleftrightarrow> Some c \<in> set l"
  by (induction l) (auto simp: map_filter_simps split: option.splits)

text \<open>
  a capability added to the cache is found again by its device id and hardware id, with all its
  fields, unless a later one of the same call has the same key; null entries of the list are skipped.
\<close>

theorem added_capability_found:
  assumes "om_ok (cim_globalCapInfoMap (fw_cap w))" "length l \<le> MAX_DB_RECORD_SIZE" "Some c \<in> set l"
    and "\<forall>c'. Some c' \<in> set l \<and> CapabilityInfo_GetKey c' = CapabilityInfo_GetKey c \<longrightarrow> c' = c"
    and "IsIdLengthValid (ci_deviceId c)" "IsIdLengthValid (ci_dhId c)"
  shows "fst (Cap_AddCapabilityInMem l w) = DH_FWK_SUCCESS
    \<and> Cap_GetCapability (ci_deviceId c) (ci_dhId c) (fw_cap (snd (Cap_AddCapabilityInMem l w))) = (DH_FWK_SUCCESS, Some c)"
proof -
  have l: "l \<noteq> []" using assms(3) by auto
  let ?kvs = "map (\<lambda>c. (CapabilityInfo_GetKey c, c)) (List.map_filter id l)"
  have "om_get (cim_globalCapInfoMap (fold (\<lambda>(k, c). cap_put k c) ?kvs (fw_cap w))) (CapabilityInfo_GetKey c) = Some c"
    using map_of_key_unique[of c "List.map_filter id l" CapabilityInfo_GetKey] assms(3,4)
    by (simp add: cap_cache.look_fold_ins[OF assms(1)] in_map_filter_id map_add_Some_iff)
  moreover have "CapabilityInfo_GetKey c = GetCapabilityKey (ci_deviceId c) (ci_dhId c)"
    by (simp add: CapabilityInfo_GetKey_def GetCapabilityKey_def)
  ultimately show ?thesis
    using l assms(2,5,6) by (simp add: Cap_AddCapabilityInMem_def Cap_GetCapability_def Cap_mem_loop_fold upd_cap_def)
qed

definition demo_capability :: CapabilityInfo where
  "demo_capability = CapabilityInfo_default\<lparr>ci_deviceId := ''devA'', ci_dhId := ''Camera_1'', ci_dhType := DHType_CAMERA\<rparr>"

theorem added_capability_found_witness:
  "Cap_GetCapability ''devA'' ''Camera_1'' (fw_cap (snd (Cap_AddCapabilityInMem [None, Some demo_capability] demo_init)))
    = (DH_FWK_SUCCESS, Some demo_capability)"
proof -
  have k: "ci_deviceId demo_capability = ''devA''" "ci_dhId demo_capability = ''Camera_1''"
    by (simp_all add: demo_capability_def)
  have "om_ok (cim_globalCapInfoMap (fw_cap demo_init))" by (simp add: demo_init_def fwk_init_def)
  then show ?thesis
    using added_capability_found[of demo_init "[None, Some demo_capability]" demo_capability]
    by (simp add: k IsIdLengthValid_def)
qed

text \<open>
  when the capabilities of a device are removed from the cache, no capability of this device is
  listed any more and every entry whose key belongs to another device stays as it was.
\<close>

theorem removed_device_forgotten:
  assumes "om_ok (cim_globalCapInfoMap (fw_cap w))" "IsIdLengthValid devId"
  shows "let m = fw_cap (snd (Cap_RemoveCapabilityInfoInMem devId w)) in
    Cap_GetCapabilitiesByDeviceId devId m = []
    \<and> (\<forall>k. om_get (cim_globalCapInfoMap m) k
        = (if IsCapKeyMatchDeviceId k devId then None else om_get (cim_globalCapInfoMap (fw_cap w)) k))"
proof -
  let ?m = "om_keep (\<lambda>k _. \<not> IsCapKeyMatchDeviceId k devId) (cim_globalCapInfoMap (fw_cap w))"
  have "om_keep (\<lambda>k _. IsCapKeyMatchDeviceId k devId) ?m = []"
    by (auto simp: om_keep_def filter_empty_conv)
  moreover have "om_get ?m k = (if IsCapKeyMatchDeviceId k devId then None else om_get (cim_globalCapInfoMap (fw_cap w)) k)" for k
    by (simp add: om_get_keep[OF assms(1)] split: option.split)
  ultimately show ?thesis
    using assms(2) by (simp add: Cap_RemoveCapabilityInfoInMem_def Cap_GetCapabilitiesByDeviceId_def cap_erase_device_def
        upd_cap_def Let_def)
qed

theorem removed_device_forgotten_witness:
  "Cap_GetCapabilitiesByDeviceId ''devA'' (fw_cap (snd (Cap_RemoveCapabilityInfoInMem ''devA''
    (snd (Cap_AddCapabilityInMem [Some demo_capability] demo_init))))) = []"
proof -
  have "om_ok (cim_globalCapInfoMap (fw_cap (snd (Cap_AddCapabilityInMem [Some demo_capability] demo_init))))"
    by (simp add: Cap_AddCapabilityInMem_def upd_cap_def cap_put_def om_ok_def demo_init_def fwk_init_def)
  from removed_device_forgotten[OF this, of "''devA''"] show ?thesis by (simp add: Let_def IsIdLengthValid_def)
qed

section \<open>Change notifications\<close>

text \<open>What a record of a change is about: the capability it carries and the device that is online for it.\<close>

definition change_of :: "('s, 'j) config \<Rightarrow> string \<Rightarrow> 's fwk \<Rightarrow> (CapabilityInfo \<times> string \<times> string) option" where
  "change_of C value w =
    (case GetCapabilityByValue (c_J C) value None of
       (ret, c) \<Rightarrow>
         let uuid = GetUUIDByDeviceId (ci_deviceId c) (fw_ctx w); n = GetNetworkIdByUUID uuid (fw_ctx w) in
         if ret = DH_FWK_SUCCESS \<and> uuid \<noteq> [] \<and> n \<noteq> [] then Some (c, uuid, n) else None)"

text \<open>
  C20: an inserted record of the database whose value parses and whose device is online puts the
  capability into the cache and requests exactly one enable task for it, with the network id and uuid of
  the device and no calling client; any other inserted record changes nothing.
\<close>

theorem insert_change:
  assumes "om_ok (cim_globalCapInfoMap (fw_cap w))"
  shows "let w' = Cap_OnChange C [(k, value)] [] [] w in
    (case change_of C value w of
       None \<Rightarrow> w' = w
     | Some (c, uuid, n) \<Rightarrow>
         om_get (cim_globalCapInfoMap (fw_cap w')) (CapabilityInfo_GetKey c) = Some c
         \<and> fw_taskQueue w' = PushQueue (length (fw_tasks w)) (fw_taskQueue w)
         \<and> requested (length (fw_tasks w)) TT_ENABLE n uuid (ci_dhId c) (ci_dhType c) w')"
proof (cases "change_of C value w")
  case None
  then show ?thesis
    by (auto simp: change_of_def Cap_OnChange_def handled_def Let_def split: prod.splits if_splits)
next
  case (Some x)
  obtain c uuid n where x: "x = (c, uuid, n)" by (rule prod_cases3)
  have "Cap_OnChange C [(k, value)] [] [] w =
      create_and_push C TT_ENABLE (change_param n uuid c) (upd_cap (cap_put (CapabilityInfo_GetKey c) c) w)"
    using Some x by (auto simp: change_of_def Cap_OnChange_def handled_def Let_def split: prod.splits if_splits)
  then show ?thesis
    using Some x created_task[of TT_ENABLE "upd_cap (cap_put (CapabilityInfo_GetKey c) c) w" "change_param n uuid c" C]
    by (simp add: create_and_push_queue upd_cap_def change_param_def cap_cache.look_ins[OF assms])
qed

text \<open>
  A library that reads every text as one document, a camera of the device whose digest is all zeros; a
  node is the name of its member.
\<close>

definition camera_J :: "string cJSON" where
  "camera_J = \<lparr>cJSON_Parse = (\<lambda>_. Some []), cJSON_PrintUnformatted = (\<lambda>_. None),
     cJSON_GetObjectItem = (\<lambda>_ k. Some k), cJSON_GetObjectItemCaseSensitive = (\<lambda>_ k. Some k),
     cJSON_IsString = (\<lambda>k. k \<noteq> DEV_TYPE \<and> k \<noteq> DH_TYPE), cJSON_IsNumber = (\<lambda>k. k = DEV_TYPE \<or> k = DH_TYPE),
     cJSON_IsArray = (\<lambda>_. False), cJSON_IsBool = (\<lambda>_. False), cJSON_IsTrue = (\<lambda>_. False),
     cj_valuestring = (\<lambda>k. if k = DEV_ID then replicate 64 (CHR ''0'') else if k = DH_ID then ''Camera_1'' else ''x''),
     cj_valueint = (\<lambda>_. 1), cj_valuedouble = (\<lambda>_. 1), cj_items = (\<lambda>_. []),
     cJSON_CreateObject = None, cJSON_CreateArray = None, cJSON_CreateString = (\<lambda>s. s),
     cJSON_AddStringToObject = (\<lambda>j _ _. j), cJSON_AddNumberToObject = (\<lambda>j _ _. j),
     cJSON_AddBoolToObject = (\<lambda>j _ _. j), cJSON_AddItemToObject = (\<lambda>j _ _. j), cJSON_AddItemToArray = (\<lambda>j _. j)\<rparr>"

definition demo_camera_cfg :: "(demo_store, string) config" where
  "demo_camera_cfg = \<lparr>c_P = demo_P, c_J = camera_J, c_K = demo_K, c_E = demo_E, c_rnd = (\<lambda>n. (of_nat n, 0)),
     c_junk = 0, c_open_source = True, c_check_resource = False\<rparr>"

definition demo_peer :: "demo_store fwk" where
  "demo_peer = demo_init\<lparr>fw_ctx := AddOnlineDevice demo_P ''udidA'' ''uuidA'' ''netA'' DHContext_init\<rparr>"

lemma demo_peer_change:
  "map_option snd (change_of demo_camera_cfg ''{}'' demo_peer) = Some (''uuidA'', ''netA'')"
  "map_option (ci_dhId \<circ> fst) (change_of demo_camera_cfg ''{}'' demo_peer) = Some ''Camera_1''"
  by code_simp+

lemma demo_peer_ok: "om_ok (cim_globalCapInfoMap (fw_cap demo_peer))" "fw_tasks demo_peer = []"
  by (simp_all add: demo_peer_def demo_init_def fwk_init_def)

theorem insert_change_witness:
  "\<exists>hw. requested 0 TT_ENABLE ''netA'' ''uuidA'' ''Camera_1'' hw (Cap_OnChange demo_camera_cfg [(''k'', ''{}'')] [] [] demo_peer)"
proof -
  obtain c where c: "change_of demo_camera_cfg ''{}'' demo_peer = Some (c, ''uuidA'', ''netA'')" "ci_dhId c = ''Camera_1''"
    using demo_peer_change by (cases "change_of demo_camera_cfg ''{}'' demo_peer") auto
  then show ?thesis
    using insert_change[OF demo_peer_ok(1), of demo_camera_cfg "''k''" "''{}''"] demo_peer_ok(2)
    by (auto simp: Let_def)
qed

text \<open>
  a record deleted on this network removes its capability from the cache and requests exactly one
  disable task, under the same conditions as an insertion and unless the service is about to be
  released; the same deletion reported by the cloud carries no value and changes nothing, so the cached
  capability of the deleted record stays and its hardware stays enabled.
\<close>

theorem delete_change:
  assumes "om_ok (cim_globalCapInfoMap (fw_cap w))"
  shows "Cap_OnCloudChange C [] [] keys w = w
    \<and> (let w' = Cap_OnChange C [] [] [(k, value)] w in
       (case change_of C value w of
          None \<Rightarrow> w' = w
        | Some (c, uuid, n) \<Rightarrow>
            if fw_unInitFlag w then w' = w
            else om_get (cim_globalCapInfoMap (fw_cap w')) (CapabilityInfo_GetKey c) = None
              \<and> fw_taskQueue w' = PushQueue (length (fw_tasks w)) (fw_taskQueue w)
              \<and> requested (length (fw_tasks w)) TT_DISABLE n uuid (ci_dhId c) (ci_dhType c) w'))"
proof
  have e: "GetCapabilityByValue (c_J C) [] None = (ERR_DH_FWK_PARA_INVALID, CapabilityInfo_default)"
    by (simp add: GetCapabilityByValue_def CapabilityInfo_FromJsonString_def)
  have "Cap_delete_loop C (map (\<lambda>key. (key, [])) keys) w = w" by (induction keys) (simp_all add: e)
  then show "Cap_OnCloudChange C [] [] keys w = w"
    by (simp add: Cap_OnCloudChange_def handled_def HandleCapabilityDeleteChange_def Cap_GetEntriesByKeys_def
        IsArrayLengthValid_def Let_def)
next
  show "let w' = Cap_OnChange C [] [] [(k, value)] w in
       (case change_of C value w of
          None \<Rightarrow> w' = w
        | Some (c, uuid, n) \<Rightarrow>
            if fw_unInitFlag w then w' = w
            else om_get (cim_globalCapInfoMap (fw_cap w')) (CapabilityInfo_GetKey c) = None
              \<and> fw_taskQueue w' = PushQueue (length (fw_tasks w)) (fw_taskQueue w)
              \<and> requested (length (fw_tasks w)) TT_DISABLE n uuid (ci_dhId c) (ci_dhType c) w')"
  proof (cases "change_of C value w")
    case None
    then show ?thesis
      by (auto simp: change_of_def Cap_OnChange_def HandleCapabilityDeleteChange_def handled_def Let_def
          split: prod.splits if_splits)
  next
    case (Some x)
    obtain c uuid n where x: "x = (c, uuid, n)" by (rule prod_cases3)
    have "Cap_OnChange C [] [] [(k, value)] w = (if fw_unInitFlag w then w
        else upd_cap (cap_erase (CapabilityInfo_GetKey c)) (create_and_push C TT_DISABLE (change_param n uuid c) w))"
      using Some x by (auto simp: change_of_def Cap_OnChange_def HandleCapabilityDeleteChange_def handled_def Let_def
          split: prod.splits if_splits)
    then show ?thesis
      using Some x created_task[of TT_DISABLE w "change_param n uuid c" C]
      by (simp add: create_and_push_queue upd_cap_def change_param_def cap_cache.look_del[OF assms] requested_def GetTask_def)
  qed
qed

theorem delete_change_witness:
  "\<exists>hw. requested 0 TT_DISABLE ''netA'' ''uuidA'' ''Camera_1'' hw (Cap_OnChange demo_camera_cfg [] [] [(''k'', ''{}'')] demo_peer)"
proof -
  obtain c where c: "change_of demo_camera_cfg ''{}'' demo_peer = Some (c, ''uuidA'', ''netA'')" "ci_dhId c = ''Camera_1''"
    using demo_peer_change by (cases "change_of demo_camera_cfg ''{}'' demo_peer") auto
  have "\<not> fw_unInitFlag demo_peer" by (simp add: demo_peer_def demo_init_def fwk_init_def)
  then show ?thesis
    using delete_change[OF demo_peer_ok(1), of demo_camera_cfg _ "''k''" "''{}''"] demo_peer_ok(2) c
    by (auto simp: Let_def)
qed

end
