(* ===== verification/Publisher.thy ===== *)
theory Publisher
  imports State
begin

text \<open>
  The publisher of the service (\<open>publisher/publisher.cpp\<close>, \<open>publisher/publisher_item.cpp\<close>): one item for
  each topic, with the listeners registered for it.

  A listener is its number; the function that gives the remote object of a listener, zero for none, is an
  argument.  The listeners of an item are a set ordered by the address of the remote object, so of two
  listeners with the same object only the first is kept: the set is a map from the object to the listener.
\<close>

section \<open>Topics\<close>

type_synonym DHTopic = "32 word"

definition TOPIC_MIN :: DHTopic where [simp]: "TOPIC_MIN = 0"
definition TOPIC_START_DSCREEN :: DHTopic where [simp]: "TOPIC_START_DSCREEN = 1"
definition TOPIC_SINK_PROJECT_WINDOW_INFO :: DHTopic where [simp]: "TOPIC_SINK_PROJECT_WINDOW_INFO = 2"
definition TOPIC_STOP_DSCREEN :: DHTopic where [simp]: "TOPIC_STOP_DSCREEN = 3"
definition TOPIC_DEV_OFFLINE :: DHTopic where [simp]: "TOPIC_DEV_OFFLINE = 4"
definition TOPIC_LOW_LATENCY :: DHTopic where [simp]: "TOPIC_LOW_LATENCY = 5"
definition TOPIC_INIT_DHMS_READY :: DHTopic where [simp]: "TOPIC_INIT_DHMS_READY = 6"
definition TOPIC_PHY_DEV_PLUGIN :: DHTopic where [simp]: "TOPIC_PHY_DEV_PLUGIN = 7"
definition TOPIC_ISOMERISM :: DHTopic where [simp]: "TOPIC_ISOMERISM = 8"
definition TOPIC_AV_FLUENCY :: DHTopic where [simp]: "TOPIC_AV_FLUENCY = 9"
definition TOPIC_AV_LOW_LATENCY :: DHTopic where [simp]: "TOPIC_AV_LOW_LATENCY = 10"
definition TOPIC_CREATE_SESSION_READY :: DHTopic where [simp]: "TOPIC_CREATE_SESSION_READY = 11"
definition TOPIC_SOURCE_DHMS_READY :: DHTopic where [simp]: "TOPIC_SOURCE_DHMS_READY = 12"
definition TOPIC_MAX :: DHTopic where [simp]: "TOPIC_MAX = 13"

section \<open>Items\<close>

record PublisherItem =
  pi_topic :: DHTopic
  pi_listeners :: "(nat, nat) omap"

definition PublisherItem_new :: "DHTopic \<Rightarrow> PublisherItem" where
  "PublisherItem_new topic = \<lparr>pi_topic = topic, pi_listeners = []\<rparr>"

definition AddListener :: "(nat \<Rightarrow> nat) \<Rightarrow> nat option \<Rightarrow> PublisherItem \<Rightarrow> PublisherItem" where
  "AddListener AsObject listener item =
    (case listener of
       None \<Rightarrow> item
     | Some l \<Rightarrow> item\<lparr>pi_listeners := om_emplace (AsObject l) l (pi_listeners item)\<rparr>)"

definition RemoveListener :: "(nat \<Rightarrow> nat) \<Rightarrow> nat option \<Rightarrow> PublisherItem \<Rightarrow> PublisherItem" where
  "RemoveListener AsObject listener item =
    (case listener of
       None \<Rightarrow> item
     | Some l \<Rightarrow> item\<lparr>pi_listeners := om_del (AsObject l) (pi_listeners item)\<rparr>)"

text \<open>The calls of \<open>OnMessage\<close>: the listener, the topic and the message.\<close>

definition Item_PublishMessage :: "string \<Rightarrow> PublisherItem \<Rightarrow> (nat \<times> DHTopic \<times> string) list" where
  "Item_PublishMessage message item =
    (if \<not> IsMessageLengthValid message then []
     else map (\<lambda>(ob, l). (l, pi_topic item, message)) (pi_listeners item))"

section \<open>The publisher\<close>

type_synonym Publisher = "(DHTopic, PublisherItem) omap"

definition Publisher_init :: Publisher where
  "Publisher_init = map (\<lambda>t. (t, PublisherItem_new t))
     [TOPIC_START_DSCREEN, TOPIC_SINK_PROJECT_WINDOW_INFO, TOPIC_STOP_DSCREEN, TOPIC_DEV_OFFLINE, TOPIC_LOW_LATENCY,
      TOPIC_INIT_DHMS_READY, TOPIC_PHY_DEV_PLUGIN, TOPIC_ISOMERISM, TOPIC_AV_FLUENCY, TOPIC_AV_LOW_LATENCY,
      TOPIC_CREATE_SESSION_READY, TOPIC_SOURCE_DHMS_READY]"

definition IsTopicExist :: "DHTopic \<Rightarrow> Publisher \<Rightarrow> bool" where
  "IsTopicExist topic p = om_has p topic"

definition RegisterListener :: "(nat \<Rightarrow> nat) \<Rightarrow> DHTopic \<Rightarrow> nat option \<Rightarrow> Publisher \<Rightarrow> Publisher" where
  "RegisterListener AsObject topic listener p =
    (case om_get p topic of
       None \<Rightarrow> p
     | Some item \<Rightarrow> om_put topic (AddListener AsObject listener item) p)"

definition UnregisterListener :: "(nat \<Rightarrow> nat) \<Rightarrow> DHTopic \<Rightarrow> nat option \<Rightarrow> Publisher \<Rightarrow> Publisher" where
  "UnregisterListener AsObject topic listener p =
    (case om_get p topic of
       None \<Rightarrow> p
     | Some item \<Rightarrow> om_put topic (RemoveListener AsObject listener item) p)"

definition PublishMessage :: "DHTopic \<Rightarrow> string \<Rightarrow> Publisher \<Rightarrow> (nat \<times> DHTopic \<times> string) list" where
  "PublishMessage topic message p =
    (case om_get p topic of None \<Rightarrow> [] | Some item \<Rightarrow> Item_PublishMessage message item)"

section \<open>Histories of the publisher\<close>

text \<open>The listener operations of clients, as they come in.\<close>

datatype PubOp = PubReg DHTopic "nat option" | PubUnreg DHTopic "nat option"

fun pub_run :: "(nat \<Rightarrow> nat) \<Rightarrow> PubOp list \<Rightarrow> Publisher \<Rightarrow> Publisher" where
  "pub_run ob [] p = p"
| "pub_run ob (PubReg t l # ops) p = pub_run ob ops (RegisterListener ob t l p)"
| "pub_run ob (PubUnreg t l # ops) p = pub_run ob ops (UnregisterListener ob t l p)"

text \<open>Who should hear a topic: the first registered of each remote object since its last removal.\<close>

fun subscriber :: "(nat \<Rightarrow> nat) \<Rightarrow> DHTopic \<Rightarrow> nat \<Rightarrow> PubOp list \<Rightarrow> nat option \<Rightarrow> nat option" where
  "subscriber ob t x [] cur = cur"
| "subscriber ob t x (PubReg t' (Some l) # ops) cur =
     subscriber ob t x ops (if t' = t \<and> ob l = x \<and> cur = None then Some l else cur)"
| "subscriber ob t x (PubUnreg t' (Some l) # ops) cur =
     subscriber ob t x ops (if t' = t \<and> ob l = x then None else cur)"
| "subscriber ob t x (_ # ops) cur = subscriber ob t x ops cur"

definition heard :: "Publisher \<Rightarrow> DHTopic \<Rightarrow> nat \<Rightarrow> nat option" where
  "heard p t x = (case om_get p t of None \<Rightarrow> None | Some item \<Rightarrow> om_get (pi_listeners item) x)"

definition pub_ok :: "(nat \<Rightarrow> nat) \<Rightarrow> Publisher \<Rightarrow> bool" where
  "pub_ok ob p = list_all (\<lambda>(t, item). pi_topic item = t \<and> om_ok (pi_listeners item)
     \<and> list_all (\<lambda>(x, l). ob l = x) (pi_listeners item)) p"

lemma pub_ok_init: "pub_ok ob Publisher_init"
  by (simp add: pub_ok_def Publisher_init_def PublisherItem_new_def)

lemma pub_ok_put:
  "pub_ok ob p \<Longrightarrow> om_get p t = Some item \<Longrightarrow> pi_topic item' = t \<Longrightarrow> om_ok (pi_listeners item') \<Longrightarrow>
   list_all (\<lambda>(x, l). ob l = x) (pi_listeners item') \<Longrightarrow> pub_ok ob (om_put t item' p)"
  unfolding pub_ok_def by (induction t item' p rule: om_put.induct) (auto split: if_splits)

lemma pub_okD:
  "pub_ok ob p \<Longrightarrow> om_get p t = Some item \<Longrightarrow>
     pi_topic item = t \<and> om_ok (pi_listeners item) \<and> list_all (\<lambda>(x, l). ob l = x) (pi_listeners item)"
  by (auto simp: pub_ok_def list_all_iff dest!: map_of_SomeD)

lemma list_all_om_put: "list_all (\<lambda>(x, l). P x l) m \<Longrightarrow> P k v \<Longrightarrow> list_all (\<lambda>(x, l). P x l) (om_put k v m)"
  by (induction k v m rule: om_put.induct) auto

lemma list_all_om_del: "list_all Q m \<Longrightarrow> list_all Q (om_del k m)"
  by (auto simp: om_del_def list_all_iff)

lemma register_ok: "pub_ok ob p \<Longrightarrow> pub_ok ob (RegisterListener ob t l p)"
  by (auto simp: RegisterListener_def AddListener_def om_emplace_def om_intros list_all_om_put
      dest: pub_okD intro!: pub_ok_put split: option.split)

lemma unregister_ok: "pub_ok ob p \<Longrightarrow> pub_ok ob (UnregisterListener ob t l p)"
  by (auto simp: UnregisterListener_def RemoveListener_def om_intros list_all_om_del
      dest: pub_okD intro!: pub_ok_put split: option.split)

lemma heard_register:
  "heard (RegisterListener ob t' l p) t x =
    (case l of Some n \<Rightarrow> if t' = t \<and> ob n = x \<and> om_has p t \<and> heard p t x = None then Some n else heard p t x
     | None \<Rightarrow> heard p t x)"
  by (auto simp: heard_def RegisterListener_def AddListener_def split: option.split)

lemma heard_unregister:
  "heard (UnregisterListener ob t' l p) t x =
    (case l of Some n \<Rightarrow> if t' = t \<and> ob n = x then None else heard p t x | None \<Rightarrow> heard p t x)"
  by (auto simp: heard_def UnregisterListener_def RemoveListener_def split: option.split)

lemma topics_kept: "om_has (RegisterListener ob t' l p) t = om_has p t" "om_has (UnregisterListener ob t' l p) t = om_has p t"
  by (auto simp: RegisterListener_def UnregisterListener_def split: option.split)

lemma heard_run: "om_has p t \<Longrightarrow> heard (pub_run ob ops p) t x = subscriber ob t x ops (heard p t x)"
proof (induction ops arbitrary: p)
  case (Cons e ops)
  then show ?case
  proof (cases e)
    case (PubReg t' l)
    show ?thesis using Cons.IH[of "RegisterListener ob t' l p"] Cons.prems PubReg topics_kept(1)[of ob t' l p t]
      by (cases l) (simp_all add: heard_register)
  next
    case (PubUnreg t' l)
    show ?thesis using Cons.IH[of "UnregisterListener ob t' l p"] Cons.prems PubUnreg topics_kept(2)[of ob t' l p t]
      by (cases l) (simp_all add: heard_unregister)
  qed
qed simp

lemma run_ok: "pub_ok ob p \<Longrightarrow> pub_ok ob (pub_run ob ops p)"
  by (induction ops arbitrary: p rule: list.induct)
     (simp, metis PubOp.exhaust pub_run.simps(2,3) register_ok unregister_ok)

lemma run_topics: "om_has (pub_run ob ops p) t = om_has p t"
  by (induction ob ops p rule: pub_run.induct) (simp_all add: topics_kept del: om_has_iff)

lemma publish_heard:
  assumes "pub_ok ob p" "IsMessageLengthValid m"
  shows "(l, t', m') \<in> set (PublishMessage t m p) \<longleftrightarrow> t' = t \<and> m' = m \<and> heard p t (ob l) = Some l"
proof (cases "om_get p t")
  case (Some item)
  have i: "pi_topic item = t" "om_ok (pi_listeners item)" "list_all (\<lambda>(x, l). ob l = x) (pi_listeners item)"
    using pub_okD[OF assms(1) Some] by simp_all
  have "(\<exists>x. (x, l) \<in> set (pi_listeners item)) \<longleftrightarrow> (ob l, l) \<in> set (pi_listeners item)"
    using i(3) by (auto simp: list_all_iff)
  also have "\<dots> \<longleftrightarrow> om_get (pi_listeners item) (ob l) = Some l" by (rule om_get_in[OF i(2)])
  finally show ?thesis using assms(2) i(1) Some
    by (auto simp: PublishMessage_def Item_PublishMessage_def heard_def)
qed (simp add: PublishMessage_def heard_def)

lemma publish_distinct: "pub_ok ob p \<Longrightarrow> distinct (PublishMessage t m p)"
proof (cases "om_get p t")
  case (Some item)
  assume "pub_ok ob p"
  then have i: "om_ok (pi_listeners item)" "list_all (\<lambda>(x, l). ob l = x) (pi_listeners item)"
    using pub_okD[OF _ Some] by simp_all
  have "a = b" if "(a, l) \<in> set (pi_listeners item)" "(b, l) \<in> set (pi_listeners item)" for a b l
  proof -
    have "ob l = a" "ob l = b" using i(2) that unfolding list_all_iff by fastforce+
    then show ?thesis by simp
  qed
  then show ?thesis using om_ok_distinct[OF i(1)]
    by (auto simp: PublishMessage_def Item_PublishMessage_def Some distinct_map inj_on_def)
qed (simp add: PublishMessage_def)

text \<open>
  C29: whatever listeners have been registered and unregistered before, a valid message on one of the twelve
  topics is delivered exactly once to each listener that is subscribed, with this topic, and to no one
  else, where of several listeners with the same remote object only the first registered one is subscribed,
  and one unregistration of the object ends it; an oversized message and an unknown topic reach no one.
\<close>

theorem published_to_subscribers:
  "let p = pub_run ob ops Publisher_init in
   distinct (PublishMessage t m p)
   \<and> ((l, t', m') \<in> set (PublishMessage t m p) \<longleftrightarrow>
        t' = t \<and> m' = m \<and> IsMessageLengthValid m \<and> IsTopicExist t Publisher_init \<and> subscriber ob t (ob l) ops None = Some l)"
proof -
  let ?p = "pub_run ob ops Publisher_init"
  have ok: "pub_ok ob ?p" by (rule run_ok[OF pub_ok_init])
  have h0: "heard Publisher_init t x = None" for x
    by (auto simp: heard_def Publisher_init_def PublisherItem_new_def split: option.split)
  have sub: "subscriber ob t (ob l) ops None = heard ?p t (ob l)" if "om_has Publisher_init t"
    using heard_run[OF that] h0 by simp
  have none: "PublishMessage t m ?p = []" if "\<not> om_has Publisher_init t"
    using run_topics[of ob ops Publisher_init t] that by (simp add: PublishMessage_def)
  have long: "PublishMessage t m ?p = []" if "\<not> IsMessageLengthValid m"
    using that by (simp add: PublishMessage_def Item_PublishMessage_def split: option.split)
  show ?thesis
  proof (cases "om_has Publisher_init t \<and> IsMessageLengthValid m")
    case True
    then show ?thesis using publish_distinct[OF ok] publish_heard[OF ok] sub by (simp add: IsTopicExist_def Let_def)
  next
    case False
    then have "PublishMessage t m ?p = []" using none long by blast
    then show ?thesis using False by (auto simp: IsTopicExist_def Let_def)
  qed
qed

end
