(* ===== verification/Transport_Obj.thy ===== *)
theory Transport_Obj
  imports Publisher "HOL-Library.Log_Nat"
begin

text \<open>
  The messages between devices (\<open>transport/dh_transport_obj.{h,cpp}\<close>) and their compression
  (\<open>Compress\<close> and \<open>Decompress\<close> of \<open>src/utils/src/dh_utils_tool.cpp\<close>).

  The zlib library is a parameter: the streams it makes of a text, and what one call appends to a buffer
  of a given size.  The loops that call it until the buffer is not full are partial functions: a loop
  that does not end has no result.  The lists of capabilities hold no null pointer, since everything that
  builds a response puts capabilities into it.
\<close>

section \<open>Compression\<close>

record 'z zlib =
  z_deflateInit :: "string \<Rightarrow> 'z"
  z_deflate :: "nat \<Rightarrow> 'z \<Rightarrow> string \<times> 'z"
  z_inflateInit :: "string \<Rightarrow> 'z"
  z_inflate :: "nat \<Rightarrow> 'z \<Rightarrow> string \<times> 'z"

definition COMPRESS_SLICE_SIZE :: nat where "COMPRESS_SLICE_SIZE = 1024"

text \<open>The loop of both functions: a call that leaves room in the buffer is the last.\<close>

partial_function (option) slices :: "(nat \<Rightarrow> 'z \<Rightarrow> string \<times> 'z) \<Rightarrow> 'z \<Rightarrow> string \<Rightarrow> string option" where
  "slices call strm out =
    (case call COMPRESS_SLICE_SIZE strm of
       (bytes, strm') \<Rightarrow>
         if COMPRESS_SLICE_SIZE - length bytes = 0 then slices call strm' (out @ bytes) else Some (out @ bytes))"

declare slices.simps [code]

definition Compress :: "'z zlib \<Rightarrow> string \<Rightarrow> string option" where
  "Compress Z data = slices (z_deflate Z) (z_deflateInit Z data) []"

definition Decompress :: "'z zlib \<Rightarrow> string \<Rightarrow> string option" where
  "Decompress Z data = slices (z_inflate Z) (z_inflateInit Z data) []"

section \<open>Data\<close>

record FullCapsRsp =
  fr_networkId :: string
  fr_caps :: "CapabilityInfo list"
  fr_metaCaps :: "MetaCapabilityInfo list"

definition FullCapsRsp_default :: FullCapsRsp where
  "FullCapsRsp_default = \<lparr>fr_networkId = [], fr_caps = [], fr_metaCaps = []\<rparr>"

record CommMsg =
  msg_code :: int
  msg_userId :: int
  msg_tokenId :: "64 word"
  msg_msg :: string
  msg_accountId :: string
  msg_isSyncMeta :: bool
  msg_realNetworkId :: string

definition CommMsg_default :: CommMsg where
  "CommMsg_default = \<lparr>msg_code = -1, msg_userId = -1, msg_tokenId = 0, msg_msg = [], msg_accountId = [],
     msg_isSyncMeta = False, msg_realNetworkId = []\<rparr>"

definition CAPS_RSP_NETWORKID_KEY :: string where "CAPS_RSP_NETWORKID_KEY = ''networkId''"
definition CAPS_RSP_CAPS_KEY :: string where "CAPS_RSP_CAPS_KEY = ''caps''"
definition COMM_MSG_CODE_KEY :: string where "COMM_MSG_CODE_KEY = ''code''"
definition COMM_MSG_MSG_KEY :: string where "COMM_MSG_MSG_KEY = ''msg''"
definition COMM_MSG_USERID_KEY :: string where "COMM_MSG_USERID_KEY = ''userId''"
definition COMM_MSG_TOKENID_KEY :: string where "COMM_MSG_TOKENID_KEY = ''tokenId''"
definition COMM_MSG_ACCOUNTID_KEY :: string where "COMM_MSG_ACCOUNTID_KEY = ''accountId''"
definition COMM_MSG_SYNC_META_KEY :: string where "COMM_MSG_SYNC_META_KEY = ''sync_meta''"

lemmas msg_names =
  CAPS_RSP_NETWORKID_KEY_def CAPS_RSP_CAPS_KEY_def COMM_MSG_CODE_KEY_def COMM_MSG_MSG_KEY_def
  COMM_MSG_USERID_KEY_def COMM_MSG_TOKENID_KEY_def COMM_MSG_ACCOUNTID_KEY_def COMM_MSG_SYNC_META_KEY_def

section \<open>Responses\<close>

text \<open>The loop that fills the array: None when an object could not be created.\<close>

fun caps_array :: "'j cJSON \<Rightarrow> ('j \<Rightarrow> 'c \<Rightarrow> 'j) \<Rightarrow> 'c list \<Rightarrow> 'j \<Rightarrow> 'j option" where
  "caps_array J put [] arr = Some arr"
| "caps_array J put (c # rest) arr =
    (case cJSON_CreateObject J of
       None \<Rightarrow> None
     | Some o0 \<Rightarrow> caps_array J put rest (cJSON_AddItemToArray J arr (put o0 c)))"

definition FullCapsRsp_ToJson :: "'j cJSON \<Rightarrow> 'j \<Rightarrow> FullCapsRsp \<Rightarrow> bool \<Rightarrow> 'j" where
  "FullCapsRsp_ToJson J o0 r isSyncMeta =
    (let o1 = cJSON_AddStringToObject J o0 CAPS_RSP_NETWORKID_KEY (c_str (fr_networkId r))
     in case cJSON_CreateArray J of
          None \<Rightarrow> o1
        | Some capArr \<Rightarrow>
           (case (if isSyncMeta then caps_array J (MetaCapabilityInfo_ToJson J) (fr_metaCaps r) capArr
                  else caps_array J (CapabilityInfo_ToJson J) (fr_caps r) capArr) of
              None \<Rightarrow> o1
            | Some arr \<Rightarrow> cJSON_AddItemToObject J o1 CAPS_RSP_CAPS_KEY arr))"

definition FullCapsRsp_FromJson :: "'j cJSON \<Rightarrow> 'j \<Rightarrow> FullCapsRsp \<Rightarrow> bool \<Rightarrow> FullCapsRsp" where
  "FullCapsRsp_FromJson J jo r isSyncMeta =
    (let g = cJSON_GetObjectItem J jo in
     if \<not> IsString J (g CAPS_RSP_NETWORKID_KEY) then r
     else
       let r1 = r\<lparr>fr_networkId := item_str J (g CAPS_RSP_NETWORKID_KEY)\<rparr> in
       if \<not> IsArray J (g CAPS_RSP_CAPS_KEY) then r1
       else
         let items = (case g CAPS_RSP_CAPS_KEY of None \<Rightarrow> [] | Some a \<Rightarrow> cj_items J a) in
         if isSyncMeta
         then r1\<lparr>fr_metaCaps := fr_metaCaps r1 @ map (\<lambda>c. MetaCapabilityInfo_FromJson J c MetaCapabilityInfo_default) items\<rparr>
         else r1\<lparr>fr_caps := fr_caps r1 @ map (\<lambda>c. CapabilityInfo_FromJson J c CapabilityInfo_default) items\<rparr>)"

section \<open>Messages\<close>

text \<open>
  The token id is converted to the \<open>double\<close> the library takes: the nearest number with fifty-three
  significant bits, the even one when two are as near.
\<close>

definition to_double :: "64 word \<Rightarrow> real" where
  "to_double w =
    (let n = unat w; e = floorlog 2 n - 53; q = n div 2 ^ e; r = n mod 2 ^ e
     in if e = 0 then real n
        else if 2 * r > 2 ^ e \<or> 2 * r = 2 ^ e \<and> odd q then real ((q + 1) * 2 ^ e)
        else real (q * 2 ^ e))"

definition CommMsg_ToJson :: "'j cJSON \<Rightarrow> 'j \<Rightarrow> CommMsg \<Rightarrow> 'j" where
  "CommMsg_ToJson J o0 m =
    (let o1 = cJSON_AddNumberToObject J o0 COMM_MSG_CODE_KEY (of_int (msg_code m));
         o2 = cJSON_AddNumberToObject J o1 COMM_MSG_USERID_KEY (of_int (msg_userId m));
         o3 = cJSON_AddNumberToObject J o2 COMM_MSG_TOKENID_KEY (to_double (msg_tokenId m));
         o4 = cJSON_AddStringToObject J o3 COMM_MSG_MSG_KEY (c_str (msg_msg m));
         o5 = cJSON_AddStringToObject J o4 COMM_MSG_ACCOUNTID_KEY (c_str (msg_accountId m))
     in cJSON_AddBoolToObject J o5 COMM_MSG_SYNC_META_KEY (msg_isSyncMeta m))"

definition CommMsg_FromJson :: "'j cJSON \<Rightarrow> 'j \<Rightarrow> CommMsg \<Rightarrow> CommMsg" where
  "CommMsg_FromJson J jo m0 =
    (let g = cJSON_GetObjectItem J jo;
         m1 = (if IsInt32 J (g COMM_MSG_CODE_KEY) then m0\<lparr>msg_code := item_int J (g COMM_MSG_CODE_KEY)\<rparr> else m0);
         m2 = (case g COMM_MSG_USERID_KEY of None \<Rightarrow> m1
               | Some j \<Rightarrow> if cJSON_IsNumber J j then m1\<lparr>msg_userId := cj_valueint J j\<rparr> else m1);
         m3 = (case g COMM_MSG_TOKENID_KEY of None \<Rightarrow> m2
               | Some j \<Rightarrow> if cJSON_IsNumber J j then m2\<lparr>msg_tokenId := word_of_int (cj_valueint J j)\<rparr> else m2);
         m4 = (case g COMM_MSG_MSG_KEY of None \<Rightarrow> m3
               | Some j \<Rightarrow> if cJSON_IsString J j then m3\<lparr>msg_msg := cj_valuestring J j\<rparr> else m3);
         m5 = (case g COMM_MSG_ACCOUNTID_KEY of None \<Rightarrow> m4
               | Some j \<Rightarrow> if cJSON_IsString J j then m4\<lparr>msg_accountId := cj_valuestring J j\<rparr> else m4)
     in case g COMM_MSG_SYNC_META_KEY of None \<Rightarrow> m5
        | Some j \<Rightarrow> if cJSON_IsBool J j then m5\<lparr>msg_isSyncMeta := (cj_valueint J j \<noteq> 0)\<rparr> else m5)"

definition GetCommMsgString :: "'j cJSON \<Rightarrow> CommMsg \<Rightarrow> string" where
  "GetCommMsgString J m =
    (case cJSON_CreateObject J of
       None \<Rightarrow> []
     | Some o0 \<Rightarrow> (case cJSON_PrintUnformatted J (CommMsg_ToJson J o0 m) of None \<Rightarrow> [] | Some s \<Rightarrow> s))"

section \<open>The loops end\<close>

text \<open>
  What zlib documents of a stream: some bytes are pending, a call delivers as many of them as fit, what is
  pending for the inflation of the deflation of a text is the text, and the deflation of a text is not
  empty and no longer than \<open>compressBound\<close> says.
\<close>

definition compressBound :: "nat \<Rightarrow> nat" where
  "compressBound n = n + n div 2 ^ 12 + n div 2 ^ 14 + n div 2 ^ 25 + 13"

definition zlib_laws :: "'z zlib \<Rightarrow> ('z \<Rightarrow> string) \<Rightarrow> bool" where
  "zlib_laws Z pending =
    ((\<forall>n s. fst (z_deflate Z n s) = take n (pending s) \<and> pending (snd (z_deflate Z n s)) = drop n (pending s))
     \<and> (\<forall>n s. fst (z_inflate Z n s) = take n (pending s) \<and> pending (snd (z_inflate Z n s)) = drop n (pending s))
     \<and> (\<forall>x. pending (z_inflateInit Z (pending (z_deflateInit Z x))) = x)
     \<and> (\<forall>x. 0 < length (pending (z_deflateInit Z x)) \<and> length (pending (z_deflateInit Z x)) \<le> compressBound (length x)))"

lemma slices_end:
  assumes "\<And>s. fst (call COMPRESS_SLICE_SIZE s) = take COMPRESS_SLICE_SIZE (pending s)"
    and "\<And>s. pending (snd (call COMPRESS_SLICE_SIZE s)) = drop COMPRESS_SLICE_SIZE (pending s)"
  shows "slices call s out = Some (out @ pending s)"
proof (induction "length (pending s)" arbitrary: s out rule: less_induct)
  case less
  obtain bytes s' where c: "call COMPRESS_SLICE_SIZE s = (bytes, s')" by fastforce
  have b: "bytes = take COMPRESS_SLICE_SIZE (pending s)" "pending s' = drop COMPRESS_SLICE_SIZE (pending s)"
    using assms[of s] c by simp_all
  show ?case
  proof (cases "COMPRESS_SLICE_SIZE \<le> length (pending s)")
    case True
    then have "length (pending s') < length (pending s)" using b by (simp add: COMPRESS_SLICE_SIZE_def)
    from less[OF this, of "out @ bytes"] show ?thesis
      using True b by (subst slices.simps) (simp add: c)
  next
    case False
    then show ?thesis using b c by (subst slices.simps) (simp add: COMPRESS_SLICE_SIZE_def)
  qed
qed

lemma Compress_end:
  assumes "zlib_laws Z pending"
  shows "Compress Z x = Some (pending (z_deflateInit Z x))" "Decompress Z y = Some (pending (z_inflateInit Z y))"
  using assms slices_end[of "z_deflate Z" pending] slices_end[of "z_inflate Z" pending]
  by (simp_all add: Compress_def Decompress_def zlib_laws_def)

end
