(* ===== verification/Component_Privacy.thy ===== *)
theory Component_Privacy
  imports Publisher
begin

text \<open>
  The privacy pages of a component (\<open>componentmanager/component_privacy.cpp\<close>): the answers to a sink that
  asks whether a resource is sensitive, and the page that tells the user that one is used.

  The event handler holds its events with the time at which they are due, in milliseconds; it runs the one
  that is due first, and of those that are due together the one that was sent first.  The values of the
  device types, the description of a device and whether the ability manager can be reached are parameters.
\<close>

section \<open>State\<close>

datatype ResourceEventType = EVENT_TYPE_QUERY_RESOURCE | EVENT_TYPE_PULL_UP_PAGE | EVENT_TYPE_CLOSE_PAGE

datatype PageEvent = COMP_START_PAGE | COMP_STOP_PAGE

definition COMP_PRIVACY_DELAY_TIME :: nat where [simp]: "COMP_PRIVACY_DELAY_TIME = 1000"

record 'j ComponentPrivacy =
  pv_eventHandler :: bool
  pv_isPrivacePageOpen :: bool
  pv_now :: nat
  pv_events :: "(nat \<times> PageEvent \<times> 'j list) list"

definition ComponentPrivacy_new :: "'j ComponentPrivacy" where
  "ComponentPrivacy_new = \<lparr>pv_eventHandler = True, pv_isPrivacePageOpen = False, pv_now = 0, pv_events = []\<rparr>"

record privacy_env =
  pe_DEVICE_TYPE_WIFI_CAMERA :: "16 word"
  pe_DEVICE_TYPE_AUDIO :: "16 word"
  pe_DEVICE_TYPE_PC :: "16 word"
  pe_DEVICE_TYPE_PHONE :: "16 word"
  pe_DEVICE_TYPE_PAD :: "16 word"
  pe_DEVICE_TYPE_WATCH :: "16 word"
  pe_DEVICE_TYPE_CAR :: "16 word"
  pe_DEVICE_TYPE_TV :: "16 word"
  pe_DEVICE_TYPE_SMART_DISPLAY :: "16 word"
  pe_DEVICE_TYPE_2IN1 :: "16 word"
  pe_GetDeviceInfo :: "ecall list \<Rightarrow> string \<Rightarrow> string \<times> 16 word"
  pe_AbilityManager :: "ecall list \<Rightarrow> bool"

definition PRIVACY_SUBTYPE :: string where "PRIVACY_SUBTYPE = ''subtype''"
definition PRIVACY_NETWORKID :: string where "PRIVACY_NETWORKID = ''networkId''"

section \<open>The page\<close>

definition SetPageFlagTrue :: "'j ComponentPrivacy \<Rightarrow> 'j ComponentPrivacy" where
  "SetPageFlagTrue p = p\<lparr>pv_isPrivacePageOpen := True\<rparr>"

definition SetPageFlagFalse :: "'j ComponentPrivacy \<Rightarrow> 'j ComponentPrivacy" where
  "SetPageFlagFalse p = p\<lparr>pv_isPrivacePageOpen := False\<rparr>"

definition GetPageFlag :: "'j ComponentPrivacy \<Rightarrow> bool" where
  "GetPageFlag p = pv_isPrivacePageOpen p"

definition DeviceTypeToString :: "privacy_env \<Rightarrow> 16 word \<Rightarrow> string" where
  "DeviceTypeToString V deviceTypeId =
    (if deviceTypeId = pe_DEVICE_TYPE_WIFI_CAMERA V then ''camera''
     else if deviceTypeId = pe_DEVICE_TYPE_AUDIO V then ''audio''
     else if deviceTypeId = pe_DEVICE_TYPE_PC V then ''pc''
     else if deviceTypeId = pe_DEVICE_TYPE_PHONE V then ''phone''
     else if deviceTypeId = pe_DEVICE_TYPE_PAD V then ''pad''
     else if deviceTypeId = pe_DEVICE_TYPE_WATCH V then ''watch''
     else if deviceTypeId = pe_DEVICE_TYPE_CAR V then ''car''
     else if deviceTypeId = pe_DEVICE_TYPE_TV V then ''tv''
     else if deviceTypeId = pe_DEVICE_TYPE_SMART_DISPLAY V then ''display''
     else if deviceTypeId = pe_DEVICE_TYPE_2IN1 V then ''2in1''
     else ''unknown'')"

text \<open>The values of \<open>DHSubtype::AUDIO_MIC\<close> and \<open>DHSubtype::CAMERA\<close>.\<close>

definition page_type :: "string \<Rightarrow> int" where
  "page_type subtype = (if subtype = ''mic'' then 1024 else if subtype = ''camera'' then 1 else -1)"

definition StartPrivacePage ::
    "privacy_env \<Rightarrow> ('s, 'j) config \<Rightarrow> string \<Rightarrow> string \<Rightarrow> 'j ComponentPrivacy \<Rightarrow> 's fwk \<Rightarrow>
     int \<times> 'j ComponentPrivacy \<times> 's fwk" where
  "StartPrivacePage V C subtype networkId p w =
    (if \<not> IsIdLengthValid networkId then (ERR_DH_FWK_PARA_INVALID, p, w)
     else case pe_GetDeviceInfo V (fw_trace w) networkId of
       (deviceName, deviceTypeId) \<Rightarrow>
         if \<not> pe_AbilityManager V (fw_trace w) then (ERR_DH_FWK_POINTER_IS_NULL, p, w)
         else case call_ret C (EC_StartAbility [(''type'', page_type subtype)]
             [(''srcNetworkId'', networkId), (''deviceName'', deviceName),
              (''deviceType'', DeviceTypeToString V deviceTypeId)]) w of
           (result, w1) \<Rightarrow> (result, SetPageFlagTrue p, w1))"

definition StopPrivacePage ::
    "privacy_env \<Rightarrow> ('s, 'j) config \<Rightarrow> string \<Rightarrow> 'j ComponentPrivacy \<Rightarrow> 's fwk \<Rightarrow> int \<times> 'j ComponentPrivacy \<times> 's fwk" where
  "StopPrivacePage V C subtype p w =
    (if \<not> pe_AbilityManager V (fw_trace w) then (ERR_DH_FWK_POINTER_IS_NULL, p, w)
     else case call_ret C (EC_StartAbility [(''type'', page_type subtype), (''returnCode'', 24200102)] []) w of
       (result, w1) \<Rightarrow> (result, SetPageFlagFalse p, w1))"

section \<open>Events\<close>

text \<open>\<open>SendEvent\<close>: the event is placed behind those that are due no later.\<close>

fun insert_event :: "nat \<times> PageEvent \<times> 'j list \<Rightarrow> (nat \<times> PageEvent \<times> 'j list) list \<Rightarrow> (nat \<times> PageEvent \<times> 'j list) list" where
  "insert_event e [] = [e]"
| "insert_event e (x # xs) = (if fst x \<le> fst e then x # insert_event e xs else e # x # xs)"

definition SendEvent :: "PageEvent \<Rightarrow> 'j list \<Rightarrow> nat \<Rightarrow> 'j ComponentPrivacy \<Rightarrow> 'j ComponentPrivacy" where
  "SendEvent e obj delay p = p\<lparr>pv_events := insert_event (pv_now p + delay, e, obj) (pv_events p)\<rparr>"

definition HandlePullUpPage :: "'j cJSON \<Rightarrow> string \<Rightarrow> string \<Rightarrow> 'j ComponentPrivacy \<Rightarrow> 'j ComponentPrivacy" where
  "HandlePullUpPage J subtype networkId p =
    (if \<not> IsIdLengthValid networkId then p
     else case cJSON_CreateArray J of
       None \<Rightarrow> p
     | Some jsonArrayMsg \<Rightarrow>
        (case cJSON_CreateObject J of
           None \<Rightarrow> p
         | Some tmpJson \<Rightarrow>
             if pv_eventHandler p then
               let t1 = cJSON_AddStringToObject J tmpJson PRIVACY_SUBTYPE (c_str subtype);
                   t2 = cJSON_AddStringToObject J t1 PRIVACY_NETWORKID (c_str networkId)
               in SendEvent COMP_START_PAGE (cj_items J jsonArrayMsg @ [t2]) 0 p
             else p))"

definition HandleClosePage :: "'j cJSON \<Rightarrow> string \<Rightarrow> 'j ComponentPrivacy \<Rightarrow> 'j ComponentPrivacy" where
  "HandleClosePage J subtype p =
    (case cJSON_CreateArray J of
       None \<Rightarrow> p
     | Some jsonArrayMsg \<Rightarrow>
        (case cJSON_CreateObject J of
           None \<Rightarrow> p
         | Some tmpJson \<Rightarrow>
             if pv_eventHandler p then
               let t1 = cJSON_AddStringToObject J tmpJson PRIVACY_SUBTYPE (c_str subtype)
               in SendEvent COMP_STOP_PAGE (cj_items J jsonArrayMsg @ [t1]) COMP_PRIVACY_DELAY_TIME p
             else p))"

definition OnResourceInfoCallback ::
    "env \<Rightarrow> string \<Rightarrow> string \<Rightarrow> bool \<Rightarrow> bool \<Rightarrow> int \<times> bool \<times> bool" where
  "OnResourceInfoCallback E subtype networkId isSensitive isSameAccount =
    (if \<not> IsIdLengthValid networkId then (ERR_DH_FWK_PARA_INVALID, isSensitive, isSameAccount)
     else case om_get (e_CompResourceDesc E) subtype of
       None \<Rightarrow> (ERR_DH_FWK_RESOURCE_KEY_IS_EMPTY, isSensitive, isSameAccount)
     | Some sensitive \<Rightarrow>
         let deviceList = e_TrustedDevices E in
         if length deviceList = 0 \<or> length deviceList > MAX_ONLINE_DEVICE_SIZE
         then (ERR_DH_FWK_RESOURCE_KEY_IS_EMPTY, sensitive, isSameAccount)
         else (DH_FWK_SUCCESS, sensitive,
               case find (\<lambda>d. tr_networkId d = networkId) deviceList of
                 None \<Rightarrow> False | Some d \<Rightarrow> tr_identicalAccount d))"

definition OnPrivaceResourceMessage ::
    "('s, 'j) config \<Rightarrow> ResourceEventType \<Rightarrow> string \<Rightarrow> string \<Rightarrow> bool \<Rightarrow> bool \<Rightarrow> 'j ComponentPrivacy \<Rightarrow>
     int \<times> bool \<times> bool \<times> 'j ComponentPrivacy" where
  "OnPrivaceResourceMessage C ty subtype networkId isSensitive isSameAccount p =
    (case ty of
       EVENT_TYPE_QUERY_RESOURCE \<Rightarrow>
         (case OnResourceInfoCallback (c_E C) subtype networkId isSensitive isSameAccount of
            (ret, sensitive, same) \<Rightarrow> (ret, sensitive, same, p))
     | EVENT_TYPE_PULL_UP_PAGE \<Rightarrow> (DH_FWK_SUCCESS, isSensitive, isSameAccount, HandlePullUpPage (c_J C) subtype networkId p)
     | EVENT_TYPE_CLOSE_PAGE \<Rightarrow> (DH_FWK_SUCCESS, isSensitive, isSameAccount, HandleClosePage (c_J C) subtype p))"

definition ProcessStartPage ::
    "privacy_env \<Rightarrow> ('s, 'j) config \<Rightarrow> 'j list \<Rightarrow> 'j ComponentPrivacy \<Rightarrow> 's fwk \<Rightarrow> 'j ComponentPrivacy \<times> 's fwk" where
  "ProcessStartPage V C dataMsg p w =
    (case dataMsg of
       [] \<Rightarrow> (p, w)
     | innerMsg # rest \<Rightarrow>
         let subtypeJson = cJSON_GetObjectItem (c_J C) innerMsg PRIVACY_SUBTYPE in
         if \<not> IsString (c_J C) subtypeJson then (p, w)
         else
           let networkIdJson = cJSON_GetObjectItem (c_J C) innerMsg PRIVACY_NETWORKID in
           if \<not> IsString (c_J C) networkIdJson then (p, w)
           else snd (StartPrivacePage V C (item_str (c_J C) subtypeJson) (item_str (c_J C) networkIdJson) p w))"

definition ProcessStopPage ::
    "privacy_env \<Rightarrow> ('s, 'j) config \<Rightarrow> 'j list \<Rightarrow> 'j ComponentPrivacy \<Rightarrow> 's fwk \<Rightarrow> 'j ComponentPrivacy \<times> 's fwk" where
  "ProcessStopPage V C dataMsg p w =
    (case dataMsg of
       [] \<Rightarrow> (p, w)
     | innerMsg # rest \<Rightarrow>
         let subtypeJson = cJSON_GetObjectItem (c_J C) innerMsg PRIVACY_SUBTYPE in
         if \<not> IsString (c_J C) subtypeJson then (p, w)
         else snd (StopPrivacePage V C (item_str (c_J C) subtypeJson) p w))"

definition Privacy_ProcessEvent ::
    "privacy_env \<Rightarrow> ('s, 'j) config \<Rightarrow> PageEvent \<Rightarrow> 'j list \<Rightarrow> 'j ComponentPrivacy \<Rightarrow> 's fwk \<Rightarrow> 'j ComponentPrivacy \<times> 's fwk" where
  "Privacy_ProcessEvent V C e dataMsg p w =
    (case e of COMP_START_PAGE \<Rightarrow> ProcessStartPage V C dataMsg p w | COMP_STOP_PAGE \<Rightarrow> ProcessStopPage V C dataMsg p w)"

text \<open>A component manager that is released closes the pages that are open.\<close>

definition StopPrivacy_one ::
    "privacy_env \<Rightarrow> ('s, 'j) config \<Rightarrow> string \<Rightarrow> 'j ComponentPrivacy option \<Rightarrow> 's fwk \<Rightarrow> 'j ComponentPrivacy option \<times> 's fwk" where
  "StopPrivacy_one V C subtype privacy w =
    (case privacy of
       None \<Rightarrow> (None, w)
     | Some p \<Rightarrow>
         if GetPageFlag p then (case StopPrivacePage V C subtype p w of (r, p1, w1) \<Rightarrow> (Some (SetPageFlagFalse p1), w1))
         else (Some p, w))"

definition StopPrivacy ::
    "privacy_env \<Rightarrow> ('s, 'j) config \<Rightarrow> 'j ComponentPrivacy option \<Rightarrow> 'j ComponentPrivacy option \<Rightarrow> 's fwk \<Rightarrow>
     'j ComponentPrivacy option \<times> 'j ComponentPrivacy option \<times> 's fwk" where
  "StopPrivacy V C camera audio w =
    (case StopPrivacy_one V C ''camera'' camera w of
       (camera1, w1) \<Rightarrow> case StopPrivacy_one V C ''mic'' audio w1 of (audio1, w2) \<Rightarrow> (camera1, audio1, w2))"

section \<open>Runs\<close>

text \<open>A sink sends a message, time passes until the next event is due, or the event that is due runs.\<close>

inductive privacy_step :: "privacy_env \<Rightarrow> ('s, 'j) config \<Rightarrow> 'j ComponentPrivacy \<times> 's fwk \<Rightarrow> 'j ComponentPrivacy \<times> 's fwk \<Rightarrow> bool"
  for V C where
  step_message: "OnPrivaceResourceMessage C ty subtype networkId s a p = (r, s1, a1, p1) \<Longrightarrow> privacy_step V C (p, w) (p1, w)"
| step_time: "\<forall>e\<in>set (pv_events p). pv_now p + n \<le> fst e \<Longrightarrow> privacy_step V C (p, w) (p\<lparr>pv_now := pv_now p + n\<rparr>, w)"
| step_event: "pv_events p = (due, e, obj) # rest \<Longrightarrow> due \<le> pv_now p \<Longrightarrow>
    privacy_step V C (p, w) (Privacy_ProcessEvent V C e obj (p\<lparr>pv_events := rest\<rparr>) w)"

inductive privacy_reach :: "privacy_env \<Rightarrow> ('s, 'j) config \<Rightarrow> 'j ComponentPrivacy \<times> 's fwk \<Rightarrow> 'j ComponentPrivacy \<times> 's fwk \<Rightarrow> bool"
  for V C x0 where
  reach_start: "privacy_reach V C x0 x0"
| reach_next: "privacy_reach V C x0 x \<Longrightarrow> privacy_step V C x y \<Longrightarrow> privacy_reach V C x0 y"

text \<open>The calls that show a page have its owner as a parameter, those that close it have none.\<close>

definition page_calls :: "ecall list \<Rightarrow> bool list" where
  "page_calls tr = List.map_filter (\<lambda>e. case e of EC_StartAbility ints strs \<Rightarrow> Some (strs \<noteq> []) | _ \<Rightarrow> None) tr"

definition page_ok :: "ecall list \<Rightarrow> 'j ComponentPrivacy \<times> 's fwk \<Rightarrow> bool" where
  "page_ok tr x = (case x of (p, w) \<Rightarrow>
     (\<exists>new. fw_trace w = new @ tr \<and> (GetPageFlag p = (case page_calls new of [] \<Rightarrow> False | shown # _ \<Rightarrow> shown)))
     \<and> sorted (map fst (pv_events p)))"

end
