(* ===== verification/Shared_Memory.thy ===== *)
theory Shared_Memory
  imports Capability
begin

text \<open>
  The shared memory of the audio and video synchronisation and its codecs
  (\<open>av_transport/common/src/av_sync_utils.cpp\<close>), and the access configuration of distributed audio that is
  in the same file.

  The memory is what is mapped: a list of bytes at each address.  The calls of the ashmem library and of the
  kernel are parameters: what they answer is in the record \<open>shm_env\<close>, for a new descriptor and a new mapping
  as a function of those that are open.  A pointer into a mapping is the
  address of the mapping and an offset.  An access outside of the mapping is undefined in C++: the routines
  that read and write bytes have no result then (\<open>None\<close>).
\<close>

unbundle bit_operations_syntax

section \<open>Data\<close>

record AVTransSharedMemory =
  sm_fd :: int
  sm_size :: int
  sm_name :: string
  sm_addr :: "nat option"

record AVSyncClockUnit =
  cu_index :: "32 word"
  cu_frameNum :: "32 word"
  cu_pts :: "64 word"

record shm_world =
  sw_fds :: "int list"
  sw_map :: "(nat, 8 word list) omap"

record shm_env =
  se_AshmemCreate :: "int list \<Rightarrow> string \<Rightarrow> nat \<Rightarrow> int"
  se_AshmemSetProt :: "int \<Rightarrow> int"
  se_AshmemGetSize :: "int \<Rightarrow> int"
  se_mmap :: "nat list \<Rightarrow> int \<Rightarrow> nat \<Rightarrow> nat option"
  se_memset :: "nat \<Rightarrow> nat \<Rightarrow> bool"

definition DH_AVT_SUCCESS :: int where [simp]: "DH_AVT_SUCCESS = 0"
definition ERR_DH_AVT_INVALID_PARAM :: int where "ERR_DH_AVT_INVALID_PARAM = -80001"
definition ERR_DH_AVT_SHARED_MEMORY_FAILED :: int where "ERR_DH_AVT_SHARED_MEMORY_FAILED = -80023"
definition ERR_DH_AVT_MASTER_NOT_READY :: int where "ERR_DH_AVT_MASTER_NOT_READY = -80024"

lemmas shm_errors = ERR_DH_AVT_INVALID_PARAM_def ERR_DH_AVT_SHARED_MEMORY_FAILED_def ERR_DH_AVT_MASTER_NOT_READY_def

definition MAX_CLOCK_UNIT_COUNT :: nat where "MAX_CLOCK_UNIT_COUNT = 50"
definition INVALID_VALUE_FALG :: "8 word" where "INVALID_VALUE_FALG = 0"

definition IsInValidSharedMemory :: "AVTransSharedMemory \<Rightarrow> bool" where
  "IsInValidSharedMemory m = (sm_fd m \<le> 0 \<or> sm_size m \<le> 0 \<or> sm_name m = [] \<or> sm_addr m = None)"

text \<open>The index is unsigned, so its first comparison in the code never holds; the time is signed.\<close>

definition IsInValidClockUnit :: "AVSyncClockUnit \<Rightarrow> bool" where
  "IsInValidClockUnit u = (MAX_CLOCK_UNIT_COUNT \<le> unat (cu_index u) \<or> cu_frameNum u = 0 \<or> sint (cu_pts u) \<le> 0)"

section \<open>Codecs\<close>

text \<open>The loops over the bytes, the least significant byte first.\<close>

definition U32ToU8 :: "nat option \<Rightarrow> 32 word \<Rightarrow> nat \<Rightarrow> 8 word list \<Rightarrow> 8 word list option" where
  "U32ToU8 arrayPtr val arraySize bytes =
    (case arrayPtr of
       None \<Rightarrow> Some bytes
     | Some p \<Rightarrow>
        if arraySize < 4 then Some bytes
        else if length bytes < p + 4 then None
        else Some (fold (\<lambda>i b. b[p + i := ucast (drop_bit (i * 8) val AND 0xff)]) [0..<4] bytes))"

definition U64ToU8 :: "nat option \<Rightarrow> 64 word \<Rightarrow> nat \<Rightarrow> 8 word list \<Rightarrow> 8 word list option" where
  "U64ToU8 arrayPtr val arraySize bytes =
    (case arrayPtr of
       None \<Rightarrow> Some bytes
     | Some p \<Rightarrow>
        if arraySize < 8 then Some bytes
        else if length bytes < p + 8 then None
        else Some (fold (\<lambda>i b. b[p + i := ucast (drop_bit (i * 8) val AND 0xff)]) [0..<8] bytes))"

definition U8ToU32 :: "nat option \<Rightarrow> nat \<Rightarrow> 8 word list \<Rightarrow> 32 word option" where
  "U8ToU32 arrayPtr arraySize bytes =
    (case arrayPtr of
       None \<Rightarrow> Some (-1)
     | Some p \<Rightarrow>
        if arraySize < 4 then Some (-1)
        else if length bytes < p + 4 then None
        else Some (fold (\<lambda>i r. r OR push_bit (i * 8) (ucast (bytes ! (p + i) AND 0xff))) [0..<4] 0))"

definition U8ToU64 :: "nat option \<Rightarrow> nat \<Rightarrow> 8 word list \<Rightarrow> 64 word option" where
  "U8ToU64 arrayPtr arraySize bytes =
    (case arrayPtr of
       None \<Rightarrow> Some (-1)
     | Some p \<Rightarrow>
        if arraySize < 8 then Some (-1)
        else if length bytes < p + 8 then None
        else Some (fold (\<lambda>i r. r OR push_bit (i * 8) (ucast (bytes ! (p + i) AND 0xff))) [0..<8] 0))"

section \<open>Creating and closing\<close>

text \<open>The size is a \<open>size_t\<close>; the structure keeps its low 32 bits as a signed number.\<close>

definition CreateAVTransSharedMemory ::
    "shm_env \<Rightarrow> string \<Rightarrow> nat \<Rightarrow> shm_world \<Rightarrow> AVTransSharedMemory \<times> shm_world" where
  "CreateAVTransSharedMemory E name sz w =
    (let no = \<lparr>sm_fd = 0, sm_size = 0, sm_name = name, sm_addr = None\<rparr>;
         fd = se_AshmemCreate E (sw_fds w) (c_str name) sz in
     if fd \<le> 0 then (no, w)
     else
       let w1 = w\<lparr>sw_fds := fd # sw_fds w\<rparr>;
           closed = (\<lambda>v. v\<lparr>sw_fds := remove1 fd (sw_fds v)\<rparr>) in
       if se_AshmemSetProt E fd < 0 then (no, closed w1)
       else
         case se_mmap E (map fst (sw_map w)) fd sz of
           None \<Rightarrow> (no, closed w1)
         | Some addr \<Rightarrow>
            let w2 = w1\<lparr>sw_map := om_put addr (replicate sz INVALID_VALUE_FALG) (sw_map w1)\<rparr> in
            if \<not> se_memset E addr sz then (no, (closed w2)\<lparr>sw_map := om_del addr (sw_map w2)\<rparr>)
            else (\<lparr>sm_fd = fd, sm_size = sint (of_nat sz :: 32 word), sm_name = name, sm_addr = Some addr\<rparr>, w2))"

definition CloseAVTransSharedMemory :: "AVTransSharedMemory \<Rightarrow> shm_world \<Rightarrow> AVTransSharedMemory \<times> shm_world" where
  "CloseAVTransSharedMemory m w =
    (if IsInValidSharedMemory m then (m, w)
     else
       let (m1, w1) =
             (if 0 < sm_fd m then (m\<lparr>sm_fd := -1\<rparr>, w\<lparr>sw_fds := remove1 (sm_fd m) (sw_fds w)\<rparr>) else (m, w))
       in case sm_addr m1 of
            None \<Rightarrow> (m1, w1)
          | Some addr \<Rightarrow> (m1\<lparr>sm_addr := None\<rparr>, w1\<lparr>sw_map := om_del addr (sw_map w1)\<rparr>))"

section \<open>Clock units and frames\<close>

text \<open>The mapping a memory points to; nothing is mapped there when the address is stale.\<close>

definition shm_bytes :: "shm_world \<Rightarrow> AVTransSharedMemory \<Rightarrow> 8 word list" where
  "shm_bytes w m = (case sm_addr m of None \<Rightarrow> [] | Some a \<Rightarrow> (case om_get (sw_map w) a of None \<Rightarrow> [] | Some b \<Rightarrow> b))"

definition shm_store :: "AVTransSharedMemory \<Rightarrow> 8 word list \<Rightarrow> shm_world \<Rightarrow> shm_world" where
  "shm_store m b w = (case sm_addr m of None \<Rightarrow> w | Some a \<Rightarrow> w\<lparr>sw_map := om_put a b (sw_map w)\<rparr>)"

text \<open>The checks the five routines make, with the least size: an error code or nothing.\<close>

definition shm_refused :: "shm_env \<Rightarrow> AVTransSharedMemory \<Rightarrow> int \<Rightarrow> bool \<Rightarrow> int option" where
  "shm_refused E m mSize invalid =
    (if IsInValidSharedMemory m then Some ERR_DH_AVT_INVALID_PARAM
     else if sm_size m < mSize then Some ERR_DH_AVT_INVALID_PARAM
     else if invalid then Some ERR_DH_AVT_INVALID_PARAM
     else if se_AshmemGetSize E (sm_fd m) \<noteq> sm_size m then Some ERR_DH_AVT_SHARED_MEMORY_FAILED
     else if se_AshmemSetProt E (sm_fd m) < 0 then Some ERR_DH_AVT_SHARED_MEMORY_FAILED
     else None)"

definition WriteClockUnitToMemory ::
    "shm_env \<Rightarrow> AVTransSharedMemory \<Rightarrow> AVSyncClockUnit \<Rightarrow> shm_world \<Rightarrow> (int \<times> AVSyncClockUnit \<times> shm_world) option" where
  "WriteClockUnitToMemory E m u w =
    (case shm_refused E m 12 (IsInValidClockUnit u) of
       Some err \<Rightarrow> Some (err, u, w)
     | None \<Rightarrow>
        let fOffset = 12 * unat (cu_index u); tOffset = fOffset + 4 in
        case U64ToU8 (Some tOffset) (cu_pts u) 8 (shm_bytes w m) of
          None \<Rightarrow> None
        | Some b1 \<Rightarrow>
           (case U32ToU8 (Some fOffset) (cu_frameNum u) 4 b1 of
              None \<Rightarrow> None
            | Some b2 \<Rightarrow>
               let i = cu_index u + 1;
                   u' = u\<lparr>cu_index := if unat i = MAX_CLOCK_UNIT_COUNT then 0 else i\<rparr>
               in Some (DH_AVT_SUCCESS, u', shm_store m b2 w)))"

fun read_units :: "8 word list \<Rightarrow> nat list \<Rightarrow> 64 word \<Rightarrow> AVSyncClockUnit \<Rightarrow> AVSyncClockUnit option" where
  "read_units bytes [] latestPts u = Some u"
| "read_units bytes (i # is) latestPts u =
    (case (U8ToU32 (Some (i * 12)) 4 bytes, U8ToU64 (Some (i * 12 + 4)) 8 bytes) of
       (Some frameNum, Some pts) \<Rightarrow>
         if sint latestPts < sint pts
         then read_units bytes is pts (u\<lparr>cu_pts := pts, cu_frameNum := frameNum\<rparr>)
         else read_units bytes is latestPts u
     | _ \<Rightarrow> None)"

definition ReadClockUnitFromMemory ::
    "shm_env \<Rightarrow> AVTransSharedMemory \<Rightarrow> AVSyncClockUnit \<Rightarrow> shm_world \<Rightarrow> (int \<times> AVSyncClockUnit) option" where
  "ReadClockUnitFromMemory E m u w =
    (case shm_refused E m (12 * int MAX_CLOCK_UNIT_COUNT + 4) (cu_frameNum u = 0) of
       Some err \<Rightarrow> Some (err, u)
     | None \<Rightarrow>
        case U8ToU32 (Some 0) 4 (shm_bytes w m) of
          None \<Rightarrow> None
        | Some firstUnit \<Rightarrow>
           if firstUnit = 0 then Some (ERR_DH_AVT_MASTER_NOT_READY, u)
           else map_option (\<lambda>u'. (DH_AVT_SUCCESS, u')) (read_units (shm_bytes w m) [0..<MAX_CLOCK_UNIT_COUNT] 0 u))"

definition WriteFrameInfoToMemory ::
    "shm_env \<Rightarrow> AVTransSharedMemory \<Rightarrow> 32 word \<Rightarrow> 64 word \<Rightarrow> shm_world \<Rightarrow> (int \<times> shm_world) option" where
  "WriteFrameInfoToMemory E m frameNum timestamp w =
    (case shm_refused E m 12 (frameNum = 0) of
       Some err \<Rightarrow> Some (err, w)
     | None \<Rightarrow>
        case U32ToU8 (Some 0) frameNum 4 (shm_bytes w m) of
          None \<Rightarrow> None
        | Some b1 \<Rightarrow>
           (case U64ToU8 (Some 4) timestamp 8 b1 of
              None \<Rightarrow> None
            | Some b2 \<Rightarrow> Some (DH_AVT_SUCCESS, shm_store m b2 w)))"

text \<open>The two results are references: they are set even where the error is returned after the reading.\<close>

definition ReadFrameInfoFromMemory ::
    "shm_env \<Rightarrow> AVTransSharedMemory \<Rightarrow> 32 word \<Rightarrow> 64 word \<Rightarrow> shm_world \<Rightarrow> (int \<times> 32 word \<times> 64 word) option" where
  "ReadFrameInfoFromMemory E m frameNum timestamp w =
    (case shm_refused E m 12 False of
       Some err \<Rightarrow> Some (err, frameNum, timestamp)
     | None \<Rightarrow>
        case (U8ToU32 (Some 0) 4 (shm_bytes w m), U8ToU64 (Some 4) 8 (shm_bytes w m)) of
          (Some f, Some t) \<Rightarrow> Some (if f = 0 then ERR_DH_AVT_MASTER_NOT_READY else DH_AVT_SUCCESS, f, t)
        | _ \<Rightarrow> None)"

text \<open>Nothing is asked of the size here; \<open>memset_s\<close> fills as many bytes as the ashmem has.\<close>

definition ResetSharedMemory :: "shm_env \<Rightarrow> AVTransSharedMemory \<Rightarrow> shm_world \<Rightarrow> int \<times> shm_world" where
  "ResetSharedMemory E m w =
    (if IsInValidSharedMemory m then (ERR_DH_AVT_INVALID_PARAM, w)
     else
       let sz = se_AshmemGetSize E (sm_fd m) in
       if sz \<noteq> sm_size m then (ERR_DH_AVT_SHARED_MEMORY_FAILED, w)
       else if se_AshmemSetProt E (sm_fd m) < 0 then (ERR_DH_AVT_SHARED_MEMORY_FAILED, w)
       else if \<not> (case sm_addr m of None \<Rightarrow> False | Some a \<Rightarrow> se_memset E a (nat sz))
       then (ERR_DH_AVT_SHARED_MEMORY_FAILED, w)
       else (DH_AVT_SUCCESS, shm_store m (replicate (nat sz) INVALID_VALUE_FALG) w))"

section \<open>The text of a memory\<close>

definition KEY_SHARED_MEM_FD :: string where "KEY_SHARED_MEM_FD = ''sharedMemoryFd''"
definition KEY_SHARED_MEM_SIZE :: string where "KEY_SHARED_MEM_SIZE = ''sharedMemorySize''"
definition KEY_SHARED_MEM_NAME :: string where "KEY_SHARED_MEM_NAME = ''sharedMemoryName''"

definition MarshalSharedMemory :: "'j cJSON \<Rightarrow> AVTransSharedMemory \<Rightarrow> string" where
  "MarshalSharedMemory J m =
    (case cJSON_CreateObject J of
       None \<Rightarrow> []
     | Some o0 \<Rightarrow>
        let o1 = cJSON_AddNumberToObject J o0 KEY_SHARED_MEM_FD (of_int (sm_fd m));
            o2 = cJSON_AddNumberToObject J o1 KEY_SHARED_MEM_SIZE (of_int (sm_size m));
            o3 = cJSON_AddStringToObject J o2 KEY_SHARED_MEM_NAME (c_str (sm_name m))
        in case cJSON_PrintUnformatted J o3 of None \<Rightarrow> [] | Some s \<Rightarrow> s)"

definition UnmarshalSharedMemory :: "'j cJSON \<Rightarrow> string \<Rightarrow> AVTransSharedMemory" where
  "UnmarshalSharedMemory J jsonStr =
    (let no = \<lparr>sm_fd = 0, sm_size = 0, sm_name = [], sm_addr = None\<rparr> in
     case cJSON_Parse J (c_str jsonStr) of
       None \<Rightarrow> no
     | Some paramJson \<Rightarrow>
        let num = (\<lambda>k. case cJSON_GetObjectItemCaseSensitive J paramJson k of
                          None \<Rightarrow> None | Some j \<Rightarrow> if cJSON_IsNumber J j then Some (cj_valueint J j) else None)
        in case num KEY_SHARED_MEM_FD of
             None \<Rightarrow> no
           | Some fd \<Rightarrow>
              (case num KEY_SHARED_MEM_SIZE of
                 None \<Rightarrow> no
               | Some sz \<Rightarrow>
                  (case cJSON_GetObjectItemCaseSensitive J paramJson KEY_SHARED_MEM_NAME of
                     None \<Rightarrow> no
                   | Some j \<Rightarrow>
                      if cJSON_IsString J j
                      then \<lparr>sm_fd = fd, sm_size = sz, sm_name = cj_valuestring J j, sm_addr = None\<rparr>
                      else no)))"

end
