(* ===== verification/Softbus_Adapter.thy ===== *)
theory Softbus_Adapter
  imports Shared_Memory "HOL-Library.Sublist"
begin

text \<open>
  The softbus channel adapter of the audio and video transport
  (\<open>av_transport/common/src/softbus_channel_adapter.cpp\<close>) and the access configuration it consults
  (\<open>DAudioAccessConfigManager\<close> in \<open>av_sync_utils.cpp\<close>).

  A listener is the number of the object that was registered.  An event that the code sends from a detached
  thread is in \<open>sb_threads\<close> until \<open>SendChannelEvent\<close> runs for it; what listeners are called with is in
  \<open>sb_calls\<close>.  The softbus library is a parameter: it answers as a function of the calls made to it so far.
\<close>

section \<open>Access configuration\<close>

record DAudioAccessConfigManager =
  ac_listener :: "nat option"
  ac_timeOut :: int
  ac_pkgName :: string
  ac_currentNetworkId :: string
  ac_authorizationResults :: "(string, bool) omap"

definition DAudioAccessConfigManager_new :: DAudioAccessConfigManager where
  "DAudioAccessConfigManager_new = \<lparr>ac_listener = None, ac_timeOut = 0, ac_pkgName = [], ac_currentNetworkId = [],
     ac_authorizationResults = []\<rparr>"

definition SetAccessConfig ::
    "nat option \<Rightarrow> int \<Rightarrow> string \<Rightarrow> DAudioAccessConfigManager \<Rightarrow> int \<times> DAudioAccessConfigManager" where
  "SetAccessConfig listener timeOut pkgName a =
    (if listener = None then (ERR_DH_AVT_INVALID_PARAM, a)
     else if pkgName = [] then (ERR_DH_AVT_INVALID_PARAM, a)
     else (DH_AVT_SUCCESS, a\<lparr>ac_listener := listener, ac_timeOut := timeOut, ac_pkgName := pkgName\<rparr>))"

definition ClearAccessConfig :: "DAudioAccessConfigManager \<Rightarrow> DAudioAccessConfigManager" where
  "ClearAccessConfig a =
    a\<lparr>ac_listener := None, ac_timeOut := 0, ac_pkgName := [], ac_authorizationResults := []\<rparr>"

definition SetAuthorizationGranted :: "string \<Rightarrow> bool \<Rightarrow> DAudioAccessConfigManager \<Rightarrow> DAudioAccessConfigManager" where
  "SetAuthorizationGranted networkId granted a =
    a\<lparr>ac_authorizationResults := om_put networkId granted (ac_authorizationResults a)\<rparr>"

definition IsAuthorizationGranted :: "string \<Rightarrow> DAudioAccessConfigManager \<Rightarrow> bool" where
  "IsAuthorizationGranted networkId a =
    (case om_get (ac_authorizationResults a) networkId of None \<Rightarrow> False | Some b \<Rightarrow> b)"

definition HasAuthorizationDecision :: "string \<Rightarrow> DAudioAccessConfigManager \<Rightarrow> bool" where
  "HasAuthorizationDecision networkId a = om_has (ac_authorizationResults a) networkId"

definition ClearAuthorizationResult :: "string \<Rightarrow> DAudioAccessConfigManager \<Rightarrow> DAudioAccessConfigManager" where
  "ClearAuthorizationResult networkId a =
    (if om_has (ac_authorizationResults a) networkId
     then a\<lparr>ac_authorizationResults := om_del networkId (ac_authorizationResults a)\<rparr> else a)"

definition SetCurrentNetworkId :: "string \<Rightarrow> DAudioAccessConfigManager \<Rightarrow> DAudioAccessConfigManager" where
  "SetCurrentNetworkId networkId a = a\<lparr>ac_currentNetworkId := networkId\<rparr>"

definition ClearAccessConfigByPkgName :: "string \<Rightarrow> DAudioAccessConfigManager \<Rightarrow> DAudioAccessConfigManager" where
  "ClearAccessConfigByPkgName pkgName a =
    (if pkgName = [] then a
     else
       let a1 = (if ac_pkgName a = pkgName
                 then a\<lparr>ac_listener := None, ac_timeOut := 0, ac_pkgName := [], ac_currentNetworkId := []\<rparr> else a)
       in if ac_authorizationResults a1 \<noteq> [] then a1\<lparr>ac_authorizationResults := []\<rparr> else a1)"

text \<open>
  The wait on the condition variable: what the other threads do meanwhile, each with the second at which it
  notifies.  The predicate is looked at before the wait, after each notification in time and at the end.
\<close>

fun wait_for ::
    "('a \<Rightarrow> bool) \<Rightarrow> int \<Rightarrow> (int \<times> ('a \<Rightarrow> 'a)) list \<Rightarrow> 'a \<Rightarrow> bool \<times> 'a" where
  "wait_for P deadline [] a = (P a, a)"
| "wait_for P deadline ((t, f) # es) a =
    (if P a then (True, a) else if deadline < t then (False, a) else wait_for P deadline es (f a))"

definition WaitForAuthorizationResult ::
    "string \<Rightarrow> int \<Rightarrow> (int \<times> (DAudioAccessConfigManager \<Rightarrow> DAudioAccessConfigManager)) list \<Rightarrow>
     DAudioAccessConfigManager \<Rightarrow> bool \<times> DAudioAccessConfigManager" where
  "WaitForAuthorizationResult networkId timeoutSeconds others a =
    (if HasAuthorizationDecision networkId a then (True, a)
     else wait_for (HasAuthorizationDecision networkId) timeoutSeconds others a)"

section \<open>Names of sessions\<close>

definition OWNER_NAME_D_CAMERA :: string where "OWNER_NAME_D_CAMERA = ''ohos.dhardware.dcamera''"
definition OWNER_NAME_D_SCREEN :: string where "OWNER_NAME_D_SCREEN = ''ohos.dhardware.dscreen''"
definition OWNER_NAME_D_MIC :: string where "OWNER_NAME_D_MIC = ''ohos.dhardware.daudio.dmic''"
definition OWNER_NAME_D_SPEAKER :: string where "OWNER_NAME_D_SPEAKER = ''ohos.dhardware.daudio.dspeaker''"
definition OWNER_NAME_D_VIRMODEM_MIC :: string where "OWNER_NAME_D_VIRMODEM_MIC = ''ohos.dhardware.dcall.dmic''"
definition OWNER_NAME_D_VIRMODEM_SPEAKER :: string where
  "OWNER_NAME_D_VIRMODEM_SPEAKER = ''ohos.dhardware.dcall.dspeaker''"
definition PKG_NAME_DH_FWK :: string where "PKG_NAME_DH_FWK = ''ohos.dhardware''"
definition PKG_NAME_D_AUDIO :: string where "PKG_NAME_D_AUDIO = ''ohos.dhardware.daudio''"
definition PKG_NAME_D_CALL :: string where "PKG_NAME_D_CALL = ''ohos.dhardware.dcall''"
definition PKG_NAME_D_CAMERA :: string where "PKG_NAME_D_CAMERA = ''ohos.dhardware.dcamera''"
definition PKG_NAME_D_SCREEN :: string where "PKG_NAME_D_SCREEN = ''ohos.dhardware.dscreen''"
definition SENDER_CONTROL_SESSION_NAME_SUFFIX :: string where
  "SENDER_CONTROL_SESSION_NAME_SUFFIX = ''sender.avtrans.control''"
definition RECEIVER_CONTROL_SESSION_NAME_SUFFIX :: string where
  "RECEIVER_CONTROL_SESSION_NAME_SUFFIX = ''receiver.avtrans.control''"
definition SENDER_DATA_SESSION_NAME_SUFFIX :: string where "SENDER_DATA_SESSION_NAME_SUFFIX = ''sender.avtrans.data''"
definition RECEIVER_DATA_SESSION_NAME_SUFFIX :: string where
  "RECEIVER_DATA_SESSION_NAME_SUFFIX = ''receiver.avtrans.data''"
definition AV_SYNC_SENDER_CONTROL_SESSION_NAME :: string where
  "AV_SYNC_SENDER_CONTROL_SESSION_NAME = ''ohos.dhardware.av.sync.sender.control''"
definition AV_SYNC_RECEIVER_CONTROL_SESSION_NAME :: string where
  "AV_SYNC_RECEIVER_CONTROL_SESSION_NAME = ''ohos.dhardware.av.sync.receiver.control''"
definition AV_TRANS_SPECIAL_DEVICE_ID :: string where "AV_TRANS_SPECIAL_DEVICE_ID = ''av.trans.special.device.id''"

lemmas session_names =
  OWNER_NAME_D_CAMERA_def OWNER_NAME_D_SCREEN_def OWNER_NAME_D_MIC_def OWNER_NAME_D_SPEAKER_def
  OWNER_NAME_D_VIRMODEM_MIC_def OWNER_NAME_D_VIRMODEM_SPEAKER_def PKG_NAME_DH_FWK_def PKG_NAME_D_AUDIO_def
  PKG_NAME_D_CALL_def PKG_NAME_D_CAMERA_def PKG_NAME_D_SCREEN_def SENDER_CONTROL_SESSION_NAME_SUFFIX_def
  RECEIVER_CONTROL_SESSION_NAME_SUFFIX_def SENDER_DATA_SESSION_NAME_SUFFIX_def
  RECEIVER_DATA_SESSION_NAME_SUFFIX_def AV_SYNC_SENDER_CONTROL_SESSION_NAME_def
  AV_SYNC_RECEIVER_CONTROL_SESSION_NAME_def AV_TRANS_SPECIAL_DEVICE_ID_def

text \<open>The pairs of one owner, for the two suffixes of a kind of session.\<close>

definition both_ways :: "string \<Rightarrow> string \<Rightarrow> string \<Rightarrow> (string \<times> string) list" where
  "both_ways owner s r = [(owner @ ''_'' @ s, owner @ ''_'' @ r), (owner @ ''_'' @ r, owner @ ''_'' @ s)]"

definition LOCAL_TO_PEER_SESSION_NAME_MAP :: "(string \<times> string) list" where
  "LOCAL_TO_PEER_SESSION_NAME_MAP =
    (let owners = [OWNER_NAME_D_MIC, OWNER_NAME_D_SPEAKER, OWNER_NAME_D_SCREEN, OWNER_NAME_D_VIRMODEM_MIC,
                   OWNER_NAME_D_VIRMODEM_SPEAKER]
     in concat (map (\<lambda>w. both_ways w SENDER_CONTROL_SESSION_NAME_SUFFIX RECEIVER_CONTROL_SESSION_NAME_SUFFIX) owners)
        @ [(AV_SYNC_SENDER_CONTROL_SESSION_NAME, AV_SYNC_RECEIVER_CONTROL_SESSION_NAME),
           (AV_SYNC_RECEIVER_CONTROL_SESSION_NAME, AV_SYNC_SENDER_CONTROL_SESSION_NAME)]
        @ concat (map (\<lambda>w. both_ways w SENDER_DATA_SESSION_NAME_SUFFIX RECEIVER_DATA_SESSION_NAME_SUFFIX) owners))"

definition TransName2PkgName :: "string \<Rightarrow> string" where
  "TransName2PkgName ownerName =
    (case map_of [(OWNER_NAME_D_MIC, PKG_NAME_D_AUDIO), (OWNER_NAME_D_VIRMODEM_MIC, PKG_NAME_D_CALL),
                  (OWNER_NAME_D_CAMERA, PKG_NAME_D_CAMERA), (OWNER_NAME_D_SCREEN, PKG_NAME_D_SCREEN),
                  (OWNER_NAME_D_SPEAKER, PKG_NAME_D_AUDIO), (OWNER_NAME_D_VIRMODEM_SPEAKER, PKG_NAME_D_CALL),
                  (AV_SYNC_SENDER_CONTROL_SESSION_NAME, PKG_NAME_DH_FWK),
                  (AV_SYNC_RECEIVER_CONTROL_SESSION_NAME, PKG_NAME_DH_FWK)] ownerName of
       None \<Rightarrow> [] | Some pkg \<Rightarrow> pkg)"

definition FindSessNameByPeerSessName :: "string \<Rightarrow> string" where
  "FindSessNameByPeerSessName peerSessionName =
    (case map_of LOCAL_TO_PEER_SESSION_NAME_MAP peerSessionName of None \<Rightarrow> [] | Some n \<Rightarrow> n)"

definition GetOwnerFromSessName :: "string \<Rightarrow> string" where
  "GetOwnerFromSessName sessName =
    (if CHR ''_'' \<in> set sessName then takeWhile (\<lambda>c. c \<noteq> CHR ''_'') sessName
     else if sessName = AV_SYNC_SENDER_CONTROL_SESSION_NAME \<or> sessName = AV_SYNC_RECEIVER_CONTROL_SESSION_NAME
     then sessName
     else [])"

text \<open>What follows the last underscore.\<close>

definition after_last :: "string \<Rightarrow> string option" where
  "after_last s = (if CHR ''_'' \<in> set s then Some (rev (takeWhile (\<lambda>c. c \<noteq> CHR ''_'') (rev s))) else None)"

section \<open>State\<close>

datatype EventType =
  EVENT_CHANNEL_OPENED | EVENT_CHANNEL_OPEN_FAIL | EVENT_CHANNEL_CLOSED | EVENT_START_SUCCESS | EVENT_START_FAIL
  | EVENT_STOP_SUCCESS | EVENT_STOP_FAIL | EVENT_ENGINE_ERROR | EVENT_REMOTE_ERROR | EVENT_DATA_RECEIVED
  | EVENT_TIME_SYNC_RESULT | EVENT_ADD_STREAM | EVENT_REMOVE_STREAM

record AVTransEvent =
  ev_type :: EventType
  ev_content :: string
  ev_peerDevId :: string

datatype lcall =
  LC_Event nat AVTransEvent
| LC_Stream nat string string
| LC_Access nat string string string

datatype TransDataType = DATA_TYPE_BYTES | DATA_TYPE_VIDEO_STREAM

datatype sbcall =
  SB_Socket string "(string \<times> string) option" string TransDataType
| SB_Listen int
| SB_Bind int
| SB_Shutdown int
| SB_SendBytes int string
| SB_SendStream int string string
| SB_StartTimeSync string string
| SB_StopTimeSync string string

type_synonym softbus = "sbcall list \<Rightarrow> sbcall \<Rightarrow> int"

text \<open>
  The threads of \<open>SendChannelEvent\<close>: the key of the listener, the event, and whether the thread is counted in
  \<open>inflightEventThreadCnt_\<close>; the timers of authorisation requests that sleep.
\<close>

record SoftbusChannelAdapter =
  sb_serverMap :: "(string, int) omap"
  sb_timeSyncSessNames :: "string list"
  sb_devId2SessIdMap :: "(string, int) omap"
  sb_listenerMap :: "(string, nat option) omap"
  sb_pendingAuthRequests :: "(string, string) omap"
  sb_authTimerCancelFlags :: "(string, bool) omap"
  sb_authTimerThreads :: "string list"
  sb_timers :: "(string \<times> int) list"
  sb_inflightEventThreadCnt :: int
  sb_threads :: "(string \<times> AVTransEvent \<times> bool) list"
  sb_access :: DAudioAccessConfigManager
  sb_log :: "sbcall list"
  sb_calls :: "lcall list"

definition SoftbusChannelAdapter_new :: SoftbusChannelAdapter where
  "SoftbusChannelAdapter_new = \<lparr>sb_serverMap = [], sb_timeSyncSessNames = [], sb_devId2SessIdMap = [],
     sb_listenerMap = [], sb_pendingAuthRequests = [], sb_authTimerCancelFlags = [], sb_authTimerThreads = [],
     sb_timers = [], sb_inflightEventThreadCnt = 0, sb_threads = [], sb_access = DAudioAccessConfigManager_new,
     sb_log = [], sb_calls = []\<rparr>"

definition INVALID_SESSION_ID :: int where "INVALID_SESSION_ID = -1"
definition DSOFTBUS_INPUT_MAX_RECV_DATA_LEN :: nat where "DSOFTBUS_INPUT_MAX_RECV_DATA_LEN = 104857600"
definition DSOFTBUS_MAX_INFLIGHT_EVENT_THREADS :: int where "DSOFTBUS_MAX_INFLIGHT_EVENT_THREADS = 32"
definition ERR_DH_AVT_SESSION_ERROR :: int where "ERR_DH_AVT_SESSION_ERROR = -81011"
definition ERR_DH_AVT_SEND_DATA_FAILED :: int where "ERR_DH_AVT_SEND_DATA_FAILED = -81012"
definition ERR_DH_AVT_TIME_SYNC_FAILED :: int where "ERR_DH_AVT_TIME_SYNC_FAILED = -80016"
definition ERR_DH_AVT_SESSION_HAS_OPENED :: int where "ERR_DH_AVT_SESSION_HAS_OPENED = -80025"

lemmas sb_errors = ERR_DH_AVT_SESSION_ERROR_def ERR_DH_AVT_SEND_DATA_FAILED_def ERR_DH_AVT_TIME_SYNC_FAILED_def
  ERR_DH_AVT_SESSION_HAS_OPENED_def shm_errors

definition softbus_call :: "softbus \<Rightarrow> sbcall \<Rightarrow> SoftbusChannelAdapter \<Rightarrow> int \<times> SoftbusChannelAdapter" where
  "softbus_call S c s = (S (sb_log s) c, s\<lparr>sb_log := sb_log s @ [c]\<rparr>)"

definition sess_key :: "string \<Rightarrow> string \<Rightarrow> string" where
  "sess_key sessName peerDevId = sessName @ ''_'' @ peerDevId"

definition session_type :: "string \<Rightarrow> TransDataType" where
  "session_type sessName = (if sublist ''avtrans.data'' sessName then DATA_TYPE_VIDEO_STREAM else DATA_TYPE_BYTES)"

section \<open>Servers\<close>

definition CreateChannelServer ::
    "softbus \<Rightarrow> string \<Rightarrow> string \<Rightarrow> SoftbusChannelAdapter \<Rightarrow> int \<times> SoftbusChannelAdapter" where
  "CreateChannelServer S pkgName sessName s =
    (if pkgName = [] then (ERR_DH_AVT_INVALID_PARAM, s)
     else if sessName = [] then (ERR_DH_AVT_INVALID_PARAM, s)
     else if om_has (sb_serverMap s) (sess_key pkgName sessName) then (DH_AVT_SUCCESS, s)
     else
       let (socketId, s1) = softbus_call S (SB_Socket sessName None pkgName (session_type sessName)) s in
       if socketId < 0 then (ERR_DH_AVT_SESSION_ERROR, s1)
       else
         let (ret, s2) = softbus_call S (SB_Listen socketId) s1 in
         if ret \<noteq> 0 then (ERR_DH_AVT_SESSION_ERROR, s2)
         else (DH_AVT_SUCCESS, s2\<lparr>sb_serverMap := om_emplace (sess_key pkgName sessName) socketId (sb_serverMap s2)\<rparr>))"

text \<open>The first entry, in the order of the keys, whose key contains the text.\<close>

definition first_with :: "string \<Rightarrow> (string, int) omap \<Rightarrow> (string \<times> int) option" where
  "first_with t m = find (\<lambda>(k, _). sublist t k) m"

definition RemoveChannelServer ::
    "softbus \<Rightarrow> string \<Rightarrow> string \<Rightarrow> SoftbusChannelAdapter \<Rightarrow> int \<times> SoftbusChannelAdapter" where
  "RemoveChannelServer S pkgName sessName s =
    (if pkgName = [] then (ERR_DH_AVT_INVALID_PARAM, s)
     else if sessName = [] then (ERR_DH_AVT_INVALID_PARAM, s)
     else
       let (serverSocketId, s1) =
             (case first_with (sess_key pkgName sessName) (sb_serverMap s) of
                None \<Rightarrow> (INVALID_SESSION_ID, s)
              | Some (k, i) \<Rightarrow> (i, s\<lparr>sb_serverMap := om_del k (sb_serverMap s)\<rparr>));
           (_, s2) = softbus_call S (SB_Shutdown serverSocketId) s1;
           (sessionId, s3) =
             (case first_with sessName (sb_devId2SessIdMap s2) of
                None \<Rightarrow> (INVALID_SESSION_ID, s2)
              | Some (k, i) \<Rightarrow> (i, s2\<lparr>sb_devId2SessIdMap := om_del k (sb_devId2SessIdMap s2)\<rparr>));
           (_, s4) = softbus_call S (SB_Shutdown sessionId) s3
       in (DH_AVT_SUCCESS, s4))"

section \<open>Channels\<close>

definition GetSessIdBySessName :: "string \<Rightarrow> string \<Rightarrow> SoftbusChannelAdapter \<Rightarrow> int" where
  "GetSessIdBySessName sessName peerDevId s =
    (case om_get (sb_devId2SessIdMap s) (sess_key sessName peerDevId) of None \<Rightarrow> -1 | Some i \<Rightarrow> i)"

definition GetSessionNameById :: "int \<Rightarrow> SoftbusChannelAdapter \<Rightarrow> string" where
  "GetSessionNameById sessionId s =
    (case find (\<lambda>(_, i). i = sessionId) (sb_devId2SessIdMap s) of None \<Rightarrow> [] | Some (k, _) \<Rightarrow> k)"

fun peer_of :: "int \<Rightarrow> (string, int) omap \<Rightarrow> string" where
  "peer_of sessionId [] = []"
| "peer_of sessionId ((k, i) # m) =
    (if i \<noteq> sessionId then peer_of sessionId m
     else case after_last k of
            None \<Rightarrow> peer_of sessionId m
          | Some peerDevId \<Rightarrow> if peerDevId \<noteq> AV_TRANS_SPECIAL_DEVICE_ID then peerDevId else peer_of sessionId m)"

definition GetPeerDevIdBySessId :: "int \<Rightarrow> SoftbusChannelAdapter \<Rightarrow> string" where
  "GetPeerDevIdBySessId sessionId s = peer_of sessionId (sb_devId2SessIdMap s)"

text \<open>The listeners whose key contains the name of the session and that are not null, in the order of the keys.\<close>

definition listeners_of :: "string \<Rightarrow> SoftbusChannelAdapter \<Rightarrow> string list" where
  "listeners_of sessName s = map fst (filter (\<lambda>(k, l). sublist sessName k \<and> l \<noteq> None) (sb_listenerMap s))"

definition SendEventChannelOPened :: "string \<Rightarrow> string \<Rightarrow> SoftbusChannelAdapter \<Rightarrow> SoftbusChannelAdapter" where
  "SendEventChannelOPened mySessName peerDevId s =
    (let event = \<lparr>ev_type = EVENT_CHANNEL_OPENED, ev_content = mySessName, ev_peerDevId = peerDevId\<rparr>
     in s\<lparr>sb_threads := sb_threads s @ map (\<lambda>k. (k, event, False)) (listeners_of mySessName s)\<rparr>)"

definition OpenSoftbusChannel ::
    "softbus \<Rightarrow> string \<Rightarrow> string \<Rightarrow> string \<Rightarrow> SoftbusChannelAdapter \<Rightarrow> int \<times> SoftbusChannelAdapter" where
  "OpenSoftbusChannel S mySessName peerSessName peerDevId s =
    (if mySessName = [] then (ERR_DH_AVT_INVALID_PARAM, s)
     else if peerSessName = [] then (ERR_DH_AVT_INVALID_PARAM, s)
     else if peerDevId = [] then (ERR_DH_AVT_INVALID_PARAM, s)
     else
       let PkgName = TransName2PkgName (GetOwnerFromSessName mySessName) in
       if 0 < GetSessIdBySessName mySessName peerDevId s then (ERR_DH_AVT_SESSION_HAS_OPENED, s)
       else
         let (socketId, s1) =
               softbus_call S (SB_Socket mySessName (Some (peerSessName, peerDevId)) PkgName (session_type mySessName)) s in
         if socketId < 0 then (ERR_DH_AVT_SESSION_ERROR, s1)
         else
           let (ret, s2) = softbus_call S (SB_Bind socketId) s1 in
           if ret \<noteq> DH_AVT_SUCCESS then (ERR_DH_AVT_SESSION_ERROR, s2)
           else
             let s3 = s2\<lparr>sb_devId2SessIdMap :=
                           om_emplace (sess_key mySessName peerDevId) socketId (sb_devId2SessIdMap s2)\<rparr>
             in (DH_AVT_SUCCESS, SendEventChannelOPened mySessName peerDevId s3))"

definition CloseSoftbusChannel ::
    "softbus \<Rightarrow> string \<Rightarrow> string \<Rightarrow> SoftbusChannelAdapter \<Rightarrow> int \<times> SoftbusChannelAdapter" where
  "CloseSoftbusChannel S sessName peerDevId s =
    (if sessName = [] then (ERR_DH_AVT_INVALID_PARAM, s)
     else if peerDevId = [] then (ERR_DH_AVT_INVALID_PARAM, s)
     else
       let sessionId = GetSessIdBySessName sessName peerDevId s;
           (_, s1) = softbus_call S (SB_Shutdown sessionId) s
       in (DH_AVT_SUCCESS,
           s1\<lparr>sb_devId2SessIdMap := om_del (sess_key sessName peerDevId) (sb_devId2SessIdMap s1)\<rparr>))"

definition SendBytesData ::
    "softbus \<Rightarrow> string \<Rightarrow> string \<Rightarrow> string \<Rightarrow> SoftbusChannelAdapter \<Rightarrow> int \<times> SoftbusChannelAdapter" where
  "SendBytesData S sessName peerDevId data s =
    (if sessName = [] then (ERR_DH_AVT_INVALID_PARAM, s)
     else if peerDevId = [] then (ERR_DH_AVT_INVALID_PARAM, s)
     else if data = [] then (ERR_DH_AVT_INVALID_PARAM, s)
     else
       let existSessId = GetSessIdBySessName sessName peerDevId s in
       if existSessId < 0 then (ERR_DH_AVT_SEND_DATA_FAILED, s)
       else
         let (ret, s1) = softbus_call S (SB_SendBytes existSessId (c_str data)) s
         in (if ret \<noteq> DH_AVT_SUCCESS then ERR_DH_AVT_SEND_DATA_FAILED else DH_AVT_SUCCESS, s1))"

definition SendStreamData ::
    "softbus \<Rightarrow> string \<Rightarrow> string \<Rightarrow> string option \<Rightarrow> string option \<Rightarrow> SoftbusChannelAdapter \<Rightarrow>
     int \<times> SoftbusChannelAdapter" where
  "SendStreamData S sessName peerDevId data ext s =
    (if sessName = [] then (ERR_DH_AVT_INVALID_PARAM, s)
     else if peerDevId = [] then (ERR_DH_AVT_INVALID_PARAM, s)
     else case (data, ext) of
            (Some d, Some e) \<Rightarrow>
              let existSessId = GetSessIdBySessName sessName peerDevId s in
              if existSessId < 0 then (ERR_DH_AVT_SEND_DATA_FAILED, s)
              else
                let (ret, s1) = softbus_call S (SB_SendStream existSessId d e) s
                in (if ret \<noteq> DH_AVT_SUCCESS then ERR_DH_AVT_SEND_DATA_FAILED else DH_AVT_SUCCESS, s1)
          | _ \<Rightarrow> (ERR_DH_AVT_INVALID_PARAM, s))"

definition RegisterChannelListener ::
    "string \<Rightarrow> string \<Rightarrow> nat option \<Rightarrow> SoftbusChannelAdapter \<Rightarrow> int \<times> SoftbusChannelAdapter" where
  "RegisterChannelListener sessName peerDevId listener s =
    (if sessName = [] then (ERR_DH_AVT_INVALID_PARAM, s)
     else if peerDevId = [] then (ERR_DH_AVT_INVALID_PARAM, s)
     else if listener = None then (ERR_DH_AVT_INVALID_PARAM, s)
     else (DH_AVT_SUCCESS, s\<lparr>sb_listenerMap := om_put (sess_key sessName peerDevId) listener (sb_listenerMap s)\<rparr>))"

definition UnRegisterChannelListener ::
    "string \<Rightarrow> string \<Rightarrow> SoftbusChannelAdapter \<Rightarrow> int \<times> SoftbusChannelAdapter" where
  "UnRegisterChannelListener sessName peerDevId s =
    (if sessName = [] then (ERR_DH_AVT_INVALID_PARAM, s)
     else if peerDevId = [] then (ERR_DH_AVT_INVALID_PARAM, s)
     else (DH_AVT_SUCCESS, s\<lparr>sb_listenerMap := om_del (sess_key sessName peerDevId) (sb_listenerMap s)\<rparr>))"

definition StartDeviceTimeSync ::
    "softbus \<Rightarrow> string \<Rightarrow> string \<Rightarrow> string \<Rightarrow> SoftbusChannelAdapter \<Rightarrow> int \<times> SoftbusChannelAdapter" where
  "StartDeviceTimeSync S pkgName sessName peerDevId s =
    (if peerDevId = [] then (ERR_DH_AVT_INVALID_PARAM, s)
     else
       let (ret, s1) = softbus_call S (SB_StartTimeSync (c_str pkgName) (c_str peerDevId)) s in
       if ret \<noteq> 0 then (ERR_DH_AVT_TIME_SYNC_FAILED, s1)
       else (DH_AVT_SUCCESS,
             s1\<lparr>sb_timeSyncSessNames := os_ins (sess_key sessName peerDevId) (sb_timeSyncSessNames s1)\<rparr>))"

definition StopDeviceTimeSync ::
    "softbus \<Rightarrow> string \<Rightarrow> string \<Rightarrow> string \<Rightarrow> SoftbusChannelAdapter \<Rightarrow> int \<times> SoftbusChannelAdapter" where
  "StopDeviceTimeSync S pkgName sessName peerDevId s =
    (if peerDevId = [] then (ERR_DH_AVT_INVALID_PARAM, s)
     else
       let (ret, s1) = softbus_call S (SB_StopTimeSync (c_str pkgName) (c_str peerDevId)) s in
       if ret \<noteq> 0 then (ERR_DH_AVT_TIME_SYNC_FAILED, s1)
       else (DH_AVT_SUCCESS,
             s1\<lparr>sb_timeSyncSessNames := os_del (sess_key sessName peerDevId) (sb_timeSyncSessNames s1)\<rparr>))"

section \<open>Authorisation of a device\<close>

text \<open>
  A request for authorisation is answered by \<open>ProcessAuthorizationResult\<close> or by its timer; each takes the
  request out of the pending ones under the lock, which is the section \<open>take_pending\<close>.
\<close>

definition HEX_WIDTH :: nat where "HEX_WIDTH = 16"
definition SECONDS_TO_MS :: int where "SECONDS_TO_MS = 1000"
definition DEFAULT_TIMEOUT_MS :: int where "DEFAULT_TIMEOUT_MS = 30000"

definition GenerateRequestId :: "nat \<Rightarrow> 64 word \<Rightarrow> string" where
  "GenerateRequestId timestamp randomNum =
    ''req_'' @ hex_setw HEX_WIDTH timestamp @ ''_'' @ hex_setw HEX_WIDTH (unat randomNum)"

definition upd_access ::
    "(DAudioAccessConfigManager \<Rightarrow> DAudioAccessConfigManager) \<Rightarrow> SoftbusChannelAdapter \<Rightarrow> SoftbusChannelAdapter" where
  "upd_access f s = s\<lparr>sb_access := f (sb_access s)\<rparr>"

definition CancelAuthorizationTimer :: "string \<Rightarrow> SoftbusChannelAdapter \<Rightarrow> SoftbusChannelAdapter" where
  "CancelAuthorizationTimer requestId s =
    (if om_has (sb_authTimerCancelFlags s) requestId
     then s\<lparr>sb_authTimerCancelFlags := om_put requestId True (sb_authTimerCancelFlags s)\<rparr> else s)"

definition StartAuthorizationTimer :: "string \<Rightarrow> int \<Rightarrow> SoftbusChannelAdapter \<Rightarrow> SoftbusChannelAdapter" where
  "StartAuthorizationTimer requestId timeOutMs s =
    (let s1 = CancelAuthorizationTimer requestId s
     in s1\<lparr>sb_authTimerCancelFlags := om_put requestId False (sb_authTimerCancelFlags s1),
           sb_timers := sb_timers s1 @ [(requestId, timeOutMs)],
           sb_authTimerThreads := os_ins requestId (sb_authTimerThreads s1)\<rparr>)"

definition take_pending :: "string \<Rightarrow> SoftbusChannelAdapter \<Rightarrow> string \<times> SoftbusChannelAdapter" where
  "take_pending requestId s =
    (case om_get (sb_pendingAuthRequests s) requestId of
       None \<Rightarrow> ([], s)
     | Some networkId \<Rightarrow> (networkId, s\<lparr>sb_pendingAuthRequests := om_del requestId (sb_pendingAuthRequests s)\<rparr>))"

definition HandleAuthorizationTimeout :: "string \<Rightarrow> SoftbusChannelAdapter \<Rightarrow> SoftbusChannelAdapter" where
  "HandleAuthorizationTimeout requestId s =
    (let (networkId, s1) = take_pending requestId s
     in if networkId = [] then s1 else upd_access (SetAuthorizationGranted networkId False) s1)"

definition ProcessAuthorizationResult :: "string \<Rightarrow> bool \<Rightarrow> SoftbusChannelAdapter \<Rightarrow> SoftbusChannelAdapter" where
  "ProcessAuthorizationResult requestId granted s =
    (let (networkId, s1) = take_pending requestId (CancelAuthorizationTimer requestId s)
     in if networkId = [] then s1 else upd_access (SetAuthorizationGranted networkId granted) s1)"

text \<open>The first section of the timer's thread after its sleep, and the whole thread.\<close>

definition timer_flag :: "string \<Rightarrow> SoftbusChannelAdapter \<Rightarrow> bool \<times> SoftbusChannelAdapter" where
  "timer_flag requestId s =
    (om_get (sb_authTimerCancelFlags s) requestId = Some False,
     s\<lparr>sb_authTimerCancelFlags := om_del requestId (sb_authTimerCancelFlags s)\<rparr>)"

definition authTimerThread :: "string \<Rightarrow> SoftbusChannelAdapter \<Rightarrow> SoftbusChannelAdapter" where
  "authTimerThread requestId s =
    (let (shouldTimeout, s1) = timer_flag requestId s;
         s2 = (if shouldTimeout then HandleAuthorizationTimeout requestId s1 else s1)
     in s2\<lparr>sb_authTimerThreads := os_del requestId (sb_authTimerThreads s2)\<rparr>)"

text \<open>The product is computed in 32 bits.  The request is made of the listener after the timer was started.\<close>

definition RequestAndWaitForAuthorization :: "string \<Rightarrow> string \<Rightarrow> SoftbusChannelAdapter \<Rightarrow> int \<times> SoftbusChannelAdapter" where
  "RequestAndWaitForAuthorization requestId peerNetworkId s =
    (case ac_listener (sb_access s) of
       None \<Rightarrow> (DH_AVT_SUCCESS, upd_access (SetAuthorizationGranted peerNetworkId True) s)
     | Some listener \<Rightarrow>
        let timeOut = ac_timeOut (sb_access s); pkgName = ac_pkgName (sb_access s) in
        if pkgName = [] then (DH_AVT_SUCCESS, upd_access (SetAuthorizationGranted peerNetworkId True) s)
        else
          let s1 = s\<lparr>sb_pendingAuthRequests := om_put requestId peerNetworkId (sb_pendingAuthRequests s)\<rparr>;
              timeOutMs = (if 0 < timeOut then sint (word_of_int (timeOut * SECONDS_TO_MS) :: 32 word)
                           else DEFAULT_TIMEOUT_MS);
              s2 = StartAuthorizationTimer requestId timeOutMs s1
          in (DH_AVT_SUCCESS, s2\<lparr>sb_calls := sb_calls s2 @ [LC_Access listener requestId peerNetworkId pkgName]\<rparr>))"

section \<open>Callbacks of the softbus\<close>

text \<open>\<open>operator[]\<close> of the map of listeners inserts a null pointer under a key it does not have.\<close>

definition listener_at :: "string \<Rightarrow> SoftbusChannelAdapter \<Rightarrow> nat option \<times> SoftbusChannelAdapter" where
  "listener_at sessName s =
    (case om_get (sb_listenerMap s) sessName of
       None \<Rightarrow> (None, s\<lparr>sb_listenerMap := om_put sessName None (sb_listenerMap s)\<rparr>)
     | Some l \<Rightarrow> (l, s))"

definition call_listener :: "lcall \<Rightarrow> SoftbusChannelAdapter \<Rightarrow> SoftbusChannelAdapter" where
  "call_listener c s = s\<lparr>sb_calls := sb_calls s @ [c]\<rparr>"

definition SendChannelEvent :: "string \<Rightarrow> AVTransEvent \<Rightarrow> SoftbusChannelAdapter \<Rightarrow> SoftbusChannelAdapter" where
  "SendChannelEvent sessName event s =
    (case listener_at sessName s of
       (None, s1) \<Rightarrow> s1
     | (Some l, s1) \<Rightarrow> call_listener (LC_Event l event) s1)"

text \<open>One of the detached threads runs; a thread that is counted is counted no more after it.\<close>

definition run_thread :: "nat \<Rightarrow> SoftbusChannelAdapter \<Rightarrow> SoftbusChannelAdapter" where
  "run_thread n s =
    (if n < length (sb_threads s) then
       case sb_threads s ! n of
         (sessName, event, counted) \<Rightarrow>
           let s1 = SendChannelEvent sessName event
                      (s\<lparr>sb_threads := take n (sb_threads s) @ drop (Suc n) (sb_threads s)\<rparr>)
           in if counted then s1\<lparr>sb_inflightEventThreadCnt := sb_inflightEventThreadCnt s1 - 1\<rparr> else s1
     else s)"

definition OnSoftbusChannelOpened ::
    "string \<Rightarrow> string \<Rightarrow> int \<Rightarrow> string \<Rightarrow> int \<Rightarrow> SoftbusChannelAdapter \<Rightarrow> int \<times> SoftbusChannelAdapter" where
  "OnSoftbusChannelOpened requestId peerSessionName sessionId peerDevId result s =
    (if peerSessionName = [] then (ERR_DH_AVT_INVALID_PARAM, s)
     else if peerDevId = [] then (ERR_DH_AVT_INVALID_PARAM, s)
     else
       let mySessionName = FindSessNameByPeerSessName peerSessionName in
       if mySessionName = [] then (ERR_DH_AVT_INVALID_PARAM, s)
       else
         let (_, s1) = RequestAndWaitForAuthorization requestId peerDevId (upd_access (SetCurrentNetworkId peerDevId) s);
             event = \<lparr>ev_type = if result = 0 then EVENT_CHANNEL_OPENED else EVENT_CHANNEL_OPEN_FAIL,
                      ev_content = mySessionName, ev_peerDevId = peerDevId\<rparr>;
             ks = listeners_of mySessionName s1;
             s2 = s1\<lparr>sb_threads := sb_threads s1 @ map (\<lambda>k. (k, event, False)) ks,
                     sb_devId2SessIdMap := fold (\<lambda>k m. om_put k sessionId m) ks (sb_devId2SessIdMap s1)\<rparr>
         in (DH_AVT_SUCCESS,
             s2\<lparr>sb_devId2SessIdMap := om_emplace (sess_key mySessionName peerDevId) sessionId (sb_devId2SessIdMap s2)\<rparr>))"

definition OnSoftbusChannelClosed :: "int \<Rightarrow> SoftbusChannelAdapter \<Rightarrow> SoftbusChannelAdapter" where
  "OnSoftbusChannelClosed sessionId s =
    (let peerDevId = GetPeerDevIdBySessId sessionId s;
         gone = map fst (filter (\<lambda>(_, i). i = sessionId) (sb_devId2SessIdMap s));
         event = (\<lambda>k. \<lparr>ev_type = EVENT_CHANNEL_CLOSED, ev_content = GetOwnerFromSessName k, ev_peerDevId = peerDevId\<rparr>)
     in s\<lparr>sb_threads := sb_threads s @ map (\<lambda>k. (k, event k, False)) gone,
          sb_devId2SessIdMap := om_keep (\<lambda>_ i. i \<noteq> sessionId) (sb_devId2SessIdMap s)\<rparr>)"

text \<open>The data is as long as the length that comes with it.  A thread is not started over the limit.\<close>

definition start_counted :: "AVTransEvent \<Rightarrow> string \<Rightarrow> SoftbusChannelAdapter \<Rightarrow> SoftbusChannelAdapter" where
  "start_counted event sessName s =
    (if DSOFTBUS_MAX_INFLIGHT_EVENT_THREADS \<le> sb_inflightEventThreadCnt s then s
     else s\<lparr>sb_inflightEventThreadCnt := sb_inflightEventThreadCnt s + 1,
            sb_threads := sb_threads s @ [(sessName, event, True)]\<rparr>)"

definition OnSoftbusBytesReceived :: "int \<Rightarrow> string option \<Rightarrow> SoftbusChannelAdapter \<Rightarrow> SoftbusChannelAdapter" where
  "OnSoftbusBytesReceived sessionId data s =
    (case data of
       None \<Rightarrow> s
     | Some d \<Rightarrow>
        if d = [] then s
        else if DSOFTBUS_INPUT_MAX_RECV_DATA_LEN < length d then s
        else
          let event = \<lparr>ev_type = EVENT_DATA_RECEIVED, ev_content = d, ev_peerDevId = GetPeerDevIdBySessId sessionId s\<rparr>
          in fold (\<lambda>(k, i) s'. if i = sessionId then start_counted event k s' else s') (sb_devId2SessIdMap s) s)"

fun stream_to :: "int \<Rightarrow> string \<Rightarrow> string \<Rightarrow> (string \<times> int) list \<Rightarrow> SoftbusChannelAdapter \<Rightarrow> SoftbusChannelAdapter" where
  "stream_to sessionId d e [] s = s"
| "stream_to sessionId d e ((k, i) # m) s =
    (if i = sessionId
     then case listener_at k s of
            (None, s1) \<Rightarrow> s1
          | (Some l, s1) \<Rightarrow> stream_to sessionId d e m (call_listener (LC_Stream l d e) s1)
     else stream_to sessionId d e m s)"

definition OnSoftbusStreamReceived ::
    "int \<Rightarrow> string option \<Rightarrow> string option \<Rightarrow> SoftbusChannelAdapter \<Rightarrow> SoftbusChannelAdapter" where
  "OnSoftbusStreamReceived sessionId data ext s =
    (case (data, ext) of
       (Some d, Some e) \<Rightarrow> stream_to sessionId d e (sb_devId2SessIdMap s) s
     | _ \<Rightarrow> s)"

text \<open>What the result tells: the offset in milliseconds and the device it is for.\<close>

definition time_sync_event :: "int \<Rightarrow> string \<Rightarrow> AVTransEvent" where
  "time_sync_event millisecond targetDevId =
    \<lparr>ev_type = EVENT_TIME_SYNC_RESULT, ev_content = dec_int millisecond, ev_peerDevId = targetDevId\<rparr>"

definition OnSoftbusTimeSyncResult ::
    "(int \<times> string) option \<Rightarrow> int \<Rightarrow> SoftbusChannelAdapter \<Rightarrow> SoftbusChannelAdapter" where
  "OnSoftbusTimeSyncResult info result s =
    (if result = 0 then s
     else case info of
            None \<Rightarrow> s
          | Some (millisecond, targetDevId) \<Rightarrow>
             fold (\<lambda>sessName s'.
                case listener_at sessName s' of
                  (None, s1) \<Rightarrow> s1
                | (Some l, s1) \<Rightarrow> call_listener (LC_Event l (time_sync_event millisecond targetDevId)) s1)
               (sb_timeSyncSessNames s) s)"

end
