(* ===== verification/Av_Control.thy ===== *)
theory Av_Control
  imports Softbus_Adapter
begin

text \<open>
  The control centre of the audio and video transport
  (\<open>av_transport/av_trans_control_center/services/src/av_trans_control_center.cpp\<close>), its synchronisation
  manager (\<open>av_sync_manager.cpp\<close>) and the messages between control centres
  (\<open>av_transport/common/src/av_trans_message.cpp\<close>).

  The centre, the channel adapter and the shared memory are one state \<open>av_sys\<close>.  The callbacks of the engines
  are numbers; what they are called with is in \<open>as_params\<close>.  The centre registers itself with the adapter as the
  listener \<open>CENTRE\<close>.
\<close>

section \<open>Messages\<close>

record AVTransMessage =
  am_type :: "32 word"
  am_content :: string
  am_dstDevId :: string

definition AVTransMessage_new :: AVTransMessage where
  "AVTransMessage_new = \<lparr>am_type = 0, am_content = [], am_dstDevId = []\<rparr>"

definition KEY_TYPE :: string where "KEY_TYPE = ''type''"
definition KEY_CONTENT :: string where "KEY_CONTENT = ''content''"
definition KEY_DST_DEVID :: string where "KEY_DST_DEVID = ''dstDevId''"
definition MAX_MESSAGES_LEN :: nat where "MAX_MESSAGES_LEN = 40 * 1024 * 1024"

definition MarshalMessage :: "'j cJSON \<Rightarrow> AVTransMessage \<Rightarrow> string" where
  "MarshalMessage J m =
    (case cJSON_CreateObject J of
       None \<Rightarrow> []
     | Some o0 \<Rightarrow>
        let o1 = cJSON_AddNumberToObject J o0 KEY_TYPE (of_int (uint (am_type m)));
            o2 = cJSON_AddStringToObject J o1 KEY_CONTENT (c_str (am_content m));
            o3 = cJSON_AddStringToObject J o2 KEY_DST_DEVID (c_str (am_dstDevId m))
        in case cJSON_PrintUnformatted J o3 of None \<Rightarrow> [] | Some s \<Rightarrow> s)"

text \<open>The comparison of the check with the largest 32-bit number always holds.\<close>

definition AVTransMessage_IsUInt32 :: "'j cJSON \<Rightarrow> 'j \<Rightarrow> string \<Rightarrow> bool" where
  "AVTransMessage_IsUInt32 J msgJson key =
    (case cJSON_GetObjectItemCaseSensitive J msgJson key of
       None \<Rightarrow> False
     | Some j \<Rightarrow> cJSON_IsNumber J j \<and> unat (word_of_int (cj_valueint J j) :: 32 word) \<le> 4294967295)"

definition AVTransMessage_IsString :: "'j cJSON \<Rightarrow> 'j \<Rightarrow> string \<Rightarrow> bool" where
  "AVTransMessage_IsString J msgJson key =
    (case cJSON_GetObjectItemCaseSensitive J msgJson key of
       None \<Rightarrow> False
     | Some j \<Rightarrow> cJSON_IsString J j \<and> length (cj_valuestring J j) \<le> MAX_MESSAGES_LEN)"

definition UnmarshalMessage :: "'j cJSON \<Rightarrow> string \<Rightarrow> string \<Rightarrow> AVTransMessage \<Rightarrow> bool \<times> AVTransMessage" where
  "UnmarshalMessage J jsonStr peerDevId m =
    (case cJSON_Parse J (c_str jsonStr) of
       None \<Rightarrow> (False, m)
     | Some metaJson \<Rightarrow>
        if \<not> AVTransMessage_IsUInt32 J metaJson KEY_TYPE \<or> \<not> AVTransMessage_IsString J metaJson KEY_CONTENT
        then (False, m)
        else case cJSON_GetObjectItemCaseSensitive J metaJson KEY_TYPE of
               None \<Rightarrow> (False, m)
             | Some typeObj \<Rightarrow>
                if \<not> cJSON_IsNumber J typeObj then (False, m)
                else
                  let m1 = m\<lparr>am_type := word_of_int (cj_valueint J typeObj)\<rparr> in
                  case cJSON_GetObjectItemCaseSensitive J metaJson KEY_CONTENT of
                    None \<Rightarrow> (False, m1)
                  | Some contentObj \<Rightarrow>
                     if \<not> cJSON_IsString J contentObj then (False, m1)
                     else (True, m1\<lparr>am_content := cj_valuestring J contentObj, am_dstDevId := peerDevId\<rparr>))"

section \<open>State\<close>

datatype TransRole = AV_SENDER | AV_RECEIVER | TransRole_UNKNOWN

record AVStreamInfo =
  si_sceneType :: string
  si_peerDevId :: string

record AVSyncManager =
  ym_streamInfoList :: "AVStreamInfo list"
  ym_sourceMemory :: AVTransSharedMemory
  ym_sinkMemory :: AVTransSharedMemory

definition no_memory :: "string \<Rightarrow> AVTransSharedMemory" where
  "no_memory name = \<lparr>sm_fd = 0, sm_size = 0, sm_name = name, sm_addr = None\<rparr>"

definition AVSyncManager_new :: AVSyncManager where
  "AVSyncManager_new = \<lparr>ym_streamInfoList = [], ym_sourceMemory = no_memory [], ym_sinkMemory = no_memory []\<rparr>"

record AVTransControlCenter =
  cc_transRole :: TransRole
  cc_sessionName :: string
  cc_rootEngineId :: int
  cc_initialized :: bool
  cc_syncManager :: "AVSyncManager option"
  cc_connectedDevIds :: "string list"
  cc_engine2DevIdMap :: "(int, string) omap"
  cc_callbackMap :: "(int, nat) omap"

definition BASE_ENGINE_ID :: int where "BASE_ENGINE_ID = 1000"
definition INVALID_ENGINE_ID :: int where "INVALID_ENGINE_ID = -1"
definition AV_SYNC_STREAM_COUNT :: nat where "AV_SYNC_STREAM_COUNT = 2"
definition ERR_DH_AVT_INVALID_PARAM_VALUE :: int where "ERR_DH_AVT_INVALID_PARAM_VALUE = -81000"
definition ERR_DH_AVT_CREATE_CHANNEL_FAILED :: int where "ERR_DH_AVT_CREATE_CHANNEL_FAILED = -80010"
definition ERR_DH_AVT_CHANNEL_ALREADY_CREATED :: int where "ERR_DH_AVT_CHANNEL_ALREADY_CREATED = -80011"

definition START_AV_SYNC :: "32 word" where "START_AV_SYNC = 0x10008"
definition STOP_AV_SYNC :: "32 word" where "STOP_AV_SYNC = 0x10009"
definition TIME_SYNC_RESULT :: "32 word" where "TIME_SYNC_RESULT = 0x1000A"

definition CENTRE :: nat where "CENTRE = 0"

definition AVTransControlCenter_new :: AVTransControlCenter where
  "AVTransControlCenter_new = \<lparr>cc_transRole = TransRole_UNKNOWN, cc_sessionName = [],
     cc_rootEngineId = BASE_ENGINE_ID, cc_initialized = False, cc_syncManager = Some AVSyncManager_new,
     cc_connectedDevIds = [], cc_engine2DevIdMap = [], cc_callbackMap = []\<rparr>"

record av_sys =
  as_sb :: SoftbusChannelAdapter
  as_cc :: AVTransControlCenter
  as_shm :: shm_world
  as_params :: "(nat \<times> 32 word \<times> string) list"

record 'j av_env =
  ae_J :: "'j cJSON"
  ae_S :: softbus
  ae_E :: shm_env

definition on_sb :: "(SoftbusChannelAdapter \<Rightarrow> 'r \<times> SoftbusChannelAdapter) \<Rightarrow> av_sys \<Rightarrow> 'r \<times> av_sys" where
  "on_sb f a = (case f (as_sb a) of (r, s) \<Rightarrow> (r, a\<lparr>as_sb := s\<rparr>))"

definition upd_cc :: "(AVTransControlCenter \<Rightarrow> AVTransControlCenter) \<Rightarrow> av_sys \<Rightarrow> av_sys" where
  "upd_cc f a = a\<lparr>as_cc := f (as_cc a)\<rparr>"

definition upd_ym :: "(AVSyncManager \<Rightarrow> AVSyncManager) \<Rightarrow> av_sys \<Rightarrow> av_sys" where
  "upd_ym f = upd_cc (\<lambda>c. c\<lparr>cc_syncManager := map_option f (cc_syncManager c)\<rparr>)"

text \<open>The manager an operation of it runs on.\<close>

definition the_ym :: "av_sys \<Rightarrow> AVSyncManager" where
  "the_ym a = (case cc_syncManager (as_cc a) of None \<Rightarrow> AVSyncManager_new | Some y \<Rightarrow> y)"

section \<open>What the centre offers its manager\<close>

definition SendMessage :: "'j av_env \<Rightarrow> AVTransMessage option \<Rightarrow> av_sys \<Rightarrow> int \<times> av_sys" where
  "SendMessage V message a =
    (case message of
       None \<Rightarrow> (ERR_DH_AVT_INVALID_PARAM, a)
     | Some m \<Rightarrow>
        on_sb (SendBytesData (ae_S V) (cc_sessionName (as_cc a)) (am_dstDevId m) (MarshalMessage (ae_J V) m)) a)"

definition SetParam2Engines :: "32 word \<Rightarrow> string \<Rightarrow> av_sys \<Rightarrow> av_sys" where
  "SetParam2Engines tag val a =
    a\<lparr>as_params := as_params a @ map (\<lambda>(_, cb). (cb, tag, val)) (cc_callbackMap (as_cc a))\<rparr>"

text \<open>The overload for a shared memory ignores its argument.\<close>

definition SetParam2Engines_memory :: "AVTransSharedMemory \<Rightarrow> av_sys \<Rightarrow> av_sys" where
  "SetParam2Engines_memory memory a = a"

section \<open>The synchronisation manager\<close>

definition SCENE_TYPE_D_MIC :: string where "SCENE_TYPE_D_MIC = ''dmic_stream''"
definition SCENE_TYPE_D_SCREEN :: string where "SCENE_TYPE_D_SCREEN = ''dscreen_stream''"
definition SCENE_TYPE_D_SPEAKER :: string where "SCENE_TYPE_D_SPEAKER = ''dspeaker_stream''"
definition SCENE_TYPE_D_CAMERA_STR :: string where "SCENE_TYPE_D_CAMERA_STR = ''dcamera_stream''"

lemmas scene_types = SCENE_TYPE_D_MIC_def SCENE_TYPE_D_SCREEN_def SCENE_TYPE_D_SPEAKER_def SCENE_TYPE_D_CAMERA_STR_def

definition KEY_SCENE_TYPE :: string where "KEY_SCENE_TYPE = ''sceneType''"
definition KEY_PEER_DEV_ID :: string where "KEY_PEER_DEV_ID = ''peerDevId''"
definition KEY_START_FRAME_NUM :: string where "KEY_START_FRAME_NUM = ''startFrameNum''"
definition KEY_AV_SYNC_FLAG :: string where "KEY_AV_SYNC_FLAG = ''avSyncFlag''"
definition KEY_MY_DEV_ID :: string where "KEY_MY_DEV_ID = ''myDevId''"
definition KEY_GROUP_INFO_ARRAY :: string where "KEY_GROUP_INFO_ARRAY = ''groupInfoArray''"

text \<open>The role of a stream: microphones and speakers are the masters, screens and cameras the slaves.\<close>

definition sync_flag :: "string \<Rightarrow> int option" where
  "sync_flag sceneType =
    (if sceneType = SCENE_TYPE_D_MIC \<or> sceneType = SCENE_TYPE_D_SPEAKER then Some 0
     else if sceneType = SCENE_TYPE_D_SCREEN \<or> sceneType = SCENE_TYPE_D_CAMERA_STR then Some 1
     else None)"

fun MergeGroupInfoInner :: "'j cJSON \<Rightarrow> AVStreamInfo list \<Rightarrow> string list \<Rightarrow> string list option" where
  "MergeGroupInfoInner J [] groupInfoSet = Some groupInfoSet"
| "MergeGroupInfoInner J (item # rest) groupInfoSet =
    (case sync_flag (si_sceneType item) of
       None \<Rightarrow> MergeGroupInfoInner J rest groupInfoSet
     | Some flag \<Rightarrow>
        (case cJSON_CreateObject J of
           None \<Rightarrow> None
         | Some o0 \<Rightarrow>
            let o1 = cJSON_AddStringToObject J o0 KEY_SCENE_TYPE (c_str (si_sceneType item));
                o2 = cJSON_AddStringToObject J o1 KEY_PEER_DEV_ID (c_str (si_peerDevId item));
                o3 = cJSON_AddNumberToObject J o2 KEY_START_FRAME_NUM 0;
                o4 = cJSON_AddNumberToObject J o3 KEY_AV_SYNC_FLAG (of_int flag)
            in case cJSON_PrintUnformatted J o4 of
                 None \<Rightarrow> None
               | Some jsonstr \<Rightarrow> MergeGroupInfoInner J rest (os_ins jsonstr groupInfoSet)))"

definition GetsyncGroupInfo :: "'j cJSON \<Rightarrow> string list \<Rightarrow> string" where
  "GetsyncGroupInfo J groupInfoSet =
    (case cJSON_CreateObject J of
       None \<Rightarrow> []
     | Some o0 \<Rightarrow>
        let o1 = cJSON_AddStringToObject J o0 KEY_MY_DEV_ID [] in
        case cJSON_CreateArray J of
          None \<Rightarrow> []
        | Some arr0 \<Rightarrow>
           let arr = foldl (\<lambda>r info. cJSON_AddItemToArray J r (cJSON_CreateString J (c_str info))) arr0 groupInfoSet
           in case cJSON_PrintUnformatted J (cJSON_AddItemToObject J o1 KEY_GROUP_INFO_ARRAY arr) of
                None \<Rightarrow> [] | Some s \<Rightarrow> s)"

definition MergeGroupInfo :: "'j cJSON \<Rightarrow> AVStreamInfo list \<Rightarrow> string option" where
  "MergeGroupInfo J streams =
    (let sceneTypeSet = fold (\<lambda>i r. os_ins (si_sceneType i) r) streams [];
         has = (\<lambda>t. t \<in> set sceneTypeSet) in
     if length sceneTypeSet < AV_SYNC_STREAM_COUNT then None
     else if has SCENE_TYPE_D_MIC \<and> has SCENE_TYPE_D_SPEAKER then None
     else if \<not> (has SCENE_TYPE_D_SCREEN \<and> has SCENE_TYPE_D_SPEAKER)
             \<and> \<not> (has SCENE_TYPE_D_CAMERA_STR \<and> has SCENE_TYPE_D_MIC) then None
     else case MergeGroupInfoInner J streams [] of
            None \<Rightarrow> None
          | Some groupInfoSet \<Rightarrow> (case GetsyncGroupInfo J groupInfoSet of [] \<Rightarrow> None | c # cs \<Rightarrow> Some (c # cs)))"

definition SOURCE_SHARED_MEMORY :: string where "SOURCE_SHARED_MEMORY = ''sourceSharedMemory''"
definition SINK_SHARED_MEMORY :: string where "SINK_SHARED_MEMORY = ''sinkSharedMemory''"

definition create_memory :: "'j av_env \<Rightarrow> string \<Rightarrow> nat \<Rightarrow> av_sys \<Rightarrow> AVTransSharedMemory \<times> av_sys" where
  "create_memory V name sz a =
    (case CreateAVTransSharedMemory (ae_E V) name sz (as_shm a) of (m, w) \<Rightarrow> (m, a\<lparr>as_shm := w\<rparr>))"

definition close_memory :: "AVTransSharedMemory \<Rightarrow> av_sys \<Rightarrow> AVTransSharedMemory \<times> av_sys" where
  "close_memory m a = (case CloseAVTransSharedMemory m (as_shm a) of (m', w) \<Rightarrow> (m', a\<lparr>as_shm := w\<rparr>))"

text \<open>One message to every stream of the list.\<close>

definition send_all :: "'j av_env \<Rightarrow> 32 word \<Rightarrow> string \<Rightarrow> av_sys \<Rightarrow> av_sys" where
  "send_all V tag content a =
    fold (\<lambda>i r. snd (SendMessage V (Some \<lparr>am_type = tag, am_content = content, am_dstDevId = si_peerDevId i\<rparr>) r))
      (ym_streamInfoList (the_ym a)) a"

definition EnableSenderAVSync :: "'j av_env \<Rightarrow> av_sys \<Rightarrow> av_sys" where
  "EnableSenderAVSync V a =
    (case MergeGroupInfo (ae_J V) (ym_streamInfoList (the_ym a)) of
       None \<Rightarrow> a
     | Some syncGroupInfo \<Rightarrow>
        let a1 = send_all V START_AV_SYNC syncGroupInfo a;
            (m, a2) = create_memory V SOURCE_SHARED_MEMORY 12 a1
        in SetParam2Engines_memory m (upd_ym (\<lambda>y. y\<lparr>ym_sourceMemory := m\<rparr>) a2))"

definition DisableSenderAVSync :: "'j av_env \<Rightarrow> av_sys \<Rightarrow> av_sys" where
  "DisableSenderAVSync V a =
    (if AV_SYNC_STREAM_COUNT \<le> length (ym_streamInfoList (the_ym a)) then a
     else
       let a1 = send_all V STOP_AV_SYNC [] a;
           (m, a2) = close_memory (ym_sourceMemory (the_ym a1)) a1
       in SetParam2Engines_memory (no_memory SOURCE_SHARED_MEMORY) (upd_ym (\<lambda>y. y\<lparr>ym_sourceMemory := m\<rparr>) a2))"

definition AddStreamInfo :: "'j av_env \<Rightarrow> AVStreamInfo \<Rightarrow> av_sys \<Rightarrow> av_sys" where
  "AddStreamInfo V stream a =
    (let a1 = upd_ym (\<lambda>y. y\<lparr>ym_streamInfoList := ym_streamInfoList y @ [stream]\<rparr>) a
     in if length (ym_streamInfoList (the_ym a1)) < AV_SYNC_STREAM_COUNT then a1 else EnableSenderAVSync V a1)"

definition RemoveStreamInfo :: "'j av_env \<Rightarrow> AVStreamInfo \<Rightarrow> av_sys \<Rightarrow> av_sys" where
  "RemoveStreamInfo V stream a =
    DisableSenderAVSync V
      (upd_ym (\<lambda>y. y\<lparr>ym_streamInfoList :=
                filter (\<lambda>i. \<not> (si_sceneType i = si_sceneType stream \<and> si_peerDevId i = si_peerDevId stream))
                  (ym_streamInfoList y)\<rparr>) a)"

definition EnableReceiverAVSync :: "'j av_env \<Rightarrow> string \<Rightarrow> av_sys \<Rightarrow> av_sys" where
  "EnableReceiverAVSync V groupInfo a =
    (let (m, a1) = create_memory V SINK_SHARED_MEMORY (12 * MAX_CLOCK_UNIT_COUNT) a
     in SetParam2Engines START_AV_SYNC groupInfo
          (SetParam2Engines_memory m (upd_ym (\<lambda>y. y\<lparr>ym_sinkMemory := m\<rparr>) a1)))"

definition DisableReceiverAVSync :: "av_sys \<Rightarrow> av_sys" where
  "DisableReceiverAVSync a =
    (let (m, a1) = close_memory (ym_sinkMemory (the_ym a)) a
     in SetParam2Engines_memory (no_memory SINK_SHARED_MEMORY)
          (SetParam2Engines STOP_AV_SYNC [] (upd_ym (\<lambda>y. y\<lparr>ym_sinkMemory := m\<rparr>) a1)))"

definition HandleAvSyncMessage :: "'j av_env \<Rightarrow> AVTransMessage option \<Rightarrow> av_sys \<Rightarrow> av_sys" where
  "HandleAvSyncMessage V message a =
    (case message of
       None \<Rightarrow> a
     | Some m \<Rightarrow>
        if am_type m = START_AV_SYNC then EnableReceiverAVSync V (am_content m) a
        else if am_type m = STOP_AV_SYNC then DisableReceiverAVSync a
        else a)"

section \<open>The control centre\<close>

definition wrap32 :: "int \<Rightarrow> int" where
  "wrap32 i = sint (word_of_int i :: 32 word)"

definition IsInvalidEngineId :: "int \<Rightarrow> av_sys \<Rightarrow> bool" where
  "IsInvalidEngineId engineId a = (engineId < BASE_ENGINE_ID \<or> cc_rootEngineId (as_cc a) < engineId)"

text \<open>The result and the engine id that is handed out.\<close>

definition InitializeAVCenter :: "'j av_env \<Rightarrow> TransRole \<Rightarrow> av_sys \<Rightarrow> (int \<times> int) \<times> av_sys" where
  "InitializeAVCenter V transRole a =
    (let next_id = (\<lambda>b. upd_cc (\<lambda>c. c\<lparr>cc_rootEngineId := wrap32 (cc_rootEngineId c + 1)\<rparr>) b) in
     if transRole \<noteq> AV_SENDER \<and> transRole \<noteq> AV_RECEIVER then ((ERR_DH_AVT_INVALID_PARAM_VALUE, INVALID_ENGINE_ID), a)
     else if cc_initialized (as_cc a) then ((DH_AVT_SUCCESS, cc_rootEngineId (as_cc a)), next_id a)
     else
       let (ret, a1) = on_sb (CreateChannelServer (ae_S V) PKG_NAME_DH_FWK AV_SYNC_RECEIVER_CONTROL_SESSION_NAME) a in
       if ret \<noteq> DH_AVT_SUCCESS then ((ret, INVALID_ENGINE_ID), a1)
       else
         let (ret2, a2) = on_sb (RegisterChannelListener AV_SYNC_RECEIVER_CONTROL_SESSION_NAME
                                   AV_TRANS_SPECIAL_DEVICE_ID (Some CENTRE)) a1 in
         if ret2 \<noteq> DH_AVT_SUCCESS then ((ret2, INVALID_ENGINE_ID), a2)
         else
           let a3 = upd_cc (\<lambda>c. c\<lparr>cc_initialized := True, cc_transRole := transRole\<rparr>) a2
           in ((DH_AVT_SUCCESS, cc_rootEngineId (as_cc a3)), next_id a3))"

definition ReleaseAVCenter :: "'j av_env \<Rightarrow> int \<Rightarrow> av_sys \<Rightarrow> int \<times> av_sys" where
  "ReleaseAVCenter V engineId a =
    (if IsInvalidEngineId engineId a then (ERR_DH_AVT_INVALID_PARAM_VALUE, a)
     else
       let a1 = upd_cc (\<lambda>c. c\<lparr>cc_callbackMap := om_del engineId (cc_callbackMap c)\<rparr>) a in
       case om_get (cc_engine2DevIdMap (as_cc a1)) engineId of
         None \<Rightarrow> (DH_AVT_SUCCESS, a1)
       | Some peerDevId \<Rightarrow>
          let a2 = upd_cc (\<lambda>c. c\<lparr>cc_engine2DevIdMap := om_del engineId (cc_engine2DevIdMap c)\<rparr>) a1 in
          if list_ex (\<lambda>(_, d). d = peerDevId) (cc_engine2DevIdMap (as_cc a2)) then (DH_AVT_SUCCESS, a2)
          else if peerDevId \<notin> set (cc_connectedDevIds (as_cc a2)) then (DH_AVT_SUCCESS, a2)
          else
            let a3 = upd_cc (\<lambda>c. c\<lparr>cc_connectedDevIds := remove1 peerDevId (cc_connectedDevIds c)\<rparr>) a2;
                sess = cc_sessionName (as_cc a3);
                (_, a4) = on_sb (StopDeviceTimeSync (ae_S V) PKG_NAME_DH_FWK sess peerDevId) a3;
                (_, a5) = on_sb (CloseSoftbusChannel (ae_S V) sess peerDevId) a4;
                (_, a6) = on_sb (UnRegisterChannelListener AV_SYNC_SENDER_CONTROL_SESSION_NAME AV_TRANS_SPECIAL_DEVICE_ID) a5;
                (_, a7) = on_sb (UnRegisterChannelListener AV_SYNC_RECEIVER_CONTROL_SESSION_NAME AV_TRANS_SPECIAL_DEVICE_ID) a6
            in (DH_AVT_SUCCESS, a7))"

definition add_engine :: "int \<Rightarrow> string \<Rightarrow> av_sys \<Rightarrow> av_sys" where
  "add_engine engineId peerDevId =
    upd_cc (\<lambda>c. c\<lparr>cc_engine2DevIdMap := om_emplace engineId peerDevId (cc_engine2DevIdMap c)\<rparr>)"

definition CreateControlChannel :: "'j av_env \<Rightarrow> int \<Rightarrow> string \<Rightarrow> av_sys \<Rightarrow> int \<times> av_sys" where
  "CreateControlChannel V engineId peerDevId a =
    (if IsInvalidEngineId engineId a then (ERR_DH_AVT_INVALID_PARAM_VALUE, a)
     else if \<not> cc_initialized (as_cc a) then (ERR_DH_AVT_CREATE_CHANNEL_FAILED, a)
     else if peerDevId \<in> set (cc_connectedDevIds (as_cc a))
     then (ERR_DH_AVT_CHANNEL_ALREADY_CREATED, add_engine engineId peerDevId a)
     else
       let (ret, a1) = on_sb (RegisterChannelListener AV_SYNC_SENDER_CONTROL_SESSION_NAME
                                AV_TRANS_SPECIAL_DEVICE_ID (Some CENTRE)) a in
       if ret \<noteq> DH_AVT_SUCCESS then (ret, a1)
       else
         let (ret2, a2) = on_sb (OpenSoftbusChannel (ae_S V) AV_SYNC_SENDER_CONTROL_SESSION_NAME
                                   AV_SYNC_RECEIVER_CONTROL_SESSION_NAME peerDevId) a1 in
         if ret2 \<noteq> DH_AVT_SUCCESS \<and> ret2 \<noteq> ERR_DH_AVT_SESSION_HAS_OPENED then (ret2, a2)
         else (DH_AVT_SUCCESS, add_engine engineId peerDevId a2))"

definition NotifyAVCenter :: "'j av_env \<Rightarrow> int \<Rightarrow> AVTransEvent \<Rightarrow> av_sys \<Rightarrow> int \<times> av_sys" where
  "NotifyAVCenter V engineId event a =
    (if IsInvalidEngineId engineId a then (ERR_DH_AVT_INVALID_PARAM_VALUE, a)
     else if cc_syncManager (as_cc a) = None then (ERR_DH_AVT_INVALID_PARAM_VALUE, a)
     else
       let stream = \<lparr>si_sceneType = ev_content event, si_peerDevId = ev_peerDevId event\<rparr>
       in (DH_AVT_SUCCESS,
           if ev_type event = EVENT_ADD_STREAM then AddStreamInfo V stream a
           else if ev_type event = EVENT_REMOVE_STREAM then RemoveStreamInfo V stream a
           else a))"

definition RegisterCtlCenterCallback :: "int \<Rightarrow> nat option \<Rightarrow> av_sys \<Rightarrow> int \<times> av_sys" where
  "RegisterCtlCenterCallback engineId callback a =
    (if IsInvalidEngineId engineId a then (ERR_DH_AVT_INVALID_PARAM_VALUE, a)
     else case callback of
            None \<Rightarrow> (ERR_DH_AVT_INVALID_PARAM_VALUE, a)
          | Some cb \<Rightarrow>
             (DH_AVT_SUCCESS, upd_cc (\<lambda>c. c\<lparr>cc_callbackMap := om_emplace engineId cb (cc_callbackMap c)\<rparr>) a))"

definition HandleChannelEvent :: "'j av_env \<Rightarrow> AVTransEvent \<Rightarrow> av_sys \<Rightarrow> av_sys" where
  "HandleChannelEvent V event a =
    (if ev_type event = EVENT_CHANNEL_CLOSED then a
     else if ev_type event = EVENT_CHANNEL_OPEN_FAIL then a
     else if ev_type event = EVENT_CHANNEL_OPENED then
       let a1 = upd_cc (\<lambda>c. c\<lparr>cc_sessionName := ev_content event\<rparr>) a;
           a2 = (if ev_content event = AV_SYNC_RECEIVER_CONTROL_SESSION_NAME
                 then snd (on_sb (StartDeviceTimeSync (ae_S V) PKG_NAME_DH_FWK (ev_content event) (ev_peerDevId event)) a1)
                 else a1)
       in upd_cc (\<lambda>c. c\<lparr>cc_connectedDevIds := cc_connectedDevIds c @ [ev_peerDevId event]\<rparr>) a2
     else a)"

definition HandleDataReceived :: "'j av_env \<Rightarrow> string \<Rightarrow> string \<Rightarrow> av_sys \<Rightarrow> av_sys" where
  "HandleDataReceived V content peerDevId a =
    (case UnmarshalMessage (ae_J V) content peerDevId AVTransMessage_new of
       (ok, m) \<Rightarrow>
         if \<not> ok then a
         else if cc_syncManager (as_cc a) = None then a
         else if am_type m = START_AV_SYNC \<or> am_type m = STOP_AV_SYNC then HandleAvSyncMessage V (Some m) a
         else a)"

definition CentreOnChannelEvent :: "'j av_env \<Rightarrow> AVTransEvent \<Rightarrow> av_sys \<Rightarrow> av_sys" where
  "CentreOnChannelEvent V event a =
    (if ev_type event \<in> {EVENT_CHANNEL_OPENED, EVENT_CHANNEL_CLOSED, EVENT_CHANNEL_OPEN_FAIL}
     then HandleChannelEvent V event a
     else if ev_type event = EVENT_DATA_RECEIVED then HandleDataReceived V (ev_content event) (ev_peerDevId event) a
     else if ev_type event = EVENT_TIME_SYNC_RESULT then SetParam2Engines TIME_SYNC_RESULT (ev_content event) a
     else a)"

definition AVTransControlCenter_dtor :: "'j av_env \<Rightarrow> av_sys \<Rightarrow> av_sys" where
  "AVTransControlCenter_dtor V a =
    (let (_, a1) = on_sb (RemoveChannelServer (ae_S V) PKG_NAME_DH_FWK AV_SYNC_SENDER_CONTROL_SESSION_NAME) a;
         (_, a2) = on_sb (RemoveChannelServer (ae_S V) PKG_NAME_DH_FWK AV_SYNC_RECEIVER_CONTROL_SESSION_NAME) a1
     in upd_cc (\<lambda>c. c\<lparr>cc_sessionName := [], cc_initialized := False, cc_syncManager := None,
                      cc_transRole := TransRole_UNKNOWN, cc_rootEngineId := BASE_ENGINE_ID\<rparr>) a2)"

text \<open>The oldest call that the adapter has made of a listener is carried out; those of the engines are not modelled.\<close>

definition deliver :: "'j av_env \<Rightarrow> av_sys \<Rightarrow> av_sys" where
  "deliver V a =
    (case sb_calls (as_sb a) of
       [] \<Rightarrow> a
     | c # cs \<Rightarrow>
        let a1 = a\<lparr>as_sb := (as_sb a)\<lparr>sb_calls := cs\<rparr>\<rparr> in
        case c of
          LC_Event l event \<Rightarrow> if l = CENTRE then CentreOnChannelEvent V event a1 else a1
        | _ \<Rightarrow> a1)"

definition av_sys_new :: av_sys where
  "av_sys_new = \<lparr>as_sb = SoftbusChannelAdapter_new, as_cc = AVTransControlCenter_new,
     as_shm = \<lparr>sw_fds = [], sw_map = []\<rparr>, as_params = []\<rparr>"

end
