(* ===== verification/Json_Laws.thy ===== *)
theory Json_Laws
  imports Demo Transport_Obj Component_Privacy Av_Control
begin

text \<open>
  What the code relies on of the cJSON library, as the predicate \<open>cJSON_laws\<close>, how an object that is built
  member by member reads after it was printed and parsed, and a library that satisfies the laws: \<open>flat_J\<close>,
  whose objects are lists of string, number and truth members.
\<close>

section \<open>The laws of the library\<close>

text \<open>The names of the members, no two of which are equal up to case, as the library compares them.\<close>

definition ident :: "string \<Rightarrow> bool" where
  "ident k = (k \<in> set [DH_ID, DEV_ID, DEV_NAME, DEV_TYPE, DH_TYPE, DH_ATTRS, DH_SUBTYPE, COMM_MSG_CODE_KEY,
     COMM_MSG_USERID_KEY, COMM_MSG_TOKENID_KEY, COMM_MSG_MSG_KEY, COMM_MSG_ACCOUNTID_KEY, COMM_MSG_SYNC_META_KEY,
     PRIVACY_SUBTYPE, PRIVACY_NETWORKID,
     KEY_SHARED_MEM_FD, KEY_SHARED_MEM_SIZE, KEY_SHARED_MEM_NAME, KEY_TYPE, KEY_CONTENT, KEY_DST_DEVID])"

definition str_at :: "'j cJSON \<Rightarrow> 'j \<Rightarrow> string \<Rightarrow> string option" where
  "str_at J x k = (case cJSON_GetObjectItem J x k of
     None \<Rightarrow> None | Some j \<Rightarrow> if cJSON_IsString J j then Some (cj_valuestring J j) else None)"

definition num_at :: "'j cJSON \<Rightarrow> 'j \<Rightarrow> string \<Rightarrow> int option" where
  "num_at J x k = (case cJSON_GetObjectItem J x k of
     None \<Rightarrow> None | Some j \<Rightarrow> if cJSON_IsNumber J j then Some (cj_valueint J j) else None)"

definition bool_at :: "'j cJSON \<Rightarrow> 'j \<Rightarrow> string \<Rightarrow> bool option" where
  "bool_at J x k = (case cJSON_GetObjectItem J x k of
     None \<Rightarrow> None | Some j \<Rightarrow> if cJSON_IsBool J j then Some (cJSON_IsTrue J j) else None)"

text \<open>
  An object has no members when it is created; a member that is added under a new name is read back, a
  number when it fits an \<open>int\<close>, and the others stay; and the text that is printed parses to an object with
  the same members, where the integer of a truth value says whether it is true.
\<close>

definition cJSON_laws :: "'j cJSON \<Rightarrow> bool" where
  "cJSON_laws J =
    ((\<forall>x k. cJSON_CreateObject J = Some x \<longrightarrow> cJSON_GetObjectItem J x k = None)
     \<and> (\<forall>x k v k'. ident k \<and> ident k' \<and> cJSON_GetObjectItem J x k = None \<longrightarrow>
          (let y = cJSON_AddStringToObject J x k v in
           str_at J y k' = (if k' = k then Some v else str_at J x k')
           \<and> num_at J y k' = (if k' = k then None else num_at J x k')
           \<and> bool_at J y k' = (if k' = k then None else bool_at J x k')
           \<and> (cJSON_GetObjectItem J y k' = None \<longleftrightarrow> k' \<noteq> k \<and> cJSON_GetObjectItem J x k' = None)))
     \<and> (\<forall>x k i k'. ident k \<and> ident k' \<and> cJSON_GetObjectItem J x k = None \<and> - 2147483648 \<le> i \<and> i < 2147483648 \<longrightarrow>
          (let y = cJSON_AddNumberToObject J x k (of_int i) in
           str_at J y k' = (if k' = k then None else str_at J x k')
           \<and> num_at J y k' = (if k' = k then Some i else num_at J x k')
           \<and> bool_at J y k' = (if k' = k then None else bool_at J x k')
           \<and> (cJSON_GetObjectItem J y k' = None \<longleftrightarrow> k' \<noteq> k \<and> cJSON_GetObjectItem J x k' = None)))
     \<and> (\<forall>x k b k'. ident k \<and> ident k' \<and> cJSON_GetObjectItem J x k = None \<longrightarrow>
          (let y = cJSON_AddBoolToObject J x k b in
           str_at J y k' = (if k' = k then None else str_at J x k')
           \<and> num_at J y k' = (if k' = k then None else num_at J x k')
           \<and> bool_at J y k' = (if k' = k then Some b else bool_at J x k')
           \<and> (cJSON_GetObjectItem J y k' = None \<longleftrightarrow> k' \<noteq> k \<and> cJSON_GetObjectItem J x k' = None)))
     \<and> (\<forall>x s. cJSON_PrintUnformatted J x = Some s \<longrightarrow>
          c_str s = s \<and> (\<exists>y. cJSON_Parse J s = Some y
            \<and> (\<forall>k. ident k \<longrightarrow> str_at J y k = str_at J x k \<and> num_at J y k = num_at J x k \<and> bool_at J y k = bool_at J x k
              \<and> (\<forall>j. cJSON_GetObjectItem J y k = Some j \<and> cJSON_IsBool J j \<longrightarrow> (cj_valueint J j \<noteq> 0) = cJSON_IsTrue J j)))))"

lemma ident_names [simp]:
  "ident DH_ID" "ident DEV_ID" "ident DEV_NAME" "ident DEV_TYPE" "ident DH_TYPE" "ident DH_ATTRS" "ident DH_SUBTYPE"
  "ident COMM_MSG_CODE_KEY" "ident COMM_MSG_USERID_KEY" "ident COMM_MSG_TOKENID_KEY" "ident COMM_MSG_MSG_KEY"
  "ident COMM_MSG_ACCOUNTID_KEY" "ident COMM_MSG_SYNC_META_KEY" "ident PRIVACY_SUBTYPE" "ident PRIVACY_NETWORKID"
  "ident KEY_SHARED_MEM_FD" "ident KEY_SHARED_MEM_SIZE" "ident KEY_SHARED_MEM_NAME"
  "ident KEY_TYPE" "ident KEY_CONTENT" "ident KEY_DST_DEVID"
  by (simp_all add: ident_def)

lemma laws_created: "cJSON_laws J \<Longrightarrow> cJSON_CreateObject J = Some x \<Longrightarrow> cJSON_GetObjectItem J x k = None"
  unfolding cJSON_laws_def by blast

text \<open>
  The library seen through its case sensitive lookup: code that uses that one relies on the same laws for it.
\<close>

definition sensitive :: "'j cJSON \<Rightarrow> 'j cJSON" where
  "sensitive J = J\<lparr>cJSON_GetObjectItem := cJSON_GetObjectItemCaseSensitive J\<rparr>"

lemma sensitive_simps [simp]:
  "cJSON_GetObjectItem (sensitive J) = cJSON_GetObjectItemCaseSensitive J" "cJSON_Parse (sensitive J) = cJSON_Parse J"
  "cJSON_PrintUnformatted (sensitive J) = cJSON_PrintUnformatted J" "cJSON_IsString (sensitive J) = cJSON_IsString J"
  "cJSON_IsNumber (sensitive J) = cJSON_IsNumber J" "cj_valuestring (sensitive J) = cj_valuestring J"
  "cj_valueint (sensitive J) = cj_valueint J" "cJSON_CreateObject (sensitive J) = cJSON_CreateObject J"
  "cJSON_AddStringToObject (sensitive J) = cJSON_AddStringToObject J"
  "cJSON_AddNumberToObject (sensitive J) = cJSON_AddNumberToObject J" "cJSON_AddBoolToObject (sensitive J) = cJSON_AddBoolToObject J"
  by (simp_all add: sensitive_def)

text \<open>A member, how it is added and how it is read.\<close>

datatype jmember = MStr string string | MNum string int | MBool string bool

definition jname :: "jmember \<Rightarrow> string" where
  "jname m = (case m of MStr k _ \<Rightarrow> k | MNum k _ \<Rightarrow> k | MBool k _ \<Rightarrow> k)"

definition jadd :: "'j cJSON \<Rightarrow> 'j \<Rightarrow> jmember \<Rightarrow> 'j" where
  "jadd J x m = (case m of MStr k v \<Rightarrow> cJSON_AddStringToObject J x k v
     | MNum k i \<Rightarrow> cJSON_AddNumberToObject J x k (of_int i) | MBool k b \<Rightarrow> cJSON_AddBoolToObject J x k b)"

definition jfits :: "jmember \<Rightarrow> bool" where
  "jfits m = (ident (jname m) \<and> (case m of MNum _ i \<Rightarrow> - 2147483648 \<le> i \<and> i < 2147483648 | _ \<Rightarrow> True))"

definition jreads :: "'j cJSON \<Rightarrow> 'j \<Rightarrow> jmember \<Rightarrow> bool" where
  "jreads J x m = (case m of MStr k v \<Rightarrow> str_at J x k = Some v | MNum k i \<Rightarrow> num_at J x k = Some i
     | MBool k b \<Rightarrow> bool_at J x k = Some b)"

lemma laws_add:
  assumes "cJSON_laws J" "jfits m" "ident k'" "cJSON_GetObjectItem J x (jname m) = None"
  shows "str_at J (jadd J x m) k' = (if k' = jname m then (case m of MStr _ v \<Rightarrow> Some v | _ \<Rightarrow> None) else str_at J x k')"
    and "num_at J (jadd J x m) k' = (if k' = jname m then (case m of MNum _ i \<Rightarrow> Some i | _ \<Rightarrow> None) else num_at J x k')"
    and "bool_at J (jadd J x m) k' = (if k' = jname m then (case m of MBool _ b \<Rightarrow> Some b | _ \<Rightarrow> None) else bool_at J x k')"
    and "cJSON_GetObjectItem J (jadd J x m) k' = None \<longleftrightarrow> k' \<noteq> jname m \<and> cJSON_GetObjectItem J x k' = None"
  using assms unfolding cJSON_laws_def Let_def by (cases m; simp add: jfits_def jname_def jadd_def)+

lemma laws_print:
  assumes "cJSON_laws J" "cJSON_PrintUnformatted J x = Some s"
  obtains y where "c_str s = s" "cJSON_Parse J s = Some y"
    "\<And>k. ident k \<Longrightarrow> str_at J y k = str_at J x k \<and> num_at J y k = num_at J x k \<and> bool_at J y k = bool_at J x k"
    "\<And>k j. ident k \<Longrightarrow> cJSON_GetObjectItem J y k = Some j \<Longrightarrow> cJSON_IsBool J j \<Longrightarrow> (cj_valueint J j \<noteq> 0) = cJSON_IsTrue J j"
proof -
  note L = assms(1)[unfolded cJSON_laws_def, THEN conjunct2, THEN conjunct2, THEN conjunct2, THEN conjunct2, rule_format, OF assms(2)]
  obtain y where y: "cJSON_Parse J s = Some y"
    "\<forall>k. ident k \<longrightarrow> str_at J y k = str_at J x k \<and> num_at J y k = num_at J x k \<and> bool_at J y k = bool_at J x k
      \<and> (\<forall>j. cJSON_GetObjectItem J y k = Some j \<and> cJSON_IsBool J j \<longrightarrow> (cj_valueint J j \<noteq> 0) = cJSON_IsTrue J j)"
    using L by (elim conjE exE) simp
  show thesis by (rule that[OF conjunct1[OF L] y(1)]) (use y(2) in simp_all)
qed

text \<open>The type checks read through these two views.\<close>

lemma IsString_at: "str_at J x k = Some v \<Longrightarrow> IsString J (cJSON_GetObjectItem J x k) \<longleftrightarrow> 0 < length v \<and> length v \<le> MAX_MESSAGE_LEN"
  "str_at J x k = Some v \<Longrightarrow> item_str J (cJSON_GetObjectItem J x k) = v"
  by (auto simp: str_at_def IsString_def item_str_def split: option.splits if_splits)

lemma IsUInt_at:
  "num_at J x k = Some n \<Longrightarrow> IsUInt16 J (cJSON_GetObjectItem J x k) \<longleftrightarrow> 0 \<le> n \<and> n \<le> 65535"
  "num_at J x k = Some n \<Longrightarrow> IsUInt32 J (cJSON_GetObjectItem J x k) \<longleftrightarrow> 0 \<le> n \<and> n \<le> 2147483647"
  "num_at J x k = Some n \<Longrightarrow> item_int J (cJSON_GetObjectItem J x k) = n"
  by (auto simp: num_at_def IsUInt16_def IsUInt32_def item_int_def split: option.splits if_splits)

section \<open>Objects built member by member\<close>

lemma jadd_laws:
  assumes "cJSON_laws J" "jfits m" "cJSON_GetObjectItem J x (jname m) = None"
  shows "jreads J (jadd J x m) m"
    and "jfits n \<Longrightarrow> jname n \<noteq> jname m \<Longrightarrow> jreads J (jadd J x m) n = jreads J x n"
    and "ident k \<Longrightarrow> cJSON_GetObjectItem J (jadd J x m) k = None \<longleftrightarrow> k \<noteq> jname m \<and> cJSON_GetObjectItem J x k = None"
proof -
  note L = laws_add[OF assms(1,2) _ assms(3)]
  have m: "ident (jname m)" using assms(2) by (simp add: jfits_def)
  show "jreads J (jadd J x m) m" using L(1-3)[OF m] by (cases m) (simp_all add: jreads_def jname_def)
  show "jreads J (jadd J x m) n = jreads J x n" if "jfits n" "jname n \<noteq> jname m"
  proof -
    have "ident (jname n)" using that by (simp add: jfits_def)
    from L(1-3)[OF this] show ?thesis using that by (cases n) (simp_all add: jreads_def jname_def)
  qed
  show "cJSON_GetObjectItem J (jadd J x m) k = None \<longleftrightarrow> k \<noteq> jname m \<and> cJSON_GetObjectItem J x k = None" if "ident k"
    by (rule L(4)[OF that])
qed

lemma jadd_all:
  assumes "cJSON_laws J" "cJSON_CreateObject J = Some x0" "list_all jfits ms" "distinct (map jname ms)"
  shows "list_all (jreads J (foldl (jadd J) x0 ms)) ms
    \<and> (\<forall>k. ident k \<longrightarrow> (cJSON_GetObjectItem J (foldl (jadd J) x0 ms) k = None \<longleftrightarrow> k \<notin> jname ` set ms))"
  using assms(3,4)
proof (induction ms rule: rev_induct)
  case Nil
  show ?case using laws_created[OF assms(1,2)] by simp
next
  case (snoc m ms)
  let ?x = "foldl (jadd J) x0 ms"
  have m: "jfits m" "ident (jname m)" using snoc.prems by (simp_all add: jfits_def)
  have IH: "list_all (jreads J ?x) ms" "\<And>k. ident k \<Longrightarrow> cJSON_GetObjectItem J ?x k = None \<longleftrightarrow> k \<notin> jname ` set ms"
    using snoc by simp_all
  have "cJSON_GetObjectItem J ?x (jname m) = None" using IH(2)[OF m(2)] snoc.prems by simp
  note L = jadd_laws[OF assms(1) m(1) this]
  have "jreads J (jadd J ?x m) n" if "n \<in> set ms" for n
  proof -
    have "jname n \<noteq> jname m" using imageI[OF that, of jname] snoc.prems by auto
    then show ?thesis using that L(2)[of n] snoc.prems IH(1) by (simp add: list_all_iff)
  qed
  then show ?case using L(1,3) IH(2) by (auto simp: list_all_iff)
qed

lemma jreads_iff:
  "list_all (jreads J x) ms \<Longrightarrow> MStr k v \<in> set ms \<Longrightarrow> str_at J x k = Some v"
  "list_all (jreads J x) ms \<Longrightarrow> MNum k i \<in> set ms \<Longrightarrow> num_at J x k = Some i"
  "list_all (jreads J x) ms \<Longrightarrow> MBool k b \<in> set ms \<Longrightarrow> bool_at J x k = Some b"
  by (auto simp: list_all_iff jreads_def dest!: bspec)

section \<open>A library that satisfies the laws\<close>

text \<open>
  An object is the list of its members.  It is printed as a list of numbers, each in unary followed by a
  dot: a tag, the name and the value of each member, the two halves of each character of a text
  after their number.
\<close>

datatype jval = JS string | JN int | JB bool | JO "(string \<times> jval) list"

definition jmembers :: "jval \<Rightarrow> (string \<times> jval) list" where
  "jmembers x = (case x of JO ms \<Rightarrow> ms | _ \<Rightarrow> [])"

definition flat_add :: "jval \<Rightarrow> string \<Rightarrow> jval \<Rightarrow> jval" where
  "flat_add x k v = JO (jmembers x @ [(k, v)])"

fun nibbles :: "string \<Rightarrow> nat list" where
  "nibbles [] = []"
| "nibbles (c # s) = of_char c div 16 # of_char c mod 16 # nibbles s"

fun unnibbles :: "nat list \<Rightarrow> string" where
  "unnibbles (a # b # ns) = char_of (16 * a + b) # unnibbles ns"
| "unnibbles _ = []"

definition flat_text :: "string \<Rightarrow> nat list" where
  "flat_text s = 2 * length s # nibbles s"

definition flat_member :: "string \<times> jval \<Rightarrow> nat list option" where
  "flat_member m = (case m of
     (k, JS v) \<Rightarrow> Some (0 # flat_text k @ flat_text v)
   | (k, JN i) \<Rightarrow> if i < 0 then None else Some (1 # flat_text k @ [nat i])
   | (k, JB b) \<Rightarrow> Some (2 # flat_text k @ [if b then 1 else 0])
   | (k, JO _) \<Rightarrow> None)"

fun flat_members :: "(string \<times> jval) list \<Rightarrow> nat list option" where
  "flat_members [] = Some []"
| "flat_members (m # ms) = (case (flat_member m, flat_members ms) of
     (Some a, Some b) \<Rightarrow> Some (a @ b) | _ \<Rightarrow> None)"

function unflat :: "nat list \<Rightarrow> (string \<times> jval) list" where
  "unflat (t # n # xs) =
    (case drop n xs of
       [] \<Rightarrow> []
     | m # ys \<Rightarrow>
        if t = 0 then (unnibbles (take n xs), JS (unnibbles (take m ys))) # unflat (drop m ys)
        else if t = 1 then (unnibbles (take n xs), JN (int m)) # unflat ys
        else (unnibbles (take n xs), JB (m = 1)) # unflat ys)"
| "unflat [] = []"
| "unflat [t] = []"
  by pat_completeness auto
termination
proof (relation "measure length")
  fix t n xs m and ys :: "nat list" assume "drop n xs = m # ys"
  then have "length (m # ys) \<le> length xs" by (metis length_drop diff_le_self)
  then show "(drop m ys, t # n # xs) \<in> measure length" "(ys, t # n # xs) \<in> measure length" "(ys, t # n # xs) \<in> measure length" by auto
qed simp

definition unary :: "nat list \<Rightarrow> string" where
  "unary ns = concat (map (\<lambda>n. replicate n (CHR ''x'') @ ''.'') ns)"

fun ununary :: "nat \<Rightarrow> string \<Rightarrow> nat list" where
  "ununary a [] = []"
| "ununary a (c # cs) = (if c = CHR ''.'' then a # ununary 0 cs else ununary (Suc a) cs)"

definition flat_J :: "jval cJSON" where
  "flat_J = \<lparr>cJSON_Parse = (\<lambda>s. Some (JO (unflat (ununary 0 s)))),
     cJSON_PrintUnformatted = (\<lambda>x. case x of JO ms \<Rightarrow> map_option unary (flat_members ms) | _ \<Rightarrow> None),
     cJSON_GetObjectItem = (\<lambda>x k. map_of (jmembers x) k),
     cJSON_GetObjectItemCaseSensitive = (\<lambda>x k. map_of (jmembers x) k),
     cJSON_IsString = (\<lambda>x. case x of JS _ \<Rightarrow> True | _ \<Rightarrow> False),
     cJSON_IsNumber = (\<lambda>x. case x of JN _ \<Rightarrow> True | _ \<Rightarrow> False), cJSON_IsArray = (\<lambda>_. False), 
     cJSON_IsBool = (\<lambda>x. case x of JB _ \<Rightarrow> True | _ \<Rightarrow> False), cJSON_IsTrue = (\<lambda>x. x = JB True),
     cj_valuestring = (\<lambda>x. case x of JS s \<Rightarrow> s | _ \<Rightarrow> []), cj_valueint = (\<lambda>x. case x of JN i \<Rightarrow> i | JB b \<Rightarrow> if b then 1 else 0 | _ \<Rightarrow> 0),
     cj_valuedouble = (\<lambda>_. 0), cj_items = (\<lambda>_. []),
     cJSON_CreateObject = Some (JO []), cJSON_CreateArray = Some (JO []), cJSON_CreateString = JS,
     cJSON_AddStringToObject = (\<lambda>x k v. flat_add x k (JS v)),
     cJSON_AddNumberToObject = (\<lambda>x k r. flat_add x k (JN \<lfloor>r\<rfloor>)),
     cJSON_AddBoolToObject = (\<lambda>x k b. flat_add x k (JB b)), cJSON_AddItemToObject = flat_add, cJSON_AddItemToArray = (\<lambda>x _. x)\<rparr>"

lemma unary_Cons_not_Nil: "unary (n # ns) \<noteq> []"
  by (simp add: unary_def)

lemma ununary_run: "ununary a (replicate n (CHR ''x'') @ CHR ''.'' # cs) = (a + n) # ununary 0 cs"
  by (induction n arbitrary: a) auto

lemma ununary_unary: "ununary 0 (unary ns) = ns"
  by (induction ns) (simp_all add: unary_def ununary_run)

lemma c_str_unary: "c_str (unary ns) = unary ns"
proof -
  have "set (unary ns) \<subseteq> {CHR ''x'', CHR ''.''}" by (auto simp: unary_def)
  then show ?thesis by (auto simp: c_str_def takeWhile_eq_all_conv)
qed

lemma unnibbles_nibbles: "unnibbles (nibbles s) = s" "length (nibbles s) = 2 * length s"
  by (induction s) simp_all

lemma unflat_member: "flat_member m = Some a \<Longrightarrow> unflat (a @ b) = m # unflat b"
  by (cases m; cases "snd m") (auto simp: flat_member_def flat_text_def unnibbles_nibbles split: if_splits)

lemma unflat_members: "flat_members ms = Some ns \<Longrightarrow> unflat ns = ms"
  by (induction ms arbitrary: ns) (auto simp: unflat_member split: option.splits)

lemma flat_J_laws: "cJSON_laws flat_J"
proof -
  have "c_str s = s \<and> cJSON_Parse flat_J s = Some x" if "cJSON_PrintUnformatted flat_J x = Some s" for x s
    using that by (auto simp: flat_J_def ununary_unary unflat_members c_str_unary split: jval.splits)
  then show ?thesis unfolding cJSON_laws_def
    by (auto simp: flat_J_def flat_add_def jmembers_def str_at_def num_at_def bool_at_def map_add_def Let_def split: option.splits jval.splits)
qed

lemma sensitive_flat_J: "sensitive flat_J = flat_J"
  by (simp add: sensitive_def flat_J_def)

end
