(* ===== verification/Json_Properties.thy ===== *)
theory Json_Properties
  imports Json_Laws
begin

text \<open>
  The round trip of a capability through its JSON text, over any cJSON library that satisfies the laws of
  the theory \<open>Json_Laws\<close>.
\<close>

section \<open>The round trip\<close>

definition members :: "CapabilityInfo \<Rightarrow> jmember list" where
  "members c = [MStr DH_ID (c_str (ci_dhId c)), MStr DEV_ID (c_str (ci_deviceId c)),
     MStr DEV_NAME (c_str (ci_deviceName c)), MNum DEV_TYPE (int (unat (ci_deviceType c))),
     MNum DH_TYPE (int (unat (ci_dhType c))), MStr DH_ATTRS (c_str (ci_dhAttrs c)),
     MStr DH_SUBTYPE (c_str (ci_dhSubtype c))]"

lemma ToJson_members: "CapabilityInfo_ToJson J x0 c = foldl (jadd J) x0 (members c)"
  by (simp add: CapabilityInfo_ToJson_def members_def jadd_def Let_def)

lemma members_fit:
  assumes "unat (ci_dhType c) < 2147483648"
  shows "list_all jfits (members c)" "distinct (map jname (members c))"
proof -
  have "unat (ci_deviceType c) < 2147483648" using unat_less[of "ci_deviceType c"] by simp
  then have "int (unat (ci_deviceType c)) < 2147483648" "int (unat (ci_dhType c)) < 2147483648"
    using assms by linarith+
  moreover have "- 2147483648 \<le> int n" for n by simp
  ultimately show "list_all jfits (members c)"
    by (simp add: members_def jfits_def jname_def del: of_nat_unat)
  show "distinct (map jname (members c))" by (simp add: members_def jname_def json_names)
qed

lemma ToJson_at:
  assumes "cJSON_laws J" "cJSON_CreateObject J = Some x0" "unat (ci_dhType c) < 2147483648"
  shows "str_at J (CapabilityInfo_ToJson J x0 c) DH_ID = Some (c_str (ci_dhId c))"
    "str_at J (CapabilityInfo_ToJson J x0 c) DEV_ID = Some (c_str (ci_deviceId c))"
    "str_at J (CapabilityInfo_ToJson J x0 c) DEV_NAME = Some (c_str (ci_deviceName c))"
    "num_at J (CapabilityInfo_ToJson J x0 c) DEV_TYPE = Some (uint (ci_deviceType c))"
    "num_at J (CapabilityInfo_ToJson J x0 c) DH_TYPE = Some (uint (ci_dhType c))"
    "str_at J (CapabilityInfo_ToJson J x0 c) DH_ATTRS = Some (c_str (ci_dhAttrs c))"
    "str_at J (CapabilityInfo_ToJson J x0 c) DH_SUBTYPE = Some (c_str (ci_dhSubtype c))"
proof -
  have R: "list_all (jreads J (CapabilityInfo_ToJson J x0 c)) (members c)"
    using jadd_all[OF assms(1,2) members_fit[OF assms(3)]] by (simp add: ToJson_members)
  note S = jreads_iff(1)[OF R] and N = jreads_iff(2)[OF R]
  show "str_at J (CapabilityInfo_ToJson J x0 c) DH_ID = Some (c_str (ci_dhId c))"
    "str_at J (CapabilityInfo_ToJson J x0 c) DEV_ID = Some (c_str (ci_deviceId c))"
    "str_at J (CapabilityInfo_ToJson J x0 c) DEV_NAME = Some (c_str (ci_deviceName c))"
    "str_at J (CapabilityInfo_ToJson J x0 c) DH_ATTRS = Some (c_str (ci_dhAttrs c))"
    "str_at J (CapabilityInfo_ToJson J x0 c) DH_SUBTYPE = Some (c_str (ci_dhSubtype c))"
    by (rule S, simp add: members_def)+
  have "num_at J (CapabilityInfo_ToJson J x0 c) DEV_TYPE = Some (int (unat (ci_deviceType c)))"
    "num_at J (CapabilityInfo_ToJson J x0 c) DH_TYPE = Some (int (unat (ci_dhType c)))"
    by (rule N, simp add: members_def)+
  then show "num_at J (CapabilityInfo_ToJson J x0 c) DEV_TYPE = Some (uint (ci_deviceType c))"
    "num_at J (CapabilityInfo_ToJson J x0 c) DH_TYPE = Some (uint (ci_dhType c))"
    by (simp_all only: of_nat_unat)
qed

text \<open>A text field that survives: not empty, no longer than the limit, and without a zero byte.\<close>

definition text_ok :: "string \<Rightarrow> bool" where
  "text_ok s = (0 < length s \<and> length s \<le> MAX_MESSAGE_LEN \<and> c_str s = s)"

text \<open>
  C22: a capability whose text fields are not empty and contain no zero byte, and whose hardware type is
  below two to the thirty-first, is read back from its JSON text unchanged, over any capability and for
  any cJSON library that satisfies the laws; the largest hardware type is above this bound.
\<close>

theorem capability_json_roundtrip:
  assumes "cJSON_laws J" "CapabilityInfo_ToJsonString J c = s" "IsJsonLengthValid s" "unat (ci_dhType c) < 2147483648"
    and "list_all text_ok [ci_dhId c, ci_deviceId c, ci_deviceName c, ci_dhAttrs c, ci_dhSubtype c]"
  shows "CapabilityInfo_FromJsonString J s c0 = (DH_FWK_SUCCESS, c)"
proof -
  have ne: "s \<noteq> []" using assms(3) by (auto simp: IsJsonLengthValid_def)
  obtain x0 where x0: "cJSON_CreateObject J = Some x0"
    and p: "cJSON_PrintUnformatted J (CapabilityInfo_ToJson J x0 c) = Some s"
    using assms(2) ne by (auto simp: CapabilityInfo_ToJsonString_def split: option.splits)
  obtain y where y: "c_str s = s" "cJSON_Parse J s = Some y"
    and v: "\<And>k. ident k \<Longrightarrow> str_at J y k = str_at J (CapabilityInfo_ToJson J x0 c) k
      \<and> num_at J y k = num_at J (CapabilityInfo_ToJson J x0 c) k"
    using laws_print[OF assms(1) p] by metis
  have t: "c_str z = z" "0 < length z" "length z \<le> MAX_MESSAGE_LEN"
    if "z \<in> {ci_dhId c, ci_deviceId c, ci_deviceName c, ci_dhAttrs c, ci_dhSubtype c}" for z
    using that assms(5) by (auto simp: text_ok_def)
  note at = ToJson_at[OF assms(1) x0 assms(4)]
  have s7: "str_at J y DH_ID = Some (ci_dhId c)" "str_at J y DEV_ID = Some (ci_deviceId c)"
    "str_at J y DEV_NAME = Some (ci_deviceName c)" "num_at J y DEV_TYPE = Some (int (unat (ci_deviceType c)))"
    "num_at J y DH_TYPE = Some (int (unat (ci_dhType c)))" "str_at J y DH_ATTRS = Some (ci_dhAttrs c)"
    "str_at J y DH_SUBTYPE = Some (ci_dhSubtype c)"
    using at t v by simp_all
  have "unat (ci_deviceType c) < 65536" using unat_less[of "ci_deviceType c"] by simp
  then have "int (unat (ci_deviceType c)) \<le> 65535" "int (unat (ci_dhType c)) \<le> 2147483647"
    using assms(4) by linarith+
  then have n: "uint (ci_deviceType c) \<le> 65535" "uint (ci_dhType c) \<le> 2147483647"
    by (simp_all only: of_nat_unat)
  have "CapabilityInfo_FromJson J y c0 = c"
    using s7 t n
    by (simp add: CapabilityInfo_FromJson_def Let_def IsString_at(1)[OF s7(1)] IsString_at(1)[OF s7(2)]
        IsString_at(1)[OF s7(3)] IsString_at(1)[OF s7(6)] IsString_at(1)[OF s7(7)] IsString_at(2)[OF s7(1)]
        IsString_at(2)[OF s7(2)] IsString_at(2)[OF s7(3)] IsString_at(2)[OF s7(6)] IsString_at(2)[OF s7(7)]
        IsUInt_at(1)[OF s7(4)] IsUInt_at(3)[OF s7(4)] IsUInt_at(2)[OF s7(5)] IsUInt_at(3)[OF s7(5)])
  then show ?thesis using assms(3) y by (simp add: CapabilityInfo_FromJsonString_def)
qed

definition flat_capability :: CapabilityInfo where
  "flat_capability = \<lparr>ci_dhId = ''c'', ci_deviceId = ''d'', ci_deviceName = ''n'', ci_deviceType = 14,
     ci_dhType = DHType_CAMERA, ci_dhAttrs = ''a'', ci_dhSubtype = ''s''\<rparr>"

theorem capability_json_roundtrip_witness:
  "CapabilityInfo_FromJsonString flat_J (CapabilityInfo_ToJsonString flat_J flat_capability) flat_capability
    = (DH_FWK_SUCCESS, flat_capability)"
  by (rule capability_json_roundtrip[OF flat_J_laws refl]) code_simp+

end
