(* ===== verification/Enable_Properties.thy ===== *)
theory Enable_Properties
  imports Created_Tasks
begin

text \<open>
  What the enable, disable and force-disable operations of the component manager do to the clients of
  every component, when the component itself is started and stopped, and what a recovery leaves.
\<close>

section \<open>The clients after an operation\<close>

text \<open>
  \<open>only_client r ty c b old new\<close>: the operation with the answer \<open>r\<close> changed at most the client \<open>c\<close> of
  the component \<open>ty\<close>, to enabled or not, and the load count of \<open>ty\<close> by one exactly if that was a change.
\<close>

definition only_client ::
    "int \<Rightarrow> DHType \<Rightarrow> 'k \<times> DHStatusCtrlKey \<Rightarrow> bool \<Rightarrow> (DHType \<Rightarrow> 'k DHStatus) \<Rightarrow> (DHType \<Rightarrow> 'k DHStatus) \<Rightarrow> bool" where
  "only_client r ty c b old new =
    (\<forall>t. client_enabled (new t) =
           (if t = ty \<and> r = DH_FWK_SUCCESS then (client_enabled (old t))(c := b) else client_enabled (old t))
       \<and> refLoad (new t) = refLoad (old t)
           + (if t = ty \<and> r = DH_FWK_SUCCESS \<and> client_enabled (old t) c \<noteq> b then (if b then 1 else -1) else 0))"

lemma only_client_outcome:
  "sink_outcome r ty c b w w' \<Longrightarrow> only_client r ty c b (\<lambda>t. sink_status t w) (\<lambda>t. sink_status t w')
    \<and> (\<forall>t. source_status t w' = source_status t w)"
  "source_outcome r ty c' b w w' \<Longrightarrow> only_client r ty c' b (\<lambda>t. source_status t w) (\<lambda>t. source_status t w')
    \<and> (\<forall>t. sink_status t w' = sink_status t w)"
  by (auto simp: sink_outcome_def source_outcome_def switched_def only_client_def)

lemma reach_refs: "fwk_reach C s \<Longrightarrow> refs_ok (fst s)"
  by (rule fwk_okD(1)[OF fwk_reach_ok])

text \<open>
  C2: enabling or disabling the sink of a piece of hardware, called by any client in any reachable
  state, changes at most this client's entry: on success the client is enabled or disabled and the load
  count of the component follows, on any error every client and count is as before; the other components
  and the source side are never touched.
\<close>

theorem sink_calls_exact:
  assumes "fwk_reach C s" "EnableSink C d uid pid (fst s) = (r1, w1)" "DisableSink C d uid pid (fst s) = (r2, w2)"
  shows "only_client r1 (dd_dhType d) (dd_id d, DHStatusCtrlKey uid pid) True
      (\<lambda>t. sink_status t (fst s)) (\<lambda>t. sink_status t w1)
    \<and> only_client r2 (dd_dhType d) (dd_id d, DHStatusCtrlKey uid pid) False
      (\<lambda>t. sink_status t (fst s)) (\<lambda>t. sink_status t w2)
    \<and> (\<forall>t. source_status t w1 = source_status t (fst s) \<and> source_status t w2 = source_status t (fst s))"
  using only_client_outcome(1)[OF EnableSink_outcome[OF assms(2) reach_refs[OF assms(1)]]]
    only_client_outcome(1)[OF DisableSink_outcome[OF assms(3) reach_refs[OF assms(1)]]] by simp

text \<open>
  C3: the same on the source side, for the hardware of any device, where the calls also go to the
  handler that registers the hardware.
\<close>

theorem source_calls_exact:
  assumes "fwk_reach C s" "EnableSource C n d uid pid (fst s) = (r1, w1)" "DisableSource C n d uid pid (fst s) = (r2, w2)"
  shows "only_client r1 (dd_dhType d) (DHStatusSourceEnableInfoKey n (dd_id d), DHStatusCtrlKey uid pid) True
      (\<lambda>t. source_status t (fst s)) (\<lambda>t. source_status t w1)
    \<and> only_client r2 (dd_dhType d) (DHStatusSourceEnableInfoKey n (dd_id d), DHStatusCtrlKey uid pid) False
      (\<lambda>t. source_status t (fst s)) (\<lambda>t. source_status t w2)
    \<and> (\<forall>t. sink_status t w1 = sink_status t (fst s) \<and> sink_status t w2 = sink_status t (fst s))"
  using only_client_outcome(2)[OF EnableSource_outcome[OF assms(2) reach_refs[OF assms(1)]]]
    only_client_outcome(2)[OF DisableSource_outcome[OF assms(3) reach_refs[OF assms(1)]]] by simp

theorem sink_calls_exact_witness:
  "only_client (fst (EnableSink demo demo_camera 7 8 (fst demo_enabled))) DHType_CAMERA
     (''Camera_1'', DHStatusCtrlKey 7 8) True (\<lambda>t. sink_status t (fst demo_enabled))
     (\<lambda>t. sink_status t (snd (EnableSink demo demo_camera 7 8 (fst demo_enabled))))"
  using sink_calls_exact[OF demo_enabled_reach prod.collapse[symmetric] prod.collapse[symmetric], of demo_camera 7 8]
  by (simp add: demo_camera_def)

theorem source_calls_exact_witness:
  "only_client (fst (EnableSource demo ''n'' demo_camera 7 8 (fst demo_enabled))) DHType_CAMERA
     (DHStatusSourceEnableInfoKey ''n'' ''Camera_1'', DHStatusCtrlKey 7 8) True (\<lambda>t. source_status t (fst demo_enabled))
     (\<lambda>t. source_status t (snd (EnableSource demo ''n'' demo_camera 7 8 (fst demo_enabled))))"
  using source_calls_exact[OF demo_enabled_reach prod.collapse[symmetric] prod.collapse[symmetric], of "''n''" demo_camera 7 8]
  by (simp add: demo_camera_def)

text \<open>
  a client that enables the sink of a piece of hardware and disables it again, both with success,
  leaves the clients and the load counts of every component as they were.
\<close>

theorem sink_enable_disable:
  assumes "fwk_reach C s" "EnableSink C d uid pid (fst s) = (DH_FWK_SUCCESS, w1)"
    and "DisableSink C d uid pid w1 = (DH_FWK_SUCCESS, w2)"
    and "\<not> client_enabled (sink_status (dd_dhType d) (fst s)) (dd_id d, DHStatusCtrlKey uid pid)"
  shows "\<forall>t. client_enabled (sink_status t w2) = client_enabled (sink_status t (fst s))
    \<and> refLoad (sink_status t w2) = refLoad (sink_status t (fst s)) \<and> source_status t w2 = source_status t (fst s)"
proof -
  note E = EnableSink_outcome[OF assms(2) reach_refs[OF assms(1)]]
  then have "refs_ok w1" by (simp add: sink_outcome_def)
  from only_client_outcome(1)[OF E] only_client_outcome(1)[OF DisableSink_outcome[OF assms(3) this]] assms(4)
  show ?thesis by (auto simp: only_client_def fun_upd_idem)
qed

lemma pair_eqI: "fst p = r \<Longrightarrow> p = (r, snd p)"
  by (cases p) simp

theorem sink_enable_disable_witness:
  "client_enabled (sink_status DHType_CAMERA (snd (DisableSink demo demo_camera 7 8
      (snd (EnableSink demo demo_camera 7 8 demo_init)))))
    = client_enabled (sink_status DHType_CAMERA demo_init)"
proof -
  have e: "fst (EnableSink demo demo_camera 7 8 (fst (demo_init, []))) = DH_FWK_SUCCESS"
    and d: "fst (DisableSink demo demo_camera 7 8 (snd (EnableSink demo demo_camera 7 8 (fst (demo_init, []))))) = DH_FWK_SUCCESS"
    and n: "\<not> client_enabled (sink_status (dd_dhType demo_camera) (fst (demo_init, []))) (dd_id demo_camera, DHStatusCtrlKey 7 8)"
    by code_simp+
  show ?thesis using sink_enable_disable[OF demo_reach_init pair_eqI[OF e] pair_eqI[OF d] n] by simp
qed

text \<open>
  force-disabling a piece of hardware drops all of its clients at once and takes their number off the
  load count of the component, or leaves everything as it was, which happens only with an error; so a
  force-disable that succeeds leaves no client of this hardware, and one that fails while the component
  is being stopped has dropped the clients too.
\<close>

theorem force_disable_drops:
  assumes "fwk_reach C s" "ForceDisableSink C d (fst s) = (r1, w1)" "ForceDisableSource C n d (fst s) = (r2, w2)"
  shows "let old = sink_status (dd_dhType d) (fst s); new = sink_status (dd_dhType d) w1;
             old' = source_status (dd_dhType d) (fst s); new' = source_status (dd_dhType d) w2;
             k = DHStatusSourceEnableInfoKey n (dd_id d) in
    (client_enabled new = (\<lambda>c. fst c \<noteq> dd_id d \<and> client_enabled old c)
       \<and> refLoad new = refLoad old - refEnable (info_of old (dd_id d))
     \<or> r1 \<noteq> DH_FWK_SUCCESS \<and> new = old)
    \<and> (client_enabled new' = (\<lambda>c. fst c \<noteq> k \<and> client_enabled old' c)
       \<and> refLoad new' = refLoad old' - refEnable (info_of old' k)
     \<or> r2 \<noteq> DH_FWK_SUCCESS \<and> new' = old')"
  using ForceDisableSink_dropped[OF assms(2) reach_refs[OF assms(1)]]
    ForceDisableSource_dropped[OF assms(3) reach_refs[OF assms(1)]]
  by (simp add: dropped_def Let_def)

theorem force_disable_drops_witness:
  "client_enabled (sink_status DHType_CAMERA (fst demo_enabled)) (''Camera_1'', DHStatusCtrlKey 1 2)
   \<and> \<not> client_enabled (sink_status DHType_CAMERA (snd (ForceDisableSink demo demo_camera (fst demo_enabled))))
        (''Camera_1'', DHStatusCtrlKey 1 2)"
proof -
  have r: "fst (ForceDisableSink demo demo_camera (fst demo_enabled)) = DH_FWK_SUCCESS"
    and e: "client_enabled (sink_status DHType_CAMERA (fst demo_enabled)) (''Camera_1'', DHStatusCtrlKey 1 2)"
    by code_simp+
  have "dd_id demo_camera = ''Camera_1''" "dd_dhType demo_camera = DHType_CAMERA" by (simp_all add: demo_camera_def)
  then show ?thesis
    using force_disable_drops[OF demo_enabled_reach pair_eqI[OF r] prod.collapse[symmetric],
        where n = "[]"] e
    by (simp add: Let_def)
qed

section \<open>When the component itself is started and stopped\<close>

lemma subtype_of_text_trace:
  "fw_trace (snd (snd (case subtype_of_text s of Some sub \<Rightarrow> (a, sub, w) | None \<Rightarrow> (b, c, w)))) = fw_trace w"
  by (simp split: option.split)

lemma GetDHSubtypeByDHId_trace: "fw_trace (snd (snd (GetDHSubtypeByDHId C sub n i w))) = fw_trace w"
  unfolding GetDHSubtypeByDHId_def Let_def
  by (simp add: subtype_of_text_trace if_distrib[of snd] if_distrib[of fw_trace]
      cong: if_weak_cong option.case_cong_weak split: prod.split)

lemma CheckAudioConfigGate_trace: "CheckAudioConfigGate C n d role w = (r, w1) \<Longrightarrow> fw_trace w1 = fw_trace w"
  using GetDHSubtypeByDHId_trace[of C Subtype_UNKNOWN n "dd_id d" w]
  by (auto simp: CheckAudioConfigGate_def Let_def split: prod.splits if_splits)

lemma put_trace [simp]: "fw_trace (put_sink ty s w) = fw_trace w" "fw_trace (put_source ty r w) = fw_trace w"
  "fw_trace (upd_cm f w) = fw_trace w"
  by (simp_all add: put_sink_def put_source_def upd_cm_def)

lemma WaitForResult_trace: "fw_trace (snd (WaitForResult a rs w)) = fw_trace w"
  by (induction a rs w rule: WaitForResult.induct) (simp_all add: Let_def split_beta)

lemma StartSink_call:
  assumes "StartSink C ty res w = (r, rs, w1)" "r = DH_FWK_SUCCESS"
  shows "\<exists>v. EC_InitSink ty v \<in> set (fw_trace w1)"
  using assms
  by (auto simp: StartSink_def call_fut_def call_void_def Let_def split: prod.splits option.splits if_splits)

lemma StopSink_call:
  assumes "StopSink C ty res w = (r, rs, w1)" "r = DH_FWK_SUCCESS"
  shows "EC_Handler ReleaseSink ty \<in> set (fw_trace w1)"
  using assms
  by (auto simp: StopSink_def call_fut_def call_ptr_def call_void_def Let_def split: prod.splits option.splits if_splits)

lemma UninitCompSink_trace: "set (fw_trace w) \<subseteq> set (fw_trace (snd (UninitCompSink C ty k w)))"
  by (auto simp: UninitCompSink_def RemoveSAMonitor_def call_ptr_def call_void_def call_ret_def Let_def
      split: prod.splits option.splits if_splits)

lemma StartSinkAndWait_call:
  assumes "StartSinkAndWait C ty w = (r, w1)" "r = DH_FWK_SUCCESS"
  shows "\<exists>v. EC_InitSink ty v \<in> set (fw_trace w1)"
proof -
  obtain ret w0 where I: "InitCompSink C ty w = (ret, w0)" by (cases "InitCompSink C ty w") auto
  obtain ret2 res w2 where S: "StartSink C ty [] w0 = (ret2, res, w2)" by (rule prod_cases3)
  obtain ok w3 where W: "WaitForResult START_SINK res w2 = (ok, w3)" by (cases "WaitForResult START_SINK res w2") auto
  have "ret2 = DH_FWK_SUCCESS" "w1 = w3"
    using assms by (simp_all add: StartSinkAndWait_def I S W ERR_DH_FWK_COMPONENT_ENABLE_TIMEOUT_def split: if_splits)
  then show ?thesis using StartSink_call[OF S] WaitForResult_trace[of START_SINK res w2] W by simp
qed

lemma StopSinkAndUninit_call:
  assumes "StopSinkAndUninit C ty w = (r, w1)" "r = DH_FWK_SUCCESS"
  shows "EC_Handler ReleaseSink ty \<in> set (fw_trace w1)"
proof -
  obtain ret res w0 where S: "StopSink C ty [] w = (ret, res, w0)" by (rule prod_cases3)
  obtain ok w2 where W: "WaitForResult STOP_SINK res w0 = (ok, w2)" by (cases "WaitForResult STOP_SINK res w0") auto
  have "ret = DH_FWK_SUCCESS" "w1 = snd (UninitCompSink C ty False w2)"
    using assms by (simp_all add: StopSinkAndUninit_def S W ERR_DH_FWK_COMPONENT_DISABLE_TIMEOUT_def split: if_splits)
  then show ?thesis
    using StopSink_call[OF S] WaitForResult_trace[of STOP_SINK res w0] W UninitCompSink_trace[of w2 C ty False] by auto
qed

lemma EnableSinkInternal_calls:
  assumes E: "EnableSinkInternal C d uid pid w = (r, l, w')" and ok: "refs_ok w"
  defines "old \<equiv> sink_status (dd_dhType d) w"
  shows "refLoad old \<noteq> 0 \<Longrightarrow> fw_trace w' = fw_trace w"
    and "refLoad old = 0 \<Longrightarrow> r = DH_FWK_SUCCESS \<Longrightarrow> \<exists>v. EC_InitSink (dd_dhType d) v \<in> set (fw_trace w')"
proof -
  let ?ty = "dd_dhType d" and ?k = "dd_id d" and ?ck = "DHStatusCtrlKey uid pid"
  obtain g w1 where G: "CheckAudioConfigGate C (GetLocalNetworkId (c_P C)) d ''sink'' w = (g, w1)"
    by (cases "CheckAudioConfigGate C (GetLocalNetworkId (c_P C)) d ''sink'' w") auto
  have s1: "sink_status ?ty w1 = old" unfolding old_def by (rule core_eqD(2)[OF CheckAudioConfigGate_core[OF G]])
  note t1 = CheckAudioConfigGate_trace[OF G]
  have so: "status_ok old" unfolding old_def by (rule refs_ok_status(1)[OF ok])
  obtain r3 w3 where S: "StartSinkAndWait C ?ty (put_sink ?ty (touch_client ?k ?ck old) w1) = (r3, w3)"
    by (cases "StartSinkAndWait C ?ty (put_sink ?ty (touch_client ?k ?ck old) w1)") auto
  show "fw_trace w' = fw_trace w" if "refLoad old \<noteq> 0"
    using E that t1 by (auto simp: EnableSinkInternal_def Let_def G s1 split: if_splits)
  show "\<exists>v. EC_InitSink ?ty v \<in> set (fw_trace w')" if l: "refLoad old = 0" and r: "r = DH_FWK_SUCCESS"
  proof -
    have off: "\<not> client_enabled old (?k, ?ck)" using refs.load_pos[OF so, of "(?k, ?ck)"] l by auto
    have "refEnable (info_of old ?k) = 0"
      using ref_le_load[OF so, of ?k] ref_nonneg[OF status_ok_info[OF so], of ?k] l by simp
    then have "r3 = DH_FWK_SUCCESS \<and> set (fw_trace w3) \<subseteq> set (fw_trace w')"
      using E off l r by (auto simp: EnableSinkInternal_def Let_def G s1 S call_void_def split: if_splits)
    then show ?thesis using StartSinkAndWait_call[OF S] by blast
  qed
qed

lemma DisableSinkInternal_calls:
  assumes E: "DisableSinkInternal C d uid pid w = (r, l, w')" and ok: "refs_ok w"
  defines "old \<equiv> sink_status (dd_dhType d) w"
  shows "refLoad old > 1 \<Longrightarrow> fw_trace w' = fw_trace w"
    and "refLoad old = 1 \<Longrightarrow> client_enabled old (dd_id d, DHStatusCtrlKey uid pid) \<Longrightarrow> r = DH_FWK_SUCCESS \<Longrightarrow>
      EC_Handler ReleaseSink (dd_dhType d) \<in> set (fw_trace w')"
proof -
  let ?ty = "dd_dhType d" and ?k = "dd_id d" and ?ck = "DHStatusCtrlKey uid pid"
  have s1: "sink_status ?ty w = old" by (simp add: old_def)
  have so: "status_ok old" unfolding old_def by (rule refs_ok_status(1)[OF ok])
  obtain r3 w3 where S: "StopSinkAndUninit C ?ty (put_sink ?ty (touch_client ?k ?ck old) w) = (r3, w3)"
    by (cases "StopSinkAndUninit C ?ty (put_sink ?ty (touch_client ?k ?ck old) w)") auto
  show "fw_trace w' = fw_trace w" if "refLoad old > 1"
    using E that by (auto simp: DisableSinkInternal_def Let_def s1 split: if_splits)
  show "EC_Handler ReleaseSink ?ty \<in> set (fw_trace w')"
    if l: "refLoad old = 1" "client_enabled old (?k, ?ck)" and r: "r = DH_FWK_SUCCESS"
  proof -
    have "refEnable (info_of old ?k) \<le> 1" using ref_le_load[OF so, of ?k] l by simp
    then have "r3 = DH_FWK_SUCCESS \<and> fw_trace w' = fw_trace w3"
      using E l r by (auto simp: DisableSinkInternal_def Let_def s1 S split: if_splits)
    then show ?thesis using StopSinkAndUninit_call[OF S] by simp
  qed
qed

text \<open>
  while a client has any sink of a component enabled, another enable does not go to the component
  or its loader, only the first one starts it; and while more than one client has one, a disable does not
  go there either, only the last one stops and releases it.
\<close>

theorem sink_component_shared:
  assumes "fwk_reach C s" "EnableSinkInternal C d uid pid (fst s) = (r1, l1, w1)"
    and "DisableSinkInternal C d uid pid (fst s) = (r2, l2, w2)"
  shows "let old = sink_status (dd_dhType d) (fst s) in
    (refLoad old \<noteq> 0 \<longrightarrow> fw_trace w1 = fw_trace (fst s))
    \<and> (refLoad old = 0 \<and> r1 = DH_FWK_SUCCESS \<longrightarrow> (\<exists>v. EC_InitSink (dd_dhType d) v \<in> set (fw_trace w1)))
    \<and> (refLoad old > 1 \<longrightarrow> fw_trace w2 = fw_trace (fst s))
    \<and> (refLoad old = 1 \<and> client_enabled old (dd_id d, DHStatusCtrlKey uid pid) \<and> r2 = DH_FWK_SUCCESS
         \<longrightarrow> EC_Handler ReleaseSink (dd_dhType d) \<in> set (fw_trace w2))"
  using EnableSinkInternal_calls[OF assms(2) reach_refs[OF assms(1)]]
    DisableSinkInternal_calls[OF assms(3) reach_refs[OF assms(1)]] by (simp add: Let_def)

lemma triple_eqI: "fst p = r \<Longrightarrow> p = (r, fst (snd p), snd (snd p))"
  by (cases p) simp

theorem sink_component_shared_witness:
  "fw_trace (snd (snd (EnableSinkInternal demo demo_camera 1 2 (fst demo_enabled)))) = fw_trace (fst demo_enabled)
   \<and> EC_Handler ReleaseSink DHType_CAMERA \<in> set (fw_trace (snd (snd (DisableSinkInternal demo demo_camera 1 2 (fst demo_enabled)))))"
proof -
  have c: "refLoad (sink_status DHType_CAMERA (fst demo_enabled)) = 1"
    "client_enabled (sink_status DHType_CAMERA (fst demo_enabled)) (dd_id demo_camera, DHStatusCtrlKey 1 2)"
    by code_simp+
  have r: "fst (DisableSinkInternal demo demo_camera 1 2 (fst demo_enabled)) = DH_FWK_SUCCESS" by code_simp
  have d: "dd_dhType demo_camera = DHType_CAMERA" by (simp add: demo_camera_def)
  show ?thesis
    using sink_component_shared[OF demo_enabled_reach triple_eqI[OF refl] triple_eqI[OF r]] c d
    by (simp add: Let_def)
qed

end
