(* ===== verification/Recovery_Properties.thy ===== *)
theory Recovery_Properties
  imports Created_Tasks Component_Properties "HOL-Library.Sublist"
begin

text \<open>
  What the component manager leaves after it has recovered from the death of a component: the clients and
  counts of both sides, and the tasks it has created to enable again what the clients had enabled.
\<close>

section \<open>The tasks a recovery adds\<close>

lemma enable_appended:
  "\<exists>t. fw_tasks (create_and_push C TT_ENABLE tp w) = fw_tasks w @ [t] \<and> t_taskType t = TT_ENABLE \<and> t_param t = tp"
  by (simp add: create_and_push_def CreateTask_unfold fresh_task_def Task_ctor_def CreateEnableTask_def
      link_father_def PushTask_def AddTask_def GetTask_def Let_def upd_task_def TaskParam_default_def)

definition wanted :: "TaskParam \<Rightarrow> Task list \<Rightarrow> bool" where
  "wanted tp ts = list_ex (\<lambda>t. t_taskType t = TT_ENABLE \<and> t_param t = tp) ts"

definition added_tasks :: "'s fwk \<Rightarrow> 's fwk \<Rightarrow> Task list" where
  "added_tasks w w' = drop (length (fw_tasks w)) (fw_tasks w')"

lemma prefix_fold:
  assumes "\<And>x w. prefix (fw_tasks w) (fw_tasks (f x w))" shows "prefix (fw_tasks w) (fw_tasks (fold f xs w))"
proof (induction xs arbitrary: w)
  case (Cons x xs)
  show ?case using prefix_order.trans[OF assms Cons.IH[of "f x w"]] by simp
qed simp

lemma create_prefix: "prefix (fw_tasks w) (fw_tasks (create_and_push C TT_ENABLE tp w))"
  using enable_appended[of C tp w] by auto

lemma fold_create_prefix: "prefix (fw_tasks w) (fw_tasks (fold (\<lambda>c. create_and_push C TT_ENABLE (f c)) cs w))"
  by (rule prefix_fold) (rule create_prefix)

lemma fold_create_wanted:
  "x \<in> set cs \<Longrightarrow> wanted (f x) (added_tasks w (fold (\<lambda>c. create_and_push C TT_ENABLE (f c)) cs w))"
proof (induction cs arbitrary: w)
  case (Cons c cs)
  let ?w1 = "create_and_push C TT_ENABLE (f c) w"
  obtain t where t: "fw_tasks ?w1 = fw_tasks w @ [t]" "t_taskType t = TT_ENABLE" "t_param t = f c"
    using enable_appended[of C "f c" w] by blast
  obtain ts where ts: "fw_tasks (fold (\<lambda>c. create_and_push C TT_ENABLE (f c)) cs ?w1) = fw_tasks ?w1 @ ts"
    using fold_create_prefix[of ?w1 C f cs] by (auto simp: prefix_def)
  show ?case using Cons.prems Cons.IH[of ?w1] t ts by (auto simp: wanted_def added_tasks_def)
qed simp

lemma added_mono:
  assumes "wanted tp (added_tasks w1 w2)" "prefix (fw_tasks w) (fw_tasks w1)" "prefix (fw_tasks w1) (fw_tasks w2)"
    and "prefix (fw_tasks w2) (fw_tasks w3)"
  shows "wanted tp (added_tasks w w3)"
  using assms by (auto simp: prefix_def wanted_def added_tasks_def)

lemma tasks_core: "snd (core w') = snd (core w) \<Longrightarrow> fw_tasks w' = fw_tasks w"
  by (simp add: core_def)

lemma RecoverAuto_prefix:
  "prefix (fw_tasks w) (fw_tasks (RecoverAutoEnableSink C ty w))"
  "prefix (fw_tasks w) (fw_tasks (RecoverAutoEnableSource C ty w))"
  unfolding RecoverAutoEnableSink_def RecoverAutoEnableSource_def Let_def
  by (rule prefix_fold; auto split: prod.splits intro: create_prefix)+

lemma put_tasks [simp]: "fw_tasks (put_sink ty s w) = fw_tasks w" "fw_tasks (put_source ty r w) = fw_tasks w"
  by (simp_all add: put_sink_def put_source_def upd_cm_def)

lemma RecoverActive_prefix:
  "prefix (fw_tasks w) (fw_tasks (RecoverActiveEnableSink C ty w))"
  "prefix (fw_tasks w) (fw_tasks (RecoverActiveEnableSource C ty w))"
proof -
  have "prefix (fw_tasks w) (fw_tasks (fold (\<lambda>c. create_and_push C TT_ENABLE (f c)) cs (put_sink ty s w)))"
    "prefix (fw_tasks w) (fw_tasks (fold (\<lambda>c. create_and_push C TT_ENABLE (g c)) cs' (put_source ty s' w)))" for f cs s g cs' s'
    using fold_create_prefix[of "put_sink ty s w"] fold_create_prefix[of "put_source ty s' w"] by simp_all
  then show "prefix (fw_tasks w) (fw_tasks (RecoverActiveEnableSink C ty w))"
    "prefix (fw_tasks w) (fw_tasks (RecoverActiveEnableSource C ty w))"
    by (auto simp: RecoverActiveEnableSink_def RecoverActiveEnableSource_def split: option.split)
qed

lemma active_clients_reset: "status_shape s \<Longrightarrow> set (active_clients (reset_status s)) = set (active_clients s)"
  by (auto simp: active_clients_iff shape_reset client_enabled_reset)

lemma RecoverActive_wanted:
  "om_get (sink_map w) ty = Some s \<Longrightarrow> c \<in> set (active_clients s) \<Longrightarrow>
     wanted (active_sink_param ty c) (added_tasks w (RecoverActiveEnableSink C ty w))"
  "om_get (source_map w) ty = Some r \<Longrightarrow> k \<in> set (active_clients r) \<Longrightarrow>
     wanted (active_source_param ty k) (added_tasks w (RecoverActiveEnableSource C ty w))"
  using fold_create_wanted[of c "active_clients s" "active_sink_param ty" "put_sink ty (disable_active s) w" C]
    fold_create_wanted[of k "active_clients r" "active_source_param ty" "put_source ty (disable_active r) w" C]
  by (simp_all add: RecoverActiveEnableSink_def RecoverActiveEnableSource_def sink_map_def source_map_def
      added_tasks_def)

section \<open>The recovery\<close>

lemma recovered_status:
  assumes "counts_ok m"
  shows "\<not> client_enabled (status_of (at_type disable_active ty (at_type reset_status ty m)) ty) c"
    and "refLoad (status_of (at_type disable_active ty (at_type reset_status ty m)) ty) = 0"
    and "t \<noteq> ty \<Longrightarrow> status_of (at_type disable_active ty (at_type reset_status ty m)) t = status_of m t"
proof -
  have d: "\<not> client_enabled (DHStatus_default :: 'a DHStatus) c" "refLoad (DHStatus_default :: 'a DHStatus) = 0"
    using refs.load_pos[OF status_ok_default, of c] by (auto simp: DHStatus_default_def)
  show "\<not> client_enabled (status_of (at_type disable_active ty (at_type reset_status ty m)) ty) c"
    "refLoad (status_of (at_type disable_active ty (at_type reset_status ty m)) ty) = 0"
    using d by (cases "om_get m ty"; cases c; simp add: at_type_def status_of_def client_enabled_disable_active
        client_enabled_reset; simp add: disable_active_def reset_status_def)+
  show "t \<noteq> ty \<Longrightarrow> status_of (at_type disable_active ty (at_type reset_status ty m)) t = status_of m t"
    by (cases "om_get m ty") (simp_all add: at_type_def status_of_def)
qed

lemma active_clients_status:
  assumes "counts_ok m" "c \<in> set (active_clients (status_of m ty))"
  obtains s where "om_get (at_type reset_status ty m) ty = Some s" "c \<in> set (active_clients s)"
proof (cases "om_get m ty")
  case (Some s)
  have "status_shape s" using assms(1) Some by (auto simp: counts_ok_def list_all_iff intro!: status_ok_shape dest!: map_of_SomeD)
  then show ?thesis using that[of "reset_status s"] assms(2) Some by (simp add: at_type_def status_of_def active_clients_reset)
qed (use assms(2) in \<open>simp add: status_of_def active_clients_def DHStatus_default_def\<close>)

lemma DoRecover_tasks:
  assumes "counts_ok (sink_map w)" "counts_ok (source_map w)"
  shows "list_all (\<lambda>c. wanted (active_sink_param ty c) (added_tasks w (DoRecover C ty w)))
      (active_clients (status_of (sink_map w) ty))"
    and "list_all (\<lambda>c. wanted (active_source_param ty c) (added_tasks w (DoRecover C ty w)))
      (active_clients (status_of (source_map w) ty))"
proof -
  define w2 where "w2 = ResetSourceEnableStatus C ty True (ResetSinkEnableStatus C ty True w)"
  define w4 where "w4 = RecoverAutoEnableSource C ty (RecoverAutoEnableSink C ty w2)"
  define w5 where "w5 = RecoverActiveEnableSink C ty w4"
  have w6: "DoRecover C ty w = RecoverActiveEnableSource C ty w5"
    by (simp add: DoRecover_def Let_def w2_def w4_def w5_def)
  have p2: "fw_tasks w2 = fw_tasks w" unfolding w2_def by (rule tasks_core) (simp add: Reset_tasks)
  have p4: "prefix (fw_tasks w) (fw_tasks w4)"
    unfolding w4_def p2[symmetric] by (rule prefix_order.trans[OF RecoverAuto_prefix])
  note p5 = RecoverActive_prefix(1)[of w4 C ty, folded w5_def]
  note p6 = RecoverActive_prefix(2)[of w5 C ty, folded w6]
  have m: "sink_map w4 = at_type reset_status ty (sink_map w)" "source_map w5 = at_type reset_status ty (source_map w)"
    by (simp_all add: w5_def w4_def w2_def Reset_maps RecoverActive_maps)
  have "wanted (active_sink_param ty c) (added_tasks w (DoRecover C ty w))"
    if act: "c \<in> set (active_clients (status_of (sink_map w) ty))" for c
  proof -
    obtain s where "om_get (sink_map w4) ty = Some s" "c \<in> set (active_clients s)"
      using active_clients_status[OF assms(1) act] m(1) by metis
    then have "wanted (active_sink_param ty c) (added_tasks w4 w5)" unfolding w5_def by (rule RecoverActive_wanted(1))
    then show ?thesis by (rule added_mono[OF _ p4 p5 p6])
  qed
  then show "list_all (\<lambda>c. wanted (active_sink_param ty c) (added_tasks w (DoRecover C ty w)))
      (active_clients (status_of (sink_map w) ty))" by (simp add: list_all_iff)
  have "wanted (active_source_param ty c) (added_tasks w (DoRecover C ty w))"
    if act: "c \<in> set (active_clients (status_of (source_map w) ty))" for c
  proof -
    obtain s where "om_get (source_map w5) ty = Some s" "c \<in> set (active_clients s)"
      using active_clients_status[OF assms(2) act] m(2) by metis
    then have "wanted (active_source_param ty c) (added_tasks w5 (DoRecover C ty w))"
      unfolding w6 by (rule RecoverActive_wanted(2))
    then show ?thesis by (rule added_mono[OF _ prefix_order.trans[OF p4 p5] p6 prefix_order.refl])
  qed
  then show "list_all (\<lambda>c. wanted (active_source_param ty c) (added_tasks w (DoRecover C ty w)))
      (active_clients (status_of (source_map w) ty))" by (simp add: list_all_iff)
qed

text \<open>
  C4: after the recovery of a component no client has any of its hardware enabled and its load counts are
  zero on both sides, no other component has changed, and for every client with an identity that had
  hardware enabled a task has been created that enables exactly this hardware for this client again.
\<close>

theorem recovery_restores_clients:
  assumes "fwk_reach C s"
  shows "let w = fst s; w' = DoRecover C ty w in
    (\<forall>c. \<not> client_enabled (sink_status ty w') c) \<and> (\<forall>c. \<not> client_enabled (source_status ty w') c)
    \<and> refLoad (sink_status ty w') = 0 \<and> refLoad (source_status ty w') = 0
    \<and> (\<forall>t. t \<noteq> ty \<longrightarrow> sink_status t w' = sink_status t w \<and> source_status t w' = source_status t w)
    \<and> list_all (\<lambda>c. wanted (active_sink_param ty c) (added_tasks w w')) (active_clients (sink_status ty w))
    \<and> list_all (\<lambda>c. wanted (active_source_param ty c) (added_tasks w w')) (active_clients (source_status ty w))"
proof -
  let ?w = "fst s"
  have ok: "counts_ok (sink_map ?w)" "counts_ok (source_map ?w)"
    using fwk_okD(1)[OF fwk_reach_ok[OF assms]] by (simp_all add: refs_ok_maps)
  have m: "sink_status t w = status_of (sink_map w) t" "source_status t w = status_of (source_map w) t" for t w
    by (simp_all add: sink_status_def source_status_def sink_map_def source_map_def)
  show ?thesis unfolding Let_def m DoRecover_maps
    by (intro conjI allI impI) (simp_all add: recovered_status ok DoRecover_tasks)
qed

text \<open>
  the reset alone, the first step of the recovery, leaves counts that no longer match the clients
  exactly when a client with an identity had hardware of the component enabled.
\<close>

theorem reset_breaks_counts:
  assumes "fwk_reach C s" "om_get (cm_dhSinkStatus (fw_cm (fst s))) ty = Some old"
  shows "refLoad (sink_status ty (ResetSinkEnableStatus C ty keep (fst s)))
      = int (card {c. client_enabled (sink_status ty (ResetSinkEnableStatus C ty keep (fst s))) c})
    \<longleftrightarrow> active_clients old = []"
proof -
  let ?s = "sink_status ty (ResetSinkEnableStatus C ty keep (fst s))"
  have ok: "status_ok old"
    using refs_ok_status(1)[OF fwk_okD(1)[OF fwk_reach_ok[OF assms(1)]], of ty] assms(2)
    by (simp add: sink_status_def status_of_def)
  have r: "?s = reset_status old"
    using Reset_maps(1)[of C ty keep "fst s"] assms(2) by (simp add: sink_status_def sink_map_def at_type_def status_of_def)
  have "{c. client_enabled (reset_status old) c} \<subseteq> {c. client_enabled old c}" by (auto simp: client_enabled_reset)
  then have f: "finite {c. client_enabled (reset_status old) c}"
    using set_enabled_clients[OF ok] by (metis finite_set finite_subset)
  have "{c. client_enabled (reset_status old) c} = set (active_clients old)"
    by (auto simp: active_clients_iff[OF status_ok_shape[OF ok]] client_enabled_reset)
  moreover have "refLoad (reset_status old) = 0" by (simp add: reset_status_def)
  ultimately show ?thesis using f by (simp add: r)
qed

definition demo_old :: DHSinkStatus where
  "demo_old = sink_status DHType_CAMERA (fst demo_enabled)"

lemma demo_old: "om_get (cm_dhSinkStatus (fw_cm (fst demo_enabled))) DHType_CAMERA = Some demo_old"
  and demo_old_active: "active_clients demo_old = [(''Camera_1'', DHStatusCtrlKey 1 2)]"
proof -
  have "om_get (cm_dhSinkStatus (fw_cm (fst demo_enabled))) DHType_CAMERA \<noteq> None" by code_simp
  then show "om_get (cm_dhSinkStatus (fw_cm (fst demo_enabled))) DHType_CAMERA = Some demo_old"
    by (auto simp: demo_old_def sink_status_def status_of_def)
  show "active_clients demo_old = [(''Camera_1'', DHStatusCtrlKey 1 2)]" by code_simp
qed

theorem recovery_restores_clients_witness:
  "wanted (active_sink_param DHType_CAMERA (''Camera_1'', DHStatusCtrlKey 1 2))
     (added_tasks (fst demo_enabled) (DoRecover demo DHType_CAMERA (fst demo_enabled)))"
  using recovery_restores_clients[OF demo_enabled_reach, of DHType_CAMERA] demo_old_active
  by (simp add: Let_def demo_old_def)

theorem reset_breaks_counts_witness:
  "refLoad (sink_status DHType_CAMERA (ResetSinkEnableStatus demo DHType_CAMERA True (fst demo_enabled)))
    \<noteq> int (card {c. client_enabled (sink_status DHType_CAMERA
         (ResetSinkEnableStatus demo DHType_CAMERA True (fst demo_enabled))) c})"
  using reset_breaks_counts[OF demo_enabled_reach demo_old, of True] demo_old_active by simp

end
