(* ===== verification/Retry_Properties.thy ===== *)
theory Retry_Properties
  imports Created_Tasks
begin

text \<open>
  The retries around the registration of hardware with its handler, and the requests of the component
  manager that wait for an answer: how many calls are made, what answers are possible, and which
  callbacks run.
\<close>

section \<open>Reading the parameters\<close>

lemma loop_answers:
  "RetryGetEnableParam_loop C n nw u i ty p w = (r, p', w') \<Longrightarrow> r \<noteq> DH_FWK_SUCCESS \<Longrightarrow>
     r = ERR_DH_FWK_COMPONENT_ENABLE_FAILED \<and> \<not> IsDeviceOnline u (fw_ctx w')"
  by (induction n arbitrary: p w) (auto split: if_splits prod.splits)

text \<open>
  the retry of reading the enable parameters reports an error only when an identifier is invalid,
  then without any attempt, or when the device is no longer online; for a device that stays online it
  reports success even if all three attempts have failed.
\<close>

theorem param_retry_answers:
  assumes "RetryGetEnableParam C nw u i ty p w = (r, p', w')" "r \<noteq> DH_FWK_SUCCESS"
  shows "(if IsIdLengthValid nw \<and> IsIdLengthValid u \<and> IsIdLengthValid i
    then r = ERR_DH_FWK_COMPONENT_ENABLE_FAILED \<and> \<not> IsDeviceOnline u (fw_ctx w')
    else r = ERR_DH_FWK_PARA_INVALID \<and> p' = p \<and> w' = w)"
  using assms loop_answers[of C ENABLE_RETRY_MAX_TIMES nw u i ty p w r p' w']
  by (auto simp: RetryGetEnableParam_def split: if_splits)

theorem param_retry_answers_witness:
  "\<not> IsDeviceOnline ''u'' (fw_ctx (snd (snd (RetryGetEnableParam demo ''n'' ''u'' ''i'' DHType_CAMERA EnableParam_default demo_init))))"
proof -
  have r: "fst (RetryGetEnableParam demo ''n'' ''u'' ''i'' DHType_CAMERA EnableParam_default demo_init)
      = ERR_DH_FWK_COMPONENT_ENABLE_FAILED" by code_simp
  obtain r p' w' where E: "RetryGetEnableParam demo ''n'' ''u'' ''i'' DHType_CAMERA EnableParam_default demo_init = (r, p', w')"
    by (rule prod_cases3)
  then show ?thesis using r param_retry_answers[OF E] by (simp add: ERR_DH_FWK_COMPONENT_ENABLE_FAILED_def IsIdLengthValid_def)
qed

section \<open>The calls of a registration\<close>

definition is_reg :: "string \<Rightarrow> string \<Rightarrow> ecall \<Rightarrow> bool" where
  "is_reg n i e = (case e of EC_RegisterDistributedHardware n' i' _ \<Rightarrow> n' = n \<and> i' = i | _ \<Rightarrow> False)"

definition regs :: "string \<Rightarrow> string \<Rightarrow> 's fwk \<Rightarrow> nat" where
  "regs n i w = length (filter (is_reg n i) (fw_trace w))"

named_theorems trace_rules "operations that call nothing outside"

lemma GetDataByKey_trace [trace_rules]: "DB_GetDataByKey C d k v w = (r, x, w1) \<Longrightarrow> fw_trace w1 = fw_trace w"
  by (auto simp: DB_GetDataByKey_def sync_on_miss_def SyncByNotFound_def GetNetworkIdByKey_def Let_def
      split: prod.splits if_splits)

lemma GetVersionInfo_trace [trace_rules]: "GetVersionInfoByDeviceId C d v w = (r, x, w1) \<Longrightarrow> fw_trace w1 = fw_trace w"
  by (auto simp: GetVersionInfoByDeviceId_def dest!: trace_rules split: prod.splits if_splits option.splits)

lemma GetVersion_trace [trace_rules]: "GetVersion C u ty v b w = (r, x, w1) \<Longrightarrow> fw_trace w1 = fw_trace w"
  by (auto simp: GetVersion_def GetVersionFromVerInfoMgr_def CM_UpdateVersionCache_def dest!: trace_rules
      split: prod.splits if_splits option.splits)

lemma GetEnableCapParam_trace [trace_rules]: "GetEnableCapParam C n u ty p c w = (r, x, w1) \<Longrightarrow> fw_trace w1 = fw_trace w"
  by (auto simp: GetEnableCapParam_def Let_def dest!: trace_rules split: prod.splits if_splits option.splits)

lemma GetEnableMetaParam_trace [trace_rules]: "GetEnableMetaParam C n u ty p m w = (r, x, w1) \<Longrightarrow> fw_trace w1 = fw_trace w"
  by (auto simp: GetEnableMetaParam_def Let_def dest!: trace_rules split: prod.splits if_splits)

lemma GetEnableParam_meta_trace [trace_rules]: "GetEnableParam_meta C n u i ty p w = (r, x, w1) \<Longrightarrow> fw_trace w1 = fw_trace w"
  by (auto simp: GetEnableParam_meta_def dest!: trace_rules split: prod.splits if_splits option.splits)

lemma GetEnableParam_trace [trace_rules]: "GetEnableParam C n u i ty p w = (r, x, w1) \<Longrightarrow> fw_trace w1 = fw_trace w"
  by (auto simp: GetEnableParam_def dest!: trace_rules split: prod.splits if_splits option.splits)

lemma RetryLoop_trace [trace_rules]:
  "RetryGetEnableParam_loop C k n u i ty p w = (r, x, w1) \<Longrightarrow> fw_trace w1 = fw_trace w"
  by (induction k arbitrary: p w) (auto dest!: trace_rules split: if_splits prod.splits)

lemma RetryGetEnableParam_trace [trace_rules]:
  "RetryGetEnableParam C n u i ty p w = (r, x, w1) \<Longrightarrow> fw_trace w1 = fw_trace w"
  unfolding RetryGetEnableParam_def by (auto dest!: RetryLoop_trace split: if_splits)

lemma ComponentEnable_regs: "ComponentEnable_Enable C n i p h c s w = (r, s', w1) \<Longrightarrow>
    regs n i w \<le> regs n i w1 \<and> regs n i w1 \<le> regs n i w + 1 \<and> (r = DH_FWK_SUCCESS \<longrightarrow> regs n i w1 = regs n i w + 1)"
  by (auto simp: ComponentEnable_Enable_def call_cb_def call_ret_def Let_def regs_def is_reg_def
      ERR_DH_FWK_COMPONENT_ENABLE_FAILED_def ERR_DH_FWK_COMPONENT_REGISTER_FAILED_def
      ERR_DH_FWK_COMPONENT_CONFIG_FAILED_def ERR_DH_FWK_COMPONENT_ENABLE_TIMEOUT_def split: prod.splits if_splits)

definition listed :: "string \<Rightarrow> string \<Rightarrow> 's fwk \<Rightarrow> bool" where
  "listed n i w = om_has (fw_enabledComps w) (n, i)"

lemma Dump_regs [simp]: "regs n i (DumpEnabledComp n ty i w) = regs n i w" "listed n i (DumpEnabledComp n ty i w)"
  by (simp_all add: DumpEnabledComp_def regs_def listed_def)

lemma Enable_retry_regs:
  "Enable_retry C k n u i ty p h c r0 st w = (r, w') \<Longrightarrow> r0 \<noteq> DH_FWK_SUCCESS \<Longrightarrow>
     regs n i w' \<le> regs n i w + k \<and> (r = DH_FWK_SUCCESS \<longrightarrow> regs n i w < regs n i w' \<and> listed n i w')"
proof (induction k arbitrary: st w)
  case (Suc k)
  obtain r1 st1 w1 where E: "ComponentEnable_Enable C n i p h c st w = (r1, st1, w1)" by (rule prod_cases3)
  note e = ComponentEnable_regs[OF E]
  show ?case
  proof (cases "IsDeviceOnline u (fw_ctx w) \<and> r1 \<noteq> DH_FWK_SUCCESS")
    case True
    then have "Enable_retry C k n u i ty p h c r0 st1 w1 = (r, w')" using Suc.prems(1) E by simp
    from Suc.IH[OF this Suc.prems(2)] e show ?thesis by auto
  next
    case False
    then show ?thesis using Suc.prems E e by (auto split: if_splits)
  qed
qed simp

lemma regs_trace: "fw_trace w1 = fw_trace w \<Longrightarrow> regs n i w1 = regs n i w"
  by (simp add: regs_def)

lemma Enable_with_regs:
  assumes "Enable_with C n u i ty act c h p w = (r, w')"
  shows "regs n i w' \<le> regs n i w + 4 \<and> (r = DH_FWK_SUCCESS \<longrightarrow> regs n i w < regs n i w' \<and> listed n i w')"
proof -
  define q where "q = AddTokenIdToSinkAttrs (c_J C) c p"
  define chk where "chk = (if \<not> act then CheckSubtypeResource C (ep_subtype p) n else DH_FWK_SUCCESS)"
  obtain r1 st1 w1 where E: "ComponentEnable_Enable C n i q h c ComponentEnable_new w = (r1, st1, w1)" by (rule prod_cases3)
  note e = ComponentEnable_regs[OF E]
  have U: "(r, w') = (if chk \<noteq> DH_FWK_SUCCESS then (chk, w)
      else if r1 \<noteq> DH_FWK_SUCCESS then Enable_retry C ENABLE_RETRY_MAX_TIMES n u i ty q h c r1 st1 w1
      else (r1, DumpEnabledComp n ty i w1))"
    unfolding assms[symmetric] Enable_with_def chk_def[symmetric] q_def[symmetric] Let_def by (simp add: E)
  show ?thesis
  proof (cases "chk = DH_FWK_SUCCESS \<and> r1 \<noteq> DH_FWK_SUCCESS")
    case True
    then have "Enable_retry C ENABLE_RETRY_MAX_TIMES n u i ty q h c r1 st1 w1 = (r, w')" using U by simp
    from Enable_retry_regs[OF this] True e show ?thesis by auto
  qed (use U e in \<open>auto split: if_splits\<close>)
qed

text \<open>
  C23: one enable of remote hardware asks its handler to register this hardware at most four times, once
  and then up to three retries; and it answers success only if the handler was asked, and then the
  hardware is in the table of enabled hardware.
\<close>

theorem enable_attempts_bounded:
  assumes "Enable C n u i ty act c w = (r, w')"
  shows "regs n i w' \<le> regs n i w + 4 \<and> (r = DH_FWK_SUCCESS \<longrightarrow> regs n i w < regs n i w' \<and> listed n i w')"
proof -
  obtain r1 p1 w1 where G: "GetEnableParam C n u i ty EnableParam_default w = (r1, p1, w1)" by (rule prod_cases3)
  obtain r2 p2 w2 where R: "RetryGetEnableParam C n u i ty p1 w1 = (r2, p2, w2)" by (rule prod_cases3)
  note t = regs_trace[OF GetEnableParam_trace[OF G], of n i] regs_trace[OF RetryGetEnableParam_trace[OF R], of n i]
  show ?thesis using assms t
    by (auto simp: Enable_def G R ERR_DH_FWK_PARA_INVALID_def dest!: Enable_with_regs split: if_splits option.splits)
qed

text \<open>A state in which the camera of a peer can be enabled: handler, capability and versions are there.\<close>

definition demo_remote :: "demo_store fwk" where
  "demo_remote =
    (let dev = GetDeviceIdByUUID (pf_digest demo_P) ''uuidA'';
         cap = CapabilityInfo_default\<lparr>ci_deviceId := dev, ci_dhId := ''Camera_1'', ci_dhType := DHType_CAMERA\<rparr>;
         cv = CompVersion_default\<lparr>cv_sinkVersion := ''1'', cv_sourceVersion := ''1''\<rparr>;
         v = \<lparr>dv_uuid = [], dv_dhVersion = [], dv_compVersions = [(DHType_CAMERA, cv)]\<rparr>
     in demo_init\<lparr>fw_cm := (fw_cm demo_init)\<lparr>cm_compSource := [(DHType_CAMERA, Some 0)]\<rparr>,
          fw_cap := (fw_cap demo_init)\<lparr>cim_globalCapInfoMap := [(GetCapabilityKey dev ''Camera_1'', cap)]\<rparr>,
          fw_dhVersions := [(''uuidA'', v), (''uuidme'', v)]\<rparr>)"

theorem enable_attempts_bounded_witness:
  "regs ''netA'' ''Camera_1'' demo_remote
     < regs ''netA'' ''Camera_1'' (snd (Enable demo ''netA'' ''uuidA'' ''Camera_1'' DHType_CAMERA True [] demo_remote))"
proof -
  have "fst (Enable demo ''netA'' ''uuidA'' ''Camera_1'' DHType_CAMERA True [] demo_remote) = DH_FWK_SUCCESS" by code_simp
  then show ?thesis
    using enable_attempts_bounded[OF prod.collapse[symmetric],
        where C = demo and n = "''netA''" and u = "''uuidA''" and i = "''Camera_1''" and ty = DHType_CAMERA and act = True
          and c = "[]" and w = demo_remote] by simp
qed

text \<open>
  when the handler accepts a registration but no result arrives in time, the answer is decided by the
  result an earlier attempt left behind: only if there was none is it a timeout, else the old result is
  reported as if it were new, success included.
\<close>

theorem stale_result_decides:
  assumes "IsIdLengthValid n" "IsIdLengthValid i" "h \<noteq> None"
    and "call_cb C (EC_RegisterDistributedHardware n i p) w = (DH_FWK_SUCCESS, [], w1)"
  shows "ComponentEnable_Enable C n i p h [] st w =
    ((if st = INT32_MAX then ERR_DH_FWK_COMPONENT_ENABLE_TIMEOUT
      else if st = DH_FWK_SUCCESS then DH_FWK_SUCCESS else ERR_DH_FWK_COMPONENT_ENABLE_FAILED), st, w1)"
  using assms by (simp add: ComponentEnable_Enable_def)

definition silent :: "(demo_store, unit) config" where
  "silent = demo\<lparr>c_E := demo_E\<lparr>e_cbs := \<lambda>_ _. []\<rparr>\<rparr>"

theorem stale_result_decides_witness:
  "fst (ComponentEnable_Enable silent ''n'' ''i'' EnableParam_default (Some 0) [] 5 demo_init) = ERR_DH_FWK_COMPONENT_ENABLE_FAILED"
proof -
  have "call_cb silent (EC_RegisterDistributedHardware ''n'' ''i'' EnableParam_default) demo_init
      = (DH_FWK_SUCCESS, [], snd (snd (call_cb silent (EC_RegisterDistributedHardware ''n'' ''i'' EnableParam_default) demo_init)))"
    by (simp add: call_cb_def silent_def demo_E_def)
  from stale_result_decides[OF _ _ _ this] show ?thesis by (simp add: IsIdLengthValid_def)
qed

section \<open>Waiting for a component\<close>

text \<open>
  The wait for the components to start or stop succeeds exactly when no component has come back with an
  error, so one that has not come back at all counts as a success; the mark that makes the release end the
  process is set exactly when this happens while components are being stopped.
\<close>

theorem wait_ignores_timeouts:
  "fst (WaitForResult a rs w) = list_all (\<lambda>(ty, f). case f of FutReady r \<Rightarrow> r = DH_FWK_SUCCESS | _ \<Rightarrow> True) rs
   \<and> (cm_isUnInitTimeOut (fw_cm (snd (WaitForResult a rs w))) \<longleftrightarrow>
        cm_isUnInitTimeOut (fw_cm w) \<or> (a = STOP_SOURCE \<or> a = STOP_SINK) \<and> list_ex (\<lambda>(ty, f). f = FutTimeout) rs)"
proof (induction a rs w rule: WaitForResult.induct)
  case (2 a ty f rs w)
  then show ?case by (cases f) (auto simp: Let_def split_beta upd_cm_def)
qed simp

section \<open>Requests for the descriptors of a device\<close>

definition answers :: "string \<Rightarrow> 's fwk \<Rightarrow> ecall list" where
  "answers n w = filter (\<lambda>e. case e of EC_OnGetDescriptors _ n' _ \<Rightarrow> n' = n | _ \<Rightarrow> False) (fw_trace w)"

definition ask :: "string \<Rightarrow> EnableStep \<Rightarrow> nat list \<Rightarrow> 's fwk \<Rightarrow> 's fwk" where
  "ask n st cs w = fold (\<lambda>c. SyncRemoteDeviceInfoBySoftbus n st (Some c)) cs w"

definition pending :: "string \<Rightarrow> 's fwk \<Rightarrow> (EnableStep \<times> nat option list) option" where
  "pending n w = om_get (cm_syncDeviceInfoMap (fw_cm w)) n"

lemma pending_upd [simp]:
  "pending n (call_void e w) = pending n w"
  "pending n (upd_cm (\<lambda>m. m\<lparr>cm_syncDeviceInfoMap := f (cm_syncDeviceInfoMap m)\<rparr>) w) = om_get (f (cm_syncDeviceInfoMap (fw_cm w))) n"
  "answers n (upd_cm g w) = answers n w"
  by (simp_all add: pending_def call_void_def upd_cm_def answers_def)

lemma ask_more:
  "pending n w = Some (st0, bs) \<Longrightarrow> pending n (ask n st cs w) = Some (st0, bs @ map Some cs) \<and> answers n (ask n st cs w) = answers n w"
proof (induction cs arbitrary: w bs)
  case (Cons c cs)
  let ?w1 = "SyncRemoteDeviceInfoBySoftbus n st (Some c) w"
  have w1: "pending n ?w1 = Some (st0, bs @ [Some c])" "answers n ?w1 = answers n w"
    using Cons.prems by (simp_all add: SyncRemoteDeviceInfoBySoftbus_def pending_def upd_cm_def answers_def)
  show ?case using Cons.IH[OF w1(1)] w1(2) by (simp add: ask_def)
qed (simp add: ask_def)

lemma ask_first:
  assumes "pending n w = None" "cm_eventHandler (fw_cm w)"
  shows "pending n (ask n st (c # cs) w) = Some (st, map Some (c # cs)) \<and> answers n (ask n st (c # cs) w) = answers n w"
proof -
  let ?w1 = "SyncRemoteDeviceInfoBySoftbus n st (Some c) w"
  have w1: "pending n ?w1 = Some (st, [Some c])" "answers n ?w1 = answers n w"
    using assms by (simp_all add: SyncRemoteDeviceInfoBySoftbus_def pending_def upd_cm_def answers_def call_void_def Let_def)
  show ?thesis using ask_more[OF w1(1), of st cs] w1(2) by (simp add: ask_def)
qed

lemma notify_answers:
  "answers n (notify_callbacks n r (map Some cs) w) = map (\<lambda>c. EC_OnGetDescriptors c n r) (rev cs) @ answers n w
   \<and> fw_cm (notify_callbacks n r (map Some cs) w) = fw_cm w"
  by (induction cs arbitrary: w) (simp_all add: notify_callbacks_def call_void_def answers_def)

text \<open>
  C24: callers that ask for the descriptors of a device while no request for it is open are collected in
  one request; the first answer, the descriptors or the timeout, calls each of them exactly once, in the
  order they asked, closes the request, and every later answer or timeout changes nothing.
\<close>

theorem sync_request_answered_once:
  assumes "\<not> IsRequestSyncData n w" "cm_eventHandler (fw_cm w)" "cs \<noteq> []" "ds \<noteq> []"
  shows "let w1 = ask n st cs w; got = OnGetDescriptors n ds w1; late = HandleSyncDataTimeout n w1 in
    answers n w1 = answers n w
    \<and> answers n got = map (\<lambda>c. EC_OnGetDescriptors c n (Inr (ds, st))) (rev cs) @ answers n w
    \<and> answers n late = map (\<lambda>c. EC_OnGetDescriptors c n (Inl ERR_DH_FWK_GETDISTRIBUTEDHARDWARE_TIMEOUT)) (rev cs) @ answers n w
    \<and> \<not> IsRequestSyncData n got \<and> \<not> IsRequestSyncData n late
    \<and> OnGetDescriptors n ds got = got \<and> HandleSyncDataTimeout n got = got
    \<and> OnGetDescriptors n ds late = late \<and> HandleSyncDataTimeout n late = late"
proof -
  obtain c cs' where cs: "cs = c # cs'" using assms(3) by (cases cs) auto
  have r: "IsRequestSyncData n w' \<longleftrightarrow> pending n w' \<noteq> None" for w' :: "'a fwk"
    by (simp add: IsRequestSyncData_def pending_def)
  have again: "OnGetDescriptors n ds w' = w'" "HandleSyncDataTimeout n w' = w'" if "pending n w' = None" for w' :: "'a fwk"
    using that by (simp_all add: OnGetDescriptors_def HandleSyncDataTimeout_def pending_def)
  let ?w1 = "ask n st cs w"
  have "pending n w = None" using assms(1) r[of w] by (cases "pending n w") auto
  then have p: "pending n ?w1 = Some (st, map Some cs)" "answers n ?w1 = answers n w"
    using ask_first[of n w st c cs'] assms(2) cs by auto
  note N = notify_answers[of n _ cs ?w1]
  have e: "answers n (call_void (EC_Event a b) w') = answers n w'" for a b and w' :: "'a fwk"
    by (simp add: answers_def call_void_def)
  have g: "pending n (OnGetDescriptors n ds ?w1) = None" "pending n (HandleSyncDataTimeout n ?w1) = None"
    "answers n (OnGetDescriptors n ds ?w1) = map (\<lambda>c. EC_OnGetDescriptors c n (Inr (ds, st))) (rev cs) @ answers n w"
    "answers n (HandleSyncDataTimeout n ?w1)
      = map (\<lambda>c. EC_OnGetDescriptors c n (Inl ERR_DH_FWK_GETDISTRIBUTEDHARDWARE_TIMEOUT)) (rev cs) @ answers n w"
    using p(1)[unfolded pending_def] N p(2) assms(4)
    by (simp_all add: OnGetDescriptors_def HandleSyncDataTimeout_def Let_def e)
  show ?thesis using p(2) g again by (simp add: Let_def r)
qed

theorem sync_request_answered_once_witness:
  "answers ''n'' (OnGetDescriptors ''n'' [demo_camera] (ask ''n'' ES_ENABLE_SINK [1, 2]
      (demo_init\<lparr>fw_cm := (fw_cm demo_init)\<lparr>cm_eventHandler := True\<rparr>\<rparr>)))
    = map (\<lambda>c. EC_OnGetDescriptors c ''n'' (Inr ([demo_camera], ES_ENABLE_SINK))) [2, 1]"
proof -
  let ?w = "demo_init\<lparr>fw_cm := (fw_cm demo_init)\<lparr>cm_eventHandler := True\<rparr>\<rparr>"
  have "\<not> IsRequestSyncData ''n'' ?w" "cm_eventHandler (fw_cm ?w)" "answers ''n'' ?w = []"
    by (simp_all add: demo_init_def fwk_init_def IsRequestSyncData_def ComponentManager_init_def answers_def)
  then show ?thesis using sync_request_answered_once[of "''n''" ?w "[1, 2]" "[demo_camera]" ES_ENABLE_SINK] by (simp add: Let_def)
qed

end
