(* ===== verification/Table_Properties.thy ===== *)
theory Table_Properties
  imports Created_Tasks
begin

text \<open>
  The tables of the component manager and the version manager: what a reader finds after an entry has
  been added, replaced or removed.
\<close>

text \<open>
  An access listener that was added is the one the same type and package name lead to, replacing an
  older one, and no other entry changes; a removal that succeeds takes exactly this entry away, and a
  removal that fails, as of a listener that is not there, leaves every entry.
\<close>

theorem access_listener_roundtrip:
  assumes "AddAccessListener C ty pkg (Some cb) w = (DH_FWK_SUCCESS, w1)" "RemoveAccessListener C ty pkg w1 = (r, w2)"
  shows "GetAccessListener ty pkg w1 = Some cb
    \<and> (r = DH_FWK_SUCCESS \<longleftrightarrow> GetAccessListener ty pkg w2 = None)
    \<and> (\<forall>ty' pkg'. (ty', pkg') \<noteq> (ty, pkg) \<longrightarrow>
         GetAccessListener ty' pkg' w1 = GetAccessListener ty' pkg' w \<and> GetAccessListener ty' pkg' w2 = GetAccessListener ty' pkg' w)"
proof -
  have "pkg \<noteq> []" using assms(1) by (auto simp: AddAccessListener_def ERR_DH_FWK_PARA_INVALID_def)
  moreover have m1: "cm_accessListenerMap (fw_cm w1) = om_put (ty, pkg) cb (cm_accessListenerMap (fw_cm w))"
    using assms(1)
    by (auto simp: AddAccessListener_def Let_def call_ret_def upd_cm_def ERR_DH_FWK_PARA_INVALID_def
        ERR_DH_FWK_POINTER_IS_NULL_def split: if_splits option.splits)
  moreover have "cm_accessListenerMap (fw_cm w2) = (if r = DH_FWK_SUCCESS
      then om_del (ty, pkg) (cm_accessListenerMap (fw_cm w1)) else cm_accessListenerMap (fw_cm w1))"
    using assms(2)
    by (auto simp: RemoveAccessListener_def Let_def call_ret_def upd_cm_def ERR_DH_FWK_PARA_INVALID_def
        ERR_DH_FWK_POINTER_IS_NULL_def split: if_splits option.splits)
  ultimately show ?thesis by (auto simp: GetAccessListener_def)
qed

definition demo_sink :: "demo_store fwk" where
  "demo_sink = demo_init\<lparr>fw_cm := (fw_cm demo_init)\<lparr>cm_compSink := [(DHType_CAMERA, Some 0)]\<rparr>\<rparr>"

theorem access_listener_roundtrip_witness:
  "GetAccessListener DHType_CAMERA ''p'' (snd (AddAccessListener demo DHType_CAMERA ''p'' (Some 3) demo_sink)) = Some 3"
proof -
  have "AddAccessListener demo DHType_CAMERA ''p'' (Some 3) demo_sink
      = (DH_FWK_SUCCESS, snd (AddAccessListener demo DHType_CAMERA ''p'' (Some 3) demo_sink))"
    by (simp add: AddAccessListener_def demo_sink_def call_ret_def demo_def demo_E_def)
  from access_listener_roundtrip[OF this prod.collapse[symmetric]] show ?thesis by simp
qed

text \<open>
  After the versions of a device have been added, the version of each of its components is the added
  one, for a component that is not listed the answer is that the type does not exist, other devices keep
  theirs, and after the removal the device is unknown again; an identifier of invalid length changes and
  finds nothing.
\<close>

theorem version_table_roundtrip:
  "let m1 = snd (AddDHVersion uuid v m); m2 = snd (RemoveDHVersion uuid m1) in
   (if IsIdLengthValid uuid
    then GetCompVersion uuid ty m1 cv = (case om_get (dv_compVersions v) ty of
             None \<Rightarrow> (ERR_DH_FWK_TYPE_NOT_EXIST, cv) | Some c \<Rightarrow> (DH_FWK_SUCCESS, c))
       \<and> GetCompVersion uuid ty m2 cv = (ERR_DH_FWK_VERSION_DEVICE_ID_NOT_EXIST, cv)
    else m1 = m \<and> m2 = m \<and> GetCompVersion uuid ty m cv = (ERR_DH_FWK_PARA_INVALID, cv))
   \<and> (uuid' = uuid \<or> GetCompVersion uuid' ty m1 cv = GetCompVersion uuid' ty m cv
        \<and> GetCompVersion uuid' ty m2 cv = GetCompVersion uuid' ty m cv)"
  by (auto simp: AddDHVersion_def RemoveDHVersion_def GetCompVersion_def GetDHVersion_def Let_def
      split: option.split)

text \<open>
  A task that is kept to be repeated when the business of its hardware becomes idle is handed out
  once: it is the last one kept for the network id and hardware id, and a second fetch finds nothing.
\<close>

theorem refresh_task_once:
  "let w1 = SaveNeedRefreshTask tp w; (got, w2) = FetchNeedRefreshTask (tp_networkId tp, tp_dhId tp) w1 in
   got = Some tp \<and> fst (FetchNeedRefreshTask (tp_networkId tp, tp_dhId tp) w2) = None
   \<and> (k = (tp_networkId tp, tp_dhId tp) \<or> fst (FetchNeedRefreshTask k w2) = fst (FetchNeedRefreshTask k w))"
  by (auto simp: SaveNeedRefreshTask_def FetchNeedRefreshTask_def upd_cm_def Let_def split: option.split)

end
