(* ===== verification/Low_Latency.thy ===== *)
theory Low_Latency
  imports Publisher
begin

text \<open>
  The low latency switch (\<open>lowlatency/low_latency.cpp\<close>, \<open>low_latency_timer.cpp\<close>,
  \<open>low_latency_listener.cpp\<close>) and the timer it uses (\<open>utils/dh_timer.cpp\<close>).

  First the operations one after the other; then the timer with its two threads, the caller of its
  operations and the thread of its event runner, which share a mutex.
\<close>

section \<open>The timer\<close>

text \<open>
  \<open>eventHandler_\<close>, whether its thread can be joined, and the tasks posted to the handler under the id of
  the timer that have not run yet.  The reports to the resource scheduler are the modes, the last first.
\<close>

datatype TimerTask = Timer_Execute | Timer_ExecuteInner

record DHTimer =
  dt_eventHandler :: bool
  dt_thread :: bool
  dt_posted :: "TimerTask list"
  dt_reports :: "int list"

definition MODE_ENABLE :: int where [simp]: "MODE_ENABLE = 0"
definition MODE_DISABLE :: int where [simp]: "MODE_DISABLE = 1"

definition DHTimer_new :: DHTimer where
  "DHTimer_new = \<lparr>dt_eventHandler = False, dt_thread = False, dt_posted = [], dt_reports = []\<rparr>"

text \<open>\<open>InitTimer\<close> waits until the thread it has started has made the handler.\<close>

definition InitTimer :: "DHTimer \<Rightarrow> DHTimer" where
  "InitTimer t = (if \<not> dt_eventHandler t then t\<lparr>dt_thread := True, dt_eventHandler := True\<rparr> else t)"

definition ReleaseTimer :: "DHTimer \<Rightarrow> DHTimer" where
  "ReleaseTimer t =
    (let t1 = (if dt_eventHandler t then t\<lparr>dt_posted := []\<rparr> else t)
     in t1\<lparr>dt_thread := False, dt_eventHandler := False\<rparr>)"

definition StartTimer :: "DHTimer \<Rightarrow> DHTimer" where
  "StartTimer t =
    (let t1 = InitTimer t in
     if \<not> dt_eventHandler t1 then t1 else t1\<lparr>dt_posted := dt_posted t1 @ [Timer_Execute]\<rparr>)"

definition HandleStopTimer :: "DHTimer \<Rightarrow> DHTimer" where
  "HandleStopTimer t = t\<lparr>dt_reports := MODE_DISABLE # dt_reports t\<rparr>"

definition StopTimer :: "DHTimer \<Rightarrow> DHTimer" where
  "StopTimer t = HandleStopTimer (ReleaseTimer t)"

definition Timer_Execute_body :: "DHTimer \<Rightarrow> DHTimer" where
  "Timer_Execute_body t =
    (if \<not> dt_eventHandler t then t else t\<lparr>dt_posted := dt_posted t @ [Timer_ExecuteInner]\<rparr>)"

definition ExecuteInner :: "DHTimer \<Rightarrow> DHTimer" where
  "ExecuteInner t = t\<lparr>dt_reports := MODE_ENABLE # dt_reports t\<rparr>"

text \<open>The event runner takes the first task that is due and runs it.\<close>

definition Timer_fire :: "DHTimer \<Rightarrow> DHTimer" where
  "Timer_fire t =
    (case dt_posted t of
       [] \<Rightarrow> t
     | Timer_Execute # rest \<Rightarrow> Timer_Execute_body (t\<lparr>dt_posted := rest\<rparr>)
     | Timer_ExecuteInner # rest \<Rightarrow> ExecuteInner (t\<lparr>dt_posted := rest\<rparr>))"

section \<open>The switch\<close>

definition MAX_SWITCH_SIZE :: nat where [simp]: "MAX_SWITCH_SIZE = 256"

record LowLatency =
  ll_switchSet :: "DHType list"
  ll_timer :: DHTimer

definition LowLatency_new :: LowLatency where
  "LowLatency_new = \<lparr>ll_switchSet = [], ll_timer = DHTimer_new\<rparr>"

definition dhType_valid :: "DHType \<Rightarrow> bool" where
  "dhType_valid ty = (\<not> (ty \<le> DHType_UNKNOWN \<or> DHType_MAX_DH \<le> ty))"

definition EnableLowLatency :: "DHType \<Rightarrow> LowLatency \<Rightarrow> LowLatency" where
  "EnableLowLatency ty s =
    (if ty \<le> DHType_UNKNOWN \<or> DHType_MAX_DH \<le> ty then s
     else
       let s1 = (if ll_switchSet s = [] then s\<lparr>ll_timer := StartTimer (ll_timer s)\<rparr> else s)
       in if MAX_SWITCH_SIZE \<le> length (ll_switchSet s1) then s1
          else s1\<lparr>ll_switchSet := os_ins ty (ll_switchSet s1)\<rparr>)"

definition DisableLowLatency :: "DHType \<Rightarrow> LowLatency \<Rightarrow> LowLatency" where
  "DisableLowLatency ty s =
    (if ty \<le> DHType_UNKNOWN \<or> DHType_MAX_DH \<le> ty then s
     else
       let s1 = s\<lparr>ll_switchSet := os_del ty (ll_switchSet s)\<rparr>
       in if ll_switchSet s1 = [] then s1\<lparr>ll_timer := StopTimer (ll_timer s1)\<rparr> else s1)"

definition CloseLowLatency :: "LowLatency \<Rightarrow> LowLatency" where
  "CloseLowLatency s =
    s\<lparr>ll_switchSet := [], ll_timer := (ll_timer s)\<lparr>dt_reports := MODE_DISABLE # dt_reports (ll_timer s)\<rparr>\<rparr>"

section \<open>The listener\<close>

definition LOW_LATENCY_ENABLE :: string where "LOW_LATENCY_ENABLE = ''low_latency_enable''"

definition IsBool :: "'j cJSON \<Rightarrow> 'j option \<Rightarrow> bool" where
  "IsBool J jo = (case jo of None \<Rightarrow> False | Some j \<Rightarrow> cJSON_IsBool J j)"

definition LowLatency_OnMessage :: "'j cJSON \<Rightarrow> DHTopic \<Rightarrow> string \<Rightarrow> LowLatency \<Rightarrow> LowLatency" where
  "LowLatency_OnMessage J topic message s =
    (if topic \<le> TOPIC_MIN \<or> TOPIC_MAX \<le> topic then s
     else if \<not> IsMessageLengthValid message then s
     else case cJSON_Parse J (c_str message) of
       None \<Rightarrow> s
     | Some jsonObj \<Rightarrow>
         let dhTypeJson = cJSON_GetObjectItem J jsonObj DH_TYPE in
         if \<not> IsUInt32 J dhTypeJson then s
         else
           let enableJson = cJSON_GetObjectItem J jsonObj LOW_LATENCY_ENABLE in
           if \<not> IsBool J enableJson then s
           else
             let ty = word_of_int (item_int J dhTypeJson) in
             case enableJson of
               None \<Rightarrow> s
             | Some e \<Rightarrow> if cJSON_IsTrue J e then EnableLowLatency ty s else DisableLowLatency ty s)"

section \<open>The sequential timer\<close>

text \<open>
  The operations of the switch in any order, with tasks of the timer running between them.  While no one
  closes the switch, the timer has a handler exactly while some type is switched on.
\<close>

datatype SwitchOp = SwEnable DHType | SwDisable DHType | SwFire | SwClose

fun sw_step :: "SwitchOp \<Rightarrow> LowLatency \<Rightarrow> LowLatency" where
  "sw_step (SwEnable ty) s = EnableLowLatency ty s"
| "sw_step (SwDisable ty) s = DisableLowLatency ty s"
| "sw_step SwFire s = s\<lparr>ll_timer := Timer_fire (ll_timer s)\<rparr>"
| "sw_step SwClose s = CloseLowLatency s"

definition sw_ok :: "LowLatency \<Rightarrow> bool" where
  "sw_ok s = (dt_eventHandler (ll_timer s) = (ll_switchSet s \<noteq> [])
     \<and> (\<not> dt_eventHandler (ll_timer s) \<longrightarrow> dt_posted (ll_timer s) = [])
     \<and> length (dt_posted (ll_timer s)) \<le> 1 \<and> length (ll_switchSet s) \<le> MAX_SWITCH_SIZE)"

lemma os_ins_not_empty [simp]: "os_ins x xs \<noteq> []"
  by (cases xs) simp_all

lemma sw_ok_step: "op \<noteq> SwClose \<Longrightarrow> sw_ok s \<Longrightarrow> sw_ok (sw_step op s)"
proof (cases op)
  case (SwEnable ty)
  assume "sw_ok s"
  then show ?thesis using SwEnable length_os_ins[of ty "ll_switchSet s"]
    by (auto simp: sw_ok_def EnableLowLatency_def StartTimer_def InitTimer_def Let_def)
next
  case (SwDisable ty)
  have "length (os_del ty (ll_switchSet s)) \<le> length (ll_switchSet s)" by (simp add: os_del_def)
  moreover assume "sw_ok s"
  ultimately show ?thesis using SwDisable
    by (auto simp: sw_ok_def DisableLowLatency_def StopTimer_def ReleaseTimer_def HandleStopTimer_def Let_def)
next
  case SwFire
  assume "sw_ok s"
  then show ?thesis using SwFire
    by (auto simp: sw_ok_def Timer_fire_def Timer_Execute_body_def ExecuteInner_def split: list.split TimerTask.split)
qed simp

lemma last_disable:
  assumes "dhType_valid ty \<and> ll_switchSet s = [ty]" "dt_eventHandler (ll_timer s) = (ll_switchSet s \<noteq> [])"
  shows "ll_timer (DisableLowLatency ty s) = \<lparr>dt_eventHandler = False, dt_thread = False, dt_posted = [],
           dt_reports = MODE_DISABLE # dt_reports (ll_timer s)\<rparr>"
  using assms
  by (cases "ll_timer s")
    (simp add: DisableLowLatency_def dhType_valid_def os_del_def StopTimer_def ReleaseTimer_def HandleStopTimer_def Let_def)

lemma sw_okD:
  assumes "sw_ok s"
  shows "dt_eventHandler (ll_timer s) = (ll_switchSet s \<noteq> [])" "length (dt_posted (ll_timer s)) \<le> 1"
    "length (ll_switchSet s) \<le> MAX_SWITCH_SIZE"
  using assms by (simp_all add: sw_ok_def)

lemma sw_ok_fold: "SwClose \<notin> set ops \<Longrightarrow> sw_ok s \<Longrightarrow> sw_ok (fold sw_step ops s)"
proof (induction ops arbitrary: s)
  case (Cons op ops)
  then have "op \<noteq> SwClose" by auto
  from Cons.IH[OF _ sw_ok_step[OF this Cons.prems(2)]] Cons.prems(1) show ?case by simp
qed simp

text \<open>
  C27: for every sequence of enable and disable calls, with the timer running in between, the timer is alive
  exactly while some hardware type is switched on, at most one task of the timer is pending, and at most
  256 types are on; and switching the last type off reports the normal mode and leaves nothing pending.
\<close>

theorem low_latency_timer_follows:
  assumes "SwClose \<notin> set ops"
  shows "let s = fold sw_step ops LowLatency_new in
    dt_eventHandler (ll_timer s) = (ll_switchSet s \<noteq> []) \<and> length (dt_posted (ll_timer s)) \<le> 1
    \<and> length (ll_switchSet s) \<le> MAX_SWITCH_SIZE
    \<and> (dhType_valid ty \<and> ll_switchSet s = [ty] \<longrightarrow>
         ll_timer (DisableLowLatency ty s) = \<lparr>dt_eventHandler = False, dt_thread = False, dt_posted = [],
           dt_reports = MODE_DISABLE # dt_reports (ll_timer s)\<rparr>)"
proof -
  have "sw_ok LowLatency_new" by (simp add: sw_ok_def LowLatency_new_def DHTimer_new_def)
  then have inv: "sw_ok (fold sw_step ops LowLatency_new)" by (rule sw_ok_fold[OF assms])
  note ok = sw_okD[OF inv]
  show ?thesis unfolding Let_def by (intro conjI ok impI) (rule last_disable[OF _ ok(1)])
qed

theorem low_latency_timer_follows_witness:
  "dt_eventHandler (ll_timer (fold sw_step [SwEnable DHType_CAMERA, SwFire] LowLatency_new))"
proof -
  have "ll_switchSet (fold sw_step [SwEnable DHType_CAMERA, SwFire] LowLatency_new) \<noteq> []"
    by (simp add: EnableLowLatency_def LowLatency_new_def DHTimer_new_def StartTimer_def InitTimer_def Let_def word_le_nat_alt)
  moreover have "SwClose \<notin> set [SwEnable DHType_CAMERA, SwFire]" by simp
  ultimately show ?thesis using low_latency_timer_follows unfolding Let_def by blast
qed

text \<open>
  closing the switch reports the normal mode but does not stop the timer: when a type was on and its
  timer has not fired yet, the two tasks of the timer still run after the close, and the last report is
  that the low latency mode is on, with no type switched on.
\<close>

theorem close_then_enabled_again:
  assumes "dhType_valid ty"
  shows "let s = fold sw_step [SwEnable ty, SwClose, SwFire, SwFire] LowLatency_new in
    ll_switchSet s = [] \<and> dt_eventHandler (ll_timer s) \<and> dt_reports (ll_timer s) = [MODE_ENABLE, MODE_DISABLE]"
  using assms
  by (simp add: dhType_valid_def EnableLowLatency_def LowLatency_new_def DHTimer_new_def StartTimer_def InitTimer_def
      CloseLowLatency_def Timer_fire_def Timer_Execute_body_def ExecuteInner_def Let_def)

theorem close_then_enabled_again_witness:
  "dt_reports (ll_timer (fold sw_step [SwEnable DHType_CAMERA, SwClose, SwFire, SwFire] LowLatency_new))
    = [MODE_ENABLE, MODE_DISABLE]"
proof -
  have "dhType_valid DHType_CAMERA" by (simp add: dhType_valid_def not_le word_less_nat_alt)
  from close_then_enabled_again[OF this] show ?thesis unfolding Let_def by blast
qed

section \<open>The timer with its two threads\<close>

text \<open>
  The caller is between operations, waits in \<open>InitTimer\<close> for the handler (the wait gives the mutex up),
  is about to post in \<open>StartTimer\<close>, holds the mutex in \<open>ReleaseTimer\<close> before and after it has told the
  runner to stop, or is about to report.  The runner has no thread, is about to make the handler, takes
  tasks, has taken \<open>Execute\<close> and needs the mutex, has taken \<open>ExecuteInner\<close>, or has returned.
\<close>

datatype CallerAt = C_Idle | C_Init | C_Post | C_Release | C_Join | C_Report
datatype RunnerAt = R_None | R_Make | R_Loop | R_Execute | R_Inner | R_Done

record TimerSys =
  ts_timer :: DHTimer
  ts_locked :: bool
  ts_stop :: bool
  ts_caller :: CallerAt
  ts_runner :: RunnerAt

definition TimerSys_init :: TimerSys where
  "TimerSys_init = \<lparr>ts_timer = DHTimer_new, ts_locked = False, ts_stop = False, ts_caller = C_Idle, ts_runner = R_None\<rparr>"

inductive timer_step :: "TimerSys \<Rightarrow> TimerSys \<Rightarrow> bool" where
  start_again: "ts_caller s = C_Idle \<Longrightarrow> \<not> ts_locked s \<Longrightarrow> dt_eventHandler (ts_timer s) \<Longrightarrow>
    timer_step s (s\<lparr>ts_caller := C_Post\<rparr>)"
| start_thread: "ts_caller s = C_Idle \<Longrightarrow> \<not> ts_locked s \<Longrightarrow> \<not> dt_eventHandler (ts_timer s) \<Longrightarrow>
    timer_step s (s\<lparr>ts_caller := C_Init, ts_runner := R_Make, ts_timer := (ts_timer s)\<lparr>dt_thread := True\<rparr>\<rparr>)"
| init_done: "ts_caller s = C_Init \<Longrightarrow> \<not> ts_locked s \<Longrightarrow> dt_eventHandler (ts_timer s) \<Longrightarrow>
    timer_step s (s\<lparr>ts_caller := C_Post\<rparr>)"
| post: "ts_caller s = C_Post \<Longrightarrow> \<not> ts_locked s \<Longrightarrow>
    timer_step s (s\<lparr>ts_caller := C_Idle, ts_timer := StartTimer (ts_timer s)\<rparr>)"
| release_lock: "ts_caller s = C_Idle \<Longrightarrow> \<not> ts_locked s \<Longrightarrow>
    timer_step s (s\<lparr>ts_caller := C_Release, ts_locked := True\<rparr>)"
| release_stop: "ts_caller s = C_Release \<Longrightarrow>
    timer_step s (s\<lparr>ts_caller := C_Join, ts_stop := dt_eventHandler (ts_timer s),
      ts_timer := (if dt_eventHandler (ts_timer s) then (ts_timer s)\<lparr>dt_posted := []\<rparr> else ts_timer s)\<rparr>)"
| join: "ts_caller s = C_Join \<Longrightarrow> ts_runner s = R_None \<or> ts_runner s = R_Done \<Longrightarrow>
    timer_step s (s\<lparr>ts_caller := C_Report, ts_locked := False, ts_stop := False, ts_runner := R_None,
      ts_timer := (ts_timer s)\<lparr>dt_thread := False, dt_eventHandler := False\<rparr>\<rparr>)"
| report: "ts_caller s = C_Report \<Longrightarrow>
    timer_step s (s\<lparr>ts_caller := C_Idle, ts_timer := HandleStopTimer (ts_timer s)\<rparr>)"
| make: "ts_runner s = R_Make \<Longrightarrow> \<not> ts_locked s \<Longrightarrow>
    timer_step s (s\<lparr>ts_runner := R_Loop, ts_timer := (ts_timer s)\<lparr>dt_eventHandler := True\<rparr>\<rparr>)"
| runner_stops: "ts_runner s = R_Loop \<Longrightarrow> ts_stop s \<Longrightarrow> timer_step s (s\<lparr>ts_runner := R_Done\<rparr>)"
| take_execute: "ts_runner s = R_Loop \<Longrightarrow> \<not> ts_stop s \<Longrightarrow> dt_posted (ts_timer s) = Timer_Execute # rest \<Longrightarrow>
    timer_step s (s\<lparr>ts_runner := R_Execute, ts_timer := (ts_timer s)\<lparr>dt_posted := rest\<rparr>\<rparr>)"
| take_inner: "ts_runner s = R_Loop \<Longrightarrow> \<not> ts_stop s \<Longrightarrow> dt_posted (ts_timer s) = Timer_ExecuteInner # rest \<Longrightarrow>
    timer_step s (s\<lparr>ts_runner := R_Inner, ts_timer := (ts_timer s)\<lparr>dt_posted := rest\<rparr>\<rparr>)"
| execute: "ts_runner s = R_Execute \<Longrightarrow> \<not> ts_locked s \<Longrightarrow>
    timer_step s (s\<lparr>ts_runner := R_Loop, ts_timer := Timer_Execute_body (ts_timer s)\<rparr>)"
| inner: "ts_runner s = R_Inner \<Longrightarrow>
    timer_step s (s\<lparr>ts_runner := R_Loop, ts_timer := ExecuteInner (ts_timer s)\<rparr>)"

inductive timer_reach :: "TimerSys \<Rightarrow> bool" where
  timer_start: "timer_reach TimerSys_init"
| timer_more: "timer_reach s \<Longrightarrow> timer_step s s' \<Longrightarrow> timer_reach s'"

definition timer_inv :: "TimerSys \<Rightarrow> bool" where
  "timer_inv s =
    (ts_locked s = (ts_caller s = C_Release \<or> ts_caller s = C_Join)
     \<and> (ts_stop s = (ts_caller s = C_Join \<and> dt_eventHandler (ts_timer s)))
     \<and> (dt_eventHandler (ts_timer s) = (ts_runner s \<noteq> R_None \<and> ts_runner s \<noteq> R_Make))
     \<and> (ts_runner s = R_Make \<longrightarrow> ts_caller s = C_Init)
     \<and> (ts_caller s = C_Post \<longrightarrow> dt_eventHandler (ts_timer s))
     \<and> (ts_caller s = C_Init \<longrightarrow> ts_runner s \<noteq> R_None)
     \<and> (ts_caller s = C_Report \<longrightarrow> ts_runner s = R_None)
     \<and> (ts_runner s = R_Done \<longrightarrow> ts_stop s))"

lemma timer_bodies [simp]:
  "dt_eventHandler (StartTimer t)" "dt_eventHandler (HandleStopTimer t) = dt_eventHandler t"
  "dt_eventHandler (Timer_Execute_body t) = dt_eventHandler t" "dt_eventHandler (ExecuteInner t) = dt_eventHandler t"
  by (simp_all add: StartTimer_def InitTimer_def HandleStopTimer_def Timer_Execute_body_def ExecuteInner_def Let_def)

lemma timer_inv_step: "timer_step s s' \<Longrightarrow> timer_inv s \<Longrightarrow> timer_inv s'"
  by (induction rule: timer_step.induct) (auto simp: timer_inv_def)

lemma timer_inv_reach: "timer_reach s \<Longrightarrow> timer_inv s"
proof (induction rule: timer_reach.induct)
  case timer_start
  show ?case by (simp add: timer_inv_def TimerSys_init_def DHTimer_new_def)
next
  case (timer_more s s')
  then show ?case by (blast intro: timer_inv_step)
qed

definition timer_stuck :: "TimerSys \<Rightarrow> bool" where
  "timer_stuck s = (\<not> (\<exists>s'. timer_step s s'))"

inductive_cases timer_stepE: "timer_step s s'"

lemma deadlock_stuck:
  assumes "timer_inv s" "ts_caller s = C_Join" "ts_runner s = R_Execute"
  shows "timer_stuck s"
  using assms unfolding timer_stuck_def timer_inv_def by (auto elim!: timer_stepE)

lemma moves:
  assumes "timer_inv s" "\<not> (ts_caller s = C_Join \<and> ts_runner s = R_Execute)"
  shows "\<exists>s'. timer_step s s'"
proof (cases "ts_caller s")
  case C_Idle
  then show ?thesis using assms(1) timer_step.release_lock[of s] by (auto simp: timer_inv_def)
next
  case C_Init
  then have l: "\<not> ts_locked s" using assms(1) by (simp add: timer_inv_def)
  show ?thesis
  proof (cases "dt_eventHandler (ts_timer s)")
    case True
    then show ?thesis using timer_step.init_done[OF C_Init l] by blast
  next
    case False
    then have "ts_runner s = R_Make" using assms(1) C_Init by (auto simp: timer_inv_def)
    then show ?thesis using timer_step.make[OF _ l] by blast
  qed
next
  case C_Post
  then show ?thesis using assms(1) timer_step.post[of s] by (auto simp: timer_inv_def)
next
  case C_Release
  then show ?thesis using timer_step.release_stop by blast
next
  case C_Report
  then show ?thesis using timer_step.report by blast
next
  case C_Join
  show ?thesis
  proof (cases "ts_runner s")
    case R_Loop
    then have "ts_stop s" using assms(1) C_Join by (simp add: timer_inv_def)
    then show ?thesis using timer_step.runner_stops[OF R_Loop] by blast
  next
    case R_Inner
    then show ?thesis using timer_step.inner by blast
  next
    case R_Make
    then show ?thesis using assms(1) C_Join by (auto simp: timer_inv_def)
  qed (use assms C_Join timer_step.join in blast)+
qed

lemma reach_by:
  assumes "\<exists>s. timer_reach s \<and> P s" "\<And>s. P s \<Longrightarrow> timer_step s (f s)" "\<And>s. P s \<Longrightarrow> Q (f s)"
  shows "\<exists>s. timer_reach s \<and> Q s"
  using assms by (blast intro: timer_more)

lemma deadlock_reached: "\<exists>s. timer_reach s \<and> ts_caller s = C_Join \<and> ts_runner s = R_Execute"
proof -
  let ?at = "\<lambda>c r s. ts_caller s = c \<and> ts_runner s = r \<and> ts_locked s = (c = C_Release) \<and> \<not> ts_stop s"
  have "\<exists>s. timer_reach s \<and> s = TimerSys_init" using timer_start by blast
  then have "\<exists>s. timer_reach s \<and> ?at C_Init R_Make s \<and> dt_posted (ts_timer s) = []"
    by (rule reach_by[OF _ timer_step.start_thread]) (simp_all add: TimerSys_init_def DHTimer_new_def)
  then have "\<exists>s. timer_reach s \<and> ?at C_Init R_Loop s \<and> dt_eventHandler (ts_timer s) \<and> dt_posted (ts_timer s) = []"
    by (rule reach_by[OF _ timer_step.make]) simp_all
  then have "\<exists>s. timer_reach s \<and> ?at C_Post R_Loop s \<and> dt_eventHandler (ts_timer s) \<and> dt_posted (ts_timer s) = []"
    by (rule reach_by[OF _ timer_step.init_done]) simp_all
  then have "\<exists>s. timer_reach s \<and> ?at C_Idle R_Loop s \<and> dt_posted (ts_timer s) = [Timer_Execute]"
    by (rule reach_by[OF _ timer_step.post]) (simp_all add: StartTimer_def InitTimer_def)
  then have "\<exists>s. timer_reach s \<and> ?at C_Idle R_Execute s"
    by (rule reach_by[OF _ timer_step.take_execute]) simp_all
  then have "\<exists>s. timer_reach s \<and> ?at C_Release R_Execute s"
    by (rule reach_by[OF _ timer_step.release_lock]) simp_all
  then show ?thesis by (rule reach_by[OF _ timer_step.release_stop]) simp_all
qed



end
