(* ===== verification/Local_Hardware.thy ===== *)
theory Local_Hardware
  imports Component_Enable Publisher
begin

text \<open>
  The local hardware manager (\<open>localhardwaremanager/local_hardware_manager.cpp\<close>) and the listener of the
  hardware that can be plugged in and out (\<open>plugin_listener_impl.cpp\<close>).

  What a hardware handler answers to \<open>Query\<close> is the argument \<open>q\<close>, over the calls made before; the other
  calls of handlers and of the loader are calls of the environment.  The map of the items is unordered
  in the code: its order decides only which of two items with the same identifier is kept.
\<close>

section \<open>State\<close>

record DHItem =
  it_dhId :: string
  it_attrs :: string
  it_subtype :: string

record LocalHardwareManager =
  lh_compToolFuncsMap :: "(DHType, nat) omap"
  lh_pluginListenerMap :: "(DHType, DHType) omap"
  lh_localDHItemsMap :: "(DHType, DHItem list) omap"

type_synonym query = "ecall list \<Rightarrow> DHType \<Rightarrow> DHItem list"

definition QUERY_RETRY_MAX_TIMES :: nat where [simp]: "QUERY_RETRY_MAX_TIMES = 3"

section \<open>Queries\<close>

definition GetLocalCapabilityMapByPrefix ::
    "('s, 'j) config \<Rightarrow> DHType \<Rightarrow> (string, CapabilityInfo) omap \<Rightarrow> 's fwk \<Rightarrow> (string, CapabilityInfo) omap \<times> 's fwk" where
  "GetLocalCapabilityMapByPrefix C ty out w =
    (case GetDeviceInfo (c_P C) (fw_ctx w) of
       (info, ctx) \<Rightarrow>
         let w1 = w\<lparr>fw_ctx := ctx\<rparr> in
         if \<not> IsIdLengthValid (di_deviceId info) then (out, w1)
         else case om_get DHTypePrefixMap ty of
           None \<Rightarrow> (out, w1)
         | Some prefix \<Rightarrow>
            (case Cap_GetDataByKeyPrefix C (di_deviceId info @ RESOURCE_SEPARATOR @ prefix) out w1 of
               (ret, out', w2) \<Rightarrow> (out', w2)))"

fun remove_missing :: "('s, 'j) config \<Rightarrow> DHItem list \<Rightarrow> CapabilityInfo list \<Rightarrow> 's fwk \<Rightarrow> 's fwk" where
  "remove_missing C items [] w = w"
| "remove_missing C items (c # rest) w =
    (if list_ex (\<lambda>item. ci_dhId c = it_dhId item) items then remove_missing C items rest w
     else remove_missing C items rest (snd (Cap_RemoveCapabilityInfoByKey C (CapabilityInfo_GetKey c) w)))"

definition CheckNonExistCapabilityInfo ::
    "('s, 'j) config \<Rightarrow> DHItem list \<Rightarrow> DHType \<Rightarrow> 's fwk \<Rightarrow> 's fwk" where
  "CheckNonExistCapabilityInfo C items ty w =
    (if ty \<noteq> DHType_INPUT then w
     else case GetLocalCapabilityMapByPrefix C ty [] w of
       (caps, w1) \<Rightarrow> remove_missing C items (map snd caps) w1)"

text \<open>The number is how many tries are left.\<close>

fun QueryLocalHardware_loop ::
    "query \<Rightarrow> ('s, 'j) config \<Rightarrow> nat \<Rightarrow> DHType \<Rightarrow> LocalHardwareManager \<Rightarrow> 's fwk \<Rightarrow> LocalHardwareManager \<times> 's fwk" where
  "QueryLocalHardware_loop q C 0 ty h w = (h, w)"
| "QueryLocalHardware_loop q C (Suc n) ty h w =
    (let items = q (fw_trace w) ty;
         w1 = call_void (EC_Handler Query ty) w
     in if items = [] then QueryLocalHardware_loop q C n ty h w1
        else (h\<lparr>lh_localDHItemsMap := om_put ty items (lh_localDHItemsMap h)\<rparr>,
              CheckNonExistCapabilityInfo C items ty w1))"

definition QueryLocalHardware ::
    "query \<Rightarrow> ('s, 'j) config \<Rightarrow> DHType \<Rightarrow> LocalHardwareManager \<Rightarrow> 's fwk \<Rightarrow> LocalHardwareManager \<times> 's fwk" where
  "QueryLocalHardware q C ty h w = QueryLocalHardware_loop q C QUERY_RETRY_MAX_TIMES ty h w"

section \<open>Initialisation\<close>

definition local_capability :: "DeviceInfo \<Rightarrow> DHType \<Rightarrow> DHItem \<Rightarrow> CapabilityInfo" where
  "local_capability info ty item =
    \<lparr>ci_dhId = it_dhId item, ci_deviceId = di_deviceId info, ci_deviceName = di_deviceName info,
     ci_deviceType = di_deviceType info, ci_dhType = ty, ci_dhAttrs = it_attrs item, ci_dhSubtype = it_subtype item\<rparr>"

definition AddLocalCapabilityInfo ::
    "('s, 'j) config \<Rightarrow> DHItem list \<Rightarrow> DHType \<Rightarrow> CapabilityInfo option list \<Rightarrow> 's fwk \<Rightarrow>
     CapabilityInfo option list \<times> 's fwk" where
  "AddLocalCapabilityInfo C items ty out w =
    (case GetDeviceInfo (c_P C) (fw_ctx w) of
       (info, ctx) \<Rightarrow> (out @ map (\<lambda>item. Some (local_capability info ty item)) items, w\<lparr>fw_ctx := ctx\<rparr>))"

definition AddLocalMetaCapInfo ::
    "('s, 'j) config \<Rightarrow> DHItem list \<Rightarrow> DHType \<Rightarrow> MetaCapabilityInfo option list \<Rightarrow> 's fwk \<Rightarrow>
     MetaCapabilityInfo option list \<times> 's fwk" where
  "AddLocalMetaCapInfo C items ty out w =
    (case GetDeviceInfo (c_P C) (fw_ctx w) of
       (info, ctx) \<Rightarrow>
         let cv = snd (GetCompVersion (di_uuid info) ty (fw_dhVersions w) (CompVersion_local C)) in
         (out @ map (\<lambda>item. Some (CapabilityInfo.extend (local_capability info ty item)
                (MetaCapabilityInfo.fields (di_udidHash info) cv))) items,
          w\<lparr>fw_ctx := ctx\<rparr>))"

fun LocalHardware_types ::
    "query \<Rightarrow> ('s, 'j) config \<Rightarrow> DHType list \<Rightarrow> LocalHardwareManager \<Rightarrow> 's fwk \<Rightarrow> LocalHardwareManager \<times> 's fwk" where
  "LocalHardware_types q C [] h w = (h, w)"
| "LocalHardware_types q C (ty # types) h w =
    (case call_ptr C (EC_Loader GetHardwareHandler ty) w of
       (status, None, w1) \<Rightarrow> LocalHardware_types q C types h w1
     | (status, Some p, w1) \<Rightarrow>
        (if status \<noteq> DH_FWK_SUCCESS then LocalHardware_types q C types h w1
         else case call_ret C (EC_Handler State.Initialize ty) w1 of
           (ret, w2) \<Rightarrow>
             if ret \<noteq> DH_FWK_SUCCESS then LocalHardware_types q C types h w2
             else case QueryLocalHardware q C ty h w2 of
               (h1, w3) \<Rightarrow>
                 case call_ret C (EC_Handler IsSupportPlugin ty) w3 of
                   (supported, w4) \<Rightarrow>
                     if supported = 0
                     then LocalHardware_types q C types h1 (snd (call_ret C (EC_Loader ReleaseHardwareHandler ty) w4))
                     else LocalHardware_types q C types
                       (h1\<lparr>lh_compToolFuncsMap := om_put ty p (lh_compToolFuncsMap h1),
                          lh_pluginListenerMap := om_put ty ty (lh_pluginListenerMap h1)\<rparr>)
                       (call_void (EC_Handler RegisterPluginListener ty) w4)))"

fun add_local_infos ::
    "('s, 'j) config \<Rightarrow> (DHType \<times> DHItem list) list \<Rightarrow> CapabilityInfo option list \<Rightarrow> MetaCapabilityInfo option list \<Rightarrow>
     's fwk \<Rightarrow> CapabilityInfo option list \<times> MetaCapabilityInfo option list \<times> 's fwk" where
  "add_local_infos C [] caps metas w = (caps, metas, w)"
| "add_local_infos C ((ty, items) # rest) caps metas w =
    (case AddLocalCapabilityInfo C items ty caps w of
       (caps1, w1) \<Rightarrow>
         case AddLocalMetaCapInfo C items ty metas w1 of
           (metas1, w2) \<Rightarrow> add_local_infos C rest caps1 metas1 w2)"

definition LocalHardware_Init ::
    "query \<Rightarrow> ('s, 'j) config \<Rightarrow> LocalHardwareManager \<Rightarrow> 's fwk \<Rightarrow> LocalHardwareManager \<times> 's fwk" where
  "LocalHardware_Init q C h w =
    (case LocalHardware_types q C (e_CompTypes (c_E C)) h w of
       (h1, w1) \<Rightarrow>
         case add_local_infos C (lh_localDHItemsMap h1) [] [] w1 of
           (caps, metas, w2) \<Rightarrow> (h1, snd (AddMetaCapInfos C metas (snd (Cap_AddCapability C caps w2)))))"

definition LocalHardware_UnInit :: "LocalHardwareManager \<Rightarrow> LocalHardwareManager" where
  "LocalHardware_UnInit h =
    h\<lparr>lh_compToolFuncsMap := [], lh_pluginListenerMap := [], lh_localDHItemsMap := []\<rparr>"

section \<open>Plugging in and out\<close>

text \<open>The messages the publisher delivers are the second part of the result.\<close>

definition PluginHardware ::
    "('s, 'j) config \<Rightarrow> Publisher \<Rightarrow> DHType \<Rightarrow> string \<Rightarrow> string \<Rightarrow> string \<Rightarrow> 's fwk \<Rightarrow>
     's fwk \<times> (nat \<times> DHTopic \<times> string) list" where
  "PluginHardware C p ty dhId attrs subtype w =
    (if \<not> IsIdLengthValid dhId \<or> \<not> IsMessageLengthValid attrs then (w, [])
     else case GetDeviceInfo (c_P C) (fw_ctx w) of
       (info, ctx) \<Rightarrow>
         (snd (Cap_AddCapability C [Some (local_capability info ty \<lparr>it_dhId = dhId, it_attrs = attrs, it_subtype = subtype\<rparr>)]
            (w\<lparr>fw_ctx := ctx\<rparr>)),
          PublishMessage TOPIC_PHY_DEV_PLUGIN dhId p))"

definition UnPluginHardware :: "('s, 'j) config \<Rightarrow> string \<Rightarrow> 's fwk \<Rightarrow> 's fwk" where
  "UnPluginHardware C dhId w =
    (if \<not> IsIdLengthValid dhId then w
     else case GetDeviceInfo (c_P C) (fw_ctx w) of
       (info, ctx) \<Rightarrow>
         let w1 = w\<lparr>fw_ctx := ctx\<rparr> in
         case Cap_GetCapability (di_deviceId info) dhId (fw_cap w1) of
           (ret, None) \<Rightarrow> w1
         | (ret, Some c) \<Rightarrow>
             if ret \<noteq> DH_FWK_SUCCESS then w1
             else snd (Cap_RemoveCapabilityInfoByKey C (CapabilityInfo_GetKey c) w1))"

section \<open>What plugging does to the cache\<close>

definition dev_of :: "('s, 'j) config \<Rightarrow> 's fwk \<Rightarrow> DeviceInfo" where
  "dev_of C w = fst (GetDeviceInfo (c_P C) (fw_ctx w))"

lemma GetDeviceInfo_again: "GetDeviceInfo P c = (info, c') \<Longrightarrow> fst (GetDeviceInfo P c') = info"
  by (auto simp: GetDeviceInfo_def Let_def split: if_splits)

lemma GetDeviceInfo_dev: "GetDeviceInfo (c_P C) (fw_ctx w) = (info, c') \<Longrightarrow> info = dev_of C w \<and> dev_of C (w\<lparr>fw_ctx := c'\<rparr>) = dev_of C w"
  using GetDeviceInfo_again[of "c_P C" "fw_ctx w" info c'] by (simp add: dev_of_def)

lemma GetDataByKey_keeps:
  "DB_GetDataByKey C d k v w = (r, x, w1) \<Longrightarrow> fw_cap w1 = fw_cap w \<and> dev_of C w1 = dev_of C w"
  by (auto simp: DB_GetDataByKey_def sync_on_miss_def SyncByNotFound_def GetNetworkIdByKey_def Let_def dev_of_def
      dest!: GetDeviceInfo_again split: prod.splits if_splits)

lemma PutDataBatch_keeps:
  "DB_PutDataBatch C d ks vs w = (r, w1) \<Longrightarrow> fw_cap w1 = fw_cap w \<and> fw_ctx w1 = fw_ctx w"
  by (auto simp: DB_PutDataBatch_def split: prod.splits if_splits)

lemma RemoveDataByKey_keeps: "DB_RemoveDataByKey C d k w = (r, w1) \<Longrightarrow> fw_cap w1 = fw_cap w"
  by (auto simp: DB_RemoveDataByKey_def split: prod.splits if_splits)

lemma AddCapability_one:
  assumes "cim_dbAdapterPtr (fw_cap w) = Some d"
  shows "fw_cap (snd (Cap_AddCapability C [Some c] w)) = cap_put (CapabilityInfo_GetKey c) c (fw_cap w)
    \<and> dev_of C (snd (Cap_AddCapability C [Some c] w)) = dev_of C w"
proof -
  let ?w1 = "upd_cap (cap_put (CapabilityInfo_GetKey c) c) w"
  obtain r data w2 where G: "DB_GetDataByKey C d (CapabilityInfo_GetKey c) [] ?w1 = (r, data, w2)" by (rule prod_cases3)
  have k: "fw_cap ?w1 = cap_put (CapabilityInfo_GetKey c) c (fw_cap w)" "dev_of C ?w1 = dev_of C w"
    by (simp_all add: upd_cap_def dev_of_def)
  obtain r3 w3 where B: "DB_PutDataBatch C d [CapabilityInfo_GetKey c] [CapabilityInfo_ToJsonString (c_J C) c] w2 = (r3, w3)"
    by (cases "DB_PutDataBatch C d [CapabilityInfo_GetKey c] [CapabilityInfo_ToJsonString (c_J C) c] w2") auto
  have "dev_of C w3 = dev_of C w2" using PutDataBatch_keeps[OF B] by (simp add: dev_of_def)
  then show ?thesis using GetDataByKey_keeps[OF G] PutDataBatch_keeps[OF B] assms k
    by (auto simp: Cap_AddCapability_def Let_def G B split: if_splits)
qed

end
