(* ===== verification/Hardware_Properties.thy ===== *)
theory Hardware_Properties
  imports Local_Hardware Demo
begin

text \<open>
  The property of the local hardware manager: plugging hardware in and out again.
\<close>


definition demo_adapter :: DBAdapter where
  "demo_adapter = \<lparr>db_storeId = ''store'', db_isAutoSync = True, db_dataType = TYPE_STATICS,
     db_kvStoragePtr = True, db_deathListener = False\<rparr>"

definition demo_with_store :: "demo_store fwk" where
  "demo_with_store = demo_init\<lparr>fw_cap := \<lparr>cim_dbAdapterPtr = Some demo_adapter, cim_globalCapInfoMap = []\<rparr>\<rparr>"


end
