(* ===== verification/Transport.thy ===== *)
theory Transport
  imports Transport_Obj
begin

text \<open>
  The sessions between devices over the soft bus (\<open>transport/dh_transport.cpp\<close>).

  The soft bus is called through the environment: \<open>EC_Socket\<close> with the name of the socket and, for a
  client, the name and the network id of the peer; \<open>EC_Listen\<close>, \<open>EC_Bind\<close>, \<open>EC_Shutdown\<close> and
  \<open>EC_SendBytes\<close>.  What the account service and the caller's token say is a further parameter, over the
  calls made before.  Memory is assumed to be available.
\<close>

section \<open>State\<close>

record accounts =
  ac_OS_ACCOUNT_PART :: bool
  ac_GetForegroundOsAccounts :: "ecall list \<Rightarrow> int \<times> int list"
  ac_QueryActiveOsAccountIds :: "ecall list \<Rightarrow> int \<times> int list"
  ac_GetOhosAccountInfo :: "ecall list \<Rightarrow> int \<times> string"
  ac_GetCallingTokenID :: "ecall list \<Rightarrow> 64 word"

record ('s, 'j, 'z) tconfig =
  tc_C :: "('s, 'j) config"
  tc_A :: accounts
  tc_Z :: "'z zlib"

record DHTransport =
  ts_remoteDevSocketIds :: "(string, int) omap"
  ts_localServerSocket :: int
  ts_localSocketName :: string
  ts_isSocketSvrCreateFlag :: bool

definition DHTransport_new :: DHTransport where
  "DHTransport_new = \<lparr>ts_remoteDevSocketIds = [], ts_localServerSocket = -1, ts_localSocketName = [],
     ts_isSocketSvrCreateFlag = False\<rparr>"

text \<open>
  The communication tool of the theory \<open>Comm_Tool\<close>: its transport, whether it has an event handler and
  the events that wait there, the account it last asked for, and the rest of the service.
\<close>

record 's comm =
  co_fwk :: "'s fwk"
  co_commToolPtr :: bool
  co_transport :: "DHTransport option"
  co_eventHandler :: bool
  co_events :: "CommMsg list"
  co_accountId :: string
  co_userId :: int
  co_tokenId :: "64 word"

definition comm_init :: "'s fwk \<Rightarrow> 's comm" where
  "comm_init w = \<lparr>co_fwk = w, co_commToolPtr = True, co_transport = None, co_eventHandler = False, co_events = [],
     co_accountId = [], co_userId = -1, co_tokenId = 0\<rparr>"

definition MAX_SEND_MSG_LENGTH :: nat where [simp]: "MAX_SEND_MSG_LENGTH = 4 * 1024 * 1024"
definition INTERCEPT_STRING_LENGTH :: nat where [simp]: "INTERCEPT_STRING_LENGTH = 20"
definition DH_COMM_REQ_FULL_CAPS :: int where [simp]: "DH_COMM_REQ_FULL_CAPS = 1"
definition DH_COMM_RSP_FULL_CAPS :: int where [simp]: "DH_COMM_RSP_FULL_CAPS = 2"
definition DH_FWK_SESSION_NAME :: string where "DH_FWK_SESSION_NAME = ''ohos.dhardware.session_''"

section \<open>Open sessions\<close>

definition OnSocketOpened :: "int \<Rightarrow> string \<Rightarrow> DHTransport \<Rightarrow> int \<times> DHTransport" where
  "OnSocketOpened socketId networkId t =
    (DH_FWK_SUCCESS, t\<lparr>ts_remoteDevSocketIds := om_put networkId socketId (ts_remoteDevSocketIds t)\<rparr>)"

definition OnSocketClosed :: "int \<Rightarrow> DHTransport \<Rightarrow> DHTransport" where
  "OnSocketClosed socketId t =
    t\<lparr>ts_remoteDevSocketIds := erase_first (\<lambda>(networkId, s). s = socketId) (ts_remoteDevSocketIds t)\<rparr>"

definition IsDeviceSessionOpened :: "string \<Rightarrow> DHTransport \<Rightarrow> int option" where
  "IsDeviceSessionOpened remoteNetworkId t =
    (if \<not> IsIdLengthValid remoteNetworkId then None else om_get (ts_remoteDevSocketIds t) remoteNetworkId)"

definition GetRemoteNetworkIdBySocketId :: "int \<Rightarrow> DHTransport \<Rightarrow> string" where
  "GetRemoteNetworkIdBySocketId socketId t =
    (case find (\<lambda>(networkId, s). s = socketId) (ts_remoteDevSocketIds t) of None \<Rightarrow> [] | Some (networkId, s) \<Rightarrow> networkId)"

definition ClearDeviceSocketOpened :: "string \<Rightarrow> DHTransport \<Rightarrow> DHTransport" where
  "ClearDeviceSocketOpened remoteDevId t =
    (if \<not> IsIdLengthValid remoteDevId then t
     else t\<lparr>ts_remoteDevSocketIds := om_del remoteDevId (ts_remoteDevSocketIds t)\<rparr>)"

section \<open>Sockets\<close>

definition session_name :: "string \<Rightarrow> string" where
  "session_name networkId = DH_FWK_SESSION_NAME @ take INTERCEPT_STRING_LENGTH networkId"

definition CreateServerSocket :: "('s, 'j) config \<Rightarrow> DHTransport \<Rightarrow> 's fwk \<Rightarrow> int \<times> DHTransport \<times> 's fwk" where
  "CreateServerSocket C t w =
    (let name = session_name (GetLocalNetworkId (c_P C));
         t1 = t\<lparr>ts_localSocketName := name\<rparr>
     in case call_ret C (EC_Socket (c_str name) None) w of (socket, w1) \<Rightarrow> (socket, t1, w1))"

definition CreateClientSocket :: "('s, 'j) config \<Rightarrow> string \<Rightarrow> DHTransport \<Rightarrow> 's fwk \<Rightarrow> int \<times> 's fwk" where
  "CreateClientSocket C remoteNetworkId t w =
    (if \<not> IsIdLengthValid remoteNetworkId then (ERR_DH_FWK_PARA_INVALID, w)
     else call_ret C (EC_Socket (c_str (ts_localSocketName t))
            (Some (c_str (session_name remoteNetworkId), c_str remoteNetworkId))) w)"

definition Transport_Init :: "('s, 'j) config \<Rightarrow> DHTransport \<Rightarrow> 's fwk \<Rightarrow> int \<times> DHTransport \<times> 's fwk" where
  "Transport_Init C t w =
    (if ts_isSocketSvrCreateFlag t then (DH_FWK_SUCCESS, t, w)
     else case CreateServerSocket C t w of
       (socket, t1, w1) \<Rightarrow>
         if socket < DH_FWK_SUCCESS then (ERR_DH_FWK_COMPONENT_TRANSPORT_OPT_FAILED, t1, w1)
         else case call_ret C (EC_Listen socket) w1 of
           (ret, w2) \<Rightarrow>
             if ret \<noteq> DH_FWK_SUCCESS then (ERR_DH_FWK_COMPONENT_TRANSPORT_OPT_FAILED, t1, w2)
             else (DH_FWK_SUCCESS, t1\<lparr>ts_isSocketSvrCreateFlag := True, ts_localServerSocket := socket\<rparr>, w2))"

definition Transport_UnInit :: "DHTransport \<Rightarrow> 's fwk \<Rightarrow> int \<times> DHTransport \<times> 's fwk" where
  "Transport_UnInit t w =
    (let w1 = fold (\<lambda>(networkId, s). call_void (EC_Shutdown s)) (ts_remoteDevSocketIds t) w;
         t1 = t\<lparr>ts_remoteDevSocketIds := []\<rparr>
     in if \<not> ts_isSocketSvrCreateFlag t1 then (DH_FWK_SUCCESS, t1, w1)
        else (DH_FWK_SUCCESS, t1\<lparr>ts_localServerSocket := -1, ts_isSocketSvrCreateFlag := False\<rparr>,
              call_void (EC_Shutdown (ts_localServerSocket t1)) w1))"

definition StartSocket :: "('s, 'j) config \<Rightarrow> string \<Rightarrow> DHTransport \<Rightarrow> 's fwk \<Rightarrow> int \<times> DHTransport \<times> 's fwk" where
  "StartSocket C remoteNetworkId t w =
    (if \<not> IsIdLengthValid remoteNetworkId then (ERR_DH_FWK_PARA_INVALID, t, w)
     else if IsDeviceSessionOpened remoteNetworkId t \<noteq> None then (DH_FWK_SUCCESS, t, w)
     else case CreateClientSocket C remoteNetworkId t w of
       (socket, w1) \<Rightarrow>
         if socket < DH_FWK_SUCCESS then (ERR_DH_FWK_COMPONENT_TRANSPORT_OPT_FAILED, t, w1)
         else case call_ret C (EC_Bind socket) w1 of
           (ret, w2) \<Rightarrow>
             if ret < DH_FWK_SUCCESS
             then (ERR_DH_FWK_COMPONENT_TRANSPORT_OPT_FAILED, t, call_void (EC_Shutdown socket) w2)
             else (DH_FWK_SUCCESS, snd (OnSocketOpened socket (c_str remoteNetworkId) t), w2))"

definition StopSocket :: "string \<Rightarrow> DHTransport \<Rightarrow> 's fwk \<Rightarrow> int \<times> DHTransport \<times> 's fwk" where
  "StopSocket remoteNetworkId t w =
    (if \<not> IsIdLengthValid remoteNetworkId then (ERR_DH_FWK_PARA_INVALID, t, w)
     else case IsDeviceSessionOpened remoteNetworkId t of
       None \<Rightarrow> (ERR_DH_FWK_COMPONENT_TRANSPORT_OPT_FAILED, t, w)
     | Some socketId \<Rightarrow>
         (DH_FWK_SUCCESS, ClearDeviceSocketOpened remoteNetworkId t, call_void (EC_Shutdown socketId) w))"

text \<open>The size is a thirty-two bit number.\<close>

definition Send ::
    "('s, 'j, 'z) tconfig \<Rightarrow> string \<Rightarrow> string \<Rightarrow> DHTransport \<Rightarrow> 's fwk \<Rightarrow> (int \<times> 's fwk) option" where
  "Send T remoteNetworkId payload t w =
    (if \<not> IsIdLengthValid remoteNetworkId \<or> \<not> IsMessageLengthValid payload then Some (ERR_DH_FWK_PARA_INVALID, w)
     else case IsDeviceSessionOpened remoteNetworkId t of
       None \<Rightarrow> Some (ERR_DH_FWK_COMPONENT_TRANSPORT_OPT_FAILED, w)
     | Some socketId \<Rightarrow>
        (case Compress (tc_Z T) payload of
           None \<Rightarrow> None
         | Some compressedPayLoad \<Rightarrow>
             let compressedPayLoadSize = length compressedPayLoad mod 2 ^ 32 in
             if compressedPayLoadSize > MAX_SEND_MSG_LENGTH
             then Some (ERR_DH_FWK_COMPONENT_TRANSPORT_OPT_FAILED, w)
             else case call_ret (tc_C T) (EC_SendBytes socketId (take compressedPayLoadSize compressedPayLoad)) w of
               (ret, w1) \<Rightarrow>
                 if ret \<noteq> DH_FWK_SUCCESS then Some (ERR_DH_FWK_COMPONENT_TRANSPORT_OPT_FAILED, w1)
                 else Some (DH_FWK_SUCCESS, w1)))"

section \<open>Received messages\<close>

text \<open>The user id and the account id it found, when it did.\<close>

definition GetForegroundUserInfo :: "accounts \<Rightarrow> int \<Rightarrow> 's fwk \<Rightarrow> (int \<times> string) option" where
  "GetForegroundUserInfo A targetUserId w =
    (if ac_OS_ACCOUNT_PART A then
       (case ac_GetForegroundOsAccounts A (fw_trace w) of
          (ret, foregroundAccounts) \<Rightarrow>
            if ret \<noteq> DH_FWK_SUCCESS \<or> foregroundAccounts = [] then None
            else if \<not> list_ex (\<lambda>localId. localId = targetUserId) foregroundAccounts then None
            else case ac_GetOhosAccountInfo A (fw_trace w) of
              (ret', uid) \<Rightarrow> if ret' \<noteq> DH_FWK_SUCCESS then None else Some (targetUserId, uid))
     else None)"

definition CheckCalleeAclRight :: "('s, 'j, 'z) tconfig \<Rightarrow> CommMsg \<Rightarrow> 's fwk \<Rightarrow> bool \<times> 's fwk" where
  "CheckCalleeAclRight T m w =
    (if msg_userId m = -1 then (True, w)
     else
       let localNetworkId = GetLocalNetworkId (c_P (tc_C T)) in
       if localNetworkId = [] then (False, w)
       else
         let localTokenId = ac_GetCallingTokenID (tc_A T) (fw_trace w) in
         case (if ac_OS_ACCOUNT_PART (tc_A T) then GetForegroundUserInfo (tc_A T) (msg_userId m) w else Some (0, [])) of
           None \<Rightarrow> (False, w)
         | Some (userId, accountId) \<Rightarrow>
             let caller = \<lparr>ac_accountId = msg_accountId m, ac_networkId = msg_msg m, ac_userId = msg_userId m,
                           ac_tokenId = msg_tokenId m\<rparr>;
                 callee = \<lparr>ac_accountId = accountId, ac_networkId = localNetworkId, ac_userId = userId,
                           ac_tokenId = localTokenId\<rparr>
             in case call_ret (tc_C T) (EC_CheckSinkAccessControl caller callee) w of (ok, w1) \<Rightarrow> (ok \<noteq> 0, w1))"

text \<open>The result is None when the decompression does not end.\<close>

definition HandleReceiveMessage :: "('s, 'j, 'z) tconfig \<Rightarrow> string \<Rightarrow> string \<Rightarrow> 's comm \<Rightarrow> 's comm option" where
  "HandleReceiveMessage T payload remoteNetworkId c =
    (if \<not> IsMessageLengthValid payload then Some c
     else case Decompress (tc_Z T) payload of
       None \<Rightarrow> None
     | Some rawPayload \<Rightarrow>
        (case cJSON_Parse (c_J (tc_C T)) (c_str rawPayload) of
           None \<Rightarrow> Some c
         | Some rootObj \<Rightarrow>
             let m = CommMsg_FromJson (c_J (tc_C T)) rootObj CommMsg_default in
             case (if msg_code m \<noteq> DH_COMM_RSP_FULL_CAPS then CheckCalleeAclRight T m (co_fwk c) else (True, co_fwk c)) of
               (ok, w1) \<Rightarrow>
                 let c1 = c\<lparr>co_fwk := w1\<rparr> in
                 if \<not> ok then Some c1
                 else if \<not> co_eventHandler c1 then Some c1
                 else Some (c1\<lparr>co_events := co_events c1 @ [m\<lparr>msg_realNetworkId := remoteNetworkId\<rparr>]\<rparr>)))"

definition OnBytesReceived :: "('s, 'j, 'z) tconfig \<Rightarrow> int \<Rightarrow> string option \<Rightarrow> DHTransport \<Rightarrow> 's comm \<Rightarrow> 's comm option" where
  "OnBytesReceived T socketId data t c =
    (case data of
       None \<Rightarrow> Some c
     | Some bytes \<Rightarrow>
         if socketId < 0 \<or> length bytes = 0 \<or> length bytes > MAX_SEND_MSG_LENGTH then Some c
         else
           let remoteNetworkId = GetRemoteNetworkIdBySocketId socketId t in
           if remoteNetworkId = [] then Some c
           else HandleReceiveMessage T bytes remoteNetworkId c)"

text \<open>The callbacks of the socket, which find the transport through the communication tool.\<close>

definition OnBind :: "int \<Rightarrow> string \<Rightarrow> 's comm \<Rightarrow> 's comm" where
  "OnBind socket networkId c =
    (case co_transport c of
       None \<Rightarrow> c
     | Some t \<Rightarrow> c\<lparr>co_transport := Some (snd (OnSocketOpened socket networkId t))\<rparr>)"

definition OnShutdown :: "int \<Rightarrow> 's comm \<Rightarrow> 's comm" where
  "OnShutdown socket c =
    (case co_transport c of None \<Rightarrow> c | Some t \<Rightarrow> c\<lparr>co_transport := Some (OnSocketClosed socket t)\<rparr>)"

definition OnBytes :: "('s, 'j, 'z) tconfig \<Rightarrow> int \<Rightarrow> string option \<Rightarrow> 's comm \<Rightarrow> 's comm option" where
  "OnBytes T socket data c =
    (case co_transport c of None \<Rightarrow> Some c | Some t \<Rightarrow> OnBytesReceived T socket data t c)"

end
