(* ===== verification/Comm_Tool.thy ===== *)
theory Comm_Tool
  imports Transport Component_Requests
begin

text \<open>
  The communication tool (\<open>transport/dh_comm_tool.cpp\<close>): requests for the capabilities of another device
  and the answers to them, and the part of the component manager that starts such a request.

  A step of the event handler runs one event as a whole.  A result None is a step that does not end.
\<close>

section \<open>Life cycle\<close>

definition CommTool_Init :: "('s, 'j) config \<Rightarrow> 's comm \<Rightarrow> 's comm" where
  "CommTool_Init C c =
    (case Transport_Init C DHTransport_new (co_fwk c) of
       (ret, t, w) \<Rightarrow> c\<lparr>co_fwk := w, co_transport := Some t, co_eventHandler := True, co_events := []\<rparr>)"

definition CommTool_UnInit :: "'s comm \<Rightarrow> 's comm" where
  "CommTool_UnInit c =
    (case co_transport c of
       None \<Rightarrow> c
     | Some t \<Rightarrow> (case Transport_UnInit t (co_fwk c) of (ret, t1, w) \<Rightarrow> c\<lparr>co_fwk := w, co_transport := Some t1\<rparr>))"

section \<open>Requests\<close>

definition GetOsAccountInfo :: "accounts \<Rightarrow> 's comm \<Rightarrow> bool \<times> 's comm" where
  "GetOsAccountInfo A c =
    (if ac_OS_ACCOUNT_PART A then
       (case ac_QueryActiveOsAccountIds A (fw_trace (co_fwk c)) of
          (ret, ids) \<Rightarrow>
            if ret \<noteq> DH_FWK_SUCCESS \<or> ids = [] then (False, c)
            else
              let c1 = c\<lparr>co_userId := ids ! 0\<rparr> in
              case ac_GetOhosAccountInfo A (fw_trace (co_fwk c1)) of
                (ret', uid) \<Rightarrow>
                  if ret' \<noteq> DH_FWK_SUCCESS then (False, c1) else (True, c1\<lparr>co_accountId := uid\<rparr>))
     else (True, c))"

text \<open>The members of the callee that are not set are empty, zero as the user.\<close>

definition CheckCallerAclRight :: "('s, 'j, 'z) tconfig \<Rightarrow> string \<Rightarrow> string \<Rightarrow> 's comm \<Rightarrow> bool \<times> 's comm" where
  "CheckCallerAclRight T localNetworkId remoteNetworkId c =
    (case GetOsAccountInfo (tc_A T) c of
       (found, c1) \<Rightarrow>
         if \<not> found then (False, c1)
         else
           let c2 = c1\<lparr>co_tokenId := ac_GetCallingTokenID (tc_A T) (fw_trace (co_fwk c1))\<rparr>;
               caller = \<lparr>ac_accountId = co_accountId c2, ac_networkId = localNetworkId, ac_userId = co_userId c2,
                         ac_tokenId = co_tokenId c2\<rparr>;
               callee = \<lparr>ac_accountId = [], ac_networkId = remoteNetworkId, ac_userId = 0, ac_tokenId = 0\<rparr>
           in case call_ret (tc_C T) (EC_CheckSrcAccessControl caller callee) (co_fwk c2) of
                (ok, w) \<Rightarrow> (ok \<noteq> 0, c2\<lparr>co_fwk := w\<rparr>))"

definition TriggerReqFullDHCaps :: "('s, 'j, 'z) tconfig \<Rightarrow> string \<Rightarrow> 's comm \<Rightarrow> 's comm option" where
  "TriggerReqFullDHCaps T remoteNetworkId c =
    (case co_transport c of
       None \<Rightarrow> Some c
     | Some t \<Rightarrow>
         if remoteNetworkId = [] then Some c
         else
           let localNetworkId = GetLocalNetworkId (c_P (tc_C T)) in
           if localNetworkId = [] then Some c
           else case CheckCallerAclRight T localNetworkId remoteNetworkId c of
             (ok, c1) \<Rightarrow>
               if \<not> ok then Some c1
               else case StartSocket (tc_C T) remoteNetworkId t (co_fwk c1) of
                 (ret, t1, w1) \<Rightarrow>
                   let c2 = c1\<lparr>co_fwk := w1, co_transport := Some t1\<rparr> in
                   if ret \<noteq> DH_FWK_SUCCESS then Some c2
                   else
                     let commMsg = \<lparr>msg_code = DH_COMM_REQ_FULL_CAPS, msg_userId = co_userId c2,
                           msg_tokenId = co_tokenId c2, msg_msg = localNetworkId, msg_accountId = co_accountId c2,
                           msg_isSyncMeta = True, msg_realNetworkId = []\<rparr>;
                         payload = GetCommMsgString (c_J (tc_C T)) commMsg
                     in (case Send T remoteNetworkId payload t1 (co_fwk c2) of
                           None \<Rightarrow> None
                         | Some (ret', w2) \<Rightarrow> Some (c2\<lparr>co_fwk := w2\<rparr>)))"

definition TriggerFullCapsSync :: "('s, 'j, 'z) tconfig \<Rightarrow> string \<Rightarrow> 's comm \<Rightarrow> 's comm option" where
  "TriggerFullCapsSync T networkId c =
    (if \<not> IsIdLengthValid networkId then Some c
     else if \<not> co_commToolPtr c then Some c
     else TriggerReqFullDHCaps T networkId c)"

text \<open>The event handler of the component manager has one event, with the network id as its object.\<close>

definition ComponentManager_ProcessEvent :: "('s, 'j, 'z) tconfig \<Rightarrow> string option \<Rightarrow> 's comm \<Rightarrow> 's comm option" where
  "ComponentManager_ProcessEvent T sharedObjPtr c =
    (case sharedObjPtr of
       None \<Rightarrow> Some c
     | Some networkId \<Rightarrow> if networkId = [] then Some c else TriggerFullCapsSync T networkId c)"

section \<open>Answers\<close>

definition GetLocalFullCapsInfo :: "('s, 'j) config \<Rightarrow> bool \<Rightarrow> 's fwk \<Rightarrow> string \<times> 's fwk" where
  "GetLocalFullCapsInfo C isSyncMeta w =
    (case GetDeviceInfo (c_P C) (fw_ctx w) of
       (info, ctx) \<Rightarrow>
         let caps = Cap_GetCapabilitiesByDeviceId (di_deviceId info) (fw_cap w);
             capsRsp = FullCapsRsp_default\<lparr>fr_networkId := GetLocalNetworkId (c_P C), fr_caps := caps\<rparr>
         in (case cJSON_CreateObject (c_J C) of
               None \<Rightarrow> []
             | Some rootObj \<Rightarrow>
                 (case cJSON_PrintUnformatted (c_J C) (FullCapsRsp_ToJson (c_J C) rootObj capsRsp isSyncMeta) of
                    None \<Rightarrow> [] | Some msg \<Rightarrow> msg),
             w\<lparr>fw_ctx := ctx\<rparr>))"

definition GetLocalFullMetaCapsInfo :: "('s, 'j) config \<Rightarrow> bool \<Rightarrow> 's fwk \<Rightarrow> string \<times> 's fwk" where
  "GetLocalFullMetaCapsInfo C isSyncMeta w =
    (case GetDeviceInfo (c_P C) (fw_ctx w) of
       (info, ctx) \<Rightarrow>
         let metaCaps = GetMetaCapInfosByUdidHash (di_udidHash info) (fw_meta w);
             capsRsp = FullCapsRsp_default\<lparr>fr_networkId := GetLocalNetworkId (c_P C), fr_metaCaps := metaCaps\<rparr>
         in (case cJSON_CreateObject (c_J C) of
               None \<Rightarrow> []
             | Some rootObj \<Rightarrow>
                 (case cJSON_PrintUnformatted (c_J C) (FullCapsRsp_ToJson (c_J C) rootObj capsRsp isSyncMeta) of
                    None \<Rightarrow> [] | Some fullMetaInfo \<Rightarrow> fullMetaInfo),
             w\<lparr>fw_ctx := ctx\<rparr>))"

definition GetAndSendLocalFullCaps :: "('s, 'j, 'z) tconfig \<Rightarrow> string \<Rightarrow> bool \<Rightarrow> 's comm \<Rightarrow> 's comm option" where
  "GetAndSendLocalFullCaps T reqNetworkId isSyncMeta c =
    (case co_transport c of
       None \<Rightarrow> Some c
     | Some t \<Rightarrow>
        (case (if isSyncMeta then GetLocalFullMetaCapsInfo (tc_C T) isSyncMeta (co_fwk c)
               else GetLocalFullCapsInfo (tc_C T) isSyncMeta (co_fwk c)) of
           (localFullInfo, w1) \<Rightarrow>
             let c1 = c\<lparr>co_fwk := w1\<rparr> in
             if localFullInfo = [] then Some c1
             else
               let commMsg = CommMsg_default\<lparr>msg_code := DH_COMM_RSP_FULL_CAPS, msg_msg := localFullInfo,
                               msg_isSyncMeta := True\<rparr>;
                   payload = GetCommMsgString (c_J (tc_C T)) commMsg
               in (case Send T reqNetworkId payload t (co_fwk c1) of
                     None \<Rightarrow> None
                   | Some (ret, w2) \<Rightarrow> Some (c1\<lparr>co_fwk := w2\<rparr>))))"

section \<open>Responses\<close>

definition SplitString :: "string \<Rightarrow> string" where
  "SplitString capInfoPrefix =
    (case str_find RESOURCE_SEPARATOR capInfoPrefix of None \<Rightarrow> [] | Some pos \<Rightarrow> take pos capInfoPrefix)"

definition IsSaveRemoteDHCaps ::
    "('s, 'j) config \<Rightarrow> FullCapsRsp \<Rightarrow> bool \<Rightarrow> string \<Rightarrow> 's fwk \<Rightarrow> bool \<times> 's fwk" where
  "IsSaveRemoteDHCaps C capsRsp isSyncMeta realNetworkId w =
    (if isSyncMeta then
       (let remoteUuid = GetUUIDByNetworkId realNetworkId (fw_ctx w);
            remoteUdidHash = GetUdidHashIdByUUID remoteUuid (fw_ctx w)
        in if remoteUdidHash = [] then (False, w)
           else if list_ex (\<lambda>c. remoteUdidHash \<noteq> SplitString (MetaCapabilityInfo_GetKey c)) (fr_metaCaps capsRsp)
           then (False, w)
           else (True, snd (AddMetaCapInfos C (map Some (fr_metaCaps capsRsp)) w)))
     else
       (let remoteDeviceId = GetDeviceIdByNetworkId realNetworkId (fw_ctx w)
        in if remoteDeviceId = [] then (False, w)
           else if list_ex (\<lambda>c. remoteDeviceId \<noteq> SplitString (CapabilityInfo_GetKey c)) (fr_caps capsRsp)
           then (False, w)
           else (True, snd (Local_AddCapability C (map Some (fr_caps capsRsp)) w))))"

definition ParseAndSaveRemoteDHCaps ::
    "('s, 'j) config \<Rightarrow> string \<Rightarrow> bool \<Rightarrow> string \<Rightarrow> 's fwk \<Rightarrow> FullCapsRsp \<times> 's fwk" where
  "ParseAndSaveRemoteDHCaps C remoteCaps isSyncMeta realNetworkId w =
    (case cJSON_Parse (c_J C) (c_str remoteCaps) of
       None \<Rightarrow> (FullCapsRsp_default, w)
     | Some rootObj \<Rightarrow>
         let capsRsp = FullCapsRsp_FromJson (c_J C) rootObj FullCapsRsp_default isSyncMeta in
         if \<not> IsRequestSyncData realNetworkId w then (FullCapsRsp_default, w)
         else case IsSaveRemoteDHCaps C capsRsp isSyncMeta realNetworkId w of
           (saved, w1) \<Rightarrow> if \<not> saved then (FullCapsRsp_default, w1) else (capsRsp, w1))"

definition caps_descriptors :: "FullCapsRsp \<Rightarrow> bool \<Rightarrow> DHDescriptor list" where
  "caps_descriptors capsRsp isSyncMeta =
    (if isSyncMeta
     then map (\<lambda>c. \<lparr>dd_id = ci_dhId c, dd_dhType = ci_dhType c, dd_customParams = [], dd_firstCallingTokenId = 0\<rparr>)
            (fr_metaCaps capsRsp)
     else map (\<lambda>c. \<lparr>dd_id = ci_dhId c, dd_dhType = ci_dhType c, dd_customParams = [], dd_firstCallingTokenId = 0\<rparr>)
            (fr_caps capsRsp))"

definition ProcessFullCapsRsp :: "FullCapsRsp \<Rightarrow> bool \<Rightarrow> string \<Rightarrow> 's comm \<Rightarrow> 's comm" where
  "ProcessFullCapsRsp capsRsp isSyncMeta realNetworkId c =
    (if realNetworkId = [] then c
     else case co_transport c of
       None \<Rightarrow> c
     | Some t \<Rightarrow>
        (case StopSocket realNetworkId t (co_fwk c) of
           (ret, t1, w1) \<Rightarrow>
             c\<lparr>co_transport := Some t1,
               co_fwk := OnGetDescriptors realNetworkId (caps_descriptors capsRsp isSyncMeta) w1\<rparr>))"

section \<open>The event handler\<close>

definition CommTool_ProcessEvent :: "('s, 'j, 'z) tconfig \<Rightarrow> CommMsg \<Rightarrow> 's comm \<Rightarrow> 's comm option" where
  "CommTool_ProcessEvent T m c =
    (let eventId = (word_of_int (msg_code m) :: 32 word) in
     if eventId = word_of_int DH_COMM_REQ_FULL_CAPS then GetAndSendLocalFullCaps T (msg_msg m) (msg_isSyncMeta m) c
     else if eventId = word_of_int DH_COMM_RSP_FULL_CAPS then
       (case ParseAndSaveRemoteDHCaps (tc_C T) (msg_msg m) (msg_isSyncMeta m) (msg_realNetworkId m) (co_fwk c) of
          (capsRsp, w1) \<Rightarrow>
            Some (ProcessFullCapsRsp capsRsp (msg_isSyncMeta m) (msg_realNetworkId m) (c\<lparr>co_fwk := w1\<rparr>)))
     else Some c)"

definition CommTool_turn :: "('s, 'j, 'z) tconfig \<Rightarrow> 's comm \<Rightarrow> 's comm option" where
  "CommTool_turn T c =
    (case co_events c of [] \<Rightarrow> Some c | m # rest \<Rightarrow> CommTool_ProcessEvent T m (c\<lparr>co_events := rest\<rparr>))"

end
