(* ===== verification/Transport_Properties.thy ===== *)
theory Transport_Properties
  imports Comm_Tool Json_Laws
begin

text \<open>
  Properties of the transport between devices: what a response may change, how a session is opened and
  closed, that a message that was sent is received as it was, and which messages pass the access check.
\<close>

section \<open>Responses\<close>

lemma str_find_Some: "str_find p s = Some n \<Longrightarrow> starts_with (take n s @ p) s"
proof (induction p s arbitrary: n rule: str_find.induct)
  case (1 p)
  then show ?case by (auto simp: starts_with_def split: if_splits)
next
  case (2 p c s)
  then show ?case by (cases "starts_with p (c # s)") (auto simp: starts_with_def)
qed

lemma SplitString_prefix: "SplitString key = d \<Longrightarrow> d \<noteq> [] \<Longrightarrow> starts_with (d @ RESOURCE_SEPARATOR) key"
  by (auto simp: SplitString_def dest: str_find_Some split: option.splits)

definition same_rest :: "'s fwk \<Rightarrow> 's fwk \<Rightarrow> bool" where
  "same_rest w w1 = (fw_cap w1 = fw_cap w \<and> fw_cm w1 = fw_cm w)"

lemma same_rest_simps [simp]: "same_rest w w" "same_rest w (upd_local f w1) = same_rest w w1"
    "same_rest w (upd_meta g w1) = same_rest w w1"
  by (simp_all add: same_rest_def upd_local_def upd_meta_def)

lemma same_rest_trans: "same_rest w w1 \<Longrightarrow> same_rest w1 w2 \<Longrightarrow> same_rest w w2"
  by (simp add: same_rest_def)

lemma PutDataBatch_rest:
  "DB_PutDataBatch C d ks vs w = (r, w1) \<Longrightarrow> same_rest w w1 \<and> fw_local w1 = fw_local w \<and> fw_meta w1 = fw_meta w"
  by (auto simp: DB_PutDataBatch_def same_rest_def split: prod.splits if_splits)

lemma GetDataByKey_rest:
  "DB_GetDataByKey C d k v w = (r, x, w1) \<Longrightarrow> same_rest w w1 \<and> fw_local w1 = fw_local w \<and> fw_meta w1 = fw_meta w"
  by (auto simp: DB_GetDataByKey_def sync_on_miss_def SyncByNotFound_def GetNetworkIdByKey_def Let_def same_rest_def
      split: prod.splits if_splits)

text \<open>Two caches that differ under some keys only.\<close>

definition differ_at :: "(string \<Rightarrow> bool) \<Rightarrow> (string, 'v) omap \<Rightarrow> (string, 'v) omap \<Rightarrow> bool" where
  "differ_at Q m m1 = (\<forall>k. om_get m1 k \<noteq> om_get m k \<longrightarrow> Q k)"

lemma differ_at_simps [simp]: "differ_at Q m m"
  by (simp add: differ_at_def)

lemma differ_at_put: "Q k \<Longrightarrow> differ_at Q (om_put k c m) m1 \<Longrightarrow> differ_at Q m m1"
  by (fastforce simp: differ_at_def split: if_splits)

lemma Local_add_loop_rest:
  "Local_add_loop C cs keys vs w = (keys1, vs1, w1) \<Longrightarrow> \<forall>c. Some c \<in> set cs \<longrightarrow> Q (CapabilityInfo_GetKey c) \<Longrightarrow>
   same_rest w w1 \<and> fw_meta w1 = fw_meta w
     \<and> differ_at Q (cim_globalCapInfoMap (fw_local w)) (cim_globalCapInfoMap (fw_local w1))"
proof (induction C cs keys vs w arbitrary: keys1 vs1 w1 rule: Local_add_loop.induct)
  case (3 C c rest keys vs w)
  have Q: "Q (CapabilityInfo_GetKey c)" using 3(3) by simp
  let ?w = "upd_local (cap_put (CapabilityInfo_GetKey c) c) w"
  have "same_rest ?w w1 \<and> fw_meta w1 = fw_meta ?w
     \<and> differ_at Q (cim_globalCapInfoMap (fw_local ?w)) (cim_globalCapInfoMap (fw_local w1))"
    using 3 by simp
  then show ?case using differ_at_put[of Q, OF Q] by (auto simp: upd_local_def cap_put_def same_rest_def)
qed simp_all

lemma Local_AddCapability_rest:
  assumes "Local_AddCapability C cs w = (r, w1)" "\<forall>c. Some c \<in> set cs \<longrightarrow> Q (CapabilityInfo_GetKey c)"
  shows "same_rest w w1 \<and> fw_meta w1 = fw_meta w
     \<and> differ_at Q (cim_globalCapInfoMap (fw_local w)) (cim_globalCapInfoMap (fw_local w1))"
  using assms Local_add_loop_rest[of C cs "[]" "[]" w _ _ _ Q]
  by (fastforce simp: Local_AddCapability_def dest!: PutDataBatch_rest intro: same_rest_trans split: if_splits option.splits prod.splits)

lemma Meta_add_loop_rest:
  "Meta_add_loop C d cs keys vs data w = (keys1, vs1, w1) \<Longrightarrow> \<forall>c. Some c \<in> set cs \<longrightarrow> Q (MetaCapabilityInfo_GetKey c) \<Longrightarrow>
   same_rest w w1 \<and> fw_local w1 = fw_local w
     \<and> differ_at Q (mim_globalMetaInfoMap (fw_meta w)) (mim_globalMetaInfoMap (fw_meta w1))"
proof (induction cs arbitrary: keys vs data w)
  case (Cons x rest)
  show ?case
  proof (cases x)
    case None
    then show ?thesis using Cons by simp
  next
    case (Some c)
    have Q: "Q (MetaCapabilityInfo_GetKey c)" using Cons.prems Some by simp
    let ?w = "upd_meta (meta_put (MetaCapabilityInfo_GetKey c) c) w"
    obtain r data1 w2 where G: "DB_GetDataByKey C d (MetaCapabilityInfo_GetKey c) data ?w = (r, data1, w2)" by (rule prod_cases3)
    obtain keys2 vs2 where L: "Meta_add_loop C d rest keys2 vs2 data1 w2 = (keys1, vs1, w1)"
      using Cons.prems(1) by (auto simp: Some Let_def G split: if_splits)
    note g = GetDataByKey_rest[OF G]
    have "same_rest w2 w1 \<and> fw_local w1 = fw_local w2
       \<and> differ_at Q (mim_globalMetaInfoMap (fw_meta w2)) (mim_globalMetaInfoMap (fw_meta w1))"
      using Cons.IH[OF L] Cons.prems(2) by simp
    then show ?thesis using g differ_at_put[of Q, OF Q] by (auto simp: upd_meta_def meta_put_def same_rest_def)
  qed
qed simp

lemma AddMetaCapInfos_rest:
  assumes "AddMetaCapInfos C cs w = (r, w1)" "\<forall>c. Some c \<in> set cs \<longrightarrow> Q (MetaCapabilityInfo_GetKey c)"
  shows "same_rest w w1 \<and> fw_local w1 = fw_local w
     \<and> differ_at Q (mim_globalMetaInfoMap (fw_meta w)) (mim_globalMetaInfoMap (fw_meta w1))"
  using assms Meta_add_loop_rest[of C _ cs "[]" "[]" "[]" w _ _ _ Q]
  by (fastforce simp: AddMetaCapInfos_def dest!: PutDataBatch_rest intro: same_rest_trans split: if_splits option.splits prod.splits)

text \<open>What a response of a device may change.\<close>

definition trusted_change :: "bool \<Rightarrow> string \<Rightarrow> 's fwk \<Rightarrow> 's fwk \<Rightarrow> bool" where
  "trusted_change isSyncMeta net w w1 =
    (let dev = GetDeviceIdByNetworkId net (fw_ctx w); hash = GetUdidHashIdByUUID (GetUUIDByNetworkId net (fw_ctx w)) (fw_ctx w) in
     differ_at (\<lambda>k. \<not> isSyncMeta \<and> dev \<noteq> [] \<and> starts_with (dev @ RESOURCE_SEPARATOR) k)
       (cim_globalCapInfoMap (fw_local w)) (cim_globalCapInfoMap (fw_local w1))
     \<and> differ_at (\<lambda>k. isSyncMeta \<and> hash \<noteq> [] \<and> starts_with (hash @ RESOURCE_SEPARATOR) k)
       (mim_globalMetaInfoMap (fw_meta w)) (mim_globalMetaInfoMap (fw_meta w1))
     \<and> fw_cap w1 = fw_cap w)"

lemma IsSave_trusted:
  assumes "IsSaveRemoteDHCaps C capsRsp isSyncMeta net w = (saved, w1)"
  shows "trusted_change isSyncMeta net w w1 \<and> fw_cm w1 = fw_cm w \<and> (\<not> saved \<longrightarrow> w1 = w)"
proof (cases isSyncMeta)
  case True
  let ?hash = "GetUdidHashIdByUUID (GetUUIDByNetworkId net (fw_ctx w)) (fw_ctx w)"
  let ?ok = "?hash \<noteq> [] \<and> (\<forall>c\<in>set (fr_metaCaps capsRsp). ?hash = SplitString (MetaCapabilityInfo_GetKey c))"
  show ?thesis
  proof (cases ?ok)
    case ok: True
    obtain r where A: "AddMetaCapInfos C (map Some (fr_metaCaps capsRsp)) w = (r, w1)" "saved"
      using assms True ok by (cases "AddMetaCapInfos C (map Some (fr_metaCaps capsRsp)) w") (auto simp: IsSaveRemoteDHCaps_def list_ex_iff Let_def)
    have "\<forall>c. Some c \<in> set (map Some (fr_metaCaps capsRsp)) \<longrightarrow> starts_with (?hash @ RESOURCE_SEPARATOR) (MetaCapabilityInfo_GetKey c)"
      using ok by (auto intro!: SplitString_prefix)
    from AddMetaCapInfos_rest[OF A(1) this] show ?thesis using A ok True
      by (auto simp: trusted_change_def same_rest_def Let_def)
  next
    case False
    then have "w1 = w" using assms True by (auto simp: IsSaveRemoteDHCaps_def list_ex_iff Let_def split: if_splits)
    then show ?thesis by (simp add: trusted_change_def Let_def)
  qed
next
  case False
  let ?dev = "GetDeviceIdByNetworkId net (fw_ctx w)"
  let ?ok = "?dev \<noteq> [] \<and> (\<forall>c\<in>set (fr_caps capsRsp). ?dev = SplitString (CapabilityInfo_GetKey c))"
  show ?thesis
  proof (cases ?ok)
    case ok: True
    obtain r where A: "Local_AddCapability C (map Some (fr_caps capsRsp)) w = (r, w1)" "saved"
      using assms False ok by (cases "Local_AddCapability C (map Some (fr_caps capsRsp)) w") (auto simp: IsSaveRemoteDHCaps_def list_ex_iff Let_def)
    have "\<forall>c. Some c \<in> set (map Some (fr_caps capsRsp)) \<longrightarrow> starts_with (?dev @ RESOURCE_SEPARATOR) (CapabilityInfo_GetKey c)"
      using ok by (auto intro!: SplitString_prefix)
    from Local_AddCapability_rest[OF A(1) this] show ?thesis using A ok False
      by (auto simp: trusted_change_def same_rest_def Let_def)
  next
    case notok: False
    then have "w1 = w" using assms False by (auto simp: IsSaveRemoteDHCaps_def list_ex_iff Let_def split: if_splits)
    then show ?thesis by (simp add: trusted_change_def Let_def)
  qed
qed

lemma notify_callbacks_rest:
  "\<exists>tr. notify_callbacks net r cbs w = w\<lparr>fw_trace := tr\<rparr>"
proof (induction cbs arbitrary: w)
  case Nil
  show ?case by (rule exI[of _ "fw_trace w"]) (simp add: notify_callbacks_def)
next
  case (Cons cb cbs)
  let ?w = "case cb of None \<Rightarrow> w | Some n \<Rightarrow> call_void (EC_OnGetDescriptors n net r) w"
  have "\<exists>tr. ?w = w\<lparr>fw_trace := tr\<rparr>"
    by (cases cb) (auto simp: call_void_def intro: exI[of _ "fw_trace w"])
  then obtain tr where w: "?w = w\<lparr>fw_trace := tr\<rparr>" ..
  have "notify_callbacks net r (cb # cbs) w = notify_callbacks net r cbs (w\<lparr>fw_trace := tr\<rparr>)"
    using w by (simp add: notify_callbacks_def)
  then show ?case using Cons.IH[of "w\<lparr>fw_trace := tr\<rparr>"] by simp
qed

lemma OnGetDescriptors_rest:
  "fw_local (OnGetDescriptors net ds w) = fw_local w \<and> fw_meta (OnGetDescriptors net ds w) = fw_meta w
    \<and> fw_cap (OnGetDescriptors net ds w) = fw_cap w \<and> (ds = [] \<longrightarrow> OnGetDescriptors net ds w = w)"
proof (cases "om_get (cm_syncDeviceInfoMap (fw_cm w)) net")
  case (Some x)
  obtain step cbs where x: "x = (step, cbs)" by (cases x)
  obtain tr where n: "notify_callbacks net (Inr (ds, step)) cbs w = w\<lparr>fw_trace := tr\<rparr>"
    using notify_callbacks_rest by blast
  show ?thesis by (simp add: OnGetDescriptors_def Some x n upd_cm_def call_void_def Let_def)
qed (simp add: OnGetDescriptors_def)

lemma ParseAndSave_trusted:
  assumes "ParseAndSaveRemoteDHCaps C text isSyncMeta net w = (r, w1)"
  shows "trusted_change isSyncMeta net w w1 \<and> fw_cm w1 = fw_cm w
    \<and> (\<not> IsRequestSyncData net w \<longrightarrow> r = FullCapsRsp_default \<and> w1 = w)"
proof -
  have same: "trusted_change isSyncMeta net w w" by (simp add: trusted_change_def Let_def)
  show ?thesis using assms same
    by (auto simp: ParseAndSaveRemoteDHCaps_def Let_def dest: IsSave_trusted split: option.splits if_splits prod.splits)
qed

text \<open>
  C7: a response of another device, whatever it holds, is handled to the end and changes the stored
  capabilities only under keys that begin with the identifier this device knows for the sender, and the
  meta capabilities only under the hash of the sender's udid; the capabilities of the other kind and the
  global cache stay, a response that was not asked for changes nothing of all this and wakes no request,
  and the session to the sender is closed.
\<close>

theorem response_event:
  "\<exists>c1. CommTool_ProcessEvent T (m\<lparr>msg_code := DH_COMM_RSP_FULL_CAPS\<rparr>) c = Some c1
    \<and> trusted_change (msg_isSyncMeta m) (msg_realNetworkId m) (co_fwk c) (co_fwk c1)
    \<and> (\<not> IsRequestSyncData (msg_realNetworkId m) (co_fwk c) \<longrightarrow>
         fw_local (co_fwk c1) = fw_local (co_fwk c) \<and> fw_meta (co_fwk c1) = fw_meta (co_fwk c)
         \<and> fw_cm (co_fwk c1) = fw_cm (co_fwk c))
    \<and> (\<forall>t. co_transport c = Some t \<and> msg_realNetworkId m \<noteq> [] \<longrightarrow>
         (\<exists>t1. co_transport c1 = Some t1 \<and> IsDeviceSessionOpened (msg_realNetworkId m) t1 = None))"
proof -
  let ?net = "msg_realNetworkId m"
  obtain r w1 where P: "ParseAndSaveRemoteDHCaps (tc_C T) (msg_msg m) (msg_isSyncMeta m) ?net (co_fwk c) = (r, w1)"
    by (cases "ParseAndSaveRemoteDHCaps (tc_C T) (msg_msg m) (msg_isSyncMeta m) ?net (co_fwk c)")
  note p = ParseAndSave_trusted[OF P]
  define c1 where "c1 = ProcessFullCapsRsp r (msg_isSyncMeta m) ?net (c\<lparr>co_fwk := w1\<rparr>)"
  have ev: "CommTool_ProcessEvent T (m\<lparr>msg_code := DH_COMM_RSP_FULL_CAPS\<rparr>) c = Some c1"
    by (simp add: CommTool_ProcessEvent_def P c1_def)
  show ?thesis
  proof (cases "?net = [] \<or> co_transport c = None")
    case True
    then have "c1 = c\<lparr>co_fwk := w1\<rparr>" by (auto simp: c1_def ProcessFullCapsRsp_def)
    then show ?thesis using ev p True by auto
  next
    case False
    then obtain t where t: "co_transport c = Some t" "?net \<noteq> []" by auto
    obtain ret t1 w2 where S: "StopSocket ?net t w1 = (ret, t1, w2)" by (rule prod_cases3)
    have w2: "fw_local w2 = fw_local w1" "fw_meta w2 = fw_meta w1" "fw_cap w2 = fw_cap w1" "fw_cm w2 = fw_cm w1"
      "IsDeviceSessionOpened ?net t1 = None"
      using S by (auto simp: StopSocket_def call_void_def IsDeviceSessionOpened_def ClearDeviceSocketOpened_def
          split: if_splits option.splits)
    have c1: "co_transport c1 = Some t1" "co_fwk c1 = OnGetDescriptors ?net (caps_descriptors r (msg_isSyncMeta m)) w2"
      using t S by (simp_all add: c1_def ProcessFullCapsRsp_def)
    note g = OnGetDescriptors_rest[of ?net "caps_descriptors r (msg_isSyncMeta m)" w2]
    have tr: "trusted_change (msg_isSyncMeta m) ?net (co_fwk c) (co_fwk c1)"
      using p g w2 c1 by (simp add: trusted_change_def Let_def)
    have "caps_descriptors FullCapsRsp_default (msg_isSyncMeta m) = []"
      by (simp add: caps_descriptors_def FullCapsRsp_default_def)
    then have "\<not> IsRequestSyncData ?net (co_fwk c) \<longrightarrow>
         fw_local (co_fwk c1) = fw_local (co_fwk c) \<and> fw_meta (co_fwk c1) = fw_meta (co_fwk c)
         \<and> fw_cm (co_fwk c1) = fw_cm (co_fwk c)"
      using p g w2 c1 by auto
    then show ?thesis using ev tr c1 w2(5) by auto
  qed
qed

section \<open>Sessions\<close>

text \<open>
  after a session with a device was started it is open under one socket, starting it again does
  nothing, and stopping it shuts down that socket, and no other; after that nothing can be sent to the
  device, and the sessions of the other devices are as they were.
\<close>

theorem session_roundtrip:
  assumes "StartSocket C net t w = (DH_FWK_SUCCESS, t1, w1)" "c_str net = net"
  shows "\<exists>s t2 w2. IsDeviceSessionOpened net t1 = Some s \<and> StartSocket C net t1 w1 = (DH_FWK_SUCCESS, t1, w1)
    \<and> StopSocket net t1 w1 = (DH_FWK_SUCCESS, t2, w2) \<and> fw_trace w2 = EC_Shutdown s # fw_trace w1
    \<and> IsDeviceSessionOpened net t2 = None
    \<and> (\<forall>payload. Send T net payload t2 w2 = Some (if IsMessageLengthValid payload
          then ERR_DH_FWK_COMPONENT_TRANSPORT_OPT_FAILED else ERR_DH_FWK_PARA_INVALID, w2))
    \<and> (\<forall>other. other \<noteq> net \<longrightarrow> IsDeviceSessionOpened other t2 = IsDeviceSessionOpened other t)"
proof -
  have n: "IsIdLengthValid net" using assms(1) by (auto simp: StartSocket_def split: if_splits)
  obtain s where s: "IsDeviceSessionOpened net t1 = Some s"
    and o: "\<forall>other. other \<noteq> net \<longrightarrow> IsDeviceSessionOpened other t1 = IsDeviceSessionOpened other t"
    using assms n by (auto simp: StartSocket_def OnSocketOpened_def IsDeviceSessionOpened_def split: if_splits prod.splits)
  let ?t2 = "ClearDeviceSocketOpened net t1"
  have c: "IsDeviceSessionOpened net ?t2 = None"
    "\<forall>other. other \<noteq> net \<longrightarrow> IsDeviceSessionOpened other ?t2 = IsDeviceSessionOpened other t"
    using n o by (auto simp: ClearDeviceSocketOpened_def IsDeviceSessionOpened_def)
  show ?thesis
    by (rule exI[of _ s], rule exI[of _ ?t2], rule exI[of _ "call_void (EC_Shutdown s) w1"])
      (use n s c in \<open>simp add: StopSocket_def StartSocket_def Send_def call_void_def\<close>)
qed

section \<open>Messages\<close>

text \<open>A message whose numbers fit an \<open>int\<close> and whose texts contain no zero byte.\<close>

definition msg_fits :: "CommMsg \<Rightarrow> bool" where
  "msg_fits m = (- 2147483648 \<le> msg_code m \<and> msg_code m < 2147483648 \<and> - 2147483648 \<le> msg_userId m
     \<and> msg_userId m < 2147483648 \<and> unat (msg_tokenId m) < 2147483648 \<and> c_str (msg_msg m) = msg_msg m
     \<and> c_str (msg_accountId m) = msg_accountId m)"

definition msg_members :: "CommMsg \<Rightarrow> jmember list" where
  "msg_members m = [MNum COMM_MSG_CODE_KEY (msg_code m), MNum COMM_MSG_USERID_KEY (msg_userId m),
     MNum COMM_MSG_TOKENID_KEY (int (unat (msg_tokenId m))), MStr COMM_MSG_MSG_KEY (msg_msg m),
     MStr COMM_MSG_ACCOUNTID_KEY (msg_accountId m), MBool COMM_MSG_SYNC_META_KEY (msg_isSyncMeta m)]"

lemma to_double_small: "unat w < 2147483648 \<Longrightarrow> to_double w = of_int (int (unat w))"
proof -
  assume a: "unat w < 2147483648"
  have "floorlog 2 (unat w) \<le> 53" by (rule floorlog_leI) (use a in simp_all)
  then show ?thesis by (simp add: to_double_def Let_def del: of_nat_unat)
qed

lemma CommMsg_ToJson_members: "msg_fits m \<Longrightarrow> CommMsg_ToJson J x0 m = foldl (jadd J) x0 (msg_members m)"
  by (simp add: CommMsg_ToJson_def msg_members_def jadd_def msg_fits_def to_double_small del: of_nat_unat)

lemma at_item:
  "str_at J x k = Some v \<Longrightarrow> \<exists>j. cJSON_GetObjectItem J x k = Some j \<and> cJSON_IsString J j \<and> cj_valuestring J j = v"
  "num_at J x k = Some n \<Longrightarrow> \<exists>j. cJSON_GetObjectItem J x k = Some j \<and> cJSON_IsNumber J j \<and> cj_valueint J j = n"
  "bool_at J x k = Some b \<Longrightarrow> \<exists>j. cJSON_GetObjectItem J x k = Some j \<and> cJSON_IsBool J j \<and> cJSON_IsTrue J j = b"
  by (auto simp: str_at_def num_at_def bool_at_def split: option.splits if_splits)

lemma CommMsg_roundtrip:
  assumes "cJSON_laws J" "GetCommMsgString J m = s" "s \<noteq> []" "msg_fits m"
  shows "c_str s = s \<and> (\<exists>y. cJSON_Parse J s = Some y
    \<and> CommMsg_FromJson J y CommMsg_default = m\<lparr>msg_realNetworkId := []\<rparr>)"
proof -
  obtain x0 where x0: "cJSON_CreateObject J = Some x0"
    and p: "cJSON_PrintUnformatted J (CommMsg_ToJson J x0 m) = Some s"
    using assms(2,3) by (auto simp: GetCommMsgString_def split: option.splits)
  obtain y where y: "c_str s = s" "cJSON_Parse J s = Some y"
    and v: "\<And>k. ident k \<Longrightarrow> str_at J y k = str_at J (CommMsg_ToJson J x0 m) k
      \<and> num_at J y k = num_at J (CommMsg_ToJson J x0 m) k \<and> bool_at J y k = bool_at J (CommMsg_ToJson J x0 m) k"
    and b: "\<And>k j. ident k \<Longrightarrow> cJSON_GetObjectItem J y k = Some j \<Longrightarrow> cJSON_IsBool J j
      \<Longrightarrow> (cj_valueint J j \<noteq> 0) = cJSON_IsTrue J j"
    by (rule laws_print[OF assms(1) p]) blast
  have "list_all jfits (msg_members m)"
    using assms(4) by (auto simp: msg_members_def jfits_def jname_def msg_fits_def simp del: of_nat_unat)
  from jadd_all[OF assms(1) x0 this] have R: "list_all (jreads J (CommMsg_ToJson J x0 m)) (msg_members m)"
    by (simp add: CommMsg_ToJson_members[OF assms(4)] msg_members_def jname_def msg_names)
  note S = jreads_iff(1)[OF R] and N = jreads_iff(2)[OF R] and B = jreads_iff(3)[OF R]
  have at: "num_at J y COMM_MSG_CODE_KEY = Some (msg_code m)" "num_at J y COMM_MSG_USERID_KEY = Some (msg_userId m)"
    "num_at J y COMM_MSG_TOKENID_KEY = Some (int (unat (msg_tokenId m)))" "str_at J y COMM_MSG_MSG_KEY = Some (msg_msg m)"
    "str_at J y COMM_MSG_ACCOUNTID_KEY = Some (msg_accountId m)"
    "bool_at J y COMM_MSG_SYNC_META_KEY = Some (msg_isSyncMeta m)"
    using S N B v by (simp_all add: msg_members_def)
  obtain j1 where j1: "cJSON_GetObjectItem J y COMM_MSG_CODE_KEY = Some j1" "cJSON_IsNumber J j1" "cj_valueint J j1 = msg_code m"
    using at_item(2)[OF at(1)] by blast
  obtain j2 where j2: "cJSON_GetObjectItem J y COMM_MSG_USERID_KEY = Some j2" "cJSON_IsNumber J j2" "cj_valueint J j2 = msg_userId m"
    using at_item(2)[OF at(2)] by blast
  obtain j3 where j3: "cJSON_GetObjectItem J y COMM_MSG_TOKENID_KEY = Some j3" "cJSON_IsNumber J j3"
      "cj_valueint J j3 = int (unat (msg_tokenId m))"
    using at_item(2)[OF at(3)] by blast
  obtain j4 where j4: "cJSON_GetObjectItem J y COMM_MSG_MSG_KEY = Some j4" "cJSON_IsString J j4" "cj_valuestring J j4 = msg_msg m"
    using at_item(1)[OF at(4)] by blast
  obtain j5 where j5: "cJSON_GetObjectItem J y COMM_MSG_ACCOUNTID_KEY = Some j5" "cJSON_IsString J j5" "cj_valuestring J j5 = msg_accountId m"
    using at_item(1)[OF at(5)] by blast
  obtain j6 where j6: "cJSON_GetObjectItem J y COMM_MSG_SYNC_META_KEY = Some j6" "cJSON_IsBool J j6" "(cj_valueint J j6 \<noteq> 0) = msg_isSyncMeta m"
    using at_item(3)[OF at(6)] b[of COMM_MSG_SYNC_META_KEY] by auto
  have "CommMsg_FromJson J y CommMsg_default = m\<lparr>msg_realNetworkId := []\<rparr>"
    using assms(4) j1 j2 j3 j4 j5 j6
    by (simp add: CommMsg_FromJson_def IsInt32_def item_int_def msg_fits_def CommMsg_default_def Let_def)
  then show ?thesis using y by blast
qed

lemma Compress_size:
  assumes "zlib_laws Z pending" "IsMessageLengthValid payload"
  shows "length (pending (z_deflateInit Z payload)) mod 2 ^ 32 = length (pending (z_deflateInit Z payload))"
    "pending (z_deflateInit Z payload) \<noteq> []"
proof -
  let ?n = "length payload"
  have l: "0 < length (pending (z_deflateInit Z payload)) \<and> length (pending (z_deflateInit Z payload)) \<le> compressBound ?n"
    using assms(1) by (simp add: zlib_laws_def)
  have "?n \<le> 40 * 1024 * 1024" using assms(2) by (simp add: IsMessageLengthValid_def)
  moreover have "compressBound ?n \<le> 4 * ?n + 13" unfolding compressBound_def
    using div_le_dividend[of ?n "2 ^ 12"] div_le_dividend[of ?n "2 ^ 14"] div_le_dividend[of ?n "2 ^ 25"] by linarith
  ultimately show "length (pending (z_deflateInit Z payload)) mod 2 ^ 32 = length (pending (z_deflateInit Z payload))"
    using l by simp
  show "pending (z_deflateInit Z payload) \<noteq> []" using l by auto
qed

text \<open>What a device does with a message it has read.\<close>

definition accept_msg :: "('s, 'j, 'z) tconfig \<Rightarrow> CommMsg \<Rightarrow> string \<Rightarrow> 's comm \<Rightarrow> 's comm" where
  "accept_msg T m net d =
    (case (if msg_code m = DH_COMM_RSP_FULL_CAPS then (True, co_fwk d) else CheckCalleeAclRight T m (co_fwk d)) of
       (ok, w) \<Rightarrow> if ok then d\<lparr>co_fwk := w, co_events := co_events d @ [m\<lparr>msg_realNetworkId := net\<rparr>]\<rparr> else d\<lparr>co_fwk := w\<rparr>)"


text \<open>
  C25: a request passes the access check only with the consent of the device manager, asked for the
  network id, the account and the token the message claims and, where accounts are part of the system, for
  a user that is in the foreground here; except that the user minus one, which the sender puts into the
  message, passes without any question.
\<close>

theorem request_access:
  assumes "CheckCalleeAclRight T m w = (ok, w1)"
  shows "if msg_userId m = -1 then ok \<and> w1 = w
    else ok \<longrightarrow> (\<exists>callee answer. fw_trace w1 = EC_CheckSinkAccessControl
          \<lparr>ac_accountId = msg_accountId m, ac_networkId = msg_msg m, ac_userId = msg_userId m, ac_tokenId = msg_tokenId m\<rparr>
          callee # fw_trace w
        \<and> e_ret (c_E (tc_C T)) (fw_trace w) (hd (fw_trace w1)) = answer \<and> answer \<noteq> 0
        \<and> ac_networkId callee = GetLocalNetworkId (c_P (tc_C T))
        \<and> (ac_OS_ACCOUNT_PART (tc_A T) \<longrightarrow> ac_userId callee = msg_userId m
             \<and> msg_userId m \<in> set (snd (ac_GetForegroundOsAccounts (tc_A T) (fw_trace w)))))"
  using assms
  by (auto simp: CheckCalleeAclRight_def GetForegroundUserInfo_def call_ret_def Let_def list_ex_iff
      split: if_splits option.splits prod.splits)

section \<open>Witnesses\<close>

definition demo_Z :: "string zlib" where
  "demo_Z = \<lparr>z_deflateInit = (\<lambda>x. CHR ''z'' # x), z_deflate = (\<lambda>n s. (take n s, drop n s)),
     z_inflateInit = (\<lambda>x. drop 1 x), z_inflate = (\<lambda>n s. (take n s, drop n s))\<rparr>"

lemma demo_Z_laws: "zlib_laws demo_Z (\<lambda>s. s)"
  by (simp add: zlib_laws_def demo_Z_def compressBound_def)

definition demo_A :: accounts where
  "demo_A = \<lparr>ac_OS_ACCOUNT_PART = True, ac_GetForegroundOsAccounts = (\<lambda>_. (0, [100])),
     ac_QueryActiveOsAccountIds = (\<lambda>_. (0, [100])), ac_GetOhosAccountInfo = (\<lambda>_. (0, ''account'')),
     ac_GetCallingTokenID = (\<lambda>_. 7)\<rparr>"

text \<open>The device manager consents to everything, and the first socket has the number one.\<close>

definition demo_T :: "(demo_store, jval, string) tconfig" where
  "demo_T = \<lparr>tc_C = \<lparr>c_P = demo_P, c_J = flat_J, c_K = demo_K,
       c_E = demo_E\<lparr>e_ret := (\<lambda>_ e. case e of EC_CheckSinkAccessControl a b \<Rightarrow> 1 | EC_CheckSrcAccessControl a b \<Rightarrow> 1 | _ \<Rightarrow> 0)\<rparr>,
       c_rnd = (\<lambda>n. (of_nat n, 0)), c_junk = 0, c_open_source = True, c_check_resource = False\<rparr>,
     tc_A = demo_A, tc_Z = demo_Z\<rparr>"

definition demo_request :: CommMsg where
  "demo_request = \<lparr>msg_code = DH_COMM_REQ_FULL_CAPS, msg_userId = 100, msg_tokenId = 7, msg_msg = ''me'',
     msg_accountId = ''account'', msg_isSyncMeta = True, msg_realNetworkId = []\<rparr>"

definition demo_comm :: "demo_store comm" where
  "demo_comm = (comm_init demo_init)\<lparr>co_transport := Some (DHTransport_new\<lparr>ts_remoteDevSocketIds := [(''peer'', 3)]\<rparr>),
     co_eventHandler := True\<rparr>"

lemmas demo_comm_defs = demo_comm_def comm_init_def DHTransport_new_def

lemma response_event_witness:
  "\<exists>c1. CommTool_ProcessEvent demo_T (demo_request\<lparr>msg_realNetworkId := ''peer'', msg_code := DH_COMM_RSP_FULL_CAPS\<rparr>) demo_comm = Some c1
    \<and> fw_cm (co_fwk c1) = fw_cm demo_init
    \<and> (\<exists>t1. co_transport c1 = Some t1 \<and> IsDeviceSessionOpened ''peer'' t1 = None)"
proof -
  have "\<not> IsRequestSyncData ''peer'' demo_init" by code_simp
  then show ?thesis
    using response_event[of demo_T "demo_request\<lparr>msg_realNetworkId := ''peer''\<rparr>" demo_comm]
    by (auto simp: demo_comm_defs)
qed

lemma session_roundtrip_witness:
  "\<exists>t1 w1 t2 w2. StartSocket (tc_C demo_T) ''peer'' DHTransport_new demo_init = (DH_FWK_SUCCESS, t1, w1)
    \<and> StopSocket ''peer'' t1 w1 = (DH_FWK_SUCCESS, t2, w2) \<and> IsDeviceSessionOpened ''peer'' t2 = None"
proof -
  have "fst (StartSocket (tc_C demo_T) ''peer'' DHTransport_new demo_init) = DH_FWK_SUCCESS" by code_simp
  then obtain t1 w1 where S: "StartSocket (tc_C demo_T) ''peer'' DHTransport_new demo_init = (DH_FWK_SUCCESS, t1, w1)"
    by (cases "StartSocket (tc_C demo_T) ''peer'' DHTransport_new demo_init") auto
  have "c_str ''peer'' = ''peer''" by code_simp
  from session_roundtrip[OF S this] S show ?thesis by blast
qed


lemma request_access_witness:
  "case CheckCalleeAclRight demo_T demo_request demo_init of (ok, w1) \<Rightarrow>
     ok \<and> (\<exists>callee. fw_trace w1 = [EC_CheckSinkAccessControl
        \<lparr>ac_accountId = ''account'', ac_networkId = ''me'', ac_userId = 100, ac_tokenId = 7\<rparr> callee])"
proof -
  obtain ok w1 where C: "CheckCalleeAclRight demo_T demo_request demo_init = (ok, w1)" by fastforce
  have "fst (CheckCalleeAclRight demo_T demo_request demo_init)" by code_simp
  then have "ok" by (simp add: C)
  moreover have "fw_trace demo_init = []" "msg_userId demo_request = 100" "msg_accountId demo_request = ''account''"
    "msg_msg demo_request = ''me''" "msg_tokenId demo_request = 7"
    by (simp_all add: demo_init_def fwk_init_def demo_request_def)
  ultimately show ?thesis using request_access[OF C] by (auto simp: C)
qed

end
