(* ===== verification/Privacy_Properties.thy ===== *)
theory Privacy_Properties
  imports Component_Privacy Json_Laws
begin

text \<open>
  Properties of the privacy pages: the flag says whether a page is shown, and a page that is pulled up
  again while its closing is pending is closed in the end.
\<close>

section \<open>The flag\<close>

lemma page_calls_simps [simp]:
  "page_calls [] = []"
  "page_calls (EC_StartAbility ints strs # tr) = (strs \<noteq> []) # page_calls tr"
  by (simp_all add: page_calls_def map_filter_simps)

lemma insert_event_sorted: "sorted (map fst xs) \<Longrightarrow> sorted (map fst (insert_event e xs)) \<and> set (insert_event e xs) = insert e (set xs)"
  by (induction xs) (auto split: if_splits)

definition event_sent :: "'j ComponentPrivacy \<Rightarrow> 'j ComponentPrivacy \<Rightarrow> bool" where
  "event_sent p p1 = (p1 = p \<or> (\<exists>e obj d. p1 = SendEvent e obj d p))"

lemma message_sends:
  assumes "OnPrivaceResourceMessage C ty subtype networkId s a p = (r, s1, a1, p1)"
  shows "event_sent p p1"
proof (cases ty)
  case EVENT_TYPE_PULL_UP_PAGE
  then show ?thesis using assms
    by (auto simp: OnPrivaceResourceMessage_def event_sent_def HandlePullUpPage_def Let_def split: if_splits option.splits)
next
  case EVENT_TYPE_CLOSE_PAGE
  then show ?thesis using assms
    by (auto simp: OnPrivaceResourceMessage_def event_sent_def HandleClosePage_def Let_def split: if_splits option.splits)
qed (use assms in \<open>auto simp: OnPrivaceResourceMessage_def event_sent_def split: prod.splits\<close>)

text \<open>One event calls the ability manager at most once, and leaves the other events.\<close>

definition shows_or_closes :: "'j ComponentPrivacy \<Rightarrow> 's fwk \<Rightarrow> 'j ComponentPrivacy \<Rightarrow> 's fwk \<Rightarrow> bool" where
  "shows_or_closes p w p1 w1 = (pv_events p1 = pv_events p
     \<and> (fw_trace w1 = fw_trace w \<and> GetPageFlag p1 = GetPageFlag p
        \<or> (\<exists>ints strs. fw_trace w1 = EC_StartAbility ints strs # fw_trace w \<and> GetPageFlag p1 = (strs \<noteq> []))))"

lemma shows_or_closes_refl [simp]: "shows_or_closes p w p w"
  by (simp add: shows_or_closes_def)

lemma pages_call:
  "snd (StartPrivacePage V C sub n p w) = (p1, w1) \<Longrightarrow> shows_or_closes p w p1 w1"
  "snd (StopPrivacePage V C sub p w) = (p1, w1) \<Longrightarrow> shows_or_closes p w p1 w1"
  by (auto simp: StartPrivacePage_def StopPrivacePage_def shows_or_closes_def call_ret_def GetPageFlag_def
      SetPageFlagTrue_def SetPageFlagFalse_def split: if_splits prod.splits)

lemma event_calls: "Privacy_ProcessEvent V C e obj p w = (p1, w1) \<Longrightarrow> shows_or_closes p w p1 w1"
  by (cases e; cases obj)
    (auto simp: Privacy_ProcessEvent_def ProcessStartPage_def ProcessStopPage_def Let_def
      split: if_splits intro: pages_call)

lemma page_ok_event:
  assumes "page_ok tr (p, w)" "pv_events p = x # rest" "shows_or_closes (p\<lparr>pv_events := rest\<rparr>) w p1 w1"
  shows "page_ok tr (p1, w1)"
proof -
  obtain new where n: "fw_trace w = new @ tr" "GetPageFlag p = (case page_calls new of [] \<Rightarrow> False | shown # _ \<Rightarrow> shown)"
    "sorted (map fst (x # rest))"
    using assms(1,2) by (auto simp: page_ok_def)
  from assms(3) consider
    "fw_trace w1 = fw_trace w" "GetPageFlag p1 = GetPageFlag p" "pv_events p1 = rest"
  | ints strs where "fw_trace w1 = EC_StartAbility ints strs # fw_trace w" "GetPageFlag p1 = (strs \<noteq> [])" "pv_events p1 = rest"
    by (auto simp: shows_or_closes_def GetPageFlag_def)
  then show ?thesis
  proof cases
    case 1
    then show ?thesis using n by (auto simp: page_ok_def)
  next
    case (2 ints strs)
    have "fw_trace w1 = (EC_StartAbility ints strs # new) @ tr" using 2 n by simp
    then show ?thesis using 2 n unfolding page_ok_def prod.case by (intro conjI exI) (assumption | simp)+
  qed
qed

text \<open>
  C30: however messages, time and events follow each other, the flag of the page says what the last call of
  the ability manager did: it is set exactly when the last page call showed a page, and the events wait in
  the order in which they are due.
\<close>

theorem page_flag:
  assumes "privacy_reach V C (ComponentPrivacy_new, w) x"
  shows "page_ok (fw_trace w) x"
  using assms
proof (induction rule: privacy_reach.induct)
  case reach_start
  show ?case by (simp add: page_ok_def ComponentPrivacy_new_def GetPageFlag_def)
next
  case (reach_next x y)
  from reach_next.hyps(2) reach_next.IH show ?case
  proof (cases rule: privacy_step.cases)
    case (step_message ty subtype networkId s a p r s1 a1 p1 w')
    then show ?thesis using reach_next.IH message_sends[OF step_message(3)] insert_event_sorted[THEN conjunct1, of "pv_events p"]
      by (auto simp: page_ok_def event_sent_def SendEvent_def GetPageFlag_def)
  next
    case (step_time p n w')
    then show ?thesis using reach_next.IH by (auto simp: page_ok_def GetPageFlag_def)
  next
    case (step_event p due e obj rest w')
    obtain p1 w1 where E: "Privacy_ProcessEvent V C e obj (p\<lparr>pv_events := rest\<rparr>) w' = (p1, w1)" by fastforce
    show ?thesis using step_event reach_next.IH page_ok_event[OF _ step_event(3) event_calls[OF E]] E by simp
  qed
qed

definition demo_V :: privacy_env where
  "demo_V = \<lparr>pe_DEVICE_TYPE_WIFI_CAMERA = 8, pe_DEVICE_TYPE_AUDIO = 10, pe_DEVICE_TYPE_PC = 12, pe_DEVICE_TYPE_PHONE = 14,
     pe_DEVICE_TYPE_PAD = 17, pe_DEVICE_TYPE_WATCH = 109, pe_DEVICE_TYPE_CAR = 131, pe_DEVICE_TYPE_TV = 156,
     pe_DEVICE_TYPE_SMART_DISPLAY = 2562, pe_DEVICE_TYPE_2IN1 = 2607, pe_GetDeviceInfo = (\<lambda>_ n. (n @ ''-name'', 14)),
     pe_AbilityManager = (\<lambda>_. True)\<rparr>"

definition flat_C :: "(demo_store, jval) config" where
  "flat_C = \<lparr>c_P = demo_P, c_J = flat_J, c_K = demo_K, c_E = demo_E, c_rnd = (\<lambda>n. (of_nat n, 0)), c_junk = 0,
     c_open_source = True, c_check_resource = False\<rparr>"

definition demo_pulled :: "jval ComponentPrivacy" where
  "demo_pulled = HandlePullUpPage flat_J ''mic'' ''peer'' ComponentPrivacy_new"

definition demo_shown :: "jval ComponentPrivacy \<times> demo_store fwk" where
  "demo_shown = (case pv_events demo_pulled of
     [] \<Rightarrow> (demo_pulled, demo_init)
   | (due, e, obj) # rest \<Rightarrow> Privacy_ProcessEvent demo_V flat_C e obj (demo_pulled\<lparr>pv_events := rest\<rparr>) demo_init)"

lemma demo_shown_reach: "privacy_reach demo_V flat_C (ComponentPrivacy_new, demo_init) demo_shown"
proof -
  have "OnPrivaceResourceMessage flat_C EVENT_TYPE_PULL_UP_PAGE ''mic'' ''peer'' False False ComponentPrivacy_new
      = (DH_FWK_SUCCESS, False, False, demo_pulled)"
    by (simp add: OnPrivaceResourceMessage_def demo_pulled_def flat_C_def)
  from reach_next[OF reach_start step_message[OF this]]
  have 1: "privacy_reach demo_V flat_C (ComponentPrivacy_new, demo_init) (demo_pulled, demo_init)" .
  obtain due e obj rest where ev: "pv_events demo_pulled = (due, e, obj) # rest" "due = pv_now demo_pulled"
    by (simp add: demo_pulled_def HandlePullUpPage_def IsIdLengthValid_def ComponentPrivacy_new_def flat_J_def Let_def SendEvent_def)
  from reach_next[OF 1 step_event[OF ev(1)]] show ?thesis using ev by (simp add: demo_shown_def)
qed

lemma page_flag_witness: "page_ok (fw_trace demo_init) demo_shown \<and> GetPageFlag (fst demo_shown)"
proof -
  have "GetPageFlag (fst demo_shown)" by code_simp
  with page_flag[OF demo_shown_reach] show ?thesis by simp
qed

section \<open>A close that comes late\<close>

definition privacy_object :: "'j cJSON \<Rightarrow> jmember list \<Rightarrow> 'j list \<Rightarrow> bool" where
  "privacy_object J ms obj = (\<exists>x rest. obj = x # rest \<and> list_all (jreads J x) ms)"

definition text_fits :: "string \<Rightarrow> bool" where
  "text_fits s = (0 < length s \<and> length s \<le> MAX_MESSAGE_LEN)"

lemma names_differ: "PRIVACY_NETWORKID \<noteq> PRIVACY_SUBTYPE"
  by (simp add: PRIVACY_NETWORKID_def PRIVACY_SUBTYPE_def)

lemma object_members:
  assumes "cJSON_laws J" "cJSON_CreateObject J = Some x0"
  shows "list_all (jreads J (cJSON_AddStringToObject J x0 PRIVACY_SUBTYPE a)) [MStr PRIVACY_SUBTYPE a]"
    "list_all (jreads J (cJSON_AddStringToObject J (cJSON_AddStringToObject J x0 PRIVACY_SUBTYPE a) PRIVACY_NETWORKID b))
       [MStr PRIVACY_SUBTYPE a, MStr PRIVACY_NETWORKID b]"
  using jadd_all[OF assms, of "[MStr PRIVACY_SUBTYPE a]"] jadd_all[OF assms, of "[MStr PRIVACY_SUBTYPE a, MStr PRIVACY_NETWORKID b]"]
    names_differ
  by (auto simp: jadd_def jfits_def jname_def)

lemma start_event:
  assumes "privacy_object J [MStr PRIVACY_SUBTYPE sub, MStr PRIVACY_NETWORKID net] obj" "c_J C = J"
    and "text_fits sub" "text_fits net"
  shows "ProcessStartPage V C obj p w = snd (StartPrivacePage V C sub net p w)"
  using assms by (auto simp: privacy_object_def ProcessStartPage_def jreads_def text_fits_def IsString_at Let_def)

lemma stop_event:
  assumes "privacy_object J [MStr PRIVACY_SUBTYPE sub] obj" "c_J C = J" "text_fits sub"
  shows "ProcessStopPage V C obj p w = snd (StopPrivacePage V C sub p w)"
  using assms by (auto simp: privacy_object_def ProcessStopPage_def jreads_def text_fits_def IsString_at Let_def)

text \<open>
  a page that is pulled up less than a second after it was asked to close is shown and then closed: the
  close that waits is not withdrawn, it runs after the page was shown again, and leaves the page closed
  although the last message asked for it.
\<close>

theorem late_close:
  assumes "cJSON_laws (c_J C)" "cJSON_CreateArray (c_J C) = Some arr" "cj_items (c_J C) arr = []"
    and "cJSON_CreateObject (c_J C) = Some x0" "text_fits (c_str sub)" "IsIdLengthValid net" "c_str net = net"
    and "\<And>tr. pe_AbilityManager V tr" "pv_events p = []" "pv_eventHandler p" "n < COMP_PRIVACY_DELAY_TIME"
  shows "\<exists>show close. let p1 = HandleClosePage (c_J C) sub p;
      p2 = HandlePullUpPage (c_J C) sub net (p1\<lparr>pv_now := pv_now p1 + n\<rparr>);
      (p3, w3) = Privacy_ProcessEvent V C COMP_START_PAGE show (p2\<lparr>pv_events := tl (pv_events p2)\<rparr>) w;
      (p4, w4) = Privacy_ProcessEvent V C COMP_STOP_PAGE close (p3\<lparr>pv_events := tl (pv_events p3)\<rparr>) w3
    in pv_events p2 = [(pv_now p + n, COMP_START_PAGE, show), (pv_now p + COMP_PRIVACY_DELAY_TIME, COMP_STOP_PAGE, close)]
      \<and> page_calls (fw_trace w4) = False # True # page_calls (fw_trace w) \<and> \<not> GetPageFlag p4 \<and> pv_events p4 = []"
proof -
  let ?J = "c_J C"
  let ?t1 = "cJSON_AddStringToObject ?J x0 PRIVACY_SUBTYPE (c_str sub)"
  let ?t2 = "cJSON_AddStringToObject ?J ?t1 PRIVACY_NETWORKID net"
  note m = object_members[OF assms(1,4)]
  have "privacy_object ?J [MStr PRIVACY_SUBTYPE (c_str sub), MStr PRIVACY_NETWORKID net] [?t2]"
    using m(2) by (simp add: privacy_object_def)
  note st = start_event[OF this refl assms(5)]
  have "privacy_object ?J [MStr PRIVACY_SUBTYPE (c_str sub)] [?t1]"
    using m(1) by (simp add: privacy_object_def)
  note sp = stop_event[OF this refl assms(5)]
  have "text_fits net" using assms(6) by (auto simp: IsIdLengthValid_def text_fits_def)
  note st = st[OF this]
  show ?thesis
    by (rule exI[of _ "[?t2]"], rule exI[of _ "[?t1]"])
      (use assms(2-11) in \<open>simp add: HandleClosePage_def HandlePullUpPage_def SendEvent_def Privacy_ProcessEvent_def st sp
        StartPrivacePage_def StopPrivacePage_def call_ret_def GetPageFlag_def SetPageFlagTrue_def SetPageFlagFalse_def
        Let_def split: prod.splits\<close>)
qed

lemma late_close_witness:
  "\<exists>show close. let p1 = HandleClosePage flat_J ''mic'' ComponentPrivacy_new;
      p2 = HandlePullUpPage flat_J ''mic'' ''peer'' (p1\<lparr>pv_now := pv_now p1 + 10\<rparr>)
    in pv_events p2 = [(10, COMP_START_PAGE, show), (1000, COMP_STOP_PAGE, close)]"
proof -
  have 1: "cJSON_laws (c_J flat_C)" "cJSON_CreateArray (c_J flat_C) = Some (JO [])" "cj_items (c_J flat_C) (JO []) = []"
    "cJSON_CreateObject (c_J flat_C) = Some (JO [])"
    using flat_J_laws by (simp_all add: flat_C_def flat_J_def)
  have 2: "text_fits (c_str ''mic'')" "IsIdLengthValid ''peer''" "c_str ''peer'' = ''peer''" by code_simp+
  have 3: "\<And>tr. pe_AbilityManager demo_V tr" by (simp add: demo_V_def)
  have 4: "pv_events ComponentPrivacy_new = []" "pv_eventHandler ComponentPrivacy_new" "(10::nat) < COMP_PRIVACY_DELAY_TIME"
    by (simp_all add: ComponentPrivacy_new_def)
  have 5: "c_J flat_C = flat_J" "pv_now ComponentPrivacy_new = 0" by (simp_all add: flat_C_def ComponentPrivacy_new_def)
  from late_close[OF 1 2 3 4, of demo_init] show ?thesis
    unfolding Let_def case_prod_unfold 5 by (elim exE conjE) (intro exI, simp)
qed

end
