(* ===== verification/Shm_Laws.thy ===== *)
theory Shm_Laws
  imports Shared_Memory
begin

text \<open>
  What the shared memory keeps: the byte codecs against a reference definition, as an interface that both
  widths implement, and the clock units as a ring of entries that the bytes refine.
\<close>

section \<open>The codecs\<close>

text \<open>Words as bytes, the least significant first: the reference the codecs are compared with.\<close>

definition enc :: "nat \<Rightarrow> 'a::len word \<Rightarrow> 8 word list" where
  "enc n v = map (\<lambda>i. ucast (drop_bit (i * 8) v)) [0..<n]"

definition dec :: "8 word list \<Rightarrow> 'a::len word" where
  "dec bs = foldr (\<lambda>b r. ucast b OR push_bit 8 r) bs 0"

lemma byte_of [simp]: "ucast (v AND 0xff :: 'a::len word) = (ucast v :: 8 word)" "(b AND 0xff :: 8 word) = b"
proof -
  have "(0xff :: 'a word) = mask 8" "(0xff :: 8 word) = mask 8" by (simp_all add: mask_eq_exp_minus_1)
  note m = this
  show "ucast (v AND 0xff) = (ucast v :: 8 word)"
    unfolding m(1) by (rule bit_word_eqI) (auto simp: bit_simps dest: bit_imp_le_length)
  show "(b AND 0xff :: 8 word) = b"
    unfolding m(2) by (rule bit_word_eqI) (auto simp: bit_simps)
qed

lemma fold_upd: "p + n \<le> length b \<Longrightarrow> fold (\<lambda>i b. b[p + i := f i]) [0..<n] b = take p b @ map f [0..<n] @ drop (p + n) b"
proof (induction n)
  case (Suc n)
  then show ?case by (simp add: list_update_append min_def Cons_nth_drop_Suc [symmetric])
qed simp

lemma length_enc [simp]: "length (enc n v) = n"
  by (simp add: enc_def)

lemma bit_byte: "bit (b :: 8 word) k \<Longrightarrow> k < 8"
  using bit_imp_le_length[of b k] by simp

lemma bit_or_bytes:
  "bit (fold (\<lambda>i r. r OR push_bit (i * 8) (ucast (g i :: 8 word))) [0..<n] (0 :: 'a::len word)) k
     \<longleftrightarrow> k < LENGTH('a) \<and> k < 8 * n \<and> bit (g (k div 8)) (k mod 8)"
proof (induction n)
  case (Suc n)
  have *: "n * 8 \<le> k \<and> bit (g n) (k - n * 8) \<longleftrightarrow> k div 8 = n \<and> bit (g n) (k mod 8)"
  proof (cases "n * 8 \<le> k \<and> k - n * 8 < 8")
    case True
    then have d: "k div 8 = n" by (intro div_nat_eqI) auto
    have "k mod 8 = k - n * 8" unfolding d [symmetric] by (simp add: minus_div_mult_eq_mod)
    then show ?thesis using True d by simp
  next
    case False
    then have "k div 8 \<noteq> n" by auto
    then show ?thesis using False bit_byte[of "g n" "k - n * 8"] by auto
  qed
  have **: "k < 8 * Suc n \<longleftrightarrow> k < 8 * n \<or> k div 8 = n" by auto
  have "bit (fold (\<lambda>i r. r OR push_bit (i * 8) (ucast (g i))) [0..<Suc n] (0 :: 'a word)) k
      \<longleftrightarrow> k < LENGTH('a) \<and> (k < 8 * n \<and> bit (g (k div 8)) (k mod 8) \<or> n * 8 \<le> k \<and> bit (g n) (k - n * 8))"
    using Suc by (auto simp: bit_simps)
  then show ?case unfolding * ** by auto
qed simp

lemma bit_dec: "bit (dec bs :: 'a::len word) k \<longleftrightarrow> k < LENGTH('a) \<and> k < 8 * length bs \<and> bit (bs ! (k div 8)) (k mod 8)"
proof (induction bs arbitrary: k)
  case (Cons b bs)
  show ?case
  proof (cases "k < 8")
    case True
    then show ?thesis by (auto simp: dec_def bit_simps)
  next
    case False
    then obtain j where "k = j + 8" by (metis add.commute le_add_diff_inverse not_less)
    then show ?thesis using Cons.IH[of j] bit_byte[of b k] by (auto simp: dec_def bit_simps)
  qed
qed (simp add: dec_def)

lemma dec_enc: "LENGTH('a) = 8 * n \<Longrightarrow> dec (enc n v) = (v :: 'a::len word)"
  by (rule bit_word_eqI) (auto simp: bit_dec enc_def bit_simps)

lemma enc_dec: "LENGTH('a::len) = 8 * length bs \<Longrightarrow> enc (length bs) (dec bs :: 'a word) = bs"
  by (rule nth_equalityI) (auto intro!: bit_word_eqI simp: bit_dec enc_def bit_simps)

lemma codec_enc:
  "U32ToU8 (Some p) v 4 b = (if length b < p + 4 then None else Some (take p b @ enc 4 v @ drop (p + 4) b))"
  "U64ToU8 (Some p) u 8 b = (if length b < p + 8 then None else Some (take p b @ enc 8 u @ drop (p + 8) b))"
  using fold_upd[of p 4 b "\<lambda>i. ucast (drop_bit (i * 8) v)"] fold_upd[of p 8 b "\<lambda>i. ucast (drop_bit (i * 8) u)"]
  by (simp_all add: U32ToU8_def U64ToU8_def enc_def del: upt_rec_numeral)

lemma codec_dec:
  "U8ToU32 (Some p) 4 b = (if length b < p + 4 then None else Some (dec (take 4 (drop p b))))"
  "U8ToU64 (Some p) 8 b = (if length b < p + 8 then None else Some (dec (take 8 (drop p b))))"
  by (auto simp: U8ToU32_def U8ToU64_def bit_or_bytes bit_dec intro!: bit_word_eqI simp del: upt_rec_numeral)

section \<open>A codec of one width\<close>

text \<open>What the routines of one width promise, and what follows for a word that is written and read.\<close>

locale byte_codec =
  fixes n :: nat
    and put :: "nat option \<Rightarrow> 'w \<Rightarrow> nat \<Rightarrow> 8 word list \<Rightarrow> 8 word list option"
    and get :: "nat option \<Rightarrow> nat \<Rightarrow> 8 word list \<Rightarrow> 'w option"
    and encode :: "'w \<Rightarrow> 8 word list"
    and decode :: "8 word list \<Rightarrow> 'w"
  assumes len: "length (encode v) = n"
    and inv: "decode (encode v) = v"
    and put: "put (Some p) v n b = (if length b < p + n then None else Some (take p b @ encode v @ drop (p + n) b))"
    and get: "get (Some p) n b = (if length b < p + n then None else Some (decode (take n (drop p b))))"
begin

lemma put_length: "put (Some p) v n b = Some b' \<Longrightarrow> length b' = length b"
  by (auto simp: put len split: if_splits)

lemma put_get: "put (Some p) v n b = Some b' \<Longrightarrow> get (Some p) n b' = Some v"
  by (auto simp: put get len inv split: if_splits)

lemma put_other:
  assumes "put (Some p) v n b = Some b'" "q + m \<le> p \<or> p + n \<le> q"
  shows "take m (drop q b') = take m (drop q b)"
proof -
  have b: "b' = take p b @ encode v @ drop (p + n) b" "p + n \<le> length b" using assms(1) by (auto simp: put split: if_splits)
  from assms(2) show ?thesis
  proof
    assume "q + m \<le> p"
    then have "take m (drop q b') = take m (take (p - q) (drop q b))" using b by (simp add: drop_take)
    then show ?thesis using \<open>q + m \<le> p\<close> by (simp add: min_def)
  next
    assume "p + n \<le> q"
    then show ?thesis using b by (simp add: len)
  qed
qed

lemma put_some: "p + n \<le> length b \<longleftrightarrow> put (Some p) v n b \<noteq> None"
  by (auto simp: put)

end

interpretation u32: byte_codec 4 U32ToU8 U8ToU32 "enc 4" dec
  by unfold_locales (simp_all add: dec_enc codec_enc codec_dec)

interpretation u64: byte_codec 8 U64ToU8 U8ToU64 "enc 8" dec
  by unfold_locales (simp_all add: dec_enc codec_enc codec_dec)

section \<open>The ring of clock units\<close>

text \<open>An entry of the ring, read from the bytes; the ring; and the entry a reader takes.\<close>

definition entry :: "8 word list \<Rightarrow> nat \<Rightarrow> 32 word \<times> 64 word" where
  "entry b i = (dec (take 4 (drop (12 * i) b)), dec (take 8 (drop (12 * i + 4) b)))"

definition ring :: "8 word list \<Rightarrow> (32 word \<times> 64 word) list" where
  "ring b = map (entry b) [0..<MAX_CLOCK_UNIT_COUNT]"

fun latest :: "64 word \<Rightarrow> (32 word \<times> 64 word) list \<Rightarrow> (32 word \<times> 64 word) option" where
  "latest l [] = None"
| "latest l ((f, p) # es) =
    (if sint l < sint p then (case latest p es of None \<Rightarrow> Some (f, p) | Some e \<Rightarrow> Some e) else latest l es)"

text \<open>A memory that the checks accept and that is mapped as it says.\<close>

definition shm_ready :: "shm_env \<Rightarrow> int \<Rightarrow> shm_world \<Rightarrow> AVTransSharedMemory \<Rightarrow> bool" where
  "shm_ready E n w m = (shm_refused E m n False = None \<and> int (length (shm_bytes w m)) = sm_size m)"

lemma shm_ready_le: "shm_ready E n w m \<Longrightarrow> n \<le> int (length (shm_bytes w m))"
  by (auto simp: shm_ready_def shm_refused_def split: if_splits)

lemma shm_ready_mono: "shm_ready E n w m \<Longrightarrow> k \<le> n \<Longrightarrow> shm_ready E k w m"
  by (auto simp: shm_ready_def shm_refused_def split: if_splits)

lemma shm_bytes_store: "shm_ready E n w m \<Longrightarrow> shm_bytes (shm_store m b w) m = b"
  by (auto simp: shm_ready_def shm_refused_def IsInValidSharedMemory_def shm_bytes_def shm_store_def split: if_splits option.splits)

lemma shm_ready_store: "shm_ready E n w m \<Longrightarrow> length b = length (shm_bytes w m) \<Longrightarrow> shm_ready E n (shm_store m b w) m"
  using shm_bytes_store[of E n w m b] by (simp add: shm_ready_def)

lemma length_ring [simp]: "length (ring b) = MAX_CLOCK_UNIT_COUNT"
  by (simp add: ring_def)

lemma write_entry:
  assumes "12 * i + 12 \<le> length b"
  obtains b1 b2 where "U64ToU8 (Some (12 * i + 4)) p 8 b = Some b1" "U32ToU8 (Some (12 * i)) f 4 b1 = Some b2"
    "length b2 = length b" "\<And>j. entry b2 j = (if j = i then (f, p) else entry b j)"
proof -
  obtain b1 where 1: "U64ToU8 (Some (12 * i + 4)) p 8 b = Some b1"
    using u64.put_some[of "12 * i + 4" b p] assms by auto
  then have l1: "length b1 = length b" by (rule u64.put_length)
  obtain b2 where 2: "U32ToU8 (Some (12 * i)) f 4 b1 = Some b2"
    using u32.put_some[of "12 * i" b1 f] assms l1 by auto
  then have l2: "length b2 = length b" using l1 u32.put_length by metis
  have "entry b2 j = (if j = i then (f, p) else entry b j)" for j
  proof (cases "j = i")
    case True
    have "dec (take 4 (drop (12 * i) b2)) = f" using u32.put_get[OF 2] assms l2 by (simp add: codec_dec)
    moreover have "dec (take 8 (drop (12 * i + 4) b1)) = p" using u64.put_get[OF 1] assms l1 by (simp add: codec_dec)
    ultimately show ?thesis using True u32.put_other[OF 2, of "12 * i + 4" 8] by (simp add: entry_def)
  next
    case False
    then have "12 * j + 12 \<le> 12 * i \<or> 12 * i + 12 \<le> 12 * j" by auto
    then show ?thesis
      using False u32.put_other[OF 2, of "12 * j" 4] u32.put_other[OF 2, of "12 * j + 4" 8]
        u64.put_other[OF 1, of "12 * j" 4] u64.put_other[OF 1, of "12 * j + 4" 8]
      by (auto simp: entry_def)
  qed
  then show thesis by (rule that[OF 1 2 l2])
qed

lemma write_refines:
  assumes "shm_ready E 600 w m" "\<not> IsInValidClockUnit u"
  obtains w' where
    "WriteClockUnitToMemory E m u w =
       Some (DH_AVT_SUCCESS, u\<lparr>cu_index := of_nat ((unat (cu_index u) + 1) mod MAX_CLOCK_UNIT_COUNT)\<rparr>, w')"
    "\<And>n. shm_ready E n w m \<Longrightarrow> shm_ready E n w' m"
    "ring (shm_bytes w' m) = (ring (shm_bytes w m))[unat (cu_index u) := (cu_frameNum u, cu_pts u)]"
proof -
  let ?i = "unat (cu_index u)" and ?b = "shm_bytes w m"
  have i: "?i < 50" using assms(2) by (auto simp: IsInValidClockUnit_def MAX_CLOCK_UNIT_COUNT_def)
  have l: "600 \<le> length ?b" using shm_ready_le[OF assms(1)] by simp
  then have "12 * ?i + 12 \<le> length ?b" using i by linarith
  then obtain b1 b2 where w: "U64ToU8 (Some (12 * ?i + 4)) (cu_pts u) 8 ?b = Some b1"
    "U32ToU8 (Some (12 * ?i)) (cu_frameNum u) 4 b1 = Some b2" "length b2 = length ?b"
    "\<And>j. entry b2 j = (if j = ?i then (cu_frameNum u, cu_pts u) else entry ?b j)" by (rule write_entry) blast
  have ok: "shm_refused E m 12 (IsInValidClockUnit u) = None"
    using assms shm_ready_mono[OF assms(1), of 12] by (simp add: shm_ready_def)
  have n: "unat (cu_index u + 1) = ?i + 1" using i by (simp add: unat_word_ariths)
  have idx: "(if unat (cu_index u + 1) = MAX_CLOCK_UNIT_COUNT then 0 else cu_index u + 1) =
      of_nat ((?i + 1) mod MAX_CLOCK_UNIT_COUNT)"
    unfolding n using i by (cases "?i = 49") (auto simp: MAX_CLOCK_UNIT_COUNT_def)
  show thesis
  proof (rule that[of "shm_store m b2 w"])
    show "WriteClockUnitToMemory E m u w =
       Some (DH_AVT_SUCCESS, u\<lparr>cu_index := of_nat ((unat (cu_index u) + 1) mod MAX_CLOCK_UNIT_COUNT)\<rparr>, shm_store m b2 w)"
      unfolding WriteClockUnitToMemory_def ok Let_def using w(1,2) idx by simp
    show "shm_ready E n (shm_store m b2 w) m" if "shm_ready E n w m" for n by (rule shm_ready_store[OF that w(3)])
    show "ring (shm_bytes (shm_store m b2 w) m) = (ring ?b)[?i := (cu_frameNum u, cu_pts u)]"
      unfolding shm_bytes_store[OF assms(1)]
      by (rule nth_equalityI) (auto simp: ring_def w(4) nth_list_update)
  qed
qed

lemma read_units_latest:
  assumes "\<And>i. i \<in> set is \<Longrightarrow> 12 * i + 12 \<le> length b"
  shows "read_units b is l u =
    Some (case latest l (map (entry b) is) of None \<Rightarrow> u | Some (f, p) \<Rightarrow> u\<lparr>cu_pts := p, cu_frameNum := f\<rparr>)"
  using assms
proof (induction "is" arbitrary: l u)
  case (Cons i "is")
  have e: "U8ToU32 (Some (i * 12)) 4 b = Some (fst (entry b i))" "U8ToU64 (Some (i * 12 + 4)) 8 b = Some (snd (entry b i))"
    using Cons.prems[of i] by (simp_all add: codec_dec entry_def mult.commute)
  have IH: "\<And>l u. read_units b is l u =
      Some (case latest l (map (entry b) is) of None \<Rightarrow> u | Some (f, p) \<Rightarrow> u\<lparr>cu_pts := p, cu_frameNum := f\<rparr>)"
    using Cons by simp_all
  show ?case by (cases "entry b i") (simp add: IH e split: option.split)
qed simp

lemma read_refines:
  assumes "shm_ready E 604 w m" "cu_frameNum u \<noteq> 0" "fst (ring (shm_bytes w m) ! 0) \<noteq> 0"
  shows "ReadClockUnitFromMemory E m u w =
    Some (DH_AVT_SUCCESS, case latest 0 (ring (shm_bytes w m)) of None \<Rightarrow> u | Some (f, p) \<Rightarrow> u\<lparr>cu_pts := p, cu_frameNum := f\<rparr>)"
proof -
  let ?b = "shm_bytes w m"
  have l: "604 \<le> length ?b" using shm_ready_le[OF assms(1)] by simp
  have ok: "shm_refused E m (12 * int MAX_CLOCK_UNIT_COUNT + 4) (cu_frameNum u = 0) = None"
    using assms(1,2) by (simp add: shm_ready_def MAX_CLOCK_UNIT_COUNT_def)
  have f: "U8ToU32 (Some 0) 4 ?b = Some (fst (ring ?b ! 0))" using l by (simp add: codec_dec ring_def entry_def MAX_CLOCK_UNIT_COUNT_def)
  have "read_units ?b [0..<MAX_CLOCK_UNIT_COUNT] 0 u =
      Some (case latest 0 (ring ?b) of None \<Rightarrow> u | Some (f, p) \<Rightarrow> u\<lparr>cu_pts := p, cu_frameNum := f\<rparr>)"
    unfolding ring_def by (rule read_units_latest) (use l in \<open>auto simp: MAX_CLOCK_UNIT_COUNT_def\<close>)
  then show ?thesis
    unfolding ReadClockUnitFromMemory_def ok option.case f using assms(3) by simp
qed

lemma latest_None: "(\<And>e. e \<in> set es \<Longrightarrow> sint (snd e) \<le> sint l) \<Longrightarrow> latest l es = None"
  by (induction l es rule: latest.induct) (fastforce simp: not_less)+

lemma latest_is:
  assumes "e \<in> set es" "sint l < sint (snd e)" "\<And>e'. e' \<in> set es \<Longrightarrow> e' = e \<or> sint (snd e') < sint (snd e)"
  shows "latest l es = Some e"
  using assms
proof (induction l es rule: latest.induct)
  case (2 l f p es)
  have none: "latest (snd e) es = None"
    by (rule latest_None) (use 2(5) in \<open>force simp: order.order_iff_strict\<close>)
  show ?case
  proof (cases "(f, p) = e")
    case True
    then show ?thesis using none 2(4) 2(2)[OF _ _ 2(4)] 2(5) by (cases "e \<in> set es") auto
  next
    case False
    then have e: "e \<in> set es" "sint p < sint (snd e)" using 2(3) 2(5)[of "(f, p)"] by auto
    show ?thesis
    proof (cases "sint l < sint p")
      case True
      then show ?thesis using 2(1)[OF True e] 2(5) by simp
    next
      case False
      then show ?thesis using 2(2)[OF False e(1) 2(4)] 2(5) by simp
    qed
  qed
qed simp

end
