(* ===== verification/Av_Properties.thy ===== *)
theory Av_Properties
  imports Shm_Laws Av_Control Json_Laws
begin

text \<open>
  What the shared memory, the channel adapter and the control centre of the audio and video transport do,
  with a concrete environment for each.
\<close>

section \<open>Clock units\<close>

text \<open>The writer: the units of a run of frames, one after the other.\<close>

fun write_units ::
    "shm_env \<Rightarrow> AVTransSharedMemory \<Rightarrow> AVSyncClockUnit \<Rightarrow> (32 word \<times> 64 word) list \<Rightarrow> shm_world \<Rightarrow>
     (AVSyncClockUnit \<times> shm_world) option" where
  "write_units E m u [] w = Some (u, w)"
| "write_units E m u ((f, p) # xs) w =
    (case WriteClockUnitToMemory E m (u\<lparr>cu_frameNum := f, cu_pts := p\<rparr>) w of
       None \<Rightarrow> None
     | Some (r, u', w') \<Rightarrow> if r = DH_AVT_SUCCESS then write_units E m u' xs w' else None)"

lemma write_units_append:
  "write_units E m u (xs @ ys) w = (case write_units E m u xs w of None \<Rightarrow> None | Some (u', w') \<Rightarrow> write_units E m u' ys w')"
  by (induction E m u xs w rule: write_units.induct) (auto split: option.splits)

lemma write_units_ring:
  assumes "shm_ready E 600 w m" "cu_index u = 0" "\<And>f p. (f, p) \<in> set xs \<Longrightarrow> f \<noteq> 0 \<and> 0 < sint p"
  shows "\<exists>u' w'. write_units E m u xs w = Some (u', w') \<and> unat (cu_index u') = length xs mod MAX_CLOCK_UNIT_COUNT
    \<and> (\<forall>n. shm_ready E n w m \<longrightarrow> shm_ready E n w' m)
    \<and> set (ring (shm_bytes w' m)) \<subseteq> set (ring (shm_bytes w m)) \<union> set xs
    \<and> (xs \<noteq> [] \<longrightarrow> last xs \<in> set (ring (shm_bytes w' m)) \<and> fst (ring (shm_bytes w' m) ! 0) \<noteq> 0)"
  using assms(3)
proof (induction xs rule: rev_induct)
  case Nil
  then show ?case using assms(2) by (auto simp: MAX_CLOCK_UNIT_COUNT_def)
next
  case (snoc x xs)
  obtain f p where x: "x = (f, p)" by (cases x)
  obtain u1 w1 where IH: "write_units E m u xs w = Some (u1, w1)" "unat (cu_index u1) = length xs mod MAX_CLOCK_UNIT_COUNT"
    "\<And>n. shm_ready E n w m \<Longrightarrow> shm_ready E n w1 m"
    "set (ring (shm_bytes w1 m)) \<subseteq> set (ring (shm_bytes w m)) \<union> set xs"
    "xs \<noteq> [] \<Longrightarrow> fst (ring (shm_bytes w1 m) ! 0) \<noteq> 0"
    using snoc by force
  let ?i = "unat (cu_index u1)" and ?u = "u1\<lparr>cu_frameNum := f, cu_pts := p\<rparr>"
  have fp: "f \<noteq> 0" "0 < sint p" using snoc.prems[of f p] x by auto
  have i: "?i < MAX_CLOCK_UNIT_COUNT" using IH(2) by (simp add: MAX_CLOCK_UNIT_COUNT_def)
  then have ok: "\<not> IsInValidClockUnit ?u" using fp by (simp add: IsInValidClockUnit_def)
  obtain w' where W: "WriteClockUnitToMemory E m ?u w1 =
      Some (DH_AVT_SUCCESS, ?u\<lparr>cu_index := of_nat ((unat (cu_index ?u) + 1) mod MAX_CLOCK_UNIT_COUNT)\<rparr>, w')"
    "\<And>n. shm_ready E n w1 m \<Longrightarrow> shm_ready E n w' m"
    "ring (shm_bytes w' m) = (ring (shm_bytes w1 m))[unat (cu_index ?u) := (cu_frameNum ?u, cu_pts ?u)]"
    by (rule write_refines[OF IH(3)[OF assms(1)] ok]) blast
  have r: "ring (shm_bytes w' m) = (ring (shm_bytes w1 m))[?i := (f, p)]" using W(3) by simp
  have idx: "unat (of_nat ((?i + 1) mod MAX_CLOCK_UNIT_COUNT) :: 32 word) = length (xs @ [x]) mod MAX_CLOCK_UNIT_COUNT"
  proof -
    have "(?i + 1) mod MAX_CLOCK_UNIT_COUNT = length (xs @ [x]) mod MAX_CLOCK_UNIT_COUNT"
      unfolding IH(2) by (simp add: mod_Suc_eq)
    moreover have "(?i + 1) mod MAX_CLOCK_UNIT_COUNT < 2 ^ 32" by (simp add: MAX_CLOCK_UNIT_COUNT_def)
    ultimately show ?thesis by (simp add: unat_of_nat take_bit_nat_eq_self)
  qed
  have s: "set (ring (shm_bytes w' m)) \<subseteq> set (ring (shm_bytes w m)) \<union> set (xs @ [x])"
    using IH(4) set_update_subset_insert[of "ring (shm_bytes w1 m)" ?i "(f, p)"] by (auto simp: r x)
  have l: "(f, p) \<in> set (ring (shm_bytes w' m))" unfolding r by (rule set_update_memI) (use i in simp)
  have z: "fst (ring (shm_bytes w' m) ! 0) \<noteq> 0"
  proof (cases "?i = 0")
    case True
    then show ?thesis using fp i by (simp add: r)
  next
    case False
    then have "xs \<noteq> []" using IH(2) by auto
    then show ?thesis using IH(5) False by (simp add: r)
  qed
  have run: "write_units E m u (xs @ [x]) w =
      Some (?u\<lparr>cu_index := of_nat ((?i + 1) mod MAX_CLOCK_UNIT_COUNT)\<rparr>, w')"
    using W(1) by (simp add: write_units_append IH(1) x)
  show ?case unfolding run using idx s l z x W(2) IH(3) by simp
qed

text \<open>
  C31: A clock unit that is written replaces the entry of its index in a ring of fifty entries and leaves the
  others, the index moves on by one and wraps from the last to the first; and what a reader gets is the entry
  with the largest time of that ring.  The bytes of the shared memory are a refinement of the ring.\<close>

theorem clock_units_refine_ring:
  assumes "shm_ready E 604 w m" "\<not> IsInValidClockUnit u"
  shows "(\<exists>w'. WriteClockUnitToMemory E m u w =
        Some (DH_AVT_SUCCESS, u\<lparr>cu_index := of_nat ((unat (cu_index u) + 1) mod MAX_CLOCK_UNIT_COUNT)\<rparr>, w')
      \<and> shm_ready E 604 w' m
      \<and> ring (shm_bytes w' m) = (ring (shm_bytes w m))[unat (cu_index u) := (cu_frameNum u, cu_pts u)])
      \<and> (cu_frameNum v \<noteq> 0 \<and> fst (ring (shm_bytes w m) ! 0) \<noteq> 0 \<longrightarrow>
           ReadClockUnitFromMemory E m v w =
             Some (DH_AVT_SUCCESS, case latest 0 (ring (shm_bytes w m)) of
                                     None \<Rightarrow> v | Some (f, p) \<Rightarrow> v\<lparr>cu_pts := p, cu_frameNum := f\<rparr>))"
proof -
  have r: "shm_ready E 600 w m" using assms(1) by (rule shm_ready_mono) simp
  obtain w' where W: "WriteClockUnitToMemory E m u w =
       Some (DH_AVT_SUCCESS, u\<lparr>cu_index := of_nat ((unat (cu_index u) + 1) mod MAX_CLOCK_UNIT_COUNT)\<rparr>, w')"
    "\<And>n. shm_ready E n w m \<Longrightarrow> shm_ready E n w' m"
    "ring (shm_bytes w' m) = (ring (shm_bytes w m))[unat (cu_index u) := (cu_frameNum u, cu_pts u)]"
    by (rule write_refines[OF r assms(2)]) blast
  then show ?thesis using assms(1) read_refines[OF assms(1), of v] by blast
qed

text \<open>An environment whose calls succeed: the size is that of the memory of the audio side.\<close>

definition shm_demo :: shm_env where
  "shm_demo = \<lparr>se_AshmemCreate = (\<lambda>fds _ _. 5 + int (length fds)), se_AshmemSetProt = (\<lambda>_. 0), se_AshmemGetSize = (\<lambda>_. 604),
     se_mmap = (\<lambda>as _ _. Some (1 + length as)), se_memset = (\<lambda>_ _. True)\<rparr>"

definition demo_m :: AVTransSharedMemory where
  "demo_m = \<lparr>sm_fd = 5, sm_size = 604, sm_name = ''m'', sm_addr = Some 1\<rparr>"

definition demo_w :: shm_world where
  "demo_w = \<lparr>sw_fds = [5], sw_map = [(1, 1 # replicate 603 0)]\<rparr>"

lemma demo_ready: "shm_ready shm_demo 604 demo_w demo_m"
  by (simp add: shm_ready_def shm_refused_def shm_demo_def demo_w_def demo_m_def shm_bytes_def IsInValidSharedMemory_def)

theorem clock_units_refine_ring_witness:
  "(\<exists>w'. WriteClockUnitToMemory shm_demo demo_m \<lparr>cu_index = 49, cu_frameNum = 3, cu_pts = 7\<rparr> demo_w =
      Some (0, \<lparr>cu_index = 0, cu_frameNum = 3, cu_pts = 7\<rparr>, w'))
   \<and> (\<exists>r. ReadClockUnitFromMemory shm_demo demo_m \<lparr>cu_index = 0, cu_frameNum = 1, cu_pts = 0\<rparr> demo_w = Some (0, r))"
proof -
  have f: "fst (ring (shm_bytes demo_w demo_m) ! 0) \<noteq> 0"
    by (simp add: ring_def entry_def shm_bytes_def demo_w_def demo_m_def MAX_CLOCK_UNIT_COUNT_def dec_def numeral_eq_Suc)
  have v: "\<not> IsInValidClockUnit \<lparr>cu_index = 49, cu_frameNum = 3, cu_pts = 7\<rparr>"
    by (simp add: IsInValidClockUnit_def MAX_CLOCK_UNIT_COUNT_def)
  show ?thesis
    using clock_units_refine_ring[OF demo_ready v, of "\<lparr>cu_index = 0, cu_frameNum = 1, cu_pts = 0\<rparr>"] f
    by (auto simp: MAX_CLOCK_UNIT_COUNT_def)
qed

text \<open>
  The clock that is read is the one that was written last: after any run of units with valid frame numbers
  and growing times into a new memory, however often it goes around the ring, a reader gets the frame number and
  the time of the last of them.\<close>

theorem last_clock_is_read:
  assumes "shm_ready E 604 w m" "set (ring (shm_bytes w m)) \<subseteq> {(0, 0)}" "cu_index u = 0" "xs \<noteq> []"
    and "\<And>f p. (f, p) \<in> set xs \<Longrightarrow> f \<noteq> 0 \<and> 0 < sint p"
    and "sorted_wrt (\<lambda>x y. sint (snd x) < sint (snd y)) xs" "cu_frameNum v \<noteq> 0"
  shows "\<exists>u' w'. write_units E m u xs w = Some (u', w')
    \<and> ReadClockUnitFromMemory E m v w' =
        Some (DH_AVT_SUCCESS, v\<lparr>cu_frameNum := fst (last xs), cu_pts := snd (last xs)\<rparr>)"
proof -
  have r: "shm_ready E 600 w m" using assms(1) by (rule shm_ready_mono) simp
  obtain u' w' where W: "write_units E m u xs w = Some (u', w')" "shm_ready E 604 w' m"
    "set (ring (shm_bytes w' m)) \<subseteq> set (ring (shm_bytes w m)) \<union> set xs"
    "last xs \<in> set (ring (shm_bytes w' m))" "fst (ring (shm_bytes w' m) ! 0) \<noteq> 0"
    using write_units_ring[OF r assms(3,5)] assms(1,4) by blast
  obtain ys y where xs: "xs = ys @ [y]" using assms(4) by (cases xs rule: rev_cases) auto
  have y: "0 < sint (snd y)" using assms(5)[of "fst y" "snd y"] xs by simp
  have "latest 0 (ring (shm_bytes w' m)) = Some y"
  proof (rule latest_is)
    show "y \<in> set (ring (shm_bytes w' m))" using W(4) xs by simp
    show "sint (0 :: 64 word) < sint (snd y)" using y by simp
    show "e = y \<or> sint (snd e) < sint (snd y)" if "e \<in> set (ring (shm_bytes w' m))" for e
    proof (cases "e = y")
      case False
      then have "e = (0, 0) \<or> e \<in> set ys" using that W(3) assms(2) xs by auto
      then show ?thesis using assms(6) xs y by (auto simp: sorted_wrt_append)
    qed simp
  qed
  then show ?thesis using W(1) read_refines[OF W(2) assms(7) W(5)] xs by (cases y) simp
qed

definition demo_w0 :: shm_world where
  "demo_w0 = \<lparr>sw_fds = [5], sw_map = [(1, replicate 604 0)]\<rparr>"

lemma dec_zero [simp]: "dec (replicate n 0) = 0"
  by (induction n) (simp_all add: dec_def)

theorem last_clock_is_read_witness:
  "\<exists>u' w'. write_units shm_demo demo_m \<lparr>cu_index = 0, cu_frameNum = 0, cu_pts = 0\<rparr> [(1, 10), (2, 20)] demo_w0 = Some (u', w')
    \<and> ReadClockUnitFromMemory shm_demo demo_m \<lparr>cu_index = 0, cu_frameNum = 9, cu_pts = 0\<rparr> w' =
        Some (DH_AVT_SUCCESS, \<lparr>cu_index = 0, cu_frameNum = 2, cu_pts = 20\<rparr>)"
proof -
  have r: "shm_ready shm_demo 604 demo_w0 demo_m"
    by (simp add: shm_ready_def shm_refused_def shm_demo_def demo_w0_def demo_m_def shm_bytes_def IsInValidSharedMemory_def)
  have z: "set (ring (shm_bytes demo_w0 demo_m)) \<subseteq> {(0, 0)}"
    by (auto simp: ring_def entry_def shm_bytes_def demo_w0_def demo_m_def MAX_CLOCK_UNIT_COUNT_def min_def)
  have p: "f \<noteq> 0 \<and> 0 < sint p" if "(f, p) \<in> set [(1, 10), (2, 20)]" for f :: "32 word" and p :: "64 word"
    using that by auto
  let ?u = "\<lparr>cu_index = 0, cu_frameNum = 0, cu_pts = 0\<rparr>" and ?v = "\<lparr>cu_index = 0, cu_frameNum = 9, cu_pts = 0\<rparr>"
  let ?xs = "[(1, 10), (2, 20)] :: (32 word \<times> 64 word) list"
  have "\<exists>u' w'. write_units shm_demo demo_m ?u ?xs demo_w0 = Some (u', w')
    \<and> ReadClockUnitFromMemory shm_demo demo_m ?v w' =
        Some (DH_AVT_SUCCESS, ?v\<lparr>cu_frameNum := fst (last ?xs), cu_pts := snd (last ?xs)\<rparr>)"
    by (rule last_clock_is_read[OF r z _ _ p]) simp_all
  then show ?thesis by (simp del: write_units.simps)
qed

section \<open>Memory that is sent to a plugin\<close>

definition memory_members :: "AVTransSharedMemory \<Rightarrow> jmember list" where
  "memory_members m = [MNum KEY_SHARED_MEM_FD (sm_fd m), MNum KEY_SHARED_MEM_SIZE (sm_size m), MStr KEY_SHARED_MEM_NAME (sm_name m)]"

lemma memory_names: "distinct (map jname (memory_members m))"
  by (simp add: memory_members_def jname_def KEY_SHARED_MEM_FD_def KEY_SHARED_MEM_SIZE_def KEY_SHARED_MEM_NAME_def)

lemma memory_roundtrip:
  assumes "cJSON_laws (sensitive J)" "MarshalSharedMemory J m \<noteq> []" "c_str (sm_name m) = sm_name m"
    and "- 2147483648 \<le> sm_fd m" "sm_fd m < 2147483648" "- 2147483648 \<le> sm_size m" "sm_size m < 2147483648"
  shows "UnmarshalSharedMemory J (MarshalSharedMemory J m) = m\<lparr>sm_addr := None\<rparr>"
proof -
  obtain x0 where x0: "cJSON_CreateObject (sensitive J) = Some x0"
    using assms(2) by (auto simp: MarshalSharedMemory_def split: option.splits)
  let ?x = "foldl (jadd (sensitive J)) x0 (memory_members m)"
  have x: "?x = cJSON_AddStringToObject J (cJSON_AddNumberToObject J (cJSON_AddNumberToObject J x0 KEY_SHARED_MEM_FD
      (of_int (sm_fd m))) KEY_SHARED_MEM_SIZE (of_int (sm_size m))) KEY_SHARED_MEM_NAME (c_str (sm_name m))"
    using assms(3) by (simp add: memory_members_def jadd_def)
  obtain s where s: "cJSON_PrintUnformatted (sensitive J) ?x = Some s" "MarshalSharedMemory J m = s"
    using assms(2) x0 x by (auto simp: MarshalSharedMemory_def Let_def split: option.splits)
  obtain y where y: "c_str s = s" "cJSON_Parse (sensitive J) s = Some y"
    "\<And>k. ident k \<Longrightarrow> str_at (sensitive J) y k = str_at (sensitive J) ?x k \<and> num_at (sensitive J) y k = num_at (sensitive J) ?x k \<and> bool_at (sensitive J) y k = bool_at (sensitive J) ?x k"
    by (rule laws_print[OF assms(1) s(1)]) blast
  have "list_all jfits (memory_members m)" using assms(4-7) by (simp add: memory_members_def jfits_def jname_def)
  from jadd_all[OF assms(1) x0 this memory_names] have R: "list_all (jreads (sensitive J) ?x) (memory_members m)" by blast
  have "num_at (sensitive J) y KEY_SHARED_MEM_FD = Some (sm_fd m)" "num_at (sensitive J) y KEY_SHARED_MEM_SIZE = Some (sm_size m)"
    "str_at (sensitive J) y KEY_SHARED_MEM_NAME = Some (sm_name m)"
    using jreads_iff(1,2)[OF R] y(3) by (simp_all add: memory_members_def)
  then show ?thesis using y(1,2) s(2)
    by (auto simp: UnmarshalSharedMemory_def Let_def num_at_def str_at_def split: option.splits if_splits)
qed

text \<open>
  C32: A memory that is sent to a plugin as text comes back with its descriptor, its size and its name, but
  without an address: every routine of the shared memory refuses it as an invalid parameter, whatever is
  mapped, so a plugin can neither write nor read the clock through it.\<close>

theorem sent_memory_refused:
  assumes "cJSON_laws (sensitive J)" "MarshalSharedMemory J m \<noteq> []" "c_str (sm_name m) = sm_name m"
    and "- 2147483648 \<le> sm_fd m" "sm_fd m < 2147483648" "- 2147483648 \<le> sm_size m" "sm_size m < 2147483648"
  shows "let m' = UnmarshalSharedMemory J (MarshalSharedMemory J m) in
      m' = m\<lparr>sm_addr := None\<rparr>
      \<and> WriteClockUnitToMemory E m' u w = Some (ERR_DH_AVT_INVALID_PARAM, u, w)
      \<and> ReadClockUnitFromMemory E m' u w = Some (ERR_DH_AVT_INVALID_PARAM, u)
      \<and> WriteFrameInfoToMemory E m' f t w = Some (ERR_DH_AVT_INVALID_PARAM, w)
      \<and> ReadFrameInfoFromMemory E m' f t w = Some (ERR_DH_AVT_INVALID_PARAM, f, t)
      \<and> ResetSharedMemory E m' w = (ERR_DH_AVT_INVALID_PARAM, w)"
proof -
  have i: "IsInValidSharedMemory (m\<lparr>sm_addr := None\<rparr>)" by (simp add: IsInValidSharedMemory_def)
  show ?thesis unfolding Let_def memory_roundtrip[OF assms]
    using i by (simp add: WriteClockUnitToMemory_def ReadClockUnitFromMemory_def WriteFrameInfoToMemory_def
        ReadFrameInfoFromMemory_def ResetSharedMemory_def shm_refused_def)
qed

theorem sent_memory_refused_witness:
  "UnmarshalSharedMemory flat_J (MarshalSharedMemory flat_J demo_m) = demo_m\<lparr>sm_addr := None\<rparr>"
proof -
  have m: "MarshalSharedMemory flat_J demo_m \<noteq> []"
    by (simp add: MarshalSharedMemory_def flat_J_def demo_m_def flat_add_def jmembers_def flat_member_def unary_Cons_not_Nil
        del: nibbles.simps)
  have "cJSON_laws (sensitive flat_J)" by (simp add: flat_J_laws sensitive_flat_J)
  from sent_memory_refused[OF this m] show ?thesis by (simp add: demo_m_def Let_def c_str_def del: nibbles.simps)
qed

text \<open>
  The memories that the synchronisation manager makes are too small.  The one it makes when it is told to
  start the synchronisation has 600 bytes, which a reader of the clock refuses; and of the one that has twelve
  bytes only the first entry is there, yet every other index passes the checks and is written outside of it.\<close>

theorem sync_memories_too_small:
  "ReadClockUnitFromMemory (ae_E V) (ym_sinkMemory (the_ym (EnableReceiverAVSync V g a))) u w =
     Some (ERR_DH_AVT_INVALID_PARAM, u)
   \<and> (shm_ready E 12 w m \<and> sm_size m = 12 \<and> \<not> IsInValidClockUnit v \<and> cu_index v \<noteq> 0
      \<longrightarrow> WriteClockUnitToMemory E m v w = None)"
proof -
  have "shm_refused (ae_E V) (ym_sinkMemory (the_ym (EnableReceiverAVSync V g a))) 604 b = Some ERR_DH_AVT_INVALID_PARAM" for b
    by (auto simp: EnableReceiverAVSync_def create_memory_def CreateAVTransSharedMemory_def Let_def
        SetParam2Engines_def SetParam2Engines_memory_def upd_ym_def upd_cc_def the_ym_def AVSyncManager_new_def no_memory_def
        shm_refused_def IsInValidSharedMemory_def MAX_CLOCK_UNIT_COUNT_def split: option.splits prod.splits)
  moreover have "WriteClockUnitToMemory E m v w = None"
    if "shm_ready E 12 w m" "sm_size m = 12" "\<not> IsInValidClockUnit v" "cu_index v \<noteq> 0"
  proof -
    have l: "length (shm_bytes w m) = 12" "shm_refused E m 12 (IsInValidClockUnit v) = None"
      using that by (simp_all add: shm_ready_def)
    have "unat (cu_index v) \<noteq> 0" using that(4) by (simp add: unat_eq_0)
    then show ?thesis unfolding WriteClockUnitToMemory_def l(2) by (simp add: codec_enc l(1) Let_def)
  qed
  ultimately show ?thesis unfolding ReadClockUnitFromMemory_def by (simp add: MAX_CLOCK_UNIT_COUNT_def)
qed

definition shm_demo12 :: shm_env where
  "shm_demo12 = shm_demo\<lparr>se_AshmemGetSize := (\<lambda>_. 12)\<rparr>"

theorem sync_memories_too_small_witness:
  "WriteClockUnitToMemory shm_demo12 (demo_m\<lparr>sm_size := 12\<rparr>) \<lparr>cu_index = 1, cu_frameNum = 1, cu_pts = 1\<rparr>
     \<lparr>sw_fds = [5], sw_map = [(1, replicate 12 0)]\<rparr> = None"
proof -
  have r: "shm_ready shm_demo12 12 \<lparr>sw_fds = [5], sw_map = [(1, replicate 12 0)]\<rparr> (demo_m\<lparr>sm_size := 12\<rparr>)"
    by (simp add: shm_ready_def shm_refused_def shm_demo12_def shm_demo_def demo_m_def shm_bytes_def IsInValidSharedMemory_def)
  show ?thesis
    by (rule sync_memories_too_small[THEN conjunct2, THEN mp])
      (use r in \<open>simp_all add: IsInValidClockUnit_def MAX_CLOCK_UNIT_COUNT_def\<close>)
qed

end
