(* ===== verification/Softbus_Properties.thy ===== *)
theory Softbus_Properties
  imports Softbus_Adapter
begin

text \<open>
  What the channel adapter keeps: the well-formedness of its maps and the number of its threads over every
  sequence of its operations, and the authorisation of a device with its threads interleaved.
\<close>

section \<open>Runs of the adapter\<close>

text \<open>One operation of a user of the adapter, one callback of the softbus, or one thread that runs.\<close>

inductive sb_step :: "softbus \<Rightarrow> SoftbusChannelAdapter \<Rightarrow> SoftbusChannelAdapter \<Rightarrow> bool" for S where
  sb_create: "sb_step S s (snd (CreateChannelServer S pkgName sessName s))"
| sb_remove: "sb_step S s (snd (RemoveChannelServer S pkgName sessName s))"
| sb_open: "sb_step S s (snd (OpenSoftbusChannel S mySess peerSess dev s))"
| sb_close: "sb_step S s (snd (CloseSoftbusChannel S sessName dev s))"
| sb_bytes: "sb_step S s (snd (SendBytesData S sessName dev data s))"
| sb_stream: "sb_step S s (snd (SendStreamData S sessName dev d e s))"
| sb_register: "sb_step S s (snd (RegisterChannelListener sessName dev listener s))"
| sb_unregister: "sb_step S s (snd (UnRegisterChannelListener sessName dev s))"
| sb_start_sync: "sb_step S s (snd (StartDeviceTimeSync S pkgName sessName dev s))"
| sb_stop_sync: "sb_step S s (snd (StopDeviceTimeSync S pkgName sessName dev s))"
| sb_opened: "sb_step S s (snd (OnSoftbusChannelOpened req peerSess i dev result s))"
| sb_closed: "sb_step S s (OnSoftbusChannelClosed i s)"
| sb_received: "sb_step S s (OnSoftbusBytesReceived i data s)"
| sb_streamed: "sb_step S s (OnSoftbusStreamReceived i d e s)"
| sb_synced: "sb_step S s (OnSoftbusTimeSyncResult info result s)"
| sb_thread: "sb_step S s (run_thread n s)"
| sb_timer: "sb_step S s (authTimerThread req s)"
| sb_answer: "sb_step S s (ProcessAuthorizationResult req granted s)"
| sb_calls: "sb_step S s (s\<lparr>sb_calls := cs\<rparr>)"
| sb_config: "sb_step S s (upd_access f s)" if "\<And>a. om_ok (ac_authorizationResults a) \<Longrightarrow> om_ok (ac_authorizationResults (f a))"

inductive sb_reach :: "softbus \<Rightarrow> SoftbusChannelAdapter \<Rightarrow> bool" for S where
  sb_start: "sb_reach S SoftbusChannelAdapter_new"
| sb_next: "sb_reach S s \<Longrightarrow> sb_step S s s' \<Longrightarrow> sb_reach S s'"

definition counted_threads :: "SoftbusChannelAdapter \<Rightarrow> int" where
  "counted_threads s = int (length (filter (snd \<circ> snd) (sb_threads s)))"

definition sb_ok :: "SoftbusChannelAdapter \<Rightarrow> bool" where
  "sb_ok s = (om_ok (sb_serverMap s) \<and> om_ok (sb_devId2SessIdMap s) \<and> om_ok (sb_listenerMap s)
     \<and> om_ok (sb_pendingAuthRequests s) \<and> om_ok (sb_authTimerCancelFlags s) \<and> os_ok (sb_timeSyncSessNames s)
     \<and> om_ok (ac_authorizationResults (sb_access s))
     \<and> sb_inflightEventThreadCnt s = counted_threads s \<and> sb_inflightEventThreadCnt s \<le> DSOFTBUS_MAX_INFLIGHT_EVENT_THREADS)"

lemma sb_okI:
  "om_ok (sb_serverMap s) \<Longrightarrow> om_ok (sb_devId2SessIdMap s) \<Longrightarrow> om_ok (sb_listenerMap s) \<Longrightarrow>
   om_ok (sb_pendingAuthRequests s) \<Longrightarrow> om_ok (sb_authTimerCancelFlags s) \<Longrightarrow> os_ok (sb_timeSyncSessNames s) \<Longrightarrow>
   om_ok (ac_authorizationResults (sb_access s)) \<Longrightarrow> sb_inflightEventThreadCnt s = counted_threads s \<Longrightarrow>
   sb_inflightEventThreadCnt s \<le> DSOFTBUS_MAX_INFLIGHT_EVENT_THREADS \<Longrightarrow> sb_ok s"
  by (simp add: sb_ok_def)

lemma sb_okD:
  assumes "sb_ok s"
  shows "om_ok (sb_serverMap s)" "om_ok (sb_devId2SessIdMap s)" "om_ok (sb_listenerMap s)"
    "om_ok (sb_pendingAuthRequests s)" "om_ok (sb_authTimerCancelFlags s)" "os_ok (sb_timeSyncSessNames s)"
    "om_ok (ac_authorizationResults (sb_access s))" "sb_inflightEventThreadCnt s = counted_threads s"
    "sb_inflightEventThreadCnt s \<le> DSOFTBUS_MAX_INFLIGHT_EVENT_THREADS"
  using assms by (simp_all add: sb_ok_def)

lemma counted_one [simp]:
  "counted_threads (s\<lparr>sb_threads := ts @ [(k, e, True)]\<rparr>) = counted_threads (s\<lparr>sb_threads := ts\<rparr>) + 1"
  by (simp add: counted_threads_def)

lemma same_count: "sb_inflightEventThreadCnt s = v \<Longrightarrow> s\<lparr>sb_inflightEventThreadCnt := v\<rparr> = s"
  by auto

text \<open>The parts of the state an operation does not touch.\<close>

lemma counted_other [simp]:
  "counted_threads (s\<lparr>sb_serverMap := a\<rparr>) = counted_threads s" "counted_threads (s\<lparr>sb_timeSyncSessNames := b\<rparr>) = counted_threads s"
  "counted_threads (s\<lparr>sb_devId2SessIdMap := c\<rparr>) = counted_threads s" "counted_threads (s\<lparr>sb_listenerMap := d\<rparr>) = counted_threads s"
  "counted_threads (s\<lparr>sb_pendingAuthRequests := e\<rparr>) = counted_threads s" "counted_threads (s\<lparr>sb_authTimerCancelFlags := f\<rparr>) = counted_threads s"
  "counted_threads (s\<lparr>sb_authTimerThreads := g\<rparr>) = counted_threads s" "counted_threads (s\<lparr>sb_timers := h\<rparr>) = counted_threads s"
  "counted_threads (s\<lparr>sb_inflightEventThreadCnt := i\<rparr>) = counted_threads s" "counted_threads (s\<lparr>sb_access := j\<rparr>) = counted_threads s"
  "counted_threads (s\<lparr>sb_log := k\<rparr>) = counted_threads s" "counted_threads (s\<lparr>sb_calls := l\<rparr>) = counted_threads s"
  "counted_threads (s\<lparr>sb_threads := sb_threads s\<rparr>) = counted_threads s"
  by (simp_all add: counted_threads_def)

section \<open>Every operation keeps the state well-formed\<close>

named_theorems sb_keeps \<open>operations that keep the adapter well-formed\<close>

lemma ok_log [sb_keeps]: "sb_ok s \<Longrightarrow> sb_ok (s\<lparr>sb_log := l\<rparr>)"
  and ok_calls [sb_keeps]: "sb_ok s \<Longrightarrow> sb_ok (s\<lparr>sb_calls := c\<rparr>)"
  and ok_timers [sb_keeps]: "sb_ok s \<Longrightarrow> sb_ok (s\<lparr>sb_timers := t\<rparr>)"
  and ok_timerThreads [sb_keeps]: "sb_ok s \<Longrightarrow> sb_ok (s\<lparr>sb_authTimerThreads := tt\<rparr>)"
  and ok_server [sb_keeps]: "sb_ok s \<Longrightarrow> om_ok m \<Longrightarrow> sb_ok (s\<lparr>sb_serverMap := m\<rparr>)"
  and ok_sessions [sb_keeps]: "sb_ok s \<Longrightarrow> om_ok m \<Longrightarrow> sb_ok (s\<lparr>sb_devId2SessIdMap := m\<rparr>)"
  and ok_listeners [sb_keeps]: "sb_ok s \<Longrightarrow> om_ok ml \<Longrightarrow> sb_ok (s\<lparr>sb_listenerMap := ml\<rparr>)"
  and ok_pending [sb_keeps]: "sb_ok s \<Longrightarrow> om_ok mp \<Longrightarrow> sb_ok (s\<lparr>sb_pendingAuthRequests := mp\<rparr>)"
  and ok_flags [sb_keeps]: "sb_ok s \<Longrightarrow> om_ok mf \<Longrightarrow> sb_ok (s\<lparr>sb_authTimerCancelFlags := mf\<rparr>)"
  and ok_sync [sb_keeps]: "sb_ok s \<Longrightarrow> os_ok n \<Longrightarrow> sb_ok (s\<lparr>sb_timeSyncSessNames := n\<rparr>)"
  and ok_access [sb_keeps]: "sb_ok s \<Longrightarrow> om_ok (ac_authorizationResults a) \<Longrightarrow> sb_ok (s\<lparr>sb_access := a\<rparr>)"
  and ok_uncounted [sb_keeps]: "sb_ok s \<Longrightarrow> sb_threads s = ts \<Longrightarrow> sb_ok (s\<lparr>sb_threads := ts @ map (\<lambda>k. (k, h k, False)) ks\<rparr>)"
  by (auto simp: sb_ok_def counted_threads_def filter_map comp_def)

lemma ok_softbus_call [sb_keeps]: "sb_ok s \<Longrightarrow> sb_ok (snd (softbus_call S c s))"
  by (simp add: softbus_call_def ok_log)

lemma ok_listener_at [sb_keeps]: "sb_ok s \<Longrightarrow> sb_ok (snd (listener_at n s))"
  by (auto simp: listener_at_def split: option.splits intro!: ok_listeners om_intros dest: sb_okD)

lemma ok_call_listener [sb_keeps]: "sb_ok s \<Longrightarrow> sb_ok (call_listener c s)"
  by (simp add: call_listener_def ok_calls)

lemma ok_SendChannelEvent [sb_keeps]: "sb_ok s \<Longrightarrow> sb_ok (SendChannelEvent n e s)"
  using ok_listener_at[of s n] by (auto simp: SendChannelEvent_def ok_call_listener split: prod.splits option.splits)

lemma ok_upd_access [sb_keeps]:
  "sb_ok s \<Longrightarrow> (\<And>a. om_ok (ac_authorizationResults a) \<Longrightarrow> om_ok (ac_authorizationResults (f a))) \<Longrightarrow> sb_ok (upd_access f s)"
  by (simp add: upd_access_def ok_access sb_okD)

lemma ok_granted [sb_keeps]: "sb_ok s \<Longrightarrow> sb_ok (upd_access (SetAuthorizationGranted n g) s)"
  by (rule ok_upd_access) (simp_all add: SetAuthorizationGranted_def om_ok_put)

lemma ok_take_pending [sb_keeps]: "sb_ok s \<Longrightarrow> sb_ok (snd (take_pending r s))"
  by (auto simp: take_pending_def split: option.splits intro!: ok_pending om_intros dest: sb_okD)

lemma ok_Cancel [sb_keeps]: "sb_ok s \<Longrightarrow> sb_ok (CancelAuthorizationTimer r s)"
  by (auto simp: CancelAuthorizationTimer_def intro!: ok_flags om_intros dest: sb_okD)

lemma ok_StartTimer [sb_keeps]: "sb_ok s \<Longrightarrow> sb_ok (StartAuthorizationTimer r ms s)"
proof -
  assume "sb_ok s"
  then have "sb_ok (CancelAuthorizationTimer r s)" by (rule ok_Cancel)
  then show ?thesis unfolding StartAuthorizationTimer_def Let_def
    by (intro ok_timers ok_timerThreads ok_flags om_ok_put) (simp_all add: sb_okD)
qed

lemma ok_Timeout [sb_keeps]: "sb_ok s \<Longrightarrow> sb_ok (HandleAuthorizationTimeout r s)"
  using ok_take_pending[of s r] by (auto simp: HandleAuthorizationTimeout_def ok_granted split: prod.splits)

lemma ok_Process [sb_keeps]: "sb_ok s \<Longrightarrow> sb_ok (ProcessAuthorizationResult r g s)"
  using ok_take_pending[OF ok_Cancel, of s r r] by (auto simp: ProcessAuthorizationResult_def ok_granted split: prod.splits)

lemma ok_timer_flag [sb_keeps]: "sb_ok s \<Longrightarrow> sb_ok (snd (timer_flag r s))"
  by (simp add: timer_flag_def ok_flags om_ok_del sb_okD)

lemma ok_authTimerThread [sb_keeps]: "sb_ok s \<Longrightarrow> sb_ok (authTimerThread r s)"
  using ok_timer_flag[of s r] by (auto simp: authTimerThread_def Let_def ok_timerThreads ok_Timeout split: prod.splits)

lemma ok_Request [sb_keeps]: "sb_ok s \<Longrightarrow> sb_ok (snd (RequestAndWaitForAuthorization r n s))"
  by (auto simp: RequestAndWaitForAuthorization_def Let_def ok_granted om_ok_put sb_okD split: option.splits
      intro!: ok_calls ok_StartTimer ok_pending)

lemma om_ok_puts: "om_ok m \<Longrightarrow> om_ok (fold (\<lambda>k m. om_put k v m) ks m)"
  by (induction ks arbitrary: m) (simp_all add: om_ok_put)

lemma ok_run_thread [sb_keeps]: "sb_ok s \<Longrightarrow> sb_ok (run_thread n s)"
proof (cases "n < length (sb_threads s)")
  case True
  assume s: "sb_ok s"
  obtain k e c where t: "sb_threads s ! n = (k, e, c)" by (cases "sb_threads s ! n")
  have split: "sb_threads s = take n (sb_threads s) @ (k, e, c) # drop (Suc n) (sb_threads s)"
    using id_take_nth_drop[OF True] t by simp
  have one: "counted_threads s = counted_threads (s\<lparr>sb_threads := take n (sb_threads s) @ drop (Suc n) (sb_threads s)\<rparr>) + (if c then 1 else 0)"
    unfolding counted_threads_def by (subst (1) split) simp
  have same: "sb_inflightEventThreadCnt (SendChannelEvent k e r) = sb_inflightEventThreadCnt r"
    "counted_threads (SendChannelEvent k e r) = counted_threads r" for r
    by (auto simp: SendChannelEvent_def listener_at_def call_listener_def split: option.splits)
  let ?r = "s\<lparr>sb_threads := take n (sb_threads s) @ drop (Suc n) (sb_threads s)\<rparr>"
  let ?s' = "SendChannelEvent k e ?r"
  have base: "sb_ok (SendChannelEvent k e (?r\<lparr>sb_inflightEventThreadCnt := counted_threads ?r\<rparr>))"
    using s one sb_okD(8,9)[OF s] by (intro ok_SendChannelEvent sb_okI) (auto simp: sb_okD counted_threads_def split: if_splits)
  have eq: "SendChannelEvent k e (?r\<lparr>sb_inflightEventThreadCnt := x\<rparr>) = (SendChannelEvent k e ?r)\<lparr>sb_inflightEventThreadCnt := x\<rparr>" for x
    by (simp add: SendChannelEvent_def listener_at_def call_listener_def split: option.splits)
  have "run_thread n s = ?s'\<lparr>sb_inflightEventThreadCnt := counted_threads ?r\<rparr>"
    using True t one same(1)[of ?r] sb_okD(8)[OF s] same_count[of ?s'] by (auto simp: run_thread_def Let_def)
  then show ?thesis using base unfolding eq by simp
qed (simp add: run_thread_def)

lemma ok_start_counted [sb_keeps]: "sb_ok s \<Longrightarrow> sb_ok (start_counted e k s)"
  by (auto simp: start_counted_def sb_ok_def)

lemma ok_fold: "(\<And>x s. sb_ok s \<Longrightarrow> sb_ok (f x s)) \<Longrightarrow> sb_ok s \<Longrightarrow> sb_ok (fold f xs s)"
  by (induction xs arbitrary: s) simp_all

lemma ok_stream_to [sb_keeps]: "sb_ok s \<Longrightarrow> sb_ok (stream_to i d e m s)"
proof (induction i d e m s rule: stream_to.induct)
  case (2 i d e k j m s)
  then show ?case using ok_listener_at[of s k] by (auto simp: ok_call_listener split: prod.splits option.splits)
qed simp

lemma ok_step:
  assumes "sb_step S s s'" "sb_ok s"
  shows "sb_ok s'"
  using assms
proof (cases rule: sb_step.cases)
  case (sb_create pkgName sessName)
  then show ?thesis using assms(2) sb_keeps
    by (auto simp: CreateChannelServer_def softbus_call_def Let_def split: prod.splits intro!: ok_server ok_log om_intros dest: sb_okD)
next
  case (sb_remove pkgName sessName)
  have "sb_ok (snd (softbus_call S c r))" if "sb_ok r" for c r using that by (rule ok_softbus_call)
  then show ?thesis using sb_remove assms(2)
    by (auto simp: RemoveChannelServer_def softbus_call_def Let_def split: prod.splits option.splits
        intro!: ok_server ok_sessions ok_log om_ok_del dest: sb_okD)
next
  case (sb_open mySess peerSess dev)
  then show ?thesis using assms(2)
    by (auto simp: OpenSoftbusChannel_def softbus_call_def SendEventChannelOPened_def Let_def split: prod.splits
        intro!: ok_uncounted ok_sessions ok_log om_intros dest: sb_okD)
next
  case (sb_close sessName dev)
  then show ?thesis using assms(2)
    by (auto simp: CloseSoftbusChannel_def softbus_call_def Let_def split: prod.splits intro!: ok_sessions ok_log om_intros dest: sb_okD)
next
  case (sb_opened req peerSess i dev result)
  let ?s = "snd (RequestAndWaitForAuthorization req dev (upd_access (SetCurrentNetworkId dev) s))"
  have "sb_ok ?s" using assms(2)
    by (intro ok_Request ok_upd_access) (simp_all add: SetCurrentNetworkId_def)
  then show ?thesis using sb_opened assms(2)
    by (auto simp: OnSoftbusChannelOpened_def Let_def case_prod_unfold split: prod.splits
        intro!: ok_sessions ok_uncounted om_ok_emplace om_ok_puts dest: sb_okD(2))
next
  case (sb_closed i)
  then show ?thesis using assms(2)
    by (auto simp: OnSoftbusChannelClosed_def Let_def simp del: map_map intro!: ok_sessions ok_uncounted om_ok_keep dest: sb_okD(2))
next
  case (sb_received i data)
  then show ?thesis using assms(2)
    by (auto simp: OnSoftbusBytesReceived_def Let_def split: option.splits intro!: ok_fold ok_start_counted)
next
  case (sb_synced info result)
  have "sb_ok (case listener_at n r of (None, r1) \<Rightarrow> r1 | (Some l, r1) \<Rightarrow> call_listener (c l) r1)" if "sb_ok r" for n r c
    using ok_listener_at[OF that, of n] by (auto simp: ok_call_listener split: prod.splits option.splits)
  then show ?thesis using sb_synced assms(2)
    by (auto simp: OnSoftbusTimeSyncResult_def split: option.splits intro!: ok_fold)
qed (auto simp: SendBytesData_def SendStreamData_def RegisterChannelListener_def UnRegisterChannelListener_def
    StartDeviceTimeSync_def StopDeviceTimeSync_def OnSoftbusStreamReceived_def softbus_call_def Let_def os_del_def sb_okD
    split: option.splits prod.splits
    intro!: ok_log ok_listeners ok_sync ok_stream_to ok_run_thread ok_authTimerThread ok_Process ok_calls ok_upd_access
      om_intros)



section \<open>Authorisation with interleaved threads\<close>

text \<open>
  The threads of a request, by the section of the lock that comes next: the timer after its sleep
  (\<open>StartAuthorizationTimer\<close> and \<open>HandleAuthorizationTimeout\<close>) and an answer
  (\<open>ProcessAuthorizationResult\<close>).  The log is the decisions that were made: request, device and decision.
\<close>

datatype auth_thread =
  TimerSleeps string | TimerDue string | TimerTook string string | TimerEnds string
| AnswerStarts string bool | AnswerCancelled string bool | AnswerTook string string bool

type_synonym decision = "string \<times> string \<times> bool"

fun auth_section ::
    "auth_thread \<Rightarrow> SoftbusChannelAdapter \<Rightarrow> auth_thread option \<times> decision list \<times> SoftbusChannelAdapter" where
  "auth_section (TimerSleeps r) s =
     (case timer_flag r s of (due, s') \<Rightarrow> (Some (if due then TimerDue r else TimerEnds r), [], s'))"
| "auth_section (TimerDue r) s =
     (case take_pending r s of (n, s') \<Rightarrow> (Some (if n = [] then TimerEnds r else TimerTook r n), [], s'))"
| "auth_section (TimerTook r n) s = (Some (TimerEnds r), [(r, n, False)], upd_access (SetAuthorizationGranted n False) s)"
| "auth_section (TimerEnds r) s = (None, [], s\<lparr>sb_authTimerThreads := os_del r (sb_authTimerThreads s)\<rparr>)"
| "auth_section (AnswerStarts r g) s = (Some (AnswerCancelled r g), [], CancelAuthorizationTimer r s)"
| "auth_section (AnswerCancelled r g) s =
     (case take_pending r s of (n, s') \<Rightarrow> (if n = [] then None else Some (AnswerTook r n g), [], s'))"
| "auth_section (AnswerTook r n g) s = (None, [(r, n, g)], upd_access (SetAuthorizationGranted n g) s)"

inductive auth_step ::
    "auth_thread list \<times> decision list \<times> SoftbusChannelAdapter \<Rightarrow>
     auth_thread list \<times> decision list \<times> SoftbusChannelAdapter \<Rightarrow> bool" where
  "auth_section t s = (t', d, s') \<Longrightarrow>
   auth_step (xs @ t # ys, dl, s) (xs @ (case t' of None \<Rightarrow> [] | Some u \<Rightarrow> [u]) @ ys, dl @ d, s')"

inductive auth_steps ::
    "auth_thread list \<times> decision list \<times> SoftbusChannelAdapter \<Rightarrow>
     auth_thread list \<times> decision list \<times> SoftbusChannelAdapter \<Rightarrow> bool" where
  auth_refl: "auth_steps c c"
| auth_trans: "auth_steps c c' \<Longrightarrow> auth_step c' c'' \<Longrightarrow> auth_steps c c''"

inductive_cases auth_stepE: "auth_step (ts, dl, s) (ts', dl', s')"

text \<open>The sections of one thread, one after the other, are what the functions of the adapter do.\<close>

fun auth_run :: "nat \<Rightarrow> auth_thread option \<Rightarrow> SoftbusChannelAdapter \<Rightarrow> SoftbusChannelAdapter" where
  "auth_run (Suc k) (Some t) s = (case auth_section t s of (t', _, s') \<Rightarrow> auth_run k t' s')"
| "auth_run _ _ s = s"

lemma auth_run_is:
  "auth_run 4 (Some (TimerSleeps r)) s = authTimerThread r s"
  "auth_run 3 (Some (AnswerStarts r g)) s = ProcessAuthorizationResult r g s"
  by (auto simp: numeral_eq_Suc authTimerThread_def HandleAuthorizationTimeout_def ProcessAuthorizationResult_def Let_def
      split: prod.splits)

fun thread_of :: "auth_thread \<Rightarrow> string" where
  "thread_of (TimerSleeps r) = r" | "thread_of (TimerDue r) = r" | "thread_of (TimerTook r n) = r"
| "thread_of (TimerEnds r) = r" | "thread_of (AnswerStarts r g) = r" | "thread_of (AnswerCancelled r g) = r"
| "thread_of (AnswerTook r n g) = r"

fun took :: "auth_thread \<Rightarrow> bool" where
  "took (TimerTook r n) = True" | "took (AnswerTook r n g) = True" | "took _ = False"

fun takes :: "auth_thread \<Rightarrow> bool" where
  "takes (TimerDue r) = True" | "takes (AnswerStarts r g) = True" | "takes (AnswerCancelled r g) = True"
| "takes _ = False"

fun allows :: "auth_thread \<Rightarrow> bool" where
  "allows (AnswerStarts r g) = g" | "allows (AnswerCancelled r g) = g" | "allows (AnswerTook r n g) = g"
| "allows _ = False"

fun device_is :: "string \<Rightarrow> auth_thread \<Rightarrow> bool" where
  "device_is n (TimerTook r m) = (m = n)" | "device_is n (AnswerTook r m g) = (m = n)" | "device_is n _ = True"

text \<open>
  What holds of a request \<open>r\<close> of the device \<open>n\<close>: it is pending, taken by one thread, or decided; while it is
  pending some thread is going to take it; and only an answer that allows it can grant it.
\<close>

definition one_decision :: "string \<Rightarrow> string \<Rightarrow> bool \<Rightarrow> auth_thread list \<times> decision list \<times> SoftbusChannelAdapter \<Rightarrow> bool" where
  "one_decision r n a c = (case c of (ts, dl, s) \<Rightarrow>
     (if om_get (sb_pendingAuthRequests s) r = None then 0 else 1)
       + length (filter (\<lambda>t. thread_of t = r \<and> took t) ts) + length (filter (\<lambda>d. fst d = r) dl) = 1
     \<and> (om_get (sb_pendingAuthRequests s) r \<noteq> None \<longrightarrow>
          om_get (sb_pendingAuthRequests s) r = Some n
          \<and> (list_ex (\<lambda>t. thread_of t = r \<and> takes t) ts
             \<or> TimerSleeps r \<in> set ts \<and> om_get (sb_authTimerCancelFlags s) r = Some False))
     \<and> (\<forall>t \<in> set ts. thread_of t = r \<longrightarrow> device_is n t \<and> (allows t \<longrightarrow> a))
     \<and> (\<forall>d \<in> set dl. fst d = r \<longrightarrow> fst (snd d) = n \<and> (snd (snd d) \<longrightarrow> a)))"

lemma section_thread:
  "auth_section t s = (Some t', d, s') \<Longrightarrow> thread_of t' = thread_of t"
  by (cases t) (auto split: prod.splits if_splits)

lemma section_log:
  "auth_section t s = (t', d, s') \<Longrightarrow> e \<in> set d \<Longrightarrow> fst e = thread_of t"
  by (cases t) (auto split: prod.splits)

lemma section_other:
  assumes "auth_section t s = (t', d, s')" "thread_of t \<noteq> r"
  shows "om_get (sb_pendingAuthRequests s') r = om_get (sb_pendingAuthRequests s) r"
    "om_get (sb_authTimerCancelFlags s') r = om_get (sb_authTimerCancelFlags s) r"
  using assms
  by (cases t; force simp: timer_flag_def take_pending_def CancelAuthorizationTimer_def upd_access_def
      split: if_splits option.splits prod.splits)+

lemma no_log: "auth_section t s = (t', d, s') \<Longrightarrow> thread_of t \<noteq> r \<Longrightarrow> filter (\<lambda>e. fst e = r) d = []"
  by (auto simp: filter_empty_conv dest: section_log)

lemma one_decision_other:
  assumes "auth_section t s = (t', d, s')" "thread_of t \<noteq> r" "one_decision r n a (xs @ t # ys, dl, s)"
  shows "one_decision r n a (xs @ (case t' of None \<Rightarrow> [] | Some u \<Rightarrow> [u]) @ ys, dl @ d, s')"
proof -
  let ?us = "case t' of None \<Rightarrow> [] | Some u \<Rightarrow> [u]"
  have us: "thread_of u \<noteq> r" if "u \<in> set ?us" for u
    using section_thread assms(1,2) that by (auto split: option.splits)
  then have f: "filter (\<lambda>t. thread_of t = r \<and> took t) ?us = []" "\<not> list_ex (\<lambda>t. thread_of t = r \<and> takes t) ?us"
    "TimerSleeps r \<notin> set ?us" by (force simp: filter_empty_conv list_ex_iff)+
  have d: "fst e \<noteq> r" if "e \<in> set d" for e using section_log[OF assms(1) that] assms(2) by simp
  have t: "t \<noteq> TimerSleeps r" using assms(2) by auto
  have "om_get (sb_pendingAuthRequests s') r = om_get (sb_pendingAuthRequests s) r"
    "om_get (sb_authTimerCancelFlags s') r = om_get (sb_authTimerCancelFlags s) r"
    by (rule section_other[OF assms(1,2)])+
  then show ?thesis
    using assms(2,3) t f by (simp add: one_decision_def no_log[OF assms(1,2)] ball_Un) (use us d in auto)
qed

lemmas section_defs = timer_flag_def take_pending_def CancelAuthorizationTimer_def upd_access_def

lemma one_decision_same:
  assumes "auth_section t s = (t', d, s')" "thread_of t = r" "one_decision r n a (xs @ t # ys, dl, s)" "n \<noteq> []"
  shows "one_decision r n a (xs @ (case t' of None \<Rightarrow> [] | Some u \<Rightarrow> [u]) @ ys, dl @ d, s')"
proof (cases t)
  case (TimerSleeps q)
  then show ?thesis using assms
    by (cases "om_get (sb_pendingAuthRequests s) r"; cases "om_get (sb_authTimerCancelFlags s) r = Some False"; clarsimp simp: one_decision_def section_defs ball_Un)
next
  case (TimerDue q)
  then show ?thesis using assms by (cases "om_get (sb_pendingAuthRequests s) r"; clarsimp simp: one_decision_def section_defs ball_Un)
next
  case (TimerTook q m)
  then show ?thesis using assms by (cases "om_get (sb_pendingAuthRequests s) r"; clarsimp simp: one_decision_def section_defs ball_Un)
next
  case (TimerEnds q)
  then show ?thesis using assms by (cases "om_get (sb_pendingAuthRequests s) r"; clarsimp simp: one_decision_def ball_Un)
next
  case (AnswerStarts q g)
  then show ?thesis using assms by (cases "om_get (sb_pendingAuthRequests s) r"; clarsimp simp: one_decision_def section_defs ball_Un)
next
  case (AnswerCancelled q g)
  then show ?thesis using assms by (cases "om_get (sb_pendingAuthRequests s) r"; clarsimp simp: one_decision_def section_defs ball_Un)
next
  case (AnswerTook q m g)
  then show ?thesis using assms by (cases "om_get (sb_pendingAuthRequests s) r"; clarsimp simp: one_decision_def section_defs ball_Un)
qed

lemma one_decision_step:
  assumes "auth_step c c'" "one_decision r n a c" "n \<noteq> []"
  shows "one_decision r n a c'"
  using assms(1)
proof cases
  case (1 t s t' d s' xs ys dl)
  then show ?thesis using assms(2,3) one_decision_other[OF 1(3)] one_decision_same[OF 1(3)] by (cases "thread_of t = r") simp_all
qed

lemma one_decision_steps: "auth_steps c c' \<Longrightarrow> one_decision r n a c \<Longrightarrow> n \<noteq> [] \<Longrightarrow> one_decision r n a c'"
  by (induction rule: auth_steps.induct) (simp_all add: one_decision_step)

text \<open>
  C34: However the threads of a request for authorisation are interleaved, its timer and any number of answers, when
  they are done exactly one decision has been made of it, for the device that asked, whatever other requests there
  are; and access is granted only when an answer granted it.\<close>

theorem authorised_once:
  assumes "auth_steps (ts, [], s) (ts', ds, s')"
    and "om_get (sb_pendingAuthRequests s) r = Some n" "n \<noteq> []"
    and "om_get (sb_authTimerCancelFlags s) r = Some False" "TimerSleeps r \<in> set ts"
    and "\<And>t. t \<in> set ts \<Longrightarrow> thread_of t = r \<Longrightarrow> t = TimerSleeps r \<or> (\<exists>g. t = AnswerStarts r g)"
    and "\<And>t. t \<in> set ts' \<Longrightarrow> thread_of t \<noteq> r"
  shows "\<exists>b. filter (\<lambda>d. fst d = r) ds = [(r, n, b)] \<and> (b \<longrightarrow> AnswerStarts r True \<in> set ts)"
proof -
  let ?a = "AnswerStarts r True \<in> set ts"
  have "\<not> took t" if "t \<in> set ts" "thread_of t = r" for t using assms(6)[OF that] by auto
  then have none: "filter (\<lambda>t. thread_of t = r \<and> took t) ts = []" by (auto simp: filter_empty_conv)
  have dev: "device_is n t \<and> (allows t \<longrightarrow> ?a)" if "t \<in> set ts" "thread_of t = r" for t
    using assms(6)[OF that] that(1) by auto
  have start: "one_decision r n ?a (ts, [], s)"
    unfolding one_decision_def prod.case none using assms(2,4,5) dev by simp
  have "one_decision r n ?a (ts', ds, s')"
    by (rule one_decision_steps[OF assms(1) start assms(3)])
  note fin = this[unfolded one_decision_def prod.case]
  have e: "filter (\<lambda>t. thread_of t = r \<and> took t) ts' = []" "\<not> list_ex (\<lambda>t. thread_of t = r \<and> takes t) ts'" "TimerSleeps r \<notin> set ts'"
    using assms(7) assms(7)[of "TimerSleeps r"] by (auto simp: filter_empty_conv list_ex_iff)
  then have p: "om_get (sb_pendingAuthRequests s') r = None" using fin by auto
  then have "length (filter (\<lambda>d. fst d = r) ds) = 1" using fin e by simp
  then obtain d where d: "filter (\<lambda>d. fst d = r) ds = [d]" by (cases "filter (\<lambda>d. fst d = r) ds") auto
  have "d \<in> set (filter (\<lambda>d. fst d = r) ds)" unfolding d by simp
  then have m: "d \<in> set ds" "fst d = r" by simp_all
  have "fst (snd d) = n \<and> (snd (snd d) \<longrightarrow> ?a)" using fin m by blast
  then show ?thesis using d m(2) by (cases d) auto
qed

text \<open>A request of the device \<open>d\<close> whose timer runs out between the two sections of an answer.\<close>

definition pending_demo :: SoftbusChannelAdapter where
  "pending_demo = SoftbusChannelAdapter_new\<lparr>sb_pendingAuthRequests := [(''r'', ''d'')], sb_authTimerCancelFlags := [(''r'', False)],
     sb_authTimerThreads := [''r'']\<rparr>"

theorem authorised_once_witness:
  "\<exists>ds s'. auth_steps ([TimerSleeps ''r'', AnswerStarts ''r'' True], [], pending_demo) ([], ds, s')
     \<and> filter (\<lambda>d. fst d = ''r'') ds = [(''r'', ''d'', False)]"
proof -
  note st = auth_step.intros[where xs = "[]"] auth_step.intros[where xs = "[t]" for t]
  define s1 where "s1 = pending_demo\<lparr>sb_authTimerCancelFlags := []\<rparr>"
  define s2 where "s2 = s1\<lparr>sb_pendingAuthRequests := []\<rparr>"
  define s3 where "s3 = upd_access (SetAuthorizationGranted ''d'' False) s2"
  define s4 where "s4 = s3\<lparr>sb_authTimerThreads := []\<rparr>"
  note ss = s1_def s2_def s3_def s4_def pending_demo_def timer_flag_def take_pending_def CancelAuthorizationTimer_def
    om_del_def os_del_def upd_access_def SoftbusChannelAdapter_new_def
  have 1: "auth_step ([TimerSleeps ''r'', AnswerStarts ''r'' True], [], pending_demo) ([TimerDue ''r'', AnswerStarts ''r'' True], [], s1)"
    using st(1)[of "TimerSleeps ''r''" pending_demo "Some (TimerDue ''r'')" "[]" s1 "[AnswerStarts ''r'' True]" "[]"] by (simp add: ss)
  have 2: "auth_step ([TimerDue ''r'', AnswerStarts ''r'' True], [], s1) ([TimerDue ''r'', AnswerCancelled ''r'' True], [], s1)"
    using st(2)[of "AnswerStarts ''r'' True" s1 "Some (AnswerCancelled ''r'' True)" "[]" s1 "TimerDue ''r''" "[]" "[]"] by (simp add: ss)
  have 3: "auth_step ([TimerDue ''r'', AnswerCancelled ''r'' True], [], s1) ([TimerTook ''r'' ''d'', AnswerCancelled ''r'' True], [], s2)"
    using st(1)[of "TimerDue ''r''" s1 "Some (TimerTook ''r'' ''d'')" "[]" s2 "[AnswerCancelled ''r'' True]" "[]"] by (simp add: ss)
  have 4: "auth_step ([TimerTook ''r'' ''d'', AnswerCancelled ''r'' True], [], s2) ([TimerTook ''r'' ''d''], [], s2)"
    using st(2)[of "AnswerCancelled ''r'' True" s2 None "[]" s2 "TimerTook ''r'' ''d''" "[]" "[]"] by (simp add: ss)
  have 5: "auth_step ([TimerTook ''r'' ''d''], [], s2) ([TimerEnds ''r''], [(''r'', ''d'', False)], s3)"
    using st(1)[of "TimerTook ''r'' ''d''" s2 "Some (TimerEnds ''r'')" "[(''r'', ''d'', False)]" s3 "[]" "[]"] by (simp add: ss)
  have 6: "auth_step ([TimerEnds ''r''], [(''r'', ''d'', False)], s3) ([], [(''r'', ''d'', False)], s4)"
    using st(1)[of "TimerEnds ''r''" s3 None "[]" s4 "[]" "[(''r'', ''d'', False)]"] by (simp add: ss)
  have run: "auth_steps ([TimerSleeps ''r'', AnswerStarts ''r'' True], [], pending_demo) ([], [(''r'', ''d'', False)], s4)"
    by (rule auth_trans[OF auth_trans[OF auth_trans[OF auth_trans[OF auth_trans[OF auth_trans[OF auth_refl 1] 2] 3] 4] 5] 6])
  have "\<exists>b. filter (\<lambda>d. fst d = ''r'') [(''r'', ''d'', False)] = [(''r'', ''d'', b)] \<and> (b \<longrightarrow> AnswerStarts ''r'' True \<in> set [TimerSleeps ''r'', AnswerStarts ''r'' True])"
    by (rule authorised_once[OF run]) (auto simp: pending_demo_def)
  then show ?thesis using run by auto
qed

section \<open>Two devices on one session\<close>

lemma om_get_puts: "om_get (fold (\<lambda>k m. om_put k v m) ks m) = (\<lambda>k. if k \<in> set ks then Some v else om_get m k)"
  by (induction ks arbitrary: m) (auto simp: fun_eq_iff)

lemma Request_same:
  "sb_listenerMap (snd (RequestAndWaitForAuthorization r n s)) = sb_listenerMap s"
  "sb_threads (snd (RequestAndWaitForAuthorization r n s)) = sb_threads s"
  "sb_timeSyncSessNames (snd (RequestAndWaitForAuthorization r n s)) = sb_timeSyncSessNames s"
  "sb_devId2SessIdMap (snd (RequestAndWaitForAuthorization r n s)) = sb_devId2SessIdMap s"
  by (simp_all add: RequestAndWaitForAuthorization_def StartAuthorizationTimer_def CancelAuthorizationTimer_def upd_access_def
      Let_def split: option.splits)

lemma sublist_key: "sublist sessName (sess_key sessName dev)"
  by (auto simp: sess_key_def sublist_def)

text \<open>
  When a second device opens a channel, the listener of a first device on the same session is told that its
  channel was opened, by the second device, and the session of the first device becomes the session of the second:
  what is then sent to the first device goes to the second.\<close>

theorem second_device_takes_over:
  assumes "om_get (sb_listenerMap s) (sess_key sess dev1) = Some (Some l)"
    and "FindSessNameByPeerSessName peerSess = sess" "sess \<noteq> []" "peerSess \<noteq> []" "dev1 \<noteq> []" "dev2 \<noteq> []"
    and "0 \<le> i" "data \<noteq> []"
  shows "let s' = snd (OnSoftbusChannelOpened req peerSess i dev2 0 s) in
     GetSessIdBySessName sess dev1 s' = i
     \<and> (sess_key sess dev1, \<lparr>ev_type = EVENT_CHANNEL_OPENED, ev_content = sess, ev_peerDevId = dev2\<rparr>, False) \<in> set (sb_threads s')
     \<and> sb_log (snd (SendBytesData S sess dev1 data s')) = sb_log s' @ [SB_SendBytes i (c_str data)]"
proof -
  let ?s1 = "snd (RequestAndWaitForAuthorization req dev2 (upd_access (SetCurrentNetworkId dev2) s))"
  let ?s' = "snd (OnSoftbusChannelOpened req peerSess i dev2 0 s)"
  have "sb_listenerMap ?s1 = sb_listenerMap s" by (simp add: Request_same upd_access_def)
  then have k: "sess_key sess dev1 \<in> set (listeners_of sess ?s1)"
    using map_of_SomeD[OF assms(1)] sublist_key[of sess dev1] by (force simp: listeners_of_def)
  have id: "GetSessIdBySessName sess dev1 ?s' = i"
    using assms(2-4,6) k by (simp add: OnSoftbusChannelOpened_def GetSessIdBySessName_def Let_def case_prod_unfold om_get_puts)
  moreover have "(sess_key sess dev1, \<lparr>ev_type = EVENT_CHANNEL_OPENED, ev_content = sess, ev_peerDevId = dev2\<rparr>, False) \<in> set (sb_threads ?s')"
    using assms(2-4,6) k by (simp add: OnSoftbusChannelOpened_def Let_def case_prod_unfold)
  moreover have "sb_log (snd (SendBytesData S sess dev1 data ?s')) = sb_log ?s' @ [SB_SendBytes i (c_str data)]"
    using id assms(3,5,7,8) by (simp add: SendBytesData_def softbus_call_def Let_def)
  ultimately show ?thesis by (simp add: Let_def)
qed

definition mic_demo :: SoftbusChannelAdapter where
  "mic_demo = snd (RegisterChannelListener (OWNER_NAME_D_MIC @ ''_'' @ SENDER_CONTROL_SESSION_NAME_SUFFIX) ''one'' (Some 7)
     SoftbusChannelAdapter_new)"

theorem second_device_takes_over_witness:
  "GetSessIdBySessName (OWNER_NAME_D_MIC @ ''_'' @ SENDER_CONTROL_SESSION_NAME_SUFFIX) ''one''
     (snd (OnSoftbusChannelOpened ''r'' (OWNER_NAME_D_MIC @ ''_'' @ RECEIVER_CONTROL_SESSION_NAME_SUFFIX) 4 ''two'' 0 mic_demo)) = 4"
proof -
  let ?sess = "OWNER_NAME_D_MIC @ ''_'' @ SENDER_CONTROL_SESSION_NAME_SUFFIX"
  let ?peer = "OWNER_NAME_D_MIC @ ''_'' @ RECEIVER_CONTROL_SESSION_NAME_SUFFIX"
  have l: "om_get (sb_listenerMap mic_demo) (sess_key ?sess ''one'') = Some (Some 7)"
    by (simp add: mic_demo_def RegisterChannelListener_def SoftbusChannelAdapter_new_def OWNER_NAME_D_MIC_def)
  have f: "FindSessNameByPeerSessName ?peer = ?sess"
    by (simp add: FindSessNameByPeerSessName_def LOCAL_TO_PEER_SESSION_NAME_MAP_def both_ways_def session_names)
  have n: "?sess \<noteq> []" "?peer \<noteq> []" by (simp_all add: OWNER_NAME_D_MIC_def)
  show ?thesis
    using second_device_takes_over[OF l f n, of "''two''" 4 "''x''" "''r''"] by (simp add: Let_def)
qed

end
