(* ===== verification/Centre_Properties.thy ===== *)
theory Centre_Properties
  imports Softbus_Properties Av_Control Json_Laws
begin

text \<open>
  What the control centre of the audio and video transport does together with the channel adapter: the messages
  it exchanges, the result of a time synchronisation over every run of both, and the memories it opens.
\<close>

section \<open>Messages\<close>

definition message_members :: "AVTransMessage \<Rightarrow> jmember list" where
  "message_members m = [MNum KEY_TYPE (uint (am_type m)), MStr KEY_CONTENT (am_content m), MStr KEY_DST_DEVID (am_dstDevId m)]"

lemma message_names: "distinct (map jname (message_members m))"
  by (simp add: message_members_def jname_def KEY_TYPE_def KEY_CONTENT_def KEY_DST_DEVID_def)

text \<open>
  C35: A message that one control centre sends is what the other one handles: its type and its content come back
  from the text, with the sender in place of the receiver.\<close>

theorem message_roundtrip:
  assumes "cJSON_laws (sensitive J)" "MarshalMessage J m \<noteq> []" "uint (am_type m) < 2147483648"
    and "c_str (am_content m) = am_content m" "c_str (am_dstDevId m) = am_dstDevId m"
    and "length (am_content m) \<le> MAX_MESSAGES_LEN"
  shows "UnmarshalMessage J (MarshalMessage J m) peerDevId m0 = (True, m\<lparr>am_dstDevId := peerDevId\<rparr>)"
proof -
  obtain x0 where x0: "cJSON_CreateObject (sensitive J) = Some x0"
    using assms(2) by (auto simp: MarshalMessage_def split: option.splits)
  let ?x = "foldl (jadd (sensitive J)) x0 (message_members m)"
  have x: "?x = cJSON_AddStringToObject J (cJSON_AddStringToObject J (cJSON_AddNumberToObject J x0 KEY_TYPE
      (of_int (uint (am_type m)))) KEY_CONTENT (c_str (am_content m))) KEY_DST_DEVID (c_str (am_dstDevId m))"
    using assms(4,5) by (simp add: message_members_def jadd_def)
  obtain s where s: "cJSON_PrintUnformatted (sensitive J) ?x = Some s" "MarshalMessage J m = s"
    using assms(2) x0 x by (auto simp: MarshalMessage_def Let_def split: option.splits)
  obtain y where y: "c_str s = s" "cJSON_Parse (sensitive J) s = Some y"
    "\<And>k. ident k \<Longrightarrow> str_at (sensitive J) y k = str_at (sensitive J) ?x k \<and> num_at (sensitive J) y k = num_at (sensitive J) ?x k
      \<and> bool_at (sensitive J) y k = bool_at (sensitive J) ?x k"
    by (rule laws_print[OF assms(1) s(1)]) blast
  have "list_all jfits (message_members m)" using assms(3) order_trans[OF _ uint_ge_0, of "- 2147483648" "am_type m"] by (simp add: message_members_def jfits_def jname_def)
  from jadd_all[OF assms(1) x0 this message_names] have R: "list_all (jreads (sensitive J) ?x) (message_members m)" by blast
  have "num_at (sensitive J) y KEY_TYPE = Some (uint (am_type m))" "str_at (sensitive J) y KEY_CONTENT = Some (am_content m)"
    using jreads_iff(1,2)[OF R] y(3) by (simp_all add: message_members_def)
  moreover have "unat (x :: 32 word) \<le> 4294967295" for x using unsigned_less[of x, where ?'a = nat] by simp
  ultimately show ?thesis using y(1,2) s(2) assms(6)
    by (auto simp: UnmarshalMessage_def AVTransMessage_IsUInt32_def AVTransMessage_IsString_def Let_def num_at_def str_at_def
        split: option.splits if_splits)
qed

definition start_demo :: AVTransMessage where
  "start_demo = \<lparr>am_type = START_AV_SYNC, am_content = ''g'', am_dstDevId = ''a''\<rparr>"

theorem message_roundtrip_witness:
  "UnmarshalMessage flat_J (MarshalMessage flat_J start_demo) ''b'' AVTransMessage_new = (True, start_demo\<lparr>am_dstDevId := ''b''\<rparr>)"
proof -
  have m: "MarshalMessage flat_J start_demo \<noteq> []"
    by (simp add: MarshalMessage_def flat_J_def start_demo_def flat_add_def jmembers_def flat_member_def unary_Cons_not_Nil
        START_AV_SYNC_def del: nibbles.simps)
  have "cJSON_laws (sensitive flat_J)" by (simp add: flat_J_laws sensitive_flat_J)
  from message_roundtrip[OF this m] show ?thesis by (simp add: start_demo_def START_AV_SYNC_def c_str_def MAX_MESSAGES_LEN_def)
qed

section \<open>Time synchronisation\<close>

text \<open>
  One step of the centre, of an engine that uses the adapter, of the softbus or of a thread.  The engines
  register themselves, not the centre, and no device has the name that the code reserves.
\<close>

inductive av_step :: "'j av_env \<Rightarrow> av_sys \<Rightarrow> av_sys \<Rightarrow> bool" for V where
  av_init: "av_step V a (snd (InitializeAVCenter V role a))"
| av_release: "av_step V a (snd (ReleaseAVCenter V engineId a))"
| av_channel: "av_step V a (snd (CreateControlChannel V engineId dev a))" if "dev \<noteq> AV_TRANS_SPECIAL_DEVICE_ID"
| av_notify: "av_step V a (snd (NotifyAVCenter V engineId event a))"
| av_callback: "av_step V a (snd (RegisterCtlCenterCallback engineId cb a))"
| av_deliver: "av_step V a (deliver V a)"
| av_engine: "av_step V a (snd (on_sb (RegisterChannelListener sess dev l) a))" if "l \<noteq> Some CENTRE"
| av_engine_gone: "av_step V a (snd (on_sb (UnRegisterChannelListener sess dev) a))"
| av_engine_open: "av_step V a (snd (on_sb (OpenSoftbusChannel (ae_S V) sess peerSess dev) a))" if "dev \<noteq> AV_TRANS_SPECIAL_DEVICE_ID"
| av_engine_close: "av_step V a (snd (on_sb (CloseSoftbusChannel (ae_S V) sess dev) a))"
| av_opened: "av_step V a (snd (on_sb (OnSoftbusChannelOpened req peerSess i dev result) a))" if "dev \<noteq> AV_TRANS_SPECIAL_DEVICE_ID"
| av_closed: "av_step V a (a\<lparr>as_sb := OnSoftbusChannelClosed i (as_sb a)\<rparr>)"
| av_received: "av_step V a (a\<lparr>as_sb := OnSoftbusBytesReceived i data (as_sb a)\<rparr>)"
| av_synced: "av_step V a (a\<lparr>as_sb := OnSoftbusTimeSyncResult info result (as_sb a)\<rparr>)"
| av_thread: "av_step V a (a\<lparr>as_sb := run_thread n (as_sb a)\<rparr>)"

inductive av_reach :: "'j av_env \<Rightarrow> av_sys \<Rightarrow> bool" for V where
  av_start: "av_reach V av_sys_new"
| av_next: "av_reach V a \<Longrightarrow> av_step V a a' \<Longrightarrow> av_reach V a'"

text \<open>
  The centre is registered under the reserved name only; a synchronisation is kept under the name of a device;
  and no event on its way to a listener tells the centre the result of one.
\<close>

definition centre_keys :: "string set" where
  "centre_keys = {sess_key AV_SYNC_SENDER_CONTROL_SESSION_NAME AV_TRANS_SPECIAL_DEVICE_ID,
     sess_key AV_SYNC_RECEIVER_CONTROL_SESSION_NAME AV_TRANS_SPECIAL_DEVICE_ID}"

definition event_ok :: "AVTransEvent \<Rightarrow> bool" where
  "event_ok e = (ev_type e \<noteq> EVENT_TIME_SYNC_RESULT
     \<and> (ev_type e = EVENT_CHANNEL_OPENED \<longrightarrow> ev_peerDevId e \<noteq> AV_TRANS_SPECIAL_DEVICE_ID))"

definition call_ok :: "lcall \<Rightarrow> bool" where
  "call_ok c = (case c of LC_Event l e \<Rightarrow> l = CENTRE \<longrightarrow> event_ok e | _ \<Rightarrow> True)"

definition sync_ok :: "SoftbusChannelAdapter \<Rightarrow> bool" where
  "sync_ok s = ((\<forall>k. om_get (sb_listenerMap s) k = Some (Some CENTRE) \<longrightarrow> k \<in> centre_keys)
     \<and> (\<forall>n \<in> set (sb_timeSyncSessNames s). n \<notin> centre_keys)
     \<and> (\<forall>t \<in> set (sb_threads s). event_ok (fst (snd t)))
     \<and> (\<forall>c \<in> set (sb_calls s). call_ok c))"

lemma receiver_key: "dev \<noteq> AV_TRANS_SPECIAL_DEVICE_ID \<Longrightarrow> sess_key AV_SYNC_RECEIVER_CONTROL_SESSION_NAME dev \<notin> centre_keys"
  by (simp add: centre_keys_def sess_key_def AV_SYNC_RECEIVER_CONTROL_SESSION_NAME_def AV_SYNC_SENDER_CONTROL_SESSION_NAME_def)

lemma keys_in [simp]:
  "sess_key AV_SYNC_SENDER_CONTROL_SESSION_NAME AV_TRANS_SPECIAL_DEVICE_ID \<in> centre_keys"
  "sess_key AV_SYNC_RECEIVER_CONTROL_SESSION_NAME AV_TRANS_SPECIAL_DEVICE_ID \<in> centre_keys"
  by (simp_all add: centre_keys_def)

lemma sync_okD:
  assumes "sync_ok s"
  shows "om_get (sb_listenerMap s) k = Some (Some CENTRE) \<Longrightarrow> k \<in> centre_keys"
    "n \<in> set (sb_timeSyncSessNames s) \<Longrightarrow> n \<notin> centre_keys" "t \<in> set (sb_threads s) \<Longrightarrow> event_ok (fst (snd t))"
    "c \<in> set (sb_calls s) \<Longrightarrow> call_ok c"
  using assms by (auto simp: sync_ok_def)

text \<open>What an operation must leave alone to keep it.\<close>

lemma sync_keep:
  assumes "sync_ok s" "sb_listenerMap s' = sb_listenerMap s" "set (sb_timeSyncSessNames s') \<subseteq> set (sb_timeSyncSessNames s)"
    and "\<And>t. t \<in> set (sb_threads s') \<Longrightarrow> t \<in> set (sb_threads s) \<or> event_ok (fst (snd t))"
    and "\<And>c. c \<in> set (sb_calls s') \<Longrightarrow> c \<in> set (sb_calls s) \<or> call_ok c"
  shows "sync_ok s'"
proof -
  note d = sync_okD[OF assms(1)]
  have "\<forall>t \<in> set (sb_threads s'). event_ok (fst (snd t))" using assms(4) d(3) by blast
  moreover have "\<forall>c \<in> set (sb_calls s'). call_ok c" using assms(5) d(4) by blast
  moreover have "\<forall>n \<in> set (sb_timeSyncSessNames s'). n \<notin> centre_keys" using assms(3) d(2) by blast
  ultimately show ?thesis using d(1) assms(2) by (simp add: sync_ok_def)
qed

lemma sync_called: "sync_ok s \<Longrightarrow> call_ok c \<Longrightarrow> sync_ok (call_listener c s)"
  by (rule sync_keep[of s]) (auto simp: call_listener_def)

lemma sync_call: "sync_ok s \<Longrightarrow> sync_ok (snd (softbus_call S c s))"
  by (rule sync_keep[of s]) (auto simp: softbus_call_def)

lemma sync_listener: "sync_ok s \<Longrightarrow> sync_ok (snd (listener_at k s))"
  by (auto simp: listener_at_def sync_ok_def split: option.splits)

lemma listener_centre: "sync_ok s \<Longrightarrow> fst (listener_at k s) = Some CENTRE \<Longrightarrow> k \<in> centre_keys"
  by (auto simp: listener_at_def dest: sync_okD(1) split: option.splits)

lemma sync_Send:
  assumes "sync_ok s" "event_ok e"
  shows "sync_ok (SendChannelEvent k e s)"
proof (cases "listener_at k s")
  case (Pair l s1)
  then have "sync_ok s1" using sync_listener[OF assms(1), of k] by simp
  then show ?thesis using Pair assms(2)
    by (cases l) (auto simp: SendChannelEvent_def call_ok_def intro!: sync_called)
qed

lemma sync_thread:
  assumes "sync_ok s"
  shows "sync_ok (run_thread n s)"
proof (cases "n < length (sb_threads s)")
  case True
  obtain k e c where t: "sb_threads s ! n = (k, e, c)" by (cases "sb_threads s ! n")
  then have e: "event_ok e" using sync_okD(3)[OF assms, of "(k, e, c)"] True by (metis fst_conv nth_mem snd_conv)
  let ?r = "s\<lparr>sb_threads := take n (sb_threads s) @ drop (Suc n) (sb_threads s)\<rparr>"
  have "sync_ok ?r" by (rule sync_keep[OF assms]) (auto dest: in_set_takeD in_set_dropD)
  from sync_Send[OF this e, of k] have s1: "sync_ok (SendChannelEvent k e ?r)" .
  then have "sync_ok ((SendChannelEvent k e ?r)\<lparr>sb_inflightEventThreadCnt := x\<rparr>)" for x by (rule sync_keep) auto
  then show ?thesis using True t s1 by (simp add: run_thread_def Let_def)
qed (simp add: run_thread_def assms)

lemma sync_fold: "(\<And>x s. x \<in> set xs \<Longrightarrow> sync_ok s \<Longrightarrow> sync_ok (f x s)) \<Longrightarrow> sync_ok s \<Longrightarrow> sync_ok (fold f xs s)"
  by (induction xs arbitrary: s) simp_all

lemma sync_time:
  assumes "sync_ok s"
  shows "sync_ok (OnSoftbusTimeSyncResult info result s)"
proof -
  have "sync_ok (case listener_at n r of (None, r1) \<Rightarrow> r1 | (Some l, r1) \<Rightarrow> call_listener (LC_Event l e) r1)"
    if "n \<in> set (sb_timeSyncSessNames s)" "sync_ok r" for n r e
  proof (cases "listener_at n r")
    case (Pair l r1)
    then have r1: "sync_ok r1" using sync_listener[OF that(2), of n] by simp
    have "l \<noteq> Some CENTRE" using listener_centre[OF that(2), of n] sync_okD(2)[OF assms that(1)] Pair by auto
    then show ?thesis using Pair r1 by (cases l) (auto simp: call_ok_def intro!: sync_called)
  qed
  then show ?thesis using assms
    by (auto simp: OnSoftbusTimeSyncResult_def split: option.splits intro!: sync_fold)
qed

lemma sync_map: "sync_ok s \<Longrightarrow> event_ok e \<Longrightarrow> sync_ok (s\<lparr>sb_threads := sb_threads s @ map (\<lambda>k. (k, e, False)) ks\<rparr>)"
  by (rule sync_keep[of s]) auto

lemma sync_open: "sync_ok s \<Longrightarrow> dev \<noteq> AV_TRANS_SPECIAL_DEVICE_ID \<Longrightarrow> sync_ok (snd (OpenSoftbusChannel S mine peer dev s))"
  by (rule sync_keep[of s]) (auto simp: OpenSoftbusChannel_def softbus_call_def SendEventChannelOPened_def Let_def event_ok_def
      split: prod.splits if_splits)

lemma sync_close: "sync_ok s \<Longrightarrow> sync_ok (snd (CloseSoftbusChannel S sess dev s))"
  by (rule sync_keep[of s]) (auto simp: CloseSoftbusChannel_def softbus_call_def Let_def split: prod.splits if_splits)

lemma sync_register: "sync_ok s \<Longrightarrow> l \<noteq> Some CENTRE \<or> sess_key sess dev \<in> centre_keys \<Longrightarrow>
    sync_ok (snd (RegisterChannelListener sess dev l s))"
  by (auto simp: RegisterChannelListener_def sync_ok_def)

lemma sync_unregister: "sync_ok s \<Longrightarrow> sync_ok (snd (UnRegisterChannelListener sess dev s))"
  by (auto simp: UnRegisterChannelListener_def sync_ok_def)

lemma sync_start: "sync_ok s \<Longrightarrow> sess_key sess dev \<notin> centre_keys \<Longrightarrow> sync_ok (snd (StartDeviceTimeSync S pkg sess dev s))"
  by (auto simp: StartDeviceTimeSync_def softbus_call_def Let_def sync_ok_def)

lemma sync_stop: "sync_ok s \<Longrightarrow> sync_ok (snd (StopDeviceTimeSync S pkg sess dev s))"
  by (rule sync_keep[of s]) (auto simp: StopDeviceTimeSync_def softbus_call_def Let_def split: prod.splits if_splits)

lemma sync_create: "sync_ok s \<Longrightarrow> sync_ok (snd (CreateChannelServer S pkg sess s))"
  by (rule sync_keep[of s]) (auto simp: CreateChannelServer_def softbus_call_def Let_def split: prod.splits if_splits)

lemma sync_bytes: "sync_ok s \<Longrightarrow> sync_ok (snd (SendBytesData S sess dev data s))"
  by (rule sync_keep[of s]) (auto simp: SendBytesData_def softbus_call_def Let_def split: prod.splits if_splits)

lemma Request_calls: "c \<in> set (sb_calls (snd (RequestAndWaitForAuthorization r n s))) \<Longrightarrow> c \<in> set (sb_calls s) \<or> call_ok c"
  by (auto simp: RequestAndWaitForAuthorization_def StartAuthorizationTimer_def CancelAuthorizationTimer_def upd_access_def
      Let_def call_ok_def split: option.splits if_splits)

lemma sync_opened:
  assumes "sync_ok s" "dev \<noteq> AV_TRANS_SPECIAL_DEVICE_ID"
  shows "sync_ok (snd (OnSoftbusChannelOpened req peer i dev result s))"
proof -
  let ?s1 = "snd (RequestAndWaitForAuthorization req dev (upd_access (SetCurrentNetworkId dev) s))"
  have "sync_ok (upd_access (SetCurrentNetworkId dev) s)" by (rule sync_keep[OF assms(1)]) (auto simp: upd_access_def)
  then have s1: "sync_ok ?s1" by (rule sync_keep) (auto simp: Request_same dest: Request_calls)
  show ?thesis
  proof (cases "peer = [] \<or> dev = [] \<or> FindSessNameByPeerSessName peer = []")
    case False
    then show ?thesis
      by (intro sync_keep[OF s1]) (auto simp: OnSoftbusChannelOpened_def Let_def case_prod_unfold event_ok_def assms(2) split: if_splits)
  qed (use assms(1) in \<open>auto simp: OnSoftbusChannelOpened_def Let_def\<close>)
qed

lemma sync_closed: "sync_ok s \<Longrightarrow> sync_ok (OnSoftbusChannelClosed i s)"
  by (rule sync_keep[of s]) (auto simp: OnSoftbusChannelClosed_def Let_def event_ok_def)

lemma sync_received: "sync_ok s \<Longrightarrow> sync_ok (OnSoftbusBytesReceived i data s)"
proof -
  assume s: "sync_ok s"
  have "sync_ok (start_counted e k r)" if "sync_ok r" "event_ok e" for e k r
    using that(2) by (intro sync_keep[OF that(1)]) (auto simp: start_counted_def split: if_splits)
  then show ?thesis using s
    by (auto simp: OnSoftbusBytesReceived_def Let_def event_ok_def split: option.splits intro!: sync_fold)
qed

section \<open>The centre keeps it\<close>

definition av_ok :: "av_sys \<Rightarrow> bool" where
  "av_ok a = (sync_ok (as_sb a) \<and> (\<forall>cb v. (cb, TIME_SYNC_RESULT, v) \<notin> set (as_params a)))"

lemma ok_on_sb: "av_ok a \<Longrightarrow> (sync_ok (as_sb a) \<Longrightarrow> sync_ok (snd (f (as_sb a)))) \<Longrightarrow> av_ok (snd (on_sb f a))"
  by (simp add: on_sb_def av_ok_def case_prod_unfold)

lemma ok_cc: "av_ok a \<Longrightarrow> av_ok (upd_cc f a)"
  by (simp add: upd_cc_def av_ok_def)

lemma ok_ym: "av_ok a \<Longrightarrow> av_ok (upd_ym f a)"
  by (simp add: upd_ym_def ok_cc)

lemma ok_params: "av_ok a \<Longrightarrow> tag \<noteq> TIME_SYNC_RESULT \<Longrightarrow> av_ok (SetParam2Engines tag v a)"
  by (auto simp: SetParam2Engines_def av_ok_def)

lemma ok_memory: "av_ok a \<Longrightarrow> av_ok (snd (create_memory V name n a))" "av_ok a \<Longrightarrow> av_ok (snd (close_memory m a))"
  by (simp_all add: create_memory_def close_memory_def av_ok_def case_prod_unfold)

lemma ok_message: "av_ok a \<Longrightarrow> av_ok (snd (SendMessage V m a))"
  by (auto simp: SendMessage_def split: option.splits intro!: ok_on_sb sync_bytes)

lemma ok_send_all: "av_ok a \<Longrightarrow> av_ok (send_all V tag content a)"
proof -
  have "av_ok (fold (\<lambda>i r. snd (SendMessage V (m i) r)) xs b)" if "av_ok b" for xs m b
    using that by (induction xs arbitrary: b) (simp_all add: ok_message)
  then show "av_ok a \<Longrightarrow> ?thesis" by (simp add: send_all_def)
qed

lemmas manager_defs = EnableSenderAVSync_def DisableSenderAVSync_def EnableReceiverAVSync_def DisableReceiverAVSync_def
  SetParam2Engines_memory_def Let_def case_prod_unfold

lemma tags: "START_AV_SYNC \<noteq> TIME_SYNC_RESULT" "STOP_AV_SYNC \<noteq> TIME_SYNC_RESULT"
  by (simp_all add: START_AV_SYNC_def STOP_AV_SYNC_def TIME_SYNC_RESULT_def)

lemma ok_manager: "av_ok a \<Longrightarrow> av_ok (EnableSenderAVSync V a)" "av_ok a \<Longrightarrow> av_ok (DisableSenderAVSync V a)"
  "av_ok a \<Longrightarrow> av_ok (EnableReceiverAVSync V g a)" "av_ok a \<Longrightarrow> av_ok (DisableReceiverAVSync a)"
  by (auto simp: manager_defs split: option.splits simp: tags intro!: ok_ym ok_memory ok_send_all ok_params)

lemma ok_event:
  assumes "av_ok a" "event_ok e"
  shows "av_ok (CentreOnChannelEvent V e a)"
proof -
  have data: "av_ok (HandleDataReceived V c d a)" for c d
    using assms(1) by (auto simp: HandleDataReceived_def HandleAvSyncMessage_def ok_manager split: prod.splits option.splits)
  have "av_ok (HandleChannelEvent V e a)"
    using assms by (auto simp: HandleChannelEvent_def Let_def event_ok_def intro!: ok_cc ok_on_sb sync_start receiver_key)
  then show ?thesis using data assms by (auto simp: CentreOnChannelEvent_def event_ok_def)
qed

lemma ok_deliver:
  assumes "av_ok a"
  shows "av_ok (deliver V a)"
proof (cases "sb_calls (as_sb a)")
  case (Cons c cs)
  have s: "sync_ok (as_sb a)" using assms by (simp add: av_ok_def)
  then have c: "call_ok c" using sync_okD(4)[OF s, of c] Cons by simp
  have "av_ok (a\<lparr>as_sb := (as_sb a)\<lparr>sb_calls := cs\<rparr>\<rparr>)"
    using assms sync_keep[OF s, of "(as_sb a)\<lparr>sb_calls := cs\<rparr>"] Cons by (simp add: av_ok_def)
  then show ?thesis using c Cons by (auto simp: deliver_def call_ok_def ok_event Let_def split: lcall.splits)
qed (simp add: deliver_def assms)

lemma ok_av_step:
  assumes "av_step V a a'" "av_ok a"
  shows "av_ok a'"
  using assms
proof (cases rule: av_step.cases)
  case (av_init role)
  then show ?thesis using assms(2)
    by (auto simp: InitializeAVCenter_def Let_def case_prod_unfold intro!: ok_cc ok_on_sb sync_create sync_register)
next
  case (av_release engineId)
  then show ?thesis using assms(2)
    by (auto simp: ReleaseAVCenter_def Let_def case_prod_unfold split: option.splits
        intro!: ok_cc ok_on_sb sync_stop sync_close sync_unregister)
next
  case (av_channel dev engineId)
  then show ?thesis using assms(2)
    by (auto simp: CreateControlChannel_def add_engine_def Let_def case_prod_unfold intro!: ok_cc ok_on_sb sync_register sync_open)
next
  case (av_notify engineId event)
  then show ?thesis using assms(2)
    by (auto simp: NotifyAVCenter_def AddStreamInfo_def RemoveStreamInfo_def Let_def intro!: ok_manager ok_ym)
next
  case (av_callback engineId cb)
  then show ?thesis using assms(2) by (auto simp: RegisterCtlCenterCallback_def split: option.splits intro!: ok_cc)
next
  case av_deliver
  then show ?thesis using assms(2) by (simp add: ok_deliver)
qed (use assms(2) in \<open>auto simp: av_ok_def intro!: sync_closed sync_received sync_time sync_thread\<close>,
     (use assms(2) in \<open>auto simp: on_sb_def case_prod_unfold av_ok_def
        intro!: sync_register sync_unregister sync_open sync_close sync_opened\<close>)?)

text \<open>
  The result of a time synchronisation never reaches an engine.  In no state that the centre, the adapter, the
  softbus and the engines reach in any order has a callback been given one: the centre starts the synchronisation
  under the name of the device and is registered as a listener under a reserved name only.\<close>

theorem time_sync_never_delivered:
  assumes "av_reach V a"
  shows "(cb, TIME_SYNC_RESULT, v) \<notin> set (as_params a)"
proof -
  have "av_ok av_sys_new" by (simp add: av_ok_def av_sys_new_def sync_ok_def SoftbusChannelAdapter_new_def)
  with assms have "av_ok a" by induction (auto intro: ok_av_step)
  then show ?thesis by (simp add: av_ok_def)
qed

text \<open>
  An engine registers its callback, a device opens the control channel, the centre starts the synchronisation
  with it, and its result arrives.
\<close>

definition V_demo :: "jval av_env" where
  "V_demo = \<lparr>ae_J = flat_J, ae_S = (\<lambda>_ c. case c of SB_Socket _ _ _ _ \<Rightarrow> 7 | _ \<Rightarrow> 0),
     ae_E = \<lparr>se_AshmemCreate = (\<lambda>fds _ _. 5 + int (length fds)), se_AshmemSetProt = (\<lambda>_. 0), se_AshmemGetSize = (\<lambda>_. 600),
       se_mmap = (\<lambda>as _ _. Some (1 + length as)), se_memset = (\<lambda>_ _. True)\<rparr>\<rparr>"

definition run1 :: av_sys where "run1 = snd (InitializeAVCenter V_demo AV_RECEIVER av_sys_new)"
definition run2 :: av_sys where "run2 = snd (RegisterCtlCenterCallback 1000 (Some 9) run1)"
definition run3 :: av_sys where
  "run3 = snd (on_sb (OnSoftbusChannelOpened ''r'' AV_SYNC_SENDER_CONTROL_SESSION_NAME 3 ''dev'' 0) run2)"
definition run4 :: av_sys where "run4 = run3\<lparr>as_sb := run_thread 0 (as_sb run3)\<rparr>"
definition run5 :: av_sys where "run5 = deliver V_demo run4"
definition run6 :: av_sys where "run6 = run5\<lparr>as_sb := OnSoftbusTimeSyncResult (Some (12, ''dev'')) 1 (as_sb run5)\<rparr>"

theorem time_sync_never_delivered_witness:
  "sb_timeSyncSessNames (as_sb run6) = [sess_key AV_SYNC_RECEIVER_CONTROL_SESSION_NAME ''dev'']
   \<and> om_get (cc_callbackMap (as_cc run6)) 1000 = Some 9 \<and> (9, TIME_SYNC_RESULT, ''12'') \<notin> set (as_params run6)"
proof -
  have r1: "av_reach V_demo run1" unfolding run1_def by (rule av_next[OF av_start av_init])
  have r2: "av_reach V_demo run2" unfolding run2_def by (rule av_next[OF r1 av_callback])
  have r3: "av_reach V_demo run3"
    unfolding run3_def by (rule av_next[OF r2 av_opened]) (simp add: AV_TRANS_SPECIAL_DEVICE_ID_def)
  have r4: "av_reach V_demo run4" unfolding run4_def by (rule av_next[OF r3 av_thread])
  have r5: "av_reach V_demo run5" unfolding run5_def by (rule av_next[OF r4 av_deliver])
  have "av_reach V_demo run6" unfolding run6_def by (rule av_next[OF r5 av_synced])
  from time_sync_never_delivered[OF this] have "(9, TIME_SYNC_RESULT, ''12'') \<notin> set (as_params run6)" .
  moreover have "sb_timeSyncSessNames (as_sb run6) = [sess_key AV_SYNC_RECEIVER_CONTROL_SESSION_NAME ''dev'']
      \<and> om_get (cc_callbackMap (as_cc run6)) 1000 = Some 9"
    by code_simp
  ultimately show ?thesis by simp
qed

section \<open>Memory of the receiver\<close>

text \<open>
  Every message that starts the synchronisation opens another memory and forgets the one before without
  closing it: after any number of them one descriptor more is open for each, and a message that stops it closes
  one.\<close>

theorem start_messages_leak:
  assumes "\<And>fds name n. 0 < se_AshmemCreate (ae_E V) fds name n" "\<And>fd. 0 \<le> se_AshmemSetProt (ae_E V) fd"
    and "\<And>as fd n. se_mmap (ae_E V) as fd n \<noteq> None" "\<And>addr n. se_memset (ae_E V) addr n"
    and "am_type m = START_AV_SYNC" "am_type m' = STOP_AV_SYNC"
  shows "let b = (HandleAvSyncMessage V (Some m) ^^ k) a in
      length (sw_fds (as_shm b)) = length (sw_fds (as_shm a)) + k
      \<and> length (sw_fds (as_shm a)) + k \<le> length (sw_fds (as_shm (HandleAvSyncMessage V (Some m') b))) + 1"
proof -
  have one: "length (sw_fds (as_shm (EnableReceiverAVSync V g b))) = length (sw_fds (as_shm b)) + 1" for g b
  proof -
    let ?n = "12 * MAX_CLOCK_UNIT_COUNT" and ?w = "as_shm b"
    let ?fd = "se_AshmemCreate (ae_E V) (sw_fds ?w) (c_str SINK_SHARED_MEMORY) ?n"
    obtain addr where addr: "se_mmap (ae_E V) (map fst (sw_map ?w)) ?fd ?n = Some addr" using assms(3) by blast
    have "\<not> ?fd \<le> 0" "\<not> se_AshmemSetProt (ae_E V) ?fd < 0" using assms(1,2) by (simp_all add: not_less not_le)
    then show ?thesis using assms(4) addr
      by (simp add: EnableReceiverAVSync_def create_memory_def CreateAVTransSharedMemory_def SetParam2Engines_def
          SetParam2Engines_memory_def upd_ym_def upd_cc_def Let_def)
  qed
  have k: "length (sw_fds (as_shm ((HandleAvSyncMessage V (Some m) ^^ k) a))) = length (sw_fds (as_shm a)) + k"
    using one assms(5) by (induction k) (simp_all add: HandleAvSyncMessage_def)
  have "length (sw_fds (as_shm b)) \<le> length (sw_fds (as_shm (DisableReceiverAVSync b))) + 1" for b
    by (auto simp: DisableReceiverAVSync_def close_memory_def CloseAVTransSharedMemory_def SetParam2Engines_def
        SetParam2Engines_memory_def upd_ym_def upd_cc_def Let_def length_remove1 split: option.splits prod.splits if_splits)
  then have "length (sw_fds (as_shm b)) \<le> length (sw_fds (as_shm (HandleAvSyncMessage V (Some m') b))) + 1" for b
    using assms(6) by (simp add: HandleAvSyncMessage_def START_AV_SYNC_def STOP_AV_SYNC_def)
  from this[of "(HandleAvSyncMessage V (Some m) ^^ k) a"] k show ?thesis by (simp add: Let_def)
qed

theorem start_messages_leak_witness:
  "length (sw_fds (as_shm ((HandleAvSyncMessage V_demo (Some start_demo) ^^ 3) av_sys_new))) = 3"
proof -
  have "let b = (HandleAvSyncMessage V_demo (Some start_demo) ^^ 3) av_sys_new in
      length (sw_fds (as_shm b)) = length (sw_fds (as_shm av_sys_new)) + 3
      \<and> length (sw_fds (as_shm av_sys_new)) + 3
          \<le> length (sw_fds (as_shm (HandleAvSyncMessage V_demo (Some (start_demo\<lparr>am_type := STOP_AV_SYNC\<rparr>)) b))) + 1"
    by (rule start_messages_leak) (simp_all add: V_demo_def start_demo_def)
  then show ?thesis by (simp add: Let_def av_sys_new_def)
qed

end
