(* ===== verification/Output_Controller.thy ===== *)
theory Output_Controller
  imports Shared_Memory "HOL-Library.Signed_Division"
begin

text \<open>
  The controller that decides when a received frame of a distributed screen is shown:
  \<open>output_control/src/output_controller.cpp\<close>, \<open>time_statistician.cpp\<close> and the settings of
  \<open>dscreen_output/dscreen_output_controller.cpp\<close> of \<open>av_trans_engine/plugin/plugins/av_trans_output\<close>.

  Times are nanoseconds in signed integers of 64 bits; their overflow is undefined in C++, here they are
  unbounded.  The division of C++ rounds towards zero (\<open>sdiv\<close>).  A frame is a record with the identity of its
  buffer, which is what the code compares when it compares pointers.  The control thread waits in two places;
  what other threads do to the controller while it waits is an argument, as are the times it reads and the
  address the local variable \<open>sharedMem\<close> happens to hold, which the code does not initialise.
\<close>

section \<open>Data\<close>

record BufferMeta =
  bm_AUDIO_SAMPLE_PER_FRAME :: "32 word option"
  bm_MEDIA_START_TIME :: bool
  bm_USER_PUSH_DATA_TIME :: "int option"

record Buffer =
  bf_id :: nat
  bf_pts :: int
  bf_meta :: "BufferMeta option"

definition NOTIFY_SUCCESS :: int where "NOTIFY_SUCCESS = 0"
definition NOTIFY_FAILED :: int where "NOTIFY_FAILED = 1"
definition HANDLE_SUCCESS :: int where "HANDLE_SUCCESS = 0"
definition HANDLE_FAILED :: int where "HANDLE_FAILED = 1"
definition OUTPUT_FRAME :: int where "OUTPUT_FRAME = 0"
definition DROP_FRAME :: int where "DROP_FRAME = 1"
definition REPEAT_FREAM :: int where "REPEAT_FREAM = 2"
definition INVALID_TIMESTAMP :: int where "INVALID_TIMESTAMP = 0"
definition INVALID_INTERVAL :: int where "INVALID_INTERVAL = 0"
definition FACTOR_DOUBLE :: int where "FACTOR_DOUBLE = 2"
definition NS_ONE_MS :: int where "NS_ONE_MS = 1000000"
definition QUEUE_MAX_SIZE :: nat where "QUEUE_MAX_SIZE = 100"
definition GREATER_HALF_REREAD_TIME :: int where "GREATER_HALF_REREAD_TIME = 5 * NS_ONE_MS"
definition LESS_HALF_REREAD_TIME :: int where "LESS_HALF_REREAD_TIME = 3 * GREATER_HALF_REREAD_TIME"

datatype ControlStatus = CS_START | CS_STOP | CS_RELEASE | CS_STARTED | CS_STOPPED | CS_RELEASED
datatype ControlMode = CM_SMOOTH | CM_SYNC
datatype PluginStatus = Status_OK | ERROR_NOT_EXISTED | ERROR_WRONG_STATE | ERROR_NULL_POINTER
datatype OutputTag = USER_AV_SYNC_GROUP_INFO | USER_SHARED_MEMORY_FD | USER_TIME_SYNC_RESULT | OtherTag nat

section \<open>Statistics\<close>

record TimeStatistician =
  ts_pushIndex :: int
  ts_averPushInterval :: int
  ts_lastPushTime :: int
  ts_pushTime :: int
  ts_pushIntervalSum :: int
  ts_pushInterval :: int
  ts_timeStampIndex :: int
  ts_averTimeStampInterval :: int
  ts_lastTimeStamp :: int
  ts_timeStamp :: int
  ts_timeStampIntervalSum :: int
  ts_timeStampInterval :: int

definition ClearStatistics :: "TimeStatistician \<Rightarrow> TimeStatistician" where
  "ClearStatistics s =
    s\<lparr>ts_pushIndex := 0, ts_averPushInterval := 0, ts_lastPushTime := 0, ts_pushTime := 0,
      ts_pushIntervalSum := 0, ts_pushInterval := 0, ts_timeStampIndex := 0, ts_averTimeStampInterval := 0,
      ts_lastTimeStamp := 0, ts_timeStamp := 0, ts_timeStampIntervalSum := 0, ts_timeStampInterval := 0\<rparr>"

definition TimeStatistician_new :: TimeStatistician where
  "TimeStatistician_new =
    \<lparr>ts_pushIndex = 0, ts_averPushInterval = 0, ts_lastPushTime = 0, ts_pushTime = 0, ts_pushIntervalSum = 0,
     ts_pushInterval = 0, ts_timeStampIndex = 0, ts_averTimeStampInterval = 0, ts_lastTimeStamp = 0,
     ts_timeStamp = 0, ts_timeStampIntervalSum = 0, ts_timeStampInterval = 0\<rparr>"

definition CalAverPushInterval :: "int \<Rightarrow> TimeStatistician \<Rightarrow> TimeStatistician" where
  "CalAverPushInterval pushTime s =
    (let s1 = s\<lparr>ts_pushTime := pushTime, ts_pushInterval := pushTime - ts_lastPushTime s\<rparr>
     in if ts_lastPushTime s1 = 0 then s1\<lparr>ts_lastPushTime := ts_pushTime s1\<rparr>
        else let s2 = s1\<lparr>ts_pushIndex := ts_pushIndex s1 + 1,
                         ts_pushIntervalSum := ts_pushIntervalSum s1 + ts_pushInterval s1\<rparr>
             in if ts_pushIndex s2 = 0 then s2
                else s2\<lparr>ts_averPushInterval := ts_pushIntervalSum s2 sdiv ts_pushIndex s2,
                        ts_lastPushTime := ts_pushTime s2\<rparr>)"

definition CalAverTimeStampInterval :: "int \<Rightarrow> TimeStatistician \<Rightarrow> TimeStatistician" where
  "CalAverTimeStampInterval timeStamp s =
    (let s1 = s\<lparr>ts_timeStamp := timeStamp, ts_timeStampInterval := timeStamp - ts_lastTimeStamp s\<rparr>
     in if ts_lastTimeStamp s1 = 0 then s1\<lparr>ts_lastTimeStamp := ts_timeStamp s1\<rparr>
        else let s2 = s1\<lparr>ts_timeStampIndex := ts_timeStampIndex s1 + 1,
                         ts_timeStampIntervalSum := ts_timeStampIntervalSum s1 + ts_timeStampInterval s1\<rparr>
             in s2\<lparr>ts_averTimeStampInterval := ts_timeStampIntervalSum s2 sdiv ts_timeStampIndex s2,
                   ts_lastTimeStamp := ts_timeStamp s2\<rparr>)"

definition Stat_CalProcessTime :: "Buffer \<Rightarrow> TimeStatistician \<Rightarrow> TimeStatistician" where
  "Stat_CalProcessTime data s =
    (case bf_meta data of
       None \<Rightarrow> s
     | Some meta \<Rightarrow>
        (case bm_USER_PUSH_DATA_TIME meta of
           None \<Rightarrow> ClearStatistics s
         | Some pushTime \<Rightarrow> CalAverTimeStampInterval (bf_pts data) (CalAverPushInterval pushTime s)))"

section \<open>Factors\<close>

text \<open>
  The factors are of the type \<open>float\<close>: a mantissa of 24 bits over a power of two.  An interval that is
  multiplied by one is first converted to \<open>float\<close>, rounded to the nearest and a tie to the even one; the product is
  rounded the same way, and the conversion back drops the fraction.  \<open>round24\<close> gives the rounded value of a
  natural number.
\<close>

fun nbits :: "nat \<Rightarrow> nat" where
  "nbits n = (if n = 0 then 0 else Suc (nbits (n div 2)))"

declare nbits.simps [simp del]

definition round24 :: "nat \<Rightarrow> nat" where
  "round24 n =
    (if n < 2 ^ 24 then n
     else let u = 2 ^ (nbits n - 24); q = n div u; r = 2 * (n mod u)
          in (if u < r \<or> (r = u \<and> odd q) then q + 1 else q) * u)"

type_synonym f32 = "nat \<times> nat"

definition times_float :: "int \<Rightarrow> f32 \<Rightarrow> int" where
  "times_float n f = sgn n * int (round24 (round24 (nat \<bar>n\<bar>) * fst f) div 2 ^ snd f)"

section \<open>State\<close>

text \<open>The settings, one setter for each.\<close>

record OutputSettings =
  os_waitClockThre :: int
  os_trackClockThre :: int
  os_adjustSleepFactor :: f32
  os_waitClockFactor :: f32
  os_trackClockFactor :: f32
  os_dynamicBalanceThre :: "8 word"
  os_averIntervalDiffThre :: "32 word"
  os_pushOnceDiffThre :: "32 word"
  os_timeStampOnceDiffThre :: "32 word"
  os_bufferTime :: "32 word"
  os_sleepThre :: int
  os_aFront :: int
  os_aBack :: int
  os_vFront :: int
  os_vBack :: int

record OutputController =
  oc_dataQueue :: "Buffer list"
  oc_paramsMap :: "OutputTag \<rightharpoonup> string"
  oc_statistician :: "TimeStatistician option"
  oc_listener :: bool
  oc_status :: ControlStatus
  oc_mode :: ControlMode
  oc_controlThread :: bool
  oc_handlerThread :: bool
  oc_handler :: bool
  oc_isInDynamicBalance :: bool
  oc_isBaselineInit :: bool
  oc_isTimeInit :: bool
  oc_isAllowControl :: bool
  oc_dynamicBalanceCount :: "8 word"
  oc_set :: OutputSettings
  oc_enterTime :: int
  oc_lastEnterTime :: int
  oc_lastTimeStamp :: int
  oc_leaveTime :: int
  oc_timeStampBaseline :: int
  oc_clockTime :: int
  oc_clockBaseline :: int
  oc_delta :: int
  oc_sleep :: int
  oc_sharedMem :: AVTransSharedMemory
  oc_clockUnit :: AVSyncClockUnit
  oc_devClockDiff :: int
  oc_shm :: shm_world
  oc_events :: "Buffer list"

text \<open>
  The last two are not members: \<open>oc_shm\<close> is what the shared memory of the system holds now, and \<open>oc_events\<close>
  are the frames whose output event was posted to the handler, in order.
\<close>

definition OutputSettings_new :: OutputSettings where
  "OutputSettings_new =
    \<lparr>os_waitClockThre = 0, os_trackClockThre = 0, os_adjustSleepFactor = (0, 0), os_waitClockFactor = (0, 0),
     os_trackClockFactor = (0, 0), os_dynamicBalanceThre = 0, os_averIntervalDiffThre = 0, os_pushOnceDiffThre = 0,
     os_timeStampOnceDiffThre = 0, os_bufferTime = 0, os_sleepThre = 0, os_aFront = 0, os_aBack = 0,
     os_vFront = 0, os_vBack = 0\<rparr>"


definition OutputController_new :: "shm_world \<Rightarrow> OutputController" where
  "OutputController_new w =
    \<lparr>oc_dataQueue = [], oc_paramsMap = (\<lambda>_. None), oc_statistician = None, oc_listener = False, oc_status = CS_RELEASE,
     oc_mode = CM_SMOOTH, oc_controlThread = False, oc_handlerThread = False, oc_handler = False,
     oc_isInDynamicBalance = True, oc_isBaselineInit = False, oc_isTimeInit = False, oc_isAllowControl = True,
     oc_dynamicBalanceCount = 0, oc_set = OutputSettings_new, oc_enterTime = 0, oc_lastEnterTime = 0,
     oc_lastTimeStamp = 0, oc_leaveTime = 0, oc_timeStampBaseline = 0, oc_clockTime = 0, oc_clockBaseline = 0,
     oc_delta = 0, oc_sleep = 0, oc_sharedMem = \<lparr>sm_fd = 0, sm_size = 0, sm_name = [], sm_addr = None\<rparr>,
     oc_clockUnit = \<lparr>cu_index = 0, cu_frameNum = 0, cu_pts = 0\<rparr>, oc_devClockDiff = 0, oc_shm = w, oc_events = []\<rparr>"

section \<open>Setters\<close>

definition upd_set :: "(OutputSettings \<Rightarrow> OutputSettings) \<Rightarrow> OutputController \<Rightarrow> OutputController" where
  "upd_set f c = c\<lparr>oc_set := f (oc_set c)\<rparr>"

definition SetBufferTime :: "32 word \<Rightarrow> OutputController \<Rightarrow> OutputController" where
  "SetBufferTime v = upd_set (\<lambda>s. s\<lparr>os_bufferTime := v\<rparr>)"

definition SetAverIntervalDiffThre :: "32 word \<Rightarrow> OutputController \<Rightarrow> OutputController" where
  "SetAverIntervalDiffThre v = upd_set (\<lambda>s. s\<lparr>os_averIntervalDiffThre := v\<rparr>)"

definition SetDynamicBalanceThre :: "8 word \<Rightarrow> OutputController \<Rightarrow> OutputController" where
  "SetDynamicBalanceThre v = upd_set (\<lambda>s. s\<lparr>os_dynamicBalanceThre := v\<rparr>)"

definition SetPushOnceDiffThre :: "32 word \<Rightarrow> OutputController \<Rightarrow> OutputController" where
  "SetPushOnceDiffThre v = upd_set (\<lambda>s. s\<lparr>os_pushOnceDiffThre := v\<rparr>)"

definition SetTimeStampOnceDiffThre :: "32 word \<Rightarrow> OutputController \<Rightarrow> OutputController" where
  "SetTimeStampOnceDiffThre v = upd_set (\<lambda>s. s\<lparr>os_timeStampOnceDiffThre := v\<rparr>)"

definition SetAdjustSleepFactor :: "f32 \<Rightarrow> OutputController \<Rightarrow> OutputController" where
  "SetAdjustSleepFactor v = upd_set (\<lambda>s. s\<lparr>os_adjustSleepFactor := v\<rparr>)"

definition SetWaitClockFactor :: "f32 \<Rightarrow> OutputController \<Rightarrow> OutputController" where
  "SetWaitClockFactor v = upd_set (\<lambda>s. s\<lparr>os_waitClockFactor := v\<rparr>)"

definition SetTrackClockFactor :: "f32 \<Rightarrow> OutputController \<Rightarrow> OutputController" where
  "SetTrackClockFactor v = upd_set (\<lambda>s. s\<lparr>os_trackClockFactor := v\<rparr>)"

definition SetWaitClockThre :: "int \<Rightarrow> OutputController \<Rightarrow> OutputController" where
  "SetWaitClockThre v = upd_set (\<lambda>s. s\<lparr>os_waitClockThre := v\<rparr>)"

definition SetTrackClockThre :: "int \<Rightarrow> OutputController \<Rightarrow> OutputController" where
  "SetTrackClockThre v = upd_set (\<lambda>s. s\<lparr>os_trackClockThre := v\<rparr>)"

definition SetSleepThre :: "int \<Rightarrow> OutputController \<Rightarrow> OutputController" where
  "SetSleepThre v = upd_set (\<lambda>s. s\<lparr>os_sleepThre := v\<rparr>)"

definition SetVideoFrontTime :: "int \<Rightarrow> OutputController \<Rightarrow> OutputController" where
  "SetVideoFrontTime v = upd_set (\<lambda>s. s\<lparr>os_vFront := v\<rparr>)"

definition SetVideoBackTime :: "int \<Rightarrow> OutputController \<Rightarrow> OutputController" where
  "SetVideoBackTime v = upd_set (\<lambda>s. s\<lparr>os_vBack := v\<rparr>)"

definition SetAudioFrontTime :: "int \<Rightarrow> OutputController \<Rightarrow> OutputController" where
  "SetAudioFrontTime v = upd_set (\<lambda>s. s\<lparr>os_aFront := v\<rparr>)"

definition SetAudioBackTime :: "int \<Rightarrow> OutputController \<Rightarrow> OutputController" where
  "SetAudioBackTime v = upd_set (\<lambda>s. s\<lparr>os_aBack := v\<rparr>)"

definition SetTimeInitState :: "bool \<Rightarrow> OutputController \<Rightarrow> OutputController" where
  "SetTimeInitState v c = c\<lparr>oc_isTimeInit := v\<rparr>"

definition SetBaselineInitState :: "bool \<Rightarrow> OutputController \<Rightarrow> OutputController" where
  "SetBaselineInitState v c = c\<lparr>oc_isBaselineInit := v\<rparr>"

definition SetProcessDynamicBalanceState :: "bool \<Rightarrow> OutputController \<Rightarrow> OutputController" where
  "SetProcessDynamicBalanceState v c = c\<lparr>oc_isInDynamicBalance := v\<rparr>"

definition SetAllowControlState :: "bool \<Rightarrow> OutputController \<Rightarrow> OutputController" where
  "SetAllowControlState v c = c\<lparr>oc_isAllowControl := v\<rparr>"

definition SetClockBaseline :: "int \<Rightarrow> OutputController \<Rightarrow> OutputController" where
  "SetClockBaseline v c = c\<lparr>oc_clockBaseline := v\<rparr>"

definition SetTimeStampBaseline :: "int \<Rightarrow> OutputController \<Rightarrow> OutputController" where
  "SetTimeStampBaseline v c = c\<lparr>oc_timeStampBaseline := v\<rparr>"

definition SetClockTime :: "int \<Rightarrow> OutputController \<Rightarrow> OutputController" where
  "SetClockTime v c = c\<lparr>oc_clockTime := v\<rparr>"

definition SetDevClockDiff :: "int \<Rightarrow> OutputController \<Rightarrow> OutputController" where
  "SetDevClockDiff v c = c\<lparr>oc_devClockDiff := v\<rparr>"

definition SetControlStatus :: "ControlStatus \<Rightarrow> OutputController \<Rightarrow> OutputController" where
  "SetControlStatus v c = c\<lparr>oc_status := v\<rparr>"

lemmas setter_defs =
  upd_set_def SetBufferTime_def SetAverIntervalDiffThre_def SetDynamicBalanceThre_def SetPushOnceDiffThre_def
  SetTimeStampOnceDiffThre_def SetAdjustSleepFactor_def SetWaitClockFactor_def SetTrackClockFactor_def
  SetWaitClockThre_def SetTrackClockThre_def SetSleepThre_def SetVideoFrontTime_def SetVideoBackTime_def
  SetAudioFrontTime_def SetAudioBackTime_def SetTimeInitState_def SetBaselineInitState_def
  SetProcessDynamicBalanceState_def SetAllowControlState_def SetClockBaseline_def SetTimeStampBaseline_def
  SetClockTime_def SetDevClockDiff_def SetControlStatus_def

section \<open>Preparation\<close>

definition PrepareSmooth :: "OutputController \<Rightarrow> OutputController" where
  "PrepareSmooth c =
    (let c = SetProcessDynamicBalanceState False c; c = SetTimeInitState False c; c = SetBaselineInitState False c;
         c = SetAllowControlState True c; c = SetBufferTime 0 c; c = SetAdjustSleepFactor (0, 0) c;
         c = SetWaitClockFactor (0, 0) c; c = SetTrackClockFactor (0, 0) c; c = SetSleepThre 0 c;
         c = SetDynamicBalanceThre 0 c; c = SetAverIntervalDiffThre 0 c; c = SetPushOnceDiffThre 0 c
     in SetTimeStampOnceDiffThre 0 c)"

definition PrepareSync :: "OutputController \<Rightarrow> OutputController" where
  "PrepareSync c =
    (let c = SetProcessDynamicBalanceState True c; c = SetTimeInitState False c; c = SetBaselineInitState False c;
         c = SetAllowControlState True c; c = SetBufferTime 0 c; c = SetAdjustSleepFactor (0, 0) c;
         c = SetWaitClockThre 0 c; c = SetTrackClockThre 0 c; c = SetSleepThre 0 c;
         c = SetAudioFrontTime 0 c; c = SetAudioBackTime 0 c; c = SetVideoFrontTime 0 c
     in SetVideoBackTime 0 c)"

text \<open>The settings of a screen.  The nearest \<open>float\<close> to a tenth is 13421773 over two to the 27.\<close>

definition ADJUST_SLEEP_FACTOR :: f32 where "ADJUST_SLEEP_FACTOR = (13421773, 27)"
definition WAIT_CLOCK_FACTOR :: f32 where "WAIT_CLOCK_FACTOR = (13421773, 27)"
definition TRACK_CLOCK_FACTOR :: f32 where "TRACK_CLOCK_FACTOR = (13421773, 26)"
definition DYNAMIC_BALANCE_THRE :: "8 word" where "DYNAMIC_BALANCE_THRE = 3"
definition SMOOTH_BUFFER_TIME :: "32 word" where "SMOOTH_BUFFER_TIME = 0"
definition AVER_INTERVAL_DIFF_THRE :: "32 word" where "AVER_INTERVAL_DIFF_THRE = 2000000"
definition PUSH_ONCE_DIFF_THRE :: "32 word" where "PUSH_ONCE_DIFF_THRE = 10000000"
definition TIMESTAMP_ONCE_DIFF_THRE :: "32 word" where "TIMESTAMP_ONCE_DIFF_THRE = 3000000"
definition WAIT_CLOCK_THRE :: int where "WAIT_CLOCK_THRE = 125 * NS_ONE_MS"
definition TRACK_CLOCK_THRE :: int where "TRACK_CLOCK_THRE = 45 * NS_ONE_MS"
definition SLEEP_THRE :: int where "SLEEP_THRE = 1000 * NS_ONE_MS"
definition AUDIO_BACK_TIME :: int where "AUDIO_BACK_TIME = 320 * NS_ONE_MS"

definition DScreen_PrepareSmooth :: "OutputController \<Rightarrow> OutputController" where
  "DScreen_PrepareSmooth c =
    (let c = PrepareSmooth c; c = SetBufferTime SMOOTH_BUFFER_TIME c;
         c = SetDynamicBalanceThre DYNAMIC_BALANCE_THRE c;
         c = SetAverIntervalDiffThre AVER_INTERVAL_DIFF_THRE c; c = SetPushOnceDiffThre PUSH_ONCE_DIFF_THRE c;
         c = SetTimeStampOnceDiffThre TIMESTAMP_ONCE_DIFF_THRE c; c = SetAdjustSleepFactor ADJUST_SLEEP_FACTOR c;
         c = SetWaitClockFactor WAIT_CLOCK_FACTOR c; c = SetTrackClockFactor TRACK_CLOCK_FACTOR c
     in SetSleepThre SLEEP_THRE c)"

definition DScreen_PrepareSync :: "OutputController \<Rightarrow> OutputController" where
  "DScreen_PrepareSync c =
    (let c = PrepareSync c; c = SetAdjustSleepFactor ADJUST_SLEEP_FACTOR c;
         c = SetWaitClockThre WAIT_CLOCK_THRE c; c = SetTrackClockThre TRACK_CLOCK_THRE c;
         c = SetSleepThre SLEEP_THRE c
     in SetAudioBackTime AUDIO_BACK_TIME c)"

definition InitTimeStatistician :: "OutputController \<Rightarrow> OutputController" where
  "InitTimeStatistician c =
    (let c1 = (if oc_statistician c = None then c\<lparr>oc_statistician := Some TimeStatistician_new\<rparr> else c)
     in c1\<lparr>oc_statistician := map_option ClearStatistics (oc_statistician c1)\<rparr>)"

text \<open>The controller of the program is that of a screen, whose preparations override the ones above.\<close>

definition PrepareControl :: "OutputController \<Rightarrow> OutputController" where
  "PrepareControl c =
    InitTimeStatistician (if oc_mode c = CM_SMOOTH then DScreen_PrepareSmooth c else DScreen_PrepareSync c)"

definition SetControlMode :: "ControlMode \<Rightarrow> OutputController \<Rightarrow> OutputController" where
  "SetControlMode mode c = PrepareControl (c\<lparr>oc_mode := mode\<rparr>)"

definition ClearQueue :: "OutputController \<Rightarrow> OutputController" where
  "ClearQueue c = c\<lparr>oc_dataQueue := []\<rparr>"

section \<open>Frames that come in\<close>

definition CheckSyncInfo :: "Buffer option \<Rightarrow> OutputController \<Rightarrow> OutputController" where
  "CheckSyncInfo data c =
    (case data of
       None \<Rightarrow> c
     | Some d \<Rightarrow>
        (case bf_meta d of
           None \<Rightarrow> c
         | Some meta \<Rightarrow>
            let isAFrameNumberExist = bm_AUDIO_SAMPLE_PER_FRAME meta \<noteq> None; isAPtsExist = bm_MEDIA_START_TIME meta
            in if oc_mode c = CM_SYNC \<and> (\<not> isAFrameNumberExist \<or> \<not> isAPtsExist)
               then SetControlMode CM_SMOOTH (ClearQueue c)
               else if oc_mode c = CM_SMOOTH \<and> isAFrameNumberExist \<and> isAPtsExist
               then SetControlMode CM_SYNC (ClearQueue c)
               else c))"

text \<open>A frame without meta data is refused, but only after an old frame was dropped for it.\<close>

definition OC_PushData :: "int \<Rightarrow> Buffer option \<Rightarrow> OutputController \<Rightarrow> OutputController" where
  "OC_PushData pushTime data c =
    (if oc_status c \<noteq> CS_START then c
     else
       let c1 = (if QUEUE_MAX_SIZE < length (oc_dataQueue c) then c\<lparr>oc_dataQueue := tl (oc_dataQueue c)\<rparr> else c);
           c2 = CheckSyncInfo data c1
       in case data of
            None \<Rightarrow> c2
          | Some d \<Rightarrow>
             (case bf_meta d of
                None \<Rightarrow> c2
              | Some meta \<Rightarrow>
                 c2\<lparr>oc_dataQueue := oc_dataQueue c2 @
                      [d\<lparr>bf_meta := Some (meta\<lparr>bm_USER_PUSH_DATA_TIME := Some pushTime\<rparr>)\<rparr>]\<rparr>))"

section \<open>Start, stop and release\<close>

text \<open>The handler exists once its thread has run, which is waited for.\<close>

definition StartControl :: "OutputController \<Rightarrow> ControlStatus \<times> OutputController" where
  "StartControl c =
    (if oc_status c = CS_START then (CS_STARTED, c)
     else (CS_START, (SetControlStatus CS_START c)\<lparr>oc_handlerThread := True, oc_handler := True, oc_controlThread := True\<rparr>))"

definition StopControl :: "OutputController \<Rightarrow> ControlStatus \<times> OutputController" where
  "StopControl c =
    (if oc_status c = CS_STOP then (CS_STOPPED, c) else (CS_STOP, ClearQueue (SetControlStatus CS_STOP c)))"

text \<open>The release up to where it joins the control thread, and what comes after.\<close>

definition release_begin :: "OutputController \<Rightarrow> OutputController" where
  "release_begin c = (SetControlStatus CS_RELEASE c)\<lparr>oc_statistician := None, oc_listener := False\<rparr>"

definition release_end :: "OutputController \<Rightarrow> OutputController" where
  "release_end c = ClearQueue (c\<lparr>oc_handlerThread := False, oc_controlThread := False\<rparr>)\<lparr>oc_paramsMap := (\<lambda>_. None)\<rparr>"

definition ReleaseControl :: "OutputController \<Rightarrow> ControlStatus \<times> OutputController" where
  "ReleaseControl c =
    (if oc_status c = CS_RELEASE then (CS_RELEASED, c) else (CS_RELEASE, release_end (release_begin c)))"

definition OC_RegisterListener :: "OutputController \<Rightarrow> OutputController" where
  "OC_RegisterListener c = c\<lparr>oc_listener := True\<rparr>"

section \<open>Parameters\<close>

text \<open>The value of \<open>atoi\<close>: white space is skipped, then a sign and the digits are read.\<close>

definition atoi :: "string \<Rightarrow> int" where
  "atoi s =
    (let t = dropWhile (\<lambda>c. c = CHR '' '' \<or> of_char c \<in> {9..13 :: nat}) s;
         n = (\<lambda>u. foldl (\<lambda>a c. 10 * a + (of_char c - 48)) (0 :: int)
                    (takeWhile (\<lambda>c. of_char c \<in> {48..57 :: nat}) u))
     in case t of
          [] \<Rightarrow> 0
        | c # u \<Rightarrow> if c = CHR ''-'' then - n u else if c = CHR ''+'' then n u else n t)"

definition OC_GetParameter :: "OutputTag \<Rightarrow> string \<Rightarrow> OutputController \<Rightarrow> PluginStatus \<times> string" where
  "OC_GetParameter tag v c =
    (case oc_paramsMap c tag of Some x \<Rightarrow> (Status_OK, x) | None \<Rightarrow> (ERROR_NOT_EXISTED, v))"

text \<open>The \<open>insert\<close> of a map keeps the value that is there.\<close>

definition OC_SetParameter :: "'j cJSON \<Rightarrow> OutputTag \<Rightarrow> string \<Rightarrow> OutputController \<Rightarrow> PluginStatus \<times> OutputController" where
  "OC_SetParameter J tag v c =
    (let c1 = (case tag of
                 USER_SHARED_MEMORY_FD \<Rightarrow> c\<lparr>oc_sharedMem := UnmarshalSharedMemory J v\<rparr>
               | USER_TIME_SYNC_RESULT \<Rightarrow> SetDevClockDiff (atoi (c_str v)) c
               | _ \<Rightarrow> c)
     in (Status_OK, if oc_paramsMap c1 tag = None then c1\<lparr>oc_paramsMap := (oc_paramsMap c1)(tag \<mapsto> v)\<rparr> else c1))"

section \<open>The clock\<close>

text \<open>
  The environment of one round of the control thread: the kernel's shared memory, the address the local
  variable \<open>sharedMem\<close> holds, the value \<open>AnyCast\<close> gives for an entry that is missing, the two readings of the
  time, and what other threads do while the thread waits: in the \<open>n\<close>-th wait for the clock and in the sleep,
  each with the time it lasts at most.
\<close>

record control_env =
  ce_shm :: shm_env
  ce_addr :: "nat option"
  ce_missing :: "32 word"
  ce_enterTime :: int
  ce_leaveTime :: int
  ce_wait :: "nat \<Rightarrow> int \<Rightarrow> OutputController \<Rightarrow> OutputController"
  ce_sleep :: "int \<Rightarrow> OutputController \<Rightarrow> OutputController"

text \<open>No result (\<open>None\<close>) is an access outside of the mapping.\<close>

definition AcquireSyncClockTime :: "control_env \<Rightarrow> Buffer \<Rightarrow> OutputController \<Rightarrow> (int \<times> OutputController) option" where
  "AcquireSyncClockTime V data c =
    (case bf_meta data of
       None \<Rightarrow> Some (ERR_DH_AVT_INVALID_PARAM, c)
     | Some meta \<Rightarrow>
        let sm = oc_sharedMem c in
        if sm_fd sm \<le> 0 \<or> sm_size sm \<le> 0 \<or> sm_name sm = [] then Some (ERR_DH_AVT_SHARED_MEMORY_FAILED, c)
        else
          let sharedMem = sm\<lparr>sm_addr := ce_addr V\<rparr>;
              frameNum = (case bm_AUDIO_SAMPLE_PER_FRAME meta of Some n \<Rightarrow> n | None \<Rightarrow> ce_missing V);
              clockUnit = \<lparr>cu_index = 0, cu_frameNum = frameNum, cu_pts = 0\<rparr>
          in case ReadClockUnitFromMemory (ce_shm V) sharedMem clockUnit (oc_shm c) of
               None \<Rightarrow> None
             | Some (ret, u) \<Rightarrow>
                if ret = DH_AVT_SUCCESS then
                  if sint (cu_pts u) = INVALID_TIMESTAMP then Some (ERR_DH_AVT_SHARED_MEMORY_FAILED, c)
                  else Some (ret, SetClockTime (sint (cu_pts u))
                                   (c\<lparr>oc_clockUnit := (oc_clockUnit c)\<lparr>cu_pts := cu_pts u, cu_frameNum := cu_frameNum u\<rparr>\<rparr>))
                else Some (ret, c))"

text \<open>How long one wait for the clock lasts at most.\<close>

definition reread_time :: "OutputController \<Rightarrow> int" where
  "reread_time c =
    (if length (oc_dataQueue c) < QUEUE_MAX_SIZE div 2
     then case oc_statistician c of
            Some st \<Rightarrow> ts_averPushInterval st * FACTOR_DOUBLE | None \<Rightarrow> LESS_HALF_REREAD_TIME
     else GREATER_HALF_REREAD_TIME)"

text \<open>
  The loop has no bound: it has no value (\<open>None\<close>) when it never ends.  \<open>Some None\<close> is an access outside of the
  mapping.
\<close>

partial_function (option) WaitRereadClockFailed ::
    "control_env \<Rightarrow> Buffer \<Rightarrow> nat \<Rightarrow> OutputController \<Rightarrow> (bool \<times> OutputController) option option" where
  "WaitRereadClockFailed V data n c =
    (if length (oc_dataQueue c) < QUEUE_MAX_SIZE
     then case AcquireSyncClockTime V data (ce_wait V n (reread_time c) c) of
            None \<Rightarrow> Some None
          | Some r \<Rightarrow>
             if fst r = DH_AVT_SUCCESS \<or> oc_mode (snd r) = CM_SMOOTH then Some (Some (False, snd r))
             else WaitRereadClockFailed V data (Suc n) (snd r)
     else Some (Some (True, c)))"

declare WaitRereadClockFailed.simps [code]

definition CheckIsClockInvalid ::
    "control_env \<Rightarrow> Buffer \<Rightarrow> OutputController \<Rightarrow> (bool \<times> OutputController) option option" where
  "CheckIsClockInvalid V data c =
    (if oc_mode c = CM_SMOOTH then Some (Some (False, SetClockTime (oc_enterTime c) c))
     else case AcquireSyncClockTime V data c of
            None \<Rightarrow> Some None
          | Some (ret, c1) \<Rightarrow>
             if ret = ERR_DH_AVT_MASTER_NOT_READY then WaitRereadClockFailed V data 0 c1
             else Some (Some (ret \<noteq> DH_AVT_SUCCESS, c1)))"

section \<open>Balance\<close>

definition CheckIsProcessInDynamicBalanceOnce :: "OutputController \<Rightarrow> bool" where
  "CheckIsProcessInDynamicBalanceOnce c =
    (case oc_statistician c of
       None \<Rightarrow> False
     | Some st \<Rightarrow>
        let averIntervalDiff = ts_averPushInterval st - ts_averTimeStampInterval st;
            pushOnceDiff = ts_pushInterval st - ts_averPushInterval st;
            timeStampOnceDiff = ts_timeStampInterval st - ts_averTimeStampInterval st
        in ts_averPushInterval st \<noteq> 0 \<and> ts_averTimeStampInterval st \<noteq> 0
           \<and> \<bar>averIntervalDiff\<bar> < uint (os_averIntervalDiffThre (oc_set c))
           \<and> \<bar>pushOnceDiff\<bar> < uint (os_pushOnceDiffThre (oc_set c))
           \<and> \<bar>timeStampOnceDiff\<bar> < uint (os_timeStampOnceDiffThre (oc_set c)))"

definition CheckIsProcessInDynamicBalance :: "OutputController \<Rightarrow> bool \<times> OutputController" where
  "CheckIsProcessInDynamicBalance c =
    (if oc_mode c = CM_SYNC \<or> oc_isInDynamicBalance c then (True, c)
     else
       let c1 = c\<lparr>oc_dynamicBalanceCount :=
                   if CheckIsProcessInDynamicBalanceOnce c then oc_dynamicBalanceCount c + 1 else 0\<rparr>
       in if os_dynamicBalanceThre (oc_set c1) \<le> oc_dynamicBalanceCount c1
          then (True, SetProcessDynamicBalanceState True (ClearQueue c1))
          else (False, c1))"

section \<open>The sleep\<close>

definition CalProcessTime :: "Buffer \<Rightarrow> OutputController \<Rightarrow> OutputController" where
  "CalProcessTime data c = c\<lparr>oc_statistician := map_option (Stat_CalProcessTime data) (oc_statistician c)\<rparr>"

definition RecordTime :: "int \<Rightarrow> int \<Rightarrow> int \<Rightarrow> OutputController \<Rightarrow> OutputController" where
  "RecordTime now enterTime timeStamp c =
    SetTimeInitState True (c\<lparr>oc_lastEnterTime := enterTime, oc_lastTimeStamp := timeStamp, oc_leaveTime := now\<rparr>)"

definition InitTime :: "int \<Rightarrow> int \<Rightarrow> OutputController \<Rightarrow> OutputController" where
  "InitTime enterTime timeStamp c =
    SetTimeInitState True
      (c\<lparr>oc_delta := 0, oc_sleep := 0, oc_lastEnterTime := enterTime, oc_lastTimeStamp := timeStamp,
         oc_leaveTime := enterTime\<rparr>)"

definition InitBaseline :: "int \<Rightarrow> int \<Rightarrow> OutputController \<Rightarrow> OutputController" where
  "InitBaseline timeStampBaseline clockBaseline c =
    SetBaselineInitState True (SetClockBaseline (clockBaseline + uint (os_bufferTime (oc_set c)))
      (SetTimeStampBaseline timeStampBaseline c))"

definition CalSleepTime :: "int \<Rightarrow> OutputController \<Rightarrow> OutputController" where
  "CalSleepTime timeStamp c =
    (let interval = timeStamp - oc_lastTimeStamp c;
         elapse = oc_enterTime c - oc_leaveTime c;
         render = oc_enterTime c - oc_lastEnterTime c;
         delta = render - oc_sleep c - elapse;
         c1 = c\<lparr>oc_delta := oc_delta c + delta, oc_sleep := interval - elapse\<rparr>
     in if interval = INVALID_INTERVAL then c1
        else
          let adjustThre = times_float interval (os_adjustSleepFactor (oc_set c1)) in
          if adjustThre < oc_delta c1 \<and> 0 < oc_sleep c1
          then let sleep = oc_sleep c1 - adjustThre
               in c1\<lparr>oc_delta := oc_delta c1 - (if sleep < 0 then oc_sleep c1 else adjustThre), oc_sleep := sleep\<rparr>
          else if oc_delta c1 < - adjustThre
          then c1\<lparr>oc_sleep := oc_sleep c1 + oc_delta c1, oc_delta := 0\<rparr>
          else c1)"

definition HandleSmoothTime :: "Buffer \<Rightarrow> OutputController \<Rightarrow> OutputController" where
  "HandleSmoothTime data c =
    (case oc_statistician c of
       None \<Rightarrow> c
     | Some st \<Rightarrow>
        if ts_timeStampInterval st = INVALID_INTERVAL then c
        else if ts_averTimeStampInterval st = INVALID_INTERVAL then c
        else
          let waitClockThre = times_float (ts_averTimeStampInterval st) (os_waitClockFactor (oc_set c));
              trackClockThre = times_float (ts_averTimeStampInterval st) (os_trackClockFactor (oc_set c));
              vTimeStamp = bf_pts data;
              vcts = (if 0 < oc_sleep c then vTimeStamp - oc_sleep c else vTimeStamp);
              offset = vcts - oc_timeStampBaseline c - (oc_clockTime c - oc_clockBaseline c)
          in if waitClockThre < offset \<or> offset < - trackClockThre then c\<lparr>oc_sleep := oc_sleep c + offset\<rparr> else c)"

text \<open>By how much the picture is ahead of the sound.\<close>

definition sync_offset :: "Buffer \<Rightarrow> OutputController \<Rightarrow> int" where
  "sync_offset data c =
    (let vTimeStamp = bf_pts data;
         vcts = (if 0 < oc_sleep c then vTimeStamp - oc_sleep c else vTimeStamp);
         acts = oc_clockTime c; s = oc_set c
     in (vcts - os_vFront s - os_vBack s) - (acts - os_aFront s - os_aBack s) - oc_devClockDiff c)"

definition HandleSyncTime :: "Buffer \<Rightarrow> OutputController \<Rightarrow> OutputController" where
  "HandleSyncTime data c =
    (case bf_meta data of
       None \<Rightarrow> c
     | Some _ \<Rightarrow>
        let offset = sync_offset data c; s = oc_set c;
            append = (os_trackClockThre s + os_waitClockThre s) sdiv 2
        in if os_waitClockThre s < offset
           then c\<lparr>oc_sleep := oc_sleep c + (offset - os_waitClockThre s + append)\<rparr>
           else if offset < - os_trackClockThre s
           then c\<lparr>oc_sleep := oc_sleep c + (offset - os_trackClockThre s - append)\<rparr>
           else c)"

text \<open>The sleep that \<open>SyncClock\<close> settles on, and the whole of it.\<close>

definition settle_sleep :: "Buffer \<Rightarrow> OutputController \<Rightarrow> OutputController" where
  "settle_sleep data c =
    (let c1 = (if oc_mode c = CM_SMOOTH then HandleSmoothTime data c else HandleSyncTime data c);
         c2 = (if os_sleepThre (oc_set c1) < oc_sleep c1 then c1\<lparr>oc_sleep := os_sleepThre (oc_set c1)\<rparr> else c1)
     in if oc_sleep c2 < 0 then c2\<lparr>oc_sleep := 0\<rparr> else c2)"

definition SyncClock :: "control_env \<Rightarrow> Buffer \<Rightarrow> OutputController \<Rightarrow> OutputController" where
  "SyncClock V data c = (let c1 = settle_sleep data c in ce_sleep V (oc_sleep c1) c1)"

section \<open>The control thread\<close>

definition ControlOutput :: "control_env \<Rightarrow> Buffer \<Rightarrow> OutputController \<Rightarrow> (int \<times> OutputController) option option" where
  "ControlOutput V data c =
    (let enterTime = ce_enterTime V; c1 = c\<lparr>oc_enterTime := enterTime\<rparr>; timeStamp = bf_pts data
     in if timeStamp = INVALID_TIMESTAMP \<or> \<not> oc_isAllowControl c1 then Some (Some (OUTPUT_FRAME, c1))
        else case CheckIsClockInvalid V data c1 of
               None \<Rightarrow> None
             | Some None \<Rightarrow> Some None
             | Some (Some (invalid, c2)) \<Rightarrow>
                let (balanced, c3) = (if invalid then (True, c2) else CheckIsProcessInDynamicBalance c2);
                    c4 = CalProcessTime data c3
                in if invalid \<or> \<not> balanced
                   then Some (Some (OUTPUT_FRAME, RecordTime (ce_leaveTime V) enterTime timeStamp c4))
                   else
                     let c5 = (if \<not> oc_isTimeInit c4 then InitTime enterTime timeStamp c4 else c4);
                         c6 = (if \<not> oc_isBaselineInit c5 then InitBaseline timeStamp (oc_clockTime c5) c5 else c5);
                         c7 = SyncClock V data (CalSleepTime timeStamp c6)
                     in Some (Some (OUTPUT_FRAME, RecordTime (ce_leaveTime V) enterTime timeStamp c7)))"

text \<open>The event is posted to the handler; \<open>posted\<close> says whether the handler took it.\<close>

definition PostOutputEvent :: "bool \<Rightarrow> Buffer \<Rightarrow> OutputController \<Rightarrow> int \<times> OutputController" where
  "PostOutputEvent posted data c =
    (if \<not> oc_handler c then (HANDLE_FAILED, c)
     else if \<not> posted then (HANDLE_FAILED, c)
     else (HANDLE_SUCCESS, c\<lparr>oc_events := oc_events c @ [data]\<rparr>))"

definition pop_if_front :: "Buffer \<Rightarrow> OutputController \<Rightarrow> OutputController" where
  "pop_if_front data c =
    (if oc_dataQueue c \<noteq> [] \<and> bf_id (hd (oc_dataQueue c)) = bf_id data
     then c\<lparr>oc_dataQueue := tl (oc_dataQueue c)\<rparr> else c)"

definition HandleControlResult :: "bool \<Rightarrow> Buffer \<Rightarrow> int \<Rightarrow> OutputController \<Rightarrow> OutputController" where
  "HandleControlResult posted data result c =
    (if result = OUTPUT_FRAME then
       let (ret, c1) = PostOutputEvent posted data c in if ret = HANDLE_FAILED then c1 else pop_if_front data c1
     else if result = DROP_FRAME then pop_if_front data c
     else if result = REPEAT_FREAM then snd (PostOutputEvent posted data c)
     else c)"

text \<open>
  One round of the loop of the control thread: nothing while there is no frame or the controller is not
  started, and the end of the thread once it is released.
\<close>

definition LooperControl_round ::
    "control_env \<Rightarrow> bool \<Rightarrow> OutputController \<Rightarrow> OutputController option option" where
  "LooperControl_round V posted c =
    (if oc_status c \<noteq> CS_START then Some (Some c)
     else case oc_dataQueue c of
            [] \<Rightarrow> Some (Some c)
          | data # _ \<Rightarrow>
             (case ControlOutput V data c of
                None \<Rightarrow> None
              | Some None \<Rightarrow> Some None
              | Some (Some (result, c1)) \<Rightarrow> Some (Some (HandleControlResult posted data result c1))))"

text \<open>The event of a frame, when the handler's thread runs it: whether the listener was told.\<close>

definition NotifyOutput :: "(Buffer \<Rightarrow> int) \<Rightarrow> Buffer \<Rightarrow> OutputController \<Rightarrow> int" where
  "NotifyOutput OnOutput data c = (if \<not> oc_listener c then NOTIFY_FAILED else OnOutput data)"

end
