(* ===== verification/Screen_Output.thy ===== *)
theory Screen_Output
  imports Output_Controller
begin

text \<open>
  The output plugin of a distributed screen, \<open>dscreen_output/dscreen_output_plugin.cpp\<close> with
  \<open>output_control/src/output_controller_listener.cpp\<close>: its states, the controller it owns, and the frames it
  gives to its data callback.
\<close>

datatype PluginState = PS_CREATED | PS_INITIALIZED | PS_PREPARED | PS_RUNNING

record DscreenOutputPlugin =
  sp_state :: PluginState
  sp_eventsCb :: "nat option"
  sp_dataCb :: bool
  sp_controller :: "OutputController option"
  sp_controllerListener :: bool
  sp_shown :: "Buffer list"

definition DscreenOutputPlugin_new :: DscreenOutputPlugin where
  "DscreenOutputPlugin_new =
    \<lparr>sp_state = PS_CREATED, sp_eventsCb = None, sp_dataCb = False, sp_controller = None,
     sp_controllerListener = False, sp_shown = []\<rparr>"

definition InitOutputController :: "shm_world \<Rightarrow> DscreenOutputPlugin \<Rightarrow> DscreenOutputPlugin" where
  "InitOutputController w p =
    (let c = (case sp_controller p of None \<Rightarrow> OutputController_new w | Some c \<Rightarrow> c)
     in p\<lparr>sp_controller := Some (OC_RegisterListener c), sp_controllerListener := True\<rparr>)"

definition Screen_Init :: "shm_world \<Rightarrow> DscreenOutputPlugin \<Rightarrow> PluginStatus \<times> DscreenOutputPlugin" where
  "Screen_Init w p = (Status_OK, (InitOutputController w p)\<lparr>sp_state := PS_INITIALIZED\<rparr>)"

definition Screen_Prepare :: "DscreenOutputPlugin \<Rightarrow> PluginStatus \<times> DscreenOutputPlugin" where
  "Screen_Prepare p =
    (if sp_state p \<noteq> PS_INITIALIZED then (ERROR_WRONG_STATE, p)
     else case sp_controller p of
            None \<Rightarrow> (ERROR_NULL_POINTER, p)
          | Some c \<Rightarrow> (Status_OK, p\<lparr>sp_state := PS_PREPARED, sp_controller := Some (PrepareControl c)\<rparr>))"

text \<open>
  A reset destroys the controller after its release; the callbacks are gone before.  The history of the events
  that the handler has not run goes with it.
\<close>

definition Screen_Reset :: "DscreenOutputPlugin \<Rightarrow> PluginStatus \<times> DscreenOutputPlugin" where
  "Screen_Reset p =
    (Status_OK, p\<lparr>sp_state := PS_INITIALIZED, sp_eventsCb := None, sp_dataCb := False,
                  sp_controllerListener := False, sp_controller := None\<rparr>)"

definition Screen_Deinit :: "DscreenOutputPlugin \<Rightarrow> PluginStatus \<times> DscreenOutputPlugin" where
  "Screen_Deinit p = Screen_Reset p"

definition Screen_GetParameter :: "OutputTag \<Rightarrow> string \<Rightarrow> DscreenOutputPlugin \<Rightarrow> PluginStatus \<times> string" where
  "Screen_GetParameter tag v p =
    (case sp_controller p of None \<Rightarrow> (ERROR_NULL_POINTER, v) | Some c \<Rightarrow> OC_GetParameter tag v c)"

definition Screen_SetParameter ::
    "'j cJSON \<Rightarrow> OutputTag \<Rightarrow> string \<Rightarrow> DscreenOutputPlugin \<Rightarrow> PluginStatus \<times> DscreenOutputPlugin" where
  "Screen_SetParameter J tag v p =
    (case sp_controller p of
       None \<Rightarrow> (ERROR_NULL_POINTER, p)
     | Some c \<Rightarrow> let (r, c1) = OC_SetParameter J tag v c in (r, p\<lparr>sp_controller := Some c1\<rparr>))"

definition Screen_Start :: "DscreenOutputPlugin \<Rightarrow> PluginStatus \<times> DscreenOutputPlugin" where
  "Screen_Start p =
    (if sp_state p \<noteq> PS_PREPARED then (ERROR_WRONG_STATE, p)
     else case sp_controller p of
            None \<Rightarrow> (ERROR_NULL_POINTER, p)
          | Some c \<Rightarrow> (Status_OK, p\<lparr>sp_state := PS_RUNNING, sp_controller := Some (snd (StartControl c))\<rparr>))"

definition Screen_Stop :: "DscreenOutputPlugin \<Rightarrow> PluginStatus \<times> DscreenOutputPlugin" where
  "Screen_Stop p =
    (if sp_state p \<noteq> PS_RUNNING then (ERROR_WRONG_STATE, p)
     else case sp_controller p of
            None \<Rightarrow> (ERROR_NULL_POINTER, p)
          | Some c \<Rightarrow> (Status_OK, p\<lparr>sp_state := PS_PREPARED, sp_controller := Some (snd (StopControl c))\<rparr>))"

definition Screen_SetCallback :: "nat option \<Rightarrow> DscreenOutputPlugin \<Rightarrow> PluginStatus \<times> DscreenOutputPlugin" where
  "Screen_SetCallback cb p = (if cb = None then (ERROR_NULL_POINTER, p) else (Status_OK, p\<lparr>sp_eventsCb := cb\<rparr>))"

definition Screen_SetDataCallback :: "bool \<Rightarrow> DscreenOutputPlugin \<Rightarrow> PluginStatus \<times> DscreenOutputPlugin" where
  "Screen_SetDataCallback callback p = (Status_OK, p\<lparr>sp_dataCb := callback\<rparr>)"

text \<open>\<open>isEmpty\<close> is the answer of the buffer.\<close>

definition Screen_PushData ::
    "int \<Rightarrow> bool \<Rightarrow> Buffer option \<Rightarrow> DscreenOutputPlugin \<Rightarrow> PluginStatus \<times> DscreenOutputPlugin" where
  "Screen_PushData pushTime isEmpty buffer p =
    (if buffer = None \<or> isEmpty then (ERROR_NULL_POINTER, p)
     else case sp_controller p of
            None \<Rightarrow> (ERROR_NULL_POINTER, p)
          | Some c \<Rightarrow> (Status_OK, p\<lparr>sp_controller := Some (OC_PushData pushTime buffer c)\<rparr>))"

text \<open>No result: a frame without meta data or a callback that is not set ends the process.\<close>

definition Screen_OnOutput :: "Buffer option \<Rightarrow> DscreenOutputPlugin \<Rightarrow> DscreenOutputPlugin option" where
  "Screen_OnOutput data p =
    (case data of
       None \<Rightarrow> Some p
     | Some d \<Rightarrow>
        if bf_meta d = None then None
        else if \<not> sp_dataCb p then None
        else Some (p\<lparr>sp_shown := sp_shown p @ [d]\<rparr>))"

text \<open>The listener of the controller, which holds the plugin weakly; \<open>alive\<close> is the answer of its pointer.\<close>

definition Listener_OnOutput ::
    "bool \<Rightarrow> Buffer option \<Rightarrow> DscreenOutputPlugin \<Rightarrow> (int \<times> DscreenOutputPlugin) option" where
  "Listener_OnOutput alive data p =
    (if \<not> alive then Some (NOTIFY_FAILED, p)
     else map_option (\<lambda>p1. (NOTIFY_SUCCESS, p1)) (Screen_OnOutput data p))"

end
