(* ===== verification/Output_Properties.thy ===== *)
theory Output_Properties
  imports Screen_Output Av_Properties
begin

text \<open>
  Properties of the output controller: its statistics, the sleep between two frames, the synchronisation with
  the sound, the wait for the clock, and the order of the frames.
\<close>

section \<open>Statistics\<close>

text \<open>Both statistics are running means of the gaps between the values they are given.\<close>

definition mean_gap :: "int list \<Rightarrow> int" where
  "mean_gap xs = sum_list (map2 (-) (tl xs) xs) sdiv int (length xs - 1)"

locale running_mean =
  fixes step :: "'d \<Rightarrow> 's \<Rightarrow> 's" and ok :: "'d \<Rightarrow> bool" and val :: "'d \<Rightarrow> int"
    and idx total aver lst :: "'s \<Rightarrow> int"
  assumes first: "ok d \<Longrightarrow> lst s = 0 \<Longrightarrow> lst (step d s) = val d \<and> idx (step d s) = idx s
                    \<and> total (step d s) = total s \<and> aver (step d s) = aver s"
    and more: "ok d \<Longrightarrow> lst s \<noteq> 0 \<Longrightarrow> 0 \<le> idx s \<Longrightarrow> lst (step d s) = val d \<and> idx (step d s) = idx s + 1
                 \<and> total (step d s) = total s + (val d - lst s)
                 \<and> aver (step d s) = total (step d s) sdiv idx (step d s)"
begin

lemma means:
  assumes "lst s \<noteq> 0" "0 \<le> idx s" "\<forall>d\<in>set ds. ok d \<and> val d \<noteq> 0" "aver s = total s sdiv idx s"
  shows "idx (fold step ds s) = idx s + int (length ds)
    \<and> total (fold step ds s) = total s + sum_list (map2 (-) (map val ds) (lst s # map val ds))
    \<and> aver (fold step ds s) = total (fold step ds s) sdiv idx (fold step ds s)"
  using assms
proof (induction ds arbitrary: s)
  case (Cons d ds)
  show ?case using Cons.IH[of "step d s"] Cons.prems more[of d s] by auto
qed simp

lemma mean:
  assumes "lst s = 0" "idx s = 0" "total s = 0" "aver s = 0" "\<forall>d\<in>set ds. ok d \<and> val d \<noteq> 0"
  shows "aver (fold step ds s) = mean_gap (map val ds)"
  using assms means[of "step (hd ds) s" "tl ds"] first[of "hd ds" s]
  by (cases ds) (auto simp: mean_gap_def)

end

definition push_time :: "Buffer \<Rightarrow> int" where
  "push_time d = (case bf_meta d of Some m \<Rightarrow> (case bm_USER_PUSH_DATA_TIME m of Some t \<Rightarrow> t | None \<Rightarrow> 0) | None \<Rightarrow> 0)"

lemmas stat_defs = Stat_CalProcessTime_def CalAverPushInterval_def CalAverTimeStampInterval_def push_time_def Let_def

interpretation push_mean: running_mean Stat_CalProcessTime "\<lambda>d. push_time d \<noteq> 0" push_time
    ts_pushIndex ts_pushIntervalSum ts_averPushInterval ts_lastPushTime
  by unfold_locales (auto simp: stat_defs split: option.splits)

interpretation stamp_mean: running_mean Stat_CalProcessTime "\<lambda>d. push_time d \<noteq> 0" bf_pts
    ts_timeStampIndex ts_timeStampIntervalSum ts_averTimeStampInterval ts_lastTimeStamp
  by unfold_locales (auto simp: stat_defs split: option.splits)

lemma cleared [simp]:
  "ts_pushIndex (ClearStatistics s) = 0" "ts_pushIntervalSum (ClearStatistics s) = 0"
  "ts_averPushInterval (ClearStatistics s) = 0" "ts_lastPushTime (ClearStatistics s) = 0"
  "ts_timeStampIndex (ClearStatistics s) = 0" "ts_timeStampIntervalSum (ClearStatistics s) = 0"
  "ts_averTimeStampInterval (ClearStatistics s) = 0" "ts_lastTimeStamp (ClearStatistics s) = 0"
  by (simp_all add: ClearStatistics_def)


definition frame :: "nat \<Rightarrow> int \<Rightarrow> int option \<Rightarrow> Buffer" where
  "frame n pts push =
    \<lparr>bf_id = n, bf_pts = pts,
     bf_meta = Some \<lparr>bm_AUDIO_SAMPLE_PER_FRAME = Some 1, bm_MEDIA_START_TIME = True, bm_USER_PUSH_DATA_TIME = push\<rparr>\<rparr>"


section \<open>Factors\<close>

lemma nbits: "0 < n \<Longrightarrow> 2 ^ (nbits n - 1) \<le> n \<and> n < 2 ^ nbits n \<and> 0 < nbits n"
proof (induction n rule: nbits.induct)
  case (1 n)
  show ?case
  proof (cases "n = 1")
    case False
    then have "0 < n div 2" using "1.prems" by auto
    then have i: "2 ^ (nbits (n div 2) - 1) \<le> n div 2" "n div 2 < 2 ^ nbits (n div 2)" "0 < nbits (n div 2)"
      using "1.IH" "1.prems" by auto
    moreover have "nbits n = Suc (nbits (n div 2))" using "1.prems" by (simp add: nbits.simps[of n])
    moreover have "2 * 2 ^ (nbits (n div 2) - 1) = (2 :: nat) ^ nbits (n div 2)"
      using i(3) by (simp flip: power_Suc)
    ultimately show ?thesis using "1.prems" by (auto, linarith+)
  qed (simp add: nbits.simps[of "Suc 0"] nbits.simps[of 0])
qed

lemma half_up:
  fixes u q r n R :: nat
  assumes "R = (if u < 2 * r \<or> (2 * r = u \<and> odd q) then q + 1 else q) * u" "n = q * u + r" "r < u"
  shows "2 * R \<le> 2 * n + u \<and> 2 * n \<le> 2 * R + u"
  using assms by (cases "u < 2 * r \<or> (2 * r = u \<and> odd q)") auto

lemma half_of_ulp:
  fixes u n R :: nat
  assumes "2 * R \<le> 2 * n + u \<and> 2 * n \<le> 2 * R + u" "8388608 * u \<le> n"
  shows "16777216 * R \<le> 16777217 * n \<and> 16777215 * n \<le> 16777216 * R"
  using assms by linarith

lemma with_sign:
  fixes n q D :: int
  assumes "\<bar>10 * q - \<bar>n\<bar>\<bar> \<le> D"
  shows "\<bar>10 * (sgn n * q) - n\<bar> \<le> D"
  using assms by (cases n "0 :: int" rule: linorder_cases) auto

lemma round24_near: "16777216 * round24 n \<le> 16777217 * n \<and> 16777215 * n \<le> 16777216 * round24 n"
proof (cases "n < 2 ^ 24")
  case False
  let ?u = "2 ^ (nbits n - 24) :: nat"
  have b: "2 ^ (nbits n - 1) \<le> n" "n < 2 ^ nbits n" "0 < nbits n" using nbits[of n] False by auto
  have "nbits n > 24"
  proof (rule ccontr)
    assume "\<not> nbits n > 24"
    then have "(2 :: nat) ^ nbits n \<le> 2 ^ 24" by (intro power_increasing) auto
    then show False using b(2) False by simp
  qed
  then have "nbits n - 1 = 23 + (nbits n - 24)" by simp
  then have "2 ^ (nbits n - 1) = 2 ^ 23 * ?u" by (simp only: power_add)
  then have u: "2 ^ 23 * ?u \<le> n" using b(1) by simp
  have d: "n = n div ?u * ?u + n mod ?u" "n mod ?u < ?u" by (simp_all only: div_mult_mod_eq) simp
  define q r where "q = n div ?u" and "r = n mod ?u"
  have n: "n = q * ?u + r" "r < ?u" using d by (simp_all add: q_def r_def)
  have "round24 n = (if ?u < 2 * r \<or> (2 * r = ?u \<and> odd q) then q + 1 else q) * ?u"
    using False by (simp add: round24_def Let_def q_def r_def)
  then have "2 * round24 n \<le> 2 * n + ?u \<and> 2 * n \<le> 2 * round24 n + ?u" by (rule half_up) (rule n)+
  moreover have "8388608 * ?u \<le> n" using u by simp
  ultimately show ?thesis by (rule half_of_ulp)
qed (simp add: round24_def)

text \<open>
  The threshold that a screen takes from an interval is a tenth of it up to rounding: although it is computed
  with numbers of 24 bits, for any interval of sixty-four bits and more it is off by at most one, and one
  part in two million.\<close>

theorem tenth_of_interval:
  "\<bar>10 * times_float n ADJUST_SLEEP_FACTOR - n\<bar> \<le> 10 + \<bar>n\<bar> div 2 ^ 21"
proof -
  let ?m = "nat \<bar>n\<bar>"
  let ?a = "round24 ?m" and ?p = "round24 ?m * 13421773"
  let ?b = "round24 ?p"
  have a: "16777216 * ?a \<le> 16777217 * ?m" "16777215 * ?m \<le> 16777216 * ?a" using round24_near[of ?m] by auto
  have b: "16777216 * ?b \<le> 16777217 * ?p" "16777215 * ?p \<le> 16777216 * ?b" using round24_near[of ?p] by auto
  have t: "?b div 2 ^ 27 * 2 ^ 27 \<le> ?b" "?b < (?b div 2 ^ 27 + 1) * 2 ^ 27"
    using div_mult_mod_eq[of ?b "2 ^ 27"] mod_less_divisor[of "2 ^ 27" ?b, simplified] by simp_all
  have k: "?m = ?m div 2 ^ 21 * 2 ^ 21 + ?m mod 2 ^ 21" "?m mod 2 ^ 21 < 2 ^ 21" by (simp_all only: div_mult_mod_eq) simp
  define q where "q = ?b div 2 ^ 27"
  have "10 * q \<le> ?m + ?m div 2 ^ 21" "?m \<le> 10 * q + 10 + ?m div 2 ^ 21"
    using a b t k unfolding q_def[symmetric] by simp_all linarith+
  moreover have "int (?m div 2 ^ 21) = \<bar>n\<bar> div 2 ^ 21" by (simp add: zdiv_int)
  ultimately have "\<bar>10 * int q - \<bar>n\<bar>\<bar> \<le> 10 + \<bar>n\<bar> div 2 ^ 21" by linarith
  moreover have "times_float n ADJUST_SLEEP_FACTOR = sgn n * int q"
    by (simp only: times_float_def ADJUST_SLEEP_FACTOR_def fst_conv snd_conv q_def)
  ultimately show ?thesis by (simp only: with_sign)
qed

section \<open>The sleep\<close>

lemma times_float_nonneg: "0 \<le> n \<Longrightarrow> 0 \<le> times_float n f"
  by (auto simp: times_float_def sgn_if)

text \<open>
  The correction of the sleep only ever shortens it.  When the thread has slept longer than planned by more
  than the threshold, the sleep is cut by the threshold; when it has slept shorter than planned by more than that, the
  sleep is cut as well, by the time it has slept too short, and the account is cleared; otherwise the
  sleep is the interval of the frames without the time that was spent outside.\<close>

theorem correction_shortens:
  assumes "timeStamp \<ge> oc_lastTimeStamp c"
  shows "let interval = timeStamp - oc_lastTimeStamp c; thre = times_float interval (os_adjustSleepFactor (oc_set c));
     planned = interval - (oc_enterTime c - oc_leaveTime c);
     late = oc_delta c + (oc_leaveTime c - oc_lastEnterTime c - oc_sleep c); c' = CalSleepTime timeStamp c
   in oc_sleep c' \<le> planned
     \<and> oc_sleep c' = (if interval = 0 then planned else if thre < late \<and> 0 < planned then planned - thre
                       else if late < - thre then planned + late else planned)
     \<and> (interval \<noteq> 0 \<and> late < - thre \<longrightarrow> oc_sleep c' < planned \<and> oc_delta c' = 0)"
  using assms times_float_nonneg[of "timeStamp - oc_lastTimeStamp c" "os_adjustSleepFactor (oc_set c)"]
  by (auto simp: CalSleepTime_def Let_def INVALID_INTERVAL_def)

theorem correction_shortens_witness:
  "oc_sleep (CalSleepTime 100 ((OutputController_new w)\<lparr>oc_sleep := 50\<rparr>)) = 50"
  using correction_shortens[of "(OutputController_new w)\<lparr>oc_sleep := 50\<rparr>" 100]
  by (simp add: OutputController_new_def OutputSettings_new_def times_float_def round24_def Let_def)

lemma settled: "0 \<le> oc_sleep (settle_sleep d c) \<and> oc_sleep (settle_sleep d c) \<le> max 0 (os_sleepThre (oc_set (settle_sleep d c)))"
  by (auto simp: settle_sleep_def Let_def)

text \<open>
  In the synchronous mode of a screen a frame that is at most 45 ms behind and at most 125 ms ahead
  of the sound sleeps as planned.  One that is further ahead is put 40 ms ahead.  One that is further behind, and still
  sleeps, is put 130 ms ahead, beyond the very bound that counts as too far ahead.\<close>

theorem sync_correction:
  assumes "oc_set c = oc_set (DScreen_PrepareSync c0)" "bf_meta d \<noteq> None" "0 < oc_sleep c"
  shows "let off = sync_offset d c; c' = HandleSyncTime d c in
    (- 45 * NS_ONE_MS \<le> off \<and> off \<le> 125 * NS_ONE_MS \<longrightarrow> c' = c)
    \<and> (125 * NS_ONE_MS < off \<longrightarrow> sync_offset d c' = 40 * NS_ONE_MS)
    \<and> (off < - 45 * NS_ONE_MS \<and> 0 < oc_sleep c' \<longrightarrow> sync_offset d c' = 130 * NS_ONE_MS)"
proof -
  have "os_waitClockThre (oc_set c) = 125 * NS_ONE_MS" "os_trackClockThre (oc_set c) = 45 * NS_ONE_MS"
    using assms(1) by (simp_all add: DScreen_PrepareSync_def setter_defs Let_def WAIT_CLOCK_THRE_def TRACK_CLOCK_THRE_def)
  then show ?thesis using assms(2,3)
    by (auto simp: HandleSyncTime_def sync_offset_def Let_def NS_ONE_MS_def)
qed

theorem sync_correction_witness:
  "let c = (DScreen_PrepareSync (OutputController_new w))\<lparr>oc_sleep := 1, oc_clockTime := 320 * NS_ONE_MS\<rparr>
   in sync_offset (frame 1 (200 * NS_ONE_MS + 1) None) (HandleSyncTime (frame 1 (200 * NS_ONE_MS + 1) None) c) = 40 * NS_ONE_MS"
  using sync_correction[of "(DScreen_PrepareSync (OutputController_new w))\<lparr>oc_sleep := 1, oc_clockTime := 320 * NS_ONE_MS\<rparr>"
      "OutputController_new w" "frame 1 (200 * NS_ONE_MS + 1) None"]
  by (simp add: sync_offset_def frame_def Let_def DScreen_PrepareSync_def PrepareSync_def setter_defs
      OutputController_new_def OutputSettings_new_def NS_ONE_MS_def AUDIO_BACK_TIME_def)

section \<open>The wait for the clock\<close>

lemma prepare_keeps [simp]:
  "oc_dataQueue (PrepareControl c) = oc_dataQueue c" "oc_events (PrepareControl c) = oc_events c"
  "oc_status (PrepareControl c) = oc_status c" "oc_mode (PrepareControl c) = oc_mode c"
  "oc_handler (PrepareControl c) = oc_handler c" "oc_listener (PrepareControl c) = oc_listener c"
  by (simp_all add: PrepareControl_def InitTimeStatistician_def DScreen_PrepareSmooth_def DScreen_PrepareSync_def
      PrepareSmooth_def PrepareSync_def setter_defs Let_def)

lemma acquire_keeps:
  assumes "AcquireSyncClockTime V d c = Some (ret, c')"
  shows "oc_dataQueue c' = oc_dataQueue c" "oc_events c' = oc_events c" "oc_status c' = oc_status c" "oc_mode c' = oc_mode c"
  using assms by (auto simp: AcquireSyncClockTime_def SetClockTime_def Let_def split: option.splits if_splits)

definition synchronised :: "Buffer \<Rightarrow> bool" where
  "synchronised d =
    (case bf_meta d of Some m \<Rightarrow> bm_AUDIO_SAMPLE_PER_FRAME m \<noteq> None \<and> bm_MEDIA_START_TIME m | None \<Rightarrow> False)"

lemma push_synchronised:
  assumes "oc_status c = CS_START" "oc_mode c = CM_SYNC" "length (oc_dataQueue c) < QUEUE_MAX_SIZE" "synchronised d"
  shows "let c' = OC_PushData t (Some d) c in
    length (oc_dataQueue c') = Suc (length (oc_dataQueue c)) \<and> oc_status c' = CS_START \<and> oc_mode c' = CM_SYNC"
  using assms by (auto simp: OC_PushData_def CheckSyncInfo_def synchronised_def Let_def split: option.splits)

lemma wait_ends_pushed:
  assumes "\<And>n t. ce_wait V n t = OC_PushData (tm n) (Some (fr n))" "\<And>n. synchronised (fr n)"
    and "oc_status c = CS_START" "oc_mode c = CM_SYNC"
  shows "WaitRereadClockFailed V d n c \<noteq> None"
  using assms(3,4)
proof (induction "QUEUE_MAX_SIZE - length (oc_dataQueue c)" arbitrary: c n rule: less_induct)
  case less
  show ?case
  proof (cases "length (oc_dataQueue c) < QUEUE_MAX_SIZE")
    case True
    let ?c = "OC_PushData (tm n) (Some (fr n)) c"
    have p: "length (oc_dataQueue ?c) = Suc (length (oc_dataQueue c))" "oc_status ?c = CS_START" "oc_mode ?c = CM_SYNC"
      using push_synchronised[OF less.prems True assms(2)] by (simp_all add: Let_def)
    show ?thesis
    proof (cases "AcquireSyncClockTime V d ?c")
      case (Some r)
      have k: "oc_dataQueue (snd r) = oc_dataQueue ?c" "oc_status (snd r) = CS_START" "oc_mode (snd r) = CM_SYNC"
        using acquire_keeps[of V d ?c "fst r" "snd r"] Some p by simp_all
      then have "WaitRereadClockFailed V d (Suc n) (snd r) \<noteq> None"
        using less.hyps[of "snd r" "Suc n"] True p by simp
      then show ?thesis
        using Some by (subst WaitRereadClockFailed.simps) (simp add: assms(1))
    qed (subst WaitRereadClockFailed.simps, simp add: assms(1))
  qed (subst WaitRereadClockFailed.simps, simp)
qed

lemma wait_never_ends:
  assumes "\<And>n t. ce_wait V n t c = c" "length (oc_dataQueue c) < QUEUE_MAX_SIZE" "oc_mode c = CM_SYNC"
    and "AcquireSyncClockTime V d c = Some (ret, c)" "ret \<noteq> DH_AVT_SUCCESS"
  shows "WaitRereadClockFailed V d n c = None"
proof -
  have "WaitRereadClockFailed V' d' n c' = Some y \<Longrightarrow> (V', d', c') \<noteq> (V, d, c)" for V' d' n c' y
    by (induct rule: WaitRereadClockFailed.raw_induct[rotated, consumes 1]) (use assms in \<open>fastforce split: if_splits\<close>)
  from this[of V d n c] show ?thesis by (cases "WaitRereadClockFailed V d n c") auto
qed

text \<open>The memory of a synchronised sink whose master has not written its clock yet.\<close>

definition master_not_ready :: "control_env \<Rightarrow> OutputController \<Rightarrow> bool" where
  "master_not_ready V c =
    (shm_ready (ce_shm V) 604 (oc_shm c) ((oc_sharedMem c)\<lparr>sm_addr := ce_addr V\<rparr>)
     \<and> U8ToU32 (Some 0) 4 (shm_bytes (oc_shm c) ((oc_sharedMem c)\<lparr>sm_addr := ce_addr V\<rparr>)) = Some 0)"

lemma acquire_not_ready:
  assumes "master_not_ready V c" "bf_meta d = Some m" "bm_AUDIO_SAMPLE_PER_FRAME m = Some k" "k \<noteq> 0"
  shows "AcquireSyncClockTime V d c = Some (ERR_DH_AVT_MASTER_NOT_READY, c)"
  using assms
  by (auto simp: master_not_ready_def shm_ready_def shm_refused_def IsInValidSharedMemory_def
      AcquireSyncClockTime_def ReadClockUnitFromMemory_def Let_def MAX_CLOCK_UNIT_COUNT_def
      ERR_DH_AVT_MASTER_NOT_READY_def split: if_splits)


definition late_master :: control_env where
  "late_master = \<lparr>ce_shm = shm_demo, ce_addr = Some 1, ce_missing = 0, ce_enterTime = 7, ce_leaveTime = 9,
     ce_wait = (\<lambda>n t. OC_PushData 8 (Some (frame n 3 None))), ce_sleep = (\<lambda>_ c. c)\<rparr>"

definition waiting_controller :: "ControlStatus \<Rightarrow> OutputController" where
  "waiting_controller st = (OutputController_new \<lparr>sw_fds = [5], sw_map = [(1, replicate 604 0)]\<rparr>)
     \<lparr>oc_mode := CM_SYNC, oc_status := st, oc_sharedMem := demo_m\<rparr>"


section \<open>The order of the frames\<close>

text \<open>
  What the other threads may do while the frame \<open>d\<close> is being handled: push frames, start, stop, set parameters,
  write the shared memory, and begin a release.  Frames are numbered in the order in which they are pushed.
\<close>

definition newest :: "Buffer \<Rightarrow> OutputController \<Rightarrow> bool" where
  "newest b c = (\<forall>x\<in>set (oc_events c @ oc_dataQueue c). bf_id x < bf_id b)"

inductive meanwhile :: "'j cJSON \<Rightarrow> Buffer \<Rightarrow> (OutputController \<Rightarrow> OutputController) \<Rightarrow> bool" for J d where
  nothing: "meanwhile J d id"
| push: "meanwhile J d (\<lambda>c. if newest b c \<and> bf_id d < bf_id b then OC_PushData t (Some b) c else c)"
| start: "meanwhile J d (\<lambda>c. snd (StartControl c))"
| stop: "meanwhile J d (\<lambda>c. snd (StopControl c))"
| set: "meanwhile J d (\<lambda>c. snd (OC_SetParameter J tag v c))"
| world: "meanwhile J d (\<lambda>c. c\<lparr>oc_shm := f (oc_shm c)\<rparr>)"
| release: "meanwhile J d release_begin"
| both: "meanwhile J d f \<Longrightarrow> meanwhile J d g \<Longrightarrow> meanwhile J d (\<lambda>c. g (f c))"

inductive frame_step :: "'j cJSON \<Rightarrow> OutputController \<Rightarrow> OutputController \<Rightarrow> bool" for J where
  push: "newest b c \<Longrightarrow> frame_step J c (OC_PushData t (Some b) c)"
| prepare: "frame_step J c (PrepareControl c)"
| listen: "frame_step J c (OC_RegisterListener c)"
| start: "frame_step J c (snd (StartControl c))"
| stop: "frame_step J c (snd (StopControl c))"
| release: "frame_step J c (snd (ReleaseControl c))"
| set: "frame_step J c (snd (OC_SetParameter J tag v c))"
| world: "frame_step J c (c\<lparr>oc_shm := w\<rparr>)"
| round: "LooperControl_round V posted c = Some (Some c') \<Longrightarrow>
    (\<And>d n t. oc_dataQueue c \<noteq> [] \<Longrightarrow> d = hd (oc_dataQueue c) \<Longrightarrow> meanwhile J d (ce_wait V n t) \<and> meanwhile J d (ce_sleep V t)) \<Longrightarrow>
    frame_step J c c'"

inductive frame_reach :: "'j cJSON \<Rightarrow> OutputController \<Rightarrow> bool" for J where
  init: "frame_reach J (OutputController_new w)"
| step: "frame_reach J c \<Longrightarrow> frame_step J c c' \<Longrightarrow> frame_reach J c'"

definition in_order :: "OutputController \<Rightarrow> bool" where
  "in_order c = (sorted_wrt (<) (map bf_id (oc_events c @ oc_dataQueue c)) \<and> length (oc_dataQueue c) \<le> QUEUE_MAX_SIZE + 1)"

definition handling :: "Buffer \<Rightarrow> OutputController \<Rightarrow> bool" where
  "handling d c = (in_order c \<and> (\<forall>e\<in>set (oc_events c). bf_id e < bf_id d) \<and> (\<forall>e\<in>set (oc_dataQueue c). bf_id d \<le> bf_id e))"

lemma same_frames:
  assumes "oc_events c' = oc_events c" "oc_dataQueue c' = oc_dataQueue c \<or> oc_dataQueue c' = []"
  shows "in_order c \<Longrightarrow> in_order c'" "handling d c \<Longrightarrow> handling d c'"
  using assms by (auto simp: in_order_def handling_def sorted_wrt_append)

lemma checked_frames:
  "oc_events (CheckSyncInfo data c) = oc_events c
   \<and> (oc_dataQueue (CheckSyncInfo data c) = oc_dataQueue c \<or> oc_dataQueue (CheckSyncInfo data c) = [])"
  by (auto simp: CheckSyncInfo_def SetControlMode_def ClearQueue_def Let_def split: option.split)

lemma pushed_frames:
  obtains q b' where "oc_events (OC_PushData t (Some b) c) = oc_events c" "bf_id b' = bf_id b"
    and "oc_dataQueue (OC_PushData t (Some b) c) = q \<or> oc_dataQueue (OC_PushData t (Some b) c) = q @ [b']"
    and "q = [] \<or> q = oc_dataQueue c \<or> q = tl (oc_dataQueue c)"
    and "length (oc_dataQueue c) \<le> QUEUE_MAX_SIZE + 1 \<Longrightarrow> length (oc_dataQueue (OC_PushData t (Some b) c)) \<le> QUEUE_MAX_SIZE + 1"
proof -
  let ?c = "if QUEUE_MAX_SIZE < length (oc_dataQueue c) then c\<lparr>oc_dataQueue := tl (oc_dataQueue c)\<rparr> else c"
  let ?b = "b\<lparr>bf_meta := map_option (\<lambda>m. m\<lparr>bm_USER_PUSH_DATA_TIME := Some t\<rparr>) (bf_meta b)\<rparr>"
  let ?q = "oc_dataQueue (CheckSyncInfo (Some b) ?c)"
  have e: "oc_events (OC_PushData t (Some b) c) = oc_events c"
    "oc_dataQueue (OC_PushData t (Some b) c) \<in> {oc_dataQueue c, ?q, ?q @ [?b]}"
    using checked_frames[of "Some b" ?c] by (auto simp: OC_PushData_def Let_def split: option.split)
  have q: "?q = [] \<or> ?q = oc_dataQueue ?c" using checked_frames[of "Some b" ?c] by blast
  show thesis
  proof (rule that[of ?b "if oc_dataQueue (OC_PushData t (Some b) c) = oc_dataQueue c then oc_dataQueue c else ?q"])
  qed (use e q in \<open>auto split: if_splits\<close>)
qed

lemma kept_part:
  assumes "q = [] \<or> q = l \<or> q = tl l" "sorted_wrt (<) (map bf_id (es @ l))"
  shows "sorted_wrt (<) (map bf_id (es @ q))" "set q \<subseteq> set l"
  using assms by (cases l; auto simp: sorted_wrt_append)+

lemma push_in_order:
  assumes "in_order c" "newest b c"
  shows "in_order (OC_PushData t (Some b) c)"
proof (rule pushed_frames[of t b c])
  fix q b'
  assume p: "oc_events (OC_PushData t (Some b) c) = oc_events c" "bf_id b' = bf_id b"
    "oc_dataQueue (OC_PushData t (Some b) c) = q \<or> oc_dataQueue (OC_PushData t (Some b) c) = q @ [b']"
    "q = [] \<or> q = oc_dataQueue c \<or> q = tl (oc_dataQueue c)"
    "length (oc_dataQueue c) \<le> QUEUE_MAX_SIZE + 1 \<Longrightarrow> length (oc_dataQueue (OC_PushData t (Some b) c)) \<le> QUEUE_MAX_SIZE + 1"
  have o: "sorted_wrt (<) (map bf_id (oc_events c @ q))" "set q \<subseteq> set (oc_dataQueue c)"
    using kept_part[OF p(4)] assms(1) by (auto simp: in_order_def)
  then have "\<forall>x\<in>set (oc_events c @ q). bf_id x < bf_id b" using assms(2) by (auto simp: newest_def)
  then have "sorted_wrt (<) (map bf_id (oc_events c @ q @ [b']))" using o(1) p(2) by (auto simp: sorted_wrt_append)
  then show ?thesis using o(1) p(1,3,5) assms(1) by (auto simp: in_order_def)
qed

lemma push_handling:
  assumes "handling d c" "newest b c" "bf_id d < bf_id b"
  shows "handling d (OC_PushData t (Some b) c)"
proof (rule pushed_frames[of t b c])
  fix q b'
  assume p: "oc_events (OC_PushData t (Some b) c) = oc_events c" "bf_id b' = bf_id b"
    "oc_dataQueue (OC_PushData t (Some b) c) = q \<or> oc_dataQueue (OC_PushData t (Some b) c) = q @ [b']"
    "q = [] \<or> q = oc_dataQueue c \<or> q = tl (oc_dataQueue c)"
  have "set q \<subseteq> set (oc_dataQueue c)" using kept_part(2)[OF p(4)] assms(1) by (auto simp: handling_def in_order_def)
  then show ?thesis
    using push_in_order[of c b t] assms p(1-3) by (fastforce simp: handling_def)
qed

text \<open>What leaves the frames alone, or drops those that wait.\<close>

lemma others_frames:
  "oc_events (snd (StartControl c)) = oc_events c \<and> oc_dataQueue (snd (StartControl c)) = oc_dataQueue c"
  "oc_events (snd (StopControl c)) = oc_events c \<and> (oc_dataQueue (snd (StopControl c)) = oc_dataQueue c \<or> oc_dataQueue (snd (StopControl c)) = [])"
  "oc_events (snd (OC_SetParameter J tag v c)) = oc_events c \<and> oc_dataQueue (snd (OC_SetParameter J tag v c)) = oc_dataQueue c"
  "oc_events (release_begin c) = oc_events c \<and> oc_dataQueue (release_begin c) = oc_dataQueue c"
  "oc_events (snd (ReleaseControl c)) = oc_events c \<and> (oc_dataQueue (snd (ReleaseControl c)) = oc_dataQueue c \<or> oc_dataQueue (snd (ReleaseControl c)) = [])"
  by (auto simp: StartControl_def StopControl_def OC_SetParameter_def release_begin_def ReleaseControl_def release_end_def
      ClearQueue_def setter_defs Let_def split: OutputTag.splits)

lemma meanwhile_handling: "meanwhile J d f \<Longrightarrow> handling d c \<Longrightarrow> handling d (f c)"
proof (induction arbitrary: c rule: meanwhile.induct)
  case (push b t)
  then show ?case by (auto intro: push_handling)
next
  case stop
  then show ?case using same_frames(2)[of "snd (StopControl c)" c d] others_frames(2)[of c] by simp
qed (auto intro: same_frames(2)[rotated 2] simp: others_frames)

lemma acquire_handling: "AcquireSyncClockTime V d c = Some r \<Longrightarrow> handling d' c \<Longrightarrow> handling d' (snd r)"
  using acquire_keeps(1,2)[of V d c "fst r" "snd r"] same_frames(2)[of "snd r" c d'] by simp

lemma wait_handling:
  assumes "WaitRereadClockFailed V d n c = Some (Some (b, c'))" "handling d c" "\<And>n t. meanwhile J d (ce_wait V n t)"
  shows "handling d c'"
proof -
  have "WaitRereadClockFailed V d n c = Some r \<Longrightarrow> handling d c \<Longrightarrow> (\<forall>n t. meanwhile J d (ce_wait V n t)) \<Longrightarrow>
    (\<forall>b c'. r = Some (b, c') \<longrightarrow> handling d c')" for r
  proof (induct rule: WaitRereadClockFailed.raw_induct[rotated, consumes 1, case_names wait])
    case (wait f V d n c r)
    let ?c = "ce_wait V n (reread_time c) c"
    have h: "handling d ?c" using wait(3,4) meanwhile_handling by blast
    show ?case
    proof (cases "AcquireSyncClockTime V d ?c")
      case (Some x)
      then have "handling d (snd x)" using h by (rule acquire_handling)
      then show ?thesis using wait Some by (auto split: if_splits)
    qed (use wait in \<open>auto split: if_splits\<close>)
  qed
  then show ?thesis using assms by blast
qed

lemma control_frames:
  "oc_events (CalProcessTime d c) = oc_events c \<and> oc_dataQueue (CalProcessTime d c) = oc_dataQueue c"
  "oc_events (RecordTime n e t c) = oc_events c \<and> oc_dataQueue (RecordTime n e t c) = oc_dataQueue c"
  "oc_events (InitTime e t c) = oc_events c \<and> oc_dataQueue (InitTime e t c) = oc_dataQueue c"
  "oc_events (InitBaseline t k c) = oc_events c \<and> oc_dataQueue (InitBaseline t k c) = oc_dataQueue c"
  "oc_events (CalSleepTime t c) = oc_events c \<and> oc_dataQueue (CalSleepTime t c) = oc_dataQueue c"
  "oc_events (settle_sleep d c) = oc_events c \<and> oc_dataQueue (settle_sleep d c) = oc_dataQueue c"
  by (simp_all add: CalProcessTime_def RecordTime_def InitTime_def InitBaseline_def setter_defs CalSleepTime_def
      settle_sleep_def HandleSmoothTime_def HandleSyncTime_def Let_def split: option.split)

lemma steps_handling:
  "handling d (CalProcessTime x c) = handling d c" "handling d (RecordTime n e t c) = handling d c"
  "handling d (InitTime e t c) = handling d c" "handling d (InitBaseline t k c) = handling d c"
  "handling d (CalSleepTime t c) = handling d c" "handling d (settle_sleep x c) = handling d c"
  "handling d (c\<lparr>oc_enterTime := e\<rparr>) = handling d c" "handling d (SetClockTime k c) = handling d c"
  by (simp_all add: handling_def in_order_def control_frames SetClockTime_def)

lemma control_handling:
  assumes "ControlOutput V d c = Some (Some (r, c'))" "handling d c"
    and "\<And>n t. meanwhile J d (ce_wait V n t)" "\<And>t. meanwhile J d (ce_sleep V t)"
  shows "handling d c'" "r = OUTPUT_FRAME"
proof -
  have clock: "handling d c2" if "CheckIsClockInvalid V d c1 = Some (Some (b, c2))" "handling d c1" for b c1 c2
    using that acquire_handling[of V d c1 _ d] wait_handling[OF _ _ assms(3)]
    by (fastforce simp: CheckIsClockInvalid_def steps_handling split: if_splits option.splits)
  have balance: "handling d c2" if "CheckIsProcessInDynamicBalance c1 = (b, c2)" "handling d c1" for b c1 c2
    using that same_frames(2)[of c2 c1 d]
    by (auto simp: CheckIsProcessInDynamicBalance_def ClearQueue_def setter_defs Let_def split: if_splits)
  have sync: "handling d (SyncClock V d c1)" if "handling d c1" for c1
    using that meanwhile_handling[OF assms(4)] by (simp add: SyncClock_def Let_def steps_handling)
  let ?c = "c\<lparr>oc_enterTime := ce_enterTime V\<rparr>"
  have "handling d c' \<and> r = OUTPUT_FRAME"
  proof (cases "bf_pts d = INVALID_TIMESTAMP \<or> \<not> oc_isAllowControl c")
    case True
    then show ?thesis using assms(1,2) by (auto simp: ControlOutput_def steps_handling)
  next
    case False
    then obtain invalid c2 where c2: "CheckIsClockInvalid V d ?c = Some (Some (invalid, c2))"
      using assms(1)
      by (cases "CheckIsClockInvalid V d ?c"; cases "the (CheckIsClockInvalid V d ?c)") (auto simp: ControlOutput_def Let_def)
    obtain balanced c3 where c3: "(if invalid then (True, c2) else CheckIsProcessInDynamicBalance c2) = (balanced, c3)"
      by fastforce
    have "handling d c2" by (rule clock[OF c2]) (simp add: steps_handling assms(2))
    then have h: "handling d c3" using c3 balance[of c2 balanced c3] by (auto split: if_splits)
    show ?thesis
    proof (cases "invalid \<or> \<not> balanced")
      case True
      then show ?thesis using assms(1) False c2 c3 h by (auto simp: ControlOutput_def steps_handling)
    next
      case False': False
      have "handling d (if \<not> b then InitTime e t c4 else c4) = handling d c4"
        "handling d (if \<not> b then InitBaseline t k c4 else c4) = handling d c4" for b e t k c4
        by (simp_all add: steps_handling)
      then show ?thesis using assms(1) False False' c2 c3 h sync by (auto simp: ControlOutput_def steps_handling Let_def)
    qed
  qed
  then show "handling d c'" "r = OUTPUT_FRAME" by blast+
qed

lemma result_in_order:
  assumes "handling d c"
  shows "in_order (HandleControlResult posted d OUTPUT_FRAME c)"
proof -
  have "in_order (pop_if_front d (c\<lparr>oc_events := oc_events c @ [d]\<rparr>))"
  proof (cases "oc_dataQueue c")
    case Nil
    then show ?thesis using assms by (simp add: handling_def in_order_def pop_if_front_def sorted_wrt_append)
  next
    case (Cons x q)
    then have "\<forall>y\<in>set q. bf_id x < bf_id y" "bf_id d \<le> bf_id x" using assms
      by (simp_all add: handling_def in_order_def sorted_wrt_append)
    then have "\<forall>y\<in>set q. bf_id d < bf_id y" "bf_id d = bf_id x \<or> bf_id d < bf_id x"
      by (meson le_less_trans, simp add: le_less disj_commute)
    then show ?thesis using assms Cons
      by (simp add: handling_def in_order_def pop_if_front_def sorted_wrt_append split: if_splits)
  qed
  then show ?thesis using assms
    by (simp add: HandleControlResult_def PostOutputEvent_def HANDLE_SUCCESS_def HANDLE_FAILED_def handling_def)
qed

lemma round_in_order:
  assumes "LooperControl_round V posted c = Some (Some c')" "in_order c"
    and "\<And>d n t. oc_dataQueue c \<noteq> [] \<Longrightarrow> d = hd (oc_dataQueue c) \<Longrightarrow> meanwhile J d (ce_wait V n t) \<and> meanwhile J d (ce_sleep V t)"
  shows "in_order c'"
proof (cases "oc_status c = CS_START \<and> oc_dataQueue c \<noteq> []")
  case True
  then obtain d q where q: "oc_dataQueue c = d # q" by (cases "oc_dataQueue c") auto
  have h: "handling d c" using assms(2) q by (auto simp: handling_def in_order_def sorted_wrt_append less_imp_le)
  obtain r c1 where c1: "ControlOutput V d c = Some (Some (r, c1))" "c' = HandleControlResult posted d r c1"
    using assms(1) True q by (auto simp: LooperControl_round_def split: option.splits prod.splits)
  have m: "meanwhile J d (ce_wait V n t) \<and> meanwhile J d (ce_sleep V t)" for n t by (rule assms(3)) (simp_all add: q)
  have "handling d c1" "r = OUTPUT_FRAME" using control_handling[OF c1(1) h, of J] m by blast+
  then have "in_order (HandleControlResult posted d r c1)" by (simp add: result_in_order)
  then show ?thesis using c1 by simp
next
  case False
  then show ?thesis using assms(1,2) by (auto simp: LooperControl_round_def split: option.splits if_splits)
qed

lemma frames_in_order:
  assumes "frame_reach J c"
  shows "sorted_wrt (<) (map bf_id (oc_events c @ oc_dataQueue c)) \<and> length (oc_dataQueue c) \<le> 101"
proof -
  from assms have "in_order c"
  proof induction
    case (init w)
    then show ?case by (simp add: in_order_def OutputController_new_def)
  next
    case (step c c')
    from step.hyps(2) step.IH show ?case
    proof cases
      case (push b t)
      then show ?thesis using step.IH push_in_order by simp
    next
      case (round V posted)
      then show ?thesis using round_in_order[OF round(1) step.IH] by blast
    qed (use others_frames(1,2,5) same_frames(1)[OF _ _ step.IH] in \<open>simp_all add: others_frames(3) OC_RegisterListener_def\<close>)
  qed
  then show ?thesis by (simp add: in_order_def QUEUE_MAX_SIZE_def)
qed

text \<open>The plugin with its controller: its operations, the rounds of the control thread, and the output of a frame.\<close>

inductive screen_step :: "'j cJSON \<Rightarrow> DscreenOutputPlugin \<Rightarrow> DscreenOutputPlugin \<Rightarrow> bool" for J where
  init: "screen_step J p (snd (Screen_Init w p))"
| prepare: "screen_step J p (snd (Screen_Prepare p))"
| start: "screen_step J p (snd (Screen_Start p))"
| stop: "screen_step J p (snd (Screen_Stop p))"
| reset: "screen_step J p (snd (Screen_Reset p))"
| set: "screen_step J p (snd (Screen_SetParameter J tag v p))"
| callback: "screen_step J p (snd (Screen_SetCallback cb p))"
| dataCallback: "screen_step J p (snd (Screen_SetDataCallback b p))"
| push: "(\<And>c. sp_controller p = Some c \<Longrightarrow> newest b c) \<Longrightarrow> screen_step J p (snd (Screen_PushData t e (Some b) p))"
| thread: "sp_controller p = Some c \<Longrightarrow> frame_step J c c' \<Longrightarrow> screen_step J p (p\<lparr>sp_controller := Some c'\<rparr>)"
| shown: "Screen_OnOutput d p = Some p' \<Longrightarrow> screen_step J p p'"

inductive screen_reach :: "'j cJSON \<Rightarrow> DscreenOutputPlugin \<Rightarrow> bool" for J where
  new: "screen_reach J DscreenOutputPlugin_new"
| step: "screen_reach J p \<Longrightarrow> screen_step J p p' \<Longrightarrow> screen_reach J p'"

definition screen_ok :: "'j cJSON \<Rightarrow> DscreenOutputPlugin \<Rightarrow> bool" where
  "screen_ok J p = ((sp_state p \<in> {PS_PREPARED, PS_RUNNING} \<longrightarrow> sp_controller p \<noteq> None)
     \<and> (case sp_controller p of Some c \<Rightarrow> frame_reach J c | None \<Rightarrow> True))"

lemma screen_ok_step: "screen_step J p p' \<Longrightarrow> screen_ok J p \<Longrightarrow> screen_ok J p'"
proof (induction rule: screen_step.induct)
  case (init p w)
  then show ?case
    by (auto simp: screen_ok_def Screen_Init_def InitOutputController_def Let_def split: option.splits
        intro: frame_reach.step[OF _ frame_step.listen] frame_reach.init)
next
  case (push p b t e)
  then show ?case
    by (auto simp: screen_ok_def Screen_PushData_def split: option.splits intro: frame_reach.step[OF _ frame_step.push])
next
  case (thread p c c')
  then show ?case by (auto simp: screen_ok_def intro: frame_reach.step)
next
  case (set p tag v)
  then show ?case using frame_reach.step[OF _ frame_step.set[of J _ tag v]]
    by (fastforce simp: screen_ok_def Screen_SetParameter_def split: option.splits prod.splits)
next
  case (shown d p p')
  then show ?case by (auto simp: screen_ok_def Screen_OnOutput_def split: option.splits if_splits)
qed (auto simp: screen_ok_def Screen_Prepare_def Screen_Start_def Screen_Stop_def Screen_Reset_def
    Screen_SetCallback_def Screen_SetDataCallback_def split: option.splits prod.splits
    intro: frame_reach.step[OF _ frame_step.prepare] frame_reach.step[OF _ frame_step.start]
      frame_reach.step[OF _ frame_step.stop])

text \<open>
  C38: In every state the output plugin of a screen reaches, by its operations and the rounds of the control thread
  with whatever happens while that thread waits for the clock or sleeps: frames are handed over in the order in
  which they were pushed and none of them twice, each frame that waits is newer than all that were handed over, at
  most 101 frames wait, and a prepared or running plugin has its controller.\<close>

theorem screen_frames_in_order:
  assumes "screen_reach J p"
  shows "case sp_controller p of
      Some c \<Rightarrow> sorted_wrt (<) (map bf_id (oc_events c @ oc_dataQueue c)) \<and> length (oc_dataQueue c) \<le> 101
    | None \<Rightarrow> sp_state p \<notin> {PS_PREPARED, PS_RUNNING}"
proof -
  from assms have "screen_ok J p"
  proof induction
    case new
    show ?case by (simp add: screen_ok_def DscreenOutputPlugin_new_def)
  qed (rule screen_ok_step)
  then show ?thesis using frames_in_order by (auto simp: screen_ok_def split: option.splits)
qed

theorem screen_frames_in_order_witness:
  "let p = snd (Screen_Start (snd (Screen_Prepare (snd (Screen_Init \<lparr>sw_fds = [], sw_map = []\<rparr> DscreenOutputPlugin_new)))));
       p' = snd (Screen_PushData 9 False (Some (frame 2 4 None)) (snd (Screen_PushData 8 False (Some (frame 1 3 None)) p)))
   in \<exists>c. sp_controller p' = Some c \<and> map bf_id (oc_dataQueue c) = [1, 2] \<and> sorted_wrt (<) (map bf_id (oc_dataQueue c))"
proof -
  let ?p = "snd (Screen_Start (snd (Screen_Prepare (snd (Screen_Init \<lparr>sw_fds = [], sw_map = []\<rparr> DscreenOutputPlugin_new)))))"
  let ?q = "snd (Screen_PushData 8 False (Some (frame 1 3 None)) ?p)"
  let ?r = "snd (Screen_PushData 9 False (Some (frame 2 4 None)) ?q)"
  note defs = Screen_Start_def Screen_Prepare_def Screen_Init_def InitOutputController_def DscreenOutputPlugin_new_def
    Let_def StartControl_def SetControlStatus_def OC_RegisterListener_def OutputController_new_def PrepareControl_def
    InitTimeStatistician_def DScreen_PrepareSmooth_def PrepareSmooth_def setter_defs
  have p: "screen_reach flat_J ?p"
    by (rule screen_reach.step[OF screen_reach.step[OF screen_reach.step[OF screen_reach.new screen_step.init]
        screen_step.prepare] screen_step.start])
  have q: "screen_reach flat_J ?q"
    by (rule screen_reach.step[OF p screen_step.push]) (auto simp: newest_def defs)
  obtain c where c: "sp_controller ?p = Some c" "oc_dataQueue c = []" "oc_events c = []" "oc_status c = CS_START" "oc_mode c = CM_SMOOTH"
    by (simp add: defs)
  let ?b = "\<lambda>n t p. (frame n p None)\<lparr>bf_meta := Some \<lparr>bm_AUDIO_SAMPLE_PER_FRAME = Some 1, bm_MEDIA_START_TIME = True, bm_USER_PUSH_DATA_TIME = Some t\<rparr>\<rparr>"
  obtain c1 where c1: "sp_controller ?q = Some c1" "oc_dataQueue c1 = [?b 1 8 3]" "oc_events c1 = []" "oc_status c1 = CS_START" "oc_mode c1 = CM_SYNC"
    using c by (auto simp: Screen_PushData_def OC_PushData_def CheckSyncInfo_def SetControlMode_def ClearQueue_def frame_def QUEUE_MAX_SIZE_def)
  have r: "screen_reach flat_J ?r"
    by (rule screen_reach.step[OF q screen_step.push]) (use c1 in \<open>auto simp: newest_def frame_def\<close>)
  obtain c2 where c2: "sp_controller ?r = Some c2" "oc_dataQueue c2 = [?b 1 8 3, ?b 2 9 4]"
    using c1 by (auto simp: Screen_PushData_def OC_PushData_def CheckSyncInfo_def frame_def QUEUE_MAX_SIZE_def)
  show ?thesis using screen_frames_in_order[OF r] c2 by (simp add: Let_def frame_def)
qed

end
