(* ===== verification/Parcels.thy ===== *)
theory Parcels
  imports State "HOL-Library.Monad_Syntax"
begin

text \<open>
  The parcels of the inter-process communication.  The class \<open>MessageParcel\<close> is not in the repository: its
  operations are the record \<open>parcel_api\<close>, over a type \<open>'p\<close> of parcels.  A write fails or gives the parcel after it;
  a read gives a value and the parcel after it.  What the code relies on is \<open>parcel_laws\<close>: there is a view of a
  parcel as the list of the values in it, a write appends to it and a read of the kind that comes next takes it
  from the front; reading a number from an empty parcel gives zero.  A remote object is a number.
\<close>

datatype parcel_item =
    PI_InterfaceToken string | PI_Int32 "32 word" | PI_Uint32 "32 word" | PI_Uint16 "16 word" | PI_Bool bool
  | PI_String string | PI_RemoteObject nat

record 'p parcel_api =
  pc_new :: 'p
  pc_WriteInterfaceToken :: "string \<Rightarrow> 'p \<Rightarrow> 'p option"
  pc_WriteInt32 :: "32 word \<Rightarrow> 'p \<Rightarrow> 'p option"
  pc_WriteUint32 :: "32 word \<Rightarrow> 'p \<Rightarrow> 'p option"
  pc_WriteUint16 :: "16 word \<Rightarrow> 'p \<Rightarrow> 'p option"
  pc_WriteBool :: "bool \<Rightarrow> 'p \<Rightarrow> 'p option"
  pc_WriteString :: "string \<Rightarrow> 'p \<Rightarrow> 'p option"
  pc_WriteRemoteObject :: "nat \<Rightarrow> 'p \<Rightarrow> 'p option"
  pc_ReadInterfaceToken :: "'p \<Rightarrow> string \<times> 'p"
  pc_ReadInt32 :: "'p \<Rightarrow> 32 word \<times> 'p"
  pc_ReadUint32 :: "'p \<Rightarrow> 32 word \<times> 'p"
  pc_ReadUint16 :: "'p \<Rightarrow> 16 word \<times> 'p"
  pc_ReadBool :: "'p \<Rightarrow> bool \<times> 'p"
  pc_ReadString :: "'p \<Rightarrow> string \<times> 'p"
  pc_ReadRemoteObject :: "'p \<Rightarrow> nat option \<times> 'p"

definition parcel_laws :: "'p parcel_api \<Rightarrow> ('p \<Rightarrow> parcel_item list) \<Rightarrow> bool" where
  "parcel_laws A items =
    (items (pc_new A) = []
     \<and> (\<forall>v p p'. pc_WriteInterfaceToken A v p = Some p' \<longrightarrow> items p' = items p @ [PI_InterfaceToken v])
     \<and> (\<forall>v p p'. pc_WriteInt32 A v p = Some p' \<longrightarrow> items p' = items p @ [PI_Int32 v])
     \<and> (\<forall>v p p'. pc_WriteUint32 A v p = Some p' \<longrightarrow> items p' = items p @ [PI_Uint32 v])
     \<and> (\<forall>v p p'. pc_WriteUint16 A v p = Some p' \<longrightarrow> items p' = items p @ [PI_Uint16 v])
     \<and> (\<forall>v p p'. pc_WriteBool A v p = Some p' \<longrightarrow> items p' = items p @ [PI_Bool v])
     \<and> (\<forall>v p p'. pc_WriteString A v p = Some p' \<longrightarrow> items p' = items p @ [PI_String v])
     \<and> (\<forall>v p p'. pc_WriteRemoteObject A v p = Some p' \<longrightarrow> items p' = items p @ [PI_RemoteObject v])
     \<and> (\<forall>v p r. items p = PI_InterfaceToken v # r \<longrightarrow> fst (pc_ReadInterfaceToken A p) = v \<and> items (snd (pc_ReadInterfaceToken A p)) = r)
     \<and> (\<forall>v p r. items p = PI_Int32 v # r \<longrightarrow> fst (pc_ReadInt32 A p) = v \<and> items (snd (pc_ReadInt32 A p)) = r)
     \<and> (\<forall>v p r. items p = PI_Uint32 v # r \<longrightarrow> fst (pc_ReadUint32 A p) = v \<and> items (snd (pc_ReadUint32 A p)) = r)
     \<and> (\<forall>v p r. items p = PI_Uint16 v # r \<longrightarrow> fst (pc_ReadUint16 A p) = v \<and> items (snd (pc_ReadUint16 A p)) = r)
     \<and> (\<forall>v p r. items p = PI_Bool v # r \<longrightarrow> fst (pc_ReadBool A p) = v \<and> items (snd (pc_ReadBool A p)) = r)
     \<and> (\<forall>v p r. items p = PI_String v # r \<longrightarrow> fst (pc_ReadString A p) = v \<and> items (snd (pc_ReadString A p)) = r)
     \<and> (\<forall>v p r. items p = PI_RemoteObject v # r \<longrightarrow> fst (pc_ReadRemoteObject A p) = Some v \<and> items (snd (pc_ReadRemoteObject A p)) = r)
     \<and> (\<forall>p. items p = [] \<longrightarrow> fst (pc_ReadInt32 A p) = 0))"

text \<open>A parcel that no write fills.\<close>

definition parcel_room :: "'p parcel_api \<Rightarrow> bool" where
  "parcel_room A =
    (\<forall>p. (\<forall>v. pc_WriteInterfaceToken A v p \<noteq> None) \<and> (\<forall>v. pc_WriteInt32 A v p \<noteq> None)
       \<and> (\<forall>v. pc_WriteUint32 A v p \<noteq> None) \<and> (\<forall>v. pc_WriteUint16 A v p \<noteq> None) \<and> (\<forall>v. pc_WriteBool A v p \<noteq> None)
       \<and> (\<forall>v. pc_WriteString A v p \<noteq> None) \<and> (\<forall>v. pc_WriteRemoteObject A v p \<noteq> None))"

text \<open>The writes of a request, each with the error that is returned when it fails.\<close>

fun writes :: "(('p \<Rightarrow> 'p option) \<times> int) list \<Rightarrow> 'p \<Rightarrow> int + 'p" where
  "writes [] p = Inr p"
| "writes ((w, e) # ws) p = (case w p of None \<Rightarrow> Inl e | Some p1 \<Rightarrow> writes ws p1)"

text \<open>Error codes of the audio and video transport; two of them have the same value in the code.\<close>

definition ERR_DH_AVT_SERVICE_REMOTE_IS_NULL :: int where "ERR_DH_AVT_SERVICE_REMOTE_IS_NULL = -80017"
definition ERR_DH_AVT_SERVICE_WRITE_TOKEN_FAIL :: int where "ERR_DH_AVT_SERVICE_WRITE_TOKEN_FAIL = -80018"
definition ERR_DH_AVT_SERVICE_IPC_SEND_REQUEST_FAIL :: int where "ERR_DH_AVT_SERVICE_IPC_SEND_REQUEST_FAIL = -80019"
definition ERR_DH_AVT_SERVICE_WRITE_INFO_FAIL :: int where "ERR_DH_AVT_SERVICE_WRITE_INFO_FAIL = -80019"
definition NO_ERROR :: int where [simp]: "NO_ERROR = 0"

section \<open>Descriptors\<close>

definition MAX_DH_DESCRIPTOR_ARRAY_SIZE :: "32 word" where "MAX_DH_DESCRIPTOR_ARRAY_SIZE = 4096"

text \<open>The loops of \<open>WriteDescriptors\<close> and \<open>ReadDescriptors\<close>, which the stub and the proxy both have.\<close>

fun write_descriptors :: "'p parcel_api \<Rightarrow> DHDescriptor list \<Rightarrow> 'p \<Rightarrow> int + 'p" where
  "write_descriptors A [] p = Inr p"
| "write_descriptors A (d # ds) p =
    (case writes [(pc_WriteInt32 A (dd_dhType d), ERR_DH_AVT_SERVICE_WRITE_INFO_FAIL),
                  (pc_WriteString A (dd_id d), ERR_DH_AVT_SERVICE_WRITE_INFO_FAIL),
                  (pc_WriteString A (dd_customParams d), ERR_DH_AVT_SERVICE_WRITE_INFO_FAIL),
                  (pc_WriteUint32 A (dd_firstCallingTokenId d), ERR_DH_AVT_SERVICE_WRITE_INFO_FAIL)] p of
       Inl e \<Rightarrow> Inl e | Inr p1 \<Rightarrow> write_descriptors A ds p1)"

fun read_descriptors :: "'p parcel_api \<Rightarrow> nat \<Rightarrow> 'p \<Rightarrow> DHDescriptor list \<times> 'p" where
  "read_descriptors A 0 p = ([], p)"
| "read_descriptors A (Suc n) p =
    (let (dhType, p) = pc_ReadInt32 A p; (i, p) = pc_ReadString A p; (customParams, p) = pc_ReadString A p;
         (firstCallingTokenId, p) = pc_ReadUint32 A p; (ds, p) = read_descriptors A n p
     in (\<lparr>dd_id = i, dd_dhType = dhType, dd_customParams = customParams, dd_firstCallingTokenId = firstCallingTokenId\<rparr> # ds, p))"

text \<open>The number of descriptors is a signed number of 32 bits; a negative one reads nothing.\<close>

definition WriteDescriptors :: "'p parcel_api \<Rightarrow> DHDescriptor list \<Rightarrow> 'p \<Rightarrow> int + 'p" where
  "WriteDescriptors A descriptors p =
    (let n = word_of_nat (length descriptors) :: 32 word in
     if sint MAX_DH_DESCRIPTOR_ARRAY_SIZE < sint n then Inl ERR_DH_FWK_PARA_INVALID
     else case pc_WriteInt32 A n p of
            None \<Rightarrow> Inl ERR_DH_AVT_SERVICE_WRITE_INFO_FAIL
          | Some p1 \<Rightarrow> write_descriptors A (take (nat (sint n)) descriptors) p1)"

definition ReadDescriptors :: "'p parcel_api \<Rightarrow> 'p \<Rightarrow> int \<times> DHDescriptor list \<times> 'p" where
  "ReadDescriptors A p =
    (let (n, p) = pc_ReadInt32 A p in
     if sint MAX_DH_DESCRIPTOR_ARRAY_SIZE < sint n then (ERR_DH_FWK_PARA_INVALID, [], p)
     else (NO_ERROR, read_descriptors A (nat (sint n)) p))"

end
