(* ===== verification/Service_Stub.thy ===== *)
theory Service_Stub
  imports Parcels Publisher
begin

text \<open>
  The entry of the service: \<open>distributed_hardware_stub.cpp\<close> reads the arguments of a request from a parcel, after
  it has checked the caller, calls the service and writes the answer.  The service itself is the record
  \<open>dh_service\<close> of its virtual methods over a state \<open>'s\<close>; what is known of the caller is \<open>ipc_caller\<close>.  Numbers of
  32 bits that go through a parcel are words, signed or not as the code takes them; the value a handler
  returns is an integer.  A remote object that cannot be cast is none.
\<close>

section \<open>Requests\<close>

definition REG_PUBLISHER_LISTNER :: nat where "REG_PUBLISHER_LISTNER = 48001"
definition UNREG_PUBLISHER_LISTENER :: nat where "UNREG_PUBLISHER_LISTENER = 48002"
definition PUBLISH_MESSAGE :: nat where "PUBLISH_MESSAGE = 48003"
definition INIT_CTL_CEN :: nat where "INIT_CTL_CEN = 48004"
definition RELEASE_CTL_CEN :: nat where "RELEASE_CTL_CEN = 48005"
definition CREATE_CTL_CEN_CHANNEL :: nat where "CREATE_CTL_CEN_CHANNEL = 48006"
definition NOTIFY_AV_EVENT :: nat where "NOTIFY_AV_EVENT = 48007"
definition REGISTER_CTL_CEN_CALLBACK :: nat where "REGISTER_CTL_CEN_CALLBACK = 48008"
definition QUERY_LOCAL_SYS_SPEC :: nat where "QUERY_LOCAL_SYS_SPEC = 48009"
definition PAUSE_DISTRIBUTED_HARDWARE :: nat where "PAUSE_DISTRIBUTED_HARDWARE = 480010"
definition RESUME_DISTRIBUTED_HARDWARE :: nat where "RESUME_DISTRIBUTED_HARDWARE = 480011"
definition STOP_DISTRIBUTED_HARDWARE :: nat where "STOP_DISTRIBUTED_HARDWARE = 480012"
definition GET_DISTRIBUTED_HARDWARE :: nat where "GET_DISTRIBUTED_HARDWARE = 480013"
definition REG_DH_SINK_STATUS_LISTNER :: nat where "REG_DH_SINK_STATUS_LISTNER = 480014"
definition UNREG_DH_SINK_STATUS_LISTNER :: nat where "UNREG_DH_SINK_STATUS_LISTNER = 480015"
definition REG_DH_SOURCE_STATUS_LISTNER :: nat where "REG_DH_SOURCE_STATUS_LISTNER = 480016"
definition UNREG_DH_SOURCE_STATUS_LISTNER :: nat where "UNREG_DH_SOURCE_STATUS_LISTNER = 480017"
definition ENABLE_SINK :: nat where "ENABLE_SINK = 480018"
definition DISABLE_SINK :: nat where "DISABLE_SINK = 480019"
definition ENABLE_SOURCE :: nat where "ENABLE_SOURCE = 480020"
definition DISABLE_SOURCE :: nat where "DISABLE_SOURCE = 480021"
definition LOAD_HDF :: nat where "LOAD_HDF = 480022"
definition UNLOAD_HDF :: nat where "UNLOAD_HDF = 480023"
definition NOTIFY_SOURCE_DEVICE_REMOTE_DMSDP_STARTED :: nat where "NOTIFY_SOURCE_DEVICE_REMOTE_DMSDP_STARTED = 1"
definition INIT_SINK_DMSDP :: nat where "INIT_SINK_DMSDP = 0"
definition NOTIFY_SINK_DEVICE_REMOTE_DMSDP_STARTED :: nat where "NOTIFY_SINK_DEVICE_REMOTE_DMSDP_STARTED = 1212"
definition REGISTER_HARDWARE_ACCESS_LISTENER :: nat where "REGISTER_HARDWARE_ACCESS_LISTENER = 480024"
definition UNREGISTER_HARDWARE_ACCESS_LISTENER :: nat where "UNREGISTER_HARDWARE_ACCESS_LISTENER = 480025"
definition SET_AUTHORIZATION_RESULT :: nat where "SET_AUTHORIZATION_RESULT = 480026"

lemmas request_codes =
  REG_PUBLISHER_LISTNER_def UNREG_PUBLISHER_LISTENER_def PUBLISH_MESSAGE_def INIT_CTL_CEN_def
  RELEASE_CTL_CEN_def CREATE_CTL_CEN_CHANNEL_def NOTIFY_AV_EVENT_def REGISTER_CTL_CEN_CALLBACK_def
  QUERY_LOCAL_SYS_SPEC_def PAUSE_DISTRIBUTED_HARDWARE_def RESUME_DISTRIBUTED_HARDWARE_def STOP_DISTRIBUTED_HARDWARE_def
  GET_DISTRIBUTED_HARDWARE_def REG_DH_SINK_STATUS_LISTNER_def UNREG_DH_SINK_STATUS_LISTNER_def REG_DH_SOURCE_STATUS_LISTNER_def
  UNREG_DH_SOURCE_STATUS_LISTNER_def ENABLE_SINK_def DISABLE_SINK_def ENABLE_SOURCE_def
  DISABLE_SOURCE_def LOAD_HDF_def UNLOAD_HDF_def NOTIFY_SOURCE_DEVICE_REMOTE_DMSDP_STARTED_def
  INIT_SINK_DMSDP_def NOTIFY_SINK_DEVICE_REMOTE_DMSDP_STARTED_def REGISTER_HARDWARE_ACCESS_LISTENER_def UNREGISTER_HARDWARE_ACCESS_LISTENER_def
  SET_AUTHORIZATION_RESULT_def

definition GetDescriptor :: string where "GetDescriptor = ''ohos.distributedhardware.accessToken''"
definition SPEC_MIN :: "32 word" where [simp]: "SPEC_MIN = 0"
definition SPEC_MAX :: "32 word" where [simp]: "SPEC_MAX = 5"

record ipc_caller =
  ca_IsLocalCalling :: bool
  ca_HasAccessDHPermission :: bool
  ca_IsSystemHap :: bool
  ca_IsNativeSA :: bool
  ca_ERR_INVALID_DATA :: int

record 's dh_service =
  sv_RegisterPublisherListener :: "32 word \<Rightarrow> nat \<Rightarrow> 's \<Rightarrow> 32 word \<times> 's"
  sv_UnregisterPublisherListener :: "32 word \<Rightarrow> nat \<Rightarrow> 's \<Rightarrow> 32 word \<times> 's"
  sv_PublishMessage :: "32 word \<Rightarrow> string \<Rightarrow> 's \<Rightarrow> 32 word \<times> 's"
  sv_QueryLocalSysSpec :: "32 word \<Rightarrow> 's \<Rightarrow> string \<times> 's"
  sv_InitializeAVCenter :: "32 word \<Rightarrow> 's \<Rightarrow> 32 word \<times> 32 word \<times> 's"
  sv_ReleaseAVCenter :: "32 word \<Rightarrow> 's \<Rightarrow> 32 word \<times> 's"
  sv_CreateControlChannel :: "32 word \<Rightarrow> string \<Rightarrow> 's \<Rightarrow> 32 word \<times> 's"
  sv_NotifyAVCenter :: "32 word \<Rightarrow> 32 word \<times> string \<times> string \<Rightarrow> 's \<Rightarrow> 32 word \<times> 's"
  sv_RegisterCtlCenterCallback :: "32 word \<Rightarrow> nat \<Rightarrow> 's \<Rightarrow> 32 word \<times> 's"
  sv_NotifySourceRemoteSinkStarted :: "string \<Rightarrow> 's \<Rightarrow> 32 word \<times> 's"
  sv_PauseDistributedHardware :: "32 word \<Rightarrow> string \<Rightarrow> 's \<Rightarrow> 32 word \<times> 's"
  sv_ResumeDistributedHardware :: "32 word \<Rightarrow> string \<Rightarrow> 's \<Rightarrow> 32 word \<times> 's"
  sv_StopDistributedHardware :: "32 word \<Rightarrow> string \<Rightarrow> 's \<Rightarrow> 32 word \<times> 's"
  sv_GetDistributedHardware :: "string \<Rightarrow> 32 word \<Rightarrow> nat \<Rightarrow> 's \<Rightarrow> 32 word \<times> 's"
  sv_RegisterDHStatusSinkListener :: "nat \<Rightarrow> 's \<Rightarrow> 32 word \<times> 's"
  sv_UnregisterDHStatusSinkListener :: "nat \<Rightarrow> 's \<Rightarrow> 32 word \<times> 's"
  sv_RegisterDHStatusSourceListener :: "string \<Rightarrow> nat \<Rightarrow> 's \<Rightarrow> 32 word \<times> 's"
  sv_UnregisterDHStatusSourceListener :: "string \<Rightarrow> nat \<Rightarrow> 's \<Rightarrow> 32 word \<times> 's"
  sv_EnableSink :: "DHDescriptor list \<Rightarrow> 's \<Rightarrow> 32 word \<times> 's"
  sv_DisableSink :: "DHDescriptor list \<Rightarrow> 's \<Rightarrow> 32 word \<times> 's"
  sv_EnableSource :: "string \<Rightarrow> DHDescriptor list \<Rightarrow> 's \<Rightarrow> 32 word \<times> 's"
  sv_DisableSource :: "string \<Rightarrow> DHDescriptor list \<Rightarrow> 's \<Rightarrow> 32 word \<times> 's"
  sv_LoadDistributedHDF :: "32 word \<Rightarrow> 's \<Rightarrow> 32 word \<times> 's"
  sv_UnLoadDistributedHDF :: "32 word \<Rightarrow> 's \<Rightarrow> 32 word \<times> 's"
  sv_AddDeathRecipient :: "32 word \<Rightarrow> nat \<Rightarrow> 's \<Rightarrow> 32 word \<times> 's"
  sv_RemoveDeathRecipient :: "32 word \<Rightarrow> nat \<Rightarrow> 's \<Rightarrow> 32 word \<times> 's"
  sv_LoadSinkDMSDPService :: "string \<Rightarrow> 's \<Rightarrow> 32 word \<times> 's"
  sv_NotifySinkRemoteSourceStarted :: "string \<Rightarrow> 's \<Rightarrow> 32 word \<times> 's"
  sv_RegisterHardwareAccessListener :: "32 word \<Rightarrow> nat \<Rightarrow> 32 word \<Rightarrow> string \<Rightarrow> 's \<Rightarrow> 32 word \<times> 's"
  sv_UnregisterHardwareAccessListener :: "32 word \<Rightarrow> nat \<Rightarrow> string \<Rightarrow> 's \<Rightarrow> 32 word \<times> 's"
  sv_SetAuthorizationResult :: "32 word \<Rightarrow> string \<Rightarrow> bool \<Rightarrow> 's \<Rightarrow> 's"

section \<open>Handlers\<close>

text \<open>A handler gives the value it returns, the reply and the state.  Most end with the answer of the service.\<close>

definition answer :: "'p parcel_api \<Rightarrow> 'p \<Rightarrow> 32 word \<times> 's \<Rightarrow> int \<times> 'p \<times> 's" where
  "answer A reply r =
    (case pc_WriteInt32 A (fst r) reply of
       None \<Rightarrow> (ERR_DH_FWK_SERVICE_WRITE_INFO_FAIL, reply, snd r)
     | Some reply1 \<Rightarrow> (DH_FWK_SUCCESS, reply1, snd r))"

text \<open>An answer whose write is not checked.\<close>

definition tell :: "'p parcel_api \<Rightarrow> int \<Rightarrow> 'p \<Rightarrow> 's \<Rightarrow> int \<times> 'p \<times> 's" where
  "tell A err reply s =
    (err, case pc_WriteInt32 A (word_of_int err) reply of None \<Rightarrow> reply | Some reply1 \<Rightarrow> reply1, s)"

definition ValidTopic :: "32 word \<Rightarrow> bool" where
  "ValidTopic topic = (\<not> (topic \<le> TOPIC_MIN \<or> TOPIC_MAX \<le> topic))"

definition ValidQueryLocalSpec :: "32 word \<Rightarrow> bool" where
  "ValidQueryLocalSpec spec = (\<not> (spec \<le> SPEC_MIN \<or> SPEC_MAX \<le> spec))"

type_synonym ('p, 's) handler = "'p parcel_api \<Rightarrow> 's dh_service \<Rightarrow> ipc_caller \<Rightarrow> 'p \<Rightarrow> 'p \<Rightarrow> 's \<Rightarrow> int \<times> 'p \<times> 's"

definition RegisterPublisherListenerInner :: "('p, 's) handler" where
  "RegisterPublisherListenerInner A sv k data reply s =
    (if \<not> ca_HasAccessDHPermission k then (ERR_DH_FWK_ACCESS_PERMISSION_CHECK_FAIL, reply, s)
     else let (topic, data) = pc_ReadUint32 A data in
          if \<not> ValidTopic topic then tell A ERR_DH_FWK_PARA_INVALID reply s
          else let (listener, data) = pc_ReadRemoteObject A data in
               case listener of
                 None \<Rightarrow> tell A ERR_DH_FWK_PARA_INVALID reply s
               | Some l \<Rightarrow> tell A DH_FWK_SUCCESS reply (snd (sv_RegisterPublisherListener sv topic l s)))"

definition UnregisterPublisherListenerInner :: "('p, 's) handler" where
  "UnregisterPublisherListenerInner A sv k data reply s =
    (if \<not> ca_HasAccessDHPermission k then (ERR_DH_FWK_ACCESS_PERMISSION_CHECK_FAIL, reply, s)
     else let (topic, data) = pc_ReadUint32 A data in
          if \<not> ValidTopic topic then tell A ERR_DH_FWK_PARA_INVALID reply s
          else let (listener, data) = pc_ReadRemoteObject A data in
               case listener of
                 None \<Rightarrow> tell A ERR_DH_FWK_PARA_INVALID reply s
               | Some l \<Rightarrow> tell A DH_FWK_SUCCESS reply (snd (sv_UnregisterPublisherListener sv topic l s)))"

definition PublishMessageInner :: "('p, 's) handler" where
  "PublishMessageInner A sv k data reply s =
    (if \<not> ca_HasAccessDHPermission k then (ERR_DH_FWK_ACCESS_PERMISSION_CHECK_FAIL, reply, s)
     else let (topic, data) = pc_ReadUint32 A data in
          if \<not> ValidTopic topic then tell A ERR_DH_FWK_PARA_INVALID reply s
          else let (message, data) = pc_ReadString A data
               in tell A DH_FWK_SUCCESS reply (snd (sv_PublishMessage sv topic message s)))"

definition QueryLocalSysSpecInner :: "('p, 's) handler" where
  "QueryLocalSysSpecInner A sv k data reply s =
    (if \<not> ca_HasAccessDHPermission k then (ERR_DH_FWK_ACCESS_PERMISSION_CHECK_FAIL, reply, s)
     else let (spec, data) = pc_ReadUint32 A data in
          if \<not> ValidQueryLocalSpec spec then tell A ERR_DH_FWK_PARA_INVALID reply s
          else let (res, s1) = sv_QueryLocalSysSpec sv spec s
               in (DH_FWK_SUCCESS, case pc_WriteString A res reply of None \<Rightarrow> reply | Some reply1 \<Rightarrow> reply1, s1))"

definition InitializeAVCenterInner :: "('p, 's) handler" where
  "InitializeAVCenterInner A sv k data reply s =
    (if \<not> ca_HasAccessDHPermission k then (ERR_DH_FWK_ACCESS_PERMISSION_CHECK_FAIL, reply, s)
     else let (transRole, data) = pc_ReadUint32 A data; (engineId, ret, s1) = sv_InitializeAVCenter sv transRole s in
          case pc_WriteInt32 A engineId reply of
            None \<Rightarrow> (ERR_DH_FWK_SERVICE_WRITE_INFO_FAIL, reply, s1)
          | Some reply1 \<Rightarrow> answer A reply1 (ret, s1))"

definition ReleaseAVCenterInner :: "('p, 's) handler" where
  "ReleaseAVCenterInner A sv k data reply s =
    (if \<not> ca_HasAccessDHPermission k then (ERR_DH_FWK_ACCESS_PERMISSION_CHECK_FAIL, reply, s)
     else let (engineId, data) = pc_ReadInt32 A data
          in answer A reply (sv_ReleaseAVCenter sv engineId s))"

definition CreateControlChannelInner :: "('p, 's) handler" where
  "CreateControlChannelInner A sv k data reply s =
    (if \<not> ca_HasAccessDHPermission k then (ERR_DH_FWK_ACCESS_PERMISSION_CHECK_FAIL, reply, s)
     else let (engineId, data) = pc_ReadInt32 A data;
            (peerDevId, data) = pc_ReadString A data
          in answer A reply (sv_CreateControlChannel sv engineId peerDevId s))"

definition NotifyAVCenterInner :: "('p, 's) handler" where
  "NotifyAVCenterInner A sv k data reply s =
    (if \<not> ca_HasAccessDHPermission k then (ERR_DH_FWK_ACCESS_PERMISSION_CHECK_FAIL, reply, s)
     else let (engineId, data) = pc_ReadInt32 A data;
            (type, data) = pc_ReadUint32 A data;
            (content, data) = pc_ReadString A data;
            (peerDevId, data) = pc_ReadString A data
          in answer A reply (sv_NotifyAVCenter sv engineId (type, content, peerDevId) s))"

definition RegisterControlCenterCallbackInner :: "('p, 's) handler" where
  "RegisterControlCenterCallbackInner A sv k data reply s =
    (if \<not> ca_HasAccessDHPermission k then (ERR_DH_FWK_ACCESS_PERMISSION_CHECK_FAIL, reply, s)
     else let (engineId, data) = pc_ReadInt32 A data;
            (callback, data) = pc_ReadRemoteObject A data
          in case callback of
               None \<Rightarrow> (ERR_DH_FWK_PARA_INVALID, reply, s)
             | Some x \<Rightarrow>
                answer A reply (sv_RegisterCtlCenterCallback sv engineId x s))"

definition HandleNotifySourceRemoteSinkStarted :: "('p, 's) handler" where
  "HandleNotifySourceRemoteSinkStarted A sv k data reply s =
    (let (udid, data) = pc_ReadString A data in
     if \<not> IsIdLengthValid udid then (ERR_DH_FWK_PARA_INVALID, reply, s)
     else answer A reply (sv_NotifySourceRemoteSinkStarted sv udid s))"

definition PauseDistributedHardwareInner :: "('p, 's) handler" where
  "PauseDistributedHardwareInner A sv k data reply s =
    (if \<not> ca_IsSystemHap k then (ERR_DH_FWK_IS_SYSTEM_HAP_CHECK_FAIL, reply, s)
     else if \<not> ca_HasAccessDHPermission k then (ERR_DH_FWK_ACCESS_PERMISSION_CHECK_FAIL, reply, s)
     else let (dhType, data) = pc_ReadInt32 A data;
            (networkId, data) = pc_ReadString A data
          in answer A reply (sv_PauseDistributedHardware sv dhType networkId s))"

definition ResumeDistributedHardwareInner :: "('p, 's) handler" where
  "ResumeDistributedHardwareInner A sv k data reply s =
    (if \<not> ca_IsSystemHap k then (ERR_DH_FWK_IS_SYSTEM_HAP_CHECK_FAIL, reply, s)
     else if \<not> ca_HasAccessDHPermission k then (ERR_DH_FWK_ACCESS_PERMISSION_CHECK_FAIL, reply, s)
     else let (dhType, data) = pc_ReadInt32 A data;
            (networkId, data) = pc_ReadString A data
          in answer A reply (sv_ResumeDistributedHardware sv dhType networkId s))"

definition StopDistributedHardwareInner :: "('p, 's) handler" where
  "StopDistributedHardwareInner A sv k data reply s =
    (if \<not> ca_IsSystemHap k \<and> \<not> ca_IsNativeSA k then (ERR_DH_FWK_IS_SYSTEM_HAP_CHECK_FAIL, reply, s)
     else if \<not> ca_HasAccessDHPermission k then (ERR_DH_FWK_ACCESS_PERMISSION_CHECK_FAIL, reply, s)
     else let (dhType, data) = pc_ReadInt32 A data;
            (networkId, data) = pc_ReadString A data
          in answer A reply (sv_StopDistributedHardware sv dhType networkId s))"

definition GetDistributedHardwareInner :: "('p, 's) handler" where
  "GetDistributedHardwareInner A sv k data reply s =
    (if \<not> ca_HasAccessDHPermission k then (ERR_DH_FWK_ACCESS_PERMISSION_CHECK_FAIL, reply, s)
     else let (networkId, data) = pc_ReadString A data;
            (enableStep, data) = pc_ReadUint32 A data;
            (callback, data) = pc_ReadRemoteObject A data
          in case callback of
               None \<Rightarrow> (ERR_DH_FWK_PARA_INVALID, reply, s)
             | Some x \<Rightarrow>
                answer A reply (sv_GetDistributedHardware sv networkId enableStep x s))"

definition RegisterDHStatusSinkListenerInner :: "('p, 's) handler" where
  "RegisterDHStatusSinkListenerInner A sv k data reply s =
    (if \<not> ca_HasAccessDHPermission k then (ERR_DH_FWK_ACCESS_PERMISSION_CHECK_FAIL, reply, s)
     else let (listener, data) = pc_ReadRemoteObject A data
          in case listener of
               None \<Rightarrow> (ERR_DH_FWK_PARA_INVALID, reply, s)
             | Some x \<Rightarrow>
                answer A reply (sv_RegisterDHStatusSinkListener sv x s))"

definition UnregisterDHStatusSinkListenerInner :: "('p, 's) handler" where
  "UnregisterDHStatusSinkListenerInner A sv k data reply s =
    (if \<not> ca_HasAccessDHPermission k then (ERR_DH_FWK_ACCESS_PERMISSION_CHECK_FAIL, reply, s)
     else let (listener, data) = pc_ReadRemoteObject A data
          in case listener of
               None \<Rightarrow> (ERR_DH_FWK_PARA_INVALID, reply, s)
             | Some x \<Rightarrow>
                answer A reply (sv_UnregisterDHStatusSinkListener sv x s))"

definition RegisterDHStatusSourceListenerInner :: "('p, 's) handler" where
  "RegisterDHStatusSourceListenerInner A sv k data reply s =
    (if \<not> ca_HasAccessDHPermission k then (ERR_DH_FWK_ACCESS_PERMISSION_CHECK_FAIL, reply, s)
     else let (networkId, data) = pc_ReadString A data;
            (listener, data) = pc_ReadRemoteObject A data
          in case listener of
               None \<Rightarrow> (ERR_DH_FWK_PARA_INVALID, reply, s)
             | Some x \<Rightarrow>
                answer A reply (sv_RegisterDHStatusSourceListener sv networkId x s))"

definition UnregisterDHStatusSourceListenerInner :: "('p, 's) handler" where
  "UnregisterDHStatusSourceListenerInner A sv k data reply s =
    (if \<not> ca_HasAccessDHPermission k then (ERR_DH_FWK_ACCESS_PERMISSION_CHECK_FAIL, reply, s)
     else let (networkId, data) = pc_ReadString A data;
            (listener, data) = pc_ReadRemoteObject A data
          in case listener of
               None \<Rightarrow> (ERR_DH_FWK_PARA_INVALID, reply, s)
             | Some x \<Rightarrow>
                answer A reply (sv_UnregisterDHStatusSourceListener sv networkId x s))"

text \<open>The result of \<open>ReadDescriptors\<close> is not checked: a list that is too long is read as an empty one.\<close>

definition EnableSinkInner :: "('p, 's) handler" where
  "EnableSinkInner A sv k data reply s =
    (if \<not> ca_HasAccessDHPermission k then (ERR_DH_FWK_ACCESS_PERMISSION_CHECK_FAIL, reply, s)
     else let (_, descriptors, data) = ReadDescriptors A data in answer A reply (sv_EnableSink sv descriptors s))"

definition DisableSinkInner :: "('p, 's) handler" where
  "DisableSinkInner A sv k data reply s =
    (if \<not> ca_HasAccessDHPermission k then (ERR_DH_FWK_ACCESS_PERMISSION_CHECK_FAIL, reply, s)
     else let (_, descriptors, data) = ReadDescriptors A data in answer A reply (sv_DisableSink sv descriptors s))"

definition EnableSourceInner :: "('p, 's) handler" where
  "EnableSourceInner A sv k data reply s =
    (if \<not> ca_HasAccessDHPermission k then (ERR_DH_FWK_ACCESS_PERMISSION_CHECK_FAIL, reply, s)
     else let (networkId, data) = pc_ReadString A data; (_, descriptors, data) = ReadDescriptors A data
          in answer A reply (sv_EnableSource sv networkId descriptors s))"

definition DisableSourceInner :: "('p, 's) handler" where
  "DisableSourceInner A sv k data reply s =
    (if \<not> ca_HasAccessDHPermission k then (ERR_DH_FWK_ACCESS_PERMISSION_CHECK_FAIL, reply, s)
     else let (networkId, data) = pc_ReadString A data; (_, descriptors, data) = ReadDescriptors A data
          in answer A reply (sv_DisableSource sv networkId descriptors s))"

definition LoadDistributedHDFInner :: "('p, 's) handler" where
  "LoadDistributedHDFInner A sv k data reply s =
    (if \<not> ca_HasAccessDHPermission k then (ERR_DH_FWK_ACCESS_PERMISSION_CHECK_FAIL, reply, s)
     else let (dhType, data) = pc_ReadUint32 A data; (ret, s1) = sv_LoadDistributedHDF sv dhType s
          in if ret \<noteq> 0 then answer A reply (ret, s1)
             else let (remoteObj, data) = pc_ReadRemoteObject A data in
                  case remoteObj of
                    None \<Rightarrow> answer A reply (ret, s1)
                  | Some x \<Rightarrow>
                     let (ret, s2) = sv_AddDeathRecipient sv dhType x s1
                     in answer A reply (ret, if ret \<noteq> 0 then snd (sv_UnLoadDistributedHDF sv dhType s2) else s2))"

definition UnLoadDistributedHDFInner :: "('p, 's) handler" where
  "UnLoadDistributedHDFInner A sv k data reply s =
    (if \<not> ca_HasAccessDHPermission k then (ERR_DH_FWK_ACCESS_PERMISSION_CHECK_FAIL, reply, s)
     else let (dhType, data) = pc_ReadUint32 A data; (ret, s1) = sv_UnLoadDistributedHDF sv dhType s
          in if ret \<noteq> 0 then answer A reply (ret, s1)
             else let (remoteObj, data) = pc_ReadRemoteObject A data in
                  case remoteObj of
                    None \<Rightarrow> answer A reply (ret, s1)
                  | Some x \<Rightarrow> answer A reply (sv_RemoveDeathRecipient sv dhType x s1))"

definition RegisterHardwareAccessListenerInner :: "('p, 's) handler" where
  "RegisterHardwareAccessListenerInner A sv k data reply s =
    (if \<not> ca_HasAccessDHPermission k then (ERR_DH_FWK_ACCESS_PERMISSION_CHECK_FAIL, reply, s)
     else let (dhType, data) = pc_ReadUint32 A data;
            (callback, data) = pc_ReadRemoteObject A data
          in case callback of
               None \<Rightarrow> (ERR_DH_FWK_PARA_INVALID, reply, s)
             | Some x \<Rightarrow>
                let (timeOut, data) = pc_ReadInt32 A data;
                  (pkgName, data) = pc_ReadString A data
                in answer A reply (sv_RegisterHardwareAccessListener sv dhType x timeOut pkgName s))"

definition UnregisterHardwareAccessListenerInner :: "('p, 's) handler" where
  "UnregisterHardwareAccessListenerInner A sv k data reply s =
    (if \<not> ca_HasAccessDHPermission k then (ERR_DH_FWK_ACCESS_PERMISSION_CHECK_FAIL, reply, s)
     else let (dhType, data) = pc_ReadUint32 A data;
            (callback, data) = pc_ReadRemoteObject A data
          in case callback of
               None \<Rightarrow> (ERR_DH_FWK_PARA_INVALID, reply, s)
             | Some x \<Rightarrow>
                let (pkgName, data) = pc_ReadString A data
                in answer A reply (sv_UnregisterHardwareAccessListener sv dhType x pkgName s))"

definition SetAuthorizationResultInner :: "('p, 's) handler" where
  "SetAuthorizationResultInner A sv k data reply s =
    (if \<not> ca_HasAccessDHPermission k then (ERR_DH_FWK_ACCESS_PERMISSION_CHECK_FAIL, reply, s)
     else let (dhType, data) = pc_ReadUint32 A data; (requestId, data) = pc_ReadString A data; (granted, data) = pc_ReadBool A data
          in (DH_FWK_SUCCESS, reply, sv_SetAuthorizationResult sv dhType requestId granted s))"

definition HandleLoadSinkDMSDPService :: "('p, 's) handler" where
  "HandleLoadSinkDMSDPService A sv k data reply s =
    (let (udid, data) = pc_ReadString A data in
     if \<not> IsIdLengthValid udid then (ERR_DH_FWK_PARA_INVALID, reply, s)
     else answer A reply (sv_LoadSinkDMSDPService sv udid s))"

definition HandleNotifySinkRemoteSourceStarted :: "('p, 's) handler" where
  "HandleNotifySinkRemoteSourceStarted A sv k data reply s =
    (let (udid, data) = pc_ReadString A data in
     if \<not> IsIdLengthValid udid then (ERR_DH_FWK_PARA_INVALID, reply, s)
     else answer A reply (sv_NotifySinkRemoteSourceStarted sv udid s))"

section \<open>Dispatch\<close>

text \<open>A code that is not known goes to the base class, \<open>other\<close>.\<close>

definition OnRemoteRequestRPC :: "(nat \<Rightarrow> int) \<Rightarrow> nat \<Rightarrow> ('p, 's) handler" where
  "OnRemoteRequestRPC other code A sv k data reply s =
    (if code = NOTIFY_SOURCE_DEVICE_REMOTE_DMSDP_STARTED then HandleNotifySourceRemoteSinkStarted A sv k data reply s
     else if code = INIT_SINK_DMSDP then HandleLoadSinkDMSDPService A sv k data reply s
     else if code = NOTIFY_SINK_DEVICE_REMOTE_DMSDP_STARTED then HandleNotifySinkRemoteSourceStarted A sv k data reply s
     else if code = REGISTER_HARDWARE_ACCESS_LISTENER then RegisterHardwareAccessListenerInner A sv k data reply s
     else if code = UNREGISTER_HARDWARE_ACCESS_LISTENER then UnregisterHardwareAccessListenerInner A sv k data reply s
     else if code = SET_AUTHORIZATION_RESULT then SetAuthorizationResultInner A sv k data reply s
     else (other code, reply, s))"

definition OnRemoteRequestEx :: "(nat \<Rightarrow> int) \<Rightarrow> nat \<Rightarrow> ('p, 's) handler" where
  "OnRemoteRequestEx other code A sv k data reply s =
    (if code = PAUSE_DISTRIBUTED_HARDWARE then PauseDistributedHardwareInner A sv k data reply s
     else if code = RESUME_DISTRIBUTED_HARDWARE then ResumeDistributedHardwareInner A sv k data reply s
     else if code = STOP_DISTRIBUTED_HARDWARE then StopDistributedHardwareInner A sv k data reply s
     else if code = GET_DISTRIBUTED_HARDWARE then GetDistributedHardwareInner A sv k data reply s
     else if code = REG_DH_SINK_STATUS_LISTNER then RegisterDHStatusSinkListenerInner A sv k data reply s
     else if code = UNREG_DH_SINK_STATUS_LISTNER then UnregisterDHStatusSinkListenerInner A sv k data reply s
     else if code = REG_DH_SOURCE_STATUS_LISTNER then RegisterDHStatusSourceListenerInner A sv k data reply s
     else if code = UNREG_DH_SOURCE_STATUS_LISTNER then UnregisterDHStatusSourceListenerInner A sv k data reply s
     else if code = ENABLE_SINK then EnableSinkInner A sv k data reply s
     else if code = DISABLE_SINK then DisableSinkInner A sv k data reply s
     else if code = ENABLE_SOURCE then EnableSourceInner A sv k data reply s
     else if code = DISABLE_SOURCE then DisableSourceInner A sv k data reply s
     else if code = LOAD_HDF then LoadDistributedHDFInner A sv k data reply s
     else if code = UNLOAD_HDF then UnLoadDistributedHDFInner A sv k data reply s
     else OnRemoteRequestRPC other code A sv k data reply s)"

definition OnRemoteRequest :: "(nat \<Rightarrow> int) \<Rightarrow> nat \<Rightarrow> ('p, 's) handler" where
  "OnRemoteRequest other code A sv k data reply s =
    (let (token, data) = pc_ReadInterfaceToken A data in
     if token \<noteq> GetDescriptor then (ca_ERR_INVALID_DATA k, reply, s)
     else if code \<noteq> NOTIFY_SOURCE_DEVICE_REMOTE_DMSDP_STARTED \<and> code \<noteq> INIT_SINK_DMSDP
       \<and> code \<noteq> NOTIFY_SINK_DEVICE_REMOTE_DMSDP_STARTED \<and> \<not> ca_IsLocalCalling k
     then (ERR_DH_FWK_IS_LOCAL_PROCESS_FAIL, reply, s)
     else if code = REG_PUBLISHER_LISTNER then RegisterPublisherListenerInner A sv k data reply s
     else if code = UNREG_PUBLISHER_LISTENER then UnregisterPublisherListenerInner A sv k data reply s
     else if code = PUBLISH_MESSAGE then PublishMessageInner A sv k data reply s
     else if code = INIT_CTL_CEN then InitializeAVCenterInner A sv k data reply s
     else if code = RELEASE_CTL_CEN then ReleaseAVCenterInner A sv k data reply s
     else if code = CREATE_CTL_CEN_CHANNEL then CreateControlChannelInner A sv k data reply s
     else if code = NOTIFY_AV_EVENT then NotifyAVCenterInner A sv k data reply s
     else if code = REGISTER_CTL_CEN_CALLBACK then RegisterControlCenterCallbackInner A sv k data reply s
     else if code = QUERY_LOCAL_SYS_SPEC then QueryLocalSysSpecInner A sv k data reply s
     else OnRemoteRequestEx other code A sv k data reply s)"

lemmas handler_defs =
  RegisterPublisherListenerInner_def UnregisterPublisherListenerInner_def PublishMessageInner_def
  QueryLocalSysSpecInner_def InitializeAVCenterInner_def ReleaseAVCenterInner_def
  CreateControlChannelInner_def NotifyAVCenterInner_def RegisterControlCenterCallbackInner_def
  HandleNotifySourceRemoteSinkStarted_def PauseDistributedHardwareInner_def ResumeDistributedHardwareInner_def
  StopDistributedHardwareInner_def GetDistributedHardwareInner_def RegisterDHStatusSinkListenerInner_def
  UnregisterDHStatusSinkListenerInner_def RegisterDHStatusSourceListenerInner_def UnregisterDHStatusSourceListenerInner_def
  EnableSinkInner_def DisableSinkInner_def EnableSourceInner_def
  DisableSourceInner_def LoadDistributedHDFInner_def UnLoadDistributedHDFInner_def
  RegisterHardwareAccessListenerInner_def UnregisterHardwareAccessListenerInner_def SetAuthorizationResultInner_def
  HandleLoadSinkDMSDPService_def HandleNotifySinkRemoteSourceStarted_def

end
