(* ===== verification/Service_Proxy.thy ===== *)
theory Service_Proxy
  imports Service_Stub
begin

text \<open>
  The client side of the service, \<open>distributed_hardware_proxy.cpp\<close>: each method writes its arguments into a
  parcel, sends it and reads the answer.  The remote object is none or the function that sends a request: of a
  code, whether the call is asynchronous, and a parcel, it gives an error number and the reply, and changes the state
  \<open>'s\<close> on the other side.  A listener is none or the number of its remote object.
\<close>

type_synonym ('p, 's) remote = "(nat \<Rightarrow> bool \<Rightarrow> 'p \<Rightarrow> 's \<Rightarrow> int \<times> 'p \<times> 's) option"

text \<open>The end that all methods share: nothing is sent when a write failed.\<close>

definition request ::
    "(nat \<Rightarrow> bool \<Rightarrow> 'p \<Rightarrow> 's \<Rightarrow> int \<times> 'p \<times> 's) \<Rightarrow> nat \<Rightarrow> bool \<Rightarrow> int \<Rightarrow> int + 'p \<Rightarrow> 's \<Rightarrow> (int + 'p) \<times> 's" where
  "request SendRequest code async sendErr data s =
    (case data of
       Inl e \<Rightarrow> (Inl e, s)
     | Inr p \<Rightarrow>
        let (ret, reply, s1) = SendRequest code async p s
        in (if ret \<noteq> NO_ERROR then Inl sendErr else Inr reply, s1))"

definition reply_int :: "'p parcel_api \<Rightarrow> (int + 'p) \<times> 's \<Rightarrow> int \<times> 's" where
  "reply_int A r = (case fst r of Inl e \<Rightarrow> e | Inr reply \<Rightarrow> sint (fst (pc_ReadInt32 A reply)), snd r)"

text \<open>Descriptors are written after what is in the parcel; any failure is reported as one error.\<close>

definition with_descriptors :: "'p parcel_api \<Rightarrow> DHDescriptor list \<Rightarrow> int + 'p \<Rightarrow> int + 'p" where
  "with_descriptors A descriptors data =
    (case data of
       Inl e \<Rightarrow> Inl e
     | Inr p \<Rightarrow> (case WriteDescriptors A descriptors p of Inl _ \<Rightarrow> Inl ERR_DH_AVT_SERVICE_WRITE_INFO_FAIL | Inr p1 \<Rightarrow> Inr p1))"

definition Proxy_RegisterPublisherListener ::
    "'p parcel_api \<Rightarrow> ('p, 's) remote \<Rightarrow> 32 word \<Rightarrow> nat option \<Rightarrow> 's \<Rightarrow> int \<times> 's" where
  "Proxy_RegisterPublisherListener A remote topic listener s =
    (case listener of None \<Rightarrow> (ERR_DH_FWK_PUBLISHER_LISTENER_IS_NULL, s) | Some l \<Rightarrow>
     (case remote of None \<Rightarrow> (ERR_DH_FWK_SERVICE_REMOTE_IS_NULL, s) | Some SendRequest \<Rightarrow>
     (if topic \<le> TOPIC_MIN \<or> TOPIC_MAX \<le> topic then (ERR_DH_FWK_PARA_INVALID, s)
      else reply_int A (request SendRequest REG_PUBLISHER_LISTNER False ERR_DH_FWK_SERVICE_IPC_SEND_REQUEST_FAIL
       (writes [(pc_WriteInterfaceToken A GetDescriptor, ERR_DH_FWK_SERVICE_WRITE_TOKEN_FAIL),
        (pc_WriteUint32 A topic, ERR_DH_FWK_SERVICE_WRITE_INFO_FAIL),
        (pc_WriteRemoteObject A l, ERR_DH_FWK_SERVICE_WRITE_INFO_FAIL)] (pc_new A)) s))))"

definition Proxy_UnregisterPublisherListener ::
    "'p parcel_api \<Rightarrow> ('p, 's) remote \<Rightarrow> 32 word \<Rightarrow> nat option \<Rightarrow> 's \<Rightarrow> int \<times> 's" where
  "Proxy_UnregisterPublisherListener A remote topic listener s =
    (case listener of None \<Rightarrow> (ERR_DH_FWK_PUBLISHER_LISTENER_IS_NULL, s) | Some l \<Rightarrow>
     (case remote of None \<Rightarrow> (ERR_DH_FWK_SERVICE_REMOTE_IS_NULL, s) | Some SendRequest \<Rightarrow>
     (if topic \<le> TOPIC_MIN \<or> TOPIC_MAX \<le> topic then (ERR_DH_FWK_PARA_INVALID, s)
      else reply_int A (request SendRequest UNREG_PUBLISHER_LISTENER False ERR_DH_FWK_SERVICE_IPC_SEND_REQUEST_FAIL
       (writes [(pc_WriteInterfaceToken A GetDescriptor, ERR_DH_FWK_SERVICE_WRITE_TOKEN_FAIL),
        (pc_WriteUint32 A topic, ERR_DH_FWK_SERVICE_WRITE_INFO_FAIL),
        (pc_WriteRemoteObject A l, ERR_DH_FWK_SERVICE_WRITE_INFO_FAIL)] (pc_new A)) s))))"

definition Proxy_PublishMessage ::
    "'p parcel_api \<Rightarrow> ('p, 's) remote \<Rightarrow> 32 word \<Rightarrow> string \<Rightarrow> 's \<Rightarrow> int \<times> 's" where
  "Proxy_PublishMessage A remote topic msg s =
    (case remote of None \<Rightarrow> (ERR_DH_FWK_SERVICE_REMOTE_IS_NULL, s) | Some SendRequest \<Rightarrow>
     (if topic \<le> TOPIC_MIN \<or> TOPIC_MAX \<le> topic then (ERR_DH_FWK_PARA_INVALID, s)
      else if \<not> IsMessageLengthValid msg then (ERR_DH_FWK_SERVICE_MSG_INVALID, s)
      else reply_int A (request SendRequest PUBLISH_MESSAGE False ERR_DH_FWK_SERVICE_IPC_SEND_REQUEST_FAIL
       (writes [(pc_WriteInterfaceToken A GetDescriptor, ERR_DH_FWK_SERVICE_WRITE_TOKEN_FAIL),
        (pc_WriteUint32 A topic, ERR_DH_FWK_SERVICE_WRITE_INFO_FAIL),
        (pc_WriteString A msg, ERR_DH_FWK_SERVICE_WRITE_INFO_FAIL)] (pc_new A)) s)))"

definition Proxy_QueryLocalSysSpec ::
    "'p parcel_api \<Rightarrow> ('p, 's) remote \<Rightarrow> 32 word \<Rightarrow> 's \<Rightarrow> string \<times> 's" where
  "Proxy_QueryLocalSysSpec A remote spec s =
    (case remote of None \<Rightarrow> ([], s) | Some SendRequest \<Rightarrow>
     (if spec \<le> SPEC_MIN \<or> SPEC_MAX \<le> spec then ([], s)
      else let r = request SendRequest QUERY_LOCAL_SYS_SPEC False 0
       (writes [(pc_WriteInterfaceToken A GetDescriptor, 0),
        (pc_WriteUint32 A spec, 0)] (pc_new A)) s
       in (case fst r of Inl _ \<Rightarrow> [] | Inr reply \<Rightarrow> fst (pc_ReadString A reply), snd r)))"

text \<open>The engine id is an argument that is overwritten when an answer came.\<close>

definition Proxy_InitializeAVCenter ::
    "'p parcel_api \<Rightarrow> ('p, 's) remote \<Rightarrow> 32 word \<Rightarrow> 32 word \<Rightarrow> 's \<Rightarrow> int \<times> 32 word \<times> 's" where
  "Proxy_InitializeAVCenter A remote transRole engineId s =
    (case remote of None \<Rightarrow> (ERR_DH_AVT_SERVICE_REMOTE_IS_NULL, engineId, s) | Some SendRequest \<Rightarrow>
     (let r = request SendRequest INIT_CTL_CEN False ERR_DH_AVT_SERVICE_IPC_SEND_REQUEST_FAIL
       (writes [(pc_WriteInterfaceToken A GetDescriptor, ERR_DH_AVT_SERVICE_WRITE_TOKEN_FAIL),
        (pc_WriteUint32 A transRole, ERR_DH_AVT_SERVICE_WRITE_INFO_FAIL)] (pc_new A)) s
       in case fst r of
            Inl e \<Rightarrow> (e, engineId, snd r)
          | Inr reply \<Rightarrow> let (i, reply) = pc_ReadInt32 A reply in (sint (fst (pc_ReadInt32 A reply)), i, snd r)))"

definition Proxy_ReleaseAVCenter ::
    "'p parcel_api \<Rightarrow> ('p, 's) remote \<Rightarrow> 32 word \<Rightarrow> 's \<Rightarrow> int \<times> 's" where
  "Proxy_ReleaseAVCenter A remote engineId s =
    (case remote of None \<Rightarrow> (ERR_DH_AVT_SERVICE_REMOTE_IS_NULL, s) | Some SendRequest \<Rightarrow>
     (reply_int A (request SendRequest RELEASE_CTL_CEN True ERR_DH_AVT_SERVICE_IPC_SEND_REQUEST_FAIL
       (writes [(pc_WriteInterfaceToken A GetDescriptor, ERR_DH_AVT_SERVICE_WRITE_TOKEN_FAIL),
        (pc_WriteInt32 A engineId, ERR_DH_AVT_SERVICE_WRITE_INFO_FAIL)] (pc_new A)) s)))"

definition Proxy_CreateControlChannel ::
    "'p parcel_api \<Rightarrow> ('p, 's) remote \<Rightarrow> 32 word \<Rightarrow> string \<Rightarrow> 's \<Rightarrow> int \<times> 's" where
  "Proxy_CreateControlChannel A remote engineId peerDevId s =
    (case remote of None \<Rightarrow> (ERR_DH_AVT_SERVICE_REMOTE_IS_NULL, s) | Some SendRequest \<Rightarrow>
     (reply_int A (request SendRequest CREATE_CTL_CEN_CHANNEL True ERR_DH_AVT_SERVICE_IPC_SEND_REQUEST_FAIL
       (writes [(pc_WriteInterfaceToken A GetDescriptor, ERR_DH_AVT_SERVICE_WRITE_TOKEN_FAIL),
        (pc_WriteInt32 A engineId, ERR_DH_AVT_SERVICE_WRITE_INFO_FAIL),
        (pc_WriteString A peerDevId, ERR_DH_AVT_SERVICE_WRITE_INFO_FAIL)] (pc_new A)) s)))"

definition Proxy_NotifyAVCenter ::
    "'p parcel_api \<Rightarrow> ('p, 's) remote \<Rightarrow> 32 word \<Rightarrow> 32 word \<times> string \<times> string \<Rightarrow> 's \<Rightarrow> int \<times> 's" where
  "Proxy_NotifyAVCenter A remote engineId event s =
    (case remote of None \<Rightarrow> (ERR_DH_AVT_SERVICE_REMOTE_IS_NULL, s) | Some SendRequest \<Rightarrow>
     (reply_int A (request SendRequest NOTIFY_AV_EVENT True ERR_DH_AVT_SERVICE_IPC_SEND_REQUEST_FAIL
       (writes [(pc_WriteInterfaceToken A GetDescriptor, ERR_DH_AVT_SERVICE_WRITE_TOKEN_FAIL),
        (pc_WriteInt32 A engineId, ERR_DH_AVT_SERVICE_WRITE_INFO_FAIL),
        (pc_WriteUint32 A (fst event), ERR_DH_AVT_SERVICE_WRITE_INFO_FAIL),
        (pc_WriteString A (fst (snd event)), ERR_DH_AVT_SERVICE_WRITE_INFO_FAIL),
        (pc_WriteString A (snd (snd event)), ERR_DH_AVT_SERVICE_WRITE_INFO_FAIL)] (pc_new A)) s)))"

definition Proxy_RegisterCtlCenterCallback ::
    "'p parcel_api \<Rightarrow> ('p, 's) remote \<Rightarrow> 32 word \<Rightarrow> nat option \<Rightarrow> 's \<Rightarrow> int \<times> 's" where
  "Proxy_RegisterCtlCenterCallback A remote engineId callback s =
    (case remote of None \<Rightarrow> (ERR_DH_AVT_SERVICE_REMOTE_IS_NULL, s) | Some SendRequest \<Rightarrow>
     (case callback of None \<Rightarrow> (ERR_DH_FWK_AVTRANS_CALLBACK_IS_NULL, s) | Some l \<Rightarrow>
     (reply_int A (request SendRequest REGISTER_CTL_CEN_CALLBACK False ERR_DH_AVT_SERVICE_IPC_SEND_REQUEST_FAIL
       (writes [(pc_WriteInterfaceToken A GetDescriptor, ERR_DH_AVT_SERVICE_WRITE_TOKEN_FAIL),
        (pc_WriteInt32 A engineId, ERR_DH_AVT_SERVICE_WRITE_INFO_FAIL),
        (pc_WriteRemoteObject A l, ERR_DH_AVT_SERVICE_WRITE_INFO_FAIL)] (pc_new A)) s))))"

definition Proxy_NotifySourceRemoteSinkStarted ::
    "'p parcel_api \<Rightarrow> ('p, 's) remote \<Rightarrow> string \<Rightarrow> 's \<Rightarrow> int \<times> 's" where
  "Proxy_NotifySourceRemoteSinkStarted A remote deviceId s =
    (case remote of None \<Rightarrow> (ERR_DH_AVT_SERVICE_REMOTE_IS_NULL, s) | Some SendRequest \<Rightarrow>
     (reply_int A (request SendRequest NOTIFY_SOURCE_DEVICE_REMOTE_DMSDP_STARTED False ERR_DH_AVT_SERVICE_IPC_SEND_REQUEST_FAIL
       (writes [(pc_WriteInterfaceToken A GetDescriptor, ERR_DH_FWK_SERVICE_WRITE_TOKEN_FAIL),
        (pc_WriteString A deviceId, ERR_DH_FWK_SERVICE_WRITE_INFO_FAIL)] (pc_new A)) s)))"

definition Proxy_PauseDistributedHardware ::
    "'p parcel_api \<Rightarrow> ('p, 's) remote \<Rightarrow> 32 word \<Rightarrow> string \<Rightarrow> 's \<Rightarrow> int \<times> 's" where
  "Proxy_PauseDistributedHardware A remote dhType networkId s =
    (if \<not> IsIdLengthValid networkId then (ERR_DH_FWK_PARA_INVALID, s)
     else case remote of None \<Rightarrow> (ERR_DH_AVT_SERVICE_REMOTE_IS_NULL, s) | Some SendRequest \<Rightarrow>
     (reply_int A (request SendRequest PAUSE_DISTRIBUTED_HARDWARE False ERR_DH_AVT_SERVICE_IPC_SEND_REQUEST_FAIL
       (writes [(pc_WriteInterfaceToken A GetDescriptor, ERR_DH_AVT_SERVICE_WRITE_TOKEN_FAIL),
        (pc_WriteInt32 A dhType, ERR_DH_AVT_SERVICE_WRITE_INFO_FAIL),
        (pc_WriteString A networkId, ERR_DH_AVT_SERVICE_WRITE_INFO_FAIL)] (pc_new A)) s)))"

definition Proxy_ResumeDistributedHardware ::
    "'p parcel_api \<Rightarrow> ('p, 's) remote \<Rightarrow> 32 word \<Rightarrow> string \<Rightarrow> 's \<Rightarrow> int \<times> 's" where
  "Proxy_ResumeDistributedHardware A remote dhType networkId s =
    (if \<not> IsIdLengthValid networkId then (ERR_DH_FWK_PARA_INVALID, s)
     else case remote of None \<Rightarrow> (ERR_DH_AVT_SERVICE_REMOTE_IS_NULL, s) | Some SendRequest \<Rightarrow>
     (reply_int A (request SendRequest RESUME_DISTRIBUTED_HARDWARE False ERR_DH_AVT_SERVICE_IPC_SEND_REQUEST_FAIL
       (writes [(pc_WriteInterfaceToken A GetDescriptor, ERR_DH_AVT_SERVICE_WRITE_TOKEN_FAIL),
        (pc_WriteInt32 A dhType, ERR_DH_AVT_SERVICE_WRITE_INFO_FAIL),
        (pc_WriteString A networkId, ERR_DH_AVT_SERVICE_WRITE_INFO_FAIL)] (pc_new A)) s)))"

definition Proxy_StopDistributedHardware ::
    "'p parcel_api \<Rightarrow> ('p, 's) remote \<Rightarrow> 32 word \<Rightarrow> string \<Rightarrow> 's \<Rightarrow> int \<times> 's" where
  "Proxy_StopDistributedHardware A remote dhType networkId s =
    (if \<not> IsIdLengthValid networkId then (ERR_DH_FWK_PARA_INVALID, s)
     else case remote of None \<Rightarrow> (ERR_DH_AVT_SERVICE_REMOTE_IS_NULL, s) | Some SendRequest \<Rightarrow>
     (reply_int A (request SendRequest STOP_DISTRIBUTED_HARDWARE False ERR_DH_AVT_SERVICE_IPC_SEND_REQUEST_FAIL
       (writes [(pc_WriteInterfaceToken A GetDescriptor, ERR_DH_AVT_SERVICE_WRITE_TOKEN_FAIL),
        (pc_WriteInt32 A dhType, ERR_DH_AVT_SERVICE_WRITE_INFO_FAIL),
        (pc_WriteString A networkId, ERR_DH_AVT_SERVICE_WRITE_INFO_FAIL)] (pc_new A)) s)))"

definition Proxy_GetDistributedHardware ::
    "'p parcel_api \<Rightarrow> ('p, 's) remote \<Rightarrow> string \<Rightarrow> 32 word \<Rightarrow> nat option \<Rightarrow> 's \<Rightarrow> int \<times> 's" where
  "Proxy_GetDistributedHardware A remote networkId enableStep callback s =
    (if \<not> IsIdLengthValid networkId then (ERR_DH_FWK_PARA_INVALID, s)
     else case callback of None \<Rightarrow> (ERR_DH_FWK_PARA_INVALID, s) | Some l \<Rightarrow>
     (case remote of None \<Rightarrow> (ERR_DH_AVT_SERVICE_REMOTE_IS_NULL, s) | Some SendRequest \<Rightarrow>
     (reply_int A (request SendRequest GET_DISTRIBUTED_HARDWARE False ERR_DH_AVT_SERVICE_IPC_SEND_REQUEST_FAIL
       (writes [(pc_WriteInterfaceToken A GetDescriptor, ERR_DH_AVT_SERVICE_WRITE_TOKEN_FAIL),
        (pc_WriteString A networkId, ERR_DH_AVT_SERVICE_WRITE_INFO_FAIL),
        (pc_WriteUint32 A enableStep, ERR_DH_AVT_SERVICE_WRITE_INFO_FAIL),
        (pc_WriteRemoteObject A l, ERR_DH_FWK_SERVICE_WRITE_INFO_FAIL)] (pc_new A)) s))))"

definition Proxy_RegisterDHStatusSinkListener ::
    "'p parcel_api \<Rightarrow> ('p, 's) remote \<Rightarrow> nat option \<Rightarrow> 's \<Rightarrow> int \<times> 's" where
  "Proxy_RegisterDHStatusSinkListener A remote listener s =
    (case listener of None \<Rightarrow> (ERR_DH_FWK_STATUS_LISTENER_IS_NULL, s) | Some l \<Rightarrow>
     (case remote of None \<Rightarrow> (ERR_DH_AVT_SERVICE_REMOTE_IS_NULL, s) | Some SendRequest \<Rightarrow>
     (reply_int A (request SendRequest REG_DH_SINK_STATUS_LISTNER False ERR_DH_AVT_SERVICE_IPC_SEND_REQUEST_FAIL
       (writes [(pc_WriteInterfaceToken A GetDescriptor, ERR_DH_AVT_SERVICE_WRITE_TOKEN_FAIL),
        (pc_WriteRemoteObject A l, ERR_DH_FWK_SERVICE_WRITE_INFO_FAIL)] (pc_new A)) s))))"

definition Proxy_UnregisterDHStatusSinkListener ::
    "'p parcel_api \<Rightarrow> ('p, 's) remote \<Rightarrow> nat option \<Rightarrow> 's \<Rightarrow> int \<times> 's" where
  "Proxy_UnregisterDHStatusSinkListener A remote listener s =
    (case listener of None \<Rightarrow> (ERR_DH_FWK_STATUS_LISTENER_IS_NULL, s) | Some l \<Rightarrow>
     (case remote of None \<Rightarrow> (ERR_DH_AVT_SERVICE_REMOTE_IS_NULL, s) | Some SendRequest \<Rightarrow>
     (reply_int A (request SendRequest UNREG_DH_SINK_STATUS_LISTNER False ERR_DH_AVT_SERVICE_IPC_SEND_REQUEST_FAIL
       (writes [(pc_WriteInterfaceToken A GetDescriptor, ERR_DH_AVT_SERVICE_WRITE_TOKEN_FAIL),
        (pc_WriteRemoteObject A l, ERR_DH_FWK_SERVICE_WRITE_INFO_FAIL)] (pc_new A)) s))))"

definition Proxy_RegisterDHStatusSourceListener ::
    "'p parcel_api \<Rightarrow> ('p, 's) remote \<Rightarrow> string \<Rightarrow> nat option \<Rightarrow> 's \<Rightarrow> int \<times> 's" where
  "Proxy_RegisterDHStatusSourceListener A remote networkId listener s =
    (case listener of None \<Rightarrow> (ERR_DH_FWK_STATUS_LISTENER_IS_NULL, s) | Some l \<Rightarrow>
     (if \<not> IsIdLengthValid networkId then (ERR_DH_FWK_PARA_INVALID, s)
     else case remote of None \<Rightarrow> (ERR_DH_AVT_SERVICE_REMOTE_IS_NULL, s) | Some SendRequest \<Rightarrow>
     (reply_int A (request SendRequest REG_DH_SOURCE_STATUS_LISTNER False ERR_DH_AVT_SERVICE_IPC_SEND_REQUEST_FAIL
       (writes [(pc_WriteInterfaceToken A GetDescriptor, ERR_DH_AVT_SERVICE_WRITE_TOKEN_FAIL),
        (pc_WriteString A networkId, ERR_DH_AVT_SERVICE_WRITE_INFO_FAIL),
        (pc_WriteRemoteObject A l, ERR_DH_FWK_SERVICE_WRITE_INFO_FAIL)] (pc_new A)) s))))"

definition Proxy_UnregisterDHStatusSourceListener ::
    "'p parcel_api \<Rightarrow> ('p, 's) remote \<Rightarrow> string \<Rightarrow> nat option \<Rightarrow> 's \<Rightarrow> int \<times> 's" where
  "Proxy_UnregisterDHStatusSourceListener A remote networkId listener s =
    (case listener of None \<Rightarrow> (ERR_DH_FWK_STATUS_LISTENER_IS_NULL, s) | Some l \<Rightarrow>
     (if \<not> IsIdLengthValid networkId then (ERR_DH_FWK_PARA_INVALID, s)
     else case remote of None \<Rightarrow> (ERR_DH_AVT_SERVICE_REMOTE_IS_NULL, s) | Some SendRequest \<Rightarrow>
     (reply_int A (request SendRequest UNREG_DH_SOURCE_STATUS_LISTNER False ERR_DH_AVT_SERVICE_IPC_SEND_REQUEST_FAIL
       (writes [(pc_WriteInterfaceToken A GetDescriptor, ERR_DH_AVT_SERVICE_WRITE_TOKEN_FAIL),
        (pc_WriteString A networkId, ERR_DH_AVT_SERVICE_WRITE_INFO_FAIL),
        (pc_WriteRemoteObject A l, ERR_DH_FWK_SERVICE_WRITE_INFO_FAIL)] (pc_new A)) s))))"

definition Proxy_EnableSink ::
    "'p parcel_api \<Rightarrow> ('p, 's) remote \<Rightarrow> DHDescriptor list \<Rightarrow> 's \<Rightarrow> int \<times> 's" where
  "Proxy_EnableSink A remote descriptors s =
    (case remote of None \<Rightarrow> (ERR_DH_AVT_SERVICE_REMOTE_IS_NULL, s) | Some SendRequest \<Rightarrow>
     (reply_int A (request SendRequest ENABLE_SINK False ERR_DH_AVT_SERVICE_IPC_SEND_REQUEST_FAIL
       (with_descriptors A descriptors (writes [(pc_WriteInterfaceToken A GetDescriptor, ERR_DH_AVT_SERVICE_WRITE_TOKEN_FAIL)] (pc_new A))) s)))"

definition Proxy_DisableSink ::
    "'p parcel_api \<Rightarrow> ('p, 's) remote \<Rightarrow> DHDescriptor list \<Rightarrow> 's \<Rightarrow> int \<times> 's" where
  "Proxy_DisableSink A remote descriptors s =
    (case remote of None \<Rightarrow> (ERR_DH_AVT_SERVICE_REMOTE_IS_NULL, s) | Some SendRequest \<Rightarrow>
     (reply_int A (request SendRequest DISABLE_SINK False ERR_DH_AVT_SERVICE_IPC_SEND_REQUEST_FAIL
       (with_descriptors A descriptors (writes [(pc_WriteInterfaceToken A GetDescriptor, ERR_DH_AVT_SERVICE_WRITE_TOKEN_FAIL)] (pc_new A))) s)))"

definition Proxy_EnableSource ::
    "'p parcel_api \<Rightarrow> ('p, 's) remote \<Rightarrow> string \<Rightarrow> DHDescriptor list \<Rightarrow> 's \<Rightarrow> int \<times> 's" where
  "Proxy_EnableSource A remote networkId descriptors s =
    (if \<not> IsIdLengthValid networkId then (ERR_DH_FWK_PARA_INVALID, s)
     else case remote of None \<Rightarrow> (ERR_DH_AVT_SERVICE_REMOTE_IS_NULL, s) | Some SendRequest \<Rightarrow>
     (reply_int A (request SendRequest ENABLE_SOURCE False ERR_DH_AVT_SERVICE_IPC_SEND_REQUEST_FAIL
       (with_descriptors A descriptors (writes [(pc_WriteInterfaceToken A GetDescriptor, ERR_DH_AVT_SERVICE_WRITE_TOKEN_FAIL),
        (pc_WriteString A networkId, ERR_DH_AVT_SERVICE_WRITE_INFO_FAIL)] (pc_new A))) s)))"

definition Proxy_DisableSource ::
    "'p parcel_api \<Rightarrow> ('p, 's) remote \<Rightarrow> string \<Rightarrow> DHDescriptor list \<Rightarrow> 's \<Rightarrow> int \<times> 's" where
  "Proxy_DisableSource A remote networkId descriptors s =
    (if \<not> IsIdLengthValid networkId then (ERR_DH_FWK_PARA_INVALID, s)
     else case remote of None \<Rightarrow> (ERR_DH_AVT_SERVICE_REMOTE_IS_NULL, s) | Some SendRequest \<Rightarrow>
     (reply_int A (request SendRequest DISABLE_SOURCE False ERR_DH_AVT_SERVICE_IPC_SEND_REQUEST_FAIL
       (with_descriptors A descriptors (writes [(pc_WriteInterfaceToken A GetDescriptor, ERR_DH_AVT_SERVICE_WRITE_TOKEN_FAIL),
        (pc_WriteString A networkId, ERR_DH_AVT_SERVICE_WRITE_INFO_FAIL)] (pc_new A))) s)))"

text \<open>The object whose death the service watches is a member of the proxy, \<open>hdfDeathListenerStub\<close>.\<close>

definition Proxy_LoadDistributedHDF ::
    "'p parcel_api \<Rightarrow> ('p, 's) remote \<Rightarrow> nat \<Rightarrow> 32 word \<Rightarrow> 's \<Rightarrow> int \<times> 's" where
  "Proxy_LoadDistributedHDF A remote hdfDeathListenerStub dhType s =
    (case remote of None \<Rightarrow> (ERR_DH_AVT_SERVICE_REMOTE_IS_NULL, s) | Some SendRequest \<Rightarrow>
     (reply_int A (request SendRequest LOAD_HDF False ERR_DH_AVT_SERVICE_IPC_SEND_REQUEST_FAIL
       (writes [(pc_WriteInterfaceToken A GetDescriptor, ERR_DH_AVT_SERVICE_WRITE_TOKEN_FAIL),
        (pc_WriteUint32 A dhType, ERR_DH_AVT_SERVICE_WRITE_INFO_FAIL),
        (pc_WriteRemoteObject A hdfDeathListenerStub, ERR_DH_AVT_SERVICE_WRITE_INFO_FAIL)] (pc_new A)) s)))"

definition Proxy_UnLoadDistributedHDF ::
    "'p parcel_api \<Rightarrow> ('p, 's) remote \<Rightarrow> nat \<Rightarrow> 32 word \<Rightarrow> 's \<Rightarrow> int \<times> 's" where
  "Proxy_UnLoadDistributedHDF A remote hdfDeathListenerStub dhType s =
    (case remote of None \<Rightarrow> (ERR_DH_AVT_SERVICE_REMOTE_IS_NULL, s) | Some SendRequest \<Rightarrow>
     (reply_int A (request SendRequest UNLOAD_HDF False ERR_DH_AVT_SERVICE_IPC_SEND_REQUEST_FAIL
       (writes [(pc_WriteInterfaceToken A GetDescriptor, ERR_DH_AVT_SERVICE_WRITE_TOKEN_FAIL),
        (pc_WriteUint32 A dhType, ERR_DH_AVT_SERVICE_WRITE_INFO_FAIL),
        (pc_WriteRemoteObject A hdfDeathListenerStub, ERR_DH_AVT_SERVICE_WRITE_INFO_FAIL)] (pc_new A)) s)))"

definition Proxy_LoadSinkDMSDPService ::
    "'p parcel_api \<Rightarrow> ('p, 's) remote \<Rightarrow> string \<Rightarrow> 's \<Rightarrow> int \<times> 's" where
  "Proxy_LoadSinkDMSDPService A remote udid s =
    (case remote of None \<Rightarrow> (ERR_DH_AVT_SERVICE_REMOTE_IS_NULL, s) | Some SendRequest \<Rightarrow>
     (reply_int A (request SendRequest INIT_SINK_DMSDP False ERR_DH_AVT_SERVICE_IPC_SEND_REQUEST_FAIL
       (writes [(pc_WriteInterfaceToken A GetDescriptor, ERR_DH_FWK_SERVICE_WRITE_TOKEN_FAIL),
        (pc_WriteString A udid, ERR_DH_FWK_SERVICE_WRITE_INFO_FAIL)] (pc_new A)) s)))"

definition Proxy_NotifySinkRemoteSourceStarted ::
    "'p parcel_api \<Rightarrow> ('p, 's) remote \<Rightarrow> string \<Rightarrow> 's \<Rightarrow> int \<times> 's" where
  "Proxy_NotifySinkRemoteSourceStarted A remote udid s =
    (case remote of None \<Rightarrow> (ERR_DH_AVT_SERVICE_REMOTE_IS_NULL, s) | Some SendRequest \<Rightarrow>
     (reply_int A (request SendRequest NOTIFY_SINK_DEVICE_REMOTE_DMSDP_STARTED False ERR_DH_AVT_SERVICE_IPC_SEND_REQUEST_FAIL
       (writes [(pc_WriteInterfaceToken A GetDescriptor, ERR_DH_FWK_SERVICE_WRITE_TOKEN_FAIL),
        (pc_WriteString A udid, ERR_DH_FWK_SERVICE_WRITE_INFO_FAIL)] (pc_new A)) s)))"

definition Proxy_RegisterHardwareAccessListener ::
    "'p parcel_api \<Rightarrow> ('p, 's) remote \<Rightarrow> 32 word \<Rightarrow> nat option \<Rightarrow> 32 word \<Rightarrow> string \<Rightarrow> 's \<Rightarrow> int \<times> 's" where
  "Proxy_RegisterHardwareAccessListener A remote dhType callback timeOut pkgName s =
    (case callback of None \<Rightarrow> (ERR_DH_FWK_STATUS_LISTENER_IS_NULL, s) | Some l \<Rightarrow>
     (case remote of None \<Rightarrow> (ERR_DH_AVT_SERVICE_REMOTE_IS_NULL, s) | Some SendRequest \<Rightarrow>
     (reply_int A (request SendRequest REGISTER_HARDWARE_ACCESS_LISTENER False ERR_DH_AVT_SERVICE_IPC_SEND_REQUEST_FAIL
       (writes [(pc_WriteInterfaceToken A GetDescriptor, ERR_DH_FWK_SERVICE_WRITE_TOKEN_FAIL),
        (pc_WriteUint32 A dhType, ERR_DH_FWK_SERVICE_WRITE_INFO_FAIL),
        (pc_WriteRemoteObject A l, ERR_DH_FWK_SERVICE_WRITE_INFO_FAIL),
        (pc_WriteInt32 A timeOut, ERR_DH_FWK_SERVICE_WRITE_INFO_FAIL),
        (pc_WriteString A pkgName, ERR_DH_FWK_SERVICE_WRITE_INFO_FAIL)] (pc_new A)) s))))"

definition Proxy_UnregisterHardwareAccessListener ::
    "'p parcel_api \<Rightarrow> ('p, 's) remote \<Rightarrow> 32 word \<Rightarrow> nat option \<Rightarrow> string \<Rightarrow> 's \<Rightarrow> int \<times> 's" where
  "Proxy_UnregisterHardwareAccessListener A remote dhType callback pkgName s =
    (case callback of None \<Rightarrow> (ERR_DH_FWK_STATUS_LISTENER_IS_NULL, s) | Some l \<Rightarrow>
     (case remote of None \<Rightarrow> (ERR_DH_AVT_SERVICE_REMOTE_IS_NULL, s) | Some SendRequest \<Rightarrow>
     (reply_int A (request SendRequest UNREGISTER_HARDWARE_ACCESS_LISTENER False ERR_DH_AVT_SERVICE_IPC_SEND_REQUEST_FAIL
       (writes [(pc_WriteInterfaceToken A GetDescriptor, ERR_DH_FWK_SERVICE_WRITE_TOKEN_FAIL),
        (pc_WriteUint32 A dhType, ERR_DH_FWK_SERVICE_WRITE_INFO_FAIL),
        (pc_WriteRemoteObject A l, ERR_DH_FWK_SERVICE_WRITE_INFO_FAIL),
        (pc_WriteString A pkgName, ERR_DH_FWK_SERVICE_WRITE_INFO_FAIL)] (pc_new A)) s))))"

definition Proxy_SetAuthorizationResult ::
    "'p parcel_api \<Rightarrow> ('p, 's) remote \<Rightarrow> 32 word \<Rightarrow> string \<Rightarrow> bool \<Rightarrow> 's \<Rightarrow> unit \<times> 's" where
  "Proxy_SetAuthorizationResult A remote dhType requestId granted s =
    (case remote of None \<Rightarrow> ((), s) | Some SendRequest \<Rightarrow>
     (((), snd (request SendRequest SET_AUTHORIZATION_RESULT False 0
       (writes [(pc_WriteInterfaceToken A GetDescriptor, 0),
        (pc_WriteUint32 A dhType, 0),
        (pc_WriteString A requestId, 0),
        (pc_WriteBool A granted, 0)] (pc_new A)) s))))"

lemmas proxy_defs =
  Proxy_RegisterPublisherListener_def Proxy_UnregisterPublisherListener_def Proxy_PublishMessage_def
  Proxy_QueryLocalSysSpec_def Proxy_InitializeAVCenter_def Proxy_ReleaseAVCenter_def
  Proxy_CreateControlChannel_def Proxy_NotifyAVCenter_def Proxy_RegisterCtlCenterCallback_def
  Proxy_NotifySourceRemoteSinkStarted_def Proxy_PauseDistributedHardware_def Proxy_ResumeDistributedHardware_def
  Proxy_StopDistributedHardware_def Proxy_GetDistributedHardware_def Proxy_RegisterDHStatusSinkListener_def
  Proxy_UnregisterDHStatusSinkListener_def Proxy_RegisterDHStatusSourceListener_def Proxy_UnregisterDHStatusSourceListener_def
  Proxy_EnableSink_def Proxy_DisableSink_def Proxy_EnableSource_def
  Proxy_DisableSource_def Proxy_LoadDistributedHDF_def Proxy_UnLoadDistributedHDF_def
  Proxy_LoadSinkDMSDPService_def Proxy_NotifySinkRemoteSourceStarted_def Proxy_RegisterHardwareAccessListener_def
  Proxy_UnregisterHardwareAccessListener_def Proxy_SetAuthorizationResult_def

end
