(* ===== verification/Ipc_Properties.thy ===== *)
theory Ipc_Properties
  imports Service_Proxy
begin

text \<open>
  A client that calls the proxy gets what the service answers, and the service does what the client asked for: the
  way through the parcel, the stub and back is compared with a direct call.  And what a caller without the
  permission can reach.
\<close>

section \<open>Parcels\<close>

definition appends :: "('p \<Rightarrow> parcel_item list) \<Rightarrow> ('p \<Rightarrow> 'p option) \<Rightarrow> parcel_item \<Rightarrow> bool" where
  "appends items w i = (\<forall>p. \<exists>p'. w p = Some p' \<and> items p' = items p @ [i])"

lemma writes_items:
  assumes "list_all2 (\<lambda>w i. appends items (fst w) i) ws xs"
  shows "\<exists>p'. writes ws p = Inr p' \<and> items p' = items p @ xs"
  using assms
proof (induction arbitrary: p rule: list_all2_induct)
  case (Cons w ws i xs)
  obtain p1 where p1: "fst w p = Some p1" "items p1 = items p @ [i]" using Cons.hyps(1) by (auto simp: appends_def)
  with Cons.IH[of p1] show ?case by (cases w) auto
qed simp

lemma appends_rule:
  assumes "\<forall>p. w p \<noteq> None" "\<forall>p p'. w p = Some p' \<longrightarrow> items p' = items p @ [i]"
  shows "appends items w i"
  unfolding appends_def
proof
  fix p
  obtain p' where "w p = Some p'" using assms(1) by blast
  then show "\<exists>p'. w p = Some p' \<and> items p' = items p @ [i]" using assms(2) by blast
qed

lemma appendsI:
  assumes "parcel_laws A items" "parcel_room A"
  shows "appends items (pc_WriteInterfaceToken A tk) (PI_InterfaceToken tk)" "appends items (pc_WriteInt32 A i) (PI_Int32 i)"
    "appends items (pc_WriteUint32 A u) (PI_Uint32 u)" "appends items (pc_WriteUint16 A u16) (PI_Uint16 u16)"
    "appends items (pc_WriteBool A b) (PI_Bool b)" "appends items (pc_WriteString A str) (PI_String str)"
    "appends items (pc_WriteRemoteObject A x) (PI_RemoteObject x)"
  using assms unfolding parcel_laws_def parcel_room_def by - (rule appends_rule; simp)+

lemma readsD:
  assumes "parcel_laws A items"
  shows "items p = PI_InterfaceToken tk # r \<Longrightarrow> fst (pc_ReadInterfaceToken A p) = tk \<and> items (snd (pc_ReadInterfaceToken A p)) = r"
    "items p = PI_Int32 i # r \<Longrightarrow> fst (pc_ReadInt32 A p) = i \<and> items (snd (pc_ReadInt32 A p)) = r"
    "items p = PI_Uint32 i # r \<Longrightarrow> fst (pc_ReadUint32 A p) = i \<and> items (snd (pc_ReadUint32 A p)) = r"
    "items p = PI_Uint16 j # r \<Longrightarrow> fst (pc_ReadUint16 A p) = j \<and> items (snd (pc_ReadUint16 A p)) = r"
    "items p = PI_Bool b # r \<Longrightarrow> fst (pc_ReadBool A p) = b \<and> items (snd (pc_ReadBool A p)) = r"
    "items p = PI_String str # r \<Longrightarrow> fst (pc_ReadString A p) = str \<and> items (snd (pc_ReadString A p)) = r"
    "items p = PI_RemoteObject x # r \<Longrightarrow> fst (pc_ReadRemoteObject A p) = Some x \<and> items (snd (pc_ReadRemoteObject A p)) = r"
    "items p = [] \<Longrightarrow> fst (pc_ReadInt32 A p) = 0"
  using assms by (auto simp: parcel_laws_def)

lemma items_new: "parcel_laws A items \<Longrightarrow> items (pc_new A) = []"
  by (simp add: parcel_laws_def)

text \<open>
  The same facts as rewrite rules: \<open>put w p\<close> is the parcel after a write that does not fail, and a read looks at the
  first item.
\<close>

definition put :: "('p \<Rightarrow> 'p option) \<Rightarrow> 'p \<Rightarrow> 'p" where "put w p = the (w p)"

lemma put_appends:
  assumes "appends items w i"
  shows "w p = Some (put w p)" "items (put w p) = items p @ [i]"
proof -
  obtain p' where "w p = Some p'" "items p' = items p @ [i]" using assms by (auto simp: appends_def)
  then show "w p = Some (put w p)" "items (put w p) = items p @ [i]" by (simp_all add: put_def)
qed

lemma put_eqs:
  assumes "parcel_laws A items" "parcel_room A"
  shows "pc_WriteInterfaceToken A tk p = Some (put (pc_WriteInterfaceToken A tk) p)" "pc_WriteInt32 A i p = Some (put (pc_WriteInt32 A i) p)"
    "pc_WriteUint32 A i p = Some (put (pc_WriteUint32 A i) p)" "pc_WriteUint16 A j p = Some (put (pc_WriteUint16 A j) p)"
    "pc_WriteBool A b p = Some (put (pc_WriteBool A b) p)" "pc_WriteString A str p = Some (put (pc_WriteString A str) p)"
    "pc_WriteRemoteObject A x p = Some (put (pc_WriteRemoteObject A x) p)"
    "items (put (pc_WriteInterfaceToken A tk) p) = items p @ [PI_InterfaceToken tk]" "items (put (pc_WriteInt32 A i) p) = items p @ [PI_Int32 i]"
    "items (put (pc_WriteUint32 A i) p) = items p @ [PI_Uint32 i]" "items (put (pc_WriteUint16 A j) p) = items p @ [PI_Uint16 j]"
    "items (put (pc_WriteBool A b) p) = items p @ [PI_Bool b]" "items (put (pc_WriteString A str) p) = items p @ [PI_String str]"
    "items (put (pc_WriteRemoteObject A x) p) = items p @ [PI_RemoteObject x]" "items (pc_new A) = []"
  by (rule put_appends[OF appendsI(1)[OF assms]] put_appends[OF appendsI(2)[OF assms]] put_appends[OF appendsI(3)[OF assms]]
      put_appends[OF appendsI(4)[OF assms]] put_appends[OF appendsI(5)[OF assms]] put_appends[OF appendsI(6)[OF assms]]
      put_appends[OF appendsI(7)[OF assms]] items_new[OF assms(1)])+

fun the_word :: "parcel_item \<Rightarrow> 32 word" where
  "the_word (PI_Int32 i) = i" | "the_word (PI_Uint32 i) = i" | "the_word _ = 0"
fun the_text :: "parcel_item \<Rightarrow> string" where
  "the_text (PI_InterfaceToken s) = s" | "the_text (PI_String s) = s" | "the_text _ = []"

lemma read_eqs:
  assumes "parcel_laws A items"
  shows "(\<exists>tk r. items p = PI_InterfaceToken tk # r) \<Longrightarrow> fst (pc_ReadInterfaceToken A p) = the_text (hd (items p))"
    "(\<exists>tk r. items p = PI_InterfaceToken tk # r) \<Longrightarrow> items (snd (pc_ReadInterfaceToken A p)) = tl (items p)"
    "(\<exists>i r. items p = PI_Int32 i # r) \<Longrightarrow> fst (pc_ReadInt32 A p) = the_word (hd (items p))"
    "(\<exists>i r. items p = PI_Int32 i # r) \<Longrightarrow> items (snd (pc_ReadInt32 A p)) = tl (items p)"
    "(\<exists>i r. items p = PI_Uint32 i # r) \<Longrightarrow> fst (pc_ReadUint32 A p) = the_word (hd (items p))"
    "(\<exists>i r. items p = PI_Uint32 i # r) \<Longrightarrow> items (snd (pc_ReadUint32 A p)) = tl (items p)"
    "(\<exists>i r. items p = PI_Uint16 i # r) \<Longrightarrow> fst (pc_ReadUint16 A p) = (case hd (items p) of PI_Uint16 i \<Rightarrow> i | _ \<Rightarrow> 0)"
    "(\<exists>i r. items p = PI_Uint16 i # r) \<Longrightarrow> items (snd (pc_ReadUint16 A p)) = tl (items p)"
    "(\<exists>b r. items p = PI_Bool b # r) \<Longrightarrow> fst (pc_ReadBool A p) = (hd (items p) = PI_Bool True)"
    "(\<exists>b r. items p = PI_Bool b # r) \<Longrightarrow> items (snd (pc_ReadBool A p)) = tl (items p)"
    "(\<exists>str r. items p = PI_String str # r) \<Longrightarrow> fst (pc_ReadString A p) = the_text (hd (items p))"
    "(\<exists>str r. items p = PI_String str # r) \<Longrightarrow> items (snd (pc_ReadString A p)) = tl (items p)"
    "(\<exists>x r. items p = PI_RemoteObject x # r) \<Longrightarrow> fst (pc_ReadRemoteObject A p) = (case hd (items p) of PI_RemoteObject x \<Rightarrow> Some x | _ \<Rightarrow> None)"
    "(\<exists>x r. items p = PI_RemoteObject x # r) \<Longrightarrow> items (snd (pc_ReadRemoteObject A p)) = tl (items p)"
    "items p = [] \<Longrightarrow> fst (pc_ReadInt32 A p) = 0"
  using readsD[OF assms] by auto

section \<open>Descriptors\<close>

definition descriptor_items :: "DHDescriptor \<Rightarrow> parcel_item list" where
  "descriptor_items d =
    [PI_Int32 (dd_dhType d), PI_String (dd_id d), PI_String (dd_customParams d), PI_Uint32 (dd_firstCallingTokenId d)]"

lemma written_descriptors:
  assumes "parcel_laws A items" "parcel_room A"
  shows "\<exists>p'. write_descriptors A ds p = Inr p' \<and> items p' = items p @ concat (map descriptor_items ds)"
proof (induction ds arbitrary: p)
  case (Cons d ds)
  let ?ws = "[(pc_WriteInt32 A (dd_dhType d), ERR_DH_AVT_SERVICE_WRITE_INFO_FAIL),
        (pc_WriteString A (dd_id d), ERR_DH_AVT_SERVICE_WRITE_INFO_FAIL),
        (pc_WriteString A (dd_customParams d), ERR_DH_AVT_SERVICE_WRITE_INFO_FAIL),
        (pc_WriteUint32 A (dd_firstCallingTokenId d), ERR_DH_AVT_SERVICE_WRITE_INFO_FAIL)]"
  have "list_all2 (\<lambda>w i. appends items (fst w) i) ?ws (descriptor_items d)"
    by (simp add: descriptor_items_def appendsI[OF assms])
  from writes_items[OF this] obtain p1 where p1: "writes ?ws p = Inr p1" "items p1 = items p @ descriptor_items d"
    by blast
  moreover obtain p2 where "write_descriptors A ds p1 = Inr p2" "items p2 = items p1 @ concat (map descriptor_items ds)"
    using Cons.IH by blast
  ultimately show ?case by (intro exI[of _ p2]) (simp del: writes.simps)
qed simp

lemma read_back_descriptors:
  assumes "parcel_laws A items"
  shows "items p = concat (map descriptor_items ds) @ r \<Longrightarrow>
    fst (read_descriptors A (length ds) p) = ds \<and> items (snd (read_descriptors A (length ds) p)) = r"
proof (induction ds arbitrary: p)
  case (Cons d ds)
  let ?p = "snd (pc_ReadUint32 A (snd (pc_ReadString A (snd (pc_ReadString A (snd (pc_ReadInt32 A p)))))))"
  have "items ?p = concat (map descriptor_items ds) @ r" using Cons.prems readsD[OF assms] by (simp add: descriptor_items_def[of d])
  then have "fst (read_descriptors A (length ds) ?p) = ds" "items (snd (read_descriptors A (length ds) ?p)) = r"
    using Cons.IH[of ?p] by auto
  then show ?case using Cons.prems readsD[OF assms]
    by (simp add: descriptor_items_def[of d] Let_def case_prod_beta)
qed simp

lemma count_of_descriptors:
  "length ds \<le> 4096 \<Longrightarrow> sint (word_of_nat (length ds) :: 32 word) = int (length ds)"
  by (simp add: signed_of_nat signed_take_bit_int_eq_self)

lemma descriptors_roundtrip:
  assumes "parcel_laws A items" "parcel_room A" "length ds \<le> 4096"
  obtains p' where "WriteDescriptors A ds p = Inr p'"
    "items p' = items p @ PI_Int32 (word_of_nat (length ds)) # concat (map descriptor_items ds)"
proof -
  obtain p1 where p1: "pc_WriteInt32 A (word_of_nat (length ds)) p = Some p1" "items p1 = items p @ [PI_Int32 (word_of_nat (length ds))]"
    using appendsI(2)[OF assms(1,2)] by (auto simp: appends_def)
  obtain p2 where "write_descriptors A ds p1 = Inr p2" "items p2 = items p1 @ concat (map descriptor_items ds)"
    using written_descriptors[OF assms(1,2)] by blast
  then show thesis using p1 count_of_descriptors[OF assms(3)] assms(3) that[of p2]
    by (simp add: WriteDescriptors_def Let_def MAX_DH_DESCRIPTOR_ARRAY_SIZE_def)
qed

lemma put_descriptors:
  assumes "parcel_laws A items" "parcel_room A" "length ds \<le> 4096"
  shows "WriteDescriptors A ds p = Inr (projr (WriteDescriptors A ds p))"
    "items (projr (WriteDescriptors A ds p)) = items p @ PI_Int32 (word_of_nat (length ds)) # concat (map descriptor_items ds)"
  using descriptors_roundtrip[OF assms, of p] by (metis sum.sel(2))+

lemma descriptors_read:
  assumes "parcel_laws A items" "length ds \<le> 4096"
    and "items p = PI_Int32 (word_of_nat (length ds)) # concat (map descriptor_items ds)"
  shows "fst (snd (ReadDescriptors A p)) = ds"
  using readsD(2)[OF assms(1) assms(3)] read_back_descriptors[OF assms(1), of _ ds "[]"] count_of_descriptors[OF assms(2)] assms(2)
  by (simp add: ReadDescriptors_def Let_def case_prod_beta MAX_DH_DESCRIPTOR_ARRAY_SIZE_def)

text \<open>The parcel after a list of descriptors, as \<open>put\<close> is the parcel after one value.\<close>

definition put_ds :: "'p parcel_api \<Rightarrow> DHDescriptor list \<Rightarrow> 'p \<Rightarrow> 'p" where "put_ds A ds p = projr (WriteDescriptors A ds p)"

lemma put_ds_eqs:
  assumes "parcel_laws A items" "parcel_room A" "length ds \<le> 4096"
  shows "WriteDescriptors A ds p = Inr (put_ds A ds p)"
    "items (put_ds A ds p) = items p @ PI_Int32 (word_of_nat (length ds)) # concat (map descriptor_items ds)"
  unfolding put_ds_def using put_descriptors[OF assms] by auto

section \<open>Requests\<close>

datatype dh_request =
    RQ_RegisterPublisherListener "32 word" nat
  | RQ_UnregisterPublisherListener "32 word" nat
  | RQ_PublishMessage "32 word" string
  | RQ_QueryLocalSysSpec "32 word"
  | RQ_InitializeAVCenter "32 word"
  | RQ_ReleaseAVCenter "32 word"
  | RQ_CreateControlChannel "32 word" string
  | RQ_NotifyAVCenter "32 word" "32 word \<times> string \<times> string"
  | RQ_RegisterCtlCenterCallback "32 word" nat
  | RQ_NotifySourceRemoteSinkStarted string
  | RQ_PauseDistributedHardware "32 word" string
  | RQ_ResumeDistributedHardware "32 word" string
  | RQ_StopDistributedHardware "32 word" string
  | RQ_GetDistributedHardware string "32 word" nat
  | RQ_RegisterDHStatusSinkListener nat
  | RQ_UnregisterDHStatusSinkListener nat
  | RQ_RegisterDHStatusSourceListener string nat
  | RQ_UnregisterDHStatusSourceListener string nat
  | RQ_EnableSink "DHDescriptor list"
  | RQ_DisableSink "DHDescriptor list"
  | RQ_EnableSource string "DHDescriptor list"
  | RQ_DisableSource string "DHDescriptor list"
  | RQ_LoadDistributedHDF "32 word"
  | RQ_UnLoadDistributedHDF "32 word"
  | RQ_LoadSinkDMSDPService string
  | RQ_NotifySinkRemoteSourceStarted string
  | RQ_RegisterHardwareAccessListener "32 word" nat "32 word" string
  | RQ_UnregisterHardwareAccessListener "32 word" nat string
  | RQ_SetAuthorizationResult "32 word" string bool

datatype dh_answer = AN_int int | AN_string string | AN_engine int "32 word" | AN_unit

text \<open>What the service does and answers; the death of the object \<open>h\<close> is what it watches for the drivers.\<close>

definition returned :: "32 word \<times> 's \<Rightarrow> dh_answer \<times> 's" where
  "returned r = (AN_int (sint (fst r)), snd r)"

fun serve :: "'s dh_service \<Rightarrow> nat \<Rightarrow> dh_request \<Rightarrow> 's \<Rightarrow> dh_answer \<times> 's" where
  "serve sv h (RQ_RegisterPublisherListener t l) s = (AN_int 0, snd (sv_RegisterPublisherListener sv t l s))"
| "serve sv h (RQ_UnregisterPublisherListener t l) s = (AN_int 0, snd (sv_UnregisterPublisherListener sv t l s))"
| "serve sv h (RQ_PublishMessage t m) s = (AN_int 0, snd (sv_PublishMessage sv t m s))"
| "serve sv h (RQ_QueryLocalSysSpec x) s = (let (res, s1) = sv_QueryLocalSysSpec sv x s in (AN_string res, s1))"
| "serve sv h (RQ_InitializeAVCenter x) s = (let (e, ret, s1) = sv_InitializeAVCenter sv x s in (AN_engine (sint ret) e, s1))"
| "serve sv h (RQ_ReleaseAVCenter e) s = (AN_int 0, snd (sv_ReleaseAVCenter sv e s))"
| "serve sv h (RQ_CreateControlChannel e d) s = (AN_int 0, snd (sv_CreateControlChannel sv e d s))"
| "serve sv h (RQ_NotifyAVCenter e v) s = (AN_int 0, snd (sv_NotifyAVCenter sv e v s))"
| "serve sv h (RQ_RegisterCtlCenterCallback e l) s = returned (sv_RegisterCtlCenterCallback sv e l s)"
| "serve sv h (RQ_NotifySourceRemoteSinkStarted d) s = returned (sv_NotifySourceRemoteSinkStarted sv d s)"
| "serve sv h (RQ_PauseDistributedHardware t d) s = returned (sv_PauseDistributedHardware sv t d s)"
| "serve sv h (RQ_ResumeDistributedHardware t d) s = returned (sv_ResumeDistributedHardware sv t d s)"
| "serve sv h (RQ_StopDistributedHardware t d) s = returned (sv_StopDistributedHardware sv t d s)"
| "serve sv h (RQ_GetDistributedHardware d e l) s = returned (sv_GetDistributedHardware sv d e l s)"
| "serve sv h (RQ_RegisterDHStatusSinkListener l) s = returned (sv_RegisterDHStatusSinkListener sv l s)"
| "serve sv h (RQ_UnregisterDHStatusSinkListener l) s = returned (sv_UnregisterDHStatusSinkListener sv l s)"
| "serve sv h (RQ_RegisterDHStatusSourceListener d l) s = returned (sv_RegisterDHStatusSourceListener sv d l s)"
| "serve sv h (RQ_UnregisterDHStatusSourceListener d l) s = returned (sv_UnregisterDHStatusSourceListener sv d l s)"
| "serve sv h (RQ_EnableSink ds) s = returned (sv_EnableSink sv ds s)"
| "serve sv h (RQ_DisableSink ds) s = returned (sv_DisableSink sv ds s)"
| "serve sv h (RQ_EnableSource d ds) s = returned (sv_EnableSource sv d ds s)"
| "serve sv h (RQ_DisableSource d ds) s = returned (sv_DisableSource sv d ds s)"
| "serve sv h (RQ_LoadDistributedHDF t) s = (let (ret, s1) = sv_LoadDistributedHDF sv t s
      in if ret \<noteq> 0 then (AN_int (sint ret), s1)
         else let (ret, s2) = sv_AddDeathRecipient sv t h s1
              in (AN_int (sint ret), if ret \<noteq> 0 then snd (sv_UnLoadDistributedHDF sv t s2) else s2))"
| "serve sv h (RQ_UnLoadDistributedHDF t) s = (let (ret, s1) = sv_UnLoadDistributedHDF sv t s
      in if ret \<noteq> 0 then (AN_int (sint ret), s1) else returned (sv_RemoveDeathRecipient sv t h s1))"
| "serve sv h (RQ_LoadSinkDMSDPService d) s = returned (sv_LoadSinkDMSDPService sv d s)"
| "serve sv h (RQ_NotifySinkRemoteSourceStarted d) s = returned (sv_NotifySinkRemoteSourceStarted sv d s)"
| "serve sv h (RQ_RegisterHardwareAccessListener t l w n) s = returned (sv_RegisterHardwareAccessListener sv t l w n s)"
| "serve sv h (RQ_UnregisterHardwareAccessListener t l n) s = returned (sv_UnregisterHardwareAccessListener sv t l n s)"
| "serve sv h (RQ_SetAuthorizationResult t i g) s = (AN_unit, sv_SetAuthorizationResult sv t i g s)"

text \<open>The call of the client.\<close>

fun call :: "'p parcel_api \<Rightarrow> ('p, 's) remote \<Rightarrow> nat \<Rightarrow> dh_request \<Rightarrow> 's \<Rightarrow> dh_answer \<times> 's" where
  "call A remote h (RQ_RegisterPublisherListener t l) s = map_prod AN_int id (Proxy_RegisterPublisherListener A remote t (Some l) s)"
| "call A remote h (RQ_UnregisterPublisherListener t l) s = map_prod AN_int id (Proxy_UnregisterPublisherListener A remote t (Some l) s)"
| "call A remote h (RQ_PublishMessage t m) s = map_prod AN_int id (Proxy_PublishMessage A remote t m s)"
| "call A remote h (RQ_QueryLocalSysSpec x) s = map_prod AN_string id (Proxy_QueryLocalSysSpec A remote x s)"
| "call A remote h (RQ_InitializeAVCenter x) s = (let (ret, e, s1) = Proxy_InitializeAVCenter A remote x 0 s in (AN_engine ret e, s1))"
| "call A remote h (RQ_ReleaseAVCenter e) s = map_prod AN_int id (Proxy_ReleaseAVCenter A remote e s)"
| "call A remote h (RQ_CreateControlChannel e d) s = map_prod AN_int id (Proxy_CreateControlChannel A remote e d s)"
| "call A remote h (RQ_NotifyAVCenter e v) s = map_prod AN_int id (Proxy_NotifyAVCenter A remote e v s)"
| "call A remote h (RQ_RegisterCtlCenterCallback e l) s = map_prod AN_int id (Proxy_RegisterCtlCenterCallback A remote e (Some l) s)"
| "call A remote h (RQ_NotifySourceRemoteSinkStarted d) s = map_prod AN_int id (Proxy_NotifySourceRemoteSinkStarted A remote d s)"
| "call A remote h (RQ_PauseDistributedHardware t d) s = map_prod AN_int id (Proxy_PauseDistributedHardware A remote t d s)"
| "call A remote h (RQ_ResumeDistributedHardware t d) s = map_prod AN_int id (Proxy_ResumeDistributedHardware A remote t d s)"
| "call A remote h (RQ_StopDistributedHardware t d) s = map_prod AN_int id (Proxy_StopDistributedHardware A remote t d s)"
| "call A remote h (RQ_GetDistributedHardware d e l) s = map_prod AN_int id (Proxy_GetDistributedHardware A remote d e (Some l) s)"
| "call A remote h (RQ_RegisterDHStatusSinkListener l) s = map_prod AN_int id (Proxy_RegisterDHStatusSinkListener A remote (Some l) s)"
| "call A remote h (RQ_UnregisterDHStatusSinkListener l) s = map_prod AN_int id (Proxy_UnregisterDHStatusSinkListener A remote (Some l) s)"
| "call A remote h (RQ_RegisterDHStatusSourceListener d l) s = map_prod AN_int id (Proxy_RegisterDHStatusSourceListener A remote d (Some l) s)"
| "call A remote h (RQ_UnregisterDHStatusSourceListener d l) s = map_prod AN_int id (Proxy_UnregisterDHStatusSourceListener A remote d (Some l) s)"
| "call A remote h (RQ_EnableSink ds) s = map_prod AN_int id (Proxy_EnableSink A remote ds s)"
| "call A remote h (RQ_DisableSink ds) s = map_prod AN_int id (Proxy_DisableSink A remote ds s)"
| "call A remote h (RQ_EnableSource d ds) s = map_prod AN_int id (Proxy_EnableSource A remote d ds s)"
| "call A remote h (RQ_DisableSource d ds) s = map_prod AN_int id (Proxy_DisableSource A remote d ds s)"
| "call A remote h (RQ_LoadDistributedHDF t) s = map_prod AN_int id (Proxy_LoadDistributedHDF A remote h t s)"
| "call A remote h (RQ_UnLoadDistributedHDF t) s = map_prod AN_int id (Proxy_UnLoadDistributedHDF A remote h t s)"
| "call A remote h (RQ_LoadSinkDMSDPService d) s = map_prod AN_int id (Proxy_LoadSinkDMSDPService A remote d s)"
| "call A remote h (RQ_NotifySinkRemoteSourceStarted d) s = map_prod AN_int id (Proxy_NotifySinkRemoteSourceStarted A remote d s)"
| "call A remote h (RQ_RegisterHardwareAccessListener t l w n) s = map_prod AN_int id (Proxy_RegisterHardwareAccessListener A remote t (Some l) w n s)"
| "call A remote h (RQ_UnregisterHardwareAccessListener t l n) s = map_prod AN_int id (Proxy_UnregisterHardwareAccessListener A remote t (Some l) n s)"
| "call A remote h (RQ_SetAuthorizationResult t i g) s = map_prod (\<lambda>_. AN_unit) id (Proxy_SetAuthorizationResult A remote t i g s)"

text \<open>Requests that the checks of the client let pass.\<close>

fun valid_request :: "dh_request \<Rightarrow> bool" where
  "valid_request (RQ_RegisterPublisherListener t l) = (ValidTopic t)"
| "valid_request (RQ_UnregisterPublisherListener t l) = (ValidTopic t)"
| "valid_request (RQ_PublishMessage t m) = (ValidTopic t \<and> IsMessageLengthValid m)"
| "valid_request (RQ_QueryLocalSysSpec x) = (ValidQueryLocalSpec x)"
| "valid_request (RQ_NotifySourceRemoteSinkStarted d) = (IsIdLengthValid d)"
| "valid_request (RQ_PauseDistributedHardware t d) = (IsIdLengthValid d)"
| "valid_request (RQ_ResumeDistributedHardware t d) = (IsIdLengthValid d)"
| "valid_request (RQ_StopDistributedHardware t d) = (IsIdLengthValid d)"
| "valid_request (RQ_GetDistributedHardware d e l) = (IsIdLengthValid d)"
| "valid_request (RQ_RegisterDHStatusSourceListener d l) = (IsIdLengthValid d)"
| "valid_request (RQ_UnregisterDHStatusSourceListener d l) = (IsIdLengthValid d)"
| "valid_request (RQ_EnableSink ds) = (length ds \<le> 4096)"
| "valid_request (RQ_DisableSink ds) = (length ds \<le> 4096)"
| "valid_request (RQ_EnableSource d ds) = (IsIdLengthValid d \<and> length ds \<le> 4096)"
| "valid_request (RQ_DisableSource d ds) = (IsIdLengthValid d \<and> length ds \<le> 4096)"
| "valid_request (RQ_LoadSinkDMSDPService d) = (IsIdLengthValid d)"
| "valid_request (RQ_NotifySinkRemoteSourceStarted d) = (IsIdLengthValid d)"
| "valid_request _ = True"

text \<open>Callers that the checks of the service let pass: the requests of another device need no permission.\<close>

fun permitted :: "ipc_caller \<Rightarrow> dh_request \<Rightarrow> bool" where
  "permitted k (RQ_NotifySourceRemoteSinkStarted _) = True"
| "permitted k (RQ_PauseDistributedHardware _ _) = (ca_IsLocalCalling k \<and> ca_HasAccessDHPermission k \<and> (ca_IsSystemHap k))"
| "permitted k (RQ_ResumeDistributedHardware _ _) = (ca_IsLocalCalling k \<and> ca_HasAccessDHPermission k \<and> (ca_IsSystemHap k))"
| "permitted k (RQ_StopDistributedHardware _ _) = (ca_IsLocalCalling k \<and> ca_HasAccessDHPermission k \<and> (ca_IsSystemHap k \<or> ca_IsNativeSA k))"
| "permitted k (RQ_LoadSinkDMSDPService _) = True"
| "permitted k (RQ_NotifySinkRemoteSourceStarted _) = True"
| "permitted k _ = (ca_IsLocalCalling k \<and> ca_HasAccessDHPermission k)"

text \<open>
  The transport hands the parcel of a request to the stub; the sender of an asynchronous request does not wait and
  has an empty reply.
\<close>

definition hands_over ::
    "'p parcel_api \<Rightarrow> 's dh_service \<Rightarrow> ipc_caller \<Rightarrow> (nat \<Rightarrow> int) \<Rightarrow> (nat \<Rightarrow> bool \<Rightarrow> 'p \<Rightarrow> 's \<Rightarrow> int \<times> 'p \<times> 's) \<Rightarrow> bool" where
  "hands_over A sv k other SendRequest =
    (\<forall>code async p s. SendRequest code async p s =
       (let (ret, reply, s1) = OnRemoteRequest other code A sv k p (pc_new A) s
        in if async then (NO_ERROR, pc_new A, s1) else (ret, reply, s1)))"

lemmas call_defs = request_def reply_int_def with_descriptors_def answer_def tell_def returned_def proxy_defs handler_defs
  OnRemoteRequest_def OnRemoteRequestEx_def OnRemoteRequestRPC_def
  ValidTopic_def ValidQueryLocalSpec_def Let_def case_prod_beta

lemma call_served:
  assumes L: "parcel_laws A items" and R: "parcel_room A" and H: "hands_over A sv k other SendRequest"
    and "valid_request r" "permitted k r"
  shows "call A (Some SendRequest) h r s = serve sv h r s"
proof -
  have H': "SendRequest code async p s = (let (ret, reply, s1) = OnRemoteRequest other code A sv k p (pc_new A) s
        in if async then (NO_ERROR, pc_new A, s1) else (ret, reply, s1))" for code async p s
    using H by (simp add: hands_over_def)
  note step = H' call_defs put_eqs[OF L R] put_ds_eqs[OF L R] read_eqs[OF L] descriptors_read[OF L] request_codes map_prod_def
  show ?thesis using assms(4,5)
    by (cases r) (auto simp: step)
qed

text \<open>What the checks of the client refuse; from \<open>2 ^ 31\<close> descriptors on the count is negative and the check passes.\<close>

fun descriptor_count :: "dh_request \<Rightarrow> nat" where
  "descriptor_count (RQ_EnableSink ds) = length ds"
| "descriptor_count (RQ_DisableSink ds) = length ds"
| "descriptor_count (RQ_EnableSource d ds) = length ds"
| "descriptor_count (RQ_DisableSource d ds) = length ds"
| "descriptor_count _ = 0"

lemma too_many_descriptors:
  assumes "4096 < length ds" "length ds < 2147483648"
  shows "WriteDescriptors A ds p = Inl ERR_DH_FWK_PARA_INVALID"
proof -
  have "sint (word_of_nat (length ds) :: 32 word) = int (length ds)"
    using assms(2) by (simp add: signed_of_nat signed_take_bit_int_eq_self)
  then show ?thesis using assms(1) by (simp add: WriteDescriptors_def MAX_DH_DESCRIPTOR_ARRAY_SIZE_def)
qed

lemma invalid_call_refused:
  assumes L: "parcel_laws A items" and R: "parcel_room A" and H: "hands_over A sv k other SendRequest"
    and "\<not> valid_request r" "descriptor_count r < 2147483648"
  shows "\<exists>e. e \<noteq> AN_int 0 \<and> call A (Some SendRequest) h r s = (e, s)"
proof -
  have H': "SendRequest code async p s = (let (ret, reply, s1) = OnRemoteRequest other code A sv k p (pc_new A) s
        in if async then (NO_ERROR, pc_new A, s1) else (ret, reply, s1))" for code async p s
    using H by (simp add: hands_over_def)
  note step = H' call_defs put_eqs[OF L R] read_eqs[OF L] request_codes map_prod_def too_many_descriptors
    ERR_DH_AVT_SERVICE_WRITE_INFO_FAIL_def ERR_DH_AVT_SERVICE_IPC_SEND_REQUEST_FAIL_def
  show ?thesis using assms(4,5)
    by (cases r) (auto simp: step)
qed

section \<open>Parcels as lists\<close>

text \<open>The parcel whose view is itself.\<close>

definition list_parcel :: "parcel_item list parcel_api" where
  "list_parcel = \<lparr>pc_new = [],
    pc_WriteInterfaceToken = \<lambda>v p. Some (p @ [PI_InterfaceToken v]), pc_WriteInt32 = \<lambda>v p. Some (p @ [PI_Int32 v]),
    pc_WriteUint32 = \<lambda>v p. Some (p @ [PI_Uint32 v]), pc_WriteUint16 = \<lambda>v p. Some (p @ [PI_Uint16 v]),
    pc_WriteBool = \<lambda>v p. Some (p @ [PI_Bool v]), pc_WriteString = \<lambda>v p. Some (p @ [PI_String v]),
    pc_WriteRemoteObject = \<lambda>v p. Some (p @ [PI_RemoteObject v]),
    pc_ReadInterfaceToken = \<lambda>p. (case p of PI_InterfaceToken v # r \<Rightarrow> (v, r) | _ \<Rightarrow> ([], p)),
    pc_ReadInt32 = \<lambda>p. (case p of PI_Int32 v # r \<Rightarrow> (v, r) | _ \<Rightarrow> (0, p)),
    pc_ReadUint32 = \<lambda>p. (case p of PI_Uint32 v # r \<Rightarrow> (v, r) | _ \<Rightarrow> (0, p)),
    pc_ReadUint16 = \<lambda>p. (case p of PI_Uint16 v # r \<Rightarrow> (v, r) | _ \<Rightarrow> (0, p)),
    pc_ReadBool = \<lambda>p. (case p of PI_Bool v # r \<Rightarrow> (v, r) | _ \<Rightarrow> (False, p)),
    pc_ReadString = \<lambda>p. (case p of PI_String v # r \<Rightarrow> (v, r) | _ \<Rightarrow> ([], p)),
    pc_ReadRemoteObject = \<lambda>p. (case p of PI_RemoteObject v # r \<Rightarrow> (Some v, r) | _ \<Rightarrow> (None, p))\<rparr>"

lemma list_parcel_laws: "parcel_laws list_parcel id" "parcel_room list_parcel"
  by (simp_all add: parcel_laws_def parcel_room_def list_parcel_def)

text \<open>A service that writes down what it is asked to, and a caller of an application of the system.\<close>

definition noting :: "dh_request list dh_service" where
  "noting = \<lparr>sv_RegisterPublisherListener = \<lambda>t l s. (0, s @ [RQ_RegisterPublisherListener t l]),
    sv_UnregisterPublisherListener = \<lambda>t l s. (0, s @ [RQ_UnregisterPublisherListener t l]),
    sv_PublishMessage = \<lambda>t m s. (0, s @ [RQ_PublishMessage t m]), sv_QueryLocalSysSpec = \<lambda>x s. (''spec'', s @ [RQ_QueryLocalSysSpec x]),
    sv_InitializeAVCenter = \<lambda>x s. (1, 0, s @ [RQ_InitializeAVCenter x]), sv_ReleaseAVCenter = \<lambda>e s. (0, s @ [RQ_ReleaseAVCenter e]),
    sv_CreateControlChannel = \<lambda>e d s. (0, s @ [RQ_CreateControlChannel e d]), sv_NotifyAVCenter = \<lambda>e v s. (0, s @ [RQ_NotifyAVCenter e v]),
    sv_RegisterCtlCenterCallback = \<lambda>e l s. (0, s @ [RQ_RegisterCtlCenterCallback e l]),
    sv_NotifySourceRemoteSinkStarted = \<lambda>d s. (0, s @ [RQ_NotifySourceRemoteSinkStarted d]),
    sv_PauseDistributedHardware = \<lambda>t d s. (0, s @ [RQ_PauseDistributedHardware t d]),
    sv_ResumeDistributedHardware = \<lambda>t d s. (0, s @ [RQ_ResumeDistributedHardware t d]),
    sv_StopDistributedHardware = \<lambda>t d s. (0, s @ [RQ_StopDistributedHardware t d]),
    sv_GetDistributedHardware = \<lambda>d e l s. (0, s @ [RQ_GetDistributedHardware d e l]),
    sv_RegisterDHStatusSinkListener = \<lambda>l s. (0, s @ [RQ_RegisterDHStatusSinkListener l]),
    sv_UnregisterDHStatusSinkListener = \<lambda>l s. (0, s @ [RQ_UnregisterDHStatusSinkListener l]),
    sv_RegisterDHStatusSourceListener = \<lambda>d l s. (0, s @ [RQ_RegisterDHStatusSourceListener d l]),
    sv_UnregisterDHStatusSourceListener = \<lambda>d l s. (0, s @ [RQ_UnregisterDHStatusSourceListener d l]),
    sv_EnableSink = \<lambda>ds s. (7, s @ [RQ_EnableSink ds]), sv_DisableSink = \<lambda>ds s. (0, s @ [RQ_DisableSink ds]),
    sv_EnableSource = \<lambda>d ds s. (- 2, s @ [RQ_EnableSource d ds]), sv_DisableSource = \<lambda>d ds s. (0, s @ [RQ_DisableSource d ds]),
    sv_LoadDistributedHDF = \<lambda>t s. (0, s @ [RQ_LoadDistributedHDF t]), sv_UnLoadDistributedHDF = \<lambda>t s. (0, s @ [RQ_UnLoadDistributedHDF t]),
    sv_AddDeathRecipient = \<lambda>t l s. (0, s), sv_RemoveDeathRecipient = \<lambda>t l s. (0, s),
    sv_LoadSinkDMSDPService = \<lambda>d s. (0, s @ [RQ_LoadSinkDMSDPService d]),
    sv_NotifySinkRemoteSourceStarted = \<lambda>d s. (0, s @ [RQ_NotifySinkRemoteSourceStarted d]),
    sv_RegisterHardwareAccessListener = \<lambda>t l w n s. (0, s @ [RQ_RegisterHardwareAccessListener t l w n]),
    sv_UnregisterHardwareAccessListener = \<lambda>t l n s. (0, s @ [RQ_UnregisterHardwareAccessListener t l n]),
    sv_SetAuthorizationResult = \<lambda>t i g s. s @ [RQ_SetAuthorizationResult t i g]\<rparr>"

definition app_caller :: ipc_caller where
  "app_caller = \<lparr>ca_IsLocalCalling = True, ca_HasAccessDHPermission = True, ca_IsSystemHap = True, ca_IsNativeSA = False,
    ca_ERR_INVALID_DATA = -1\<rparr>"

definition to_stub :: "nat \<Rightarrow> bool \<Rightarrow> parcel_item list \<Rightarrow> dh_request list \<Rightarrow> int \<times> parcel_item list \<times> dh_request list" where
  "to_stub code async p s =
     (let (ret, reply, s1) = OnRemoteRequest (\<lambda>_. -1) code list_parcel noting app_caller p (pc_new list_parcel) s
      in if async then (NO_ERROR, pc_new list_parcel, s1) else (ret, reply, s1))"

lemma to_stub_hands_over: "hands_over list_parcel noting app_caller (\<lambda>_. -1) to_stub"
  by (simp add: hands_over_def to_stub_def)

lemma app_caller_permitted: "ca_IsLocalCalling app_caller" "ca_HasAccessDHPermission app_caller"
  by (simp_all add: app_caller_def)

lemma noting_answers: "returned (sv_EnableSource noting d ds s) = (AN_int (- 2), s @ [RQ_EnableSource d ds])"
  by (simp add: noting_def returned_def)

lemma refused_remote:
  assumes "code \<noteq> NOTIFY_SOURCE_DEVICE_REMOTE_DMSDP_STARTED" "code \<noteq> INIT_SINK_DMSDP" "code \<noteq> NOTIFY_SINK_DEVICE_REMOTE_DMSDP_STARTED"
    and "\<not> ca_IsLocalCalling k" "ca_ERR_INVALID_DATA k \<noteq> DH_FWK_SUCCESS"
  shows "\<exists>e. e \<noteq> DH_FWK_SUCCESS \<and> OnRemoteRequest other code A sv k data reply s = (e, reply, s)"
  using assms by (simp add: OnRemoteRequest_def Let_def case_prod_beta)

definition refuses :: "'p \<Rightarrow> 's \<Rightarrow> int \<times> 'p \<times> 's \<Rightarrow> bool" where
  "refuses reply s r = (\<exists>e. e \<noteq> DH_FWK_SUCCESS \<and> r = (e, reply, s))"

lemma refuses_error [simp]: "refuses reply s (e, reply, s) = (e \<noteq> DH_FWK_SUCCESS)"
  by (simp add: refuses_def)

lemma refuses_if: "refuses reply s (if c then r1 else r2) = ((c \<longrightarrow> refuses reply s r1) \<and> (\<not> c \<longrightarrow> refuses reply s r2))"
  by simp

text \<open>Without the permission, and for a code that is none of the three, every branch ends in an error.\<close>

lemma refused_without_permission:
  assumes "code \<noteq> NOTIFY_SOURCE_DEVICE_REMOTE_DMSDP_STARTED" "code \<noteq> INIT_SINK_DMSDP" "code \<noteq> NOTIFY_SINK_DEVICE_REMOTE_DMSDP_STARTED"
    and "\<not> ca_HasAccessDHPermission k" "ca_ERR_INVALID_DATA k \<noteq> DH_FWK_SUCCESS" "other code \<noteq> DH_FWK_SUCCESS"
  shows "\<exists>e. e \<noteq> DH_FWK_SUCCESS \<and> OnRemoteRequest other code A sv k data reply s = (e, reply, s)"
proof -
  have "refuses reply s (OnRemoteRequestRPC other code A sv k d reply s)" for d
    unfolding OnRemoteRequestRPC_def handler_defs using assms by (simp add: refuses_if del: if_split)
  then have "refuses reply s (OnRemoteRequestEx other code A sv k d reply s)" for d
    unfolding OnRemoteRequestEx_def handler_defs using assms(4) by (simp add: refuses_if del: if_split)
  then have "refuses reply s (OnRemoteRequest other code A sv k data reply s)"
    unfolding OnRemoteRequest_def handler_defs using assms(4,5) by (simp add: refuses_if Let_def case_prod_beta del: if_split)
  then show ?thesis by (simp add: refuses_def)
qed

section \<open>Properties\<close>



text \<open>
  C10: A caller without the permission reaches nothing.  Whatever the parcel holds and whatever the request code, with
  the exception of the three codes that another device sends, a caller that is not of this device or has not the
  permission to access distributed hardware gets an error, the reply stays as it was, and so does the
  service.
\<close>

theorem no_permission_no_effect:
  "code \<notin> {NOTIFY_SOURCE_DEVICE_REMOTE_DMSDP_STARTED, INIT_SINK_DMSDP, NOTIFY_SINK_DEVICE_REMOTE_DMSDP_STARTED}
   \<and> \<not> (ca_IsLocalCalling k \<and> ca_HasAccessDHPermission k) \<and> other code \<noteq> DH_FWK_SUCCESS \<and> ca_ERR_INVALID_DATA k \<noteq> DH_FWK_SUCCESS
   \<longrightarrow> (\<exists>e. e \<noteq> DH_FWK_SUCCESS \<and> OnRemoteRequest other code A sv k data reply s = (e, reply, s))"
  using refused_remote refused_without_permission by (metis insertCI)

theorem no_permission_no_effect_witness:
  "\<exists>e. e \<noteq> DH_FWK_SUCCESS \<and> OnRemoteRequest (\<lambda>_. -1) ENABLE_SINK list_parcel noting
      (app_caller\<lparr>ca_HasAccessDHPermission := False\<rparr>) [PI_InterfaceToken GetDescriptor, PI_Int32 0] [] [] = (e, [], [])"
  using no_permission_no_effect[of ENABLE_SINK "app_caller\<lparr>ca_HasAccessDHPermission := False\<rparr>" "\<lambda>_. -1" list_parcel noting
      "[PI_InterfaceToken GetDescriptor, PI_Int32 0]" "[]" "[]"]
  by (simp add: request_codes app_caller_def)

text \<open>
  C18: An invalid request changes nothing.  A call with a topic or a specification outside its range, a device id of a
  wrong length, a message that is too long or more than 4096 descriptors (fewer than 2 to the 31st) is refused, by the
  client or by the stub: it does not answer with success, and the service keeps its state.
\<close>

theorem invalid_request_refused:
  "parcel_laws A items \<and> parcel_room A \<and> hands_over A sv k other SendRequest
   \<and> \<not> valid_request r \<and> descriptor_count r < 2 ^ 31
   \<longrightarrow> (\<exists>e. e \<noteq> AN_int 0 \<and> call A (Some SendRequest) h r s = (e, s))"
  by (intro impI, elim conjE, rule invalid_call_refused) simp_all

theorem invalid_request_refused_witness:
  "\<exists>e. e \<noteq> AN_int 0 \<and> call list_parcel (Some to_stub) 9 (RQ_NotifySourceRemoteSinkStarted []) [] = (e, [])"
  using invalid_request_refused[of list_parcel id noting app_caller "\<lambda>_. -1" to_stub "RQ_NotifySourceRemoteSinkStarted []" 9 "[]"]
  by (simp add: list_parcel_laws to_stub_hands_over IsIdLengthValid_def)

end
