(* ===== verification/Listener_Ipc.thy ===== *)
theory Listener_Ipc
  imports Service_Proxy
begin

text \<open>
  The listeners of the clients and of the service, each with a proxy and a stub: messages of a topic
  (\<open>publisher_listener_proxy.cpp\<close>, \<open>publisher_listener_stub.cpp\<close>), hardware that was enabled or disabled
  (\<open>hardware_status_listener_*.cpp\<close>), the hardware of a device (\<open>get_dh_descriptors_callback_*.cpp\<close>), and the requests
  and results of an authorisation (\<open>access_listener_*.cpp\<close>, \<open>authorization_result_callback_*.cpp\<close>).  A proxy
  writes its arguments and sends them, and tells nothing of what came of it; a stub gives the number it returns and
  the call of the listener it makes, if any.
\<close>

record AuthDeviceInfo =
  au_networkId :: string
  au_deviceName :: string
  au_deviceType :: "16 word"

datatype listener_call =
    LC_OnMessage "32 word" string
  | LC_SinkOnEnable DHDescriptor
  | LC_SinkOnDisable DHDescriptor
  | LC_SourceOnEnable string DHDescriptor
  | LC_SourceOnDisable string DHDescriptor
  | LC_OnSuccess string "DHDescriptor list" "32 word"
  | LC_OnError string "32 word"
  | LC_OnAuthorizationResult string string
  | LC_OnRequestHardwareAccess string AuthDeviceInfo "32 word" string

section \<open>Interfaces\<close>

definition IPublisherListener_descriptor :: string where
  "IPublisherListener_descriptor = ''ohos.DistributedHardware.DistributedHardwareFwk.IPublisherListener''"
definition IHDSinkStatusListener_descriptor :: string where
  "IHDSinkStatusListener_descriptor = ''ohos.DistributedHardware.DistributedHardwareFwk.IHDSinkStatusListener''"
definition IHDSourceStatusListener_descriptor :: string where
  "IHDSourceStatusListener_descriptor = ''ohos.DistributedHardware.DistributedHardwareFwk.IHDSourceStatusListener''"
definition IGetDhDescriptorsCallback_descriptor :: string where
  "IGetDhDescriptorsCallback_descriptor = ''ohos.DistributedHardware.DistributedHardwareFwk.IGetDhDescriptorsCallback''"
definition IAuthorizationResultCallback_descriptor :: string where
  "IAuthorizationResultCallback_descriptor = ''ohos.DistributedHardware.DistributedHardwareFwk.IAuthorizationResultCallback''"
definition IAccessListener_descriptor :: string where
  "IAccessListener_descriptor = ''ohos.DistributedHardware.DistributedHardwareFwk.IAccessListener''"

definition ON_MESSAGE :: nat where "ON_MESSAGE = 0"
definition Sink_ON_ENABLE :: nat where "Sink_ON_ENABLE = 0"
definition Sink_ON_DISABLE :: nat where "Sink_ON_DISABLE = 1"
definition Source_ON_ENABLE :: nat where "Source_ON_ENABLE = 0"
definition Source_ON_DISABLE :: nat where "Source_ON_DISABLE = 1"
definition ON_SUCCESS :: nat where "ON_SUCCESS = 0"
definition ON_ERROR :: nat where "ON_ERROR = 1"
definition ON_AUTHORIZATION_RESULT :: nat where "ON_AUTHORIZATION_RESULT = 0"
definition ON_REQUEST_HARDWARE_ACCESS :: nat where "ON_REQUEST_HARDWARE_ACCESS = 0"

lemmas listener_codes =
  ON_MESSAGE_def Sink_ON_ENABLE_def Sink_ON_DISABLE_def Source_ON_ENABLE_def Source_ON_DISABLE_def ON_SUCCESS_def ON_ERROR_def
  ON_AUTHORIZATION_RESULT_def ON_REQUEST_HARDWARE_ACCESS_def

section \<open>Proxies\<close>

text \<open>What all methods share: a failed write ends the method, and the answer is not looked at.\<close>

definition send_off :: "(nat \<Rightarrow> bool \<Rightarrow> 'p \<Rightarrow> 's \<Rightarrow> int \<times> 'p \<times> 's) \<Rightarrow> nat \<Rightarrow> int + 'p \<Rightarrow> 's \<Rightarrow> 's" where
  "send_off SendRequest code data s =
    (case data of Inl _ \<Rightarrow> s | Inr p \<Rightarrow> let (ret, reply, s1) = SendRequest code False p s in s1)"

definition PublisherListenerProxy_OnMessage ::
    "'p parcel_api \<Rightarrow> ('p, 's) remote \<Rightarrow> 32 word \<Rightarrow> string \<Rightarrow> 's \<Rightarrow> 's" where
  "PublisherListenerProxy_OnMessage A remote topic message s =
    (case remote of None \<Rightarrow> s | Some SendRequest \<Rightarrow>
     (if topic \<le> TOPIC_MIN \<or> TOPIC_MAX \<le> topic then s
      else if \<not> IsMessageLengthValid message then s
      else send_off SendRequest ON_MESSAGE
       (writes [(pc_WriteInterfaceToken A IPublisherListener_descriptor, 0), (pc_WriteUint32 A topic, 0),
                (pc_WriteString A message, 0)] (pc_new A)) s))"

definition HDSinkStatusListenerProxy_OnEnable :: "'p parcel_api \<Rightarrow> ('p, 's) remote \<Rightarrow> DHDescriptor \<Rightarrow> 's \<Rightarrow> 's" where
  "HDSinkStatusListenerProxy_OnEnable A remote dhDescriptor s =
    (case remote of None \<Rightarrow> s | Some SendRequest \<Rightarrow>
      send_off SendRequest Sink_ON_ENABLE
       (writes [(pc_WriteInterfaceToken A IHDSinkStatusListener_descriptor, 0), (pc_WriteUint32 A (dd_dhType dhDescriptor), 0),
                (pc_WriteString A (dd_id dhDescriptor), 0)] (pc_new A)) s)"

definition HDSinkStatusListenerProxy_OnDisable :: "'p parcel_api \<Rightarrow> ('p, 's) remote \<Rightarrow> DHDescriptor \<Rightarrow> 's \<Rightarrow> 's" where
  "HDSinkStatusListenerProxy_OnDisable A remote dhDescriptor s =
    (case remote of None \<Rightarrow> s | Some SendRequest \<Rightarrow>
      send_off SendRequest Sink_ON_DISABLE
       (writes [(pc_WriteInterfaceToken A IHDSinkStatusListener_descriptor, 0), (pc_WriteUint32 A (dd_dhType dhDescriptor), 0),
                (pc_WriteString A (dd_id dhDescriptor), 0)] (pc_new A)) s)"

definition HDSourceStatusListenerProxy_OnEnable :: "'p parcel_api \<Rightarrow> ('p, 's) remote \<Rightarrow> string \<Rightarrow> DHDescriptor \<Rightarrow> 's \<Rightarrow> 's" where
  "HDSourceStatusListenerProxy_OnEnable A remote networkId dhDescriptor s =
    (if \<not> IsIdLengthValid networkId then s
     else case remote of None \<Rightarrow> s | Some SendRequest \<Rightarrow>
      send_off SendRequest Source_ON_ENABLE
       (writes [(pc_WriteInterfaceToken A IHDSourceStatusListener_descriptor, 0), (pc_WriteString A networkId, 0),
                (pc_WriteUint32 A (dd_dhType dhDescriptor), 0), (pc_WriteString A (dd_id dhDescriptor), 0)] (pc_new A)) s)"

definition HDSourceStatusListenerProxy_OnDisable :: "'p parcel_api \<Rightarrow> ('p, 's) remote \<Rightarrow> string \<Rightarrow> DHDescriptor \<Rightarrow> 's \<Rightarrow> 's" where
  "HDSourceStatusListenerProxy_OnDisable A remote networkId dhDescriptor s =
    (if \<not> IsIdLengthValid networkId then s
     else case remote of None \<Rightarrow> s | Some SendRequest \<Rightarrow>
      send_off SendRequest Source_ON_DISABLE
       (writes [(pc_WriteInterfaceToken A IHDSourceStatusListener_descriptor, 0), (pc_WriteString A networkId, 0),
                (pc_WriteUint32 A (dd_dhType dhDescriptor), 0), (pc_WriteString A (dd_id dhDescriptor), 0)] (pc_new A)) s)"

text \<open>
  The descriptors of this callback are their type and id only, and their number is unsigned.
\<close>

fun write_short_descriptors :: "'p parcel_api \<Rightarrow> DHDescriptor list \<Rightarrow> 'p \<Rightarrow> int + 'p" where
  "write_short_descriptors A [] p = Inr p"
| "write_short_descriptors A (d # ds) p =
    (case writes [(pc_WriteUint32 A (dd_dhType d), ERR_DH_AVT_SERVICE_WRITE_INFO_FAIL),
                  (pc_WriteString A (dd_id d), ERR_DH_AVT_SERVICE_WRITE_INFO_FAIL)] p of
       Inl e \<Rightarrow> Inl e | Inr p1 \<Rightarrow> write_short_descriptors A ds p1)"

definition Callback_WriteDescriptors :: "'p parcel_api \<Rightarrow> DHDescriptor list \<Rightarrow> 'p \<Rightarrow> int + 'p" where
  "Callback_WriteDescriptors A descriptors p =
    (let n = word_of_nat (length descriptors) :: 32 word in
     if MAX_DH_DESCRIPTOR_ARRAY_SIZE < n then Inl ERR_DH_FWK_PARA_INVALID
     else case pc_WriteUint32 A n p of
            None \<Rightarrow> Inl ERR_DH_AVT_SERVICE_WRITE_INFO_FAIL
          | Some p1 \<Rightarrow> write_short_descriptors A (take (unat n) descriptors) p1)"

definition GetDhDescriptorsCallbackProxy_OnSuccess ::
    "'p parcel_api \<Rightarrow> ('p, 's) remote \<Rightarrow> string \<Rightarrow> DHDescriptor list \<Rightarrow> 32 word \<Rightarrow> 's \<Rightarrow> 's" where
  "GetDhDescriptorsCallbackProxy_OnSuccess A remote networkId descriptors enableStep s =
    (case remote of None \<Rightarrow> s | Some SendRequest \<Rightarrow>
      send_off SendRequest ON_SUCCESS
       (case writes [(pc_WriteInterfaceToken A IGetDhDescriptorsCallback_descriptor, 0), (pc_WriteString A networkId, 0)] (pc_new A) of
          Inl e \<Rightarrow> Inl e
        | Inr p \<Rightarrow>
           (case Callback_WriteDescriptors A descriptors p of
              Inl e \<Rightarrow> Inl e
            | Inr p1 \<Rightarrow> writes [(pc_WriteUint32 A enableStep, 0)] p1)) s)"

definition GetDhDescriptorsCallbackProxy_OnError ::
    "'p parcel_api \<Rightarrow> ('p, 's) remote \<Rightarrow> string \<Rightarrow> 32 word \<Rightarrow> 's \<Rightarrow> 's" where
  "GetDhDescriptorsCallbackProxy_OnError A remote networkId error s =
    (case remote of None \<Rightarrow> s | Some SendRequest \<Rightarrow>
      send_off SendRequest ON_ERROR
       (writes [(pc_WriteInterfaceToken A IGetDhDescriptorsCallback_descriptor, 0), (pc_WriteString A networkId, 0),
                (pc_WriteInt32 A error, 0)] (pc_new A)) s)"

definition AuthorizationResultCallbackProxy_OnAuthorizationResult ::
    "'p parcel_api \<Rightarrow> ('p, 's) remote \<Rightarrow> string \<Rightarrow> string \<Rightarrow> 's \<Rightarrow> 's" where
  "AuthorizationResultCallbackProxy_OnAuthorizationResult A remote networkId requestId s =
    (case remote of None \<Rightarrow> s | Some SendRequest \<Rightarrow>
      send_off SendRequest ON_AUTHORIZATION_RESULT
       (writes [(pc_WriteInterfaceToken A IAuthorizationResultCallback_descriptor, 0), (pc_WriteString A networkId, 0),
                (pc_WriteString A requestId, 0)] (pc_new A)) s)"

definition WriteDeviceInfo :: "'p parcel_api \<Rightarrow> AuthDeviceInfo \<Rightarrow> 'p \<Rightarrow> int + 'p" where
  "WriteDeviceInfo A info =
    writes [(pc_WriteString A (au_networkId info), ERR_DH_AVT_SERVICE_WRITE_INFO_FAIL),
            (pc_WriteString A (au_deviceName info), ERR_DH_AVT_SERVICE_WRITE_INFO_FAIL),
            (pc_WriteUint16 A (au_deviceType info), ERR_DH_AVT_SERVICE_WRITE_INFO_FAIL)]"

definition AccessListenerProxy_OnRequestHardwareAccess ::
    "'p parcel_api \<Rightarrow> ('p, 's) remote \<Rightarrow> string \<Rightarrow> AuthDeviceInfo \<Rightarrow> 32 word \<Rightarrow> string \<Rightarrow> 's \<Rightarrow> 's" where
  "AccessListenerProxy_OnRequestHardwareAccess A remote requestId info dhType pkgName s =
    (case remote of None \<Rightarrow> s | Some SendRequest \<Rightarrow>
      send_off SendRequest ON_REQUEST_HARDWARE_ACCESS
       (case writes [(pc_WriteInterfaceToken A IAccessListener_descriptor, 0), (pc_WriteString A requestId, 0)] (pc_new A) of
          Inl e \<Rightarrow> Inl e
        | Inr p \<Rightarrow>
           (case WriteDeviceInfo A info p of
              Inl e \<Rightarrow> Inl e
            | Inr p1 \<Rightarrow> writes [(pc_WriteUint32 A dhType, 0), (pc_WriteString A pkgName, 0)] p1)) s)"

lemmas listener_proxy_defs =
  PublisherListenerProxy_OnMessage_def HDSinkStatusListenerProxy_OnEnable_def HDSinkStatusListenerProxy_OnDisable_def
  HDSourceStatusListenerProxy_OnEnable_def HDSourceStatusListenerProxy_OnDisable_def GetDhDescriptorsCallbackProxy_OnSuccess_def
  GetDhDescriptorsCallbackProxy_OnError_def AuthorizationResultCallbackProxy_OnAuthorizationResult_def
  AccessListenerProxy_OnRequestHardwareAccess_def WriteDeviceInfo_def send_off_def

section \<open>Stubs\<close>

text \<open>A request of another interface gives \<open>invalid_data\<close>, the code \<open>ERR_INVALID_DATA\<close>; another number goes to the base class.\<close>

definition PublisherListenerStub_OnRemoteRequest ::
    "'p parcel_api \<Rightarrow> int \<Rightarrow> (nat \<Rightarrow> int) \<Rightarrow> nat \<Rightarrow> 'p \<Rightarrow> int \<times> listener_call option" where
  "PublisherListenerStub_OnRemoteRequest A invalid_data other code data =
    (let (token, data) = pc_ReadInterfaceToken A data in
     if token \<noteq> IPublisherListener_descriptor then (invalid_data, None)
     else if code = ON_MESSAGE then
       let (topic, data) = pc_ReadUint32 A data in
       if topic \<le> TOPIC_MIN \<or> TOPIC_MAX \<le> topic then (invalid_data, None)
       else let (message, data) = pc_ReadString A data in
            if message = [] \<or> MAX_MESSAGE_LEN < length message then (invalid_data, None)
            else (DH_FWK_SUCCESS, Some (LC_OnMessage topic message))
     else (other code, None))"

text \<open>The descriptor a stub builds: no parameters, and no token.\<close>

definition short_descriptor :: "32 word \<Rightarrow> string \<Rightarrow> DHDescriptor" where
  "short_descriptor t i = \<lparr>dd_id = i, dd_dhType = t, dd_customParams = [], dd_firstCallingTokenId = 0\<rparr>"

definition HDSinkStatusListenerStub_OnRemoteRequest ::
    "'p parcel_api \<Rightarrow> int \<Rightarrow> (nat \<Rightarrow> int) \<Rightarrow> nat \<Rightarrow> 'p \<Rightarrow> int \<times> listener_call option" where
  "HDSinkStatusListenerStub_OnRemoteRequest A invalid_data other code data =
    (let (token, data) = pc_ReadInterfaceToken A data in
     if token \<noteq> IHDSinkStatusListener_descriptor then (invalid_data, None)
     else let (dhType, data) = pc_ReadUint32 A data; (i, data) = pc_ReadString A data in
          if code = Sink_ON_ENABLE then (DH_FWK_SUCCESS, Some (LC_SinkOnEnable (short_descriptor dhType i)))
          else if code = Sink_ON_DISABLE then (DH_FWK_SUCCESS, Some (LC_SinkOnDisable (short_descriptor dhType i)))
          else (other code, None))"

definition HDSourceStatusListenerStub_OnRemoteRequest ::
    "'p parcel_api \<Rightarrow> int \<Rightarrow> (nat \<Rightarrow> int) \<Rightarrow> nat \<Rightarrow> 'p \<Rightarrow> int \<times> listener_call option" where
  "HDSourceStatusListenerStub_OnRemoteRequest A invalid_data other code data =
    (let (token, data) = pc_ReadInterfaceToken A data in
     if token \<noteq> IHDSourceStatusListener_descriptor then (invalid_data, None)
     else let (networkId, data) = pc_ReadString A data; (dhType, data) = pc_ReadUint32 A data; (i, data) = pc_ReadString A data in
          if code = Sink_ON_ENABLE then (DH_FWK_SUCCESS, Some (LC_SourceOnEnable networkId (short_descriptor dhType i)))
          else if code = Sink_ON_DISABLE then (DH_FWK_SUCCESS, Some (LC_SourceOnDisable networkId (short_descriptor dhType i)))
          else (other code, None))"

fun read_short_descriptors :: "'p parcel_api \<Rightarrow> nat \<Rightarrow> 'p \<Rightarrow> DHDescriptor list \<times> 'p" where
  "read_short_descriptors A 0 p = ([], p)"
| "read_short_descriptors A (Suc n) p =
    (let (dhType, p) = pc_ReadUint32 A p; (i, p) = pc_ReadString A p; (ds, p) = read_short_descriptors A n p
     in (short_descriptor dhType i # ds, p))"

definition Callback_ReadDescriptors :: "'p parcel_api \<Rightarrow> 'p \<Rightarrow> int \<times> DHDescriptor list \<times> 'p" where
  "Callback_ReadDescriptors A p =
    (let (n, p) = pc_ReadUint32 A p in
     if MAX_DH_DESCRIPTOR_ARRAY_SIZE < n then (ERR_DH_FWK_PARA_INVALID, [], p)
     else (NO_ERROR, read_short_descriptors A (unat n) p))"

text \<open>As in the stub of the service, the result of \<open>ReadDescriptors\<close> is not checked.\<close>

definition GetDhDescriptorsCallbackStub_OnRemoteRequest ::
    "'p parcel_api \<Rightarrow> int \<Rightarrow> (nat \<Rightarrow> int) \<Rightarrow> nat \<Rightarrow> 'p \<Rightarrow> int \<times> listener_call option" where
  "GetDhDescriptorsCallbackStub_OnRemoteRequest A invalid_data other code data =
    (let (token, data) = pc_ReadInterfaceToken A data in
     if token \<noteq> IGetDhDescriptorsCallback_descriptor then (invalid_data, None)
     else if code = ON_SUCCESS then
       let (networkId, data) = pc_ReadString A data; (_, descriptors, data) = Callback_ReadDescriptors A data;
           (enableStep, data) = pc_ReadUint32 A data
       in (DH_FWK_SUCCESS, Some (LC_OnSuccess networkId descriptors enableStep))
     else if code = ON_ERROR then
       let (networkId, data) = pc_ReadString A data; (error, data) = pc_ReadInt32 A data
       in (DH_FWK_SUCCESS, Some (LC_OnError networkId error))
     else (other code, None))"

definition AuthorizationResultCallbackStub_OnRemoteRequest ::
    "'p parcel_api \<Rightarrow> int \<Rightarrow> (nat \<Rightarrow> int) \<Rightarrow> nat \<Rightarrow> 'p \<Rightarrow> int \<times> listener_call option" where
  "AuthorizationResultCallbackStub_OnRemoteRequest A invalid_data other code data =
    (let (token, data) = pc_ReadInterfaceToken A data in
     if token \<noteq> IAuthorizationResultCallback_descriptor then (invalid_data, None)
     else if code = ON_AUTHORIZATION_RESULT then
       let (networkId, data) = pc_ReadString A data; (requestId, data) = pc_ReadString A data
       in (DH_FWK_SUCCESS, Some (LC_OnAuthorizationResult networkId requestId))
     else (other code, None))"

definition ReadDeviceInfo :: "'p parcel_api \<Rightarrow> 'p \<Rightarrow> AuthDeviceInfo \<times> 'p" where
  "ReadDeviceInfo A data =
    (let (networkId, data) = pc_ReadString A data; (deviceName, data) = pc_ReadString A data; (deviceType, data) = pc_ReadUint16 A data
     in (\<lparr>au_networkId = networkId, au_deviceName = deviceName, au_deviceType = deviceType\<rparr>, data))"

definition AccessListenerStub_OnRemoteRequest ::
    "'p parcel_api \<Rightarrow> int \<Rightarrow> (nat \<Rightarrow> int) \<Rightarrow> nat \<Rightarrow> 'p \<Rightarrow> int \<times> listener_call option" where
  "AccessListenerStub_OnRemoteRequest A invalid_data other code data =
    (let (token, data) = pc_ReadInterfaceToken A data in
     if token \<noteq> IAccessListener_descriptor then (invalid_data, None)
     else if code = ON_REQUEST_HARDWARE_ACCESS then
       let (requestId, data) = pc_ReadString A data; (info, data) = ReadDeviceInfo A data; (dhType, data) = pc_ReadUint32 A data;
           (pkgName, data) = pc_ReadString A data
       in (DH_FWK_SUCCESS, Some (LC_OnRequestHardwareAccess requestId info dhType pkgName))
     else (other code, None))"

lemmas listener_stub_defs =
  PublisherListenerStub_OnRemoteRequest_def HDSinkStatusListenerStub_OnRemoteRequest_def HDSourceStatusListenerStub_OnRemoteRequest_def
  GetDhDescriptorsCallbackStub_OnRemoteRequest_def AuthorizationResultCallbackStub_OnRemoteRequest_def ReadDeviceInfo_def
  AccessListenerStub_OnRemoteRequest_def

end
