(* ===== verification/Listener_Properties.thy ===== *)
theory Listener_Properties
  imports Listener_Ipc Ipc_Properties
begin

text \<open>What a listener hears of what its proxy is told.\<close>

section \<open>Descriptors of the callback\<close>

definition short_items :: "DHDescriptor \<Rightarrow> parcel_item list" where
  "short_items d = [PI_Uint32 (dd_dhType d), PI_String (dd_id d)]"

lemma written_short_descriptors:
  assumes "parcel_laws A items" "parcel_room A"
  shows "\<exists>p'. write_short_descriptors A ds p = Inr p' \<and> items p' = items p @ concat (map short_items ds)"
proof (induction ds arbitrary: p)
  case (Cons d ds)
  let ?ws = "[(pc_WriteUint32 A (dd_dhType d), ERR_DH_AVT_SERVICE_WRITE_INFO_FAIL),
        (pc_WriteString A (dd_id d), ERR_DH_AVT_SERVICE_WRITE_INFO_FAIL)]"
  have "list_all2 (\<lambda>w i. appends items (fst w) i) ?ws (short_items d)"
    by (simp add: short_items_def appendsI[OF assms])
  from writes_items[OF this] obtain p1 where p1: "writes ?ws p = Inr p1" "items p1 = items p @ short_items d"
    by blast
  moreover obtain p2 where "write_short_descriptors A ds p1 = Inr p2" "items p2 = items p1 @ concat (map short_items ds)"
    using Cons.IH by blast
  ultimately show ?case by (intro exI[of _ p2]) (simp del: writes.simps)
qed simp

lemma read_back_short_descriptors:
  assumes "parcel_laws A items"
  shows "items p = concat (map short_items ds) @ r \<Longrightarrow>
    fst (read_short_descriptors A (length ds) p) = map (\<lambda>d. short_descriptor (dd_dhType d) (dd_id d)) ds
    \<and> items (snd (read_short_descriptors A (length ds) p)) = r"
proof (induction ds arbitrary: p)
  case (Cons d ds)
  let ?p = "snd (pc_ReadString A (snd (pc_ReadUint32 A p)))"
  have "items ?p = concat (map short_items ds) @ r" using Cons.prems readsD[OF assms] by (simp add: short_items_def[of d])
  from Cons.IH[OF this] show ?case using Cons.prems readsD[OF assms]
    by (simp add: short_items_def[of d] Let_def case_prod_beta)
qed simp

lemma count_unsigned: "length ds \<le> 4096 \<Longrightarrow> unat (word_of_nat (length ds) :: 32 word) = length ds"
  by (simp add: unat_of_nat)

definition put_shorts :: "'p parcel_api \<Rightarrow> DHDescriptor list \<Rightarrow> 'p \<Rightarrow> 'p" where
  "put_shorts A ds p = projr (Callback_WriteDescriptors A ds p)"

lemma put_shorts_eqs:
  assumes "parcel_laws A items" "parcel_room A" "length ds \<le> 4096"
  shows "Callback_WriteDescriptors A ds p = Inr (put_shorts A ds p)"
    "items (put_shorts A ds p) = items p @ PI_Uint32 (word_of_nat (length ds)) # concat (map short_items ds)"
proof -
  let ?p1 = "put (pc_WriteUint32 A (word_of_nat (length ds))) p"
  obtain p2 where p2: "write_short_descriptors A ds ?p1 = Inr p2" "items p2 = items ?p1 @ concat (map short_items ds)"
    using written_short_descriptors[OF assms(1,2)] by blast
  have "Callback_WriteDescriptors A ds p = Inr p2"
    using p2(1) count_unsigned[OF assms(3)] assms(3)
    by (simp add: Callback_WriteDescriptors_def put_eqs[OF assms(1,2)] MAX_DH_DESCRIPTOR_ARRAY_SIZE_def word_less_nat_alt)
  then show "Callback_WriteDescriptors A ds p = Inr (put_shorts A ds p)"
    "items (put_shorts A ds p) = items p @ PI_Uint32 (word_of_nat (length ds)) # concat (map short_items ds)"
    using p2(2) put_eqs[OF assms(1,2)] by (simp_all add: put_shorts_def)
qed

lemma shorts_read:
  assumes "parcel_laws A items" "length ds \<le> 4096"
    and "items p = PI_Uint32 (word_of_nat (length ds)) # concat (map short_items ds) @ r"
  shows "fst (snd (Callback_ReadDescriptors A p)) = map (\<lambda>d. short_descriptor (dd_dhType d) (dd_id d)) ds"
    "items (snd (snd (Callback_ReadDescriptors A p))) = r"
  using readsD(3)[OF assms(1) assms(3)] read_back_short_descriptors[OF assms(1), of _ ds r] count_unsigned[OF assms(2)] assms(2)
  by (simp_all add: Callback_ReadDescriptors_def Let_def case_prod_beta MAX_DH_DESCRIPTOR_ARRAY_SIZE_def word_less_nat_alt)

section \<open>Calls\<close>

text \<open>A call of a listener through its proxy, and the stub of the same interface.\<close>

fun notify :: "'p parcel_api \<Rightarrow> ('p, 's) remote \<Rightarrow> listener_call \<Rightarrow> 's \<Rightarrow> 's" where
  "notify A remote (LC_OnMessage t m) s = PublisherListenerProxy_OnMessage A remote t m s"
| "notify A remote (LC_SinkOnEnable d) s = HDSinkStatusListenerProxy_OnEnable A remote d s"
| "notify A remote (LC_SinkOnDisable d) s = HDSinkStatusListenerProxy_OnDisable A remote d s"
| "notify A remote (LC_SourceOnEnable n d) s = HDSourceStatusListenerProxy_OnEnable A remote n d s"
| "notify A remote (LC_SourceOnDisable n d) s = HDSourceStatusListenerProxy_OnDisable A remote n d s"
| "notify A remote (LC_OnSuccess n ds e) s = GetDhDescriptorsCallbackProxy_OnSuccess A remote n ds e s"
| "notify A remote (LC_OnError n e) s = GetDhDescriptorsCallbackProxy_OnError A remote n e s"
| "notify A remote (LC_OnAuthorizationResult n i) s = AuthorizationResultCallbackProxy_OnAuthorizationResult A remote n i s"
| "notify A remote (LC_OnRequestHardwareAccess i d t p) s = AccessListenerProxy_OnRequestHardwareAccess A remote i d t p s"

fun stub_of :: "listener_call \<Rightarrow> 'p parcel_api \<Rightarrow> int \<Rightarrow> (nat \<Rightarrow> int) \<Rightarrow> nat \<Rightarrow> 'p \<Rightarrow> int \<times> listener_call option" where
  "stub_of (LC_OnMessage _ _) = PublisherListenerStub_OnRemoteRequest"
| "stub_of (LC_SinkOnEnable _) = HDSinkStatusListenerStub_OnRemoteRequest"
| "stub_of (LC_SinkOnDisable _) = HDSinkStatusListenerStub_OnRemoteRequest"
| "stub_of (LC_SourceOnEnable _ _) = HDSourceStatusListenerStub_OnRemoteRequest"
| "stub_of (LC_SourceOnDisable _ _) = HDSourceStatusListenerStub_OnRemoteRequest"
| "stub_of (LC_OnSuccess _ _ _) = GetDhDescriptorsCallbackStub_OnRemoteRequest"
| "stub_of (LC_OnError _ _) = GetDhDescriptorsCallbackStub_OnRemoteRequest"
| "stub_of (LC_OnAuthorizationResult _ _) = AuthorizationResultCallbackStub_OnRemoteRequest"
| "stub_of (LC_OnRequestHardwareAccess _ _ _ _) = AccessListenerStub_OnRemoteRequest"

text \<open>The transport hands a parcel to the stub; the state is the calls the listener has had.\<close>

definition listens ::
    "'p parcel_api \<Rightarrow> int \<Rightarrow> (nat \<Rightarrow> int) \<Rightarrow> listener_call \<Rightarrow>
     (nat \<Rightarrow> bool \<Rightarrow> 'p \<Rightarrow> listener_call list \<Rightarrow> int \<times> 'p \<times> listener_call list) \<Rightarrow> bool" where
  "listens A invalid_data other c SendRequest =
    (\<forall>code async p s. SendRequest code async p s =
       (let (ret, heard) = stub_of c A invalid_data other code p
        in (ret, pc_new A, s @ (case heard of None \<Rightarrow> [] | Some x \<Rightarrow> [x]))))"

text \<open>What a proxy lets pass, and what arrives: of a descriptor its type and id.\<close>

fun valid_call :: "listener_call \<Rightarrow> bool" where
  "valid_call (LC_OnMessage t m) = (ValidTopic t \<and> IsMessageLengthValid m)"
| "valid_call (LC_SourceOnEnable n d) = IsIdLengthValid n"
| "valid_call (LC_SourceOnDisable n d) = IsIdLengthValid n"
| "valid_call (LC_OnSuccess n ds e) = (length ds \<le> 4096)"
| "valid_call _ = True"

abbreviation "shortened d \<equiv> short_descriptor (dd_dhType d) (dd_id d)"

fun arrived :: "listener_call \<Rightarrow> listener_call" where
  "arrived (LC_SinkOnEnable d) = LC_SinkOnEnable (shortened d)"
| "arrived (LC_SinkOnDisable d) = LC_SinkOnDisable (shortened d)"
| "arrived (LC_SourceOnEnable n d) = LC_SourceOnEnable n (shortened d)"
| "arrived (LC_SourceOnDisable n d) = LC_SourceOnDisable n (shortened d)"
| "arrived (LC_OnSuccess n ds e) = LC_OnSuccess n (map (\<lambda>d. shortened d) ds) e"
| "arrived c = c"

lemma call_heard:
  assumes L: "parcel_laws A items" and R: "parcel_room A" and H: "listens A invalid_data other c SendRequest" and "valid_call c"
  shows "notify A (Some SendRequest) c s = s @ [arrived c]"
proof -
  have H': "SendRequest code async p s =
       (let (ret, heard) = stub_of c A invalid_data other code p
        in (ret, pc_new A, s @ (case heard of None \<Rightarrow> [] | Some x \<Rightarrow> [x])))" for code async p s
    using H by (simp add: listens_def)
  note step = H' listener_proxy_defs listener_stub_defs put_eqs[OF L R] put_shorts_eqs[OF L R] read_eqs[OF L] shorts_read[OF L]
    listener_codes ValidTopic_def IsMessageLengthValid_def Let_def case_prod_beta
  show ?thesis using assms(4)
    by (cases c) (auto simp: step)
qed

section \<open>The property\<close>

definition to_listener :: "listener_call \<Rightarrow> nat \<Rightarrow> bool \<Rightarrow> parcel_item list \<Rightarrow> listener_call list \<Rightarrow> int \<times> parcel_item list \<times> listener_call list" where
  "to_listener c code async p s =
     (let (ret, heard) = stub_of c list_parcel (-1) (\<lambda>_. -2) code p
      in (ret, pc_new list_parcel, s @ (case heard of None \<Rightarrow> [] | Some x \<Rightarrow> [x])))"

lemma to_listener_listens: "listens list_parcel (-1) (\<lambda>_. -2) c (to_listener c)"
  by (simp add: listens_def to_listener_def)



end
