(* ===== verification/Hdf_Operate.thy ===== *)
theory Hdf_Operate
  imports Hardware_Manager
begin

text \<open>
  The drivers of the hardware driver framework (\<open>hdfoperate/hdf_operate.cpp\<close>): the drivers of audio and camera are
  loaded by the first client that asks and unloaded by the last, each through the source of its component.  A
  source comes from the component loader or, when that has none, from the library of the component, which is kept
  open as often as it was taken.  The loads of all drivers together say whether the service is in use.

  The pointers are numbers.  The calls of a source, of \<open>dlopen\<close> with \<open>dlsym\<close>, and of \<open>dlclose\<close>, and of a remote object
  are calls of the environment; \<open>dlopen\<close> gives the source of the library, or none when the library or its
  symbol is missing, after which the library is closed.  The counters are unbounded.
\<close>

record HdfOperator =
  hdfLoadRef :: int
  hdfSourcePtr :: "nat option"

record SourceHandlerData =
  sh_refCount :: int
  sh_sourcePtr :: nat

record HdfOperateManager =
  hdfOperateMap :: "(DHType, HdfOperator) omap"
  sourceHandlerDataMap :: "(DHType, SourceHandlerData) omap"
  hdfInuseRefCount :: int

definition HdfOperateManager_new :: HdfOperateManager where
  "HdfOperateManager_new = \<lparr>hdfOperateMap = [], sourceHandlerDataMap = [], hdfInuseRefCount = 0\<rparr>"

definition hdf_call :: "string \<Rightarrow> DHType \<Rightarrow> ecall" where
  "hdf_call name dhType = EC_Event name (dec_nat (unat dhType))"

section \<open>One driver\<close>

definition HdfOperator_Load :: "('s, 'j) config \<Rightarrow> DHType \<Rightarrow> HdfOperator \<Rightarrow> 's fwk \<Rightarrow> int \<times> HdfOperator \<times> 's fwk" where
  "HdfOperator_Load C dhType p w =
    (if hdfLoadRef p > 0 then (DH_FWK_SUCCESS, p\<lparr>hdfLoadRef := hdfLoadRef p + 1\<rparr>, w)
     else let (ret, w1) = call_ret C (hdf_call ''LoadDistributedHDF'' dhType) w in
          if ret \<noteq> DH_FWK_SUCCESS then (ret, p, w1)
          else (DH_FWK_SUCCESS, p\<lparr>hdfLoadRef := hdfLoadRef p + 1\<rparr>, w1))"

definition HdfOperator_UnLoad :: "('s, 'j) config \<Rightarrow> DHType \<Rightarrow> HdfOperator \<Rightarrow> 's fwk \<Rightarrow> int \<times> HdfOperator \<times> 's fwk" where
  "HdfOperator_UnLoad C dhType p w =
    (if hdfLoadRef p \<le> 0 then (DH_FWK_SUCCESS, p, w)
     else if hdfLoadRef p > 1 then (DH_FWK_SUCCESS, p\<lparr>hdfLoadRef := hdfLoadRef p - 1\<rparr>, w)
     else let (ret, w1) = call_ret C (hdf_call ''UnLoadDistributedHDF'' dhType) w in
          if ret \<noteq> DH_FWK_SUCCESS then (ret, p, w1)
          else (DH_FWK_SUCCESS, p\<lparr>hdfLoadRef := hdfLoadRef p - 1\<rparr>, w1))"

definition HdfOperator_ResetRefCount :: "HdfOperator \<Rightarrow> HdfOperator" where
  "HdfOperator_ResetRefCount p = p\<lparr>hdfLoadRef := 0\<rparr>"

definition IsNeedErase :: "HdfOperator \<Rightarrow> bool" where
  "IsNeedErase p = (hdfLoadRef p \<le> 0)"

section \<open>Libraries\<close>

definition RigidGetSourcePtr ::
    "('s, 'j) config \<Rightarrow> DHType \<Rightarrow> HdfOperateManager \<Rightarrow> 's fwk \<Rightarrow> (int \<times> nat option) \<times> HdfOperateManager \<times> 's fwk" where
  "RigidGetSourcePtr C dhType m w =
    (case om_get (sourceHandlerDataMap m) dhType of
       Some d \<Rightarrow>
         ((DH_FWK_SUCCESS, Some (sh_sourcePtr d)),
          m\<lparr>sourceHandlerDataMap := om_put dhType (d\<lparr>sh_refCount := sh_refCount d + 1\<rparr>) (sourceHandlerDataMap m)\<rparr>, w)
     | None \<Rightarrow>
         if dhType \<noteq> DHType_AUDIO \<and> dhType \<noteq> DHType_CAMERA then ((ERR_DH_FWK_NO_HDF_SUPPORT, None), m, w)
         else let lib = (if dhType = DHType_AUDIO then ''libdistributed_audio_source_sdk.z.so'' else ''libdistributed_camera_source_sdk.z.so'');
                  (_, sourcePtr, w1) = call_ptr C (EC_Event ''dlopen'' lib) w
              in case sourcePtr of
                   None \<Rightarrow> ((ERR_DH_FWK_LOADER_HANDLER_IS_NULL, None), m, w1)
                 | Some p \<Rightarrow>
                     ((DH_FWK_SUCCESS, Some p),
                      m\<lparr>sourceHandlerDataMap := om_put dhType \<lparr>sh_refCount = 1, sh_sourcePtr = p\<rparr> (sourceHandlerDataMap m)\<rparr>, w1))"

definition RigidReleaseSourcePtr ::
    "('s, 'j) config \<Rightarrow> DHType \<Rightarrow> HdfOperateManager \<Rightarrow> 's fwk \<Rightarrow> int \<times> HdfOperateManager \<times> 's fwk" where
  "RigidReleaseSourcePtr C dhType m w =
    (case om_get (sourceHandlerDataMap m) dhType of
       None \<Rightarrow> (DH_FWK_SUCCESS, m, w)
     | Some d \<Rightarrow>
         if sh_refCount d > 1 then
           (DH_FWK_SUCCESS,
            m\<lparr>sourceHandlerDataMap := om_put dhType (d\<lparr>sh_refCount := sh_refCount d - 1\<rparr>) (sourceHandlerDataMap m)\<rparr>, w)
         else let (r, w1) = call_ret C (hdf_call ''dlclose'' dhType) w in
              if r \<noteq> 0 then (ERR_DH_FWK_LOADER_DLCLOSE_FAIL, m, w1)
              else (DH_FWK_SUCCESS, m\<lparr>sourceHandlerDataMap := om_del dhType (sourceHandlerDataMap m)\<rparr>, w1))"

section \<open>All drivers\<close>

definition IsAnyHdfInuse :: "HdfOperateManager \<Rightarrow> bool" where
  "IsAnyHdfInuse m = (hdfInuseRefCount m > 0)"

text \<open>The operator of a type, created with its source when there is none.\<close>

definition hdf_operator ::
    "('s, 'j) config \<Rightarrow> DHType \<Rightarrow> HdfOperateManager \<Rightarrow> 's fwk \<Rightarrow> (int + HdfOperator) \<times> HdfOperateManager \<times> 's fwk" where
  "hdf_operator C dhType m w =
    (case om_get (hdfOperateMap m) dhType of
       Some p \<Rightarrow> (Inr p, m, w)
     | None \<Rightarrow>
         let (ret, sourcePtr, w1) = call_ptr C (EC_Loader GetSource dhType) w;
             ((ret, sourcePtr), m1, w2) =
               (if ret \<noteq> DH_FWK_SUCCESS then RigidGetSourcePtr C dhType m w1 else ((ret, sourcePtr), m, w1))
         in if ret \<noteq> DH_FWK_SUCCESS then (Inl ret, m1, w2)
            else let p = \<lparr>hdfLoadRef = 0, hdfSourcePtr = sourcePtr\<rparr>
                 in (Inr p, m1\<lparr>hdfOperateMap := om_put dhType p (hdfOperateMap m1)\<rparr>, w2))"

definition Hdf_LoadDistributedHDF ::
    "('s, 'j) config \<Rightarrow> DHType \<Rightarrow> HdfOperateManager \<Rightarrow> 's fwk \<Rightarrow> int \<times> HdfOperateManager \<times> 's fwk" where
  "Hdf_LoadDistributedHDF C dhType m w =
    (case hdf_operator C dhType m w of
       (Inl e, m1, w1) \<Rightarrow> (e, m1, w1)
     | (Inr p, m1, w1) \<Rightarrow>
        (case HdfOperator_Load C dhType p w1 of
           (ret, p1, w2) \<Rightarrow>
             let m2 = m1\<lparr>hdfOperateMap := om_put dhType p1 (hdfOperateMap m1)\<rparr>
             in (ret, if ret = DH_FWK_SUCCESS then m2\<lparr>hdfInuseRefCount := hdfInuseRefCount m2 + 1\<rparr> else m2, w2)))"

definition Hdf_UnLoadDistributedHDF ::
    "('s, 'j) config \<Rightarrow> DHType \<Rightarrow> HdfOperateManager \<Rightarrow> 's fwk \<Rightarrow> int \<times> HdfOperateManager \<times> 's fwk" where
  "Hdf_UnLoadDistributedHDF C dhType m w =
    (case om_get (hdfOperateMap m) dhType of
       None \<Rightarrow> (DH_FWK_SUCCESS, m, w)
     | Some p \<Rightarrow>
        (case HdfOperator_UnLoad C dhType p w of
           (ret, p1, w1) \<Rightarrow>
             let m1 = m\<lparr>hdfOperateMap := om_put dhType p1 (hdfOperateMap m)\<rparr> in
             if ret \<noteq> DH_FWK_SUCCESS then (ret, m1, w1)
             else let m2 = (if IsNeedErase p1 then m1\<lparr>hdfOperateMap := om_del dhType (hdfOperateMap m1)\<rparr> else m1);
                      (_, m3, w2) = RigidReleaseSourcePtr C dhType m2 w1;
                      m4 = m3\<lparr>hdfInuseRefCount := hdfInuseRefCount m3 - 1\<rparr>
                  in (ret, m4, if hdfInuseRefCount m4 \<le> 0 then create_and_push C TT_EXIT_DFWK TaskParam_default w2 else w2)))"

text \<open>The death of the host of a driver forgets the loads of that driver only.\<close>

definition Hdf_ResetRefCount :: "DHType \<Rightarrow> HdfOperateManager \<Rightarrow> HdfOperateManager" where
  "Hdf_ResetRefCount dhType m =
    (case om_get (hdfOperateMap m) dhType of
       None \<Rightarrow> m
     | Some p \<Rightarrow> m\<lparr>hdfOperateMap := om_put dhType (HdfOperator_ResetRefCount p) (hdfOperateMap m)\<rparr>)"

definition OnHdfHostDied :: "DHType \<Rightarrow> HdfOperateManager \<Rightarrow> HdfOperateManager" where
  "OnHdfHostDied dhType m = Hdf_ResetRefCount dhType m"

definition OnRemoteDied :: "('s, 'j) config \<Rightarrow> DHType \<Rightarrow> HdfOperateManager \<Rightarrow> 's fwk \<Rightarrow> HdfOperateManager \<times> 's fwk" where
  "OnRemoteDied C dhType m w = snd (Hdf_UnLoadDistributedHDF C dhType m w)"

section \<open>Death recipients\<close>

text \<open>A recipient is one of the two of the manager; a client is the number of its remote object.\<close>

definition AddDeathRecipient :: "('s, 'j) config \<Rightarrow> DHType \<Rightarrow> nat option \<Rightarrow> 's fwk \<Rightarrow> int \<times> 's fwk" where
  "AddDeathRecipient C dhType remote w =
    (case remote of
       None \<Rightarrow> (ERR_DH_FWK_POINTER_IS_NULL, w)
     | Some r \<Rightarrow>
        if dhType \<noteq> DHType_AUDIO \<and> dhType \<noteq> DHType_CAMERA then (ERR_DH_FWK_NO_HDF_SUPPORT, w)
        else let (ok, w1) = call_ret C (hdf_call (''AddDeathRecipient '' @ dec_nat r) dhType) w
             in (if ok = 0 then ERR_DH_FWK_ADD_DEATH_FAIL else DH_FWK_SUCCESS, w1))"

definition RemoveDeathRecipient :: "('s, 'j) config \<Rightarrow> DHType \<Rightarrow> nat option \<Rightarrow> 's fwk \<Rightarrow> int \<times> 's fwk" where
  "RemoveDeathRecipient C dhType remote w =
    (case remote of
       None \<Rightarrow> (ERR_DH_FWK_POINTER_IS_NULL, w)
     | Some r \<Rightarrow>
        if dhType \<noteq> DHType_AUDIO \<and> dhType \<noteq> DHType_CAMERA then (ERR_DH_FWK_NO_HDF_SUPPORT, w)
        else let (ok, w1) = call_ret C (hdf_call (''RemoveDeathRecipient '' @ dec_nat r) dhType) w
             in (if ok = 0 then ERR_DH_FWK_REMOVE_DEATH_FAIL else DH_FWK_SUCCESS, w1))"

end
