(* ===== verification/Hdf_Properties.thy ===== *)
theory Hdf_Properties
  imports Hdf_Operate Demo
begin

text \<open>
  The loads of the drivers are counted: while no call fails and no host of a driver dies, the counters are the numbers of
  clients that use each driver.  Two ways they stop being that: a load that fails, and the death of a host.
\<close>

section \<open>The counters\<close>

definition held :: "HdfOperateManager \<Rightarrow> DHType \<Rightarrow> int" where
  "held m ty = val0 hdfLoadRef (om_get (hdfOperateMap m) ty)"

definition hdf_ok :: "HdfOperateManager \<Rightarrow> bool" where
  "hdf_ok m = (om_ok (hdfOperateMap m) \<and> (\<forall>ty p. om_get (hdfOperateMap m) ty = Some p \<longrightarrow> hdfLoadRef p > 0)
    \<and> hdfInuseRefCount m = om_sum hdfLoadRef (hdfOperateMap m))"

definition drivers_work :: "('s, 'j) config \<Rightarrow> bool" where
  "drivers_work C = (\<forall>tr ty. e_ret (c_E C) tr (EC_Loader GetSource ty) = DH_FWK_SUCCESS
     \<and> e_ret (c_E C) tr (hdf_call ''LoadDistributedHDF'' ty) = DH_FWK_SUCCESS
     \<and> e_ret (c_E C) tr (hdf_call ''UnLoadDistributedHDF'' ty) = DH_FWK_SUCCESS)"

lemma hdf_ok_new: "hdf_ok HdfOperateManager_new" "held HdfOperateManager_new ty = 0"
  by (simp_all add: hdf_ok_def held_def HdfOperateManager_new_def)

lemma held_nonneg: "hdf_ok m \<Longrightarrow> 0 \<le> held m ty"
  by (cases "om_get (hdfOperateMap m) ty") (auto simp: hdf_ok_def held_def less_imp_le)

lemma release_keeps [simp]:
  "hdfOperateMap (fst (snd (RigidReleaseSourcePtr C ty m w))) = hdfOperateMap m"
  "hdfInuseRefCount (fst (snd (RigidReleaseSourcePtr C ty m w))) = hdfInuseRefCount m"
  by (simp_all add: RigidReleaseSourcePtr_def Let_def split_beta split: option.split)

lemma operator_Load:
  "drivers_work C \<Longrightarrow> fst (HdfOperator_Load C ty p w) = DH_FWK_SUCCESS
     \<and> fst (snd (HdfOperator_Load C ty p w)) = p\<lparr>hdfLoadRef := hdfLoadRef p + 1\<rparr>"
  by (simp add: HdfOperator_Load_def drivers_work_def call_ret_def)

lemma load_step:
  fixes ty :: DHType and w :: "'s fwk" and C :: "('s, 'j) config"
  assumes "drivers_work C" "hdf_ok m"
  defines "r \<equiv> Hdf_LoadDistributedHDF C ty m w"
  shows "hdf_ok (fst (snd r)) \<and> held (fst (snd r)) = (held m)(ty := held m ty + 1)"
proof -
  obtain p m1 w1 where o: "hdf_operator C ty m w = (Inr p, m1, w1)"
    "hdfOperateMap m1 = om_put ty p (hdfOperateMap m)" "hdfInuseRefCount m1 = hdfInuseRefCount m" "hdfLoadRef p = held m ty"
    "om_ok (hdfOperateMap m)" "0 \<le> hdfLoadRef p"
    using assms(1,2) om_put_same[of "hdfOperateMap m" ty]
    by (cases "om_get (hdfOperateMap m) ty")
       (auto simp: hdf_operator_def call_ptr_def drivers_work_def held_def hdf_ok_def Let_def less_imp_le)
  have "fst (snd r) = m1\<lparr>hdfOperateMap := om_put ty (p\<lparr>hdfLoadRef := hdfLoadRef p + 1\<rparr>) (hdfOperateMap m1),
      hdfInuseRefCount := hdfInuseRefCount m1 + 1\<rparr>"
    using o(1) operator_Load[OF assms(1), of ty p w1]
    by (simp add: r_def Hdf_LoadDistributedHDF_def Let_def split_beta)
  then show ?thesis using assms(2) o(2-)
    by (auto simp: hdf_ok_def held_def om_sum_put om_ok_put fun_eq_iff)
qed

lemma unload_step:
  fixes ty :: DHType and w :: "'s fwk" and C :: "('s, 'j) config"
  assumes "drivers_work C" "hdf_ok m"
  defines "r \<equiv> Hdf_UnLoadDistributedHDF C ty m w"
  shows "hdf_ok (fst (snd r)) \<and> held (fst (snd r)) = (held m)(ty := max 0 (held m ty - 1))"
proof (cases "om_get (hdfOperateMap m) ty")
  case None
  then show ?thesis using assms(2) by (simp add: r_def Hdf_UnLoadDistributedHDF_def held_def fun_eq_iff)
next
  case (Some p)
  have ref: "hdfLoadRef p > 0" "hdfLoadRef p \<noteq> 1 \<Longrightarrow> hdfLoadRef p > 1" and ok: "om_ok (hdfOperateMap m)" using Some assms(2) by (force simp: hdf_ok_def)+
  let ?p1 = "p\<lparr>hdfLoadRef := hdfLoadRef p - 1\<rparr>"
  have u: "fst (HdfOperator_UnLoad C ty p w) = DH_FWK_SUCCESS" "fst (snd (HdfOperator_UnLoad C ty p w)) = ?p1"
    using ref assms(1) by (simp_all add: HdfOperator_UnLoad_def drivers_work_def call_ret_def)
  have m: "hdfOperateMap (fst (snd r)) =
      (if hdfLoadRef p = 1 then om_del ty (om_put ty ?p1 (hdfOperateMap m)) else om_put ty ?p1 (hdfOperateMap m))"
    "hdfInuseRefCount (fst (snd r)) = hdfInuseRefCount m - 1"
    using Some u ref by (simp_all add: r_def Hdf_UnLoadDistributedHDF_def Let_def split_beta IsNeedErase_def)
  show ?thesis using assms(2) ref ok Some
    unfolding hdf_ok_def held_def
    by (auto simp: m om_sum_put om_sum_del om_ok_put om_ok_del fun_eq_iff split: if_splits)
qed

section \<open>Histories\<close>

datatype hdf_op = HLoad DHType | HUnload DHType

fun hdf_step :: "('s, 'j) config \<Rightarrow> hdf_op \<Rightarrow> HdfOperateManager \<times> 's fwk \<Rightarrow> HdfOperateManager \<times> 's fwk" where
  "hdf_step C (HLoad ty) (m, w) = snd (Hdf_LoadDistributedHDF C ty m w)"
| "hdf_step C (HUnload ty) (m, w) = snd (Hdf_UnLoadDistributedHDF C ty m w)"

text \<open>The users of each driver: a client that unloads what nobody loaded does not count.\<close>

fun hdf_users :: "hdf_op list \<Rightarrow> (DHType \<Rightarrow> nat) \<Rightarrow> DHType \<Rightarrow> nat" where
  "hdf_users [] u = u"
| "hdf_users (HLoad ty # ops) u = hdf_users ops (u(ty := u ty + 1))"
| "hdf_users (HUnload ty # ops) u = hdf_users ops (u(ty := u ty - 1))"

lemma history_counts:
  assumes "drivers_work C"
  shows "hdf_ok m \<Longrightarrow> held m = (\<lambda>ty. int (u ty)) \<Longrightarrow>
    hdf_ok (fst (fold (hdf_step C) ops (m, w))) \<and> held (fst (fold (hdf_step C) ops (m, w))) = (\<lambda>ty. int (hdf_users ops u ty))"
proof (induction ops arbitrary: m w u)
  case (Cons op ops)
  show ?case
  proof (cases op)
    case (HLoad ty)
    obtain m1 w1 where r: "snd (Hdf_LoadDistributedHDF C ty m w) = (m1, w1)" by fastforce
    have "hdf_ok m1" "held m1 = (\<lambda>x. int ((u(ty := u ty + 1)) x))"
      using load_step[OF assms Cons.prems(1), of ty w] Cons.prems(2) r by (auto simp: fun_eq_iff)
    from Cons.IH[OF this, of w1] show ?thesis by (simp add: HLoad r fun_upd_def)
  next
    case (HUnload ty)
    obtain m1 w1 where r: "snd (Hdf_UnLoadDistributedHDF C ty m w) = (m1, w1)" by fastforce
    have "hdf_ok m1" "held m1 = (\<lambda>x. int ((u(ty := u ty - 1)) x))"
      using unload_step[OF assms Cons.prems(1), of ty w] Cons.prems(2) r by (auto simp: fun_eq_iff)
    from Cons.IH[OF this, of w1] show ?thesis by (simp add: HUnload r fun_upd_def)
  qed
qed simp

lemma in_use_held:
  assumes "hdf_ok m"
  shows "IsAnyHdfInuse m \<longleftrightarrow> (\<exists>ty. held m ty > 0)"
proof
  assume "IsAnyHdfInuse m"
  then have "hdfOperateMap m \<noteq> []" using assms by (auto simp: IsAnyHdfInuse_def hdf_ok_def)
  then obtain ty p r where "hdfOperateMap m = (ty, p) # r" by (cases "hdfOperateMap m") auto
  then have "om_get (hdfOperateMap m) ty = Some p" by simp
  then show "\<exists>ty. held m ty > 0" using assms by (intro exI[of _ ty]) (auto simp: held_def hdf_ok_def)
next
  assume "\<exists>ty. held m ty > 0"
  then obtain ty p where p: "om_get (hdfOperateMap m) ty = Some p" "hdfLoadRef p > 0"
    by (auto simp: held_def val0_def split: option.splits)
  have mem: "\<And>k v. (k, v) \<in> set (hdfOperateMap m) \<Longrightarrow> 0 \<le> hdfLoadRef v"
    using assms om_get_in[of "hdfOperateMap m"] by (auto simp: hdf_ok_def less_imp_le)
  have "(ty, p) \<in> set (hdfOperateMap m)" using p(1) by (rule map_of_SomeD)
  then have "hdfLoadRef p \<le> om_sum hdfLoadRef (hdfOperateMap m)" by (rule om_sum_ge_member[rotated]) (use mem in blast)
  then show "IsAnyHdfInuse m"
    using assms p(2) by (simp add: IsAnyHdfInuse_def hdf_ok_def)
qed

section \<open>Deaths and failures\<close>

text \<open>The loads of clients, and the unloads of the same clients after the host of the driver has died.\<close>

fun unloads :: "('s, 'j) config \<Rightarrow> DHType \<Rightarrow> nat \<Rightarrow> HdfOperateManager \<times> 's fwk \<Rightarrow> HdfOperateManager \<times> 's fwk" where
  "unloads C ty 0 x = x"
| "unloads C ty (Suc n) x = unloads C ty n (hdf_step C (HUnload ty) x)"

lemma unloads_nothing: "om_get (hdfOperateMap m) ty = None \<Longrightarrow> unloads C ty n (m, w) = (m, w)"
  by (induction n) (simp_all add: Hdf_UnLoadDistributedHDF_def)

lemma unload_after_reset:
  assumes "om_get (hdfOperateMap m) ty = Some p"
  shows "\<exists>w1. hdf_step C (HUnload ty) (OnHdfHostDied ty m, w) =
      (fst (snd (Hdf_UnLoadDistributedHDF C ty (OnHdfHostDied ty m) w)), w1)
    \<and> om_get (hdfOperateMap (fst (snd (Hdf_UnLoadDistributedHDF C ty (OnHdfHostDied ty m) w)))) ty = None
    \<and> hdfInuseRefCount (fst (snd (Hdf_UnLoadDistributedHDF C ty (OnHdfHostDied ty m) w))) = hdfInuseRefCount m - 1"
  using assms
  by (simp add: OnHdfHostDied_def Hdf_ResetRefCount_def HdfOperator_ResetRefCount_def Hdf_UnLoadDistributedHDF_def
      HdfOperator_UnLoad_def IsNeedErase_def Let_def split_beta)

lemma not_in_use_empty:
  assumes "hdf_ok m" "\<not> IsAnyHdfInuse m"
  shows "hdfOperateMap m = [] \<and> hdfInuseRefCount m = 0"
proof -
  have "hdfOperateMap m = []"
  proof (cases "hdfOperateMap m")
    case (Cons e r)
    then have "om_get (hdfOperateMap m) (fst e) = Some (snd e)" by (cases e) simp
    then have "held m (fst e) > 0" using assms(1) by (auto simp: held_def hdf_ok_def)
    then show ?thesis using in_use_held[OF assms(1)] assms(2) by blast
  qed
  then show ?thesis using assms(1) by (simp add: hdf_ok_def)
qed

lemma get_keeps [simp]:
  "hdfOperateMap (fst (snd (RigidGetSourcePtr C ty m w))) = hdfOperateMap m"
  "hdfInuseRefCount (fst (snd (RigidGetSourcePtr C ty m w))) = hdfInuseRefCount m"
  by (simp_all add: RigidGetSourcePtr_def Let_def split_beta split: option.split)

lemma fresh_operator:
  assumes "hdfOperateMap m = []"
  shows "(\<exists>e m1 w1. hdf_operator C ty m w = (Inl e, m1, w1) \<and> e \<noteq> DH_FWK_SUCCESS \<and> hdfOperateMap m1 = [])
    \<or> (\<exists>p m1 w1. hdf_operator C ty m w = (Inr p, m1, w1) \<and> hdfLoadRef p = 0 \<and> hdfOperateMap m1 = [(ty, p)]
         \<and> hdfInuseRefCount m1 = hdfInuseRefCount m)"
  using assms by (simp add: hdf_operator_def call_ptr_def Let_def split_beta) (metis get_keeps(1) prod.collapse)

lemma fresh_load:
  assumes "hdfOperateMap m = []"
  shows "(\<exists>e m1 w1. Hdf_LoadDistributedHDF C ty m w = (e, m1, w1) \<and> e \<noteq> DH_FWK_SUCCESS \<and> hdfOperateMap m1 = [])
    \<or> (\<exists>e p m1 w1. Hdf_LoadDistributedHDF C ty m w = (e, m1, w1) \<and> e \<noteq> DH_FWK_SUCCESS \<and> hdfOperateMap m1 = [(ty, p)]
        \<and> hdfLoadRef p = 0 \<and> hdfInuseRefCount m1 = hdfInuseRefCount m)
    \<or> (\<exists>m1 w1. Hdf_LoadDistributedHDF C ty m w = (DH_FWK_SUCCESS, m1, w1) \<and> held m1 ty = 1
        \<and> hdfInuseRefCount m1 = hdfInuseRefCount m + 1)"
  using fresh_operator[OF assms, of C ty w]
proof (elim disjE exE conjE)
  fix p m1 w1
  assume o: "hdf_operator C ty m w = (Inr p, m1, w1)" "hdfLoadRef p = 0" "hdfOperateMap m1 = [(ty, p)]"
    "hdfInuseRefCount m1 = hdfInuseRefCount m"
  then show ?thesis
    by (cases "call_ret C (hdf_call ''LoadDistributedHDF'' ty) w1")
       (simp add: Hdf_LoadDistributedHDF_def HdfOperator_Load_def held_def Let_def)
qed (simp add: Hdf_LoadDistributedHDF_def)

lemma failed_load:
  assumes "hdfOperateMap m = []" "hdfInuseRefCount m = 0" "Hdf_LoadDistributedHDF C ty m w = (e, m1, w1)"
    and "e \<noteq> DH_FWK_SUCCESS" "om_get (hdfOperateMap m1) ty \<noteq> None"
  shows "\<exists>p. hdfOperateMap m1 = [(ty, p)] \<and> hdfLoadRef p = 0 \<and> hdfInuseRefCount m1 = 0"
  using fresh_load[OF assms(1), of C ty w] assms(2-) by auto

lemma unload_of_nothing:
  assumes "hdfOperateMap m = [(ty, p)]" "hdfLoadRef p = 0"
  shows "hdfOperateMap (fst (snd (Hdf_UnLoadDistributedHDF C ty m w))) = []
    \<and> hdfInuseRefCount (fst (snd (Hdf_UnLoadDistributedHDF C ty m w))) = hdfInuseRefCount m - 1"
  using assms by (simp add: Hdf_UnLoadDistributedHDF_def HdfOperator_UnLoad_def IsNeedErase_def Let_def split_beta om_del_def)

lemma load_from_nothing:
  assumes "hdfOperateMap m = []" "Hdf_LoadDistributedHDF C ty m w = (DH_FWK_SUCCESS, m1, w1)"
  shows "held m1 ty = 1 \<and> hdfInuseRefCount m1 = hdfInuseRefCount m + 1"
  using fresh_load[OF assms(1), of C ty w] assms(2) by auto

section \<open>Properties\<close>



text \<open>
  C39: The death of a driver's host leaves the service in use for ever.  When a driver is held more than once and its
  host dies, the loads of the driver are forgotten and not taken from the loads of all drivers: however often the
  clients unload it afterwards, only the first unload is counted, so the service still takes itself to be in
  use when nobody uses a driver.
\<close>

theorem hdf_death_leaks:
  "hdf_ok m \<and> om_get (hdfOperateMap m) ty = Some p \<and> hdfLoadRef p > 1 \<longrightarrow>
   IsAnyHdfInuse (fst (unloads C ty n (OnHdfHostDied ty m, w)))"
proof (intro impI, elim conjE)
  assume ok: "hdf_ok m" and p: "om_get (hdfOperateMap m) ty = Some p" "hdfLoadRef p > 1"
  have mem: "\<And>k v. (k, v) \<in> set (hdfOperateMap m) \<Longrightarrow> 0 \<le> hdfLoadRef v"
    using ok om_get_in[of "hdfOperateMap m"] by (auto simp: hdf_ok_def less_imp_le)
  have "hdfLoadRef p \<le> om_sum hdfLoadRef (hdfOperateMap m)"
    by (rule om_sum_ge_member[OF mem]) (use p(1) in \<open>auto dest: map_of_SomeD\<close>)
  then have use: "1 < hdfInuseRefCount m" using ok p(2) by (simp add: hdf_ok_def)
  show "IsAnyHdfInuse (fst (unloads C ty n (OnHdfHostDied ty m, w)))"
  proof (cases n)
    case 0
    then show ?thesis using use p(1) by (simp add: IsAnyHdfInuse_def OnHdfHostDied_def Hdf_ResetRefCount_def)
  next
    case (Suc k)
    obtain m1 w1 where "hdf_step C (HUnload ty) (OnHdfHostDied ty m, w) = (m1, w1)"
      "om_get (hdfOperateMap m1) ty = None" "hdfInuseRefCount m1 = hdfInuseRefCount m - 1"
      using unload_after_reset[OF p(1), of C w] by (metis prod.collapse)
    then show ?thesis using use by (simp add: Suc unloads_nothing IsAnyHdfInuse_def del: hdf_step.simps)
  qed
qed

definition camera_held :: HdfOperateManager where
  "camera_held = \<lparr>hdfOperateMap = [(DHType_CAMERA, \<lparr>hdfLoadRef = 2, hdfSourcePtr = Some 0\<rparr>)], sourceHandlerDataMap = [], hdfInuseRefCount = 2\<rparr>"

theorem hdf_death_leaks_witness:
  "IsAnyHdfInuse (fst (unloads demo DHType_CAMERA 2 (OnHdfHostDied DHType_CAMERA camera_held, demo_init)))"
  by (rule hdf_death_leaks[THEN mp, of _ _ "\<lparr>hdfLoadRef = 2, hdfSourcePtr = Some 0\<rparr>"])
     (simp add: hdf_ok_def camera_held_def om_ok_Cons)

text \<open>
  A driver can be loaded while the service takes itself to be unused.  When no driver is in use and a client's load
  of a driver fails in the driver, an unload of that driver is counted although nothing was loaded; the next load that
  succeeds brings the count only back to zero, so one client holds the driver and the service does not see it.
\<close>

theorem hdf_loaded_unseen:
  "hdf_ok m \<and> \<not> IsAnyHdfInuse m \<and> Hdf_LoadDistributedHDF C ty m w = (e, m1, w1) \<and> e \<noteq> DH_FWK_SUCCESS
   \<and> om_get (hdfOperateMap m1) ty \<noteq> None \<and> Hdf_UnLoadDistributedHDF C ty m1 w1 = (e', m2, w2)
   \<and> Hdf_LoadDistributedHDF C ty m2 w2 = (DH_FWK_SUCCESS, m3, w3)
   \<longrightarrow> held m3 ty = 1 \<and> \<not> IsAnyHdfInuse m3"
proof (intro impI, elim conjE)
  assume a: "hdf_ok m" "\<not> IsAnyHdfInuse m" and 1: "Hdf_LoadDistributedHDF C ty m w = (e, m1, w1)" "e \<noteq> DH_FWK_SUCCESS"
    "om_get (hdfOperateMap m1) ty \<noteq> None" and 2: "Hdf_UnLoadDistributedHDF C ty m1 w1 = (e', m2, w2)"
    and 3: "Hdf_LoadDistributedHDF C ty m2 w2 = (DH_FWK_SUCCESS, m3, w3)"
  obtain p where p: "hdfOperateMap m1 = [(ty, p)]" "hdfLoadRef p = 0" "hdfInuseRefCount m1 = 0"
    using failed_load[OF _ _ 1] not_in_use_empty[OF a] by blast
  have "hdfOperateMap m2 = []" "hdfInuseRefCount m2 = -1" using unload_of_nothing[OF p(1,2), of C w1] 2 p(3) by simp_all
  then show "held m3 ty = 1 \<and> \<not> IsAnyHdfInuse m3" using load_from_nothing[OF _ 3] by (simp add: IsAnyHdfInuse_def)
qed

text \<open>An environment whose driver does not load the first time.\<close>

definition flaky :: "(demo_store, unit) config" where
  "flaky = demo\<lparr>c_E := demo_E\<lparr>e_ret := (\<lambda>tr e. if length tr = 1 then -1 else 0)\<rparr>\<rparr>"

lemma create_trace: "fw_trace (create_and_push C ty tp w) = fw_trace w"
  by (simp add: create_and_push_def CreateTask_def CreateTaskEx_def CreateEnableTask_def CreateDisableTask_def Task_ctor_def PushTask_def
      AddTask_def upd_task_def Let_def split_beta split: option.split TaskType.split)

type_synonym flaky_result = "int \<times> HdfOperateManager \<times> demo_store fwk"

definition flaky_1 :: flaky_result where "flaky_1 = Hdf_LoadDistributedHDF flaky DHType_CAMERA HdfOperateManager_new demo_init"
definition flaky_2 :: flaky_result where
  "flaky_2 = Hdf_UnLoadDistributedHDF flaky DHType_CAMERA (fst (snd flaky_1)) (snd (snd flaky_1))"
definition flaky_3 :: flaky_result where
  "flaky_3 = Hdf_LoadDistributedHDF flaky DHType_CAMERA (fst (snd flaky_2)) (snd (snd flaky_2))"

lemma flaky_answers:
  "fst flaky_1 = -1" "om_get (hdfOperateMap (fst (snd flaky_1))) DHType_CAMERA \<noteq> None" "fst flaky_3 = DH_FWK_SUCCESS"
  by (simp_all add: flaky_1_def flaky_2_def flaky_3_def flaky_def demo_defs fwk_init_def Hdf_LoadDistributedHDF_def
      Hdf_UnLoadDistributedHDF_def hdf_operator_def HdfOperator_Load_def HdfOperator_UnLoad_def call_ptr_def call_ret_def
      HdfOperateManager_new_def IsNeedErase_def RigidReleaseSourcePtr_def om_del_def create_trace Let_def split_beta)

theorem hdf_loaded_unseen_witness: "held (fst (snd flaky_3)) DHType_CAMERA = 1 \<and> \<not> IsAnyHdfInuse (fst (snd flaky_3))"
proof -
  have "\<not> IsAnyHdfInuse HdfOperateManager_new" by (simp add: IsAnyHdfInuse_def HdfOperateManager_new_def)
  moreover have "flaky_3 = (DH_FWK_SUCCESS, fst (snd flaky_3), snd (snd flaky_3))"
    using flaky_answers(3) by (simp add: prod_eq_iff)
  ultimately show ?thesis
    using hdf_loaded_unseen[of HdfOperateManager_new flaky DHType_CAMERA demo_init "fst flaky_1" "fst (snd flaky_1)" "snd (snd flaky_1)"
        "fst flaky_2" "fst (snd flaky_2)" "snd (snd flaky_2)" "fst (snd flaky_3)" "snd (snd flaky_3)"] hdf_ok_new(1) flaky_answers
    unfolding flaky_1_def[symmetric] prod.collapse flaky_2_def[symmetric] flaky_3_def[symmetric]
    by simp
qed

end
