(* ===== verification/Dh_Service.thy ===== *)
theory Dh_Service
  imports Hdf_Operate Publisher Av_Control Service_Stub
begin

text \<open>
  The service itself, \<open>distributed_hardware_service.cpp\<close>: its start, the methods that the stub calls, and the requests
  for the hardware of a device that wait until the framework is ready.  The state \<open>dh_server\<close> joins the state of the
  framework, of the drivers, of the publisher and of the control centre with the members of the service.

  The system ability manager, the memory manager and the sinks of the components are calls of the environment.  What
  the service asks about its caller is \<open>dh_caller\<close>.  The compile switch \<open>DHARDWARE_SINK_LOCAL_INIT\<close> is
  \<open>dw_sink_local_init\<close>.  The messages listeners were sent are kept in order in \<open>ds_published\<close>.
\<close>

section \<open>State\<close>

record PendingGetDHRequest =
  pr_networkId :: string
  pr_enableStep :: EnableStep
  pr_callback :: "nat option"

record 's dh_server =
  ds_fwk :: "'s fwk"
  ds_hdf :: HdfOperateManager
  ds_publisher :: Publisher
  ds_published :: "(nat \<times> DHTopic \<times> string) list"
  ds_centre :: av_sys
  ds_running :: bool
  ds_registerToService :: bool
  ds_pendingGetDHRequests :: "PendingGetDHRequest list"
  ds_cleanupRunning :: bool
  ds_dhfwkInitTimes :: "32 word"
  ds_cleanupThreads :: nat

record ('s, 'j) dh_world =
  dw_C :: "('s, 'j) config"
  dw_V :: "'j av_env"
  dw_AsObject :: "nat \<Rightarrow> nat"
  dw_GetNetworkIdByUdid :: "string \<Rightarrow> string"
  dw_sink_local_init :: bool

record dh_caller =
  dc_uid :: int
  dc_pid :: int
  dc_FirstTokenID :: "32 word"
  dc_DCallingUid :: int
  dc_VerifyAccessToken :: "string \<Rightarrow> bool"

definition dh_server_new :: "'s fwk \<Rightarrow> av_sys \<Rightarrow> 's dh_server" where
  "dh_server_new w a = \<lparr>ds_fwk = w, ds_hdf = HdfOperateManager_new, ds_publisher = Publisher_init, ds_published = [],
    ds_centre = a, ds_running = False, ds_registerToService = False, ds_pendingGetDHRequests = [], ds_cleanupRunning = False,
    ds_dhfwkInitTimes = 0, ds_cleanupThreads = 0\<rparr>"

definition upd_fwk :: "('s fwk \<Rightarrow> 's fwk) \<Rightarrow> 's dh_server \<Rightarrow> 's dh_server" where
  "upd_fwk f d = d\<lparr>ds_fwk := f (ds_fwk d)\<rparr>"

definition on_fwk :: "('s fwk \<Rightarrow> 'r \<times> 's fwk) \<Rightarrow> 's dh_server \<Rightarrow> 'r \<times> 's dh_server" where
  "on_fwk f d = (case f (ds_fwk d) of (r, w) \<Rightarrow> (r, d\<lparr>ds_fwk := w\<rparr>))"

definition SA_READY_TO_UNLOAD :: int where "SA_READY_TO_UNLOAD = 0"
definition SA_REFUSE_TO_UNLOAD :: int where "SA_REFUSE_TO_UNLOAD = -1"
definition LOCAL_NETWORKID_ALIAS :: string where "LOCAL_NETWORKID_ALIAS = ''local''"
definition RETRY_CHECK_DHFWK_INIT_MAX_TIMES :: "32 word" where [simp]: "RETRY_CHECK_DHFWK_INIT_MAX_TIMES = 25"
definition SYSTEM_UID :: int where "SYSTEM_UID = 1000"
definition DMSDP_ADAPTER_SA_ID :: int where "DMSDP_ADAPTER_SA_ID = 4812"

text \<open>Does the system ability manager have this ability?\<close>

definition CheckSystemAbility :: "('s, 'j) config \<Rightarrow> string \<Rightarrow> 's dh_server \<Rightarrow> bool \<times> 's dh_server" where
  "CheckSystemAbility C sa d = (let (r, d) = on_fwk (call_ret C (EC_Event ''CheckSystemAbility'' sa)) d in (r \<noteq> 0, d))"

definition GetSystemAbilityManager :: "('s, 'j) config \<Rightarrow> 's dh_server \<Rightarrow> bool \<times> 's dh_server" where
  "GetSystemAbilityManager C d = (let (r, d) = on_fwk (call_ret C (EC_Event ''GetSystemAbilityManager'' [])) d in (r \<noteq> 0, d))"

section \<open>Start and stop\<close>

definition IsDepSAStart :: "('s, 'j) config \<Rightarrow> 's dh_server \<Rightarrow> bool \<times> 's dh_server" where
  "IsDepSAStart C d =
    (let (mgr, d) = GetSystemAbilityManager C d in
     if \<not> mgr then (False, d)
     else let (bus, d) = CheckSystemAbility C ''SOFTBUS_SERVER_SA_ID'' d in
     if \<not> bus then (False, d)
     else let (kv, d) = CheckSystemAbility C ''DISTRIBUTED_KV_DATA_SERVICE_ABILITY_ID'' d in
     if \<not> kv then (False, d)
     else let (dm, d) = CheckSystemAbility C ''DISTRIBUTED_HARDWARE_DEVICEMANAGER_SA_ID'' d in
     (dm, d))"

text \<open>The task posts itself again, with a delay, until the services it needs are there.\<close>

definition DoBusinessInit :: "('s, 'j) config \<Rightarrow> 's dh_server \<Rightarrow> bool \<times> 's dh_server" where
  "DoBusinessInit C d =
    (let (dep, d) = IsDepSAStart C d in
     if \<not> dep then (False, upd_fwk (call_void (EC_Event ''PostTask'' ''CheckAndInitDH 500'')) d)
     else let (_, d) = on_fwk (call_ret C (EC_Event ''Init'' ''AccessManager'')) d;
              (_, d) = on_fwk (InitLocalDevInfo C) d
          in (True, upd_fwk (CheckTrustedDeviceOnline C) d))"

definition Service_Init :: "('s, 'j) config \<Rightarrow> 's dh_server \<Rightarrow> bool \<times> 's dh_server" where
  "Service_Init C d =
    (let (ret, d) = (if ds_registerToService d then (True, d)
                     else let (r, d) = on_fwk (call_ret C (EC_Event ''Publish'' [])) d in (r \<noteq> 0, d))
     in if \<not> ret then (False, d)
        else (True, upd_fwk (call_void (EC_Event ''PostTask'' ''CheckAndInitDH 0'')) (d\<lparr>ds_registerToService := True\<rparr>)))"

definition OnStart :: "('s, 'j) config \<Rightarrow> 's dh_server \<Rightarrow> 's dh_server" where
  "OnStart C d =
    (if ds_running d then d
     else let (ok, d) = Service_Init C d in
          if \<not> ok then d
          else upd_fwk (call_void (EC_Event ''AddSystemAbilityListener'' ''MEMORY_MANAGER_SA_ID''))
                 (upd_fwk (\<lambda>w. w\<lparr>fw_isIdle := False\<rparr>) (d\<lparr>ds_running := True\<rparr>)))"

definition OnStop :: "'s dh_server \<Rightarrow> 's dh_server" where
  "OnStop d = upd_fwk (call_void (EC_Event ''NotifyProcessStatus'' ''1 0'')) (d\<lparr>ds_running := False, ds_registerToService := False\<rparr>)"

definition OnIdle :: "'s dh_server \<Rightarrow> int" where
  "OnIdle d = (if fw_isIdle (ds_fwk d) then SA_READY_TO_UNLOAD else SA_REFUSE_TO_UNLOAD)"

definition Service_OnAddSystemAbility :: "bool \<Rightarrow> 's dh_server \<Rightarrow> 's dh_server" where
  "Service_OnAddSystemAbility isMemoryManager d =
    (if isMemoryManager
     then upd_fwk (call_void (EC_Event ''SetCritical'' ''true'')) (upd_fwk (call_void (EC_Event ''NotifyProcessStatus'' ''1 1'')) d)
     else d)"

section \<open>Topics\<close>

definition Service_RegisterPublisherListener :: "('s, 'j) dh_world \<Rightarrow> DHTopic \<Rightarrow> nat option \<Rightarrow> 's dh_server \<Rightarrow> int \<times> 's dh_server" where
  "Service_RegisterPublisherListener W topic listener d =
    (DH_FWK_SUCCESS, upd_fwk (call_void (EC_Event ''SetAVSyncScene'' (dec_nat (unat topic))))
       (d\<lparr>ds_publisher := RegisterListener (dw_AsObject W) topic listener (ds_publisher d)\<rparr>))"

definition Service_UnregisterPublisherListener :: "('s, 'j) dh_world \<Rightarrow> DHTopic \<Rightarrow> nat option \<Rightarrow> 's dh_server \<Rightarrow> int \<times> 's dh_server" where
  "Service_UnregisterPublisherListener W topic listener d =
    (DH_FWK_SUCCESS, d\<lparr>ds_publisher := UnregisterListener (dw_AsObject W) topic listener (ds_publisher d)\<rparr>)"

definition publish :: "DHTopic \<Rightarrow> string \<Rightarrow> 's dh_server \<Rightarrow> 's dh_server" where
  "publish topic msg d = d\<lparr>ds_published := ds_published d @ PublishMessage topic msg (ds_publisher d)\<rparr>"

definition Service_PublishMessage :: "DHTopic \<Rightarrow> string \<Rightarrow> 's dh_server \<Rightarrow> int \<times> 's dh_server" where
  "Service_PublishMessage topic msg d =
    (if topic = TOPIC_CREATE_SESSION_READY then (DH_FWK_SUCCESS, d) else (DH_FWK_SUCCESS, publish topic msg d))"

section \<open>Specifications of this device\<close>

datatype QueryLocalSysSpecType =
  SPEC_UNKNOWN | HISTREAMER_AUDIO_ENCODER | HISTREAMER_AUDIO_DECODER | HISTREAMER_VIDEO_ENCODER | HISTREAMER_VIDEO_DECODER

definition QueryDhSysSpec :: "'j cJSON \<Rightarrow> string \<Rightarrow> string \<Rightarrow> string" where
  "QueryDhSysSpec J targetKey attrs =
    (case cJSON_Parse J attrs of
       None \<Rightarrow> []
     | Some attrJson \<Rightarrow>
         let targetKeyJson = cJSON_GetObjectItem J attrJson targetKey in
         if \<not> IsString J targetKeyJson then [] else cj_valuestring J (the targetKeyJson))"

fun spec_target :: "QueryLocalSysSpecType \<Rightarrow> string \<times> DHType" where
  "spec_target HISTREAMER_AUDIO_ENCODER = (''histmAudEnc'', DHType_AUDIO)"
| "spec_target HISTREAMER_AUDIO_DECODER = (''histmAudDec'', DHType_AUDIO)"
| "spec_target HISTREAMER_VIDEO_ENCODER = (''histmVidEnc'', DHType_SCREEN)"
| "spec_target HISTREAMER_VIDEO_DECODER = (''histmVidDec'', DHType_SCREEN)"
| "spec_target SPEC_UNKNOWN = ([], DHType_UNKNOWN)"

definition Service_QueryLocalSysSpec :: "('s, 'j) config \<Rightarrow> QueryLocalSysSpecType \<Rightarrow> 's dh_server \<Rightarrow> string \<times> 's dh_server" where
  "Service_QueryLocalSysSpec C spec d =
    (let (localDevInfo, ctx) = GetDeviceInfo (c_P C) (fw_ctx (ds_fwk d));
         d = upd_fwk (\<lambda>w. w\<lparr>fw_ctx := ctx\<rparr>) d;
         resInfos = Cap_GetCapabilitiesByDeviceId (di_deviceId localDevInfo) (fw_cap (ds_fwk d));
         (targetKey, targetDhType) = spec_target spec
     in if targetDhType = DHType_UNKNOWN then ([], d)
        else let attrs = (case find (\<lambda>cap. ci_dhType cap = targetDhType) resInfos of None \<Rightarrow> [] | Some cap \<Rightarrow> ci_dhAttrs cap)
             in if attrs = [] then ([], d) else (QueryDhSysSpec (c_J C) targetKey attrs, d))"

section \<open>Sinks\<close>

text \<open>A method of the sink of a component, where there is one.\<close>

definition sink_call :: "string \<Rightarrow> DHType \<Rightarrow> string \<Rightarrow> ecall" where
  "sink_call method dhType arg = EC_Event (method @ '' '' @ dec_nat (unat dhType)) arg"

definition Service_PauseDistributedHardware :: "('s, 'j) config \<Rightarrow> DHType \<Rightarrow> string \<Rightarrow> 's dh_server \<Rightarrow> int \<times> 's dh_server" where
  "Service_PauseDistributedHardware C dhType networkId d =
    (if \<not> IsIdLengthValid networkId then (ERR_DH_FWK_PARA_INVALID, d)
     else case om_get (cm_compSink (fw_cm (ds_fwk d))) dhType of
            None \<Rightarrow> (ERR_DH_FWK_PARA_INVALID, d)
          | Some None \<Rightarrow> (ERR_DH_FWK_PARA_INVALID, d)
          | Some (Some p) \<Rightarrow> on_fwk (call_ret C (sink_call ''PauseDistributedHardware'' dhType networkId)) d)"

definition Service_ResumeDistributedHardware :: "('s, 'j) config \<Rightarrow> DHType \<Rightarrow> string \<Rightarrow> 's dh_server \<Rightarrow> int \<times> 's dh_server" where
  "Service_ResumeDistributedHardware C dhType networkId d =
    (if \<not> IsIdLengthValid networkId then (ERR_DH_FWK_PARA_INVALID, d)
     else case om_get (cm_compSink (fw_cm (ds_fwk d))) dhType of
            None \<Rightarrow> (ERR_DH_FWK_PARA_INVALID, d)
          | Some None \<Rightarrow> (ERR_DH_FWK_PARA_INVALID, d)
          | Some (Some p) \<Rightarrow> on_fwk (call_ret C (sink_call ''ResumeDistributedHardware'' dhType networkId)) d)"

definition Service_StopDistributedHardware :: "('s, 'j) config \<Rightarrow> DHType \<Rightarrow> string \<Rightarrow> 's dh_server \<Rightarrow> int \<times> 's dh_server" where
  "Service_StopDistributedHardware C dhType networkId d =
    (if \<not> IsIdLengthValid networkId then (ERR_DH_FWK_PARA_INVALID, d)
     else case om_get (cm_compSink (fw_cm (ds_fwk d))) dhType of
            None \<Rightarrow> (ERR_DH_FWK_PARA_INVALID, d)
          | Some None \<Rightarrow> (ERR_DH_FWK_PARA_INVALID, d)
          | Some (Some p) \<Rightarrow> on_fwk (call_ret C (sink_call ''StopDistributedHardware'' dhType networkId)) d)"

definition Service_SetAuthorizationResult :: "('s, 'j) config \<Rightarrow> DHType \<Rightarrow> string \<Rightarrow> bool \<Rightarrow> 's dh_server \<Rightarrow> 's dh_server" where
  "Service_SetAuthorizationResult C dhType requestId granted d =
    (case om_get (cm_compSink (fw_cm (ds_fwk d))) dhType of
       None \<Rightarrow> d
     | Some None \<Rightarrow> d
     | Some (Some p) \<Rightarrow>
         snd (on_fwk (call_ret C (sink_call ''SetAuthorizationResult'' dhType (requestId @ (if granted then '' 1'' else '' 0'')))) d))"

section \<open>The hardware of a device\<close>

text \<open>\<open>EC_OnGetDescriptors\<close> is the call of the callback: the descriptors and the step, or an error.\<close>

definition GetDeviceDhInfo ::
    "string \<Rightarrow> string \<Rightarrow> string \<Rightarrow> EnableStep \<Rightarrow> nat \<Rightarrow> 's fwk \<Rightarrow> int \<times> 's fwk" where
  "GetDeviceDhInfo realNetworkId udidHash deviceId enableStep callback w =
    (if \<not> IsIdLengthValid realNetworkId \<or> \<not> IsIdLengthValid udidHash \<or> \<not> IsIdLengthValid deviceId
     then (ERR_DH_FWK_PARA_INVALID, w)
     else
       let descriptor = (\<lambda>i t. \<lparr>dd_id = i, dd_dhType = t, dd_customParams = [], dd_firstCallingTokenId = 0\<rparr>);
           metaCapInfos = GetMetaCapInfosByUdidHash udidHash (fw_meta w) in
       if metaCapInfos \<noteq> [] then
         (DH_FWK_SUCCESS, call_void (EC_OnGetDescriptors callback realNetworkId
            (Inr (map (\<lambda>c. descriptor (ci_dhId c) (ci_dhType c)) metaCapInfos, enableStep))) w)
       else
         let capaInfos = Local_GetCapabilitiesByDeviceId deviceId (fw_local w) in
         if capaInfos \<noteq> [] then
           (DH_FWK_SUCCESS, call_void (EC_OnGetDescriptors callback realNetworkId
              (Inr (map (\<lambda>c. descriptor (ci_dhId c) (ci_dhType c)) capaInfos, enableStep))) w)
         else (ERR_DH_FWK_HARDWARE_MANAGER_GET_DHINFO_FAIL, w))"

definition StartGetDeviceDhInfo ::
    "('s, 'j) config \<Rightarrow> string \<Rightarrow> EnableStep \<Rightarrow> nat \<Rightarrow> 's fwk \<Rightarrow> 's fwk" where
  "StartGetDeviceDhInfo C networkId enableStep callback w =
    (let me = GetLocalDeviceInfo (c_P C);
         (deviceId, realNetworkId, udidHash) =
           (if networkId = LOCAL_NETWORKID_ALIAS \<or> networkId = di_networkId me
            then (di_deviceId me, di_networkId me, di_udidHash me)
            else (GetDeviceIdByNetworkId networkId (fw_ctx w), networkId,
                  Sha256 (pf_digest (c_P C)) (GetUDIDByNetworkId networkId (fw_ctx w))));
         (ret, w1) = GetDeviceDhInfo realNetworkId udidHash deviceId enableStep callback w
     in if ret \<noteq> DH_FWK_SUCCESS then SyncRemoteDeviceInfoBySoftbus realNetworkId enableStep (Some callback) w1 else w1)"

definition StartCleanupTimer :: "'s dh_server \<Rightarrow> 's dh_server" where
  "StartCleanupTimer d = d\<lparr>ds_cleanupRunning := True, ds_cleanupThreads := ds_cleanupThreads d + 1\<rparr>"

definition QueuePendingRequest :: "string \<Rightarrow> EnableStep \<Rightarrow> nat option \<Rightarrow> 's dh_server \<Rightarrow> 's dh_server" where
  "QueuePendingRequest networkId enableStep callback d =
    (let request = \<lparr>pr_networkId = networkId, pr_enableStep = enableStep, pr_callback = callback\<rparr>;
         d1 = d\<lparr>ds_pendingGetDHRequests := ds_pendingGetDHRequests d @ [request]\<rparr>
     in if ds_pendingGetDHRequests d = [] then StartCleanupTimer d1 else d1)"

definition Service_GetDistributedHardware ::
    "('s, 'j) dh_world \<Rightarrow> string \<Rightarrow> EnableStep \<Rightarrow> nat option \<Rightarrow> 's dh_server \<Rightarrow> int \<times> 's dh_server" where
  "Service_GetDistributedHardware W networkId enableStep callback d =
    (case callback of
       None \<Rightarrow> (ERR_DH_FWK_PARA_INVALID, d)
     | Some cb \<Rightarrow>
        if \<not> IsIdLengthValid networkId then (ERR_DH_FWK_PARA_INVALID, d)
        else if enableStep = ES_ENABLE_SOURCE \<and> \<not> IsRealTimeOnlineDevice networkId (fw_ctx (ds_fwk d)) then (ERR_DH_FWK_PARA_INVALID, d)
        else if enableStep = ES_ENABLE_SOURCE \<and> \<not> fw_isAllInit (ds_fwk d)
        then (DH_FWK_SUCCESS, QueuePendingRequest networkId enableStep callback d)
        else if enableStep = ES_ENABLE_SINK
          \<and> \<not> (if dw_sink_local_init W then fw_isLocalInit (ds_fwk d) else fw_isAllInit (ds_fwk d))
        then (DH_FWK_SUCCESS, QueuePendingRequest networkId enableStep callback d)
        else (DH_FWK_SUCCESS, upd_fwk (StartGetDeviceDhInfo (dw_C W) networkId enableStep cb) d))"

definition ProcessPendingRequests ::
    "('s, 'j) config \<Rightarrow> PendingGetDHRequest list \<Rightarrow> PendingGetDHRequest list \<Rightarrow> 's dh_server \<Rightarrow> 's dh_server" where
  "ProcessPendingRequests C readyRequests timeoutRequests d =
    (let d1 = upd_fwk (fold (\<lambda>r w. case pr_callback r of
                 None \<Rightarrow> w
               | Some cb \<Rightarrow> call_void (EC_OnGetDescriptors cb (pr_networkId r) (Inl ERR_DH_FWK_GETDISTRIBUTEDHARDWARE_TIMEOUT)) w)
               timeoutRequests) d
     in upd_fwk (fold (\<lambda>r w. StartGetDeviceDhInfo C (pr_networkId r) (pr_enableStep r) (the (pr_callback r)) w) readyRequests) d1)"

text \<open>What the cleanup does with the queue: the requests that are ready, those that are late, and the members after it.\<close>

definition sort_pending ::
    "('s, 'j) dh_world \<Rightarrow> 's dh_server \<Rightarrow> PendingGetDHRequest list \<times> PendingGetDHRequest list \<times> 's dh_server" where
  "sort_pending W d =
    (let pending = ds_pendingGetDHRequests d;
         isInit = fw_isAllInit (ds_fwk d); isLocalInit = fw_isLocalInit (ds_fwk d);
         late = RETRY_CHECK_DHFWK_INIT_MAX_TIMES < ds_dhfwkInitTimes d
     in if dw_sink_local_init W then
          let ready = (\<lambda>r. if pr_enableStep r = ES_ENABLE_SINK then isLocalInit else isInit);
              remaining = filter (\<lambda>r. \<not> ready r \<and> \<not> late) pending;
              d1 = d\<lparr>ds_pendingGetDHRequests := remaining\<rparr>
          in (filter ready pending, filter (\<lambda>r. \<not> ready r \<and> late) pending,
              if remaining = [] then d1\<lparr>ds_dhfwkInitTimes := 0, ds_cleanupRunning := False\<rparr>
              else d1\<lparr>ds_dhfwkInitTimes := ds_dhfwkInitTimes d1 + 1\<rparr>)
        else if isInit then (pending, [], d\<lparr>ds_pendingGetDHRequests := [], ds_dhfwkInitTimes := 0, ds_cleanupRunning := False\<rparr>)
        else if late then ([], pending, d\<lparr>ds_pendingGetDHRequests := [], ds_cleanupRunning := False\<rparr>)
        else ([], [], d\<lparr>ds_dhfwkInitTimes := ds_dhfwkInitTimes d + 1\<rparr>))"

definition CleanupExpiredRequests :: "('s, 'j) dh_world \<Rightarrow> 's dh_server \<Rightarrow> 's dh_server" where
  "CleanupExpiredRequests W d =
    (if ds_pendingGetDHRequests d = [] then d\<lparr>ds_cleanupRunning := False\<rparr>
     else case sort_pending W d of (ready, late, d1) \<Rightarrow> ProcessPendingRequests (dw_C W) ready late d1)"

text \<open>One turn of a cleanup thread, after its sleep: does it go on?\<close>

definition cleanup_turn :: "('s, 'j) dh_world \<Rightarrow> 's dh_server \<Rightarrow> bool \<times> 's dh_server" where
  "cleanup_turn W d =
    (let d1 = (if ds_cleanupRunning d then CleanupExpiredRequests W d else d)
     in if ds_cleanupRunning d1 then (True, d1) else (False, d1\<lparr>ds_cleanupThreads := ds_cleanupThreads d1 - 1\<rparr>))"

section \<open>Listeners\<close>

definition Service_RegisterDHStatusSinkListener :: "('s, 'j) config \<Rightarrow> dh_caller \<Rightarrow> nat \<Rightarrow> 's dh_server \<Rightarrow> int \<times> 's dh_server" where
  "Service_RegisterDHStatusSinkListener C k listener = on_fwk (RegisterDHStatusListener_sink C listener (dc_uid k) (dc_pid k))"

definition Service_UnregisterDHStatusSinkListener :: "('s, 'j) config \<Rightarrow> dh_caller \<Rightarrow> nat \<Rightarrow> 's dh_server \<Rightarrow> int \<times> 's dh_server" where
  "Service_UnregisterDHStatusSinkListener C k listener = on_fwk (UnregisterDHStatusListener_sink C (dc_uid k) (dc_pid k))"

definition Service_RegisterDHStatusSourceListener ::
    "('s, 'j) config \<Rightarrow> dh_caller \<Rightarrow> string \<Rightarrow> nat \<Rightarrow> 's dh_server \<Rightarrow> int \<times> 's dh_server" where
  "Service_RegisterDHStatusSourceListener C k networkId listener d =
    (if \<not> IsIdLengthValid networkId then (ERR_DH_FWK_PARA_INVALID, d)
     else on_fwk (RegisterDHStatusListener_source C networkId listener (dc_uid k) (dc_pid k)) d)"

definition Service_UnregisterDHStatusSourceListener ::
    "('s, 'j) config \<Rightarrow> dh_caller \<Rightarrow> string \<Rightarrow> nat \<Rightarrow> 's dh_server \<Rightarrow> int \<times> 's dh_server" where
  "Service_UnregisterDHStatusSourceListener C k networkId listener d =
    (if \<not> IsIdLengthValid networkId then (ERR_DH_FWK_PARA_INVALID, d)
     else on_fwk (UnregisterDHStatusListener_source C networkId (dc_uid k) (dc_pid k)) d)"

section \<open>Enable and disable\<close>

definition set_critical :: "'s dh_server \<Rightarrow> 's dh_server" where
  "set_critical = upd_fwk (\<lambda>w. DelaySaStatusTask (call_void (EC_Event ''SetCritical'' ''true'') w))"

definition sink_param :: "dh_caller \<Rightarrow> DHDescriptor \<Rightarrow> TaskParam" where
  "sink_param k descriptor =
    TaskParam_default\<lparr>tp_dhId := dd_id descriptor, tp_dhType := dd_dhType descriptor, tp_effectSink := True,
      tp_effectSource := False, tp_callingUid := dc_uid k, tp_callingPid := dc_pid k\<rparr>"

definition source_param :: "dh_caller \<Rightarrow> string \<Rightarrow> DHDescriptor \<Rightarrow> TaskParam" where
  "source_param k networkId descriptor =
    TaskParam_default\<lparr>tp_networkId := networkId, tp_dhId := dd_id descriptor, tp_dhType := dd_dhType descriptor,
      tp_effectSink := False, tp_effectSource := True, tp_callingUid := dc_uid k, tp_callingPid := dc_pid k\<rparr>"

definition Service_EnableSink :: "('s, 'j) config \<Rightarrow> dh_caller \<Rightarrow> DHDescriptor list \<Rightarrow> 's dh_server \<Rightarrow> int \<times> 's dh_server" where
  "Service_EnableSink C k descriptors d =
    (let d1 = (if \<not> IsSinkActiveEnabled (ds_fwk d) then set_critical d else d)
     in (DH_FWK_SUCCESS, upd_fwk (fold (\<lambda>x. create_and_push C TT_ENABLE
          ((sink_param k x)\<lparr>tp_firstCallingTokenId := dd_firstCallingTokenId x, tp_customParams := dd_customParams x\<rparr>)) descriptors) d1))"

definition Service_DisableSink :: "('s, 'j) config \<Rightarrow> dh_caller \<Rightarrow> DHDescriptor list \<Rightarrow> 's dh_server \<Rightarrow> int \<times> 's dh_server" where
  "Service_DisableSink C k descriptors d =
    (DH_FWK_SUCCESS, upd_fwk (fold (\<lambda>x. create_and_push C TT_DISABLE (sink_param k x)) descriptors) (upd_fwk DelaySaStatusTask d))"

definition Service_EnableSource :: "('s, 'j) config \<Rightarrow> dh_caller \<Rightarrow> string \<Rightarrow> DHDescriptor list \<Rightarrow> 's dh_server \<Rightarrow> int \<times> 's dh_server" where
  "Service_EnableSource C k networkId descriptors d =
    (if \<not> IsIdLengthValid networkId then (ERR_DH_FWK_PARA_INVALID, d)
     else
       let d1 = (if \<not> IsSourceEnabled (ds_fwk d) \<and> \<not> IsAnyHdfInuse (ds_hdf d) then set_critical d else d)
       in (DH_FWK_SUCCESS, upd_fwk (fold (\<lambda>x. create_and_push C TT_ENABLE
            ((source_param k networkId x)\<lparr>tp_callingTokenId := dc_FirstTokenID k, tp_firstCallingTokenId := dd_firstCallingTokenId x,
               tp_customParams := dd_customParams x\<rparr>)) descriptors) d1))"

definition Service_DisableSource :: "('s, 'j) config \<Rightarrow> dh_caller \<Rightarrow> string \<Rightarrow> DHDescriptor list \<Rightarrow> 's dh_server \<Rightarrow> int \<times> 's dh_server" where
  "Service_DisableSource C k networkId descriptors d =
    (if \<not> IsIdLengthValid networkId then (ERR_DH_FWK_PARA_INVALID, d)
     else (DH_FWK_SUCCESS, upd_fwk (fold (\<lambda>x. create_and_push C TT_DISABLE (source_param k networkId x)) descriptors)
             (upd_fwk DelaySaStatusTask d)))"

section \<open>Drivers\<close>

definition on_hdf ::
    "(HdfOperateManager \<Rightarrow> 's fwk \<Rightarrow> 'r \<times> HdfOperateManager \<times> 's fwk) \<Rightarrow> 's dh_server \<Rightarrow> 'r \<times> 's dh_server" where
  "on_hdf f d = (case f (ds_hdf d) (ds_fwk d) of (r, m, w) \<Rightarrow> (r, d\<lparr>ds_hdf := m, ds_fwk := w\<rparr>))"

definition Service_LoadDistributedHDF :: "('s, 'j) config \<Rightarrow> DHType \<Rightarrow> 's dh_server \<Rightarrow> int \<times> 's dh_server" where
  "Service_LoadDistributedHDF C dhType d =
    (let d1 = (if \<not> IsAnyHdfInuse (ds_hdf d) then set_critical d else d)
     in if dhType = DHType_AUDIO \<or> dhType = DHType_CAMERA then on_hdf (Hdf_LoadDistributedHDF C dhType) d1
        else (ERR_DH_FWK_NO_HDF_SUPPORT, d1))"

definition Service_UnLoadDistributedHDF :: "('s, 'j) config \<Rightarrow> DHType \<Rightarrow> 's dh_server \<Rightarrow> int \<times> 's dh_server" where
  "Service_UnLoadDistributedHDF C dhType d =
    (if dhType = DHType_AUDIO \<or> dhType = DHType_CAMERA
     then on_hdf (Hdf_UnLoadDistributedHDF C dhType) (upd_fwk DelaySaStatusTask d)
     else (ERR_DH_FWK_NO_HDF_SUPPORT, d))"

section \<open>Requests of another device\<close>

definition CheckDHAccessPermission :: "('s, 'j) dh_world \<Rightarrow> dh_caller \<Rightarrow> string \<Rightarrow> int" where
  "CheckDHAccessPermission W k udid =
    (let networkId = dw_GetNetworkIdByUdid W udid in
     if \<not> IsIdLengthValid networkId then ERR_DH_FWK_PARA_INVALID
     else if \<not> dc_VerifyAccessToken k networkId then ERR_DH_FWK_ACCESS_PERMISSION_CHECK_FAIL
     else DH_FWK_SUCCESS)"

definition CheckRemoteDeviceTypeAndUid :: "dh_caller \<Rightarrow> string \<Rightarrow> 's dh_server \<Rightarrow> bool \<times> 's dh_server" where
  "CheckRemoteDeviceTypeAndUid k udid d =
    (let networkId = GetNetworkIdByUDID udid (fw_ctx (ds_fwk d)) in
     if \<not> IsIdLengthValid networkId then (False, d)
     else let (double, ctx) = IsDoubleFwkDevice networkId (fw_ctx (ds_fwk d)); d1 = upd_fwk (\<lambda>w. w\<lparr>fw_ctx := ctx\<rparr>) d
          in if \<not> double then (False, d1) else (dc_DCallingUid k = SYSTEM_UID, d1))"

definition remote_allowed :: "('s, 'j) dh_world \<Rightarrow> dh_caller \<Rightarrow> string \<Rightarrow> 's dh_server \<Rightarrow> bool \<times> 's dh_server" where
  "remote_allowed W k udid d =
    (if CheckDHAccessPermission W k udid = DH_FWK_SUCCESS then (True, d) else CheckRemoteDeviceTypeAndUid k udid d)"

definition Service_NotifySourceRemoteSinkStarted :: "('s, 'j) dh_world \<Rightarrow> dh_caller \<Rightarrow> string \<Rightarrow> 's dh_server \<Rightarrow> int \<times> 's dh_server" where
  "Service_NotifySourceRemoteSinkStarted W k udid d =
    (if CheckDHAccessPermission W k udid \<noteq> DH_FWK_SUCCESS then (ERR_DH_FWK_ACCESS_PERMISSION_CHECK_FAIL, d)
     else (DH_FWK_SUCCESS, publish TOPIC_INIT_DHMS_READY udid d))"

definition Service_NotifySinkRemoteSourceStarted :: "('s, 'j) dh_world \<Rightarrow> dh_caller \<Rightarrow> string \<Rightarrow> 's dh_server \<Rightarrow> int \<times> 's dh_server" where
  "Service_NotifySinkRemoteSourceStarted W k udid d =
    (let (allowed, d) = remote_allowed W k udid d
     in if \<not> allowed then (ERR_DH_FWK_ACCESS_PERMISSION_CHECK_FAIL, d)
        else (DH_FWK_SUCCESS, publish TOPIC_SOURCE_DHMS_READY udid d))"

definition Service_LoadSinkDMSDPService :: "('s, 'j) dh_world \<Rightarrow> dh_caller \<Rightarrow> string \<Rightarrow> 's dh_server \<Rightarrow> int \<times> 's dh_server" where
  "Service_LoadSinkDMSDPService W k udid d =
    (let (allowed, d) = remote_allowed W k udid d in
     if \<not> allowed then (ERR_DH_FWK_ACCESS_PERMISSION_CHECK_FAIL, d)
     else let (mgr, d) = GetSystemAbilityManager (dw_C W) d in
     if \<not> mgr then (ERR_DH_FWK_POINTER_IS_NULL, d)
     else let (there, d) = CheckSystemAbility (dw_C W) ''DMSDP_ADAPTER_SA_ID'' d in
     if there then (DH_FWK_SUCCESS, d)
     else on_fwk (call_ret (dw_C W) (EC_Event ''LoadSystemAbility'' ''DMSDP_ADAPTER_SA_ID'')) d)"

section \<open>Access\<close>

definition Service_RegisterHardwareAccessListener ::
    "('s, 'j) config \<Rightarrow> DHType \<Rightarrow> nat option \<Rightarrow> 32 word \<Rightarrow> string \<Rightarrow> 's dh_server \<Rightarrow> int \<times> 's dh_server" where
  "Service_RegisterHardwareAccessListener C dhType callback timeOut pkgName d =
    (if callback = None then (ERR_DH_FWK_PARA_INVALID, d)
     else if pkgName = [] then (ERR_DH_FWK_PARA_INVALID, d)
     else on_fwk (AddAccessListener C dhType pkgName callback) d)"

definition Service_UnregisterHardwareAccessListener ::
    "('s, 'j) config \<Rightarrow> DHType \<Rightarrow> nat option \<Rightarrow> string \<Rightarrow> 's dh_server \<Rightarrow> int \<times> 's dh_server" where
  "Service_UnregisterHardwareAccessListener C dhType callback pkgName d =
    (if pkgName = [] then (ERR_DH_FWK_PARA_INVALID, d) else on_fwk (RemoveAccessListener C dhType pkgName) d)"

text \<open>
  The listener that the sinks ask for an authorisation (\<open>access_listener_service.cpp\<close>): the callback of the client
  that registered, with what it is told.
\<close>

definition AccessListenerService_OnRequestHardwareAccess ::
    "string \<Rightarrow> string \<Rightarrow> DHType \<Rightarrow> string \<Rightarrow> 's dh_server \<Rightarrow> (nat \<times> string \<times> string) option" where
  "AccessListenerService_OnRequestHardwareAccess requestId infoNetworkId dhType pkgName d =
    map_option (\<lambda>callback. (callback, infoNetworkId, requestId)) (GetAccessListener dhType pkgName (ds_fwk d))"

section \<open>The control centre\<close>

definition on_centre :: "(av_sys \<Rightarrow> 'r \<times> av_sys) \<Rightarrow> 's dh_server \<Rightarrow> 'r \<times> 's dh_server" where
  "on_centre f d = (case f (ds_centre d) of (r, a) \<Rightarrow> (r, d\<lparr>ds_centre := a\<rparr>))"

definition Service_InitializeAVCenter :: "('s, 'j) dh_world \<Rightarrow> TransRole \<Rightarrow> 's dh_server \<Rightarrow> (int \<times> int) \<times> 's dh_server" where
  "Service_InitializeAVCenter W transRole = on_centre (InitializeAVCenter (dw_V W) transRole)"

definition Service_ReleaseAVCenter :: "('s, 'j) dh_world \<Rightarrow> int \<Rightarrow> 's dh_server \<Rightarrow> int \<times> 's dh_server" where
  "Service_ReleaseAVCenter W engineId = on_centre (ReleaseAVCenter (dw_V W) engineId)"

definition Service_CreateControlChannel :: "('s, 'j) dh_world \<Rightarrow> int \<Rightarrow> string \<Rightarrow> 's dh_server \<Rightarrow> int \<times> 's dh_server" where
  "Service_CreateControlChannel W engineId peerDevId = on_centre (CreateControlChannel (dw_V W) engineId peerDevId)"

definition Service_NotifyAVCenter :: "('s, 'j) dh_world \<Rightarrow> int \<Rightarrow> AVTransEvent \<Rightarrow> 's dh_server \<Rightarrow> int \<times> 's dh_server" where
  "Service_NotifyAVCenter W engineId event = on_centre (NotifyAVCenter (dw_V W) engineId event)"

definition Service_RegisterCtlCenterCallback :: "int \<Rightarrow> nat option \<Rightarrow> 's dh_server \<Rightarrow> int \<times> 's dh_server" where
  "Service_RegisterCtlCenterCallback engineId callback = on_centre (RegisterCtlCenterCallback engineId callback)"

section \<open>The methods that the stub calls\<close>

text \<open>
  The arguments as the stub reads them, and the answers as it writes them.  A number outside an enumeration is taken
  as one of its values that the method treats in the same way.
\<close>

definition role_of :: "32 word \<Rightarrow> TransRole" where
  "role_of r = (if r = 0 then AV_SENDER else if r = 1 then AV_RECEIVER else TransRole_UNKNOWN)"

definition spec_of :: "32 word \<Rightarrow> QueryLocalSysSpecType" where
  "spec_of r = (if r = 1 then HISTREAMER_AUDIO_ENCODER else if r = 2 then HISTREAMER_AUDIO_DECODER
     else if r = 3 then HISTREAMER_VIDEO_ENCODER else if r = 4 then HISTREAMER_VIDEO_DECODER else SPEC_UNKNOWN)"

definition step_of :: "32 word \<Rightarrow> EnableStep" where
  "step_of r = (if r = 1 then ES_ENABLE_SOURCE else if r = 2 then ES_DISABLE_SOURCE else if r = 3 then ES_ENABLE_SINK else ES_DISABLE_SINK)"

definition event_of :: "32 word \<times> string \<times> string \<Rightarrow> AVTransEvent" where
  "event_of e = \<lparr>ev_type = (if fst e = 11 then EVENT_ADD_STREAM else if fst e = 12 then EVENT_REMOVE_STREAM else EVENT_CHANNEL_OPENED),
     ev_content = fst (snd e), ev_peerDevId = snd (snd e)\<rparr>"

definition in_word :: "int \<times> 's \<Rightarrow> 32 word \<times> 's" where
  "in_word r = (word_of_int (fst r), snd r)"

definition service_methods :: "('s, 'j) dh_world \<Rightarrow> dh_caller \<Rightarrow> 's dh_server dh_service" where
  "service_methods W k = \<lparr>
    sv_RegisterPublisherListener = (\<lambda>t l d. in_word (Service_RegisterPublisherListener W t (Some l) d)),
    sv_UnregisterPublisherListener = (\<lambda>t l d. in_word (Service_UnregisterPublisherListener W t (Some l) d)),
    sv_PublishMessage = (\<lambda>t m d. in_word (Service_PublishMessage t m d)),
    sv_QueryLocalSysSpec = (\<lambda>x d. Service_QueryLocalSysSpec (dw_C W) (spec_of x) d),
    sv_InitializeAVCenter = (\<lambda>x d. case Service_InitializeAVCenter W (role_of x) d of
       ((ret, e), d1) \<Rightarrow> (word_of_int e, word_of_int ret, d1)),
    sv_ReleaseAVCenter = (\<lambda>e d. in_word (Service_ReleaseAVCenter W (sint e) d)),
    sv_CreateControlChannel = (\<lambda>e p d. in_word (Service_CreateControlChannel W (sint e) p d)),
    sv_NotifyAVCenter = (\<lambda>e v d. in_word (Service_NotifyAVCenter W (sint e) (event_of v) d)),
    sv_RegisterCtlCenterCallback = (\<lambda>e l d. in_word (Service_RegisterCtlCenterCallback (sint e) (Some l) d)),
    sv_NotifySourceRemoteSinkStarted = (\<lambda>u d. in_word (Service_NotifySourceRemoteSinkStarted W k u d)),
    sv_PauseDistributedHardware = (\<lambda>t n d. in_word (Service_PauseDistributedHardware (dw_C W) t n d)),
    sv_ResumeDistributedHardware = (\<lambda>t n d. in_word (Service_ResumeDistributedHardware (dw_C W) t n d)),
    sv_StopDistributedHardware = (\<lambda>t n d. in_word (Service_StopDistributedHardware (dw_C W) t n d)),
    sv_GetDistributedHardware = (\<lambda>n e l d. in_word (Service_GetDistributedHardware W n (step_of e) (Some l) d)),
    sv_RegisterDHStatusSinkListener = (\<lambda>l d. in_word (Service_RegisterDHStatusSinkListener (dw_C W) k l d)),
    sv_UnregisterDHStatusSinkListener = (\<lambda>l d. in_word (Service_UnregisterDHStatusSinkListener (dw_C W) k l d)),
    sv_RegisterDHStatusSourceListener = (\<lambda>n l d. in_word (Service_RegisterDHStatusSourceListener (dw_C W) k n l d)),
    sv_UnregisterDHStatusSourceListener = (\<lambda>n l d. in_word (Service_UnregisterDHStatusSourceListener (dw_C W) k n l d)),
    sv_EnableSink = (\<lambda>ds d. in_word (Service_EnableSink (dw_C W) k ds d)),
    sv_DisableSink = (\<lambda>ds d. in_word (Service_DisableSink (dw_C W) k ds d)),
    sv_EnableSource = (\<lambda>n ds d. in_word (Service_EnableSource (dw_C W) k n ds d)),
    sv_DisableSource = (\<lambda>n ds d. in_word (Service_DisableSource (dw_C W) k n ds d)),
    sv_LoadDistributedHDF = (\<lambda>t d. in_word (Service_LoadDistributedHDF (dw_C W) t d)),
    sv_UnLoadDistributedHDF = (\<lambda>t d. in_word (Service_UnLoadDistributedHDF (dw_C W) t d)),
    sv_AddDeathRecipient = (\<lambda>t r d. in_word (on_fwk (AddDeathRecipient (dw_C W) t (Some r)) d)),
    sv_RemoveDeathRecipient = (\<lambda>t r d. in_word (on_fwk (RemoveDeathRecipient (dw_C W) t (Some r)) d)),
    sv_LoadSinkDMSDPService = (\<lambda>u d. in_word (Service_LoadSinkDMSDPService W k u d)),
    sv_NotifySinkRemoteSourceStarted = (\<lambda>u d. in_word (Service_NotifySinkRemoteSourceStarted W k u d)),
    sv_RegisterHardwareAccessListener = (\<lambda>t l w n d. in_word (Service_RegisterHardwareAccessListener (dw_C W) t (Some l) w n d)),
    sv_UnregisterHardwareAccessListener = (\<lambda>t l n d. in_word (Service_UnregisterHardwareAccessListener (dw_C W) t (Some l) n d)),
    sv_SetAuthorizationResult = (\<lambda>t i g d. Service_SetAuthorizationResult (dw_C W) t i g d)\<rparr>"

end
