(* ===== verification/Server_Properties.thy ===== *)
theory Server_Properties
  imports Dh_Service Created_Tasks Ipc_Properties
begin

text \<open>
  The service behind its entry: a request of a client to enable hardware becomes tasks in the queue, and the
  requests that wait for the framework are answered.
\<close>

section \<open>Tasks of a request\<close>

lemma created_param:
  "\<exists>t. fw_tasks (create_and_push C TT_ENABLE tp w) = fw_tasks w @ [t] \<and> t_param t = tp \<and> t_taskType t = TT_ENABLE"
  by (simp add: create_and_push_def CreateTask_unfold fresh_task_def Task_ctor_def CreateEnableTask_def link_father_def
      PushTask_def AddTask_def Let_def upd_task_def TaskParam_default_def)

lemma PushQueue_takes: "length q \<le> 257 \<Longrightarrow> PushQueue p q = q @ take (257 - length q) [p]"
  by (cases "length q = 257") (auto simp: PushQueue_def)

lemma created_tasks:
  assumes "length (fw_taskQueue w) \<le> 257"
  shows "let w' = fold (\<lambda>x. create_and_push C TT_ENABLE (f x)) ds w
    in fw_taskQueue w' = fw_taskQueue w @ take (257 - length (fw_taskQueue w)) [length (fw_tasks w) ..< length (fw_tasks w) + length ds]
     \<and> map t_param (drop (length (fw_tasks w)) (fw_tasks w')) = map f ds \<and> take (length (fw_tasks w)) (fw_tasks w') = fw_tasks w
     \<and> length (fw_tasks w) \<le> length (fw_tasks w')"
  using assms
proof (induction ds arbitrary: w)
  case (Cons x ds)
  let ?w1 = "create_and_push C TT_ENABLE (f x) w" and ?n = "length (fw_tasks w)" and ?q = "fw_taskQueue w"
  let ?w' = "fold (\<lambda>x. create_and_push C TT_ENABLE (f x)) ds ?w1"
  obtain t where t: "fw_tasks ?w1 = fw_tasks w @ [t]" "t_param t = f x" using created_param by blast
  have q: "fw_taskQueue ?w1 = ?q @ take (257 - length ?q) [?n]"
    using create_and_push_queue(1)[of TT_ENABLE C "f x" w] PushQueue_takes[OF Cons.prems] by simp
  have "length (fw_taskQueue ?w1) \<le> 257" using Cons.prems by (simp add: q)
  from Cons.IH[OF this] have ih: "fw_taskQueue ?w' = fw_taskQueue ?w1 @ take (257 - length (fw_taskQueue ?w1)) [Suc ?n ..< Suc ?n + length ds]"
    "map t_param (drop (Suc ?n) (fw_tasks ?w')) = map f ds" "take (Suc ?n) (fw_tasks ?w') = fw_tasks w @ [t]" "Suc ?n \<le> length (fw_tasks ?w')"
    by (simp_all add: Let_def t(1))
  have "[?n ..< ?n + length (x # ds)] = ?n # [Suc ?n ..< Suc ?n + length ds]" using upt_conv_Cons[of ?n "?n + length (x # ds)"] by (simp del: upt_Suc)
  then have "fw_taskQueue ?w' = ?q @ take (257 - length ?q) [?n ..< ?n + length (x # ds)]"
  proof (cases "length ?q = 257")
    case True
    then show ?thesis using ih(1) by (simp add: q)
  next
    case False
    then have e: "257 - length ?q = Suc (256 - length ?q)" using Cons.prems by simp
    then have "fw_taskQueue ?w1 = ?q @ [?n]" "257 - length (fw_taskQueue ?w1) = 256 - length ?q" by (simp_all add: q)
    then show ?thesis using ih(1) \<open>[?n ..< ?n + length (x # ds)] = _\<close> unfolding e by (simp del: upt_Suc)
  qed
  moreover have "drop ?n (fw_tasks ?w') = t # drop (Suc ?n) (fw_tasks ?w')"
  proof -
    have "?n < length (fw_tasks ?w')" using ih(4) by simp
    then have "drop ?n (fw_tasks ?w') = fw_tasks ?w' ! ?n # drop (Suc ?n) (fw_tasks ?w')" by (rule Cons_nth_drop_Suc[symmetric])
    moreover have "fw_tasks ?w' ! ?n = take (Suc ?n) (fw_tasks ?w') ! ?n" by simp
    ultimately show ?thesis by (simp add: ih(3))
  qed
  moreover have "take ?n (fw_tasks ?w') = take ?n (take (Suc ?n) (fw_tasks ?w'))" by (simp add: min_def)
  ultimately show ?case using ih t(2) by (simp add: Let_def)
qed simp

lemma critical_keeps [simp]:
  "fw_tasks (ds_fwk (set_critical d)) = fw_tasks (ds_fwk d)" "fw_taskQueue (ds_fwk (set_critical d)) = fw_taskQueue (ds_fwk d)"
  by (simp_all add: set_critical_def upd_fwk_def DelaySaStatusTask_def call_void_def)

definition enable_param :: "dh_caller \<Rightarrow> string \<Rightarrow> DHDescriptor \<Rightarrow> TaskParam" where
  "enable_param k networkId x =
    \<lparr>tp_networkId = networkId, tp_uuid = [], tp_udid = [], tp_dhId = dd_id x, tp_dhType = dd_dhType x, tp_effectSink = False,
     tp_effectSource = True, tp_callingUid = dc_uid k, tp_callingPid = dc_pid k, tp_callingTokenId = dc_FirstTokenID k,
     tp_firstCallingTokenId = dd_firstCallingTokenId x, tp_customParams = dd_customParams x\<rparr>"

lemma service_enables:
  fixes d :: "'s dh_server" and C :: "('s, 'j) config" and k :: dh_caller and ds :: "DHDescriptor list"
  assumes "IsIdLengthValid n" "length (fw_taskQueue (ds_fwk d)) \<le> 257"
  defines "r \<equiv> Service_EnableSource C k n ds d"
  shows "fst r = DH_FWK_SUCCESS
    \<and> fw_taskQueue (ds_fwk (snd r)) = fw_taskQueue (ds_fwk d) @ take (257 - length (fw_taskQueue (ds_fwk d)))
        [length (fw_tasks (ds_fwk d)) ..< length (fw_tasks (ds_fwk d)) + length ds]
    \<and> map t_param (drop (length (fw_tasks (ds_fwk d))) (fw_tasks (ds_fwk (snd r)))) = map (enable_param k n) ds"
proof -
  let ?d = "if \<not> IsSourceEnabled (ds_fwk d) \<and> \<not> IsAnyHdfInuse (ds_hdf d) then set_critical d else d"
  have p: "(source_param k n x)\<lparr>tp_callingTokenId := dc_FirstTokenID k, tp_firstCallingTokenId := dd_firstCallingTokenId x,
      tp_customParams := dd_customParams x\<rparr> = enable_param k n x" for x
    by (simp add: source_param_def enable_param_def TaskParam_default_def)
  have keeps: "fw_tasks (ds_fwk ?d) = fw_tasks (ds_fwk d)" "fw_taskQueue (ds_fwk ?d) = fw_taskQueue (ds_fwk d)" by simp_all
  show ?thesis using created_tasks[of "ds_fwk ?d" C "enable_param k n" ds] assms(1,2) unfolding keeps
    by (simp add: r_def Service_EnableSource_def Let_def upd_fwk_def p del: critical_keeps)
qed

section \<open>Requests that wait\<close>

fun cleanup_turns :: "('s, 'j) dh_world \<Rightarrow> nat \<Rightarrow> 's dh_server \<Rightarrow> 's dh_server" where
  "cleanup_turns W 0 d = d"
| "cleanup_turns W (Suc n) d = (case cleanup_turn W d of (go, d1) \<Rightarrow> if go then cleanup_turns W n d1 else d1)"

definition never_ready :: "'s dh_server \<Rightarrow> bool" where
  "never_ready d = (\<not> fw_isAllInit (ds_fwk d) \<and> \<not> fw_isLocalInit (ds_fwk d))"

definition timed_out :: "PendingGetDHRequest \<Rightarrow> ecall" where
  "timed_out r = EC_OnGetDescriptors (the (pr_callback r)) (pr_networkId r) (Inl ERR_DH_FWK_GETDISTRIBUTEDHARDWARE_TIMEOUT)"

definition waiting_ok :: "'s dh_server \<Rightarrow> bool" where
  "waiting_ok d = (ds_pendingGetDHRequests d \<noteq> [] \<and> ds_cleanupRunning d \<and> never_ready d
     \<and> (\<forall>r \<in> set (ds_pendingGetDHRequests d). pr_callback r \<noteq> None))"

lemma turn_waits:
  assumes "waiting_ok d" "unat (ds_dhfwkInitTimes d) \<le> 25"
  shows "cleanup_turn W d = (True, d\<lparr>ds_dhfwkInitTimes := ds_dhfwkInitTimes d + 1\<rparr>)"
  using assms
  by (simp add: cleanup_turn_def CleanupExpiredRequests_def sort_pending_def ProcessPendingRequests_def waiting_ok_def never_ready_def
      upd_fwk_def word_less_nat_alt Let_def)

lemma timeouts_fold:
  "\<forall>r \<in> set rs. pr_callback r \<noteq> None \<Longrightarrow>
   fold (\<lambda>r w. case pr_callback r of None \<Rightarrow> w
     | Some cb \<Rightarrow> call_void (EC_OnGetDescriptors cb (pr_networkId r) (Inl ERR_DH_FWK_GETDISTRIBUTEDHARDWARE_TIMEOUT)) w) rs w
   = w\<lparr>fw_trace := rev (map timed_out rs) @ fw_trace w\<rparr>"
  by (induction rs arbitrary: w) (auto simp: timed_out_def call_void_def)

lemma turn_late:
  assumes "waiting_ok d" "25 < unat (ds_dhfwkInitTimes d)"
  shows "cleanup_turn W d = (False, d\<lparr>ds_fwk := (ds_fwk d)\<lparr>fw_trace := rev (map timed_out (ds_pendingGetDHRequests d)) @ fw_trace (ds_fwk d)\<rparr>,
     ds_pendingGetDHRequests := [], ds_cleanupRunning := False,
     ds_dhfwkInitTimes := (if dw_sink_local_init W then 0 else ds_dhfwkInitTimes d), ds_cleanupThreads := ds_cleanupThreads d - 1\<rparr>)"
  using assms timeouts_fold[of "ds_pendingGetDHRequests d" "ds_fwk d"]
  by (simp add: cleanup_turn_def CleanupExpiredRequests_def sort_pending_def ProcessPendingRequests_def waiting_ok_def never_ready_def
      upd_fwk_def word_less_nat_alt Let_def)

lemma turns_wait:
  "waiting_ok d \<Longrightarrow> unat (ds_dhfwkInitTimes d) + n = 26 \<Longrightarrow>
   cleanup_turns W (Suc n) d =
     d\<lparr>ds_fwk := (ds_fwk d)\<lparr>fw_trace := rev (map timed_out (ds_pendingGetDHRequests d)) @ fw_trace (ds_fwk d)\<rparr>,
       ds_pendingGetDHRequests := [], ds_cleanupRunning := False,
       ds_dhfwkInitTimes := (if dw_sink_local_init W then 0 else 26), ds_cleanupThreads := ds_cleanupThreads d - 1\<rparr>"
proof (induction n arbitrary: d)
  case 0
  then have "ds_dhfwkInitTimes d = 26" by (simp add: word_unat_eq_iff)
  then show ?case using turn_late[OF 0(1), of W] by simp
next
  case (Suc n)
  let ?d = "d\<lparr>ds_dhfwkInitTimes := ds_dhfwkInitTimes d + 1\<rparr>"
  have le: "unat (ds_dhfwkInitTimes d) \<le> 25" using Suc.prems(2) by simp
  then have "unat (ds_dhfwkInitTimes d + 1) = unat (ds_dhfwkInitTimes d) + 1"
    by (subst unat_add_lem[THEN iffD1]) simp_all
  then have "waiting_ok ?d" "unat (ds_dhfwkInitTimes ?d) + n = 26" using Suc.prems by (simp_all add: waiting_ok_def never_ready_def)
  from Suc.IH[OF this] have ih: "cleanup_turns W (Suc n) ?d = d\<lparr>ds_fwk := (ds_fwk d)\<lparr>fw_trace := rev (map timed_out (ds_pendingGetDHRequests d)) @ fw_trace (ds_fwk d)\<rparr>,
       ds_pendingGetDHRequests := [], ds_cleanupRunning := False,
       ds_dhfwkInitTimes := (if dw_sink_local_init W then 0 else 26), ds_cleanupThreads := ds_cleanupThreads d - 1\<rparr>"
    by simp
  show ?case unfolding cleanup_turns.simps(2)[of W "Suc n" d] turn_waits[OF Suc.prems(1) le] using ih by simp
qed

section \<open>Properties\<close>


text \<open>A world for examples: the framework of the demonstration, with an empty service.\<close>

definition demo_world :: "(demo_store, unit) dh_world" where
  "demo_world = \<lparr>dw_C = demo, dw_V = \<lparr>ae_J = demo_J, ae_S = (\<lambda>_ _. 0),
       ae_E = \<lparr>se_AshmemCreate = (\<lambda>_ _ _. -1), se_AshmemSetProt = (\<lambda>_. 0), se_AshmemGetSize = (\<lambda>_. 0),
         se_mmap = (\<lambda>_ _ _. None), se_memset = (\<lambda>_ _. False)\<rparr>\<rparr>, dw_AsObject = id, dw_GetNetworkIdByUdid = (\<lambda>u. u), dw_sink_local_init = False\<rparr>"

definition demo_client :: dh_caller where
  "demo_client = \<lparr>dc_uid = 1, dc_pid = 2, dc_FirstTokenID = 3, dc_DCallingUid = 4, dc_VerifyAccessToken = (\<lambda>_. True)\<rparr>"

definition demo_server :: "demo_store dh_server" where
  "demo_server = dh_server_new demo_init av_sys_new"

definition to_server ::
    "nat \<Rightarrow> bool \<Rightarrow> parcel_item list \<Rightarrow> demo_store dh_server \<Rightarrow> int \<times> parcel_item list \<times> demo_store dh_server" where
  "to_server code async p s =
     (let (ret, reply, s1) = OnRemoteRequest (\<lambda>_. -1) code list_parcel (service_methods demo_world demo_client) app_caller p (pc_new list_parcel) s
      in if async then (NO_ERROR, pc_new list_parcel, s1) else (ret, reply, s1))"

lemma to_server_hands_over: "hands_over list_parcel (service_methods demo_world demo_client) app_caller (\<lambda>_. -1) to_server"
  by (simp add: hands_over_def to_server_def)

lemma demo_server_tasks: "fw_taskQueue (ds_fwk demo_server) = []" "fw_tasks (ds_fwk demo_server) = []"
  by (simp_all add: demo_server_def dh_server_new_def demo_init_def fwk_init_def)


text \<open>
  C11: A request that waits is answered.  A client that asks for the hardware of a device before the framework is ready
  is put in a queue, which a thread of the service looks at every 200 milliseconds.  If the framework does not become
  ready, then after as many turns as are left to the 27th every request in the queue has been answered once, with
  the error of a timeout and in the order of the requests, the queue is empty and the thread has ended.
\<close>

theorem waiting_requests_time_out:
  "waiting_ok d \<and> unat (ds_dhfwkInitTimes d) \<le> 26 \<longrightarrow>
   (let d' = cleanup_turns W (27 - unat (ds_dhfwkInitTimes d)) d
    in fw_trace (ds_fwk d') = rev (map timed_out (ds_pendingGetDHRequests d)) @ fw_trace (ds_fwk d)
     \<and> ds_pendingGetDHRequests d' = [] \<and> \<not> ds_cleanupRunning d' \<and> ds_cleanupThreads d' = ds_cleanupThreads d - 1)"
proof (intro impI, elim conjE)
  assume a: "waiting_ok d" "unat (ds_dhfwkInitTimes d) \<le> 26"
  then have n: "27 - unat (ds_dhfwkInitTimes d) = Suc (26 - unat (ds_dhfwkInitTimes d))" by simp
  show "let d' = cleanup_turns W (27 - unat (ds_dhfwkInitTimes d)) d
    in fw_trace (ds_fwk d') = rev (map timed_out (ds_pendingGetDHRequests d)) @ fw_trace (ds_fwk d)
     \<and> ds_pendingGetDHRequests d' = [] \<and> \<not> ds_cleanupRunning d' \<and> ds_cleanupThreads d' = ds_cleanupThreads d - 1"
    unfolding n using turns_wait[OF a(1), of "26 - unat (ds_dhfwkInitTimes d)" W] a(2) by (simp add: Let_def)
qed

definition demo_asked :: "demo_store dh_server" where
  "demo_asked = QueuePendingRequest ''net'' ES_ENABLE_SOURCE (Some 7) demo_server"

lemma demo_asked_waits: "waiting_ok demo_asked" "ds_dhfwkInitTimes demo_asked = 0"
  by (simp_all add: demo_asked_def waiting_ok_def never_ready_def QueuePendingRequest_def StartCleanupTimer_def demo_server_def
      dh_server_new_def demo_init_def fwk_init_def)

theorem waiting_requests_time_out_witness:
  "let d' = cleanup_turns demo_world 27 demo_asked
   in fw_trace (ds_fwk d') = rev (map timed_out (ds_pendingGetDHRequests demo_asked)) @ fw_trace (ds_fwk demo_asked)
     \<and> ds_pendingGetDHRequests d' = [] \<and> \<not> ds_cleanupRunning d' \<and> ds_cleanupThreads d' = ds_cleanupThreads demo_asked - 1"
  using waiting_requests_time_out[of demo_asked demo_world] by (simp add: demo_asked_waits)

text \<open>
  C40: After one timeout the service no longer waits.  In the build without the local start of sinks, the number of turns
  is not set back when requests time out: once a queue has timed out, the next request that has to wait is
  answered with a timeout at the first turn after it, instead of after 27.
\<close>

theorem next_request_not_waited_for:
  "waiting_ok d \<and> unat (ds_dhfwkInitTimes d) \<le> 26 \<and> \<not> dw_sink_local_init W \<longrightarrow>
   (let d1 = cleanup_turns W (27 - unat (ds_dhfwkInitTimes d)) d;
        d2 = snd (cleanup_turn W (QueuePendingRequest networkId step (Some cb) d1))
    in fw_trace (ds_fwk d2) = EC_OnGetDescriptors cb networkId (Inl ERR_DH_FWK_GETDISTRIBUTEDHARDWARE_TIMEOUT) # fw_trace (ds_fwk d1))"
proof (intro impI, elim conjE)
  assume a: "waiting_ok d" "unat (ds_dhfwkInitTimes d) \<le> 26" "\<not> dw_sink_local_init W"
  then have n: "27 - unat (ds_dhfwkInitTimes d) = Suc (26 - unat (ds_dhfwkInitTimes d))" by simp
  let ?d1 = "cleanup_turns W (27 - unat (ds_dhfwkInitTimes d)) d"
  have d1: "ds_dhfwkInitTimes ?d1 = 26" "ds_pendingGetDHRequests ?d1 = []" "never_ready ?d1"
    unfolding n using turns_wait[OF a(1), of "26 - unat (ds_dhfwkInitTimes d)" W] a
    by (simp_all add: waiting_ok_def never_ready_def)
  let ?q = "QueuePendingRequest networkId step (Some cb) ?d1"
  have q: "waiting_ok ?q" "25 < unat (ds_dhfwkInitTimes ?q)"
    using d1 by (simp_all add: waiting_ok_def never_ready_def QueuePendingRequest_def StartCleanupTimer_def)
  show "let d1 = ?d1; d2 = snd (cleanup_turn W (QueuePendingRequest networkId step (Some cb) d1))
    in fw_trace (ds_fwk d2) = EC_OnGetDescriptors cb networkId (Inl ERR_DH_FWK_GETDISTRIBUTEDHARDWARE_TIMEOUT) # fw_trace (ds_fwk d1)"
    using turn_late[OF q, of W] d1(2) by (simp add: Let_def timed_out_def QueuePendingRequest_def StartCleanupTimer_def)
qed

theorem next_request_not_waited_for_witness:
  "let d1 = cleanup_turns demo_world 27 demo_asked;
       d2 = snd (cleanup_turn demo_world (QueuePendingRequest ''net'' ES_ENABLE_SINK (Some 8) d1))
   in fw_trace (ds_fwk d2) = EC_OnGetDescriptors 8 ''net'' (Inl ERR_DH_FWK_GETDISTRIBUTEDHARDWARE_TIMEOUT) # fw_trace (ds_fwk d1)"
  using next_request_not_waited_for[of demo_asked demo_world "''net''" ES_ENABLE_SINK 8]
  by (simp add: demo_asked_waits) (simp add: demo_world_def)

end
