(* ===== verification/Client_Kit.thy ===== *)
theory Client_Kit
  imports Service_Proxy "HOL-Library.Option_ord"
begin

text \<open>
  The library of the clients: the proxy of the service and the listeners that are registered again when the service
  comes back (\<open>dhfwk_sa_manager.cpp\<close>), and the interface of the applications
  (\<open>distributed_hardware_fwk_kit.cpp\<close>).

  The system ability manager is the record \<open>sa_registry\<close>: whether it is there, its answer to a subscription, the
  remote object of the service or none (a remote object that cannot be cast is none), its answer to a request to load
  the service and what the callback of the load says within three seconds, if it says anything.  They look at the
  state \<open>'s\<close> on the other side.  A listener and a callback are none or the number of their remote object.  The two caches
  are unordered maps: the order in which a loop goes through their keys is given by the last two fields.
\<close>

record ('p, 's) sa_registry =
  sr_manager :: "'s \<Rightarrow> bool"
  sr_SubscribeSystemAbility :: "'s \<Rightarrow> int \<times> 's"
  sr_CheckSystemAbility :: "'s \<Rightarrow> ('p, 's) remote"
  sr_LoadSystemAbility :: "'s \<Rightarrow> int \<times> 's"
  sr_LoadCallback :: "'s \<Rightarrow> bool option \<times> 's"
  sr_topic_order :: "DHTopic list \<Rightarrow> DHTopic list"
  sr_engine_order :: "int list \<Rightarrow> int list"

record ('p, 's) sa_client =
  isSubscribeDHFWKSAChangeListener :: bool
  dhfwkProxy :: "('p, 's) remote"
  publisherListenersCache :: "(DHTopic, nat option list) omap"
  avTransControlCenterCbCache :: "(int, nat option) omap"

definition MAX_TOPIC_SIZE :: nat where "MAX_TOPIC_SIZE = 128"
definition MAX_LISTENER_SIZE :: nat where "MAX_LISTENER_SIZE = 256"

definition sa_client_new :: "('p, 's) sa_client" where
  "sa_client_new = \<lparr>isSubscribeDHFWKSAChangeListener = False, dhfwkProxy = None, publisherListenersCache = [],
     avTransControlCenterCbCache = []\<rparr>"

type_synonym ('p, 's) client_world = "('p, 's) sa_client \<times> 's"

section \<open>The proxy\<close>

definition RegisterAbilityListener :: "('p, 's) sa_registry \<Rightarrow> ('p, 's) client_world \<Rightarrow> ('p, 's) client_world" where
  "RegisterAbilityListener R x =
    (case x of (c, s) \<Rightarrow>
      if \<not> sr_manager R s then (c, s)
      else if isSubscribeDHFWKSAChangeListener c then (c, s)
      else let (ret, s1) = sr_SubscribeSystemAbility R s
           in if ret \<noteq> 0 then (c, s1) else (c\<lparr>isSubscribeDHFWKSAChangeListener := True\<rparr>, s1))"

definition GetDHFWKProxy :: "('p, 's) sa_registry \<Rightarrow> ('p, 's) client_world \<Rightarrow> ('p, 's) remote \<times> ('p, 's) client_world" where
  "GetDHFWKProxy R x =
    (case (if isSubscribeDHFWKSAChangeListener (fst x) then x else RegisterAbilityListener R x) of (c, s) \<Rightarrow>
      (case dhfwkProxy c of
         Some p \<Rightarrow> (Some p, (c, s))
       | None \<Rightarrow>
           if \<not> sr_manager R s then (None, (c, s))
           else (case sr_CheckSystemAbility R s of
                   None \<Rightarrow> (None, (c, s))
                 | Some p \<Rightarrow> (Some p, (c\<lparr>dhfwkProxy := Some p\<rparr>, s)))))"

definition OnRemoveSystemAbility :: "bool \<Rightarrow> ('p, 's) client_world \<Rightarrow> ('p, 's) client_world" where
  "OnRemoveSystemAbility isDHFWK x = (if \<not> isDHFWK then x else (case x of (c, s) \<Rightarrow> (c\<lparr>dhfwkProxy := None\<rparr>, s)))"

section \<open>Listeners\<close>

definition AddPublisherListenerToCache :: "DHTopic \<Rightarrow> nat option \<Rightarrow> ('p, 's) sa_client \<Rightarrow> int \<times> ('p, 's) sa_client" where
  "AddPublisherListenerToCache topic listener c =
    (let m = publisherListenersCache c in
     if length m \<ge> MAX_TOPIC_SIZE then (ERR_DH_FWK_PUBLISH_LISTENER_OVER_SIZE, c)
     else let ls = (case om_get m topic of None \<Rightarrow> [] | Some ls \<Rightarrow> ls) in
          if length ls \<ge> MAX_LISTENER_SIZE
          then (ERR_DH_FWK_PUBLISH_LISTENER_OVER_SIZE, c\<lparr>publisherListenersCache := om_put topic ls m\<rparr>)
          else (DH_FWK_SUCCESS, c\<lparr>publisherListenersCache := om_put topic (os_ins listener ls) m\<rparr>))"

definition RemovePublisherListenerFromCache :: "DHTopic \<Rightarrow> nat option \<Rightarrow> ('p, 's) sa_client \<Rightarrow> ('p, 's) sa_client" where
  "RemovePublisherListenerFromCache topic listener c =
    (case om_get (publisherListenersCache c) topic of
       None \<Rightarrow> c
     | Some ls \<Rightarrow> c\<lparr>publisherListenersCache := om_put topic (os_del listener ls) (publisherListenersCache c)\<rparr>)"

definition AddAVTransControlCenterCbToCache :: "int \<Rightarrow> nat option \<Rightarrow> ('p, 's) sa_client \<Rightarrow> ('p, 's) sa_client" where
  "AddAVTransControlCenterCbToCache engineId callback c =
    c\<lparr>avTransControlCenterCbCache := om_put engineId callback (avTransControlCenterCbCache c)\<rparr>"

definition RemoveAVTransControlCenterCbFromCache :: "int \<Rightarrow> ('p, 's) sa_client \<Rightarrow> ('p, 's) sa_client" where
  "RemoveAVTransControlCenterCbFromCache engineId c =
    c\<lparr>avTransControlCenterCbCache := om_del engineId (avTransControlCenterCbCache c)\<rparr>"

text \<open>
  The two loops of \<open>RestoreListener\<close>, over the listeners of each topic and over the callbacks.  The first looks at the
  result so far, and not at the result of the call, before it takes that over.
\<close>

fun restore_publishers ::
    "'p parcel_api \<Rightarrow> ('p, 's) remote \<Rightarrow> (DHTopic \<times> nat option) list \<Rightarrow> int \<Rightarrow> 's \<Rightarrow> int \<times> 's" where
  "restore_publishers A p [] ret s = (ret, s)"
| "restore_publishers A p ((topic, listener) # es) ret s =
    (let (innerRet, s1) = Proxy_RegisterPublisherListener A p topic listener s
     in restore_publishers A p es (if ret \<noteq> DH_FWK_SUCCESS then innerRet else ret) s1)"

fun restore_callbacks ::
    "'p parcel_api \<Rightarrow> ('p, 's) remote \<Rightarrow> (int \<times> nat option) list \<Rightarrow> int \<Rightarrow> 's \<Rightarrow> int \<times> 's" where
  "restore_callbacks A p [] ret s = (ret, s)"
| "restore_callbacks A p ((engineId, callback) # es) ret s =
    (let (innerRet, s1) = Proxy_RegisterCtlCenterCallback A p (word_of_int engineId) callback s
     in restore_callbacks A p es (if innerRet \<noteq> DH_FWK_SUCCESS then innerRet else ret) s1)"

definition cached_listeners :: "('p, 's) sa_registry \<Rightarrow> ('p, 's) sa_client \<Rightarrow> (DHTopic \<times> nat option) list" where
  "cached_listeners R c =
    concat (map (\<lambda>t. map (Pair t) (the (om_get (publisherListenersCache c) t))) (sr_topic_order R (map fst (publisherListenersCache c))))"

definition cached_callbacks :: "('p, 's) sa_registry \<Rightarrow> ('p, 's) sa_client \<Rightarrow> (int \<times> nat option) list" where
  "cached_callbacks R c =
    map (\<lambda>e. (e, the (om_get (avTransControlCenterCbCache c) e))) (sr_engine_order R (map fst (avTransControlCenterCbCache c)))"

definition RestoreListener :: "'p parcel_api \<Rightarrow> ('p, 's) sa_registry \<Rightarrow> ('p, 's) client_world \<Rightarrow> int \<times> ('p, 's) client_world" where
  "RestoreListener A R x =
    (case GetDHFWKProxy R x of
       (None, x1) \<Rightarrow> (ERR_DH_FWK_POINTER_IS_NULL, x1)
     | (Some p, (c, s)) \<Rightarrow>
         let (ret, s1) = restore_publishers A (Some p) (cached_listeners R c) DH_FWK_SUCCESS s;
             (ret, s2) = restore_callbacks A (Some p) (cached_callbacks R c) ret s1
         in (ret, (c, s2)))"

definition OnAddSystemAbility :: "'p parcel_api \<Rightarrow> ('p, 's) sa_registry \<Rightarrow> bool \<Rightarrow> ('p, 's) client_world \<Rightarrow> ('p, 's) client_world" where
  "OnAddSystemAbility A R isDHFWK x = (if \<not> isDHFWK then x else snd (RestoreListener A R x))"

section \<open>The interface\<close>

definition IsDHTopicValid :: "DHTopic \<Rightarrow> bool" where "IsDHTopicValid topic = (TOPIC_MIN < topic \<and> topic < TOPIC_MAX)"
definition IsQueryLocalSysSpecTypeValid :: "32 word \<Rightarrow> bool" where "IsQueryLocalSysSpecTypeValid spec = (SPEC_MIN < spec \<and> spec < SPEC_MAX)"

text \<open>
  Most methods ask for the proxy twice, first whether there is one and then to call it.  Another thread can run in
  between, \<open>tr\<close>; when the second answer is none the call goes through a null pointer, which is \<open>None\<close> here.
\<close>

definition kit_call ::
    "('p, 's) sa_registry \<Rightarrow> (('p, 's) client_world \<Rightarrow> ('p, 's) client_world) \<Rightarrow> 'r \<Rightarrow> (('p, 's) remote \<Rightarrow> 's \<Rightarrow> 'r \<times> 's) \<Rightarrow>
     ('p, 's) client_world \<Rightarrow> ('r \<times> ('p, 's) client_world) option" where
  "kit_call R tr err f x =
    (case GetDHFWKProxy R x of
       (None, x1) \<Rightarrow> Some (err, x1)
     | (Some _, x1) \<Rightarrow>
        (case GetDHFWKProxy R (tr x1) of
           (None, _) \<Rightarrow> None
         | (Some p, (c, s)) \<Rightarrow> let (r, s1) = f (Some p) s in Some (r, (c, s1))))"

text \<open>The methods that start the service when it is not there, and ask for the proxy once more.\<close>

definition LoadDistributedHardwareSA :: "('p, 's) sa_registry \<Rightarrow> 's \<Rightarrow> int \<times> 's" where
  "LoadDistributedHardwareSA R s =
    (if \<not> sr_manager R s then (ERR_DH_FWK_POINTER_IS_NULL, s)
     else if sr_CheckSystemAbility R s \<noteq> None then (DH_FWK_SUCCESS, s)
     else let (ret, s1) = sr_LoadSystemAbility R s in
          if ret \<noteq> DH_FWK_SUCCESS then (ret, s1)
          else let (answer, s2) = sr_LoadCallback R s1
               in (if answer = Some True then DH_FWK_SUCCESS else ERR_DH_FWK_LOAD_CALLBACK_FAIL, s2))"

definition kit_load_call ::
    "('p, 's) sa_registry \<Rightarrow> (('p, 's) remote \<Rightarrow> 's \<Rightarrow> int \<times> 's) \<Rightarrow> ('p, 's) client_world \<Rightarrow> int \<times> ('p, 's) client_world" where
  "kit_load_call R f x =
    (case GetDHFWKProxy R x of (p, (c, s)) \<Rightarrow>
       let (ret, s1) = (if p = None then LoadDistributedHardwareSA R s else (DH_FWK_SUCCESS, s)) in
       if ret \<noteq> DH_FWK_SUCCESS then (ERR_DH_FWK_POINTER_IS_NULL, (c, s1))
       else (case GetDHFWKProxy R (c, s1) of
               (None, x2) \<Rightarrow> (ERR_DH_FWK_POINTER_IS_NULL, x2)
             | (Some p, (c2, s2)) \<Rightarrow> let (r, s3) = f (Some p) s2 in (r, (c2, s3))))"

text \<open>The methods; the first two also keep the listener for a service that comes later.\<close>

definition Kit_RegisterPublisherListener ::
    "'p parcel_api \<Rightarrow> ('p, 's) sa_registry \<Rightarrow> (('p, 's) client_world \<Rightarrow> ('p, 's) client_world) \<Rightarrow> DHTopic \<Rightarrow> nat option \<Rightarrow>
     ('p, 's) client_world \<Rightarrow> (int \<times> ('p, 's) client_world) option" where
  "Kit_RegisterPublisherListener A R tr topic listener x =
    (if \<not> IsDHTopicValid topic then Some (ERR_DH_FWK_PARA_INVALID, x)
     else
       let keep = (\<lambda>(c, s). let (r, c1) = AddPublisherListenerToCache topic listener c in (r, (c1, s))) in
       case GetDHFWKProxy R x of
         (None, x1) \<Rightarrow> Some (keep x1)
       | (Some _, x1) \<Rightarrow>
          (case GetDHFWKProxy R (tr x1) of
             (None, _) \<Rightarrow> None
           | (Some p, (c, s)) \<Rightarrow>
               let (ret, s1) = Proxy_RegisterPublisherListener A (Some p) topic listener s
               in Some (if ret = DH_FWK_SUCCESS then keep (c, s1) else (ret, (c, s1)))))"

definition Kit_UnregisterPublisherListener ::
    "'p parcel_api \<Rightarrow> ('p, 's) sa_registry \<Rightarrow> (('p, 's) client_world \<Rightarrow> ('p, 's) client_world) \<Rightarrow> DHTopic \<Rightarrow> nat option \<Rightarrow>
     ('p, 's) client_world \<Rightarrow> (int \<times> ('p, 's) client_world) option" where
  "Kit_UnregisterPublisherListener A R tr topic listener x =
    (if \<not> IsDHTopicValid topic then Some (ERR_DH_FWK_PARA_INVALID, x)
     else map_option (\<lambda>(ret, (c, s)). (ret, (RemovePublisherListenerFromCache topic listener c, s)))
            (kit_call R tr DH_FWK_SUCCESS (\<lambda>p. Proxy_UnregisterPublisherListener A p topic listener) x))"

definition Kit_PublishMessage ::
    "'p parcel_api \<Rightarrow> ('p, 's) sa_registry \<Rightarrow> (('p, 's) client_world \<Rightarrow> ('p, 's) client_world) \<Rightarrow> DHTopic \<Rightarrow> string \<Rightarrow>
     ('p, 's) client_world \<Rightarrow> (int \<times> ('p, 's) client_world) option" where
  "Kit_PublishMessage A R tr topic message x =
    (if \<not> IsDHTopicValid topic then Some (ERR_DH_FWK_PARA_INVALID, x)
     else if \<not> IsMessageLengthValid message then Some (ERR_DH_FWK_PARA_INVALID, x)
     else kit_call R tr ERR_DH_FWK_PUBLISH_MSG_FAILED (\<lambda>p. Proxy_PublishMessage A p topic message) x)"

definition Kit_QueryLocalSysSpec ::
    "'p parcel_api \<Rightarrow> ('p, 's) sa_registry \<Rightarrow> (('p, 's) client_world \<Rightarrow> ('p, 's) client_world) \<Rightarrow> 32 word \<Rightarrow>
     ('p, 's) client_world \<Rightarrow> (string \<times> ('p, 's) client_world) option" where
  "Kit_QueryLocalSysSpec A R tr spec x =
    (if \<not> IsQueryLocalSysSpecTypeValid spec then Some ([], x)
     else kit_call R tr [] (\<lambda>p. Proxy_QueryLocalSysSpec A p spec) x)"

text \<open>The engine id is an argument that is overwritten when an answer came.\<close>

definition Kit_InitializeAVCenter ::
    "'p parcel_api \<Rightarrow> ('p, 's) sa_registry \<Rightarrow> (('p, 's) client_world \<Rightarrow> ('p, 's) client_world) \<Rightarrow> 32 word \<Rightarrow> 32 word \<Rightarrow>
     ('p, 's) client_world \<Rightarrow> ((int \<times> 32 word) \<times> ('p, 's) client_world) option" where
  "Kit_InitializeAVCenter A R tr transRole engineId x =
    kit_call R tr (ERR_DH_FWK_POINTER_IS_NULL, engineId)
      (\<lambda>p s. let (ret, e, s1) = Proxy_InitializeAVCenter A p transRole engineId s in ((ret, e), s1)) x"

text \<open>The callback of an engine is forgotten, or kept, before the call.\<close>

definition on_cache ::
    "(('p, 's) sa_client \<Rightarrow> ('p, 's) sa_client) \<Rightarrow> (('p, 's) client_world \<Rightarrow> ('p, 's) client_world) \<Rightarrow> ('p, 's) client_world \<Rightarrow> ('p, 's) client_world" where
  "on_cache f tr x = (case tr x of (c, s) \<Rightarrow> (f c, s))"

definition Kit_ReleaseAVCenter ::
    "'p parcel_api \<Rightarrow> ('p, 's) sa_registry \<Rightarrow> (('p, 's) client_world \<Rightarrow> ('p, 's) client_world) \<Rightarrow> 32 word \<Rightarrow>
     ('p, 's) client_world \<Rightarrow> (int \<times> ('p, 's) client_world) option" where
  "Kit_ReleaseAVCenter A R tr engineId x =
    kit_call R (on_cache (RemoveAVTransControlCenterCbFromCache (sint engineId)) tr) ERR_DH_FWK_POINTER_IS_NULL
      (\<lambda>p. Proxy_ReleaseAVCenter A p engineId) x"

definition Kit_RegisterCtlCenterCallback ::
    "'p parcel_api \<Rightarrow> ('p, 's) sa_registry \<Rightarrow> (('p, 's) client_world \<Rightarrow> ('p, 's) client_world) \<Rightarrow> 32 word \<Rightarrow> nat option \<Rightarrow>
     ('p, 's) client_world \<Rightarrow> (int \<times> ('p, 's) client_world) option" where
  "Kit_RegisterCtlCenterCallback A R tr engineId callback x =
    kit_call R (on_cache (AddAVTransControlCenterCbToCache (sint engineId) callback) tr) ERR_DH_FWK_POINTER_IS_NULL
      (\<lambda>p. Proxy_RegisterCtlCenterCallback A p engineId callback) x"

definition Kit_CreateControlChannel ::
    "'p parcel_api \<Rightarrow> ('p, 's) sa_registry \<Rightarrow> (('p, 's) client_world \<Rightarrow> ('p, 's) client_world) \<Rightarrow> 32 word \<Rightarrow> string \<Rightarrow> 
     ('p, 's) client_world \<Rightarrow> (int \<times> ('p, 's) client_world) option" where
  "Kit_CreateControlChannel A R tr engineId peerDevId x =
    kit_call R tr ERR_DH_FWK_POINTER_IS_NULL (\<lambda>p. Proxy_CreateControlChannel A p engineId peerDevId) x"

definition Kit_NotifyAVCenter ::
    "'p parcel_api \<Rightarrow> ('p, 's) sa_registry \<Rightarrow> (('p, 's) client_world \<Rightarrow> ('p, 's) client_world) \<Rightarrow> 32 word \<Rightarrow> 32 word \<times> string \<times> string \<Rightarrow> 
     ('p, 's) client_world \<Rightarrow> (int \<times> ('p, 's) client_world) option" where
  "Kit_NotifyAVCenter A R tr engineId event x =
    kit_call R tr ERR_DH_FWK_POINTER_IS_NULL (\<lambda>p. Proxy_NotifyAVCenter A p engineId event) x"

definition Kit_PauseDistributedHardware ::
    "'p parcel_api \<Rightarrow> ('p, 's) sa_registry \<Rightarrow> (('p, 's) client_world \<Rightarrow> ('p, 's) client_world) \<Rightarrow> 32 word \<Rightarrow> string \<Rightarrow> 
     ('p, 's) client_world \<Rightarrow> (int \<times> ('p, 's) client_world) option" where
  "Kit_PauseDistributedHardware A R tr dhType networkId x =
    (if \<not> IsIdLengthValid networkId then Some (ERR_DH_FWK_PARA_INVALID, x)
     else kit_call R tr ERR_DH_FWK_POINTER_IS_NULL (\<lambda>p. Proxy_PauseDistributedHardware A p dhType networkId) x)"

definition Kit_ResumeDistributedHardware ::
    "'p parcel_api \<Rightarrow> ('p, 's) sa_registry \<Rightarrow> (('p, 's) client_world \<Rightarrow> ('p, 's) client_world) \<Rightarrow> 32 word \<Rightarrow> string \<Rightarrow> 
     ('p, 's) client_world \<Rightarrow> (int \<times> ('p, 's) client_world) option" where
  "Kit_ResumeDistributedHardware A R tr dhType networkId x =
    (if \<not> IsIdLengthValid networkId then Some (ERR_DH_FWK_PARA_INVALID, x)
     else kit_call R tr ERR_DH_FWK_POINTER_IS_NULL (\<lambda>p. Proxy_ResumeDistributedHardware A p dhType networkId) x)"

definition Kit_StopDistributedHardware ::
    "'p parcel_api \<Rightarrow> ('p, 's) sa_registry \<Rightarrow> (('p, 's) client_world \<Rightarrow> ('p, 's) client_world) \<Rightarrow> 32 word \<Rightarrow> string \<Rightarrow> 
     ('p, 's) client_world \<Rightarrow> (int \<times> ('p, 's) client_world) option" where
  "Kit_StopDistributedHardware A R tr dhType networkId x =
    (if \<not> IsIdLengthValid networkId then Some (ERR_DH_FWK_PARA_INVALID, x)
     else kit_call R tr ERR_DH_FWK_POINTER_IS_NULL (\<lambda>p. Proxy_StopDistributedHardware A p dhType networkId) x)"

definition Kit_GetDistributedHardware ::
    "'p parcel_api \<Rightarrow> ('p, 's) sa_registry \<Rightarrow> string \<Rightarrow> 32 word \<Rightarrow> nat option \<Rightarrow> ('p, 's) client_world \<Rightarrow> int \<times> ('p, 's) client_world" where
  "Kit_GetDistributedHardware A R networkId enableStep callback x =
    (if \<not> IsIdLengthValid networkId then (ERR_DH_FWK_PARA_INVALID, x)
     else kit_load_call R (\<lambda>p. Proxy_GetDistributedHardware A p networkId enableStep callback) x)"

definition Kit_RegisterDHStatusSinkListener ::
    "'p parcel_api \<Rightarrow> ('p, 's) sa_registry \<Rightarrow> (('p, 's) client_world \<Rightarrow> ('p, 's) client_world) \<Rightarrow> nat option \<Rightarrow> 
     ('p, 's) client_world \<Rightarrow> (int \<times> ('p, 's) client_world) option" where
  "Kit_RegisterDHStatusSinkListener A R tr listener x =
    kit_call R tr ERR_DH_FWK_POINTER_IS_NULL (\<lambda>p. Proxy_RegisterDHStatusSinkListener A p listener) x"

definition Kit_UnregisterDHStatusSinkListener ::
    "'p parcel_api \<Rightarrow> ('p, 's) sa_registry \<Rightarrow> (('p, 's) client_world \<Rightarrow> ('p, 's) client_world) \<Rightarrow> nat option \<Rightarrow> 
     ('p, 's) client_world \<Rightarrow> (int \<times> ('p, 's) client_world) option" where
  "Kit_UnregisterDHStatusSinkListener A R tr listener x =
    kit_call R tr ERR_DH_FWK_POINTER_IS_NULL (\<lambda>p. Proxy_UnregisterDHStatusSinkListener A p listener) x"

definition Kit_RegisterDHStatusSourceListener ::
    "'p parcel_api \<Rightarrow> ('p, 's) sa_registry \<Rightarrow> string \<Rightarrow> nat option \<Rightarrow> ('p, 's) client_world \<Rightarrow> int \<times> ('p, 's) client_world" where
  "Kit_RegisterDHStatusSourceListener A R networkId listener x =
    (if \<not> IsIdLengthValid networkId then (ERR_DH_FWK_PARA_INVALID, x)
     else kit_load_call R (\<lambda>p. Proxy_RegisterDHStatusSourceListener A p networkId listener) x)"

definition Kit_UnregisterDHStatusSourceListener ::
    "'p parcel_api \<Rightarrow> ('p, 's) sa_registry \<Rightarrow> (('p, 's) client_world \<Rightarrow> ('p, 's) client_world) \<Rightarrow> string \<Rightarrow> nat option \<Rightarrow> 
     ('p, 's) client_world \<Rightarrow> (int \<times> ('p, 's) client_world) option" where
  "Kit_UnregisterDHStatusSourceListener A R tr networkId listener x =
    (if \<not> IsIdLengthValid networkId then Some (ERR_DH_FWK_PARA_INVALID, x)
     else kit_call R tr ERR_DH_FWK_POINTER_IS_NULL (\<lambda>p. Proxy_UnregisterDHStatusSourceListener A p networkId listener) x)"

definition Kit_EnableSink ::
    "'p parcel_api \<Rightarrow> ('p, 's) sa_registry \<Rightarrow> (('p, 's) client_world \<Rightarrow> ('p, 's) client_world) \<Rightarrow> DHDescriptor list \<Rightarrow> 
     ('p, 's) client_world \<Rightarrow> (int \<times> ('p, 's) client_world) option" where
  "Kit_EnableSink A R tr descriptors x =
    kit_call R tr ERR_DH_FWK_POINTER_IS_NULL (\<lambda>p. Proxy_EnableSink A p descriptors) x"

definition Kit_DisableSink ::
    "'p parcel_api \<Rightarrow> ('p, 's) sa_registry \<Rightarrow> (('p, 's) client_world \<Rightarrow> ('p, 's) client_world) \<Rightarrow> DHDescriptor list \<Rightarrow> 
     ('p, 's) client_world \<Rightarrow> (int \<times> ('p, 's) client_world) option" where
  "Kit_DisableSink A R tr descriptors x =
    kit_call R tr ERR_DH_FWK_POINTER_IS_NULL (\<lambda>p. Proxy_DisableSink A p descriptors) x"

definition Kit_EnableSource ::
    "'p parcel_api \<Rightarrow> ('p, 's) sa_registry \<Rightarrow> (('p, 's) client_world \<Rightarrow> ('p, 's) client_world) \<Rightarrow> string \<Rightarrow> DHDescriptor list \<Rightarrow> 
     ('p, 's) client_world \<Rightarrow> (int \<times> ('p, 's) client_world) option" where
  "Kit_EnableSource A R tr networkId descriptors x =
    (if \<not> IsIdLengthValid networkId then Some (ERR_DH_FWK_PARA_INVALID, x)
     else kit_call R tr ERR_DH_FWK_POINTER_IS_NULL (\<lambda>p. Proxy_EnableSource A p networkId descriptors) x)"

definition Kit_DisableSource ::
    "'p parcel_api \<Rightarrow> ('p, 's) sa_registry \<Rightarrow> (('p, 's) client_world \<Rightarrow> ('p, 's) client_world) \<Rightarrow> string \<Rightarrow> DHDescriptor list \<Rightarrow> 
     ('p, 's) client_world \<Rightarrow> (int \<times> ('p, 's) client_world) option" where
  "Kit_DisableSource A R tr networkId descriptors x =
    (if \<not> IsIdLengthValid networkId then Some (ERR_DH_FWK_PARA_INVALID, x)
     else kit_call R tr ERR_DH_FWK_POINTER_IS_NULL (\<lambda>p. Proxy_DisableSource A p networkId descriptors) x)"

text \<open>The object \<open>h\<close> is what the proxy sends for the service to watch.\<close>

definition Kit_LoadDistributedHDF ::
    "'p parcel_api \<Rightarrow> ('p, 's) sa_registry \<Rightarrow> nat \<Rightarrow> 32 word \<Rightarrow> ('p, 's) client_world \<Rightarrow> int \<times> ('p, 's) client_world" where
  "Kit_LoadDistributedHDF A R h dhType x =
    kit_load_call R (\<lambda>p. Proxy_LoadDistributedHDF A p h dhType) x"

definition Kit_UnLoadDistributedHDF ::
    "'p parcel_api \<Rightarrow> ('p, 's) sa_registry \<Rightarrow> (('p, 's) client_world \<Rightarrow> ('p, 's) client_world) \<Rightarrow> nat \<Rightarrow> 32 word \<Rightarrow> 
     ('p, 's) client_world \<Rightarrow> (int \<times> ('p, 's) client_world) option" where
  "Kit_UnLoadDistributedHDF A R tr h dhType x =
    kit_call R tr ERR_DH_FWK_POINTER_IS_NULL (\<lambda>p. Proxy_UnLoadDistributedHDF A p h dhType) x"

text \<open>These ask for the proxy once.\<close>

definition Kit_RegisterHardwareAccessListener ::
    "'p parcel_api \<Rightarrow> ('p, 's) sa_registry \<Rightarrow> 32 word \<Rightarrow> nat option \<Rightarrow> 32 word \<Rightarrow> string \<Rightarrow> ('p, 's) client_world \<Rightarrow> int \<times> ('p, 's) client_world" where
  "Kit_RegisterHardwareAccessListener A R dhType callback timeOut pkgName x =
    (case GetDHFWKProxy R x of
       (None, x1) \<Rightarrow> (ERR_DH_FWK_POINTER_IS_NULL, x1)
     | (Some p, (c, s)) \<Rightarrow> let (r, s1) = Proxy_RegisterHardwareAccessListener A (Some p) dhType callback timeOut pkgName s in (r, (c, s1)))"

definition Kit_UnregisterHardwareAccessListener ::
    "'p parcel_api \<Rightarrow> ('p, 's) sa_registry \<Rightarrow> 32 word \<Rightarrow> nat option \<Rightarrow> string \<Rightarrow> ('p, 's) client_world \<Rightarrow> int \<times> ('p, 's) client_world" where
  "Kit_UnregisterHardwareAccessListener A R dhType callback pkgName x =
    (case GetDHFWKProxy R x of
       (None, x1) \<Rightarrow> (ERR_DH_FWK_POINTER_IS_NULL, x1)
     | (Some p, (c, s)) \<Rightarrow> let (r, s1) = Proxy_UnregisterHardwareAccessListener A (Some p) dhType callback pkgName s in (r, (c, s1)))"

definition Kit_SetAuthorizationResult ::
    "'p parcel_api \<Rightarrow> ('p, 's) sa_registry \<Rightarrow> 32 word \<Rightarrow> string \<Rightarrow> bool \<Rightarrow> ('p, 's) client_world \<Rightarrow> ('p, 's) client_world" where
  "Kit_SetAuthorizationResult A R dhType requestId granted x =
    (case GetDHFWKProxy R x of
       (None, x1) \<Rightarrow> x1
     | (Some p, (c, s)) \<Rightarrow> (c, snd (Proxy_SetAuthorizationResult A (Some p) dhType requestId granted s)))"

end
