(* ===== verification/Kit_Properties.thy ===== *)
theory Kit_Properties
  imports Client_Kit Ipc_Properties "HOL-Library.Multiset"
begin

text \<open>The library of the clients: what comes back with the service, what is not reported, and where it can end in a null pointer.\<close>

section \<open>The service comes back\<close>

text \<open>The requests for what the client keeps, and the order in which it sends them.\<close>

definition requests_of :: "(DHTopic \<times> nat option) list \<Rightarrow> (int \<times> nat option) list \<Rightarrow> dh_request list" where
  "requests_of ls cbs = map (\<lambda>(t, l). RQ_RegisterPublisherListener t (the l)) ls
    @ map (\<lambda>(e, cb). RQ_RegisterCtlCenterCallback (word_of_int e) (the cb)) cbs"

definition kept_requests :: "('p, 's) sa_client \<Rightarrow> dh_request list" where
  "kept_requests c =
    requests_of (concat (map (\<lambda>(t, ls). map (Pair t) ls) (publisherListenersCache c))) (avTransControlCenterCbCache c)"

definition cache_ok :: "('p, 's) sa_client \<Rightarrow> bool" where
  "cache_ok c = (om_ok (publisherListenersCache c) \<and> om_ok (avTransControlCenterCbCache c)
    \<and> list_all (\<lambda>(t, ls). ValidTopic t \<and> None \<notin> set ls) (publisherListenersCache c)
    \<and> list_all (\<lambda>(e, cb). cb \<noteq> None) (avTransControlCenterCbCache c))"

definition walks :: "('p, 's) sa_registry \<Rightarrow> bool" where
  "walks R = ((\<forall>ts. mset (sr_topic_order R ts) = mset ts) \<and> (\<forall>es. mset (sr_engine_order R es) = mset es))"

lemma mset_concat_order: "mset xs = mset ys \<Longrightarrow> mset (concat (map g xs)) = mset (concat (map g ys))"
  by (simp add: mset_concat sum_mset_sum_list[symmetric] del: sum_mset_sum_list)

lemma mset_map_order: "mset xs = mset ys \<Longrightarrow> mset (map g xs) = mset (map g ys)"
  by simp

lemma lookup_all: "om_ok m \<Longrightarrow> map (\<lambda>k. f k (the (om_get m k))) (map fst m) = map (\<lambda>(k, v). f k v) m"
  using om_get_in[of m] by force

lemma listeners_walked:
  assumes "walks R" "om_ok (publisherListenersCache c)"
  shows "mset (cached_listeners R c) = mset (concat (map (\<lambda>(t, ls). map (Pair t) ls) (publisherListenersCache c)))"
proof -
  let ?m = "publisherListenersCache c" and ?g = "\<lambda>t. map (Pair t) (the (om_get (publisherListenersCache c) t))"
  have "mset (sr_topic_order R (map fst ?m)) = mset (map fst ?m)" using assms(1) by (simp add: walks_def del: mset_map)
  from mset_concat_order[OF this, of ?g] show ?thesis
    unfolding lookup_all[OF assms(2), of "\<lambda>t. map (Pair t)"] cached_listeners_def .
qed

lemma walks_nothing: "walks R \<Longrightarrow> sr_engine_order R [] = []"
  unfolding walks_def by (metis mset.simps(1) mset_zero_iff)

lemma callbacks_walked:
  assumes "walks R" "om_ok (avTransControlCenterCbCache c)"
  shows "mset (cached_callbacks R c) = mset (avTransControlCenterCbCache c)"
proof -
  let ?m = "avTransControlCenterCbCache c"
  have "mset (sr_engine_order R (map fst ?m)) = mset (map fst ?m)" using assms(1) by (simp add: walks_def del: mset_map)
  from mset_map_order[OF this, of "\<lambda>e. (e, the (om_get ?m e))"] show ?thesis
    unfolding lookup_all[OF assms(2), of Pair] cached_callbacks_def by simp
qed

lemma mset_requests: "mset ls = mset ls' \<Longrightarrow> mset cbs = mset cbs' \<Longrightarrow> mset (requests_of ls cbs) = mset (requests_of ls' cbs')"
  by (simp add: requests_of_def)

definition open_to :: "ipc_caller \<Rightarrow> bool" where
  "open_to k = (ca_IsLocalCalling k \<and> ca_HasAccessDHPermission k)"

lemma publishers_restored:
  assumes "parcel_laws A items" "parcel_room A" "hands_over A sv k other SendRequest" "open_to k"
  shows "list_all (\<lambda>(t, l). ValidTopic t \<and> l \<noteq> None) es \<Longrightarrow>
    snd (restore_publishers A (Some SendRequest) es ret s)
    = fold (\<lambda>r s. snd (serve sv h r s)) (map (\<lambda>(t, l). RQ_RegisterPublisherListener t (the l)) es) s"
proof (induction es arbitrary: ret s)
  case (Cons e es)
  obtain t l where e: "e = (t, Some l)" and t: "ValidTopic t" using Cons.prems by (cases e) auto
  have "snd (call A (Some SendRequest) h (RQ_RegisterPublisherListener t l) s) = snd (serve sv h (RQ_RegisterPublisherListener t l) s)"
    using call_served[OF assms(1-3), of "RQ_RegisterPublisherListener t l" h s] t assms(4) by (simp add: open_to_def)
  then have "snd (Proxy_RegisterPublisherListener A (Some SendRequest) t (Some l) s) = snd (serve sv h (RQ_RegisterPublisherListener t l) s)"
    by simp
  then show ?case using Cons.IH Cons.prems by (simp add: e split_beta Let_def)
qed simp

lemma callbacks_restored:
  assumes "parcel_laws A items" "parcel_room A" "hands_over A sv k other SendRequest" "open_to k"
  shows "list_all (\<lambda>(e, cb). cb \<noteq> None) es \<Longrightarrow>
    snd (restore_callbacks A (Some SendRequest) es ret s)
    = fold (\<lambda>r s. snd (serve sv h r s)) (map (\<lambda>(e, cb). RQ_RegisterCtlCenterCallback (word_of_int e) (the cb)) es) s"
proof (induction es arbitrary: ret s)
  case (Cons x es)
  obtain e l where x: "x = (e, Some l)" using Cons.prems by (cases x) auto
  have "snd (call A (Some SendRequest) h (RQ_RegisterCtlCenterCallback (word_of_int e) l) s)
      = snd (serve sv h (RQ_RegisterCtlCenterCallback (word_of_int e) l) s)"
    using call_served[OF assms(1-3), of "RQ_RegisterCtlCenterCallback (word_of_int e) l" h s] assms(4) by (simp add: open_to_def)
  then have "snd (Proxy_RegisterCtlCenterCallback A (Some SendRequest) (word_of_int e) (Some l) s)
      = snd (serve sv h (RQ_RegisterCtlCenterCallback (word_of_int e) l) s)"
    by simp
  then show ?case using Cons.IH Cons.prems by (simp add: x split_beta Let_def)
qed simp

lemma publishers_success: "fst (restore_publishers A p es DH_FWK_SUCCESS s) = DH_FWK_SUCCESS"
  by (induction es arbitrary: s) (auto simp: split_beta Let_def)

section \<open>Properties\<close>

lemma cache_walked:
  assumes "walks R" "cache_ok c"
  shows "list_all (\<lambda>(t, l). ValidTopic t \<and> l \<noteq> None) (cached_listeners R c)"
    "list_all (\<lambda>(e, cb). cb \<noteq> None) (cached_callbacks R c)"
    "mset (requests_of (cached_listeners R c) (cached_callbacks R c)) = mset (kept_requests c)"
proof -
  have l: "mset (cached_listeners R c) = mset (concat (map (\<lambda>(t, ls). map (Pair t) ls) (publisherListenersCache c)))"
    and cb: "mset (cached_callbacks R c) = mset (avTransControlCenterCbCache c)"
    using listeners_walked callbacks_walked assms by (auto simp: cache_ok_def)
  have "ValidTopic t \<and> l \<noteq> None" if "(t, l) \<in> set (cached_listeners R c)" for t l
  proof -
    have "(t, l) \<in> set (concat (map (\<lambda>(t, ls). map (Pair t) ls) (publisherListenersCache c)))" using mset_eq_setD[OF l] that by blast
    then obtain ls where "(t, ls) \<in> set (publisherListenersCache c)" "l \<in> set ls" by auto
    then show ?thesis using assms(2) by (cases l) (auto simp: cache_ok_def list_all_iff)
  qed
  then show "list_all (\<lambda>(t, l). ValidTopic t \<and> l \<noteq> None) (cached_listeners R c)" by (auto simp: list_all_iff)
  from mset_eq_setD[OF cb] show "list_all (\<lambda>(e, cb). cb \<noteq> None) (cached_callbacks R c)"
    using assms(2) by (auto simp: cache_ok_def list_all_iff)
  show "mset (requests_of (cached_listeners R c) (cached_callbacks R c)) = mset (kept_requests c)"
    unfolding kept_requests_def using mset_requests[OF l cb] .
qed

lemma restored:
  assumes "parcel_laws A items" "parcel_room A" "hands_over A sv k other SendRequest" "open_to k" "cache_ok c" "walks R"
    and "isSubscribeDHFWKSAChangeListener c" "sr_manager R s" "sr_CheckSystemAbility R s = Some SendRequest"
  shows "OnAddSystemAbility A R True (OnRemoveSystemAbility True (c, s)) = (c\<lparr>dhfwkProxy := Some SendRequest\<rparr>,
    fold (\<lambda>r s. snd (serve sv h r s)) (requests_of (cached_listeners R c) (cached_callbacks R c)) s)"
proof -
  have x: "cached_listeners R (c\<lparr>dhfwkProxy := p\<rparr>) = cached_listeners R c" "cached_callbacks R (c\<lparr>dhfwkProxy := p\<rparr>) = cached_callbacks R c" for p
    by (simp_all add: cached_listeners_def cached_callbacks_def)
  show ?thesis
    using assms(7-9) publishers_restored[OF assms(1-4) cache_walked(1)[OF assms(6,5)], of DH_FWK_SUCCESS s h]
      callbacks_restored[OF assms(1-4) cache_walked(2)[OF assms(6,5)], of _ _ h]
    by (simp add: OnAddSystemAbility_def OnRemoveSystemAbility_def RestoreListener_def GetDHFWKProxy_def requests_of_def x split_beta Let_def)
qed


definition demo_registry :: "(parcel_item list, dh_request list) sa_registry" where
  "demo_registry = \<lparr>sr_manager = (\<lambda>_. True), sr_SubscribeSystemAbility = (\<lambda>s. (0, s)), sr_CheckSystemAbility = (\<lambda>_. Some to_stub),
     sr_LoadSystemAbility = (\<lambda>s. (0, s)), sr_LoadCallback = (\<lambda>s. (Some True, s)), sr_topic_order = rev, sr_engine_order = id\<rparr>"

definition demo_cache :: "(parcel_item list, dh_request list) sa_client" where
  "demo_cache = \<lparr>isSubscribeDHFWKSAChangeListener = True, dhfwkProxy = Some to_stub,
     publisherListenersCache = [(4, [Some 1, Some 2]), (5, [Some 1])], avTransControlCenterCbCache = [(1000, Some 7)]\<rparr>"

lemma demo_cache_ok: "cache_ok demo_cache" "walks demo_registry" "open_to app_caller"
  by (simp_all add: cache_ok_def demo_cache_def walks_def demo_registry_def open_to_def app_caller_def ValidTopic_def om_ok_Cons)


text \<open>
  A listener that cannot be registered again is not reported.  When a client without callbacks of the control
  centre registers its listeners with a service that has come back, the result is success whatever the service answered
  to each of them: the loop tests the result so far, which is success, and not the result of the call.
\<close>

theorem failed_restore_hidden:
  "walks R \<and> fst (GetDHFWKProxy R x) \<noteq> None \<and> avTransControlCenterCbCache (fst (snd (GetDHFWKProxy R x))) = []
   \<longrightarrow> fst (RestoreListener A R x) = DH_FWK_SUCCESS"
  by (auto simp: RestoreListener_def split_beta Let_def publishers_success[simplified] cached_callbacks_def walks_nothing)

definition deaf :: "nat \<Rightarrow> bool \<Rightarrow> parcel_item list \<Rightarrow> dh_request list \<Rightarrow> int \<times> parcel_item list \<times> dh_request list" where
  "deaf code async p s = (-1, [], s)"

theorem failed_restore_hidden_witness:
  "fst (RestoreListener list_parcel demo_registry
     (demo_cache\<lparr>dhfwkProxy := Some deaf, avTransControlCenterCbCache := []\<rparr>, [])) = DH_FWK_SUCCESS"
  by (rule failed_restore_hidden[THEN mp]) (simp add: GetDHFWKProxy_def demo_cache_def demo_cache_ok)

text \<open>
  A call of a client can end in a null pointer.  The methods that ask for the proxy twice never do when nothing
  happens in between; but when the service ends in between, the second question finds no proxy and the method
  calls through the null pointer.
\<close>

theorem kit_call_race:
  "isSubscribeDHFWKSAChangeListener c \<and> dhfwkProxy c \<noteq> None \<and> sr_CheckSystemAbility R s = None \<longrightarrow>
   kit_call R id err f (c, s) \<noteq> None \<and> kit_call R (OnRemoveSystemAbility True) err f (c, s) = None"
  by (auto simp: kit_call_def GetDHFWKProxy_def OnRemoveSystemAbility_def split_beta Let_def split: option.split)

theorem kit_call_race_witness:
  "kit_call (demo_registry\<lparr>sr_CheckSystemAbility := (\<lambda>_. None)\<rparr>) id ERR_DH_FWK_PUBLISH_MSG_FAILED
       (\<lambda>p. Proxy_PublishMessage list_parcel p 4 ''m'') (demo_cache, []) \<noteq> None
   \<and> kit_call (demo_registry\<lparr>sr_CheckSystemAbility := (\<lambda>_. None)\<rparr>) (OnRemoveSystemAbility True) ERR_DH_FWK_PUBLISH_MSG_FAILED
       (\<lambda>p. Proxy_PublishMessage list_parcel p 4 ''m'') (demo_cache, []) = None"
  by (rule kit_call_race[THEN mp]) (simp add: demo_cache_def)

end
