(* ===== verification/Component_Loader.thy ===== *)
theory Component_Loader
  imports Component_Manager
begin

text \<open>
  The component loader (\<open>componentloader/component_loader.cpp\<close>): it reads the configuration of the components from
  a file, and loads the libraries of a component, its source, its sink and its hardware handler, when they are
  asked for.  The service asks it which types there are and which of their subtypes are switched on.

  A handle that \<open>dlopen\<close> gave and the pointers that the functions of a library give are numbers, and
  the calls of the dynamic linker are recorded, the last first; its answers depend on the calls before.  A record
  that is declared without a value holds what the memory held, which is an argument.
\<close>

section \<open>State\<close>

record ResourceDesc =
  rd_subtype :: string
  rd_sensitiveValue :: bool

record CompConfig =
  cf_name :: string
  cf_type :: DHType
  cf_compHandlerLoc :: string
  cf_compHandlerVersion :: string
  cf_compSourceLoc :: string
  cf_compSourceVersion :: string
  cf_compSourceSaId :: int
  cf_compSinkLoc :: string
  cf_compSinkVersion :: string
  cf_compSinkSaId :: int
  cf_compResourceDesc :: "ResourceDesc list"
  cf_haveFeature :: bool
  cf_sourceFeatureFilters :: "string list"
  cf_sinkSupportedFeatures :: "string list"

record CompHandler =
  ch_type :: DHType
  ch_sourceHandler :: "nat option"
  ch_sourceSaId :: int
  ch_sinkHandler :: "nat option"
  ch_sinkSaId :: int
  ch_hardwareHandler :: "nat option"
  ch_compConfig :: CompConfig

datatype dl_call = DL_open string "nat option" | DL_sym nat string | DL_close nat

record ComponentLoader =
  cl_localDHVersion :: DHVersion
  cl_compHandlerMap :: "(DHType, CompHandler) omap"
  cl_isLocalVersionInit :: bool
  cl_resDescMap :: "(string, bool) omap"
  cl_componentEnableMap :: "(DHType \<times> string, (string, bool) omap) omap"
  cl_calls :: "dl_call list"

definition ComponentLoader_new :: ComponentLoader where
  "ComponentLoader_new = \<lparr>cl_localDHVersion = \<lparr>dv_uuid = [], dv_dhVersion = [], dv_compVersions = []\<rparr>,
     cl_compHandlerMap = [], cl_isLocalVersionInit = False, cl_resDescMap = [], cl_componentEnableMap = [], cl_calls = []\<rparr>"

text \<open>
  What is around the loader: of the JSON library the name of a member and the check for an object, the file system,
  the parameters of the system, the dynamic linker, and the undetermined scalars of a handler and of a configuration.
\<close>

record 'j loader_world =
  lw_J :: "'j cJSON"
  lw_name :: "'j \<Rightarrow> string option"
  lw_IsObject :: "'j \<Rightarrow> bool"
  lw_GetOneCfgFile :: "string \<Rightarrow> string option"
  lw_realpath :: "string \<Rightarrow> string option"
  lw_file :: "string \<Rightarrow> string option"
  lw_GetParameter :: "string \<Rightarrow> int \<times> string"
  lw_dlopen :: "dl_call list \<Rightarrow> string \<Rightarrow> nat option"
  lw_dlsym :: "dl_call list \<Rightarrow> nat \<Rightarrow> string \<Rightarrow> (nat option) option"
  lw_dlclose :: "dl_call list \<Rightarrow> nat \<Rightarrow> int"
  lw_junk_handles :: "nat option \<times> nat option \<times> nat option"
  lw_junk_config :: "DHType \<times> int \<times> int \<times> bool"

section \<open>Constants\<close>

definition PATH_MAX :: nat where "PATH_MAX = 4096"
definition DEFAULT_SA_ID :: int where "DEFAULT_SA_ID = -1"
definition MAX_COMP_SIZE :: nat where "MAX_COMP_SIZE = 128"
definition COMP_NAME :: string where "COMP_NAME = ''name''"
definition COMP_TYPE :: string where "COMP_TYPE = ''type''"
definition COMP_HANDLER_LOC :: string where "COMP_HANDLER_LOC = ''comp_handler_loc''"
definition COMP_HANDLER_VERSION :: string where "COMP_HANDLER_VERSION = ''comp_handler_version''"
definition COMP_SOURCE_LOC :: string where "COMP_SOURCE_LOC = ''comp_source_loc''"
definition COMP_SOURCE_VERSION :: string where "COMP_SOURCE_VERSION = ''comp_source_version''"
definition COMP_SOURCE_SA_ID :: string where "COMP_SOURCE_SA_ID = ''comp_source_sa_id''"
definition COMP_SINK_LOC :: string where "COMP_SINK_LOC = ''comp_sink_loc''"
definition COMP_SINK_VERSION :: string where "COMP_SINK_VERSION = ''comp_sink_version''"
definition COMP_SINK_SA_ID :: string where "COMP_SINK_SA_ID = ''comp_sink_sa_id''"
definition COMP_RESOURCE_DESC :: string where "COMP_RESOURCE_DESC = ''comp_resource_desc''"
definition COMP_SUBTYPE :: string where "COMP_SUBTYPE = ''subtype''"
definition COMP_SENSITIVE :: string where "COMP_SENSITIVE = ''sensitive''"
definition COMPONENTSLOAD_DISTRIBUTED_COMPONENTS :: string where
  "COMPONENTSLOAD_DISTRIBUTED_COMPONENTS = ''distributed_components''"
definition COMPONENT_ENABLE_CONFIG :: string where "COMPONENT_ENABLE_CONFIG = ''component_enable_config''"
definition COMPONENTSLOAD_PROFILE_PATH :: string where
  "COMPONENTSLOAD_PROFILE_PATH = ''etc/distributedhardware/distributed_hardware_components_cfg.json''"

definition g_mapDhTypeName :: "(string \<times> DHType) list" where
  "g_mapDhTypeName =
    [(''UNKNOWN'', DHType_UNKNOWN), (''CAMERA'', DHType_CAMERA), (''AUDIO'', DHType_AUDIO), (''SCREEN'', DHType_SCREEN),
     (''GPS'', DHType_GPS), (''INPUT'', DHType_INPUT), (''HFP'', DHType_HFP), (''A2D'', DHType_A2D),
     (''VIRMODEM_AUDIO'', DHType_VIRMODEM_AUDIO), (''MODEM'', DHType_MODEM)]"

text \<open>The subscript of a map adds a zero for a name that is not there.\<close>

definition type_named :: "string \<Rightarrow> DHType" where
  "type_named s = (case map_of g_mapDhTypeName s of Some t \<Rightarrow> t | None \<Rightarrow> 0)"

definition g_mapPartsParamName :: "(DHType \<times> string) list" where
  "g_mapPartsParamName =
    [(DHType_CAMERA, ''sys.dhfwk.component.dcamera.enable''), (DHType_AUDIO, ''sys.dhfwk.component.daudio.enable''),
     (DHType_SCREEN, ''sys.dhfwk.component.dscreen.enable''), (DHType_INPUT, ''sys.dhfwk.component.dinput.enable'')]"

definition g_audioCompConfig :: CompConfig where
  "g_audioCompConfig = \<lparr>cf_name = ''distributed_audio'', cf_type = DHType_AUDIO,
     cf_compHandlerLoc = ''libdistributed_audio_handler.z.so'', cf_compHandlerVersion = ''1.0'',
     cf_compSourceLoc = ''libdistributed_audio_source_sdk.z.so'', cf_compSourceVersion = ''1.0'', cf_compSourceSaId = 4805,
     cf_compSinkLoc = ''libdistributed_audio_sink_sdk.z.so'', cf_compSinkVersion = ''1.0'', cf_compSinkSaId = 4806,
     cf_compResourceDesc = [\<lparr>rd_subtype = ''mic'', rd_sensitiveValue = True\<rparr>, \<lparr>rd_subtype = ''speaker'', rd_sensitiveValue = True\<rparr>],
     cf_haveFeature = True, cf_sourceFeatureFilters = [], cf_sinkSupportedFeatures = []\<rparr>"

section \<open>Reading the configuration\<close>

definition CompConfig_local :: "'j loader_world \<Rightarrow> CompConfig" where
  "CompConfig_local W = (case lw_junk_config W of (ty, sourceSaId, sinkSaId, haveFeature) \<Rightarrow>
     \<lparr>cf_name = [], cf_type = ty, cf_compHandlerLoc = [], cf_compHandlerVersion = [], cf_compSourceLoc = [],
      cf_compSourceVersion = [], cf_compSourceSaId = sourceSaId, cf_compSinkLoc = [], cf_compSinkVersion = [],
      cf_compSinkSaId = sinkSaId, cf_compResourceDesc = [], cf_haveFeature = haveFeature, cf_sourceFeatureFilters = [],
      cf_sinkSupportedFeatures = []\<rparr>)"

definition GetCompVersionFromComConfig :: "CompConfig \<Rightarrow> CompVersion" where
  "GetCompVersionFromComConfig c =
    \<lparr>cv_name = cf_name c, cv_dhType = cf_type c, cv_handlerVersion = cf_compHandlerVersion c,
     cv_sourceVersion = cf_compSourceVersion c, cv_sinkVersion = cf_compSinkVersion c, cv_haveFeature = cf_haveFeature c,
     cv_sourceFeatureFilters = cf_sourceFeatureFilters c, cv_sinkSupportedFeatures = cf_sinkSupportedFeatures c\<rparr>"

text \<open>A parameter of the system as a truth value; other texts than \<open>true\<close> and \<open>false\<close> make it false.\<close>

definition GetSysPara :: "'j loader_world \<Rightarrow> string \<Rightarrow> bool \<Rightarrow> bool \<times> bool" where
  "GetSysPara W key v =
    (case lw_GetParameter W key of (res, paraValue) \<Rightarrow>
       if res \<le> 0 then (False, v)
       else (True, starts_with ''true'' (dropWhile (\<lambda>c. c \<in> set '' '' \<or> c = CHR 0x09 \<or> c = CHR 0x0A \<or> c = CHR 0x0B \<or> c = CHR 0x0C \<or> c = CHR 0x0D) paraValue)))"

definition CheckComponentEnable :: "'j loader_world \<Rightarrow> CompConfig \<Rightarrow> bool" where
  "CheckComponentEnable W config =
    (case map_of g_mapPartsParamName (cf_type config) of
       None \<Rightarrow> True
     | Some key \<Rightarrow> (case GetSysPara W key False of (ok, isEnable) \<Rightarrow> if \<not> ok then False else isEnable))"

text \<open>A resource that is not well formed ends the loop; those before it stay.\<close>

primrec resource_descs :: "'j loader_world \<Rightarrow> 'j list \<Rightarrow> ResourceDesc list" where
  "resource_descs W [] = []"
| "resource_descs W (x # xs) =
    (case cJSON_GetObjectItem (lw_J W) x COMP_SENSITIVE of
       None \<Rightarrow> []
     | Some sensitive \<Rightarrow>
        if \<not> cJSON_IsBool (lw_J W) sensitive then []
        else let subtypeJson = cJSON_GetObjectItem (lw_J W) x COMP_SUBTYPE in
             if \<not> IsString (lw_J W) subtypeJson then []
             else \<lparr>rd_subtype = item_str (lw_J W) subtypeJson, rd_sensitiveValue = cJSON_IsTrue (lw_J W) sensitive\<rparr>
                    # resource_descs W xs)"

definition ParseResourceDescFromJson :: "'j loader_world \<Rightarrow> 'j \<Rightarrow> CompConfig \<Rightarrow> CompConfig" where
  "ParseResourceDescFromJson W resourceDescs config =
    config\<lparr>cf_compResourceDesc := cf_compResourceDesc config @ resource_descs W (cj_items (lw_J W) resourceDescs)\<rparr>"

definition ParseSourceFeatureFiltersFromJson :: "'j loader_world \<Rightarrow> 'j \<Rightarrow> CompConfig \<Rightarrow> CompConfig" where
  "ParseSourceFeatureFiltersFromJson W sourceFeatureFilters config =
    config\<lparr>cf_sourceFeatureFilters :=
      map (cj_valuestring (lw_J W)) (filter (cJSON_IsString (lw_J W)) (cj_items (lw_J W) sourceFeatureFilters))\<rparr>"

definition ParseSinkSupportedFeaturesFromJson :: "'j loader_world \<Rightarrow> 'j \<Rightarrow> CompConfig \<Rightarrow> CompConfig" where
  "ParseSinkSupportedFeaturesFromJson W sinkSupportedFeatures config =
    config\<lparr>cf_sinkSupportedFeatures :=
      map (cj_valuestring (lw_J W)) (filter (cJSON_IsString (lw_J W)) (cj_items (lw_J W) sinkSupportedFeatures))\<rparr>"

definition CheckAndParseFeatures :: "'j loader_world \<Rightarrow> 'j \<Rightarrow> CompConfig \<Rightarrow> CompConfig" where
  "CheckAndParseFeatures W component config =
    (let sourceFeatureFilters = cJSON_GetObjectItem (lw_J W) component SOURCE_FEATURE_FILTER;
         sinkSupportedFeatures = cJSON_GetObjectItem (lw_J W) component SINK_SUPPORTED_FEATURE
     in if sourceFeatureFilters \<noteq> None \<or> sinkSupportedFeatures \<noteq> None
        then let c1 = config\<lparr>cf_haveFeature := True\<rparr>;
                 c2 = (if IsArray (lw_J W) sourceFeatureFilters
                       then ParseSourceFeatureFiltersFromJson W (the sourceFeatureFilters) c1 else c1)
             in if IsArray (lw_J W) sinkSupportedFeatures
                then ParseSinkSupportedFeaturesFromJson W (the sinkSupportedFeatures) c2 else c2
        else config\<lparr>cf_haveFeature := False\<rparr>)"

definition ParseCompConfigFromJson :: "'j loader_world \<Rightarrow> 'j \<Rightarrow> CompConfig \<Rightarrow> CompConfig" where
  "ParseCompConfigFromJson W component c0 =
    (let J = lw_J W;
         item = cJSON_GetObjectItem J component;
         str = (\<lambda>k f c. if IsString J (item k) then f (item_str J (item k)) c else c);
         num = (\<lambda>k f c. if IsInt32 J (item k) then f (item_int J (item k)) c else c);
         c1 = str COMP_NAME (\<lambda>v. cf_name_update (\<lambda>_. v)) c0;
         c2 = str COMP_TYPE (\<lambda>v. cf_type_update (\<lambda>_. type_named v)) c1;
         c3 = str COMP_HANDLER_LOC (\<lambda>v. cf_compHandlerLoc_update (\<lambda>_. v)) c2;
         c4 = str COMP_HANDLER_VERSION (\<lambda>v. cf_compHandlerVersion_update (\<lambda>_. v)) c3;
         c5 = str COMP_SOURCE_LOC (\<lambda>v. cf_compSourceLoc_update (\<lambda>_. v)) c4;
         c6 = str COMP_SOURCE_VERSION (\<lambda>v. cf_compSourceVersion_update (\<lambda>_. v)) c5;
         c7 = num COMP_SOURCE_SA_ID (\<lambda>v. cf_compSourceSaId_update (\<lambda>_. v)) c6;
         c8 = str COMP_SINK_LOC (\<lambda>v. cf_compSinkLoc_update (\<lambda>_. v)) c7;
         c9 = str COMP_SINK_VERSION (\<lambda>v. cf_compSinkVersion_update (\<lambda>_. v)) c8;
         c10 = num COMP_SINK_SA_ID (\<lambda>v. cf_compSinkSaId_update (\<lambda>_. v)) c9;
         c11 = (if IsArray J (item COMP_RESOURCE_DESC)
                then ParseResourceDescFromJson W (the (item COMP_RESOURCE_DESC)) c10 else c10)
     in CheckAndParseFeatures W component c11)"

section \<open>The switches of the subtypes\<close>

definition switch_role :: "DHType \<Rightarrow> string \<Rightarrow> string \<Rightarrow> bool \<Rightarrow> ComponentLoader \<Rightarrow> ComponentLoader" where
  "switch_role ty subtype role enable L =
    (let m = cl_componentEnableMap L;
         roles = (case om_get m (ty, subtype) of None \<Rightarrow> [] | Some r \<Rightarrow> r)
     in L\<lparr>cl_componentEnableMap := om_put (ty, subtype) (om_put role enable roles) m\<rparr>)"

definition ParseSubtypeEnableConfig :: "'j loader_world \<Rightarrow> DHType \<Rightarrow> string \<Rightarrow> 'j \<Rightarrow> ComponentLoader \<Rightarrow> ComponentLoader" where
  "ParseSubtypeEnableConfig W ty subtype subEntry =
    fold (\<lambda>roleEntry L. case lw_name W roleEntry of
        None \<Rightarrow> L
      | Some role \<Rightarrow> switch_role ty subtype role (cJSON_IsTrue (lw_J W) roleEntry) L)
     (cj_items (lw_J W) subEntry)"

definition subtype_entry :: "'j loader_world \<Rightarrow> DHType \<Rightarrow> 'j \<Rightarrow> ComponentLoader \<Rightarrow> ComponentLoader" where
  "subtype_entry W ty subEntry L =
    (case lw_name W subEntry of
       None \<Rightarrow> L
     | Some subtype \<Rightarrow>
        if cJSON_IsBool (lw_J W) subEntry
        then let enable = cJSON_IsTrue (lw_J W) subEntry
             in switch_role ty subtype ''source'' enable (switch_role ty subtype ''sink'' enable L)
        else if lw_IsObject W subEntry then ParseSubtypeEnableConfig W ty subtype subEntry L
        else L)"

definition ParseComponentEnableConfig :: "'j loader_world \<Rightarrow> 'j \<Rightarrow> ComponentLoader \<Rightarrow> ComponentLoader" where
  "ParseComponentEnableConfig W enableConfig =
    fold (\<lambda>typeEntry L. case lw_name W typeEntry of
        None \<Rightarrow> L
      | Some n \<Rightarrow> fold (subtype_entry W (type_named n)) (cj_items (lw_J W) typeEntry) L)
     (cj_items (lw_J W) enableConfig)"

definition IsComponentSubtypeEnabled :: "ComponentLoader \<Rightarrow> DHType \<Rightarrow> string \<Rightarrow> string \<Rightarrow> bool" where
  "IsComponentSubtypeEnabled L ty subtype role =
    (if \<not> cl_isLocalVersionInit L then True
     else case om_get (cl_componentEnableMap L) (ty, subtype) of
            None \<Rightarrow> True
          | Some roles \<Rightarrow> (case om_get roles role of None \<Rightarrow> True | Some b \<Rightarrow> b))"

definition IsSubtypeAnyRoleEnabled :: "ComponentLoader \<Rightarrow> string \<Rightarrow> bool" where
  "IsSubtypeAnyRoleEnabled L subtype =
    (case om_get (cl_componentEnableMap L) (DHType_AUDIO, subtype) of
       None \<Rightarrow> False | Some roles \<Rightarrow> list_ex snd roles)"

definition RegisterAudioComponentIfNeeded ::
    "(DHType, CompConfig) omap \<Rightarrow> ComponentLoader \<Rightarrow> (DHType, CompConfig) omap \<times> ComponentLoader" where
  "RegisterAudioComponentIfNeeded dhtypeMap L =
    (let micEnable = (om_get (cl_componentEnableMap L) (DHType_AUDIO, ''mic'') = None \<or> IsSubtypeAnyRoleEnabled L ''mic'');
         speakerEnable = (om_get (cl_componentEnableMap L) (DHType_AUDIO, ''speaker'') = None \<or> IsSubtypeAnyRoleEnabled L ''speaker'');
         v = cl_localDHVersion L
     in if micEnable \<or> speakerEnable
        then (om_put DHType_AUDIO g_audioCompConfig dhtypeMap,
              L\<lparr>cl_localDHVersion := v\<lparr>dv_compVersions :=
                  om_put DHType_AUDIO (GetCompVersionFromComConfig g_audioCompConfig) (dv_compVersions v)\<rparr>\<rparr>)
        else (om_del DHType_AUDIO dhtypeMap,
              L\<lparr>cl_localDHVersion := v\<lparr>dv_compVersions := om_del DHType_AUDIO (dv_compVersions v)\<rparr>\<rparr>))"

section \<open>Initialisation\<close>

definition component_entry ::
    "'j loader_world \<Rightarrow> 'j \<Rightarrow> (DHType, CompConfig) omap \<times> ComponentLoader \<Rightarrow> (DHType, CompConfig) omap \<times> ComponentLoader" where
  "component_entry W component x =
    (case x of (dhtypeMap, L) \<Rightarrow>
       let config = ParseCompConfigFromJson W component (CompConfig_local W);
           v = cl_localDHVersion L
       in (om_emplace (cf_type config) config dhtypeMap,
           L\<lparr>cl_localDHVersion := v\<lparr>dv_compVersions :=
               om_emplace (cf_type config) (GetCompVersionFromComConfig config) (dv_compVersions v)\<rparr>\<rparr>))"

definition GetCompPathAndVersion ::
    "'j loader_world \<Rightarrow> string \<Rightarrow> ComponentLoader \<Rightarrow> int \<times> (DHType, CompConfig) omap \<times> ComponentLoader" where
  "GetCompPathAndVersion W jsonStr L =
    (if \<not> IsJsonLengthValid jsonStr then (ERR_DH_FWK_PARA_INVALID, [], L)
     else case cJSON_Parse (lw_J W) jsonStr of
            None \<Rightarrow> (ERR_DH_FWK_JSON_PARSE_FAILED, [], L)
          | Some tree \<Rightarrow>
             let components = cJSON_GetObjectItem (lw_J W) tree COMPONENTSLOAD_DISTRIBUTED_COMPONENTS in
             if \<not> IsArray (lw_J W) components then (ERR_DH_FWK_PARA_INVALID, [], L)
             else
               let items = cj_items (lw_J W) (the components); compSize = length items in
               if compSize = 0 \<or> MAX_COMP_SIZE < compSize then (ERR_DH_FWK_PARA_INVALID, [], L)
               else case fold (component_entry W) items ([], L) of
                      (dhtypeMap, L1) \<Rightarrow>
                        let L2 = (case cJSON_GetObjectItem (lw_J W) tree COMPONENT_ENABLE_CONFIG of
                                    None \<Rightarrow> L1 | Some enableConfig \<Rightarrow> ParseComponentEnableConfig W enableConfig L1)
                        in (DH_FWK_SUCCESS, dhtypeMap, L2\<lparr>cl_isLocalVersionInit := True\<rparr>))"

text \<open>\<open>getline\<close> drops the ends of the lines.\<close>

definition Readfile :: "'j loader_world \<Rightarrow> string \<Rightarrow> string" where
  "Readfile W filePath = (case lw_file W filePath of None \<Rightarrow> [] | Some s \<Rightarrow> filter (\<lambda>c. c \<noteq> CHR 0x0A) s)"

text \<open>The handles of a new handler are not set.\<close>

definition new_handler :: "'j loader_world \<Rightarrow> CompConfig \<Rightarrow> CompHandler" where
  "new_handler W config = (case lw_junk_handles W of (source, sink, hardware) \<Rightarrow>
     \<lparr>ch_type = cf_type config, ch_sourceHandler = source, ch_sourceSaId = cf_compSourceSaId config, ch_sinkHandler = sink,
      ch_sinkSaId = cf_compSinkSaId config, ch_hardwareHandler = hardware, ch_compConfig = config\<rparr>)"

definition GetAllHandler :: "'j loader_world \<Rightarrow> (DHType, CompConfig) omap \<Rightarrow> ComponentLoader \<Rightarrow> ComponentLoader" where
  "GetAllHandler W dhtypeMap =
    fold (\<lambda>(_, config) L.
        L\<lparr>cl_resDescMap := fold (\<lambda>r. om_put (rd_subtype r) (rd_sensitiveValue r)) (cf_compResourceDesc config) (cl_resDescMap L),
          cl_compHandlerMap := om_put (cf_type config) (new_handler W config) (cl_compHandlerMap L)\<rparr>) dhtypeMap"

definition ParseConfig :: "'j loader_world \<Rightarrow> ComponentLoader \<Rightarrow> int \<times> ComponentLoader" where
  "ParseConfig W L =
    (case lw_GetOneCfgFile W COMPONENTSLOAD_PROFILE_PATH of
       None \<Rightarrow> (ERR_DH_FWK_LOADER_PROFILE_PATH_IS_NULL, L)
     | Some profilePath \<Rightarrow>
        if profilePath = [] \<or> PATH_MAX < length profilePath then (ERR_DH_FWK_LOADER_PROFILE_PATH_IS_NULL, L)
        else case lw_realpath W profilePath of
               None \<Rightarrow> (ERR_DH_FWK_LOADER_PROFILE_PATH_IS_NULL, L)
             | Some path \<Rightarrow>
                let jsonStr = Readfile W path in
                if \<not> IsMessageLengthValid jsonStr then (ERR_DH_FWK_LOADER_CONFIG_JSON_INVALID, L)
                else case GetCompPathAndVersion W jsonStr L of
                       (ret, dhtypeMap, L1) \<Rightarrow>
                         if ret \<noteq> DH_FWK_SUCCESS then (ret, L1)
                         else case RegisterAudioComponentIfNeeded dhtypeMap L1 of
                                (dhtypeMap1, L2) \<Rightarrow> (DH_FWK_SUCCESS, GetAllHandler W dhtypeMap1 L2))"

definition GetLocalDHVersion :: "ComponentLoader \<Rightarrow> int \<times> DHVersion option" where
  "GetLocalDHVersion L =
    (if \<not> cl_isLocalVersionInit L then (ERR_DH_FWK_LOADER_GET_LOCAL_VERSION_FAIL, None)
     else (DH_FWK_SUCCESS, Some (cl_localDHVersion L)))"

definition StoreLocalDHVersionInDB :: "('s, 'j) config \<Rightarrow> ComponentLoader \<Rightarrow> 's fwk \<Rightarrow> 's fwk" where
  "StoreLocalDHVersionInDB C L w =
    (if \<not> cl_isLocalVersionInit L then w
     else case GetDeviceInfo (c_P C) (fw_ctx w) of
            (info, ctx) \<Rightarrow>
              snd (AddVersion C \<lparr>vi_deviceId = di_deviceId info, vi_dhVersion = ''1.0'',
                   vi_compVersions = dv_compVersions (cl_localDHVersion L)\<rparr> (w\<lparr>fw_ctx := ctx\<rparr>)))"

definition Loader_Init ::
    "('s, 'j) config \<Rightarrow> 'j loader_world \<Rightarrow> ComponentLoader \<Rightarrow> 's fwk \<Rightarrow> int \<times> ComponentLoader \<times> 's fwk" where
  "Loader_Init C W L w = (case ParseConfig W L of (ret, L1) \<Rightarrow> (ret, L1, StoreLocalDHVersionInDB C L1 w))"

section \<open>Libraries\<close>

definition GetHandler :: "'j loader_world \<Rightarrow> string \<Rightarrow> ComponentLoader \<Rightarrow> nat option \<times> ComponentLoader" where
  "GetHandler W soName L =
    (if soName = [] \<or> PATH_MAX < length soName then (None, L)
     else let h = lw_dlopen W (cl_calls L) soName in (h, L\<lparr>cl_calls := DL_open soName h # cl_calls L\<rparr>))"

definition ReleaseHandler ::
    "'j loader_world \<Rightarrow> nat option \<Rightarrow> ComponentLoader \<Rightarrow> int \<times> nat option \<times> ComponentLoader" where
  "ReleaseHandler W handler L =
    (case handler of
       None \<Rightarrow> (ERR_DH_FWK_LOADER_HANDLER_IS_NULL, None, L)
     | Some h \<Rightarrow>
        let ret = lw_dlclose W (cl_calls L) h; L1 = L\<lparr>cl_calls := DL_close h # cl_calls L\<rparr>
        in if ret \<noteq> 0 then (ERR_DH_FWK_LOADER_DLCLOSE_FAIL, handler, L1) else (DH_FWK_SUCCESS, None, L1))"

text \<open>The three libraries of a component: their handle, their file and the function that is looked up.\<close>

datatype library = LB_Source | LB_Sink | LB_Hardware

primrec lib_handle :: "library \<Rightarrow> CompHandler \<Rightarrow> nat option" where
  "lib_handle LB_Source c = ch_sourceHandler c"
| "lib_handle LB_Sink c = ch_sinkHandler c"
| "lib_handle LB_Hardware c = ch_hardwareHandler c"

primrec set_handle :: "library \<Rightarrow> nat option \<Rightarrow> CompHandler \<Rightarrow> CompHandler" where
  "set_handle LB_Source h c = c\<lparr>ch_sourceHandler := h\<rparr>"
| "set_handle LB_Sink h c = c\<lparr>ch_sinkHandler := h\<rparr>"
| "set_handle LB_Hardware h c = c\<lparr>ch_hardwareHandler := h\<rparr>"

primrec lib_file :: "library \<Rightarrow> CompConfig \<Rightarrow> string" where
  "lib_file LB_Source c = cf_compSourceLoc c"
| "lib_file LB_Sink c = cf_compSinkLoc c"
| "lib_file LB_Hardware c = cf_compHandlerLoc c"

primrec lib_symbol :: "library \<Rightarrow> string" where
  "lib_symbol LB_Source = ''GetSourceHardwareHandler''"
| "lib_symbol LB_Sink = ''GetSinkHardwareHandler''"
| "lib_symbol LB_Hardware = ''GetHardwareHandler''"

primrec already_loaded :: "library \<Rightarrow> int" where
  "already_loaded LB_Source = ERR_DH_FWK_LOADER_SOURCE_LOAD"
| "already_loaded LB_Sink = ERR_DH_FWK_LOADER_SINK_LOAD"
| "already_loaded LB_Hardware = ERR_DH_FWK_LOADER_HANDLER_LOAD"

primrec not_loaded :: "library \<Rightarrow> int" where
  "not_loaded LB_Source = ERR_DH_FWK_LOADER_SOURCE_UNLOAD"
| "not_loaded LB_Sink = ERR_DH_FWK_LOADER_SINK_UNLOAD"
| "not_loaded LB_Hardware = ERR_DH_FWK_LOADER_HANDLER_UNLOAD"

definition put_handler :: "DHType \<Rightarrow> CompHandler \<Rightarrow> ComponentLoader \<Rightarrow> ComponentLoader" where
  "put_handler ty c L = L\<lparr>cl_compHandlerMap := om_put ty c (cl_compHandlerMap L)\<rparr>"

text \<open>
  The pointer that a library gives for a component, of which the code has one copy for each library: the library is
  opened when it is not, and closed again when it has not the function.
\<close>

definition get_pointer ::
    "library \<Rightarrow> 'j loader_world \<Rightarrow> DHType \<Rightarrow> ComponentLoader \<Rightarrow> int \<times> nat option \<times> ComponentLoader" where
  "get_pointer b W dhType L =
    (case om_get (cl_compHandlerMap L) dhType of
       None \<Rightarrow> (ERR_DH_FWK_LOADER_HANDLER_IS_NULL, None, L)
     | Some c \<Rightarrow>
        (case (case lib_handle b c of
                 Some h \<Rightarrow> (Some h, L)
               | None \<Rightarrow> (case GetHandler W (lib_file b (ch_compConfig c)) L of
                           (h, L1) \<Rightarrow> (h, put_handler dhType (set_handle b h c) L1))) of
           (None, L1) \<Rightarrow> (ERR_DH_FWK_LOADER_HANDLER_IS_NULL, None, L1)
         | (Some h, L1) \<Rightarrow>
            let found = lw_dlsym W (cl_calls L1) h (lib_symbol b);
                L2 = L1\<lparr>cl_calls := DL_sym h (lib_symbol b) # cl_calls L1\<rparr>
            in case found of
                 None \<Rightarrow> (case ReleaseHandler W (Some h) L2 of
                           (_, _, L3) \<Rightarrow> (ERR_DH_FWK_LOADER_HANDLER_IS_NULL, None, put_handler dhType (set_handle b None c) L3))
               | Some p \<Rightarrow> (DH_FWK_SUCCESS, p, L2)))"

definition Loader_GetHardwareHandlerPtr :: "'j loader_world \<Rightarrow> DHType \<Rightarrow> ComponentLoader \<Rightarrow> int \<times> nat option \<times> ComponentLoader" where
  "Loader_GetHardwareHandlerPtr = get_pointer LB_Hardware"

definition Loader_GetSourcePtr :: "'j loader_world \<Rightarrow> DHType \<Rightarrow> ComponentLoader \<Rightarrow> int \<times> nat option \<times> ComponentLoader" where
  "Loader_GetSourcePtr = get_pointer LB_Source"

definition Loader_GetSinkPtr :: "'j loader_world \<Rightarrow> DHType \<Rightarrow> ComponentLoader \<Rightarrow> int \<times> nat option \<times> ComponentLoader" where
  "Loader_GetSinkPtr = get_pointer LB_Sink"

text \<open>Opening a library ahead: a library that could not be opened is not reported.\<close>

definition open_library :: "library \<Rightarrow> 'j loader_world \<Rightarrow> DHType \<Rightarrow> ComponentLoader \<Rightarrow> int \<times> ComponentLoader" where
  "open_library b W dhType L =
    (case om_get (cl_compHandlerMap L) dhType of
       None \<Rightarrow> (ERR_DH_FWK_LOADER_HANDLER_IS_NULL, L)
     | Some c \<Rightarrow>
        if lib_handle b c \<noteq> None then (already_loaded b, L)
        else case GetHandler W (lib_file b (ch_compConfig c)) L of
               (h, L1) \<Rightarrow> (DH_FWK_SUCCESS, put_handler dhType (set_handle b h c) L1))"

definition Loader_GetSource :: "'j loader_world \<Rightarrow> DHType \<Rightarrow> ComponentLoader \<Rightarrow> int \<times> ComponentLoader" where
  "Loader_GetSource = open_library LB_Source"

definition Loader_GetSink :: "'j loader_world \<Rightarrow> DHType \<Rightarrow> ComponentLoader \<Rightarrow> int \<times> ComponentLoader" where
  "Loader_GetSink = open_library LB_Sink"

definition Loader_GetHardwareHandler :: "'j loader_world \<Rightarrow> DHType \<Rightarrow> ComponentLoader \<Rightarrow> int \<times> ComponentLoader" where
  "Loader_GetHardwareHandler = open_library LB_Hardware"

definition IsDHTypeExist :: "DHType \<Rightarrow> ComponentLoader \<Rightarrow> bool" where
  "IsDHTypeExist dhType L = (om_get (cl_compHandlerMap L) dhType \<noteq> None)"

definition is_loaded :: "library \<Rightarrow> DHType \<Rightarrow> ComponentLoader \<Rightarrow> bool" where
  "is_loaded b dhType L =
    (case om_get (cl_compHandlerMap L) dhType of None \<Rightarrow> False | Some c \<Rightarrow> lib_handle b c \<noteq> None)"

definition IsDHTypeSinkLoaded :: "DHType \<Rightarrow> ComponentLoader \<Rightarrow> bool" where
  "IsDHTypeSinkLoaded = is_loaded LB_Sink"

definition IsDHTypeSourceLoaded :: "DHType \<Rightarrow> ComponentLoader \<Rightarrow> bool" where
  "IsDHTypeSourceLoaded = is_loaded LB_Source"

definition IsDHTypeHandlerLoaded :: "DHType \<Rightarrow> ComponentLoader \<Rightarrow> bool" where
  "IsDHTypeHandlerLoaded = is_loaded LB_Hardware"

definition release_library :: "library \<Rightarrow> 'j loader_world \<Rightarrow> DHType \<Rightarrow> ComponentLoader \<Rightarrow> int \<times> ComponentLoader" where
  "release_library b W dhType L =
    (case om_get (cl_compHandlerMap L) dhType of
       None \<Rightarrow> (ERR_DH_FWK_TYPE_NOT_EXIST, L)
     | Some c \<Rightarrow>
        if \<not> is_loaded b dhType L then (not_loaded b, L)
        else case ReleaseHandler W (lib_handle b c) L of
               (ret, _, L1) \<Rightarrow> (ret, put_handler dhType (set_handle b None c) L1))"

definition ReleaseHardwareHandler :: "'j loader_world \<Rightarrow> DHType \<Rightarrow> ComponentLoader \<Rightarrow> int \<times> ComponentLoader" where
  "ReleaseHardwareHandler = release_library LB_Hardware"

definition ReleaseSource :: "'j loader_world \<Rightarrow> DHType \<Rightarrow> ComponentLoader \<Rightarrow> int \<times> ComponentLoader" where
  "ReleaseSource = release_library LB_Source"

definition ReleaseSink :: "'j loader_world \<Rightarrow> DHType \<Rightarrow> ComponentLoader \<Rightarrow> int \<times> ComponentLoader" where
  "ReleaseSink = release_library LB_Sink"

definition release_if :: "'j loader_world \<Rightarrow> nat option \<Rightarrow> ComponentLoader \<Rightarrow> ComponentLoader" where
  "release_if W h L = (if h \<noteq> None then snd (snd (ReleaseHandler W h L)) else L)"

definition release_all :: "'j loader_world \<Rightarrow> CompHandler \<Rightarrow> ComponentLoader \<Rightarrow> ComponentLoader" where
  "release_all W c L = release_if W (ch_hardwareHandler c) (release_if W (ch_sourceHandler c) (release_if W (ch_sinkHandler c) L))"

definition Loader_UnInit :: "'j loader_world \<Rightarrow> ComponentLoader \<Rightarrow> int \<times> ComponentLoader" where
  "Loader_UnInit W L =
    (let L1 = fold (\<lambda>(_, c). release_all W c) (cl_compHandlerMap L) L
     in (DH_FWK_SUCCESS, L1\<lparr>cl_compHandlerMap := [], cl_resDescMap := []\<rparr>))"

section \<open>Questions\<close>

definition GetAllCompTypes :: "ComponentLoader \<Rightarrow> DHType list" where
  "GetAllCompTypes L = map fst (cl_compHandlerMap L)"

definition GetSourceSaId :: "DHType \<Rightarrow> ComponentLoader \<Rightarrow> int" where
  "GetSourceSaId dhType L = (case om_get (cl_compHandlerMap L) dhType of None \<Rightarrow> DEFAULT_SA_ID | Some c \<Rightarrow> ch_sourceSaId c)"

definition GetSinkSaId :: "DHType \<Rightarrow> ComponentLoader \<Rightarrow> int" where
  "GetSinkSaId dhType L = (case om_get (cl_compHandlerMap L) dhType of None \<Rightarrow> DEFAULT_SA_ID | Some c \<Rightarrow> ch_sinkSaId c)"

definition GetDHTypeBySaId :: "int \<Rightarrow> ComponentLoader \<Rightarrow> DHType" where
  "GetDHTypeBySaId saId L =
    (case find (\<lambda>(_, c). ch_sourceSaId c = saId \<or> ch_sinkSaId c = saId) (cl_compHandlerMap L) of
       None \<Rightarrow> DHType_UNKNOWN | Some (_, c) \<Rightarrow> ch_type c)"

definition GetCompResourceDesc :: "ComponentLoader \<Rightarrow> (string, bool) omap" where
  "GetCompResourceDesc L = cl_resDescMap L"

definition IsDHTypeSupport :: "DHType \<Rightarrow> ComponentLoader \<Rightarrow> bool" where
  "IsDHTypeSupport = IsDHTypeExist"

text \<open>The service with this loader: what the environment answers for it is what the loader says.\<close>

definition with_loader :: "ComponentLoader \<Rightarrow> ('s, 'j) config \<Rightarrow> ('s, 'j) config" where
  "with_loader L C = C\<lparr>c_E := (c_E C)\<lparr>
     e_IsDHTypeSupport := (\<lambda>ty. IsDHTypeSupport ty L), e_CompTypes := GetAllCompTypes L,
     e_SourceSaId := (\<lambda>ty. GetSourceSaId ty L), e_SinkSaId := (\<lambda>ty. GetSinkSaId ty L),
     e_CompResourceDesc := GetCompResourceDesc L, e_IsComponentSubtypeEnabled := IsComponentSubtypeEnabled L,
     e_LocalDHVersion := (case GetLocalDHVersion L of (ret, v) \<Rightarrow> (ret, case v of None \<Rightarrow> snd (e_LocalDHVersion (c_E C)) | Some d \<Rightarrow> d))\<rparr>\<rparr>"

end
