(* ===== verification/Loader_Properties.thy ===== *)
theory Loader_Properties
  imports Component_Loader Enable_Properties
begin

text \<open>
  What is shown of the component loader: the libraries that are open are those whose handles it keeps, a subtype is
  switched as the configuration says, and what that means for a request to enable audio.
\<close>

section \<open>Libraries\<close>

definition opens :: "dl_call list \<Rightarrow> nat \<Rightarrow> nat" where
  "opens cs h = length (filter (\<lambda>c. case c of DL_open _ h' \<Rightarrow> h' = Some h | _ \<Rightarrow> False) cs)"

definition closes :: "dl_call list \<Rightarrow> nat \<Rightarrow> nat" where
  "closes cs h = length (filter (\<lambda>c. c = DL_close h) cs)"

definition balance :: "dl_call list \<Rightarrow> nat \<Rightarrow> int" where
  "balance cs h = int (opens cs h) - int (closes cs h)"

text \<open>A handle is only used while it is open.\<close>

fun used_open :: "dl_call list \<Rightarrow> bool" where
  "used_open [] = True"
| "used_open (DL_open _ _ # cs) = used_open cs"
| "used_open (DL_sym h _ # cs) = (balance cs h > 0 \<and> used_open cs)"
| "used_open (DL_close h # cs) = (balance cs h > 0 \<and> used_open cs)"

definition holds :: "nat \<Rightarrow> CompHandler \<Rightarrow> int" where
  "holds h c = of_bool (ch_sourceHandler c = Some h) + of_bool (ch_sinkHandler c = Some h) + of_bool (ch_hardwareHandler c = Some h)"

definition held_handles :: "ComponentLoader \<Rightarrow> nat \<Rightarrow> int" where
  "held_handles L h = om_sum (holds h) (cl_compHandlerMap L)"

inductive loader_step :: "'j loader_world \<Rightarrow> ComponentLoader \<Rightarrow> ComponentLoader \<Rightarrow> bool" for W where
  init: "cl_compHandlerMap L = [] \<Longrightarrow> loader_step W L (snd (ParseConfig W L))"
| source_ptr: "loader_step W L (snd (snd (Loader_GetSourcePtr W ty L)))"
| sink_ptr: "loader_step W L (snd (snd (Loader_GetSinkPtr W ty L)))"
| hardware_ptr: "loader_step W L (snd (snd (Loader_GetHardwareHandlerPtr W ty L)))"
| source: "loader_step W L (snd (Loader_GetSource W ty L))"
| sink: "loader_step W L (snd (Loader_GetSink W ty L))"
| hardware: "loader_step W L (snd (Loader_GetHardwareHandler W ty L))"
| release_source: "loader_step W L (snd (ReleaseSource W ty L))"
| release_sink: "loader_step W L (snd (ReleaseSink W ty L))"
| release_hardware: "loader_step W L (snd (ReleaseHardwareHandler W ty L))"
| uninit: "loader_step W L (snd (Loader_UnInit W L))"

inductive loader_reach :: "'j loader_world \<Rightarrow> ComponentLoader \<Rightarrow> bool" for W where
  new: "loader_reach W ComponentLoader_new"
| step: "loader_reach W L \<Longrightarrow> loader_step W L L' \<Longrightarrow> loader_reach W L'"

definition balanced :: "ComponentLoader \<Rightarrow> bool" where
  "balanced L = (om_ok (cl_compHandlerMap L) \<and> used_open (cl_calls L) \<and> (\<forall>h. balance (cl_calls L) h = held_handles L h))"

lemma balance_simps [simp]:
  "balance [] h = 0" "balance (DL_sym x s # cs) h = balance cs h"
  "balance (DL_open f o' # cs) h = balance cs h + of_bool (o' = Some h)"
  "balance (DL_close x # cs) h = balance cs h - of_bool (x = h)"
  by (simp_all add: balance_def opens_def closes_def)

lemma holds_nonneg: "0 \<le> holds h c"
  by (simp add: holds_def)

lemma holds_set: "holds h (set_handle b o' c) = holds h c - of_bool (lib_handle b c = Some h) + of_bool (o' = Some h)"
  by (cases b) (simp_all add: holds_def)

lemma set_get: "lib_handle b (set_handle b o' c) = o'" "ch_compConfig (set_handle b o' c) = ch_compConfig c"
  "set_handle b x (set_handle b y c) = set_handle b x c"
  by (cases b; simp)+

lemma put_handler_sel [simp]:
  "cl_calls (put_handler ty c L) = cl_calls L" "cl_compHandlerMap (put_handler ty c L) = om_put ty c (cl_compHandlerMap L)"
  by (simp_all add: put_handler_def)

lemma held_positive:
  assumes "balanced L" "om_get (cl_compHandlerMap L) ty = Some c" "lib_handle b c = Some h"
  shows "balance (cl_calls L) h > 0"
proof -
  have "(ty, c) \<in> set (cl_compHandlerMap L)" using assms(2) by (rule map_of_SomeD)
  then have "holds h c \<le> om_sum (holds h) (cl_compHandlerMap L)"
    by (rule om_sum_ge_member[rotated]) (rule holds_nonneg)
  moreover have "holds h c \<ge> 1" using assms(3) by (cases b) (simp_all add: holds_def)
  ultimately show ?thesis using assms(1) by (simp add: balanced_def held_handles_def)
qed

text \<open>One handle is replaced, and the calls say by how much.\<close>

lemma balanced_replace:
  assumes "balanced L" "om_get (cl_compHandlerMap L) ty = Some c" "cl_compHandlerMap L' = om_put ty (set_handle b o' c) (cl_compHandlerMap L)"
    and "used_open (cl_calls L')"
    and "\<And>h. balance (cl_calls L') h = balance (cl_calls L) h - of_bool (lib_handle b c = Some h) + of_bool (o' = Some h)"
  shows "balanced L'"
  using assms by (auto simp: balanced_def held_handles_def om_sum_put holds_set intro: om_intros)

lemma opened:
  assumes "GetHandler W f L = (o', L1)" "balanced L"
  shows "cl_compHandlerMap L1 = cl_compHandlerMap L" "used_open (cl_calls L1)"
    "balance (cl_calls L1) h = balance (cl_calls L) h + of_bool (o' = Some h)"
  using assms by (auto simp: GetHandler_def balanced_def Let_def split: if_splits)

lemma released:
  assumes "ReleaseHandler W (Some h) L = (r, o', L1)" "used_open (cl_calls L)" "balance (cl_calls L) h > 0"
  shows "cl_compHandlerMap L1 = cl_compHandlerMap L" "used_open (cl_calls L1)"
    "balance (cl_calls L1) x = balance (cl_calls L) x - of_bool (x = h)"
  using assms by (auto simp: ReleaseHandler_def Let_def split: if_splits)

lemma balanced_use:
  assumes "balanced L" "om_get (cl_compHandlerMap L) ty = Some c" "lib_handle b c = Some h"
    and "L2 = L\<lparr>cl_calls := DL_sym h s # cl_calls L\<rparr>"
  shows "balanced L2" "ReleaseHandler W (Some h) L2 = (r, o', L3) \<Longrightarrow> balanced (put_handler ty (set_handle b None c) L3)"
proof -
  have p: "balance (cl_calls L) h > 0" by (rule held_positive[OF assms(1-3)])
  show b2: "balanced L2" using assms(1) p by (simp add: assms(4) balanced_def held_handles_def)
  show "balanced (put_handler ty (set_handle b None c) L3)" if "ReleaseHandler W (Some h) L2 = (r, o', L3)"
  proof -
    note rel = released[OF that]
    have u: "used_open (cl_calls L2)" "balance (cl_calls L2) h > 0" using b2 p by (simp_all add: balanced_def assms(4))
    show ?thesis
      by (rule balanced_replace[OF b2, of ty c]) (use rel[OF u] assms in auto)
  qed
qed

lemma put_put [simp]: "om_put k v (om_put k u m) = om_put k v m"
  by (induction k u m rule: om_put.induct) auto

lemma put_handler_put [simp]: "put_handler ty c (put_handler ty d L) = put_handler ty c L"
  by (simp add: put_handler_def)

lemma balanced_opened:
  assumes "balanced L" "om_get (cl_compHandlerMap L) ty = Some c" "lib_handle b c = None" "GetHandler W f L = (o', L1)"
  shows "balanced (put_handler ty (set_handle b o' c) L1)"
  by (rule balanced_replace[OF assms(1,2)]) (use opened[OF assms(4,1)] assms(3) in auto)

lemma balanced_pointer:
  assumes "balanced L" shows "balanced (snd (snd (get_pointer b W ty L)))"
proof (cases "om_get (cl_compHandlerMap L) ty")
  case (Some c)
  show ?thesis
  proof (cases "lib_handle b c")
    case (Some h)
    note use = balanced_use(1)[OF assms \<open>om_get (cl_compHandlerMap L) ty = Some c\<close> Some refl] balanced_use(2)[where W = W, OF assms \<open>om_get (cl_compHandlerMap L) ty = Some c\<close> Some refl]
    show ?thesis using use \<open>om_get (cl_compHandlerMap L) ty = Some c\<close> Some
      by (auto simp: get_pointer_def Let_def split: option.split prod.split)
  next
    case None
    obtain o' L1 where g: "GetHandler W (lib_file b (ch_compConfig c)) L = (o', L1)" by fastforce
    let ?L1 = "put_handler ty (set_handle b o' c) L1"
    have b1: "balanced ?L1" by (rule balanced_opened[OF assms \<open>om_get (cl_compHandlerMap L) ty = Some c\<close> None g])
    show ?thesis
    proof (cases o')
      case None
      then show ?thesis using b1 g \<open>lib_handle b c = None\<close> \<open>om_get (cl_compHandlerMap L) ty = Some c\<close>
        by (simp add: get_pointer_def)
    next
      case (Some h)
      have m: "om_get (cl_compHandlerMap ?L1) ty = Some (set_handle b (Some h) c)" by (simp add: Some)
      note use = balanced_use(1)[OF b1 m set_get(1) refl] balanced_use(2)[where W = W, OF b1 m set_get(1) refl]
      show ?thesis
        using use g Some \<open>lib_handle b c = None\<close> \<open>om_get (cl_compHandlerMap L) ty = Some c\<close>
        by (auto simp: get_pointer_def Let_def set_get split: option.split prod.split)
    qed
  qed
qed (simp add: get_pointer_def assms)

lemma balanced_open:
  assumes "balanced L" shows "balanced (snd (open_library b W ty L))"
  using assms balanced_opened[OF assms] by (auto simp: open_library_def split: option.split prod.split)

lemma balanced_release:
  assumes "balanced L" shows "balanced (snd (release_library b W ty L))"
proof (cases "om_get (cl_compHandlerMap L) ty")
  case (Some c)
  show ?thesis
  proof (cases "lib_handle b c")
    case (Some h)
    obtain r o' L1 where R: "ReleaseHandler W (Some h) L = (r, o', L1)" by (cases "ReleaseHandler W (Some h) L") auto
    have u: "used_open (cl_calls L)" using assms by (simp add: balanced_def)
    have p: "balance (cl_calls L) h > 0"
      by (rule held_positive[OF assms \<open>om_get (cl_compHandlerMap L) ty = Some c\<close> Some])
    have "balanced (put_handler ty (set_handle b None c) L1)"
      by (rule balanced_replace[OF assms \<open>om_get (cl_compHandlerMap L) ty = Some c\<close>]) (use released[OF R u p] Some in auto)
    then show ?thesis using R Some \<open>om_get (cl_compHandlerMap L) ty = Some c\<close> by (simp add: release_library_def is_loaded_def)
  qed (simp add: release_library_def is_loaded_def assms Some)
qed (simp add: release_library_def assms)

text \<open>The end of the loader closes what is held, one handler after the other.\<close>

lemma release_if_calls:
  assumes "used_open (cl_calls L)" "\<forall>x. o' = Some x \<longrightarrow> balance (cl_calls L) x > 0"
  shows "used_open (cl_calls (release_if W o' L))"
    "balance (cl_calls (release_if W o' L)) h = balance (cl_calls L) h - of_bool (o' = Some h)"
    "cl_compHandlerMap (release_if W o' L) = cl_compHandlerMap L"
  using assms by (auto simp: release_if_def ReleaseHandler_def Let_def split: option.split)

lemma release_all_calls:
  assumes "used_open (cl_calls L)" "\<And>h. holds h c \<le> balance (cl_calls L) h"
  shows "used_open (cl_calls (release_all W c L))"
    "balance (cl_calls (release_all W c L)) h = balance (cl_calls L) h - holds h c"
proof -
  define L1 where "L1 = release_if W (ch_sinkHandler c) L"
  define L2 where "L2 = release_if W (ch_sourceHandler c) L1"
  have p: "\<forall>x. ch_sinkHandler c = Some x \<longrightarrow> balance (cl_calls L) x > 0"
  proof (intro allI impI)
    fix x assume "ch_sinkHandler c = Some x"
    then show "balance (cl_calls L) x > 0" using assms(2)[of x]
      by (cases "ch_sourceHandler c = Some x"; cases "ch_hardwareHandler c = Some x"; simp add: holds_def)
  qed
  note r1 = release_if_calls[where W = W, OF assms(1) p, folded L1_def]
  have p1: "\<forall>x. ch_sourceHandler c = Some x \<longrightarrow> balance (cl_calls L1) x > 0"
  proof (intro allI impI)
    fix x assume "ch_sourceHandler c = Some x"
    then show "balance (cl_calls L1) x > 0" using assms(2)[of x]
      by (cases "ch_hardwareHandler c = Some x"; simp add: holds_def r1(2))
  qed
  note r2 = release_if_calls[where W = W, OF r1(1) p1, folded L2_def]
  have p2: "\<forall>x. ch_hardwareHandler c = Some x \<longrightarrow> balance (cl_calls L2) x > 0"
  proof (intro allI impI)
    fix x assume "ch_hardwareHandler c = Some x"
    then show "balance (cl_calls L2) x > 0" using assms(2)[of x] by (simp add: holds_def r1(2) r2(2))
  qed
  note r3 = release_if_calls[where W = W, OF r2(1) p2]
  show "used_open (cl_calls (release_all W c L))" using r3(1) by (simp add: release_all_def L1_def L2_def)
  show "balance (cl_calls (release_all W c L)) h = balance (cl_calls L) h - holds h c"
    using r3(2)[of h] by (simp add: release_all_def L1_def[symmetric] L2_def[symmetric] r1(2) r2(2) holds_def)
qed

lemma release_every:
  assumes "used_open (cl_calls L)" "\<forall>h. om_sum (holds h) m \<le> balance (cl_calls L) h"
  shows "used_open (cl_calls (fold (\<lambda>(_, c). release_all W c) m L))
    \<and> (\<forall>h. balance (cl_calls (fold (\<lambda>(_, c). release_all W c) m L)) h = balance (cl_calls L) h - om_sum (holds h) m)"
  using assms
proof (induction m arbitrary: L)
  case (Cons e m)
  obtain t c where e: "e = (t, c)" by (cases e)
  have n: "0 \<le> om_sum (holds h) m" for h by (rule om_sum_nonneg) (rule holds_nonneg)
  have "holds h c \<le> balance (cl_calls L) h" for h
    using Cons.prems(2)[THEN spec, of h] n[of h] by (simp add: e)
  note r = release_all_calls[OF Cons.prems(1) this, where W = W]
  have le: "\<forall>h. om_sum (holds h) m \<le> balance (cl_calls (release_all W c L)) h"
  proof
    fix h show "om_sum (holds h) m \<le> balance (cl_calls (release_all W c L)) h"
      using Cons.prems(2)[THEN spec, of h] by (simp add: e r(2))
  qed
  show ?case using Cons.IH[OF r(1) le] by (simp add: e r(2))
qed simp

lemma balanced_uninit:
  assumes "balanced L"
  shows "balanced (snd (Loader_UnInit W L))" "balance (cl_calls (snd (Loader_UnInit W L))) h = 0"
proof -
  have e: "snd (Loader_UnInit W L) = (fold (\<lambda>(_, c). release_all W c) (cl_compHandlerMap L) L)\<lparr>cl_compHandlerMap := [], cl_resDescMap := []\<rparr>"
    by (simp add: Loader_UnInit_def)
  have u: "used_open (cl_calls L)" "\<forall>h. om_sum (holds h) (cl_compHandlerMap L) \<le> balance (cl_calls L) h"
    "\<And>h. balance (cl_calls L) h = om_sum (holds h) (cl_compHandlerMap L)"
    using assms by (simp_all add: balanced_def held_handles_def)
  note r = release_every[OF u(1,2), where W = W]
  show "balanced (snd (Loader_UnInit W L))" using r by (simp add: e balanced_def held_handles_def u(3))
  show "balance (cl_calls (snd (Loader_UnInit W L))) h = 0" using r by (simp add: e u(3))
qed

text \<open>The configuration opens nothing, and the handlers it makes hold nothing when fresh memory is zero.\<close>

lemma switch_role_keeps [simp]:
  "cl_calls (switch_role t st r b L) = cl_calls L" "cl_compHandlerMap (switch_role t st r b L) = cl_compHandlerMap L"
  by (simp_all add: switch_role_def Let_def)

lemma fold_keeps: "(\<And>x L. x \<in> set xs \<Longrightarrow> P (f x L) = P L) \<Longrightarrow> P (fold f xs L) = P L"
  by (induction xs arbitrary: L) auto

lemma enable_config_keeps [simp]:
  "cl_calls (ParseComponentEnableConfig W e L) = cl_calls L"
  "cl_compHandlerMap (ParseComponentEnableConfig W e L) = cl_compHandlerMap L"
  unfolding ParseComponentEnableConfig_def subtype_entry_def ParseSubtypeEnableConfig_def
  by (rule fold_keeps; auto split: option.split simp: Let_def intro!: fold_keeps)+

lemma component_entries_keep:
  "fold (component_entry W) xs (m, L) = (m', L') \<Longrightarrow> cl_calls L' = cl_calls L \<and> cl_compHandlerMap L' = cl_compHandlerMap L"
  by (induction xs arbitrary: m L) (force simp: component_entry_def Let_def)+

lemma new_handlers:
  assumes "lw_junk_handles W = (None, None, None)"
    and "om_ok (cl_compHandlerMap L)" "\<forall>h. held_handles L h = 0"
  shows "cl_calls (GetAllHandler W m L) = cl_calls L \<and> om_ok (cl_compHandlerMap (GetAllHandler W m L))
    \<and> (\<forall>h. held_handles (GetAllHandler W m L) h = 0)"
  using assms(2,3)
proof (induction m arbitrary: L)
  case (Cons e m)
  obtain t c where e: "e = (t, c)" by (cases e)
  let ?L = "L\<lparr>cl_resDescMap := fold (\<lambda>r. om_put (rd_subtype r) (rd_sensitiveValue r)) (cf_compResourceDesc c) (cl_resDescMap L),
          cl_compHandlerMap := om_put (cf_type c) (new_handler W c) (cl_compHandlerMap L)\<rparr>"
  have z: "holds h (new_handler W c) = 0" for h by (simp add: new_handler_def assms(1) holds_def)
  have "val0 (holds h) (om_get (cl_compHandlerMap L) k) = 0" for h k
  proof (cases "om_get (cl_compHandlerMap L) k")
    case (Some d)
    have "holds h d \<le> held_handles L h" unfolding held_handles_def
      by (rule om_sum_ge_member[rotated, OF map_of_SomeD[OF Some]]) (rule holds_nonneg)
    then show ?thesis using Cons.prems(2) holds_nonneg[of h d] Some by (simp add: antisym)
  qed simp
  then have "\<forall>h. held_handles ?L h = 0" using Cons.prems by (simp add: held_handles_def om_sum_put z)
  moreover have "om_ok (cl_compHandlerMap ?L)" using Cons.prems by (simp add: om_ok_put)
  ultimately show ?case using Cons.IH[of ?L] by (simp add: GetAllHandler_def e)
qed (simp add: GetAllHandler_def)

lemma config_paths_keep:
  assumes "GetCompPathAndVersion W s L = (r, m, L1)"
  shows "cl_calls L1 = cl_calls L" "cl_compHandlerMap L1 = cl_compHandlerMap L"
proof -
  have "cl_calls L1 = cl_calls L \<and> cl_compHandlerMap L1 = cl_compHandlerMap L"
    using assms unfolding GetCompPathAndVersion_def
    by (auto simp: Let_def dest!: component_entries_keep split: if_splits option.splits prod.splits)
  then show "cl_calls L1 = cl_calls L" "cl_compHandlerMap L1 = cl_compHandlerMap L" by simp_all
qed

lemma audio_keeps:
  "RegisterAudioComponentIfNeeded m L = (m', L') \<Longrightarrow> cl_calls L' = cl_calls L \<and> cl_compHandlerMap L' = cl_compHandlerMap L"
  by (auto simp: RegisterAudioComponentIfNeeded_def Let_def split: if_splits)

lemma balanced_init:
  assumes "lw_junk_handles W = (None, None, None)" "balanced L" "cl_compHandlerMap L = []"
  shows "balanced (snd (ParseConfig W L))"
proof -
  have h: "\<forall>h. held_handles L h = 0" by (simp add: held_handles_def assms(3))
  have same: "balanced L'" if "cl_calls L' = cl_calls L" "cl_compHandlerMap L' = cl_compHandlerMap L" for L'
    using assms(2) that by (simp add: balanced_def held_handles_def)
  have fin: "balanced (GetAllHandler W m L')" if "cl_calls L' = cl_calls L" "cl_compHandlerMap L' = cl_compHandlerMap L" for m L'
    using new_handlers[OF assms(1), of L' m] that assms(2,3) h by (auto simp: balanced_def held_handles_def)
  show ?thesis
  proof (cases "\<exists>p path. lw_GetOneCfgFile W COMPONENTSLOAD_PROFILE_PATH = Some p \<and> p \<noteq> [] \<and> length p \<le> PATH_MAX
      \<and> lw_realpath W p = Some path \<and> IsMessageLengthValid (Readfile W path)")
    case True
    then obtain p path where p: "lw_GetOneCfgFile W COMPONENTSLOAD_PROFILE_PATH = Some p" "p \<noteq> []" "length p \<le> PATH_MAX"
      "lw_realpath W p = Some path" "IsMessageLengthValid (Readfile W path)" by blast
    obtain r m L1 where g: "GetCompPathAndVersion W (Readfile W path) L = (r, m, L1)"
      by (cases "GetCompPathAndVersion W (Readfile W path) L") auto
    obtain m' L2 where a: "RegisterAudioComponentIfNeeded m L1 = (m', L2)" by fastforce
    note k = config_paths_keep[OF g] audio_keeps[OF a]
    show ?thesis using p g a same[of L1] fin[of L2 m'] k by (simp add: ParseConfig_def)
  next
    case False
    then have "snd (ParseConfig W L) = L" by (auto simp: ParseConfig_def Let_def split: option.split)
    then show ?thesis using assms(2) by simp
  qed
qed


section \<open>The switches of the subtypes\<close>

text \<open>
  What a configuration says, as the list of its switches in the order of the file: a truth value switches both
  roles of a subtype, an object each role it names.  The last switch of a role counts.
\<close>

type_synonym switch = "((DHType \<times> string) \<times> string) \<times> bool"

definition subtype_switches :: "'j loader_world \<Rightarrow> DHType \<Rightarrow> 'j \<Rightarrow> switch list" where
  "subtype_switches W ty e =
    (case lw_name W e of
       None \<Rightarrow> []
     | Some subtype \<Rightarrow>
        if cJSON_IsBool (lw_J W) e
        then map (\<lambda>role. (((ty, subtype), role), cJSON_IsTrue (lw_J W) e)) [''sink'', ''source'']
        else if lw_IsObject W e
        then concat (map (\<lambda>x. case lw_name W x of None \<Rightarrow> [] | Some role \<Rightarrow> [(((ty, subtype), role), cJSON_IsTrue (lw_J W) x)])
               (cj_items (lw_J W) e))
        else [])"

definition switches_in :: "'j loader_world \<Rightarrow> 'j \<Rightarrow> switch list" where
  "switches_in W config = concat (map (\<lambda>t. case lw_name W t of
       None \<Rightarrow> [] | Some n \<Rightarrow> concat (map (subtype_switches W (type_named n)) (cj_items (lw_J W) t))) (cj_items (lw_J W) config))"

definition configured_switches :: "'j loader_world \<Rightarrow> switch list" where
  "configured_switches W =
    (case lw_GetOneCfgFile W COMPONENTSLOAD_PROFILE_PATH of
       None \<Rightarrow> []
     | Some p \<Rightarrow> (case lw_realpath W p of
         None \<Rightarrow> []
       | Some path \<Rightarrow> (case cJSON_Parse (lw_J W) (Readfile W path) of
           None \<Rightarrow> []
         | Some tree \<Rightarrow> (case cJSON_GetObjectItem (lw_J W) tree COMPONENT_ENABLE_CONFIG of None \<Rightarrow> [] | Some e \<Rightarrow> switches_in W e))))"

definition configured :: "'j loader_world \<Rightarrow> DHType \<Rightarrow> string \<Rightarrow> string \<Rightarrow> bool option" where
  "configured W ty subtype role = map_of (rev (configured_switches W)) ((ty, subtype), role)"

definition apply_switch :: "switch \<Rightarrow> ComponentLoader \<Rightarrow> ComponentLoader" where
  "apply_switch x = switch_role (fst (fst (fst x))) (snd (fst (fst x))) (snd (fst x)) (snd x)"

lemma fold_concat_map: "fold f (concat (map g xs)) = fold (\<lambda>x. fold f (g x)) xs"
  by (induction xs) (simp_all add: fun_eq_iff)

lemma subtype_entry_switches: "subtype_entry W ty e L = fold apply_switch (subtype_switches W ty e) L"
proof -
  have "(\<lambda>x L. case lw_name W x of None \<Rightarrow> L | Some role \<Rightarrow> switch_role ty st role (cJSON_IsTrue (lw_J W) x) L)
    = (\<lambda>x. fold apply_switch (case lw_name W x of None \<Rightarrow> [] | Some role \<Rightarrow> [(((ty, st), role), cJSON_IsTrue (lw_J W) x)]))" for st
    by (auto simp: fun_eq_iff apply_switch_def split: option.split)
  then show ?thesis
    by (auto simp: subtype_entry_def subtype_switches_def ParseSubtypeEnableConfig_def fold_concat_map apply_switch_def Let_def
        split: option.split)
qed

lemma config_switches: "ParseComponentEnableConfig W e L = fold apply_switch (switches_in W e) L"
proof -
  have "(\<lambda>t L. case lw_name W t of None \<Rightarrow> L | Some n \<Rightarrow> fold (subtype_entry W (type_named n)) (cj_items (lw_J W) t) L)
    = (\<lambda>t. fold apply_switch (case lw_name W t of None \<Rightarrow> [] | Some n \<Rightarrow> concat (map (subtype_switches W (type_named n)) (cj_items (lw_J W) t))))"
    by (auto simp: fun_eq_iff fold_concat_map subtype_entry_switches[abs_def] split: option.split)
  then show ?thesis by (simp add: ParseComponentEnableConfig_def switches_in_def fold_concat_map)
qed

definition role_switch :: "ComponentLoader \<Rightarrow> DHType \<times> string \<Rightarrow> string \<Rightarrow> bool option" where
  "role_switch L k role = (case om_get (cl_componentEnableMap L) k of None \<Rightarrow> None | Some rs \<Rightarrow> om_get rs role)"

definition roles_ok :: "ComponentLoader \<Rightarrow> bool" where
  "roles_ok L = (\<forall>k rs. om_get (cl_componentEnableMap L) k = Some rs \<longrightarrow> om_ok rs \<and> rs \<noteq> [])"

lemma role_switched: "role_switch (apply_switch x L) k role = (if fst x = (k, role) then Some (snd x) else role_switch L k role)"
  by (cases x) (auto simp: role_switch_def apply_switch_def switch_role_def Let_def split: option.split)

lemma roles_ok_switched:
  assumes "roles_ok L"
  shows "roles_ok (apply_switch x L)"
proof -
  have n: "om_put r b m \<noteq> []" for r :: string and b :: bool and m
    by (cases "(r, b, m)" rule: om_put.cases) auto
  obtain ty st r b where x: "x = (((ty, st), r), b)" by (cases x) auto
  show ?thesis
  proof (cases "om_get (cl_componentEnableMap L) (ty, st)")
    case None
    then show ?thesis using assms by (simp add: roles_ok_def apply_switch_def switch_role_def x om_ok_def)
  next
    case (Some rs)
    then have "om_ok rs" using assms unfolding roles_ok_def by blast
    then show ?thesis using Some assms n by (simp add: roles_ok_def apply_switch_def switch_role_def x om_ok_put)
  qed
qed

lemma all_switched:
  "role_switch (fold apply_switch xs L) k role = (case map_of (rev xs) (k, role) of Some b \<Rightarrow> Some b | None \<Rightarrow> role_switch L k role)"
  by (induction xs arbitrary: L) (auto simp: role_switched map_add_def split: option.split)

lemma roles_ok_all: "roles_ok L \<Longrightarrow> roles_ok (fold apply_switch xs L)"
  by (induction xs arbitrary: L) (auto simp: roles_ok_switched)

lemma role_switch_none:
  assumes "roles_ok L"
  shows "om_get (cl_componentEnableMap L) k = None \<longleftrightarrow> (\<forall>role. role_switch L k role = None)"
proof (cases "om_get (cl_componentEnableMap L) k")
  case (Some rs)
  then have "rs \<noteq> []" using assms by (cases k) (auto simp: roles_ok_def)
  then have "om_get rs (fst (hd rs)) \<noteq> None" by (cases rs) auto
  then show ?thesis using Some by (auto simp: role_switch_def)
qed (simp add: role_switch_def)

lemma any_role: "roles_ok L \<Longrightarrow> IsSubtypeAnyRoleEnabled L st \<longleftrightarrow> (\<exists>role. role_switch L (DHType_AUDIO, st) role = Some True)"
proof -
  assume ok: "roles_ok L"
  show ?thesis
  proof (cases "om_get (cl_componentEnableMap L) (DHType_AUDIO, st)")
    case (Some rs)
    then have "om_ok rs" using ok by (auto simp: roles_ok_def)
    then have "list_ex snd rs \<longleftrightarrow> (\<exists>role. om_get rs role = Some True)"
      by (force simp: list_ex_iff om_get_in[symmetric])
    then show ?thesis using Some by (simp add: IsSubtypeAnyRoleEnabled_def role_switch_def)
  qed (simp add: IsSubtypeAnyRoleEnabled_def role_switch_def)
qed

text \<open>What a successful start leaves: the switches of the file, and a handler for each component that was registered.\<close>

lemma components_switches:
  "fold (component_entry W) xs (m, L) = (m', L') \<Longrightarrow> cl_componentEnableMap L' = cl_componentEnableMap L"
  by (induction xs arbitrary: m L) (force simp: component_entry_def Let_def)+

definition keyed :: "(DHType, CompConfig) omap \<Rightarrow> bool" where
  "keyed m = (om_ok m \<and> (\<forall>k c. om_get m k = Some c \<longrightarrow> k = cf_type c))"

lemma keyed_put: "keyed m \<Longrightarrow> keyed (om_put (cf_type c) c m)" "keyed m \<Longrightarrow> keyed (om_emplace (cf_type c) c m)"
  "keyed m \<Longrightarrow> keyed (om_del k m)"
  by (auto simp: keyed_def om_ok_put om_ok_emplace om_ok_del)

lemma components_keyed: "keyed m \<Longrightarrow> keyed (fst (fold (component_entry W) xs (m, L)))"
proof (induction xs arbitrary: m L)
  case (Cons x xs)
  have "keyed (fst (component_entry W x (m, L)))"
    using Cons.prems by (simp add: component_entry_def Let_def keyed_put)
  with Cons.IH show ?case by (cases "component_entry W x (m, L)") simp
qed simp

lemma switch_keeps: "cl_componentEnableMap (GetAllHandler W m L) = cl_componentEnableMap L"
  "cl_isLocalVersionInit (GetAllHandler W m L) = cl_isLocalVersionInit L"
  unfolding GetAllHandler_def by (rule fold_keeps; auto)+

lemma handlers_for:
  assumes "\<forall>(k, c) \<in> set m. k = cf_type c"
  shows "IsDHTypeExist ty (GetAllHandler W m L) \<longleftrightarrow> ty \<in> fst ` set m \<or> IsDHTypeExist ty L"
  using assms unfolding GetAllHandler_def
proof (induction m arbitrary: L)
  case (Cons e m)
  obtain k c where e: "e = (k, c)" by (cases e)
  show ?case using Cons.prems Cons.IH by (auto simp: e IsDHTypeExist_def)
qed simp

lemma started:
  assumes "ParseConfig W ComponentLoader_new = (DH_FWK_SUCCESS, L)"
  shows "cl_isLocalVersionInit L" "role_switch L (ty, st) role = configured W ty st role" "roles_ok L"
    "IsDHTypeSupport DHType_AUDIO L \<longleftrightarrow>
      (\<exists>st \<in> {''mic'', ''speaker''}. om_get (cl_componentEnableMap L) (DHType_AUDIO, st) = None \<or> IsSubtypeAnyRoleEnabled L st)"
proof -
  obtain p path where p: "lw_GetOneCfgFile W COMPONENTSLOAD_PROFILE_PATH = Some p" "lw_realpath W p = Some path"
    and g0: "(case GetCompPathAndVersion W (Readfile W path) ComponentLoader_new of
        (ret, m, L1) \<Rightarrow> if ret \<noteq> DH_FWK_SUCCESS then (ret, L1)
          else case RegisterAudioComponentIfNeeded m L1 of (m1, L2) \<Rightarrow> (DH_FWK_SUCCESS, GetAllHandler W m1 L2)) = (DH_FWK_SUCCESS, L)"
    using assms by (auto simp: ParseConfig_def Let_def split: option.splits if_splits)
  obtain r m L1 where g: "GetCompPathAndVersion W (Readfile W path) ComponentLoader_new = (r, m, L1)"
    by (cases "GetCompPathAndVersion W (Readfile W path) ComponentLoader_new") auto
  obtain m' L2 where a: "RegisterAudioComponentIfNeeded m L1 = (m', L2)" by fastforce
  have r: "r = DH_FWK_SUCCESS" "L = GetAllHandler W m' L2" using g0 by (auto simp: g a split: if_splits)
  obtain tree items L0 where t: "cJSON_Parse (lw_J W) (Readfile W path) = Some tree"
    and f: "fold (component_entry W) items ([], ComponentLoader_new) = (m, L0)"
    and l1: "L1 = (case cJSON_GetObjectItem (lw_J W) tree COMPONENT_ENABLE_CONFIG of
        None \<Rightarrow> L0 | Some e \<Rightarrow> ParseComponentEnableConfig W e L0)\<lparr>cl_isLocalVersionInit := True\<rparr>"
    using g r by (auto simp: GetCompPathAndVersion_def Let_def split: if_splits option.splits prod.splits)
  define S where "S = configured_switches W"
  define L1' where "L1' = fold apply_switch S L0"
  have s: "L1 = L1'\<lparr>cl_isLocalVersionInit := True\<rparr>"
    by (auto simp: l1 L1'_def S_def configured_switches_def p t config_switches split: option.split)
  have l2: "cl_componentEnableMap L2 = cl_componentEnableMap L1'" "cl_isLocalVersionInit L2"
    using a by (auto simp: RegisterAudioComponentIfNeeded_def Let_def s split: if_splits)
  show "cl_isLocalVersionInit L" by (simp add: r switch_keeps l2)
  have z: "cl_componentEnableMap L0 = []" using components_switches[OF f] by (simp add: ComponentLoader_new_def)
  have same: "role_switch L = role_switch L1'" "roles_ok L = roles_ok L1'"
    "IsSubtypeAnyRoleEnabled L = IsSubtypeAnyRoleEnabled L1" "cl_componentEnableMap L = cl_componentEnableMap L1"
    by (auto simp: role_switch_def roles_ok_def IsSubtypeAnyRoleEnabled_def r switch_keeps l2 s fun_eq_iff)
  show "role_switch L (ty, st) role = configured W ty st role"
    by (simp add: same L1'_def all_switched configured_def S_def role_switch_def[of L0] z split: option.split)
  show "roles_ok L" unfolding same L1'_def by (rule roles_ok_all) (simp add: roles_ok_def z)
  have "keyed m" using components_keyed[of "[]" W items ComponentLoader_new] by (simp add: f keyed_def)
  then have "keyed m'" using a keyed_put(1)[of m g_audioCompConfig] keyed_put(3)[of m DHType_AUDIO]
    by (auto simp: RegisterAudioComponentIfNeeded_def Let_def g_audioCompConfig_def split: if_splits)
  then have "\<forall>(k, c) \<in> set m'. k = cf_type c" by (auto simp: keyed_def om_get_in)
  note h = handlers_for[OF this, of DHType_AUDIO W L2]
  have c: "cl_compHandlerMap L2 = []" using audio_keeps[OF a] config_paths_keep[OF g] by (simp add: ComponentLoader_new_def)
  have "DHType_AUDIO \<in> fst ` set m' \<longleftrightarrow> om_get m' DHType_AUDIO \<noteq> None" by (simp add: map_of_eq_None_iff)
  then show "IsDHTypeSupport DHType_AUDIO L \<longleftrightarrow>
      (\<exists>st \<in> {''mic'', ''speaker''}. om_get (cl_componentEnableMap L) (DHType_AUDIO, st) = None \<or> IsSubtypeAnyRoleEnabled L st)"
    using a h c unfolding same by (auto simp: IsDHTypeSupport_def r(2) IsDHTypeExist_def RegisterAudioComponentIfNeeded_def Let_def split: if_splits)
qed

section \<open>What the configuration means for the service\<close>

text \<open>
  C16: A subtype is switched as the configuration says.  After a successful start, a role of a subtype is enabled just
  when the last switch for it in the configuration file says so, and when the file has none: a truth value for a subtype
  switches its sink and its source, an object the roles it names, and other values nothing.
\<close>

theorem configured_roles:
  assumes "ParseConfig W ComponentLoader_new = (DH_FWK_SUCCESS, L)"
  shows "IsComponentSubtypeEnabled L ty subtype role = (case configured W ty subtype role of None \<Rightarrow> True | Some b \<Rightarrow> b)"
  unfolding started(2)[OF assms, symmetric] IsComponentSubtypeEnabled_def role_switch_def
  by (simp add: started(1)[OF assms] split: option.split)


section \<open>A device for the witnesses\<close>

text \<open>Trees with the names of their members, and a device whose configuration leaves out both sinks of audio.\<close>

datatype jtree = TO "string option" "jtree list" | TA "string option" "jtree list" | TS "string option" string | TB "string option" bool

primrec tree_name :: "jtree \<Rightarrow> string option" where
  "tree_name (TO n _) = n" | "tree_name (TA n _) = n" | "tree_name (TS n _) = n" | "tree_name (TB n _) = n"

primrec tree_items :: "jtree \<Rightarrow> jtree list" where
  "tree_items (TO _ xs) = xs" | "tree_items (TA _ xs) = xs" | "tree_items (TS _ _) = []" | "tree_items (TB _ _) = []"

definition loader_tree :: jtree where
  "loader_tree = TO None
     [TA (Some ''distributed_components'')
        [TO None [TS (Some ''name'') ''distributed_camera'', TS (Some ''type'') ''CAMERA'', TS (Some ''comp_sink_loc'') ''libcamera.so'']],
      TO (Some ''component_enable_config'')
        [TO (Some ''AUDIO'') [TO (Some ''mic'') [TB (Some ''sink'') False], TO (Some ''speaker'') [TB (Some ''sink'') False]]]]"

definition tree_J :: "jtree cJSON" where
  "tree_J = \<lparr>cJSON_Parse = (\<lambda>_. Some loader_tree), cJSON_PrintUnformatted = (\<lambda>_. None),
     cJSON_GetObjectItem = (\<lambda>x k. find (\<lambda>y. tree_name y = Some k) (tree_items x)),
     cJSON_GetObjectItemCaseSensitive = (\<lambda>x k. find (\<lambda>y. tree_name y = Some k) (tree_items x)),
     cJSON_IsString = (\<lambda>x. case x of TS _ _ \<Rightarrow> True | _ \<Rightarrow> False), cJSON_IsNumber = (\<lambda>_. False),
     cJSON_IsArray = (\<lambda>x. case x of TA _ _ \<Rightarrow> True | _ \<Rightarrow> False), cJSON_IsBool = (\<lambda>x. case x of TB _ _ \<Rightarrow> True | _ \<Rightarrow> False),
     cJSON_IsTrue = (\<lambda>x. case x of TB _ b \<Rightarrow> b | _ \<Rightarrow> False), cj_valuestring = (\<lambda>x. case x of TS _ s \<Rightarrow> s | _ \<Rightarrow> []),
     cj_valueint = (\<lambda>_. 0), cj_valuedouble = (\<lambda>_. 0), cj_items = tree_items, cJSON_CreateObject = None, cJSON_CreateArray = None,
     cJSON_CreateString = TS None, cJSON_AddStringToObject = (\<lambda>x _ _. x), cJSON_AddNumberToObject = (\<lambda>x _ _. x),
     cJSON_AddBoolToObject = (\<lambda>x _ _. x), cJSON_AddItemToObject = (\<lambda>x _ _. x), cJSON_AddItemToArray = (\<lambda>x _. x)\<rparr>"

definition demo_device :: "jtree loader_world" where
  "demo_device = \<lparr>lw_J = tree_J, lw_name = tree_name, lw_IsObject = (\<lambda>x. case x of TO _ _ \<Rightarrow> True | _ \<Rightarrow> False),
     lw_GetOneCfgFile = Some, lw_realpath = Some, lw_file = (\<lambda>_. Some ''x''), lw_GetParameter = (\<lambda>_. (0, [])),
     lw_dlopen = (\<lambda>_ _. Some 3), lw_dlsym = (\<lambda>_ _ _. Some (Some 8)), lw_dlclose = (\<lambda>_ _. 0),
     lw_junk_handles = (None, None, None), lw_junk_config = (0, 0, 0, False)\<rparr>"

definition demo_loaded :: ComponentLoader where
  "demo_loaded = snd (ParseConfig demo_device ComponentLoader_new)"

lemma demo_started: "ParseConfig demo_device ComponentLoader_new = (DH_FWK_SUCCESS, demo_loaded)"
proof -
  have "fst (ParseConfig demo_device ComponentLoader_new) = DH_FWK_SUCCESS" by code_simp
  then show ?thesis unfolding demo_loaded_def by (metis prod.collapse)
qed

lemma demo_switches: "configured_switches demo_device =
    [(((DHType_AUDIO, ''mic''), ''sink''), False), (((DHType_AUDIO, ''speaker''), ''sink''), False)]"
  by code_simp

lemma demo_reached: "loader_reach demo_device (snd (snd (Loader_GetSinkPtr demo_device DHType_CAMERA demo_loaded)))"
  unfolding demo_loaded_def
  by (rule loader_reach.step[OF loader_reach.step[OF loader_reach.new loader_step.init] loader_step.sink_ptr])
    (simp add: ComponentLoader_new_def)


theorem configured_roles_witness:
  "\<not> IsComponentSubtypeEnabled demo_loaded DHType_AUDIO ''mic'' ''sink'' \<and> IsComponentSubtypeEnabled demo_loaded DHType_AUDIO ''mic'' ''source''"
  by (simp add: configured_roles[OF demo_started] configured_def demo_switches)


end
