(* ===== verification/Spec2Isabelle.thy ===== *)
theory Spec2Isabelle
  imports Component_Properties Context_Properties Task_Properties Service_Properties Store_Properties Json_Properties Enable_Properties Recovery_Properties Retry_Properties Table_Properties Low_Latency Hardware_Properties Transport_Properties Privacy_Properties
    Av_Properties Softbus_Properties Centre_Properties Output_Properties
    Ipc_Properties Listener_Properties Hdf_Properties Server_Properties Kit_Properties Loader_Properties
begin

text \<open>
  A model of the distributed hardware framework (\<open>src/services/distributedhardwarefwkservice\<close> and the
  parts of \<open>src/common\<close> and \<open>src/utils\<close> it uses, its client library \<open>src/interfaces/inner_kits\<close>, and the control
  side of \<open>src/av_transport\<close>), the service that lets a device use the cameras,
  microphones, screens, input devices and modems of the devices around it.

  \<^bold>\<open>The program.\<close>  The access manager hears from the device manager that a device came or went and passes it
  to the manager factory, which keeps the device context and pushes an online or an offline task.  The
  executor runs tasks one after the other; an online task loads what the database knows of the device and
  creates an enable task for each piece of its hardware, an offline task creates disable tasks, waits for
  them and clears what was known.  Enable and disable tasks call the component manager, which loads the
  component of a hardware type, counts who uses it, and calls its source and sink handlers.  The resource
  managers keep the capabilities of all devices in a synchronised database with a cache, and their change
  notifications create tasks again.  Capabilities that the database does not carry are asked of the other
  device over the soft bus.  Around this are the local hardware with its plug events, the publisher of
  messages between components, the low latency switch, the drivers that clients load and the privacy pages.
  A client calls its kit, whose methods write a parcel through the proxy of the service; the stub reads it and
  calls the service, whose answers and events come back by the proxies of the client's listeners.  The audio
  and video transport has a control centre in the service, which opens channels to the centres of other
  devices through the adapter of the soft bus, a shared memory by which an audio engine tells a screen how
  far it has come, and the output controller, which delays the frames of the screen to the sound.

  \<^bold>\<open>State.\<close>  The record \<open>fwk\<close> of the theory \<open>State\<close> is the state of the whole service: the fields of the
  singletons of the code, each with the name of the member, and \<open>fw_trace\<close>, the calls to the outside in the
  order they were made, the last first.  An operation of the code is a function of the same name over this
  state; a prefix such as \<open>Cap_\<close>, \<open>Local_\<close>, \<open>Meta_\<close> or \<open>DB_\<close> names the class where two classes have the same
  operation.  Error codes are the integers of the code.  The components around the core have records of
  their own: \<open>Publisher\<close>, \<open>LowLatency\<close> with \<open>DHTimer\<close>, \<open>LocalHardwareManager\<close>, \<open>ComponentPrivacy\<close>,
  \<open>DHTransport\<close> and \<open>comm\<close>, the communication tool together with the service; \<open>HdfOperateManager\<close>, \<open>sa_client\<close> for
  a client, \<open>dh_server\<close>, which is \<open>fwk\<close> with what the system ability keeps beside it, and those of the transport.

  \<^bold>\<open>The outside.\<close>  What is not in the repository is the argument \<open>C\<close>, a record of the type \<open>config\<close>: the platform
  (\<open>c_P\<close>: digest, device manager lookups), the JSON library (\<open>c_J\<close>), the key-value store (\<open>c_K\<close>), and the
  environment (\<open>c_E\<close>), whose answers to a call may depend on every call before it.  The transport adds the
  account service and the compression library, the requests of clients an abstract parcel (\<open>parcel_api\<close>) and
  the audio and video transport the soft bus, the clock and the threads it starts.  What a property needs of them is an assumption of it that
  can be read there, and its witness gives an instance: \<open>demo\<close> of the theory \<open>Demo\<close>, and the JSON library
  \<open>flat_J\<close> of the theory \<open>Json_Laws\<close>.

  \<^bold>\<open>Theories.\<close>
  \<^item> \<open>Prelude\<close>: ordered maps and sets as sorted lists, with the locale \<open>lookup_table\<close> that every cache
    interprets; \<open>Errno\<close>: the error codes; \<open>Utils\<close>: \<open>dh_utils_tool.cpp\<close>, \<open>anonymous_string.cpp\<close>.
  \<^item> \<open>Dh_Context\<close>: \<open>utils/dh_context.cpp\<close>; \<open>Capability\<close>: the data of \<open>resourcemanager\<close> and its JSON form;
    \<open>State\<close>: the state and the calls to the outside.
  \<^item> \<open>Db_Adapter\<close>, \<open>Capability_Manager\<close>, \<open>Local_Capability_Manager\<close>, \<open>Meta_Info_Manager\<close>, \<open>Versions\<close>: the files
    of \<open>resourcemanager\<close> and \<open>versionmanager\<close>.
  \<^item> \<open>TaskModel\<close>, \<open>Tasks\<close>: the files of \<open>task\<close>; \<open>Created_Tasks\<close>: what the creation of tasks leaves alone.
  \<^item> \<open>Component_Enable\<close>, \<open>Enable_Param\<close>, \<open>Ref_Status\<close>, \<open>Component_Manager\<close>, \<open>Component_Recovery\<close>,
    \<open>Component_Requests\<close>: \<open>componentmanager\<close>, in the order of its parts; \<open>Component_Privacy\<close>: its privacy pages.
  \<^item> \<open>Hardware_Manager\<close>: the manager, its factory and the access manager; \<open>System\<close>: the service as a step
    relation whose steps are the calls of clients, device events, change notifications, the executor and
    the tasks, and its reachable states; \<open>Frames\<close>, \<open>Component_Refs\<close>: what operations leave alone.
  \<^item> \<open>Publisher\<close>: \<open>publisher\<close>; \<open>Low_Latency\<close>: \<open>lowlatency\<close> and \<open>utils/dh_timer.cpp\<close>; \<open>Local_Hardware\<close>:
    \<open>localhardwaremanager\<close>; \<open>Transport_Obj\<close>, \<open>Transport\<close>, \<open>Comm_Tool\<close>: the files of \<open>transport\<close>.
  \<^item> \<open>Hdf_Operate\<close>: \<open>hdfoperate\<close>; \<open>Parcels\<close>, \<open>Service_Stub\<close>, \<open>Service_Proxy\<close>, \<open>Listener_Ipc\<close>: the stubs and proxies of
    the service and of the listeners; \<open>Dh_Service\<close>: \<open>distributed_hardware_service.cpp\<close>, whose methods are the
    ones the stub calls; \<open>Client_Kit\<close>: the client library.
  \<^item> \<open>Component_Loader\<close>: \<open>componentloader\<close>, with the file system and the dynamic linker as parameters.
  \<^item> \<open>Shared_Memory\<close>, \<open>Shm_Laws\<close>: \<open>av_transport/common/src/av_sync_utils.cpp\<close>; \<open>Softbus_Adapter\<close>: its channel adapter;
    \<open>Av_Control\<close>: the control centre, the synchronisation manager and the messages; \<open>Output_Controller\<close>,
    \<open>Screen_Output\<close>: the output plugin of the screen.
  \<^item> The theories with \<open>Properties\<close> in their names hold the properties and their witnesses.

  \<^bold>\<open>What is shown.\<close>
  \<^item> Reference counts: in every reachable state the load count of a component is the number of clients
    that are enabled on it; enabling and disabling call the component exactly when the first client comes
    and the last one goes, on every branch; force-disable drops the clients; recovery after the death of a
    component restores what was enabled.
  \<^item> Tasks: they run in the order they were pushed, an offline task ends once its children have ended and
    then the context has forgotten the device, and the bounds of the queue and of the context hold.
  \<^item> Device events and change notifications: what each creates, when it is refused, and what is lost.
  \<^item> Data: capabilities survive their JSON form, what is put into the database is read back, caches
    return what was added and forget what was removed.
  \<^item> Between devices: a message that was sent is the message that is received; a response changes only what
    belongs to its sender and only when it was asked for; which requests pass the access check; sessions.
  \<^item> Around the core: the subscribers of a topic and no one else hear its messages; the low latency timer
    runs while some type is switched on, and the one way in which it can get stuck; plugged hardware is
    found until it is unplugged; the privacy page and its flag.
  \<^item> Clients: a call through kit, proxy, parcel and stub is a call of the service; who has not the permission
    reaches nothing; a request to enable becomes the tasks it asks for; requests that wait are answered;
    listeners hear what was sent, and survive the death of the service; drivers are counted exactly.
  \<^item> Components: the libraries that are open are those the loader keeps, a subtype is switched as the configuration
    says, and which requests for audio are refused for it.
  \<^item> Audio and video: the ring of clocks, the threads and sessions of the channel adapter, the authorisation
    of a device, the messages between centres, the statistics, the waits and the order of frames.
  \<^item> Behaviour of the code that its authors may not intend is stated as properties too, among them the
    database that is not reopened after one failed attempt, the parameters that count as read after every
    attempt failed, the late close of a privacy page and the deadlock of the timer.

  \<^bold>\<open>Bounds.\<close>  Loops with a constant number of rounds are functions over the rounds that are left: twenty tries
  to open the database, three hundred to reopen it, three tries to enable, to disable, to read parameters
  and to query hardware.  The limits of the code are constants with its names: 257 tasks fit into the
  queue and 10001 devices into the context, since the code compares with greater than; 256 types fit into
  the low latency switch; 4096 descriptors fit into a request.  A request that waits for the framework times
  out at the 27th turn of its thread.  Reference counts are unbounded integers; what a parcel, a message or a
  shared memory carries keeps its width.  The compression loops and the wait for a valid clock have no bound in
  the code and are partial functions; the former are shown to end for a library that keeps its promises, the
  latter under the conditions that its property states.

  \<^bold>\<open>Not modelled.\<close>  Threads are modelled where the code hands work to them: a task or an event runs as a whole,
  between other steps, and the timer is the one component whose threads are modelled by their statements.
  Memory is assumed to be available, logs and traces are left out.  The operations of
  the service ask the environment about components; \<open>with_loader\<close> is the environment in which the component loader
  answers.  Left out are the dumps of the service, the engines, filters and codecs of the audio and video transport (they drive the pipelines of the media library, which is not in the
  repository), the device manager's registration of listeners with its retries, and the language bindings.
\<close>

end
